(* ===== verification/Prelude.thy ===== *)
theory Prelude
  imports Main "HOL-Library.AList" "HOL-Library.Char_ord" "HOL-Library.List_Lexorder"
    "HOL-Library.Sublist" "HOL-Library.Multiset"
begin

text \<open>
  The shared prelude of the development: the part of Python's text and container
  operations that the services of \<^verbatim>\<open>mori_soc\<close> use, over HOL's lists, and the generic
  lemmas about them that every component needs.

  A Python \<^verbatim>\<open>str\<close> is a HOL \<open>string\<close> that holds its UTF-8 bytes.  Equality, concatenation,
  prefix tests and (because UTF-8 keeps the order of code points) comparison are then exact
  for every text; slicing and the character classes below agree with Python on ASCII text,
  and count every byte of a non-ASCII character as a letter.  Integers are Python's
  unbounded integers.  A \<^verbatim>\<open>dict\<close> is the association list of its items in insertion order, with
  distinct keys.
\<close>

named_theorems py_defs \<open>definitions that a proof about one branch of the code unfolds\<close>
named_theorems dict_simps \<open>look-ups in updated dictionaries\<close>

section \<open>Characters and strings\<close>

definition is_space :: "char \<Rightarrow> bool" where
  "is_space c = (let n = (of_char c :: nat) in (9 \<le> n \<and> n \<le> 13) \<or> (28 \<le> n \<and> n \<le> 32))"

definition is_digit :: "char \<Rightarrow> bool" where
  "is_digit c = (c \<in> set ''0123456789'')"

definition is_upper :: "char \<Rightarrow> bool" where
  "is_upper c = (let n = (of_char c :: nat) in 65 \<le> n \<and> n \<le> 90)"

definition is_lower :: "char \<Rightarrow> bool" where
  "is_lower c = (let n = (of_char c :: nat) in 97 \<le> n \<and> n \<le> 122)"

definition is_alnum :: "char \<Rightarrow> bool" where
  "is_alnum c = (is_digit c \<or> is_upper c \<or> is_lower c \<or> 128 \<le> (of_char c :: nat))"

definition lower_char :: "char \<Rightarrow> char" where
  "lower_char c = (if is_upper c then char_of (of_char c + 32 :: nat) else c)"

definition lower :: "string \<Rightarrow> string" where
  "lower s = map lower_char s"

definition lstrip :: "string \<Rightarrow> string" where
  "lstrip s = dropWhile is_space s"

definition strip :: "string \<Rightarrow> string" where
  "strip s = rev (lstrip (rev (lstrip s)))"

fun contains :: "string \<Rightarrow> string \<Rightarrow> bool" where
  "contains p [] = (p = [])"
| "contains p (c # s) = (prefix p (c # s) \<or> contains p s)"

fun split_on :: "char \<Rightarrow> string \<Rightarrow> string list" where
  "split_on c [] = [[]]"
| "split_on c (x # s) =
     (if x = c then [] # split_on c s
      else (case split_on c s of [] \<Rightarrow> [[x]] | w # ws \<Rightarrow> (x # w) # ws))"

fun join :: "string \<Rightarrow> string list \<Rightarrow> string" where
  "join sep [] = []"
| "join sep [x] = x"
| "join sep (x # y # xs) = x @ sep @ join sep (y # xs)"

definition replace_char :: "char \<Rightarrow> char \<Rightarrow> string \<Rightarrow> string" where
  "replace_char a b s = map (\<lambda>c. if c = a then b else c) s"

text \<open>A text that is not ASCII, given by its UTF-8 bytes.\<close>

definition utf8 :: "nat list \<Rightarrow> string" where
  "utf8 bs = map char_of bs"

lemma split_on_not_Nil [simp]: "split_on c s \<noteq> []"
  by (induction s) (auto split: list.splits)

lemma hd_strip_not_space: "strip s \<noteq> [] \<Longrightarrow> \<not> is_space (last (strip s))"
  by (auto simp: strip_def lstrip_def last_rev hd_dropWhile)

lemma length_strip_le: "length (strip s) \<le> length s"
  unfolding strip_def lstrip_def
  by (metis length_dropWhile_le length_rev order_trans)

lemma contains_append: "contains p (xs @ p @ ys)"
proof (induction xs)
  case Nil
  show ?case
  proof (cases "p @ ys")
    case (Cons c s)
    then have "prefix p (c # s)" by (metis prefixI)
    with Cons show ?thesis by simp
  qed simp
next
  case (Cons x xs)
  then show ?case by simp
qed

section \<open>Decimal numerals\<close>

definition digit :: "nat \<Rightarrow> char" where
  "digit n = ''0123456789'' ! n"

fun dec :: "nat \<Rightarrow> string" where
  "dec n = (if n < 10 then [digit n] else dec (n div 10) @ [digit (n mod 10)])"

declare dec.simps [simp del]

definition int_str :: "int \<Rightarrow> string" where
  "int_str i = (if i < 0 then CHR ''-'' # dec (nat (- i)) else dec (nat i))"

definition undec :: "string \<Rightarrow> nat" where
  "undec s = foldl (\<lambda>a c. 10 * a + (of_char c - 48)) 0 s"

lemma below_10: "n < 10 \<Longrightarrow> n \<in> set [0..<10]"
  by simp

lemma digit_value: "n < 10 \<Longrightarrow> of_char (digit n) = n + 48"
  by (drule below_10) (auto simp: upt_rec digit_def)

lemma is_digit_digit: "n < 10 \<Longrightarrow> is_digit (digit n)"
  by (drule below_10) (auto simp: upt_rec digit_def is_digit_def)

lemma dec_not_Nil [simp]: "dec n \<noteq> []"
  by (subst dec.simps) simp

lemma dec_digits: "c \<in> set (dec n) \<Longrightarrow> is_digit c"
proof (induction n rule: dec.induct)
  case (1 n)
  then show ?case
    by (subst (asm) (2) dec.simps) (auto simp: is_digit_digit split: if_splits)
qed

lemma undec_dec [simp]: "undec (dec n) = n"
proof (induction n rule: dec.induct)
  case (1 n)
  show ?case
  proof (cases "n < 10")
    case True
    then show ?thesis by (subst dec.simps) (simp add: undec_def digit_value)
  next
    case False
    with "1.IH" have "undec (dec (n div 10)) = n div 10" by simp
    with False show ?thesis
      by (subst dec.simps) (simp add: undec_def digit_value)
  qed
qed

lemma dec_inj [simp]: "dec m = dec n \<longleftrightarrow> m = n"
  by (metis undec_dec)

text \<open>A numeral followed by something that is not a digit is read back uniquely.\<close>

definition no_digit :: "string \<Rightarrow> bool" where
  "no_digit s = (s = [] \<or> \<not> is_digit (hd s))"

lemma takeWhile_dec: "no_digit xs \<Longrightarrow> takeWhile is_digit (dec n @ xs) = dec n"
proof -
  assume nd: "no_digit xs"
  have "takeWhile is_digit (dec n @ xs) = dec n @ takeWhile is_digit xs"
    by (rule takeWhile_append2) (rule dec_digits)
  moreover have "takeWhile is_digit xs = []"
    using nd by (cases xs) (auto simp: no_digit_def)
  ultimately show ?thesis by simp
qed

lemma dec_append_inj:
  assumes "dec m @ xs = dec n @ ys" "no_digit xs" "no_digit ys"
  shows "m = n \<and> xs = ys"
proof -
  have "dec m = dec n" using assms takeWhile_dec by metis
  then show ?thesis using assms(1) by simp
qed

lemma not_digit_minus: "\<not> is_digit (CHR ''-'')"
  by (simp add: is_digit_def)

lemma hd_dec_digit: "is_digit (hd (dec n))"
  by (rule dec_digits [of _ n]) simp

lemma dec_not_minus: "dec n @ xs \<noteq> CHR ''-'' # ys"
  using hd_dec_digit [of n] not_digit_minus by (cases "dec n") auto

lemma int_str_append_inj:
  assumes eq: "int_str i @ xs = int_str j @ ys" and "no_digit xs" "no_digit ys"
  shows "i = j \<and> xs = ys"
proof (cases "i < 0"; cases "j < 0")
  assume "i < 0" "j < 0"
  with eq have "dec (nat (- i)) @ xs = dec (nat (- j)) @ ys" by (simp add: int_str_def)
  from dec_append_inj [OF this assms(2,3)] \<open>i < 0\<close> \<open>j < 0\<close> show ?thesis by auto
next
  assume "\<not> i < 0" "\<not> j < 0"
  with eq have "dec (nat i) @ xs = dec (nat j) @ ys" by (simp add: int_str_def)
  from dec_append_inj [OF this assms(2,3)] \<open>\<not> i < 0\<close> \<open>\<not> j < 0\<close> show ?thesis by auto
next
  assume "i < 0" "\<not> j < 0"
  with eq show ?thesis using dec_not_minus by (auto simp: int_str_def dest: sym)
next
  assume "\<not> i < 0" "j < 0"
  with eq show ?thesis using dec_not_minus by (auto simp: int_str_def)
qed

lemma int_str_inj [simp]: "int_str i = int_str j \<longleftrightarrow> i = j"
  using int_str_append_inj [of i "[]" j "[]"] by (auto simp: no_digit_def)

lemma int_str_not_Nil [simp]: "int_str i \<noteq> []"
  by (simp add: int_str_def)

section \<open>Dictionaries\<close>

type_synonym timestamp = string
type_synonym person = string
type_synonym 'v dict = "(string \<times> 'v) list"

abbreviation keys :: "'v dict \<Rightarrow> string list" where
  "keys d \<equiv> map fst d"

abbreviation dwf :: "'v dict \<Rightarrow> bool" where
  "dwf d \<equiv> distinct (keys d)"

abbreviation dset :: "'v dict \<Rightarrow> string \<Rightarrow> 'v \<Rightarrow> 'v dict" where
  "dset d k v \<equiv> AList.update k v d"

definition dhas :: "'v dict \<Rightarrow> string \<Rightarrow> bool" where
  "dhas d k = (map_of d k \<noteq> None)"

text \<open>\<^verbatim>\<open>d[k] = d.get(k, 0) + 1\<close>, the counter of the reports, and \<^verbatim>\<open>{k: v for ...}\<close>,
  which keeps the first position and the last value of a repeated key.\<close>

definition bump :: "string \<Rightarrow> int dict \<Rightarrow> int dict" where
  "bump k d = dset d k ((case map_of d k of None \<Rightarrow> 0 | Some n \<Rightarrow> n) + 1)"

definition count_by :: "('a \<Rightarrow> string) \<Rightarrow> 'a list \<Rightarrow> int dict" where
  "count_by f xs = foldl (\<lambda>d x. bump (f x) d) [] xs"

definition dict_of :: "(string \<times> 'v) list \<Rightarrow> 'v dict" where
  "dict_of kvs = foldl (\<lambda>d kv. dset d (fst kv) (snd kv)) [] kvs"

definition push :: "string \<Rightarrow> 'a \<Rightarrow> 'a list dict \<Rightarrow> 'a list dict" where
  "push k x d = dset d k ((case map_of d k of None \<Rightarrow> [] | Some xs \<Rightarrow> xs) @ [x])"

definition group_by :: "('a \<Rightarrow> string) \<Rightarrow> 'a list \<Rightarrow> 'a list dict" where
  "group_by f xs = foldl (\<lambda>d x. push (f x) x d) [] xs"

lemma map_of_dset [simp, dict_simps]: "map_of (dset d k v) k' = (if k' = k then Some v else map_of d k')"
  by (simp add: update_conv')

lemma dwf_dset [simp]: "dwf d \<Longrightarrow> dwf (dset d k v)"
  by (rule distinct_update)

lemma set_keys_dset [simp]: "set (keys (dset d k v)) = insert k (set (keys d))"
proof -
  have "set (keys (dset d k v)) = dom (map_of (dset d k v))"
    by (simp add: dom_map_of_conv_image_fst)
  also have "\<dots> = insert k (dom (map_of d))" by auto
  finally show ?thesis by (simp add: dom_map_of_conv_image_fst)
qed

lemma fst_set_dset [simp]: "fst ` set (dset d k v) = insert k (fst ` set d)"
  by (simp only: set_keys_dset flip: set_map)

lemma dhas_dset [simp, dict_simps]: "dhas (dset d k v) k' = (k' = k \<or> dhas d k')"
  by (simp add: dhas_def)

lemma foldl_dset_map_of:
  "map_of (foldl (\<lambda>d kv. dset d (fst kv) (snd kv)) d kvs) k =
     (case map_of (rev kvs) k of None \<Rightarrow> map_of d k | Some v \<Rightarrow> Some v)"
  by (induction kvs arbitrary: d) (auto simp: map_add_def split: option.splits)

lemma map_of_rev_distinct: "dwf d \<Longrightarrow> map_of (rev d) = map_of d"
  by (rule map_of_eqI) (auto simp: rev_map [symmetric] map_of_eq_None_iff map_of_eq_Some_iff)

lemma in_dset: "(k', v') \<in> set (dset d k v) \<Longrightarrow> (k' = k \<and> v' = v) \<or> (k', v') \<in> set d"
  by (induction d) (auto split: if_splits)

lemma map_of_dict_of: "map_of (dict_of kvs) k = map_of (rev kvs) k"
  by (simp add: dict_of_def foldl_dset_map_of split: option.splits)

lemma foldl_dset_dwf: "dwf d \<Longrightarrow> dwf (foldl (\<lambda>d kv. dset d (fst kv) (snd kv)) d kvs)"
  by (induction kvs arbitrary: d) auto

lemma dwf_dict_of [simp]: "dwf (dict_of kvs)"
  by (simp add: dict_of_def foldl_dset_dwf)

lemma set_keys_dict_of: "set (keys (dict_of kvs)) = fst ` set kvs"
proof -
  have "set (keys (dict_of kvs)) = dom (map_of (dict_of kvs))"
    by (simp add: dom_map_of_conv_image_fst)
  also have "\<dots> = dom (map_of (rev kvs))" by (simp add: map_of_dict_of dom_def)
  finally show ?thesis by (simp add: dom_map_of_conv_image_fst)
qed

lemma dset_same: "map_of d k = Some v \<Longrightarrow> dset d k v = d"
  by (induction d) auto

lemma dset_dset [simp]: "dset (dset d k v) k v = dset d k v"
  by (induction d) auto

text \<open>A dictionary built from items with distinct keys is those items.\<close>

lemma dset_new: "k \<notin> set (keys d) \<Longrightarrow> dset d k v = d @ [(k, v)]"
  by (induction d) auto

lemma foldl_dset_distinct:
  "dwf (d @ kvs) \<Longrightarrow> foldl (\<lambda>d kv. dset d (fst kv) (snd kv)) d kvs = d @ kvs"
proof (induction kvs arbitrary: d)
  case (Cons kv kvs)
  then have "fst kv \<notin> set (keys d)" by auto
  then have "dset d (fst kv) (snd kv) = d @ [kv]" by (simp add: dset_new)
  with Cons show ?case by simp
qed simp

lemma dict_of_distinct: "dwf kvs \<Longrightarrow> dict_of kvs = kvs"
  by (simp add: dict_of_def foldl_dset_distinct)

text \<open>Counting: every key counts the items that have it.\<close>

lemma map_of_bump: "map_of (bump k d) k' =
    (if k' = k then Some ((case map_of d k of None \<Rightarrow> 0 | Some n \<Rightarrow> n) + 1) else map_of d k')"
  by (simp add: bump_def)

lemma foldl_bump:
  "map_of (foldl (\<lambda>d x. bump (f x) d) d xs) k =
     (if filter (\<lambda>x. f x = k) xs = [] then map_of d k
      else Some ((case map_of d k of None \<Rightarrow> 0 | Some n \<Rightarrow> n) + int (length (filter (\<lambda>x. f x = k) xs))))"
  by (induction xs arbitrary: d) (auto simp: map_of_bump filter_empty_conv split: option.splits)

lemma map_of_count_by:
  "map_of (count_by f xs) k =
     (if k \<in> f ` set xs then Some (int (length (filter (\<lambda>x. f x = k) xs))) else None)"
  by (auto simp: count_by_def foldl_bump filter_empty_conv)

lemma dwf_count_by: "dwf (count_by f xs)"
proof -
  have "dwf d \<Longrightarrow> dwf (foldl (\<lambda>d x. bump (f x) d) d xs)" for d :: "int dict"
    by (induction xs arbitrary: d) (auto simp: bump_def)
  then show ?thesis by (simp add: count_by_def)
qed

lemma foldl_push:
  "map_of (foldl (\<lambda>d x. push (f x) x d) d xs) k =
     (if filter (\<lambda>x. f x = k) xs = [] then map_of d k
      else Some ((case map_of d k of None \<Rightarrow> [] | Some ys \<Rightarrow> ys) @ filter (\<lambda>x. f x = k) xs))"
  by (induction xs arbitrary: d) (auto simp: push_def filter_empty_conv split: option.splits)

lemma map_of_group_by:
  "map_of (group_by f xs) k =
     (if k \<in> f ` set xs then Some (filter (\<lambda>x. f x = k) xs) else None)"
  by (auto simp: group_by_def foldl_push filter_empty_conv)

section \<open>Sorting\<close>

text \<open>Python's \<^verbatim>\<open>sorted\<close> is the stable \<open>sort_key\<close>; with \<^verbatim>\<open>reverse=True\<close> it keeps the
  order of equal items too.\<close>

definition sort_desc :: "('a \<Rightarrow> 'b::linorder) \<Rightarrow> 'a list \<Rightarrow> 'a list" where
  "sort_desc f xs = rev (sort_key f (rev xs))"

lemma set_sort_desc [simp]: "set (sort_desc f xs) = set xs"
  by (simp add: sort_desc_def)

lemma length_sort_desc [simp]: "length (sort_desc f xs) = length xs"
  by (simp add: sort_desc_def)

lemma mset_sort_desc [simp]: "mset (sort_desc f xs) = mset xs"
  by (simp add: sort_desc_def)

lemma sorted_sort_desc: "sorted (rev (map f (sort_desc f xs)))"
  by (simp add: sort_desc_def rev_map)

lemma insort_key_map: "insort_key f (g x) (map g xs) = map g (insort_key (\<lambda>y. f (g y)) x xs)"
  by (induction xs) auto

lemma sort_key_map: "sort_key f (map g xs) = map g (sort_key (\<lambda>y. f (g y)) xs)"
  by (induction xs) (auto simp: insort_key_map)

lemma sort_key_idem [simp]: "sort_key f (sort_key f xs) = sort_key f xs"
  by (simp add: sort_key_id_if_sorted)

end
