(* ===== verification/Py_Value.thy ===== *)
theory Py_Value
  imports Prelude
begin

text \<open>
  The dynamic values that the services pass around: the records of
  \<^verbatim>\<open>mori_soc\<close> outside its dataclasses are \<^verbatim>\<open>dict[str, Any]\<close>, so a record is an association
  list of \<open>pv\<close> values and a function reads it with \<^verbatim>\<open>.get\<close>, with truthiness (\<^verbatim>\<open>a or b\<close>) and with
  \<^verbatim>\<open>str()\<close>, all three written out here.  Floats are the one kind of JSON value left out.
\<close>

datatype pv =
    PNone
  | PBool bool
  | PInt int
  | PStr string
  | PList "pv list"
  | PDict "(string \<times> pv) list"

type_synonym pdict = "pv dict"

section \<open>Reading a record\<close>

text \<open>\<^verbatim>\<open>d.get(k)\<close> and \<^verbatim>\<open>d.get(k, default)\<close>.\<close>

definition dget :: "pdict \<Rightarrow> string \<Rightarrow> pv" where
  "dget d k = (case map_of d k of None \<Rightarrow> PNone | Some v \<Rightarrow> v)"

definition dgetd :: "pdict \<Rightarrow> string \<Rightarrow> pv \<Rightarrow> pv" where
  "dgetd d k v0 = (case map_of d k of None \<Rightarrow> v0 | Some v \<Rightarrow> v)"

text \<open>\<^verbatim>\<open>d.setdefault(k, v)\<close> as a statement.\<close>

definition dsetdefault :: "pdict \<Rightarrow> string \<Rightarrow> pv \<Rightarrow> pdict" where
  "dsetdefault d k v = (if dhas d k then d else dset d k v)"

text \<open>\<^verbatim>\<open>d.update(e)\<close> and \<^verbatim>\<open>{**d, **e}\<close>.\<close>

definition dmerge :: "'v dict \<Rightarrow> 'v dict \<Rightarrow> 'v dict" where
  "dmerge d e = foldl (\<lambda>d kv. dset d (fst kv) (snd kv)) d e"

text \<open>\<^verbatim>\<open>d.setdefault(k, []).append(v)\<close>.\<close>

fun as_list :: "pv \<Rightarrow> pv list" where
  "as_list (PList xs) = xs"
| "as_list _ = []"

definition dappend :: "pdict \<Rightarrow> string \<Rightarrow> pv \<Rightarrow> pdict" where
  "dappend d k v = dset d k (PList (as_list (dget d k) @ [v]))"

fun truthy :: "pv \<Rightarrow> bool" where
  "truthy PNone = False"
| "truthy (PBool b) = b"
| "truthy (PInt i) = (i \<noteq> 0)"
| "truthy (PStr s) = (s \<noteq> [])"
| "truthy (PList xs) = (xs \<noteq> [])"
| "truthy (PDict d) = (d \<noteq> [])"

text \<open>\<^verbatim>\<open>a or b\<close>.\<close>

definition por :: "pv \<Rightarrow> pv \<Rightarrow> pv" where
  "por a b = (if truthy a then a else b)"

fun as_dict :: "pv \<Rightarrow> pdict" where
  "as_dict (PDict d) = d"
| "as_dict _ = []"

fun is_dict :: "pv \<Rightarrow> bool" where
  "is_dict (PDict d) = True"
| "is_dict _ = False"

definition of_strs :: "string list \<Rightarrow> pv" where
  "of_strs ss = PList (map PStr ss)"

definition of_ostr :: "string option \<Rightarrow> pv" where
  "of_ostr so = (case so of None \<Rightarrow> PNone | Some s \<Rightarrow> PStr s)"

definition of_counts :: "int dict \<Rightarrow> pv" where
  "of_counts d = PDict (map (map_prod id PInt) d)"

text \<open>\<^verbatim>\<open>s or default\<close> on a text.\<close>

definition sor :: "string \<Rightarrow> string \<Rightarrow> string" where
  "sor a b = (if a = [] then b else a)"

section \<open>str() and repr()\<close>

definition hex_digit :: "nat \<Rightarrow> char" where
  "hex_digit n = ''0123456789abcdef'' ! n"

definition repr_char :: "char \<Rightarrow> char \<Rightarrow> string" where
  "repr_char q c =
     (if c = q \<or> c = CHR 0x5C then [CHR 0x5C, c]
      else if c = CHR 0x0A then CHR 0x5C # ''n''
      else if c = CHR 0x0D then CHR 0x5C # ''r''
      else if c = CHR 0x09 then CHR 0x5C # ''t''
      else if (of_char c :: nat) < 32 \<or> (of_char c :: nat) = 127
        then [CHR 0x5C, CHR ''x'', hex_digit (of_char c div 16), hex_digit (of_char c mod 16)]
      else [c])"

definition str_repr :: "string \<Rightarrow> string" where
  "str_repr s =
     (let q = (if CHR 0x27 \<in> set s \<and> CHR 0x22 \<notin> set s then CHR 0x22 else CHR 0x27)
      in [q] @ concat (map (repr_char q) s) @ [q])"

primrec prepr :: "pv \<Rightarrow> string" where
  "prepr PNone = ''None''"
| "prepr (PBool b) = (if b then ''True'' else ''False'')"
| "prepr (PInt i) = int_str i"
| "prepr (PStr s) = str_repr s"
| "prepr (PList xs) = ''['' @ join '', '' (map prepr xs) @ '']''"
| "prepr (PDict kvs) = ''{'' @
     join '', '' (map (\<lambda>p. str_repr (fst p) @ '': '' @ snd p) (map (map_prod id prepr) kvs)) @ ''}''"

definition pstr :: "pv \<Rightarrow> string" where
  "pstr v = (case v of PStr s \<Rightarrow> s | _ \<Rightarrow> prepr v)"

text \<open>The idiom \<^verbatim>\<open>str(d.get(k) or "")\<close>.\<close>

definition gstr :: "pdict \<Rightarrow> string \<Rightarrow> string" where
  "gstr d k = pstr (por (dget d k) (PStr []))"

section \<open>int()\<close>

text \<open>\<^verbatim>\<open>int(x)\<close>: \<open>None\<close> where Python raises.\<close>

definition int_of_text :: "string \<Rightarrow> int option" where
  "int_of_text s =
     (let t = strip s;
          neg = (t \<noteq> [] \<and> hd t = CHR ''-'');
          body = (if t \<noteq> [] \<and> (hd t = CHR ''-'' \<or> hd t = CHR ''+'') then tl t else t)
      in if list_all (\<lambda>w. w \<noteq> [] \<and> list_all is_digit w) (split_on (CHR ''_'') body)
         then Some ((if neg then - 1 else 1) * int (undec (filter is_digit body))) else None)"

fun int_of_pv :: "pv \<Rightarrow> int" where
  "int_of_pv (PInt i) = i"
| "int_of_pv _ = 0"

fun py_int :: "pv \<Rightarrow> int option" where
  "py_int (PInt i) = Some i"
| "py_int (PBool b) = Some (if b then 1 else 0)"
| "py_int (PStr s) = int_of_text s"
| "py_int _ = None"

section \<open>Lemmas\<close>

lemma dget_Nil [simp]: "dget [] k = PNone"
  by (simp add: dget_def)

lemma dget_Cons [simp]: "dget ((k', v) # d) k = (if k' = k then v else dget d k)"
  by (simp add: dget_def)

lemma dget_dset [simp, dict_simps]: "dget (dset d k v) k' = (if k' = k then v else dget d k')"
  by (simp add: dget_def)

lemma dget_append: "dget (d @ e) k = (if dhas d k then dget d k else dget e k)"
  by (auto simp: dget_def dhas_def map_add_def split: option.splits)

lemma dgetd_dget: "dhas d k \<Longrightarrow> dgetd d k v = dget d k"
  by (auto simp: dgetd_def dget_def dhas_def)

lemma dget_dsetdefault [simp, dict_simps]:
  "dget (dsetdefault d k v) k' = (if k' = k \<and> \<not> dhas d k then v else dget d k')"
  by (simp add: dsetdefault_def)

lemma dwf_dsetdefault [simp]: "dwf d \<Longrightarrow> dwf (dsetdefault d k v)"
  by (simp add: dsetdefault_def)

lemma dget_dappend [simp, dict_simps]:
  "dget (dappend d k v) k' = (if k' = k then PList (as_list (dget d k) @ [v]) else dget d k')"
  by (simp add: dappend_def)

lemma dhas_dappend [simp, dict_simps]: "dhas (dappend d k v) k' = (k' = k \<or> dhas d k')"
  by (simp add: dappend_def)

lemma dwf_dappend [simp]: "dwf d \<Longrightarrow> dwf (dappend d k v)"
  by (simp add: dappend_def)

text \<open>Writing a key that a filter drops changes nothing of what it keeps.\<close>

lemma filter_dset [simp]: "\<not> P k \<Longrightarrow> filter (\<lambda>kv. P (fst kv)) (dset d k v) = filter (\<lambda>kv. P (fst kv)) d"
  by (induction d) auto

lemma filter_dappend [simp]:
  "\<not> P k \<Longrightarrow> filter (\<lambda>kv. P (fst kv)) (dappend d k v) = filter (\<lambda>kv. P (fst kv)) d"
  by (simp add: dappend_def)

lemma gstr_dappend [simp]: "k' \<noteq> k \<Longrightarrow> gstr (dappend d k v) k' = gstr d k'"
  by (simp add: gstr_def)

lemma dwf_dmerge [simp]: "dwf d \<Longrightarrow> dwf (dmerge d e)"
  by (simp add: dmerge_def foldl_dset_dwf)

lemma map_of_dmerge: "dwf e \<Longrightarrow>
  map_of (dmerge d e) k = (case map_of e k of None \<Rightarrow> map_of d k | Some v \<Rightarrow> Some v)"
  by (simp add: dmerge_def foldl_dset_map_of map_of_rev_distinct)

lemma dget_dmerge: "dwf e \<Longrightarrow> dget (dmerge d e) k = (if dhas e k then dget e k else dget d k)"
  by (auto simp: dget_def dhas_def map_of_dmerge split: option.splits)

lemma por_PStr_Nil [simp]: "por (PStr []) b = b"
  by (simp add: por_def)

lemma por_PNone [simp]: "por PNone b = b"
  by (simp add: por_def)

lemma por_truthy [simp]: "truthy a \<Longrightarrow> por a b = a"
  by (simp add: por_def)

lemma por_id [simp]: "por (PStr s) (PStr []) = PStr s"
  by (simp add: por_def)

lemma pstr_PStr [simp]: "pstr (PStr s) = s"
  by (simp add: pstr_def)

lemma gstr_PStr: "dget d k = PStr s \<Longrightarrow> gstr d k = s"
  by (simp add: gstr_def)

lemma gstr_PNone: "dget d k = PNone \<Longrightarrow> gstr d k = []"
  by (simp add: gstr_def)

lemma gstr_Nil [simp]: "gstr [] k = []"
  by (simp add: gstr_PNone)

lemma gstr_Cons [simp]: "gstr ((k', v) # d) k = (if k' = k then pstr (por v (PStr [])) else gstr d k)"
  by (simp add: gstr_def)

lemma gstr_dset [simp, dict_simps]:
  "gstr (dset d k v) k' = (if k' = k then pstr (por v (PStr [])) else gstr d k')"
  by (simp add: gstr_def)

lemma dhas_Cons [simp]: "dhas ((k', v) # d) k = (k' = k \<or> dhas d k)"
  by (simp add: dhas_def)

lemma dhas_Nil [simp]: "dhas [] k = False"
  by (simp add: dhas_def)

lemma sor_simps [simp]: "sor [] b = b" "sor (c # a) b = c # a"
  by (simp_all add: sor_def)

end
