(* ===== verification/Hashing.thy ===== *)
theory Hashing
  imports Py_Value
begin

text \<open>
  The single source of hashes and canonical JSON, \<^verbatim>\<open>services/hashing.py\<close>: the canonical
  encoding (\<^verbatim>\<open>json.dumps\<close> with sorted keys, non-ASCII kept, default or compact separators),
  content hashes over a chosen part of a record, and short deterministic ids.

  The digests \<^verbatim>\<open>sha256(...).hexdigest()\<close> and \<^verbatim>\<open>sha1(...).hexdigest()\<close> are arguments (\<open>H\<close> and
  \<open>H1\<close>) of every definition that uses them, so each theorem holds for every digest function; what
  a theorem about integrity needs of one is said in it.  The main result is that the canonical
  encoding is injective up to the order of keys: all that a digest can confuse is what it collides on.
\<close>

section \<open>Canonical JSON\<close>

definition item_sep :: "bool \<Rightarrow> string" where
  "item_sep compact = (if compact then '','' else '', '')"

definition key_sep :: "bool \<Rightarrow> string" where
  "key_sep compact = (if compact then '':'' else '': '')"

definition jesc :: "char \<Rightarrow> string" where
  "jesc c =
     (if c = CHR 0x22 then [CHR 0x5C, CHR 0x22]
      else if c = CHR 0x5C then [CHR 0x5C, CHR 0x5C]
      else if c = CHR 0x0A then [CHR 0x5C, CHR ''n'']
      else if c = CHR 0x0D then [CHR 0x5C, CHR ''r'']
      else if c = CHR 0x09 then [CHR 0x5C, CHR ''t'']
      else if c = CHR 0x0C then [CHR 0x5C, CHR ''f'']
      else if c = CHR 0x08 then [CHR 0x5C, CHR ''b'']
      else if (of_char c :: nat) < 32
        then CHR 0x5C # ''u00'' @ [hex_digit (of_char c div 16), hex_digit (of_char c mod 16)]
      else [c])"

definition jstr :: "string \<Rightarrow> string" where
  "jstr s = CHR 0x22 # concat (map jesc s) @ [CHR 0x22]"

definition jlist :: "bool \<Rightarrow> string list \<Rightarrow> string" where
  "jlist compact xs = ''['' @ join (item_sep compact) xs @ '']''"

definition jobject :: "bool \<Rightarrow> (string \<times> string) list \<Rightarrow> string" where
  "jobject compact kvs =
     ''{'' @ join (item_sep compact) (map (\<lambda>p. jstr (fst p) @ key_sep compact @ snd p) kvs) @ ''}''"

primrec jdump :: "bool \<Rightarrow> pv \<Rightarrow> string" where
  "jdump compact PNone = ''null''"
| "jdump compact (PBool b) = (if b then ''true'' else ''false'')"
| "jdump compact (PInt i) = int_str i"
| "jdump compact (PStr s) = jstr s"
| "jdump compact (PList xs) = jlist compact (map (jdump compact) xs)"
| "jdump compact (PDict kvs) =
     jobject compact (sort_key fst (map (map_prod id (jdump compact)) kvs))"

definition canonical_json :: "pv \<Rightarrow> bool \<Rightarrow> string" where
  "canonical_json obj compact = jdump compact obj"

section \<open>Content hashes and short ids\<close>

definition sha256_hex :: "(string \<Rightarrow> string) \<Rightarrow> string \<Rightarrow> string" where
  "sha256_hex H data = H data"

definition hash_core :: "string list option \<Rightarrow> string list option \<Rightarrow> pdict \<Rightarrow> pdict" where
  "hash_core incl excl record =
     (case incl of
        Some ks \<Rightarrow> dict_of (map (\<lambda>k. (k, dget record k)) (filter (dhas record) ks))
      | None \<Rightarrow>
          (case excl of
             Some ks \<Rightarrow> filter (\<lambda>kv. fst kv \<notin> set ks) record
           | None \<Rightarrow> record))"

definition hash_content ::
    "(string \<Rightarrow> string) \<Rightarrow> pdict \<Rightarrow> string list option \<Rightarrow> string list option \<Rightarrow> string \<Rightarrow> bool \<Rightarrow> string" where
  "hash_content H record incl excl pre compact =
     pre @ sha256_hex H (canonical_json (PDict (hash_core incl excl record)) compact)"

definition short_id_len :: "(string \<Rightarrow> string) \<Rightarrow> pv list \<Rightarrow> string \<Rightarrow> nat \<Rightarrow> string" where
  "short_id_len H1 parts pre len =
     (let raw = join ''|'' (map (\<lambda>p. pstr (por p (PStr []))) parts);
          digest = take len (H1 raw)
      in if pre \<noteq> [] then pre @ ''-'' @ digest else digest)"

definition short_id :: "(string \<Rightarrow> string) \<Rightarrow> pv list \<Rightarrow> string \<Rightarrow> string" where
  "short_id H1 parts pre = short_id_len H1 parts pre 16"

definition CANONICALIZATION :: string where
  "CANONICALIZATION = ''mori-jcs-v1''"

definition HASH_ALGORITHM :: string where
  "HASH_ALGORITHM = ''sha256''"

section \<open>The encoding is injective up to key order\<close>

text \<open>The key order is forgotten by sorting every dictionary, inner ones first.\<close>

primrec pnorm :: "pv \<Rightarrow> pv" where
  "pnorm PNone = PNone"
| "pnorm (PBool b) = PBool b"
| "pnorm (PInt i) = PInt i"
| "pnorm (PStr s) = PStr s"
| "pnorm (PList xs) = PList (map pnorm xs)"
| "pnorm (PDict kvs) = PDict (sort_key fst (map (map_prod id pnorm) kvs))"

text \<open>Rendering without sorting, to separate the two steps.\<close>

primrec jrend :: "bool \<Rightarrow> pv \<Rightarrow> string" where
  "jrend compact PNone = ''null''"
| "jrend compact (PBool b) = (if b then ''true'' else ''false'')"
| "jrend compact (PInt i) = int_str i"
| "jrend compact (PStr s) = jstr s"
| "jrend compact (PList xs) = jlist compact (map (jrend compact) xs)"
| "jrend compact (PDict kvs) = jobject compact (map (map_prod id (jrend compact)) kvs)"

lemma jdump_jrend: "jdump compact v = jrend compact (pnorm v)"
proof (induction v)
  case (PDict kvs)
  then have "map (map_prod id (jdump compact)) kvs
      = map (map_prod id (jrend compact)) (map (map_prod id pnorm) kvs)"
    by (auto simp: snds.simps)
  then have "sort_key fst (map (map_prod id (jdump compact)) kvs)
      = map (map_prod id (jrend compact)) (sort_key fst (map (map_prod id pnorm) kvs))"
    by (simp only: sort_key_map [of fst "map_prod id (jrend compact)"]) simp
  then show ?case by simp
qed (auto cong: map_cong)

text \<open>Escapes are read back by the decoder of a JSON text.\<close>

definition hex_value :: "char \<Rightarrow> nat" where
  "hex_value c = (if is_digit c then of_char c - 48 else of_char c - 87)"

definition junesc_short :: "char \<Rightarrow> char" where
  "junesc_short e = (if e = CHR ''n'' then CHR 0x0A else if e = CHR ''r'' then CHR 0x0D
     else if e = CHR ''t'' then CHR 0x09 else if e = CHR ''f'' then CHR 0x0C
     else if e = CHR ''b'' then CHR 0x08 else e)"

definition junesc :: "string \<Rightarrow> char \<times> string" where
  "junesc s =
     (if hd s \<noteq> CHR 0x5C then (hd s, tl s)
      else if hd (tl s) = CHR ''u''
        then (char_of (16 * hex_value (s ! 4) + hex_value (s ! 5)), drop 6 s)
      else (junesc_short (hd (tl s)), drop 2 s))"

lemma hex_value_digit: "n < 16 \<Longrightarrow> hex_value (hex_digit n) = n"
proof -
  assume "n < 16"
  then have "n \<in> set [0..<16]" by simp
  then show ?thesis
    by (simp add: upt_rec) (elim disjE; simp add: hex_value_def hex_digit_def is_digit_def)
qed

definition jspecial :: "char \<Rightarrow> bool" where
  "jspecial c = (c \<in> {CHR 0x22, CHR 0x5C, CHR 0x0A, CHR 0x0D, CHR 0x09, CHR 0x0C, CHR 0x08})"

lemma jesc_control: "\<not> jspecial c \<Longrightarrow> (of_char c :: nat) < 32 \<Longrightarrow> jesc c =
    [CHR 0x5C, CHR ''u'', CHR ''0'', CHR ''0'', hex_digit (of_char c div 16), hex_digit (of_char c mod 16)]"
  by (simp add: jesc_def jspecial_def)

lemma jesc_plain: "\<not> jspecial c \<Longrightarrow> \<not> (of_char c :: nat) < 32 \<Longrightarrow> jesc c = [c]"
  by (simp add: jesc_def jspecial_def)

lemma junesc_jesc: "junesc (jesc c @ xs) = (c, xs)"
proof (cases "jspecial c")
  case True
  then show ?thesis
    unfolding jspecial_def
    by (elim insertE) (simp_all add: jesc_def junesc_def junesc_short_def)
next
  case False
  then have bs: "c \<noteq> CHR 0x5C" by (simp add: jspecial_def)
  show ?thesis
  proof (cases "(of_char c :: nat) < 32")
    case True
    then have "(of_char c :: nat) div 16 < 16" "(of_char c :: nat) mod 16 < 16" by simp_all
    with False True show ?thesis
      by (simp add: jesc_control junesc_def hex_value_digit)
  next
    case False
    with \<open>\<not> jspecial c\<close> bs show ?thesis by (simp add: jesc_plain junesc_def)
  qed
qed

lemma jesc_inj:
  assumes "jesc c @ xs = jesc d @ ys"
  shows "c = d \<and> xs = ys"
  using junesc_jesc [of c xs] junesc_jesc [of d ys] unfolding assms by (metis Pair_inject)

lemma hd_jesc: "jesc c \<noteq> [] \<and> hd (jesc c) \<noteq> CHR 0x22"
proof (cases "jspecial c")
  case True
  then show ?thesis unfolding jspecial_def by (elim insertE) (simp_all add: jesc_def)
next
  case False
  then show ?thesis
    by (cases "(of_char c :: nat) < 32") (auto simp: jesc_control jesc_plain jspecial_def)
qed

lemma jesc_not_quote: "jesc c @ xs \<noteq> CHR 0x22 # ys"
  using hd_jesc [of c] by (cases "jesc c") auto

lemma jesc_list_inj:
  "concat (map jesc s) @ CHR 0x22 # xs = concat (map jesc t) @ CHR 0x22 # ys \<Longrightarrow> s = t \<and> xs = ys"
proof (induction s arbitrary: t)
  case Nil
  then show ?case using jesc_not_quote by (cases t) (auto dest: sym)
next
  case (Cons c s)
  then obtain d t' where t: "t = d # t'" using jesc_not_quote by (cases t) auto
  with Cons.prems have "jesc c @ (concat (map jesc s) @ CHR 0x22 # xs)
      = jesc d @ (concat (map jesc t') @ CHR 0x22 # ys)" by simp
  from jesc_inj [OF this] t Cons.IH show ?case by auto
qed

lemma jstr_append_inj: "jstr s @ xs = jstr t @ ys \<Longrightarrow> s = t \<and> xs = ys"
  by (auto simp: jstr_def dest: jesc_list_inj)

text \<open>A value is followed by the end of the text, a comma or a closing bracket.\<close>

definition jstop :: "string \<Rightarrow> bool" where
  "jstop s = (s = [] \<or> hd s \<in> set '',]}'')"

lemma jstop_no_digit: "jstop s \<Longrightarrow> no_digit s"
  by (auto simp: jstop_def no_digit_def is_digit_def)

lemma jstop_simps [simp]:
  "jstop []" "jstop (item_sep compact @ s)" "jstop (CHR '']'' # s)" "jstop (CHR ''}'' # s)"
  by (auto simp: jstop_def item_sep_def)

definition jhead :: "pv \<Rightarrow> char set" where
  "jhead v = (case v of PNone \<Rightarrow> {CHR ''n''} | PBool b \<Rightarrow> {if b then CHR ''t'' else CHR ''f''}
     | PInt i \<Rightarrow> set ''-0123456789'' | PStr s \<Rightarrow> {CHR 0x22} | PList xs \<Rightarrow> {CHR ''[''} | PDict d \<Rightarrow> {CHR ''{''})"

lemma hd_int_str: "hd (int_str i) \<in> set ''-0123456789''"
  using hd_dec_digit [of "nat i"] by (auto simp: int_str_def is_digit_def)

lemma jrend_not_Nil [simp]: "jrend compact v \<noteq> []"
  by (cases v) (auto simp: jstr_def jlist_def jobject_def)

lemma hd_jrend: "hd (jrend compact v @ xs) \<in> jhead v"
  using hd_int_str by (cases v) (auto simp: jhead_def jstr_def jlist_def jobject_def)

lemma jrend_not_close: "jrend compact v @ xs \<noteq> CHR '']'' # ys"
proof
  assume "jrend compact v @ xs = CHR '']'' # ys"
  then have "CHR '']'' \<in> jhead v" using hd_jrend [of compact v xs] by simp
  then show False by (auto simp: jhead_def split: pv.splits if_splits)
qed

text \<open>Lists of items that are decodable one by one are decodable as a whole.\<close>

lemma join_Cons: "join sep (x # xs) = x @ (if xs = [] then [] else sep @ join sep xs)"
  by (cases xs) auto

lemma join_decode:
  assumes item: "\<And>a b xs ys. \<lbrakk>a \<in> set as; f a @ xs = f b @ ys; jstop xs; jstop ys\<rbrakk> \<Longrightarrow> a = b \<and> xs = ys"
    and close: "\<And>a xs ys. f a @ xs \<noteq> e # ys" and e: "e \<in> set '']}''"
    and eq: "join (item_sep cp) (map f as) @ e # xs = join (item_sep cp) (map f bs) @ e # ys"
  shows "as = bs \<and> xs = ys"
  using item eq
proof (induction as arbitrary: bs)
  case Nil
  then show ?case using close by (cases bs) (auto simp: join_Cons dest: sym split: if_splits)
next
  case (Cons a as)
  then obtain b bs' where bs: "bs = b # bs'"
    using close by (cases bs) (auto simp: join_Cons split: if_splits)
  define rest where "rest as xs = (if as = [] then [] else item_sep cp @ join (item_sep cp) (map f as)) @ e # xs"
    for as xs
  have stop: "jstop (rest as xs)" for as xs
    using e by (auto simp: rest_def)
  have "f a @ rest as xs = f b @ rest bs' ys"
    using Cons.prems(2) by (simp add: bs join_Cons rest_def)
  then have ab: "a = b" and rest: "rest as xs = rest bs' ys"
    using Cons.prems(1) [of a "rest as xs" b "rest bs' ys"] stop by simp_all
  show ?case
  proof (cases "as = [] \<or> bs' = []")
    case True
    then show ?thesis using rest ab bs e
      by (auto simp: rest_def item_sep_def split: if_splits)
  next
    case False
    then have "join (item_sep cp) (map f as) @ e # xs = join (item_sep cp) (map f bs') @ e # ys"
      using rest by (simp add: rest_def)
    from Cons.IH [OF Cons.prems(1) this] ab bs show ?thesis by simp
  qed
qed

lemma jlist_inj:
  assumes "\<And>a b xs ys. \<lbrakk>a \<in> set vs; jrend cp a @ xs = jrend cp b @ ys; jstop xs; jstop ys\<rbrakk> \<Longrightarrow> a = b \<and> xs = ys"
    and "jlist cp (map (jrend cp) vs) @ xs = jlist cp (map (jrend cp) ws) @ ys"
  shows "vs = ws \<and> xs = ys"
proof (rule join_decode [where f = "jrend cp" and e = "CHR '']''" and cp = cp])
  show "join (item_sep cp) (map (jrend cp) vs) @ CHR '']'' # xs
      = join (item_sep cp) (map (jrend cp) ws) @ CHR '']'' # ys"
    using assms(2) by (simp add: jlist_def)
qed (use assms(1) jrend_not_close in auto)

lemma jitem_inj:
  assumes "\<And>b xs ys. \<lbrakk>jrend cp v @ xs = jrend cp b @ ys; jstop xs; jstop ys\<rbrakk> \<Longrightarrow> v = b \<and> xs = ys"
    and "(jstr k @ key_sep cp @ jrend cp v) @ xs = (jstr l @ key_sep cp @ jrend cp w) @ ys"
    and "jstop xs" "jstop ys"
  shows "(k, v) = (l, w) \<and> xs = ys"
proof -
  have kl: "k = l \<and> key_sep cp @ jrend cp v @ xs = key_sep cp @ jrend cp w @ ys"
    using assms(2) by (intro jstr_append_inj) simp
  then have "jrend cp v @ xs = jrend cp w @ ys" by simp
  from assms(1) [OF this assms(3,4)] kl show ?thesis by simp
qed

lemma jobject_inj:
  assumes "\<And>k a b xs ys. \<lbrakk>(k, a) \<in> set vs; jrend cp a @ xs = jrend cp b @ ys; jstop xs; jstop ys\<rbrakk> \<Longrightarrow> a = b \<and> xs = ys"
    and "jobject cp (map (map_prod id (jrend cp)) vs) @ xs = jobject cp (map (map_prod id (jrend cp)) ws) @ ys"
  shows "vs = ws \<and> xs = ys"
proof (rule join_decode [where f = "\<lambda>p. jstr (fst p) @ key_sep cp @ jrend cp (snd p)"
      and e = "CHR ''}''" and cp = cp])
  show "join (item_sep cp) (map (\<lambda>p. jstr (fst p) @ key_sep cp @ jrend cp (snd p)) vs) @ CHR ''}'' # xs
      = join (item_sep cp) (map (\<lambda>p. jstr (fst p) @ key_sep cp @ jrend cp (snd p)) ws) @ CHR ''}'' # ys"
    using assms(2) by (simp add: jobject_def o_def)
next
  fix a b xs ys
  assume "a \<in> set vs" "(jstr (fst a) @ key_sep cp @ jrend cp (snd a)) @ xs
      = (jstr (fst b) @ key_sep cp @ jrend cp (snd b)) @ ys" "jstop xs" "jstop ys"
  then have "(fst a, snd a) = (fst b, snd b) \<and> xs = ys"
    by (intro jitem_inj [of cp "snd a"] assms(1) [of "fst a" "snd a"]) auto
  then show "a = b \<and> xs = ys" by (simp add: prod_eq_iff)
qed (simp_all add: jstr_def)

text \<open>The first character tells the constructor.\<close>

fun same_head :: "pv \<Rightarrow> pv \<Rightarrow> bool" where
  "same_head PNone w = (w = PNone)"
| "same_head (PBool b) w = (w = PBool b)"
| "same_head (PInt i) w = (\<exists>j. w = PInt j)"
| "same_head (PStr s) w = (\<exists>t. w = PStr t)"
| "same_head (PList vs) w = (\<exists>ws. w = PList ws)"
| "same_head (PDict d) w = (\<exists>e. w = PDict e)"

lemma jhead_same: "c \<in> jhead v \<Longrightarrow> c \<in> jhead w \<Longrightarrow> same_head v w"
  by (cases v; cases w) (auto simp: jhead_def split: if_splits)

lemma jrend_same_head: "jrend cp v @ xs = jrend cp w @ ys \<Longrightarrow> same_head v w"
  using hd_jrend [of cp v xs] hd_jrend [of cp w ys] by (auto intro: jhead_same)

lemma jrend_append_inj:
  "jrend cp v @ xs = jrend cp w @ ys \<Longrightarrow> jstop xs \<Longrightarrow> jstop ys \<Longrightarrow> v = w \<and> xs = ys"
proof (induction v arbitrary: w xs ys)
  case PNone
  with jrend_same_head [OF PNone.prems(1)] show ?case by simp
next
  case (PBool b)
  with jrend_same_head [OF PBool.prems(1)] show ?case by simp
next
  case (PInt i)
  then obtain j where w: "w = PInt j" using jrend_same_head [OF PInt.prems(1)] by auto
  with PInt.prems have "int_str i @ xs = int_str j @ ys" by simp
  from int_str_append_inj [OF this] PInt.prems w show ?case by (simp add: jstop_no_digit)
next
  case (PStr s)
  then obtain t where w: "w = PStr t" using jrend_same_head [OF PStr.prems(1)] by auto
  with PStr.prems have "jstr s @ xs = jstr t @ ys" by simp
  from jstr_append_inj [OF this] w show ?case by simp
next
  case (PList vs)
  then obtain ws where w: "w = PList ws" using jrend_same_head [OF PList.prems(1)] by auto
  have "vs = ws \<and> xs = ys"
  proof (rule jlist_inj)
    show "jlist cp (map (jrend cp) vs) @ xs = jlist cp (map (jrend cp) ws) @ ys"
      using PList.prems(1) w by simp
  qed (rule PList.IH)
  with w show ?case by simp
next
  case (PDict d)
  then obtain e where w: "w = PDict e" using jrend_same_head [OF PDict.prems(1)] by auto
  have "d = e \<and> xs = ys"
  proof (rule jobject_inj)
    show "jobject cp (map (map_prod id (jrend cp)) d) @ xs = jobject cp (map (map_prod id (jrend cp)) e) @ ys"
      using PDict.prems(1) w by simp
  next
    fix k a b xs ys
    assume *: "(k, a) \<in> set d" "jrend cp a @ xs = jrend cp b @ ys" "jstop xs" "jstop ys"
    show "a = b \<and> xs = ys"
      by (rule PDict.IH [OF *(1) _ *(2-4)]) simp
  qed
  with w show ?case by simp
qed

lemma jrend_inj: "jrend cp v = jrend cp w \<longleftrightarrow> v = w"
  using jrend_append_inj [of cp v "[]" w "[]"] by auto

lemma canonical_json_eq_iff: "canonical_json v cp = canonical_json w cp \<longleftrightarrow> pnorm v = pnorm w"
  by (simp add: canonical_json_def jdump_jrend jrend_inj)

end
