(* ===== verification/Workflow.thy ===== *)
theory Workflow
  imports Py_Value
begin

text \<open>
  The contract that the status workflows of the platform share (framework versions, technical
  gaps): a guard \<open>can\<close> on the current status and an \<open>app\<close> that writes the new status and appends
  one entry to a log.  The callers apply a transition only when the guard allows it and answer
  409 otherwise, which is \<open>guarded_run\<close>.
\<close>

fun guarded_run ::
    "(string \<Rightarrow> string \<Rightarrow> bool) \<Rightarrow> (pdict \<Rightarrow> string \<Rightarrow> 'x \<Rightarrow> pdict) \<Rightarrow> pdict \<Rightarrow> (string \<times> 'x) list \<Rightarrow> pdict" where
  "guarded_run can app r [] = r"
| "guarded_run can app r ((t, x) # ops) =
     guarded_run can app (if can (gstr r ''status'') t then app r t x else r) ops"

text \<open>A list of statuses that the guard allows one after the other.\<close>

fun legal_path :: "(string \<Rightarrow> string \<Rightarrow> bool) \<Rightarrow> string \<Rightarrow> string list \<Rightarrow> bool" where
  "legal_path can s [] = True"
| "legal_path can s (t # ts) = (can s t \<and> legal_path can t ts)"

definition log_target :: "pv \<Rightarrow> string" where
  "log_target e = gstr (as_dict e) ''to''"

text \<open>\<^verbatim>\<open>target in T and str(current or initial) in T[target]\<close>: the guard that every workflow has.\<close>

definition table_allows :: "string list dict \<Rightarrow> string \<Rightarrow> string \<Rightarrow> string \<Rightarrow> bool" where
  "table_allows T initial current target =
     (case map_of T target of None \<Rightarrow> False | Some froms \<Rightarrow> sor current initial \<in> set froms)"

lemma legal_path_append:
  "legal_path can s (ts @ us) = (legal_path can s ts \<and> legal_path can (last (s # ts)) us)"
  by (induction ts arbitrary: s) auto

locale workflow =
  fixes can :: "string \<Rightarrow> string \<Rightarrow> bool"
    and app :: "pdict \<Rightarrow> string \<Rightarrow> 'x \<Rightarrow> pdict"
    and statuses :: "string list"
    and log :: string
    and entry :: "pdict \<Rightarrow> string \<Rightarrow> 'x \<Rightarrow> pv"
  assumes can_closed: "can c t \<Longrightarrow> t \<in> set statuses"
    and app_status: "dget (app r t x) ''status'' = PStr t"
    and app_log: "dget (app r t x) log = PList (as_list (dget r log) @ [entry r t x])"
    and entry_target: "log_target (entry r t x) = t"
begin

lemma gstr_app: "gstr (app r t x) ''status'' = t"
  by (rule gstr_PStr) (rule app_status)

lemma run_status_closed:
  "gstr r ''status'' \<in> set statuses \<Longrightarrow> gstr (guarded_run can app r ops) ''status'' \<in> set statuses"
proof (induction ops arbitrary: r)
  case (Cons op ops)
  obtain t x where op: "op = (t, x)" by (cases op)
  show ?case
  proof (cases "can (gstr r ''status'') t")
    case True
    then have "gstr (app r t x) ''status'' \<in> set statuses" by (simp add: gstr_app can_closed)
    from Cons.IH [OF this] True op show ?thesis by simp
  next
    case False
    with Cons op show ?thesis by simp
  qed
qed simp

text \<open>The log only grows, what is added is a legal path from the old status, and it ends in the
  new one.\<close>

lemma run_log_legal:
  "\<exists>es. as_list (dget (guarded_run can app r ops) log) = as_list (dget r log) @ es
     \<and> legal_path can (gstr r ''status'') (map log_target es)
     \<and> gstr (guarded_run can app r ops) ''status'' = last (gstr r ''status'' # map log_target es)"
proof (induction ops arbitrary: r)
  case Nil
  show ?case by (rule exI [of _ "[]"]) simp
next
  case (Cons op ops)
  obtain t x where op: "op = (t, x)" by (cases op)
  show ?case
  proof (cases "can (gstr r ''status'') t")
    case True
    obtain es where es:
      "as_list (dget (guarded_run can app (app r t x) ops) log) = as_list (dget (app r t x) log) @ es"
      "legal_path can (gstr (app r t x) ''status'') (map log_target es)"
      "gstr (guarded_run can app (app r t x) ops) ''status''
         = last (gstr (app r t x) ''status'' # map log_target es)"
      using Cons.IH by blast
    show ?thesis
      by (rule exI [of _ "entry r t x # es"])
        (use True op es in \<open>simp add: app_log gstr_app entry_target\<close>)
  next
    case False
    with Cons.IH [of r] op show ?thesis by simp
  qed
qed

end

end
