(* ===== verification/Governance.thy ===== *)
theory Governance
  imports Hashing Workflow
begin

text \<open>
  The control operating platform's base model, \<^verbatim>\<open>services/control_governance.py\<close>: the builders
  of its records (framework, framework version, control definition, relationship, organization
  control, scope snapshot, assurance cycle, evidence contract and mapping), the content hash that
  stamps them, and the life cycle of a framework version.  Each builder is a function of its
  keyword arguments, in the order of the source; \<open>H\<close> and \<open>H1\<close> are the SHA-256 and SHA-1 digests.
\<close>

section \<open>Names, statuses and the content hash\<close>

definition KINDS :: "string list" where
  "KINDS = [''framework'', ''framework_version'', ''control_definition'', ''control_relationship'',
     ''organization_control'', ''assurance_cycle'', ''scope_snapshot'', ''cycle_control'',
     ''evidence_contract'', ''evidence_mapping'']"

definition EVIDENCE_STATUSES :: "string list" where
  "EVIDENCE_STATUSES = [''missing'', ''available'', ''stale'', ''partial'', ''reviewed'', ''approved'',
     ''superseded'']"

definition ASSESSMENT_STATUSES :: "string list" where
  "ASSESSMENT_STATUSES = [''not_assessed'', ''design_deficient'', ''implemented'', ''operating'',
     ''ineffective'', ''effective'', ''exception_approved'', ''remediation_required'']"

definition APPLICABILITY_STATUSES :: "string list" where
  "APPLICABILITY_STATUSES = [''applicable'', ''not_applicable'', ''partially_applicable'',
     ''inherited'', ''shared_responsibility'', ''pending_assessment'']"

definition RELATIONSHIP_TYPES :: "string list" where
  "RELATIONSHIP_TYPES = [''same_as'', ''replaces'', ''replaced_by'', ''split_into'', ''merged_from'',
     ''derived_from'', ''related_to'', ''partially_covers'', ''conflicts_with'']"

definition INTERPRETATION_TYPES :: "string list" where
  "INTERPRETATION_TYPES = [''official'', ''mori_summary'', ''org_interpretation'', ''operation_guide'']"

definition VERSION_STATUSES :: "string list" where
  "VERSION_STATUSES = [''draft'', ''active'', ''retired'']"

definition slug :: "string \<Rightarrow> string" where
  "slug s = take 60 (map (\<lambda>c. if is_alnum c \<or> c \<in> set ''-._'' then c else CHR ''-'')
     (lower (strip s)))"

definition HASH_VOLATILE :: "string list" where
  "HASH_VOLATILE = [''content_hash'', ''created_at'', ''updated_at'', ''created_by'', ''id'',
     ''status'', ''activated_at'', ''activated_by'', ''retired_at'', ''retired_by'',
     ''effective_to'', ''lifecycle'', ''history'', ''canonicalization'', ''hash_algorithm'',
     ''applicability_pending_review'']"

definition content_hash :: "(string \<Rightarrow> string) \<Rightarrow> pdict \<Rightarrow> string" where
  "content_hash H record = hash_content H record None (Some HASH_VOLATILE) ''sha256:'' False"

definition stamp_hash :: "(string \<Rightarrow> string) \<Rightarrow> pdict \<Rightarrow> pdict" where
  "stamp_hash H record =
     (let record = dset record ''content_hash'' (PStr (content_hash H record));
          record = dset record ''canonicalization'' (PStr CANONICALIZATION)
      in dset record ''hash_algorithm'' (PStr HASH_ALGORITHM))"

section \<open>Builders\<close>

definition build_framework :: "string \<Rightarrow> string \<Rightarrow> string \<Rightarrow> string \<Rightarrow> string \<Rightarrow> string \<Rightarrow> pdict" where
  "build_framework framework_id name ftype publisher now created_by =
     (let fid = slug framework_id in
      [(''id'', PStr fid), (''framework_id'', PStr fid), (''name'', PStr name), (''type'', PStr ftype),
       (''publisher'', PStr publisher), (''created_at'', PStr now), (''created_by'', PStr created_by)])"

definition license_record :: "pdict \<Rightarrow> pdict" where
  "license_record lic =
     [(''content_origin'', PStr (gstr lic ''content_origin'')),
      (''license'', PStr (gstr lic ''license'')),
      (''redistribution_allowed'', PBool (truthy (dgetd lic ''redistribution_allowed'' (PBool False)))),
      (''modification_allowed'', PBool (truthy (dgetd lic ''modification_allowed'' (PBool False)))),
      (''commercial_use_allowed'', PBool (truthy (dgetd lic ''commercial_use_allowed'' (PBool False)))),
      (''source_url'', PStr (gstr lic ''source_url'')),
      (''imported_by_user'', PBool (truthy (dgetd lic ''imported_by_user'' (PBool False))))]"

definition build_framework_version ::
    "(string \<Rightarrow> string) \<Rightarrow> string \<Rightarrow> string \<Rightarrow> string \<Rightarrow> pv \<Rightarrow> string \<Rightarrow> string \<Rightarrow> string \<Rightarrow> pv \<Rightarrow> string
     \<Rightarrow> string \<Rightarrow> pdict \<Rightarrow> string \<Rightarrow> string \<Rightarrow> pdict" where
  "build_framework_version H framework_id version effective_from effective_to status source_type
       source_hash supersedes change_reason importer_version license_meta now created_by =
     (let fid = slug framework_id;
          fv_id = fid @ '':'' @ slug version;
          rec = [(''id'', PStr fv_id), (''framework_version_id'', PStr fv_id),
                 (''framework_id'', PStr fid), (''version'', PStr version),
                 (''effective_from'', PStr effective_from), (''effective_to'', effective_to),
                 (''status'', PStr status), (''source_type'', PStr source_type),
                 (''source_hash'', PStr source_hash), (''supersedes'', supersedes),
                 (''change_reason'', PStr change_reason), (''importer_version'', PStr importer_version),
                 (''license'', PDict (license_record license_meta)),
                 (''created_at'', PStr now), (''created_by'', PStr created_by)];
          rec = stamp_hash H rec
      in dset rec ''lifecycle''
           (PList [PDict [(''ts'', PStr now), (''actor'', PStr created_by), (''to'', PStr status)]]))"

definition build_interpretations :: "string \<Rightarrow> pdict \<Rightarrow> pdict" where
  "build_interpretations requirement_text interpretations =
     (let interp = map (\<lambda>k. (k, PStr [])) INTERPRETATION_TYPES;
          interp = (if requirement_text \<noteq> [] then dset interp ''official'' (PStr requirement_text) else interp)
      in foldl (\<lambda>interp kv. if dhas interp (fst kv) then dset interp (fst kv) (snd kv) else interp)
           interp interpretations)"

definition build_control_definition ::
    "(string \<Rightarrow> string) \<Rightarrow> string \<Rightarrow> string \<Rightarrow> string \<Rightarrow> string \<Rightarrow> string \<Rightarrow> pv \<Rightarrow> pdict \<Rightarrow> string \<Rightarrow> string
     \<Rightarrow> pdict" where
  "build_control_definition H framework_version_id display_code title control_uid requirement_text
       parent_control_id interpretations now created_by =
     (let uid = slug (sor control_uid display_code);
          cid = framework_version_id @ '':'' @ slug display_code;
          interp = build_interpretations requirement_text interpretations
      in stamp_hash H
           [(''id'', PStr cid), (''control_id'', PStr cid),
            (''framework_version_id'', PStr framework_version_id), (''control_uid'', PStr uid),
            (''display_code'', PStr display_code), (''title'', PStr title),
            (''requirement_text'', PStr requirement_text), (''interpretations'', PDict interp),
            (''parent_control_id'', parent_control_id), (''created_at'', PStr now),
            (''created_by'', PStr created_by)])"

definition build_relationship ::
    "(string \<Rightarrow> string) \<Rightarrow> string \<Rightarrow> string \<Rightarrow> string \<Rightarrow> pv \<Rightarrow> string \<Rightarrow> string \<Rightarrow> string \<Rightarrow> string \<Rightarrow> pdict" where
  "build_relationship H1 source_control_id target_control_id relationship_type coverage_percent
       rationale provenance reviewed_by now =
     (let rel_id = short_id H1 [PStr source_control_id, PStr target_control_id, PStr relationship_type] ''rel''
      in [(''id'', PStr rel_id), (''relationship_id'', PStr rel_id),
          (''source_control_id'', PStr source_control_id), (''target_control_id'', PStr target_control_id),
          (''relationship_type'', PStr relationship_type), (''coverage_percent'', coverage_percent),
          (''rationale'', PStr rationale), (''provenance'', PStr provenance),
          (''reviewed_by'', PStr reviewed_by), (''reviewed_at'', PStr now)])"

definition build_organization_control ::
    "(string \<Rightarrow> string) \<Rightarrow> string \<Rightarrow> string \<Rightarrow> string \<Rightarrow> string \<Rightarrow> string \<Rightarrow> pv list \<Rightarrow> int \<Rightarrow> pv \<Rightarrow> string
     \<Rightarrow> string \<Rightarrow> pdict" where
  "build_organization_control H code title owner_team frequency scope mapped_controls version
       supersedes now created_by =
     (let oc_id = slug code @ '':v'' @ int_str version
      in stamp_hash H
           [(''id'', PStr oc_id), (''organization_control_id'', PStr oc_id), (''code'', PStr code),
            (''title'', PStr title), (''owner_team'', PStr owner_team), (''frequency'', PStr frequency),
            (''scope'', PStr scope), (''mapped_controls'', PList mapped_controls),
            (''version'', PInt version), (''supersedes'', supersedes), (''status'', PStr ''draft''),
            (''created_at'', PStr now), (''created_by'', PStr created_by)])"

definition FROZEN_ASSET_FIELDS :: "string list" where
  "FROZEN_ASSET_FIELDS = [''asset_id'', ''hostname'', ''ip'', ''owner'', ''criticality'',
     ''service'', ''inclusion_reason'', ''source'']"

definition freeze_asset :: "pv \<Rightarrow> pdict" where
  "freeze_asset a =
     (case a of
        PDict d \<Rightarrow> map (\<lambda>k. (k, dgetd d k (PStr []))) FROZEN_ASSET_FIELDS
      | _ \<Rightarrow> dset (map (\<lambda>k. (k, PStr [])) FROZEN_ASSET_FIELDS) ''asset_id'' (PStr (pstr a)))"

definition build_scope_snapshot ::
    "(string \<Rightarrow> string) \<Rightarrow> string \<Rightarrow> string list \<Rightarrow> pv list \<Rightarrow> string list \<Rightarrow> string list \<Rightarrow> string list
     \<Rightarrow> string \<Rightarrow> string \<Rightarrow> string \<Rightarrow> string \<Rightarrow> string \<Rightarrow> pdict" where
  "build_scope_snapshot H snapshot_id services assets organizations locations data_processes
       approved_by source_query change_reason now created_by =
     (let sid = slug snapshot_id
      in stamp_hash H
           [(''id'', PStr sid), (''scope_snapshot_id'', PStr sid), (''services'', of_strs services),
            (''assets'', PList (map (\<lambda>a. PDict (freeze_asset a)) assets)),
            (''organizations'', of_strs organizations), (''locations'', of_strs locations),
            (''data_processes'', of_strs data_processes), (''approved_by'', PStr approved_by),
            (''source_query'', PStr source_query), (''change_reason'', PStr change_reason),
            (''created_at'', PStr now), (''created_by'', PStr created_by)])"

definition build_assurance_cycle ::
    "string \<Rightarrow> string \<Rightarrow> string \<Rightarrow> timestamp \<Rightarrow> timestamp \<Rightarrow> string \<Rightarrow> string \<Rightarrow> timestamp \<Rightarrow> person \<Rightarrow> pdict" where
  "build_assurance_cycle cycle_id name framework_version_id period_start period_end
       scope_snapshot_id status now created_by =
     (let cid = slug cycle_id in
      [(''id'', PStr cid), (''cycle_id'', PStr cid), (''name'', PStr name),
       (''framework_version_id'', PStr framework_version_id), (''period_start'', PStr period_start),
       (''period_end'', PStr period_end), (''scope_snapshot_id'', PStr scope_snapshot_id),
       (''status'', PStr status), (''created_at'', PStr now), (''created_by'', PStr created_by)])"

definition build_evidence_contract ::
    "(string \<Rightarrow> string) \<Rightarrow> string \<Rightarrow> int \<Rightarrow> string \<Rightarrow> string list \<Rightarrow> pv \<Rightarrow> int \<Rightarrow> string list \<Rightarrow> string
     \<Rightarrow> string \<Rightarrow> string \<Rightarrow> pdict" where
  "build_evidence_contract H organization_control_id version frequency required_fields
       minimum_coverage maximum_age_days allowed_sources required_reviewer now created_by =
     (let cid = slug organization_control_id @ '':v'' @ int_str version
      in stamp_hash H
           [(''id'', PStr cid), (''evidence_contract_id'', PStr cid),
            (''organization_control_id'', PStr organization_control_id), (''version'', PInt version),
            (''frequency'', PStr frequency), (''required_fields'', of_strs required_fields),
            (''minimum_coverage'', minimum_coverage), (''maximum_age_days'', PInt maximum_age_days),
            (''allowed_sources'', of_strs allowed_sources),
            (''required_reviewer'', PStr required_reviewer),
            (''created_at'', PStr now), (''created_by'', PStr created_by)])"

definition build_evidence_mapping ::
    "string \<Rightarrow> string \<Rightarrow> string \<Rightarrow> string \<Rightarrow> pv \<Rightarrow> int \<Rightarrow> string \<Rightarrow> string \<Rightarrow> string \<Rightarrow> pdict" where
  "build_evidence_mapping organization_control_id source_type collection_rule_id valid_from valid_to
       mapping_version rationale approved_by now =
     (let mid = slug organization_control_id @ '':'' @ slug source_type @ '':v'' @ int_str mapping_version
      in [(''id'', PStr mid), (''mapping_id'', PStr mid),
          (''organization_control_id'', PStr organization_control_id), (''source_type'', PStr source_type),
          (''collection_rule_id'', PStr collection_rule_id), (''valid_from'', PStr valid_from),
          (''valid_to'', valid_to), (''mapping_version'', PInt mapping_version),
          (''rationale'', PStr rationale), (''approved_by'', PStr approved_by), (''created_at'', PStr now)])"

section \<open>The life cycle of a framework version\<close>

definition VERSION_TRANSITIONS :: "string list dict" where
  "VERSION_TRANSITIONS = [(''active'', [''draft'']), (''retired'', [''active''])]"

definition can_version_transition :: "string \<Rightarrow> string \<Rightarrow> bool" where
  "can_version_transition current target = table_allows VERSION_TRANSITIONS ''draft'' current target"

definition apply_version_lifecycle :: "pdict \<Rightarrow> string \<Rightarrow> string \<Rightarrow> string \<Rightarrow> pdict" where
  "apply_version_lifecycle rec target actor now =
     (let rec = dset rec ''status'' (PStr target);
          rec = (if target = ''active''
                 then dset (dset rec ''activated_at'' (PStr now)) ''activated_by'' (PStr actor)
                 else if target = ''retired''
                 then (let rec = dset (dset rec ''retired_at'' (PStr now)) ''retired_by'' (PStr actor)
                       in dset rec ''effective_to'' (por (dget rec ''effective_to'') (PStr now)))
                 else rec)
      in dappend rec ''lifecycle''
           (PDict [(''ts'', PStr now), (''actor'', PStr actor), (''to'', PStr target)]))"

definition periods_overlap :: "pv \<Rightarrow> pv \<Rightarrow> pv \<Rightarrow> pv \<Rightarrow> bool" where
  "periods_overlap a_from a_to b_from b_to =
     (let a_end = pstr (por a_to (PStr ''9999-12-31''));
          b_end = pstr (por b_to (PStr ''9999-12-31''));
          a_start = pstr (por a_from (PStr ''0000-01-01''));
          b_start = pstr (por b_from (PStr ''0000-01-01''))
      in a_start \<le> b_end \<and> b_start \<le> a_end)"

definition is_mutable_version :: "pdict \<Rightarrow> bool" where
  "is_mutable_version record = (pstr (por (dget record ''status'') (PStr ''draft'')) = ''draft'')"

section \<open>Importing the catalogue\<close>

text \<open>One pass of the loop over the catalogue's controls: the frameworks and versions met so far,
  keyed as in the source, and the control definitions in order.\<close>

type_synonym import_state = "pdict dict \<times> pdict dict \<times> pdict list"

definition catalog_license :: pdict where
  "catalog_license = [(''content_origin'', PStr ''mori_summary''), (''redistribution_allowed'', PBool True),
     (''modification_allowed'', PBool True)]"

definition import_control ::
    "(string \<Rightarrow> string) \<Rightarrow> string \<Rightarrow> string \<Rightarrow> import_state \<Rightarrow> pdict \<Rightarrow> import_state" where
  "import_control H now created_by st c =
     (case st of (frameworks, versions, defs) \<Rightarrow>
       let fw = slug (gstr c ''framework'');
           ver = sor (strip (gstr c ''version'')) ''current'';
           cid = strip (gstr c ''id'')
       in if fw = [] \<or> cid = [] then st
          else
            let frameworks =
                  (if dhas frameworks fw then frameworks
                   else dset frameworks fw
                     (build_framework fw (pstr (por (dget c ''framework'') (PStr fw))) ''certification'' []
                        now created_by));
                fv = build_framework_version H fw ver [] PNone ''draft'' ''user_upload'' [] PNone [] []
                       catalog_license now created_by;
                versions = dset versions (gstr fv ''id'') fv;
                title = pstr (por (dget c ''title_ko'') (por (dget c ''title_en'') (PStr cid)));
                interp = [(''mori_summary'',
                            PStr (pstr (por (dget c ''intent_ko'') (por (dget c ''intent_en'') (PStr []))))),
                          (''operation_guide'',
                            PStr (pstr (por (dget c ''evidence_hint_ko'')
                              (por (dget c ''evidence_hint_en'') (PStr [])))))];
                d = build_control_definition H (gstr fv ''id'') cid title cid [] PNone interp now created_by
            in (frameworks, versions, defs @ [d]))"

definition plan_catalog_import ::
    "(string \<Rightarrow> string) \<Rightarrow> pdict list \<Rightarrow> string \<Rightarrow> string \<Rightarrow> pdict list \<times> pdict list \<times> pdict list" where
  "plan_catalog_import H controls now created_by =
     (case foldl (import_control H now created_by) ([], [], []) controls of
        (frameworks, versions, defs) \<Rightarrow> (map snd frameworks, map snd versions, defs))"

section \<open>Lemmas\<close>

lemma not_upper_lower_char: "\<not> is_upper (lower_char c)"
  by (auto simp: lower_char_def is_upper_def Let_def)

lemma lower_char_idem: "lower_char (lower_char c) = lower_char c"
  using not_upper_lower_char [of c] by (simp add: lower_char_def [of "lower_char c"])

lemma lower_idem [simp]: "lower (lower s) = lower s"
  by (simp add: lower_def lower_char_idem)

lemma slug_char_cases:
  "c \<in> set (slug s) \<Longrightarrow> \<not> is_upper c \<and> \<not> is_space c \<and> (is_alnum c \<or> c \<in> set ''-._'')"
proof -
  assume "c \<in> set (slug s)"
  then have "c \<in> (\<lambda>c. if is_alnum c \<or> c \<in> set ''-._'' then c else CHR ''-'') ` set (lower (strip s))"
    unfolding slug_def by (simp only: set_map [symmetric]) (erule in_set_takeD)
  then obtain d where d: "d \<in> set (lower (strip s))"
      "c = (if is_alnum d \<or> d \<in> set ''-._'' then d else CHR ''-'')"
    by (rule imageE)
  then have nu: "\<not> is_upper d" using not_upper_lower_char by (auto simp: lower_def)
  have ok: "is_alnum c \<or> c \<in> set ''-._''" using d by auto
  moreover have "\<not> is_space c" using ok
    by (auto simp: is_alnum_def is_digit_def is_upper_def is_lower_def is_space_def Let_def)
  moreover have "\<not> is_upper c" using d nu by (auto simp: is_upper_def)
  ultimately show ?thesis by blast
qed

lemma dropWhile_none: "\<forall>c\<in>set s. \<not> P c \<Longrightarrow> dropWhile P s = s"
  by (cases s) auto

lemma strip_no_space: "\<forall>c\<in>set s. \<not> is_space c \<Longrightarrow> strip s = s"
  by (simp add: strip_def lstrip_def dropWhile_none)

lemma slug_idem [simp]: "slug (slug s) = slug s"
proof -
  let ?f = "\<lambda>c. if is_alnum c \<or> c \<in> set ''-._'' then c else CHR ''-''"
  have 1: "strip (slug s) = slug s"
    by (rule strip_no_space) (use slug_char_cases in blast)
  have 2: "lower (slug s) = slug s"
    unfolding lower_def
    by (rule map_idI) (use slug_char_cases in \<open>simp add: lower_char_def\<close>)
  have 3: "map ?f (slug s) = slug s"
    by (rule map_idI) (use slug_char_cases in auto)
  have "length (slug s) \<le> 60" by (simp add: slug_def)
  then have "take 60 (map ?f (lower (strip (slug s)))) = slug s"
    by (simp only: 1 2 3) simp
  then show ?thesis by (subst slug_def)
qed

text \<open>The content hash sees the fields outside the volatile ones, and only them.\<close>

definition hash_text :: "pdict \<Rightarrow> string" where
  "hash_text record = jdump False (PDict (filter (\<lambda>kv. fst kv \<notin> set HASH_VOLATILE) record))"

lemma content_hash_eq: "content_hash H record = ''sha256:'' @ H (hash_text record)"
  by (simp add: content_hash_def hash_content_def hash_core_def sha256_hex_def canonical_json_def
      hash_text_def)

lemma hash_text_dset: "k \<in> set HASH_VOLATILE \<Longrightarrow> hash_text (dset r k v) = hash_text r"
  unfolding hash_text_def by (subst filter_dset) simp_all

lemma hash_text_dappend: "k \<in> set HASH_VOLATILE \<Longrightarrow> hash_text (dappend r k v) = hash_text r"
  by (simp add: dappend_def hash_text_dset)

lemma volatile_keys [simp]:
  "''content_hash'' \<in> set HASH_VOLATILE" "''canonicalization'' \<in> set HASH_VOLATILE"
  "''hash_algorithm'' \<in> set HASH_VOLATILE" "''status'' \<in> set HASH_VOLATILE"
  "''activated_at'' \<in> set HASH_VOLATILE" "''activated_by'' \<in> set HASH_VOLATILE"
  "''retired_at'' \<in> set HASH_VOLATILE" "''retired_by'' \<in> set HASH_VOLATILE"
  "''effective_to'' \<in> set HASH_VOLATILE" "''lifecycle'' \<in> set HASH_VOLATILE"
  by (simp_all add: HASH_VOLATILE_def)

text \<open>A record is sealed when its stored hash is the hash of its content.\<close>

definition sealed :: "(string \<Rightarrow> string) \<Rightarrow> pdict \<Rightarrow> bool" where
  "sealed H r = (dget r ''content_hash'' = PStr (content_hash H r))"

lemma sealed_stamp: "sealed H (stamp_hash H r)"
  by (simp add: sealed_def stamp_hash_def Let_def content_hash_eq hash_text_dset)

lemma sealed_dset: "sealed H r \<Longrightarrow> k \<in> set HASH_VOLATILE \<Longrightarrow> k \<noteq> ''content_hash'' \<Longrightarrow> sealed H (dset r k v)"
  by (simp add: sealed_def content_hash_eq hash_text_dset)

lemma sealed_dappend:
  "sealed H r \<Longrightarrow> k \<in> set HASH_VOLATILE \<Longrightarrow> k \<noteq> ''content_hash'' \<Longrightarrow> sealed H (dappend r k v)"
  by (simp add: dappend_def sealed_dset)

lemma sealed_version: "sealed H (build_framework_version H fid v ef et st sty sh su cr iv lic now cb)"
  by (simp add: build_framework_version_def Let_def sealed_stamp sealed_dset)

lemma sealed_lifecycle: "sealed H r \<Longrightarrow> sealed H (apply_version_lifecycle r t actor now)"
  by (simp add: apply_version_lifecycle_def Let_def sealed_dset sealed_dappend)

lemma hash_text_lifecycle: "hash_text (apply_version_lifecycle r t actor now) = hash_text r"
  by (simp add: apply_version_lifecycle_def Let_def hash_text_dset hash_text_dappend)

lemma lifecycle_dget:
  "k \<notin> {''status'', ''activated_at'', ''activated_by'', ''retired_at'', ''retired_by'', ''effective_to'',
      ''lifecycle''} \<Longrightarrow> dget (apply_version_lifecycle r t actor now) k = dget r k"
  by (simp add: apply_version_lifecycle_def Let_def)

lemma lifecycle_status [simp]: "dget (apply_version_lifecycle r t actor now) ''status'' = PStr t"
  by (simp add: apply_version_lifecycle_def Let_def)

lemma lifecycle_log: "dget (apply_version_lifecycle r t actor now) ''lifecycle''
    = PList (as_list (dget r ''lifecycle'')
        @ [PDict [(''ts'', PStr now), (''actor'', PStr actor), (''to'', PStr t)]])"
  by (simp add: apply_version_lifecycle_def Let_def)

lemma can_version_transition_iff:
  "can_version_transition c t \<longleftrightarrow>
     (t = ''active'' \<and> (c = [] \<or> c = ''draft'')) \<or> (t = ''retired'' \<and> c = ''active'')"
  by (auto simp: can_version_transition_def table_allows_def VERSION_TRANSITIONS_def sor_def)

interpretation version_flow: workflow can_version_transition
    "\<lambda>r t x. apply_version_lifecycle r t (fst x) (snd x)" VERSION_STATUSES "''lifecycle''"
    "\<lambda>r t x. PDict [(''ts'', PStr (snd x)), (''actor'', PStr (fst x)), (''to'', PStr t)]"
  by unfold_locales
    (auto simp: can_version_transition_iff VERSION_STATUSES_def lifecycle_log log_target_def)

end
