(* ===== verification/Hash_Chain.thy ===== *)
theory Hash_Chain
  imports Hashing
begin

text \<open>
  The contract that the two hash-chained logs of the platform share: the governance ledger
  (\<^verbatim>\<open>services/control_governance.py\<close>) and the log of user actions (\<^verbatim>\<open>api/server.py\<close>).  An entry is hashed over
  the hash of its predecessor, a bar and a canonical text of some of its fields; the verifier walks the
  entries and names the first one whose hash or link does not fit.  The locale says what such a verifier
  accepts, what it reports, and that accepted chains with the same last hash record the same fields.
\<close>

definition prev_text :: "pdict \<Rightarrow> string" where
  "prev_text e = pstr (dgetd e ''prev_hash'' (PStr []))"

definition chain_text :: "(pdict \<Rightarrow> string) \<Rightarrow> pdict \<Rightarrow> string" where
  "chain_text body e = prev_text e @ ''|'' @ body e"

definition hash_fits :: "(pdict \<Rightarrow> string) \<Rightarrow> (string \<Rightarrow> string) \<Rightarrow> pdict \<Rightarrow> bool" where
  "hash_fits body H e = (dget e ''hash'' = PStr (H (chain_text body e)))"

fun linked :: "pv option \<Rightarrow> pdict list \<Rightarrow> bool" where
  "linked p [] = True"
| "linked p (e # es) = ((p = None \<or> p = Some (dget e ''prev_hash'')) \<and> linked (Some (dget e ''hash'')) es)"

text \<open>Two logs collide when the digest agrees on different texts at the same position.\<close>

definition collides :: "(pdict \<Rightarrow> string) \<Rightarrow> (string \<Rightarrow> string) \<Rightarrow> pdict list \<Rightarrow> pdict list \<Rightarrow> bool" where
  "collides body H xs ys = (\<exists>i < length xs. chain_text body (xs ! i) \<noteq> chain_text body (ys ! i)
     \<and> H (chain_text body (xs ! i)) = H (chain_text body (ys ! i)))"

section \<open>Links\<close>

lemma linked_append:
  "linked p (es @ fs) \<longleftrightarrow> linked p es \<and> linked (if es = [] then p else Some (dget (last es) ''hash'')) fs"
  by (induction es arbitrary: p) auto

lemma linked_weaken: "linked p es \<Longrightarrow> linked None es"
  by (cases es) auto

lemma linked_drop: "linked None es \<Longrightarrow> linked None (drop n es)"
  by (metis append_take_drop_id linked_append linked_weaken)

lemma prev_text_dset: "k \<noteq> ''prev_hash'' \<Longrightarrow> prev_text (dset e k v) = prev_text e"
  by (simp add: prev_text_def dgetd_def)

lemma collides_append:
  "length xs = length ys \<Longrightarrow> collides body H xs ys \<Longrightarrow> collides body H (xs @ [a]) (ys @ [b])"
  unfolding collides_def by (metis length_append_singleton less_Suc_eq nth_append)

lemma collides_last:
  "length xs = length ys \<Longrightarrow> chain_text body a \<noteq> chain_text body b
   \<Longrightarrow> H (chain_text body a) = H (chain_text body b) \<Longrightarrow> collides body H (xs @ [a]) (ys @ [b])"
  unfolding collides_def by (rule exI [of _ "length xs"]) (simp add: nth_append)

lemma no_bar_split:
  assumes "p @ CHR ''|'' # j = q @ CHR ''|'' # k" "CHR ''|'' \<notin> set p" "CHR ''|'' \<notin> set q"
  shows "p = q \<and> j = k"
  using assms
proof (induction p arbitrary: q)
  case Nil
  then show ?case by (cases q) auto
next
  case (Cons c p)
  then show ?case by (cases q) auto
qed

section \<open>The contract\<close>

locale hash_chain =
  fixes broken :: "(string \<Rightarrow> string) \<Rightarrow> pv option \<Rightarrow> pdict list \<Rightarrow> pv option"
    and body :: "pdict \<Rightarrow> string"
    and core :: "pdict \<Rightarrow> pv"
    and label_of :: "pdict \<Rightarrow> pv"
  assumes broken_Nil: "broken H p [] = None"
    and broken_Cons: "broken H p (e # es) =
      (if hash_fits body H e \<and> (p = None \<or> p = Some (dget e ''prev_hash''))
       then broken H (Some (dget e ''hash'')) es else Some (label_of e))"
    and body_core: "body a = body b \<Longrightarrow> core a = core b"
begin

lemma broken_None: "broken H p es = None \<longleftrightarrow> list_all (hash_fits body H) es \<and> linked p es"
  by (induction es arbitrary: p) (auto simp: broken_Nil broken_Cons)

lemma broken_label: "broken H p es = Some b \<Longrightarrow> \<exists>e \<in> set es. b = label_of e"
  by (induction es arbitrary: p) (auto simp: broken_Nil broken_Cons split: if_splits)

lemma broken_append:
  "broken H p es = None \<Longrightarrow>
   broken H p (es @ fs) = broken H (if es = [] then p else Some (dget (last es) ''hash'')) fs"
  by (induction es arbitrary: p) (auto simp: broken_Nil broken_Cons split: if_splits)

lemma intact_part: "broken H None (xs @ es @ ys) = None \<Longrightarrow> broken H None es = None"
  by (auto simp: broken_None linked_append dest: linked_weaken)

lemma intact_drop: "broken H None es = None \<Longrightarrow> broken H None (drop n es) = None"
  using intact_part [of H "take n es" "drop n es" "[]"] by simp

lemma intact_snoc:
  "broken H None es = None \<Longrightarrow> hash_fits body H e
   \<Longrightarrow> (es \<noteq> [] \<Longrightarrow> dget e ''prev_hash'' = dget (last es) ''hash'') \<Longrightarrow> broken H None (es @ [e]) = None"
  by (auto simp: broken_None linked_append)

text \<open>An inner entry can only be removed unseen when it has the hash of its predecessor.\<close>

lemma gap_seen:
  "broken H None (xs @ e # ys) = None \<Longrightarrow> xs \<noteq> [] \<Longrightarrow> ys \<noteq> [] \<Longrightarrow> dget e ''hash'' \<noteq> dget (last xs) ''hash''
   \<Longrightarrow> broken H None (xs @ ys) \<noteq> None"
  by (cases ys) (auto simp: broken_None linked_append)

lemma text_core:
  assumes "chain_text body a = chain_text body b" "CHR ''|'' \<notin> set (prev_text a)" "CHR ''|'' \<notin> set (prev_text b)"
  shows "prev_text a = prev_text b \<and> core a = core b"
proof -
  have "prev_text a = prev_text b \<and> body a = body b"
    by (rule no_bar_split) (use assms in \<open>simp_all add: chain_text_def\<close>)
  then show ?thesis using body_core by blast
qed

text \<open>The entry that was edited is the one that is named.\<close>

lemma edit_named:
  assumes "broken H None (xs @ e # ys) = None"
    and "dget e' ''hash'' = dget e ''hash''" "prev_text e' = prev_text e" "core e' \<noteq> core e"
    and "H (chain_text body e') = H (chain_text body e) \<Longrightarrow> chain_text body e' = chain_text body e"
  shows "broken H None (xs @ e' # ys) = Some (label_of e')"
proof -
  have "chain_text body e' \<noteq> chain_text body e"
    using assms(3,4) body_core [of e' e] by (auto simp: chain_text_def)
  then have "\<not> hash_fits body H e'"
    using assms(1,2,5) by (auto simp: broken_None hash_fits_def)
  then have "broken H p (e' # ys) = Some (label_of e')" for p by (simp add: broken_Cons)
  moreover have "broken H None xs = None"
    using assms(1) by (auto simp: broken_None linked_append)
  ultimately show ?thesis by (simp only: broken_append)
qed

text \<open>In an accepted chain every link text but the first is a digest.\<close>

lemma link_digest:
  assumes "broken H None (es @ [a, b]) = None"
  shows "prev_text b = H (chain_text body a)"
proof -
  have "dget b ''prev_hash'' = PStr (H (chain_text body a))"
    using assms by (cases es) (auto simp: broken_None linked_append hash_fits_def)
  then show ?thesis by (auto simp: prev_text_def dgetd_def dget_def split: option.splits)
qed

lemma intact_butlast: "broken H None (xs @ [a]) = None \<Longrightarrow> broken H None xs = None"
  using intact_part [of H "[]" xs "[a]"] by simp

lemma same_history_snoc:
  assumes bar: "\<And>x. CHR ''|'' \<notin> set (H x)"
    and "broken H None (xs @ [a]) = None" "broken H None (ys @ [b]) = None" "length xs = length ys"
    and "CHR ''|'' \<notin> set (prev_text (hd (xs @ [a])))" "CHR ''|'' \<notin> set (prev_text (hd (ys @ [b])))"
    and "H (chain_text body a) = H (chain_text body b)"
  shows "map core (xs @ [a]) = map core (ys @ [b]) \<or> collides body H (xs @ [a]) (ys @ [b])"
  using assms(2-)
proof (induction xs arbitrary: ys a b rule: rev_induct)
  case Nil
  then show ?case
    using text_core [of a b] collides_last [of "[]" "[]" body a b H] by auto
next
  case (snoc c xs)
  from snoc.prems(3) obtain d zs where ys: "ys = zs @ [d]"
    by (cases ys rule: rev_cases) auto
  have ca: "prev_text a = H (chain_text body c)" and db: "prev_text b = H (chain_text body d)"
    using snoc.prems(1,2) ys link_digest [of H xs c a] link_digest [of H zs d b] by simp_all
  show ?case
  proof (cases "chain_text body a = chain_text body b")
    case False
    then show ?thesis using snoc.prems(3,6) by (intro disjI2 collides_last) simp_all
  next
    case True
    then have eq: "prev_text a = prev_text b \<and> core a = core b"
      by (rule text_core) (simp_all add: ca db bar)
    have "map core (xs @ [c]) = map core (zs @ [d]) \<or> collides body H (xs @ [c]) (zs @ [d])"
    proof (rule snoc.IH)
      show "H (chain_text body c) = H (chain_text body d)" using eq ca db by simp
    qed (use snoc.prems ys intact_butlast [of H "xs @ [c]" a] intact_butlast [of H "zs @ [d]" b]
         in \<open>auto simp: hd_append split: if_splits\<close>)
    then show ?thesis
      using eq ys collides_append [of "xs @ [c]" "zs @ [d]" body H a b] snoc.prems(3) by auto
  qed
qed

lemma same_history:
  assumes "\<And>x. CHR ''|'' \<notin> set (H x)"
    and "broken H None xs = None" "broken H None ys = None" "length xs = length ys" "xs \<noteq> []"
    and "CHR ''|'' \<notin> set (prev_text (hd xs))" "CHR ''|'' \<notin> set (prev_text (hd ys))"
    and "dget (last xs) ''hash'' = dget (last ys) ''hash''"
  shows "map core xs = map core ys \<or> collides body H xs ys"
proof -
  obtain a as where xs: "xs = as @ [a]" using assms(5) by (cases xs rule: rev_cases) auto
  obtain b bs where ys: "ys = bs @ [b]" using assms(4,5) by (cases ys rule: rev_cases) auto
  have "H (chain_text body a) = H (chain_text body b)"
    using assms(2,3,8) by (simp add: xs ys broken_None hash_fits_def)
  then show ?thesis
    unfolding xs ys using assms by (intro same_history_snoc) (simp_all add: xs ys)
qed

end

end
