(* ===== verification/Gov_Chain.thy ===== *)
theory Gov_Chain
  imports Governance Hash_Chain
begin

text \<open>
  The append-only event ledger of \<^verbatim>\<open>services/control_governance.py\<close>: the hash of an event, the
  event builder and the verifier of the hash chain.  The theorems say what the verifier accepts
  (every ledger that was only appended to), what it reports (an edited event, a removed inner
  event) and what it cannot see (a removed beginning or end).
\<close>

section \<open>Events and the verifier\<close>

definition EVENT_HASH_FIELDS :: "string list" where
  "EVENT_HASH_FIELDS = [''event_id'', ''kind'', ''entity_id'', ''revision'', ''event_type'',
     ''actor'', ''occurred_at'', ''payload'']"

definition event_core :: "pdict \<Rightarrow> pdict" where
  "event_core entry = map (\<lambda>k. (k, dget entry k)) EVENT_HASH_FIELDS"

definition governance_event_hash :: "(string \<Rightarrow> string) \<Rightarrow> string \<Rightarrow> pdict \<Rightarrow> string" where
  "governance_event_hash H prev_hash entry =
     H (prev_hash @ ''|'' @ jdump False (PDict (event_core entry)))"

definition build_governance_event ::
    "(string \<Rightarrow> string) \<Rightarrow> string \<Rightarrow> string \<Rightarrow> string \<Rightarrow> int \<Rightarrow> string \<Rightarrow> string \<Rightarrow> string \<Rightarrow> pdict \<Rightarrow> pdict" where
  "build_governance_event H prev_hash kind entity_id revision event_type actor occurred_at payload =
     (let entry =
            [(''event_id'', PStr (kind @ '':'' @ entity_id @ '':r'' @ int_str revision)),
             (''kind'', PStr kind), (''entity_id'', PStr entity_id), (''revision'', PInt revision),
             (''event_type'', PStr event_type), (''actor'', PStr actor),
             (''occurred_at'', PStr occurred_at), (''payload'', PDict payload),
             (''prev_hash'', PStr prev_hash)]
      in dset entry ''hash'' (PStr (governance_event_hash H prev_hash entry)))"

text \<open>The verifier's loop: the identifier of the first event that does not fit, if there is one.\<close>

fun broken_from :: "(string \<Rightarrow> string) \<Rightarrow> pv option \<Rightarrow> pdict list \<Rightarrow> pv option" where
  "broken_from H prev_link [] = None"
| "broken_from H prev_link (e # es) =
     (let recomputed = governance_event_hash H (pstr (dgetd e ''prev_hash'' (PStr []))) e
      in if PStr recomputed \<noteq> dget e ''hash'' then Some (dget e ''event_id'')
         else if prev_link \<noteq> None \<and> Some (dget e ''prev_hash'') \<noteq> prev_link
           then Some (dget e ''event_id'')
         else broken_from H (Some (dget e ''hash'')) es)"

record chain_verdict =
  cv_ok :: bool
  cv_count :: int
  cv_broken_at :: pv

definition verify_governance_chain :: "(string \<Rightarrow> string) \<Rightarrow> pdict list \<Rightarrow> chain_verdict" where
  "verify_governance_chain H events =
     (case broken_from H None events of
        Some eid \<Rightarrow> \<lparr>cv_ok = False, cv_count = int (length events), cv_broken_at = eid\<rparr>
      | None \<Rightarrow> \<lparr>cv_ok = True, cv_count = int (length events), cv_broken_at = PNone\<rparr>)"

section \<open>What a verified chain is\<close>

definition event_body :: "pdict \<Rightarrow> string" where
  "event_body e = jdump False (PDict (event_core e))"

definition core_of :: "pdict \<Rightarrow> pv" where
  "core_of e = pnorm (PDict (event_core e))"

abbreviation hash_ok :: "(string \<Rightarrow> string) \<Rightarrow> pdict \<Rightarrow> bool" where
  "hash_ok \<equiv> hash_fits event_body"

lemma event_hash_text:
  "governance_event_hash H (pstr (dgetd e ''prev_hash'' (PStr []))) e = H (chain_text event_body e)"
  by (simp add: governance_event_hash_def chain_text_def event_body_def prev_text_def)

lemma event_body_core: "event_body a = event_body b \<Longrightarrow> core_of a = core_of b"
  using canonical_json_eq_iff [of "PDict (event_core a)" False "PDict (event_core b)"]
  by (simp add: event_body_def core_of_def canonical_json_def)

interpretation ledger: hash_chain broken_from event_body core_of "\<lambda>e. dget e ''event_id''"
  by unfold_locales (auto simp: event_hash_text hash_fits_def intro: event_body_core)

lemma verify_ok_iff: "cv_ok (verify_governance_chain H es) \<longleftrightarrow> broken_from H None es = None"
  by (auto simp: verify_governance_chain_def split: option.splits)

section \<open>Appending\<close>

text \<open>\<^verbatim>\<open>repo.latest_governance_event()\<close> and the hash the next event is linked to.\<close>

definition latest_hash :: "pdict list \<Rightarrow> string" where
  "latest_hash ledger = (if ledger = [] then ''GENESIS'' else pstr (dget (last ledger) ''hash''))"

lemma built_fields:
  "dget (build_governance_event H p k i r t a oc pl) ''prev_hash'' = PStr p"
  "dget (build_governance_event H p k i r t a oc pl) ''event_id'' = PStr (k @ '':'' @ i @ '':r'' @ int_str r)"
  "dget (build_governance_event H p k i r t a oc pl) ''kind'' = PStr k"
  "dget (build_governance_event H p k i r t a oc pl) ''entity_id'' = PStr i"
  by (simp_all add: build_governance_event_def Let_def)

lemma event_core_dset: "k \<notin> set EVENT_HASH_FIELDS \<Longrightarrow> event_core (dset e k v) = event_core e"
  by (auto simp: event_core_def)

lemma hash_ok_sealed:
  assumes "prev_text e = p"
  shows "hash_ok H (dset e ''hash'' (PStr (governance_event_hash H p e)))"
proof -
  have "''hash'' \<notin> set EVENT_HASH_FIELDS" by (simp add: EVENT_HASH_FIELDS_def)
  then have "chain_text event_body (dset e ''hash'' v) = p @ ''|'' @ jdump False (PDict (event_core e))" for v
    using assms by (simp add: chain_text_def event_body_def prev_text_dset event_core_dset del: jdump.simps)
  then show ?thesis
    by (simp add: hash_fits_def governance_event_hash_def del: jdump.simps)
qed

lemma hash_ok_built: "hash_ok H (build_governance_event H p k i r t a oc pl)"
  unfolding build_governance_event_def Let_def
  by (rule hash_ok_sealed) (simp add: prev_text_def dgetd_def)

lemma verify_append_built:
  assumes "cv_ok (verify_governance_chain H es)"
  shows "cv_ok (verify_governance_chain H (es @ [build_governance_event H (latest_hash es) k i r t a oc pl]))"
proof -
  have ok: "broken_from H None es = None" using assms by (simp add: verify_ok_iff)
  then have "es \<noteq> [] \<Longrightarrow> dget (last es) ''hash'' = PStr (latest_hash es)"
    by (auto simp: latest_hash_def ledger.broken_None hash_fits_def list_all_iff)
  then show ?thesis
    unfolding verify_ok_iff by (intro ledger.intact_snoc ok hash_ok_built) (simp add: built_fields)
qed

section \<open>Properties\<close>

lemma verified_parts: "cv_ok (verify_governance_chain H (xs @ es @ ys)) \<Longrightarrow> cv_ok (verify_governance_chain H es)"
  unfolding verify_ok_iff by (rule ledger.intact_part)

text \<open>A two-event ledger as the store writes it, for the witnesses.\<close>

definition demo_digest :: "string \<Rightarrow> string" where
  "demo_digest s = dec (length s)"

definition demo_first :: pdict where
  "demo_first = build_governance_event demo_digest ''GENESIS'' ''framework'' ''iso'' 1 ''create'' ''kim'' ''2024-01-01'' []"

definition demo_second :: pdict where
  "demo_second = build_governance_event demo_digest (latest_hash [demo_first]) ''framework'' ''iso'' 2
     ''update'' ''lee'' ''2024-01-02'' []"

definition demo_third :: pdict where
  "demo_third = build_governance_event demo_digest (latest_hash [demo_first, demo_second]) ''framework''
     ''iso-27001'' 1 ''create'' ''lee'' ''2024-01-02'' []"

definition demo_ledger :: "pdict list" where
  "demo_ledger = [demo_first, demo_second, demo_third]"

lemma demo_verified: "cv_ok (verify_governance_chain demo_digest demo_ledger)"
proof -
  have 0: "cv_ok (verify_governance_chain demo_digest [])"
    by (simp add: verify_governance_chain_def)
  have "cv_ok (verify_governance_chain demo_digest [demo_first])"
    using verify_append_built [OF 0] by (simp add: demo_first_def latest_hash_def)
  from verify_append_built [OF this]
  have "cv_ok (verify_governance_chain demo_digest [demo_first, demo_second])"
    by (simp add: demo_second_def)
  from verify_append_built [OF this] show ?thesis
    by (simp add: demo_ledger_def demo_third_def)
qed

lemma demo_no_bar: "CHR ''|'' \<notin> set (demo_digest x)"
  using dec_digits [of "CHR ''|''" "length x"] by (auto simp: demo_digest_def is_digit_def)

text \<open>C6: Two verified ledgers of the same length whose last events carry the same hash record the same
  event fields, event by event, up to the order of keys, or the digest collides on two event texts at
  the same position (the digest is a hexdigest: it never prints the separator).\<close>

theorem chain_tamper_evident:
  assumes "\<And>x. CHR ''|'' \<notin> set (H x)"
    and "cv_ok (verify_governance_chain H xs)" "cv_ok (verify_governance_chain H ys)"
    and "length xs = length ys" "xs \<noteq> []"
    and "CHR ''|'' \<notin> set (prev_text (hd xs))" "CHR ''|'' \<notin> set (prev_text (hd ys))"
    and "dget (last xs) ''hash'' = dget (last ys) ''hash''"
  shows "map core_of xs = map core_of ys \<or> collides event_body H xs ys"
  using assms by (intro ledger.same_history) (simp_all add: verify_ok_iff)

theorem chain_tamper_evident_witness:
  "map core_of demo_ledger = map core_of demo_ledger \<or> collides event_body demo_digest demo_ledger demo_ledger"
proof (rule chain_tamper_evident)
  show "CHR ''|'' \<notin> set (prev_text (hd demo_ledger))"
    by (simp add: demo_ledger_def demo_first_def prev_text_def dgetd_def build_governance_event_def)
  then show "CHR ''|'' \<notin> set (prev_text (hd demo_ledger))" .
qed (simp_all add: demo_verified demo_no_bar, simp add: demo_ledger_def)

text \<open>An event of a verified ledger that is edited in place, its stored hashes left alone, is the one
  the verifier names, unless the digest collides on the old and the new text.\<close>

lemma chain_edit_reported:
  assumes "cv_ok (verify_governance_chain H (xs @ e # ys))"
    and "dget e' ''hash'' = dget e ''hash''" "prev_text e' = prev_text e" "core_of e' \<noteq> core_of e"
    and "H (chain_text event_body e') = H (chain_text event_body e)
      \<Longrightarrow> chain_text event_body e' = chain_text event_body e"
  shows "verify_governance_chain H (xs @ e' # ys) =
    \<lparr>cv_ok = False, cv_count = int (length (xs @ e' # ys)), cv_broken_at = dget e' ''event_id''\<rparr>"
proof -
  have "broken_from H None (xs @ e' # ys) = Some (dget e' ''event_id'')"
    by (rule ledger.edit_named [OF _ assms(2-5)]) (use assms(1) in \<open>simp add: verify_ok_iff\<close>)
  then show ?thesis by (simp only: verify_governance_chain_def option.case)
qed

theorem chain_edit_reported_witness:
  "verify_governance_chain demo_digest [demo_first, dset demo_second ''actor'' (PStr ''mallory''), demo_third] =
    \<lparr>cv_ok = False, cv_count = 3, cv_broken_at = PStr ''framework:iso:r2''\<rparr>"
proof -
  let ?e = "dset demo_second ''actor'' (PStr ''mallory'')"
  have len: "length (chain_text event_body ?e) \<noteq> length (chain_text event_body demo_second)" by code_simp
  have "verify_governance_chain demo_digest ([demo_first] @ ?e # [demo_third]) =
    \<lparr>cv_ok = False, cv_count = int (length ([demo_first] @ ?e # [demo_third])),
      cv_broken_at = dget ?e ''event_id''\<rparr>"
  proof (rule chain_edit_reported [where e = demo_second])
    show "cv_ok (verify_governance_chain demo_digest ([demo_first] @ demo_second # [demo_third]))"
      using demo_verified by (simp add: demo_ledger_def)
    show "core_of ?e \<noteq> core_of demo_second" by code_simp
    show "prev_text ?e = prev_text demo_second" by (simp add: prev_text_dset)
  qed (use len in \<open>simp_all add: demo_digest_def\<close>)
  moreover have "dget ?e ''event_id'' = PStr ''framework:iso:r2''" by code_simp
  ultimately show ?thesis by simp
qed

text \<open>Removing an inner event of a verified ledger is detected, unless the event and its predecessor
  carry the same hash.\<close>

theorem chain_inner_removal_reported:
  assumes "cv_ok (verify_governance_chain H (xs @ e # ys))" "xs \<noteq> []" "ys \<noteq> []"
    and "dget e ''hash'' \<noteq> dget (last xs) ''hash''"
  shows "\<not> cv_ok (verify_governance_chain H (xs @ ys))"
  using ledger.gap_seen assms by (simp add: verify_ok_iff)

theorem chain_inner_removal_reported_witness:
  "\<not> cv_ok (verify_governance_chain demo_digest ([demo_first] @ [demo_third]))"
proof (rule chain_inner_removal_reported [where e = demo_second])
  show "cv_ok (verify_governance_chain demo_digest ([demo_first] @ demo_second # [demo_third]))"
    using demo_verified by (simp add: demo_ledger_def)
  show "dget demo_second ''hash'' \<noteq> dget (last [demo_first]) ''hash''" by code_simp
qed simp_all

text \<open>Removing events from the beginning or the end of a verified ledger is not detected: what is
  left is accepted again.\<close>

lemma chain_end_removal_unseen:
  assumes "cv_ok (verify_governance_chain H (xs @ es @ ys))"
  shows "verify_governance_chain H es = \<lparr>cv_ok = True, cv_count = int (length es), cv_broken_at = PNone\<rparr>"
  using verified_parts [OF assms] by (auto simp: verify_governance_chain_def split: option.splits)

theorem chain_end_removal_unseen_witness:
  "verify_governance_chain demo_digest [demo_second] = \<lparr>cv_ok = True, cv_count = 1, cv_broken_at = PNone\<rparr>"
  using chain_end_removal_unseen [of demo_digest "[demo_first]" "[demo_second]" "[demo_third]"] demo_verified
  by (simp add: demo_ledger_def)

end
