(* ===== verification/Gov_Cycle.thy ===== *)
theory Gov_Cycle
  imports Governance
begin

text \<open>
  The controls of an assurance cycle, \<^verbatim>\<open>services/control_governance.py\<close>: building a cycle control,
  updating it (evidence and assessment statuses kept apart, history append-only, judgements pinned
  to their evidence), and replaying its history as of a date.  The history is what an auditor
  sees, so the theorems relate it to the fields of the record.
\<close>

section \<open>Building and updating\<close>

definition history_entry :: "string \<Rightarrow> string \<Rightarrow> string \<Rightarrow> pdict \<Rightarrow> pdict" where
  "history_entry ts actor action rest =
     [(''ts'', PStr ts), (''actor'', PStr actor), (''action'', PStr action)] @ rest"

definition build_cycle_control ::
    "string \<Rightarrow> string \<Rightarrow> string \<Rightarrow> string \<Rightarrow> string \<Rightarrow> string \<Rightarrow> pdict" where
  "build_cycle_control cycle_id control_ref assignee applicability now created_by =
     (let cc_id = slug cycle_id @ '':'' @ slug control_ref;
          initial = [(''assignee'', PStr assignee), (''applicability'', PStr applicability),
                     (''evidence_status'', PStr ''missing''), (''assessment_status'', PStr ''not_assessed''),
                     (''evidence_contract_ref'', PStr [])]
      in [(''id'', PStr cc_id), (''cycle_control_id'', PStr cc_id), (''cycle_id'', PStr cycle_id),
          (''control_ref'', PStr control_ref)] @ initial @
         [(''created_at'', PStr now), (''created_by'', PStr created_by), (''updated_at'', PStr now),
          (''history'', PList [PDict (history_entry now created_by ''created'' [(''changed'', PDict initial)])])])"

definition ASSESSMENT_JUDGMENTS :: "string list" where
  "ASSESSMENT_JUDGMENTS = [''design_deficient'', ''implemented'', ''operating'', ''ineffective'',
     ''effective'', ''exception_approved'', ''remediation_required'']"

text \<open>The keyword arguments of an update.\<close>

record cc_update =
  up_actor :: string
  up_now :: string
  up_evidence_status :: string
  up_assessment_status :: string
  up_applicability :: string
  up_assignee :: string
  up_note :: string
  up_evidence_set_hash :: string
  up_rationale :: string
  up_scope_snapshot_id :: string

text \<open>The loop over the four fields: a given value that differs is written and recorded.\<close>

definition set_changed :: "pdict \<times> pdict \<Rightarrow> string \<times> string \<Rightarrow> pdict \<times> pdict" where
  "set_changed st fv =
     (case (st, fv) of ((cc, changed), (field, val)) \<Rightarrow>
        if val \<noteq> [] \<and> dget cc field \<noteq> PStr val
        then (dset cc field (PStr val), dset changed field (PStr val)) else st)"

definition update_fields :: "cc_update \<Rightarrow> (string \<times> string) list" where
  "update_fields u =
     [(''evidence_status'', up_evidence_status u), (''assessment_status'', up_assessment_status u),
      (''applicability'', up_applicability u), (''assignee'', up_assignee u)]"

definition assessment_snapshot :: "pdict \<Rightarrow> cc_update \<Rightarrow> pdict" where
  "assessment_snapshot cc u =
     [(''assessment_version'', PInt (int (length (as_list (dget cc ''assessments''))) + 1)),
      (''status'', PStr (up_assessment_status u)),
      (''evidence_set_hash'', PStr (up_evidence_set_hash u)),
      (''assessed_by'', PStr (up_actor u)), (''assessed_at'', PStr (up_now u)),
      (''rationale'', PStr (up_rationale u)), (''scope_snapshot_id'', PStr (up_scope_snapshot_id u))]"

definition apply_cycle_control_update :: "pdict \<Rightarrow> cc_update \<Rightarrow> pdict" where
  "apply_cycle_control_update cc u =
     (let (cc, changed) = foldl set_changed (cc, []) (update_fields u);
          (cc, changed) =
            (if up_applicability u \<noteq> [] \<and> truthy (dget cc ''applicability_pending_review'')
             then (dset cc ''applicability_pending_review'' (PBool False),
                   dset changed ''applicability_pending_review'' (PBool False))
             else (cc, changed));
          cc = (if up_assessment_status u \<in> set ASSESSMENT_JUDGMENTS \<and> dhas changed ''assessment_status''
                then dappend cc ''assessments'' (PDict (assessment_snapshot cc u)) else cc)
      in if changed = [] \<and> up_note u = []
         then dset cc ''_changed'' (PBool False)
         else let cc = dset cc ''updated_at'' (PStr (up_now u));
                  cc = dappend cc ''history''
                         (PDict (history_entry (up_now u) (up_actor u) ''update''
                           [(''changed'', PDict changed), (''note'', PStr (up_note u))]))
              in dset cc ''_changed'' (PBool True))"

section \<open>Replaying the history\<close>

definition as_of_initial :: pdict where
  "as_of_initial = [(''evidence_status'', PStr ''missing''), (''assessment_status'', PStr ''not_assessed''),
     (''applicability'', PStr ''pending_assessment''), (''assignee'', PStr [])]"

text \<open>The loop: stop at the first entry later than the date, else apply what the entry changed.\<close>

fun replay :: "string \<Rightarrow> pdict \<Rightarrow> pv list \<Rightarrow> pdict" where
  "replay as_of_ts state [] = state"
| "replay as_of_ts state (h # hs) =
     (if as_of_ts < gstr (as_dict h) ''ts'' then state
      else replay as_of_ts (dmerge state (as_dict (dget (as_dict h) ''changed''))) hs)"

definition cycle_control_as_of :: "pdict \<Rightarrow> string \<Rightarrow> pdict" where
  "cycle_control_as_of cc as_of_ts =
     dset (replay as_of_ts as_of_initial (as_list (dget cc ''history''))) ''as_of'' (PStr as_of_ts)"

definition build_cycle_audit_snapshot :: "pdict \<Rightarrow> pdict list \<Rightarrow> string \<Rightarrow> pdict \<Rightarrow> pdict" where
  "build_cycle_audit_snapshot cycle cycle_controls as_of scope_snapshot =
     (let controls = map (\<lambda>cc. dmerge [(''cycle_control_id'', dget cc ''id''), (''control_ref'', dget cc ''control_ref'')]
                                  (cycle_control_as_of cc as_of)) cycle_controls
      in [(''cycle_id'', dget cycle ''id''), (''cycle_name'', dget cycle ''name''),
          (''framework_version_id'', dget cycle ''framework_version_id''), (''as_of'', PStr as_of),
          (''control_count'', PInt (int (length controls))),
          (''evidence_status_counts'', of_counts (count_by (\<lambda>c. pstr (dget c ''evidence_status'')) controls)),
          (''assessment_status_counts'', of_counts (count_by (\<lambda>c. pstr (dget c ''assessment_status'')) controls)),
          (''scope_snapshot_id'', por (dget scope_snapshot ''id'') (dget cycle ''scope_snapshot_id'')),
          (''controls'', PList (map PDict controls))])"

section \<open>Lemmas\<close>

definition tracked :: "string list" where
  "tracked = [''evidence_status'', ''assessment_status'', ''applicability'', ''assignee'']"

text \<open>The two writing steps of an update, before anything is logged.\<close>

definition field_changes :: "pdict \<Rightarrow> cc_update \<Rightarrow> pdict \<times> pdict" where
  "field_changes cc u =
     (let (cc, changed) = foldl set_changed (cc, []) (update_fields u)
      in if up_applicability u \<noteq> [] \<and> truthy (dget cc ''applicability_pending_review'')
         then (dset cc ''applicability_pending_review'' (PBool False),
               dset changed ''applicability_pending_review'' (PBool False))
         else (cc, changed))"

definition judged :: "pdict \<Rightarrow> cc_update \<Rightarrow> bool" where
  "judged changed u = (up_assessment_status u \<in> set ASSESSMENT_JUDGMENTS \<and> dhas changed ''assessment_status'')"

definition is_noop :: "pdict \<Rightarrow> cc_update \<Rightarrow> bool" where
  "is_noop cc u = (snd (field_changes cc u) = [] \<and> up_note u = [])"

definition update_entry :: "pdict \<Rightarrow> cc_update \<Rightarrow> pv" where
  "update_entry changed u = PDict (history_entry (up_now u) (up_actor u) ''update''
     [(''changed'', PDict changed), (''note'', PStr (up_note u))])"

lemma apply_update_eq:
  "apply_cycle_control_update cc u =
     (let cc1 = fst (field_changes cc u); changed = snd (field_changes cc u);
          cc2 = (if judged changed u then dappend cc1 ''assessments'' (PDict (assessment_snapshot cc1 u)) else cc1)
      in if is_noop cc u then dset cc2 ''_changed'' (PBool False)
         else dset (dappend (dset cc2 ''updated_at'' (PStr (up_now u))) ''history'' (update_entry changed u))
                ''_changed'' (PBool True))"
  unfolding apply_cycle_control_update_def field_changes_def judged_def is_noop_def update_entry_def
  by (auto simp: Let_def split: prod.splits)

text \<open>What was written is what is recorded as changed.\<close>

definition recorded :: "pdict \<Rightarrow> pdict \<times> pdict \<Rightarrow> bool" where
  "recorded cc0 st =
     (dwf (snd st) \<and> (\<forall>k. dget (fst st) k = (if dhas (snd st) k then dget (snd st) k else dget cc0 k)))"

lemma recorded_set_changed: "recorded cc0 st \<Longrightarrow> recorded cc0 (set_changed st fv)"
  by (auto simp: recorded_def set_changed_def split: prod.splits)

lemma recorded_foldl: "recorded cc0 st \<Longrightarrow> recorded cc0 (foldl set_changed st fvs)"
  by (induction fvs arbitrary: st) (simp_all add: recorded_set_changed)

lemma recorded_field_changes: "recorded cc (field_changes cc u)"
proof -
  have "recorded cc (foldl set_changed (cc, []) (update_fields u))"
    by (rule recorded_foldl) (simp add: recorded_def)
  then show ?thesis
    by (auto simp: field_changes_def recorded_def Let_def split: prod.splits)
qed

lemma field_changes_dget: "dget (fst (field_changes cc u)) k = dget (dmerge cc (snd (field_changes cc u))) k"
  using recorded_field_changes [of cc u] by (simp add: recorded_def dget_dmerge)

lemma field_changes_dwf: "dwf (snd (field_changes cc u))"
  using recorded_field_changes [of cc u] by (simp add: recorded_def)

lemma set_changed_other:
  "k \<noteq> fst fv \<Longrightarrow> dget (fst (set_changed st fv)) k = dget (fst st) k
     \<and> (dhas (snd (set_changed st fv)) k = dhas (snd st) k)"
  by (auto simp: set_changed_def split: prod.splits)

lemma foldl_set_changed_other:
  "k \<notin> fst ` set fvs \<Longrightarrow> dget (fst (foldl set_changed st fvs)) k = dget (fst st) k
     \<and> (dhas (snd (foldl set_changed st fvs)) k = dhas (snd st) k)"
  by (induction fvs arbitrary: st) (simp_all add: set_changed_other)

lemma field_changes_other:
  assumes "k \<notin> set tracked" "k \<noteq> ''applicability_pending_review''"
  shows "dget (fst (field_changes cc u)) k = dget cc k"
    and "\<not> dhas (snd (field_changes cc u)) k"
proof -
  have "k \<notin> fst ` set (update_fields u)"
    using assms(1) by (auto simp: update_fields_def tracked_def)
  from foldl_set_changed_other [OF this, of "(cc, [])"] assms(2)
  show "dget (fst (field_changes cc u)) k = dget cc k" "\<not> dhas (snd (field_changes cc u)) k"
    by (auto simp: field_changes_def Let_def split: prod.splits)
qed

text \<open>The fields of an updated record.\<close>

lemma update_dget:
  "k \<notin> {''assessments'', ''updated_at'', ''history'', ''_changed''} \<Longrightarrow>
   dget (apply_cycle_control_update cc u) k = dget (fst (field_changes cc u)) k"
  by (simp add: apply_update_eq Let_def)

lemma update_history:
  "as_list (dget (apply_cycle_control_update cc u) ''history'') =
     as_list (dget cc ''history'') @ (if is_noop cc u then [] else [update_entry (snd (field_changes cc u)) u])"
  using field_changes_other(1) [of "''history''" cc u]
  by (simp add: apply_update_eq Let_def tracked_def)

lemma update_assessments:
  "as_list (dget (apply_cycle_control_update cc u) ''assessments'') =
     as_list (dget cc ''assessments'') @
       (if judged (snd (field_changes cc u)) u then [PDict (assessment_snapshot (fst (field_changes cc u)) u)] else [])"
  using field_changes_other(1) [of "''assessments''" cc u]
  by (simp add: apply_update_eq Let_def tracked_def)

lemma update_entry_ts [simp]: "gstr (as_dict (update_entry ch u)) ''ts'' = up_now u"
  by (cases "up_now u") (simp_all add: update_entry_def history_entry_def)

lemma update_entry_changed [simp]: "dget (as_dict (update_entry ch u)) ''changed'' = PDict ch"
  by (simp add: update_entry_def history_entry_def)

section \<open>The past cannot be changed\<close>

lemma replay_append_later:
  "t < gstr (as_dict h) ''ts'' \<Longrightarrow> replay t st (hs @ [h]) = replay t st hs"
  by (induction hs arbitrary: st) simp_all

lemma replay_append_all:
  "\<forall>h \<in> set hs. gstr (as_dict h) ''ts'' \<le> t \<Longrightarrow> replay t st (hs @ es) = replay t (replay t st hs) es"
  by (induction hs arbitrary: st) (auto simp: not_less)

lemma as_of_update_later:
  "t < up_now u \<Longrightarrow> cycle_control_as_of (apply_cycle_control_update cc u) t = cycle_control_as_of cc t"
  by (simp add: cycle_control_as_of_def update_history replay_append_later)

section \<open>The present is what the history replays to\<close>

definition hist_ts_le :: "string \<Rightarrow> pdict \<Rightarrow> bool" where
  "hist_ts_le t cc = (\<forall>h \<in> set (as_list (dget cc ''history'')). gstr (as_dict h) ''ts'' \<le> t)"

definition hist_current :: "string \<Rightarrow> pdict \<Rightarrow> bool" where
  "hist_current t cc = (hist_ts_le t cc \<and>
     (\<forall>k \<in> set tracked. dget (replay t as_of_initial (as_list (dget cc ''history''))) k = dget cc k))"

lemma hist_current_update:
  assumes "hist_current t cc" "up_now u \<le> t"
  shows "hist_current t (apply_cycle_control_update cc u)"
proof -
  let ?h = "as_list (dget cc ''history'')" and ?ch = "snd (field_changes cc u)"
  have le: "\<forall>h \<in> set ?h. gstr (as_dict h) ''ts'' \<le> t"
    using assms(1) by (simp add: hist_current_def hist_ts_le_def)
  have cur: "dget (replay t as_of_initial ?h) k = dget cc k" if "k \<in> set tracked" for k
    using assms(1) that by (simp add: hist_current_def)
  have new: "dget (apply_cycle_control_update cc u) k = dget (dmerge cc ?ch) k" if "k \<in> set tracked" for k
  proof -
    have "k \<notin> {''assessments'', ''updated_at'', ''history'', ''_changed''}"
      using that by (auto simp: tracked_def)
    then show ?thesis by (simp add: update_dget field_changes_dget)
  qed
  have rep: "dget (replay t as_of_initial (as_list (dget (apply_cycle_control_update cc u) ''history''))) k
      = dget (dmerge cc ?ch) k" if "k \<in> set tracked" for k
  proof (cases "is_noop cc u")
    case True
    then have "?ch = []" by (simp add: is_noop_def)
    with True cur [OF that] show ?thesis by (simp add: update_history dmerge_def)
  next
    case False
    then show ?thesis
      using assms(2) cur [OF that] field_changes_dwf [of cc u]
      by (simp add: update_history replay_append_all [OF le] dget_dmerge not_less [symmetric])
  qed
  show ?thesis
    using le assms(2) new rep by (auto simp: hist_current_def hist_ts_le_def update_history)
qed

lemma build_history:
  "dget (build_cycle_control cid ref asg app now cb) ''history'' =
     PList [PDict (history_entry now cb ''created'' [(''changed'', PDict
       [(''assignee'', PStr asg), (''applicability'', PStr app), (''evidence_status'', PStr ''missing''),
        (''assessment_status'', PStr ''not_assessed''), (''evidence_contract_ref'', PStr [])])])]"
  by (simp add: build_cycle_control_def Let_def)

lemma hist_current_build: "now \<le> t \<Longrightarrow> hist_current t (build_cycle_control cid ref asg app now cb)"
  by (auto simp: hist_current_def hist_ts_le_def build_history history_entry_def tracked_def
      build_cycle_control_def Let_def dmerge_def as_of_initial_def)

lemma hist_current_run:
  "hist_current t cc \<Longrightarrow> \<forall>u \<in> set us. up_now u \<le> t \<Longrightarrow>
   hist_current t (foldl apply_cycle_control_update cc us)"
  by (induction us arbitrary: cc) (simp_all add: hist_current_update)

lemma hist_current_as_of:
  "hist_current t cc \<Longrightarrow> k \<in> set tracked \<Longrightarrow> dget (cycle_control_as_of cc t) k = dget cc k"
  by (auto simp: hist_current_def cycle_control_as_of_def tracked_def)

lemma set_changed_get:
  "dget (fst (set_changed st (f, v))) f = (if v = [] then dget (fst st) f else PStr v)
   \<and> dhas (snd (set_changed st (f, v))) f = (dhas (snd st) f \<or> (v \<noteq> [] \<and> dget (fst st) f \<noteq> PStr v))"
  by (auto simp: set_changed_def split: prod.splits)

lemma foldl_set_changed_get:
  assumes "distinct (map fst fvs)" "(f, v) \<in> set fvs"
  shows "dget (fst (foldl set_changed st fvs)) f = (if v = [] then dget (fst st) f else PStr v)
     \<and> dhas (snd (foldl set_changed st fvs)) f = (dhas (snd st) f \<or> (v \<noteq> [] \<and> dget (fst st) f \<noteq> PStr v))"
  using assms
proof (induction fvs arbitrary: st)
  case (Cons fv fvs)
  show ?case
  proof (cases "fv = (f, v)")
    case True
    with Cons.prems have "f \<notin> fst ` set fvs" by auto
    from foldl_set_changed_other [OF this, of "set_changed st fv"] True show ?thesis
      using set_changed_get [of st f v] by simp
  next
    case False
    with Cons.prems have "(f, v) \<in> set fvs" "f \<noteq> fst fv" by (auto simp: image_iff)
    with Cons show ?thesis by (simp add: set_changed_other)
  qed
qed simp

lemma field_changes_get:
  assumes "(f, v) \<in> set (update_fields u)"
  shows "dget (fst (field_changes cc u)) f = (if v = [] then dget cc f else PStr v)"
    and "dhas (snd (field_changes cc u)) f = (v \<noteq> [] \<and> dget cc f \<noteq> PStr v)"
proof -
  have d: "distinct (map fst (update_fields u))" by (simp add: update_fields_def)
  have "f \<noteq> ''applicability_pending_review''" using assms by (auto simp: update_fields_def)
  with foldl_set_changed_get [OF d assms, of "(cc, [])"]
  show "dget (fst (field_changes cc u)) f = (if v = [] then dget cc f else PStr v)"
    "dhas (snd (field_changes cc u)) f = (v \<noteq> [] \<and> dget cc f \<noteq> PStr v)"
    by (auto simp: field_changes_def Let_def split: prod.splits)
qed

lemma assessment_version_run:
  assumes "map (\<lambda>a. dget (as_dict a) ''assessment_version'') (as_list (dget cc ''assessments''))
             = map PInt [1 .. int (length (as_list (dget cc ''assessments'')))]"
  shows "map (\<lambda>a. dget (as_dict a) ''assessment_version'')
             (as_list (dget (foldl apply_cycle_control_update cc us) ''assessments''))
           = map PInt [1 .. int (length (as_list (dget (foldl apply_cycle_control_update cc us) ''assessments'')))]"
  using assms
proof (induction us arbitrary: cc)
  case (Cons u us)
  have step: "[1 .. int n + 1] = [1 .. int n] @ [int n + 1]" for n
    using upto_rec2 [of 1 "int n + 1"] by simp
  have "map (\<lambda>a. dget (as_dict a) ''assessment_version'')
          (as_list (dget (apply_cycle_control_update cc u) ''assessments''))
      = map PInt [1 .. int (length (as_list (dget (apply_cycle_control_update cc u) ''assessments'')))]"
    using Cons.prems field_changes_other(1) [of "''assessments''" cc u]
    by (simp add: update_assessments assessment_snapshot_def tracked_def step)
  from Cons.IH [OF this] show ?case by simp
qed simp

section \<open>Properties\<close>

definition demo_update :: "string \<Rightarrow> string \<Rightarrow> string \<Rightarrow> cc_update" where
  "demo_update now ev asv = \<lparr>up_actor = ''lee'', up_now = now, up_evidence_status = ev,
     up_assessment_status = asv, up_applicability = [], up_assignee = [], up_note = [],
     up_evidence_set_hash = ''h'', up_rationale = [], up_scope_snapshot_id = []\<rparr>"

definition demo_control :: pdict where
  "demo_control = build_cycle_control ''2024'' ''isms:1:2.5.1'' ''kim'' ''applicable'' ''2024-01-01'' ''kim''"

text \<open>The state of a cycle control as of a date does not depend on updates made after that date: a past
  audit view is reproduced whatever happens later.\<close>

lemma as_of_past_immutable:
  assumes "\<forall>u \<in> set us. t < up_now u"
  shows "cycle_control_as_of (foldl apply_cycle_control_update cc us) t = cycle_control_as_of cc t"
  using assms by (induction us arbitrary: cc) (simp_all add: as_of_update_later)

theorem as_of_past_immutable_witness:
  "cycle_control_as_of (foldl apply_cycle_control_update demo_control
       [demo_update ''2024-06-01'' ''approved'' ''effective'']) ''2024-05-31''
     = cycle_control_as_of demo_control ''2024-05-31''"
  by (rule as_of_past_immutable) (simp add: demo_update_def)

text \<open>C7: After any updates of a freshly built cycle control, replaying its history up to a date no entry is
  later than gives the evidence status, assessment status, applicability and assignee that the
  record holds.\<close>

theorem as_of_reproduces_current:
  assumes "now \<le> t" "\<forall>u \<in> set us. up_now u \<le> t"
    and "k \<in> {''evidence_status'', ''assessment_status'', ''applicability'', ''assignee''}"
  shows "dget (cycle_control_as_of
            (foldl apply_cycle_control_update (build_cycle_control cid ref asg app now cb) us) t) k
       = dget (foldl apply_cycle_control_update (build_cycle_control cid ref asg app now cb) us) k"
proof (rule hist_current_as_of)
  show "hist_current t (foldl apply_cycle_control_update (build_cycle_control cid ref asg app now cb) us)"
    using assms(1,2) by (intro hist_current_run hist_current_build) auto
  show "k \<in> set tracked" using assms(3) by (auto simp: tracked_def)
qed

theorem as_of_reproduces_current_witness:
  "dget (cycle_control_as_of (foldl apply_cycle_control_update
       (build_cycle_control ''2024'' ''r'' ''kim'' ''applicable'' ''2024-01-01'' ''kim'')
       [demo_update ''2024-06-01'' ''approved'' ''effective'']) ''2024-12-31'') ''assessment_status''
     = PStr ''effective''"
proof -
  have "dget (foldl apply_cycle_control_update
       (build_cycle_control ''2024'' ''r'' ''kim'' ''applicable'' ''2024-01-01'' ''kim'')
       [demo_update ''2024-06-01'' ''approved'' ''effective'']) ''assessment_status'' = PStr ''effective''"
    by code_simp
  moreover have "''2024-01-01'' \<le> ''2024-12-31''"
    and "\<forall>u \<in> set [demo_update ''2024-06-01'' ''approved'' ''effective'']. up_now u \<le> ''2024-12-31''"
    by (simp_all add: demo_update_def)
  ultimately show ?thesis
    using as_of_reproduces_current [of "''2024-01-01''" "''2024-12-31''"
        "[demo_update ''2024-06-01'' ''approved'' ''effective'']" "''assessment_status''"] by simp
qed

text \<open>The assessment judgements of a cycle control are numbered 1, 2, ..., n in the order they were made,
  whatever updates it went through.\<close>

lemma judgements_numbered:
  "map (\<lambda>a. dget (as_dict a) ''assessment_version'')
       (as_list (dget (foldl apply_cycle_control_update (build_cycle_control cid ref asg app now cb) us)
          ''assessments''))
     = map PInt [1 .. int (length (as_list (dget
         (foldl apply_cycle_control_update (build_cycle_control cid ref asg app now cb) us) ''assessments'')))]"
  by (rule assessment_version_run) (simp add: build_cycle_control_def Let_def)

text \<open>An update that names no assessment status leaves the assessment status and the pinned judgements as
  they are, while the evidence status becomes the one it names: evidence is never taken for
  effectiveness.\<close>

lemma evidence_assessment_independent:
  assumes "up_assessment_status u = []"
  shows "dget (apply_cycle_control_update cc u) ''assessment_status'' = dget cc ''assessment_status''
    \<and> as_list (dget (apply_cycle_control_update cc u) ''assessments'') = as_list (dget cc ''assessments'')
    \<and> dget (apply_cycle_control_update cc u) ''evidence_status''
        = (if up_evidence_status u = [] then dget cc ''evidence_status'' else PStr (up_evidence_status u))"
proof -
  have "(''assessment_status'', []) \<in> set (update_fields u)"
      "(''evidence_status'', up_evidence_status u) \<in> set (update_fields u)"
    using assms by (simp_all add: update_fields_def)
  from field_changes_get [OF this(1), of cc] field_changes_get(1) [OF this(2), of cc] show ?thesis
    by (simp add: update_dget update_assessments judged_def)
qed

theorem evidence_assessment_independent_witness:
  "dget (apply_cycle_control_update demo_control (demo_update ''2024-06-01'' ''approved'' [])) ''assessment_status''
     = PStr ''not_assessed''"
proof -
  have "up_assessment_status (demo_update ''2024-06-01'' ''approved'' []) = []"
    by (simp add: demo_update_def)
  from evidence_assessment_independent [OF this, of demo_control] show ?thesis
    by (simp add: demo_control_def build_cycle_control_def Let_def)
qed

end
