(* ===== verification/Gov_Migrate.thy ===== *)
theory Gov_Migrate
  imports Gov_Cycle
begin

text \<open>
  Comparing two versions of a framework and carrying an assurance cycle over to a new one,
  \<^verbatim>\<open>services/control_governance.py\<close>, with the crosswalk and overlay views of the same file.
  The theorems say that the comparison partitions the controls by their lineage identifier, and
  that a migration carries settings over but never a verdict.
\<close>

section \<open>Crosswalk and overlay\<close>

definition mapping_entry :: "pv \<Rightarrow> pdict" where
  "mapping_entry m =
     (case m of
        PDict d \<Rightarrow>
          [(''control_id'', PStr (pstr (por (dget d ''control_id'') (por (dget d ''id'') (PStr []))))),
           (''coverage_role'', PStr (pstr (por (dget d ''coverage_role'') (PStr ''unspecified'')))),
           (''coverage_type'', PStr (pstr (por (dget d ''coverage_type'') (PStr ''unspecified'')))),
           (''limitations'', PStr (gstr d ''limitations''))]
      | _ \<Rightarrow> [(''control_id'', PStr (pstr m)), (''coverage_role'', PStr ''unspecified''),
               (''coverage_type'', PStr ''unspecified''), (''limitations'', PStr [])])"

definition framework_of :: "pdict \<Rightarrow> string" where
  "framework_of entry = hd (split_on (CHR '':'') (pstr (dget entry ''control_id'')))"

definition crosswalk_row :: "pdict \<Rightarrow> pdict" where
  "crosswalk_row oc =
     (let by_fw = group_by framework_of (map mapping_entry (as_list (dget oc ''mapped_controls'')))
      in [(''organization_control_id'', dget oc ''id''), (''code'', dget oc ''code''),
          (''title'', dget oc ''title''), (''frameworks'', of_strs (sort (keys by_fw))),
          (''framework_count'', PInt (int (length by_fw))),
          (''mappings'', PDict (map (map_prod id (\<lambda>es. PList (map PDict es))) by_fw))])"

definition REUSABLE_NOTE :: string where
  "REUSABLE_NOTE = utf8 [237, 149, 152, 235, 130, 152, 236, 157, 152, 32, 236, 154, 180, 236, 152, 129, 237,
     134, 181, 236, 160, 156, 194, 183, 234, 184, 176, 236, 136, 160, 236, 166, 157, 236,
     160, 129, 236, 157, 132, 32, 236, 151, 172, 235, 159, 172, 32, 234, 184, 176, 236,
     164, 128, 236, 151, 144, 32, 236, 158, 172, 236, 130, 172, 236, 154, 169, 40, 236,
     164, 145, 235, 179, 181, 32, 236, 166, 157, 236, 160, 129, 32, 235, 176, 169, 236,
     167, 128, 41, 46]"

definition SUFFICIENCY_NOTE :: string where
  "SUFFICIENCY_NOTE = utf8 [236, 158, 172, 236, 130, 172, 236, 154, 169, 32, 234, 176, 128, 235, 138, 165, 32,
     226, 137, 160, 32, 236, 182, 169, 235, 182, 132, 237, 149, 168, 32, 226, 128, 148,
     32, 99, 111, 118, 101, 114, 97, 103, 101, 95, 114, 111, 108, 101, 47, 116, 121, 112,
     101, 32, 236, 156, 188, 235, 161, 156, 32, 234, 176, 129, 32, 237, 134, 181, 236,
     160, 156, 32, 236, 182, 169, 236, 161, 177, 235, 143, 132, 235, 165, 188, 32, 234,
     181, 172, 235, 182, 132, 237, 149, 156, 235, 139, 164, 46]"

definition build_crosswalk :: "pdict list \<Rightarrow> pdict" where
  "build_crosswalk org_controls =
     (let fw_set = remdups (concat (map (\<lambda>oc. map framework_of
                     (map mapping_entry (as_list (dget oc ''mapped_controls'')))) org_controls))
      in [(''organization_controls'', PList (map (\<lambda>oc. PDict (crosswalk_row oc)) org_controls)),
          (''frameworks'', of_strs (sort fw_set)), (''reusable_note'', PStr REUSABLE_NOTE),
          (''sufficiency_note'', PStr SUFFICIENCY_NOTE)])"

definition OVERLAY_FIELDS :: "string list" where
  "OVERLAY_FIELDS = [''owner_team'', ''frequency'', ''scope'', ''evidence_sources'', ''approver'']"

definition apply_overlay :: "pdict \<Rightarrow> pdict \<Rightarrow> pdict" where
  "apply_overlay control_def overlay =
     (let view =
            [(''control_id'', dget control_def ''id''), (''display_code'', dget control_def ''display_code''),
             (''title'', dget control_def ''title''),
             (''base_requirement'',
               por (dget (as_dict (dget control_def ''interpretations'')) ''official'')
                   (dgetd control_def ''requirement_text'' (PStr []))),
             (''base_content_hash'', dget control_def ''content_hash''),
             (''overlay'', PDict (map (\<lambda>k. (k, dgetd overlay k (PStr []))) OVERLAY_FIELDS))];
          reviewed_hash = dget overlay ''reviewed_base_hash''
      in dset view ''conflict''
           (PBool (truthy reviewed_hash \<and> reviewed_hash \<noteq> dget control_def ''content_hash'')))"

section \<open>Comparing two versions\<close>

definition control_uid :: "pdict \<Rightarrow> string" where
  "control_uid c = pstr (por (dget c ''control_uid'') (por (dget c ''display_code'') (PStr [])))"

definition control_body :: "pdict \<Rightarrow> string" where
  "control_body c = jdump False (PDict [(''title'', dget c ''title''),
     (''requirement_text'', dget c ''requirement_text''), (''interpretations'', dget c ''interpretations'')])"

definition migration_reason :: "pdict \<Rightarrow> pdict \<Rightarrow> string" where
  "migration_reason old_def new_def =
     (if control_body old_def \<noteq> control_body new_def then ''text_changed''
      else if pstr (dget old_def ''display_code'') \<noteq> pstr (dget new_def ''display_code'') then ''renumbered''
      else ''carried'')"

definition by_uid :: "pdict list \<Rightarrow> pdict dict" where
  "by_uid cs = dict_of (map (\<lambda>c. (control_uid c, c)) cs)"

record control_diff =
  d_added :: "pdict list"
  d_removed :: "pdict list"
  d_renumbered :: "pdict list"
  d_text_changed :: "pdict list"
  d_unchanged :: "pdict list"

definition single_row :: "string \<Rightarrow> pdict \<Rightarrow> pdict" where
  "single_row uid c = [(''control_uid'', PStr uid), (''display_code'', dget c ''display_code''), (''title'', dget c ''title'')]"

definition pair_row :: "string \<Rightarrow> pdict \<Rightarrow> pdict \<Rightarrow> pdict" where
  "pair_row uid oc nc = [(''control_uid'', PStr uid), (''old_code'', dget oc ''display_code''),
     (''new_code'', dget nc ''display_code''), (''title'', dget nc ''title'')]"

definition diff_new :: "pdict dict \<Rightarrow> control_diff \<Rightarrow> string \<times> pdict \<Rightarrow> control_diff" where
  "diff_new old_by d item =
     (case item of (uid, nc) \<Rightarrow>
       (case map_of old_by uid of
          None \<Rightarrow> d\<lparr>d_added := d_added d @ [single_row uid nc]\<rparr>
        | Some oc \<Rightarrow>
            (let code_changed = pstr (dget oc ''display_code'') \<noteq> pstr (dget nc ''display_code'');
                 body_changed = control_body oc \<noteq> control_body nc;
                 row = pair_row uid oc nc
             in if body_changed then d\<lparr>d_text_changed := d_text_changed d @ [row]\<rparr>
                else if code_changed then d\<lparr>d_renumbered := d_renumbered d @ [row]\<rparr>
                else d\<lparr>d_unchanged := d_unchanged d @ [row]\<rparr>)))"

definition diff_old :: "pdict dict \<Rightarrow> control_diff \<Rightarrow> string \<times> pdict \<Rightarrow> control_diff" where
  "diff_old new_by d item =
     (case item of (uid, oc) \<Rightarrow>
       if dhas new_by uid then d else d\<lparr>d_removed := d_removed d @ [single_row uid oc]\<rparr>)"

definition diff_control_definitions :: "pdict list \<Rightarrow> pdict list \<Rightarrow> control_diff" where
  "diff_control_definitions old_controls new_controls =
     (let old_by = by_uid old_controls;
          new_by = by_uid new_controls;
          d = foldl (diff_new old_by)
                \<lparr>d_added = [], d_removed = [], d_renumbered = [], d_text_changed = [], d_unchanged = []\<rparr> new_by
      in foldl (diff_old new_by) d old_by)"

section \<open>Starting a cycle from the previous one\<close>

definition CARRY_NOTE :: string where
  "CARRY_NOTE = utf8 [236, 138, 185, 234, 179, 132, 58, 32, 235, 139, 180, 235, 139, 185, 236, 158, 144,
     194, 183, 236, 160, 129, 236, 154, 169, 236, 132, 177, 40, 236, 158, 172, 237, 153,
     149, 236, 157, 184, 32, 237, 149, 132, 236, 154, 148, 41, 32, 47, 32, 236, 180, 136,
     234, 184, 176, 237, 153, 148, 58, 32, 236, 166, 157, 236, 160, 129, 194, 183, 237,
     143, 137, 234, 176, 128]"

definition initialize_control :: "string \<Rightarrow> string \<Rightarrow> string \<Rightarrow> pdict \<Rightarrow> pdict" where
  "initialize_control new_cycle_id now created_by prev =
     (let ref = gstr prev ''control_ref'';
          cc = build_cycle_control new_cycle_id ref (gstr prev ''assignee'')
                 (pstr (por (dget prev ''applicability'') (PStr ''pending_assessment''))) now created_by;
          cc = dset cc ''evidence_contract_ref'' (dgetd prev ''evidence_contract_ref'' (PStr []));
          cc = dset cc ''evidence_status'' (PStr ''missing'');
          cc = dset cc ''assessment_status'' (PStr ''not_assessed'');
          cc = dset cc ''applicability_pending_review'' (PBool True);
          cc = dset cc ''carried_from'' (dget prev ''id'')
      in dappend cc ''history'' (PDict (history_entry now created_by ''carried_from_previous''
           [(''note'', PStr CARRY_NOTE)])))"

definition initialize_cycle_from_previous :: "pdict list \<Rightarrow> string \<Rightarrow> string \<Rightarrow> string \<Rightarrow> pdict" where
  "initialize_cycle_from_previous prev_cycle_controls new_cycle_id now created_by =
     (let new_controls = map (initialize_control new_cycle_id now created_by) prev_cycle_controls
      in [(''new_cycle_id'', PStr new_cycle_id), (''carried'', PInt (int (length new_controls))),
          (''carried_fields'', of_strs [''assignee'', ''applicability'', ''evidence_contract_ref'']),
          (''reset_fields'', of_strs [''evidence_status'', ''assessment_status'', ''approvals'', ''past_evidence'']),
          (''cycle_controls'', PList (map PDict new_controls))])"

section \<open>Migrating a cycle to a new version\<close>

definition MIGRATE_NOTE :: string where
  "MIGRATE_NOTE = utf8 [32, 226, 128, 148, 32, 236, 138, 185, 234, 179, 132, 58, 32, 235, 139, 180, 235,
     139, 185, 236, 158, 144, 194, 183, 236, 160, 129, 236, 154, 169, 236, 132, 177, 32,
     47, 32, 236, 180, 136, 234, 184, 176, 237, 153, 148, 58, 32, 236, 166, 157, 236,
     160, 129, 194, 183, 237, 143, 137, 234, 176, 128]"

definition NEW_NOTE :: string where
  "NEW_NOTE = utf8 [236, 139, 160, 234, 183, 156, 32, 237, 134, 181, 236, 160, 156, 32, 226, 128, 148,
     32, 236, 132, 164, 234, 179, 132, 194, 183, 236, 160, 129, 236, 154, 169, 236, 132,
     177, 32, 234, 178, 128, 237, 134, 160, 32, 237, 149, 132, 236, 154, 148]"

definition REMOVED_ACTION :: string where
  "REMOVED_ACTION = utf8 [236, 162, 133, 235, 163, 140, 32, 235, 152, 144, 235, 138, 148, 32, 235, 140, 128,
     236, 178, 180, 32, 235, 167, 164, 237, 149, 145, 32, 234, 178, 128, 237, 134, 160]"

definition carry_cycle_control ::
    "pdict \<Rightarrow> string \<Rightarrow> string \<Rightarrow> bool \<Rightarrow> string \<Rightarrow> string \<Rightarrow> string \<Rightarrow> pdict" where
  "carry_cycle_control prev new_ref reason review new_cycle_id now created_by =
     (let cc = build_cycle_control new_cycle_id new_ref (gstr prev ''assignee'')
                 (pstr (por (dget prev ''applicability'') (PStr ''pending_assessment''))) now created_by;
          cc = dset cc ''evidence_contract_ref'' (dgetd prev ''evidence_contract_ref'' (PStr []));
          cc = dset cc ''evidence_status'' (PStr ''missing'');
          cc = dset cc ''assessment_status'' (PStr ''not_assessed'');
          cc = dset cc ''applicability_pending_review'' (PBool True);
          cc = dset cc ''carried_from_control_ref'' (dget prev ''control_ref'');
          cc = dset cc ''carried_from'' (dget prev ''id'');
          cc = dset cc ''migration_reason'' (PStr reason);
          cc = dset cc ''requires_design_review'' (PBool review)
      in dappend cc ''history'' (PDict (history_entry now created_by ''migrated''
           [(''note'', PStr (reason @ MIGRATE_NOTE))])))"

definition new_cycle_control :: "string \<Rightarrow> string \<Rightarrow> string \<Rightarrow> pdict \<Rightarrow> pdict" where
  "new_cycle_control new_cycle_id now created_by new_def =
     (let cc = build_cycle_control new_cycle_id (pstr (dget new_def ''id'')) [] ''pending_assessment'' now created_by;
          cc = dset cc ''migration_reason'' (PStr ''new'');
          cc = dset cc ''requires_design_review'' (PBool True)
      in dappend cc ''history'' (PDict (history_entry now created_by ''new_control'' [(''note'', PStr NEW_NOTE)])))"

record migration =
  m_controls :: "pdict list"
  m_removed :: "pdict list"
  m_carried :: int
  m_renumbered :: int
  m_text_changed :: int
  m_new_controls :: int
  m_removed_controls :: int
  m_unresolved :: int
  m_carried_uids :: "string list"

definition migrate_prev ::
    "pdict dict \<Rightarrow> pdict dict \<Rightarrow> string \<Rightarrow> string \<Rightarrow> string \<Rightarrow> migration \<Rightarrow> pdict \<Rightarrow> migration" where
  "migrate_prev old_by_id new_by_uid new_cycle_id now created_by m prev =
     (let ref = gstr prev ''control_ref'' in
      case map_of old_by_id ref of
        None \<Rightarrow>
          m\<lparr>m_controls := m_controls m @ [carry_cycle_control prev ref ''carried'' False new_cycle_id now created_by],
            m_carried := m_carried m + 1\<rparr>
      | Some old_def \<Rightarrow>
          (let uid = control_uid old_def in
           case map_of new_by_uid uid of
             None \<Rightarrow>
               m\<lparr>m_removed := m_removed m @
                   [[(''control_uid'', PStr uid), (''old_ref'', PStr ref),
                     (''display_code'', dget old_def ''display_code''), (''title'', dget old_def ''title''),
                     (''action_required'', PStr REMOVED_ACTION)]],
                 m_removed_controls := m_removed_controls m + 1,
                 m_unresolved := m_unresolved m + 1\<rparr>
           | Some new_def \<Rightarrow>
               (let reason = migration_reason old_def new_def;
                    review = (reason = ''text_changed'');
                    cc = carry_cycle_control prev (pstr (dget new_def ''id'')) reason review
                           new_cycle_id now created_by
                in m\<lparr>m_controls := m_controls m @ [cc], m_carried := m_carried m + 1,
                     m_renumbered := m_renumbered m + (if reason = ''renumbered'' then 1 else 0),
                     m_text_changed := m_text_changed m + (if reason = ''text_changed'' then 1 else 0),
                     m_carried_uids := m_carried_uids m @ [uid]\<rparr>)))"

definition migrate_new :: "string \<Rightarrow> string \<Rightarrow> string \<Rightarrow> migration \<Rightarrow> string \<times> pdict \<Rightarrow> migration" where
  "migrate_new new_cycle_id now created_by m item =
     (case item of (uid, new_def) \<Rightarrow>
       if uid \<in> set (m_carried_uids m) then m
       else m\<lparr>m_controls := m_controls m @ [new_cycle_control new_cycle_id now created_by new_def],
              m_new_controls := m_new_controls m + 1\<rparr>)"

definition plan_cycle_migration ::
    "pdict list \<Rightarrow> pdict list \<Rightarrow> pdict list \<Rightarrow> string \<Rightarrow> string \<Rightarrow> string \<Rightarrow> migration" where
  "plan_cycle_migration prev_cycle_controls old_controls new_controls new_cycle_id now created_by =
     (let old_by_id = dict_of (map (\<lambda>c. (pstr (dget c ''id''), c)) old_controls);
          new_by_uid = by_uid new_controls;
          m = foldl (migrate_prev old_by_id new_by_uid new_cycle_id now created_by)
                \<lparr>m_controls = [], m_removed = [], m_carried = 0, m_renumbered = 0, m_text_changed = 0,
                 m_new_controls = 0, m_removed_controls = 0, m_unresolved = 0, m_carried_uids = []\<rparr>
                prev_cycle_controls
      in foldl (migrate_new new_cycle_id now created_by) m new_by_uid)"

definition changed_controls_requiring_review :: "migration \<Rightarrow> pv list" where
  "changed_controls_requiring_review m =
     map (\<lambda>c. dget c ''control_ref'') (filter (\<lambda>c. truthy (dget c ''requires_design_review'')) (m_controls m))"

section \<open>The comparison partitions the controls\<close>

definition row_uid :: "pdict \<Rightarrow> string" where
  "row_uid r = gstr r ''control_uid''"

lemma row_uid_rows [simp]: "row_uid (single_row u c) = u" "row_uid (pair_row u c c') = u"
  by (cases u; simp add: row_uid_def single_row_def pair_row_def)+

definition compared :: "control_diff \<Rightarrow> pdict list" where
  "compared d = d_added d @ d_renumbered d @ d_text_changed d @ d_unchanged d"

lemma diff_new_step:
  "mset (map row_uid (compared (diff_new ob d it))) = mset (map row_uid (compared d)) + {#fst it#}"
  by (cases it) (auto simp: diff_new_def compared_def Let_def split: option.splits)

lemma foldl_diff_new_compared:
  "mset (map row_uid (compared (foldl (diff_new ob) d its))) = mset (map row_uid (compared d)) + mset (keys its)"
proof (induction its arbitrary: d)
  case (Cons it its)
  show ?case by (simp add: Cons.IH diff_new_step del: mset_map map_append)
qed simp

lemma foldl_diff_new_added:
  "d_added (foldl (diff_new ob) d its) =
     d_added d @ map (\<lambda>it. single_row (fst it) (snd it)) (filter (\<lambda>it. \<not> dhas ob (fst it)) its)"
  by (induction its arbitrary: d) (auto simp: diff_new_def dhas_def Let_def split: option.splits)

lemma foldl_diff_new_removed: "d_removed (foldl (diff_new ob) d its) = d_removed d"
  by (induction its arbitrary: d) (auto simp: diff_new_def Let_def split: option.splits)

lemma foldl_diff_old_removed:
  "d_removed (foldl (diff_old nb) d its) =
     d_removed d @ map (\<lambda>it. single_row (fst it) (snd it)) (filter (\<lambda>it. \<not> dhas nb (fst it)) its)"
  by (induction its arbitrary: d) (auto simp: diff_old_def)

lemma foldl_diff_old_other:
  "d_added (foldl (diff_old nb) d its) = d_added d" "compared (foldl (diff_old nb) d its) = compared d"
  "d_renumbered (foldl (diff_old nb) d its) = d_renumbered d"
  "d_text_changed (foldl (diff_old nb) d its) = d_text_changed d"
  by (induction its arbitrary: d) (auto simp: diff_old_def compared_def)

lemmas diff_folds = foldl_diff_new_added foldl_diff_new_removed foldl_diff_old_removed foldl_diff_old_other

definition only_in :: "pdict dict \<Rightarrow> pdict dict \<Rightarrow> pdict list" where
  "only_in a b = map (\<lambda>it. single_row (fst it) (snd it)) (filter (\<lambda>it. \<not> dhas b (fst it)) a)"

lemma diff_added_removed:
  "d_added (diff_control_definitions old new) = only_in (by_uid new) (by_uid old)"
  "d_removed (diff_control_definitions old new) = only_in (by_uid old) (by_uid new)"
  by (simp_all add: diff_control_definitions_def Let_def diff_folds only_in_def)

text \<open>Comparing two versions of a framework puts every lineage identifier of the new version in
  exactly one of the lists added, renumbered, text-changed and unchanged; the added ones are those the
  old version does not have, the removed ones those the new version does not have, and comparing the
  other way round swaps the two.\<close>

lemma diff_partition:
  "mset (map row_uid (compared (diff_control_definitions old new))) = mset (keys (by_uid new))
   \<and> distinct (map row_uid (compared (diff_control_definitions old new)))
   \<and> map row_uid (d_added (diff_control_definitions old new))
       = filter (\<lambda>u. u \<notin> control_uid ` set old) (keys (by_uid new))
   \<and> d_removed (diff_control_definitions old new) = d_added (diff_control_definitions new old)"
proof (intro conjI)
  let ?d = "diff_control_definitions old new"
  show m: "mset (map row_uid (compared ?d)) = mset (keys (by_uid new))"
    by (simp only: diff_control_definitions_def Let_def foldl_diff_old_other foldl_diff_new_compared)
      (simp add: compared_def)
  have "distinct (keys (by_uid new))" by (simp add: by_uid_def)
  then show "distinct (map row_uid (compared ?d))"
    using m by (metis mset_eq_imp_distinct_iff)
  have "dhas (by_uid old) u \<longleftrightarrow> u \<in> control_uid ` set old" for u
    using set_keys_dict_of [of "map (\<lambda>c. (control_uid c, c)) old"]
    by (auto simp: dhas_def by_uid_def map_of_eq_None_iff image_image)
  then show "map row_uid (d_added ?d) = filter (\<lambda>u. u \<notin> control_uid ` set old) (keys (by_uid new))"
    by (simp add: diff_added_removed only_in_def filter_map comp_def)
  show "d_removed ?d = d_added (diff_control_definitions new old)"
    by (simp add: diff_added_removed)
qed

lemma foldl_diff_new_same:
  "\<forall>it \<in> set its. map_of ob (fst it) = Some (snd it) \<Longrightarrow>
   d_renumbered (foldl (diff_new ob) d its) = d_renumbered d
   \<and> d_text_changed (foldl (diff_new ob) d its) = d_text_changed d"
  by (induction its arbitrary: d) (auto simp: diff_new_def Let_def)

text \<open>A version compared with itself has nothing added, removed, renumbered or changed.\<close>

theorem diff_same_version:
  "d_added (diff_control_definitions cs cs) = [] \<and> d_removed (diff_control_definitions cs cs) = []
   \<and> d_renumbered (diff_control_definitions cs cs) = [] \<and> d_text_changed (diff_control_definitions cs cs) = []"
proof -
  have dw: "dwf (by_uid cs)" by (simp add: by_uid_def)
  then have "\<forall>it \<in> set (by_uid cs). map_of (by_uid cs) (fst it) = Some (snd it)" by auto
  moreover from dw have "only_in (by_uid cs) (by_uid cs) = []"
    by (auto simp: only_in_def dhas_def filter_empty_conv)
  ultimately show ?thesis
    by (simp add: diff_added_removed) (simp add: diff_control_definitions_def Let_def diff_folds foldl_diff_new_same)
qed

section \<open>A migration carries settings, never verdicts\<close>

lemma cc_dget [simp]:
  "dget (build_cycle_control c r a ap now cb) ''id'' = PStr (slug c @ '':'' @ slug r)"
  "dget (build_cycle_control c r a ap now cb) ''cycle_id'' = PStr c"
  "dget (build_cycle_control c r a ap now cb) ''control_ref'' = PStr r"
  "dget (build_cycle_control c r a ap now cb) ''assignee'' = PStr a"
  "dget (build_cycle_control c r a ap now cb) ''evidence_status'' = PStr ''missing''"
  "dget (build_cycle_control c r a ap now cb) ''assessment_status'' = PStr ''not_assessed''"
  "dget (build_cycle_control c r a ap now cb) ''assessments'' = PNone"
  by (simp_all add: build_cycle_control_def Let_def)

lemma cc_history [simp]:
  "dget (build_cycle_control c r a ap now cb) ''history'' =
     PList [PDict (history_entry now cb ''created'' [(''changed'', PDict
       [(''assignee'', PStr a), (''applicability'', PStr ap), (''evidence_status'', PStr ''missing''),
        (''assessment_status'', PStr ''not_assessed''), (''evidence_contract_ref'', PStr [])])])]"
  by (simp add: build_cycle_control_def Let_def)

definition fresh_control :: "string \<Rightarrow> pdict \<Rightarrow> bool" where
  "fresh_control cyc c = (dget c ''evidence_status'' = PStr ''missing''
     \<and> dget c ''assessment_status'' = PStr ''not_assessed''
     \<and> dget c ''cycle_id'' = PStr cyc \<and> dget c ''assessments'' = PNone)"

lemma fresh_carry [simp]: "fresh_control cyc (carry_cycle_control prev ref r rv cyc now cb)"
  by (simp add: fresh_control_def carry_cycle_control_def Let_def)

lemma fresh_new [simp]: "fresh_control cyc (new_cycle_control cyc now cb d)"
  by (simp add: fresh_control_def new_cycle_control_def Let_def)

lemma fresh_initialize [simp]: "fresh_control cyc (initialize_control cyc now cb prev)"
  by (simp add: fresh_control_def initialize_control_def Let_def)

lemma migrate_prev_cases:
  obtains (dropped) uid d where "map_of ob (gstr prev ''control_ref'') = Some d" "uid = control_uid d"
      "map_of nb uid = None" "m_controls (migrate_prev ob nb cyc now cb m prev) = m_controls m"
      "m_carried_uids (migrate_prev ob nb cyc now cb m prev) = m_carried_uids m"
      "m_carried (migrate_prev ob nb cyc now cb m prev) = m_carried m"
      "m_removed_controls (migrate_prev ob nb cyc now cb m prev) = m_removed_controls m + 1"
      "length (m_removed (migrate_prev ob nb cyc now cb m prev)) = length (m_removed m) + 1"
    | (kept) cc us where
      "m_controls (migrate_prev ob nb cyc now cb m prev) = m_controls m @ [cc]" "fresh_control cyc cc"
      "dget cc ''assignee'' = PStr (gstr prev ''assignee'')"
      "m_carried_uids (migrate_prev ob nb cyc now cb m prev) = m_carried_uids m @ us"
      "\<forall>u \<in> set us. \<exists>d. map_of nb u = Some d \<and> dget cc ''control_ref'' = PStr (pstr (dget d ''id''))"
      "m_carried (migrate_prev ob nb cyc now cb m prev) = m_carried m + 1"
      "m_removed_controls (migrate_prev ob nb cyc now cb m prev) = m_removed_controls m"
      "m_removed (migrate_prev ob nb cyc now cb m prev) = m_removed m"
proof (cases "map_of ob (gstr prev ''control_ref'')")
  case None
  show thesis
    by (rule kept [of "carry_cycle_control prev (gstr prev ''control_ref'') ''carried'' False cyc now cb" "[]"])
      (use None in \<open>simp_all add: migrate_prev_def Let_def carry_cycle_control_def
        fresh_control_def\<close>)
next
  case (Some d)
  show thesis
  proof (cases "map_of nb (control_uid d)")
    case None
    show thesis
      by (rule dropped [of d "control_uid d"]) (use Some None in \<open>simp_all add: migrate_prev_def Let_def\<close>)
  next
    case (Some nd)
    show thesis
      by (rule kept [of "carry_cycle_control prev (pstr (dget nd ''id'')) (migration_reason d nd)
              (migration_reason d nd = ''text_changed'') cyc now cb" "[control_uid d]"])
        (use Some \<open>map_of ob _ = Some d\<close> in \<open>simp_all add: migrate_prev_def Let_def carry_cycle_control_def
          fresh_control_def\<close>)
  qed
qed

text \<open>The invariant of the two loops.\<close>

definition migrating :: "pdict dict \<Rightarrow> string \<Rightarrow> nat \<Rightarrow> migration \<Rightarrow> bool" where
  "migrating nb cyc n m = (list_all (fresh_control cyc) (m_controls m)
     \<and> m_carried m + m_removed_controls m = int n
     \<and> int (length (m_controls m)) = m_carried m + m_new_controls m
     \<and> int (length (m_removed m)) = m_removed_controls m
     \<and> (\<forall>u \<in> set (m_carried_uids m). \<exists>d. map_of nb u = Some d
          \<and> PStr (pstr (dget d ''id'')) \<in> (\<lambda>c. dget c ''control_ref'') ` set (m_controls m)))"

lemma migrate_prev_new: "m_new_controls (migrate_prev ob nb cyc now cb m prev) = m_new_controls m"
  by (auto simp: migrate_prev_def Let_def split: option.splits)

lemma migrating_prev:
  assumes "migrating nb cyc n m"
  shows "migrating nb cyc (Suc n) (migrate_prev ob nb cyc now cb m prev)"
proof (cases rule: migrate_prev_cases [where ob = ob and prev = prev and nb = nb and cyc = cyc and now = now
    and cb = cb and m = m])
  case (dropped uid d)
  with assms show ?thesis by (simp add: migrating_def migrate_prev_new)
next
  case (kept cc us)
  have old: "\<exists>d. map_of nb u = Some d \<and> PStr (pstr (dget d ''id'')) \<in>
      (\<lambda>c. dget c ''control_ref'') ` set (m_controls m)" if "u \<in> set (m_carried_uids m)" for u
    using assms that by (simp add: migrating_def)
  have "\<exists>d. map_of nb u = Some d \<and> PStr (pstr (dget d ''id'')) \<in>
      (\<lambda>c. dget c ''control_ref'') ` set (m_controls m @ [cc])"
    if "u \<in> set (m_carried_uids m @ us)" for u
  proof (cases "u \<in> set us")
    case True
    then obtain d where "map_of nb u = Some d" "dget cc ''control_ref'' = PStr (pstr (dget d ''id''))"
      using kept(5) by blast
    then show ?thesis by (intro exI [of _ d]) simp
  next
    case False
    with that have "u \<in> set (m_carried_uids m)" by simp
    from old [OF this] obtain d where "map_of nb u = Some d"
      "PStr (pstr (dget d ''id'')) \<in> (\<lambda>c. dget c ''control_ref'') ` set (m_controls m)" by (elim exE conjE)
    then show ?thesis by (intro exI [of _ d]) simp
  qed
  with assms kept show ?thesis by (simp only: migrating_def migrate_prev_new) auto
qed

lemma migrating_prevs:
  "migrating nb cyc n m \<Longrightarrow>
   migrating nb cyc (n + length ps) (foldl (migrate_prev ob nb cyc now cb) m ps)"
proof (induction ps arbitrary: n m)
  case (Cons p ps)
  from Cons.IH [OF migrating_prev [OF Cons.prems]] show ?case by simp
qed simp

lemma migrate_new_kept:
  "migrating nb cyc n m \<Longrightarrow> migrating nb cyc n (migrate_new cyc now cb m it)
   \<and> set (m_controls m) \<subseteq> set (m_controls (migrate_new cyc now cb m it))
   \<and> m_carried_uids (migrate_new cyc now cb m it) = m_carried_uids m
   \<and> m_carried (migrate_new cyc now cb m it) = m_carried m
   \<and> m_removed (migrate_new cyc now cb m it) = m_removed m"
  by (cases it) (fastforce simp: migrate_new_def migrating_def)

lemma migrate_new_covers:
  "migrating nb cyc n m \<Longrightarrow> map_of nb (fst it) = Some (snd it) \<Longrightarrow>
   PStr (pstr (dget (snd it) ''id'')) \<in> (\<lambda>c. dget c ''control_ref'') ` set (m_controls (migrate_new cyc now cb m it))"
  by (cases it)
    (fastforce simp: migrate_new_def migrating_def new_cycle_control_def Let_def)

lemma migrate_news:
  assumes "migrating nb cyc n m" "\<forall>it \<in> set its. map_of nb (fst it) = Some (snd it)"
  shows "migrating nb cyc n (foldl (migrate_new cyc now cb) m its)
    \<and> set (m_controls m) \<subseteq> set (m_controls (foldl (migrate_new cyc now cb) m its))
    \<and> (\<forall>it \<in> set its. PStr (pstr (dget (snd it) ''id''))
         \<in> (\<lambda>c. dget c ''control_ref'') ` set (m_controls (foldl (migrate_new cyc now cb) m its)))"
  using assms
proof (induction its arbitrary: m)
  case (Cons it its)
  let ?m = "migrate_new cyc now cb m it"
  have step: "migrating nb cyc n ?m" "set (m_controls m) \<subseteq> set (m_controls ?m)"
    using migrate_new_kept [OF Cons.prems(1), of now cb it] by blast+
  have "PStr (pstr (dget (snd it) ''id'')) \<in> (\<lambda>c. dget c ''control_ref'') ` set (m_controls ?m)"
    using migrate_new_covers [OF Cons.prems(1)] Cons.prems(2) by simp
  with Cons.IH [OF step(1)] Cons.prems(2) step(2) show ?case by auto
qed simp

lemma plan_migrating:
  assumes "m = plan_cycle_migration prev old new cyc now cb"
  shows "migrating (by_uid new) cyc (length prev) m
    \<and> (\<forall>it \<in> set (by_uid new). PStr (pstr (dget (snd it) ''id'')) \<in> (\<lambda>c. dget c ''control_ref'') ` set (m_controls m))"
proof -
  have "\<forall>it \<in> set (by_uid new). map_of (by_uid new) (fst it) = Some (snd it)"
    by (auto simp: by_uid_def)
  moreover
  let ?m0 = "\<lparr>m_controls = [], m_removed = [], m_carried = 0, m_renumbered = 0,
      m_text_changed = 0, m_new_controls = 0, m_removed_controls = 0, m_unresolved = 0, m_carried_uids = []\<rparr>"
  let ?m1 = "foldl (migrate_prev (dict_of (map (\<lambda>c. (pstr (dget c ''id''), c)) old)) (by_uid new) cyc now cb) ?m0 prev"
  have "migrating (by_uid new) cyc 0 ?m0"
    by (simp add: migrating_def)
  from migrating_prevs [OF this] have "migrating (by_uid new) cyc (length prev) ?m1" by simp
  moreover have "m = foldl (migrate_new cyc now cb) ?m1 (by_uid new)"
    by (simp only: assms plan_cycle_migration_def Let_def)
  ultimately show ?thesis by (blast dest: migrate_news)
qed

text \<open>C8: A migration accounts for every control of both sides: what it carries and what it reports as
  removed are all the controls of the previous cycle, what it creates is what it carries and what is new,
  and every lineage of the new version gets a control of the new cycle that refers to its definition.\<close>

theorem migration_accounts:
  "m_carried (plan_cycle_migration prev old new cyc now cb)
     + m_removed_controls (plan_cycle_migration prev old new cyc now cb) = int (length prev)
   \<and> int (length (m_controls (plan_cycle_migration prev old new cyc now cb)))
       = m_carried (plan_cycle_migration prev old new cyc now cb)
         + m_new_controls (plan_cycle_migration prev old new cyc now cb)
   \<and> (\<lambda>d. pstr (dget d ''id'')) ` set (map snd (by_uid new))
       \<subseteq> (\<lambda>c. pstr (dget c ''control_ref'')) ` set (m_controls (plan_cycle_migration prev old new cyc now cb))"
proof -
  let ?m = "plan_cycle_migration prev old new cyc now cb"
  from plan_migrating [OF refl, of new cyc prev old now cb] have
    mig: "migrating (by_uid new) cyc (length prev) ?m" and
    cov: "\<forall>it \<in> set (by_uid new). PStr (pstr (dget (snd it) ''id'')) \<in> (\<lambda>c. dget c ''control_ref'') ` set (m_controls ?m)"
    by blast+
  have "pstr (dget (snd it) ''id'') \<in> (\<lambda>c. pstr (dget c ''control_ref'')) ` set (m_controls ?m)"
    if "it \<in> set (by_uid new)" for it
    using imageI [OF bspec [OF cov that], of pstr] by (simp only: pstr_PStr image_image)
  then have "(\<lambda>d. pstr (dget d ''id'')) ` set (map snd (by_uid new))
      \<subseteq> (\<lambda>c. pstr (dget c ''control_ref'')) ` set (m_controls ?m)"
    by (simp only: set_map image_image) (rule image_subsetI)
  moreover from mig have "m_carried ?m + m_removed_controls ?m = int (length prev)"
    by (simp only: migrating_def)
  moreover from mig have "int (length (m_controls ?m)) = m_carried ?m + m_new_controls ?m"
    by (simp only: migrating_def)
  ultimately show ?thesis by blast
qed

text \<open>A migration never carries a verdict: every control that it writes for the new cycle has no
  evidence, no assessment and no judgement, whatever the control it comes from had.\<close>

lemma migration_resets_verdicts:
  "list_all (fresh_control cyc) (m_controls (plan_cycle_migration prev old new cyc now cb))"
  using plan_migrating [OF refl, of new cyc prev old now cb] by (simp add: migrating_def)

text \<open>The evidence contract that a migration carries over is set on the record but not in its history,
  so the audit view of the carried control at any date shows no contract.\<close>

theorem carried_contract_unseen_as_of:
  "dget (carry_cycle_control prev ref reason review cyc now cb) ''evidence_contract_ref''
     = dgetd prev ''evidence_contract_ref'' (PStr [])
   \<and> gstr (cycle_control_as_of (carry_cycle_control prev ref reason review cyc now cb) t) ''evidence_contract_ref'' = []"
  by (simp add: carry_cycle_control_def Let_def cycle_control_as_of_def history_entry_def as_of_initial_def
      dmerge_def)

end
