(* ===== verification/Gov_Store.thy ===== *)
theory Gov_Store
  imports Gov_Chain Gov_Migrate
begin

text \<open>
  The state behind the governance routes and the routes that change it: the in-memory repository of
  \<^verbatim>\<open>repositories/state_memory.py\<close> (records per kind and the append-only event ledger), \<^verbatim>\<open>_save\<close> and
  the handlers of \<^verbatim>\<open>api/routes/control_governance.py\<close>.  A handler takes the environment (digests,
  switches and the clock that stamps ledger events), the request (session and time of the call), its
  payload and the state; it returns an HTTP error or the answer, and the new state.

  The route that creates an evidence contract is left out: it stores a float.  The separate audit log
  (\<^verbatim>\<open>ctx.log_action\<close>) is not part of the state.
\<close>

section \<open>Environment, request and state\<close>

text \<open>\<open>ge_fails\<close> tells for which saves the recording in the ledger raises, from the state after the projection
  is saved, the actor and the record: a text that has no UTF-8 form cannot be hashed, and a database can
  refuse the append.\<close>

record gov_state =
  gs_recs :: "pdict dict dict"
  gs_events :: "pdict list"

record gov_env =
  ge_H :: "string \<Rightarrow> string"
  ge_H1 :: "string \<Rightarrow> string"
  ge_auth :: bool
  ge_sod :: bool
  ge_clock :: "nat \<Rightarrow> string"
  ge_fails :: "gov_state \<Rightarrow> string \<Rightarrow> pdict \<Rightarrow> bool"

record gov_request =
  rq_role :: "string option"
  rq_user :: string
  rq_now :: string

datatype herr = Forbidden | Unauthorized | BadRequest | NotFound | Conflict | ServerError

type_synonym answer = "(herr + pdict) \<times> gov_state"

definition empty_gov :: gov_state where
  "empty_gov = \<lparr>gs_recs = [], gs_events = []\<rparr>"

section \<open>The repository\<close>

definition kind_recs :: "gov_state \<Rightarrow> string \<Rightarrow> pdict dict" where
  "kind_recs st kind = (case map_of (gs_recs st) kind of None \<Rightarrow> [] | Some d \<Rightarrow> d)"

definition load_governance :: "gov_state \<Rightarrow> string \<Rightarrow> pdict list" where
  "load_governance st kind = map snd (kind_recs st kind)"

definition save_governance :: "gov_state \<Rightarrow> string \<Rightarrow> string \<Rightarrow> pdict \<Rightarrow> gov_state" where
  "save_governance st kind entity_id record =
     st\<lparr>gs_recs := dset (gs_recs st) kind (dset (kind_recs st kind) entity_id record)\<rparr>"

definition EVENT_LIMIT :: nat where
  "EVENT_LIMIT = 2000"

definition append_governance_event :: "gov_state \<Rightarrow> pdict \<Rightarrow> gov_state" where
  "append_governance_event st entry = st\<lparr>gs_events := gs_events st @ [entry]\<rparr>"

definition load_governance_events :: "gov_state \<Rightarrow> string option \<Rightarrow> string option \<Rightarrow> pdict list" where
  "load_governance_events st kind entity_id =
     (let evs = gs_events st;
          evs = (case kind of None \<Rightarrow> evs | Some k \<Rightarrow> filter (\<lambda>e. dget e ''kind'' = PStr k) evs);
          evs = (case entity_id of None \<Rightarrow> evs | Some i \<Rightarrow> filter (\<lambda>e. dget e ''entity_id'' = PStr i) evs)
      in drop (length evs - EVENT_LIMIT) evs)"

section \<open>Helpers of the routes\<close>

definition allowed :: "gov_env \<Rightarrow> gov_request \<Rightarrow> bool" where
  "allowed env rq = (\<not> ge_auth env \<or> rq_role rq \<in> {Some ''admin'', Some ''security''})"

definition actor_of :: "gov_request \<Rightarrow> string" where
  "actor_of rq = sor (rq_user rq) ''system''"

definition gov_find :: "gov_state \<Rightarrow> string \<Rightarrow> string \<Rightarrow> pdict option" where
  "gov_find st kind entity_id = List.find (\<lambda>r. dget r ''id'' = PStr entity_id) (load_governance st kind)"

definition ref_missing :: "gov_state \<Rightarrow> string \<Rightarrow> string \<Rightarrow> bool" where
  "ref_missing st kind entity_id = (entity_id \<noteq> [] \<and> gov_find st kind entity_id = None)"

definition control_ref_missing :: "gov_state \<Rightarrow> string \<Rightarrow> bool" where
  "control_ref_missing st entity_id =
     (gov_find st ''control_definition'' entity_id = None \<and> gov_find st ''organization_control'' entity_id = None)"

definition self_approval :: "gov_env \<Rightarrow> string \<Rightarrow> string \<Rightarrow> bool" where
  "self_approval env created_by actor = (ge_sod env \<and> created_by \<noteq> [] \<and> created_by = actor)"

definition event_type :: "string \<Rightarrow> string" where
  "event_type action =
     (if contains ''ACTIVATE'' action \<or> contains ''RETIRE'' action then ''lifecycle''
      else if contains ''MIGRATE'' action then ''migrate''
      else if contains ''UPDATE'' action then ''update''
      else ''create'')"

text \<open>\<^verbatim>\<open>_save\<close>: write the record, then append the event that records it; an exception while the event is
  built or appended is logged and the record stays saved.\<close>

definition gov_save :: "gov_env \<Rightarrow> gov_state \<Rightarrow> string \<Rightarrow> pdict \<Rightarrow> string \<Rightarrow> string \<Rightarrow> gov_state" where
  "gov_save env st kind rec actor action =
     (let eid = gstr rec ''id'';
          st = save_governance st kind eid rec
      in if ge_fails env st actor rec then st
         else
           let prev_hash = latest_hash (gs_events st);
               revision = int (length (load_governance_events st (Some kind) (Some eid))) + 1
           in append_governance_event st
                (build_governance_event (ge_H env) prev_hash kind eid revision (event_type action) actor
                   (ge_clock env (length (gs_events st))) rec))"

text \<open>\<^verbatim>\<open>str(payload.get(k, ""))\<close>, and the same stripped.\<close>

definition ptext :: "pdict \<Rightarrow> string \<Rightarrow> string" where
  "ptext p k = pstr (dgetd p k (PStr []))"

definition pstrip :: "pdict \<Rightarrow> string \<Rightarrow> string" where
  "pstrip p k = strip (ptext p k)"

text \<open>Iterating over \<^verbatim>\<open>(x or [])\<close>: \<open>None\<close> where Python raises.\<close>

definition py_iter :: "pv \<Rightarrow> pv list option" where
  "py_iter v =
     (if \<not> truthy v then Some []
      else case v of PList xs \<Rightarrow> Some xs
           | PStr s \<Rightarrow> Some (map (\<lambda>c. PStr [c]) s)
           | PDict d \<Rightarrow> Some (map PStr (keys d))
           | _ \<Rightarrow> None)"

definition str_items :: "pv \<Rightarrow> string list option" where
  "str_items v = map_option (map pstr) (py_iter v)"

definition dict_or_str :: "pv \<Rightarrow> pv" where
  "dict_or_str x = (if is_dict x then x else PStr (pstr x))"

section \<open>Frameworks and versions\<close>

definition create_framework :: "gov_env \<Rightarrow> gov_request \<Rightarrow> pdict \<Rightarrow> gov_state \<Rightarrow> answer" where
  "create_framework env rq payload st =
     (if \<not> allowed env rq then (Inl Forbidden, st)
      else
        let actor = actor_of rq;
            name = pstrip payload ''name'';
            fid = strip (sor (ptext payload ''framework_id'') name)
        in if name = [] \<or> fid = [] then (Inl BadRequest, st)
           else
             let rec = build_framework fid name (pstr (dgetd payload ''type'' (PStr ''certification'')))
                         (ptext payload ''publisher'') (rq_now rq) actor
             in if gov_find st ''framework'' (gstr rec ''id'') \<noteq> None then (Inl Conflict, st)
                else (Inr rec, gov_save env st ''framework'' rec actor ''GOV_FRAMEWORK_CREATE''))"

definition list_versions :: "gov_env \<Rightarrow> gov_request \<Rightarrow> string \<Rightarrow> gov_state \<Rightarrow> herr + (string \<times> pdict list)" where
  "list_versions env rq framework_id st =
     (if \<not> allowed env rq then Inl Forbidden
      else let fid = slug framework_id
           in Inr (fid, sort_key (\<lambda>v. pstr (dget v ''version''))
                (filter (\<lambda>v. dget v ''framework_id'' = PStr fid) (load_governance st ''framework_version''))))"

definition create_version :: "gov_env \<Rightarrow> gov_request \<Rightarrow> pdict \<Rightarrow> gov_state \<Rightarrow> answer" where
  "create_version env rq payload st =
     (if \<not> allowed env rq then (Inl Forbidden, st)
      else
        let actor = actor_of rq;
            fid = pstrip payload ''framework_id'';
            version = pstrip payload ''version''
        in if fid = [] \<or> version = [] then (Inl BadRequest, st)
           else if gov_find st ''framework'' fid = None \<and> gov_find st ''framework'' (lower fid) = None
             then (Inl NotFound, st)
           else
             let rec = build_framework_version (ge_H env) fid version (ptext payload ''effective_from'')
                         (dget payload ''effective_to'') ''draft''
                         (pstr (dgetd payload ''source_type'' (PStr ''user_upload'')))
                         (ptext payload ''source_hash'') (dget payload ''supersedes'')
                         (ptext payload ''change_reason'') (ptext payload ''importer_version'')
                         (as_dict (dget payload ''license'')) (rq_now rq) actor
             in if gov_find st ''framework_version'' (gstr rec ''id'') \<noteq> None then (Inl Conflict, st)
                else (Inr rec, gov_save env st ''framework_version'' rec actor ''GOV_VERSION_CREATE''))"

text \<open>The loop over the other versions of the framework: does it raise?\<close>

fun active_conflict :: "pdict \<Rightarrow> pdict list \<Rightarrow> bool" where
  "active_conflict rec [] = False"
| "active_conflict rec (other # others) =
     (if dget other ''status'' = PStr ''active'' then True
      else if dget other ''status'' \<in> {PStr ''active''} \<and>
              periods_overlap (dgetd rec ''effective_from'' (PStr [])) (dget rec ''effective_to'')
                (dgetd other ''effective_from'' (PStr [])) (dget other ''effective_to'') then True
      else active_conflict rec others)"

definition other_versions :: "gov_state \<Rightarrow> pdict \<Rightarrow> string \<Rightarrow> pdict list" where
  "other_versions st rec fv_id =
     filter (\<lambda>v. dget v ''framework_id'' = dget rec ''framework_id'' \<and> dget v ''id'' \<noteq> PStr fv_id)
       (load_governance st ''framework_version'')"

definition activate_version :: "gov_env \<Rightarrow> gov_request \<Rightarrow> string \<Rightarrow> gov_state \<Rightarrow> answer" where
  "activate_version env rq fv_id st =
     (if \<not> allowed env rq then (Inl Forbidden, st)
      else let actor = actor_of rq in
        case gov_find st ''framework_version'' fv_id of
          None \<Rightarrow> (Inl NotFound, st)
        | Some rec \<Rightarrow>
            if \<not> can_version_transition (pstr (dget rec ''status'')) ''active'' then (Inl Conflict, st)
            else if self_approval env (gstr rec ''created_by'') actor then (Inl Conflict, st)
            else if active_conflict rec (other_versions st rec fv_id) then (Inl Conflict, st)
            else
              let rec = apply_version_lifecycle rec ''active'' actor (rq_now rq)
              in (Inr rec, gov_save env st ''framework_version'' rec actor ''GOV_VERSION_ACTIVATE''))"

definition retire_version :: "gov_env \<Rightarrow> gov_request \<Rightarrow> string \<Rightarrow> gov_state \<Rightarrow> answer" where
  "retire_version env rq fv_id st =
     (if \<not> allowed env rq then (Inl Forbidden, st)
      else let actor = actor_of rq in
        case gov_find st ''framework_version'' fv_id of
          None \<Rightarrow> (Inl NotFound, st)
        | Some rec \<Rightarrow>
            if \<not> can_version_transition (pstr (dget rec ''status'')) ''retired'' then (Inl Conflict, st)
            else
              let rec = apply_version_lifecycle rec ''retired'' actor (rq_now rq)
              in (Inr rec, gov_save env st ''framework_version'' rec actor ''GOV_VERSION_RETIRE''))"

section \<open>Control definitions and their relationships\<close>

definition list_controls :: "gov_env \<Rightarrow> gov_request \<Rightarrow> string \<Rightarrow> gov_state \<Rightarrow> herr + pdict list" where
  "list_controls env rq fv_id st =
     (if \<not> allowed env rq then Inl Forbidden
      else Inr (sort_key (\<lambda>c. pstr (dget c ''display_code''))
             (filter (\<lambda>c. dget c ''framework_version_id'' = PStr fv_id) (load_governance st ''control_definition''))))"

definition create_control :: "gov_env \<Rightarrow> gov_request \<Rightarrow> pdict \<Rightarrow> gov_state \<Rightarrow> answer" where
  "create_control env rq payload st =
     (if \<not> allowed env rq then (Inl Forbidden, st)
      else
        let actor = actor_of rq;
            fv_id = pstrip payload ''framework_version_id'';
            display_code = pstrip payload ''display_code'';
            title = pstrip payload ''title''
        in if fv_id = [] \<or> display_code = [] \<or> title = [] then (Inl BadRequest, st)
           else case gov_find st ''framework_version'' fv_id of
             None \<Rightarrow> (Inl NotFound, st)
           | Some version \<Rightarrow>
               if \<not> is_mutable_version version then (Inl Conflict, st)
               else
                 let interp = map (map_prod id (\<lambda>v. PStr (pstr v))) (as_dict (dget payload ''interpretations''));
                     rec = build_control_definition (ge_H env) fv_id display_code title
                             (ptext payload ''control_uid'') (ptext payload ''requirement_text'')
                             (dget payload ''parent_control_id'') interp (rq_now rq) actor
                 in (Inr rec, gov_save env st ''control_definition'' rec actor ''GOV_CONTROL_CREATE''))"

definition list_relationships ::
    "gov_env \<Rightarrow> gov_request \<Rightarrow> string option \<Rightarrow> gov_state \<Rightarrow> herr + pdict list" where
  "list_relationships env rq control_id st =
     (if \<not> allowed env rq then Inl Forbidden
      else
        let rels = load_governance st ''control_relationship'' in
        case control_id of
          Some (c # cs) \<Rightarrow> Inr (filter (\<lambda>r. PStr (c # cs) \<in> {dget r ''source_control_id'', dget r ''target_control_id''}) rels)
        | _ \<Rightarrow> Inr rels)"

text \<open>The check of \<^verbatim>\<open>coverage_percent\<close>: \<open>None\<close> for the answer 400.\<close>

definition coverage_arg :: "pv \<Rightarrow> pv option" where
  "coverage_arg cov_raw =
     (if cov_raw \<in> {PNone, PStr []} then Some PNone
      else case py_int cov_raw of
             None \<Rightarrow> None
           | Some cov \<Rightarrow> if 0 \<le> cov \<and> cov \<le> 100 then Some (PInt cov) else None)"

definition create_relationship :: "gov_env \<Rightarrow> gov_request \<Rightarrow> pdict \<Rightarrow> gov_state \<Rightarrow> answer" where
  "create_relationship env rq payload st =
     (if \<not> allowed env rq then (Inl Forbidden, st)
      else
        let actor = actor_of rq;
            src = pstrip payload ''source_control_id'';
            tgt = pstrip payload ''target_control_id'';
            rtype = pstrip payload ''relationship_type''
        in if src = [] \<or> tgt = [] \<or> rtype \<notin> set RELATIONSHIP_TYPES then (Inl BadRequest, st)
           else if src = tgt then (Inl BadRequest, st)
           else if control_ref_missing st src then (Inl NotFound, st)
           else if control_ref_missing st tgt then (Inl NotFound, st)
           else case coverage_arg (dget payload ''coverage_percent'') of
             None \<Rightarrow> (Inl BadRequest, st)
           | Some cov \<Rightarrow>
               let rec = build_relationship (ge_H1 env) src tgt rtype cov (ptext payload ''rationale'')
                           (pstr (dgetd payload ''provenance'' (PStr ''HUMAN''))) actor (rq_now rq)
               in if gov_find st ''control_relationship'' (gstr rec ''id'') \<noteq> None then (Inl Conflict, st)
                  else (Inr rec, gov_save env st ''control_relationship'' rec actor ''GOV_REL_CREATE''))"

section \<open>Organization controls, scope snapshots, cycles and mappings\<close>

definition create_org_control :: "gov_env \<Rightarrow> gov_request \<Rightarrow> pdict \<Rightarrow> gov_state \<Rightarrow> answer" where
  "create_org_control env rq payload st =
     (if \<not> allowed env rq then (Inl Forbidden, st)
      else
        let actor = actor_of rq;
            code = pstrip payload ''code'';
            title = pstrip payload ''title''
        in if code = [] \<or> title = [] then (Inl BadRequest, st)
           else case (py_int (por (dgetd payload ''version'' (PInt 1)) (PInt 1)),
                      py_iter (dget payload ''mapped_controls'')) of
             (Some version, Some mapped) \<Rightarrow>
               (let rec = build_organization_control (ge_H env) code title (ptext payload ''owner_team'')
                            (ptext payload ''frequency'') (ptext payload ''scope'') (map dict_or_str mapped)
                            version (dget payload ''supersedes'') (rq_now rq) actor
                in if gov_find st ''organization_control'' (gstr rec ''id'') \<noteq> None then (Inl Conflict, st)
                   else (Inr rec, gov_save env st ''organization_control'' rec actor ''GOV_ORGCTL_CREATE''))
           | _ \<Rightarrow> (Inl ServerError, st))"

definition create_scope_snapshot :: "gov_env \<Rightarrow> gov_request \<Rightarrow> pdict \<Rightarrow> gov_state \<Rightarrow> answer" where
  "create_scope_snapshot env rq payload st =
     (if \<not> allowed env rq then (Inl Forbidden, st)
      else
        let actor = actor_of rq;
            sid = pstrip payload ''snapshot_id''
        in if sid = [] then (Inl BadRequest, st)
           else case (str_items (dget payload ''services''), py_iter (dget payload ''assets''),
                      str_items (dget payload ''organizations''), str_items (dget payload ''locations''),
                      str_items (dget payload ''data_processes'')) of
             (Some services, Some assets, Some organizations, Some locations, Some data_processes) \<Rightarrow>
               (let rec = build_scope_snapshot (ge_H env) sid services (map dict_or_str assets) organizations
                            locations data_processes (ptext payload ''approved_by'')
                            (ptext payload ''source_query'') (ptext payload ''change_reason'') (rq_now rq) actor
                in if gov_find st ''scope_snapshot'' (gstr rec ''id'') \<noteq> None then (Inl Conflict, st)
                   else (Inr rec, gov_save env st ''scope_snapshot'' rec actor ''GOV_SCOPE_CREATE''))
           | _ \<Rightarrow> (Inl ServerError, st))"

definition create_cycle :: "gov_env \<Rightarrow> gov_request \<Rightarrow> pdict \<Rightarrow> gov_state \<Rightarrow> answer" where
  "create_cycle env rq payload st =
     (if \<not> allowed env rq then (Inl Forbidden, st)
      else
        let actor = actor_of rq;
            cid = pstrip payload ''cycle_id'';
            name = pstrip payload ''name'';
            fv_id = pstrip payload ''framework_version_id'';
            scope = ptext payload ''scope_snapshot_id''
        in if cid = [] \<or> name = [] \<or> fv_id = [] then (Inl BadRequest, st)
           else if ref_missing st ''framework_version'' fv_id then (Inl NotFound, st)
           else if ref_missing st ''scope_snapshot'' scope then (Inl NotFound, st)
           else
             let rec = build_assurance_cycle cid name fv_id (ptext payload ''period_start'')
                         (ptext payload ''period_end'') scope (pstr (dgetd payload ''status'' (PStr ''draft'')))
                         (rq_now rq) actor
             in if gov_find st ''assurance_cycle'' (gstr rec ''id'') \<noteq> None then (Inl Conflict, st)
                else (Inr rec, gov_save env st ''assurance_cycle'' rec actor ''GOV_CYCLE_CREATE''))"

definition create_evidence_mapping :: "gov_env \<Rightarrow> gov_request \<Rightarrow> pdict \<Rightarrow> gov_state \<Rightarrow> answer" where
  "create_evidence_mapping env rq payload st =
     (if \<not> allowed env rq then (Inl Forbidden, st)
      else
        let actor = actor_of rq;
            oc = pstrip payload ''organization_control_id'';
            src = pstrip payload ''source_type''
        in if oc = [] \<or> src = [] then (Inl BadRequest, st)
           else if ref_missing st ''organization_control'' oc then (Inl NotFound, st)
           else case py_int (por (dgetd payload ''mapping_version'' (PInt 1)) (PInt 1)) of
             None \<Rightarrow> (Inl ServerError, st)
           | Some version \<Rightarrow>
               let rec = build_evidence_mapping oc src (ptext payload ''collection_rule_id'')
                           (ptext payload ''valid_from'') (dget payload ''valid_to'') version
                           (ptext payload ''rationale'') actor (rq_now rq)
               in if gov_find st ''evidence_mapping'' (gstr rec ''id'') \<noteq> None then (Inl Conflict, st)
                  else (Inr rec, gov_save env st ''evidence_mapping'' rec actor ''GOV_MAPPING_CREATE''))"

section \<open>Cycle controls\<close>

definition list_cycle_controls :: "gov_env \<Rightarrow> gov_request \<Rightarrow> string \<Rightarrow> gov_state \<Rightarrow> herr + pdict list" where
  "list_cycle_controls env rq cycle_id st =
     (if \<not> allowed env rq then Inl Forbidden
      else Inr (filter (\<lambda>r. dget r ''cycle_id'' = PStr cycle_id) (load_governance st ''cycle_control'')))"

definition create_cycle_control :: "gov_env \<Rightarrow> gov_request \<Rightarrow> pdict \<Rightarrow> gov_state \<Rightarrow> answer" where
  "create_cycle_control env rq payload st =
     (if \<not> allowed env rq then (Inl Forbidden, st)
      else
        let actor = actor_of rq;
            cyc = pstrip payload ''cycle_id'';
            ref = pstrip payload ''control_ref''
        in if cyc = [] \<or> ref = [] then (Inl BadRequest, st)
           else if ref_missing st ''assurance_cycle'' cyc then (Inl NotFound, st)
           else if control_ref_missing st ref then (Inl NotFound, st)
           else
             let appl = pstr (dgetd payload ''applicability'' (PStr ''pending_assessment''))
             in if appl \<notin> set APPLICABILITY_STATUSES then (Inl BadRequest, st)
                else
                  let rec = build_cycle_control cyc ref (ptext payload ''assignee'') appl (rq_now rq) actor
                  in if gov_find st ''cycle_control'' (gstr rec ''id'') \<noteq> None then (Inl Conflict, st)
                     else (Inr rec, gov_save env st ''cycle_control'' rec actor ''GOV_CYCLECTL_CREATE''))"

definition update_request :: "gov_request \<Rightarrow> pdict \<Rightarrow> cc_update" where
  "update_request rq payload =
     \<lparr>up_actor = actor_of rq, up_now = rq_now rq, up_evidence_status = pstrip payload ''evidence_status'',
      up_assessment_status = pstrip payload ''assessment_status'',
      up_applicability = pstrip payload ''applicability'', up_assignee = ptext payload ''assignee'',
      up_note = ptext payload ''note'', up_evidence_set_hash = ptext payload ''evidence_set_hash'',
      up_rationale = ptext payload ''rationale'', up_scope_snapshot_id = ptext payload ''scope_snapshot_id''\<rparr>"

definition update_cycle_control :: "gov_env \<Rightarrow> gov_request \<Rightarrow> string \<Rightarrow> pdict \<Rightarrow> gov_state \<Rightarrow> answer" where
  "update_cycle_control env rq cc_id payload st =
     (if \<not> allowed env rq then (Inl Forbidden, st)
      else case gov_find st ''cycle_control'' cc_id of
        None \<Rightarrow> (Inl NotFound, st)
      | Some cc \<Rightarrow>
          let u = update_request rq payload
          in if up_evidence_status u \<noteq> [] \<and> up_evidence_status u \<notin> set EVIDENCE_STATUSES
               then (Inl BadRequest, st)
             else if up_assessment_status u \<noteq> [] \<and> up_assessment_status u \<notin> set ASSESSMENT_STATUSES
               then (Inl BadRequest, st)
             else if up_applicability u \<noteq> [] \<and> up_applicability u \<notin> set APPLICABILITY_STATUSES
               then (Inl BadRequest, st)
             else
               let cc = apply_cycle_control_update cc u;
                   changed = truthy (dgetd cc ''_changed'' (PBool True));
                   cc = filter (\<lambda>kv. fst kv \<noteq> ''_changed'') cc;
                   st = (if changed then gov_save env st ''cycle_control'' cc (actor_of rq) ''GOV_CYCLECTL_UPDATE''
                         else st)
               in (Inr (dset cc ''_no_op'' (PBool (\<not> changed))), st))"

definition cycle_control_as_of_route ::
    "gov_env \<Rightarrow> gov_request \<Rightarrow> string \<Rightarrow> string option \<Rightarrow> gov_state \<Rightarrow> herr + pdict" where
  "cycle_control_as_of_route env rq cc_id date st =
     (if \<not> allowed env rq then Inl Forbidden
      else case gov_find st ''cycle_control'' cc_id of
        None \<Rightarrow> Inl NotFound
      | Some cc \<Rightarrow>
          let as_of = (case date of None \<Rightarrow> rq_now rq | Some d \<Rightarrow> sor d (rq_now rq))
          in Inr (dmerge [(''cycle_control_id'', PStr cc_id)] (cycle_control_as_of cc as_of)))"

section \<open>Comparison, migration and audit\<close>

definition controls_of :: "gov_state \<Rightarrow> pv \<Rightarrow> pdict list" where
  "controls_of st fv = filter (\<lambda>c. dget c ''framework_version_id'' = fv) (load_governance st ''control_definition'')"

definition compare_versions ::
    "gov_env \<Rightarrow> gov_request \<Rightarrow> string \<Rightarrow> string \<Rightarrow> gov_state \<Rightarrow> herr + control_diff" where
  "compare_versions env rq fv_id to st =
     (if \<not> allowed env rq then Inl Forbidden
      else if gov_find st ''framework_version'' fv_id = None \<or> gov_find st ''framework_version'' to = None
        then Inl NotFound
      else Inr (diff_control_definitions (controls_of st (PStr fv_id)) (controls_of st (PStr to))))"

text \<open>The loop that saves what is not there yet; it serves the migration and the import.\<close>

fun save_new ::
    "gov_env \<Rightarrow> string \<Rightarrow> string \<Rightarrow> string \<Rightarrow> pdict list \<Rightarrow> int \<times> gov_state \<Rightarrow> int \<times> gov_state" where
  "save_new env kind actor action [] acc = acc"
| "save_new env kind actor action (r # rs) (created, st) =
     save_new env kind actor action rs
       (if gov_find st kind (gstr r ''id'') = None
        then (created + 1, gov_save env st kind r actor action) else (created, st))"

definition initialize_cycle ::
    "gov_env \<Rightarrow> gov_request \<Rightarrow> string \<Rightarrow> string \<Rightarrow> gov_state \<Rightarrow> (herr + (migration \<times> int)) \<times> gov_state" where
  "initialize_cycle env rq cycle_id previous_id st =
     (if \<not> allowed env rq then (Inl Forbidden, st)
      else
        let actor = actor_of rq;
            prev_cycle = gov_find st ''assurance_cycle'' previous_id
        in case gov_find st ''assurance_cycle'' cycle_id of
          None \<Rightarrow> (Inl NotFound, st)
        | Some new_cycle \<Rightarrow>
            let prev = filter (\<lambda>r. dget r ''cycle_id'' = PStr previous_id) (load_governance st ''cycle_control'')
            in if prev = [] then (Inl NotFound, st)
               else
                 let old_fv = (case prev_cycle of None \<Rightarrow> PStr [] | Some c \<Rightarrow> dgetd c ''framework_version_id'' (PStr []));
                     new_fv = dgetd new_cycle ''framework_version_id'' (PStr []);
                     res = plan_cycle_migration prev (controls_of st old_fv) (controls_of st new_fv) cycle_id
                             (rq_now rq) actor;
                     (created, st) = save_new env ''cycle_control'' actor ''GOV_CYCLE_MIGRATE'' (m_controls res) (0, st)
                 in (Inr (res, created), st))"

definition cycle_audit_snapshot ::
    "gov_env \<Rightarrow> gov_request \<Rightarrow> string \<Rightarrow> string option \<Rightarrow> gov_state \<Rightarrow> herr + pdict" where
  "cycle_audit_snapshot env rq cycle_id date st =
     (if \<not> allowed env rq then Inl Forbidden
      else case gov_find st ''assurance_cycle'' cycle_id of
        None \<Rightarrow> Inl NotFound
      | Some cyc \<Rightarrow>
          let ccs = filter (\<lambda>r. dget r ''cycle_id'' = PStr cycle_id) (load_governance st ''cycle_control'');
              scope = (case gov_find st ''scope_snapshot'' (gstr cyc ''scope_snapshot_id'') of
                         None \<Rightarrow> [] | Some s \<Rightarrow> s)
          in Inr (build_cycle_audit_snapshot cyc ccs
                    (case date of None \<Rightarrow> rq_now rq | Some d \<Rightarrow> sor d (rq_now rq)) scope))"

definition crosswalk :: "gov_env \<Rightarrow> gov_request \<Rightarrow> gov_state \<Rightarrow> herr + pdict" where
  "crosswalk env rq st =
     (if \<not> allowed env rq then Inl Forbidden
      else Inr (build_crosswalk (load_governance st ''organization_control'')))"

definition overlay_view :: "gov_env \<Rightarrow> gov_request \<Rightarrow> string \<Rightarrow> pv \<Rightarrow> gov_state \<Rightarrow> herr + pdict" where
  "overlay_view env rq control_id payload st =
     (if \<not> allowed env rq then Inl Forbidden
      else case gov_find st ''control_definition'' control_id of
        None \<Rightarrow> Inl NotFound
      | Some cdef \<Rightarrow> Inr (apply_overlay cdef (as_dict payload)))"

definition governance_events ::
    "gov_env \<Rightarrow> gov_request \<Rightarrow> string option \<Rightarrow> string option \<Rightarrow> gov_state \<Rightarrow> herr + pdict list" where
  "governance_events env rq kind entity_id st =
     (if \<not> allowed env rq then Inl Forbidden else Inr (load_governance_events st kind entity_id))"

definition governance_events_verify :: "gov_env \<Rightarrow> gov_request \<Rightarrow> gov_state \<Rightarrow> herr + chain_verdict" where
  "governance_events_verify env rq st =
     (if \<not> allowed env rq then Inl Forbidden
      else Inr (verify_governance_chain (ge_H env) (load_governance_events st None None)))"

section \<open>Importing the catalogue\<close>

text \<open>\<open>catalog\<close> is the list of controls of the merged catalogue.\<close>

definition import_catalog ::
    "gov_env \<Rightarrow> gov_request \<Rightarrow> pdict list \<Rightarrow> string option \<Rightarrow> gov_state \<Rightarrow> (herr + (int \<times> int \<times> int)) \<times> gov_state" where
  "import_catalog env rq catalog framework st =
     (if \<not> allowed env rq then (Inl Forbidden, st)
      else
        let actor = actor_of rq;
            controls = (case framework of
                Some (c # cs) \<Rightarrow> filter (\<lambda>d. slug (gstr d ''framework'') = slug (c # cs)) catalog
              | _ \<Rightarrow> catalog)
        in case plan_catalog_import (ge_H env) controls (rq_now rq) actor of
             (frameworks, versions, defs) \<Rightarrow>
               let (nf, st) = save_new env ''framework'' actor ''GOV_FRAMEWORK_CREATE'' frameworks (0, st);
                   (nv, st) = save_new env ''framework_version'' actor ''GOV_VERSION_CREATE'' versions (0, st);
                   (nd, st) = save_new env ''control_definition'' actor ''GOV_CONTROL_CREATE'' defs (0, st)
               in (Inr (nf, nv, nd), st))"

end
