(* ===== verification/Gov_Inv.thy ===== *)
theory Gov_Inv
  imports Gov_Store
begin

text \<open>
  What the governance routes keep true.  Every route changes the state only through \<open>gov_save\<close>, with a
  record that satisfies \<open>write_ok\<close>; \<open>gov_write\<close> is that abstract step, the lemmas of the second section
  show that each handler is a sequence of such steps, and the invariants are proved once for \<open>gov_write\<close>.
\<close>

section \<open>Calls and runs\<close>

datatype gov_call =
    ImportCatalog "pdict list" "string option"
  | CreateFramework pdict
  | CreateVersion pdict
  | ActivateVersion string
  | RetireVersion string
  | CreateControl pdict
  | CreateRelationship pdict
  | CreateOrgControl pdict
  | CreateScopeSnapshot pdict
  | CreateCycle pdict
  | CreateEvidenceMapping pdict
  | CreateCycleControl pdict
  | UpdateCycleControl string pdict
  | InitializeCycle string string

primrec gov_exec :: "gov_env \<Rightarrow> gov_request \<Rightarrow> gov_call \<Rightarrow> gov_state \<Rightarrow> gov_state" where
  "gov_exec env rq (ImportCatalog cat fw) st = snd (import_catalog env rq cat fw st)"
| "gov_exec env rq (CreateFramework p) st = snd (create_framework env rq p st)"
| "gov_exec env rq (CreateVersion p) st = snd (create_version env rq p st)"
| "gov_exec env rq (ActivateVersion i) st = snd (activate_version env rq i st)"
| "gov_exec env rq (RetireVersion i) st = snd (retire_version env rq i st)"
| "gov_exec env rq (CreateControl p) st = snd (create_control env rq p st)"
| "gov_exec env rq (CreateRelationship p) st = snd (create_relationship env rq p st)"
| "gov_exec env rq (CreateOrgControl p) st = snd (create_org_control env rq p st)"
| "gov_exec env rq (CreateScopeSnapshot p) st = snd (create_scope_snapshot env rq p st)"
| "gov_exec env rq (CreateCycle p) st = snd (create_cycle env rq p st)"
| "gov_exec env rq (CreateEvidenceMapping p) st = snd (create_evidence_mapping env rq p st)"
| "gov_exec env rq (CreateCycleControl p) st = snd (create_cycle_control env rq p st)"
| "gov_exec env rq (UpdateCycleControl i p) st = snd (update_cycle_control env rq i p st)"
| "gov_exec env rq (InitializeCycle i j) st = snd (initialize_cycle env rq i j st)"

definition gov_run :: "gov_env \<Rightarrow> gov_state \<Rightarrow> (gov_request \<times> gov_call) list \<Rightarrow> gov_state" where
  "gov_run env st calls = foldl (\<lambda>st c. gov_exec env (fst c) (snd c) st) st calls"

lemma gov_run_append: "gov_run env st (cs @ ds) = gov_run env (gov_run env st cs) ds"
  by (simp add: gov_run_def)

section \<open>The abstract step\<close>

definition refs_ok :: "gov_state \<Rightarrow> string \<Rightarrow> pdict \<Rightarrow> bool" where
  "refs_ok st kind r =
     (if kind = ''framework_version'' then gov_find st ''framework'' (gstr r ''framework_id'') \<noteq> None
      else if kind = ''control_definition''
        then gov_find st ''framework_version'' (gstr r ''framework_version_id'') \<noteq> None
      else if kind = ''control_relationship''
        then \<not> control_ref_missing st (gstr r ''source_control_id'') \<and> \<not> control_ref_missing st (gstr r ''target_control_id'')
      else if kind = ''assurance_cycle''
        then gov_find st ''framework_version'' (gstr r ''framework_version_id'') \<noteq> None
          \<and> \<not> ref_missing st ''scope_snapshot'' (gstr r ''scope_snapshot_id'')
      else if kind = ''evidence_mapping''
        then gov_find st ''organization_control'' (gstr r ''organization_control_id'') \<noteq> None
      else if kind = ''cycle_control''
        then gov_find st ''assurance_cycle'' (gstr r ''cycle_id'') \<noteq> None
          \<and> \<not> control_ref_missing st (gstr r ''control_ref'')
      else True)"

definition is_active :: "pdict \<Rightarrow> bool" where
  "is_active v = (dget v ''status'' = PStr ''active'')"

definition logged :: "pdict \<Rightarrow> bool" where
  "logged v = (\<exists>ts. map log_target (as_list (dget v ''lifecycle'')) = ''draft'' # ts
     \<and> legal_path can_version_transition ''draft'' ts \<and> dget v ''status'' = PStr (last (''draft'' # ts)))"

definition version_ok :: "gov_env \<Rightarrow> gov_state \<Rightarrow> pdict \<Rightarrow> bool" where
  "version_ok env st r =
     (let i = gstr r ''id'' in
        (gov_find st ''framework_version'' i = None \<and> \<not> is_active r \<and> sealed (ge_H env) r \<and> logged r)
      \<or> (\<exists>r0 t actor now. gov_find st ''framework_version'' i = Some r0
           \<and> r = apply_version_lifecycle r0 t actor now \<and> can_version_transition (pstr (dget r0 ''status'')) t
           \<and> (t = ''active'' \<longrightarrow> list_all (\<lambda>v. \<not> is_active v) (other_versions st r0 i))))"

definition write_ok :: "gov_env \<Rightarrow> gov_state \<Rightarrow> string \<Rightarrow> pdict \<Rightarrow> bool" where
  "write_ok env st kind r = (dget r ''id'' = PStr (gstr r ''id'') \<and> refs_ok st kind r
     \<and> (kind = ''framework'' \<longrightarrow> slug (gstr r ''id'') = gstr r ''id'')
     \<and> (kind = ''framework_version'' \<longrightarrow> version_ok env st r))"

inductive gov_write :: "gov_env \<Rightarrow> gov_state \<Rightarrow> gov_state \<Rightarrow> bool" for env where
  saved: "write_ok env st kind r \<Longrightarrow> gov_write env st (gov_save env st kind r actor action)"

inductive_cases gov_writeE: "gov_write env st st'"

section \<open>The store as an association of identifiers\<close>

definition store_wf :: "gov_state \<Rightarrow> bool" where
  "store_wf st = (\<forall>k i r. map_of (kind_recs st k) i = Some r \<longrightarrow> dget r ''id'' = PStr i)"

definition keyed :: "gov_state \<Rightarrow> bool" where
  "keyed st = (\<forall>k. dwf (kind_recs st k))"

lemma find_by_id:
  "(\<And>i r. (i, r) \<in> set d \<Longrightarrow> dget r ''id'' = PStr i) \<Longrightarrow>
   List.find (\<lambda>r. dget r ''id'' = PStr i) (map snd d) = map_of d i"
proof (induction d)
  case (Cons p d)
  have "dget (snd p) ''id'' = PStr (fst p)" using Cons.prems [of "fst p" "snd p"] by simp
  moreover have "List.find (\<lambda>r. dget r ''id'' = PStr i) (map snd d) = map_of d i"
    by (rule Cons.IH) (rule Cons.prems, simp)
  ultimately show ?case by (cases p) auto
qed simp

lemma gov_find_kind:
  assumes "store_wf st" "keyed st"
  shows "gov_find st k i = map_of (kind_recs st k) i"
  unfolding gov_find_def load_governance_def
  by (rule find_by_id) (use assms in \<open>auto simp: store_wf_def keyed_def\<close>)

lemma kind_recs_save:
  "kind_recs (gov_save env st k r a act) k' =
     (if k' = k then dset (kind_recs st k) (gstr r ''id'') r else kind_recs st k')"
  by (simp add: gov_save_def Let_def save_governance_def append_governance_event_def kind_recs_def)

lemma store_wf_save: "store_wf st \<Longrightarrow> dget r ''id'' = PStr (gstr r ''id'') \<Longrightarrow> store_wf (gov_save env st k r a act)"
  by (auto simp: store_wf_def kind_recs_save split: if_splits)

lemma keyed_save: "keyed st \<Longrightarrow> keyed (gov_save env st k r a act)"
  by (simp add: keyed_def kind_recs_save)

definition tidy :: "gov_state \<Rightarrow> bool" where
  "tidy st = (store_wf st \<and> keyed st)"

lemma tidy_empty [simp]: "tidy empty_gov"
  by (simp add: tidy_def store_wf_def keyed_def empty_gov_def kind_recs_def)

lemma tidy_save [simp]: "tidy st \<Longrightarrow> write_ok env st k r \<Longrightarrow> tidy (gov_save env st k r a act)"
  by (simp add: tidy_def store_wf_save keyed_save write_ok_def)

lemma find_save:
  assumes "tidy st" "write_ok env st k r"
  shows "gov_find (gov_save env st k r a act) k' i =
    (if k' = k \<and> i = gstr r ''id'' then Some r else gov_find st k' i)"
proof -
  have "tidy (gov_save env st k r a act)" using assms by simp
  with assms show ?thesis by (auto simp: tidy_def gov_find_kind kind_recs_save)
qed

lemma gov_find_id: "gov_find st k i = Some r \<Longrightarrow> dget r ''id'' = PStr i \<and> gstr r ''id'' = i"
  by (auto simp: gov_find_def find_Some_iff gstr_PStr)

lemma find_load: "r \<in> set (load_governance st k) \<Longrightarrow> dget r ''id'' = PStr i \<Longrightarrow> gov_find st k i \<noteq> None"
  by (auto simp: gov_find_def find_None_iff)

lemma load_find: "tidy st \<Longrightarrow> r \<in> set (load_governance st k) \<Longrightarrow> gov_find st k (gstr r ''id'') = Some r"
  by (auto simp: tidy_def gov_find_kind load_governance_def keyed_def store_wf_def gstr_PStr)

text \<open>Nothing that was stored is lost.\<close>

definition grows :: "gov_state \<Rightarrow> gov_state \<Rightarrow> bool" where
  "grows st st' = (\<forall>k i. gov_find st k i \<noteq> None \<longrightarrow> gov_find st' k i \<noteq> None)"

lemma grows_refl [simp]: "grows st st"
  by (simp add: grows_def)

lemma grows_save: "tidy st \<Longrightarrow> write_ok env st k r \<Longrightarrow> grows st (gov_save env st k r a act)"
  by (simp add: grows_def find_save)

lemma refs_ok_grows: "grows st st' \<Longrightarrow> refs_ok st k r \<Longrightarrow> refs_ok st' k r"
  unfolding refs_ok_def grows_def ref_missing_def control_ref_missing_def by (simp split: if_splits) blast+

lemma tidy_writes: "(gov_write env)\<^sup>*\<^sup>* st st' \<Longrightarrow> tidy st \<Longrightarrow> tidy st'"
  by (induction rule: rtranclp_induct) (auto elim: gov_writeE)

lemma grows_writes: "(gov_write env)\<^sup>*\<^sup>* st st' \<Longrightarrow> tidy st \<Longrightarrow> grows st st'"
proof (induction rule: rtranclp_induct)
  case (step y z)
  from step.hyps(2) obtain k r a act where w: "z = gov_save env y k r a act" "write_ok env y k r"
    by (rule gov_writeE)
  have "tidy y" using step.hyps(1) step.prems by (rule tidy_writes)
  with w have "grows y z" by (simp add: grows_save)
  with step.IH [OF step.prems] show ?case by (simp add: grows_def)
qed simp

section \<open>The fields of the records that are written\<close>

lemma dget_stamp [simp]:
  "k \<notin> {''content_hash'', ''canonicalization'', ''hash_algorithm''} \<Longrightarrow> dget (stamp_hash H r) k = dget r k"
  by (simp add: stamp_hash_def Let_def)

lemma gstr_stamp [simp]:
  "k \<notin> {''content_hash'', ''canonicalization'', ''hash_algorithm''} \<Longrightarrow> gstr (stamp_hash H r) k = gstr r k"
  by (simp add: gstr_def)

lemma built_framework [simp]:
  "dget (build_framework fid n t p now cb) ''id'' = PStr (slug fid)"
  "gstr (build_framework fid n t p now cb) ''id'' = slug fid"
  by (simp_all add: build_framework_def Let_def)

lemma built_version [simp]:
  "dget (build_framework_version H fid v ef et s sty sh su cr iv l now cb) ''id'' = PStr (slug fid @ '':'' @ slug v)"
  "gstr (build_framework_version H fid v ef et s sty sh su cr iv l now cb) ''id'' = slug fid @ '':'' @ slug v"
  "dget (build_framework_version H fid v ef et s sty sh su cr iv l now cb) ''framework_id'' = PStr (slug fid)"
  "gstr (build_framework_version H fid v ef et s sty sh su cr iv l now cb) ''framework_id'' = slug fid"
  "dget (build_framework_version H fid v ef et s sty sh su cr iv l now cb) ''status'' = PStr s"
  "dget (build_framework_version H fid v ef et s sty sh su cr iv l now cb) ''lifecycle'' =
     PList [PDict [(''ts'', PStr now), (''actor'', PStr cb), (''to'', PStr s)]]"
  by (simp_all add: build_framework_version_def Let_def)

lemma built_control [simp]:
  "dget (build_control_definition H fv dc ti u rt pc it now cb) ''id'' = PStr (fv @ '':'' @ slug dc)"
  "gstr (build_control_definition H fv dc ti u rt pc it now cb) ''id'' = fv @ '':'' @ slug dc"
  "gstr (build_control_definition H fv dc ti u rt pc it now cb) ''framework_version_id'' = fv"
  by (simp_all add: build_control_definition_def Let_def)

lemma built_relationship [simp]:
  "dget (build_relationship H1 s t rt cp ra pv rb now) ''id'' = PStr (short_id H1 [PStr s, PStr t, PStr rt] ''rel'')"
  "gstr (build_relationship H1 s t rt cp ra pv rb now) ''id'' = short_id H1 [PStr s, PStr t, PStr rt] ''rel''"
  "gstr (build_relationship H1 s t rt cp ra pv rb now) ''source_control_id'' = s"
  "gstr (build_relationship H1 s t rt cp ra pv rb now) ''target_control_id'' = t"
  by (simp_all add: build_relationship_def Let_def)

lemma built_org_control [simp]:
  "dget (build_organization_control H c t ow f s m v su now cb) ''id'' = PStr (slug c @ '':v'' @ int_str v)"
  "gstr (build_organization_control H c t ow f s m v su now cb) ''id'' = slug c @ '':v'' @ int_str v"
  by (simp_all add: build_organization_control_def Let_def)

lemma built_scope [simp]:
  "dget (build_scope_snapshot H i s a os l d ab q cr now cb) ''id'' = PStr (slug i)"
  "gstr (build_scope_snapshot H i s a os l d ab q cr now cb) ''id'' = slug i"
  by (simp_all add: build_scope_snapshot_def Let_def)

lemma built_cycle [simp]:
  "dget (build_assurance_cycle c n fv ps pe sc s now cb) ''id'' = PStr (slug c)"
  "gstr (build_assurance_cycle c n fv ps pe sc s now cb) ''id'' = slug c"
  "gstr (build_assurance_cycle c n fv ps pe sc s now cb) ''framework_version_id'' = fv"
  "gstr (build_assurance_cycle c n fv ps pe sc s now cb) ''scope_snapshot_id'' = sc"
  by (simp_all add: build_assurance_cycle_def Let_def)

lemma built_mapping [simp]:
  "dget (build_evidence_mapping oc s cr vf vt mv r ab now) ''id'' = PStr (slug oc @ '':'' @ slug s @ '':v'' @ int_str mv)"
  "gstr (build_evidence_mapping oc s cr vf vt mv r ab now) ''id'' = slug oc @ '':'' @ slug s @ '':v'' @ int_str mv"
  "gstr (build_evidence_mapping oc s cr vf vt mv r ab now) ''organization_control_id'' = oc"
  by (simp_all add: build_evidence_mapping_def Let_def)

lemma cc_gstr [simp]:
  "gstr (build_cycle_control c r a ap now cb) ''id'' = slug c @ '':'' @ slug r"
  "gstr (build_cycle_control c r a ap now cb) ''cycle_id'' = c"
  "gstr (build_cycle_control c r a ap now cb) ''control_ref'' = r"
  by (simp_all add: gstr_def)

section \<open>Every handler is a sequence of abstract steps\<close>

lemma one_write: "write_ok env st k r \<Longrightarrow> (gov_write env)\<^sup>*\<^sup>* st (gov_save env st k r a act)"
  by (rule r_into_rtranclp) (rule gov_write.intros)

lemma lower_char_space [simp]: "is_space (lower_char c) = is_space c"
  by (auto simp: lower_char_def is_upper_def is_space_def Let_def)

lemma strip_lower: "strip (lower s) = lower (strip s)"
  by (simp add: strip_def lstrip_def lower_def dropWhile_map rev_map comp_def)

lemma slug_lower: "slug (lower s) = slug s"
  by (simp add: slug_def strip_lower)

lemma create_framework_writes: "(gov_write env)\<^sup>*\<^sup>* st (snd (create_framework env rq p st))"
  by (auto simp: create_framework_def Let_def write_ok_def refs_ok_def intro!: one_write)

definition framework_ids :: "gov_state \<Rightarrow> bool" where
  "framework_ids st = (\<forall>i. gov_find st ''framework'' i \<noteq> None \<longrightarrow> slug i = i)"

lemma new_version_ok:
  "gov_find st ''framework_version'' (slug fid @ '':'' @ slug v) = None \<Longrightarrow>
   version_ok env st (build_framework_version (ge_H env) fid v ef et ''draft'' sty sh su cr iv l now cb)"
  by (auto simp: version_ok_def Let_def is_active_def logged_def sealed_version log_target_def)

lemma create_version_writes:
  assumes "framework_ids st"
  shows "(gov_write env)\<^sup>*\<^sup>* st (snd (create_version env rq p st))"
proof -
  have "gov_find st ''framework'' (slug f) \<noteq> None"
    if "gov_find st ''framework'' f \<noteq> None \<or> gov_find st ''framework'' (lower f) \<noteq> None" for f
    using assms that slug_lower [of f] unfolding framework_ids_def by metis
  then show ?thesis
    by (auto simp: create_version_def Let_def write_ok_def refs_ok_def new_version_ok intro!: one_write)
qed

lemma create_control_writes: "(gov_write env)\<^sup>*\<^sup>* st (snd (create_control env rq p st))"
  by (auto simp: create_control_def Let_def write_ok_def refs_ok_def intro!: one_write split: option.split)

lemma create_relationship_writes: "(gov_write env)\<^sup>*\<^sup>* st (snd (create_relationship env rq p st))"
  by (auto simp: create_relationship_def Let_def write_ok_def refs_ok_def intro!: one_write split: option.split)

lemma create_org_control_writes: "(gov_write env)\<^sup>*\<^sup>* st (snd (create_org_control env rq p st))"
  by (auto simp: create_org_control_def Let_def write_ok_def refs_ok_def intro!: one_write
      split: option.split prod.split)

lemma create_scope_writes: "(gov_write env)\<^sup>*\<^sup>* st (snd (create_scope_snapshot env rq p st))"
  by (auto simp: create_scope_snapshot_def Let_def write_ok_def refs_ok_def intro!: one_write
      split: option.split prod.split)

lemma create_cycle_writes: "(gov_write env)\<^sup>*\<^sup>* st (snd (create_cycle env rq p st))"
  by (auto simp: create_cycle_def Let_def write_ok_def refs_ok_def ref_missing_def intro!: one_write)

lemma create_mapping_writes: "(gov_write env)\<^sup>*\<^sup>* st (snd (create_evidence_mapping env rq p st))"
  by (auto simp: create_evidence_mapping_def Let_def write_ok_def refs_ok_def ref_missing_def intro!: one_write
      split: option.split)

lemma create_cycle_control_writes: "(gov_write env)\<^sup>*\<^sup>* st (snd (create_cycle_control env rq p st))"
  by (auto simp: create_cycle_control_def Let_def write_ok_def refs_ok_def ref_missing_def intro!: one_write)

text \<open>The handlers that rewrite a stored record rely on its references being good already.\<close>

definition all_refs :: "gov_state \<Rightarrow> bool" where
  "all_refs st = (\<forall>k r. r \<in> set (load_governance st k) \<longrightarrow> refs_ok st k r)"

lemma find_in_load: "gov_find st k i = Some r \<Longrightarrow> r \<in> set (load_governance st k)"
  by (auto simp: gov_find_def find_Some_iff)

lemma find_refs: "all_refs st \<Longrightarrow> gov_find st k i = Some r \<Longrightarrow> refs_ok st k r"
  by (auto simp: all_refs_def dest: find_in_load)

text \<open>The check for overlapping periods never decides: an active version was refused before it.\<close>

lemma active_conflict_iff: "active_conflict rec others = list_ex is_active others"
  by (induction others) (auto simp: is_active_def)

lemma lifecycle_gstr [simp]:
  "gstr (apply_version_lifecycle r t a now) ''id'' = gstr r ''id''"
  "gstr (apply_version_lifecycle r t a now) ''framework_id'' = gstr r ''framework_id''"
  by (simp_all add: gstr_def lifecycle_dget)

lemma lifecycle_write_ok:
  assumes "all_refs st" "gov_find st ''framework_version'' i = Some r"
    and "can_version_transition (pstr (dget r ''status'')) t"
    and "t = ''active'' \<longrightarrow> list_all (\<lambda>v. \<not> is_active v) (other_versions st r i)"
  shows "write_ok env st ''framework_version'' (apply_version_lifecycle r t a now)"
proof -
  have i: "dget r ''id'' = PStr i" "gstr r ''id'' = i" using gov_find_id [OF assms(2)] by auto
  have "version_ok env st (apply_version_lifecycle r t a now)"
    unfolding version_ok_def Let_def lifecycle_gstr i(2)
    by (rule disjI2, rule exI [of _ r], rule exI [of _ t], rule exI [of _ a], rule exI [of _ now])
      (use assms in simp)
  moreover have "refs_ok st ''framework_version'' r" using assms(1,2) by (rule find_refs)
  ultimately show ?thesis
    by (simp add: write_ok_def refs_ok_def i lifecycle_dget)
qed

lemma activate_version_writes:
  assumes "all_refs st"
  shows "(gov_write env)\<^sup>*\<^sup>* st (snd (activate_version env rq i st))"
proof (cases "snd (activate_version env rq i st) = st")
  case False
  then obtain r where r: "gov_find st ''framework_version'' i = Some r"
    "can_version_transition (pstr (dget r ''status'')) ''active''"
    "\<not> active_conflict r (other_versions st r i)"
    "snd (activate_version env rq i st) = gov_save env st ''framework_version''
       (apply_version_lifecycle r ''active'' (actor_of rq) (rq_now rq)) (actor_of rq) ''GOV_VERSION_ACTIVATE''"
    by (simp add: activate_version_def Let_def split: if_splits option.splits)
  from r(3) have "list_all (\<lambda>v. \<not> is_active v) (other_versions st r i)"
    by (auto simp: active_conflict_iff list_all_iff list_ex_iff)
  then show ?thesis unfolding r(4) by (intro one_write lifecycle_write_ok [OF assms r(1,2)]) simp
qed simp

lemma retire_version_writes:
  assumes "all_refs st"
  shows "(gov_write env)\<^sup>*\<^sup>* st (snd (retire_version env rq i st))"
proof (cases "snd (retire_version env rq i st) = st")
  case False
  then obtain r where r: "gov_find st ''framework_version'' i = Some r"
    "can_version_transition (pstr (dget r ''status'')) ''retired''"
    "snd (retire_version env rq i st) = gov_save env st ''framework_version''
       (apply_version_lifecycle r ''retired'' (actor_of rq) (rq_now rq)) (actor_of rq) ''GOV_VERSION_RETIRE''"
    by (simp add: retire_version_def Let_def split: if_splits option.splits)
  then show ?thesis unfolding r(3) by (intro one_write lifecycle_write_ok [OF assms r(1,2)]) simp
qed simp

lemma dget_filter_key: "dget (filter (\<lambda>kv. fst kv \<noteq> k) d) k' = (if k' = k then PNone else dget d k')"
  by (induction d) (auto simp: dget_def)

lemma gstr_filter_key: "k' \<noteq> k \<Longrightarrow> gstr (filter (\<lambda>kv. fst kv \<noteq> k) d) k' = gstr d k'"
  by (simp add: gstr_def dget_filter_key)

lemma update_keeps:
  assumes "k \<in> {''id'', ''cycle_id'', ''control_ref''}"
  shows "dget (apply_cycle_control_update cc u) k = dget cc k"
    and "gstr (apply_cycle_control_update cc u) k = gstr cc k"
proof -
  have "k \<notin> {''assessments'', ''updated_at'', ''history'', ''_changed''}" "k \<notin> set tracked"
    "k \<noteq> ''applicability_pending_review''"
    using assms by (auto simp: tracked_def)
  then show "dget (apply_cycle_control_update cc u) k = dget cc k"
    by (simp add: update_dget field_changes_other)
  then show "gstr (apply_cycle_control_update cc u) k = gstr cc k" by (simp add: gstr_def)
qed

lemma update_cycle_control_writes:
  assumes "all_refs st"
  shows "(gov_write env)\<^sup>*\<^sup>* st (snd (update_cycle_control env rq i p st))"
proof (cases "snd (update_cycle_control env rq i p st) = st")
  case False
  let ?r' = "\<lambda>r. filter (\<lambda>kv. fst kv \<noteq> ''_changed'') (apply_cycle_control_update r (update_request rq p))"
  from False obtain r where r: "gov_find st ''cycle_control'' i = Some r"
    "snd (update_cycle_control env rq i p st) =
       gov_save env st ''cycle_control'' (?r' r) (actor_of rq) ''GOV_CYCLECTL_UPDATE''"
    by (simp add: update_cycle_control_def Let_def split: if_splits option.splits)
  have "refs_ok st ''cycle_control'' r" using assms r(1) by (rule find_refs)
  then have "write_ok env st ''cycle_control'' (?r' r)"
    using gov_find_id [OF r(1)]
    by (simp add: write_ok_def refs_ok_def dget_filter_key gstr_filter_key update_keeps)
  then show ?thesis unfolding r(2) by (rule one_write)
qed simp

section \<open>The handlers that save many records\<close>

definition fresh_write :: "gov_env \<Rightarrow> gov_state \<Rightarrow> string \<Rightarrow> pdict \<Rightarrow> bool" where
  "fresh_write env st kind r = (dget r ''id'' = PStr (gstr r ''id'') \<and> refs_ok st kind r
     \<and> (kind = ''framework'' \<longrightarrow> slug (gstr r ''id'') = gstr r ''id'')
     \<and> (kind = ''framework_version'' \<longrightarrow> \<not> is_active r \<and> sealed (ge_H env) r \<and> logged r))"

lemma fresh_write_ok:
  "fresh_write env st kind r \<Longrightarrow> gov_find st kind (gstr r ''id'') = None \<Longrightarrow> write_ok env st kind r"
  by (auto simp: fresh_write_def write_ok_def version_ok_def Let_def)

lemma fresh_write_grows: "grows st st' \<Longrightarrow> fresh_write env st kind r \<Longrightarrow> fresh_write env st' kind r"
  by (auto simp: fresh_write_def dest: refs_ok_grows)

lemma save_new_writes:
  assumes "tidy st" "list_all (fresh_write env st kind) rs"
  shows "(gov_write env)\<^sup>*\<^sup>* st (snd (save_new env kind a act rs (n, st)))
    \<and> list_all (\<lambda>r. gov_find (snd (save_new env kind a act rs (n, st))) kind (gstr r ''id'') \<noteq> None) rs"
  using assms
proof (induction rs arbitrary: n st)
  case (Cons r rs)
  show ?case
  proof (cases "gov_find st kind (gstr r ''id'')")
    case None
    let ?st = "gov_save env st kind r a act"
    have ok: "write_ok env st kind r" using Cons.prems(2) None by (simp add: fresh_write_ok)
    then have t: "tidy ?st" and g: "grows st ?st" and f: "gov_find ?st kind (gstr r ''id'') \<noteq> None"
      using Cons.prems(1) by (simp_all add: grows_save find_save)
    have "list_all (fresh_write env ?st kind) rs"
      using Cons.prems(2) g by (auto simp: list_all_iff dest: fresh_write_grows)
    from Cons.IH [OF t this, of "n + 1"] have
      IH: "(gov_write env)\<^sup>*\<^sup>* ?st (snd (save_new env kind a act rs (n + 1, ?st)))"
        "list_all (\<lambda>r. gov_find (snd (save_new env kind a act rs (n + 1, ?st))) kind (gstr r ''id'') \<noteq> None) rs"
      by auto
    have "gov_find (snd (save_new env kind a act rs (n + 1, ?st))) kind (gstr r ''id'') \<noteq> None"
      using grows_writes [OF IH(1) t] f by (simp add: grows_def)
    with IH one_write [OF ok] None show ?thesis by (auto intro: rtranclp_trans)
  next
    case (Some r0)
    have "list_all (fresh_write env st kind) rs" using Cons.prems(2) by simp
    from Cons.IH [OF Cons.prems(1) this, of n] have
      IH: "(gov_write env)\<^sup>*\<^sup>* st (snd (save_new env kind a act rs (n, st)))"
        "list_all (\<lambda>r. gov_find (snd (save_new env kind a act rs (n, st))) kind (gstr r ''id'') \<noteq> None) rs"
      by auto
    have "gov_find (snd (save_new env kind a act rs (n, st))) kind (gstr r ''id'') \<noteq> None"
      using grows_writes [OF IH(1) Cons.prems(1)] Some by (simp add: grows_def)
    with IH Some show ?thesis by simp
  qed
qed simp

text \<open>Where the controls that a migration plans refer to: what the previous cycle referred to, or a
  definition of the new version.\<close>

definition carried_of ::
    "pdict dict \<Rightarrow> string \<Rightarrow> string \<Rightarrow> string \<Rightarrow> pdict \<Rightarrow> pdict \<Rightarrow> bool" where
  "carried_of nb cyc now cb prev c = (\<exists>ref r rv. c = carry_cycle_control prev ref r rv cyc now cb
     \<and> (ref = gstr prev ''control_ref'' \<or> (\<exists>u d. map_of nb u = Some d \<and> ref = pstr (dget d ''id''))))"

lemma migrate_prev_controls:
  assumes "c \<in> set (m_controls (migrate_prev ob nb cyc now cb m prev))" "c \<notin> set (m_controls m)"
  shows "carried_of nb cyc now cb prev c"
proof (cases "map_of ob (gstr prev ''control_ref'')")
  case None
  with assms have "c = carry_cycle_control prev (gstr prev ''control_ref'') ''carried'' False cyc now cb"
    by (simp add: migrate_prev_def Let_def)
  then show ?thesis unfolding carried_of_def by blast
next
  case (Some d)
  show ?thesis
  proof (cases "map_of nb (control_uid d)")
    case None
    with Some assms show ?thesis by (simp add: migrate_prev_def Let_def)
  next
    case (Some nd)
    with \<open>map_of ob _ = Some d\<close> assms have "c = carry_cycle_control prev (pstr (dget nd ''id''))
        (migration_reason d nd) (migration_reason d nd = ''text_changed'') cyc now cb"
      by (simp add: migrate_prev_def Let_def)
    with Some show ?thesis unfolding carried_of_def by blast
  qed
qed

lemma migrate_prevs_controls:
  assumes "c \<in> set (m_controls (foldl (migrate_prev ob nb cyc now cb) m prevs))" "c \<notin> set (m_controls m)"
  shows "\<exists>prev \<in> set prevs. carried_of nb cyc now cb prev c"
  using assms
proof (induction prevs arbitrary: m)
  case (Cons p ps)
  show ?case
  proof (cases "c \<in> set (m_controls (migrate_prev ob nb cyc now cb m p))")
    case True
    from migrate_prev_controls [OF this Cons.prems(2)] show ?thesis by simp
  next
    case False
    have "c \<in> set (m_controls (foldl (migrate_prev ob nb cyc now cb) (migrate_prev ob nb cyc now cb m p) ps))"
      using Cons.prems(1) by simp
    from Cons.IH [OF this False] show ?thesis by auto
  qed
qed simp

lemma migrate_news_controls:
  assumes "c \<in> set (m_controls (foldl (migrate_new cyc now cb) m its))" "c \<notin> set (m_controls m)"
  shows "\<exists>d \<in> snd ` set its. c = new_cycle_control cyc now cb d"
  using assms
proof (induction its arbitrary: m)
  case (Cons it its)
  show ?case
  proof (cases "c \<in> set (m_controls (migrate_new cyc now cb m it))")
    case True
    with Cons.prems(2) show ?thesis by (cases it) (auto simp: migrate_new_def split: if_splits)
  next
    case False
    have "c \<in> set (m_controls (foldl (migrate_new cyc now cb) (migrate_new cyc now cb m it) its))"
      using Cons.prems(1) by simp
    from Cons.IH [OF this False] show ?thesis by auto
  qed
qed simp

lemma by_uid_member: "map_of (by_uid cs) u = Some d \<Longrightarrow> d \<in> set cs"
  by (auto simp: by_uid_def map_of_dict_of dest!: map_of_SomeD)

lemma plan_controls:
  assumes "c \<in> set (m_controls (plan_cycle_migration prevs old new cyc now cb))"
  shows "\<exists>ref. dget c ''id'' = PStr (slug cyc @ '':'' @ slug ref) \<and> dget c ''cycle_id'' = PStr cyc
    \<and> dget c ''control_ref'' = PStr ref
    \<and> ((\<exists>prev \<in> set prevs. ref = gstr prev ''control_ref'') \<or> (\<exists>d \<in> set new. ref = pstr (dget d ''id'')))"
proof -
  define m0 where "m0 = \<lparr>m_controls = [], m_removed = [], m_carried = 0, m_renumbered = 0, m_text_changed = 0,
      m_new_controls = 0, m_removed_controls = 0, m_unresolved = 0, m_carried_uids = []\<rparr>"
  define m1 where "m1 = foldl (migrate_prev (dict_of (map (\<lambda>c. (pstr (dget c ''id''), c)) old)) (by_uid new)
      cyc now cb) m0 prevs"
  have c: "c \<in> set (m_controls (foldl (migrate_new cyc now cb) m1 (by_uid new)))"
    using assms by (simp add: plan_cycle_migration_def Let_def m0_def m1_def)
  show ?thesis
  proof (cases "c \<in> set (m_controls m1)")
    case True
    have "c \<notin> set (m_controls m0)" by (simp add: m0_def)
    from migrate_prevs_controls [OF True [unfolded m1_def] this] obtain prev ref r rv where
      "prev \<in> set prevs" "c = carry_cycle_control prev ref r rv cyc now cb"
      "ref = gstr prev ''control_ref'' \<or> (\<exists>u d. map_of (by_uid new) u = Some d \<and> ref = pstr (dget d ''id''))"
      unfolding carried_of_def by blast
    then show ?thesis
      by (intro exI [of _ ref]) (auto simp: carry_cycle_control_def Let_def dest: by_uid_member)
  next
    case False
    from migrate_news_controls [OF c False] obtain d where
      d: "d \<in> snd ` set (by_uid new)" "c = new_cycle_control cyc now cb d" by blast
    have "d \<in> set new"
    proof -
      from d(1) obtain u where "(u, d) \<in> set (by_uid new)" by auto
      moreover have "dwf (by_uid new)" by (simp add: by_uid_def)
      ultimately have "map_of (by_uid new) u = Some d" by simp
      then show ?thesis by (rule by_uid_member)
    qed
    with d(2) show ?thesis
      by (intro exI [of _ "pstr (dget d ''id'')"]) (auto simp: new_cycle_control_def Let_def)
  qed
qed

lemma initialize_cycle_writes:
  assumes "all_refs st" "tidy st"
  shows "(gov_write env)\<^sup>*\<^sup>* st (snd (initialize_cycle env rq cyc prev_id st))"
proof (cases "snd (initialize_cycle env rq cyc prev_id st) = st")
  case False
  let ?prev = "filter (\<lambda>r. dget r ''cycle_id'' = PStr prev_id) (load_governance st ''cycle_control'')"
  have "\<not> allowed env rq \<Longrightarrow> snd (initialize_cycle env rq cyc prev_id st) = st"
    by (simp add: initialize_cycle_def)
  with False have al: "allowed env rq" by blast
  have "gov_find st ''assurance_cycle'' cyc = None \<Longrightarrow> snd (initialize_cycle env rq cyc prev_id st) = st"
    by (simp add: initialize_cycle_def Let_def)
  with False obtain nc where nc: "gov_find st ''assurance_cycle'' cyc = Some nc" by blast
  have "?prev = [] \<Longrightarrow> snd (initialize_cycle env rq cyc prev_id st) = st"
    by (simp add: initialize_cycle_def Let_def nc)
  with False have ne: "?prev \<noteq> []" by blast
  define fv where "fv = dgetd nc ''framework_version_id'' (PStr [])"
  define old where "old = controls_of st (case gov_find st ''assurance_cycle'' prev_id of None \<Rightarrow> PStr []
      | Some c \<Rightarrow> dgetd c ''framework_version_id'' (PStr []))"
  define res where "res = plan_cycle_migration ?prev old (controls_of st fv) cyc (rq_now rq) (actor_of rq)"
  have st': "snd (initialize_cycle env rq cyc prev_id st) =
      snd (save_new env ''cycle_control'' (actor_of rq) ''GOV_CYCLE_MIGRATE'' (m_controls res) (0, st))"
    by (simp add: initialize_cycle_def Let_def al nc ne fv_def [symmetric] old_def [symmetric]
        res_def [symmetric] split: prod.split)
  have "fresh_write env st ''cycle_control'' c" if c: "c \<in> set (m_controls res)" for c
  proof -
    from plan_controls [OF c [unfolded res_def]] obtain ref where ref: "dget c ''id'' = PStr (slug cyc @ '':'' @ slug ref)"
      "dget c ''cycle_id'' = PStr cyc" "dget c ''control_ref'' = PStr ref"
      "(\<exists>prev \<in> set ?prev. ref = gstr prev ''control_ref'') \<or> (\<exists>d \<in> set (controls_of st fv). ref = pstr (dget d ''id''))"
      by blast
    have "\<not> control_ref_missing st ref"
      using ref(4)
    proof
      assume "\<exists>prev \<in> set ?prev. ref = gstr prev ''control_ref''"
      then obtain prev where "prev \<in> set (load_governance st ''cycle_control'')" "ref = gstr prev ''control_ref''"
        by auto
      moreover from assms(1) this(1) have "refs_ok st ''cycle_control'' prev" by (simp add: all_refs_def)
      ultimately show ?thesis by (simp add: refs_ok_def)
    next
      assume "\<exists>d \<in> set (controls_of st fv). ref = pstr (dget d ''id'')"
      then obtain d where d: "d \<in> set (load_governance st ''control_definition'')" "ref = pstr (dget d ''id'')"
        by (auto simp: controls_of_def)
      from load_find [OF assms(2) d(1)] have "gov_find st ''control_definition'' (gstr d ''id'') = Some d" .
      moreover from gov_find_id [OF this] d(2) have "gstr d ''id'' = ref" by simp
      ultimately show ?thesis by (simp add: control_ref_missing_def)
    qed
    with ref nc show ?thesis by (simp add: fresh_write_def refs_ok_def gstr_PStr)
  qed
  then have "list_all (fresh_write env st ''cycle_control'') (m_controls res)" by (simp add: list_all_iff)
  from save_new_writes [OF assms(2) this] show ?thesis unfolding st' by blast
qed simp

section \<open>The import\<close>

definition import_inv :: "gov_env \<Rightarrow> import_state \<Rightarrow> bool" where
  "import_inv env st = (case st of (fws, vs, ds) \<Rightarrow>
     (\<forall>(k, r) \<in> set fws. dget r ''id'' = PStr k \<and> slug k = k)
     \<and> (\<forall>(k, r) \<in> set vs. dget r ''id'' = PStr k \<and> gstr r ''framework_id'' \<in> set (keys fws)
          \<and> \<not> is_active r \<and> sealed (ge_H env) r \<and> logged r)
     \<and> (\<forall>d \<in> set ds. dget d ''id'' = PStr (gstr d ''id'') \<and> gstr d ''framework_version_id'' \<in> set (keys vs)))"

lemma import_new_version:
  "\<not> is_active (build_framework_version H fid v ef et ''draft'' sty sh su cr iv l now cb)"
  "logged (build_framework_version H fid v ef et ''draft'' sty sh su cr iv l now cb)"
  by (simp_all add: is_active_def logged_def log_target_def)

lemma import_control_inv:
  assumes "import_inv env st"
  shows "import_inv env (import_control (ge_H env) now cb st c)"
proof -
  obtain fws vs ds where st: "st = (fws, vs, ds)" by (cases st) auto
  let ?fw = "slug (gstr c ''framework'')" and ?cid = "strip (gstr c ''id'')"
  show ?thesis
  proof (cases "?fw = [] \<or> ?cid = []")
    case True
    then show ?thesis using assms by (simp add: import_control_def st)
  next
    case False
    define F where "F = build_framework ?fw (pstr (por (dget c ''framework'') (PStr ?fw))) ''certification'' [] now cb"
    define fws' where "fws' = (if dhas fws ?fw then fws else dset fws ?fw F)"
    define V where "V = build_framework_version (ge_H env) ?fw (sor (strip (gstr c ''version'')) ''current'') []
        PNone ''draft'' ''user_upload'' [] PNone [] [] catalog_license now cb"
    define vs' where "vs' = dset vs (gstr V ''id'') V"
    define D where "D = build_control_definition (ge_H env) (gstr V ''id'') ?cid
        (pstr (por (dget c ''title_ko'') (por (dget c ''title_en'') (PStr ?cid)))) ?cid [] PNone
        [(''mori_summary'', PStr (pstr (por (dget c ''intent_ko'') (por (dget c ''intent_en'') (PStr []))))),
         (''operation_guide'', PStr (pstr (por (dget c ''evidence_hint_ko'')
           (por (dget c ''evidence_hint_en'') (PStr [])))))] now cb"
    have D: "import_control (ge_H env) now cb st c = (fws', vs', ds @ [D])"
      using False unfolding import_control_def st Let_def F_def fws'_def V_def vs'_def D_def by simp
    have D': "dget D ''id'' = PStr (gstr D ''id'')" "gstr D ''framework_version_id'' = gstr V ''id''"
      by (simp_all only: D_def built_control)
    have old: "\<forall>(k, r) \<in> set fws. dget r ''id'' = PStr k \<and> slug k = k"
      "\<forall>(k, r) \<in> set vs. dget r ''id'' = PStr k \<and> gstr r ''framework_id'' \<in> set (keys fws)
          \<and> \<not> is_active r \<and> sealed (ge_H env) r \<and> logged r"
      "\<forall>d \<in> set ds. dget d ''id'' = PStr (gstr d ''id'') \<and> gstr d ''framework_version_id'' \<in> set (keys vs)"
      using assms by (simp_all add: import_inv_def st)
    have kf: "set (keys fws') = insert ?fw (set (keys fws))"
    proof (cases "dhas fws ?fw")
      case True
      then have "?fw \<in> set (keys fws)" by (auto simp: dhas_def map_of_eq_None_iff)
      with True show ?thesis by (simp add: fws'_def insert_absorb)
    next
      case False
      then show ?thesis unfolding fws'_def by (simp only: if_False set_keys_dset)
    qed
    have kv: "set (keys vs') = insert (gstr V ''id'') (set (keys vs))"
      unfolding vs'_def by (rule set_keys_dset)
    have F: "dget F ''id'' = PStr ?fw" "slug ?fw = ?fw" by (simp_all add: F_def)
    have V: "dget V ''id'' = PStr (gstr V ''id'')" "gstr V ''framework_id'' = ?fw" "\<not> is_active V"
      "sealed (ge_H env) V" "logged V"
      by (simp_all add: V_def import_new_version sealed_version)
    have "\<forall>(k, r) \<in> set fws'. dget r ''id'' = PStr k \<and> slug k = k"
      using old(1) F by (auto simp: fws'_def dest!: in_dset split: if_splits)
    moreover have "\<forall>(k, r) \<in> set vs'. dget r ''id'' = PStr k \<and> gstr r ''framework_id'' \<in> set (keys fws')
          \<and> \<not> is_active r \<and> sealed (ge_H env) r \<and> logged r"
      unfolding kf using old(2) V by (auto simp: vs'_def dest!: in_dset)
    moreover have "\<forall>d \<in> set (ds @ [D]). dget d ''id'' = PStr (gstr d ''id'')
        \<and> gstr d ''framework_version_id'' \<in> set (keys vs')"
      unfolding kv using old(3) D' by auto
    ultimately show ?thesis by (simp only: D import_inv_def prod.case)
  qed
qed

lemma import_plan_inv:
  assumes "plan_catalog_import (ge_H env) cs now cb = (fs, vs, ds)"
  shows "\<exists>fws vws. fs = map snd fws \<and> vs = map snd vws \<and> import_inv env (fws, vws, ds)"
proof -
  have "import_inv env (foldl (import_control (ge_H env) now cb) st cs)" if "import_inv env st" for st
    using that by (induction cs arbitrary: st) (simp_all add: import_control_inv)
  moreover have "import_inv env ([], [], [])" by (simp add: import_inv_def)
  ultimately have "import_inv env (foldl (import_control (ge_H env) now cb) ([], [], []) cs)" by blast
  with assms show ?thesis by (auto simp: plan_catalog_import_def split: prod.splits)
qed

lemma import_catalog_writes:
  assumes t: "tidy st"
  shows "(gov_write env)\<^sup>*\<^sup>* st (snd (import_catalog env rq cat fw st))"
proof (cases "allowed env rq")
  case False
  then show ?thesis by (simp add: import_catalog_def)
next
  case True
  define cs where "cs = (case fw of Some (c # cs) \<Rightarrow> filter (\<lambda>d. slug (gstr d ''framework'') = slug (c # cs)) cat
      | _ \<Rightarrow> cat)"
  obtain fs vs ds where plan: "plan_catalog_import (ge_H env) cs (rq_now rq) (actor_of rq) = (fs, vs, ds)"
    by (rule prod_cases3)
  from import_plan_inv [OF plan] obtain fws vws where fs: "fs = map snd fws" and vs: "vs = map snd vws"
    and inv: "import_inv env (fws, vws, ds)" by blast
  have F: "dget (snd p) ''id'' = PStr (fst p) \<and> slug (fst p) = fst p" if "p \<in> set fws" for p
    using inv that by (auto simp: import_inv_def)
  have V: "dget (snd p) ''id'' = PStr (fst p) \<and> gstr (snd p) ''framework_id'' \<in> set (keys fws)
      \<and> \<not> is_active (snd p) \<and> sealed (ge_H env) (snd p) \<and> logged (snd p)" if "p \<in> set vws" for p
    using inv that by (auto simp: import_inv_def split_beta simp del: set_map)
  have D: "dget d ''id'' = PStr (gstr d ''id'') \<and> gstr d ''framework_version_id'' \<in> set (keys vws)"
    if "d \<in> set ds" for d
    using inv that by (auto simp: import_inv_def)
  define s1 where "s1 = snd (save_new env ''framework'' (actor_of rq) ''GOV_FRAMEWORK_CREATE'' fs (0, st))"
  define s2 where "s2 = snd (save_new env ''framework_version'' (actor_of rq) ''GOV_VERSION_CREATE'' vs (0, s1))"
  define s3 where "s3 = snd (save_new env ''control_definition'' (actor_of rq) ''GOV_CONTROL_CREATE'' ds (0, s2))"
  have st': "snd (import_catalog env rq cat fw st) = s3"
    by (simp add: import_catalog_def True Let_def cs_def [symmetric] plan s1_def s2_def s3_def split: prod.split)
  have "list_all (fresh_write env st ''framework'') fs"
    using F by (auto simp: fs list_all_iff fresh_write_def refs_ok_def gstr_PStr)
  from save_new_writes [OF t this] have w1: "(gov_write env)\<^sup>*\<^sup>* st s1"
    and f1: "list_all (\<lambda>r. gov_find s1 ''framework'' (gstr r ''id'') \<noteq> None) fs"
    unfolding s1_def by blast+
  from w1 t have t1: "tidy s1" by (rule tidy_writes)
  have fwk: "gov_find s1 ''framework'' k \<noteq> None" if "k \<in> set (keys fws)" for k
    using f1 F that by (fastforce simp: fs list_all_iff gstr_PStr)
  have "list_all (fresh_write env s1 ''framework_version'') vs"
    using V fwk by (simp add: vs list_all_iff fresh_write_def refs_ok_def gstr_PStr)
  from save_new_writes [OF t1 this] have w2: "(gov_write env)\<^sup>*\<^sup>* s1 s2"
    and f2: "list_all (\<lambda>r. gov_find s2 ''framework_version'' (gstr r ''id'') \<noteq> None) vs"
    unfolding s2_def by blast+
  from w2 t1 have t2: "tidy s2" by (rule tidy_writes)
  have vk: "gov_find s2 ''framework_version'' k \<noteq> None" if "k \<in> set (keys vws)" for k
    using f2 V that by (fastforce simp: vs list_all_iff gstr_PStr)
  have "list_all (fresh_write env s2 ''control_definition'') ds"
    using D vk by (simp add: list_all_iff fresh_write_def refs_ok_def)
  from save_new_writes [OF t2 this] have "(gov_write env)\<^sup>*\<^sup>* s2 s3"
    unfolding s3_def by blast
  with w1 w2 show ?thesis unfolding st' by (meson rtranclp_trans)
qed

text \<open>All handlers together.\<close>

lemma gov_exec_writes:
  assumes "tidy st" "all_refs st" "framework_ids st"
  shows "(gov_write env)\<^sup>*\<^sup>* st (gov_exec env rq c st)"
  using assms
  by (cases c) (simp_all add: import_catalog_writes create_framework_writes create_version_writes
      activate_version_writes retire_version_writes create_control_writes create_relationship_writes
      create_org_control_writes create_scope_writes create_cycle_writes create_mapping_writes
      create_cycle_control_writes update_cycle_control_writes initialize_cycle_writes)

end
