(* ===== verification/Gov_Props.thy ===== *)
theory Gov_Props
  imports Gov_Inv
begin

text \<open>
  The invariants of the governance store, by induction on the abstract steps of \<open>Gov_Inv\<close>, and the
  theorems about every run of the routes from the empty store.
\<close>

section \<open>The invariant\<close>

text \<open>The store that a ledger describes: the payloads of its events, written one after the other.\<close>

definition apply_event :: "pdict dict dict \<Rightarrow> pdict \<Rightarrow> pdict dict dict" where
  "apply_event recs e =
     (let kind = gstr e ''kind''
      in dset recs kind (dset (case map_of recs kind of None \<Rightarrow> [] | Some d \<Rightarrow> d)
           (gstr e ''entity_id'') (as_dict (dget e ''payload''))))"

definition replay_events :: "pdict list \<Rightarrow> pdict dict dict" where
  "replay_events events = foldl apply_event [] events"

definition genesis :: "pdict list \<Rightarrow> bool" where
  "genesis events = (events = [] \<or> dget (hd events) ''prev_hash'' = PStr ''GENESIS'')"

definition version_good :: "gov_env \<Rightarrow> pdict \<Rightarrow> bool" where
  "version_good env v = (sealed (ge_H env) v \<and> logged v)"

definition versions_good :: "gov_env \<Rightarrow> gov_state \<Rightarrow> bool" where
  "versions_good env st = list_all (version_good env) (load_governance st ''framework_version'')"

definition active_unique :: "gov_state \<Rightarrow> bool" where
  "active_unique st = (\<forall>i j v w. gov_find st ''framework_version'' i = Some v \<and> gov_find st ''framework_version'' j = Some w
     \<and> is_active v \<and> is_active w \<and> dget v ''framework_id'' = dget w ''framework_id'' \<longrightarrow> i = j)"

definition ledger_good :: "gov_env \<Rightarrow> gov_state \<Rightarrow> bool" where
  "ledger_good env st = (cv_ok (verify_governance_chain (ge_H env) (gs_events st)) \<and> genesis (gs_events st))"

text \<open>The record stored under a kind and an identifier, and the state that the ledger alone describes.\<close>

definition stored :: "gov_state \<Rightarrow> string \<Rightarrow> string \<Rightarrow> pdict option" where
  "stored st kind i = map_of (kind_recs st kind) i"

definition rebuilt :: "gov_state \<Rightarrow> gov_state" where
  "rebuilt st = st\<lparr>gs_recs := replay_events (gs_events st)\<rparr>"

text \<open>The save that stored the present record could not be recorded: there was a moment, at a prefix of the
  ledger, at which the record was already stored and recording it raised.\<close>

definition lost_entry :: "gov_env \<Rightarrow> gov_state \<Rightarrow> string \<Rightarrow> string \<Rightarrow> bool" where
  "lost_entry env st kind i = (\<exists>s actor r. prefix (gs_events s) (gs_events st) \<and> stored s kind i = Some r
     \<and> stored st kind i = Some r \<and> ge_fails env s actor r)"

definition replay_good :: "gov_env \<Rightarrow> gov_state \<Rightarrow> bool" where
  "replay_good env st =
     ((gs_recs st = replay_events (gs_events st) \<or> (\<exists>s actor r. ge_fails env s actor r))
      \<and> (\<forall>k i. stored st k i = stored (rebuilt st) k i \<or> lost_entry env st k i)
      \<and> (\<forall>k. dom (stored (rebuilt st) k) \<subseteq> dom (stored st k)))"

definition gov_inv :: "gov_env \<Rightarrow> gov_state \<Rightarrow> bool" where
  "gov_inv env st = (tidy st \<and> all_refs st \<and> framework_ids st \<and> versions_good env st \<and> active_unique st
     \<and> ledger_good env st \<and> replay_good env st)"

lemma gov_inv_empty: "gov_inv env empty_gov"
proof -
  have "load_governance empty_gov k = []" for k
    by (simp add: load_governance_def kind_recs_def empty_gov_def)
  then show ?thesis
    by (simp add: gov_inv_def all_refs_def framework_ids_def versions_good_def active_unique_def ledger_good_def
        gov_find_def replay_good_def stored_def rebuilt_def)
      (simp add: empty_gov_def replay_events_def genesis_def verify_ok_iff ledger.broken_Nil)
qed

section \<open>Preservation\<close>

lemma load_save:
  assumes "x \<in> set (load_governance (gov_save env st k r a act) k')"
  shows "(k' = k \<and> x = r) \<or> x \<in> set (load_governance st k')"
  using assms by (auto simp: load_governance_def kind_recs_save dest!: in_dset split: if_splits)

lemma all_refs_save:
  assumes "tidy st" "write_ok env st k r" "all_refs st"
  shows "all_refs (gov_save env st k r a act)"
  unfolding all_refs_def
proof (intro allI impI)
  fix k' x assume "x \<in> set (load_governance (gov_save env st k r a act) k')"
  from load_save [OF this] have "refs_ok st k' x"
    using assms(2,3) by (auto simp only: all_refs_def write_ok_def)
  with grows_save [OF assms(1,2)] show "refs_ok (gov_save env st k r a act) k' x" by (rule refs_ok_grows)
qed

lemma framework_ids_save:
  "tidy st \<Longrightarrow> write_ok env st k r \<Longrightarrow> framework_ids st \<Longrightarrow> framework_ids (gov_save env st k r a act)"
  by (auto simp: framework_ids_def find_save write_ok_def)

text \<open>A transition is one run of the guarded workflow, so the log stays legal.\<close>

lemma logged_step:
  assumes "logged v" "can_version_transition (pstr (dget v ''status'')) t"
  shows "logged (apply_version_lifecycle v t actor now)"
proof -
  from assms(1) obtain ts where ts: "map log_target (as_list (dget v ''lifecycle'')) = ''draft'' # ts"
    "legal_path can_version_transition ''draft'' ts" "dget v ''status'' = PStr (last (''draft'' # ts))"
    by (auto simp: logged_def)
  have s: "gstr v ''status'' = last (''draft'' # ts)" using ts(3) by (rule gstr_PStr)
  have "can_version_transition (gstr v ''status'') t" using assms(2) ts(3) s by simp
  then have run: "guarded_run can_version_transition (\<lambda>r t x. apply_version_lifecycle r t (fst x) (snd x)) v
      [(t, (actor, now))] = apply_version_lifecycle v t actor now" by simp
  from version_flow.run_log_legal [of v "[(t, (actor, now))]", unfolded run] obtain es where
    es: "as_list (dget (apply_version_lifecycle v t actor now) ''lifecycle'') = as_list (dget v ''lifecycle'') @ es"
      "legal_path can_version_transition (gstr v ''status'') (map log_target es)"
      "gstr (apply_version_lifecycle v t actor now) ''status'' = last (gstr v ''status'' # map log_target es)"
    by blast
  have "gstr (apply_version_lifecycle v t actor now) ''status'' = t"
    by (rule gstr_PStr) simp
  with es ts s show ?thesis
    unfolding logged_def by (intro exI [of _ "ts @ map log_target es"]) (auto simp: legal_path_append)
qed

lemma find_version_good:
  "versions_good env st \<Longrightarrow> gov_find st ''framework_version'' i = Some v \<Longrightarrow> version_good env v"
  by (auto simp: versions_good_def list_all_iff dest: find_in_load)

lemma version_good_new: "sealed (ge_H env) v \<Longrightarrow> logged v \<Longrightarrow> version_good env v"
  by (simp add: version_good_def)

lemma version_good_lifecycle:
  "version_good env v \<Longrightarrow> can_version_transition (pstr (dget v ''status'')) t \<Longrightarrow>
   version_good env (apply_version_lifecycle v t a now)"
  by (simp add: version_good_def sealed_lifecycle logged_step)

lemma version_write_good:
  "write_ok env st ''framework_version'' r \<Longrightarrow> versions_good env st \<Longrightarrow> version_good env r"
  unfolding write_ok_def version_ok_def Let_def
  by (auto simp: version_good_new intro!: version_good_lifecycle elim: find_version_good)

lemma versions_good_save:
  assumes "write_ok env st k r" "versions_good env st"
  shows "versions_good env (gov_save env st k r a act)"
  using assms version_write_good
  by (auto simp: versions_good_def list_all_iff dest!: load_save)

lemma active_unique_save:
  assumes "tidy st" "write_ok env st k r" "active_unique st"
  shows "active_unique (gov_save env st k r a act)"
proof (cases "k = ''framework_version'' \<and> is_active r")
  case False
  then show ?thesis using assms(3) unfolding active_unique_def by (auto simp: find_save [OF assms(1,2)] split: if_splits)
next
  case True
  from assms(2) True obtain r0 t actor now where r0: "gov_find st ''framework_version'' (gstr r ''id'') = Some r0"
    "r = apply_version_lifecycle r0 t actor now"
    "t = ''active'' \<longrightarrow> list_all (\<lambda>v. \<not> is_active v) (other_versions st r0 (gstr r ''id''))"
    by (auto simp: write_ok_def version_ok_def Let_def)
  have "t = ''active''" using True r0(2) by (simp add: is_active_def)
  with r0(3) have others: "list_all (\<lambda>v. \<not> is_active v) (other_versions st r0 (gstr r ''id''))" by simp
  have fid: "dget r ''framework_id'' = dget r0 ''framework_id''" using r0(2) by (simp add: lifecycle_dget)
  have alone: "j = gstr r ''id''" if w: "gov_find st ''framework_version'' j = Some w" "is_active w"
    "dget w ''framework_id'' = dget r ''framework_id''" for j w
  proof (rule ccontr)
    assume ne: "j \<noteq> gstr r ''id''"
    have "dget w ''id'' = PStr j" using gov_find_id [OF w(1)] by simp
    with w ne fid have "w \<in> set (other_versions st r0 (gstr r ''id''))"
      by (auto simp: other_versions_def dest: find_in_load)
    with others w(2) show False by (simp add: list_all_iff)
  qed
  let ?find = "gov_find (gov_save env st k r a act) ''framework_version''"
  have find: "?find i = (if i = gstr r ''id'' then Some r else gov_find st ''framework_version'' i)" for i
    unfolding find_save [OF assms(1,2)] using True by simp
  have "i = j" if v: "?find i = Some v" "?find j = Some w" "is_active v" "is_active w"
    "dget v ''framework_id'' = dget w ''framework_id''" for i j v w
  proof (cases "i = gstr r ''id''"; cases "j = gstr r ''id''")
    assume "i = gstr r ''id''" "j \<noteq> gstr r ''id''"
    then have "gov_find st ''framework_version'' j = Some w" "r = v" using v(1,2) find by simp_all
    then have "j = gstr r ''id''" using v(4,5) alone by simp
    with \<open>i = _\<close> show ?thesis by simp
  next
    assume "i \<noteq> gstr r ''id''" "j = gstr r ''id''"
    then have "gov_find st ''framework_version'' i = Some v" "r = w" using v(1,2) find by simp_all
    then have "i = gstr r ''id''" using v(3,5) alone by simp
    with \<open>j = _\<close> show ?thesis by simp
  next
    assume "i \<noteq> gstr r ''id''" "j \<noteq> gstr r ''id''"
    then have "gov_find st ''framework_version'' i = Some v" "gov_find st ''framework_version'' j = Some w"
      using v(1,2) find by simp_all
    with v(3-5) assms(3) show ?thesis unfolding active_unique_def by blast
  qed simp
  then show ?thesis unfolding active_unique_def by blast
qed

lemma saved_recs:
  "gs_recs (gov_save env st k r a act) = dset (gs_recs st) k (dset (kind_recs st k) (gstr r ''id'') r)"
  by (simp add: gov_save_def Let_def save_governance_def append_governance_event_def)

lemma stored_after_save:
  "stored (gov_save env st k r a act) k' i = (if k' = k \<and> i = gstr r ''id'' then Some r else stored st k' i)"
  by (simp add: stored_def kind_recs_save)

lemma save_unrecorded:
  "ge_fails env (save_governance st k (gstr r ''id'') r) a r \<Longrightarrow>
   gov_save env st k r a act = save_governance st k (gstr r ''id'') r"
  by (simp add: gov_save_def Let_def)

lemma unrecorded_events [simp]: "gs_events (save_governance st k i r) = gs_events st"
  by (simp add: save_governance_def)

lemma saved_event:
  assumes "\<not> ge_fails env (save_governance st k (gstr r ''id'') r) a r"
  shows "gs_events (gov_save env st k r a act) = gs_events st @
     [build_governance_event (ge_H env) (latest_hash (gs_events st)) k (gstr r ''id'')
        (int (length (load_governance_events (save_governance st k (gstr r ''id'') r) (Some k) (Some (gstr r ''id'')))) + 1)
        (event_type act) a (ge_clock env (length (gs_events st))) r]"
  using assms by (simp add: gov_save_def Let_def save_governance_def append_governance_event_def)

lemma built_payload: "dget (build_governance_event H p k i r t a oc pl) ''payload'' = PDict pl"
  by (simp add: build_governance_event_def Let_def)

lemma ledger_good_save:
  assumes "ledger_good env st"
  shows "ledger_good env (gov_save env st k r a act)"
proof (cases "ge_fails env (save_governance st k (gstr r ''id'') r) a r")
  case True
  then show ?thesis using assms by (simp add: ledger_good_def save_unrecorded)
next
  case False
  have "genesis (gs_events (gov_save env st k r a act))"
    using assms by (cases "gs_events st")
      (simp_all add: ledger_good_def genesis_def saved_event [OF False] built_fields latest_hash_def)
  then show ?thesis
    using assms by (simp add: ledger_good_def saved_event [OF False] verify_append_built)
qed

lemma replay_built:
  "replay_events (es @ [build_governance_event H p k i n t a oc r]) =
   dset (replay_events es) k (dset (case map_of (replay_events es) k of None \<Rightarrow> [] | Some d \<Rightarrow> d) i r)"
  by (simp add: replay_events_def apply_event_def built_fields built_payload gstr_PStr Let_def)

lemma rebuilt_stored:
  assumes "\<not> ge_fails env (save_governance st k (gstr r ''id'') r) a r"
  shows "stored (rebuilt (gov_save env st k r a act)) k' i =
    (if k' = k \<and> i = gstr r ''id'' then Some r else stored (rebuilt st) k' i)"
  by (simp add: stored_def rebuilt_def kind_recs_def saved_event [OF assms] replay_built)

lemma lost_entry_kept:
  assumes "lost_entry env st k' i" "k' \<noteq> k \<or> i \<noteq> gstr r ''id''"
  shows "lost_entry env (gov_save env st k r a act) k' i"
proof -
  have "prefix (gs_events st) (gs_events (gov_save env st k r a act))"
    by (cases "ge_fails env (save_governance st k (gstr r ''id'') r) a r")
      (simp_all add: save_unrecorded saved_event)
  with assms show ?thesis unfolding lost_entry_def
    by (auto simp: stored_after_save) (meson prefix_order.order_trans)+
qed

lemma replay_good_save:
  assumes "replay_good env st"
  shows "replay_good env (gov_save env st k r a act)"
proof -
  have kept: "i \<in> dom (stored (rebuilt st) k') \<Longrightarrow> i \<in> dom (stored st k')" for i k'
    using assms unfolding replay_good_def by blast
  show ?thesis
  proof (cases "ge_fails env (save_governance st k (gstr r ''id'') r) a r")
    case True
    let ?st = "gov_save env st k r a act"
    have same: "stored (rebuilt ?st) k' i = stored (rebuilt st) k' i" for k' i
      using True by (simp add: stored_def rebuilt_def kind_recs_def save_unrecorded)
    have "prefix (gs_events ?st) (gs_events ?st)" "stored ?st k (gstr r ''id'') = Some r" "ge_fails env ?st a r"
      using True by (simp_all add: stored_after_save) (simp add: save_unrecorded)
    then have "lost_entry env ?st k (gstr r ''id'')" unfolding lost_entry_def by blast
    then have "stored ?st k' i = stored (rebuilt ?st) k' i \<or> lost_entry env ?st k' i" for k' i
      using assms lost_entry_kept [of env st k' i k r a act]
      by (cases "k' = k \<and> i = gstr r ''id''") (auto simp: replay_good_def stored_after_save same)
    moreover have "dom (stored (rebuilt ?st) k') \<subseteq> dom (stored ?st k')" for k'
    proof
      fix i assume "i \<in> dom (stored (rebuilt ?st) k')"
      then show "i \<in> dom (stored ?st k')"
        using kept [of i k'] by (auto simp: domIff same stored_after_save split: if_splits)
    qed
    ultimately show ?thesis using True by (auto simp: replay_good_def)
  next
    case False
    let ?st = "gov_save env st k r a act"
    have "stored ?st k' i = stored (rebuilt ?st) k' i \<or> lost_entry env ?st k' i" for k' i
      using assms lost_entry_kept [of env st k' i k r a act]
      by (cases "k' = k \<and> i = gstr r ''id''") (auto simp: replay_good_def stored_after_save rebuilt_stored [OF False])
    moreover have "dom (stored (rebuilt ?st) k') \<subseteq> dom (stored ?st k')" for k'
    proof
      fix i assume "i \<in> dom (stored (rebuilt ?st) k')"
      then show "i \<in> dom (stored ?st k')"
        using kept [of i k'] by (auto simp: domIff rebuilt_stored [OF False] stored_after_save split: if_splits)
    qed
    moreover have "gs_recs ?st = replay_events (gs_events ?st)" if "gs_recs st = replay_events (gs_events st)"
      using that by (simp add: saved_recs saved_event [OF False] replay_built kind_recs_def)
    ultimately show ?thesis using assms by (auto simp: replay_good_def)
  qed
qed

lemma gov_inv_write: "gov_write env st st' \<Longrightarrow> gov_inv env st \<Longrightarrow> gov_inv env st'"
  by (erule gov_writeE)
    (simp add: gov_inv_def all_refs_save framework_ids_save versions_good_save active_unique_save ledger_good_save
      replay_good_save)

lemma gov_inv_writes: "(gov_write env)\<^sup>*\<^sup>* st st' \<Longrightarrow> gov_inv env st \<Longrightarrow> gov_inv env st'"
  by (induction rule: rtranclp_induct) (auto intro: gov_inv_write)

lemma exec_writes: "gov_inv env st \<Longrightarrow> (gov_write env)\<^sup>*\<^sup>* st (gov_exec env rq c st)"
  by (rule gov_exec_writes) (simp_all add: gov_inv_def)

lemma gov_run_writes: "gov_inv env st \<Longrightarrow> (gov_write env)\<^sup>*\<^sup>* st (gov_run env st cs)"
proof (induction cs arbitrary: st)
  case (Cons c cs)
  have w: "(gov_write env)\<^sup>*\<^sup>* st (gov_exec env (fst c) (snd c) st)" using Cons.prems by (rule exec_writes)
  from Cons.IH [OF gov_inv_writes [OF w Cons.prems]] w show ?case by (simp add: gov_run_def)
qed (simp add: gov_run_def)

lemma gov_inv_run: "gov_inv env (gov_run env empty_gov cs)"
  by (rule gov_inv_writes [OF gov_run_writes]) (rule gov_inv_empty)+

section \<open>Theorems about every run\<close>


lemma verdict_ok: "cv_ok (verify_governance_chain H es) \<Longrightarrow>
    verify_governance_chain H es = \<lparr>cv_ok = True, cv_count = int (length es), cv_broken_at = PNone\<rparr>"
  by (auto simp: verify_governance_chain_def split: option.splits)

text \<open>C5: After any calls of the routes the verification route answers that the ledger is intact, and the
  ledger starts at the genesis link.\<close>

theorem ledger_always_verifies:
  "governance_events_verify env rq (gov_run env empty_gov calls) =
     (if allowed env rq
      then Inr \<lparr>cv_ok = True, cv_count = int (min 2000 (length (gs_events (gov_run env empty_gov calls)))),
                cv_broken_at = PNone\<rparr>
      else Inl Forbidden)
   \<and> genesis (gs_events (gov_run env empty_gov calls))"
proof -
  let ?es = "gs_events (gov_run env empty_gov calls)"
  have good: "cv_ok (verify_governance_chain (ge_H env) ?es)" "genesis ?es"
    using gov_inv_run [of env calls] by (simp_all add: gov_inv_def ledger_good_def)
  have "cv_ok (verify_governance_chain (ge_H env) (drop (length ?es - 2000) ?es))"
    using verified_parts [of "ge_H env" "take (length ?es - 2000) ?es" _ "[]"] good(1) by simp
  from verdict_ok [OF this] show ?thesis
    using good(2)
    by (simp add: governance_events_verify_def load_governance_events_def EVENT_LIMIT_def Let_def min_def)
qed

text \<open>The verification route only looks at the last 2000 events: whatever the older part of a longer
  ledger holds, the answer is the same.\<close>

theorem verify_route_blind_to_old:
  assumes "2000 \<le> length recent"
  shows "governance_events_verify env rq (st\<lparr>gs_events := old @ recent\<rparr>)
       = governance_events_verify env rq (st\<lparr>gs_events := forged @ recent\<rparr>)"
  using assms
  by (simp add: governance_events_verify_def load_governance_events_def EVENT_LIMIT_def)

theorem verify_route_blind_to_old_witness:
  "governance_events_verify env rq (empty_gov\<lparr>gs_events := [] @ replicate 2000 demo_first\<rparr>)
     = governance_events_verify env rq (empty_gov\<lparr>gs_events := [demo_second] @ replicate 2000 demo_first\<rparr>)"
  by (rule verify_route_blind_to_old) simp

lemma all_equal_short: "distinct xs \<Longrightarrow> (\<And>x y. x \<in> set xs \<Longrightarrow> y \<in> set xs \<Longrightarrow> x = y) \<Longrightarrow> length xs \<le> 1"
proof (cases xs)
  case (Cons a ys)
  assume d: "distinct xs" and e: "\<And>x y. x \<in> set xs \<Longrightarrow> y \<in> set xs \<Longrightarrow> x = y"
  have "ys = []"
  proof (rule ccontr)
    assume "ys \<noteq> []"
    then obtain b zs where "ys = b # zs" by (cases ys) auto
    with e [of a b] d Cons show False by simp
  qed
  with Cons show ?thesis by simp
qed simp

text \<open>C2: At any time a framework has at most one active version, whatever is created, imported, activated
  and retired in whatever order.\<close>

theorem at_most_one_active_version:
  "length (filter (\<lambda>v. is_active v \<and> dget v ''framework_id'' = f)
     (load_governance (gov_run env empty_gov calls) ''framework_version'')) \<le> 1"
proof -
  let ?st = "gov_run env empty_gov calls"
  let ?P = "\<lambda>v. is_active v \<and> dget v ''framework_id'' = f"
  let ?d = "filter (\<lambda>p. ?P (snd p)) (kind_recs ?st ''framework_version'')"
  have inv: "tidy ?st" "active_unique ?st" using gov_inv_run [of env calls] by (simp_all add: gov_inv_def)
  have dw: "dwf (kind_recs ?st ''framework_version'')" using inv(1) by (simp add: tidy_def keyed_def)
  have find: "gov_find ?st ''framework_version'' (fst p) = Some (snd p) \<and> ?P (snd p)" if "p \<in> set ?d" for p
  proof -
    from that have "p \<in> set (kind_recs ?st ''framework_version'')" "?P (snd p)" by simp_all
    with dw inv(1) show ?thesis by (simp add: tidy_def gov_find_kind)
  qed
  have "length (keys ?d) \<le> 1"
  proof (rule all_equal_short)
    show "distinct (keys ?d)" using dw by (rule distinct_map_filter)
    fix i j assume "i \<in> set (keys ?d)" "j \<in> set (keys ?d)"
    then obtain v w where "(i, v) \<in> set ?d" "(j, w) \<in> set ?d" by auto
    with find [of "(i, v)"] find [of "(j, w)"] inv(2) show "i = j"
      unfolding active_unique_def by simp
  qed
  then show ?thesis by (simp add: load_governance_def filter_map comp_def)
qed

text \<open>Versions never change their content.\<close>

definition same_content :: "pdict \<Rightarrow> pdict \<Rightarrow> bool" where
  "same_content v w = (hash_text w = hash_text v \<and> dget w ''content_hash'' = dget v ''content_hash''
     \<and> prefix (as_list (dget v ''lifecycle'')) (as_list (dget w ''lifecycle'')))"

lemma same_content_trans: "same_content u v \<Longrightarrow> same_content v w \<Longrightarrow> same_content u w"
  by (auto simp: same_content_def dest: prefix_order.order_trans)

lemma same_content_write:
  assumes "gov_write env st st'" "tidy st" "gov_find st ''framework_version'' i = Some v"
  shows "\<exists>w. gov_find st' ''framework_version'' i = Some w \<and> same_content v w"
  using assms(1)
proof (rule gov_writeE)
  fix k r a act
  assume w: "st' = gov_save env st k r a act" "write_ok env st k r"
  show ?thesis
  proof (cases "k = ''framework_version'' \<and> i = gstr r ''id''")
    case True
    with w(2) assms(3) obtain t actor now where "r = apply_version_lifecycle v t actor now"
      by (auto simp: write_ok_def version_ok_def Let_def)
    then have "same_content v r"
      by (simp add: same_content_def hash_text_lifecycle lifecycle_dget lifecycle_log)
    with True w show ?thesis by (simp add: find_save [OF assms(2)])
  next
    case False
    with assms(2,3) w show ?thesis by (auto simp: find_save same_content_def)
  qed
qed

lemma same_content_writes:
  assumes "(gov_write env)\<^sup>*\<^sup>* st st'" "tidy st" "gov_find st ''framework_version'' i = Some v"
  shows "\<exists>w. gov_find st' ''framework_version'' i = Some w \<and> same_content v w"
  using assms
proof (induction rule: rtranclp_induct)
  case base
  then show ?case by (auto simp: same_content_def)
next
  case (step y z)
  from step.IH [OF step.prems] obtain w where w: "gov_find y ''framework_version'' i = Some w" "same_content v w"
    by blast
  from same_content_write [OF step.hyps(2) tidy_writes [OF step.hyps(1) step.prems(1)] w(1)] w(2)
  show ?case by (blast intro: same_content_trans)
qed

text \<open>C3: A stored framework version is immutable: after any further calls it is still stored, its content and
  its content hash are what they were, the hash still seals the content, its life-cycle log has only grown
  and is a legal path from draft to its present status.\<close>

theorem version_immutable:
  assumes "gov_find (gov_run env empty_gov before) ''framework_version'' i = Some v"
  shows "\<exists>w. gov_find (gov_run env empty_gov (before @ later)) ''framework_version'' i = Some w
    \<and> hash_text w = hash_text v \<and> dget w ''content_hash'' = dget v ''content_hash'' \<and> sealed (ge_H env) w
    \<and> prefix (as_list (dget v ''lifecycle'')) (as_list (dget w ''lifecycle'')) \<and> logged w"
proof -
  have inv: "gov_inv env (gov_run env empty_gov before)" by (rule gov_inv_run)
  from same_content_writes [OF gov_run_writes [OF inv, of later] _ assms] inv obtain w where
    w: "gov_find (gov_run env empty_gov (before @ later)) ''framework_version'' i = Some w" "same_content v w"
    by (auto simp: gov_inv_def gov_run_append)
  from find_version_good [OF _ w(1)] gov_inv_run [of env "before @ later"] have "version_good env w"
    by (simp add: gov_inv_def)
  with w show ?thesis by (auto simp: same_content_def version_good_def)
qed

definition demo_env :: gov_env where
  "demo_env = \<lparr>ge_H = demo_digest, ge_H1 = demo_digest, ge_auth = True, ge_sod = False, ge_clock = (\<lambda>n. dec n),
     ge_fails = (\<lambda>_ _ _. False)\<rparr>"

definition demo_rq :: gov_request where
  "demo_rq = \<lparr>rq_role = Some ''admin'', rq_user = ''kim'', rq_now = ''2024-01-01''\<rparr>"

definition demo_calls :: "(gov_request \<times> gov_call) list" where
  "demo_calls =
     [(demo_rq, CreateFramework [(''name'', PStr ''ISO'')]),
      (demo_rq, CreateVersion [(''framework_id'', PStr ''iso''), (''version'', PStr ''2022'')])]"

definition demo_later :: "(gov_request \<times> gov_call) list" where
  "demo_later = [(demo_rq, ActivateVersion ''iso:2022''), (demo_rq, RetireVersion ''iso:2022'')]"

lemma demo_version_found: "gov_find (gov_run demo_env empty_gov demo_calls) ''framework_version'' ''iso:2022'' \<noteq> None"
  by code_simp

theorem version_immutable_witness:
  "\<exists>v w. gov_find (gov_run demo_env empty_gov demo_calls) ''framework_version'' ''iso:2022'' = Some v
     \<and> gov_find (gov_run demo_env empty_gov (demo_calls @ demo_later)) ''framework_version'' ''iso:2022'' = Some w
     \<and> dget w ''content_hash'' = dget v ''content_hash''"
proof -
  from demo_version_found obtain v where
    "gov_find (gov_run demo_env empty_gov demo_calls) ''framework_version'' ''iso:2022'' = Some v" by blast
  from version_immutable [OF this, of demo_later] this show ?thesis by blast
qed

text \<open>C4: The references that the routes check are never broken: after any calls, the framework of every
  stored version, the version of every control definition, both ends of every relationship, the version and
  the scope snapshot (where one is named) of every cycle, the internal control of every evidence mapping, and
  the cycle and the control of every cycle control are themselves stored.\<close>

theorem checked_references_kept:
  "list_all (refs_ok (gov_run env empty_gov calls) kind) (load_governance (gov_run env empty_gov calls) kind)"
  using gov_inv_run [of env calls] by (simp add: gov_inv_def all_refs_def list_all_iff)

text \<open>The other references are stored as the caller gives them: a version can supersede one that was never
  stored, and a control can stand below a parent that does not exist.\<close>

lemma unchecked_references_dangle:
  "fst (create_version demo_env demo_rq [(''framework_id'', PStr ''iso''), (''version'', PStr ''2025''),
      (''supersedes'', PStr ''iso:1999'')] (gov_run demo_env empty_gov demo_calls)) \<noteq> Inl NotFound
   \<and> list_ex (\<lambda>v. dget v ''supersedes'' = PStr ''iso:1999'') (load_governance (gov_run demo_env empty_gov
        (demo_calls @ [(demo_rq, CreateVersion [(''framework_id'', PStr ''iso''), (''version'', PStr ''2025''),
           (''supersedes'', PStr ''iso:1999'')])])) ''framework_version'')
   \<and> list_ex (\<lambda>c. dget c ''parent_control_id'' = PStr ''nowhere'') (load_governance (gov_run demo_env empty_gov
        (demo_calls @ [(demo_rq, CreateControl [(''framework_version_id'', PStr ''iso:2022''),
           (''display_code'', PStr ''A.5''), (''title'', PStr ''Policies''),
           (''parent_control_id'', PStr ''nowhere'')])])) ''control_definition'')"
  by code_simp

text \<open>A record whose event could not be recorded is stored, and the ledger knows nothing of it.\<close>

lemma record_without_event:
  "let st = gov_run (demo_env\<lparr>ge_fails := (\<lambda>_ _ r. dget r ''name'' = PStr ''Lost'')\<rparr>) empty_gov
       [(demo_rq, CreateFramework [(''name'', PStr ''Lost'')])]
   in length (load_governance st ''framework'') = 1 \<and> gs_events st = []"
  by code_simp

text \<open>A request that is not made by an admin or a security user changes nothing when authentication is on.\<close>

lemma gate_closed:
  assumes "\<not> allowed env rq"
  shows "gov_exec env rq call st = st"
  using assms
  by (cases call) (simp_all add: import_catalog_def create_framework_def create_version_def activate_version_def
      retire_version_def create_control_def create_relationship_def create_org_control_def
      create_scope_snapshot_def create_cycle_def create_evidence_mapping_def create_cycle_control_def
      update_cycle_control_def initialize_cycle_def)

theorem gate_closed_witness:
  "gov_exec demo_env (demo_rq\<lparr>rq_role := Some ''viewer''\<rparr>) (ActivateVersion ''iso:2022'')
     (gov_run demo_env empty_gov [(demo_rq, CreateFramework [(''name'', PStr ''iso'')])])
   = gov_run demo_env empty_gov [(demo_rq, CreateFramework [(''name'', PStr ''iso'')])]"
  by (rule gate_closed) code_simp

text \<open>A framework registered under a name with a blank cannot get a version under that name: the version
  route looks for the identifier as typed and in lower case, the framework is stored under its slug.\<close>

lemma version_of_spaced_framework_missing:
  "fst (create_version demo_env demo_rq [(''framework_id'', PStr ''ISMS P''), (''version'', PStr ''1'')]
     (gov_run demo_env empty_gov [(demo_rq, CreateFramework [(''name'', PStr ''ISMS P'')])])) = Inl NotFound"
  by code_simp

end
