(* ===== verification/Py_Time.thy ===== *)
theory Py_Time
  imports Py_Value "HOL-Library.Monad_Syntax"
begin

text \<open>
  Python's \<^verbatim>\<open>datetime\<close> as far as the services use it, with the shared parser of
  \<^verbatim>\<open>services/text_utils.py\<close>.  A datetime is its wall-clock time in microseconds since
  0001-01-01 and, when it is aware, its offset from UTC in microseconds.  Subtracting or comparing
  a naive and an aware datetime raises \<^verbatim>\<open>TypeError\<close>, which is \<open>None\<close> here.

  \<^verbatim>\<open>datetime.fromisoformat\<close> is modelled on the extended calendar format (\<^verbatim>\<open>2024-05-01\<close>,
  \<^verbatim>\<open>2024-05-01T10:20:30.5+09:00\<close>, any separator, \<^verbatim>\<open>Z\<close>), the one that \<^verbatim>\<open>isoformat()\<close> prints;
  the week and the basic formats are read as invalid.
\<close>

record dtime =
  dt_us :: int
  dt_off :: "int option"

definition US :: int where
  "US = 1000000"

definition DAY_US :: int where
  "DAY_US = 86400 * 1000000"

section \<open>Calendar\<close>

definition is_leap :: "int \<Rightarrow> bool" where
  "is_leap y = (4 dvd y \<and> (\<not> 100 dvd y \<or> 400 dvd y))"

definition days_in_month :: "int \<Rightarrow> int \<Rightarrow> int" where
  "days_in_month y m =
     (if m = 2 then (if is_leap y then 29 else 28) else if m \<in> {4, 6, 9, 11} then 30 else 31)"

definition days_before_year :: "int \<Rightarrow> int" where
  "days_before_year y = (let p = y - 1 in p * 365 + p div 4 - p div 100 + p div 400)"

definition days_before_month :: "int \<Rightarrow> int \<Rightarrow> int" where
  "days_before_month y m = sum_list (map (days_in_month y) [1 .. m - 1])"

definition valid_date :: "int \<Rightarrow> int \<Rightarrow> int \<Rightarrow> bool" where
  "valid_date y m d = (1 \<le> y \<and> y \<le> 9999 \<and> 1 \<le> m \<and> m \<le> 12 \<and> 1 \<le> d \<and> d \<le> days_in_month y m)"

definition valid_time :: "int \<Rightarrow> int \<Rightarrow> int \<Rightarrow> bool" where
  "valid_time h mi s = (0 \<le> h \<and> h < 24 \<and> 0 \<le> mi \<and> mi < 60 \<and> 0 \<le> s \<and> s < 60)"

definition date_us :: "int \<Rightarrow> int \<Rightarrow> int \<Rightarrow> int" where
  "date_us y m d = (days_before_year y + days_before_month y m + d - 1) * DAY_US"

definition time_us :: "int \<Rightarrow> int \<Rightarrow> int \<Rightarrow> int" where
  "time_us h mi s = ((h * 60 + mi) * 60 + s) * US"

section \<open>Parsing\<close>

fun take_num :: "nat \<Rightarrow> string \<Rightarrow> (int \<times> string) option" where
  "take_num n s =
     (if length (take n s) = n \<and> list_all is_digit (take n s)
      then Some (int (undec (take n s)), drop n s) else None)"

fun take_char :: "char \<Rightarrow> string \<Rightarrow> string option" where
  "take_char c [] = None"
| "take_char c (x # s) = (if x = c then Some s else None)"

definition parse_date :: "string \<Rightarrow> (int \<times> string) option" where
  "parse_date s = do {
     (y, s) \<leftarrow> take_num 4 s;
     s \<leftarrow> take_char (CHR ''-'') s;
     (m, s) \<leftarrow> take_num 2 s;
     s \<leftarrow> take_char (CHR ''-'') s;
     (d, s) \<leftarrow> take_num 2 s;
     if valid_date y m d then Some (date_us y m d, s) else None }"

text \<open>A fraction of a second: one digit or more, cut to microseconds.\<close>

definition parse_fraction :: "string \<Rightarrow> (int \<times> string) option" where
  "parse_fraction s =
     (let ds = takeWhile is_digit s
      in if ds = [] then None
         else Some (int (undec (take 6 (ds @ replicate 6 (CHR ''0'')))), dropWhile is_digit s))"

definition parse_seconds :: "string \<Rightarrow> (int \<times> int \<times> string) option" where
  "parse_seconds s =
     (case take_char (CHR '':'') s of
        None \<Rightarrow> Some (0, 0, s)
      | Some s \<Rightarrow> do {
          (sec, s) \<leftarrow> take_num 2 s;
          if s \<noteq> [] \<and> hd s \<in> {CHR ''.'', CHR '',''} then do {
            (us, s) \<leftarrow> parse_fraction (tl s); Some (sec, us, s) }
          else Some (sec, 0, s) })"

definition parse_clock :: "string \<Rightarrow> (int \<times> string) option" where
  "parse_clock s = do {
     (h, s) \<leftarrow> take_num 2 s;
     case take_char (CHR '':'') s of
       None \<Rightarrow> (if valid_time h 0 0 then Some (time_us h 0 0, s) else None)
     | Some s \<Rightarrow> do {
         (mi, s) \<leftarrow> take_num 2 s;
         (sec, us, s) \<leftarrow> parse_seconds s;
         if valid_time h mi sec then Some (time_us h mi sec + us, s) else None } }"

definition parse_offset :: "string \<Rightarrow> int option option" where
  "parse_offset s =
     (if s = [] then Some None
      else if s = ''Z'' then Some (Some 0)
      else if hd s = CHR ''+'' \<or> hd s = CHR ''-'' then do {
        (us, r) \<leftarrow> parse_clock (tl s);
        if r = [] then Some (Some (if hd s = CHR ''-'' then - us else us)) else None }
      else None)"

definition from_iso :: "string \<Rightarrow> dtime option" where
  "from_iso s = do {
     (d, s) \<leftarrow> parse_date s;
     if s = [] then Some \<lparr>dt_us = d, dt_off = None\<rparr>
     else do {
       (t, s) \<leftarrow> parse_clock (tl s);
       off \<leftarrow> parse_offset s;
       Some \<lparr>dt_us = d + t, dt_off = off\<rparr> } }"

text \<open>\<^verbatim>\<open>s.replace("Z", "+00:00")\<close>, every occurrence.\<close>

definition z_to_offset :: "string \<Rightarrow> string" where
  "z_to_offset s = concat (map (\<lambda>c. if c = CHR ''Z'' then ''+00:00'' else [c]) s)"

definition parse_iso :: "pv \<Rightarrow> bool \<Rightarrow> dtime option" where
  "parse_iso value assume_utc =
     (let s = strip (pstr (por value (PStr [])))
      in if s = [] then None
         else case from_iso (z_to_offset s) of
                None \<Rightarrow> None
              | Some dt \<Rightarrow> Some (if assume_utc \<and> dt_off dt = None then dt\<lparr>dt_off := Some 0\<rparr> else dt))"

section \<open>Printing\<close>

text \<open>\<^verbatim>\<open>date.fromordinal\<close>: year, month and day of a day count since 0001-01-01.\<close>

definition month_of_day :: "int \<Rightarrow> int \<Rightarrow> int" where
  "month_of_day y n = last (filter (\<lambda>m. days_before_month y m \<le> n) [1 .. 12])"

definition ymd_of_days :: "int \<Rightarrow> int \<times> int \<times> int" where
  "ymd_of_days d =
     (let n400 = d div 146097; n = d mod 146097;
          n100 = n div 36524; n = n mod 36524;
          n4 = n div 1461; n = n mod 1461;
          n1 = n div 365; n = n mod 365;
          y = n400 * 400 + n100 * 100 + n4 * 4 + n1 + 1
      in if n1 = 4 \<or> n100 = 4 then (y - 1, 12, 31)
         else (let m = month_of_day y n in (y, m, n - days_before_month y m + 1)))"

definition pad :: "nat \<Rightarrow> int \<Rightarrow> string" where
  "pad w n = (let s = dec (nat n) in replicate (w - length s) (CHR ''0'') @ s)"

text \<open>\<^verbatim>\<open>isoformat()\<close> of an instant in UTC, without its offset.\<close>

definition iso_text :: "int \<Rightarrow> string" where
  "iso_text us =
     (case ymd_of_days (us div DAY_US) of (y, m, d) \<Rightarrow>
       let t = us mod DAY_US; sec = t div US; f = t mod US
       in pad 4 y @ ''-'' @ pad 2 m @ ''-'' @ pad 2 d @ ''T'' @ pad 2 (sec div 3600) @ '':''
          @ pad 2 (sec div 60 mod 60) @ '':'' @ pad 2 (sec mod 60) @ (if f = 0 then [] else ''.'' @ pad 6 f))"

section \<open>Arithmetic\<close>

text \<open>The difference \<^verbatim>\<open>a - b\<close> in microseconds; \<open>None\<close> for a naive and an aware operand.\<close>

definition dt_sub :: "dtime \<Rightarrow> dtime \<Rightarrow> int option" where
  "dt_sub a b =
     (case (dt_off a, dt_off b) of
        (None, None) \<Rightarrow> Some (dt_us a - dt_us b)
      | (Some x, Some y) \<Rightarrow> Some ((dt_us a - x) - (dt_us b - y))
      | _ \<Rightarrow> None)"

text \<open>\<^verbatim>\<open>timedelta.days\<close>.\<close>

definition td_days :: "int \<Rightarrow> int" where
  "td_days us = us div DAY_US"

lemma td_days_mono: "a \<le> b \<Longrightarrow> td_days a \<le> td_days b"
  by (simp add: td_days_def DAY_US_def zdiv_mono1)

lemma dt_sub_aware: "dt_off a = Some x \<Longrightarrow> dt_off b = Some y \<Longrightarrow>
    dt_sub a b = Some ((dt_us a - x) - (dt_us b - y))"
  by (simp add: dt_sub_def)

lemma dt_sub_naive: "dt_off a = None \<Longrightarrow> dt_off b = None \<Longrightarrow> dt_sub a b = Some (dt_us a - dt_us b)"
  by (simp add: dt_sub_def)

lemma dt_sub_defined: "(dt_off a = None \<longleftrightarrow> dt_off b = None) \<Longrightarrow> \<exists>d. dt_sub a b = Some d"
  by (auto simp: dt_sub_def split: option.splits)

lemma parse_iso_aware: "parse_iso v True = Some dt \<Longrightarrow> \<exists>off. dt_off dt = Some off"
  by (auto simp: parse_iso_def Let_def split: if_splits option.splits)

end
