(* ===== verification/Entities.thy ===== *)
theory Entities
  imports Py_Time
begin

text \<open>
  The normalized entities of the monitoring pipeline (\<^verbatim>\<open>models/entities.py\<close>) and what collectors hand
  to it (\<^verbatim>\<open>collectors/base.py\<close>): one record per dataclass, with the dataclass's fields and defaults.
  The literal types (severities, statuses, sources) are texts, as at run time; the confidence of an
  alias, a float that the code only ever leaves at its default 1.0, is an integer.  A normalized value is
  a JSON value or a datetime.
\<close>

section \<open>What a collector produces\<close>

datatype nval = V pv | T dtime

type_synonym ndict = "nval dict"

record collector_record =
  cr_source :: string
  cr_record_type :: string
  cr_observed_at :: dtime
  cr_external_id :: "string option"
  cr_host_aliases :: "string list"
  cr_payload :: pdict

record envelope =
  ev_entity_type :: string
  ev_entity_id :: string
  ev_observed_at :: dtime
  ev_source :: string
  ev_raw_ref :: "string option"
  ev_normalized :: ndict
  ev_raw_payload :: pdict

section \<open>Entities\<close>

record host =
  ho_id :: string
  ho_hostname :: string
  ho_platform :: "string option"
  ho_primary_ip :: "string option"
  ho_status :: string
  ho_risk_score :: int
  ho_first_seen :: "dtime option"
  ho_last_seen :: "dtime option"

record host_alias =
  ha_id :: string
  ha_host_id :: string
  ha_source :: string
  ha_type :: string
  ha_value :: string
  ha_confidence :: int
  ha_is_primary :: bool
  ha_first_seen :: "dtime option"
  ha_last_seen :: "dtime option"

record alert =
  al_id :: string
  al_source :: string
  al_observed_at :: dtime
  al_message :: string
  al_host_id :: "string option"
  al_source_event_id :: "string option"
  al_severity :: string
  al_original_severity :: "string option"
  al_rule_name :: "string option"
  al_rule_id :: "string option"
  al_resolved_at :: "dtime option"
  al_raw_ref :: "string option"
  al_raw_payload :: pdict

record vulnerability =
  vu_id :: string
  vu_host_id :: string
  vu_detected_at :: dtime
  vu_source :: string
  vu_cve :: "string option"
  vu_severity :: string
  vu_package_name :: "string option"
  vu_installed_version :: "string option"
  vu_fixed_version :: "string option"
  vu_resolved_at :: "dtime option"
  vu_raw_ref :: "string option"
  vu_raw_payload :: pdict

record query_result =
  qr_id :: string
  qr_host_id :: string
  qr_observed_at :: dtime
  qr_result_json :: pdict
  qr_source :: string
  qr_query_name :: "string option"
  qr_query_text :: "string option"
  qr_raw_ref :: "string option"

record host_observation =
  ob_id :: string
  ob_source :: string
  ob_host_id :: string
  ob_type :: string
  ob_metric_name :: string
  ob_observed_at :: dtime
  ob_metric_value :: "string option"
  ob_unit :: "string option"
  ob_severity :: "string option"
  ob_raw_ref :: "string option"
  ob_raw_payload :: pdict

record source_sync =
  sy_source :: string
  sy_status :: string
  sy_last_sync_at :: dtime
  sy_last_success_at :: "dtime option"
  sy_last_error_at :: "dtime option"
  sy_message :: "string option"
  sy_records_collected :: int
  sy_envelopes_normalized :: int
  sy_entities_saved :: int

record control_check =
  ck_id :: string
  ck_control_id :: string
  ck_entity_type :: string
  ck_entity_id :: string
  ck_status :: string
  ck_checked_at :: dtime
  ck_evidence_refs :: "pv list"
  ck_owner :: "string option"
  ck_note :: "string option"
  ck_remediation_due_at :: "dtime option"
  ck_resolved_at :: "dtime option"

record directory_account =
  da_id :: string
  da_username :: string
  da_display_name :: "string option"
  da_email :: "string option"
  da_department :: "string option"
  da_status :: string
  da_is_privileged :: bool
  da_last_login_at :: "dtime option"
  da_password_last_set :: "dtime option"
  da_created_at :: "dtime option"

record privilege_binding =
  pb_id :: string
  pb_account_id :: string
  pb_privilege_type :: string
  pb_target :: "string option"
  pb_granted_at :: "dtime option"
  pb_expires_at :: "dtime option"
  pb_granted_by :: "string option"

record group_membership =
  gm_id :: string
  gm_account_id :: string
  gm_group_name :: string
  gm_source :: string
  gm_synced_at :: "dtime option"

record account_observation =
  ao_id :: string
  ao_account_id :: string
  ao_type :: string
  ao_source :: string
  ao_observed_at :: "dtime option"
  ao_detail :: "string option"
  ao_severity :: "string option"

datatype entity =
    EHost host
  | EAlias host_alias
  | EAlert alert
  | EVuln vulnerability
  | EQuery query_result
  | EObs host_observation
  | ESync source_sync
  | ECheck control_check
  | EAccount directory_account
  | EPriv privilege_binding
  | EGroup group_membership
  | EAccObs account_observation

section \<open>Comparing datetimes\<close>

text \<open>\<^verbatim>\<open>a <= b\<close>: \<open>None\<close> is the \<^verbatim>\<open>TypeError\<close> for a naive and an aware operand.\<close>

definition dt_le :: "dtime \<Rightarrow> dtime \<Rightarrow> bool option" where
  "dt_le a b = map_option (\<lambda>d. d \<le> 0) (dt_sub a b)"

definition dt_aware :: "dtime \<Rightarrow> bool" where
  "dt_aware d = (dt_off d \<noteq> None)"

text \<open>The instant of an aware datetime, and the wall clock of a naive one.\<close>

definition dt_instant :: "dtime \<Rightarrow> int" where
  "dt_instant d = dt_us d - (case dt_off d of None \<Rightarrow> 0 | Some off \<Rightarrow> off)"

lemma dt_le_same_kind: "dt_aware a = dt_aware b \<Longrightarrow> dt_le a b = Some (dt_instant a \<le> dt_instant b)"
  by (auto simp: dt_le_def dt_sub_def dt_instant_def dt_aware_def split: option.splits)

lemma dt_le_mixed: "dt_aware a \<noteq> dt_aware b \<Longrightarrow> dt_le a b = None"
  by (auto simp: dt_le_def dt_sub_def dt_aware_def split: option.splits)

lemma dt_le_refl [simp]: "dt_le a a = Some True"
  by (simp add: dt_le_same_kind)

lemma dt_le_Some: "dt_le a b = Some x \<longleftrightarrow> dt_aware a = dt_aware b \<and> x = (dt_instant a \<le> dt_instant b)"
  using dt_le_mixed [of a b] by (cases "dt_aware a = dt_aware b") (auto simp: dt_le_same_kind)

end
