(* ===== verification/Repository.thy ===== *)
theory Repository
  imports Entities
begin

text \<open>
  The in-memory repository, \<^verbatim>\<open>repositories/memory.py\<close>: one dictionary per kind of entity, \<^verbatim>\<open>save\<close> with
  its dispatch on the entity's class, the merge of a host that is already known, and the risk scores of
  \<^verbatim>\<open>services/risk_score.py\<close> that are written back to the hosts.  \<open>None\<close> is the \<^verbatim>\<open>TypeError\<close> of a comparison
  between a naive and an aware datetime.

  The interface that ingestion relies on is the locale \<open>repository\<close>: what is read after a write.
\<close>

section \<open>State\<close>

record repo =
  re_hosts :: "host dict"
  re_aliases :: "host_alias dict"
  re_alerts :: "alert dict"
  re_vulns :: "vulnerability dict"
  re_queries :: "query_result dict"
  re_obs :: "host_observation dict"
  re_syncs :: "source_sync dict"
  re_checks :: "control_check dict"
  re_accounts :: "directory_account dict"
  re_privs :: "privilege_binding dict"
  re_groups :: "group_membership dict"
  re_accobs :: "account_observation dict"

definition empty_repo :: repo where
  "empty_repo = \<lparr>re_hosts = [], re_aliases = [], re_alerts = [], re_vulns = [], re_queries = [], re_obs = [],
     re_syncs = [], re_checks = [], re_accounts = [], re_privs = [], re_groups = [], re_accobs = []\<rparr>"

section \<open>Saving\<close>

definition min_dt :: "dtime option \<Rightarrow> dtime option \<Rightarrow> dtime option option" where
  "min_dt left right =
     (case left of None \<Rightarrow> Some right
      | Some l \<Rightarrow> (case right of None \<Rightarrow> Some left
                  | Some r \<Rightarrow> map_option (\<lambda>le. if le then left else right) (dt_le l r)))"

definition max_dt :: "dtime option \<Rightarrow> dtime option \<Rightarrow> dtime option option" where
  "max_dt left right =
     (case left of None \<Rightarrow> Some right
      | Some l \<Rightarrow> (case right of None \<Rightarrow> Some left
                  | Some r \<Rightarrow> map_option (\<lambda>ge. if ge then left else right) (dt_le r l)))"

text \<open>\<^verbatim>\<open>a or b\<close> on an optional text.\<close>

definition oor :: "string option \<Rightarrow> string option \<Rightarrow> string option" where
  "oor a b = (if a = None \<or> a = Some [] then b else a)"

definition merge_host :: "host \<Rightarrow> host \<Rightarrow> host option" where
  "merge_host existing incoming =
     (case (min_dt (ho_first_seen existing) (ho_first_seen incoming),
            max_dt (ho_last_seen existing) (ho_last_seen incoming)) of
        (Some first_at, Some last_at) \<Rightarrow>
          Some (existing\<lparr>
            ho_hostname := sor (ho_hostname incoming) (ho_hostname existing),
            ho_platform := oor (ho_platform incoming) (ho_platform existing),
            ho_primary_ip := oor (ho_primary_ip incoming) (ho_primary_ip existing),
            ho_status := (if ho_status incoming \<noteq> ''unknown'' then ho_status incoming else ho_status existing),
            ho_risk_score := max (ho_risk_score existing) (ho_risk_score incoming),
            ho_first_seen := first_at, ho_last_seen := last_at\<rparr>)
      | _ \<Rightarrow> None)"

definition save_host :: "repo \<Rightarrow> host \<Rightarrow> repo option" where
  "save_host r incoming =
     (case map_of (re_hosts r) (ho_id incoming) of
        None \<Rightarrow> Some (r\<lparr>re_hosts := dset (re_hosts r) (ho_id incoming) incoming\<rparr>)
      | Some existing \<Rightarrow>
          map_option (\<lambda>merged. r\<lparr>re_hosts := dset (re_hosts r) (ho_id incoming) merged\<rparr>)
            (merge_host existing incoming))"

primrec repo_save :: "repo \<Rightarrow> entity \<Rightarrow> repo option" where
  "repo_save r (EHost h) = save_host r h"
| "repo_save r (EAlias x) = Some (r\<lparr>re_aliases := dset (re_aliases r) (ha_id x) x\<rparr>)"
| "repo_save r (EAlert x) = Some (r\<lparr>re_alerts := dset (re_alerts r) (al_id x) x\<rparr>)"
| "repo_save r (EVuln x) = Some (r\<lparr>re_vulns := dset (re_vulns r) (vu_id x) x\<rparr>)"
| "repo_save r (EQuery x) = Some (r\<lparr>re_queries := dset (re_queries r) (qr_id x) x\<rparr>)"
| "repo_save r (EObs x) = Some (r\<lparr>re_obs := dset (re_obs r) (ob_id x) x\<rparr>)"
| "repo_save r (ESync x) = Some (r\<lparr>re_syncs := dset (re_syncs r) (sy_source x) x\<rparr>)"
| "repo_save r (ECheck x) = Some (r\<lparr>re_checks := dset (re_checks r) (ck_id x) x\<rparr>)"
| "repo_save r (EAccount x) = Some (r\<lparr>re_accounts := dset (re_accounts r) (da_id x) x\<rparr>)"
| "repo_save r (EPriv x) = Some (r\<lparr>re_privs := dset (re_privs r) (pb_id x) x\<rparr>)"
| "repo_save r (EGroup x) = Some (r\<lparr>re_groups := dset (re_groups r) (gm_id x) x\<rparr>)"
| "repo_save r (EAccObs x) = Some (r\<lparr>re_accobs := dset (re_accobs r) (ao_id x) x\<rparr>)"

text \<open>The snapshot: the values of each dictionary.\<close>

record snapshot =
  sn_hosts :: "host list"
  sn_aliases :: "host_alias list"
  sn_alerts :: "alert list"
  sn_vulns :: "vulnerability list"
  sn_queries :: "query_result list"
  sn_obs :: "host_observation list"
  sn_syncs :: "source_sync list"
  sn_checks :: "control_check list"
  sn_accounts :: "directory_account list"
  sn_privs :: "privilege_binding list"
  sn_groups :: "group_membership list"
  sn_accobs :: "account_observation list"

definition repo_snapshot :: "repo \<Rightarrow> snapshot" where
  "repo_snapshot r =
     \<lparr>sn_hosts = map snd (re_hosts r), sn_aliases = map snd (re_aliases r), sn_alerts = map snd (re_alerts r),
      sn_vulns = map snd (re_vulns r), sn_queries = map snd (re_queries r), sn_obs = map snd (re_obs r),
      sn_syncs = map snd (re_syncs r), sn_checks = map snd (re_checks r), sn_accounts = map snd (re_accounts r),
      sn_privs = map snd (re_privs r), sn_groups = map snd (re_groups r), sn_accobs = map snd (re_accobs r)\<rparr>"

definition source_syncs :: "repo \<Rightarrow> source_sync list" where
  "source_syncs r = sn_syncs (repo_snapshot r)"

section \<open>Risk scores\<close>

definition ALERT_WEIGHTS :: "int dict" where
  "ALERT_WEIGHTS = [(''critical'', 20), (''high'', 10), (''medium'', 5), (''low'', 2), (''info'', 0)]"

definition VULN_WEIGHTS :: "int dict" where
  "VULN_WEIGHTS = [(''critical'', 15), (''high'', 8), (''medium'', 3), (''low'', 1), (''info'', 0)]"

definition MAX_RISK_SCORE :: int where
  "MAX_RISK_SCORE = 100"

definition weight :: "int dict \<Rightarrow> string \<Rightarrow> int" where
  "weight d k = (case map_of d k of None \<Rightarrow> 0 | Some w \<Rightarrow> w)"

definition risk_calculate :: "alert list \<Rightarrow> vulnerability list \<Rightarrow> int" where
  "risk_calculate alerts vulns =
     (let score = sum_list (map (\<lambda>a. weight ALERT_WEIGHTS (al_severity a)) alerts);
          score = score + sum_list (map (\<lambda>v. weight VULN_WEIGHTS (vu_severity v)) vulns)
      in min score MAX_RISK_SCORE)"

text \<open>\<^verbatim>\<open>defaultdict(list)\<close>, read by key.\<close>

definition glook :: "'a list dict \<Rightarrow> string \<Rightarrow> 'a list" where
  "glook d k = (case map_of d k of None \<Rightarrow> [] | Some xs \<Rightarrow> xs)"

definition recalculate_hosts :: "host list \<Rightarrow> alert list \<Rightarrow> vulnerability list \<Rightarrow> host list" where
  "recalculate_hosts hosts alerts vulns =
     (let host_alerts = group_by (\<lambda>a. the (al_host_id a))
            (filter (\<lambda>a. al_host_id a \<noteq> None \<and> al_host_id a \<noteq> Some []) alerts);
          host_vulns = group_by vu_host_id vulns
      in map (\<lambda>h. h\<lparr>ho_risk_score := risk_calculate (glook host_alerts (ho_id h)) (glook host_vulns (ho_id h))\<rparr>) hosts)"

definition apply_risk_scores :: "repo \<Rightarrow> int dict \<Rightarrow> repo" where
  "apply_risk_scores r scores =
     foldl (\<lambda>r kv. case map_of (re_hosts r) (fst kv) of
              None \<Rightarrow> r
            | Some h \<Rightarrow> r\<lparr>re_hosts := dset (re_hosts r) (fst kv) (h\<lparr>ho_risk_score := snd kv\<rparr>)\<rparr>) r scores"

definition recalculate_risk_scores :: "repo \<Rightarrow> int dict \<times> repo" where
  "recalculate_risk_scores r =
     (let s = repo_snapshot r;
          updated = recalculate_hosts (sn_hosts s) (sn_alerts s) (sn_vulns s);
          scores = dict_of (map (\<lambda>h. (ho_id h, ho_risk_score h)) updated)
      in (scores, apply_risk_scores r scores))"

text \<open>A sequence of saves, as long as none raises.\<close>

fun repo_saves :: "repo \<Rightarrow> entity list \<Rightarrow> repo option" where
  "repo_saves r [] = Some r"
| "repo_saves r (e # es) = (case repo_save r e of None \<Rightarrow> None | Some r' \<Rightarrow> repo_saves r' es)"

section \<open>Merging hosts\<close>

lemma min_dt_Some: "min_dt (Some l) (Some r) = map_option (\<lambda>le. if le then Some l else Some r) (dt_le l r)"
  by (simp add: min_dt_def)

lemma max_dt_Some: "max_dt (Some l) (Some r) = map_option (\<lambda>ge. if ge then Some l else Some r) (dt_le r l)"
  by (simp add: max_dt_def)

lemma dt_None [simp]: "min_dt None b = Some b" "max_dt None b = Some b" "min_dt (Some a) None = Some (Some a)"
  "max_dt (Some a) None = Some (Some a)"
  by (simp_all add: min_dt_def max_dt_def)

lemma min_dt_refl [simp]: "min_dt a a = Some a"
  by (cases a) (simp_all add: min_dt_Some)

lemma max_dt_refl [simp]: "max_dt a a = Some a"
  by (cases a) (simp_all add: max_dt_Some)

lemma min_dt_cases:
  assumes "min_dt a b = Some c"
  shows "c = b \<or> (c = a \<and> min_dt a b = Some a)"
  using assms by (cases a; cases b; cases "dt_le (the a) (the b)") (auto simp: min_dt_Some split: if_splits)

lemma max_dt_cases:
  assumes "max_dt a b = Some c"
  shows "c = b \<or> (c = a \<and> max_dt a b = Some a)"
  using assms by (cases a; cases b; cases "dt_le (the b) (the a)") (auto simp: max_dt_Some split: if_splits)

lemma min_dt_idem: "min_dt a b = Some c \<Longrightarrow> min_dt c b = Some c"
  using min_dt_cases by fastforce

lemma max_dt_idem: "max_dt a b = Some c \<Longrightarrow> max_dt c b = Some c"
  using max_dt_cases by fastforce

lemma sor_absorb: "sor a (sor a b) = sor a b" "sor a a = a"
  by (simp_all add: sor_def)

lemma oor_absorb: "oor a (oor a b) = oor a b" "oor a a = a"
  by (auto simp: oor_def)

lemma merge_hostE:
  assumes "merge_host ex inc = Some m"
  obtains f l where "min_dt (ho_first_seen ex) (ho_first_seen inc) = Some f"
    "max_dt (ho_last_seen ex) (ho_last_seen inc) = Some l"
    "m = ex\<lparr>ho_hostname := sor (ho_hostname inc) (ho_hostname ex),
      ho_platform := oor (ho_platform inc) (ho_platform ex), ho_primary_ip := oor (ho_primary_ip inc) (ho_primary_ip ex),
      ho_status := (if ho_status inc \<noteq> ''unknown'' then ho_status inc else ho_status ex),
      ho_risk_score := max (ho_risk_score ex) (ho_risk_score inc), ho_first_seen := f, ho_last_seen := l\<rparr>"
  using assms by (auto simp: merge_host_def split: option.splits)

lemma merge_host_idem: "merge_host ex inc = Some m \<Longrightarrow> merge_host m inc = Some m"
proof (erule merge_hostE)
  fix f l
  assume f: "min_dt (ho_first_seen ex) (ho_first_seen inc) = Some f"
    and l: "max_dt (ho_last_seen ex) (ho_last_seen inc) = Some l"
    and m: "m = ex\<lparr>ho_hostname := sor (ho_hostname inc) (ho_hostname ex),
      ho_platform := oor (ho_platform inc) (ho_platform ex), ho_primary_ip := oor (ho_primary_ip inc) (ho_primary_ip ex),
      ho_status := (if ho_status inc \<noteq> ''unknown'' then ho_status inc else ho_status ex),
      ho_risk_score := max (ho_risk_score ex) (ho_risk_score inc), ho_first_seen := f, ho_last_seen := l\<rparr>"
  show ?thesis
    by (simp add: m merge_host_def sor_absorb oor_absorb min_dt_idem [OF f] max_dt_idem [OF l])
qed

lemma merge_host_self: "merge_host h h = Some h"
  by (simp add: merge_host_def sor_absorb oor_absorb)

lemma merge_host_id: "merge_host ex inc = Some m \<Longrightarrow> ho_id m = ho_id ex"
  by (auto simp: merge_host_def split: option.splits)

lemma save_host_idem: "save_host r h = Some r' \<Longrightarrow> save_host r' h = Some r'"
  by (auto simp: save_host_def merge_host_self merge_host_idem split: option.splits)

lemma repo_save_idem: "repo_save r e = Some r' \<Longrightarrow> repo_save r' e = Some r'"
  by (cases e) (auto simp: save_host_idem)

section \<open>The interface of the ingestion\<close>

text \<open>What ingestion and the pollers rely on, whichever repository they write to: saving an entity again
  changes nothing, the sync record of a source is the one last saved, and no other entity touches it.\<close>

definition sync_of :: "source_sync list \<Rightarrow> string \<Rightarrow> source_sync option" where
  "sync_of syncs src = map_of (dict_of (map (\<lambda>s. (sy_source s, s)) syncs)) src"

fun is_sync :: "entity \<Rightarrow> bool" where
  "is_sync (ESync s) = True"
| "is_sync _ = False"

locale repository =
  fixes save :: "'r \<Rightarrow> entity \<Rightarrow> 'r option"
    and syncs :: "'r \<Rightarrow> source_sync list"
    and good :: "'r \<Rightarrow> bool"
  assumes save_idem: "save r e = Some r' \<Longrightarrow> save r' e = Some r'"
    and save_good: "good r \<Longrightarrow> save r e = Some r' \<Longrightarrow> good r'"
    and save_sync: "good r \<Longrightarrow> \<exists>r'. save r (ESync s) = Some r'
      \<and> (\<forall>src. sync_of (syncs r') src = (if src = sy_source s then Some s else sync_of (syncs r) src))"
    and save_other: "good r \<Longrightarrow> \<not> is_sync e \<Longrightarrow> save r e = Some r' \<Longrightarrow> sync_of (syncs r') src = sync_of (syncs r) src"

definition repo_ok :: "repo \<Rightarrow> bool" where
  "repo_ok r = (dwf (re_syncs r) \<and> (\<forall>(k, s) \<in> set (re_syncs r). sy_source s = k)
     \<and> dwf (re_hosts r) \<and> (\<forall>(k, h) \<in> set (re_hosts r). ho_id h = k))"

lemma repo_ok_empty [simp]: "repo_ok empty_repo"
  by (simp add: repo_ok_def empty_repo_def)

lemma set_dset: "p \<in> set (dset d k v) \<Longrightarrow> p = (k, v) \<or> p \<in> set d"
  by (induction d) (auto split: if_splits)

lemma keyed_dset: "(\<forall>(k, s) \<in> set d. f s = k) \<Longrightarrow> f v = k' \<Longrightarrow> (\<forall>(k, s) \<in> set (dset d k' v). f s = k)"
  by (auto dest!: set_dset)

lemma repo_ok_save: "repo_ok r \<Longrightarrow> repo_save r e = Some r' \<Longrightarrow> repo_ok r'"
proof (cases e)
  case (EHost h)
  assume r: "repo_ok r" "repo_save r e = Some r'"
  then obtain m where m: "r' = r\<lparr>re_hosts := dset (re_hosts r) (ho_id h) m\<rparr>" "ho_id m = ho_id h"
    using EHost by (auto simp: save_host_def repo_ok_def split: option.splits dest!: map_of_SomeD merge_host_id)
  with r(1) show ?thesis
    using keyed_dset [where f = ho_id and v = m and k' = "ho_id h" and d = "re_hosts r"] m(2) by (simp add: repo_ok_def)
next
  case (ESync s)
  assume "repo_ok r" "repo_save r e = Some r'"
  with ESync show ?thesis
    using keyed_dset [where f = sy_source and v = s and k' = "sy_source s" and d = "re_syncs r"] by (auto simp: repo_ok_def)
qed (auto simp: repo_ok_def)

lemma repo_ok_saves: "repo_ok r \<Longrightarrow> repo_saves r es = Some r' \<Longrightarrow> repo_ok r'"
  by (induction es arbitrary: r) (auto split: option.splits dest: repo_ok_save)

lemma sync_of_repo: "repo_ok r \<Longrightarrow> sync_of (source_syncs r) src = map_of (re_syncs r) src"
proof -
  assume ok: "repo_ok r"
  then have "map (\<lambda>s. (sy_source s, s)) (map snd (re_syncs r)) = re_syncs r"
    by (auto simp: repo_ok_def intro!: map_idI)
  with ok show ?thesis
    by (simp add: sync_of_def source_syncs_def repo_snapshot_def dict_of_distinct repo_ok_def)
qed

lemma save_other_syncs: "\<not> is_sync e \<Longrightarrow> repo_save r e = Some r' \<Longrightarrow> re_syncs r' = re_syncs r"
  by (cases e) (auto simp: save_host_def split: option.splits)

interpretation memory: repository repo_save source_syncs repo_ok
proof
  fix r e r' assume "repo_save r e = Some r'"
  then show "repo_save r' e = Some r'" by (rule repo_save_idem)
next
  fix r e r' assume "repo_ok r" "repo_save r e = Some r'"
  then show "repo_ok r'" by (rule repo_ok_save)
next
  fix r s assume ok: "repo_ok r"
  let ?r = "r\<lparr>re_syncs := dset (re_syncs r) (sy_source s) s\<rparr>"
  have "repo_ok ?r" using ok by (rule repo_ok_save [where e = "ESync s"]) simp
  then have "sync_of (source_syncs ?r) src = (if src = sy_source s then Some s else sync_of (source_syncs r) src)" for src
    using ok by (simp add: sync_of_repo)
  then show "\<exists>r'. repo_save r (ESync s) = Some r' \<and> (\<forall>src. sync_of (source_syncs r') src =
      (if src = sy_source s then Some s else sync_of (source_syncs r) src))" by simp
next
  fix r e r' src assume "repo_ok r" "\<not> is_sync e" "repo_save r e = Some r'"
  then show "sync_of (source_syncs r') src = sync_of (source_syncs r) src"
    by (simp add: sync_of_repo save_other_syncs repo_ok_save)
qed

section \<open>Properties\<close>

text \<open>Saving is idempotent: an entity that was just saved can be saved again (a retried collection does
  that) and the repository stays exactly as it is, hosts and their merge included.\<close>

lemma save_twice_is_once:
  assumes "repo_save r e = Some r'"
  shows "repo_save r' e = Some r'"
  using assms by (rule memory.save_idem)

definition demo_host :: host where
  "demo_host = \<lparr>ho_id = ''pc-1'', ho_hostname = ''one'', ho_platform = None, ho_primary_ip = None,
     ho_status = ''online'', ho_risk_score = 0, ho_first_seen = Some \<lparr>dt_us = 5, dt_off = Some 0\<rparr>,
     ho_last_seen = Some \<lparr>dt_us = 5, dt_off = Some 0\<rparr>\<rparr>"

theorem save_twice_is_once_witness:
  "repo_save (empty_repo\<lparr>re_hosts := [(''pc-1'', demo_host)]\<rparr>) (EHost demo_host)
     = Some (empty_repo\<lparr>re_hosts := [(''pc-1'', demo_host)]\<rparr>)"
  by (rule save_twice_is_once [of empty_repo]) (simp add: save_host_def demo_host_def empty_repo_def)

text \<open>What a host was seen at only widens.\<close>

definition opt_before :: "dtime option \<Rightarrow> dtime option \<Rightarrow> bool" where
  "opt_before a b = (case (a, b) of (Some x, Some y) \<Rightarrow> dt_instant x \<le> dt_instant y | (None, Some y) \<Rightarrow> True
     | (None, None) \<Rightarrow> True | (Some x, None) \<Rightarrow> False)"

lemma max_dt_ge: "max_dt a b = Some c \<Longrightarrow> opt_before a c \<and> opt_before b c"
  by (cases a; cases b) (auto simp: max_dt_Some opt_before_def dt_le_Some split: if_splits)

lemma min_dt_le: "min_dt (Some a) b = Some c \<Longrightarrow> opt_before c (Some a) \<and> c \<noteq> None"
  by (cases b) (auto simp: min_dt_Some opt_before_def dt_le_Some split: if_splits)

text \<open>A host that is saved again keeps its identity and only gains: its last sighting never goes back,
  its first sighting never moves later, its risk score never drops, and a known status is never replaced by
  unknown.\<close>

lemma host_merge_monotone:
  assumes "merge_host ex inc = Some m"
  shows "ho_id m = ho_id ex \<and> opt_before (ho_last_seen ex) (ho_last_seen m)
    \<and> opt_before (ho_last_seen inc) (ho_last_seen m)
    \<and> (ho_first_seen ex = None \<or> opt_before (ho_first_seen m) (ho_first_seen ex))
    \<and> ho_risk_score ex \<le> ho_risk_score m \<and> ho_risk_score inc \<le> ho_risk_score m
    \<and> (ho_status m = ''unknown'' \<longrightarrow> ho_status ex = ''unknown'' \<and> ho_status inc = ''unknown'')"
proof -
  from assms obtain f l where f: "min_dt (ho_first_seen ex) (ho_first_seen inc) = Some f"
    and l: "max_dt (ho_last_seen ex) (ho_last_seen inc) = Some l"
    and m: "m = ex\<lparr>ho_hostname := sor (ho_hostname inc) (ho_hostname ex),
      ho_platform := oor (ho_platform inc) (ho_platform ex), ho_primary_ip := oor (ho_primary_ip inc) (ho_primary_ip ex),
      ho_status := (if ho_status inc \<noteq> ''unknown'' then ho_status inc else ho_status ex),
      ho_risk_score := max (ho_risk_score ex) (ho_risk_score inc), ho_first_seen := f, ho_last_seen := l\<rparr>"
    by (rule merge_hostE)
  have "ho_first_seen ex = None \<or> opt_before f (ho_first_seen ex)"
    using min_dt_le f by (cases "ho_first_seen ex") auto
  with max_dt_ge [OF l] m show ?thesis by auto
qed

theorem host_merge_monotone_witness:
  "opt_before (ho_last_seen demo_host) (ho_last_seen (the (merge_host demo_host
      (demo_host\<lparr>ho_last_seen := Some \<lparr>dt_us = 9, dt_off = Some 0\<rparr>\<rparr>))))"
proof -
  have "merge_host demo_host (demo_host\<lparr>ho_last_seen := Some \<lparr>dt_us = 9, dt_off = Some 0\<rparr>\<rparr>)
      = Some (demo_host\<lparr>ho_last_seen := Some \<lparr>dt_us = 9, dt_off = Some 0\<rparr>\<rparr>)" by code_simp
  from host_merge_monotone [OF this] this show ?thesis by simp
qed

section \<open>Risk scores of the hosts\<close>

lemma glook_group_by: "glook (group_by f xs) k = filter (\<lambda>x. f x = k) xs"
proof (cases "k \<in> f ` set xs")
  case False
  then have "filter (\<lambda>x. f x = k) xs = []" by (auto simp: filter_empty_conv)
  with False show ?thesis by (simp add: glook_def map_of_group_by)
qed (simp add: glook_def map_of_group_by)

lemma weight_nonneg: "0 \<le> weight ALERT_WEIGHTS k" "0 \<le> weight VULN_WEIGHTS k"
  by (auto simp: weight_def ALERT_WEIGHTS_def VULN_WEIGHTS_def)

lemma weights_nonneg: "0 \<le> sum_list (map (\<lambda>a. weight ALERT_WEIGHTS (al_severity a)) as)"
  "0 \<le> sum_list (map (\<lambda>v. weight VULN_WEIGHTS (vu_severity v)) vs)"
  by (auto intro!: sum_list_nonneg simp: weight_nonneg)

lemma risk_calculate_bounds: "0 \<le> risk_calculate as vs \<and> risk_calculate as vs \<le> 100"
  using weights_nonneg(1) [of as] weights_nonneg(2) [of vs]
  by (simp add: risk_calculate_def Let_def MAX_RISK_SCORE_def)

lemma apply_scores_hosts:
  "dwf scores \<Longrightarrow> map_of (re_hosts (apply_risk_scores r scores)) i =
     (case map_of scores i of None \<Rightarrow> map_of (re_hosts r) i
      | Some s \<Rightarrow> map_option (\<lambda>h. h\<lparr>ho_risk_score := s\<rparr>) (map_of (re_hosts r) i))"
proof (induction scores arbitrary: r)
  case (Cons kv scores)
  have fresh: "map_of scores (fst kv) = None" using Cons.prems by (auto simp: map_of_eq_None_iff)
  show ?case
  proof (cases "map_of (re_hosts r) (fst kv)")
    case None
    with Cons.IH [of r] Cons.prems fresh show ?thesis
      by (auto simp: apply_risk_scores_def split: option.splits)
  next
    case (Some h)
    with Cons.IH [of "r\<lparr>re_hosts := dset (re_hosts r) (fst kv) (h\<lparr>ho_risk_score := snd kv\<rparr>)\<rparr>"] Cons.prems fresh
    show ?thesis by (auto simp: apply_risk_scores_def split: option.splits)
  qed
qed (simp add: apply_risk_scores_def)

lemma apply_scores_rest: "\<exists>hs. apply_risk_scores q ss = q\<lparr>re_hosts := hs\<rparr>"
proof (induction ss arbitrary: q)
  case Nil
  show ?case by (rule exI [of _ "re_hosts q"]) (simp add: apply_risk_scores_def)
next
  case (Cons kv ss)
  let ?q = "case map_of (re_hosts q) (fst kv) of None \<Rightarrow> q
    | Some h \<Rightarrow> q\<lparr>re_hosts := dset (re_hosts q) (fst kv) (h\<lparr>ho_risk_score := snd kv\<rparr>)\<rparr>"
  from Cons.IH [of ?q] obtain hs where "apply_risk_scores q (kv # ss) = ?q\<lparr>re_hosts := hs\<rparr>"
    by (auto simp: apply_risk_scores_def)
  then show ?case by (intro exI [of _ hs]) (simp split: option.splits)
qed

lemma map_of_keyed: "map_of (map (\<lambda>p. (fst p, g (fst p))) d) i = map_option (\<lambda>_. g i) (map_of d i)"
  by (induction d) auto

definition alerts_of :: "repo \<Rightarrow> string \<Rightarrow> alert list" where
  "alerts_of r i = filter (\<lambda>a. al_host_id a = Some i \<and> i \<noteq> []) (map snd (re_alerts r))"

definition vulns_of :: "repo \<Rightarrow> string \<Rightarrow> vulnerability list" where
  "vulns_of r i = filter (\<lambda>v. vu_host_id v = i) (map snd (re_vulns r))"

lemma recalculated:
  "recalculate_hosts hs (map snd (re_alerts r)) (map snd (re_vulns r)) =
     map (\<lambda>h. h\<lparr>ho_risk_score := risk_calculate (alerts_of r (ho_id h)) (vulns_of r (ho_id h))\<rparr>) hs"
proof -
  have "filter (\<lambda>a. the (al_host_id a) = i) (filter (\<lambda>a. al_host_id a \<noteq> None \<and> al_host_id a \<noteq> Some []) xs)
      = filter (\<lambda>a. al_host_id a = Some i \<and> i \<noteq> []) xs" for i and xs :: "alert list"
    by (induction xs) auto
  then show ?thesis
    by (simp add: recalculate_hosts_def Let_def glook_group_by alerts_of_def vulns_of_def)
qed

text \<open>Recalculating the risk scores gives every stored host the capped weighted sum of exactly its own
  alerts and vulnerabilities, a number from 0 to 100, changes nothing else of a host and no other table.\<close>

lemma risk_scores_recalculated:
  assumes "repo_saves empty_repo es = Some r"
  shows "map_of (re_hosts (snd (recalculate_risk_scores r))) i =
      map_option (\<lambda>h. h\<lparr>ho_risk_score := risk_calculate (alerts_of r i) (vulns_of r i)\<rparr>) (map_of (re_hosts r) i)
    \<and> 0 \<le> risk_calculate (alerts_of r i) (vulns_of r i) \<and> risk_calculate (alerts_of r i) (vulns_of r i) \<le> 100
    \<and> snd (recalculate_risk_scores r) = r\<lparr>re_hosts := re_hosts (snd (recalculate_risk_scores r))\<rparr>"
proof -
  have ok: "repo_ok r" using repo_ok_saves [OF repo_ok_empty assms] .
  let ?f = "\<lambda>i. risk_calculate (alerts_of r i) (vulns_of r i)"
  define scores where "scores = dict_of (map (\<lambda>h. (ho_id h, ?f (ho_id h))) (map snd (re_hosts r)))"
  have keys: "map (\<lambda>h. (ho_id h, ?f (ho_id h))) (map snd (re_hosts r)) = map (\<lambda>p. (fst p, ?f (fst p))) (re_hosts r)"
    using ok by (auto simp: repo_ok_def)
  have dw: "dwf (re_hosts r)" using ok by (simp add: repo_ok_def)
  then have sc: "scores = map (\<lambda>p. (fst p, ?f (fst p))) (re_hosts r)"
    unfolding scores_def keys by (intro dict_of_distinct) (simp add: comp_def)
  have res: "snd (recalculate_risk_scores r) = apply_risk_scores r scores"
    by (simp add: recalculate_risk_scores_def Let_def repo_snapshot_def recalculated scores_def comp_def)
  have ms: "map_of scores i = map_option (\<lambda>h. ?f i) (map_of (re_hosts r) i)" for i
    unfolding sc by (rule map_of_keyed)
  have "dwf scores" by (simp add: scores_def)
  from apply_scores_hosts [OF this, of r i] ms [of i]
  have "map_of (re_hosts (apply_risk_scores r scores)) i = map_option (\<lambda>h. h\<lparr>ho_risk_score := ?f i\<rparr>) (map_of (re_hosts r) i)"
    by (auto split: option.splits)
  moreover from apply_scores_rest [of r scores]
  have "apply_risk_scores r scores = r\<lparr>re_hosts := re_hosts (apply_risk_scores r scores)\<rparr>" by auto
  ultimately show ?thesis unfolding res using risk_calculate_bounds by blast
qed

definition demo_alert :: alert where
  "demo_alert = \<lparr>al_id = ''a1'', al_source = ''wazuh'', al_observed_at = \<lparr>dt_us = 7, dt_off = Some 0\<rparr>,
     al_message = ''m'', al_host_id = Some ''pc-1'', al_source_event_id = None, al_severity = ''high'',
     al_original_severity = None, al_rule_name = None, al_rule_id = None, al_resolved_at = None,
     al_raw_ref = None, al_raw_payload = []\<rparr>"

theorem risk_scores_recalculated_witness:
  "\<exists>r. repo_saves empty_repo [EHost demo_host, EAlert demo_alert] = Some r
     \<and> 0 \<le> risk_calculate (alerts_of r ''pc-1'') (vulns_of r ''pc-1'')"
proof -
  have "repo_saves empty_repo [EHost demo_host, EAlert demo_alert] \<noteq> None" by code_simp
  then obtain r where r: "repo_saves empty_repo [EHost demo_host, EAlert demo_alert] = Some r" by blast
  from risk_scores_recalculated [OF r, of "''pc-1''"] r show ?thesis by blast
qed

end
