(* ===== verification/Mapper.thy ===== *)
theory Mapper
  imports Entities Hashing
begin

text \<open>
  The envelope mapper, \<^verbatim>\<open>services/normalization.py\<close>: it turns the envelopes of a collector into entities
  and decides which host they belong to.  Its state is two alias tables, one for all sources and one per
  asset bucket (PCs, servers, neutral sources); every resolution registers the aliases it was given.
  \<open>H1\<close> is the SHA-1 digest of the short identifiers.

  Texts that pass through unchecked (the identifiers of the identity envelopes) are taken to be texts:
  \<open>ntext\<close> prints any other value.
\<close>

section \<open>Reading a normalized dictionary\<close>

definition nget :: "ndict \<Rightarrow> string \<Rightarrow> nval" where
  "nget d k = (case map_of d k of None \<Rightarrow> V PNone | Some v \<Rightarrow> v)"

fun string_value :: "nval \<Rightarrow> string option" where
  "string_value (V (PStr s)) = (if s = [] then None else Some s)"
| "string_value _ = None"

definition nstr :: "ndict \<Rightarrow> string \<Rightarrow> string option" where
  "nstr d k = string_value (nget d k)"

text \<open>\<^verbatim>\<open>n.get(k) or default\<close> for the texts that pass through, and \<^verbatim>\<open>bool(n.get(k))\<close>.\<close>

definition ntext :: "ndict \<Rightarrow> string \<Rightarrow> string \<Rightarrow> string" where
  "ntext d k def = (case nget d k of V v \<Rightarrow> (if truthy v then pstr v else def) | T _ \<Rightarrow> def)"

definition nbool :: "ndict \<Rightarrow> string \<Rightarrow> bool" where
  "nbool d k = (case nget d k of V v \<Rightarrow> truthy v | T _ \<Rightarrow> True)"

definition host_status :: "nval \<Rightarrow> string" where
  "host_status v =
     (case string_value v of
        Some s \<Rightarrow> (if s \<in> {''online'', ''offline'', ''unknown''} then s else ''unknown'')
      | None \<Rightarrow> ''unknown'')"

text \<open>\<^verbatim>\<open>_parse_iso\<close>: a datetime as it is, a text with UTC where it names no offset.\<close>

definition mapper_parse_iso :: "nval \<Rightarrow> dtime option" where
  "mapper_parse_iso v =
     (case v of
        T dt \<Rightarrow> Some dt
      | V (PStr s) \<Rightarrow>
          (if s = [] then None
           else map_option (\<lambda>dt. if dt_off dt = None then dt\<lparr>dt_off := Some 0\<rparr> else dt) (from_iso s))
      | V _ \<Rightarrow> None)"

definition extract_aliases :: "ndict \<Rightarrow> string option \<times> string list" where
  "extract_aliases d =
     (let primary = nstr d ''host_id'';
          aliases = (case primary of None \<Rightarrow> [] | Some p \<Rightarrow> [p]);
          aliases = (case nget d ''source_aliases'' of
              V (PList xs) \<Rightarrow>
                foldl (\<lambda>as v. case v of PStr s \<Rightarrow> (if s \<noteq> [] \<and> s \<notin> set as then as @ [s] else as) | _ \<Rightarrow> as) aliases xs
            | _ \<Rightarrow> aliases)
      in (case primary of Some p \<Rightarrow> Some p | None \<Rightarrow> (if aliases = [] then None else Some (hd aliases)), aliases))"

section \<open>State\<close>

record mapper =
  ma_alias :: "string dict"
  ma_buckets :: "string dict dict"

definition ASSET_BUCKET_BY_SOURCE :: "string dict" where
  "ASSET_BUCKET_BY_SOURCE = [(''fleet'', ''pc''), (''zabbix'', ''server''), (''trivy'', ''server''),
     (''wazuh'', ''neutral''), (''host_log'', ''neutral''), (''code_review'', ''neutral'')]"

definition BRIDGED_ASSET_BUCKETS :: "string list" where
  "BRIDGED_ASSET_BUCKETS = [''pc'', ''server'']"

definition new_mapper :: "string dict \<Rightarrow> mapper" where
  "new_mapper aliases = \<lparr>ma_alias = aliases, ma_buckets = [(''pc'', []), (''server'', []), (''neutral'', [])]\<rparr>"

definition bucket_for_source :: "string \<Rightarrow> string option" where
  "bucket_for_source source = map_of ASSET_BUCKET_BY_SOURCE source"

definition bucket_map :: "mapper \<Rightarrow> string \<Rightarrow> string dict" where
  "bucket_map m bucket = (case map_of (ma_buckets m) bucket of None \<Rightarrow> [] | Some d \<Rightarrow> d)"

definition register_alias :: "string \<Rightarrow> string \<Rightarrow> string option \<Rightarrow> string option \<Rightarrow> mapper \<Rightarrow> mapper" where
  "register_alias alias host_id source bucket m =
     (let m = m\<lparr>ma_alias := dset (ma_alias m) alias host_id\<rparr>;
          from_source = (case source of None \<Rightarrow> None | Some s \<Rightarrow> bucket_for_source s)
      in case (case bucket of Some (c # cs) \<Rightarrow> Some (c # cs) | _ \<Rightarrow> from_source) of
           None \<Rightarrow> m
         | Some b \<Rightarrow> m\<lparr>ma_buckets := dset (ma_buckets m) b (dset (bucket_map m b) alias host_id)\<rparr>)"

section \<open>Resolving a host\<close>

fun first_hit :: "string dict \<Rightarrow> string list \<Rightarrow> string option" where
  "first_hit d [] = None"
| "first_hit d (a # as) = (case map_of d a of None \<Rightarrow> first_hit d as | Some h \<Rightarrow> Some h)"

definition find_bucket_host_id :: "mapper \<Rightarrow> string \<Rightarrow> string list \<Rightarrow> string option" where
  "find_bucket_host_id m bucket aliases = first_hit (bucket_map m bucket) aliases"

definition bridge_matches :: "mapper \<Rightarrow> string list \<Rightarrow> string list" where
  "bridge_matches m aliases =
     remdups (concat (map (\<lambda>b. concat (map (\<lambda>a. case map_of (bucket_map m b) a of None \<Rightarrow> [] | Some h \<Rightarrow> [h]) aliases))
       BRIDGED_ASSET_BUCKETS))"

definition find_neutral_bridge_host_id :: "mapper \<Rightarrow> string list \<Rightarrow> string option" where
  "find_neutral_bridge_host_id m aliases =
     (case bridge_matches m aliases of [h] \<Rightarrow> Some h | _ \<Rightarrow> None)"

definition register_bucket_aliases :: "string \<Rightarrow> string list \<Rightarrow> string \<Rightarrow> mapper \<Rightarrow> mapper" where
  "register_bucket_aliases bucket aliases host_id m =
     m\<lparr>ma_buckets := dset (ma_buckets m) bucket
         (foldl (\<lambda>d a. dset d a host_id) (bucket_map m bucket) aliases)\<rparr>"

definition id_char :: "char \<Rightarrow> bool" where
  "id_char c = (is_digit c \<or> is_upper c \<or> is_lower c \<or> c \<in> set ''._-'')"

text \<open>\<^verbatim>\<open>re.sub(r"[^A-Za-z0-9._-]+", "-", s)\<close>; the flag says that a run was already replaced.\<close>

fun sub_runs :: "bool \<Rightarrow> string \<Rightarrow> string" where
  "sub_runs in_run [] = []"
| "sub_runs in_run (c # s) =
     (if id_char c then c # sub_runs False s
      else if in_run then sub_runs True s else CHR ''-'' # sub_runs True s)"

definition strip_chars :: "char list \<Rightarrow> string \<Rightarrow> string" where
  "strip_chars cs s =
     rev (dropWhile (\<lambda>c. c \<in> set cs) (rev (dropWhile (\<lambda>c. c \<in> set cs) s)))"

definition scoped_host_id :: "(string \<Rightarrow> string) \<Rightarrow> string \<Rightarrow> string \<Rightarrow> string" where
  "scoped_host_id H1 bucket identity =
     (let safe = strip_chars ''-._'' (sub_runs False identity);
          safe = (if safe = [] then short_id H1 [PStr identity] [] else safe)
      in if prefix (bucket @ ''-'') safe then safe else bucket @ ''-'' @ safe)"

definition resolve_host_id ::
    "(string \<Rightarrow> string) \<Rightarrow> string \<Rightarrow> string list \<Rightarrow> string \<Rightarrow> mapper \<Rightarrow> string \<times> mapper" where
  "resolve_host_id H1 source aliases fallback m =
     (let bucket = (case bucket_for_source source of None \<Rightarrow> ''neutral'' | Some b \<Rightarrow> b)
      in case find_bucket_host_id m bucket aliases of
           Some h \<Rightarrow> (h, register_bucket_aliases bucket aliases h m)
         | None \<Rightarrow>
             (case (if bucket = ''neutral'' then find_neutral_bridge_host_id m aliases else None) of
                Some h \<Rightarrow> (h, register_bucket_aliases bucket aliases h m)
              | None \<Rightarrow>
                  (case first_hit (ma_alias m) aliases of
                     Some h \<Rightarrow> (h, register_bucket_aliases bucket aliases h m)
                   | None \<Rightarrow>
                       (let identity = (if aliases = [] then fallback else hd aliases);
                            h = scoped_host_id H1 bucket identity
                        in (h, register_bucket_aliases bucket aliases h m)))))"

section \<open>Mapping envelopes\<close>

definition build_alias ::
    "(string \<Rightarrow> string) \<Rightarrow> string \<Rightarrow> string \<Rightarrow> string \<Rightarrow> string \<Rightarrow> dtime \<Rightarrow> host_alias" where
  "build_alias H1 host_id alias source alias_type observed_at =
     \<lparr>ha_id = short_id H1 [PStr host_id, PStr source, PStr alias_type, PStr alias] ''alias'',
      ha_host_id = host_id, ha_source = source, ha_type = alias_type, ha_value = alias, ha_confidence = 1,
      ha_is_primary = True, ha_first_seen = Some observed_at, ha_last_seen = Some observed_at\<rparr>"

definition build_alias_records ::
    "(string \<Rightarrow> string) \<Rightarrow> string \<Rightarrow> string list \<Rightarrow> string \<Rightarrow> dtime \<Rightarrow> entity list" where
  "build_alias_records H1 host_id aliases source observed_at =
     map (\<lambda>a. EAlias (build_alias H1 host_id a source ''source_alias'' observed_at)) aliases"

definition seen_host ::
    "string \<Rightarrow> string \<Rightarrow> string option \<Rightarrow> string option \<Rightarrow> string \<Rightarrow> dtime \<Rightarrow> entity" where
  "seen_host host_id hostname platform primary_ip status observed_at =
     EHost \<lparr>ho_id = host_id, ho_hostname = hostname, ho_platform = platform, ho_primary_ip = primary_ip,
            ho_status = status, ho_risk_score = 0, ho_first_seen = Some observed_at, ho_last_seen = Some observed_at\<rparr>"

definition or_else :: "'a option \<Rightarrow> 'a \<Rightarrow> 'a" where
  "or_else x d = (case x of None \<Rightarrow> d | Some v \<Rightarrow> v)"

definition map_host_observation :: "(string \<Rightarrow> string) \<Rightarrow> envelope \<Rightarrow> mapper \<Rightarrow> entity list \<times> mapper" where
  "map_host_observation H1 e m =
     (let n = ev_normalized e;
          (alias, aliases) = extract_aliases n;
          (host_id, m) = resolve_host_id H1 (ev_source e) aliases (''host-'' @ ev_entity_id e) m;
          hostname = or_else (nstr n ''hostname'') (or_else alias host_id)
      in ([seen_host host_id hostname (nstr n ''platform'') (nstr n ''primary_ip'')
             (host_status (nget n ''status'')) (ev_observed_at e)]
          @ build_alias_records H1 host_id aliases (ev_source e) (ev_observed_at e)
          @ [EObs \<lparr>ob_id = ev_entity_id e, ob_source = ev_source e, ob_host_id = host_id,
                   ob_type = or_else (nstr n ''observation_type'') ''status'',
                   ob_metric_name = or_else (nstr n ''metric_name'') ''unknown_metric'',
                   ob_observed_at = ev_observed_at e, ob_metric_value = nstr n ''metric_value'',
                   ob_unit = nstr n ''unit'', ob_severity = nstr n ''severity'', ob_raw_ref = ev_raw_ref e,
                   ob_raw_payload = ev_raw_payload e\<rparr>], m))"

definition result_json_of :: "ndict \<Rightarrow> pdict" where
  "result_json_of n = (case nget n ''result_json'' of V v \<Rightarrow> as_dict v | T _ \<Rightarrow> [])"

definition or_opt :: "'a option \<Rightarrow> 'a option \<Rightarrow> 'a option" where
  "or_opt x y = (case x of None \<Rightarrow> y | Some _ \<Rightarrow> x)"

definition map_query_result :: "(string \<Rightarrow> string) \<Rightarrow> envelope \<Rightarrow> mapper \<Rightarrow> entity list \<times> mapper" where
  "map_query_result H1 e m =
     (let n = ev_normalized e;
          (alias, aliases) = extract_aliases n;
          (host_id, m) = resolve_host_id H1 (ev_source e) aliases (''host-'' @ ev_entity_id e) m;
          result_json = result_json_of n;
          hostname = or_opt (nstr n ''hostname'') (or_opt (string_value (V (dget result_json ''hostname''))) alias);
          platform = or_opt (nstr n ''platform'') (string_value (V (dget result_json ''platform'')))
      in ((case hostname of
             None \<Rightarrow> []
           | Some hn \<Rightarrow> [seen_host host_id hn platform None ''unknown'' (ev_observed_at e)])
          @ build_alias_records H1 host_id aliases (ev_source e) (ev_observed_at e)
          @ [EQuery \<lparr>qr_id = ev_entity_id e, qr_host_id = host_id, qr_observed_at = ev_observed_at e,
                     qr_result_json = result_json, qr_source = ev_source e, qr_query_name = nstr n ''query_name'',
                     qr_query_text = nstr n ''query_text'', qr_raw_ref = ev_raw_ref e\<rparr>], m))"

definition map_alert :: "(string \<Rightarrow> string) \<Rightarrow> envelope \<Rightarrow> mapper \<Rightarrow> entity list \<times> mapper" where
  "map_alert H1 e m =
     (let n = ev_normalized e;
          (alias, aliases) = extract_aliases n;
          (host_id, records, m) =
            (if aliases = [] then (None, [], m)
             else
               let (h, m) = resolve_host_id H1 (ev_source e) aliases (or_else alias (''host-'' @ ev_entity_id e)) m;
                   hostname = or_else (nstr n ''hostname'') (or_else alias h)
               in (Some h, seen_host h hostname None (nstr n ''primary_ip'') ''unknown'' (ev_observed_at e)
                     # build_alias_records H1 h aliases (ev_source e) (ev_observed_at e), m))
      in (records @
          [EAlert \<lparr>al_id = ev_entity_id e, al_source = ev_source e, al_observed_at = ev_observed_at e,
                   al_message = or_else (nstr n ''message'') ''alert'', al_host_id = host_id,
                   al_source_event_id = nstr n ''source_event_id'',
                   al_severity = or_else (nstr n ''severity'') ''info'',
                   al_original_severity = nstr n ''original_severity'', al_rule_name = nstr n ''rule_name'',
                   al_rule_id = nstr n ''rule_id'',
                   al_resolved_at = (case nget n ''resolved_at'' of T d \<Rightarrow> Some d | V _ \<Rightarrow> None),
                   al_raw_ref = ev_raw_ref e, al_raw_payload = ev_raw_payload e\<rparr>], m))"

definition map_vulnerability :: "(string \<Rightarrow> string) \<Rightarrow> envelope \<Rightarrow> mapper \<Rightarrow> entity list \<times> mapper" where
  "map_vulnerability H1 e m =
     (let n = ev_normalized e;
          (alias, aliases) = extract_aliases n;
          (host_id, m) = resolve_host_id H1 (ev_source e) aliases (''host-'' @ ev_entity_id e) m
      in ((case alias of
             None \<Rightarrow> []
           | Some a \<Rightarrow> [seen_host host_id (or_else (nstr n ''hostname'') a) None None ''unknown'' (ev_observed_at e)])
          @ build_alias_records H1 host_id aliases (ev_source e) (ev_observed_at e)
          @ [EVuln \<lparr>vu_id = ev_entity_id e, vu_host_id = host_id, vu_detected_at = ev_observed_at e,
                    vu_source = ev_source e, vu_cve = nstr n ''cve'',
                    vu_severity = or_else (nstr n ''severity'') ''info'', vu_package_name = nstr n ''package_name'',
                    vu_installed_version = nstr n ''installed_version'', vu_fixed_version = nstr n ''fixed_version'',
                    vu_resolved_at = None, vu_raw_ref = ev_raw_ref e, vu_raw_payload = ev_raw_payload e\<rparr>], m))"

definition map_directory_account :: "envelope \<Rightarrow> entity list" where
  "map_directory_account e =
     (let n = ev_normalized e
      in [EAccount \<lparr>da_id = ntext n ''account_id'' (ev_entity_id e), da_username = ntext n ''username'' ''unknown'',
                    da_display_name = nstr n ''display_name'', da_email = nstr n ''email'',
                    da_department = nstr n ''department'', da_status = ntext n ''status'' ''active'',
                    da_is_privileged = nbool n ''is_privileged'',
                    da_last_login_at = mapper_parse_iso (nget n ''last_login_at''),
                    da_password_last_set = mapper_parse_iso (nget n ''password_last_set''),
                    da_created_at = mapper_parse_iso (nget n ''created_at'')\<rparr>])"

definition map_group_membership :: "envelope \<Rightarrow> entity list" where
  "map_group_membership e =
     (let n = ev_normalized e
      in [EGroup \<lparr>gm_id = ntext n ''membership_id'' (ev_entity_id e), gm_account_id = ntext n ''account_id'' ''unknown'',
                  gm_group_name = ntext n ''group_name'' ''unknown'', gm_source = ntext n ''source'' ''ldap'',
                  gm_synced_at = Some (ev_observed_at e)\<rparr>])"

definition map_privilege_binding :: "envelope \<Rightarrow> entity list" where
  "map_privilege_binding e =
     (let n = ev_normalized e
      in [EPriv \<lparr>pb_id = ntext n ''binding_id'' (ev_entity_id e), pb_account_id = ntext n ''account_id'' ''unknown'',
                 pb_privilege_type = ntext n ''privilege_type'' ''unknown'', pb_target = nstr n ''target'',
                 pb_granted_at = Some (ev_observed_at e), pb_expires_at = None, pb_granted_by = nstr n ''granted_by''\<rparr>])"

definition map_account_observation :: "envelope \<Rightarrow> entity list" where
  "map_account_observation e =
     (let n = ev_normalized e
      in [EAccObs \<lparr>ao_id = ntext n ''observation_id'' (ev_entity_id e), ao_account_id = ntext n ''account_id'' ''unknown'',
                   ao_type = ntext n ''observation_type'' ''unknown'', ao_source = ntext n ''source'' ''ldap'',
                   ao_observed_at = Some (ev_observed_at e), ao_detail = nstr n ''detail'',
                   ao_severity = nstr n ''severity''\<rparr>])"

definition map_control_check :: "envelope \<Rightarrow> entity list" where
  "map_control_check e =
     (let n = ev_normalized e
      in [ECheck \<lparr>ck_id = ntext n ''check_id'' (ev_entity_id e), ck_control_id = ntext n ''control_id'' ''unknown'',
                  ck_entity_type = ntext n ''entity_type'' ''host'', ck_entity_id = ntext n ''entity_id'' ''unknown'',
                  ck_status = ntext n ''status'' ''not_checked'', ck_checked_at = ev_observed_at e,
                  ck_evidence_refs = (case nget n ''evidence_refs'' of V v \<Rightarrow> as_list v | T _ \<Rightarrow> []),
                  ck_owner = nstr n ''owner'', ck_note = nstr n ''note'',
                  ck_remediation_due_at = None, ck_resolved_at = None\<rparr>])"

text \<open>The dispatch; \<open>None\<close> is the \<^verbatim>\<open>ValueError\<close> for an unknown kind of envelope.\<close>

definition map_envelope :: "(string \<Rightarrow> string) \<Rightarrow> envelope \<Rightarrow> mapper \<Rightarrow> (entity list \<times> mapper) option" where
  "map_envelope H1 e m =
     (let t = ev_entity_type e
      in if t = ''host_observation'' then Some (map_host_observation H1 e m)
         else if t = ''query_result'' then Some (map_query_result H1 e m)
         else if t = ''alert'' then Some (map_alert H1 e m)
         else if t = ''vulnerability'' then Some (map_vulnerability H1 e m)
         else if t = ''directory_account'' then Some (map_directory_account e, m)
         else if t = ''group_membership'' then Some (map_group_membership e, m)
         else if t = ''privilege_binding'' then Some (map_privilege_binding e, m)
         else if t = ''account_observation'' then Some (map_account_observation e, m)
         else if t = ''control_check'' then Some (map_control_check e, m)
         else None)"

section \<open>Lemmas on the alias tables\<close>

definition bucket_of :: "string \<Rightarrow> string" where
  "bucket_of source = (case bucket_for_source source of None \<Rightarrow> ''neutral'' | Some b \<Rightarrow> b)"

lemma map_of_register: "map_of (foldl (\<lambda>d a. dset d a h) d as) a = (if a \<in> set as then Some h else map_of d a)"
  by (induction as arbitrary: d) auto

lemma bucket_map_register:
  "bucket_map (register_bucket_aliases b as h m) b' =
     (if b' = b then foldl (\<lambda>d a. dset d a h) (bucket_map m b) as else bucket_map m b')"
  by (simp add: bucket_map_def register_bucket_aliases_def)

lemma register_alias_table [simp]: "ma_alias (register_bucket_aliases b as h m) = ma_alias m"
  by (simp add: register_bucket_aliases_def)

lemma resolve_registers:
  "snd (resolve_host_id H1 src as fb m) =
     register_bucket_aliases (bucket_of src) as (fst (resolve_host_id H1 src as fb m)) m"
  unfolding resolve_host_id_def bucket_of_def [symmetric] Let_def by (simp split: option.split)

lemma resolve_hit:
  "find_bucket_host_id m (bucket_of src) as = Some h \<Longrightarrow>
   resolve_host_id H1 src as fb m = (h, register_bucket_aliases (bucket_of src) as h m)"
  by (simp add: resolve_host_id_def bucket_of_def [symmetric] Let_def)

text \<open>An alias is remembered: once a record of some source was resolved to a host, every alias it carried
  leads the next record of a source of the same bucket to that host, whatever other aliases follow it.\<close>

lemma alias_remembered:
  assumes "resolve_host_id H1 src aliases fb m = (h, m')" "a \<in> set aliases" "bucket_of src' = bucket_of src"
  shows "fst (resolve_host_id H1 src' (a # rest) fb' m') = h"
proof -
  have "m' = register_bucket_aliases (bucket_of src) aliases h m"
    using resolve_registers [of H1 src aliases fb m] assms(1) by simp
  then have "find_bucket_host_id m' (bucket_of src') (a # rest) = Some h"
    using assms(2,3) by (simp add: find_bucket_host_id_def bucket_map_register map_of_register)
  then show ?thesis by (simp add: resolve_hit)
qed

theorem alias_remembered_witness:
  "fst (resolve_host_id id ''trivy'' [''web.local'', ''x''] ''f''
     (snd (resolve_host_id id ''zabbix'' [''web'', ''web.local''] ''f'' (new_mapper [])))) = ''server-web''"
proof (rule alias_remembered [where src = "''zabbix''" and aliases = "[''web'', ''web.local'']"])
  have "fst (resolve_host_id id ''zabbix'' [''web'', ''web.local''] ''f'' (new_mapper [])) = ''server-web''"
    by code_simp
  then show "resolve_host_id id ''zabbix'' [''web'', ''web.local''] ''f'' (new_mapper [])
      = (''server-web'', snd (resolve_host_id id ''zabbix'' [''web'', ''web.local''] ''f'' (new_mapper [])))"
    by (simp add: prod_eq_iff)
  show "bucket_of ''trivy'' = bucket_of ''zabbix''" by code_simp
qed simp

section \<open>PCs and servers stay apart\<close>

definition tagged :: "mapper \<Rightarrow> bool" where
  "tagged m = (ma_alias m = [] \<and> (\<forall>b \<in> {''pc'', ''server''}. \<forall>a h. map_of (bucket_map m b) a = Some h \<longrightarrow> prefix (b @ ''-'') h))"

lemma tagged_new: "tagged (new_mapper [])"
  by (auto simp: tagged_def new_mapper_def bucket_map_def)

lemma scoped_prefix: "prefix (b @ ''-'') (scoped_host_id H1 b i)"
  by (simp add: scoped_host_id_def Let_def)

lemma first_hit_Some: "first_hit d as = Some h \<Longrightarrow> \<exists>a. map_of d a = Some h"
  by (induction as) (auto split: option.splits)

lemma first_hit_empty [simp]: "first_hit [] as = None"
  by (induction as) auto

definition host_tag_ok :: "string \<Rightarrow> string \<Rightarrow> bool" where
  "host_tag_ok b h = (b \<in> {''pc'', ''server''} \<longrightarrow> prefix (b @ ''-'') h)"

lemma resolve_tag:
  assumes "tagged m"
  shows "host_tag_ok (bucket_of src) (fst (resolve_host_id H1 src as fb m))"
proof (cases "bucket_of src \<in> {''pc'', ''server''}")
  case True
  then have nb: "bucket_of src \<noteq> ''neutral''" by auto
  have al: "first_hit (ma_alias m) as = None" using assms by (simp add: tagged_def)
  show ?thesis
  proof (cases "find_bucket_host_id m (bucket_of src) as")
    case None
    then have "fst (resolve_host_id H1 src as fb m)
        = scoped_host_id H1 (bucket_of src) (if as = [] then fb else hd as)"
      using nb al by (simp add: resolve_host_id_def bucket_of_def [symmetric] Let_def)
    then show ?thesis by (simp add: host_tag_ok_def scoped_prefix)
  next
    case (Some h)
    then obtain a where "map_of (bucket_map m (bucket_of src)) a = Some h"
      by (auto simp: find_bucket_host_id_def dest: first_hit_Some)
    with True assms have "prefix (bucket_of src @ ''-'') h" unfolding tagged_def by blast
    with Some show ?thesis by (simp add: resolve_hit host_tag_ok_def)
  qed
qed (simp add: host_tag_ok_def)

lemma register_tagged:
  assumes "tagged m" "host_tag_ok b h"
  shows "tagged (register_bucket_aliases b as h m)"
  using assms by (auto simp: tagged_def host_tag_ok_def bucket_map_register map_of_register split: if_splits)

lemma resolve_tagged: "tagged m \<Longrightarrow> tagged (snd (resolve_host_id H1 src as fb m))"
  unfolding resolve_registers by (intro register_tagged resolve_tag)

fun host_ref :: "entity \<Rightarrow> string option" where
  "host_ref (EHost h) = Some (ho_id h)"
| "host_ref (EAlias a) = Some (ha_host_id a)"
| "host_ref (EAlert a) = al_host_id a"
| "host_ref (EVuln v) = Some (vu_host_id v)"
| "host_ref (EQuery q) = Some (qr_host_id q)"
| "host_ref (EObs ob) = Some (ob_host_id ob)"
| "host_ref _ = None"

lemma ref_alias_records: "x \<in> set (build_alias_records H1 h as src t0) \<Longrightarrow> host_ref x = Some h"
  by (auto simp: build_alias_records_def build_alias_def)

lemma ref_seen_host [simp]: "host_ref (seen_host h hn p i s t0) = Some h"
  by (simp add: seen_host_def)

text \<open>Every entity of an envelope refers to the one host it was resolved to.\<close>

definition resolved_host :: "(string \<Rightarrow> string) \<Rightarrow> envelope \<Rightarrow> mapper \<Rightarrow> string \<times> mapper" where
  "resolved_host H1 e m = resolve_host_id H1 (ev_source e) (snd (extract_aliases (ev_normalized e)))
     (''host-'' @ ev_entity_id e) m"

lemma resolve_fallback:
  "as \<noteq> [] \<Longrightarrow> resolve_host_id H1 src as fb m = resolve_host_id H1 src as fb' m"
  by (simp add: resolve_host_id_def Let_def)

lemma map_envelope_cases:
  assumes "map_envelope H1 e m = Some (ents, m')"
  obtains (observation) "map_host_observation H1 e m = (ents, m')"
    | (query) "map_query_result H1 e m = (ents, m')"
    | (alert) "map_alert H1 e m = (ents, m')"
    | (vuln) "map_vulnerability H1 e m = (ents, m')"
    | (identity) "\<forall>x \<in> set ents. host_ref x = None" "m' = m"
proof -
  let ?t = "ev_entity_type e"
  note eq = assms [unfolded map_envelope_def Let_def]
  consider "?t = ''host_observation''" | "?t = ''query_result''" | "?t = ''alert''" | "?t = ''vulnerability''"
    | "?t \<notin> {''host_observation'', ''query_result'', ''alert'', ''vulnerability''}" by blast
  then show thesis
  proof cases
    case 5
    then have "(ents, m') \<in> {(map_directory_account e, m), (map_group_membership e, m), (map_privilege_binding e, m),
        (map_account_observation e, m), (map_control_check e, m)}"
      using eq by (simp split: if_splits)
    then have "\<forall>x \<in> set ents. host_ref x = None" "m' = m"
      by (auto simp: map_directory_account_def map_group_membership_def map_privilege_binding_def
          map_account_observation_def map_control_check_def Let_def)
    then show thesis by (rule identity)
  qed (use eq in \<open>simp_all add: observation query alert vuln\<close>)
qed

lemma envelope_refs:
  assumes "map_envelope H1 e m = Some (ents, m')"
  shows "(\<forall>x \<in> set ents. \<forall>h. host_ref x = Some h \<longrightarrow> h = fst (resolved_host H1 e m))
    \<and> (m' = m \<or> m' = snd (resolved_host H1 e m))"
proof -
  obtain a0 aliases where al: "extract_aliases (ev_normalized e) = (a0, aliases)" by fastforce
  obtain h m1 where r: "resolved_host H1 e m = (h, m1)" by fastforce
  then have r0: "resolve_host_id H1 (ev_source e) aliases (''host-'' @ ev_entity_id e) m = (h, m1)"
    by (simp add: resolved_host_def al)
  have r1: "aliases \<noteq> [] \<Longrightarrow> resolve_host_id H1 (ev_source e) aliases fb m = (h, m1)" for fb
    using r0 resolve_fallback by metis
  from assms show ?thesis
  proof (cases rule: map_envelope_cases)
    case observation
    then show ?thesis
      by (auto simp: map_host_observation_def al r r0 [simplified] Let_def dest!: ref_alias_records)
  next
    case query
    then show ?thesis
      by (auto simp: map_query_result_def al r r0 [simplified] Let_def dest!: ref_alias_records split: option.splits)
  next
    case alert
    then show ?thesis
      by (cases "aliases = []") (auto simp: map_alert_def al r r1 Let_def dest!: ref_alias_records)
  next
    case vuln
    then show ?thesis
      by (auto simp: map_vulnerability_def al r r0 [simplified] Let_def dest!: ref_alias_records split: option.splits)
  qed simp
qed

text \<open>Mapping a sequence of envelopes: each with the entities it gave; an unknown kind stops it.\<close>

fun map_envelopes :: "(string \<Rightarrow> string) \<Rightarrow> envelope list \<Rightarrow> mapper \<Rightarrow> (envelope \<times> entity list) list" where
  "map_envelopes H1 [] m = []"
| "map_envelopes H1 (e # es) m =
     (case map_envelope H1 e m of None \<Rightarrow> [] | Some (ents, m') \<Rightarrow> (e, ents) # map_envelopes H1 es m')"

definition refs_tagged :: "envelope \<times> entity list \<Rightarrow> bool" where
  "refs_tagged p = list_all (\<lambda>x. case host_ref x of None \<Rightarrow> True
     | Some h \<Rightarrow> host_tag_ok (bucket_of (ev_source (fst p))) h) (snd p)"

lemma map_envelopes_tagged: "tagged m \<Longrightarrow> list_all refs_tagged (map_envelopes H1 es m)"
proof (induction es arbitrary: m)
  case (Cons e es)
  show ?case
  proof (cases "map_envelope H1 e m")
    case (Some em)
    then obtain ents m' where em: "map_envelope H1 e m = Some (ents, m')" by (cases em) auto
    from envelope_refs [OF em] have refs: "\<forall>x \<in> set ents. \<forall>h. host_ref x = Some h \<longrightarrow> h = fst (resolved_host H1 e m)"
      and m': "m' = m \<or> m' = snd (resolved_host H1 e m)" by auto
    have "host_tag_ok (bucket_of (ev_source e)) (fst (resolved_host H1 e m))"
      unfolding resolved_host_def using Cons.prems by (rule resolve_tag)
    with refs have "refs_tagged (e, ents)" by (auto simp: refs_tagged_def list_all_iff split: option.splits)
    moreover have "tagged m'" using m' Cons.prems resolve_tagged by (auto simp: resolved_host_def)
    ultimately show ?thesis using em Cons.IH by simp
  qed simp
qed simp

text \<open>C10: PCs and servers are never mixed up: in any sequence of envelopes that a fresh mapper maps, every
  entity of a Fleet envelope refers to a host whose identifier is tagged as a PC, and every entity of a
  Zabbix or Trivy envelope to one that is tagged as a server, however their aliases overlap.\<close>

theorem pc_and_server_hosts_apart:
  "list_all refs_tagged (map_envelopes H1 es (new_mapper []))"
  by (rule map_envelopes_tagged) (rule tagged_new)

section \<open>References to hosts that are saved\<close>

fun refs_saved :: "string list \<Rightarrow> entity list \<Rightarrow> bool" where
  "refs_saved known [] = True"
| "refs_saved known (x # xs) =
     (case x of
        EHost h \<Rightarrow> refs_saved (ho_id h # known) xs
      | _ \<Rightarrow> (case host_ref x of None \<Rightarrow> True | Some h \<Rightarrow> h \<in> set known) \<and> refs_saved known xs)"

lemma refs_saved_known: "(\<forall>x \<in> set xs. \<forall>h. host_ref x = Some h \<longrightarrow> h \<in> set known) \<Longrightarrow> refs_saved known xs"
proof (induction xs arbitrary: known)
  case (Cons x xs)
  have "refs_saved (k # known) xs" "refs_saved known xs" for k
    using Cons.prems by (auto intro!: Cons.IH)
  with Cons.prems show ?case by (cases x) (auto split: option.splits)
qed simp

lemma refs_saved_host: "(\<forall>x \<in> set xs. \<forall>h'. host_ref x = Some h' \<longrightarrow> h' = h) \<Longrightarrow>
    refs_saved [] (seen_host h hn p i s t0 # xs)"
  by (simp add: seen_host_def) (rule refs_saved_known, simp)

lemma foldl_aliases_grow:
  "set as \<subseteq> set (foldl (\<lambda>as v. case v of PStr s \<Rightarrow> (if s \<noteq> [] \<and> s \<notin> set as then as @ [s] else as) | _ \<Rightarrow> as) as xs)"
proof (induction xs arbitrary: as)
  case (Cons x xs)
  show ?case
  proof (cases x)
    case (PStr s)
    have "set as \<subseteq> set (if s \<noteq> [] \<and> s \<notin> set as then as @ [s] else as)" by auto
    with Cons.IH PStr show ?thesis by (simp only: foldl.simps pv.case) blast
  qed (use Cons.IH in simp_all)
qed simp

lemma no_alias:
  assumes "extract_aliases d = (alias, aliases)"
  shows "alias = None \<longleftrightarrow> aliases = []"
proof (cases "nstr d ''host_id''")
  case None
  with assms show ?thesis by (auto simp: extract_aliases_def Let_def split: if_splits)
next
  case (Some p)
  let ?f = "\<lambda>as v. case v of PStr s \<Rightarrow> (if s \<noteq> [] \<and> s \<notin> set as then as @ [s] else as) | _ \<Rightarrow> as"
  have "foldl ?f [p] xs \<noteq> []" for xs using foldl_aliases_grow [of "[p]" xs] by auto
  then have "aliases \<noteq> []" using assms Some
    by (auto simp: extract_aliases_def Let_def split: nval.splits pv.splits)
  moreover have "alias = Some p" using assms Some by (simp add: extract_aliases_def Let_def)
  ultimately show ?thesis by simp
qed

definition starts_with_host :: "string \<Rightarrow> entity list \<Rightarrow> bool" where
  "starts_with_host h ents = (\<exists>hn p i s t0 rest. ents = seen_host h hn p i s t0 # rest)"

lemma starts_with_seen_host [simp]: "starts_with_host h (seen_host h hn p i s t0 # rest)"
  unfolding starts_with_host_def by blast

lemma envelope_starts_with_host:
  assumes "map_envelope H1 e m = Some (ents, m')" "snd (extract_aliases (ev_normalized e)) \<noteq> []"
  shows "starts_with_host (fst (resolved_host H1 e m)) ents
    \<or> (\<forall>x \<in> set ents. host_ref x = None)"
proof -
  obtain a aliases where al: "extract_aliases (ev_normalized e) = (Some a, aliases)" "aliases \<noteq> []"
    using assms(2) no_alias by (cases "extract_aliases (ev_normalized e)") fastforce
  obtain h m1 where r: "resolved_host H1 e m = (h, m1)" by fastforce
  then have r1: "resolve_host_id H1 (ev_source e) aliases fb m = (h, m1)" for fb
    using resolve_fallback [OF al(2)] by (simp add: resolved_host_def al(1)) metis
  from assms(1) show ?thesis
  proof (cases rule: map_envelope_cases)
    case observation
    then show ?thesis by (auto simp: map_host_observation_def al r r1 Let_def)
  next
    case query
    then show ?thesis by (auto simp: map_query_result_def al r r1 Let_def or_opt_def split: option.splits)
  next
    case alert
    then show ?thesis by (auto simp: map_alert_def al r r1 Let_def)
  next
    case vuln
    then show ?thesis by (auto simp: map_vulnerability_def al r r1 Let_def)
  qed simp
qed

text \<open>Whatever an envelope with at least one alias maps to refers only to a host that the same envelope saves
  first, so it can be stored under a foreign key; a vulnerability without an alias refers to a host that is
  never saved.\<close>

lemma mapped_refs_saved:
  assumes "map_envelope H1 e m = Some (ents, m')"
  shows "(snd (extract_aliases (ev_normalized e)) \<noteq> [] \<longrightarrow> refs_saved [] ents)
    \<and> (ev_entity_type e = ''vulnerability'' \<and> snd (extract_aliases (ev_normalized e)) = [] \<longrightarrow> \<not> refs_saved [] ents)"
proof -
  obtain a0 aliases where al: "extract_aliases (ev_normalized e) = (a0, aliases)" by fastforce
  have refs: "\<forall>x \<in> set ents. \<forall>h. host_ref x = Some h \<longrightarrow> h = fst (resolved_host H1 e m)"
    using envelope_refs [OF assms] by blast
  have "refs_saved [] ents" if "aliases \<noteq> []"
  proof (cases "starts_with_host (fst (resolved_host H1 e m)) ents")
    case True
    then show ?thesis using refs by (auto simp: starts_with_host_def intro!: refs_saved_host)
  next
    case False
    with envelope_starts_with_host [OF assms] al that have "\<forall>x \<in> set ents. host_ref x = None" by auto
    then show ?thesis by (intro refs_saved_known) simp
  qed
  moreover have "\<not> refs_saved [] ents" if "ev_entity_type e = ''vulnerability''" "aliases = []"
  proof -
    have "a0 = None" using no_alias al that(2) by blast
    then show ?thesis
      using assms that al by (auto simp: map_envelope_def map_vulnerability_def build_alias_records_def Let_def
          split: prod.splits)
  qed
  ultimately show ?thesis using al by simp
qed

definition demo_envelope :: envelope where
  "demo_envelope = \<lparr>ev_entity_type = ''vulnerability'', ev_entity_id = ''v1'',
     ev_observed_at = \<lparr>dt_us = 0, dt_off = Some 0\<rparr>, ev_source = ''trivy'', ev_raw_ref = None,
     ev_normalized = [(''host_id'', V (PStr ''web''))], ev_raw_payload = []\<rparr>"

theorem mapped_refs_saved_witness:
  "\<exists>ents m' orphan m''. map_envelope id demo_envelope (new_mapper []) = Some (ents, m') \<and> refs_saved [] ents
     \<and> map_envelope id (demo_envelope\<lparr>ev_normalized := []\<rparr>) (new_mapper []) = Some (orphan, m'')
     \<and> \<not> refs_saved [] orphan"
proof -
  have "map_envelope id demo_envelope (new_mapper []) \<noteq> None"
    "map_envelope id (demo_envelope\<lparr>ev_normalized := []\<rparr>) (new_mapper []) \<noteq> None" by code_simp+
  then obtain ents m' orphan m'' where
    1: "map_envelope id demo_envelope (new_mapper []) = Some (ents, m')" and
    2: "map_envelope id (demo_envelope\<lparr>ev_normalized := []\<rparr>) (new_mapper []) = Some (orphan, m'')" by auto
  have "snd (extract_aliases (ev_normalized demo_envelope)) \<noteq> []" by code_simp
  with mapped_refs_saved [OF 1] have "refs_saved [] ents" by blast
  moreover have "snd (extract_aliases (ev_normalized (demo_envelope\<lparr>ev_normalized := []\<rparr>))) = []"
    "ev_entity_type (demo_envelope\<lparr>ev_normalized := []\<rparr>) = ''vulnerability''" by code_simp+
  with mapped_refs_saved [OF 2] have "\<not> refs_saved [] orphan" by blast
  ultimately show ?thesis using 1 2 by blast
qed

end
