(* ===== verification/Ingest.thy ===== *)
theory Ingest
  imports Complex_Main Repository Mapper
begin

text \<open>
  Ingestion (\<^verbatim>\<open>services/ingestion.py\<close>), the poller cycle with its retries and its bookkeeping
  (\<^verbatim>\<open>pollers/base.py\<close>) and the worker's cycle and scheduler (\<^verbatim>\<open>worker.py\<close>).  They are functions of the
  repository's \<open>save\<close> and \<open>source_syncs\<close>, as the code is of \<^verbatim>\<open>BaseRepository\<close>; what they rely on is the
  locale \<open>repository\<close>.

  A collector yields records, each with its envelopes, and may raise at any point: a generator is the
  list of what it yields and the text of the exception that ended it, if one did.  The collector of the
  \<open>n\<close>-th attempt is \<open>coll n\<close>, since every attempt asks the source again.
\<close>

section \<open>Collectors\<close>

type_synonym 'a gen = "'a list \<times> string option"

record collector =
  co_records :: "(collector_record \<times> envelope gen) gen"

record report =
  rp_records :: int
  rp_envelopes :: int
  rp_entities :: int

definition empty_report :: report where
  "empty_report = \<lparr>rp_records = 0, rp_envelopes = 0, rp_entities = 0\<rparr>"

definition TYPE_ERROR :: string where
  "TYPE_ERROR = ''TypeError: can't compare offset-naive and offset-aware datetimes''"

section \<open>Ingestion\<close>

text \<open>The state of the loops: report, mapper and repository, and the exception that stopped them.\<close>

record 'r ingest =
  in_report :: report
  in_mapper :: mapper
  in_repo :: 'r
  in_exc :: "string option"

fun ingest_entities :: "('r \<Rightarrow> entity \<Rightarrow> 'r option) \<Rightarrow> entity list \<Rightarrow> 'r ingest \<Rightarrow> 'r ingest" where
  "ingest_entities save [] st = st"
| "ingest_entities save (x # xs) st =
     (case save (in_repo st) x of
        None \<Rightarrow> st\<lparr>in_exc := Some TYPE_ERROR\<rparr>
      | Some r \<Rightarrow> ingest_entities save xs
          (st\<lparr>in_repo := r, in_report := (in_report st)\<lparr>rp_entities := rp_entities (in_report st) + 1\<rparr>\<rparr>))"

fun ingest_envelopes ::
    "(string \<Rightarrow> string) \<Rightarrow> ('r \<Rightarrow> entity \<Rightarrow> 'r option) \<Rightarrow> envelope list \<Rightarrow> string option \<Rightarrow> 'r ingest \<Rightarrow> 'r ingest" where
  "ingest_envelopes H1 save [] exc st = st\<lparr>in_exc := exc\<rparr>"
| "ingest_envelopes H1 save (e # es) exc st =
     (let st = st\<lparr>in_report := (in_report st)\<lparr>rp_envelopes := rp_envelopes (in_report st) + 1\<rparr>\<rparr>
      in case map_envelope H1 e (in_mapper st) of
           None \<Rightarrow> st\<lparr>in_exc := Some (''ValueError: Unsupported envelope entity_type: '' @ ev_entity_type e)\<rparr>
         | Some (ents, m) \<Rightarrow>
             (let st = ingest_entities save ents (st\<lparr>in_mapper := m\<rparr>)
              in if in_exc st \<noteq> None then st else ingest_envelopes H1 save es exc st))"

fun ingest_records ::
    "(string \<Rightarrow> string) \<Rightarrow> ('r \<Rightarrow> entity \<Rightarrow> 'r option) \<Rightarrow> (collector_record \<times> envelope gen) list \<Rightarrow> string option
     \<Rightarrow> 'r ingest \<Rightarrow> 'r ingest" where
  "ingest_records H1 save [] exc st = st\<lparr>in_exc := exc\<rparr>"
| "ingest_records H1 save (rc # rcs) exc st =
     (let st = st\<lparr>in_report := (in_report st)\<lparr>rp_records := rp_records (in_report st) + 1\<rparr>\<rparr>;
          st = ingest_envelopes H1 save (fst (snd rc)) (snd (snd rc)) st
      in if in_exc st \<noteq> None then st else ingest_records H1 save rcs exc st)"

definition ingest_collector ::
    "(string \<Rightarrow> string) \<Rightarrow> ('r \<Rightarrow> entity \<Rightarrow> 'r option) \<Rightarrow> collector \<Rightarrow> mapper \<Rightarrow> 'r \<Rightarrow> 'r ingest" where
  "ingest_collector H1 save c m r =
     ingest_records H1 save (fst (co_records c)) (snd (co_records c))
       \<lparr>in_report = empty_report, in_mapper = m, in_repo = r, in_exc = None\<rparr>"

section \<open>One poller cycle\<close>

record cycle_result =
  cy_source :: string
  cy_status :: string
  cy_report :: "report option"
  cy_message :: "string option"

definition truncate_message :: "string \<Rightarrow> nat \<Rightarrow> string" where
  "truncate_message message limit =
     (if length message \<le> limit then message else take (limit - 3) message @ ''...'')"

definition success_sync :: "string \<Rightarrow> dtime \<Rightarrow> source_sync option \<Rightarrow> report \<Rightarrow> source_sync" where
  "success_sync source started previous rep =
     \<lparr>sy_source = source, sy_status = ''success'', sy_last_sync_at = started, sy_last_success_at = Some started,
      sy_last_error_at = (case previous of None \<Rightarrow> None | Some p \<Rightarrow> sy_last_error_at p),
      sy_message = Some (''ok: '' @ int_str (rp_records rep) @ '' records''),
      sy_records_collected = rp_records rep, sy_envelopes_normalized = rp_envelopes rep,
      sy_entities_saved = rp_entities rep\<rparr>"

definition error_sync :: "string \<Rightarrow> dtime \<Rightarrow> source_sync option \<Rightarrow> string \<Rightarrow> source_sync" where
  "error_sync source started previous message =
     \<lparr>sy_source = source, sy_status = ''error'', sy_last_sync_at = started,
      sy_last_success_at = (case previous of None \<Rightarrow> None | Some p \<Rightarrow> sy_last_success_at p),
      sy_last_error_at = Some started, sy_message = Some message,
      sy_records_collected = (case previous of None \<Rightarrow> 0 | Some p \<Rightarrow> sy_records_collected p),
      sy_envelopes_normalized = (case previous of None \<Rightarrow> 0 | Some p \<Rightarrow> sy_envelopes_normalized p),
      sy_entities_saved = (case previous of None \<Rightarrow> 0 | Some p \<Rightarrow> sy_entities_saved p)\<rparr>"

text \<open>The retry loop: \<open>left\<close> attempts are left, the next one is number \<open>n\<close>.\<close>

fun attempts ::
    "(string \<Rightarrow> string) \<Rightarrow> ('r \<Rightarrow> entity \<Rightarrow> 'r option) \<Rightarrow> string \<Rightarrow> dtime \<Rightarrow> source_sync option \<Rightarrow> (nat \<Rightarrow> collector)
     \<Rightarrow> nat \<Rightarrow> nat \<Rightarrow> string \<Rightarrow> mapper \<Rightarrow> 'r \<Rightarrow> (report option \<times> string) \<times> mapper \<times> 'r" where
  "attempts H1 save source started previous coll 0 n last_exc m r = ((None, last_exc), m, r)"
| "attempts H1 save source started previous coll (Suc left) n last_exc m r =
     (let st = ingest_collector H1 save (coll n) m r in
      case in_exc st of
        Some exc \<Rightarrow> attempts H1 save source started previous coll left (Suc n) exc (in_mapper st) (in_repo st)
      | None \<Rightarrow>
          (case save (in_repo st) (ESync (success_sync source started previous (in_report st))) of
             None \<Rightarrow> attempts H1 save source started previous coll left (Suc n) TYPE_ERROR (in_mapper st) (in_repo st)
           | Some r' \<Rightarrow> ((Some (in_report st), last_exc), in_mapper st, r')))"

definition run_cycle ::
    "(string \<Rightarrow> string) \<Rightarrow> ('r \<Rightarrow> entity \<Rightarrow> 'r option) \<Rightarrow> ('r \<Rightarrow> source_sync list) \<Rightarrow> string \<Rightarrow> nat \<Rightarrow> dtime
     \<Rightarrow> (nat \<Rightarrow> collector) option \<Rightarrow> mapper \<Rightarrow> 'r \<Rightarrow> (cycle_result \<times> mapper \<times> 'r) option" where
  "run_cycle H1 save syncs source max_retries started collector m r =
     (case collector of
        None \<Rightarrow> Some (\<lparr>cy_source = source, cy_status = ''skipped'', cy_report = None,
                       cy_message = Some ''collector disabled or misconfigured''\<rparr>, m, r)
      | Some coll \<Rightarrow>
          (let previous = sync_of (syncs r) source;
               tries = max_retries + 1
           in case attempts H1 save source started previous coll tries 1 [] m r of
                ((Some rep, _), m, r) \<Rightarrow>
                  Some (\<lparr>cy_source = source, cy_status = ''success'', cy_report = Some rep,
                         cy_message = sy_message (success_sync source started previous rep)\<rparr>, m, r)
              | ((None, exc), m, r) \<Rightarrow>
                  (let message = ''failed after '' @ dec tries @ '' attempt(s): '' @ truncate_message exc 500
                   in case save r (ESync (error_sync source started previous message)) of
                        None \<Rightarrow> None
                      | Some r \<Rightarrow>
                          Some (\<lparr>cy_source = source, cy_status = ''error'', cy_report = None,
                                 cy_message = Some message\<rparr>, m, r))))"

text \<open>\<^verbatim>\<open>is_stale\<close>: \<open>None\<close> is the \<^verbatim>\<open>TypeError\<close> for a naive last success.\<close>

definition is_stale :: "int \<Rightarrow> dtime \<Rightarrow> source_sync option \<Rightarrow> bool option" where
  "is_stale threshold now sync =
     (case sync of
        None \<Rightarrow> Some True
      | Some s \<Rightarrow> (case sy_last_success_at s of
          None \<Rightarrow> Some True
        | Some t \<Rightarrow> map_option (\<lambda>d. d > threshold * US) (dt_sub now t)))"

section \<open>The worker's cycle over several collectors\<close>

definition worker_step ::
    "(string \<Rightarrow> string) \<Rightarrow> ('r \<Rightarrow> entity \<Rightarrow> 'r option) \<Rightarrow> dtime
     \<Rightarrow> (cycle_result list \<times> source_sync dict \<times> mapper \<times> 'r) \<Rightarrow> string \<times> collector
     \<Rightarrow> (cycle_result list \<times> source_sync dict \<times> mapper \<times> 'r) option" where
  "worker_step H1 save started acc sc =
     (case (acc, sc) of ((results, existing, m, r), (source, c)) \<Rightarrow>
        (let previous = map_of existing source;
             st = ingest_collector H1 save c m r;
             ok_sync = success_sync source started previous (in_report st);
             ok = (if in_exc st = None then save (in_repo st) (ESync ok_sync) else None)
         in case ok of
              Some r' \<Rightarrow>
                Some (results @ [\<lparr>cy_source = source, cy_status = ''success'', cy_report = Some (in_report st),
                                  cy_message = sy_message ok_sync\<rparr>],
                      dset existing source ok_sync, in_mapper st, r')
            | None \<Rightarrow>
                (let message = truncate_message (case in_exc st of None \<Rightarrow> TYPE_ERROR | Some x \<Rightarrow> x) 500;
                     sync = error_sync source started previous message
                 in case save (in_repo st) (ESync sync) of
                      None \<Rightarrow> None
                    | Some r' \<Rightarrow>
                        Some (results @ [\<lparr>cy_source = source, cy_status = ''error'', cy_report = None,
                                          cy_message = Some message\<rparr>],
                              dset existing source sync, in_mapper st, r'))))"

fun worker_steps ::
    "(string \<Rightarrow> string) \<Rightarrow> ('r \<Rightarrow> entity \<Rightarrow> 'r option) \<Rightarrow> dtime
     \<Rightarrow> (cycle_result list \<times> source_sync dict \<times> mapper \<times> 'r) \<Rightarrow> (string \<times> collector) list
     \<Rightarrow> (cycle_result list \<times> source_sync dict \<times> mapper \<times> 'r) option" where
  "worker_steps H1 save started acc [] = Some acc"
| "worker_steps H1 save started acc (sc # scs) =
     (case worker_step H1 save started acc sc of None \<Rightarrow> None
      | Some acc' \<Rightarrow> worker_steps H1 save started acc' scs)"

definition run_ingestion_cycle ::
    "(string \<Rightarrow> string) \<Rightarrow> ('r \<Rightarrow> entity \<Rightarrow> 'r option) \<Rightarrow> ('r \<Rightarrow> source_sync list) \<Rightarrow> dtime
     \<Rightarrow> (string \<times> collector) list \<Rightarrow> mapper \<Rightarrow> 'r \<Rightarrow> (cycle_result list \<times> mapper \<times> 'r) option" where
  "run_ingestion_cycle H1 save syncs started collectors m r =
     map_option (\<lambda>(results, existing, m, r). (results, m, r))
       (worker_steps H1 save started ([], dict_of (map (\<lambda>s. (sy_source s, s)) (syncs r)), m, r) collectors)"

section \<open>The worker's scheduler\<close>

text \<open>One pass of the worker's loop.  \<open>now\<close> is the clock at the start of the pass, \<open>done_at\<close> the clock after the
  poller's cycle.  The result says which pollers ran.\<close>

fun scheduler_pass ::
    "rat \<Rightarrow> (string \<Rightarrow> rat) \<Rightarrow> (string \<times> int) list \<Rightarrow> rat dict \<Rightarrow> string list \<times> rat dict" where
  "scheduler_pass now done_at [] next_run = ([], next_run)"
| "scheduler_pass now done_at ((source, interval) # ps) next_run =
     (let due = (case map_of next_run source of None \<Rightarrow> False | Some t \<Rightarrow> t \<le> now);
          next_run = (if due then dset next_run source (done_at source + of_int interval) else next_run);
          (ran, next_run) = scheduler_pass now done_at ps next_run
      in (if due then source # ran else ran, next_run))"

section \<open>What the pollers do to any repository\<close>

lemma mapped_not_sync:
  assumes "map_envelope H1 e m = Some (ents, m')"
  shows "list_all (\<lambda>x. \<not> is_sync x) ents"
  using assms
proof (cases rule: map_envelope_cases)
  case observation
  then show ?thesis
    by (auto simp: map_host_observation_def Let_def seen_host_def build_alias_records_def list_all_iff split: prod.splits)
next
  case query
  then show ?thesis
    by (auto simp: map_query_result_def Let_def seen_host_def build_alias_records_def list_all_iff
        split: prod.splits option.splits)
next
  case alert
  then show ?thesis
    by (auto simp: map_alert_def Let_def seen_host_def build_alias_records_def list_all_iff split: prod.splits if_splits)
next
  case vuln
  then show ?thesis
    by (auto simp: map_vulnerability_def Let_def seen_host_def build_alias_records_def list_all_iff
        split: prod.splits option.splits)
next
  case identity
  have "ents \<in> {map_directory_account e, map_group_membership e, map_privilege_binding e, map_account_observation e,
      map_control_check e} \<or> list_all (\<lambda>x. \<not> is_sync x) ents"
    using assms identity
    by (cases "ev_entity_type e \<in> {''host_observation'', ''query_result'', ''alert'', ''vulnerability''}")
      (auto simp: map_envelope_def Let_def map_host_observation_def map_query_result_def map_alert_def
        map_vulnerability_def seen_host_def build_alias_records_def list_all_iff
        split: if_splits prod.splits option.splits)
  then show ?thesis
    by (auto simp: map_directory_account_def map_group_membership_def map_privilege_binding_def
        map_account_observation_def map_control_check_def Let_def)
qed

context repository
begin

definition quiet :: "'r \<Rightarrow> 'r \<Rightarrow> bool" where
  "quiet r r' = (good r' \<and> (\<forall>src. sync_of (syncs r') src = sync_of (syncs r) src))"

lemma quiet_refl: "good r \<Longrightarrow> quiet r r"
  by (simp add: quiet_def)

lemma quiet_trans: "quiet r r' \<Longrightarrow> quiet r' r'' \<Longrightarrow> quiet r r''"
  by (simp add: quiet_def)

lemma entities_quiet:
  "good (in_repo st) \<Longrightarrow> list_all (\<lambda>x. \<not> is_sync x) xs \<Longrightarrow>
   quiet (in_repo st) (in_repo (ingest_entities save xs st))"
proof (induction xs arbitrary: st)
  case (Cons x xs)
  show ?case
  proof (cases "save (in_repo st) x")
    case None
    with Cons.prems show ?thesis by (simp add: quiet_refl)
  next
    case (Some r)
    then have q: "quiet (in_repo st) r"
      using Cons.prems by (auto simp: quiet_def intro: save_good save_other)
    then have g: "good r" by (simp add: quiet_def)
    let ?st = "st\<lparr>in_repo := r, in_report := (in_report st)\<lparr>rp_entities := rp_entities (in_report st) + 1\<rparr>\<rparr>"
    have "quiet (in_repo ?st) (in_repo (ingest_entities save xs ?st))"
      using Cons.IH [of ?st] g Cons.prems(2) by simp
    with q Some show ?thesis by (simp add: quiet_trans)
  qed
qed (simp add: quiet_refl)

lemma envelopes_quiet:
  "good (in_repo st) \<Longrightarrow> quiet (in_repo st) (in_repo (ingest_envelopes H1 save es exc st))"
proof (induction es arbitrary: st)
  case (Cons e es)
  let ?st = "st\<lparr>in_report := (in_report st)\<lparr>rp_envelopes := rp_envelopes (in_report st) + 1\<rparr>\<rparr>"
  show ?case
  proof (cases "map_envelope H1 e (in_mapper st)")
    case None
    with Cons.prems show ?thesis by (simp add: quiet_refl)
  next
    case (Some em)
    then obtain ents m where em: "map_envelope H1 e (in_mapper st) = Some (ents, m)" by (cases em) auto
    let ?st' = "ingest_entities save ents (?st\<lparr>in_mapper := m\<rparr>)"
    have q: "quiet (in_repo st) (in_repo ?st')"
      using entities_quiet [OF _ mapped_not_sync [OF em], of "?st\<lparr>in_mapper := m\<rparr>"] Cons.prems by simp
    then have "good (in_repo ?st')" by (simp add: quiet_def)
    from Cons.IH [OF this] q em show ?thesis by (auto simp: Let_def intro: quiet_trans)
  qed
qed (simp add: quiet_refl)

lemma records_quiet:
  "good (in_repo st) \<Longrightarrow> quiet (in_repo st) (in_repo (ingest_records H1 save rcs exc st))"
proof (induction rcs arbitrary: st)
  case (Cons rc rcs)
  let ?st = "st\<lparr>in_report := (in_report st)\<lparr>rp_records := rp_records (in_report st) + 1\<rparr>\<rparr>"
  let ?st' = "ingest_envelopes H1 save (fst (snd rc)) (snd (snd rc)) ?st"
  have q: "quiet (in_repo st) (in_repo ?st')" using envelopes_quiet [of ?st] Cons.prems by simp
  then have "good (in_repo ?st')" by (simp add: quiet_def)
  from Cons.IH [OF this] q show ?case by (auto simp: Let_def intro: quiet_trans)
qed (simp add: quiet_refl)

lemma collector_quiet: "good r \<Longrightarrow> quiet r (in_repo (ingest_collector H1 save c m r))"
  unfolding ingest_collector_def by (rule records_quiet [where st = "\<lparr>in_report = empty_report, in_mapper = m,
    in_repo = r, in_exc = None\<rparr>", simplified])

text \<open>Saving a sync record sets the record of its source and no other.\<close>

definition synced :: "'r \<Rightarrow> source_sync \<Rightarrow> 'r \<Rightarrow> bool" where
  "synced r s r' = (good r' \<and>
     (\<forall>src. sync_of (syncs r') src = (if src = sy_source s then Some s else sync_of (syncs r) src)))"

lemma save_synced: "good r \<Longrightarrow> \<exists>r'. save r (ESync s) = Some r' \<and> synced r s r'"
  using save_sync [of r s] save_good by (auto simp: synced_def)

lemma quiet_synced: "quiet r r' \<Longrightarrow> synced r' s r'' \<Longrightarrow> synced r s r''"
  by (simp add: quiet_def synced_def)

lemma attempts_effect:
  assumes "good r" "attempts H1 save source started previous coll k n exc0 m r = ((res, exc), m', r')"
  shows "case res of None \<Rightarrow> quiet r r' | Some rep \<Rightarrow> synced r (success_sync source started previous rep) r'"
  using assms
proof (induction k arbitrary: n exc0 m r)
  case 0
  then show ?case by (auto simp: quiet_refl)
next
  case (Suc k)
  let ?st = "ingest_collector H1 save (coll n) m r"
  have q: "quiet r (in_repo ?st)" using Suc.prems(1) by (rule collector_quiet)
  then have g: "good (in_repo ?st)" by (simp add: quiet_def)
  show ?case
  proof (cases "in_exc ?st")
    case (Some e)
    then have "attempts H1 save source started previous coll k (Suc n) e (in_mapper ?st) (in_repo ?st) = ((res, exc), m', r')"
      using Suc.prems(2) by (simp add: Let_def)
    from Suc.IH [OF g this] q show ?thesis
      by (auto split: option.splits intro: quiet_trans quiet_synced)
  next
    case None
    obtain r1 where "save (in_repo ?st) (ESync (success_sync source started previous (in_report ?st))) = Some r1"
      "synced (in_repo ?st) (success_sync source started previous (in_report ?st)) r1"
      using save_synced [OF g] by blast
    with None q Suc.prems(2) show ?thesis by (auto simp: Let_def intro: quiet_synced)
  qed
qed

text \<open>A cycle always returns, and its result says which sync record it left.\<close>

lemma cycle_effect:
  assumes "good r"
  shows "\<exists>res m' r' s. run_cycle H1 save syncs source mr started (Some coll) m r = Some (res, m', r') \<and> synced r s r'
    \<and> sy_source s = source \<and> cy_status res = sy_status s
    \<and> ((\<exists>rep. s = success_sync source started (sync_of (syncs r) source) rep)
       \<or> (\<exists>msg. s = error_sync source started (sync_of (syncs r) source) msg))"
proof -
  let ?prev = "sync_of (syncs r) source"
  obtain res exc m' r1 where att: "attempts H1 save source started ?prev coll (mr + 1) 1 [] m r = ((res, exc), m', r1)"
    by (metis prod.exhaust)
  note eff = attempts_effect [OF assms att]
  show ?thesis
  proof (cases res)
    case (Some rep)
    then have "synced r (success_sync source started ?prev rep) r1" using eff by simp
    with Some att show ?thesis
      by (auto simp: run_cycle_def Let_def success_sync_def intro!: exI [of _ "success_sync source started ?prev rep"])
  next
    case None
    then have q: "quiet r r1" using eff by simp
    then have "good r1" by (simp add: quiet_def)
    let ?msg = "''failed after '' @ dec (mr + 1) @ '' attempt(s): '' @ truncate_message exc 500"
    let ?s = "error_sync source started ?prev ?msg"
    from save_synced [OF \<open>good r1\<close>] obtain r2 where r2: "save r1 (ESync ?s) = Some r2" "synced r1 ?s r2" by blast
    have "run_cycle H1 save syncs source mr started (Some coll) m r =
        Some (\<lparr>cy_source = source, cy_status = ''error'', cy_report = None, cy_message = Some ?msg\<rparr>, m', r2)"
      unfolding run_cycle_def Let_def option.case att None prod.case r2(1) ..
    moreover have "synced r ?s r2" using q r2(2) by (rule quiet_synced)
    moreover have "sy_source ?s = source" "sy_status ?s = ''error''" by (simp_all add: error_sync_def)
    ultimately show ?thesis by (intro exI conjI) auto
  qed
qed

end

section \<open>The history of a poller\<close>

text \<open>A cycle that finds no collector (the source is switched off or misconfigured) is skipped.\<close>

fun poll_history ::
    "(string \<Rightarrow> string) \<Rightarrow> string \<Rightarrow> nat \<Rightarrow> (dtime \<times> (nat \<Rightarrow> collector) option) list \<Rightarrow> mapper \<Rightarrow> repo
     \<Rightarrow> ((dtime \<times> cycle_result) list \<times> mapper \<times> repo) option" where
  "poll_history H1 source mr [] m r = Some ([], m, r)"
| "poll_history H1 source mr ((t, coll) # polls) m r =
     (case run_cycle H1 repo_save source_syncs source mr t coll m r of
        None \<Rightarrow> None
      | Some (res, m, r) \<Rightarrow>
          map_option (\<lambda>(hist, m, r). ((t, res) # hist, m, r)) (poll_history H1 source mr polls m r))"

text \<open>The cycles that were not skipped, and when a cycle last ended with a status.\<close>

definition worked :: "(dtime \<times> cycle_result) list \<Rightarrow> (dtime \<times> cycle_result) list" where
  "worked hist = filter (\<lambda>tc. cy_status (snd tc) \<noteq> ''skipped'') hist"

definition last_time :: "string \<Rightarrow> (dtime \<times> cycle_result) list \<Rightarrow> dtime option" where
  "last_time status hist = map_option fst (List.find (\<lambda>tc. cy_status (snd tc) = status) (rev hist))"

definition booked :: "string \<Rightarrow> repo \<Rightarrow> (dtime \<times> cycle_result) list \<Rightarrow> bool" where
  "booked source r hist =
     (case sync_of (source_syncs r) source of
        None \<Rightarrow> worked hist = []
      | Some s \<Rightarrow> worked hist \<noteq> [] \<and> sy_last_sync_at s = fst (last (worked hist))
          \<and> sy_status s = cy_status (snd (last (worked hist)))
          \<and> sy_last_success_at s = last_time ''success'' hist \<and> sy_last_error_at s = last_time ''error'' hist)"

lemma last_time_snoc: "last_time st (hist @ [(t, res)]) = (if cy_status res = st then Some t else last_time st hist)"
  by (simp add: last_time_def)

lemma worked_snoc:
  "worked (hist @ [(t, res)]) = (if cy_status res = ''skipped'' then worked hist else worked hist @ [(t, res)])"
  by (simp add: worked_def)

lemma last_time_worked:
  assumes "worked hist = []" "status \<noteq> ''skipped''"
  shows "last_time status hist = None"
proof -
  have "cy_status (snd tc) = ''skipped''" if "tc \<in> set hist" for tc
    using assms(1) that by (auto simp: worked_def filter_empty_conv)
  with assms(2) have "List.find (\<lambda>tc. cy_status (snd tc) = status) (rev hist) = None"
    by (fastforce simp: find_None_iff)
  then show ?thesis by (simp add: last_time_def)
qed

lemma booked_skipped:
  "cy_status res = ''skipped'' \<Longrightarrow> booked source r hist \<Longrightarrow> booked source r (hist @ [(t, res)])"
  by (simp add: booked_def worked_snoc last_time_snoc split: option.splits)

lemma booked_worked:
  assumes "repo_ok r" "booked source r hist"
  shows "\<exists>res m' r'. run_cycle H1 repo_save source_syncs source mr t (Some coll) m r = Some (res, m', r')
    \<and> cy_status res \<noteq> ''skipped'' \<and> repo_ok r' \<and> booked source r' (hist @ [(t, res)])"
proof -
  from memory.cycle_effect [OF assms(1), of H1 source mr t coll m] obtain res m' r' s where
    run: "run_cycle H1 repo_save source_syncs source mr t (Some coll) m r = Some (res, m', r')" and
    sy: "memory.synced r s r'" and src: "sy_source s = source" and st: "cy_status res = sy_status s" and
    s: "(\<exists>rep. s = success_sync source t (sync_of (source_syncs r) source) rep)
      \<or> (\<exists>msg. s = error_sync source t (sync_of (source_syncs r) source) msg)" by blast
  have now: "sync_of (source_syncs r') source = Some s" and ok: "repo_ok r'"
    using sy src by (auto simp: memory.synced_def)
  have prev: "(case sync_of (source_syncs r) source of None \<Rightarrow> None | Some p \<Rightarrow> sy_last_success_at p) = last_time ''success'' hist"
    "(case sync_of (source_syncs r) source of None \<Rightarrow> None | Some p \<Rightarrow> sy_last_error_at p) = last_time ''error'' hist"
    using assms(2) by (auto simp: booked_def last_time_worked split: option.splits)
  from s have "booked source r' (hist @ [(t, res)]) \<and> cy_status res \<noteq> ''skipped''"
  proof (elim disjE exE)
    fix rep assume "s = success_sync source t (sync_of (source_syncs r) source) rep"
    with now st prev show ?thesis by (simp add: booked_def success_sync_def last_time_snoc worked_snoc)
  next
    fix msg assume "s = error_sync source t (sync_of (source_syncs r) source) msg"
    with now st prev show ?thesis by (simp add: booked_def error_sync_def last_time_snoc worked_snoc)
  qed
  with run ok show ?thesis by blast
qed

lemma booked_cycle:
  assumes "repo_ok r" "booked source r hist"
  shows "\<exists>res m' r'. run_cycle H1 repo_save source_syncs source mr t coll m r = Some (res, m', r')
    \<and> (cy_status res = ''skipped'') = (coll = None) \<and> repo_ok r' \<and> booked source r' (hist @ [(t, res)])"
proof (cases coll)
  case None
  then show ?thesis using assms by (auto simp: run_cycle_def intro!: booked_skipped)
next
  case (Some c)
  with booked_worked [OF assms, of H1 mr t c m] show ?thesis by auto
qed

lemma booked_history:
  "repo_ok r \<Longrightarrow> booked source r hist0 \<Longrightarrow>
   \<exists>hist m' r'. poll_history H1 source mr polls m r = Some (hist, m', r') \<and> map fst hist = map fst polls
     \<and> map (\<lambda>tc. cy_status (snd tc) = ''skipped'') hist = map (\<lambda>p. snd p = None) polls
     \<and> booked source r' (hist0 @ hist)"
proof (induction polls arbitrary: m r hist0)
  case (Cons p polls)
  obtain t coll where p: "p = (t, coll)" by (cases p)
  from booked_cycle [OF Cons.prems, of H1 mr t coll m] obtain res m1 r1 where
    run: "run_cycle H1 repo_save source_syncs source mr t coll m r = Some (res, m1, r1)" and
    sk: "(cy_status res = ''skipped'') = (coll = None)" and
    ok: "repo_ok r1" "booked source r1 (hist0 @ [(t, res)])" by blast
  from Cons.IH [OF ok, of m1] obtain hist m' r' where
    "poll_history H1 source mr polls m1 r1 = Some (hist, m', r')" "map fst hist = map fst polls"
    "map (\<lambda>tc. cy_status (snd tc) = ''skipped'') hist = map (\<lambda>p. snd p = None) polls"
    "booked source r' ((hist0 @ [(t, res)]) @ hist)" by blast
  with p run sk show ?case by (intro exI [of _ "(t, res) # hist"] exI [of _ m'] exI [of _ r']) simp
qed simp

text \<open>C9: Whatever a source answers, in any number of cycles with any number of retries, every cycle of its
  poller ends; exactly the cycles that find no collector are skipped, and they leave the bookkeeping alone;
  afterwards the source's sync record names the start and the outcome of the last cycle that was not skipped,
  the start of the last cycle that succeeded and the start of the last one that failed, and it is missing
  exactly when every cycle was skipped.\<close>

theorem poller_bookkeeping:
  "\<exists>hist m' r'. poll_history H1 source max_retries polls m empty_repo = Some (hist, m', r')
     \<and> map fst hist = map fst polls
     \<and> map (\<lambda>tc. cy_status (snd tc) = ''skipped'') hist = map (\<lambda>p. snd p = None) polls
     \<and> booked source r' hist"
proof -
  have "booked source empty_repo []"
    by (simp add: booked_def sync_of_repo) (simp add: empty_repo_def worked_def)
  from booked_history [OF repo_ok_empty this, of H1 max_retries polls m] show ?thesis by simp
qed

section \<open>The scheduler\<close>

definition is_due :: "rat \<Rightarrow> rat dict \<Rightarrow> string \<Rightarrow> bool" where
  "is_due now next_run source = (case map_of next_run source of None \<Rightarrow> False | Some t \<Rightarrow> t \<le> now)"

lemma scheduler_pass_spec:
  "distinct (map fst ps) \<Longrightarrow>
   fst (scheduler_pass now done_at ps nr) = map fst (filter (\<lambda>p. is_due now nr (fst p)) ps)
   \<and> (\<forall>src. map_of (snd (scheduler_pass now done_at ps nr)) src =
        (case map_of (filter (\<lambda>p. is_due now nr (fst p)) ps) src of
           None \<Rightarrow> map_of nr src | Some interval \<Rightarrow> Some (done_at src + of_int interval)))"
proof (induction ps arbitrary: nr)
  case (Cons p ps)
  obtain src i where p: "p = (src, i)" by (cases p)
  let ?nr = "if is_due now nr src then dset nr src (done_at src + of_int i) else nr"
  have due: "is_due now ?nr s = is_due now nr s" if "s \<noteq> src" for s
    using that by (simp add: is_due_def)
  have ne: "fst q \<noteq> src" if "q \<in> set ps" for q
    using that Cons.prems p by force
  have f: "filter (\<lambda>p. is_due now ?nr (fst p)) ps = filter (\<lambda>p. is_due now nr (fst p)) ps"
    by (rule filter_cong [OF refl]) (rule due [OF ne])
  have fresh: "map_of (filter (\<lambda>p. is_due now nr (fst p)) ps) src = None"
    using Cons.prems p by (auto simp: map_of_eq_None_iff)
  have step: "scheduler_pass now done_at (p # ps) nr =
      (let (ran, nr') = scheduler_pass now done_at ps ?nr in (if is_due now nr src then src # ran else ran, nr'))"
    by (simp add: p is_due_def Let_def)
  obtain ran nr' where rec: "scheduler_pass now done_at ps ?nr = (ran, nr')" by fastforce
  have d: "distinct (map fst ps)" using Cons.prems by simp
  from Cons.IH [OF d, of ?nr] have
    IH: "ran = map fst (filter (\<lambda>p. is_due now nr (fst p)) ps)"
      "\<And>s. map_of nr' s = (case map_of (filter (\<lambda>p. is_due now nr (fst p)) ps) s of
         None \<Rightarrow> map_of ?nr s | Some interval \<Rightarrow> Some (done_at s + of_int interval))"
    unfolding rec f by simp_all
  have res: "scheduler_pass now done_at (p # ps) nr = (if is_due now nr src then src # ran else ran, nr')"
    unfolding step rec by simp
  show ?case
    unfolding res using IH(1) fresh
    by (auto simp: p IH(2) split: option.splits)
qed simp

text \<open>A pass of the worker runs exactly the pollers that are due, each once and in their order, schedules each
  of them one interval after its cycle ended, and leaves the schedule of the others alone; so a poller is
  never run again before its interval has passed.\<close>

lemma scheduler_runs_due:
  assumes "distinct (map fst pollers)"
  shows "fst (scheduler_pass now done_at pollers next_run) = map fst (filter (\<lambda>p. is_due now next_run (fst p)) pollers)
    \<and> ((src, interval) \<in> set pollers \<and> is_due now next_run src \<and> later < done_at src + of_int interval \<longrightarrow>
        src \<notin> set (fst (scheduler_pass later done_at' pollers (snd (scheduler_pass now done_at pollers next_run)))))"
proof (intro conjI impI)
  let ?next = "snd (scheduler_pass now done_at pollers next_run)"
  from scheduler_pass_spec [OF assms, of now done_at next_run]
  show "fst (scheduler_pass now done_at pollers next_run) = map fst (filter (\<lambda>p. is_due now next_run (fst p)) pollers)"
    by blast
  assume h: "(src, interval) \<in> set pollers \<and> is_due now next_run src \<and> later < done_at src + of_int interval"
  have "distinct (map fst (filter (\<lambda>p. is_due now next_run (fst p)) pollers))"
    using assms by (rule distinct_map_filter)
  then have "map_of (filter (\<lambda>p. is_due now next_run (fst p)) pollers) src = Some interval" using h by simp
  with scheduler_pass_spec [OF assms, of now done_at next_run]
  have "map_of ?next src = Some (done_at src + of_int interval)" by (auto split: option.splits)
  with h have "\<not> is_due later ?next src" by (simp add: is_due_def)
  with scheduler_pass_spec [OF assms, of later done_at' ?next]
  show "src \<notin> set (fst (scheduler_pass later done_at' pollers ?next))" by auto
qed

theorem scheduler_runs_due_witness:
  "''zabbix'' \<notin> set (fst (scheduler_pass 70 (\<lambda>_. 71) [(''zabbix'', 60), (''fleet'', 5)]
     (snd (scheduler_pass 12 (\<lambda>_. 13) [(''zabbix'', 60), (''fleet'', 5)] [(''zabbix'', 0), (''fleet'', 20)]))))"
  using scheduler_runs_due [of "[(''zabbix'', 60), (''fleet'', 5)]" 12 "\<lambda>_. 13" "[(''zabbix'', 0), (''fleet'', 20)]"
      "''zabbix''" 60 70 "\<lambda>_. 71"]
  by (simp add: is_due_def)

end
