(* ===== verification/Gaps.thy ===== *)
theory Gaps
  imports Gov_Store Py_Time "HOL-Library.Monad_Syntax"
begin

text \<open>
  The technical-gap workflow: the state machine, the records and the deadline report of
  \<^verbatim>\<open>services/gap_workflow.py\<close>, the two routes that change gaps (\<^verbatim>\<open>api/routes/compliance.py\<close>) and the
  table they write to (\<^verbatim>\<open>repositories/state_postgres.py\<close>: an upsert by \<^verbatim>\<open>gap_id\<close>, read back with the
  most recently updated gap first and cut to 1000 rows).  The state is that list of rows.
\<close>

section \<open>The state machine\<close>

definition GAP_STATUSES :: "string list" where
  "GAP_STATUSES = [''candidate'', ''confirmed'', ''policy_review'', ''false_positive'', ''remediation'',
     ''accepted_exception'', ''resolved'']"

definition GAP_VALID :: "string list dict" where
  "GAP_VALID = [(''confirmed'', [''candidate'', ''policy_review'', ''remediation'', ''accepted_exception'']),
     (''false_positive'', [''candidate'', ''policy_review'']), (''policy_review'', [''candidate'']),
     (''remediation'', [''confirmed'']), (''accepted_exception'', [''confirmed'']),
     (''resolved'', [''remediation'']), (''candidate'', [])]"

definition OPEN_STATUSES :: "string list" where
  "OPEN_STATUSES = [''candidate'', ''confirmed'', ''policy_review'', ''remediation'']"

definition CLOSED_STATUSES :: "string list" where
  "CLOSED_STATUSES = [''false_positive'', ''accepted_exception'', ''resolved'']"

definition RESOLUTION_TYPES :: "string list" where
  "RESOLUTION_TYPES = [''automatically_reverified'', ''manually_verified'', ''policy_confirmed'']"

definition gap_can_transition :: "string \<Rightarrow> string \<Rightarrow> bool" where
  "gap_can_transition current target = table_allows GAP_VALID ''candidate'' current target"

definition gap_id_for :: "(string \<Rightarrow> string) \<Rightarrow> string \<Rightarrow> string \<Rightarrow> string \<Rightarrow> string" where
  "gap_id_for H1 source control_id key = short_id H1 [PStr source, PStr control_id, PStr key] ''gap''"

definition build_gap ::
    "(string \<Rightarrow> string) \<Rightarrow> string \<Rightarrow> string \<Rightarrow> string \<Rightarrow> string \<Rightarrow> string \<Rightarrow> string \<Rightarrow> string \<Rightarrow> pdict" where
  "build_gap H1 source control_id key title detail now created_by =
     [(''gap_id'', PStr (gap_id_for H1 source control_id key)), (''source'', PStr source),
      (''control_id'', PStr control_id), (''key'', PStr key), (''title'', PStr title), (''detail'', PStr detail),
      (''status'', PStr ''candidate''), (''assignee'', PStr []), (''due_date'', PStr []),
      (''resolution'', PStr []), (''evidence_ref'', PStr []), (''created_by'', PStr created_by),
      (''created_at'', PStr now), (''updated_at'', PStr now),
      (''history'', PList [PDict [(''ts'', PStr now), (''actor'', PStr created_by), (''action'', PStr ''created''),
         (''to'', PStr ''candidate'')]])]"

text \<open>The keyword arguments of a transition.\<close>

record gap_args =
  ga_actor :: string
  ga_now :: string
  ga_assignee :: string
  ga_due_date :: string
  ga_note :: string
  ga_resolution_type :: string
  ga_verifying_scan :: string
  ga_evidence_ref :: string

definition set_if :: "string \<Rightarrow> string \<Rightarrow> pdict \<Rightarrow> pdict" where
  "set_if k v d = (if v \<noteq> [] then dset d k (PStr v) else d)"

definition gap_entry :: "string \<Rightarrow> gap_args \<Rightarrow> pv" where
  "gap_entry target a =
     PDict [(''ts'', PStr (ga_now a)), (''actor'', PStr (ga_actor a)), (''action'', PStr ''transition''),
       (''to'', PStr target), (''note'', PStr (ga_note a)),
       (''resolution_type'', PStr (if target = ''resolved'' then ga_resolution_type a else []))]"

definition apply_transition :: "pdict \<Rightarrow> string \<Rightarrow> gap_args \<Rightarrow> pdict" where
  "apply_transition gap target a =
     (let gap = dset gap ''status'' (PStr target);
          gap = dset gap ''updated_at'' (PStr (ga_now a));
          gap = set_if ''assignee'' (ga_assignee a) gap;
          gap = set_if ''due_date'' (ga_due_date a) gap;
          gap = (if target \<in> {''resolved'', ''accepted_exception'', ''false_positive''}
                 then set_if ''resolution'' (ga_note a) gap else gap);
          gap = set_if ''evidence_ref'' (ga_evidence_ref a) gap;
          gap = (if target = ''resolved'' then
                   dset (dset (dset (dset gap
                     ''resolution_type'' (PStr (sor (ga_resolution_type a) ''manually_verified'')))
                     ''verifier'' (PStr (ga_actor a))) ''verified_at'' (PStr (ga_now a)))
                     ''verifying_scan'' (PStr (ga_verifying_scan a))
                 else gap)
      in dappend gap ''history'' (gap_entry target a))"

section \<open>Dates\<close>

text \<open>The numeric directives of \<^verbatim>\<open>strptime\<close>: one or two digits in a range (a day may
  be padded with a space), up to six for a fraction.\<close>

definition take_12 :: "int \<Rightarrow> int \<Rightarrow> string \<Rightarrow> (int \<times> string) option" where
  "take_12 lo hi s =
     (let ds = takeWhile is_digit s; n = int (undec ds)
      in if ds \<noteq> [] \<and> length ds \<le> 2 \<and> lo \<le> n \<and> n \<le> hi then Some (n, dropWhile is_digit s) else None)"

definition take_day :: "string \<Rightarrow> (int \<times> string) option" where
  "take_day s =
     (if s \<noteq> [] \<and> hd s = CHR '' '' then
        (if length (takeWhile is_digit (tl s)) = 1 then take_12 1 9 (tl s) else None)
      else take_12 1 31 s)"

definition strp_date :: "string \<Rightarrow> (int \<times> string) option" where
  "strp_date s = do {
     (y, s) \<leftarrow> take_num 4 s;
     s \<leftarrow> take_char (CHR ''-'') s;
     (m, s) \<leftarrow> take_12 1 12 s;
     s \<leftarrow> take_char (CHR ''-'') s;
     (d, s) \<leftarrow> take_day s;
     if valid_date y m d then Some (date_us y m d, s) else None }"

definition strp_time :: "string \<Rightarrow> (int \<times> string) option" where
  "strp_time s = do {
     s \<leftarrow> take_char (CHR ''T'') s;
     (h, s) \<leftarrow> take_12 0 23 s;
     s \<leftarrow> take_char (CHR '':'') s;
     (mi, s) \<leftarrow> take_12 0 59 s;
     s \<leftarrow> take_char (CHR '':'') s;
     (sec, s) \<leftarrow> take_12 0 59 s;
     Some (time_us h mi sec, s) }"

definition strp_fraction :: "string \<Rightarrow> (int \<times> string) option" where
  "strp_fraction s = do {
     s \<leftarrow> take_char (CHR ''.'') s;
     let ds = takeWhile is_digit s;
     if ds = [] \<or> 6 < length ds then None
     else Some (int (undec (ds @ replicate (6 - length ds) (CHR ''0''))), dropWhile is_digit s) }"

text \<open>\<^verbatim>\<open>_as_date\<close>: the three formats, each on its own prefix of the text, then the ISO parser without its offset.\<close>

definition strp_1 :: "string \<Rightarrow> int option" where
  "strp_1 s = do { (d, r) \<leftarrow> strp_date (take 14 s); if r = [] then Some d else None }"

definition strp_2 :: "string \<Rightarrow> int option" where
  "strp_2 s = do { (d, r) \<leftarrow> strp_date (take 23 s); (t, r) \<leftarrow> strp_time r; if r = [] then Some (d + t) else None }"

definition strp_3 :: "string \<Rightarrow> int option" where
  "strp_3 s = do { (d, r) \<leftarrow> strp_date (take 26 s); (t, r) \<leftarrow> strp_time r; (f, r) \<leftarrow> strp_fraction r;
     if r = [] then Some (d + t + f) else None }"

definition as_date :: "pv \<Rightarrow> int option" where
  "as_date v =
     (let s = strip (pstr (por v (PStr [])))
      in if s = [] then None
         else case strp_1 s of Some d \<Rightarrow> Some d
              | None \<Rightarrow> (case strp_2 s of Some d \<Rightarrow> Some d
              | None \<Rightarrow> (case strp_3 s of Some d \<Rightarrow> Some d
              | None \<Rightarrow> map_option dt_us (from_iso (z_to_offset s)))))"

section \<open>Deadlines\<close>

record gap_report =
  gr_overdue :: "pdict list"
  gr_expired :: "pdict list"
  gr_soon :: "pdict list"

definition gap_row :: "pdict \<Rightarrow> string \<Rightarrow> int \<Rightarrow> pdict" where
  "gap_row g status days_left =
     [(''gap_id'', dget g ''gap_id''), (''title'', dget g ''title''), (''control_id'', dget g ''control_id''),
      (''assignee'', dget g ''assignee''), (''due_date'', dget g ''due_date''), (''status'', PStr status),
      (''days_left'', PInt days_left)]"

definition classify_gap :: "int option \<Rightarrow> int \<Rightarrow> gap_report \<Rightarrow> pdict \<Rightarrow> gap_report" where
  "classify_gap nd soon_days rep g =
     (let status = gstr g ''status''
      in case (nd, as_date (dget g ''due_date'')) of
           (Some nd, Some due) \<Rightarrow>
             (let days_left = td_days (due - nd); row = gap_row g status days_left
              in if status = ''accepted_exception'' then
                   (if due < nd then rep\<lparr>gr_expired := gr_expired rep @ [row]\<rparr>
                    else if days_left \<le> soon_days then rep\<lparr>gr_soon := gr_soon rep @ [row]\<rparr> else rep)
                 else if status \<in> set OPEN_STATUSES \<and> due < nd then rep\<lparr>gr_overdue := gr_overdue rep @ [row]\<rparr>
                 else rep)
         | _ \<Rightarrow> rep)"

definition days_left_of :: "pdict \<Rightarrow> int" where
  "days_left_of r = int_of_pv (dget r ''days_left'')"

definition evaluate_gap_deadlines :: "pdict list \<Rightarrow> string \<Rightarrow> int \<Rightarrow> gap_report" where
  "evaluate_gap_deadlines gaps now soon_days =
     (let rep = foldl (classify_gap (as_date (PStr now)) soon_days)
                  \<lparr>gr_overdue = [], gr_expired = [], gr_soon = []\<rparr> gaps
      in \<lparr>gr_overdue = sort_key days_left_of (gr_overdue rep),
          gr_expired = sort_key days_left_of (gr_expired rep),
          gr_soon = sort_key days_left_of (gr_soon rep)\<rparr>)"

section \<open>The table and the routes\<close>

type_synonym gap_table = "pdict list"

definition GAP_LIMIT :: nat where
  "GAP_LIMIT = 1000"

definition RESOLUTION_FIELDS :: "string list" where
  "RESOLUTION_FIELDS = [''resolution_type'', ''verifier'', ''verified_at'', ''verifying_scan'']"

definition UPDATED_COLS :: "string list" where
  "UPDATED_COLS = [''status'', ''assignee'', ''due_date'', ''resolution'', ''evidence_ref'', ''history'']"

definition detail_of :: "pdict \<Rightarrow> pdict" where
  "detail_of rec = filter (\<lambda>kv. snd kv \<noteq> PNone) (map (\<lambda>k. (k, dget rec k)) RESOLUTION_FIELDS)"

definition updated_row :: "string \<Rightarrow> pdict \<Rightarrow> pdict \<Rightarrow> pdict" where
  "updated_row db_now row rec =
     dmerge (dset (dmerge (filter (\<lambda>kv. fst kv \<notin> set RESOLUTION_FIELDS) row)
               (map (\<lambda>k. (k, dget rec k)) UPDATED_COLS)) ''updated_at'' (PStr db_now))
       (detail_of rec)"

definition save_gap :: "string \<Rightarrow> gap_table \<Rightarrow> string \<Rightarrow> pdict \<Rightarrow> gap_table" where
  "save_gap db_now t gap_id rec =
     (case List.find (\<lambda>g. dget g ''gap_id'' = PStr gap_id) t of
        None \<Rightarrow> dset rec ''updated_at'' (PStr db_now) # t
      | Some row \<Rightarrow> updated_row db_now row rec # filter (\<lambda>g. dget g ''gap_id'' \<noteq> PStr gap_id) t)"

definition load_gaps :: "gap_table \<Rightarrow> string option \<Rightarrow> gap_table" where
  "load_gaps t status =
     (case status of
        Some (c # cs) \<Rightarrow> filter (\<lambda>g. dget g ''status'' = PStr (c # cs)) t
      | _ \<Rightarrow> take GAP_LIMIT t)"

definition gap_actor :: "gov_request \<Rightarrow> string" where
  "gap_actor rq = sor (rq_user rq) ''unknown''"

definition gap_create :: "gov_env \<Rightarrow> gov_request \<Rightarrow> pdict \<Rightarrow> gap_table \<Rightarrow> (herr + pdict) \<times> gap_table" where
  "gap_create env rq payload t =
     (if \<not> allowed env rq then (Inl Forbidden, t)
      else
        let gap = build_gap (ge_H1 env) (pstr (dgetd payload ''source'' (PStr ''manual'')))
                    (ptext payload ''control_id'') (sor (ptext payload ''key'') (ptext payload ''title''))
                    (ptext payload ''title'') (ptext payload ''detail'') (rq_now rq) (gap_actor rq)
        in (Inr gap, save_gap (rq_now rq) t (gstr gap ''gap_id'') gap))"

definition gap_transition ::
    "gov_env \<Rightarrow> gov_request \<Rightarrow> string \<Rightarrow> pdict \<Rightarrow> gap_table \<Rightarrow> (herr + pdict) \<times> gap_table" where
  "gap_transition env rq gap_id payload t =
     (if \<not> allowed env rq then (Inl Forbidden, t)
      else case List.find (\<lambda>g. dget g ''gap_id'' = PStr gap_id) (load_gaps t None) of
        None \<Rightarrow> (Inl NotFound, t)
      | Some gap \<Rightarrow>
          let target = pstrip payload ''target'';
              rtype = pstrip payload ''resolution_type''
          in if target \<notin> set GAP_STATUSES then (Inl BadRequest, t)
             else if \<not> gap_can_transition (pstr (dget gap ''status'')) target then (Inl BadRequest, t)
             else if target = ''resolved'' \<and> rtype \<noteq> [] \<and> rtype \<notin> set RESOLUTION_TYPES then (Inl BadRequest, t)
             else
               let gap = apply_transition gap target
                     \<lparr>ga_actor = gap_actor rq, ga_now = rq_now rq, ga_assignee = ptext payload ''assignee'',
                      ga_due_date = ptext payload ''due_date'', ga_note = ptext payload ''note'',
                      ga_resolution_type = rtype, ga_verifying_scan = ptext payload ''verifying_scan'',
                      ga_evidence_ref = ptext payload ''evidence_ref''\<rparr>
               in (Inr gap, save_gap (rq_now rq) t gap_id gap))"


datatype gap_call = Create gov_request pdict | Transition gov_request string pdict

primrec gap_exec :: "gov_env \<Rightarrow> gap_call \<Rightarrow> gap_table \<Rightarrow> (herr + pdict) \<times> gap_table" where
  "gap_exec env (Create rq payload) t = gap_create env rq payload t"
| "gap_exec env (Transition rq gap_id payload) t = gap_transition env rq gap_id payload t"

definition gap_run :: "gov_env \<Rightarrow> gap_call list \<Rightarrow> gap_table \<Rightarrow> gap_table" where
  "gap_run env calls t = foldl (\<lambda>t c. snd (gap_exec env c t)) t calls"

section \<open>Lemmas on transitions\<close>

lemma gap_can_statuses: "gap_can_transition c t \<Longrightarrow> t \<in> set GAP_STATUSES"
  by (auto simp: gap_can_transition_def table_allows_def GAP_VALID_def GAP_STATUSES_def split: if_splits)

lemma dget_set_if: "dget (set_if k v d) k' = (if v \<noteq> [] \<and> k' = k then PStr v else dget d k')"
  by (simp add: set_if_def)

lemma gap_status [simp]: "dget (apply_transition g t a) ''status'' = PStr t"
  by (simp add: apply_transition_def Let_def dget_set_if)

lemma gap_history [simp]:
  "dget (apply_transition g t a) ''history'' = PList (as_list (dget g ''history'') @ [gap_entry t a])"
  by (simp add: apply_transition_def Let_def dget_set_if)

lemma gap_entry_target [simp]: "log_target (gap_entry t a) = t"
  by (simp add: gap_entry_def log_target_def)

interpretation gap_flow: workflow gap_can_transition apply_transition GAP_STATUSES "''history''"
    "\<lambda>g t a. gap_entry t a"
  by unfold_locales (simp_all add: gap_can_statuses)

text \<open>What a stored gap always satisfies: its history starts at \<^verbatim>\<open>candidate\<close>, follows the state machine
  and ends in its status.\<close>

definition gap_ok :: "pdict \<Rightarrow> bool" where
  "gap_ok g = (let ts = map log_target (as_list (dget g ''history''))
               in ts \<noteq> [] \<and> hd ts = ''candidate'' \<and> legal_path gap_can_transition ''candidate'' (tl ts)
                  \<and> dget g ''status'' = PStr (last ts))"

lemma gap_ok_build: "gap_ok (build_gap H source control_id key title detail now created_by)"
  by (simp add: gap_ok_def build_gap_def log_target_def)

lemma legal_path_snoc: "legal_path can s ts \<Longrightarrow> can (last (s # ts)) t \<Longrightarrow> legal_path can s (ts @ [t])"
  by (simp add: legal_path_append)

lemma gap_ok_apply:
  assumes "gap_ok g" "gap_can_transition (pstr (dget g ''status'')) t"
  shows "gap_ok (apply_transition g t a)"
proof -
  obtain ts where ts: "map log_target (as_list (dget g ''history'')) = ''candidate'' # ts"
      "legal_path gap_can_transition ''candidate'' ts" "dget g ''status'' = PStr (last (''candidate'' # ts))"
    using assms(1) by (cases "map log_target (as_list (dget g ''history''))") (auto simp: gap_ok_def Let_def)
  have "legal_path gap_can_transition ''candidate'' (ts @ [t])"
    using ts assms(2) by (intro legal_path_snoc) simp_all
  with ts(1) show ?thesis by (simp add: gap_ok_def)
qed

section \<open>Lemmas on the table\<close>

lemma detail_of_none: "k \<notin> set RESOLUTION_FIELDS \<Longrightarrow> \<not> dhas (detail_of rec) k"
  by (auto simp: dhas_def detail_of_def map_of_eq_None_iff)

lemma dwf_detail_of: "dwf (detail_of rec)"
  unfolding detail_of_def by (simp add: RESOLUTION_FIELDS_def)

definition upd_of :: "pdict \<Rightarrow> pdict" where
  "upd_of rec = map (\<lambda>k. (k, dget rec k)) UPDATED_COLS"

lemma upd_of_facts:
  "dwf (upd_of rec)" "dhas (upd_of rec) k = (k \<in> set UPDATED_COLS)"
  "k \<in> set UPDATED_COLS \<Longrightarrow> dget (upd_of rec) k = dget rec k"
  by (auto simp: upd_of_def UPDATED_COLS_def dhas_def dget_def)

lemma dget_updated_row:
  assumes "k \<notin> set RESOLUTION_FIELDS" "k \<noteq> ''updated_at''"
  shows "dget (updated_row n row rec) k = (if k \<in> set UPDATED_COLS then dget rec k
    else dget (filter (\<lambda>kv. fst kv \<notin> set RESOLUTION_FIELDS) row) k)"
  unfolding updated_row_def upd_of_def [symmetric]
  using assms by (simp add: dget_dmerge [OF dwf_detail_of] dget_dmerge [OF upd_of_facts(1)] upd_of_facts detail_of_none)

lemma gap_id_updated_row: "dget (updated_row n row rec) ''gap_id'' = dget row ''gap_id''"
proof -
  have "dget (filter (\<lambda>kv. fst kv \<notin> set RESOLUTION_FIELDS) row) ''gap_id'' = dget row ''gap_id''"
    by (induction row) (auto simp: RESOLUTION_FIELDS_def)
  then show ?thesis by (simp add: dget_updated_row RESOLUTION_FIELDS_def UPDATED_COLS_def)
qed

lemma gap_ok_updated_row: "gap_ok rec \<Longrightarrow> gap_ok (updated_row n row rec)"
  by (simp add: gap_ok_def dget_updated_row UPDATED_COLS_def RESOLUTION_FIELDS_def)

lemma gap_ok_new_row: "gap_ok rec \<Longrightarrow> gap_ok (dset rec ''updated_at'' v)"
  by (simp add: gap_ok_def)

definition gap_ids :: "gap_table \<Rightarrow> pv list" where
  "gap_ids t = map (\<lambda>g. dget g ''gap_id'') t"

definition table_ok :: "gap_table \<Rightarrow> bool" where
  "table_ok t = (distinct (gap_ids t) \<and> list_all gap_ok t)"

lemma find_None_gap: "List.find (\<lambda>g. dget g ''gap_id'' = v) t = None \<longleftrightarrow> v \<notin> set (gap_ids t)"
  by (auto simp: find_None_iff gap_ids_def)

lemma gap_ids_filter: "gap_ids (filter (\<lambda>g. dget g ''gap_id'' \<noteq> v) t) = filter (\<lambda>i. i \<noteq> v) (gap_ids t)"
  by (induction t) (auto simp: gap_ids_def)

lemma find_SomeD: "List.find P xs = Some x \<Longrightarrow> x \<in> set xs \<and> P x"
  by (auto simp: find_Some_iff)

lemma table_ok_save:
  assumes "table_ok t" "gap_ok rec" "dget rec ''gap_id'' = PStr i"
  shows "table_ok (save_gap n t i rec)"
proof (cases "List.find (\<lambda>g. dget g ''gap_id'' = PStr i) t")
  case None
  then have "PStr i \<notin> set (gap_ids t)" by (simp add: find_None_gap)
  moreover have "gap_ids (dset rec ''updated_at'' (PStr n) # t) = PStr i # gap_ids t"
    using assms by (simp add: gap_ids_def)
  ultimately show ?thesis using assms None by (simp add: save_gap_def table_ok_def gap_ok_new_row)
next
  case (Some row)
  then have id: "dget row ''gap_id'' = PStr i" by (auto dest: find_SomeD)
  let ?t = "filter (\<lambda>g. dget g ''gap_id'' \<noteq> PStr i) t"
  have "gap_ids (updated_row n row rec # ?t) = PStr i # filter (\<lambda>j. j \<noteq> PStr i) (gap_ids t)"
    using gap_ids_filter [of "PStr i" t] by (simp add: gap_ids_def gap_id_updated_row id)
  moreover have "list_all gap_ok (updated_row n row rec # ?t)"
    using assms by (auto simp: table_ok_def gap_ok_updated_row list_all_iff)
  ultimately show ?thesis using assms Some by (simp add: save_gap_def table_ok_def)
qed

lemma dget_gap_apply: "k \<notin> {''status'', ''updated_at'', ''assignee'', ''due_date'', ''resolution'', ''evidence_ref'',
    ''resolution_type'', ''verifier'', ''verified_at'', ''verifying_scan'', ''history''}
    \<Longrightarrow> dget (apply_transition g t a) k = dget g k"
  by (simp add: apply_transition_def Let_def dget_set_if)

lemma set_load_gaps: "set (load_gaps t s) \<subseteq> set t"
  by (auto simp: load_gaps_def split: option.splits list.splits dest: in_set_takeD)

lemma table_ok_create: "table_ok t \<Longrightarrow> table_ok (snd (gap_create env rq p t))"
proof -
  assume t: "table_ok t"
  have id: "dget (build_gap H s c k ti d n b) ''gap_id'' = PStr (gstr (build_gap H s c k ti d n b) ''gap_id'')"
    for H s c k ti d n b by (simp add: build_gap_def)
  show ?thesis using t by (simp add: gap_create_def Let_def table_ok_save gap_ok_build id)
qed

lemma table_ok_transition: "table_ok t \<Longrightarrow> table_ok (snd (gap_transition env rq i p t))"
proof (cases "List.find (\<lambda>g. dget g ''gap_id'' = PStr i) (load_gaps t None)")
  case None
  then show "table_ok t \<Longrightarrow> ?thesis" by (simp add: gap_transition_def)
next
  case (Some g)
  assume t: "table_ok t"
  have g: "g \<in> set t" "dget g ''gap_id'' = PStr i" using find_SomeD [OF Some] set_load_gaps by auto
  then have "gap_ok g" using t by (auto simp: table_ok_def list_all_iff)
  then show ?thesis using t Some g(2)
    by (simp add: gap_transition_def Let_def table_ok_save gap_ok_apply dget_gap_apply)
qed

lemma table_ok_exec: "table_ok t \<Longrightarrow> table_ok (snd (gap_exec env c t))"
  by (cases c) (simp_all add: table_ok_create table_ok_transition)

lemma table_ok_run: "table_ok t \<Longrightarrow> table_ok (gap_run env calls t)"
  by (induction calls arbitrary: t) (simp_all add: gap_run_def table_ok_exec)

lemma gap_create_done: "gap_create env rq p t = (Inr gap, t') \<Longrightarrow>
    (\<exists>H s c k ti d n b. gap = build_gap H s c k ti d n b) \<and> t' = save_gap (rq_now rq) t (gstr gap ''gap_id'') gap"
  unfolding gap_create_def Let_def by (simp split: if_splits) blast

section \<open>Properties\<close>

text \<open>C11: In every history of gap requests each gap is stored once, and its history starts at
  \<^verbatim>\<open>candidate\<close>, only takes steps the state machine allows and ends in the stored status.\<close>

theorem gap_histories_legal: "table_ok (gap_run env calls [])"
  by (rule table_ok_run) (simp add: table_ok_def gap_ids_def)

text \<open>Creating a gap whose source, control and key are already stored does not keep the stored one:
  its status goes back to \<^verbatim>\<open>candidate\<close> and its history is replaced by one entry.\<close>

lemma gap_create_resets:
  assumes "gap_create env rq payload t = (Inr gap, t')"
  shows "\<exists>row. List.find (\<lambda>g. dget g ''gap_id'' = dget gap ''gap_id'') t' = Some row
    \<and> gstr row ''status'' = ''candidate'' \<and> length (as_list (dget row ''history'')) = 1"
proof -
  obtain H s c k ti d n b where g: "gap = build_gap H s c k ti d n b"
      and t': "t' = save_gap (rq_now rq) t (gstr gap ''gap_id'') gap"
    using gap_create_done [OF assms] by blast
  obtain i where id: "dget gap ''gap_id'' = PStr i" unfolding g build_gap_def by simp
  have st: "dget gap ''status'' = PStr ''candidate''" and h: "length (as_list (dget gap ''history'')) = 1"
    unfolding g build_gap_def by simp_all
  have t'': "t' = save_gap (rq_now rq) t i gap" using t' gstr_PStr [OF id] by simp
  show ?thesis
  proof (cases "List.find (\<lambda>g. dget g ''gap_id'' = PStr i) t")
    case None
    then show ?thesis using st h id by (simp add: t'' save_gap_def gstr_def)
  next
    case (Some row)
    then have "dget row ''gap_id'' = PStr i" by (auto dest: find_SomeD)
    then show ?thesis using Some st h id
      by (simp add: t'' save_gap_def gap_id_updated_row gstr_def dget_updated_row UPDATED_COLS_def
          RESOLUTION_FIELDS_def)
  qed
qed

definition gap_demo_env :: gov_env where
  "gap_demo_env = \<lparr>ge_H = id, ge_H1 = id, ge_auth = True, ge_sod = False, ge_clock = (\<lambda>_. ''2024-05-01T00:00:00''), ge_fails = (\<lambda>_ _ _. False)\<rparr>"

definition gap_demo_rq :: gov_request where
  "gap_demo_rq = \<lparr>rq_role = Some ''security'', rq_user = ''kim'', rq_now = ''2024-05-01T00:00:00''\<rparr>"

definition gap_demo_payload :: pdict where
  "gap_demo_payload = [(''control_id'', PStr ''2.9.3''), (''title'', PStr ''no backup'')]"

definition gap_demo_table :: gap_table where
  "gap_demo_table = gap_run gap_demo_env
     [Create gap_demo_rq gap_demo_payload,
      Transition gap_demo_rq ''gap-manual|2.9.3|no '' [(''target'', PStr ''confirmed'')]] []"

lemma gap_demo_confirmed: "map (\<lambda>g. gstr g ''status'') gap_demo_table = [''confirmed'']"
  by code_simp

lemma gap_demo_created:
  "\<exists>gap t'. gap_create gap_demo_env gap_demo_rq gap_demo_payload gap_demo_table = (Inr gap, t')"
  by (simp add: gap_create_def Let_def allowed_def gap_demo_env_def gap_demo_rq_def)

lemma gap_create_resets_witness:
  "\<exists>gap t' row. gap_create gap_demo_env gap_demo_rq gap_demo_payload gap_demo_table = (Inr gap, t')
     \<and> List.find (\<lambda>g. dget g ''gap_id'' = dget gap ''gap_id'') t' = Some row
     \<and> gstr row ''status'' = ''candidate'' \<and> length (as_list (dget row ''history'')) = 1"
  using gap_demo_created gap_create_resets by blast

text \<open>The deadline report as filters.\<close>

definition past_due :: "int \<Rightarrow> pdict \<Rightarrow> bool" where
  "past_due nd g = (case as_date (dget g ''due_date'') of None \<Rightarrow> False | Some due \<Rightarrow> due < nd)"

definition due_within :: "int \<Rightarrow> int \<Rightarrow> pdict \<Rightarrow> bool" where
  "due_within n nd g =
     (case as_date (dget g ''due_date'') of None \<Rightarrow> False | Some due \<Rightarrow> nd \<le> due \<and> td_days (due - nd) \<le> n)"

definition deadline_row :: "int \<Rightarrow> pdict \<Rightarrow> pdict" where
  "deadline_row nd g = gap_row g (gstr g ''status'')
     (case as_date (dget g ''due_date'') of None \<Rightarrow> 0 | Some due \<Rightarrow> td_days (due - nd))"

definition open_past_due :: "int \<Rightarrow> pdict \<Rightarrow> bool" where
  "open_past_due nd g = (gstr g ''status'' \<in> set OPEN_STATUSES \<and> past_due nd g)"

definition excepted :: "pdict \<Rightarrow> bool" where
  "excepted g = (gstr g ''status'' = ''accepted_exception'')"

lemma classify_gap_eq:
  "classify_gap (Some nd) n rep g =
     \<lparr>gr_overdue = gr_overdue rep @ map (deadline_row nd) (filter (open_past_due nd) [g]),
      gr_expired = gr_expired rep @ map (deadline_row nd) (filter (\<lambda>g. excepted g \<and> past_due nd g) [g]),
      gr_soon = gr_soon rep @ map (deadline_row nd) (filter (\<lambda>g. excepted g \<and> due_within n nd g) [g])\<rparr>"
  by (cases "as_date (dget g ''due_date'')")
    (auto simp: classify_gap_def Let_def excepted_def past_due_def due_within_def deadline_row_def
      open_past_due_def OPEN_STATUSES_def)

lemma foldl_classify_gap:
  "foldl (classify_gap (Some nd) n) rep gaps =
     \<lparr>gr_overdue = gr_overdue rep @ map (deadline_row nd) (filter (open_past_due nd) gaps),
      gr_expired = gr_expired rep @ map (deadline_row nd) (filter (\<lambda>g. excepted g \<and> past_due nd g) gaps),
      gr_soon = gr_soon rep @ map (deadline_row nd) (filter (\<lambda>g. excepted g \<and> due_within n nd g) gaps)\<rparr>"
  by (induction gaps arbitrary: rep) (simp_all add: classify_gap_eq)

lemma classify_gap_no_now: "classify_gap None n rep g = rep"
  by (simp add: classify_gap_def Let_def)

lemma foldl_classify_no_now: "foldl (classify_gap None n) rep gaps = rep"
  by (induction gaps) (simp_all add: classify_gap_no_now)

text \<open>The deadline report lists exactly the open gaps past their due date, the accepted exceptions
  that have expired and those that expire within the given days, each list with the longest overdue
  first; nothing is listed when the time of the report cannot be read.\<close>

lemma gap_deadlines_exact:
  "evaluate_gap_deadlines gaps now n =
     (case as_date (PStr now) of
        None \<Rightarrow> \<lparr>gr_overdue = [], gr_expired = [], gr_soon = []\<rparr>
      | Some nd \<Rightarrow>
          \<lparr>gr_overdue = sort_key days_left_of (map (deadline_row nd) (filter (open_past_due nd) gaps)),
           gr_expired = sort_key days_left_of (map (deadline_row nd) (filter (\<lambda>g. excepted g \<and> past_due nd g) gaps)),
           gr_soon = sort_key days_left_of
             (map (deadline_row nd) (filter (\<lambda>g. excepted g \<and> due_within n nd g) gaps))\<rparr>)"
  by (simp add: evaluate_gap_deadlines_def Let_def foldl_classify_gap foldl_classify_no_now split: option.split)

end
