(* ===== verification/Approvals.thy ===== *)
theory Approvals
  imports Gov_Store
begin

text \<open>
  The approval life cycle of evidence: \<^verbatim>\<open>services/evidence_approval.py\<close>, the transition route of
  \<^verbatim>\<open>api/routes/compliance.py\<close> with the two helpers that read the present state, and the table of
  snapshots in \<^verbatim>\<open>repositories/state_postgres.py\<close>.  The table is the list of its rows, the newest first
  (\<^verbatim>\<open>created_at\<close> is the database's clock, taken to advance from one call to the next).  The evidence
  records come with each call: other routes change them in between.
\<close>

section \<open>The state machine and the snapshot\<close>

definition APPROVAL_STATUSES :: "string list" where
  "APPROVAL_STATUSES = [''draft'', ''reviewed'', ''approved'', ''superseded'', ''revoked'']"

definition APPROVAL_VALID :: "string list dict" where
  "APPROVAL_VALID = [(''reviewed'', [''draft'']), (''approved'', [''reviewed'']), (''draft'', [''reviewed'']),
     (''superseded'', [''approved'']), (''revoked'', [''draft'', ''reviewed'', ''approved'', ''superseded''])]"

definition ROLE_FOR :: "string list dict" where
  "ROLE_FOR = [(''reviewed'', [''admin'', ''security'']), (''approved'', [''admin'']),
     (''draft'', [''admin'', ''security'']), (''revoked'', [''admin'']), (''superseded'', [''admin''])]"

definition approval_can_transition :: "string \<Rightarrow> string \<Rightarrow> bool" where
  "approval_can_transition current target = table_allows APPROVAL_VALID ''draft'' current target"

record approval_args =
  aa_control_id :: string
  aa_evidence_id :: string
  aa_content_hash :: string
  aa_version :: string
  aa_status :: string
  aa_actor :: string
  aa_reason :: string
  aa_pdf_hash :: string
  aa_prev :: string
  aa_now :: string

definition approval_id_of :: "(string \<Rightarrow> string) \<Rightarrow> string \<Rightarrow> string \<Rightarrow> string \<Rightarrow> string \<Rightarrow> string" where
  "approval_id_of H1 evidence_id hash status now =
     short_id H1 [PStr evidence_id, PStr hash, PStr status, PStr now] ''appr''"

definition build_approval :: "(string \<Rightarrow> string) \<Rightarrow> approval_args \<Rightarrow> pdict" where
  "build_approval H1 a =
     (let status = aa_status a
      in [(''approval_id'', PStr (approval_id_of H1 (aa_evidence_id a) (aa_content_hash a) status (aa_now a))),
          (''control_id'', PStr (aa_control_id a)), (''evidence_id'', PStr (aa_evidence_id a)),
          (''content_hash'', PStr (aa_content_hash a)),
          (''version'', PStr (sor (aa_version a) (take 12 (aa_content_hash a)))),
          (''status'', PStr status),
          (''reviewer'', PStr (if status = ''reviewed'' then aa_actor a else [])),
          (''approver'', PStr (if status = ''approved'' then aa_actor a else [])),
          (''reviewed_at'', PStr (if status = ''reviewed'' then aa_now a else [])),
          (''approved_at'', PStr (if status = ''approved'' then aa_now a else [])),
          (''pdf_sha256'', PStr (aa_pdf_hash a)), (''prev_approval_id'', PStr (aa_prev a)),
          (''supersede_reason'',
             PStr (if status \<in> {''superseded'', ''revoked'', ''draft''} then aa_reason a else [])),
          (''actor'', PStr (aa_actor a)), (''created_at'', PStr (aa_now a))])"

section \<open>The table\<close>

type_synonym approval_table = "pdict list"

definition APPROVAL_COLS :: "string list" where
  "APPROVAL_COLS = [''approval_id'', ''control_id'', ''evidence_id'', ''content_hash'', ''version'', ''status'',
     ''reviewer'', ''approver'', ''reviewed_at'', ''approved_at'', ''pdf_sha256'', ''prev_approval_id'',
     ''supersede_reason'', ''actor'', ''created_at'']"

definition APPROVAL_LIMIT :: nat where
  "APPROVAL_LIMIT = 500"

text \<open>An inserted row: an empty time is stored as \<^verbatim>\<open>NULL\<close>, the creation time is the database's.\<close>

definition approval_cell :: "string \<Rightarrow> string \<Rightarrow> pdict \<Rightarrow> string \<Rightarrow> pv" where
  "approval_cell db_now i rec k =
     (if k = ''created_at'' then PStr db_now
      else if k = ''approval_id'' then PStr i
      else if k \<in> {''reviewed_at'', ''approved_at''} then por (dget rec k) PNone
      else dget rec k)"

definition approval_row :: "string \<Rightarrow> string \<Rightarrow> pdict \<Rightarrow> pdict" where
  "approval_row db_now i rec = map (\<lambda>k. (k, approval_cell db_now i rec k)) APPROVAL_COLS"

definition restatus :: "pdict \<Rightarrow> pdict \<Rightarrow> pdict" where
  "restatus rec r =
     dset (dset r ''status'' (dget rec ''status'')) ''supersede_reason'' (dget rec ''supersede_reason'')"

definition save_evidence_approval :: "string \<Rightarrow> approval_table \<Rightarrow> string \<Rightarrow> pdict \<Rightarrow> approval_table" where
  "save_evidence_approval db_now t i rec =
     (if PStr i \<in> (\<lambda>r. dget r ''approval_id'') ` set t
      then map (\<lambda>r. if dget r ''approval_id'' = PStr i then restatus rec r else r) t
      else approval_row db_now i rec # t)"

definition load_evidence_approvals :: "approval_table \<Rightarrow> string option \<Rightarrow> approval_table" where
  "load_evidence_approvals t control_id =
     (case control_id of
        Some (c # cs) \<Rightarrow> filter (\<lambda>r. dget r ''control_id'' = PStr (c # cs)) t
      | _ \<Rightarrow> take APPROVAL_LIMIT t)"

section \<open>The present state\<close>

text \<open>\<^verbatim>\<open>_control_evidence_state\<close>: whether there is evidence, and the digest of the set of its digests.\<close>

definition evidence_part :: "pdict \<Rightarrow> string" where
  "evidence_part r = pstr (por (por (dget r ''content_hash'') (dget r ''id'')) (PStr []))"

definition control_evidence_state :: "(string \<Rightarrow> string) \<Rightarrow> pdict list \<Rightarrow> string \<Rightarrow> bool \<times> string" where
  "control_evidence_state H1 evidence control_id =
     (let recs = filter (\<lambda>v. pstr (dget v ''control_id'') = control_id) evidence
      in if recs = [] then (False, []) else (True, H1 (join ''|'' (sort (map evidence_part recs)))))"

definition current_approval_status :: "approval_table \<Rightarrow> string \<Rightarrow> string \<times> pdict option" where
  "current_approval_status approvals current_hash =
     (case approvals of
        [] \<Rightarrow> (''draft'', None)
      | latest # _ \<Rightarrow>
          if current_hash \<noteq> [] \<and> gstr latest ''content_hash'' \<noteq> current_hash then (''draft'', Some latest)
          else (let st = pstr (por (dget latest ''status'') (PStr ''draft''))
                in if st = ''superseded'' then (''draft'', Some latest) else (st, Some latest)))"

section \<open>The transition\<close>

definition replaced_text :: string where
  "replaced_text = utf8 [235, 140, 128, 236, 178, 180, 58, 32]"

definition supersede ::
    "string \<Rightarrow> string \<Rightarrow> string \<Rightarrow> approval_table \<Rightarrow> pdict \<Rightarrow> approval_table" where
  "supersede db_now new_id version t a =
     (if dget a ''status'' = PStr ''approved'' \<and> dget a ''approval_id'' \<noteq> PStr new_id then
        save_evidence_approval db_now t (pstr (dget a ''approval_id''))
          (dset (dset a ''status'' (PStr ''superseded'')) ''supersede_reason'' (PStr (replaced_text @ version)))
      else t)"

definition roles_for :: "string \<Rightarrow> string list" where
  "roles_for target = (case map_of ROLE_FOR target of None \<Rightarrow> [] | Some rs \<Rightarrow> rs)"

definition role_missing :: "gov_env \<Rightarrow> gov_request \<Rightarrow> string \<Rightarrow> bool" where
  "role_missing env rq target = (ge_auth env \<and> rq_role rq \<notin> Some ` set (roles_for target))"

text \<open>The new snapshot of a transition.\<close>

definition approval_snapshot :: "gov_env \<Rightarrow> gov_request \<Rightarrow> string \<Rightarrow> pdict \<Rightarrow> string \<Rightarrow> pdict option \<Rightarrow> string \<Rightarrow> pdict" where
  "approval_snapshot env rq control_id payload cur_hash current target =
     build_approval (ge_H1 env)
       \<lparr>aa_control_id = control_id, aa_evidence_id = control_id, aa_content_hash = cur_hash,
        aa_version = take 12 cur_hash, aa_status = target, aa_actor = sor (rq_user rq) ''unknown'',
        aa_reason = ptext payload ''reason'', aa_pdf_hash = ptext payload ''pdf_sha256'',
        aa_prev = gstr (case current of None \<Rightarrow> [] | Some r \<Rightarrow> r) ''approval_id'', aa_now = rq_now rq\<rparr>"

definition evidence_transition ::
    "gov_env \<Rightarrow> gov_request \<Rightarrow> pdict list \<Rightarrow> string \<Rightarrow> pdict \<Rightarrow> approval_table \<Rightarrow> (herr + pdict) \<times> approval_table" where
  "evidence_transition env rq evidence control_id payload t =
     (let target = pstrip payload ''target''
      in if target \<notin> set APPROVAL_STATUSES then (Inl BadRequest, t)
         else case control_evidence_state (ge_H1 env) evidence control_id of (has_ev, cur_hash) \<Rightarrow>
           if \<not> has_ev then (Inl NotFound, t)
           else
             let approvals = load_evidence_approvals t (Some control_id)
             in case current_approval_status approvals cur_hash of (current_status, current) \<Rightarrow>
               if role_missing env rq target then (Inl Forbidden, t)
               else if \<not> approval_can_transition current_status target then (Inl BadRequest, t)
               else
                 let approval = approval_snapshot env rq control_id payload cur_hash current target;
                     new_id = gstr approval ''approval_id'';
                     t' = save_evidence_approval (rq_now rq) t new_id approval
                 in (Inr approval,
                     if target = ''approved''
                     then foldl (supersede (rq_now rq) new_id (gstr approval ''version'')) t' approvals else t'))"

record approval_call =
  ac_rq :: gov_request
  ac_evidence :: "pdict list"
  ac_control :: string
  ac_payload :: pdict

definition approval_exec :: "gov_env \<Rightarrow> approval_call \<Rightarrow> approval_table \<Rightarrow> (herr + pdict) \<times> approval_table" where
  "approval_exec env c t = evidence_transition env (ac_rq c) (ac_evidence c) (ac_control c) (ac_payload c) t"

definition approval_run :: "gov_env \<Rightarrow> approval_call list \<Rightarrow> approval_table \<Rightarrow> approval_table" where
  "approval_run env calls t = foldl (\<lambda>t c. snd (approval_exec env c t)) t calls"

section \<open>Snapshots never change\<close>

definition frozen :: "pdict \<Rightarrow> pdict" where
  "frozen r = filter (\<lambda>kv. fst kv \<notin> {''status'', ''supersede_reason''}) r"

lemma frozen_dset: "k \<in> {''status'', ''supersede_reason''} \<Longrightarrow> frozen (dset r k v) = frozen r"
  unfolding frozen_def by (rule filter_dset) simp

lemma frozen_restatus: "frozen (restatus rec r) = frozen r"
  by (simp add: restatus_def frozen_dset)

lemma frozen_save: "suffix (map frozen t) (map frozen (save_evidence_approval n t i rec))"
proof -
  have "map frozen (map (\<lambda>r. if dget r ''approval_id'' = PStr i then restatus rec r else r) t) = map frozen t"
    by (auto simp: frozen_restatus)
  then show ?thesis by (simp add: save_evidence_approval_def suffix_def del: map_map)
qed

lemma frozen_supersede: "suffix (map frozen t) (map frozen (foldl (supersede n i v) t as))"
proof (induction as arbitrary: t)
  case (Cons a as)
  have "suffix (map frozen t) (map frozen (supersede n i v t a))"
    by (simp add: supersede_def frozen_save)
  also have "suffix \<dots> (map frozen (foldl (supersede n i v) (supersede n i v t a) as))" by (rule Cons.IH)
  finally show ?case by simp
qed simp

lemma frozen_exec: "suffix (map frozen t) (map frozen (snd (approval_exec env c t)))"
  unfolding approval_exec_def evidence_transition_def Let_def
  by (auto split: prod.split intro: suffix_order.trans [OF frozen_save frozen_supersede] frozen_save)

text \<open>C12: No request changes a stored approval snapshot (its content hash, reviewer, approver, times and
  PDF digest) or removes one: only the status and the reason of a row can change, and new rows are added
  before the old ones.\<close>

theorem approvals_frozen: "suffix (map frozen t) (map frozen (approval_run env calls t))"
proof (induction calls arbitrary: t)
  case (Cons c calls)
  have "suffix (map frozen t) (map frozen (snd (approval_exec env c t)))" by (rule frozen_exec)
  also have "suffix \<dots> (map frozen (approval_run env calls (snd (approval_exec env c t))))" by (rule Cons.IH)
  finally show ?case by (simp add: approval_run_def)
qed (simp add: approval_run_def)

section \<open>The table after a transition\<close>

definition approval_ids :: "approval_table \<Rightarrow> pv list" where
  "approval_ids t = map (\<lambda>r. dget r ''approval_id'') t"

text \<open>A call on a control with a fresh snapshot identifier.\<close>

definition fresh_call :: "gov_env \<Rightarrow> approval_call \<Rightarrow> approval_table \<Rightarrow> bool" where
  "fresh_call env c t = (ac_control c \<noteq> [] \<and>
     (case fst (approval_exec env c t) of
        Inl _ \<Rightarrow> True | Inr a \<Rightarrow> dget a ''approval_id'' \<notin> set (approval_ids t)))"

primrec fresh_run :: "gov_env \<Rightarrow> approval_call list \<Rightarrow> approval_table \<Rightarrow> bool" where
  "fresh_run env [] t = True"
| "fresh_run env (c # calls) t = (fresh_call env c t \<and> fresh_run env calls (snd (approval_exec env c t)))"

definition superseded :: "string \<Rightarrow> pdict \<Rightarrow> pdict" where
  "superseded v r =
     dset (dset r ''status'' (PStr ''superseded'')) ''supersede_reason'' (PStr (replaced_text @ v))"

definition approved :: "pdict \<Rightarrow> bool" where
  "approved r = (dget r ''status'' = PStr ''approved'')"

definition of_control :: "string \<Rightarrow> pdict \<Rightarrow> bool" where
  "of_control c r = (dget r ''control_id'' = PStr c)"

lemma superseded_idem [simp]: "superseded v (superseded v r) = superseded v r"
  by (simp add: superseded_def dset_same)

lemma dget_superseded: "k \<noteq> ''supersede_reason'' \<Longrightarrow>
    dget (superseded v r) k = (if k = ''status'' then PStr ''superseded'' else dget r k)"
  by (simp add: superseded_def)

definition ids_ok :: "approval_table \<Rightarrow> bool" where
  "ids_ok t = (distinct (approval_ids t) \<and> list_all (\<lambda>v. v = PStr (pstr v)) (approval_ids t))"

definition hit :: "string \<Rightarrow> pdict \<Rightarrow> pdict \<Rightarrow> bool" where
  "hit i a r = (approved a \<and> dget a ''approval_id'' \<noteq> PStr i \<and> dget r ''approval_id'' = dget a ''approval_id'')"

lemma supersede_map:
  assumes "ids_ok t" "dget a ''approval_id'' \<in> set (approval_ids t)"
  shows "supersede n i v t a = map (\<lambda>r. if hit i a r then superseded v r else r) t"
proof -
  have "dget a ''approval_id'' = PStr (pstr (dget a ''approval_id''))"
    using assms by (auto simp: ids_ok_def list_all_iff)
  then show ?thesis using assms(2)
    by (auto simp: supersede_def save_evidence_approval_def approval_ids_def hit_def approved_def
        restatus_def superseded_def)
qed

lemma approval_ids_superseded:
  "approval_ids (map (\<lambda>r. if P r then superseded v r else r) t) = approval_ids t"
  by (simp add: approval_ids_def dget_superseded)

lemma hit_superseded: "hit i a (if P then superseded v r else r) = hit i a r"
  by (simp add: hit_def dget_superseded)

lemma foldl_supersede:
  assumes "ids_ok t" "set (approval_ids as) \<subseteq> set (approval_ids t)"
  shows "foldl (supersede n i v) t as
    = map (\<lambda>r. if list_ex (\<lambda>a. hit i a r) as then superseded v r else r) t"
  using assms
proof (induction as arbitrary: t)
  case (Cons a as)
  let ?t = "map (\<lambda>r. if hit i a r then superseded v r else r) t"
  have a: "dget a ''approval_id'' \<in> set (approval_ids t)" "set (approval_ids as) \<subseteq> set (approval_ids t)"
    using Cons.prems(2) by (auto simp: approval_ids_def)
  have "ids_ok ?t" using Cons.prems(1) by (simp only: ids_ok_def approval_ids_superseded)
  moreover have "set (approval_ids as) \<subseteq> set (approval_ids ?t)" using a(2) by (simp only: approval_ids_superseded)
  ultimately have "foldl (supersede n i v) ?t as
      = map (\<lambda>r. if list_ex (\<lambda>a. hit i a r) as then superseded v r else r) ?t"
    by (rule Cons.IH)
  also have "\<dots> = map (\<lambda>r. if list_ex (\<lambda>a. hit i a r) (a # as) then superseded v r else r) t"
    by (simp add: hit_superseded)
  finally show ?case by (simp add: supersede_map [OF Cons.prems(1) a(1)])
qed simp

section \<open>The table as a step relation\<close>

text \<open>What a transition may do to the table: add a snapshot that is no approval, or add an approval of a
  content whose latest snapshot is a review of the same content, and supersede the standing one.\<close>

definition fresh_row :: "approval_table \<Rightarrow> pdict \<Rightarrow> bool" where
  "fresh_row t r = (dget r ''approval_id'' \<notin> set (approval_ids t)
     \<and> dget r ''approval_id'' = PStr (pstr (dget r ''approval_id'')))"

inductive approval_step :: "approval_table \<Rightarrow> approval_table \<Rightarrow> bool" where
  recorded: "fresh_row t r \<Longrightarrow> \<not> approved r \<Longrightarrow> dget r ''approver'' = PStr [] \<Longrightarrow>
    (dget r ''status'' = PStr ''reviewed'' \<Longrightarrow> truthy (dget r ''reviewer'')) \<Longrightarrow> approval_step t (r # t)"
| replaced: "fresh_row t r \<Longrightarrow> approved r \<Longrightarrow> of_control c r \<Longrightarrow> latest \<in> set t \<Longrightarrow> of_control c latest \<Longrightarrow>
    dget latest ''status'' = PStr ''reviewed'' \<Longrightarrow> dget latest ''content_hash'' = dget r ''content_hash'' \<Longrightarrow>
    approval_step t (r # map (\<lambda>q. if of_control c q \<and> approved q then superseded v q else q) t)"

inductive_cases approval_stepE: "approval_step t t'"

definition reviewed_before :: "approval_table \<Rightarrow> pdict \<Rightarrow> bool" where
  "reviewed_before t r = list_ex (\<lambda>q. dget q ''control_id'' = dget r ''control_id''
     \<and> dget q ''content_hash'' = dget r ''content_hash'' \<and> truthy (dget q ''reviewer'')) t"

text \<open>The invariant: unique identifiers, reviews name their reviewer, approvals were reviewed, and every
  control has one approved snapshot at most.\<close>

definition reviews_ok :: "approval_table \<Rightarrow> bool" where
  "reviews_ok t = list_all (\<lambda>r. dget r ''status'' \<noteq> PStr ''reviewed'' \<or> truthy (dget r ''reviewer'')) t"

definition approvals_reviewed :: "approval_table \<Rightarrow> bool" where
  "approvals_reviewed t = list_all (\<lambda>r. dget r ''approver'' = PStr [] \<or> reviewed_before t r) t"

definition approved_of :: "string \<Rightarrow> approval_table \<Rightarrow> approval_table" where
  "approved_of c t = filter (\<lambda>r. of_control c r \<and> approved r) t"

definition approvals_ok :: "approval_table \<Rightarrow> bool" where
  "approvals_ok t = (ids_ok t \<and> reviews_ok t \<and> approvals_reviewed t \<and> (\<forall>c. length (approved_of c t) \<le> 1))"

lemma reviewed_before_mono: "reviewed_before t r \<Longrightarrow> reviewed_before (q # t) r"
  by (simp add: reviewed_before_def)

lemma reviewed_before_map:
  "reviewed_before (map (\<lambda>q. if P q then superseded v q else q) t) r = reviewed_before t r"
  by (induction t) (auto simp: reviewed_before_def dget_superseded)

lemma reviewed_before_superseded: "reviewed_before t (superseded v r) = reviewed_before t r"
  by (simp add: reviewed_before_def dget_superseded)

lemma ids_ok_Cons: "ids_ok t \<Longrightarrow> fresh_row t r \<Longrightarrow> ids_ok (r # t)"
  by (simp add: ids_ok_def fresh_row_def approval_ids_def)

lemma approved_superseded [simp]: "\<not> approved (superseded v r)"
  by (simp add: approved_def dget_superseded)

lemma of_control_superseded [simp]: "of_control c (superseded v r) = of_control c r"
  by (simp add: of_control_def dget_superseded)

lemma approved_of_map: "approved_of d (map (\<lambda>q. if of_control c q \<and> approved q then superseded v q else q) t)
    = (if d = c then [] else approved_of d t)"
  by (induction t) (auto simp: approved_of_def of_control_def)

lemma approved_of_Cons: "approved_of d (r # t) = (if of_control d r \<and> approved r then [r] else []) @ approved_of d t"
  by (simp add: approved_of_def)

lemma step_invariant:
  assumes "approval_step t t'" "approvals_ok t"
  shows "approvals_ok t'"
  using assms
proof cases
  case (recorded r)
  have "approvals_reviewed (r # t)"
    using assms(2) recorded by (auto simp: approvals_ok_def approvals_reviewed_def list_all_iff reviewed_before_mono)
  moreover have "reviews_ok (r # t)" using assms(2) recorded by (auto simp: approvals_ok_def reviews_ok_def)
  ultimately show ?thesis
    using assms(2) recorded by (simp add: approvals_ok_def ids_ok_Cons approved_of_Cons)
next
  case (replaced r c latest v)
  let ?t = "map (\<lambda>q. if of_control c q \<and> approved q then superseded v q else q) t"
  have ids: "approval_ids ?t = approval_ids t" by (rule approval_ids_superseded)
  then have "ids_ok ?t" "fresh_row ?t r"
    using assms(2) replaced(2) by (simp_all add: approvals_ok_def ids_ok_def fresh_row_def del: map_map)
  then have i: "ids_ok (r # ?t)" by (rule ids_ok_Cons)
  have rv: "reviews_ok t" "approvals_reviewed t" using assms(2) by (simp_all add: approvals_ok_def)
  have "reviews_ok (r # ?t)"
    using rv(1) replaced(3) by (auto simp: reviews_ok_def list_all_iff dget_superseded approved_def)
  moreover have "truthy (dget latest ''reviewer'')"
    using rv(1) replaced(5,7) by (auto simp: reviews_ok_def list_all_iff)
  then have "reviewed_before t r"
    using replaced(4,5,6,8) by (auto simp: reviewed_before_def list_ex_iff of_control_def)
  then have "approvals_reviewed (r # ?t)"
    using rv(2) by (auto simp: approvals_reviewed_def list_all_iff dget_superseded reviewed_before_map
        reviewed_before_superseded intro!: reviewed_before_mono)
  moreover have "length (approved_of d (r # ?t)) \<le> 1" for d
  proof -
    have "length (approved_of d t) \<le> 1" using assms(2) by (simp add: approvals_ok_def)
    moreover have "of_control d r \<longleftrightarrow> d = c" using replaced(4) by (auto simp: of_control_def)
    ultimately show ?thesis by (simp only: approved_of_Cons approved_of_map) simp
  qed
  ultimately show ?thesis using i replaced(1) by (simp add: approvals_ok_def)
qed

section \<open>The route implements the steps\<close>

lemma dget_approval_row: "k \<in> set APPROVAL_COLS \<Longrightarrow> dget (approval_row n i rec) k = approval_cell n i rec k"
  by (simp add: approval_row_def dget_def map_of_map_restrict)

lemma cells_of_row:
  "dget (approval_row n i rec) ''approval_id'' = PStr i"
  "dget (approval_row n i rec) ''control_id'' = dget rec ''control_id''"
  "dget (approval_row n i rec) ''content_hash'' = dget rec ''content_hash''"
  "dget (approval_row n i rec) ''status'' = dget rec ''status''"
  "dget (approval_row n i rec) ''reviewer'' = dget rec ''reviewer''"
  "dget (approval_row n i rec) ''approver'' = dget rec ''approver''"
  by (simp_all add: dget_approval_row APPROVAL_COLS_def approval_cell_def)

lemma snapshot_cells:
  "dget (approval_snapshot env rq c p h cur s) ''control_id'' = PStr c"
  "dget (approval_snapshot env rq c p h cur s) ''content_hash'' = PStr h"
  "dget (approval_snapshot env rq c p h cur s) ''status'' = PStr s"
  "dget (approval_snapshot env rq c p h cur s) ''reviewer'' = PStr (if s = ''reviewed'' then sor (rq_user rq) ''unknown'' else [])"
  "dget (approval_snapshot env rq c p h cur s) ''approver'' = PStr (if s = ''approved'' then sor (rq_user rq) ''unknown'' else [])"
  "dget (approval_snapshot env rq c p h cur s) ''approval_id'' = PStr (gstr (approval_snapshot env rq c p h cur s) ''approval_id'')"
  by (simp_all add: approval_snapshot_def build_approval_def Let_def)

text \<open>The latest snapshot of a control that is in review is a review of the present content.\<close>

lemma in_review:
  assumes "current_approval_status approvals h = (''reviewed'', cur)" "h \<noteq> []"
    and "list_all (\<lambda>r. dget r ''content_hash'' = PStr (pstr (dget r ''content_hash''))
           \<and> dget r ''status'' = PStr (pstr (dget r ''status''))) approvals"
  shows "\<exists>latest \<in> set approvals. dget latest ''status'' = PStr ''reviewed'' \<and> dget latest ''content_hash'' = PStr h"
proof (cases approvals)
  case Nil
  then show ?thesis using assms(1) by (simp add: current_approval_status_def)
next
  case (Cons l as)
  obtain s k where sk: "dget l ''status'' = PStr s" "dget l ''content_hash'' = PStr k"
    using assms(3) Cons by auto
  have "k = h" "s = ''reviewed''"
    using assms(1,2) sk by (auto simp: current_approval_status_def Cons Let_def gstr_def por_def split: if_splits)
  with sk Cons show ?thesis by auto
qed

text \<open>Rows hold texts where the route reads texts.\<close>

definition texts_ok :: "approval_table \<Rightarrow> bool" where
  "texts_ok t = list_all (\<lambda>r. dget r ''content_hash'' = PStr (pstr (dget r ''content_hash''))
     \<and> dget r ''status'' = PStr (pstr (dget r ''status''))) t"

lemma load_of_control: "c \<noteq> [] \<Longrightarrow> load_evidence_approvals t (Some c) = filter (of_control c) t"
  by (cases c) (auto simp: load_evidence_approvals_def of_control_def fun_eq_iff intro!: filter_cong)

lemma can_approve_iff: "approval_can_transition s ''approved'' \<longleftrightarrow> s = ''reviewed''"
  by (auto simp: approval_can_transition_def table_allows_def APPROVAL_VALID_def sor_def)

lemma supersede_all:
  assumes "ids_ok (r # t)" "dget r ''approval_id'' = PStr i" "of_control c r"
  shows "foldl (supersede n i v) (r # t) (filter (of_control c) t)
    = r # map (\<lambda>q. if of_control c q \<and> approved q then superseded v q else q) t"
proof -
  have d: "distinct (approval_ids t)" "PStr i \<notin> set (approval_ids t)"
    using assms(1,2) by (auto simp: ids_ok_def approval_ids_def)
  have "list_ex (\<lambda>a. hit i a q) (filter (of_control c) t) = (of_control c q \<and> approved q)" if q: "q \<in> set t" for q
  proof
    assume "list_ex (\<lambda>a. hit i a q) (filter (of_control c) t)"
    then obtain a where a: "a \<in> set t" "of_control c a" "approved a" "dget q ''approval_id'' = dget a ''approval_id''"
      by (auto simp: list_ex_iff hit_def)
    then have "a = q" using d(1) q by (auto simp: approval_ids_def distinct_map inj_on_def)
    with a show "of_control c q \<and> approved q" by simp
  next
    assume "of_control c q \<and> approved q"
    moreover have "dget q ''approval_id'' \<noteq> PStr i" using d(2) q by (force simp: approval_ids_def)
    ultimately show "list_ex (\<lambda>a. hit i a q) (filter (of_control c) t)"
      using q by (auto simp: list_ex_iff hit_def)
  qed
  then have "map (\<lambda>q. if list_ex (\<lambda>a. hit i a q) (filter (of_control c) t) then superseded v q else q) t
      = map (\<lambda>q. if of_control c q \<and> approved q then superseded v q else q) t"
    by (intro map_cong) simp_all
  moreover have "\<not> list_ex (\<lambda>a. hit i a r) (filter (of_control c) t)"
    using assms(2) by (auto simp: list_ex_iff hit_def)
  moreover have "set (approval_ids (filter (of_control c) t)) \<subseteq> set (approval_ids (r # t))"
    by (auto simp: approval_ids_def)
  ultimately show ?thesis by (simp add: foldl_supersede [OF assms(1)] del: map_map)
qed

lemma transition_cases:
  assumes "c \<noteq> []"
  obtains (refused) "snd (evidence_transition env rq ev c p t) = t"
  | (transited) h cs cur s a where
      "control_evidence_state (ge_H1 env) ev c = (True, h)"
      "current_approval_status (filter (of_control c) t) h = (cs, cur)"
      "approval_can_transition cs s" "a = approval_snapshot env rq c p h cur s"
      "evidence_transition env rq ev c p t = (Inr a,
         let t' = save_evidence_approval (rq_now rq) t (gstr a ''approval_id'') a
         in if s = ''approved'' then foldl (supersede (rq_now rq) (gstr a ''approval_id'') (gstr a ''version'')) t'
              (filter (of_control c) t) else t')"
proof -
  let ?s = "pstrip p ''target''"
  obtain ok h where e: "control_evidence_state (ge_H1 env) ev c = (ok, h)" by fastforce
  obtain cs cur where k: "current_approval_status (filter (of_control c) t) h = (cs, cur)" by fastforce
  let ?a = "approval_snapshot env rq c p h cur ?s"
  show ?thesis
  proof (cases "?s \<in> set APPROVAL_STATUSES \<and> ok \<and> \<not> role_missing env rq ?s \<and> approval_can_transition cs ?s")
    case True
    then have "evidence_transition env rq ev c p t = (Inr ?a,
         let t' = save_evidence_approval (rq_now rq) t (gstr ?a ''approval_id'') ?a
         in if ?s = ''approved'' then foldl (supersede (rq_now rq) (gstr ?a ''approval_id'') (gstr ?a ''version'')) t'
              (filter (of_control c) t) else t')"
      by (simp add: evidence_transition_def Let_def e k load_of_control [OF assms])
    with True e k show ?thesis by (intro transited [of h cs cur ?s ?a]) simp_all
  next
    case False
    then have "snd (evidence_transition env rq ev c p t) = t"
      by (auto simp: evidence_transition_def Let_def e k load_of_control [OF assms])
    then show ?thesis by (rule refused)
  qed
qed

lemma save_fresh: "PStr i \<notin> set (approval_ids t) \<Longrightarrow> save_evidence_approval n t i a = approval_row n i a # t"
  by (simp add: save_evidence_approval_def approval_ids_def)

lemma texts_ok_Cons: "texts_ok (r # t) = (dget r ''content_hash'' = PStr (pstr (dget r ''content_hash''))
     \<and> dget r ''status'' = PStr (pstr (dget r ''status'')) \<and> texts_ok t)"
  by (simp add: texts_ok_def)

lemma texts_ok_superseded: "texts_ok t \<Longrightarrow> texts_ok (map (\<lambda>q. if P q then superseded v q else q) t)"
  by (auto simp: texts_ok_def list_all_iff dget_superseded)

lemma exec_refines:
  assumes fc: "fresh_call env c t" and inv: "approvals_ok t" and tx: "texts_ok t" and H: "\<And>x. ge_H1 env x \<noteq> []"
  shows "(snd (approval_exec env c t) = t \<or> approval_step t (snd (approval_exec env c t)))
    \<and> texts_ok (snd (approval_exec env c t))"
proof -
  let ?c = "ac_control c" and ?rq = "ac_rq c"
  have c: "?c \<noteq> []" using fc by (simp add: fresh_call_def)
  show ?thesis
  proof (rule transition_cases [OF c, of env ?rq "ac_evidence c" "ac_payload c" t])
    assume "snd (evidence_transition env ?rq (ac_evidence c) ?c (ac_payload c) t) = t"
    then show ?thesis using tx by (simp add: approval_exec_def)
  next
    fix h cs cur s a
    assume e: "control_evidence_state (ge_H1 env) (ac_evidence c) ?c = (True, h)"
      and k: "current_approval_status (filter (of_control ?c) t) h = (cs, cur)"
      and can: "approval_can_transition cs s" and a: "a = approval_snapshot env ?rq ?c (ac_payload c) h cur s"
      and r: "evidence_transition env ?rq (ac_evidence c) ?c (ac_payload c) t = (Inr a,
         let t' = save_evidence_approval (rq_now ?rq) t (gstr a ''approval_id'') a
         in if s = ''approved'' then foldl (supersede (rq_now ?rq) (gstr a ''approval_id'') (gstr a ''version'')) t'
              (filter (of_control ?c) t) else t')"
    obtain i where i: "i = gstr a ''approval_id''" by simp
    let ?r = "approval_row (rq_now ?rq) i a"
    have ai: "dget a ''approval_id'' = PStr i" unfolding i a by (rule snapshot_cells(6))
    have fr: "PStr i \<notin> set (approval_ids t)"
      using fc r ai by (simp add: fresh_call_def approval_exec_def)
    have row: "fresh_row t ?r" "of_control ?c ?r" "approved ?r = (s = ''approved'')"
        "dget ?r ''status'' = PStr s" "dget ?r ''content_hash'' = PStr h"
        "s \<noteq> ''approved'' \<Longrightarrow> dget ?r ''approver'' = PStr []"
        "s = ''reviewed'' \<Longrightarrow> truthy (dget ?r ''reviewer'')"
      using fr by (simp_all add: fresh_row_def of_control_def approved_def cells_of_row a snapshot_cells sor_def)
    have h: "h \<noteq> []" using e H by (auto simp: control_evidence_state_def Let_def split: if_splits)
    have ids: "ids_ok (?r # t)" using inv row(1) by (simp add: approvals_ok_def ids_ok_Cons)
    show ?thesis
    proof (cases "s = ''approved''")
      case True
      then have "cs = ''reviewed''" using can can_approve_iff by simp
      then obtain l where l: "l \<in> set t" "of_control ?c l" "dget l ''status'' = PStr ''reviewed''"
          "dget l ''content_hash'' = PStr h"
        using in_review [of "filter (of_control ?c) t" h cur] k h tx by (auto simp: texts_ok_def list_all_iff)
      have res: "snd (approval_exec env c t)
          = ?r # map (\<lambda>q. if of_control ?c q \<and> approved q then superseded (gstr a ''version'') q else q) t"
        using True r supersede_all [OF ids cells_of_row(1) row(2)]
        by (simp add: i [symmetric] approval_exec_def Let_def save_fresh [OF fr] del: map_map)
      have "approval_step t (snd (approval_exec env c t))"
        unfolding res by (rule replaced [where latest = l]) (use row l True in simp_all)
      moreover have "texts_ok (snd (approval_exec env c t))"
        unfolding res using row(4,5) tx by (simp add: texts_ok_Cons texts_ok_superseded)
      ultimately show ?thesis by simp
    next
      case False
      then have res: "snd (approval_exec env c t) = ?r # t"
        using r by (simp add: i [symmetric] approval_exec_def Let_def save_fresh [OF fr])
      have "approval_step t (snd (approval_exec env c t))"
        unfolding res by (rule recorded) (use row False in simp_all)
      moreover have "texts_ok (snd (approval_exec env c t))"
        unfolding res using row(4,5) tx by (simp add: texts_ok_Cons)
      ultimately show ?thesis by simp
    qed
  qed
qed

lemma run_invariant:
  assumes "fresh_run env calls t" "approvals_ok t" "texts_ok t" "\<And>x. ge_H1 env x \<noteq> []"
  shows "approvals_ok (approval_run env calls t)"
  using assms(1-3)
proof (induction calls arbitrary: t)
  case (Cons c calls)
  have c: "fresh_call env c t" "fresh_run env calls (snd (approval_exec env c t))" using Cons.prems(1) by simp_all
  have "approvals_ok (snd (approval_exec env c t))" "texts_ok (snd (approval_exec env c t))"
    using exec_refines [OF c(1) Cons.prems(2,3) assms(4)] step_invariant Cons.prems(2) by auto
  from Cons.IH [OF c(2) this] show ?case by (simp add: approval_run_def)
qed (simp add: approval_run_def)

lemma empty_ok: "approvals_ok []" "texts_ok []"
  by (simp_all add: approvals_ok_def ids_ok_def approval_ids_def reviews_ok_def approvals_reviewed_def
      approved_of_def texts_ok_def)

section \<open>Properties\<close>

text \<open>C14: In every history of transition requests whose snapshot identifiers do not collide, each control
  has one approved snapshot at most, and every snapshot that was approved is of a content that was
  reviewed before, by a named reviewer of the same control.\<close>

theorem one_reviewed_approval:
  assumes "fresh_run env calls []" and "\<And>x. ge_H1 env x \<noteq> []"
  shows "length (approved_of c (approval_run env calls [])) \<le> 1
    \<and> approvals_reviewed (approval_run env calls [])"
  using run_invariant [OF assms(1) empty_ok assms(2)] by (simp add: approvals_ok_def)

definition approval_env :: gov_env where
  "approval_env = \<lparr>ge_H = id, ge_H1 = (\<lambda>s. CHR ''0'' # rev s), ge_auth = True, ge_sod = False,
     ge_clock = (\<lambda>_. ''2024-05-01T00:00:00''), ge_fails = (\<lambda>_ _ _. False)\<rparr>"

definition approval_demo_call :: "string \<Rightarrow> string \<Rightarrow> string \<Rightarrow> approval_call" where
  "approval_demo_call now h target =
     \<lparr>ac_rq = \<lparr>rq_role = Some ''admin'', rq_user = ''kim'', rq_now = now\<rparr>,
      ac_evidence = [[(''id'', PStr ''e1''), (''control_id'', PStr ''2.9.3''), (''content_hash'', PStr h)]],
      ac_control = ''2.9.3'', ac_payload = [(''target'', PStr target)]\<rparr>"

definition approval_demo :: "approval_call list" where
  "approval_demo = [approval_demo_call ''1'' ''a'' ''reviewed'', approval_demo_call ''2'' ''a'' ''approved'',
     approval_demo_call ''3'' ''b'' ''approved'', approval_demo_call ''4'' ''b'' ''reviewed'',
     approval_demo_call ''5'' ''b'' ''approved'']"

lemma approval_demo_fresh: "fresh_run approval_env approval_demo []"
  by code_simp

lemma one_reviewed_approval_witness:
  "length (approved_of ''2.9.3'' (approval_run approval_env approval_demo [])) \<le> 1
    \<and> approvals_reviewed (approval_run approval_env approval_demo [])
    \<and> length (approval_run approval_env approval_demo []) = 4"
proof -
  have "length (approval_run approval_env approval_demo []) = 4" by code_simp
  moreover have "ge_H1 approval_env x \<noteq> []" for x by (simp add: approval_env_def)
  ultimately show ?thesis using one_reviewed_approval [OF approval_demo_fresh, of "''2.9.3''"] by blast
qed

text \<open>A request that does not approve leaves every approved snapshot as it is: revoking the evidence of
  a control adds a \<^verbatim>\<open>revoked\<close> row, and the row that was approved is still stored as approved.\<close>

theorem revocation_keeps_approved:
  assumes "fresh_call env c t" "fst (approval_exec env c t) = Inr a" "\<not> approved a"
  shows "approved_of d (snd (approval_exec env c t)) = approved_of d t"
proof -
  have c: "ac_control c \<noteq> []" using assms(1) by (simp add: fresh_call_def)
  show ?thesis
  proof (rule transition_cases [OF c, of env "ac_rq c" "ac_evidence c" "ac_payload c" t])
    assume "snd (evidence_transition env (ac_rq c) (ac_evidence c) (ac_control c) (ac_payload c) t) = t"
    then show ?thesis by (simp add: approval_exec_def)
  next
    fix h cs cur s b
    assume b: "b = approval_snapshot env (ac_rq c) (ac_control c) (ac_payload c) h cur s"
      and r: "evidence_transition env (ac_rq c) (ac_evidence c) (ac_control c) (ac_payload c) t = (Inr b,
         let t' = save_evidence_approval (rq_now (ac_rq c)) t (gstr b ''approval_id'') b
         in if s = ''approved'' then foldl (supersede (rq_now (ac_rq c)) (gstr b ''approval_id'')
              (gstr b ''version'')) t' (filter (of_control (ac_control c)) t) else t')"
    have ab: "a = b" using r assms(2) by (simp add: approval_exec_def)
    have s: "s \<noteq> ''approved''" using assms(3) by (simp add: ab b approved_def snapshot_cells)
    have "dget b ''approval_id'' = PStr (gstr b ''approval_id'')" unfolding b by (rule snapshot_cells(6))
    then have "PStr (gstr b ''approval_id'') \<notin> set (approval_ids t)"
      using assms(1,2) ab by (simp add: fresh_call_def)
    then have "snd (approval_exec env c t) = approval_row (rq_now (ac_rq c)) (gstr b ''approval_id'') b # t"
      using r s by (simp add: approval_exec_def save_fresh)
    moreover have "\<not> approved (approval_row (rq_now (ac_rq c)) (gstr b ''approval_id'') b)"
      using s by (simp add: approved_def cells_of_row b snapshot_cells)
    ultimately show ?thesis by (simp add: approved_of_Cons)
  qed
qed

definition revoke_table :: approval_table where
  "revoke_table = approval_run approval_env (take 2 approval_demo) []"

lemma revocation_keeps_approved_witness:
  "map (\<lambda>r. dget r ''version'') (approved_of ''2.9.3''
     (snd (approval_exec approval_env (approval_demo_call ''3'' ''a'' ''revoked'') revoke_table)))
     = [PStr ''0a'']"
proof -
  let ?x = "approval_exec approval_env (approval_demo_call ''3'' ''a'' ''revoked'') revoke_table"
  have f: "fresh_call approval_env (approval_demo_call ''3'' ''a'' ''revoked'') revoke_table" by code_simp
  have "(case fst ?x of Inl _ \<Rightarrow> False | Inr a \<Rightarrow> \<not> approved a)" by code_simp
  then obtain a where "fst ?x = Inr a" "\<not> approved a" by (cases "fst ?x") auto
  from revocation_keeps_approved [OF f this] have "approved_of ''2.9.3'' (snd ?x) = approved_of ''2.9.3'' revoke_table" .
  moreover have "map (\<lambda>r. dget r ''version'') (approved_of ''2.9.3'' revoke_table) = [PStr ''0a'']" by code_simp
  ultimately show ?thesis by simp
qed

end
