(* ===== verification/Ratelimit.thy ===== *)
theory Ratelimit
  imports Gov_Store Py_Time
begin

text \<open>
  The rate limiter of \<^verbatim>\<open>api/ratelimit.py\<close>: a sliding window of request times for each path prefix
  and client.  The process environment is a dictionary of texts.  The clock is counted in whole
  microseconds, which Python's float of seconds rounds.
\<close>

record http_request =
  hr_path :: string
  hr_headers :: "string dict"
  hr_client :: "string option"

datatype rl_answer = TooLarge | TooMany int | Passed

definition env_get :: "string dict \<Rightarrow> string \<Rightarrow> string \<Rightarrow> string" where
  "env_get e k d = (case map_of e k of None \<Rightarrow> d | Some v \<Rightarrow> v)"

text \<open>\<^verbatim>\<open>int(os.environ.get(k, str(d)))\<close>: \<open>None\<close> where \<^verbatim>\<open>int\<close> raises.\<close>

definition env_int :: "string dict \<Rightarrow> string \<Rightarrow> int \<Rightarrow> int option" where
  "env_int e k d = (case map_of e k of None \<Rightarrow> Some d | Some v \<Rightarrow> int_of_text v)"

section \<open>Configuration\<close>

definition LIMITED :: "(string \<times> string \<times> int) list" where
  "LIMITED = [(''/ingest/'', ''MORI_RATELIMIT_INGEST_MAX'', 300), (''/auth/login'', ''MORI_RATELIMIT_LOGIN_MAX'', 60)]"

definition rl_enabled :: "string dict \<Rightarrow> bool" where
  "rl_enabled e = (lower (strip (env_get e ''MORI_RATELIMIT_ENABLED'' ''true''))
     \<notin> {''0'', ''false'', ''no'', ''off''})"

definition rl_window :: "string dict \<Rightarrow> int" where
  "rl_window e = (case env_int e ''MORI_RATELIMIT_WINDOW_SECONDS'' 60 of
     None \<Rightarrow> 60 | Some n \<Rightarrow> max 1 n)"

definition max_body_bytes :: "string dict \<Rightarrow> int" where
  "max_body_bytes e = (case env_int e ''MORI_MAX_BODY_BYTES'' (10 * 1024 * 1024) of
     None \<Rightarrow> 10 * 1024 * 1024 | Some n \<Rightarrow> n)"

definition limit_for :: "string dict \<Rightarrow> string \<Rightarrow> (string \<times> int) option" where
  "limit_for e path =
     map_option (\<lambda>l. case l of (pre, env_name, cap) \<Rightarrow>
         (pre, case env_int e env_name cap of None \<Rightarrow> cap | Some n \<Rightarrow> max 1 n))
       (List.find (\<lambda>l. prefix (fst l) path) LIMITED)"

definition client_ip :: "http_request \<Rightarrow> string" where
  "client_ip rq =
     (let xff = env_get (hr_headers rq) ''x-forwarded-for'' []
      in if xff \<noteq> [] then strip (hd (split_on (CHR '','') xff))
         else case hr_client rq of None \<Rightarrow> ''?'' | Some host \<Rightarrow> sor host ''?'')"

section \<open>The middleware\<close>

type_synonym hits = "int list dict"

definition body_too_large :: "string dict \<Rightarrow> http_request \<Rightarrow> bool" where
  "body_too_large e rq =
     (let cl = env_get (hr_headers rq) ''content-length'' []
      in 0 < max_body_bytes e \<and> cl \<noteq> [] \<and> list_all is_digit cl \<and> max_body_bytes e < int (undec cl))"

definition rl_key :: "string \<Rightarrow> http_request \<Rightarrow> string" where
  "rl_key pre rq = pre @ ''|'' @ client_ip rq"

definition recent :: "string dict \<Rightarrow> int \<Rightarrow> int list \<Rightarrow> int list" where
  "recent e now ts = filter (\<lambda>t. now - t < rl_window e * US) ts"

definition hits_of :: "hits \<Rightarrow> string \<Rightarrow> int list" where
  "hits_of h k = (case map_of h k of None \<Rightarrow> [] | Some ts \<Rightarrow> ts)"

definition rl_dispatch :: "string dict \<Rightarrow> int \<Rightarrow> http_request \<Rightarrow> hits \<Rightarrow> rl_answer \<times> hits" where
  "rl_dispatch e now rq h =
     (if body_too_large e rq then (TooLarge, h)
      else if \<not> rl_enabled e then (Passed, h)
      else case limit_for e (hr_path rq) of
        None \<Rightarrow> (Passed, h)
      | Some (pre, cap) \<Rightarrow>
          let key = rl_key pre rq;
              rec = recent e now (hits_of h key);
              rec' = rec @ [now]
          in if cap \<le> int (length rec) then
               (let retry = (rl_window e * US - (now - Min (set rec'))) div US + 1
                in (TooMany (max 1 retry), dset h key rec'))
             else (Passed, dset h key rec'))"

text \<open>A sequence of timed requests, with the log of what was counted under which key and answered.\<close>

definition counted_key :: "string dict \<Rightarrow> http_request \<Rightarrow> string option" where
  "counted_key e rq =
     (if body_too_large e rq \<or> \<not> rl_enabled e then None
      else map_option (\<lambda>(pre, cap). rl_key pre rq) (limit_for e (hr_path rq)))"

type_synonym rl_log = "(string option \<times> int \<times> rl_answer) list"

definition rl_step :: "string dict \<Rightarrow> hits \<times> rl_log \<Rightarrow> int \<times> http_request \<Rightarrow> hits \<times> rl_log" where
  "rl_step e st r =
     (let d = rl_dispatch e (fst r) (snd r) (fst st)
      in (snd d, snd st @ [(counted_key e (snd r), fst r, fst d)]))"

definition rl_run :: "string dict \<Rightarrow> (int \<times> http_request) list \<Rightarrow> hits \<times> rl_log" where
  "rl_run e rs = foldl (rl_step e) ([], []) rs"

definition passed_in :: "string \<Rightarrow> int \<Rightarrow> int \<Rightarrow> rl_log \<Rightarrow> rl_log" where
  "passed_in k lo hi lg = filter (\<lambda>x. fst x = Some k \<and> snd (snd x) = Passed \<and> lo < fst (snd x) \<and> fst (snd x) \<le> hi) lg"

section \<open>Lemmas\<close>

definition tried :: "string \<Rightarrow> rl_log \<Rightarrow> int list" where
  "tried k lg = map (\<lambda>x. fst (snd x)) (filter (\<lambda>x. fst x = Some k) lg)"

lemma recent_recent: "now \<le> now' \<Longrightarrow> recent e now' (recent e now ts) = recent e now' ts"
  by (auto simp: recent_def intro!: filter_cong)

lemma recent_append: "recent e now (xs @ ys) = recent e now xs @ recent e now ys"
  by (simp add: recent_def)

lemma hits_dset: "hits_of (dset h k ts) k' = (if k' = k then ts else hits_of h k')"
  by (simp add: hits_of_def)

lemma rl_run_snoc: "rl_run e (rs @ [r]) = rl_step e (rl_run e rs) r"
  by (simp add: rl_run_def)

lemma dispatch_hits:
  "hits_of (snd (rl_dispatch e now rq h)) k =
     (if counted_key e rq = Some k then recent e now (hits_of h k) @ [now] else hits_of h k)"
  by (auto simp: rl_dispatch_def counted_key_def Let_def hits_dset split: option.split)

lemma run_times: "map (\<lambda>x. fst (snd x)) (snd (rl_run e rs)) = map fst rs"
  by (induction rs rule: rev_induct) (simp_all add: rl_run_snoc rl_step_def Let_def, simp add: rl_run_def)

text \<open>The stored times of a key are those of its requests, as far as they are recent.\<close>

lemma hits_are_tried:
  "sorted (map fst rs) \<Longrightarrow> list_all (\<lambda>r. fst r \<le> now) rs \<Longrightarrow>
     recent e now (hits_of (fst (rl_run e rs)) k) = recent e now (tried k (snd (rl_run e rs)))"
proof (induction rs arbitrary: now rule: rev_induct)
  case Nil
  then show ?case by (simp add: rl_run_def hits_of_def tried_def)
next
  case (snoc r rs)
  have s: "sorted (map fst rs)" "list_all (\<lambda>q. fst q \<le> fst r) rs" "list_all (\<lambda>q. fst q \<le> now) rs" "fst r \<le> now"
    using snoc.prems by (auto simp: sorted_append list_all_iff)
  have "recent e now (recent e (fst r) (hits_of (fst (rl_run e rs)) k))
      = recent e now (tried k (snd (rl_run e rs)))"
    using snoc.IH [OF s(1,3)] s(4) by (simp add: recent_recent)
  moreover have "recent e now [] = []" by (simp add: recent_def)
  ultimately show ?case using snoc.IH [OF s(1,3)]
    by (simp add: rl_run_snoc rl_step_def Let_def dispatch_hits recent_append tried_def)
qed

lemma passed_below_cap:
  assumes "limit_for e (hr_path rq) = Some (pre, cap)" "counted_key e rq = Some k"
    and "fst (rl_dispatch e now rq h) = Passed"
  shows "int (length (recent e now (hits_of h k))) < cap"
  using assms by (auto simp: rl_dispatch_def counted_key_def Let_def split: if_splits)

lemma length_filter_mono: "(\<And>x. x \<in> set xs \<Longrightarrow> P x \<Longrightarrow> Q x) \<Longrightarrow> length (filter P xs) \<le> length (filter Q xs)"
  by (induction xs) auto

lemma limit_pre: "limit_for e p = Some (pre, cap) \<Longrightarrow> pre = ''/ingest/'' \<or> pre = ''/auth/login''"
  by (auto simp: limit_for_def LIMITED_def split: if_splits)

lemma limit_cap: "limit_for e p = Some (pre, cap) \<Longrightarrow> limit_for e p' = Some (pre, cap') \<Longrightarrow> cap' = cap"
  by (auto simp: limit_for_def LIMITED_def split: if_splits)

lemma same_key_same_cap:
  assumes "limit_for e p = Some (pre, cap)" "limit_for e p' = Some (pre', cap')"
    and "pre' @ ''|'' @ x = pre @ ''|'' @ y"
  shows "cap' = cap"
proof -
  have "pre' = pre" using limit_pre [OF assms(1)] limit_pre [OF assms(2)] assms(3) by auto
  then show ?thesis using assms(1,2) limit_cap by blast
qed

lemma passed_le_recent:
  "now \<le> hi \<Longrightarrow> length (passed_in k (hi - rl_window e * US) hi lg) \<le> length (recent e now (tried k lg))"
  by (induction lg) (auto simp: passed_in_def recent_def tried_def)

lemma passed_in_snoc:
  "passed_in k lo hi (lg @ [(ko, t, a)]) =
     passed_in k lo hi lg @ (if ko = Some k \<and> a = Passed \<and> lo < t \<and> t \<le> hi then [(ko, t, a)] else [])"
  by (simp add: passed_in_def)

lemma counted_limit: "counted_key e rq = Some k \<Longrightarrow>
    \<exists>pre cap. limit_for e (hr_path rq) = Some (pre, cap) \<and> k = pre @ ''|'' @ client_ip rq"
  by (auto simp: counted_key_def rl_key_def split: if_splits)

lemma cap_pos: "limit_for e p = Some (pre, cap) \<Longrightarrow> 0 < cap"
  by (auto simp: limit_for_def LIMITED_def split: if_splits option.splits)

text \<open>C15: For a clock that does not go back, no window of the configured length holds more requests of
  one client and path prefix that passed than the configured limit.\<close>

theorem rate_limit_bound:
  assumes "sorted (map fst rs)" and "limit_for e path = Some (pre, cap)"
  shows "int (length (passed_in (pre @ ''|'' @ ip) (t - rl_window e * US) t (snd (rl_run e rs)))) \<le> cap"
  using assms(1)
proof (induction rs rule: rev_induct)
  case Nil
  then show ?case using cap_pos [OF assms(2)] by (simp add: rl_run_def passed_in_def)
next
  case (snoc r rs)
  let ?k = "pre @ ''|'' @ ip" and ?h = "fst (rl_run e rs)" and ?lo = "t - rl_window e * US"
  let ?lg = "snd (rl_run e rs)" and ?a = "fst (rl_dispatch e (fst r) (snd r) (fst (rl_run e rs)))"
  have s: "sorted (map fst rs)" "list_all (\<lambda>q. fst q \<le> fst r) rs"
    using snoc.prems by (auto simp: sorted_append list_all_iff)
  show ?case
  proof (cases "counted_key e (snd r) = Some ?k \<and> ?a = Passed \<and> ?lo < fst r \<and> fst r \<le> t")
    case True
    then obtain pre' cap' where l: "limit_for e (hr_path (snd r)) = Some (pre', cap')"
        "?k = pre' @ ''|'' @ client_ip (snd r)"
      using counted_limit by blast
    have "cap' = cap" using same_key_same_cap [OF assms(2) l(1)] l(2) by metis
    moreover have "int (length (recent e (fst r) (hits_of ?h ?k))) < cap'"
      using True by (intro passed_below_cap [OF l(1)]) simp_all
    ultimately have "int (length (recent e (fst r) (tried ?k ?lg))) < cap"
      by (simp only: hits_are_tried [OF s])
    moreover have "length (passed_in ?k ?lo t ?lg) \<le> length (recent e (fst r) (tried ?k ?lg))"
      using True by (intro passed_le_recent) simp
    ultimately show ?thesis using True by (simp add: rl_run_snoc rl_step_def Let_def passed_in_snoc)
  next
    case False
    have "passed_in ?k ?lo t (snd (rl_run e (rs @ [r]))) = passed_in ?k ?lo t ?lg"
      unfolding rl_run_snoc rl_step_def Let_def snd_conv passed_in_snoc if_not_P [OF False] by simp
    then show ?thesis using snoc.IH [OF s(1)] by simp
  qed
qed

definition demo_limits :: "string dict" where
  "demo_limits = [(''MORI_RATELIMIT_LOGIN_MAX'', ''2'')]"

definition login_from :: "string \<Rightarrow> http_request" where
  "login_from xff = \<lparr>hr_path = ''/auth/login'', hr_headers = [(''x-forwarded-for'', xff)], hr_client = None\<rparr>"

definition demo_logins :: "(int \<times> http_request) list" where
  "demo_logins = [(0, login_from ''10.0.0.1''), (1000000, login_from ''10.0.0.1''), (2000000, login_from ''10.0.0.1''),
     (59000000, login_from ''10.0.0.1''), (130000000, login_from ''10.0.0.1'')]"

lemma demo_limit: "limit_for demo_limits ''/auth/login'' = Some (''/auth/login'', 2)"
  by code_simp

lemma login_from_facts:
  "hr_path (login_from ip) = ''/auth/login''" "\<not> body_too_large e (login_from ip)"
  by (simp_all add: login_from_def body_too_large_def env_get_def Let_def)

lemma login_ips:
  "client_ip (login_from ''10.0.0.1'') = ''10.0.0.1''" "client_ip (login_from ''10.0.0.2'') = ''10.0.0.2''"
  by (simp_all add: client_ip_def login_from_def env_get_def Let_def strip_def lstrip_def is_space_def)

lemma demo_logins_answers:
  "map (\<lambda>x. snd (snd x)) (snd (rl_run demo_limits demo_logins)) = [Passed, Passed, TooMany 59, TooMany 2, Passed]"
  by code_simp

lemma rate_limit_bound_witness:
  "int (length (passed_in ''/auth/login|10.0.0.1'' (59500000 - rl_window demo_limits * US) 59500000
     (snd (rl_run demo_limits demo_logins)))) \<le> 2
   \<and> map (\<lambda>x. snd (snd x)) (snd (rl_run demo_limits demo_logins)) = [Passed, Passed, TooMany 59, TooMany 2, Passed]"
proof -
  have 1: "sorted (map fst demo_logins)" by (simp add: demo_logins_def)
  show ?thesis
    using rate_limit_bound [OF 1 demo_limit, of "''10.0.0.1''" 59500000] demo_logins_answers by simp
qed

section \<open>Who is counted\<close>

text \<open>A client that names a new address in \<^verbatim>\<open>X-Forwarded-For\<close> with each request is never limited.\<close>

definition spoofed :: "string dict \<Rightarrow> (int \<times> http_request) list \<Rightarrow> bool" where
  "spoofed e rs = (distinct (map (\<lambda>r. client_ip (snd r)) rs) \<and> list_all (\<lambda>r. \<not> body_too_large e (snd r)) rs)"

lemma rl_key_inj: "limit_for e p = Some (pre, cap) \<Longrightarrow> limit_for e p' = Some (pre', cap') \<Longrightarrow>
    rl_key pre rq = rl_key pre' rq' \<Longrightarrow> client_ip rq = client_ip rq'"
  using limit_pre [of e p pre cap] limit_pre [of e p' pre' cap'] by (auto simp: rl_key_def)

lemma fresh_client_empty:
  "client_ip rq \<notin> (\<lambda>r. client_ip (snd r)) ` set rs \<Longrightarrow> limit_for e (hr_path rq) = Some (pre, cap) \<Longrightarrow>
     hits_of (fst (rl_run e rs)) (rl_key pre rq) = []"
proof (induction rs rule: rev_induct)
  case Nil
  then show ?case by (simp add: rl_run_def hits_of_def)
next
  case (snoc r rs)
  have "counted_key e (snd r) \<noteq> Some (rl_key pre rq)"
  proof
    assume c: "counted_key e (snd r) = Some (rl_key pre rq)"
    then obtain pre' cap' where "limit_for e (hr_path (snd r)) = Some (pre', cap')" "rl_key pre rq = rl_key pre' (snd r)"
      by (auto simp: counted_key_def split: if_splits)
    with snoc.prems(2) have "client_ip rq = client_ip (snd r)" by (rule rl_key_inj)
    with snoc.prems(1) show False by auto
  qed
  then show ?case using snoc by (simp add: rl_run_snoc rl_step_def Let_def dispatch_hits)
qed

text \<open>Requests that each carry a different \<^verbatim>\<open>X-Forwarded-For\<close> address all pass, whatever the limit: the
  limiter counts by an address that the client chooses.\<close>

lemma forged_address_unlimited:
  assumes "spoofed e rs"
  shows "list_all (\<lambda>x. snd (snd x) = Passed) (snd (rl_run e rs))"
  using assms
proof (induction rs rule: rev_induct)
  case Nil
  then show ?case by (simp add: rl_run_def)
next
  case (snoc r rs)
  have p: "spoofed e rs" "client_ip (snd r) \<notin> (\<lambda>r. client_ip (snd r)) ` set rs" "\<not> body_too_large e (snd r)"
    using snoc.prems by (auto simp: spoofed_def)
  have "fst (rl_dispatch e (fst r) (snd r) (fst (rl_run e rs))) = Passed"
  proof (cases "limit_for e (hr_path (snd r))")
    case None
    then show ?thesis using p(3) by (simp add: rl_dispatch_def)
  next
    case (Some l)
    obtain pre cap where l: "l = (pre, cap)" by (cases l)
    have "hits_of (fst (rl_run e rs)) (rl_key pre (snd r)) = []"
      using fresh_client_empty [OF p(2)] Some l by simp
    then show ?thesis using p(3) Some l cap_pos [of e "hr_path (snd r)" pre cap]
      by (simp add: rl_dispatch_def Let_def recent_def)
  qed
  then show ?case using snoc.IH [OF p(1)] by (simp add: rl_run_snoc rl_step_def Let_def)
qed

lemma forged_address_unlimited_witness:
  "list_all (\<lambda>x. snd (snd x) = Passed)
     (snd (rl_run demo_limits [(0, login_from ''10.0.0.1''), (1, login_from ''10.0.0.2'')]))"
  by (rule forged_address_unlimited) (simp add: spoofed_def login_ips login_from_facts)

end
