(* ===== verification/Sessions.thy ===== *)
theory Sessions
  imports Ratelimit
begin

text \<open>
  Login sessions: the session dictionary with its write-through to the database
  (\<^verbatim>\<open>api/session_store.py\<close>) and the middleware that checks the session cookie, its lifetime and the
  origin of state-changing requests (\<^verbatim>\<open>api/auth.py\<close>).  The table of sessions is the rows that are not
  past their clean-up date.  A read, a write or a deletion in the database can fail; a flag says so.
\<close>

section \<open>The session dictionary\<close>

record session_store =
  ss_mem :: "pdict dict"
  ss_disk :: "pdict dict option"

definition build_session_store :: "string dict \<Rightarrow> bool \<Rightarrow> bool \<Rightarrow> pdict dict \<Rightarrow> session_store" where
  "build_session_store e postgres_repo load_ok rows =
     (if lower (strip (env_get e ''MORI_SESSION_BACKEND'' ''memory'')) = ''postgres'' \<and> postgres_repo
      then \<lparr>ss_mem = (if load_ok then dict_of rows else []), ss_disk = Some rows\<rparr> else \<lparr>ss_mem = [], ss_disk = None\<rparr>)"

definition on_disk :: "bool \<Rightarrow> (pdict dict \<Rightarrow> pdict dict) \<Rightarrow> session_store \<Rightarrow> session_store" where
  "on_disk db_ok f s = (if db_ok then s\<lparr>ss_disk := map_option f (ss_disk s)\<rparr> else s)"

definition ss_set :: "bool \<Rightarrow> string \<Rightarrow> pdict \<Rightarrow> session_store \<Rightarrow> session_store" where
  "ss_set db_ok token rec s =
     on_disk db_ok (\<lambda>d. dset d token rec) (s\<lparr>ss_mem := dset (ss_mem s) token rec\<rparr>)"

definition ss_pop :: "bool \<Rightarrow> string \<Rightarrow> session_store \<Rightarrow> pdict option \<times> session_store" where
  "ss_pop db_ok token s =
     (case map_of (ss_mem s) token of
        None \<Rightarrow> (None, s)
      | Some rec \<Rightarrow>
          (Some rec, on_disk db_ok (AList.delete token) (s\<lparr>ss_mem := AList.delete token (ss_mem s)\<rparr>)))"

text \<open>A change inside a record, which is not written through, and a restart of the process.\<close>

definition ss_touch :: "string \<Rightarrow> string \<Rightarrow> session_store \<Rightarrow> session_store" where
  "ss_touch token now s =
     (case map_of (ss_mem s) token of
        None \<Rightarrow> s
      | Some rec \<Rightarrow> s\<lparr>ss_mem := dset (ss_mem s) token (dset rec ''last_seen'' (PStr now))\<rparr>)"

definition ss_restart :: "session_store \<Rightarrow> session_store" where
  "ss_restart s = s\<lparr>ss_mem := (case ss_disk s of None \<Rightarrow> [] | Some rows \<Rightarrow> dict_of rows)\<rparr>"

section \<open>Lifetimes\<close>

definition ttl_of :: "string dict \<Rightarrow> string \<Rightarrow> int \<Rightarrow> int" where
  "ttl_of e name d =
     (let raw = strip (env_get e name [])
      in if raw = [] then max 1 d else case int_of_text raw of None \<Rightarrow> d | Some n \<Rightarrow> max 1 n)"

definition session_ttls :: "string dict \<Rightarrow> int \<times> int" where
  "session_ttls e = (ttl_of e ''MORI_SESSION_IDLE_SECONDS'' 28800, ttl_of e ''MORI_SESSION_ABSOLUTE_SECONDS'' 604800)"

text \<open>\<^verbatim>\<open>timestamp()\<close>: a naive time is local, \<open>tz\<close> east of UTC.\<close>

definition timestamp :: "int \<Rightarrow> dtime \<Rightarrow> int" where
  "timestamp tz dt = dt_us dt - (case dt_off dt of None \<Rightarrow> tz | Some x \<Rightarrow> x)"

definition age_of :: "int \<Rightarrow> pdict \<Rightarrow> string \<Rightarrow> int \<Rightarrow> int" where
  "age_of tz sess key now =
     (let raw = gstr sess key
      in if raw = [] then 0 else case from_iso raw of None \<Rightarrow> 0 | Some dt \<Rightarrow> now - timestamp tz dt)"

definition session_expired :: "string dict \<Rightarrow> int \<Rightarrow> pdict \<Rightarrow> int \<Rightarrow> bool" where
  "session_expired e tz sess now =
     (case session_ttls e of (idle, absolute) \<Rightarrow>
        let created_age = age_of tz sess ''created_at'' now;
            last_age = (if truthy (dget sess ''last_seen'') then age_of tz sess ''last_seen'' now else created_age)
        in absolute * US < created_age \<or> idle * US < last_age)"

definition isoformat_utc :: "int \<Rightarrow> string" where
  "isoformat_utc now = iso_text now @ ''+00:00''"

section \<open>Origins\<close>

text \<open>\<^verbatim>\<open>urlsplit(s).netloc\<close>; \<open>None\<close> where it raises (an unbalanced bracket).  The address inside a pair of
  brackets is not checked.\<close>

definition url_clean :: "string \<Rightarrow> string" where
  "url_clean s = filter (\<lambda>c. c \<notin> {CHR 0x09, CHR 0x0A, CHR 0x0D})
     (dropWhile (\<lambda>c. (of_char c :: nat) \<le> 32) s)"

definition url_rest :: "string \<Rightarrow> string" where
  "url_rest s =
     (let sch = takeWhile (\<lambda>c. c \<noteq> CHR '':'') s
      in if CHR '':'' \<in> set s \<and> sch \<noteq> [] \<and> (is_upper (hd sch) \<or> is_lower (hd sch))
            \<and> list_all (\<lambda>c. is_upper c \<or> is_lower c \<or> is_digit c \<or> c \<in> set ''+-.'') sch
         then drop (length sch + 1) s else s)"

definition netloc :: "string \<Rightarrow> string option" where
  "netloc url =
     (let r = url_rest (url_clean url)
      in if prefix ''//'' r then
           (let n = takeWhile (\<lambda>c. c \<notin> set ''/?#'') (drop 2 r)
            in if (CHR ''['' \<in> set n) \<noteq> (CHR '']'' \<in> set n) then None else Some n)
         else Some [])"

text \<open>The allowed hosts: \<open>None\<close> where one of them cannot be split.\<close>

definition extra_origin :: "string \<Rightarrow> string option" where
  "extra_origin x = (if contains ''://'' x then netloc x else Some x)"

definition allowed_origins :: "string dict \<Rightarrow> string list option" where
  "allowed_origins e =
     (let pub = lower (strip (env_get e ''MORI_PUBLIC_URL'' []));
          extras = filter (\<lambda>x. x \<noteq> []) (map (\<lambda>x. lower (strip x))
                     (split_on (CHR '','') (env_get e ''MORI_ALLOWED_ORIGINS'' [])));
          ns = (if pub \<noteq> [] then [netloc pub] else []) @ map extra_origin extras
      in if None \<in> set ns then None else Some (map the ns))"

definition origin_allowed :: "string dict \<Rightarrow> string \<Rightarrow> string \<Rightarrow> bool option" where
  "origin_allowed e origin host =
     (case netloc origin of
        None \<Rightarrow> None
      | Some n \<Rightarrow>
          if lower n = [] then Some True
          else if lower n = lower host then Some True
          else map_option (\<lambda>hs. lower n \<in> set hs) (allowed_origins e))"

section \<open>The middleware\<close>

record mw_request =
  mr_path :: string
  mr_cookie :: string
  mr_method :: string
  mr_origin :: string
  mr_host :: string
  mr_accept :: string

datatype mw_answer = Next | Redirect string | Unauthorized | CsrfBlocked | Crashed

definition CSRF_METHODS :: "string list" where
  "CSRF_METHODS = [''POST'', ''PUT'', ''PATCH'', ''DELETE'']"

definition AUTH_PUBLIC_PATHS :: "string list" where
  "AUTH_PUBLIC_PATHS = [''/login'', ''/signup-request'', ''/auth/login'', ''/auth/logout'',
     ''/auth/signup-request'', ''/auth/me'', ''/docs'', ''/openapi.json'', ''/redoc'', ''/health'', ''/health/live'',
     ''/health/ready'', ''/metrics'', ''/privacy/pii-rules.yml'', ''/privacy/flow-scanner.py'',
     ''/code-review/fullscan.py'', ''/code-review/scanners/manifest.json'']"

definition public_path :: "string \<Rightarrow> bool" where
  "public_path path = (path \<in> set AUTH_PUBLIC_PATHS \<or> prefix ''/redoc'' path \<or> prefix ''/static'' path
     \<or> prefix ''/ingest/'' path)"

text \<open>\<^verbatim>\<open>urllib.parse.quote\<close>.\<close>

definition quote_char :: "char \<Rightarrow> string" where
  "quote_char c =
     (if is_digit c \<or> is_upper c \<or> is_lower c \<or> c \<in> set ''_.-~/'' then [c]
      else [CHR ''%'', ''0123456789ABCDEF'' ! (of_char c div 16), ''0123456789ABCDEF'' ! (of_char c mod 16)])"

definition url_quote :: "string \<Rightarrow> string" where
  "url_quote s = concat (map quote_char s)"

definition unauthenticated :: "mw_request \<Rightarrow> mw_answer" where
  "unauthenticated rq =
     (if contains ''text/html'' (mr_accept rq) then Redirect (''/login?next='' @ url_quote (mr_path rq))
      else Unauthorized)"

definition csrf_check :: "string dict \<Rightarrow> mw_request \<Rightarrow> mw_answer" where
  "csrf_check e rq =
     (if mr_method rq \<in> set CSRF_METHODS \<and> mr_origin rq \<noteq> [] then
        (case origin_allowed e (mr_origin rq) (mr_host rq) of
           None \<Rightarrow> Crashed | Some ok \<Rightarrow> if ok then Next else CsrfBlocked)
      else Next)"

definition mw_dispatch ::
    "string dict \<Rightarrow> int \<Rightarrow> bool \<Rightarrow> int \<Rightarrow> mw_request \<Rightarrow> session_store \<Rightarrow> mw_answer \<times> session_store" where
  "mw_dispatch e tz db_ok now rq s =
     (if public_path (mr_path rq) then (Next, s)
      else case map_of (ss_mem s) (mr_cookie rq) of
        None \<Rightarrow> (unauthenticated rq, s)
      | Some sess \<Rightarrow>
          if mr_cookie rq = [] then (unauthenticated rq, s)
          else if session_expired e tz sess now
            then (unauthenticated rq, snd (ss_pop db_ok (mr_cookie rq) s))
          else (csrf_check e rq, ss_touch (mr_cookie rq) (isoformat_utc now) s))"

section \<open>Lemmas on the store\<close>

datatype sess_op = SSet bool string pdict | SPop bool string | STouch string string

primrec sess_exec :: "sess_op \<Rightarrow> session_store \<Rightarrow> session_store" where
  "sess_exec (SSet ok t r) s = ss_set ok t r s"
| "sess_exec (SPop ok t) s = snd (ss_pop ok t s)"
| "sess_exec (STouch t now) s = ss_touch t now s"

primrec op_written :: "sess_op \<Rightarrow> bool" where
  "op_written (SSet ok t r) = ok"
| "op_written (SPop ok t) = ok"
| "op_written (STouch t now) = True"

definition sess_run :: "sess_op list \<Rightarrow> session_store \<Rightarrow> session_store" where
  "sess_run ops s = foldl (\<lambda>s op. sess_exec op s) s ops"

text \<open>A record without the one field that is not written through.\<close>

definition unseen :: "pdict \<Rightarrow> pdict" where
  "unseen r = filter (\<lambda>kv. fst kv \<noteq> ''last_seen'') r"

lemma unseen_touch: "unseen (dset r ''last_seen'' v) = unseen r"
  unfolding unseen_def by (rule filter_dset) simp

lemma map_of_delete [simp]: "map_of (AList.delete t d) t' = (if t' = t then None else map_of d t')"
  by (simp add: delete_conv')

lemma dwf_delete: "dwf d \<Longrightarrow> dwf (AList.delete t d)"
  by (rule distinct_delete)

definition same_records :: "pdict dict \<Rightarrow> pdict dict \<Rightarrow> bool" where
  "same_records d e = (\<forall>t. map_option unseen (map_of d t) = map_option unseen (map_of e t))"

lemma same_records_dset: "same_records d e \<Longrightarrow> same_records (dset d t r) (dset e t r)"
  by (simp add: same_records_def)

lemma same_records_delete: "same_records d e \<Longrightarrow> same_records (AList.delete t d) (AList.delete t e)"
  by (simp add: same_records_def)

lemma same_records_touch:
  assumes "same_records d e" "map_of e t = Some r"
  shows "same_records d (dset e t (dset r ''last_seen'' v))"
proof -
  have "map_option unseen (map_of d t) = map_option unseen (map_of e t)"
    using assms(1) by (simp only: same_records_def)
  then obtain z where "map_of d t = Some z" "unseen z = unseen r" using assms(2) by auto
  then have "map_option unseen (map_of d t') = map_option unseen (map_of (dset e t (dset r ''last_seen'' v)) t')" for t'
    using assms(1) by (cases "t' = t") (simp_all add: unseen_touch same_records_def)
  then show ?thesis by (simp add: same_records_def)
qed

lemma same_records_missing: "same_records d e \<Longrightarrow> map_of e t = None \<Longrightarrow> map_of d t = None"
  by (metis map_option_is_None same_records_def)

definition in_step :: "session_store \<Rightarrow> bool" where
  "in_step s = (case ss_disk s of None \<Rightarrow> False | Some rows \<Rightarrow> dwf rows \<and> same_records rows (ss_mem s))"

lemma in_step_exec: "in_step s \<Longrightarrow> op_written op \<Longrightarrow> in_step (sess_exec op s)"
  by (cases op) (auto simp: in_step_def ss_set_def ss_pop_def ss_touch_def on_disk_def dwf_delete
      same_records_dset same_records_delete same_records_touch simp del: map_of_delete split: option.splits)

lemma in_step_run: "in_step s \<Longrightarrow> list_all op_written ops \<Longrightarrow> in_step (sess_run ops s)"
  by (induction ops arbitrary: s) (simp_all add: sess_run_def in_step_exec)

lemma in_step_restart: "in_step s \<Longrightarrow>
    map_option unseen (map_of (ss_mem (ss_restart s)) t) = map_option unseen (map_of (ss_mem s) t)"
  by (auto simp: in_step_def same_records_def ss_restart_def map_of_dict_of map_of_rev_distinct
      split: option.splits)

text \<open>When every write reached the database, a restart of the process restores exactly the sessions it
  had, each with the record it had except for the time it was last seen.\<close>

lemma sessions_survive_restart:
  assumes "list_all op_written ops" and "lower (strip (env_get e ''MORI_SESSION_BACKEND'' ''memory'')) = ''postgres''"
  shows "map_option unseen (map_of (ss_mem (ss_restart (sess_run ops (build_session_store e True True [])))) token)
    = map_option unseen (map_of (ss_mem (sess_run ops (build_session_store e True True []))) token)"
  by (rule in_step_restart, rule in_step_run [OF _ assms(1)])
    (use assms(2) in \<open>simp add: build_session_store_def in_step_def same_records_def dict_of_def\<close>)

definition demo_session_ops :: "sess_op list" where
  "demo_session_ops = [SSet True ''t1'' [(''username'', PStr ''kim''), (''last_seen'', PStr ''a'')],
     SSet True ''t2'' [(''username'', PStr ''lee'')], STouch ''t1'' ''b'', SPop True ''t2'']"

lemma sessions_survive_restart_witness:
  "map_option unseen (map_of (ss_mem (ss_restart (sess_run demo_session_ops
     (build_session_store [(''MORI_SESSION_BACKEND'', ''postgres'')] True True [])))) ''t1'')
   = Some [(''username'', PStr ''kim'')]"
proof -
  let ?e = "[(''MORI_SESSION_BACKEND'', ''postgres'')]"
  have 1: "list_all op_written demo_session_ops" by (simp add: demo_session_ops_def)
  have 2: "lower (strip (env_get ?e ''MORI_SESSION_BACKEND'' ''memory'')) = ''postgres''" by code_simp
  have "map_option unseen (map_of (ss_mem (sess_run demo_session_ops (build_session_store ?e True True []))) ''t1'')
      = Some [(''username'', PStr ''kim'')]" by code_simp
  then show ?thesis using sessions_survive_restart [OF 1 2, of "''t1''"] by simp
qed

end
