(* ===== verification/Auth.thy ===== *)
theory Auth
  imports Sessions
begin

text \<open>
  Accounts and login: the configuration and the account table of \<^verbatim>\<open>api/auth.py\<close>, the role gate of
  \<^verbatim>\<open>api/routes/context.py\<close> and the routes of \<^verbatim>\<open>api/routes/auth.py\<close> (login with its lock-out, logout,
  sign-up requests and their approval, the own profile).  The directory server is a parameter: a function
  that says whether a password is right and one that adds a person.  Random identifiers and passwords are
  a parameter too, a sequence of texts.  The cookie that a login sets carries the token.
\<close>

section \<open>Configuration and accounts\<close>

record account =
  ac_password :: string
  ac_role :: string

record auth_config =
  cf_ldap_enabled :: bool
  cf_admin_user :: string
  cf_admin_password :: string
  cf_auth_enabled :: bool

record auth_env =
  ae_os :: "string dict"
  ae_config :: auth_config
  ae_ldap_verify :: "string \<Rightarrow> string \<Rightarrow> bool"
  ae_ldap_add :: "string \<Rightarrow> string \<Rightarrow> pdict \<Rightarrow> string option"
  ae_random :: "nat \<Rightarrow> string"
  ae_tz :: int

definition env_first :: "string dict \<Rightarrow> string list \<Rightarrow> string" where
  "env_first e names =
     (case List.find (\<lambda>v. v \<noteq> []) (map (\<lambda>n. strip (env_get e n [])) names) of None \<Rightarrow> [] | Some v \<Rightarrow> v)"

definition env_flag :: "string dict \<Rightarrow> string \<Rightarrow> bool" where
  "env_flag e name = (lower (strip (env_get e name [])) \<in> {''1'', ''true'', ''yes'', ''on''})"

definition read_auth_config :: "string dict \<Rightarrow> bool \<Rightarrow> auth_config" where
  "read_auth_config e ldap3_available =
     (let url = env_first e [''MORI_LDAP_URL'', ''LDAP_URL''];
          ldap = (env_flag e ''MORI_LDAP_ENABLED'' \<and> url \<noteq> [] \<and> ldap3_available)
      in \<lparr>cf_ldap_enabled = ldap, cf_admin_user = env_get e ''MORI_ADMIN_USER'' ''admin'',
          cf_admin_password = env_get e ''MORI_ADMIN_PASSWORD'' ''1234'',
          cf_auth_enabled = (env_get e ''MORI_AUTH_ENABLED'' [] \<noteq> [] \<or> ldap)\<rparr>)"

definition default_local_users :: "string \<Rightarrow> string \<Rightarrow> account dict" where
  "default_local_users admin_user admin_password = dict_of
     [(admin_user, \<lparr>ac_password = admin_password, ac_role = ''admin''\<rparr>),
      (''security'', \<lparr>ac_password = ''1234'', ac_role = ''security''\<rparr>),
      (''monitor'', \<lparr>ac_password = ''1234'', ac_role = ''monitor''\<rparr>),
      (''auditor'', \<lparr>ac_password = ''1234'', ac_role = ''auditor''\<rparr>),
      (''helpdesk'', \<lparr>ac_password = ''1234'', ac_role = ''helpdesk''\<rparr>)]"

definition verify_credentials :: "auth_env \<Rightarrow> account dict \<Rightarrow> string \<Rightarrow> string \<Rightarrow> bool" where
  "verify_credentials env users username password =
     ((cf_ldap_enabled (ae_config env) \<and> ae_ldap_verify env username password)
      \<or> (case map_of users username of None \<Rightarrow> False | Some a \<Rightarrow> ac_password a = password))"

section \<open>Roles\<close>

definition ALL_ROLES :: "string list" where
  "ALL_ROLES = [''admin'', ''security'', ''monitor'', ''auditor'', ''helpdesk'', ''user'']"

definition DEFAULT_ACCOUNT_VIEW_ROLES :: "string list" where
  "DEFAULT_ACCOUNT_VIEW_ROLES = [''admin'', ''security'']"

definition parse_account_view_roles :: "string dict \<Rightarrow> string list" where
  "parse_account_view_roles settings =
     (let raw = env_get settings ''account_view_roles'' [];
          roles = filter (\<lambda>r. r \<noteq> []) (map strip (split_on (CHR '','') (replace_char (CHR '';'') (CHR '','') raw)));
          valid = filter (\<lambda>r. r \<in> set ALL_ROLES) roles
      in if valid = [] then DEFAULT_ACCOUNT_VIEW_ROLES
         else if ''admin'' \<notin> set valid then ''admin'' # valid else valid)"

definition DEFAULT_ROLE_PERMISSIONS :: "string list dict" where
  "DEFAULT_ROLE_PERMISSIONS =
     [(''admin'', [''dashboard'', ''triage'', ''incidents'', ''assets'', ''compliance'', ''guides'']),
      (''security'', [''dashboard'', ''triage'', ''incidents'', ''assets'', ''compliance'', ''guides'']),
      (''monitor'', [''dashboard'', ''triage'', ''assets'', ''compliance'', ''guides'']),
      (''auditor'', [''dashboard'', ''compliance'', ''guides'']),
      (''helpdesk'', [''dashboard'', ''assets'', ''guides'']),
      (''user'', [''dashboard'', ''assets'', ''guides''])]"

section \<open>State\<close>

record auth_state =
  as_sessions :: session_store
  as_users :: "account dict"
  as_requests :: "pdict list"
  as_failures :: "hits"
  as_settings :: "string dict"
  as_profiles :: "pdict dict"
  as_tabs :: "string list dict"
  as_role_tabs :: "string list dict"
  as_drawn :: nat

datatype auth_err =
    InvalidInput | BadCredentials | NotPermitted | Unknown | Taken | Locked int | DirectoryError | Failed

text \<open>A request of the routes: the cookie, the address of the client, the time and whether the database
  takes the write.\<close>

record auth_request =
  ar_cookie :: string
  ar_http :: http_request
  ar_now :: int
  ar_db_ok :: bool

definition isoformat_z :: "int \<Rightarrow> string" where
  "isoformat_z now = iso_text now @ ''Z''"

definition session_of :: "auth_state \<Rightarrow> auth_request \<Rightarrow> pdict option" where
  "session_of s rq = map_of (ss_mem (as_sessions s)) (ar_cookie rq)"

definition session_role :: "auth_state \<Rightarrow> auth_request \<Rightarrow> string option" where
  "session_role s rq = map_option (\<lambda>x. gstr x ''role'') (session_of s rq)"

definition session_username :: "auth_state \<Rightarrow> auth_request \<Rightarrow> string" where
  "session_username s rq = (case session_of s rq of None \<Rightarrow> [] | Some x \<Rightarrow> gstr x ''username'')"

definition require_role :: "auth_env \<Rightarrow> auth_state \<Rightarrow> auth_request \<Rightarrow> string list \<Rightarrow> auth_err option" where
  "require_role env s rq roles =
     (if \<not> cf_auth_enabled (ae_config env) then None
      else if session_role s rq \<notin> Some ` set roles then Some NotPermitted else None)"

section \<open>The lock-out\<close>

definition login_cfg :: "string dict \<Rightarrow> int \<times> int" where
  "login_cfg e =
     (max 1 (case env_int e ''MORI_LOGIN_MAX_FAILURES'' 5 of None \<Rightarrow> 5 | Some n \<Rightarrow> n),
      max 1 (case env_int e ''MORI_LOGIN_LOCKOUT_SECONDS'' 900 of None \<Rightarrow> 900 | Some n \<Rightarrow> n))"

definition login_key :: "string \<Rightarrow> string \<Rightarrow> string" where
  "login_key username ip = lower username @ ''|'' @ ip"

definition recent_failures :: "string dict \<Rightarrow> int \<Rightarrow> int list \<Rightarrow> int list" where
  "recent_failures e now ts = filter (\<lambda>t. now - t < snd (login_cfg e) * US) ts"

definition login_locked_seconds :: "string dict \<Rightarrow> int \<Rightarrow> string \<Rightarrow> hits \<Rightarrow> int \<times> hits" where
  "login_locked_seconds e now key h =
     (let fails = recent_failures e now (hits_of h key)
      in (if fst (login_cfg e) \<le> int (length fails)
          then (snd (login_cfg e) * US - (now - Min (set fails))) div US + 1 else 0,
          dset h key fails))"

definition record_login_failure :: "int \<Rightarrow> string \<Rightarrow> hits \<Rightarrow> hits" where
  "record_login_failure now key h = dset h key (hits_of h key @ [now])"

definition clear_login_failures :: "string \<Rightarrow> hits \<Rightarrow> hits" where
  "clear_login_failures key h = AList.delete key h"

section \<open>Login and logout\<close>

definition role_of_user :: "account dict \<Rightarrow> string \<Rightarrow> string" where
  "role_of_user users username = (case map_of users username of None \<Rightarrow> ''user'' | Some a \<Rightarrow> ac_role a)"

definition auth_login ::
    "auth_env \<Rightarrow> auth_request \<Rightarrow> pdict \<Rightarrow> auth_state \<Rightarrow> (auth_err + string) \<times> auth_state" where
  "auth_login env rq payload s =
     (let username = pstrip payload ''username'';
          password = ptext payload ''password'';
          key = login_key username (client_ip (ar_http rq))
      in if username = [] \<or> password = [] then (Inl InvalidInput, s)
         else case login_locked_seconds (ae_os env) (ar_now rq) key (as_failures s) of (locked, fails) \<Rightarrow>
           if 0 < locked then (Inl (Locked locked), s\<lparr>as_failures := fails\<rparr>)
           else if \<not> verify_credentials env (as_users s) username password
             then (Inl BadCredentials, s\<lparr>as_failures := record_login_failure (ar_now rq) key fails\<rparr>)
           else
             let token = ae_random env (as_drawn s);
                 now = isoformat_z (ar_now rq);
                 rec = [(''username'', PStr username), (''role'', PStr (role_of_user (as_users s) username)),
                        (''created_at'', PStr now), (''last_seen'', PStr now)]
             in (Inr token, s\<lparr>as_failures := clear_login_failures key fails, as_drawn := as_drawn s + 1,
                   as_sessions := ss_set (ar_db_ok rq) token rec (as_sessions s)\<rparr>))"

definition auth_logout :: "auth_request \<Rightarrow> auth_state \<Rightarrow> auth_state" where
  "auth_logout rq s =
     s\<lparr>as_sessions := snd (ss_pop (ar_db_ok rq) (ar_cookie rq) (as_sessions s))\<rparr>"

section \<open>Sign-up\<close>

definition SIGNUP_ROLES :: "string list" where
  "SIGNUP_ROLES = [''admin'', ''security'', ''monitor'', ''auditor'', ''helpdesk'', ''user'']"

definition submit_signup_request ::
    "auth_env \<Rightarrow> auth_request \<Rightarrow> pdict \<Rightarrow> auth_state \<Rightarrow> (auth_err + pdict) \<times> auth_state" where
  "submit_signup_request env rq payload s =
     (let username = pstrip payload ''username'';
          name = pstrip payload ''name'';
          email = pstrip payload ''email''
      in if name = [] \<or> email = [] then (Inl InvalidInput, s)
         else if username \<noteq> [] \<and> map_of (as_users s) username \<noteq> None then (Inl Taken, s)
         else
           let req = [(''id'', PStr (ae_random env (as_drawn s))),
                      (''username'', PStr (sor username (hd (split_on (CHR ''@'') email)))),
                      (''name'', PStr name), (''email'', PStr email),
                      (''department'', PStr (pstrip payload ''department'')),
                      (''reason'', PStr (pstrip payload ''reason'')), (''status'', PStr ''pending''),
                      (''created_at'', PStr (isoformat_z (ar_now rq))), (''reviewed_at'', PNone)]
           in (Inr req, s\<lparr>as_requests := as_requests s @ [req], as_drawn := as_drawn s + 1\<rparr>))"

definition list_signup_requests :: "auth_state \<Rightarrow> pdict list" where
  "list_signup_requests s = as_requests s"

definition reviewed :: "string \<Rightarrow> string \<Rightarrow> pdict \<Rightarrow> pdict" where
  "reviewed status now req = dset (dset req ''status'' (PStr status)) ''reviewed_at'' (PStr now)"

fun update_first :: "('a \<Rightarrow> bool) \<Rightarrow> ('a \<Rightarrow> 'a) \<Rightarrow> 'a list \<Rightarrow> 'a list" where
  "update_first P f [] = []"
| "update_first P f (x # xs) = (if P x then f x # xs else x # update_first P f xs)"

definition review_request :: "string \<Rightarrow> string \<Rightarrow> int \<Rightarrow> auth_state \<Rightarrow> auth_state" where
  "review_request req_id status now s =
     s\<lparr>as_requests := update_first (\<lambda>r. dget r ''id'' = PStr req_id) (reviewed status (isoformat_z now))
       (as_requests s)\<rparr>"

definition ldap_role_key :: "string \<Rightarrow> string" where
  "ldap_role_key username = ''ldaprole:'' @ username"

definition update_signup_request ::
    "auth_env \<Rightarrow> auth_request \<Rightarrow> string \<Rightarrow> pdict \<Rightarrow> auth_state \<Rightarrow> (auth_err + pdict) \<times> auth_state" where
  "update_signup_request env rq req_id payload s =
     (let status = pstrip payload ''status''
      in if status \<notin> {''approved'', ''rejected'', ''pending''} then (Inl InvalidInput, s)
         else case List.find (\<lambda>r. dget r ''id'' = PStr req_id) (as_requests s) of
           None \<Rightarrow> (Inl Unknown, s)
         | Some req \<Rightarrow>
             if status = ''approved'' \<and> dget req ''status'' \<noteq> PStr ''approved'' then
               let role = sor (strip (pstr (dgetd payload ''role'' (PStr ''user'')))) ''user'';
                   username = pstrip req ''username'';
                   given = pstrip payload ''password'';
                   password = sor given (take 12 (filter (\<lambda>c. c \<noteq> CHR ''-'') (ae_random env (as_drawn s))));
                   s' = (if given = [] then s\<lparr>as_drawn := as_drawn s + 1\<rparr> else s)
               in if role \<notin> set SIGNUP_ROLES then (Inl InvalidInput, s)
                  else if username = [] then (Inl InvalidInput, s)
                  else if map_of (as_users s) username \<noteq> None then (Inl Taken, s)
                  else if cf_ldap_enabled (ae_config env) then
                    (case ae_ldap_add env username password req of
                       Some err \<Rightarrow> (Inl DirectoryError, s')
                     | None \<Rightarrow>
                         (Inr (dmerge (reviewed status (isoformat_z (ar_now rq)) req)
                             [(''backend'', PStr ''ldap''), (''username'', PStr username), (''role'', PStr role),
                              (''initial_password'', PStr password)]),
                          review_request req_id status (ar_now rq)
                            (s'\<lparr>as_users := dset (as_users s) username \<lparr>ac_password = [], ac_role = role\<rparr>,
                               as_settings := dset (as_settings s) (ldap_role_key username) role\<rparr>)))
                  else
                    (Inr (dmerge (reviewed status (isoformat_z (ar_now rq)) req)
                        [(''backend'', PStr ''local''), (''username'', PStr username), (''role'', PStr role),
                         (''initial_password'', PStr password)]),
                     review_request req_id status (ar_now rq)
                       (s'\<lparr>as_users := dset (as_users s) username \<lparr>ac_password = password, ac_role = role\<rparr>\<rparr>))
             else (Inr (reviewed status (isoformat_z (ar_now rq)) req),
                   review_request req_id status (ar_now rq) s))"

section \<open>The own account\<close>

definition user_profile :: "auth_state \<Rightarrow> string \<Rightarrow> pdict" where
  "user_profile s uname =
     (let p = (case map_of (as_profiles s) uname of None \<Rightarrow> [] | Some p \<Rightarrow> p)
      in [(''display_name'', dgetd p ''display_name'' (PStr [])), (''department'', dgetd p ''department'' (PStr [])),
          (''assigned_servers'', PList (as_list (dget p ''assigned_servers'')))])"

definition tabs_of_role :: "string list dict \<Rightarrow> string \<Rightarrow> string list" where
  "tabs_of_role perms role = (case map_of perms role of
     Some ts \<Rightarrow> ts
   | None \<Rightarrow> (case map_of DEFAULT_ROLE_PERMISSIONS role of Some ts \<Rightarrow> ts | None \<Rightarrow> [''dashboard'', ''assets'', ''guides'']))"

definition auth_me :: "auth_request \<Rightarrow> auth_state \<Rightarrow> pdict" where
  "auth_me rq s =
     (let acct = of_strs (parse_account_view_roles (as_settings s))
      in case session_of s rq of
           None \<Rightarrow>
             [(''username'', PStr ''anonymous''), (''role'', PStr ''user''),
              (''allowed_tabs'', of_strs (tabs_of_role DEFAULT_ROLE_PERMISSIONS ''user'')),
              (''account_view_roles'', acct)] @ user_profile s ''anonymous''
         | Some sess \<Rightarrow>
             let role = pstr (dgetd sess ''role'' (PStr ''user''));
                 uname = pstr (dget sess ''username'');
                 tabs = (case map_of (as_tabs s) uname of Some ts \<Rightarrow> ts | None \<Rightarrow> tabs_of_role (as_role_tabs s) role)
             in [(''username'', PStr uname), (''role'', PStr role), (''allowed_tabs'', of_strs tabs),
                 (''account_view_roles'', acct)] @ user_profile s uname)"

definition get_profile :: "auth_request \<Rightarrow> auth_state \<Rightarrow> auth_err + pdict" where
  "get_profile rq s =
     (case session_of s rq of
        None \<Rightarrow> Inl BadCredentials
      | Some sess \<Rightarrow> let u = pstr (dget sess ''username'') in Inr ((''username'', PStr u) # user_profile s u))"

text \<open>The servers of a profile: a text is split at commas and line ends, a list is taken as it is, and other
  values cannot be iterated.\<close>

definition split_lines :: "string \<Rightarrow> string list" where
  "split_lines s = split_on (CHR '','')
     (map (\<lambda>c. if c \<in> {CHR 0x0A, CHR 0x0B, CHR 0x0C, CHR 0x0D, CHR 0x1C, CHR 0x1D, CHR 0x1E}
                then CHR '','' else c) s)"

fun raw_servers :: "pv \<Rightarrow> string list option" where
  "raw_servers (PStr s) = Some (split_lines s)"
| "raw_servers (PList xs) = Some (map pstr xs)"
| "raw_servers (PDict d) = Some (keys d)"
| "raw_servers _ = None"

definition update_profile ::
    "auth_request \<Rightarrow> pdict \<Rightarrow> auth_state \<Rightarrow> (auth_err + pdict) \<times> auth_state" where
  "update_profile rq payload s =
     (case session_of s rq of
        None \<Rightarrow> (Inl BadCredentials, s)
      | Some sess \<Rightarrow>
          let u = pstr (dget sess ''username'')
          in case raw_servers (dgetd payload ''assigned_servers'' (PList [])) of
               None \<Rightarrow> (Inl Failed, s)
             | Some raw \<Rightarrow>
                 let servers = filter (\<lambda>x. x \<noteq> []) (map strip raw);
                     prof = [(''display_name'', PStr (pstrip payload ''display_name'')),
                             (''department'', PStr (pstrip payload ''department'')),
                             (''assigned_servers'', of_strs servers),
                             (''updated_at'', PStr (isoformat_z (ar_now rq)))];
                     s' = s\<lparr>as_profiles := dset (as_profiles s) u prof\<rparr>
                 in (Inr ((''username'', PStr u) # user_profile s' u), s'))"

section \<open>The boot gate\<close>

definition CHECKED_ENV_VARS :: "string list" where
  "CHECKED_ENV_VARS = [''MORI_DB_PASSWORD'', ''MORI_LDAP_BIND_PASSWORD'', ''LDAP_ADMIN_PASSWORD'',
     ''ZABBIX_DB_PASSWORD'', ''FLEET_DB_PASSWORD'', ''FLEET_DB_ROOT_PASSWORD'', ''FLEET_SERVER_PRIVATE_KEY'']"

definition PLACEHOLDER_PREFIXES :: "string list" where
  "PLACEHOLDER_PREFIXES = [''change_this_'', ''generate_with_'']"

definition insecure_defaults :: "string dict \<Rightarrow> string list" where
  "insecure_defaults e =
     filter (\<lambda>n. let v = env_get e n [] in v \<noteq> [] \<and> list_ex (\<lambda>p. prefix p v) PLACEHOLDER_PREFIXES) CHECKED_ENV_VARS
     @ (if env_get e ''MORI_ADMIN_PASSWORD'' ''1234'' \<in> {''1234'', ''admin'', ''password''}
        then [''MORI_ADMIN_PASSWORD''] else [])
     @ (if strip (env_get e ''MORI_AUTH_ENABLED'' []) = [] \<and> strip (env_get e ''MORI_LDAP_ENABLED'' []) = []
           \<and> strip (env_get e ''MORI_LDAP_URL'' []) = [] then [''MORI_AUTH_ENABLED''] else [])"

definition strict_profile :: "string dict \<Rightarrow> bool" where
  "strict_profile e = (lower (strip (env_get e ''MORI_PROFILE'' [])) = ''production'')"

definition production_mode :: "string dict \<Rightarrow> bool" where
  "production_mode e = (lower (strip (env_get e ''MORI_DEMO_MODE'' [])) \<in> {''false'', ''0'', ''no'', ''off''}
     \<or> strict_profile e)"

definition https_ok :: "string dict \<Rightarrow> bool" where
  "https_ok e = (prefix ''https://'' (lower (strip (env_get e ''MORI_PUBLIC_URL'' [])))
     \<or> env_flag e ''MORI_COOKIE_SECURE'' \<or> env_flag e ''MORI_BEHIND_TLS_PROXY'')"

text \<open>\<^verbatim>\<open>_enforce_secure_boot\<close>: whether the process starts.\<close>

definition boot_problems :: "string dict \<Rightarrow> bool \<Rightarrow> string list \<Rightarrow> string list" where
  "boot_problems e auth_enabled insecure =
     (if auth_enabled then [] else [''MORI_AUTH_ENABLED'']) @ insecure
     @ (if strict_profile e \<and> \<not> https_ok e then [''HTTPS''] else [])"

definition enforce_secure_boot :: "string dict \<Rightarrow> bool \<Rightarrow> string list \<Rightarrow> bool" where
  "enforce_secure_boot e auth_enabled insecure =
     (\<not> production_mode e \<or> boot_problems e auth_enabled insecure = []
      \<or> env_flag e ''MORI_ALLOW_INSECURE_AUTH'')"

definition compute_security_posture :: "string dict \<Rightarrow> bool \<Rightarrow> string list \<Rightarrow> string" where
  "compute_security_posture e auth_enabled insecure =
     (if \<not> auth_enabled \<or> insecure \<noteq> [] then ''insecure''
      else if production_mode e \<and> \<not> https_ok e then ''insecure'' else ''hardened'')"

text \<open>The part of \<^verbatim>\<open>create_app\<close> that sets up the accounts: \<open>None\<close> where the boot is refused.\<close>

definition boot_accounts :: "string dict \<Rightarrow> bool \<Rightarrow> account dict option" where
  "boot_accounts e ldap3_available =
     (let c = read_auth_config e ldap3_available
      in if enforce_secure_boot e (cf_auth_enabled c) (insecure_defaults e)
         then Some (default_local_users (cf_admin_user c) (cf_admin_password c)) else None)"

end
