(* ===== verification/Collecting.thy ===== *)
theory Collecting
  imports Ingest
begin

text \<open>
  What the collectors of \<^verbatim>\<open>collectors/\<close> share: the texts they accept as names of a host, the list of aliases
  without repetition, times, identifiers, and the batch in which an address counts as shared.  What comes
  from a source is decoded JSON; a line that the decoder refuses is the text of its exception.

  The interface of the collectors to the ingestion is the locale \<open>collecting\<close>: what a record must be for
  \<^verbatim>\<open>normalize\<close> to give envelopes that the mapper takes.
\<close>

section \<open>Texts and aliases\<close>

text \<open>\<^verbatim>\<open>_str\<close> of Zabbix, Wazuh and the code review takes texts only, that of Fleet and Trivy also numbers, and a
  truth value is no number.\<close>

fun text_only :: "pv \<Rightarrow> string option" where
  "text_only (PStr s) = (if s = [] then None else Some s)"
| "text_only _ = None"

fun text_or_number :: "pv \<Rightarrow> string option" where
  "text_or_number (PStr s) = (if s = [] then None else Some s)"
| "text_or_number (PInt i) = Some (int_str i)"
| "text_or_number _ = None"

definition append_alias :: "string list \<Rightarrow> string option \<Rightarrow> string list" where
  "append_alias aliases candidate =
     (case candidate of None \<Rightarrow> aliases
      | Some t \<Rightarrow> if t \<noteq> [] \<and> t \<notin> set aliases then aliases @ [t] else aliases)"

definition collect_aliases :: "string list \<Rightarrow> string option list \<Rightarrow> string list" where
  "collect_aliases aliases candidates = foldl append_alias aliases candidates"

text \<open>\<^verbatim>\<open>aliases[0] if aliases else None\<close>.\<close>

definition first_alias :: "string list \<Rightarrow> string option" where
  "first_alias aliases = (case aliases of [] \<Rightarrow> None | a # as \<Rightarrow> Some a)"

definition json_dicts :: "pv \<Rightarrow> pdict list" where
  "json_dicts v = map as_dict (filter is_dict (as_list v))"

section \<open>Times\<close>

text \<open>\<^verbatim>\<open>datetime.isoformat()\<close> with its offset.\<close>

definition offset_text :: "int \<Rightarrow> string" where
  "offset_text off =
     (let a = \<bar>off\<bar>; sec = a div US; f = a mod US
      in (if off < 0 then ''-'' else ''+'') @ pad 2 (sec div 3600) @ '':'' @ pad 2 (sec div 60 mod 60)
         @ (if sec mod 60 = 0 \<and> f = 0 then [] else '':'' @ pad 2 (sec mod 60))
         @ (if f = 0 then [] else ''.'' @ pad 6 f))"

definition dt_isoformat :: "dtime \<Rightarrow> string" where
  "dt_isoformat d = iso_text (dt_us d) @ (case dt_off d of None \<Rightarrow> [] | Some off \<Rightarrow> offset_text off)"

text \<open>\<^verbatim>\<open>datetime.fromtimestamp(n, tz=timezone.utc)\<close>; \<open>None\<close> where it leaves the calendar.\<close>

definition EPOCH_US :: int where
  "EPOCH_US = date_us 1970 1 1"

definition from_timestamp :: "int \<Rightarrow> dtime option" where
  "from_timestamp n =
     (let us = EPOCH_US + n * US
      in if 0 \<le> us \<and> us < days_before_year 10000 * DAY_US then Some \<lparr>dt_us = us, dt_off = Some 0\<rparr> else None)"

definition with_utc :: "dtime \<Rightarrow> dtime" where
  "with_utc d = (if dt_off d = None then d\<lparr>dt_off := Some 0\<rparr> else d)"

text \<open>\<^verbatim>\<open>datetime.fromisoformat(text.replace("Z", "+00:00"))\<close> with UTC where the text names no offset.\<close>

definition parse_stamp :: "string \<Rightarrow> dtime option" where
  "parse_stamp s = map_option with_utc (from_iso (z_to_offset s))"

section \<open>Identifiers\<close>

definition digest_id :: "(string \<Rightarrow> string) \<Rightarrow> string \<Rightarrow> string list \<Rightarrow> string" where
  "digest_id H1 pre parts = pre @ ''-'' @ take 16 (H1 (join ''|'' parts))"

definition ext_text :: "collector_record \<Rightarrow> string" where
  "ext_text r = (case cr_external_id r of None \<Rightarrow> ''None'' | Some e \<Rightarrow> e)"

text \<open>\<^verbatim>\<open>_make_id\<close>: a stable identifier leaves the time of the observation out.\<close>

definition record_id :: "(string \<Rightarrow> string) \<Rightarrow> string \<Rightarrow> string \<Rightarrow> string \<Rightarrow> bool \<Rightarrow> collector_record \<Rightarrow> string" where
  "record_id H1 pre source kind keep r =
     digest_id H1 pre ([source, kind, ext_text r] @ (if keep then [] else [dt_isoformat (cr_observed_at r)]))"

definition opt_texts :: "string list \<Rightarrow> nval" where
  "opt_texts xs = V (of_strs xs)"

definition text_val :: "string option \<Rightarrow> nval" where
  "text_val x = V (of_ostr x)"

section \<open>Shared addresses\<close>

text \<open>The addresses that two entries of a batch or more have; \<open>ips\<close> gives those of one entry.\<close>

definition shared_ips :: "('a \<Rightarrow> string list) \<Rightarrow> 'a list \<Rightarrow> string list" where
  "shared_ips ips batch =
     map fst (filter (\<lambda>p. 1 < snd p) (count_by id (concat (map (\<lambda>h. remdups (ips h)) batch))))"

section \<open>Lemmas\<close>

lemma json_dicts_map [simp]: "json_dicts (PList (map PDict hs)) = hs"
  by (induction hs) (simp_all add: json_dicts_def)

lemma map_sum_Inr: "map_sum f g x = Inr y \<longleftrightarrow> (\<exists>z. x = Inr z \<and> y = g z)"
  by (cases x) auto

lemma with_utc_aware [simp]: "dt_aware (with_utc d)"
  by (simp add: with_utc_def dt_aware_def)

lemma parse_stamp_aware: "parse_stamp s = Some d \<Longrightarrow> dt_aware d"
  by (auto simp: parse_stamp_def)

lemma from_timestamp_aware: "from_timestamp n = Some d \<Longrightarrow> dt_aware d"
  by (auto simp: from_timestamp_def dt_aware_def Let_def split: if_splits)

lemma set_collect_aliases:
  "set (collect_aliases as cs) = set as \<union> {t. Some t \<in> set cs \<and> t \<noteq> []}"
  unfolding collect_aliases_def by (induction cs arbitrary: as) (auto simp: append_alias_def split: option.splits)

lemma distinct_collect_aliases: "distinct as \<Longrightarrow> distinct (collect_aliases as cs)"
  unfolding collect_aliases_def by (induction cs arbitrary: as) (auto simp: append_alias_def split: option.splits)

lemma text_only_not_Nil [simp]: "text_only v \<noteq> Some []"
  by (cases v) auto

lemmas text_only_not_Nil_sym [simp] = text_only_not_Nil [symmetric]

lemma text_or_number_not_Nil [simp]: "text_or_number v \<noteq> Some []"
  by (cases v) auto

lemmas text_or_number_not_Nil_sym [simp] = text_or_number_not_Nil [symmetric]

lemma first_alias_member: "first_alias as = Some a \<Longrightarrow> a \<in> set as"
  by (auto simp: first_alias_def split: list.splits)

text \<open>An address is shared when two entries of the batch have it.\<close>

lemma filter_eq_distinct: "distinct xs \<Longrightarrow> length (filter (\<lambda>x. x = a) xs) = (if a \<in> set xs then 1 else 0)"
  by (induction xs) auto

lemma count_remdups: "length (filter (\<lambda>x. x = a) (concat (map (\<lambda>h. remdups (ips h)) batch)))
    = length (filter (\<lambda>h. a \<in> set (ips h)) batch)"
  by (induction batch) (simp_all add: filter_eq_distinct)

lemma set_shared_ips: "a \<in> set (shared_ips ips batch) \<longleftrightarrow> 1 < length (filter (\<lambda>h. a \<in> set (ips h)) batch)"
proof -
  let ?xs = "concat (map (\<lambda>h. remdups (ips h)) batch)"
  have "a \<in> set (shared_ips ips batch) \<longleftrightarrow> (\<exists>n > 1. map_of (count_by id ?xs) a = Some n)"
    using dwf_count_by [of id ?xs] by (force simp: shared_ips_def)
  also have "\<dots> \<longleftrightarrow> 1 < length (filter (\<lambda>x. x = a) ?xs)"
  proof (cases "a \<in> set ?xs")
    case False
    then have "filter (\<lambda>x. x = a) ?xs = []" by (simp only: filter_empty_conv) blast
    with False show ?thesis by (simp add: map_of_count_by)
  qed (simp add: map_of_count_by)
  finally show ?thesis by (simp add: count_remdups)
qed

lemma shared_by_two:
  assumes "i < length batch" "j < length batch" "i \<noteq> j" "a \<in> set (ips (batch ! i))" "a \<in> set (ips (batch ! j))"
  shows "a \<in> set (shared_ips ips batch)"
proof -
  let ?is = "filter (\<lambda>k. a \<in> set (ips (batch ! k))) [0..<length batch]"
  have "filter (\<lambda>h. a \<in> set (ips h)) batch = map ((!) batch) ?is"
    by (subst (1) map_nth [of batch, symmetric]) (simp only: filter_map comp_def)
  moreover have "card {i, j} \<le> card (set ?is)" using assms by (intro card_mono) auto
  moreover have "card (set ?is) = length ?is" by (rule distinct_card) simp
  ultimately show ?thesis using assms(3) by (simp add: set_shared_ips)
qed

section \<open>Aliases of a batch\<close>

text \<open>The collectors of hosts take an address for an alias only where no other entry of the batch has it.\<close>

locale host_batch =
  fixes names :: "'a \<Rightarrow> string option list" and ips :: "'a \<Rightarrow> string list"
    and aliases :: "string list \<Rightarrow> 'a \<Rightarrow> string list"
  assumes alias_origin: "a \<in> set (aliases shared h) \<Longrightarrow> Some a \<in> set (names h) \<or> a \<in> set (ips h) - set shared"
begin

lemma common_alias:
  assumes "i < length batch" "j < length batch" "i \<noteq> j"
    and "a \<in> set (aliases (shared_ips ips batch) (batch ! i))" "a \<in> set (aliases (shared_ips ips batch) (batch ! j))"
  shows "Some a \<in> set (names (batch ! i)) \<or> Some a \<in> set (names (batch ! j))"
proof (rule ccontr)
  assume "\<not> ?thesis"
  then have "a \<in> set (ips (batch ! i))" "a \<in> set (ips (batch ! j))" "a \<notin> set (shared_ips ips batch)"
    using assms(4,5) by (auto dest: alias_origin)
  then show False using shared_by_two [OF assms(1-3)] by simp
qed

end

section \<open>What ingestion does with the records\<close>

definition MAPPED_TYPES :: "string list" where
  "MAPPED_TYPES = [''host_observation'', ''query_result'', ''alert'', ''vulnerability'', ''directory_account'',
     ''group_membership'', ''privilege_binding'', ''account_observation'', ''control_check'']"

lemma mapped_types: "ev_entity_type e \<in> set MAPPED_TYPES \<longleftrightarrow> map_envelope H1 e m \<noteq> None"
  by (simp add: MAPPED_TYPES_def map_envelope_def Let_def)

definition odt_aware :: "dtime option \<Rightarrow> bool" where
  "odt_aware d = (case d of None \<Rightarrow> True | Some d \<Rightarrow> dt_aware d)"

definition host_aware :: "host \<Rightarrow> bool" where
  "host_aware h = (odt_aware (ho_first_seen h) \<and> odt_aware (ho_last_seen h))"

fun entity_aware :: "entity \<Rightarrow> bool" where
  "entity_aware (EHost h) = host_aware h"
| "entity_aware _ = True"

definition repo_aware :: "repo \<Rightarrow> bool" where
  "repo_aware r = (\<forall>(k, h) \<in> set (re_hosts r). host_aware h)"

lemma dt_le_aware: "dt_aware a \<Longrightarrow> dt_aware b \<Longrightarrow> dt_le a b \<noteq> None"
  by (auto simp: dt_le_def dt_sub_def dt_aware_def)

lemma min_dt_aware:
  assumes "odt_aware a" "odt_aware b"
  shows "\<exists>c. min_dt a b = Some c \<and> odt_aware c"
proof (cases "a = None \<or> b = None")
  case False
  then obtain x y where ab: "a = Some x" "b = Some y" by auto
  then obtain le where "dt_le x y = Some le" using dt_le_aware assms by (fastforce simp: odt_aware_def)
  then have "min_dt a b = Some (if le then a else b)" using ab by (simp add: min_dt_Some)
  then show ?thesis using assms by simp
qed (use assms in \<open>cases a; auto\<close>)

lemma max_dt_aware:
  assumes "odt_aware a" "odt_aware b"
  shows "\<exists>c. max_dt a b = Some c \<and> odt_aware c"
proof (cases "a = None \<or> b = None")
  case False
  then obtain x y where ab: "a = Some x" "b = Some y" by auto
  then obtain le where "dt_le y x = Some le" using dt_le_aware assms by (fastforce simp: odt_aware_def)
  then have "max_dt a b = Some (if le then a else b)" using ab by (simp add: max_dt_Some)
  then show ?thesis using assms by simp
qed (use assms in \<open>cases a; auto\<close>)

lemma merge_aware:
  assumes "host_aware a" "host_aware b"
  shows "\<exists>c. merge_host a b = Some c \<and> host_aware c"
proof -
  obtain f l where "min_dt (ho_first_seen a) (ho_first_seen b) = Some f" "odt_aware f"
    "max_dt (ho_last_seen a) (ho_last_seen b) = Some l" "odt_aware l"
    using assms min_dt_aware max_dt_aware unfolding host_aware_def by metis
  then show ?thesis by (simp add: merge_host_def host_aware_def)
qed

lemma save_aware:
  assumes "repo_aware r" "entity_aware e"
  shows "\<exists>r'. repo_save r e = Some r' \<and> repo_aware r'"
proof (cases e)
  case (EHost h)
  show ?thesis
  proof (cases "map_of (re_hosts r) (ho_id h)")
    case None
    then show ?thesis using assms EHost by (auto simp: save_host_def repo_aware_def dest!: set_dset)
  next
    case (Some old)
    then have "host_aware old" using assms(1) by (auto simp: repo_aware_def dest: map_of_SomeD)
    with assms EHost obtain c where "merge_host old h = Some c" "host_aware c" using merge_aware by auto
    then show ?thesis using assms(1) EHost Some by (auto simp: save_host_def repo_aware_def dest!: set_dset)
  qed
qed (use assms in \<open>simp_all add: repo_aware_def\<close>)

lemma seen_host_aware: "dt_aware d \<Longrightarrow> entity_aware (seen_host i n p ip st d)"
  by (simp add: seen_host_def host_aware_def odt_aware_def)

lemma alias_records_aware: "e \<in> set (build_alias_records H1 h as src d) \<Longrightarrow> entity_aware e"
  by (auto simp: build_alias_records_def)

lemma mapped_aware:
  assumes "map_envelope H1 e m = Some (ents, m')" "dt_aware (ev_observed_at e)"
  shows "list_all entity_aware ents"
  using assms(1)
proof (cases rule: map_envelope_cases)
  case observation
  then show ?thesis using assms(2)
    by (auto simp: map_host_observation_def Let_def list_all_iff alias_records_aware seen_host_aware split: prod.splits)
next
  case query
  then show ?thesis using assms(2)
    by (auto simp: map_query_result_def Let_def list_all_iff alias_records_aware seen_host_aware split: prod.splits option.splits)
next
  case alert
  then show ?thesis using assms(2)
    by (auto simp: map_alert_def Let_def list_all_iff alias_records_aware seen_host_aware split: prod.splits if_splits)
next
  case vuln
  then show ?thesis using assms(2)
    by (auto simp: map_vulnerability_def Let_def list_all_iff alias_records_aware seen_host_aware split: prod.splits option.splits)
next
  case identity
  have "x \<in> set ents \<Longrightarrow> entity_aware x" for x using identity(1) by (cases x) auto
  then show ?thesis by (simp add: list_all_iff)
qed

lemma ingest_entities_aware:
  "repo_aware (in_repo st) \<Longrightarrow> list_all entity_aware xs \<Longrightarrow>
   (let st' = ingest_entities repo_save xs st in in_exc st' = in_exc st \<and> repo_aware (in_repo st') \<and> in_mapper st' = in_mapper st
     \<and> rp_records (in_report st') = rp_records (in_report st) \<and> rp_envelopes (in_report st') = rp_envelopes (in_report st)
     \<and> repo_saves (in_repo st) xs = Some (in_repo st'))"
proof (induction xs arbitrary: st)
  case (Cons x xs)
  obtain r where "repo_save (in_repo st) x = Some r" "repo_aware r" using save_aware Cons.prems by fastforce
  with Cons.prems Cons.IH [of "st\<lparr>in_repo := r, in_report := (in_report st)\<lparr>rp_entities := rp_entities (in_report st) + 1\<rparr>\<rparr>"]
  show ?case by (simp add: Let_def)
qed simp

text \<open>The saves of the entities of a sequence of envelopes, in order.\<close>

lemma repo_saves_append: "repo_saves r (xs @ ys) = Option.bind (repo_saves r xs) (\<lambda>r. repo_saves r ys)"
  by (induction xs arbitrary: r) (auto split: option.split)

definition entities_of :: "(envelope \<times> entity list) list \<Rightarrow> entity list" where
  "entities_of ps = concat (map snd ps)"

fun mapper_after :: "(string \<Rightarrow> string) \<Rightarrow> envelope list \<Rightarrow> mapper \<Rightarrow> mapper" where
  "mapper_after H1 [] m = m"
| "mapper_after H1 (e # es) m = (case map_envelope H1 e m of None \<Rightarrow> m | Some (ents, m') \<Rightarrow> mapper_after H1 es m')"

definition envelope_fine :: "string \<Rightarrow> envelope \<Rightarrow> bool" where
  "envelope_fine source e \<longleftrightarrow>
     ev_source e = source \<and> ev_entity_type e \<in> set MAPPED_TYPES \<and> dt_aware (ev_observed_at e)"

lemma map_envelopes_append:
  "list_all (envelope_fine source) es \<Longrightarrow>
   map_envelopes H1 (es @ fs) m = map_envelopes H1 es m @ map_envelopes H1 fs (mapper_after H1 es m)"
proof (induction es arbitrary: m)
  case (Cons e es)
  then have "map_envelope H1 e m \<noteq> None" by (simp add: envelope_fine_def mapped_types [of e H1 m])
  with Cons show ?case by auto
qed simp

lemma mapper_after_append:
  "list_all (envelope_fine source) es \<Longrightarrow> mapper_after H1 (es @ fs) m = mapper_after H1 fs (mapper_after H1 es m)"
proof (induction es arbitrary: m)
  case (Cons e es)
  then have "map_envelope H1 e m \<noteq> None" by (simp add: envelope_fine_def mapped_types [of e H1 m])
  with Cons show ?case by auto
qed simp

text \<open>What the ingestion of envelopes leaves: nothing raised but what ended them, every envelope counted, and
  the repository after the saves of every entity.\<close>

definition ingested ::
    "(string \<Rightarrow> string) \<Rightarrow> envelope list \<Rightarrow> int \<Rightarrow> repo ingest \<Rightarrow> string option \<Rightarrow> repo ingest \<Rightarrow> bool" where
  "ingested H1 es n st exc st' \<longleftrightarrow>
     in_exc st' = exc \<and> repo_aware (in_repo st') \<and> in_mapper st' = mapper_after H1 es (in_mapper st)
     \<and> rp_records (in_report st') = rp_records (in_report st) + n
     \<and> rp_envelopes (in_report st') = rp_envelopes (in_report st) + int (length es)
     \<and> repo_saves (in_repo st) (entities_of (map_envelopes H1 es (in_mapper st))) = Some (in_repo st')"

lemma ingest_envelopes_fine:
  "repo_aware (in_repo st) \<Longrightarrow> in_exc st = None \<Longrightarrow> list_all (envelope_fine source) es \<Longrightarrow>
   ingested H1 es 0 st exc (ingest_envelopes H1 repo_save es exc st)"
proof (induction es arbitrary: st)
  case (Cons e es)
  let ?st = "st\<lparr>in_report := (in_report st)\<lparr>rp_envelopes := rp_envelopes (in_report st) + 1\<rparr>\<rparr>"
  have fine: "envelope_fine source e" using Cons.prems by simp
  then obtain ents m where em: "map_envelope H1 e (in_mapper st) = Some (ents, m)"
    using mapped_types [of e H1 "in_mapper st"] by (auto simp: envelope_fine_def)
  let ?st' = "ingest_entities repo_save ents (?st\<lparr>in_mapper := m\<rparr>)"
  have aware: "list_all entity_aware ents" using em fine mapped_aware by (auto simp: envelope_fine_def)
  have st': "in_exc ?st' = None" "repo_aware (in_repo ?st')" "in_mapper ?st' = m"
    "rp_records (in_report ?st') = rp_records (in_report st)"
    "rp_envelopes (in_report ?st') = rp_envelopes (in_report st) + 1"
    "repo_saves (in_repo st) ents = Some (in_repo ?st')"
    using ingest_entities_aware [OF _ aware, of "?st\<lparr>in_mapper := m\<rparr>"] Cons.prems by (simp_all add: Let_def)
  have "ingested H1 es 0 ?st' exc (ingest_envelopes H1 repo_save es exc ?st')"
    using Cons.IH [OF st'(2,1)] Cons.prems by simp
  then show ?case using em st' by (simp add: ingested_def Let_def entities_of_def repo_saves_append)
qed (simp add: ingested_def entities_of_def)

locale collecting =
  fixes norm :: "collector_record \<Rightarrow> envelope gen" and source :: string and takes :: "collector_record \<Rightarrow> bool"
  assumes norm_fine: "takes r \<Longrightarrow> snd (norm r) = None \<and> list_all (envelope_fine source) (fst (norm r))"
begin

definition envelopes_of :: "collector_record list \<Rightarrow> envelope list" where
  "envelopes_of rs = concat (map (\<lambda>r. fst (norm r)) rs)"

lemma envelopes_fine: "list_all takes rs \<Longrightarrow> list_all (envelope_fine source) (envelopes_of rs)"
  unfolding envelopes_of_def by (induction rs) (auto simp: norm_fine)

lemma ingest_records_fine:
  "repo_aware (in_repo st) \<Longrightarrow> in_exc st = None \<Longrightarrow> list_all takes rs \<Longrightarrow>
   ingested H1 (envelopes_of rs) (int (length rs)) st exc
     (ingest_records H1 repo_save (map (\<lambda>r. (r, norm r)) rs) exc st)"
proof (induction rs arbitrary: st)
  case (Cons r rs)
  let ?st = "st\<lparr>in_report := (in_report st)\<lparr>rp_records := rp_records (in_report st) + 1\<rparr>\<rparr>"
  have fine: "snd (norm r) = None" "list_all (envelope_fine source) (fst (norm r))" using Cons.prems norm_fine by simp_all
  let ?st' = "ingest_envelopes H1 repo_save (fst (norm r)) None ?st"
  have st': "ingested H1 (fst (norm r)) 0 ?st None ?st'" using ingest_envelopes_fine [OF _ _ fine(2), of ?st] Cons.prems by simp
  then have "repo_aware (in_repo ?st')" "in_exc ?st' = None" by (simp_all add: ingested_def)
  then have "ingested H1 (envelopes_of rs) (int (length rs)) ?st' exc
      (ingest_records H1 repo_save (map (\<lambda>r. (r, norm r)) rs) exc ?st')"
    using Cons.IH [of ?st'] Cons.prems by simp
  then show ?case using st' fine
    by (simp add: ingested_def envelopes_of_def Let_def entities_of_def repo_saves_append
      map_envelopes_append [OF fine(2)] mapper_after_append [OF fine(2)])
qed (simp add: ingested_def entities_of_def envelopes_of_def)

text \<open>The ingestion of what a collector collected: it raises only what the collection raised; it
  counts every record and every envelope, takes every envelope through the mapper and saves every entity.\<close>

lemma collected_ingested:
  assumes "repo_aware r" "list_all takes rs"
    and "st = ingest_collector H1 repo_save \<lparr>co_records = (map (\<lambda>r. (r, norm r)) rs, exc)\<rparr> m r"
  shows "in_exc st = exc \<and> repo_aware (in_repo st) \<and> in_mapper st = mapper_after H1 (envelopes_of rs) m
    \<and> rp_records (in_report st) = int (length rs) \<and> rp_envelopes (in_report st) = int (length (envelopes_of rs))
    \<and> repo_saves r (entities_of (map_envelopes H1 (envelopes_of rs) m)) = Some (in_repo st)"
  using ingest_records_fine [of "\<lparr>in_report = empty_report, in_mapper = m, in_repo = r, in_exc = None\<rparr>" rs H1 exc] assms
  by (simp add: ingested_def ingest_collector_def empty_report_def)

end

end
