(* ===== verification/Iso_Text.thy ===== *)
theory Iso_Text
  imports Collecting
begin

text \<open>
  The texts of times that the application writes read back as the times they were made from: \<^verbatim>\<open>isoformat()\<close> of a
  time in UTC and \<^verbatim>\<open>fromisoformat\<close> of \<open>Py_Time\<close>.  Schedules and exceptions keep their times as such texts.
\<close>

section \<open>Numbers\<close>

lemma undec_zeros: "undec (replicate k (CHR ''0'') @ s) = undec s"
  by (induction k) (simp_all add: undec_def)

lemma dec_length: "n < 10 ^ w \<Longrightarrow> 0 < w \<Longrightarrow> length (dec n) \<le> w"
proof (induction n arbitrary: w rule: dec.induct)
  case (1 n)
  show ?case
  proof (cases "n < 10")
    case True
    then show ?thesis using 1(3) by (subst dec.simps) simp
  next
    case False
    obtain v where v: "w = Suc v" using 1(3) by (cases w) auto
    have "0 < v" using False 1(2) v by (cases v) auto
    moreover have "n div 10 < 10 ^ v" using 1(2) v by (simp add: less_mult_imp_div_less mult.commute)
    ultimately have "length (dec (n div 10)) \<le> v" using 1(1) False by blast
    then show ?thesis using False v by (subst dec.simps) simp
  qed
qed

lemma pad_length: "0 \<le> n \<Longrightarrow> n < 10 ^ w \<Longrightarrow> 0 < w \<Longrightarrow> length (pad w n) = w"
  using dec_length [of "nat n" w] by (simp add: pad_def Let_def nat_less_iff)

lemma pad_digits: "list_all is_digit (pad w n)"
  by (auto simp: pad_def Let_def list_all_iff is_digit_def dest: dec_digits)

lemma take_num_pad: "0 \<le> n \<Longrightarrow> n < 10 ^ w \<Longrightarrow> 0 < w \<Longrightarrow> take_num w (pad w n @ s) = Some (n, s)"
  using pad_length [of n w] pad_digits [of w n] by (simp add: pad_def Let_def undec_zeros)

section \<open>The calendar\<close>

lemma months_before:
  "days_before_month y 1 = 0" "days_before_month y 2 = 31" "days_before_month y 3 = 31 + days_in_month y 2"
  "days_before_month y 4 = 62 + days_in_month y 2" "days_before_month y 5 = 92 + days_in_month y 2"
  "days_before_month y 6 = 123 + days_in_month y 2" "days_before_month y 7 = 153 + days_in_month y 2"
  "days_before_month y 8 = 184 + days_in_month y 2" "days_before_month y 9 = 215 + days_in_month y 2"
  "days_before_month y 10 = 245 + days_in_month y 2" "days_before_month y 11 = 276 + days_in_month y 2"
  "days_before_month y 12 = 306 + days_in_month y 2"
  by (simp_all add: days_before_month_def days_in_month_def upto.simps)

lemma february: "days_in_month y 2 = 28 \<or> days_in_month y 2 = 29"
  by (simp add: days_in_month_def)

lemma twelve: "[1..12] = [1, 2, 3, 4, 5, 6, 7, 8, 9, 10, 11, 12::int]"
  by (simp add: upto.simps)

lemma month_found:
  assumes "0 \<le> n" "n < 365"
  shows "1 \<le> month_of_day y n \<and> month_of_day y n \<le> 12 \<and> days_before_month y (month_of_day y n) \<le> n
    \<and> n < days_before_month y (month_of_day y n) + days_in_month y (month_of_day y n)"
proof -
  define l where "l = days_in_month y 2"
  have l: "l = 28 \<or> l = 29" using february l_def by simp
  have long: "days_in_month y m = 31" if "m \<in> {1, 3, 5, 7, 8, 10, 12}" for m using that by (auto simp: days_in_month_def)
  have short: "days_in_month y m = 30" if "m \<in> {4, 6, 9, 11}" for m using that by (auto simp: days_in_month_def)
  have "n < 31 \<or> (31 \<le> n \<and> n < 31 + l) \<or> (31 + l \<le> n \<and> n < 62 + l) \<or> (62 + l \<le> n \<and> n < 92 + l) \<or> (92 + l \<le> n \<and> n < 123 + l)
    \<or> (123 + l \<le> n \<and> n < 153 + l) \<or> (153 + l \<le> n \<and> n < 184 + l) \<or> (184 + l \<le> n \<and> n < 215 + l) \<or> (215 + l \<le> n \<and> n < 245 + l)
    \<or> (245 + l \<le> n \<and> n < 276 + l) \<or> (276 + l \<le> n \<and> n < 306 + l) \<or> 306 + l \<le> n"
    by linarith
  then show ?thesis
    using l assms unfolding month_of_day_def twelve
    by (elim disjE conjE) (simp_all add: months_before l_def [symmetric] long short)
qed

lemma days_of_year:
  assumes "0 \<le> b" "b \<le> 3" "0 \<le> c" "c \<le> 24" "0 \<le> e" "e \<le> 3"
  shows "days_before_year (a * 400 + b * 100 + c * 4 + e + 1) = a * 146097 + b * 36524 + c * 1461 + e * (365::int)"
proof -
  have whole: "(q * k + r) div k = q" if "0 \<le> r" "r < k" for q k r :: int
    using that by (simp add: div_pos_pos_trivial)
  have p: "a * 400 + b * 100 + c * 4 + e = (a * 100 + b * 25 + c) * 4 + e" "a * 400 + b * 100 + c * 4 + e = (a * 4 + b) * 100 + (c * 4 + e)"
    "a * 400 + b * 100 + c * 4 + e = a * 400 + (b * 100 + c * 4 + e)"
    by simp_all
  have "(a * 400 + b * 100 + c * 4 + e) div 4 = a * 100 + b * 25 + c"
    unfolding p(1) by (rule whole) (use assms in linarith)+
  moreover have "(a * 400 + b * 100 + c * 4 + e) div 100 = a * 4 + b"
    unfolding p(2) by (rule whole) (use assms in linarith)+
  moreover have "(a * 400 + b * 100 + c * 4 + e) div 400 = a"
    unfolding p(3) by (rule whole) (use assms in linarith)+
  ultimately show ?thesis by (simp add: days_before_year_def Let_def)
qed

lemma ymd_back:
  assumes "0 \<le> D" "D < days_before_year 10000" "ymd_of_days D = (y, m, d)"
  shows "valid_date y m d \<and> days_before_year y + days_before_month y m + d - 1 = D"
proof -
  define a r1 b r2 c r3 e n where v: "a = D div 146097" "r1 = D mod 146097" "b = r1 div 36524" "r2 = r1 mod 36524"
    "c = r2 div 1461" "r3 = r2 mod 1461" "e = r3 div 365" "n = r3 mod 365"
  have split: "D = 146097 * a + r1" "r1 = 36524 * b + r2" "r2 = 1461 * c + r3" "r3 = 365 * e + n"
    by (simp_all only: v mult_div_mod_eq)
  have r: "0 \<le> r1" "r1 < 146097" "0 \<le> r2" "r2 < 36524" "0 \<le> r3" "r3 < 1461" "0 \<le> n" "n < 365"
    unfolding v by simp_all
  have D: "D = a * 146097 + b * 36524 + c * 1461 + e * 365 + n" using split by linarith
  have bounds: "0 \<le> a" "0 \<le> b" "b \<le> 4" "0 \<le> c" "c \<le> 24" "0 \<le> e" "e \<le> 4" "0 \<le> n" "n < 365"
    using assms(1) split r by linarith+
  have small: "D < 3652059" using assms(2) by (simp add: days_before_year_def)
  have four: "b = 4 \<Longrightarrow> c = 0 \<and> e = 0 \<and> n = 0" "e = 4 \<Longrightarrow> b \<le> 3 \<and> c \<le> 23 \<and> n = 0"
    using split r bounds by linarith+
  have ymd: "ymd_of_days D = (let y = a * 400 + b * 100 + c * 4 + e + 1 in if e = 4 \<or> b = 4 then (y - 1, 12, 31)
      else (y, month_of_day y n, n - days_before_month y (month_of_day y n) + 1))"
    by (simp add: ymd_of_days_def v Let_def)
  show ?thesis
  proof (cases "e = 4 \<or> b = 4")
    case False
    then have le3: "b \<le> 3" "e \<le> 3" using bounds by linarith+
    define y' where "y' = a * 400 + b * 100 + c * 4 + e + 1"
    have y: "y = y'" "m = month_of_day y' n" "d = n - days_before_month y' m + 1"
      using assms(3) False unfolding ymd Let_def y'_def by auto
    have "1 \<le> y'" "y' \<le> 9999" using bounds le3 small D unfolding y'_def by linarith+
    moreover have "days_before_year y' = a * 146097 + b * 36524 + c * 1461 + e * 365"
      unfolding y'_def by (rule days_of_year) (use bounds le3 in auto)
    ultimately show ?thesis
      using month_found [OF bounds(8,9), of y'] D unfolding valid_date_def y by auto
  next
    case True
    have fin: "y = a * 400 + b * 100 + c * 4 + e" "m = 12" "d = 31"
      using assms(3) True unfolding ymd Let_def by auto
    obtain b' c' where last: "y = a * 400 + b' * 100 + c' * 4 + 3 + 1" "D = a * 146097 + b' * 36524 + c' * 1461 + 3 * 365 + 365"
      "0 \<le> b'" "b' \<le> 3" "0 \<le> c'" "c' \<le> 24" "c' = 24 \<longrightarrow> b' = 3" "m = 12" "d = 31"
    proof (cases "b = 4")
      case True
      show ?thesis
        by (rule that [of 3 24]) (use True four(1) fin D in simp_all)
    next
      case False
      then have e: "e = 4" using True by simp
      show ?thesis
        by (rule that [of b c]) (use e four(2) bounds fin D in auto)
    qed
    have "is_leap y"
    proof -
      have "y = 4 * (a * 100 + b' * 25 + c' + 1)" using last(1) by simp
      then have "4 dvd y" by (rule dvdI)
      moreover have "\<not> 100 dvd y \<or> 400 dvd y"
      proof (cases "c' = 24")
        case True
        then have "y = 400 * (a + 1)" using last(1,7) by simp
        then have "400 dvd y" by (rule dvdI)
        then show ?thesis ..
      next
        case False
        have "y = (a * 4 + b') * 100 + (c' * 4 + 4)" using last(1) by simp
        then have "y mod 100 = (c' * 4 + 4) mod 100" by (simp only: mod_mult_self3)
        also have "\<dots> = c' * 4 + 4" by (rule mod_pos_pos_trivial) (use False last(5,6) in auto)
        finally show ?thesis using last(5) by (simp add: dvd_eq_mod_eq_0)
      qed
      ultimately show ?thesis by (simp add: is_leap_def)
    qed
    moreover have "days_before_year y = a * 146097 + b' * 36524 + c' * 1461 + 3 * 365"
      unfolding last(1) by (rule days_of_year) (use last in auto)
    moreover have "1 \<le> y" "y \<le> 9999" using bounds last small by linarith+
    ultimately show ?thesis
      using last(2,8,9) by (simp add: valid_date_def months_before days_in_month_def)
  qed
qed

section \<open>Reading back\<close>

lemma parse_date_back:
  assumes "0 \<le> us" "us < days_before_year 10000 * DAY_US" "ymd_of_days (us div DAY_US) = (y, m, d)"
  shows "parse_date (pad 4 y @ CHR ''-'' # pad 2 m @ CHR ''-'' # pad 2 d @ s) = Some (us div DAY_US * DAY_US, s)"
proof -
  have pos: "0 < DAY_US" by (simp add: DAY_US_def)
  have "0 \<le> us div DAY_US" using assms(1) pos by (simp add: pos_imp_zdiv_nonneg_iff)
  moreover have "us div DAY_US < days_before_year 10000"
    using assms(2) by (simp add: DAY_US_def days_before_year_def)
  ultimately have b: "valid_date y m d" "days_before_year y + days_before_month y m + d - 1 = us div DAY_US"
    using ymd_back assms(3) by blast+
  have "d \<le> 31" using b(1) by (auto simp: valid_date_def days_in_month_def split: if_splits)
  then show ?thesis
    using b by (simp add: parse_date_def take_num_pad valid_date_def date_us_def del: take_num.simps)
qed

lemma parse_fraction_pad:
  assumes "0 \<le> f" "f < 1000000" "s = [] \<or> \<not> is_digit (hd s)"
  shows "parse_fraction (pad 6 f @ s) = Some (f, s)"
proof -
  have len: "length (pad 6 f) = 6" by (rule pad_length) (use assms in simp_all)
  have tw: "takeWhile is_digit (pad 6 f @ s) = pad 6 f" "dropWhile is_digit (pad 6 f @ s) = s"
    using pad_digits [of 6 f] assms(3)
    by (auto simp: list_all_iff takeWhile_append dropWhile_append takeWhile_eq_Nil_iff dropWhile_eq_self_iff split: if_splits)
  have "undec (pad 6 f) = nat f" by (simp add: pad_def Let_def undec_zeros)
  then show ?thesis using len assms(1,2) unfolding parse_fraction_def tw Let_def by auto
qed

lemma clock_split:
  fixes s :: int
  assumes "0 \<le> s" "s < 86400"
  shows "0 \<le> s div 3600" "s div 3600 < 24" "(s div 3600 * 60 + s div 60 mod 60) * 60 + s mod 60 = s"
proof -
  have h: "s div 3600 = s div 60 div 60" using zdiv_zmult2_eq [of 60 s 60] by simp
  show "(s div 3600 * 60 + s div 60 mod 60) * 60 + s mod 60 = s" unfolding h by (simp only: div_mult_mod_eq)
  show "0 \<le> s div 3600" using assms(1) by (simp add: pos_imp_zdiv_nonneg_iff)
  show "s div 3600 < 24" using zdiv_mono1 [of s 86399 3600] assms(2) by simp
qed

lemma parse_clock_pads:
  assumes "valid_time h mi sec" "0 \<le> f" "f < 1000000" "s \<in> {''+00:00'', ''Z''}"
  shows "parse_clock (pad 2 h @ CHR '':'' # pad 2 mi @ CHR '':'' # pad 2 sec @ (if f = 0 then [] else CHR ''.'' # pad 6 f) @ s)
    = Some (time_us h mi sec + f, s)"
proof -
  have frac: "parse_fraction (pad 6 f @ s) = Some (f, s)"
    by (rule parse_fraction_pad) (use assms in \<open>auto simp: is_digit_def\<close>)
  have two: "take_num 2 (pad 2 n @ r) = Some (n, r)" if "0 \<le> n" "n < 60" for n r
    by (rule take_num_pad) (use that in simp_all)
  have b: "0 \<le> h" "h < 60" "0 \<le> mi" "mi < 60" "0 \<le> sec" "sec < 60" using assms(1) by (simp_all add: valid_time_def)
  have secs: "parse_seconds (CHR '':'' # pad 2 sec @ (if f = 0 then [] else CHR ''.'' # pad 6 f) @ s) = Some (sec, f, s)"
    using frac assms(4) by (cases "f = 0") (auto simp: parse_seconds_def two b simp del: take_num.simps)
  show ?thesis
    unfolding parse_clock_def two [OF b(1,2)] bind.bind_lunit prod.case take_char.simps
    by (simp only: simp_thms if_True option.case two [OF b(3,4)] bind.bind_lunit prod.case secs assms(1))
qed

lemma parse_clock_back:
  assumes "0 \<le> t" "t < DAY_US" "sec = t div US" "f = t mod US" "s \<in> {''+00:00'', ''Z''}"
  shows "parse_clock (pad 2 (sec div 3600) @ CHR '':'' # pad 2 (sec div 60 mod 60) @ CHR '':'' # pad 2 (sec mod 60)
      @ (if f = 0 then [] else CHR ''.'' # pad 6 f) @ s) = Some (t, s)"
proof -
  have "0 \<le> sec" using assms(1,3) by (simp add: US_def pos_imp_zdiv_nonneg_iff)
  moreover have "sec < 86400" using zdiv_mono1 [of t "DAY_US - 1" US] assms(2,3) by (simp add: US_def DAY_US_def)
  ultimately have c: "0 \<le> sec div 3600" "sec div 3600 < 24" "(sec div 3600 * 60 + sec div 60 mod 60) * 60 + sec mod 60 = sec"
    by (rule clock_split)+
  have "parse_clock (pad 2 (sec div 3600) @ CHR '':'' # pad 2 (sec div 60 mod 60) @ CHR '':'' # pad 2 (sec mod 60)
      @ (if f = 0 then [] else CHR ''.'' # pad 6 f) @ s) = Some (time_us (sec div 3600) (sec div 60 mod 60) (sec mod 60) + f, s)"
    by (rule parse_clock_pads) (use c(1,2) assms(4,5) in \<open>simp_all add: valid_time_def US_def\<close>)
  moreover have "time_us (sec div 3600) (sec div 60 mod 60) (sec mod 60) + f = t"
    unfolding time_us_def c(3) using assms(3,4) by simp
  ultimately show ?thesis by simp
qed

lemma from_iso_text:
  assumes "0 \<le> us" "us < days_before_year 10000 * DAY_US" "s \<in> {''+00:00'', ''Z''}"
  shows "from_iso (iso_text us @ s) = Some \<lparr>dt_us = us, dt_off = Some 0\<rparr>"
proof -
  obtain y m d where ymd: "ymd_of_days (us div DAY_US) = (y, m, d)" by (metis prod_cases3)
  have "0 \<le> us mod DAY_US" "us mod DAY_US < DAY_US" by (simp_all add: DAY_US_def)
  note clock = parse_clock_back [OF this refl refl assms(3)]
  have "parse_offset ''+00:00'' = Some (Some 0)" "parse_offset ''Z'' = Some (Some 0)" by code_simp+
  with assms(3) have zone: "parse_offset s = Some (Some 0)" by auto
  show ?thesis
    unfolding from_iso_def iso_text_def
    using parse_date_back [OF assms(1,2) ymd] clock zone
    by (cases "us mod DAY_US mod US = 0") (simp_all add: ymd Let_def)
qed

text \<open>\<^verbatim>\<open>datetime.fromisoformat(d.isoformat()) == d\<close> for a time in UTC within the calendar.\<close>

lemma from_iso_back:
  assumes "0 \<le> us" "us < days_before_year 10000 * DAY_US"
  shows "from_iso (dt_isoformat \<lparr>dt_us = us, dt_off = Some 0\<rparr>) = Some \<lparr>dt_us = us, dt_off = Some 0\<rparr>"
proof -
  have "offset_text 0 = ''+00:00''" by code_simp
  then show ?thesis using from_iso_text [OF assms, of "''+00:00''"] by (simp add: dt_isoformat_def)
qed

lemma pad_chars: "c \<in> set (pad w n) \<Longrightarrow> is_digit c"
  using pad_digits by (auto simp: list_all_iff)

lemma iso_chars: "c \<in> set (dt_isoformat \<lparr>dt_us = us, dt_off = Some 0\<rparr>) \<Longrightarrow> is_digit c \<or> c \<in> set ''-T:.+''"
  by (auto simp: dt_isoformat_def iso_text_def offset_text_def Let_def dest!: pad_chars split: prod.splits if_splits)

lemma digit_plain: "is_digit c \<or> c \<in> set ''-T:.+'' \<Longrightarrow> \<not> is_space c \<and> c \<noteq> CHR ''Z''"
  by (auto simp: is_digit_def is_space_def)

lemma z_to_offset_plain: "\<forall>c\<in>set s. c \<noteq> CHR ''Z'' \<Longrightarrow> z_to_offset s = s"
  unfolding z_to_offset_def by (induction s) auto

lemma strip_iso [simp]: "strip (dt_isoformat \<lparr>dt_us = us, dt_off = Some 0\<rparr>) = dt_isoformat \<lparr>dt_us = us, dt_off = Some 0\<rparr>"
proof -
  have none: "dropWhile is_space s = s" if "\<forall>c\<in>set s. \<not> is_space c" for s using that by (cases s) simp_all
  have plain: "\<forall>c\<in>set (dt_isoformat \<lparr>dt_us = us, dt_off = Some 0\<rparr>). \<not> is_space c"
    using iso_chars digit_plain by blast
  show ?thesis using none [OF plain] none [of "rev (dt_isoformat \<lparr>dt_us = us, dt_off = Some 0\<rparr>)"] plain
    by (simp add: strip_def lstrip_def)
qed

lemma parse_stamp_back:
  "0 \<le> us \<Longrightarrow> us < days_before_year 10000 * DAY_US
    \<Longrightarrow> parse_stamp (dt_isoformat \<lparr>dt_us = us, dt_off = Some 0\<rparr>) = Some \<lparr>dt_us = us, dt_off = Some 0\<rparr>"
  using z_to_offset_plain [of "dt_isoformat \<lparr>dt_us = us, dt_off = Some 0\<rparr>"] iso_chars digit_plain
  by (simp add: parse_stamp_def from_iso_back with_utc_def)

lemma iso_not_empty: "dt_isoformat \<lparr>dt_us = us, dt_off = Some 0\<rparr> \<noteq> []"
  by (simp add: dt_isoformat_def offset_text_def Let_def)

end
