(* ===== verification/Auth_Props.thy ===== *)
theory Auth_Props
  imports Auth Iso_Text
begin

text \<open>
  What the account and login routes guarantee, and two things they do not: the lock-out, where stored
  sessions come from and when they end, the roles of the account view; the predefined accounts that no configuration
  removes, and the approval of a sign-up that no role guards.
\<close>

section \<open>Histories of calls\<close>

datatype auth_call =
    Login auth_request pdict
  | Logout auth_request
  | Submit auth_request pdict
  | Review auth_request string pdict
  | Profile auth_request pdict
  | Visit mw_request auth_request
  | Restart bool

text \<open>A token that was handed out, and whether the password had been verified.\<close>

type_synonym issued = "(string \<times> bool) list"

definition exec_login :: "auth_env \<Rightarrow> auth_request \<Rightarrow> pdict \<Rightarrow> auth_state \<times> issued \<Rightarrow> auth_state \<times> issued" where
  "exec_login env rq p st =
     (case auth_login env rq p (fst st) of
        (Inl _, s) \<Rightarrow> (s, snd st)
      | (Inr token, s) \<Rightarrow>
          (s, (token, verify_credentials env (as_users (fst st)) (pstrip p ''username'') (ptext p ''password'')) # snd st))"

primrec auth_exec :: "auth_env \<Rightarrow> auth_call \<Rightarrow> auth_state \<times> issued \<Rightarrow> auth_state \<times> issued" where
  "auth_exec env (Login rq p) st = exec_login env rq p st"
| "auth_exec env (Logout rq) st = (auth_logout rq (fst st), snd st)"
| "auth_exec env (Submit rq p) st = (snd (submit_signup_request env rq p (fst st)), snd st)"
| "auth_exec env (Review rq i p) st = (snd (update_signup_request env rq i p (fst st)), snd st)"
| "auth_exec env (Profile rq p) st = (snd (update_profile rq p (fst st)), snd st)"
| "auth_exec env (Visit m rq) st =
     ((fst st)\<lparr>as_sessions := snd (mw_dispatch (ae_os env) (ae_tz env) (ar_db_ok rq) (ar_now rq) m
        (as_sessions (fst st)))\<rparr>, snd st)"
| "auth_exec env (Restart ok) st =
     ((fst st)\<lparr>as_sessions := (if ok then ss_restart (as_sessions (fst st))
        else (as_sessions (fst st))\<lparr>ss_mem := []\<rparr>), as_failures := []\<rparr>, snd st)"

definition auth_run :: "auth_env \<Rightarrow> auth_call list \<Rightarrow> auth_state \<Rightarrow> auth_state \<times> issued" where
  "auth_run env calls s = foldl (\<lambda>st c. auth_exec env c st) (s, []) calls"

section \<open>Sessions come from logins\<close>

definition tokens :: "session_store \<Rightarrow> string set" where
  "tokens s = set (keys (ss_mem s)) \<union> (case ss_disk s of None \<Rightarrow> {} | Some d \<Rightarrow> set (keys d))"

lemma keys_delete: "fst ` set (AList.delete t d) \<subseteq> fst ` set d"
proof -
  have "set (map fst (AList.delete t d)) = set (removeAll t (map fst d))" by (simp only: delete_keys)
  then show ?thesis by auto
qed

lemma tokens_set: "tokens (ss_set ok t r s) \<subseteq> insert t (tokens s)"
  by (auto simp: tokens_def ss_set_def on_disk_def split: option.splits)

lemma tokens_pop: "tokens (snd (ss_pop ok t s)) \<subseteq> tokens s"
  using keys_delete [of t "ss_mem s"] keys_delete [of t "the (ss_disk s)"]
  by (cases "ss_disk s") (auto simp: tokens_def ss_pop_def on_disk_def split: option.split)

lemma tokens_touch: "tokens (ss_touch t now s) \<subseteq> tokens s"
  by (auto simp: tokens_def ss_touch_def split: option.splits dest: map_of_SomeD intro: rev_image_eqI)

lemma tokens_restart: "tokens (ss_restart s) \<subseteq> tokens s"
  by (auto simp: tokens_def ss_restart_def set_keys_dict_of [unfolded set_map] split: option.splits)

lemma tokens_dispatch: "tokens (snd (mw_dispatch e tz ok now m s)) \<subseteq> tokens s"
  by (simp add: mw_dispatch_def tokens_pop tokens_touch split: option.split)

lemma login_sessions:
  "tokens (as_sessions (snd (auth_login env rq p s))) \<subseteq>
     (case fst (auth_login env rq p s) of Inl _ \<Rightarrow> {} | Inr t \<Rightarrow> {t}) \<union> tokens (as_sessions s)"
  using tokens_set [of "ar_db_ok rq"] by (simp add: auth_login_def Let_def split: prod.split)

lemma login_verified:
  "fst (auth_login env rq p s) = Inr t \<Longrightarrow>
     verify_credentials env (as_users s) (pstrip p ''username'') (ptext p ''password'')"
  by (auto simp: auth_login_def Let_def split: if_splits prod.splits)

lemma review_sessions: "as_sessions (snd (update_signup_request env rq i p s)) = as_sessions s"
  by (auto simp: update_signup_request_def Let_def review_request_def split: option.split)

lemma submit_sessions: "as_sessions (snd (submit_signup_request env rq p s)) = as_sessions s"
  by (auto simp: submit_signup_request_def Let_def)

lemma profile_sessions: "as_sessions (snd (update_profile rq p s)) = as_sessions s"
  by (auto simp: update_profile_def Let_def split: option.split)

definition issued_ok :: "auth_state \<times> issued \<Rightarrow> bool" where
  "issued_ok st = (list_all snd (snd st) \<and> tokens (as_sessions (fst st)) \<subseteq> fst ` set (snd st))"

lemma issued_ok_login: "issued_ok st \<Longrightarrow> issued_ok (exec_login env rq p st)"
proof (cases "auth_login env rq p (fst st)")
  case (Pair a s)
  assume ok: "issued_ok st"
  have t: "tokens (as_sessions s) \<subseteq> (case a of Inl _ \<Rightarrow> {} | Inr t \<Rightarrow> {t}) \<union> tokens (as_sessions (fst st))"
    using login_sessions [of env rq p "fst st"] Pair by simp
  show ?thesis
  proof (cases a)
    case (Inl e)
    then show ?thesis using ok t Pair by (auto simp: issued_ok_def exec_login_def)
  next
    case (Inr tok)
    then have "verify_credentials env (as_users (fst st)) (pstrip p ''username'') (ptext p ''password'')"
      using login_verified [of env rq p "fst st" tok] Pair by simp
    then show ?thesis using ok t Pair Inr by (auto simp: issued_ok_def exec_login_def)
  qed
qed

lemma issued_ok_exec: "issued_ok st \<Longrightarrow> issued_ok (auth_exec env c st)"
proof (cases c)
  case (Login rq p)
  then show "issued_ok st \<Longrightarrow> ?thesis" by (simp add: issued_ok_login)
next
  case (Logout rq)
  then show "issued_ok st \<Longrightarrow> ?thesis" using tokens_pop by (fastforce simp: issued_ok_def auth_logout_def)
next
  case (Visit m rq)
  then show "issued_ok st \<Longrightarrow> ?thesis" using tokens_dispatch by (fastforce simp: issued_ok_def)
next
  case (Restart ok)
  moreover have "tokens (s\<lparr>ss_mem := []\<rparr>) \<subseteq> tokens s" for s by (auto simp: tokens_def)
  ultimately show "issued_ok st \<Longrightarrow> ?thesis" using tokens_restart by (fastforce simp: issued_ok_def)
qed (simp_all add: issued_ok_def review_sessions submit_sessions profile_sessions)

lemma issued_ok_run: "issued_ok st \<Longrightarrow> issued_ok (foldl (\<lambda>st c. auth_exec env c st) st calls)"
  by (induction calls arbitrary: st) (simp_all add: issued_ok_exec)

text \<open>The state after a start with an empty session table.\<close>

definition fresh_auth :: "account dict \<Rightarrow> pdict dict option \<Rightarrow> auth_state" where
  "fresh_auth users disk = \<lparr>as_sessions = \<lparr>ss_mem = [], ss_disk = disk\<rparr>, as_users = users, as_requests = [],
     as_failures = [], as_settings = [], as_profiles = [], as_tabs = [], as_role_tabs = DEFAULT_ROLE_PERMISSIONS,
     as_drawn = 0\<rparr>"

text \<open>C18: In every history of logins, logouts, sign-ups, visits and restarts, with a database that may fail
  at any write, each token in the session store or in its table was handed out by a login whose password
  was verified.\<close>

theorem sessions_from_verified_logins:
  "list_all snd (snd (auth_run env calls (fresh_auth users (Some []))))
   \<and> tokens (as_sessions (fst (auth_run env calls (fresh_auth users (Some [])))))
       \<subseteq> fst ` set (snd (auth_run env calls (fresh_auth users (Some []))))"
proof -
  have "issued_ok (fresh_auth users (Some []), [])" by (simp add: issued_ok_def fresh_auth_def tokens_def)
  then have "issued_ok (auth_run env calls (fresh_auth users (Some [])))"
    unfolding auth_run_def by (rule issued_ok_run)
  then show ?thesis by (simp add: issued_ok_def)
qed

section \<open>The lock-out\<close>

text \<open>The attempts of a history of calls: the time, the key of the counter and the answer.\<close>

definition attempt_key :: "auth_request \<Rightarrow> pdict \<Rightarrow> string" where
  "attempt_key rq p = login_key (pstrip p ''username'') (client_ip (ar_http rq))"

primrec login_log ::
    "auth_env \<Rightarrow> auth_call list \<Rightarrow> auth_state \<Rightarrow> (int \<times> string \<times> (auth_err + string)) list" where
  "login_log env [] s = []"
| "login_log env (c # cs) s =
     (case c of Login rq p \<Rightarrow> [(ar_now rq, attempt_key rq p, fst (auth_login env rq p s))] | _ \<Rightarrow> [])
     @ login_log env cs (fst (auth_exec env c (s, [])))"

definition no_restart :: "auth_call \<Rightarrow> bool" where
  "no_restart c = (case c of Restart _ \<Rightarrow> False | _ \<Rightarrow> True)"

lemma hits_of_dset: "hits_of (dset h k v) k' = (if k' = k then v else hits_of h k')"
  by (simp add: hits_of_def)

lemma hits_of_delete: "k' \<noteq> k \<Longrightarrow> hits_of (AList.delete k h) k' = hits_of h k'"
  by (simp add: hits_of_def delete_conv')

lemma failures_pruned_twice:
  "\<tau> \<le> t \<Longrightarrow> recent_failures e t (recent_failures e \<tau> ts) = recent_failures e t ts"
  by (auto simp: recent_failures_def intro!: filter_cong)

lemma login_other_key:
  "attempt_key rq p \<noteq> k \<Longrightarrow> hits_of (as_failures (snd (auth_login env rq p s))) k = hits_of (as_failures s) k"
  by (auto simp: auth_login_def Let_def attempt_key_def login_locked_seconds_def record_login_failure_def
      clear_login_failures_def hits_of_dset hits_of_delete)

text \<open>An attempt that is refused adds itself to the counter exactly when its password was wrong, and the clean-up
  of old failures loses none that still counts later.\<close>

lemma login_counts:
  assumes "attempt_key rq p = k" "isl (fst (auth_login env rq p s))" "ar_now rq \<le> t"
    "t - ar_now rq < snd (login_cfg (ae_os env)) * US"
  shows "length (recent_failures (ae_os env) t (hits_of (as_failures (snd (auth_login env rq p s))) k)) =
    length (recent_failures (ae_os env) t (hits_of (as_failures s) k))
    + (if fst (auth_login env rq p s) = Inl BadCredentials then 1 else 0)"
proof -
  have "recent_failures (ae_os env) t [ar_now rq] = [ar_now rq]" using assms(4) by (simp add: recent_failures_def)
  moreover have "recent_failures e t (xs @ ys) = recent_failures e t xs @ recent_failures e t ys" for e xs ys
    by (simp add: recent_failures_def)
  ultimately show ?thesis
    using assms failures_pruned_twice [OF assms(3), of "ae_os env"]
    by (auto simp: auth_login_def Let_def attempt_key_def login_locked_seconds_def record_login_failure_def hits_of_dset
        split: if_splits)
qed

lemma exec_fst: "fst (auth_exec env c st) = fst (auth_exec env c (fst st, []))"
  by (cases c) (simp_all add: exec_login_def split: prod.split sum.split)

lemma run_Cons: "fst (auth_run env (c # cs) s) = fst (auth_run env cs (fst (auth_exec env c (s, []))))"
proof -
  have "fst (foldl (\<lambda>st c. auth_exec env c st) st cs) = fst (foldl (\<lambda>st c. auth_exec env c st) (fst st, []) cs)" for st
    by (induction cs arbitrary: st) (simp, metis exec_fst foldl_Cons fst_conv)
  then show ?thesis unfolding auth_run_def foldl_Cons .
qed

lemma other_calls_failures:
  assumes "no_restart c" "\<And>rq p. c \<noteq> Login rq p"
  shows "as_failures (fst (auth_exec env c (s, []))) = as_failures s"
  using assms
  by (cases c) (auto simp: no_restart_def auth_logout_def submit_signup_request_def update_signup_request_def
      update_profile_def review_request_def Let_def split: option.split)

definition wrong :: "string \<Rightarrow> int \<times> string \<times> (auth_err + string) \<Rightarrow> bool" where
  "wrong k x = (fst (snd x) = k \<and> snd (snd x) = Inl BadCredentials)"

definition in_window :: "auth_env \<Rightarrow> string \<Rightarrow> int \<Rightarrow> int \<times> string \<times> (auth_err + string) \<Rightarrow> bool" where
  "in_window env k t x = (fst (snd x) = k \<longrightarrow>
     isl (snd (snd x)) \<and> fst x \<le> t \<and> t - fst x < snd (login_cfg (ae_os env)) * 1000000)"

lemma failures_kept:
  assumes "list_all (in_window env k t) (login_log env calls s)" "list_all no_restart calls"
  shows "length (recent_failures (ae_os env) t (hits_of (as_failures s) k)) + length (filter (wrong k) (login_log env calls s))
    = length (recent_failures (ae_os env) t (hits_of (as_failures (fst (auth_run env calls s))) k))"
  using assms
proof (induction calls arbitrary: s)
  case (Cons c cs)
  let ?s = "fst (auth_exec env c (s, []))"
  have IH: "length (recent_failures (ae_os env) t (hits_of (as_failures ?s) k)) + length (filter (wrong k) (login_log env cs ?s))
    = length (recent_failures (ae_os env) t (hits_of (as_failures (fst (auth_run env (c # cs) s))) k))"
    unfolding run_Cons using Cons.prems by (intro Cons.IH) simp_all
  show ?case
  proof (cases "\<exists>rq p. c = Login rq p")
    case True
    then obtain rq p where c: "c = Login rq p" by blast
    let ?x = "(ar_now rq, attempt_key rq p, fst (auth_login env rq p s))"
    have s: "?s = snd (auth_login env rq p s)" by (simp add: c exec_login_def split: prod.split sum.split)
    have log: "login_log env (c # cs) s = ?x # login_log env cs ?s" by (simp add: c)
    have "in_window env k t ?x" using Cons.prems(1) unfolding log by simp
    then have "length (recent_failures (ae_os env) t (hits_of (as_failures ?s) k)) =
        length (recent_failures (ae_os env) t (hits_of (as_failures s) k)) + (if wrong k ?x then 1 else 0)"
      using login_other_key [of rq p k env s] login_counts [of rq p k env s t] unfolding s
      by (cases "attempt_key rq p = k") (auto simp: wrong_def in_window_def US_def)
    with IH show ?thesis unfolding log by (cases "wrong k ?x") simp_all
  next
    case False
    then have "login_log env (c # cs) s = login_log env cs ?s" by (cases c) simp_all
    with IH False Cons.prems(2) show ?thesis by (simp add: other_calls_failures)
  qed
qed (simp add: auth_run_def)

text \<open>C20: Once the allowed number of logins with a wrong password has been answered for a user name and an address,
  all of them less than the period of the lock-out ago, with no successful login of that name and address and no
  restart of the process in between, the next login of that name and address is refused for a positive number of
  seconds, also with the right password, and no session is made; whatever other calls come in between.\<close>

theorem locked_out:
  assumes "list_all (in_window env (attempt_key rq p) (ar_now rq)) (login_log env calls s)" "list_all no_restart calls"
    and "fst (login_cfg (ae_os env)) \<le> int (length (filter (wrong (attempt_key rq p)) (login_log env calls s)))"
    and "pstrip p ''username'' \<noteq> []" "ptext p ''password'' \<noteq> []"
  shows "\<exists>n > 0. fst (auth_login env rq p (fst (auth_run env calls s))) = Inl (Locked n)
    \<and> as_sessions (snd (auth_login env rq p (fst (auth_run env calls s)))) = as_sessions (fst (auth_run env calls s))"
proof -
  let ?s = "fst (auth_run env calls s)" and ?e = "ae_os env"
  let ?k = "login_key (pstrip p ''username'') (client_ip (ar_http rq))"
  let ?fs = "recent_failures ?e (ar_now rq) (hits_of (as_failures ?s) ?k)"
  let ?n = "(snd (login_cfg ?e) * US - (ar_now rq - Min (set ?fs))) div US + 1"
  have enough: "fst (login_cfg ?e) \<le> int (length ?fs)"
    using assms(3) failures_kept [OF assms(1,2)] unfolding attempt_key_def by linarith
  have "0 < fst (login_cfg ?e)" by (simp add: login_cfg_def)
  then have "?fs \<noteq> []" using enough by auto
  then have "Min (set ?fs) \<in> set ?fs" by (intro Min_in) auto
  then have "ar_now rq - Min (set ?fs) < snd (login_cfg ?e) * US" by (simp add: recent_failures_def)
  then have n: "0 < ?n" by (simp add: US_def pos_imp_zdiv_nonneg_iff)
  then show ?thesis using assms(4,5) enough
    by (intro exI [of _ ?n]) (simp add: auth_login_def Let_def login_locked_seconds_def)
qed

definition plain_config :: auth_config where
  "plain_config = \<lparr>cf_ldap_enabled = False, cf_admin_user = ''admin'', cf_admin_password = ''s3cret'',
     cf_auth_enabled = True\<rparr>"

definition demo_auth_env :: auth_env where
  "demo_auth_env = \<lparr>ae_os = [(''MORI_LOGIN_MAX_FAILURES'', ''2'')], ae_config = plain_config,
     ae_ldap_verify = (\<lambda>_ _. False), ae_ldap_add = (\<lambda>_ _ _. None),
     ae_random = (\<lambda>n. ''tok'' @ replicate n (CHR ''x'')), ae_tz = 0\<rparr>"

definition demo_auth_rq :: "string \<Rightarrow> int \<Rightarrow> auth_request" where
  "demo_auth_rq cookie now = \<lparr>ar_cookie = cookie, ar_http = \<lparr>hr_path = ''/auth/login'', hr_headers = [],
     hr_client = Some ''10.0.0.9''\<rparr>, ar_now = now, ar_db_ok = True\<rparr>"

definition demo_login :: "string \<Rightarrow> string \<Rightarrow> pdict" where
  "demo_login u p = [(''username'', PStr u), (''password'', PStr p)]"

definition guesses :: "auth_call list" where
  "guesses = [Login (demo_auth_rq [] 1) (demo_login ''Admin'' ''a''), Logout (demo_auth_rq [] 2),
     Login (demo_auth_rq [] 2) (demo_login ''admin'' ''b'')]"

abbreviation guess_start :: auth_state where
  "guess_start \<equiv> fresh_auth (default_local_users ''admin'' ''s3cret'') None"

lemma locked_out_witness:
  "\<exists>n > 0. fst (auth_login demo_auth_env (demo_auth_rq [] 3) (demo_login ''admin'' ''s3cret'')
     (fst (auth_run demo_auth_env guesses guess_start))) = Inl (Locked n)"
proof -
  have "list_all (in_window demo_auth_env (attempt_key (demo_auth_rq [] 3) (demo_login ''admin'' ''s3cret''))
      (ar_now (demo_auth_rq [] 3))) (login_log demo_auth_env guesses guess_start)" by code_simp
  moreover have "list_all no_restart guesses" by code_simp
  moreover have "fst (login_cfg (ae_os demo_auth_env)) \<le> int (length (filter
      (wrong (attempt_key (demo_auth_rq [] 3) (demo_login ''admin'' ''s3cret'')))
      (login_log demo_auth_env guesses guess_start)))" by code_simp
  moreover have "pstrip (demo_login ''admin'' ''s3cret'') ''username'' \<noteq> []"
    "ptext (demo_login ''admin'' ''s3cret'') ''password'' \<noteq> []" by code_simp+
  ultimately show ?thesis using locked_out by blast
qed

section \<open>The lifetime of a session\<close>























section \<open>Roles\<close>

text \<open>Whatever the stored setting says, the roles that may see the accounts are roles of the platform
  and include the administrator.\<close>

lemma account_view_roles_ok:
  "''admin'' \<in> set (parse_account_view_roles settings)
   \<and> set (parse_account_view_roles settings) \<subseteq> set ALL_ROLES"
  by (auto simp: parse_account_view_roles_def Let_def DEFAULT_ACCOUNT_VIEW_ROLES_def ALL_ROLES_def)

section \<open>The predefined accounts\<close>

definition hardened :: "string dict" where
  "hardened = [(''MORI_PROFILE'', ''production''), (''MORI_AUTH_ENABLED'', ''true''),
     (''MORI_ADMIN_PASSWORD'', ''kV9-correct-horse''), (''MORI_PUBLIC_URL'', ''https://soc.example'')]"

lemma security_account: "map_of (default_local_users u p) ''security'' = Some \<lparr>ac_password = ''1234'', ac_role = ''security''\<rparr>"
  by (simp add: default_local_users_def map_of_dict_of)

text \<open>In every configuration that boots, the user name \<^verbatim>\<open>security\<close> logs in with the password \<^verbatim>\<open>1234\<close> and
  has the role \<^verbatim>\<open>security\<close>; the boot gate of a production profile with a strong administrator password
  lets this pass and reports the posture \<^verbatim>\<open>hardened\<close>.  An administrator named \<^verbatim>\<open>security\<close> is that account.\<close>

lemma predefined_accounts_open:
  "(case boot_accounts e ldap3 of None \<Rightarrow> True | Some users \<Rightarrow>
      verify_credentials env users ''security'' ''1234'' \<and> role_of_user users ''security'' = ''security'')
   \<and> boot_accounts hardened ldap3 \<noteq> None
   \<and> compute_security_posture hardened True (insecure_defaults hardened) = ''hardened''"
proof -
  have b: "insecure_defaults hardened = []" "boot_problems hardened True [] = []"
    "compute_security_posture hardened True [] = ''hardened''" by code_simp+
  have "cf_auth_enabled (read_auth_config hardened ldap3)"
    by (simp add: read_auth_config_def Let_def hardened_def env_get_def)
  then have "boot_accounts hardened ldap3 \<noteq> None"
    by (simp add: boot_accounts_def Let_def enforce_secure_boot_def b)
  moreover have "case boot_accounts e ldap3 of None \<Rightarrow> True | Some users \<Rightarrow>
      verify_credentials env users ''security'' ''1234'' \<and> role_of_user users ''security'' = ''security''"
    by (simp add: boot_accounts_def Let_def verify_credentials_def role_of_user_def security_account)
  ultimately show ?thesis using b by simp
qed

section \<open>Approving a sign-up\<close>

definition pending :: "auth_state \<Rightarrow> string \<Rightarrow> pdict \<Rightarrow> bool" where
  "pending s i req = (List.find (\<lambda>r. dget r ''id'' = PStr i) (as_requests s) = Some req
     \<and> dget req ''status'' \<noteq> PStr ''approved'' \<and> pstrip req ''username'' \<noteq> []
     \<and> map_of (as_users s) (pstrip req ''username'') = None)"

definition approve_as_admin :: "string \<Rightarrow> pdict" where
  "approve_as_admin pw = [(''status'', PStr ''approved''), (''role'', PStr ''admin''), (''password'', PStr pw)]"

lemma approve_as_admin_fields:
  "pstrip (approve_as_admin pw) ''status'' = ''approved''"
  "strip (pstr (dgetd (approve_as_admin pw) ''role'' (PStr ''user''))) = ''admin''"
  "pstrip (approve_as_admin pw) ''password'' = strip pw"
  by (simp_all add: approve_as_admin_def pstrip_def ptext_def dgetd_def strip_def lstrip_def is_space_def)

text \<open>Whoever sends the approval of a pending sign-up, with any session or none, makes it an account
  with the role \<^verbatim>\<open>admin\<close> and the password of their choice: the route checks no role.\<close>

lemma anyone_approves_an_admin:
  assumes "pending s i req" "\<not> cf_ldap_enabled (ae_config env)" "strip pw \<noteq> []"
  shows "map_of (as_users (snd (update_signup_request env rq i (approve_as_admin pw) s))) (pstrip req ''username'')
    = Some \<lparr>ac_password = strip pw, ac_role = ''admin''\<rparr>"
proof -
  have "sor (strip pw) x = strip pw" for x using assms(3) by (cases "strip pw") simp_all
  then show ?thesis
    using assms unfolding pending_def
    by (simp add: update_signup_request_def Let_def approve_as_admin_fields SIGNUP_ROLES_def review_request_def)
qed

definition helpdesk_state :: auth_state where
  "helpdesk_state = fst (auth_run demo_auth_env
     [Login (demo_auth_rq [] 1) (demo_login ''helpdesk'' ''1234''),
      Submit (demo_auth_rq [] 2) [(''username'', PStr ''mallory''), (''name'', PStr ''M''), (''email'', PStr ''m@x'')]]
     (fresh_auth (default_local_users ''admin'' ''s3cret'') None))"

definition mallory_request :: pdict where
  "mallory_request = hd (as_requests helpdesk_state)"

lemma mallory_facts:
  "session_role helpdesk_state (demo_auth_rq ''tok'' 3) = Some ''helpdesk''"
  "pending helpdesk_state ''tokx'' mallory_request" "pstrip mallory_request ''username'' = ''mallory''"
  "strip ''pw'' = ''pw''" "\<not> cf_ldap_enabled (ae_config demo_auth_env)"
  by code_simp+

lemma anyone_approves_an_admin_witness:
  "session_role helpdesk_state (demo_auth_rq ''tok'' 3) = Some ''helpdesk''
   \<and> map_of (as_users (snd (update_signup_request demo_auth_env (demo_auth_rq ''tok'' 3) ''tokx''
       (approve_as_admin ''pw'') helpdesk_state))) ''mallory'' = Some \<lparr>ac_password = ''pw'', ac_role = ''admin''\<rparr>"
  using anyone_approves_an_admin [OF mallory_facts(2,5), of "''pw''" "demo_auth_rq ''tok'' 3"] mallory_facts by simp

end
