(* ===== verification/Action_Log.thy ===== *)
theory Action_Log
  imports Hash_Chain Py_Time
begin

text \<open>
  The hash-chained log of user actions: \<^verbatim>\<open>_log_action\<close>, the entry hash and the verification in
  \<^verbatim>\<open>api/server.py\<close>, the table of \<^verbatim>\<open>repositories/state_postgres.py\<close> and the routes of
  \<^verbatim>\<open>api/routes/audit.py\<close> that append to the log and verify it.  The table stores the time of an entry as
  an instant, and a row read back prints it with the offset of the session, taken to be UTC.  An append
  to the table can fail; a flag of the call says so.
\<close>

section \<open>Entries and their verification\<close>

definition AUDIT_FIELDS :: "string list" where
  "AUDIT_FIELDS = [''seq'', ''ts'', ''username'', ''action'', ''detail'']"

definition audit_payload :: "pdict \<Rightarrow> string" where
  "audit_payload entry = canonical_json (PDict (map (\<lambda>k. (k, dget entry k)) AUDIT_FIELDS)) False"

definition audit_entry_hash :: "(string \<Rightarrow> string) \<Rightarrow> string \<Rightarrow> pdict \<Rightarrow> string" where
  "audit_entry_hash H prev_hash entry = H (prev_hash @ ''|'' @ audit_payload entry)"

fun audit_broken :: "(string \<Rightarrow> string) \<Rightarrow> pv option \<Rightarrow> pdict list \<Rightarrow> pv option" where
  "audit_broken H prev_link [] = None"
| "audit_broken H prev_link (e # es) =
     (if PStr (audit_entry_hash H (pstr (dgetd e ''prev_hash'' (PStr []))) e) \<noteq> dget e ''hash''
      then Some (dget e ''seq'')
      else if prev_link \<noteq> None \<and> prev_link \<noteq> Some (dget e ''prev_hash'') then Some (dget e ''seq'')
      else audit_broken H (Some (dget e ''hash'')) es)"

record audit_verdict =
  av_ok :: bool
  av_count :: int
  av_root :: pv
  av_broken :: pv

definition verify_audit_chain :: "(string \<Rightarrow> string) \<Rightarrow> pdict list \<Rightarrow> audit_verdict" where
  "verify_audit_chain H entries =
     (let broken = (case audit_broken H None entries of None \<Rightarrow> PNone | Some b \<Rightarrow> b)
      in \<lparr>av_ok = (broken = PNone), av_count = int (length entries),
          av_root = (if entries = [] then PStr ''GENESIS'' else dget (last entries) ''hash''), av_broken = broken\<rparr>)"

section \<open>The log and its table\<close>

record audit_state =
  al_mem :: "pdict list"
  al_head :: "(int \<times> string) option"
  al_db :: "pdict list option"

definition AUDIT_WINDOW :: nat where
  "AUDIT_WINDOW = 2000"

definition seq_of :: "pdict \<Rightarrow> int" where
  "seq_of e = (case dget e ''seq'' of PInt i \<Rightarrow> i | _ \<Rightarrow> 0)"

text \<open>The value of the time column when it is read back; \<open>None\<close> where the database refuses the text.\<close>

definition reload_ts :: "string \<Rightarrow> string option" where
  "reload_ts t = map_option
     (\<lambda>dt. iso_text (dt_us dt - (case dt_off dt of None \<Rightarrow> 0 | Some x \<Rightarrow> x)) @ ''+00:00'') (from_iso t)"

text \<open>The rows are kept as they are read back, in ascending sequence.\<close>

definition append_audit_event :: "pdict list \<Rightarrow> pdict \<Rightarrow> pdict list" where
  "append_audit_event rows e =
     (case reload_ts (gstr e ''ts'') of
        None \<Rightarrow> rows
      | Some t \<Rightarrow> if dget e ''seq'' \<in> (\<lambda>r. dget r ''seq'') ` set rows then rows
                  else insort_key seq_of (dset e ''ts'' (PStr t)) rows)"

definition load_audit_events :: "nat \<Rightarrow> pdict list \<Rightarrow> pdict list" where
  "load_audit_events limit rows = drop (length rows - max 1 limit) rows"

definition latest_audit_event :: "pdict list \<Rightarrow> (int \<times> string) option" where
  "latest_audit_event rows = (if rows = [] then None else Some (seq_of (last rows), gstr (last rows) ''hash''))"

definition chain_head :: "audit_state \<Rightarrow> string \<times> int" where
  "chain_head s =
     (if al_mem s \<noteq> [] then (gstr (last (al_mem s)) ''hash'', seq_of (last (al_mem s)) + 1)
      else case al_head s of Some (n, h) \<Rightarrow> (h, n + 1) | None \<Rightarrow> (''GENESIS'', 1))"

definition new_entry :: "(string \<Rightarrow> string) \<Rightarrow> audit_state \<Rightarrow> int \<Rightarrow> string \<Rightarrow> string \<Rightarrow> string \<Rightarrow> pdict" where
  "new_entry H s now username action detail =
     (case chain_head s of (prev, n) \<Rightarrow>
       let e = [(''seq'', PInt n), (''ts'', PStr (iso_text now @ ''Z'')), (''username'', PStr username),
                (''action'', PStr action), (''detail'', PStr detail), (''prev_hash'', PStr prev)]
       in e @ [(''hash'', PStr (audit_entry_hash H prev e))])"

definition log_action ::
    "(string \<Rightarrow> string) \<Rightarrow> bool \<Rightarrow> int \<Rightarrow> string \<Rightarrow> string \<Rightarrow> string \<Rightarrow> audit_state \<Rightarrow> audit_state" where
  "log_action H db_ok now username action detail s =
     (let e = new_entry H s now username action detail;
          mem = al_mem s @ [e]
      in s\<lparr>al_mem := drop (length mem - AUDIT_WINDOW) mem,
           al_db := (if db_ok then map_option (\<lambda>rows. append_audit_event rows e) (al_db s) else al_db s)\<rparr>)"

definition audit_restart :: "audit_state \<Rightarrow> audit_state" where
  "audit_restart s =
     s\<lparr>al_mem := [], al_head := (case al_db s of None \<Rightarrow> None | Some rows \<Rightarrow> latest_audit_event rows)\<rparr>"

text \<open>The routes: a browser's own entry, whose user is always unnamed because the framework does not pass
  the request to an untyped parameter, and the verification.\<close>

definition record_action_audit :: "(string \<Rightarrow> string) \<Rightarrow> bool \<Rightarrow> int \<Rightarrow> pdict \<Rightarrow> audit_state \<Rightarrow> audit_state" where
  "record_action_audit H db_ok now payload s =
     log_action H db_ok now ''anonymous'' (pstr (dgetd payload ''action'' (PStr ''UNKNOWN'')))
       (pstr (dgetd payload ''detail'' (PStr []))) s"

definition VERIFY_LIMIT :: nat where
  "VERIFY_LIMIT = 100000"

definition audit_log_verify :: "(string \<Rightarrow> string) \<Rightarrow> audit_state \<Rightarrow> audit_verdict \<times> string" where
  "audit_log_verify H s =
     (case al_db s of
        Some (r # rows) \<Rightarrow> (verify_audit_chain H (load_audit_events VERIFY_LIMIT (r # rows)), ''db'')
      | _ \<Rightarrow> (verify_audit_chain H (al_mem s), ''memory''))"

datatype audit_call = LogAction bool int string string string | AuditRestart

primrec audit_exec :: "(string \<Rightarrow> string) \<Rightarrow> audit_call \<Rightarrow> audit_state \<Rightarrow> audit_state" where
  "audit_exec H (LogAction ok now u a d) s = log_action H ok now u a d s"
| "audit_exec H AuditRestart s = audit_restart s"

definition audit_run :: "(string \<Rightarrow> string) \<Rightarrow> audit_call list \<Rightarrow> audit_state \<Rightarrow> audit_state" where
  "audit_run H calls s = foldl (\<lambda>s c. audit_exec H c s) s calls"

definition empty_audit :: "pdict list option \<Rightarrow> audit_state" where
  "empty_audit db = \<lparr>al_mem = [], al_head = None, al_db = db\<rparr>"

section \<open>The chain in memory\<close>

definition payload_core :: "pdict \<Rightarrow> pv" where
  "payload_core e = pnorm (PDict (map (\<lambda>k. (k, dget e k)) AUDIT_FIELDS))"

lemma audit_hash_text:
  "PStr (audit_entry_hash H (pstr (dgetd e ''prev_hash'' (PStr []))) e) = dget e ''hash'' \<longleftrightarrow> hash_fits audit_payload H e"
  by (auto simp: audit_entry_hash_def hash_fits_def chain_text_def prev_text_def)

interpretation actions: hash_chain audit_broken audit_payload payload_core "\<lambda>e. dget e ''seq''"
  by unfold_locales (auto simp: audit_hash_text payload_core_def audit_payload_def canonical_json_eq_iff)

abbreviation entry_ok :: "(string \<Rightarrow> string) \<Rightarrow> pdict \<Rightarrow> bool" where
  "entry_ok \<equiv> hash_fits audit_payload"

abbreviation mem_ok :: "(string \<Rightarrow> string) \<Rightarrow> pdict list \<Rightarrow> bool" where
  "mem_ok H es \<equiv> audit_broken H None es = None"

lemma verify_ok: "mem_ok H es \<Longrightarrow> av_ok (verify_audit_chain H es)"
  by (simp add: verify_audit_chain_def)

lemma new_entry_fields:
  "dget (new_entry H s now u a d) ''prev_hash'' = PStr (fst (chain_head s))"
  "dget (new_entry H s now u a d) ''ts'' = PStr (iso_text now @ ''Z'')"
  "dget (new_entry H s now u a d) ''seq'' \<noteq> PNone"
  by (cases "chain_head s", simp add: new_entry_def Let_def)+

lemma new_entry_hash: "\<exists>h. dget (new_entry H s now u a d) ''hash'' = PStr h"
  by (cases "chain_head s") (simp add: new_entry_def Let_def)

lemma new_entry_hash_text:
  "dget (new_entry H s now u a d) ''hash'' = PStr (gstr (new_entry H s now u a d) ''hash'')"
  using new_entry_hash [of H s now u a d] by (auto simp: gstr_PStr)

lemma payload_append: "list_all (\<lambda>k. dhas e k) AUDIT_FIELDS \<Longrightarrow> audit_payload (e @ r) = audit_payload e"
  by (simp add: audit_payload_def AUDIT_FIELDS_def dget_append)

lemma new_entry_ok: "entry_ok H (new_entry H s now u a d)"
proof -
  obtain p n where h: "chain_head s = (p, n)" by fastforce
  let ?e = "[(''seq'', PInt n), (''ts'', PStr (iso_text now @ ''Z'')), (''username'', PStr u),
      (''action'', PStr a), (''detail'', PStr d), (''prev_hash'', PStr p)]"
  have e: "new_entry H s now u a d = ?e @ [(''hash'', PStr (audit_entry_hash H p ?e))]"
    by (simp add: new_entry_def h Let_def)
  have "audit_payload (new_entry H s now u a d) = audit_payload ?e"
    unfolding e by (rule payload_append) (simp add: AUDIT_FIELDS_def)
  then have "audit_entry_hash H p (new_entry H s now u a d) = audit_entry_hash H p ?e"
    by (simp add: audit_entry_hash_def)
  moreover have "dgetd (new_entry H s now u a d) ''prev_hash'' (PStr []) = PStr p"
    "dget (new_entry H s now u a d) ''hash'' = PStr (audit_entry_hash H p ?e)"
    unfolding e by (simp_all add: dgetd_def)
  ultimately show ?thesis by (simp add: audit_hash_text [symmetric])
qed

text \<open>The hashes in the log are texts, so the head of the chain is the hash of the last entry.\<close>

definition hashes_are_texts :: "pdict list \<Rightarrow> bool" where
  "hashes_are_texts es = list_all (\<lambda>e. dget e ''hash'' = PStr (gstr e ''hash'')) es"

definition audit_ok :: "(string \<Rightarrow> string) \<Rightarrow> audit_state \<Rightarrow> bool" where
  "audit_ok H s = (mem_ok H (al_mem s) \<and> hashes_are_texts (al_mem s) \<and> length (al_mem s) \<le> AUDIT_WINDOW)"

lemma audit_ok_log: "audit_ok H s \<Longrightarrow> audit_ok H (log_action H ok now u a d s)"
proof -
  assume s: "audit_ok H s"
  let ?e = "new_entry H s now u a d" and ?m = "al_mem s @ [new_entry H s now u a d]"
  have "dget ?e ''prev_hash'' = dget (last (al_mem s)) ''hash''" if "al_mem s \<noteq> []"
  proof -
    have "dget (last (al_mem s)) ''hash'' = PStr (gstr (last (al_mem s)) ''hash'')"
      using s that by (auto simp: audit_ok_def hashes_are_texts_def list_all_iff)
    then show ?thesis using that by (simp add: new_entry_fields(1) chain_head_def)
  qed
  then have "mem_ok H ?m"
    using s by (intro actions.intact_snoc new_entry_ok) (simp_all add: audit_ok_def)
  moreover have "hashes_are_texts ?m"
    using s by (simp add: audit_ok_def hashes_are_texts_def new_entry_hash_text [symmetric])
  moreover have "al_mem (log_action H ok now u a d s) = drop (length ?m - AUDIT_WINDOW) ?m"
    by (simp add: log_action_def Let_def)
  ultimately show ?thesis
    by (auto simp: audit_ok_def actions.intact_drop hashes_are_texts_def list_all_iff simp del: drop_append
        dest!: in_set_dropD)
qed

lemma audit_ok_run: "audit_ok H s \<Longrightarrow> audit_ok H (audit_run H calls s)"
proof (induction calls arbitrary: s)
  case (Cons c calls)
  have "audit_ok H (audit_exec H c s)"
  proof (cases c)
    case AuditRestart
    then show ?thesis by (simp add: audit_ok_def audit_restart_def actions.broken_Nil hashes_are_texts_def)
  qed (use Cons.prems in \<open>simp add: audit_ok_log\<close>)
  from Cons.IH [OF this] show ?case by (simp add: audit_run_def)
qed (simp add: audit_run_def)

text \<open>C21: In every history of actions and restarts, with a database that may refuse any write, the log in
  memory holds at most 2000 entries and verifies.\<close>

theorem memory_log_verifies:
  "av_ok (verify_audit_chain H (al_mem (audit_run H calls (empty_audit db))))
   \<and> length (al_mem (audit_run H calls (empty_audit db))) \<le> AUDIT_WINDOW"
proof -
  have "audit_ok H (empty_audit db)"
    by (simp add: audit_ok_def empty_audit_def actions.broken_Nil hashes_are_texts_def)
  then have "audit_ok H (audit_run H calls (empty_audit db))" by (rule audit_ok_run)
  then show ?thesis by (simp add: audit_ok_def verify_ok)
qed

section \<open>The chain in the table\<close>

text \<open>A row of the table was hashed over the time text of the process and holds the time text of the
  database.\<close>

definition stale_row :: "(string \<Rightarrow> string) \<Rightarrow> pdict \<Rightarrow> bool" where
  "stale_row H r = (\<exists>e x y. entry_ok H e \<and> dget e ''seq'' \<noteq> PNone \<and>
     dget e ''ts'' = PStr (x @ ''Z'') \<and> r = dset e ''ts'' (PStr (y @ ''+00:00'')))"

lemma reload_ts_offset: "reload_ts t = Some u \<Longrightarrow> \<exists>y. u = y @ ''+00:00''"
  by (auto simp: reload_ts_def)

lemma append_stale:
  assumes "list_all (stale_row H) rows" "entry_ok H e" "dget e ''seq'' \<noteq> PNone" "dget e ''ts'' = PStr (x @ ''Z'')"
  shows "list_all (stale_row H) (append_audit_event rows e)"
proof -
  have "stale_row H (dset e ''ts'' (PStr u))" if "reload_ts (gstr e ''ts'') = Some u" for u
    using assms(2-4) reload_ts_offset [OF that] unfolding stale_row_def by blast
  then show ?thesis
    using assms(1) by (auto simp: append_audit_event_def list_all_iff set_insort_key split: option.splits)
qed

definition rows_stale :: "(string \<Rightarrow> string) \<Rightarrow> audit_state \<Rightarrow> bool" where
  "rows_stale H s = (case al_db s of None \<Rightarrow> True | Some rows \<Rightarrow> list_all (stale_row H) rows)"

lemma rows_stale_exec: "rows_stale H s \<Longrightarrow> rows_stale H (audit_exec H c s)"
  by (cases c; cases "al_db s")
    (auto simp: rows_stale_def log_action_def audit_restart_def Let_def
      intro: append_stale [OF _ new_entry_ok new_entry_fields(3) new_entry_fields(2)])

lemma rows_stale_run: "rows_stale H s \<Longrightarrow> rows_stale H (audit_run H calls s)"
  unfolding audit_run_def by (induction calls arbitrary: s) (simp_all add: rows_stale_exec)

lemma sort_key_map_of: "distinct (map fst xs) \<Longrightarrow> map_of (sort_key fst xs) = map_of xs"
proof -
  assume d: "distinct (map fst xs)"
  have "mset (map fst (sort_key fst xs)) = mset (map fst xs)" by (metis mset_map mset_sort)
  then have "distinct (map fst (sort_key fst xs))" using d mset_eq_imp_distinct_iff by blast
  then show ?thesis using d by (simp add: map_of_inject_set)
qed

lemma payload_core_ts:
  assumes "payload_core a = payload_core b"
  shows "pnorm (dget a ''ts'') = pnorm (dget b ''ts'')"
proof -
  let ?f = "\<lambda>e. map (\<lambda>k. (k, pnorm (dget e k))) AUDIT_FIELDS"
  have m: "map (map_prod id pnorm) (map (\<lambda>k. (k, dget e k)) AUDIT_FIELDS) = ?f e" for e
    by simp
  have d: "distinct (map fst (?f e))" for e by (simp add: AUDIT_FIELDS_def)
  have "sort_key fst (?f a) = sort_key fst (?f b)" using assms by (simp only: payload_core_def pnorm.simps m pv.inject)
  then have "map_of (?f a) = map_of (?f b)"
    by (metis d sort_key_map_of)
  then have "map_of (?f a) ''ts'' = map_of (?f b) ''ts''" by (rule fun_cong)
  then show ?thesis by (simp add: AUDIT_FIELDS_def)
qed

lemma stale_row_not_ok: "stale_row H r \<Longrightarrow> entry_ok H r \<Longrightarrow> \<exists>x y. x \<noteq> y \<and> H x = H y"
proof -
  assume "stale_row H r" "entry_ok H r"
  then obtain e x y where e: "entry_ok H e" "dget e ''ts'' = PStr (x @ ''Z'')"
    and r: "r = dset e ''ts'' (PStr (y @ ''+00:00''))"
    unfolding stale_row_def by blast
  have same: "prev_text r = prev_text e" "dget r ''hash'' = dget e ''hash''" by (simp_all add: r prev_text_dset)
  have "audit_payload e \<noteq> audit_payload r"
  proof
    assume "audit_payload e = audit_payload r"
    then have "pnorm (dget e ''ts'') = pnorm (dget r ''ts'')"
      by (intro payload_core_ts actions.body_core)
    then have "x @ ''Z'' = y @ ''+00:00''" by (simp add: e(2) r)
    then have "last (x @ ''Z'') = last (y @ ''+00:00'')" by (rule arg_cong)
    then show False by simp
  qed
  then have "chain_text audit_payload e \<noteq> chain_text audit_payload r" by (simp add: chain_text_def same)
  moreover have "H (chain_text audit_payload e) = H (chain_text audit_payload r)"
    using e(1) \<open>entry_ok H r\<close> same(2) by (simp add: hash_fits_def)
  ultimately show ?thesis by blast
qed

text \<open>A log kept in a database never verifies: the entry is hashed with a time that ends in \<^verbatim>\<open>Z\<close>, the
  row comes back with \<^verbatim>\<open>+00:00\<close>.  As soon as the table has a row the route reports the chain as broken,
  although nobody touched it, unless the digest collides.\<close>

lemma database_log_reported_broken:
  assumes "al_db (audit_run H calls (empty_audit (Some []))) = Some (r # rows)"
  shows "\<not> av_ok (fst (audit_log_verify H (audit_run H calls (empty_audit (Some [])))))
    \<or> (\<exists>x y. x \<noteq> y \<and> H x = H y)"
proof -
  let ?s = "audit_run H calls (empty_audit (Some []))"
  define es where "es = load_audit_events VERIFY_LIMIT (r # rows)"
  have "rows_stale H ?s" by (rule rows_stale_run) (simp add: rows_stale_def empty_audit_def)
  then have st: "list_all (stale_row H) (r # rows)" using assms by (simp add: rows_stale_def)
  have "es \<noteq> []" "set es \<subseteq> set (r # rows)"
    by (simp add: es_def load_audit_events_def VERIFY_LIMIT_def) (simp only: es_def load_audit_events_def set_drop_subset)
  then obtain a where a: "a \<in> set es" "stale_row H a"
    using st by (cases es) (auto simp: list_all_iff)
  show ?thesis
  proof (rule disjCI)
    assume no: "\<not> (\<exists>x y. x \<noteq> y \<and> H x = H y)"
    have "\<not> entry_ok H a" using a(2) no stale_row_not_ok by blast
    then have "audit_broken H None es \<noteq> None" using a(1) by (auto simp: actions.broken_None list_all_iff)
    then obtain b where b: "audit_broken H None es = Some b" by blast
    then obtain c where c: "c \<in> set es" "b = dget c ''seq''" using actions.broken_label by blast
    have "stale_row H c" using st \<open>set es \<subseteq> set (r # rows)\<close> c(1) by (auto simp: list_all_iff)
    then have "b \<noteq> PNone" by (auto simp: c(2) stale_row_def)
    then have "\<not> av_ok (verify_audit_chain H es)" by (simp add: verify_audit_chain_def b Let_def)
    then show "\<not> av_ok (fst (audit_log_verify H ?s))"
      by (simp add: audit_log_verify_def assms es_def)
  qed
qed

lemma one_login_stored:
  "\<exists>r. al_db (audit_run (\<lambda>x. x) [LogAction True 63700000000000000 ''kim'' ''LOGIN'' []] (empty_audit (Some []))) = Some [r]"
proof -
  have "reload_ts (iso_text 63700000000000000 @ ''Z'') \<noteq> None" by code_simp
  then obtain t where "reload_ts (iso_text 63700000000000000 @ ''Z'') = Some t" by blast
  then show ?thesis
    by (simp add: audit_run_def empty_audit_def log_action_def new_entry_def chain_head_def Let_def
        append_audit_event_def gstr_def)
qed

theorem database_log_reported_broken_witness:
  "\<not> av_ok (fst (audit_log_verify (\<lambda>x. x)
     (audit_run (\<lambda>x. x) [LogAction True 63700000000000000 ''kim'' ''LOGIN'' []] (empty_audit (Some [])))))"
proof -
  obtain r where "al_db (audit_run (\<lambda>x. x) [LogAction True 63700000000000000 ''kim'' ''LOGIN'' []]
      (empty_audit (Some []))) = Some (r # [])"
    using one_login_stored by blast
  from database_log_reported_broken [OF this] show ?thesis by blast
qed

end
