(* ===== verification/Bundle.thy ===== *)
theory Bundle
  imports Hashing "HOL-Library.Monad_Syntax"
begin

text \<open>
  Signed evidence bundles (\<^verbatim>\<open>services/evidence_bundle.py\<close>): the integrity manifest over the digests of the
  files of a bundle, its signature, the writer that streams files into an archive, and the verification.
  SHA-256 and HMAC are parameters.  An archive is the list of what was written to it; the manifest is kept
  as a value where the code writes its JSON text.
\<close>

definition MANIFEST_NAME :: string where
  "MANIFEST_NAME = ''integrity-manifest.json''"

definition SIG_ALGO :: string where
  "SIG_ALGO = ''hmac-sha256''"

type_synonym files = "string dict"

datatype zip_data = ZFile string | ZManifest pdict

type_synonym archive = "(string \<times> zip_data) list"

section \<open>Building\<close>

definition file_entry :: "(string \<Rightarrow> string) \<Rightarrow> string \<Rightarrow> pv" where
  "file_entry H data = PDict [(''sha256'', PStr (sha256_hex H data)), (''bytes'', PInt (int (length data)))]"

definition unsigned_note :: string where
  "unsigned_note = utf8 [236, 132, 156, 235, 170, 133, 32, 237, 130, 164, 32, 235, 175, 184, 236, 132, 164,
     236, 160, 149, 32, 226, 128, 148, 32, 237, 149, 180, 236, 139, 156, 235, 167, 140,
     32, 237, 143, 172, 237, 149, 168, 40, 116, 97, 109, 112, 101, 114, 45, 101, 118,
     105, 100, 101, 110, 116, 32, 236, 149, 132, 235, 139, 152, 41, 46, 32, 77, 79, 82,
     73, 95, 69, 86, 73, 68, 69, 78, 67, 69, 95, 83, 73, 71, 78, 73, 78, 71, 95, 75, 69,
     89, 32, 236, 132, 164, 236, 160, 149, 32, 236, 139, 156, 32, 236, 132, 156, 235,
     170, 133, 46]"

definition manifest_core :: "(string \<Rightarrow> string) \<Rightarrow> pdict \<Rightarrow> string \<Rightarrow> pdict \<Rightarrow> pdict" where
  "manifest_core H entries generated_at extra =
     (let fs = PDict (sort_key fst entries)
      in [(''canonicalization'', PStr CANONICALIZATION), (''hash_algorithm'', PStr HASH_ALGORITHM),
          (''generated_at'', PStr generated_at), (''files'', fs)]
         @ (if extra \<noteq> [] then [(''meta'', PDict extra)] else [])
         @ [(''bundle_hash'', PStr (sha256_hex H (canonical_json fs True)))])"

definition manifest_from_entries ::
    "(string \<Rightarrow> string) \<Rightarrow> (string \<Rightarrow> string \<Rightarrow> string) \<Rightarrow> pdict \<Rightarrow> string \<Rightarrow> string \<Rightarrow> string \<Rightarrow> pdict \<Rightarrow> pdict" where
  "manifest_from_entries H Mac entries generated_at key_id secret extra =
     (let core = manifest_core H entries generated_at extra
      in if secret \<noteq> []
         then core @ [(''signed'', PBool True), (''signature_algorithm'', PStr SIG_ALGO),
                      (''key_id'', PStr (sor key_id ''default'')),
                      (''signature'', PStr (Mac secret (canonical_json (PDict core) True)))]
         else core @ [(''signed'', PBool False), (''note'', PStr unsigned_note)])"

definition build_signed_manifest ::
    "(string \<Rightarrow> string) \<Rightarrow> (string \<Rightarrow> string \<Rightarrow> string) \<Rightarrow> files \<Rightarrow> string \<Rightarrow> string \<Rightarrow> string \<Rightarrow> pdict \<Rightarrow> pdict" where
  "build_signed_manifest H Mac fs generated_at key_id secret extra =
     manifest_from_entries H Mac (map (map_prod id (file_entry H)) fs) generated_at key_id secret extra"

text \<open>The streaming writer; adding a file under the name of the manifest raises.\<close>

record bundle_writer =
  bw_zip :: archive
  bw_secret :: string
  bw_key_id :: string
  bw_entries :: pdict

definition new_writer :: "string \<Rightarrow> string \<Rightarrow> bundle_writer" where
  "new_writer secret key_id = \<lparr>bw_zip = [], bw_secret = secret, bw_key_id = key_id, bw_entries = []\<rparr>"

definition bw_add :: "(string \<Rightarrow> string) \<Rightarrow> string \<Rightarrow> string \<Rightarrow> bundle_writer \<Rightarrow> bundle_writer option" where
  "bw_add H name data w =
     (if name = MANIFEST_NAME then None
      else Some (w\<lparr>bw_zip := bw_zip w @ [(name, ZFile data)],
                   bw_entries := dset (bw_entries w) name (file_entry H data)\<rparr>))"

definition bw_finalize ::
    "(string \<Rightarrow> string) \<Rightarrow> (string \<Rightarrow> string \<Rightarrow> string) \<Rightarrow> string \<Rightarrow> pdict \<Rightarrow> bundle_writer \<Rightarrow> pdict \<times> archive" where
  "bw_finalize H Mac generated_at extra w =
     (let manifest = manifest_from_entries H Mac (bw_entries w) generated_at (bw_key_id w) (bw_secret w) extra
      in (manifest, bw_zip w @ [(MANIFEST_NAME, ZManifest manifest)]))"

definition write_bundle_with_manifest ::
    "(string \<Rightarrow> string) \<Rightarrow> (string \<Rightarrow> string \<Rightarrow> string) \<Rightarrow> archive \<Rightarrow> files \<Rightarrow> string \<Rightarrow> string \<Rightarrow> string \<Rightarrow> pdict
     \<Rightarrow> pdict \<times> archive" where
  "write_bundle_with_manifest H Mac zf fs generated_at secret key_id extra =
     (let manifest = build_signed_manifest H Mac fs generated_at key_id secret extra
      in (manifest, zf @ map (map_prod id ZFile) fs @ [(MANIFEST_NAME, ZManifest manifest)]))"

section \<open>Verifying\<close>

record bundle_verdict =
  bv_ok :: bool
  bv_files_ok :: bool
  bv_signature_ok :: "bool option"
  bv_mismatched :: "string list"

definition SIGNED_KEYS :: "string list" where
  "SIGNED_KEYS = [''canonicalization'', ''hash_algorithm'', ''generated_at'', ''files'', ''meta'', ''bundle_hash'']"

definition manifest_files :: "pdict \<Rightarrow> pdict" where
  "manifest_files manifest = as_dict (por (dget manifest ''files'') (PDict []))"

definition file_bad :: "(string \<Rightarrow> string) \<Rightarrow> files \<Rightarrow> string \<times> pv \<Rightarrow> bool" where
  "file_bad H fs entry =
     (case map_of fs (fst entry) of
        None \<Rightarrow> True | Some data \<Rightarrow> PStr (sha256_hex H data) \<noteq> dget (as_dict (snd entry)) ''sha256'')"

definition signature_ok :: "(string \<Rightarrow> string \<Rightarrow> string) \<Rightarrow> string \<Rightarrow> pdict \<Rightarrow> bool option" where
  "signature_ok Mac secret manifest =
     (if truthy (dget manifest ''signed'') \<and> secret \<noteq> [] then
        (let core = map (\<lambda>k. (k, dget manifest k)) (filter (dhas manifest) SIGNED_KEYS)
         in Some (Mac secret (canonical_json (PDict core) True) = pstr (dgetd manifest ''signature'' (PStr []))))
      else None)"

definition verify_signed_manifest ::
    "(string \<Rightarrow> string) \<Rightarrow> (string \<Rightarrow> string \<Rightarrow> string) \<Rightarrow> pdict \<Rightarrow> files \<Rightarrow> string \<Rightarrow> bundle_verdict" where
  "verify_signed_manifest H Mac manifest fs secret =
     (let entries = manifest_files manifest;
          mismatched = map fst (filter (file_bad H fs) entries)
            @ filter (\<lambda>n. \<not> dhas entries n \<and> n \<noteq> MANIFEST_NAME) (keys fs);
          sig = signature_ok Mac secret manifest
      in \<lparr>bv_ok = (mismatched = [] \<and> sig \<noteq> Some False), bv_files_ok = (mismatched = []),
          bv_signature_ok = sig, bv_mismatched = mismatched\<rparr>)"

section \<open>Lemmas\<close>

lemma dget_core:
  "dget (manifest_core H es g x @ r) ''files'' = PDict (sort_key fst es)"
  by (simp add: manifest_core_def Let_def)

lemma manifest_files_build: "manifest_files (manifest_from_entries H Mac es g k s x) = sort_key fst es"
  by (simp add: manifest_files_def manifest_from_entries_def Let_def dget_core por_def)

lemma core_again:
  assumes "r = [(''signed'', a), (''signature_algorithm'', b), (''key_id'', c), (''signature'', d)]"
  shows "map (\<lambda>k. (k, dget (manifest_core H es g x @ r) k)) (filter (dhas (manifest_core H es g x @ r)) SIGNED_KEYS)
    = manifest_core H es g x"
  unfolding assms by (simp add: manifest_core_def Let_def SIGNED_KEYS_def dhas_def)

lemma signature_build:
  "signature_ok Mac secret (manifest_from_entries H Mac es g k s x) =
     (if s \<noteq> [] \<and> secret \<noteq> [] then
        Some (Mac secret (canonical_json (PDict (manifest_core H es g x)) True)
            = Mac s (canonical_json (PDict (manifest_core H es g x)) True))
      else None)"
proof (cases "s = []")
  case True
  then show ?thesis by (simp add: signature_ok_def manifest_from_entries_def Let_def manifest_core_def)
next
  case False
  let ?core = "manifest_core H es g x"
  let ?m = "manifest_from_entries H Mac es g k s x"
  have core: "map (\<lambda>k. (k, dget ?m k)) (filter (dhas ?m) SIGNED_KEYS) = ?core"
    using False by (simp add: manifest_from_entries_def Let_def core_again)
  have "dgetd ?m ''signature'' (PStr []) = PStr (Mac s (canonical_json (PDict ?core) True))"
    "truthy (dget ?m ''signed'')"
    using False by (simp_all add: manifest_from_entries_def Let_def manifest_core_def dgetd_def)
  then show ?thesis using False by (simp add: signature_ok_def core Let_def)
qed

lemma bad_files_none:
  assumes "dwf fs"
  shows "filter (file_bad H fs) (sort_key fst (map (map_prod id (file_entry H)) fs)) = []"
proof -
  have "\<not> file_bad H fs e" if "e \<in> set (map (map_prod id (file_entry H)) fs)" for e
  proof -
    from that obtain n d where e: "e = (n, file_entry H d)" "(n, d) \<in> set fs" by auto
    then have "map_of fs n = Some d" using assms by simp
    with e show ?thesis by (simp add: file_bad_def file_entry_def)
  qed
  then show ?thesis by (auto simp: filter_empty_conv)
qed

lemma dhas_iff: "dhas d n \<longleftrightarrow> n \<in> fst ` set d"
  by (auto simp: dhas_def map_of_eq_None_iff)

lemma dhas_sort_entries: "dhas (sort_key fst (map (map_prod id f) fs)) n \<longleftrightarrow> n \<in> fst ` set fs"
  by (simp add: dhas_iff image_image)

text \<open>The bytes that a signature covers.\<close>

definition signed_text :: "(string \<Rightarrow> string) \<Rightarrow> files \<Rightarrow> string \<Rightarrow> pdict \<Rightarrow> string" where
  "signed_text H fs generated_at extra =
     canonical_json (PDict (manifest_core H (map (map_prod id (file_entry H)) fs) generated_at extra)) True"

text \<open>C22: A bundle verifies against its own manifest, written by either path: no file is reported, and the
  signature is confirmed when both sides have the key.  A verifier that has a key also accepts a manifest
  that is marked as unsigned.\<close>

theorem bundle_verifies:
  assumes "dwf fs"
  shows "verify_signed_manifest H Mac (build_signed_manifest H Mac fs g k s x) fs secret =
     (let sig = (if s \<noteq> [] \<and> secret \<noteq> [] then Some (Mac secret (signed_text H fs g x) = Mac s (signed_text H fs g x))
                 else None)
      in \<lparr>bv_ok = (sig \<noteq> Some False), bv_files_ok = True, bv_signature_ok = sig, bv_mismatched = []\<rparr>)"
proof -
  have "filter (\<lambda>n. \<not> dhas (sort_key fst (map (map_prod id (file_entry H)) fs)) n \<and> n \<noteq> MANIFEST_NAME) (keys fs) = []"
    by (auto simp: filter_empty_conv dhas_sort_entries)
  then show ?thesis
    unfolding verify_signed_manifest_def build_signed_manifest_def manifest_files_build Let_def
      bad_files_none [OF assms] signature_build signed_text_def
    by simp
qed

definition demo_files :: files where
  "demo_files = [(''b.pdf'', ''two''), (''a.csv'', ''one'')]"

lemma bundle_verifies_witness:
  "bv_ok (verify_signed_manifest rev append (build_signed_manifest rev append demo_files ''2024'' ''k1'' ''key'' [])
     demo_files ''key'')"
  using bundle_verifies [of demo_files rev append "''2024''" "''k1''" "''key''" "[]" "''key''"]
  by (simp add: demo_files_def)

lemma file_bad_iff: "dwf fs \<Longrightarrow> (n, d) \<in> set fs \<Longrightarrow>
    file_bad H fs' (n, file_entry H d) \<longleftrightarrow> (case map_of fs' n of None \<Rightarrow> True | Some d' \<Rightarrow> H d' \<noteq> H d)"
  by (simp add: file_bad_def file_entry_def sha256_hex_def split: option.split)

text \<open>C23: If a bundle verifies against the manifest of other files, then, unless two of the contents collide
  under SHA-256, every file of the manifest is there unchanged and there is no further file.\<close>

theorem bundle_tamper_evident:
  assumes "dwf fs" "dwf fs'"
    and "inj_on H (set (map snd fs) \<union> set (map snd fs'))"
    and "bv_files_ok (verify_signed_manifest H Mac (build_signed_manifest H Mac fs g k s x) fs' secret)"
    and "n \<noteq> MANIFEST_NAME"
  shows "map_of fs' n = map_of fs n"
proof -
  let ?es = "sort_key fst (map (map_prod id (file_entry H)) fs)"
  have v: "filter (file_bad H fs') ?es = []" "filter (\<lambda>n. \<not> dhas ?es n \<and> n \<noteq> MANIFEST_NAME) (keys fs') = []"
    using assms(4) by (simp_all add: verify_signed_manifest_def build_signed_manifest_def manifest_files_build Let_def)
  show ?thesis
  proof (cases "map_of fs n")
    case None
    then have "n \<notin> set (keys fs)" by (simp add: map_of_eq_None_iff)
    then have "n \<notin> set (keys fs')"
      using v(2) assms(5) by (auto simp: filter_empty_conv dhas_sort_entries)
    then have "map_of fs' n = None" by (simp only: map_of_eq_None_iff set_map) simp
    then show ?thesis using None by simp
  next
    case (Some d)
    then have m: "(n, d) \<in> set fs" by (rule map_of_SomeD)
    then have "(n, file_entry H d) \<in> set ?es" by force
    then have "\<not> file_bad H fs' (n, file_entry H d)" using v(1) by (auto simp: filter_empty_conv)
    then obtain d' where d': "map_of fs' n = Some d'" "H d' = H d"
      using file_bad_iff [OF assms(1) m, of H fs'] by (auto split: option.splits)
    then have "d' \<in> set (map snd fs')" "d \<in> set (map snd fs)" using m by (force dest: map_of_SomeD)+
    then have "d' = d" using assms(3) d'(2) by (auto dest: inj_onD)
    then show ?thesis using d' Some by simp
  qed
qed

lemma bundle_tamper_evident_witness:
  "map_of (rev demo_files) ''b.pdf'' = map_of demo_files ''b.pdf''"
proof -
  have "bv_files_ok (verify_signed_manifest id append
      (build_signed_manifest id append demo_files ''2024'' ''k1'' ''key'' []) (rev demo_files) ''key'')"
    by code_simp
  then show ?thesis
    by (intro bundle_tamper_evident [where H = id and Mac = append])
      (simp_all add: demo_files_def MANIFEST_NAME_def)
qed

end
