(* ===== verification/Accounts.thy ===== *)
theory Accounts
  imports Py_Time
begin

text \<open>
  Reconciliation of local accounts with the directory and the list of approvals
  (\<^verbatim>\<open>services/account_recon.py\<close>).  A host account is the record that \<^verbatim>\<open>normalize_account\<close> makes of a raw one.
\<close>

definition DISABLED_STATUSES :: "string list" where
  "DISABLED_STATUSES = [''disabled'', ''locked'', ''deleted'', ''inactive'', ''expired'']"

definition FINDING_KINDS :: "string list" where
  "FINDING_KINDS = [''leaver'', ''orphan_priv'', ''unapproved_sudo'', ''dormant'']"

definition PRIV_GROUPS :: "string list" where
  "PRIV_GROUPS = [''root'', ''wheel'', ''sudo'', ''admin'', ''adm'', ''domain admins'', ''administrators'']"

section \<open>Normalisation\<close>

text \<open>The groups of a raw account: a text is split, a list is taken as it is.\<close>

definition raw_groups :: "pv \<Rightarrow> pv list" where
  "raw_groups v =
     (case por v (PList []) of
        PStr s \<Rightarrow> map PStr (filter (\<lambda>g. g \<noteq> []) (map strip (split_on (CHR '','') (replace_char (CHR '';'') (CHR '','') s))))
      | PList xs \<Rightarrow> xs
      | PDict d \<Rightarrow> map PStr (keys d)
      | _ \<Rightarrow> [])"

definition text_of :: "pdict \<Rightarrow> string \<Rightarrow> string" where
  "text_of a k = strip (pstr (dgetd a k (PStr [])))"

definition normalize_account :: "pdict \<Rightarrow> string \<Rightarrow> pdict" where
  "normalize_account a host_type =
     (let groups = raw_groups (dget a ''groups'');
          gl = map (\<lambda>g. lower (strip (pstr g))) groups;
          uid = text_of a ''uid'';
          is_sudo = (truthy (por (dget a ''sudo'') (dget a ''is_sudo''))
                     \<or> list_ex (\<lambda>g. g \<in> {''sudo'', ''wheel'', ''admin''}) gl);
          is_priv = (uid = ''0'' \<or> is_sudo \<or> list_ex (\<lambda>g. g \<in> set PRIV_GROUPS) gl)
      in [(''username'', PStr (text_of a ''username'')), (''host_type'', PStr host_type),
          (''uid'', por (PStr uid) PNone), (''gid'', por (PStr (text_of a ''gid'')) PNone),
          (''shell'', por (dget a ''shell'') PNone),
          (''home'', por (por (dget a ''home'') (dget a ''directory'')) PNone),
          (''groups'', PList groups), (''is_privileged'', PBool is_priv), (''is_sudo'', PBool is_sudo),
          (''disabled'', PBool (truthy (dget a ''disabled''))),
          (''last_login'', por (por (dget a ''last_login'') (dget a ''last_login_at'')) PNone),
          (''pwd_last_change'', por (por (dget a ''pwd_last_change'') (dget a ''password_last_set'')) PNone),
          (''source'', dgetd a ''source'' (PStr ''osquery''))])"

section \<open>Reconciliation\<close>

text \<open>Whole days since a time; the present is aware, and so is every parsed time.\<close>

definition account_age_days :: "pv \<Rightarrow> dtime \<Rightarrow> int option" where
  "account_age_days t now =
     (case parse_iso t True of
        None \<Rightarrow> None
      | Some dt \<Rightarrow> map_option (\<lambda>us. max 0 (us div DAY_US)) (dt_sub now dt))"

definition user_key :: "string \<Rightarrow> string" where
  "user_key u = lower (strip u)"

definition dir_by_user :: "pdict list \<Rightarrow> pdict dict" where
  "dir_by_user directory =
     dict_of (filter (\<lambda>kv. fst kv \<noteq> []) (map (\<lambda>d. (user_key (pstr (dgetd d ''username'' (PStr []))), d)) directory))"

definition dir_disabled :: "pdict dict \<Rightarrow> string \<Rightarrow> bool" where
  "dir_disabled dir u =
     (case map_of dir u of
        None \<Rightarrow> False
      | Some d \<Rightarrow> lower (pstr (dgetd d ''status'' (PStr ''active''))) \<in> set DISABLED_STATUSES)"

definition covers :: "string \<Rightarrow> string \<Rightarrow> string \<Rightarrow> pdict \<Rightarrow> bool" where
  "covers username host_key kind a =
     (user_key (pstr (dgetd a ''username'' (PStr []))) = user_key username
      \<and> \<not> (dget a ''scope'' = PStr ''host'' \<and> pstr (dgetd a ''host_key'' (PStr [])) \<noteq> host_key)
      \<and> \<not> (kind = ''sudo'' \<and> dgetd a ''kind'' (PStr ''account'') \<noteq> PStr ''sudo''))"

definition acct_approved :: "pdict list \<Rightarrow> string \<Rightarrow> string \<Rightarrow> string \<Rightarrow> bool" where
  "acct_approved approvals username host_key kind = list_ex (covers username host_key kind) approvals"

definition account_tags :: "pdict dict \<Rightarrow> pdict list \<Rightarrow> dtime \<Rightarrow> int \<Rightarrow> string \<Rightarrow> pdict \<Rightarrow> string list" where
  "account_tags dir approvals now dormant_days host_key a =
     (let username = pstr (dgetd a ''username'' (PStr []));
          un = user_key username;
          is_priv = truthy (dget a ''is_privileged'');
          is_sudo = truthy (dget a ''is_sudo'')
      in (if dir_disabled dir un then [''leaver''] else [])
         @ (if is_priv \<and> \<not> dhas dir un \<and> \<not> acct_approved approvals username host_key ''account'' then [''orphan_priv''] else [])
         @ (if is_sudo \<and> \<not> acct_approved approvals username host_key ''sudo'' then [''unapproved_sudo''] else [])
         @ (case account_age_days (dget a ''last_login'') now of
              None \<Rightarrow> [] | Some age \<Rightarrow> if dormant_days < age then [''dormant''] else []))"

record account_row =
  rw_host_key :: string
  rw_host_type :: pv
  rw_username :: string
  rw_uid :: pv
  rw_privileged :: bool
  rw_sudo :: bool
  rw_disabled :: bool
  rw_in_directory :: bool
  rw_last_login :: pv
  rw_login_age :: "int option"
  rw_pwd_last_change :: pv
  rw_groups :: pv
  rw_findings :: "string list"

definition recon_row :: "pdict dict \<Rightarrow> pdict list \<Rightarrow> dtime \<Rightarrow> int \<Rightarrow> string \<times> pdict \<Rightarrow> account_row" where
  "recon_row dir approvals now dormant_days ha =
     (case ha of (host_key, a) \<Rightarrow>
       let username = pstr (dgetd a ''username'' (PStr []))
       in \<lparr>rw_host_key = host_key, rw_host_type = dgetd a ''host_type'' (PStr ''server''), rw_username = username,
           rw_uid = dget a ''uid'', rw_privileged = truthy (dget a ''is_privileged''),
           rw_sudo = truthy (dget a ''is_sudo''), rw_disabled = truthy (dget a ''disabled''),
           rw_in_directory = dhas dir (user_key username), rw_last_login = dget a ''last_login'',
           rw_login_age = account_age_days (dget a ''last_login'') now,
           rw_pwd_last_change = dget a ''pwd_last_change'', rw_groups = por (dget a ''groups'') (PList []),
           rw_findings = account_tags dir approvals now dormant_days host_key a\<rparr>)"

record account_finding =
  fd_host_key :: string
  fd_host_type :: pv
  fd_username :: string
  fd_privileged :: bool
  fd_sudo :: bool
  fd_login_age :: "int option"

definition finding_of :: "account_row \<Rightarrow> account_finding" where
  "finding_of row = \<lparr>fd_host_key = rw_host_key row, fd_host_type = rw_host_type row, fd_username = rw_username row,
     fd_privileged = rw_privileged row, fd_sudo = rw_sudo row, fd_login_age = rw_login_age row\<rparr>"

definition FINDING_LIMIT :: nat where
  "FINDING_LIMIT = 200"

text \<open>One pass of the loop over the accounts: the rows, the counter of each kind and its list of findings.\<close>

definition add_tag :: "account_row \<Rightarrow> int dict \<times> account_finding list dict \<Rightarrow> string \<Rightarrow> int dict \<times> account_finding list dict" where
  "add_tag row cf t =
     (case cf of (counts, findings) \<Rightarrow>
       (bump t counts,
        (if length (case map_of findings t of None \<Rightarrow> [] | Some rs \<Rightarrow> rs) < FINDING_LIMIT
         then push t (finding_of row) findings else findings)))"

definition add_account ::
    "account_row list \<times> int dict \<times> account_finding list dict \<Rightarrow> account_row
     \<Rightarrow> account_row list \<times> int dict \<times> account_finding list dict" where
  "add_account acc row =
     (case acc of (rows, cf) \<Rightarrow> (rows @ [row], foldl (add_tag row) cf (rw_findings row)))"

record recon_summary =
  su_hosts :: int
  su_servers :: int
  su_pcs :: int
  su_accounts :: int
  su_privileged :: int
  su_directory :: int
  su_flagged :: int

record recon =
  rc_accounts :: "account_row list"
  rc_findings :: "account_finding list dict"
  rc_counts :: "int dict"
  rc_summary :: recon_summary

definition hosts_of_type :: "string \<Rightarrow> pdict list dict \<Rightarrow> int" where
  "hosts_of_type ty host_accounts =
     int (length (filter (\<lambda>h. list_ex (\<lambda>a. dget a ''host_type'' = PStr ty) (snd h)) host_accounts))"

definition flat_accounts :: "pdict list dict \<Rightarrow> (string \<times> pdict) list" where
  "flat_accounts host_accounts = concat (map (\<lambda>h. map (Pair (fst h)) (snd h)) (sort_key fst host_accounts))"

definition reconcile ::
    "pdict list dict \<Rightarrow> pdict list \<Rightarrow> pdict list \<Rightarrow> dtime \<Rightarrow> int \<Rightarrow> recon" where
  "reconcile host_accounts directory approvals now dormant_days =
     (let dir = dir_by_user directory;
          rows = map (recon_row dir approvals now dormant_days) (flat_accounts host_accounts)
      in case foldl add_account ([], map (\<lambda>k. (k, 0)) FINDING_KINDS, map (\<lambda>k. (k, [])) FINDING_KINDS) rows of
           (accounts, counts, findings) \<Rightarrow>
             \<lparr>rc_accounts = accounts, rc_findings = findings, rc_counts = counts,
              rc_summary = \<lparr>su_hosts = int (length host_accounts),
                su_servers = hosts_of_type ''server'' host_accounts, su_pcs = hosts_of_type ''pc'' host_accounts,
                su_accounts = int (length accounts),
                su_privileged = int (length (filter rw_privileged accounts)),
                su_directory = int (length dir),
                su_flagged = int (length (filter (\<lambda>r. rw_findings r \<noteq> []) accounts))\<rparr>\<rparr>)"

section \<open>Lemmas\<close>

lemma tags_distinct: "distinct (account_tags dir ap now n h a)"
  by (auto simp: account_tags_def Let_def split: option.split)

lemma tags_kinds: "set (account_tags dir ap now n h a) \<subseteq> set FINDING_KINDS"
  by (auto simp: account_tags_def Let_def FINDING_KINDS_def split: option.split)

definition tagged :: "string \<Rightarrow> account_row \<Rightarrow> bool" where
  "tagged k row = (k \<in> set (rw_findings row))"

definition count_of :: "int dict \<Rightarrow> string \<Rightarrow> int" where
  "count_of d k = (case map_of d k of None \<Rightarrow> 0 | Some n \<Rightarrow> n)"

definition found :: "account_finding list dict \<Rightarrow> string \<Rightarrow> account_finding list" where
  "found d k = (case map_of d k of None \<Rightarrow> [] | Some rs \<Rightarrow> rs)"

lemma count_of_bump: "count_of (bump t d) k = count_of d k + (if k = t then 1 else 0)"
  by (simp add: count_of_def map_of_bump)

lemma found_push: "found (push t x d) k = (if k = t then found d t @ [x] else found d k)"
  by (simp add: found_def push_def)

lemma add_tag_pair: "add_tag row (c, f) t =
    (bump t c, if length (found f t) < FINDING_LIMIT then push t (finding_of row) f else f)"
  by (simp add: add_tag_def found_def)

lemma add_tag_eq:
  "count_of (fst (add_tag row cf t)) k = count_of (fst cf) k + (if k = t then 1 else 0)"
  "found (snd (add_tag row cf t)) k =
     (if k = t \<and> length (found (snd cf) k) < FINDING_LIMIT then found (snd cf) k @ [finding_of row] else found (snd cf) k)"
  by (cases cf, simp add: add_tag_pair count_of_bump found_push)+

lemma add_tags_eq:
  "distinct ts \<Longrightarrow> count_of (fst (foldl (add_tag row) cf ts)) k = count_of (fst cf) k + (if k \<in> set ts then 1 else 0)"
  "distinct ts \<Longrightarrow> found (snd (foldl (add_tag row) cf ts)) k =
     (if k \<in> set ts \<and> length (found (snd cf) k) < FINDING_LIMIT then found (snd cf) k @ [finding_of row] else found (snd cf) k)"
  by (induction ts arbitrary: cf) (auto simp: add_tag_eq)

lemma fold_accounts:
  assumes "list_all (\<lambda>r. distinct (rw_findings r)) rows" "length (found (snd (snd acc)) k) \<le> FINDING_LIMIT"
  shows "fst (foldl add_account acc rows) = fst acc @ rows
    \<and> count_of (fst (snd (foldl add_account acc rows))) k
        = count_of (fst (snd acc)) k + int (length (filter (tagged k) rows))
    \<and> found (snd (snd (foldl add_account acc rows))) k
        = take FINDING_LIMIT (found (snd (snd acc)) k @ map finding_of (filter (tagged k) rows))"
  using assms
proof (induction rows arbitrary: acc)
  case (Cons r rows)
  obtain xs cf where acc: "acc = (xs, cf)" by (cases acc)
  have d: "distinct (rw_findings r)" "list_all (\<lambda>r. distinct (rw_findings r)) rows" using Cons.prems(1) by simp_all
  have l: "length (found (snd (snd (add_account acc r))) k) \<le> FINDING_LIMIT"
    using Cons.prems(2) by (simp add: acc add_account_def add_tags_eq(2) [OF d(1)])
  show ?case
    using Cons.IH [OF d(2) l] Cons.prems(2)
    by (auto simp: acc add_account_def add_tags_eq [OF d(1)] tagged_def take_Cons')
qed simp

lemma rows_distinct: "list_all (\<lambda>r. distinct (rw_findings r)) (map (recon_row dir ap now n) has)"
  by (auto simp: list_all_iff recon_row_def Let_def tags_distinct split: prod.split)

lemma reconcile_facts:
  assumes "rows = map (recon_row (dir_by_user directory) approvals now n) (flat_accounts host_accounts)"
  shows "rc_accounts (reconcile host_accounts directory approvals now n) = rows"
    and "count_of (rc_counts (reconcile host_accounts directory approvals now n)) k = int (length (filter (tagged k) rows))"
    and "found (rc_findings (reconcile host_accounts directory approvals now n)) k
      = take FINDING_LIMIT (map finding_of (filter (tagged k) rows))"
proof -
  let ?init = "([], map (\<lambda>k. (k, 0)) FINDING_KINDS, map (\<lambda>k. (k, [])) FINDING_KINDS)
    :: account_row list \<times> int dict \<times> account_finding list dict"
  have i: "count_of (fst (snd ?init)) k = 0" "found (snd (snd ?init)) k = []"
    by (auto simp: count_of_def found_def FINDING_KINDS_def)
  have "list_all (\<lambda>r. distinct (rw_findings r)) rows" unfolding assms by (rule rows_distinct)
  then have f: "fst (foldl add_account ?init rows) = rows
    \<and> count_of (fst (snd (foldl add_account ?init rows))) k = int (length (filter (tagged k) rows))
    \<and> found (snd (snd (foldl add_account ?init rows))) k = take FINDING_LIMIT (map finding_of (filter (tagged k) rows))"
    using fold_accounts [of rows ?init k] i by simp
  show "rc_accounts (reconcile host_accounts directory approvals now n) = rows"
    "count_of (rc_counts (reconcile host_accounts directory approvals now n)) k = int (length (filter (tagged k) rows))"
    "found (rc_findings (reconcile host_accounts directory approvals now n)) k = take FINDING_LIMIT (map finding_of (filter (tagged k) rows))"
    using f unfolding reconcile_def Let_def assms by (auto split: prod.split)
qed

section \<open>Properties\<close>

text \<open>The reconciliation has one row per account, its counter of each kind of finding counts every
  row with that finding, and its list of each kind holds the first 200 of them.\<close>

lemma reconcile_accounts_for_all:
  "rc_accounts (reconcile host_accounts directory approvals now n)
     = map (recon_row (dir_by_user directory) approvals now n) (flat_accounts host_accounts)
   \<and> count_of (rc_counts (reconcile host_accounts directory approvals now n)) k
     = int (length (filter (tagged k) (rc_accounts (reconcile host_accounts directory approvals now n))))
   \<and> found (rc_findings (reconcile host_accounts directory approvals now n)) k
     = take FINDING_LIMIT (map finding_of (filter (tagged k) (rc_accounts (reconcile host_accounts directory approvals now n))))"
  by (simp add: reconcile_facts)

text \<open>A sudo approval that covers an account on its host rules out both findings about missing
  approval, whatever its groups and the directory say.\<close>

lemma approval_is_the_baseline:
  assumes "ap \<in> set approvals" "covers (pstr (dgetd a ''username'' (PStr []))) host_key ''sudo'' ap"
  shows "\<not> tagged ''orphan_priv'' (recon_row dir approvals now n (host_key, a))
    \<and> \<not> tagged ''unapproved_sudo'' (recon_row dir approvals now n (host_key, a))"
proof -
  have "covers (pstr (dgetd a ''username'' (PStr []))) host_key ''account'' ap"
    using assms(2) by (simp add: covers_def)
  then have "acct_approved approvals (pstr (dgetd a ''username'' (PStr []))) host_key ''account''"
    "acct_approved approvals (pstr (dgetd a ''username'' (PStr []))) host_key ''sudo''"
    using assms by (auto simp: acct_approved_def list_ex_iff)
  then show ?thesis
    by (auto simp: tagged_def recon_row_def account_tags_def Let_def split: option.splits if_splits)
qed

definition demo_account :: pdict where
  "demo_account = normalize_account [(''username'', PStr ''Ops''), (''uid'', PStr ''0''), (''groups'', PStr ''sudo; dev'')] ''server''"

definition demo_approval :: pdict where
  "demo_approval = [(''username'', PStr ''ops''), (''scope'', PStr ''host''), (''host_key'', PStr ''h1''), (''kind'', PStr ''sudo'')]"

definition demo_now :: dtime where
  "demo_now = \<lparr>dt_us = 0, dt_off = Some 0\<rparr>"

lemma demo_covers: "covers (pstr (dgetd demo_account ''username'' (PStr []))) ''h1'' ''sudo'' demo_approval"
  by code_simp

lemma approval_is_the_baseline_witness:
  "\<not> tagged ''orphan_priv'' (recon_row [] [demo_approval] demo_now 90 (''h1'', demo_account))
   \<and> \<not> tagged ''unapproved_sudo'' (recon_row [] [demo_approval] demo_now 90 (''h1'', demo_account))
   \<and> rw_findings (recon_row [] [demo_approval] demo_now 90 (''h2'', demo_account)) = [''orphan_priv'', ''unapproved_sudo'']"
proof -
  have "rw_findings (recon_row [] [demo_approval] demo_now 90 (''h2'', demo_account)) = [''orphan_priv'', ''unapproved_sudo'']"
    by code_simp
  then show ?thesis
    using approval_is_the_baseline [of demo_approval "[demo_approval]" demo_account "''h1''" "[]" demo_now 90] demo_covers
    by simp
qed

end
