(* ===== verification/Scan_Diff.thy ===== *)
theory Scan_Diff
  imports Py_Value
begin

text \<open>
  The comparison of two scans (\<^verbatim>\<open>services/scan_diff.py\<close>): the identity of a finding that does not depend on
  its line, the five classes of the comparison, the attribution of a change to its inputs and the verdict
  on determinism.
\<close>

section \<open>Identity\<close>

definition por_list :: "pdict \<Rightarrow> string list \<Rightarrow> pv" where
  "por_list f ks = foldr (\<lambda>k r. por (dget f k) r) ks (PStr [])"

definition rule_of :: "pdict \<Rightarrow> string" where
  "rule_of f = pstr (por_list f [''rule_id'', ''ruleId'', ''rule'', ''category''])"

definition path_char :: "char \<Rightarrow> bool" where
  "path_char c = (is_alnum c \<or> c \<in> set ''_./-'' \<or> c = CHR 0x5C)"

text \<open>\<^verbatim>\<open>re.sub\<close> with the path pattern (a separator and at least one character of a path) and with \<^verbatim>\<open>\d+\<close>.\<close>

function (sequential) sub_paths :: "string \<Rightarrow> string" where
  "sub_paths [] = []"
| "sub_paths (c # s) =
     (if (c = CHR ''/'' \<or> c = CHR 0x5C) \<and> s \<noteq> [] \<and> path_char (hd s)
      then ''PATH'' @ sub_paths (dropWhile path_char s) else c # sub_paths s)"
  by pat_completeness auto
termination
  by (relation "measure length") (simp_all add: le_imp_less_Suc length_dropWhile_le)

function (sequential) sub_digits :: "string \<Rightarrow> string" where
  "sub_digits [] = []"
| "sub_digits (c # s) =
     (if is_digit c then CHR ''#'' # sub_digits (dropWhile is_digit s) else c # sub_digits s)"
  by pat_completeness auto
termination
  by (relation "measure length") (simp_all add: le_imp_less_Suc length_dropWhile_le)

definition semantic_fingerprint :: "pdict \<Rightarrow> string" where
  "semantic_fingerprint f =
     (case List.find (\<lambda>k. truthy (dget f k)) [''symbol'', ''sink'', ''function'', ''normalized''] of
        Some k \<Rightarrow> take 120 (lower (strip (pstr (dget f k))))
      | None \<Rightarrow>
          (let msg = sub_digits (sub_paths (pstr (por_list f [''message'', ''msg''])));
               ctx = pstr (por_list f [''data_type'', ''table'', ''column''])
           in strip (take 120 (lower (strip msg)) @ (if ctx \<noteq> [] then ''|'' @ ctx else []))))"

definition finding_file :: "pdict \<Rightarrow> string" where
  "finding_file f = pstr (por_list f [''file'', ''path''])"

definition finding_key :: "pdict \<Rightarrow> string" where
  "finding_key f = finding_file f @ ''|''
     @ (if dget f ''line'' \<noteq> PNone then pstr (dget f ''line'') else []) @ ''|'' @ rule_of f"

definition finding_identity :: "pdict \<Rightarrow> string" where
  "finding_identity f = finding_file f @ ''|'' @ rule_of f @ ''|'' @ semantic_fingerprint f"

section \<open>The comparison\<close>

definition by_identity :: "pdict list \<Rightarrow> pdict dict" where
  "by_identity fs = dict_of (map (\<lambda>f. (finding_identity f, f)) fs)"

record scan_diff =
  sd_new :: "pdict list"
  sd_removed :: "pdict list"
  sd_moved :: "pdict list"
  sd_modified :: "pdict list"
  sd_unchanged :: int

definition classify_pair :: "scan_diff \<Rightarrow> pdict \<times> pdict \<Rightarrow> scan_diff" where
  "classify_pair d ab =
     (case ab of (a, b) \<Rightarrow>
       if gstr a ''severity'' \<noteq> gstr b ''severity''
       then d\<lparr>sd_modified := sd_modified d @ [dset (dset b ''prev_severity'' (dget a ''severity''))
                 ''change'' (PStr ''severity_changed'')]\<rparr>
       else if pstr (dget a ''line'') \<noteq> pstr (dget b ''line'')
       then d\<lparr>sd_moved := sd_moved d @ [dset b ''prev_line'' (dget a ''line'')]\<rparr>
       else d\<lparr>sd_unchanged := sd_unchanged d + 1\<rparr>)"

definition common :: "pdict dict \<Rightarrow> pdict dict \<Rightarrow> (pdict \<times> pdict) list" where
  "common pk ck = map (\<lambda>kv. (the (map_of pk (fst kv)), snd kv)) (filter (\<lambda>kv. dhas pk (fst kv)) ck)"

definition diff_findings :: "pdict list \<Rightarrow> pdict list \<Rightarrow> scan_diff" where
  "diff_findings prev cur =
     (let pk = by_identity prev; ck = by_identity cur
      in foldl classify_pair
           \<lparr>sd_new = map snd (filter (\<lambda>kv. \<not> dhas pk (fst kv)) ck),
            sd_removed = map snd (filter (\<lambda>kv. \<not> dhas ck (fst kv)) pk),
            sd_moved = [], sd_modified = [], sd_unchanged = 0\<rparr> (common pk ck))"

definition attribute_change :: "pdict \<Rightarrow> pdict \<Rightarrow> string list" where
  "attribute_change prev_env cur_env =
     (let differs = (\<lambda>k. gstr prev_env k \<noteq> gstr cur_env k)
      in (if differs ''commit'' then [''code''] else [])
         @ (if differs ''ruleset'' then [''ruleset''] else [])
         @ (if differs ''model'' \<or> differs ''tool'' then [''ai''] else []))"

record scan_summary =
  sm_prev :: pdict
  sm_cur :: pdict
  sm_diff :: scan_diff
  sm_causes :: "string list"
  sm_changed :: bool
  sm_same_input :: bool
  sm_nondeterministic :: bool

definition ENV_KEYS :: "string list" where
  "ENV_KEYS = [''commit'', ''scanner'', ''ruleset'', ''model'', ''tool'', ''input_signature'']"

definition summarize_diff :: "pdict \<Rightarrow> pdict \<Rightarrow> pdict list \<Rightarrow> pdict list \<Rightarrow> scan_summary" where
  "summarize_diff prev_env cur_env prev_findings cur_findings =
     (let d = diff_findings prev_findings cur_findings;
          causes = attribute_change prev_env cur_env;
          changed = (sd_new d \<noteq> [] \<or> sd_removed d \<noteq> [] \<or> sd_modified d \<noteq> [])
      in \<lparr>sm_prev = map (\<lambda>k. (k, dget prev_env k)) ENV_KEYS, sm_cur = map (\<lambda>k. (k, dget cur_env k)) ENV_KEYS,
          sm_diff = d, sm_causes = causes, sm_changed = changed, sm_same_input = (causes = []),
          sm_nondeterministic = (causes = [] \<and> changed)\<rparr>)"

section \<open>Lemmas\<close>

lemma por_list_line: "''line'' \<notin> set ks \<Longrightarrow> por_list (dset f ''line'' v) ks = por_list f ks"
  by (induction ks) (auto simp: por_list_def)

lemma identity_without_line: "finding_identity (dset f ''line'' v) = finding_identity f"
  by (simp add: finding_identity_def finding_file_def rule_of_def semantic_fingerprint_def por_list_line)

definition relined :: "(pdict \<Rightarrow> pv) \<Rightarrow> pdict \<Rightarrow> pdict" where
  "relined g f = dset f ''line'' (g f)"

lemma foldl_dset_map:
  "foldl (\<lambda>d kv. dset d (fst kv) (snd kv)) (map (map_prod id h) d) (map (map_prod id h) kvs)
     = map (map_prod id h) (foldl (\<lambda>d kv. dset d (fst kv) (snd kv)) d kvs)"
proof (induction kvs arbitrary: d)
  case (Cons kv kvs)
  have "dset (map (map_prod id h) d) (fst kv) (h (snd kv)) = map (map_prod id h) (dset d (fst kv) (snd kv))"
    by (cases kv, induction d) auto
  then show ?case using Cons.IH [of "dset d (fst kv) (snd kv)"] by (simp add: id_def)
qed simp

lemma dict_of_map: "dict_of (map (map_prod id h) kvs) = map (map_prod id h) (dict_of kvs)"
  using foldl_dset_map [of h "[]" kvs] unfolding dict_of_def list.map .

lemma by_identity_relined: "by_identity (map (relined g) fs) = map (map_prod id (relined g)) (by_identity fs)"
proof -
  have "map (\<lambda>f. (finding_identity f, f)) (map (relined g) fs)
      = map (map_prod id (relined g)) (map (\<lambda>f. (finding_identity f, f)) fs)"
    by (simp add: relined_def identity_without_line)
  then show ?thesis unfolding by_identity_def by (simp only: dict_of_map)
qed

lemma dhas_map_prod: "dhas (map (map_prod id h) d) k = dhas d k"
  by (induction d) (auto simp: dhas_def)

lemma dhas_member: "kv \<in> set d \<Longrightarrow> dhas d (fst kv)"
  by (auto simp: dhas_def map_of_eq_None_iff)

lemma pairs_same_severity:
  "list_all (\<lambda>ab. gstr (fst ab) ''severity'' = gstr (snd ab) ''severity'') ps \<Longrightarrow>
     sd_modified (foldl classify_pair d ps) = sd_modified d
     \<and> sd_new (foldl classify_pair d ps) = sd_new d \<and> sd_removed (foldl classify_pair d ps) = sd_removed d
     \<and> int (length (sd_moved (foldl classify_pair d ps))) + sd_unchanged (foldl classify_pair d ps)
       = int (length (sd_moved d)) + sd_unchanged d + int (length ps)"
  by (induction ps arbitrary: d) (auto simp: classify_pair_def)

text \<open>Findings that only moved to other lines are no change: whatever the new lines are, nothing is new,
  removed or modified, every finding is counted as moved or unchanged, and with the same inputs the scan is
  not called nondeterministic.\<close>

lemma moved_lines_are_no_change:
  "sd_new (diff_findings prev (map (relined g) prev)) = []
   \<and> sd_removed (diff_findings prev (map (relined g) prev)) = []
   \<and> sd_modified (diff_findings prev (map (relined g) prev)) = []
   \<and> int (length (sd_moved (diff_findings prev (map (relined g) prev))))
       + sd_unchanged (diff_findings prev (map (relined g) prev)) = int (length (by_identity prev))
   \<and> \<not> sm_nondeterministic (summarize_diff env env' prev (map (relined g) prev))"
proof -
  let ?pk = "by_identity prev" and ?ck = "map (map_prod id (relined g)) (by_identity prev)"
  have f: "filter (\<lambda>kv. dhas ?pk (fst kv)) ?ck = ?ck" "filter (\<lambda>kv. \<not> dhas ?pk (fst kv)) ?ck = []"
      "filter (\<lambda>kv. \<not> dhas ?ck (fst kv)) ?pk = []"
    by (auto simp: filter_id_conv filter_empty_conv dhas_map_prod dhas_member)
  have dw: "dwf ?pk" by (simp add: by_identity_def)
  have "list_all (\<lambda>ab. gstr (fst ab) ''severity'' = gstr (snd ab) ''severity'') (common ?pk ?ck)"
  proof -
    have "the (map_of ?pk k) = f" if "(k, f) \<in> set ?pk" for k f using that dw by simp
    then show ?thesis unfolding common_def f(1) by (auto simp: list_all_iff relined_def)
  qed
  note p = pairs_same_severity [OF this]
  have l: "length (common ?pk ?ck) = length ?pk" unfolding common_def f(1) by simp
  have d: "diff_findings prev (map (relined g) prev) = foldl classify_pair
      \<lparr>sd_new = [], sd_removed = [], sd_moved = [], sd_modified = [], sd_unchanged = 0\<rparr> (common ?pk ?ck)"
    by (simp add: diff_findings_def Let_def by_identity_relined f)
  show ?thesis using p unfolding d by (simp add: l summarize_diff_def Let_def d)
qed

end
