(* ===== verification/Risk.thy ===== *)
theory Risk
  imports Prelude
begin

text \<open>
  The risk matrix for vulnerabilities (\<^verbatim>\<open>services/risk_assessment.py\<close>): impact times likelihood, each from
  1 to 3, and the four levels.  The labels of the source are Korean texts, written by their bytes.
\<close>

definition KO_HIGH :: string where "KO_HIGH = utf8 [236, 131, 129]"
definition KO_MID :: string where "KO_MID = utf8 [236, 164, 145]"
definition KO_LOW :: string where "KO_LOW = utf8 [237, 149, 152]"

definition IMPACT_SCORE :: "int dict" where
  "IMPACT_SCORE = [(KO_HIGH, 3), (KO_MID, 2), (KO_LOW, 1)]"

definition SEVERITY_LIKELIHOOD :: "int dict" where
  "SEVERITY_LIKELIHOOD = [(''critical'', 3), (''high'', 3), (''medium'', 2), (''low'', 1), (''info'', 1)]"

definition RISK_LEVELS :: "(int \<times> string \<times> string) list" where
  "RISK_LEVELS = [(2, utf8 [235, 130, 174, 236, 157, 140], ''Low''), (4, utf8 [236, 164, 145, 234, 176, 132], ''Medium''),
     (6, utf8 [235, 134, 146, 236, 157, 140], ''High''),
     (9, utf8 [235, 167, 164, 236, 154, 176, 235, 134, 146, 236, 157, 140], ''Critical'')]"

definition DEFAULT_IMPACT :: int where "DEFAULT_IMPACT = 2"
definition DEFAULT_LIKELIHOOD :: int where "DEFAULT_LIKELIHOOD = 1"

definition label_by_score :: "int \<Rightarrow> string" where
  "label_by_score n = (if n = 3 then KO_HIGH else if n = 2 then KO_MID else KO_LOW)"

record risk_assessment =
  ra_impact :: int
  ra_likelihood :: int
  ra_score :: int
  ra_level :: string
  ra_level_en :: string
  ra_impact_label :: string
  ra_likelihood_label :: string
  ra_likelihood_base :: int

definition clamp :: "int \<Rightarrow> int" where
  "clamp v = max 1 (min 3 v)"

definition level_for :: "int \<Rightarrow> string \<times> string" where
  "level_for score =
     (case List.find (\<lambda>l. score \<le> fst l) RISK_LEVELS of Some l \<Rightarrow> snd l | None \<Rightarrow> snd (last RISK_LEVELS))"

definition lookup_or :: "int dict \<Rightarrow> string \<Rightarrow> int \<Rightarrow> int" where
  "lookup_or d k v = (case map_of d k of None \<Rightarrow> v | Some n \<Rightarrow> n)"

definition text_or_empty :: "string option \<Rightarrow> string" where
  "text_or_empty so = (case so of None \<Rightarrow> [] | Some s \<Rightarrow> s)"

definition assessment :: "int \<Rightarrow> int \<Rightarrow> int \<Rightarrow> risk_assessment" where
  "assessment impact likelihood base =
     (let score = impact * likelihood
      in \<lparr>ra_impact = impact, ra_likelihood = likelihood, ra_score = score, ra_level = fst (level_for score),
          ra_level_en = snd (level_for score), ra_impact_label = label_by_score impact,
          ra_likelihood_label = label_by_score likelihood, ra_likelihood_base = base\<rparr>)"

definition assess_risk :: "string option \<Rightarrow> string option \<Rightarrow> bool \<Rightarrow> bool \<Rightarrow> risk_assessment" where
  "assess_risk importance severity fixed_available exception_expired =
     (let impact = lookup_or IMPACT_SCORE (strip (text_or_empty importance)) DEFAULT_IMPACT;
          base = lookup_or SEVERITY_LIKELIHOOD (lower (strip (text_or_empty severity))) DEFAULT_LIKELIHOOD;
          likelihood = clamp (base + (if fixed_available then 1 else 0) + (if exception_expired then 1 else 0))
      in assessment impact likelihood base)"

definition grade_from_axes :: "int \<Rightarrow> int \<Rightarrow> risk_assessment" where
  "grade_from_axes impact likelihood = assessment (clamp impact) (clamp likelihood) (clamp likelihood)"

section \<open>Lemmas\<close>

lemma clamp_range: "1 \<le> clamp v \<and> clamp v \<le> 3"
  by (simp add: clamp_def)

lemma clamp_mono: "v \<le> w \<Longrightarrow> clamp v \<le> clamp w"
  by (simp add: clamp_def)

lemma impact_range:
  "1 \<le> lookup_or IMPACT_SCORE s DEFAULT_IMPACT \<and> lookup_or IMPACT_SCORE s DEFAULT_IMPACT \<le> 3"
  by (simp add: lookup_or_def IMPACT_SCORE_def DEFAULT_IMPACT_def)

text \<open>The level as a number.\<close>

definition level_rank :: "string \<Rightarrow> nat" where
  "level_rank en = (if en = ''Low'' then 0 else if en = ''Medium'' then 1 else if en = ''High'' then 2 else 3)"

lemma level_for_en: "snd (level_for s) =
    (if s \<le> 2 then ''Low'' else if s \<le> 4 then ''Medium'' else if s \<le> 6 then ''High'' else ''Critical'')"
  by (simp add: level_for_def RISK_LEVELS_def)

lemma level_mono: "s \<le> s' \<Longrightarrow> level_rank (snd (level_for s)) \<le> level_rank (snd (level_for s'))"
  by (simp add: level_for_en level_rank_def)

lemma assessment_fields [simp]:
  "ra_score (assessment i l b) = i * l" "ra_level_en (assessment i l b) = snd (level_for (i * l))"
  "ra_impact (assessment i l b) = i" "ra_likelihood (assessment i l b) = l"
  by (simp_all add: assessment_def Let_def)

lemma product_range: "1 \<le> i \<Longrightarrow> i \<le> 3 \<Longrightarrow> 1 \<le> l \<Longrightarrow> l \<le> (3::int) \<Longrightarrow> 1 \<le> i * l \<and> i * l \<le> 9"
  using mult_mono [of i 3 l 3] mult_mono [of 1 i 1 l] by simp

text \<open>Every assessment has a score from 1 to 9, also one that an assessor grades on axes out of range,
  and neither a published fix nor an expired exception lowers the score or the level.\<close>

lemma risk_bounded_and_monotone:
  "ra_score (assess_risk imp sev f x) \<in> {1..9} \<and> ra_score (grade_from_axes i l) \<in> {1..9}
   \<and> ra_score (assess_risk imp sev f x) \<le> ra_score (assess_risk imp sev (f \<or> f') (x \<or> x'))
   \<and> level_rank (ra_level_en (assess_risk imp sev f x))
       \<le> level_rank (ra_level_en (assess_risk imp sev (f \<or> f') (x \<or> x')))"
proof -
  let ?i = "lookup_or IMPACT_SCORE (strip (text_or_empty imp)) DEFAULT_IMPACT"
  let ?b = "lookup_or SEVERITY_LIKELIHOOD (lower (strip (text_or_empty sev))) DEFAULT_LIKELIHOOD"
  let ?l = "\<lambda>f x. clamp (?b + (if f then 1 else 0) + (if x then 1 else 0))"
  have "?l f x \<le> ?l (f \<or> f') (x \<or> x')" by (rule clamp_mono) simp
  then have m: "?i * ?l f x \<le> ?i * ?l (f \<or> f') (x \<or> x')"
    using impact_range by (intro mult_left_mono) (simp_all add: order_trans [of 0 1])
  have s: "ra_score (assess_risk imp sev a b) = ?i * ?l a b"
    "ra_level_en (assess_risk imp sev a b) = snd (level_for (?i * ?l a b))" for a b
    by (simp_all add: assess_risk_def Let_def)
  have "1 \<le> ?i * ?l f x \<and> ?i * ?l f x \<le> 9" by (rule product_range) (use impact_range clamp_range in blast)+
  moreover have "1 \<le> clamp i * clamp l \<and> clamp i * clamp l \<le> 9"
    by (rule product_range) (use clamp_range in blast)+
  ultimately show ?thesis
    using m level_mono [OF m] by (simp only: s) (simp add: grade_from_axes_def)
qed

end
