(* ===== verification/Query.thy ===== *)
theory Query
  imports Repository "HOL-Library.Product_Lexorder"
begin

text \<open>
  The query service, \<^verbatim>\<open>services/query_service.py\<close>, with its catalogue (\<^verbatim>\<open>services/query_catalog.py\<close>), its
  requests and answers (\<^verbatim>\<open>api/contracts.py\<close>) and the reading of a request (\<^verbatim>\<open>build_query_request\<close> of
  \<^verbatim>\<open>api/payloads.py\<close>).  The store of the service is the snapshot of the repository.  The present is a
  parameter, in microseconds of UTC.  \<open>BadValue\<close> is the \<^verbatim>\<open>ValueError\<close> that the route answers with 400,
  \<open>Unavailable\<close> every other exception, answered with 503: a comparison of a naive and an aware time and
  arithmetic outside the calendar.
\<close>

section \<open>Requests and answers\<close>

record query_scope =
  qs_time_range :: string
  qs_host_id :: "string option"
  qs_hostname :: "string option"
  qs_severity :: "string option"
  qs_source :: "string option"

record query_request =
  qq_intent :: string
  qq_scope :: query_scope
  qq_filters :: pdict

record evidence_ref =
  er_source :: string
  er_record_id :: "string option"
  er_raw_ref :: "string option"
  er_summary :: "string option"

record query_response =
  qp_summary :: string
  qp_filters :: pdict
  qp_evidence :: "evidence_ref list"
  qp_meta :: pdict

datatype query_error = BadValue | Unavailable

text \<open>\<^verbatim>\<open>_optional_string\<close>; \<open>None\<close> is the \<^verbatim>\<open>ValueError\<close>.\<close>

definition optional_string :: "pv \<Rightarrow> string option option" where
  "optional_string v =
     (case v of PNone \<Rightarrow> Some None
      | PStr s \<Rightarrow> Some (if strip s = [] then None else Some (strip s))
      | _ \<Rightarrow> None)"

definition build_query_request :: "pdict \<Rightarrow> query_error + query_request" where
  "build_query_request payload =
     (case dget payload ''intent'' of
        PStr intent \<Rightarrow>
          if strip intent = [] then Inl BadValue
          else case (por (dget payload ''scope'') (PDict []), por (dget payload ''filters'') (PDict [])) of
            (PDict sc, PDict fs) \<Rightarrow>
              (case (optional_string (dget sc ''time_range''), optional_string (dget sc ''host_id''),
                     optional_string (dget sc ''hostname''), optional_string (dget sc ''severity''),
                     optional_string (dget sc ''source'')) of
                 (Some tr, Some hid, Some hn, Some sev, Some src) \<Rightarrow>
                   Inr \<lparr>qq_intent = strip intent,
                        qq_scope = \<lparr>qs_time_range = (case tr of None \<Rightarrow> ''24h'' | Some t \<Rightarrow> t), qs_host_id = hid,
                          qs_hostname = hn, qs_severity = sev, qs_source = src\<rparr>,
                        qq_filters = fs\<rparr>
               | _ \<Rightarrow> Inl BadValue)
          | _ \<Rightarrow> Inl BadValue
      | _ \<Rightarrow> Inl BadValue)"

section \<open>The catalogue\<close>

record template_query =
  tq_id :: string
  tq_intent :: string
  tq_window :: string
  tq_required :: "string list"
  tq_sources :: "string list"

definition template :: "string \<Rightarrow> string \<Rightarrow> string \<Rightarrow> string list \<Rightarrow> string list \<Rightarrow> template_query" where
  "template i n w r s = \<lparr>tq_id = i, tq_intent = n, tq_window = w, tq_required = r, tq_sources = s\<rparr>"

definition PHASE1_QUERY_CATALOG :: "template_query list" where
  "PHASE1_QUERY_CATALOG =
     [template ''alert_summary_last_24h'' ''alert_summary'' ''24h'' [''time_range''] [''alerts''],
      template ''offline_hosts'' ''offline_hosts'' ''24h'' [] [''hosts'', ''host_observations''],
      template ''fleet_checkin_gap'' ''fleet_checkin_gap'' ''24h'' [''time_range'']
        [''hosts'', ''host_observations'', ''query_results''],
      template ''top_vulnerable_hosts'' ''top_vulnerable_hosts'' ''7d'' [''time_range''] [''vulnerabilities''],
      template ''host_timeline'' ''host_timeline'' ''24h'' [''host_id''] [''host_timeline_view''],
      template ''host_wazuh_alerts'' ''host_wazuh_alerts'' ''24h'' [''host_id''] [''alerts''],
      template ''host_fleet_queries'' ''host_fleet_queries'' ''24h'' [''host_id''] [''query_results''],
      template ''new_high_vulns'' ''new_high_vulns'' ''7d'' [''time_range''] [''vulnerabilities''],
      template ''risky_hosts'' ''risky_hosts'' ''24h'' [''time_range''] [''alerts'', ''hosts''],
      template ''unmapped_assets'' ''unmapped_assets'' ''7d'' [] [''hosts'', ''host_aliases''],
      template ''login_failure_spike'' ''login_failure_spike'' ''24h'' [''time_range''] [''alerts''],
      template ''collection_errors'' ''collection_errors'' ''24h'' [''time_range''] [''host_observations'', ''alerts'']]"

definition get_template_query :: "string \<Rightarrow> template_query option" where
  "get_template_query intent = List.find (\<lambda>q. tq_intent q = intent \<or> tq_id q = intent) PHASE1_QUERY_CATALOG"

section \<open>Helpers of the service\<close>

text \<open>An f-string: the constant pieces and the values between them.\<close>

fun fill :: "string list \<Rightarrow> string list \<Rightarrow> string" where
  "fill (p # ps) (a # as) = p @ a @ fill ps as"
| "fill ps [] = concat ps"
| "fill [] as = concat as"

definition MAX_US :: int where
  "MAX_US = days_before_year 10000 * DAY_US"

definition since :: "int \<Rightarrow> string \<Rightarrow> query_error + int" where
  "since now time_range =
     (case int_of_text (butlast time_range) of
        None \<Rightarrow> Inl BadValue
      | Some amount \<Rightarrow>
          if time_range = [] then Inl BadValue
          else if 999999999 < \<bar>amount\<bar> then Inl Unavailable
          else (let delta = (if last time_range = CHR ''m'' then amount * 60 * US
                      else if last time_range = CHR ''h'' then amount * 3600 * US
                      else if last time_range = CHR ''d'' then amount * DAY_US else 24 * 3600 * US);
                    t = now - delta
                in if 0 \<le> t \<and> t < MAX_US then Inr t else Inl Unavailable))"

text \<open>\<^verbatim>\<open>observed_at >= since\<close> with an aware \<^verbatim>\<open>since\<close>, and a comprehension whose condition can raise.\<close>

definition ge_since :: "int \<Rightarrow> dtime \<Rightarrow> bool option" where
  "ge_since s d = (if dt_aware d then Some (s \<le> dt_instant d) else None)"

fun filter_opt :: "('a \<Rightarrow> bool option) \<Rightarrow> 'a list \<Rightarrow> 'a list option" where
  "filter_opt f [] = Some []"
| "filter_opt f (x # xs) =
     (case f x of None \<Rightarrow> None
      | Some b \<Rightarrow> map_option (\<lambda>ys. if b then x # ys else ys) (filter_opt f xs))"

text \<open>The filter that most handlers start with: recent, and a condition on the rest.\<close>

definition recent_with :: "int \<Rightarrow> ('a \<Rightarrow> dtime) \<Rightarrow> ('a \<Rightarrow> bool) \<Rightarrow> 'a list \<Rightarrow> 'a list option" where
  "recent_with s at_of P xs = filter_opt (\<lambda>x. map_option (\<lambda>r. r \<and> P x) (ge_since s (at_of x))) xs"

text \<open>The same with the condition first, which is the order of the other handlers: the times of items that
  fail it are not compared.\<close>

definition with_recent :: "int \<Rightarrow> ('a \<Rightarrow> dtime) \<Rightarrow> ('a \<Rightarrow> bool) \<Rightarrow> 'a list \<Rightarrow> 'a list option" where
  "with_recent s at_of P xs = filter_opt (\<lambda>x. if P x then ge_since s (at_of x) else Some False) xs"

definition severity_filter :: "string option \<Rightarrow> string list" where
  "severity_filter sev =
     (case sev of None \<Rightarrow> [] | Some s \<Rightarrow> filter (\<lambda>p. p \<noteq> []) (map strip (split_on (CHR '','') s)))"

definition matches_source :: "string \<Rightarrow> string option \<Rightarrow> bool" where
  "matches_source candidate requested = (requested = None \<or> requested = Some candidate)"

definition limit_of :: "query_request \<Rightarrow> int \<Rightarrow> int" where
  "limit_of rq d =
     (case dget (qq_filters rq) ''limit'' of
        PNone \<Rightarrow> d
      | v \<Rightarrow> (case py_int v of None \<Rightarrow> d | Some n \<Rightarrow> max 1 (min n 100)))"

definition given :: "string option \<Rightarrow> bool" where
  "given so = (so \<noteq> None \<and> so \<noteq> Some [])"

definition add_filter :: "string \<Rightarrow> string option \<Rightarrow> pdict \<Rightarrow> pdict" where
  "add_filter k so d = (if given so then dset d k (of_ostr so) else d)"

definition filters_of :: "query_request \<Rightarrow> pdict" where
  "filters_of rq =
     (let sc = qq_scope rq;
          d = [(''time_range'', PStr (qs_time_range sc))];
          d = add_filter ''host_id'' (qs_host_id sc) d;
          d = add_filter ''hostname'' (qs_hostname sc) d;
          d = add_filter ''severity'' (qs_severity sc) d;
          d = add_filter ''source'' (qs_source sc) d
      in foldl (\<lambda>d kv. dset d (fst kv) (PStr (pstr (snd kv)))) d (qq_filters rq))"

definition source_label :: "query_request \<Rightarrow> string" where
  "source_label rq = (if given (qs_source (qq_scope rq)) then the (qs_source (qq_scope rq)) @ '' '' else [])"

definition evidence :: "string \<Rightarrow> string \<Rightarrow> string option \<Rightarrow> string option \<Rightarrow> evidence_ref" where
  "evidence src rid raw summ = \<lparr>er_source = src, er_record_id = Some rid, er_raw_ref = raw, er_summary = summ\<rparr>"

definition response :: "query_request \<Rightarrow> string \<Rightarrow> evidence_ref list \<Rightarrow> pdict \<Rightarrow> query_response" where
  "response rq summary ev meta = \<lparr>qp_summary = summary, qp_filters = filters_of rq, qp_evidence = ev, qp_meta = meta\<rparr>"

definition meta_count :: "string \<Rightarrow> nat \<Rightarrow> pdict" where
  "meta_count query_id n = [(''query_id'', PStr query_id), (''count'', PInt (int n))]"

definition num :: "nat \<Rightarrow> string" where
  "num n = int_str (int n)"

definition hostnames :: "snapshot \<Rightarrow> string dict" where
  "hostnames st = dict_of (map (\<lambda>h. (ho_id h, ho_hostname h)) (sn_hosts st))"

definition hostname_of :: "snapshot \<Rightarrow> string \<Rightarrow> string" where
  "hostname_of st hid = (case map_of (hostnames st) hid of None \<Rightarrow> hid | Some n \<Rightarrow> n)"

definition time_range_of :: "query_request \<Rightarrow> string" where
  "time_range_of rq = qs_time_range (qq_scope rq)"

text \<open>A handler that needs the start of the window; its body returns \<open>None\<close> where a comparison raises.\<close>

definition with_since :: "int \<Rightarrow> query_request \<Rightarrow> (int \<Rightarrow> query_response option) \<Rightarrow> query_error + query_response" where
  "with_since now rq body =
     (case since now (time_range_of rq) of
        Inl e \<Rightarrow> Inl e
      | Inr s \<Rightarrow> (case body s of None \<Rightarrow> Inl Unavailable | Some r \<Rightarrow> Inr r))"

definition or_none :: "string \<Rightarrow> string" where
  "or_none s = sor s (utf8 [236, 151, 134, 236, 157, 140])"

section \<open>One host per name\<close>

definition seen_of :: "host \<Rightarrow> dtime" where
  "seen_of h = (case ho_last_seen h of None \<Rightarrow> \<lparr>dt_us = 0, dt_off = Some 0\<rparr> | Some d \<Rightarrow> d)"

definition has_prefix :: "host \<Rightarrow> bool" where
  "has_prefix h = list_ex (\<lambda>p. prefix p (ho_id h)) [''server-'', ''pc-'', ''neutral-'']"

definition preferred :: "host \<Rightarrow> host \<Rightarrow> bool option" where
  "preferred new old =
     (case dt_le (seen_of new) (seen_of old) of
        None \<Rightarrow> None
      | Some False \<Rightarrow> Some True
      | Some True \<Rightarrow> Some (dt_instant (seen_of new) = dt_instant (seen_of old) \<and> has_prefix new))"

definition dedup_step :: "host dict option \<Rightarrow> host \<Rightarrow> host dict option" where
  "dedup_step best h =
     (case best of
        None \<Rightarrow> None
      | Some d \<Rightarrow>
          (case map_of d (lower (ho_hostname h)) of
             None \<Rightarrow> Some (dset d (lower (ho_hostname h)) h)
           | Some old \<Rightarrow> map_option (\<lambda>b. if b then dset d (lower (ho_hostname h)) h else d) (preferred h old)))"

definition dedup_hosts :: "host list \<Rightarrow> host list option" where
  "dedup_hosts hosts = map_option (map snd) (foldl dedup_step (Some []) hosts)"

section \<open>Handlers\<close>

definition ALERT_TEXT :: "string list" where
  "ALERT_TEXT = [utf8 [236, 181, 156, 234, 183, 188, 32], utf8 [32, 235, 143, 153, 236, 149, 136, 32],
     utf8 [234, 177, 180, 236, 157, 152, 32], [], utf8 [32, 97, 108, 101, 114, 116, 234, 176, 128, 32, 236,
     158, 136, 236, 151, 136, 234, 179, 160, 32, 236, 163, 188, 236, 154, 148, 32, 236, 134, 140, 236, 138,
     164, 235, 138, 148, 32], utf8 [32, 236, 158, 133, 235, 139, 136, 235, 139, 164, 46]]"

definition severities_of :: "query_request \<Rightarrow> string list" where
  "severities_of rq =
     (if severity_filter (qs_severity (qq_scope rq)) = [] then [''high'', ''critical'']
      else severity_filter (qs_severity (qq_scope rq)))"

definition alert_summary :: "int \<Rightarrow> snapshot \<Rightarrow> query_request \<Rightarrow> string \<Rightarrow> query_error + query_response" where
  "alert_summary now st rq query_id = with_since now rq (\<lambda>s.
     map_option (\<lambda>alerts.
       let top = join '', '' (map (\<lambda>kv. fst kv @ '':'' @ int_str (snd kv))
                   (take 3 (sort_desc snd (count_by al_source alerts))))
       in response rq
            (fill ALERT_TEXT [time_range_of rq, num (length alerts), source_label rq,
               (if given (qs_severity (qq_scope rq)) then the (qs_severity (qq_scope rq)) else ''high/critical''),
               sor top ''none''])
            (map (\<lambda>a. evidence (al_source a) (al_id a) (al_raw_ref a) (Some (al_message a)))
               (take 5 (sort_desc (\<lambda>a. dt_instant (al_observed_at a)) alerts)))
            (meta_count query_id (length alerts)))
       (recent_with s al_observed_at
          (\<lambda>a. al_severity a \<in> set (severities_of rq) \<and> matches_source (al_source a) (qs_source (qq_scope rq)))
          (sn_alerts st)))"

definition OFFLINE_TEXT :: "string list" where
  "OFFLINE_TEXT = [utf8 [237, 152, 132, 236, 158, 172, 32, 111, 102, 102, 108, 105, 110, 101, 32, 236, 131,
     129, 237, 131, 156, 32, 237, 152, 184, 236, 138, 164, 237, 138, 184, 235, 138, 148, 32], utf8 [235, 140,
     128, 236, 157, 180, 235, 169, 176, 32, 235, 140, 128, 237, 145, 156, 32, 237, 152, 184, 236, 138, 164,
     237, 138, 184, 235, 138, 148, 32], utf8 [32, 236, 158, 133, 235, 139, 136, 235, 139, 164, 46]]"

definition offline_hosts :: "snapshot \<Rightarrow> query_request \<Rightarrow> string \<Rightarrow> query_error + query_response" where
  "offline_hosts st rq query_id =
     (case dedup_hosts (filter (\<lambda>h. ho_status h = ''offline'') (sn_hosts st)) of
        None \<Rightarrow> Inl Unavailable
      | Some hosts \<Rightarrow> Inr (response rq
          (fill OFFLINE_TEXT [num (length hosts), or_none (join '', '' (map ho_hostname (take 5 hosts)))])
          (map (\<lambda>h. evidence ''hosts'' (ho_id h) None (Some (ho_hostname h))) (take 10 hosts))
          (meta_count query_id (length hosts))))"

definition TOP_TEXT :: "string list" where
  "TOP_TEXT = [utf8 [236, 181, 156, 234, 183, 188, 32], utf8 [32, 234, 184, 176, 236, 164, 128, 32],
     utf8 [236, 183, 168, 236, 149, 189, 236, 160, 144, 32, 236, 131, 129, 236, 156, 132, 32, 237, 152, 184,
     236, 138, 164, 237, 138, 184, 235, 138, 148, 32], utf8 [32, 236, 158, 133, 235, 139, 136, 235, 139, 164,
     46]]"

definition paren_count :: "snapshot \<Rightarrow> string \<times> int \<Rightarrow> string" where
  "paren_count st kv = hostname_of st (fst kv) @ ''('' @ int_str (snd kv) @ '')''"

definition top_vulnerable_hosts ::
    "int \<Rightarrow> snapshot \<Rightarrow> query_request \<Rightarrow> string \<Rightarrow> query_error + query_response" where
  "top_vulnerable_hosts now st rq query_id = with_since now rq (\<lambda>s.
     let limit = limit_of rq 5
     in map_option (\<lambda>vulns.
       let ranked = sort_desc snd (count_by vu_host_id vulns);
           top = take (nat limit) ranked
       in response rq
            (fill TOP_TEXT [time_range_of rq, source_label rq, or_none (join '', '' (map (paren_count st) top))])
            (map (\<lambda>kv. evidence ''vulnerabilities'' (fst kv) None
               (Some (hostname_of st (fst kv) @ '':'' @ int_str (snd kv)))) top)
            (meta_count query_id (length ranked) @ [(''limit'', PInt limit)]))
       (recent_with s vu_detected_at (\<lambda>v. matches_source (vu_source v) (qs_source (qq_scope rq))) (sn_vulns st)))"

definition resolve_query_host :: "snapshot \<Rightarrow> query_request \<Rightarrow> string option" where
  "resolve_query_host st rq =
     (let sc = qq_scope rq
      in if given (qs_host_id sc) then qs_host_id sc
         else if given (qs_hostname sc) then
           (let matching = filter (\<lambda>h. Some (ho_hostname h) = qs_hostname sc) (sn_hosts st);
                ids = map ha_host_id (filter (\<lambda>a. Some (ha_source a) = qs_source sc) (sn_aliases st));
                scoped = filter (\<lambda>h. ho_id h \<in> set ids) matching
            in if length matching = 1 then Some (ho_id (hd matching))
               else if given (qs_source sc) \<and> length scoped = 1 then Some (ho_id (hd scoped))
               else if matching \<noteq> [] then Some (ho_id (hd matching)) else None)
         else None)"

text \<open>The three queries about one host share the answer for a request without one.\<close>

definition host_needed :: "string \<Rightarrow> query_request \<Rightarrow> string \<Rightarrow> query_response" where
  "host_needed name rq query_id = response rq
     (name @ utf8 [32, 236, 167, 136, 236, 157, 152, 236, 151, 144, 235, 138, 148, 32, 104, 111, 115, 116,
     95, 105, 100, 32, 235, 152, 144, 235, 138, 148, 32, 104, 111, 115, 116, 110, 97, 109, 101, 236, 157, 180, 32, 237, 149, 132, 236, 154, 148, 237, 149, 169, 235, 139, 136, 235, 139, 164, 46])
     [] (meta_count query_id 0)"

definition host_meta :: "string \<Rightarrow> nat \<Rightarrow> string \<Rightarrow> pdict" where
  "host_meta query_id n hid = meta_count query_id n @ [(''host_id'', PStr hid)]"

definition TIMELINE_TEXT :: "string list" where
  "TIMELINE_TEXT = [utf8 [237, 152, 184, 236, 138, 164, 237, 138, 184, 32], utf8 [236, 157, 152, 32, 236,
     181, 156, 234, 183, 188, 32], utf8 [32, 237, 131, 128, 236, 158, 132, 235, 157, 188, 236, 157, 184, 32,
     236, 157, 180, 235, 178, 164, 237, 138, 184, 235, 138, 148, 32], utf8 [234, 177, 180, 236, 158, 133,
     235, 139, 136, 235, 139, 164, 46]]"

definition host_timeline :: "int \<Rightarrow> snapshot \<Rightarrow> query_request \<Rightarrow> string \<Rightarrow> query_error + query_response" where
  "host_timeline now st rq query_id = with_since now rq (\<lambda>s.
     case resolve_query_host st rq of
       None \<Rightarrow> Some (host_needed ''host_timeline'' rq query_id)
     | Some hid \<Rightarrow>
         (case (with_recent s al_observed_at (\<lambda>a. al_host_id a = Some hid) (sn_alerts st),
                with_recent s qr_observed_at (\<lambda>r. qr_host_id r = hid) (sn_queries st),
                with_recent s ob_observed_at (\<lambda>b. ob_host_id b = hid) (sn_obs st)) of
            (Some alerts, Some results, Some obs) \<Rightarrow>
              (let timeline = map (\<lambda>a. evidence (al_source a) (al_id a) (al_raw_ref a) (Some (al_message a))) alerts
                     @ map (\<lambda>r. evidence (qr_source r) (qr_id r) (qr_raw_ref r) (qr_query_name r)) results
                     @ map (\<lambda>b. evidence (ob_source b) (ob_id b) (ob_raw_ref b)
                               (Some (ob_type b @ '':'' @ ob_metric_name b))) obs
               in Some (response rq (fill TIMELINE_TEXT [hid, time_range_of rq, num (length timeline)])
                    (take 20 timeline) (host_meta query_id (length timeline) hid)))
          | _ \<Rightarrow> None))"

definition GAP_TEXT :: "string list" where
  "GAP_TEXT = [utf8 [236, 181, 156, 234, 183, 188, 32], utf8 [32, 236, 149, 136, 236, 151, 144, 32, 70, 108,
     101, 101, 116, 32, 236, 178, 180, 237, 129, 172, 236, 157, 184, 236, 157, 180, 32, 236, 151, 134, 234,
     177, 176, 235, 130, 152, 32, 236, 152, 164, 235, 158, 152, 235, 144, 156, 32, 237, 152, 184, 236, 138,
     164, 237, 138, 184, 235, 138, 148, 32], utf8 [235, 140, 128, 236, 158, 133, 235, 139, 136, 235, 139,
     164, 46]]"

definition later_checkin :: "dtime dict option \<Rightarrow> host_observation \<Rightarrow> dtime dict option" where
  "later_checkin latest b =
     (case latest of
        None \<Rightarrow> None
      | Some d \<Rightarrow>
          if ob_source b = ''fleet'' \<and> ob_metric_name b = ''fleet_status'' then
            (case map_of d (ob_host_id b) of
               None \<Rightarrow> Some (dset d (ob_host_id b) (ob_observed_at b))
             | Some t \<Rightarrow> map_option (\<lambda>le. if le then d else dset d (ob_host_id b) (ob_observed_at b))
                           (dt_le (ob_observed_at b) t))
          else latest)"

definition fleet_checkin_gap :: "int \<Rightarrow> snapshot \<Rightarrow> query_request \<Rightarrow> string \<Rightarrow> query_error + query_response" where
  "fleet_checkin_gap now st rq query_id = with_since now rq (\<lambda>s.
     case foldl later_checkin (Some []) (sn_obs st) of
       None \<Rightarrow> None
     | Some latest \<Rightarrow>
         (case filter_opt (\<lambda>h. case map_of latest (ho_id h) of
                   None \<Rightarrow> Some True | Some t \<Rightarrow> map_option Not (ge_since s t)) (sn_hosts st) of
            None \<Rightarrow> None
          | Some stale \<Rightarrow> map_option (\<lambda>hosts. response rq
              (fill GAP_TEXT [time_range_of rq, num (length hosts)])
              (map (\<lambda>h. evidence ''fleet'' (ho_id h) None (Some (ho_hostname h))) (take 10 hosts))
              (meta_count query_id (length hosts))) (dedup_hosts stale)))"

definition WAZUH_TEXT :: "string list" where
  "WAZUH_TEXT = [utf8 [237, 152, 184, 236, 138, 164, 237, 138, 184, 32], utf8 [236, 157, 152, 32, 236, 181,
     156, 234, 183, 188, 32], utf8 [32, 87, 97, 122, 117, 104, 32, 234, 178, 189, 235, 179, 180, 235, 138,
     148, 32], utf8 [234, 177, 180, 236, 158, 133, 235, 139, 136, 235, 139, 164, 46]]"

definition host_wazuh_alerts :: "int \<Rightarrow> snapshot \<Rightarrow> query_request \<Rightarrow> string \<Rightarrow> query_error + query_response" where
  "host_wazuh_alerts now st rq query_id = with_since now rq (\<lambda>s.
     case resolve_query_host st rq of
       None \<Rightarrow> Some (host_needed ''host_wazuh_alerts'' rq query_id)
     | Some hid \<Rightarrow> map_option (\<lambda>alerts. response rq
         (fill WAZUH_TEXT [hid, time_range_of rq, num (length alerts)])
         (map (\<lambda>a. evidence (al_source a) (al_id a) (al_raw_ref a) (Some (al_message a)))
            (take 10 (sort_desc (\<lambda>a. dt_instant (al_observed_at a)) alerts)))
         (host_meta query_id (length alerts) hid))
         (with_recent s al_observed_at (\<lambda>a. al_host_id a = Some hid \<and> al_source a = ''wazuh'') (sn_alerts st)))"

definition FLEET_TEXT :: "string list" where
  "FLEET_TEXT = [utf8 [237, 152, 184, 236, 138, 164, 237, 138, 184, 32], utf8 [236, 157, 152, 32, 236, 181,
     156, 234, 183, 188, 32], utf8 [32, 70, 108, 101, 101, 116, 32, 113, 117, 101, 114, 121, 32, 234, 178,
     176, 234, 179, 188, 235, 138, 148, 32], utf8 [234, 177, 180, 236, 158, 133, 235, 139, 136, 235, 139,
     164, 46]]"

definition host_fleet_queries :: "int \<Rightarrow> snapshot \<Rightarrow> query_request \<Rightarrow> string \<Rightarrow> query_error + query_response" where
  "host_fleet_queries now st rq query_id = with_since now rq (\<lambda>s.
     case resolve_query_host st rq of
       None \<Rightarrow> Some (host_needed ''host_fleet_queries'' rq query_id)
     | Some hid \<Rightarrow> map_option (\<lambda>results. response rq
         (fill FLEET_TEXT [hid, time_range_of rq, num (length results)])
         (map (\<lambda>r. evidence (qr_source r) (qr_id r) (qr_raw_ref r) (oor (qr_query_name r) (Some ''fleet_query'')))
            (take 10 (sort_desc (\<lambda>r. dt_instant (qr_observed_at r)) results)))
         (host_meta query_id (length results) hid))
         (with_recent s qr_observed_at (\<lambda>r. qr_host_id r = hid \<and> qr_source r = ''fleet'') (sn_queries st)))"

definition VULN_TEXT :: "string list" where
  "VULN_TEXT = [utf8 [236, 181, 156, 234, 183, 188, 32], utf8 [32, 236, 131, 136, 235, 161, 156, 32, 237,
     131, 144, 236, 167, 128, 235, 144, 156, 32], utf8 [104, 105, 103, 104, 32, 236, 157, 180, 236, 131, 129,
     32, 236, 183, 168, 236, 149, 189, 236, 160, 144, 236, 157, 128, 32], utf8 [234, 177, 180, 236, 158, 133,
     235, 139, 136, 235, 139, 164, 46]]"

definition new_high_vulns :: "int \<Rightarrow> snapshot \<Rightarrow> query_request \<Rightarrow> string \<Rightarrow> query_error + query_response" where
  "new_high_vulns now st rq query_id = with_since now rq (\<lambda>s.
     map_option (\<lambda>vulns. response rq
       (fill VULN_TEXT [time_range_of rq, source_label rq, num (length vulns)])
       (map (\<lambda>v. evidence (vu_source v) (vu_id v) (vu_raw_ref v)
               (Some (hostname_of st (vu_host_id v) @ '' / '' @ the (oor (vu_cve v) (Some ''no-cve''))
                  @ '' ('' @ vu_severity v @ '')'')))
          (take 10 (sort_desc (\<lambda>v. dt_instant (vu_detected_at v)) vulns)))
       (meta_count query_id (length vulns)))
       (filter_opt (\<lambda>v. if vu_severity v \<in> {''critical'', ''high''}
            then map_option (\<lambda>r. r \<and> matches_source (vu_source v) (qs_source (qq_scope rq)))
                   (ge_since s (vu_detected_at v))
            else Some False) (sn_vulns st)))"

definition RISKY_TEXT :: "string list" where
  "RISKY_TEXT = [utf8 [234, 178, 189, 235, 179, 180, 234, 176, 128, 32, 235, 167, 142, 234, 177, 176, 235,
     130, 152, 32, 236, 131, 129, 237, 131, 156, 234, 176, 128, 32, 235, 182, 136, 236, 149, 136, 236, 160,
     149, 237, 149, 156, 32, 237, 152, 184, 236, 138, 164, 237, 138, 184, 235, 138, 148, 32], utf8 [235, 140,
     128, 236, 158, 133, 235, 139, 136, 235, 139, 164, 46]]"

definition count_at :: "int dict \<Rightarrow> string \<Rightarrow> int" where
  "count_at d k = (case map_of d k of None \<Rightarrow> 0 | Some n \<Rightarrow> n)"

definition risky_hosts :: "int \<Rightarrow> snapshot \<Rightarrow> query_request \<Rightarrow> string \<Rightarrow> query_error + query_response" where
  "risky_hosts now st rq query_id = with_since now rq (\<lambda>s.
     case recent_with s al_observed_at (\<lambda>a. al_severity a \<in> {''critical'', ''high''} \<and> given (al_host_id a))
            (sn_alerts st) of
       None \<Rightarrow> None
     | Some alerts \<Rightarrow>
         (let counts = count_by (\<lambda>a. the (al_host_id a)) alerts
          in map_option (\<lambda>hosts.
               let risky = sort_desc (\<lambda>h. (count_at counts (ho_id h), ho_risk_score h)) hosts
               in response rq (fill RISKY_TEXT [num (length risky)])
                    (map (\<lambda>h. evidence ''hosts'' (ho_id h) None
                       (Some (fill [[], '' (alerts:'', '', status:'', '', risk:'', '')'']
                          [ho_hostname h, int_str (count_at counts (ho_id h)), ho_status h, int_str (ho_risk_score h)])))
                       (take 10 risky))
                    (meta_count query_id (length risky)))
               (dedup_hosts (filter (\<lambda>h. 0 < count_at counts (ho_id h) \<or> ho_status h \<in> {''offline'', ''unknown''})
                  (sn_hosts st)))))"

definition UNMAPPED_TEXT :: "string list" where
  "UNMAPPED_TEXT = [utf8 [70, 108, 101, 101, 116, 47, 87, 97, 122, 117, 104, 47, 90, 97, 98, 98, 105, 120,
     32, 236, 164, 145, 32, 237, 149, 152, 235, 130, 152, 235, 157, 188, 235, 143, 132, 32, 235, 167, 164,
     237, 149, 145, 235, 144, 152, 236, 167, 128, 32, 236, 149, 138, 236, 157, 128, 32, 236, 158, 144, 236,
     130, 176, 236, 157, 128, 32], utf8 [235, 140, 128, 236, 158, 133, 235, 139, 136, 235, 139, 164, 46]]"

definition sources_of_host :: "snapshot \<Rightarrow> string \<Rightarrow> string list" where
  "sources_of_host st hid = remdups (map ha_source (filter (\<lambda>a. ha_host_id a = hid) (sn_aliases st)))"

definition unmapped_assets :: "snapshot \<Rightarrow> query_request \<Rightarrow> string \<Rightarrow> query_error + query_response" where
  "unmapped_assets st rq query_id =
     (case dedup_hosts (filter (\<lambda>h. \<not> {''fleet'', ''wazuh'', ''zabbix''} \<subseteq> set (sources_of_host st (ho_id h)))
             (sn_hosts st)) of
        None \<Rightarrow> Inl Unavailable
      | Some hosts \<Rightarrow> Inr (response rq (fill UNMAPPED_TEXT [num (length hosts)])
          (map (\<lambda>h. evidence ''hosts'' (ho_id h) None
             (Some (fill [[], utf8 [32, 40, 235, 167, 164, 237, 149, 145, 235, 144, 156, 32, 236, 134, 140,
     236, 138, 164, 58, 32], '')'']
                [ho_hostname h, or_none (join '', '' (sort (sources_of_host st (ho_id h))))]))) (take 10 hosts))
          (meta_count query_id (length hosts))))"

definition LOGIN_TEXT :: "string list" where
  "LOGIN_TEXT = [utf8 [236, 181, 156, 234, 183, 188, 32], utf8 [32, 235, 161, 156, 234, 183, 184, 236, 157,
     184, 32, 236, 139, 164, 237, 140, 168, 234, 176, 128, 32, 235, 167, 142, 236, 157, 128, 32, 237, 152,
     184, 236, 138, 164, 237, 138, 184, 235, 138, 148, 32], utf8 [32, 236, 158, 133, 235, 139, 136, 235, 139,
     164, 46]]"

definition LOGIN_KEYWORDS :: "string list" where
  "LOGIN_KEYWORDS = [''login'', ''authentication'', ''auth'', ''logon'', ''pam'', ''sshd'', ''failed'']"

definition has_keyword :: "string list \<Rightarrow> string \<Rightarrow> bool" where
  "has_keyword kws s = list_ex (\<lambda>kw. contains kw (lower s)) kws"

definition otext :: "string option \<Rightarrow> string" where
  "otext so = (case so of None \<Rightarrow> [] | Some s \<Rightarrow> s)"

text \<open>What the two rankings by host share.\<close>

definition host_ranking :: "string list \<Rightarrow> string \<Rightarrow> snapshot \<Rightarrow> query_request \<Rightarrow> string \<Rightarrow> int dict \<Rightarrow> query_response" where
  "host_ranking pieces src st rq query_id counts =
     (let ranked = sort_desc snd counts
      in response rq (fill pieces [time_range_of rq, or_none (join '', '' (map (paren_count st) (take 3 ranked)))])
           (map (\<lambda>kv. evidence src (fst kv) None
              (Some (hostname_of st (fst kv) @ '': '' @ int_str (snd kv) @ utf8 [234, 177,
     180]))) (take 10 ranked))
           (meta_count query_id (length ranked)))"

definition login_failure_spike :: "int \<Rightarrow> snapshot \<Rightarrow> query_request \<Rightarrow> string \<Rightarrow> query_error + query_response" where
  "login_failure_spike now st rq query_id = with_since now rq (\<lambda>s.
     map_option (\<lambda>alerts. host_ranking LOGIN_TEXT ''alerts'' st rq query_id
         (count_by (\<lambda>a. the (al_host_id a)) (filter (\<lambda>a. given (al_host_id a)) alerts)))
       (recent_with s al_observed_at
          (\<lambda>a. has_keyword LOGIN_KEYWORDS (otext (al_rule_name a)) \<or> has_keyword LOGIN_KEYWORDS (al_message a))
          (sn_alerts st)))"

definition ERROR_TEXT :: "string list" where
  "ERROR_TEXT = [utf8 [236, 181, 156, 234, 183, 188, 32], utf8 [32, 236, 136, 152, 236, 167, 145, 32, 236,
     152, 164, 235, 165, 152, 234, 176, 128, 32, 235, 176, 152, 235, 179, 181, 235, 144, 156, 32, 237, 152,
     184, 236, 138, 164, 237, 138, 184, 235, 138, 148, 32], utf8 [32, 236, 158, 133, 235, 139, 136, 235, 139,
     164, 46]]"

definition ERROR_KEYWORDS :: "string list" where
  "ERROR_KEYWORDS = [''error'', ''fail'', ''timeout'', ''unreachable'', ''unavailable'']"

definition collection_errors :: "int \<Rightarrow> snapshot \<Rightarrow> query_request \<Rightarrow> string \<Rightarrow> query_error + query_response" where
  "collection_errors now st rq query_id = with_since now rq (\<lambda>s.
     case (recent_with s ob_observed_at
             (\<lambda>b. has_keyword ERROR_KEYWORDS (ob_type b) \<or> has_keyword ERROR_KEYWORDS (ob_metric_name b)) (sn_obs st),
           recent_with s al_observed_at (\<lambda>a. has_keyword ERROR_KEYWORDS (otext (al_rule_name a))) (sn_alerts st)) of
       (Some obs, Some alerts) \<Rightarrow>
         Some (host_ranking ERROR_TEXT ''observations'' st rq query_id
           (count_by id (map ob_host_id obs
              @ map (\<lambda>a. the (al_host_id a)) (filter (\<lambda>a. given (al_host_id a)) alerts))))
     | _ \<Rightarrow> None)"

section \<open>Dispatch\<close>

type_synonym handler = "int \<Rightarrow> snapshot \<Rightarrow> query_request \<Rightarrow> string \<Rightarrow> query_error + query_response"

definition INTENT_HANDLERS :: "handler dict" where
  "INTENT_HANDLERS =
     [(''alert_summary'', alert_summary), (''offline_hosts'', \<lambda>now. offline_hosts),
      (''top_vulnerable_hosts'', top_vulnerable_hosts), (''host_timeline'', host_timeline),
      (''fleet_checkin_gap'', fleet_checkin_gap), (''host_wazuh_alerts'', host_wazuh_alerts),
      (''host_fleet_queries'', host_fleet_queries), (''new_high_vulns'', new_high_vulns),
      (''risky_hosts'', risky_hosts), (''unmapped_assets'', \<lambda>now. unmapped_assets),
      (''login_failure_spike'', login_failure_spike), (''collection_errors'', collection_errors)]"

definition unsupported :: "string \<Rightarrow> string \<Rightarrow> query_request \<Rightarrow> query_response" where
  "unsupported text intent rq =
     \<lparr>qp_summary = text @ intent, qp_filters = dset (qq_filters rq) ''time_range'' (PStr (time_range_of rq)),
      qp_evidence = [], qp_meta = [(''intent'', PStr intent), (''supported'', PBool False)]\<rparr>"

definition execute :: "int \<Rightarrow> snapshot \<Rightarrow> query_request \<Rightarrow> query_error + query_response" where
  "execute now st rq =
     (case get_template_query (qq_intent rq) of
        None \<Rightarrow> Inr (unsupported ''Unsupported query intent: '' (qq_intent rq) rq)
      | Some t \<Rightarrow>
          (case map_of INTENT_HANDLERS (tq_intent t) of
             Some h \<Rightarrow> h now st rq (tq_id t)
           | None \<Rightarrow> Inr (unsupported ''Intent recognized but not implemented: '' (tq_intent t) rq)))"

text \<open>The route: read the request, then execute it.\<close>

definition query_route :: "int \<Rightarrow> snapshot \<Rightarrow> pdict \<Rightarrow> query_error + query_response" where
  "query_route now st payload =
     (case build_query_request payload of Inl e \<Rightarrow> Inl e | Inr rq \<Rightarrow> execute now st rq)"

end
