(* ===== verification/Query_Props.thy ===== *)
theory Query_Props
  imports Query
begin

text \<open>
  What the query service guarantees: when a query fails, which host stands for a name, and what a ranking
  of hosts contains.
\<close>

section \<open>Filters that can raise\<close>

lemma filter_opt_total: "(\<And>x. x \<in> set xs \<Longrightarrow> f x \<noteq> None) \<Longrightarrow> filter_opt f xs = Some (filter (\<lambda>x. f x = Some True) xs)"
proof (induction xs)
  case (Cons x xs)
  then obtain b where "f x = Some b" by fastforce
  moreover have "filter_opt f xs = Some (filter (\<lambda>x. f x = Some True) xs)" using Cons by auto
  ultimately show ?case by simp
qed simp

lemma filter_opt_SomeD: "filter_opt f xs = Some ys \<Longrightarrow> ys = filter (\<lambda>x. f x = Some True) xs"
  by (induction xs arbitrary: ys) (auto split: option.splits)

definition all_aware :: "('a \<Rightarrow> dtime) \<Rightarrow> 'a list \<Rightarrow> bool" where
  "all_aware at_of xs = list_all (\<lambda>x. dt_aware (at_of x)) xs"

lemma recent_with_aware: "all_aware at_of xs \<Longrightarrow>
    recent_with s at_of P xs = Some (filter (\<lambda>x. s \<le> dt_instant (at_of x) \<and> P x) xs)"
  unfolding recent_with_def
  by (subst filter_opt_total) (auto simp: all_aware_def list_all_iff ge_since_def intro!: filter_cong)

lemma with_recent_aware: "all_aware at_of xs \<Longrightarrow>
    with_recent s at_of P xs = Some (filter (\<lambda>x. P x \<and> s \<le> dt_instant (at_of x)) xs)"
  unfolding with_recent_def
  by (subst filter_opt_total) (auto simp: all_aware_def list_all_iff ge_since_def intro!: filter_cong)

section \<open>One host per name\<close>

definition host_aware :: "host \<Rightarrow> bool" where
  "host_aware h = dt_aware (seen_of h)"

definition name_key :: "host \<Rightarrow> string" where
  "name_key h = lower (ho_hostname h)"

text \<open>What the loop keeps: the hosts so far, one entry per name, the entry the latest of its name.\<close>

definition dedup_inv :: "host list \<Rightarrow> host dict \<Rightarrow> bool" where
  "dedup_inv hs d = (dwf d \<and> set (keys d) = name_key ` set hs
     \<and> (\<forall>k h. map_of d k = Some h \<longrightarrow> h \<in> set hs \<and> name_key h = k
          \<and> (\<forall>h' \<in> set hs. name_key h' = k \<longrightarrow> dt_instant (seen_of h') \<le> dt_instant (seen_of h))))"

lemma preferred_iff: "host_aware a \<Longrightarrow> host_aware b \<Longrightarrow>
    \<exists>p. preferred a b = Some p \<and> (p \<longrightarrow> dt_instant (seen_of b) \<le> dt_instant (seen_of a))
      \<and> (\<not> p \<longrightarrow> dt_instant (seen_of a) \<le> dt_instant (seen_of b))"
  by (auto simp: preferred_def host_aware_def dt_le_same_kind split: bool.splits)

lemma dedup_step_inv:
  assumes "dedup_inv hs d" "host_aware h" "list_all host_aware hs"
  shows "\<exists>d'. dedup_step (Some d) h = Some d' \<and> dedup_inv (hs @ [h]) d'"
proof (cases "map_of d (name_key h)")
  case None
  then have "name_key h \<notin> name_key ` set hs"
    using assms(1) by (simp add: dedup_inv_def map_of_eq_None_iff)
  then have n: "name_key h' \<noteq> name_key h" if "h' \<in> set hs" for h' using that by (metis image_eqI)
  have "dedup_inv (hs @ [h]) (dset d (name_key h) h)"
    using assms(1) by (auto simp: dedup_inv_def dest: n)
  then show ?thesis using None by (simp add: dedup_step_def name_key_def [symmetric])
next
  case (Some old)
  then have old: "old \<in> set hs" "name_key old = name_key h" using assms(1) by (auto simp: dedup_inv_def)
  then obtain p where p: "preferred h old = Some p"
    "p \<longrightarrow> dt_instant (seen_of old) \<le> dt_instant (seen_of h)"
    "\<not> p \<longrightarrow> dt_instant (seen_of h) \<le> dt_instant (seen_of old)"
    using preferred_iff [of h old] assms(2,3) by (auto simp: list_all_iff)
  have k: "name_key h \<in> name_key ` set hs" using old by (metis image_eqI)
  show ?thesis
  proof (cases p)
    case True
    have "dedup_inv (hs @ [h]) (dset d (name_key h) h)"
      using assms(1) k True p(2) Some by (fastforce simp: dedup_inv_def insert_absorb)
    then show ?thesis using p(1) True Some by (simp add: dedup_step_def name_key_def [symmetric])
  next
    case False
    have "dedup_inv (hs @ [h]) d"
      using assms(1) k False p(3) Some by (auto simp: dedup_inv_def insert_absorb simp del: map_of_eq_Some_iff)
    then show ?thesis using p(1) False Some by (simp add: dedup_step_def name_key_def [symmetric])
  qed
qed

lemma dedup_fold:
  "list_all host_aware (hs @ hs') \<Longrightarrow> dedup_inv hs d \<Longrightarrow>
   \<exists>d'. foldl dedup_step (Some d) hs' = Some d' \<and> dedup_inv (hs @ hs') d'"
proof (induction hs' arbitrary: hs d)
  case (Cons h hs')
  then obtain d1 where d1: "dedup_step (Some d) h = Some d1" "dedup_inv (hs @ [h]) d1"
    using dedup_step_inv [of hs d h] by auto
  from Cons.IH [OF _ d1(2)] Cons.prems(1) d1(1) show ?case by simp
qed simp

lemma dedup_aware:
  assumes "list_all host_aware hosts"
  obtains d where "dedup_hosts hosts = Some (map snd d)" "dedup_inv hosts d"
proof -
  have "dedup_inv [] []" by (simp add: dedup_inv_def)
  from dedup_fold [OF _ this, of hosts] assms that show ?thesis by (auto simp: dedup_hosts_def)
qed

lemma dedup_defined: "list_all host_aware hosts \<Longrightarrow> \<exists>ds. dedup_hosts hosts = Some ds"
  by (rule dedup_aware) auto

lemma dedup_names: "dwf d \<Longrightarrow> (\<And>k h. map_of d k = Some h \<Longrightarrow> name_key h = k) \<Longrightarrow> map name_key (map snd d) = keys d"
  by (auto simp: map_of_is_SomeI intro!: map_cong)

text \<open>The list of hosts that the service answers with has exactly one host for each name, up to case,
  and it is one that was seen last under this name.\<close>

lemma one_host_per_name:
  assumes "list_all host_aware hosts"
  shows "\<exists>ds. dedup_hosts hosts = Some ds \<and> distinct (map name_key ds)
    \<and> name_key ` set ds = name_key ` set hosts \<and> set ds \<subseteq> set hosts
    \<and> (\<forall>d \<in> set ds. \<forall>h \<in> set hosts. name_key h = name_key d \<longrightarrow> dt_instant (seen_of h) \<le> dt_instant (seen_of d))"
proof -
  from assms obtain d where d: "dedup_hosts hosts = Some (map snd d)" "dedup_inv hosts d" by (rule dedup_aware)
  have wf: "dwf d" and of_key: "\<And>k h. map_of d k = Some h \<Longrightarrow> name_key h = k"
    using d(2) by (auto simp: dedup_inv_def)
  have names: "map name_key (map snd d) = keys d" using wf of_key by (rule dedup_names)
  have "\<exists>k. map_of d k = Some h" if "h \<in> set (map snd d)" for h
    using that wf by auto
  then have facts: "h \<in> set hosts \<and> (\<forall>h' \<in> set hosts. name_key h' = name_key h \<longrightarrow>
      dt_instant (seen_of h') \<le> dt_instant (seen_of h))" if "h \<in> set (map snd d)" for h
    using that d(2) of_key unfolding dedup_inv_def by metis
  have "name_key ` set (map snd d) = name_key ` set hosts" "distinct (map name_key (map snd d))"
    using names wf d(2) by (simp_all only: set_map [symmetric] dedup_inv_def)
  then show ?thesis
    using d(1) facts by (intro exI [of _ "map snd d"]) blast
qed

definition demo_host :: "string \<Rightarrow> string \<Rightarrow> int \<Rightarrow> host" where
  "demo_host i n t = \<lparr>ho_id = i, ho_hostname = n, ho_platform = None, ho_primary_ip = None, ho_status = ''offline'',
     ho_risk_score = 0, ho_first_seen = None, ho_last_seen = Some \<lparr>dt_us = t, dt_off = Some 0\<rparr>\<rparr>"

lemma one_host_per_name_witness:
  "\<exists>ds. dedup_hosts [demo_host ''h1'' ''WEB'' 7, demo_host ''server-h1'' ''web'' 9] = Some ds \<and> distinct (map name_key ds)"
  using one_host_per_name [of "[demo_host ''h1'' ''WEB'' 7, demo_host ''server-h1'' ''web'' 9]"]
  by (auto simp: host_aware_def seen_of_def demo_host_def dt_aware_def)

section \<open>When a query fails\<close>

definition store_aware :: "snapshot \<Rightarrow> bool" where
  "store_aware st = (all_aware al_observed_at (sn_alerts st) \<and> all_aware vu_detected_at (sn_vulns st)
     \<and> all_aware qr_observed_at (sn_queries st) \<and> all_aware ob_observed_at (sn_obs st)
     \<and> list_all host_aware (sn_hosts st))"

lemma dedup_filter_defined: "store_aware st \<Longrightarrow> \<exists>ds. dedup_hosts (filter P (sn_hosts st)) = Some ds"
  by (rule dedup_defined) (auto simp: store_aware_def list_all_iff)

lemma with_since_error: "(\<And>s. \<exists>r. body s = Some r) \<Longrightarrow>
    with_since now rq body = Inl e \<longleftrightarrow> since now (time_range_of rq) = Inl e"
proof -
  assume b: "\<And>s. \<exists>r. body s = Some r"
  show ?thesis
  proof (cases "since now (time_range_of rq)")
    case (Inr s)
    then show ?thesis using b [of s] by (auto simp: with_since_def)
  qed (simp add: with_since_def)
qed

lemma latest_checkins_aware:
  "all_aware ob_observed_at obs \<Longrightarrow> \<forall>k t. map_of d k = Some t \<longrightarrow> dt_aware t \<Longrightarrow>
   \<exists>d'. foldl later_checkin (Some d) obs = Some d' \<and> (\<forall>k t. map_of d' k = Some t \<longrightarrow> dt_aware t)"
proof (induction obs arbitrary: d)
  case (Cons b obs)
  have b: "dt_aware (ob_observed_at b)" "all_aware ob_observed_at obs" using Cons.prems(1) by (auto simp: all_aware_def)
  have "\<exists>d1. later_checkin (Some d) b = Some d1 \<and> (\<forall>k t. map_of d1 k = Some t \<longrightarrow> dt_aware t)"
    using Cons.prems(2) b(1) by (auto simp: later_checkin_def dt_le_same_kind split: option.split)
  then obtain d1 where d1: "later_checkin (Some d) b = Some d1" "\<forall>k t. map_of d1 k = Some t \<longrightarrow> dt_aware t" by blast
  from Cons.IH [OF b(2) d1(2)] show ?case by (simp add: d1(1))
qed simp

text \<open>With aware times every handler that looks at the window fails exactly when the window is no range.\<close>

definition fails_as_since :: "handler \<Rightarrow> bool" where
  "fails_as_since h = (\<forall>now st rq qid e. store_aware st \<longrightarrow>
     (h now st rq qid = Inl e \<longleftrightarrow> since now (time_range_of rq) = Inl e))"

lemma window_handlers:
  "fails_as_since alert_summary" "fails_as_since top_vulnerable_hosts" "fails_as_since host_timeline"
  "fails_as_since host_wazuh_alerts" "fails_as_since host_fleet_queries" "fails_as_since login_failure_spike"
  "fails_as_since collection_errors"
  unfolding fails_as_since_def alert_summary_def top_vulnerable_hosts_def host_timeline_def host_wazuh_alerts_def
    host_fleet_queries_def login_failure_spike_def collection_errors_def Let_def
  by (intro allI impI with_since_error;
      simp add: store_aware_def recent_with_aware with_recent_aware split: option.split)+

lemma new_high_vulns_fails: "fails_as_since new_high_vulns"
  unfolding fails_as_since_def new_high_vulns_def
proof (intro allI impI with_since_error)
  fix st :: snapshot and rq :: query_request and s :: int
  assume "store_aware st"
  then have "filter_opt (\<lambda>v. if vu_severity v \<in> {''critical'', ''high''}
      then map_option (\<lambda>r. r \<and> matches_source (vu_source v) (qs_source (qq_scope rq))) (ge_since s (vu_detected_at v))
      else Some False) (sn_vulns st) \<noteq> None"
    by (subst filter_opt_total) (auto simp: store_aware_def all_aware_def list_all_iff ge_since_def)
  then show "\<exists>r. map_option g (filter_opt (\<lambda>v. if vu_severity v \<in> {''critical'', ''high''}
      then map_option (\<lambda>r. r \<and> matches_source (vu_source v) (qs_source (qq_scope rq))) (ge_since s (vu_detected_at v))
      else Some False) (sn_vulns st)) = Some r" for g :: "vulnerability list \<Rightarrow> query_response"
    by auto
qed

lemma fleet_checkin_gap_fails: "fails_as_since fleet_checkin_gap"
  unfolding fails_as_since_def fleet_checkin_gap_def
proof (intro allI impI with_since_error)
  fix st :: snapshot and rq qid s
  assume st: "store_aware st"
  obtain d where d: "foldl later_checkin (Some []) (sn_obs st) = Some d" "\<forall>k t. map_of d k = Some t \<longrightarrow> dt_aware t"
    using latest_checkins_aware [of "sn_obs st" "[]"] st by (auto simp: store_aware_def)
  let ?f = "\<lambda>h. case map_of d (ho_id h) of None \<Rightarrow> Some True | Some t \<Rightarrow> map_option Not (ge_since s t)"
  have "filter_opt ?f (sn_hosts st) = Some (filter (\<lambda>h. ?f h = Some True) (sn_hosts st))"
    using d(2) by (intro filter_opt_total) (auto simp: ge_since_def split: option.split)
  moreover obtain ds where "dedup_hosts (filter (\<lambda>h. ?f h = Some True) (sn_hosts st)) = Some ds"
    using dedup_filter_defined [OF st] by blast
  ultimately show "\<exists>r. (case foldl later_checkin (Some []) (sn_obs st) of None \<Rightarrow> None
      | Some latest \<Rightarrow> (case filter_opt (\<lambda>h. case map_of latest (ho_id h) of
            None \<Rightarrow> Some True | Some t \<Rightarrow> map_option Not (ge_since s t)) (sn_hosts st) of None \<Rightarrow> None
          | Some stale \<Rightarrow> map_option g (dedup_hosts stale))) = Some r" for g :: "host list \<Rightarrow> query_response"
    by (simp add: d(1))
qed

lemma risky_hosts_fails: "fails_as_since risky_hosts"
  unfolding fails_as_since_def risky_hosts_def Let_def
proof (intro allI impI with_since_error)
  fix st :: snapshot and s :: int
  assume st: "store_aware st"
  then have a: "all_aware al_observed_at (sn_alerts st)" by (simp add: store_aware_def)
  show "\<exists>r. (case recent_with s al_observed_at (\<lambda>a. al_severity a \<in> {''critical'', ''high''} \<and> given (al_host_id a))
        (sn_alerts st) of None \<Rightarrow> None
      | Some alerts \<Rightarrow> map_option (g alerts) (dedup_hosts (filter (P alerts) (sn_hosts st)))) = Some r"
    for g :: "alert list \<Rightarrow> host list \<Rightarrow> query_response" and P
    using dedup_filter_defined [OF st] by (auto simp: recent_with_aware [OF a])
qed

definition WINDOWLESS :: "string list" where
  "WINDOWLESS = [''offline_hosts'', ''unmapped_assets'']"

lemma windowless_answers:
  assumes "store_aware st"
  shows "\<exists>r. offline_hosts st rq qid = Inr r" "\<exists>r. unmapped_assets st rq qid = Inr r"
proof -
  obtain ds where "dedup_hosts (filter (\<lambda>h. ho_status h = ''offline'') (sn_hosts st)) = Some ds"
    using dedup_filter_defined [OF assms] by blast
  then show "\<exists>r. offline_hosts st rq qid = Inr r" by (simp add: offline_hosts_def)
  obtain es where "dedup_hosts (filter (\<lambda>h. \<not> {''fleet'', ''wazuh'', ''zabbix''} \<subseteq> set (sources_of_host st (ho_id h)))
      (sn_hosts st)) = Some es"
    using dedup_filter_defined [OF assms] by blast
  then show "\<exists>r. unmapped_assets st rq qid = Inr r" by (simp add: unmapped_assets_def)
qed

lemmas handler_failures = window_handlers new_high_vulns_fails fleet_checkin_gap_fails risky_hosts_fails

lemma handled_intents: "keys INTENT_HANDLERS = [''alert_summary'', ''offline_hosts'', ''top_vulnerable_hosts'',
    ''host_timeline'', ''fleet_checkin_gap'', ''host_wazuh_alerts'', ''host_fleet_queries'', ''new_high_vulns'',
    ''risky_hosts'', ''unmapped_assets'', ''login_failure_spike'', ''collection_errors'']"
  by (simp add: INTENT_HANDLERS_def)

lemma find_member: "List.find P xs = Some x \<Longrightarrow> x \<in> set xs \<and> P x"
  by (auto simp: find_Some_iff)

lemma template_intents: "get_template_query i = Some t \<Longrightarrow> tq_intent t \<in> set (keys INTENT_HANDLERS)"
proof -
  assume "get_template_query i = Some t"
  then have "t \<in> set PHASE1_QUERY_CATALOG" using find_member unfolding get_template_query_def by fast
  moreover have "list_all (\<lambda>t. tq_intent t \<in> set (keys INTENT_HANDLERS)) PHASE1_QUERY_CATALOG"
    unfolding handled_intents by (simp add: PHASE1_QUERY_CATALOG_def template_def)
  ultimately show ?thesis by (auto simp: list_all_iff)
qed

lemma handler_cases:
  assumes "k \<in> set (keys INTENT_HANDLERS)"
  shows "\<exists>h. map_of INTENT_HANDLERS k = Some h
    \<and> (if k \<in> set WINDOWLESS then \<forall>now st rq qid. store_aware st \<longrightarrow> (\<exists>r. h now st rq qid = Inr r) else fails_as_since h)"
  using assms
  by (auto simp: INTENT_HANDLERS_def WINDOWLESS_def handler_failures windowless_answers)

text \<open>When all stored times carry an offset, a query fails exactly when its intent is one that looks at
  the time range and the range is no number with a unit (400) or leads outside the calendar (503).  Every
  intent of the catalogue is implemented, and a request with any other intent is answered, not refused.\<close>

lemma query_fails_iff_bad_range:
  assumes "store_aware st"
  shows "execute now st rq = Inl e \<longleftrightarrow>
    (\<exists>t. get_template_query (qq_intent rq) = Some t \<and> tq_intent t \<notin> set WINDOWLESS
       \<and> since now (time_range_of rq) = Inl e)"
proof (cases "get_template_query (qq_intent rq)")
  case (Some t)
  then obtain h where h: "map_of INTENT_HANDLERS (tq_intent t) = Some h"
    "if tq_intent t \<in> set WINDOWLESS then \<forall>now st rq qid. store_aware st \<longrightarrow> (\<exists>r. h now st rq qid = Inr r)
     else fails_as_since h"
    using handler_cases [OF template_intents] by blast
  have "execute now st rq = h now st rq (tq_id t)" using Some h(1) by (simp add: execute_def)
  moreover have "\<exists>r. h now st rq (tq_id t) = Inr r" if "tq_intent t \<in> set WINDOWLESS"
    using h(2) assms that by simp
  moreover have "h now st rq (tq_id t) = Inl e \<longleftrightarrow> since now (time_range_of rq) = Inl e" if "tq_intent t \<notin> set WINDOWLESS"
    using h(2) assms that by (simp add: fails_as_since_def)
  ultimately show ?thesis using Some by (cases "tq_intent t \<in> set WINDOWLESS") auto
qed (simp add: execute_def)

lemma query_fails_iff_bad_range_witness:
  "execute 63700000000000000 (repo_snapshot empty_repo)
     \<lparr>qq_intent = ''host_timeline'', qq_scope = \<lparr>qs_time_range = ''24hours'', qs_host_id = Some ''host-1'',
       qs_hostname = None, qs_severity = None, qs_source = None\<rparr>, qq_filters = []\<rparr> = Inl BadValue"
proof -
  have "since 63700000000000000 ''24hours'' = Inl BadValue" by code_simp
  moreover have "\<exists>t. get_template_query ''host_timeline'' = Some t \<and> tq_intent t \<notin> set WINDOWLESS"
    by (simp add: get_template_query_def PHASE1_QUERY_CATALOG_def template_def WINDOWLESS_def)
  moreover have "store_aware (repo_snapshot empty_repo)"
    by (simp add: store_aware_def all_aware_def repo_snapshot_def empty_repo_def)
  ultimately show ?thesis by (subst query_fails_iff_bad_range) (auto simp: time_range_of_def)
qed

section \<open>Rankings\<close>

definition vuln_count :: "snapshot \<Rightarrow> query_request \<Rightarrow> int \<Rightarrow> string \<Rightarrow> int" where
  "vuln_count st rq s hid = int (length (filter (\<lambda>v. vu_host_id v = hid \<and> s \<le> dt_instant (vu_detected_at v)
     \<and> matches_source (vu_source v) (qs_source (qq_scope rq))) (sn_vulns st)))"

lemma sort_desc_split:
  assumes "x \<in> set (take n (sort_desc f xs))" "y \<in> set (drop n (sort_desc f xs))"
  shows "f y \<le> f x"
proof -
  have "sorted_wrt (\<lambda>a b. f b \<le> f a) (sort_desc f xs)"
    using sorted_sort_desc [of f xs] by (simp add: sorted_wrt_rev sorted_wrt_map)
  then have "sorted_wrt (\<lambda>a b. f b \<le> f a) (take n (sort_desc f xs) @ drop n (sort_desc f xs))" by simp
  then show ?thesis using assms by (subst (asm) sorted_wrt_append) blast
qed

text \<open>The ranking of vulnerable hosts lists distinct hosts with their exact numbers of vulnerabilities in
  the window, at most as many as the limit allows, and a host with vulnerabilities that is left out means that
  the list is full and that no listed host has fewer.\<close>

lemma top_hosts_exact:
  assumes "all_aware vu_detected_at (sn_vulns st)" "since now (time_range_of rq) = Inr s"
  shows "\<exists>r ids. top_vulnerable_hosts now st rq qid = Inr r \<and> distinct ids \<and> length ids \<le> nat (limit_of rq 5)
    \<and> qp_evidence r = map (\<lambda>i. evidence ''vulnerabilities'' i None
        (Some (hostname_of st i @ '':'' @ int_str (vuln_count st rq s i)))) ids
    \<and> (\<forall>i. i \<notin> set ids \<and> 0 < vuln_count st rq s i \<longrightarrow>
         length ids = nat (limit_of rq 5) \<and> (\<forall>j \<in> set ids. vuln_count st rq s i \<le> vuln_count st rq s j))"
proof -
  define vs where "vs = filter (\<lambda>v. s \<le> dt_instant (vu_detected_at v)
    \<and> matches_source (vu_source v) (qs_source (qq_scope rq))) (sn_vulns st)"
  define cs where "cs = count_by vu_host_id vs"
  define n where "n = nat (limit_of rq 5)"
  define top where "top = take n (sort_desc snd cs)"
  have c: "map_of cs i = (if i \<in> vu_host_id ` set vs then Some (vuln_count st rq s i) else None)" for i
    by (simp add: cs_def map_of_count_by vuln_count_def vs_def conj_ac)
  have wf: "dwf cs" by (simp add: cs_def dwf_count_by)
  have in_cs: "snd kv = vuln_count st rq s (fst kv)" if "kv \<in> set cs" for kv
  proof -
    have "map_of cs (fst kv) = Some (snd kv)" using that wf by simp
    then show ?thesis by (simp add: c split: if_splits)
  qed
  have perm: "mset (sort_desc snd cs) = mset cs" by simp
  have "distinct (map fst (sort_desc snd cs))"
    using wf perm by (metis mset_map mset_eq_imp_distinct_iff)
  then have d: "distinct (map fst top)" unfolding top_def by (simp add: take_map [symmetric])
  obtain r where r: "top_vulnerable_hosts now st rq qid = Inr r"
    "qp_evidence r = map (\<lambda>kv. evidence ''vulnerabilities'' (fst kv) None
       (Some (hostname_of st (fst kv) @ '':'' @ int_str (snd kv)))) top"
    using assms(2) by (simp add: top_vulnerable_hosts_def with_since_def recent_with_aware [OF assms(1)] Let_def
        vs_def [symmetric] cs_def [symmetric] n_def [symmetric] top_def [symmetric] response_def)
  have sub: "set top \<subseteq> set cs" unfolding top_def using set_take_subset [of n "sort_desc snd cs"] by simp
  then have "qp_evidence r = map (\<lambda>i. evidence ''vulnerabilities'' i None
      (Some (hostname_of st i @ '':'' @ int_str (vuln_count st rq s i)))) (map fst top)"
    using in_cs by (auto simp: r(2) intro!: arg_cong [where f = "evidence _ _ _"])
  moreover have "length (map fst top) = n \<and> (\<forall>j \<in> set (map fst top). vuln_count st rq s i \<le> vuln_count st rq s j)"
    if i: "i \<notin> set (map fst top)" "0 < vuln_count st rq s i" for i
  proof -
    have "filter (\<lambda>v. vu_host_id v = i) vs \<noteq> []"
      using i(2) by (auto simp: vuln_count_def vs_def filter_empty_conv)
    then have "map_of cs i = Some (vuln_count st rq s i)" by (auto simp: c filter_empty_conv)
    then have "(i, vuln_count st rq s i) \<in> set (sort_desc snd cs)" by (simp add: map_of_SomeD)
    then have "(i, vuln_count st rq s i) \<in> set (take n (sort_desc snd cs)) \<union> set (drop n (sort_desc snd cs))"
      by (metis append_take_drop_id set_append)
    then have rest: "(i, vuln_count st rq s i) \<in> set (drop n (sort_desc snd cs))"
      using i(1) unfolding top_def by force
    then have "n < length (sort_desc snd cs)" by (metis drop_all empty_iff linorder_not_less list.set(1))
    then have "length (map fst top) = n" by (simp add: top_def)
    moreover have "vuln_count st rq s i \<le> vuln_count st rq s j" if "j \<in> set (map fst top)" for j
    proof -
      obtain kv where kv: "kv \<in> set top" "j = fst kv" using \<open>j \<in> set (map fst top)\<close> by auto
      have "snd (i, vuln_count st rq s i) \<le> snd kv"
        using kv(1) rest unfolding top_def by (rule sort_desc_split)
      moreover have "snd kv = vuln_count st rq s j" using kv sub by (metis in_cs subsetD)
      ultimately show ?thesis by simp
    qed
    ultimately show ?thesis by blast
  qed
  moreover have "length (map fst top) \<le> n" by (simp add: top_def)
  ultimately show ?thesis using r(1) d unfolding n_def by blast
qed

lemma top_hosts_exact_witness:
  "\<exists>r. top_vulnerable_hosts 63700000000000000 (repo_snapshot empty_repo)
     \<lparr>qq_intent = ''top_vulnerable_hosts'', qq_scope = \<lparr>qs_time_range = ''7d'', qs_host_id = None,
       qs_hostname = None, qs_severity = None, qs_source = None\<rparr>, qq_filters = []\<rparr> ''q'' = Inr r"
proof -
  have "since 63700000000000000 ''7d'' = Inr 63699395200000000" by code_simp
  then show ?thesis
    using top_hosts_exact [of "repo_snapshot empty_repo" 63700000000000000 "\<lparr>qq_intent = ''top_vulnerable_hosts'',
      qq_scope = \<lparr>qs_time_range = ''7d'', qs_host_id = None, qs_hostname = None, qs_severity = None,
        qs_source = None\<rparr>, qq_filters = []\<rparr>" 63699395200000000 "''q''"]
    by (auto simp: all_aware_def repo_snapshot_def empty_repo_def time_range_of_def)
qed

end
