(* ===== verification/Intent.thy ===== *)
theory Intent
  imports Query_Props
begin

text \<open>
  The reading of a question in natural language, \<^verbatim>\<open>services/intent_parser.py\<close>: the intent, the host, the
  window, the severities, the source and the limit that a question names, and the rules that matched.  The
  regular expressions are written as scanners: \<open>search\<close> is the leftmost match, and the comments say where a
  group can match less than the longest run.  The guide examples and the texts of the warnings are not
  kept, only which warnings are given.
\<close>

section \<open>Matching\<close>

definition contains_any :: "string \<Rightarrow> string list \<Rightarrow> bool" where
  "contains_any text kws = list_ex (\<lambda>kw. contains kw text) kws"

fun search :: "(string \<Rightarrow> 'a option) \<Rightarrow> string \<Rightarrow> 'a option" where
  "search m [] = m []"
| "search m (c # s) = (case m (c # s) of Some x \<Rightarrow> Some x | None \<Rightarrow> search m s)"

definition word_char :: "char \<Rightarrow> bool" where
  "word_char c = (is_alnum c \<or> c = CHR ''_'')"

definition starts_word :: "string \<Rightarrow> bool" where
  "starts_word s = (s \<noteq> [] \<and> word_char (hd s))"

definition name_char :: "char \<Rightarrow> bool" where
  "name_char c = (is_digit c \<or> is_upper c \<or> is_lower c \<or> c \<in> set ''._-'')"

definition id_char :: "char \<Rightarrow> bool" where
  "id_char c = (is_digit c \<or> is_upper c \<or> is_lower c \<or> c \<in> set ''_-'')"

text \<open>\<^verbatim>\<open>keyword\<close> of a case-insensitive pattern at the beginning of a text, and what follows it.\<close>

definition after_keyword :: "string list \<Rightarrow> string \<Rightarrow> string option" where
  "after_keyword kws s =
     map_option (\<lambda>kw. drop (length kw) s) (List.find (\<lambda>kw. prefix kw (lower s)) kws)"

definition nonempty :: "string \<Rightarrow> string option" where
  "nonempty s = (if s = [] then None else Some s)"

section \<open>The scope of a question\<close>

text \<open>\<^verbatim>\<open>\bhost-[a-z0-9_-]+\b\<close>: the run is cut back until it ends at a word boundary.\<close>

definition host_id_at :: "string \<Rightarrow> string option" where
  "host_id_at s =
     (if prefix ''host-'' s then
        (let rest = drop 5 s;
             n = length (takeWhile (\<lambda>c. is_digit c \<or> is_lower c \<or> c \<in> set ''_-'') rest);
             ok = (\<lambda>k. word_char (rest ! (k - 1)) \<noteq> starts_word (drop k rest))
         in map_option (\<lambda>k. take (5 + k) s) (List.find ok (rev [1..<Suc n])))
      else None)"

fun search_word :: "bool \<Rightarrow> string \<Rightarrow> string option" where
  "search_word in_word [] = None"
| "search_word in_word (c # s) =
     (case (if in_word then None else host_id_at (c # s)) of
        Some x \<Rightarrow> Some x
      | None \<Rightarrow> search_word (word_char c) s)"

definition extract_host_id :: "string \<Rightarrow> string option" where
  "extract_host_id lowered = search_word False lowered"

definition is_quote :: "char \<Rightarrow> bool" where
  "is_quote c = (c = CHR 0x27 \<or> c = CHR 0x22)"

definition quoted_at :: "string \<Rightarrow> string option" where
  "quoted_at s =
     (if s \<noteq> [] \<and> is_quote (hd s) then
        (let run = takeWhile (\<lambda>c. \<not> is_quote c) (tl s)
         in if run \<noteq> [] \<and> length run < length (tl s) then Some run else None)
      else None)"

definition skip_sep :: "string \<Rightarrow> string" where
  "skip_sep s = (if s \<noteq> [] \<and> hd s \<in> set '':='' then lstrip (tl s) else s)"

definition explicit_at :: "string \<Rightarrow> string option" where
  "explicit_at s =
     Option.bind (after_keyword [''hostname'', utf8 [237, 152, 184, 236, 138, 164, 237, 138, 184, 235, 170,
     133]] s)
       (\<lambda>r. nonempty (takeWhile name_char (skip_sep (lstrip r))))"

definition HOST_WORDS :: "string list" where
  "HOST_WORDS = [utf8 [237, 152, 184, 236, 138, 164, 237, 138, 184], ''host'']"

definition context_prefix_at :: "string \<Rightarrow> string option" where
  "context_prefix_at s =
     Option.bind (after_keyword HOST_WORDS s)
       (\<lambda>r. let t = lstrip r
            in if (t \<noteq> [] \<and> hd t \<in> set '':='') \<or> length t < length r
               then nonempty (takeWhile name_char (skip_sep t)) else None)"

definition context_suffix_at :: "string \<Rightarrow> string option" where
  "context_suffix_at s =
     (let run = takeWhile name_char s; r = drop (length run) s
      in if run \<noteq> [] \<and> r \<noteq> [] \<and> is_space (hd r)
         then (case after_keyword HOST_WORDS (lstrip r) of
                 Some t \<Rightarrow> if starts_word t then None else Some run
               | None \<Rightarrow> None)
         else None)"

definition ACTIVITY_WORDS :: "string list" where
  "ACTIVITY_WORDS = [utf8 [237, 131, 128, 236, 158, 132, 235, 157, 188, 236, 157, 184], ''timeline'',
     utf8 [236, 181, 156, 234, 183, 188, 32, 237, 153, 156, 235, 143, 153], utf8 [237, 153, 156, 235, 143,
     153, 32, 236, 157, 180, 235, 160, 165], utf8 [236, 157, 180, 235, 160, 165], ''history'']"

text \<open>The group gives characters back, because two of the words consist of characters of a name.\<close>

definition activity_at :: "string \<Rightarrow> string option" where
  "activity_at s =
     map_option (\<lambda>k. take k s)
       (List.find (\<lambda>k. after_keyword ACTIVITY_WORDS (lstrip (drop k s)) \<noteq> None)
          (rev [1..<Suc (length (takeWhile name_char s))]))"

definition looks_like_host_id :: "string \<Rightarrow> bool" where
  "looks_like_host_id v = (prefix ''host-'' v \<and> drop 5 v \<noteq> [] \<and> list_all id_char (drop 5 v))"

definition looks_like_hostname :: "string \<Rightarrow> bool" where
  "looks_like_hostname v =
     (v \<noteq> [] \<and> \<not> list_all is_digit v \<and> list_ex (\<lambda>c. is_upper c \<or> is_lower c \<or> c \<in> set ''-._'') v)"

definition CONTEXTUAL :: "((string \<Rightarrow> string option) \<times> string) list" where
  "CONTEXTUAL = [(context_prefix_at, ''scope:hostname(context-prefix)''),
     (context_suffix_at, ''scope:hostname(context-suffix)''), (activity_at, ''scope:hostname(activity)'')]"

fun first_context :: "((string \<Rightarrow> string option) \<times> string) list \<Rightarrow> string \<Rightarrow> (string \<times> string) option" where
  "first_context [] q = None"
| "first_context ((m, rule) # ps) q =
     (case search m q of
        Some v \<Rightarrow> if \<not> looks_like_host_id v \<and> looks_like_hostname v then Some (v, rule) else first_context ps q
      | None \<Rightarrow> first_context ps q)"

text \<open>The host name and the rules that matched.\<close>

definition extract_hostname :: "string \<Rightarrow> string option \<times> string list" where
  "extract_hostname q =
     (case search quoted_at q of
        Some v \<Rightarrow> (nonempty (strip v), [''scope:hostname(quoted)''])
      | None \<Rightarrow>
          (case search explicit_at q of
             Some v \<Rightarrow> (Some v, [''scope:hostname(explicit)''])
           | None \<Rightarrow>
               (case first_context CONTEXTUAL q of Some (v, rule) \<Rightarrow> (Some v, [rule]) | None \<Rightarrow> (None, []))))"

definition TIME_RANGES :: "(string list \<times> string) list" where
  "TIME_RANGES =
     [([''1h'', utf8 [49, 236, 139, 156, 234, 176, 132], utf8 [236, 181, 156, 234, 183, 188, 32, 49, 236,
     139, 156, 234, 176, 132], utf8 [236, 167, 128, 235, 130, 156, 32, 49, 236, 139, 156, 234, 176, 132],
     utf8 [237, 149, 156, 236, 139, 156, 234, 176, 132]], ''1h''),
      ([''24h'', utf8 [50, 52, 236, 139, 156, 234, 176, 132], utf8 [236, 167, 128, 235, 130, 156, 32, 237,
     149, 152, 235, 163, 168], utf8 [236, 181, 156, 234, 183, 188, 32, 237, 149, 152, 235, 163, 168],
     utf8 [236, 152, 164, 235, 138, 152], utf8 [234, 184, 136, 236, 157, 188]], ''24h''),
      ([''7d'', utf8 [55, 236, 157, 188], utf8 [236, 181, 156, 234, 183, 188, 32, 55, 236, 157, 188],
     utf8 [236, 167, 128, 235, 130, 156, 32, 55, 236, 157, 188], utf8 [236, 157, 188, 236, 163, 188, 236,
     157, 188], utf8 [236, 157, 188, 236, 163, 188, 236, 157, 188, 234, 176, 132]], ''7d''),
      ([''30d'', utf8 [51, 48, 236, 157, 188], utf8 [236, 181, 156, 234, 183, 188, 32, 51, 48, 236, 157,
     188], utf8 [237, 149, 156, 235, 139, 172], utf8 [236, 181, 156, 234, 183, 188, 32, 237, 149, 156, 235,
     139, 172], utf8 [236, 167, 128, 235, 130, 156, 32, 237, 149, 156, 235, 139, 172]], ''30d'')]"

definition extract_time_range :: "string \<Rightarrow> string option" where
  "extract_time_range lowered = map_option snd (List.find (\<lambda>c. contains_any lowered (fst c)) TIME_RANGES)"

definition SEVERITY_WORDS :: "(string list \<times> string) list" where
  "SEVERITY_WORDS =
     [([''critical'', utf8 [236, 185, 152, 235, 170, 133], utf8 [237, 129, 172, 235, 166, 172, 237, 139, 176,
     236, 187, 172], utf8 [236, 164, 145, 235, 140, 128]], ''critical''),
      ([''high'', utf8 [235, 134, 146, 236, 157, 128], utf8 [234, 179, 160, 236, 156, 132, 237, 151, 152],
     utf8 [236, 139, 172, 234, 176, 129]], ''high''),
      ([''medium'', utf8 [236, 164, 145, 234, 176, 132], utf8 [235, 179, 180, 237, 134, 181]], ''medium'')]"

definition extract_severity :: "string \<Rightarrow> string option" where
  "extract_severity lowered =
     (let sevs = map snd (filter (\<lambda>c. contains_any lowered (fst c)) SEVERITY_WORDS)
      in if sevs = [] then None else Some (join '','' sevs))"

definition SOURCE_ALIASES :: "(string \<times> string list) list" where
  "SOURCE_ALIASES =
     [(''wazuh'', [''wazuh'', utf8 [236, 153, 128, 236, 163, 188], utf8 [236, 153, 128, 236, 166, 136]]),
     (''fleet'', [''fleet'', utf8 [237, 148, 140, 235, 166, 191], ''osquery'']),
      (''zabbix'', [''zabbix'', utf8 [236, 158, 144, 235, 185, 133, 236, 138, 164]]), (''trivy'', [''trivy'',
     utf8 [237, 138, 184, 235, 166, 172, 235, 185, 132]])]"

definition extract_source :: "string \<Rightarrow> string option" where
  "extract_source lowered = map_option fst (List.find (\<lambda>c. contains_any lowered (snd c)) SOURCE_ALIASES)"

definition TOP_WORDS :: "string list" where
  "TOP_WORDS = [''top'', utf8 [236, 131, 129, 236, 156, 132]]"

definition number_at :: "string \<Rightarrow> int option" where
  "number_at s = map_option (\<lambda>ds. int (undec ds)) (nonempty (takeWhile is_digit s))"

definition limit_near_at :: "string \<Rightarrow> int option" where
  "limit_near_at s = Option.bind (after_keyword TOP_WORDS s) (\<lambda>r. number_at (lstrip r))"

text \<open>\<^verbatim>\<open>[^0-9]{0,20}\<close> counts characters: bytes that do not continue one.\<close>

definition char_count :: "string \<Rightarrow> nat" where
  "char_count s = length (filter (\<lambda>c. of_char c < (128::nat) \<or> 192 \<le> (of_char c :: nat)) s)"

definition limit_far_at :: "string \<Rightarrow> int option" where
  "limit_far_at s =
     Option.bind (after_keyword TOP_WORDS s)
       (\<lambda>r. let gap = takeWhile (\<lambda>c. \<not> is_digit c) r
            in if char_count gap \<le> 20 then number_at (drop (length gap) r) else None)"

definition extract_limit :: "string \<Rightarrow> int option" where
  "extract_limit lowered =
     (case search limit_near_at lowered of Some n \<Rightarrow> Some n | None \<Rightarrow> search limit_far_at lowered)"

section \<open>The intent\<close>

definition FLEET_WORDS :: "string list" where
  "FLEET_WORDS = [''fleet'', utf8 [237, 148, 140, 235, 166, 191], ''osquery'']"

definition CHECKIN_WORDS :: "string list" where
  "CHECKIN_WORDS = [utf8 [236, 178, 180, 237, 129, 172, 236, 157, 184], ''checkin'', ''check-in'',
     ''last seen'', utf8 [235, 167, 136, 236, 167, 128, 235, 167, 137, 32, 236, 178, 180, 237, 129, 172, 236,
     157, 184], utf8 [235, 175, 184, 236, 178, 180, 237, 129, 172, 236, 157, 184]]"

definition MISSING_WORDS :: "string list" where
  "MISSING_WORDS = [utf8 [236, 149, 136], utf8 [236, 151, 134], utf8 [235, 136, 132, 235, 157, 189],
     utf8 [236, 152, 164, 235, 158, 152], ''missing'', ''stale'', ''gap'']"

definition RESULT_WORDS :: "string list" where
  "RESULT_WORDS = [''query'', utf8 [236, 191, 188, 235, 166, 172], utf8 [234, 178, 176, 234, 179, 188],
     ''result'']"

definition WAZUH_WORDS :: "string list" where
  "WAZUH_WORDS = [''wazuh'', utf8 [236, 153, 128, 236, 163, 188], utf8 [236, 153, 128, 236, 166, 136]]"

definition EVENT_WORDS :: "string list" where
  "EVENT_WORDS = [''alert'', utf8 [234, 178, 189, 235, 179, 180], utf8 [237, 131, 144, 236, 167, 128],
     utf8 [236, 157, 180, 235, 178, 164, 237, 138, 184]]"

definition INTENT_RULES :: "(string list \<times> string \<times> string) list" where
  "INTENT_RULES =
     [([utf8 [236, 152, 164, 237, 148, 132, 235, 157, 188, 236, 157, 184], ''offline'', ''unavailable'',
     ''down'', utf8 [236, 157, 145, 235, 139, 181, 32, 236, 151, 134], utf8 [236, 151, 176, 234, 178, 176,
     32, 236, 149, 136], utf8 [235, 139, 164, 236, 154, 180], utf8 [236, 163, 189, 236, 157, 128]],
         ''offline_hosts'', ''intent:offline_hosts''),
      ([utf8 [237, 131, 128, 236, 158, 132, 235, 157, 188, 236, 157, 184], ''timeline'', utf8 [236, 181, 156,
     234, 183, 188, 32, 237, 153, 156, 235, 143, 153], utf8 [237, 153, 156, 235, 143, 153, 32, 236, 157, 180,
     235, 160, 165], utf8 [236, 157, 180, 235, 160, 165], ''history'', utf8 [235, 172, 180, 236, 138, 168,
     32, 236, 157, 188]],
         ''host_timeline'', ''intent:host_timeline''),
      ([utf8 [235, 175, 184, 235, 167, 164, 237, 149, 145], ''unmapped'', utf8 [235, 167, 164, 237, 149, 145,
     32, 236, 149, 136, 32, 235, 144, 156], utf8 [236, 151, 176, 234, 178, 176, 32, 236, 149, 136, 32, 235,
     144, 156, 32, 236, 158, 144, 236, 130, 176], utf8 [235, 136, 132, 235, 157, 189, 32, 236, 158, 144, 236,
     130, 176]],
         ''unmapped_assets'', ''intent:unmapped_assets''),
      ([utf8 [235, 161, 156, 234, 183, 184, 236, 157, 184, 32, 236, 139, 164, 237, 140, 168],
     ''login failure'', ''auth failed'', utf8 [236, 157, 184, 236, 166, 157, 32, 236, 139, 164, 237, 140,
     168], ''failed password'', ''brute force''],
         ''login_failure_spike'', ''intent:login_failure_spike''),
      ([utf8 [236, 136, 152, 236, 167, 145, 32, 236, 152, 164, 235, 165, 152], ''collection error'',
     ''collector error'', ''sync error'', utf8 [235, 143, 153, 234, 184, 176, 237, 153, 148, 32, 236, 139,
     164, 237, 140, 168], utf8 [235, 143, 153, 234, 184, 176, 237, 153, 148, 32, 236, 152, 164, 235, 165, 152],
          ''timeout'', utf8 [236, 178, 180, 237, 129, 172, 32, 236, 139, 164, 237, 140, 168]],
         ''collection_errors'', ''intent:collection_errors''),
      ([utf8 [236, 156, 132, 237, 151, 152], ''risky'', utf8 [235, 182, 136, 236, 149, 136, 236, 160, 149],
     utf8 [235, 172, 184, 236, 160, 156, 32, 235, 167, 142, 236, 157, 128], utf8 [235, 166, 172, 236, 138,
     164, 237, 129, 172, 32, 235, 134, 146, 236, 157, 128], utf8 [236, 156, 132, 237, 151, 152, 235, 143,
     132, 32, 235, 134, 146, 236, 157, 128]],
         ''risky_hosts'', ''intent:risky_hosts'')]"

definition VULN_WORDS :: "string list" where
  "VULN_WORDS = [utf8 [236, 183, 168, 236, 149, 189, 236, 160, 144], utf8 [236, 183, 168, 236, 149, 189, 237,
     149, 156], utf8 [236, 183, 168, 236, 149, 189], ''vulnerability'', ''vulnerable'', ''vuln'', ''cve'',
     utf8 [237, 138, 184, 235, 166, 172, 235, 185, 132], ''trivy'']"

definition RANK_WORDS :: "string list" where
  "RANK_WORDS = [''top'', utf8 [236, 131, 129, 236, 156, 132], utf8 [235, 158, 173, 237, 130, 185],
     utf8 [235, 167, 142, 236, 157, 128, 32, 237, 152, 184, 236, 138, 164, 237, 138, 184], utf8 [236, 183,
     168, 236, 149, 189, 236, 160, 144, 32, 235, 167, 142, 236, 157, 128], ''most'']"

definition SUMMARY_WORDS :: "string list" where
  "SUMMARY_WORDS = [utf8 [236, 154, 148, 236, 149, 189], ''summary'', utf8 [237, 152, 132, 237, 153, 169],
     utf8 [236, 160, 149, 235, 166, 172], utf8 [235, 179, 180, 236, 151, 172, 236, 164, 152]]"

text \<open>The intent, whether it was recognized, and the rule.\<close>

definition select_intent :: "string \<Rightarrow> bool \<Rightarrow> string \<times> bool \<times> string" where
  "select_intent lowered has_host =
     (if contains_any lowered FLEET_WORDS \<and> contains_any lowered CHECKIN_WORDS \<and> contains_any lowered MISSING_WORDS
      then (''fleet_checkin_gap'', True, ''intent:fleet_checkin_gap'')
      else if contains_any lowered FLEET_WORDS \<and> contains_any lowered RESULT_WORDS
      then (''host_fleet_queries'', True, ''intent:host_fleet_queries'')
      else if contains_any lowered WAZUH_WORDS \<and> contains_any lowered EVENT_WORDS
      then (if has_host then (''host_wazuh_alerts'', True, ''intent:host_wazuh_alerts'')
            else (''alert_summary'', True, ''intent:alert_summary(wazuh)''))
      else case List.find (\<lambda>r. contains_any lowered (fst r)) INTENT_RULES of
        Some r \<Rightarrow> (fst (snd r), True, snd (snd r))
      | None \<Rightarrow>
          if contains_any lowered VULN_WORDS then
            (if contains_any lowered RANK_WORDS then (''top_vulnerable_hosts'', True, ''intent:top_vulnerable_hosts'')
             else (''new_high_vulns'', True, ''intent:new_high_vulns''))
          else if contains_any lowered EVENT_WORDS \<and> contains_any lowered SUMMARY_WORDS
          then (''alert_summary'', True, ''intent:alert_summary(generic)'')
          else (''alert_summary'', False, ''intent:alert_summary(fallback)''))"

datatype query_warning = NotRecognized | NeedsHost

record interpretation_result =
  in_request :: query_request
  in_rules :: "string list"
  in_warnings :: "query_warning list"
  in_recognized :: bool

definition rule_if :: "string option \<Rightarrow> string \<Rightarrow> string list" where
  "rule_if so rule = (if so = None then [] else [rule])"

text \<open>\<open>None\<close> is the \<^verbatim>\<open>ValueError\<close> for a blank question.\<close>

definition interpret_question :: "string \<Rightarrow> interpretation_result option" where
  "interpret_question text =
     (let question = strip text; lowered = lower question
      in if question = [] then None
         else
           (let host_id = extract_host_id lowered;
                (hostname, host_rules) = extract_hostname question;
                time_range = extract_time_range lowered;
                severity = extract_severity lowered;
                source = extract_source lowered;
                limit = extract_limit lowered;
                (intent, recognized, rule) = select_intent lowered (given host_id \<or> given hostname);
                template = get_template_query intent;
                scope = \<lparr>qs_time_range = (case time_range of Some t \<Rightarrow> t
                            | None \<Rightarrow> (case template of Some t \<Rightarrow> tq_window t | None \<Rightarrow> ''24h'')),
                         qs_host_id = host_id, qs_hostname = hostname, qs_severity = severity, qs_source = source\<rparr>;
                needs = (case template of None \<Rightarrow> False | Some t \<Rightarrow> ''host_id'' \<in> set (tq_required t)
                           \<and> \<not> (given host_id \<or> given hostname))
            in Some \<lparr>in_request = \<lparr>qq_intent = intent, qq_scope = scope,
                       qq_filters = (case limit of None \<Rightarrow> [] | Some n \<Rightarrow> [(''limit'', PInt n)])\<rparr>,
                     in_rules = rule_if host_id ''scope:host_id'' @ host_rules
                       @ (case time_range of None \<Rightarrow> [] | Some t \<Rightarrow> [''scope:time_range='' @ t])
                       @ rule_if severity ''scope:severity''
                       @ (case source of None \<Rightarrow> [] | Some s \<Rightarrow> [''scope:source='' @ s])
                       @ (if limit = None then [] else [''filters:limit'']) @ [rule],
                     in_warnings = (if recognized then [] else [NotRecognized]) @ (if needs then [NeedsHost] else []),
                     in_recognized = recognized\<rparr>))"

section \<open>Every interpreted question can be asked\<close>

lemma contained_intent: "fst (select_intent t h) \<in> set (keys INTENT_HANDLERS)"
proof -
  have "fst (snd r) \<in> set (keys INTENT_HANDLERS)" if "List.find (\<lambda>r. contains_any t (fst r)) INTENT_RULES = Some r" for r
  proof -
    have "r \<in> set INTENT_RULES" using that find_member by fast
    moreover have "list_all (\<lambda>r. fst (snd r) \<in> set (keys INTENT_HANDLERS)) INTENT_RULES"
      unfolding handled_intents by (simp add: INTENT_RULES_def)
    ultimately show ?thesis by (auto simp: list_all_iff)
  qed
  then show ?thesis
    unfolding select_intent_def by (auto simp: handled_intents split: option.split)
qed

definition TIME_WORDS :: "string list" where
  "TIME_WORDS = [''1h'', ''24h'', ''7d'', ''30d'']"

lemma template_of_intent: "i \<in> set (keys INTENT_HANDLERS) \<Longrightarrow>
    \<exists>t. get_template_query i = Some t \<and> tq_window t \<in> set TIME_WORDS"
  by (auto simp: handled_intents get_template_query_def PHASE1_QUERY_CATALOG_def template_def TIME_WORDS_def)

lemma extracted_range: "extract_time_range t = Some w \<Longrightarrow> w \<in> set TIME_WORDS"
proof -
  assume "extract_time_range t = Some w"
  then obtain c where "List.find (\<lambda>c. contains_any t (fst c)) TIME_RANGES = Some c" "w = snd c"
    by (auto simp: extract_time_range_def)
  then have "c \<in> set TIME_RANGES" using find_member by fast
  moreover have "list_all (\<lambda>c. snd c \<in> set TIME_WORDS) TIME_RANGES" by (simp add: TIME_RANGES_def TIME_WORDS_def)
  ultimately show ?thesis using \<open>w = snd c\<close> by (auto simp: list_all_iff)
qed

lemma window_numbers:
  "int_of_text ''1'' = Some 1" "int_of_text ''24'' = Some 24" "int_of_text ''7'' = Some 7" "int_of_text ''30'' = Some 30"
  by code_simp+

lemma since_window: "w \<in> set TIME_WORDS \<Longrightarrow> 30 * DAY_US \<le> now \<Longrightarrow> now < MAX_US \<Longrightarrow> \<exists>s. since now w = Inr s"
  by (auto simp: TIME_WORDS_def since_def window_numbers Let_def DAY_US_def US_def)

lemma interpreted_request:
  assumes "interpret_question text = Some res"
  shows "\<exists>t. get_template_query (qq_intent (in_request res)) = Some t" "time_range_of (in_request res) \<in> set TIME_WORDS"
proof -
  let ?q = "strip text"
  obtain hn hr where h: "extract_hostname ?q = (hn, hr)" by fastforce
  obtain i rec rule where i: "select_intent (lower ?q) (given (extract_host_id (lower ?q)) \<or> given hn) = (i, rec, rule)"
    using prod_cases3 by blast
  have "i \<in> set (keys INTENT_HANDLERS)"
    using contained_intent [of "lower ?q" "given (extract_host_id (lower ?q)) \<or> given hn"] by (simp add: i)
  then obtain t where t: "get_template_query i = Some t" "tq_window t \<in> set TIME_WORDS"
    using template_of_intent by blast
  have r: "qq_intent (in_request res) = i"
    "time_range_of (in_request res) = (case extract_time_range (lower ?q) of Some w \<Rightarrow> w | None \<Rightarrow> tq_window t)"
    using assms by (auto simp: interpret_question_def Let_def h i t(1) time_range_of_def split: if_splits
      cong: option.case_cong)
  show "\<exists>t. get_template_query (qq_intent (in_request res)) = Some t" using r(1) t(1) by simp
  show "time_range_of (in_request res) \<in> set TIME_WORDS"
    using r(2) t(2) extracted_range by (auto split: option.split)
qed

text \<open>C24: Whatever is asked in words, unless it is blank, becomes a query that the service carries out: the
  intent is one of the catalogue and the window is a range that the service reads, so neither 400 nor 503
  can follow, as long as the stored times carry an offset and the calendar reaches back a month.\<close>

theorem interpreted_query_answered:
  assumes "interpret_question text = Some res" "store_aware st" "30 * DAY_US \<le> now" "now < MAX_US"
  shows "\<exists>t r. get_template_query (qq_intent (in_request res)) = Some t \<and> execute now st (in_request res) = Inr r"
proof -
  obtain s where s: "since now (time_range_of (in_request res)) = Inr s"
    using since_window [OF interpreted_request(2) [OF assms(1)] assms(3,4)] by blast
  then have "execute now st (in_request res) \<noteq> Inl e" for e
    using query_fails_iff_bad_range [OF assms(2), of now "in_request res" e] by simp
  then show ?thesis using interpreted_request(1) [OF assms(1)] by (cases "execute now st (in_request res)") auto
qed

lemma blank_question: "interpret_question text = None \<longleftrightarrow> strip text = []"
  by (simp add: interpret_question_def Let_def split: prod.split)

definition demo_question :: string where
  "demo_question = utf8 [104, 111, 115, 116, 45, 49, 32, 237, 131, 128, 236, 158, 132, 235, 157, 188, 236,
     157, 184, 32, 236, 181, 156, 234, 183, 188, 32, 55, 236, 157, 188]"

lemma demo_not_blank: "strip demo_question \<noteq> []"
  by code_simp

lemma interpreted_query_answered_witness:
  "\<exists>res r. interpret_question demo_question = Some res
     \<and> execute 63700000000000000 (repo_snapshot empty_repo) (in_request res) = Inr r"
proof -
  obtain res where res: "interpret_question demo_question = Some res"
    using blank_question [of demo_question] demo_not_blank by blast
  have "store_aware (repo_snapshot empty_repo)"
    by (simp add: store_aware_def all_aware_def repo_snapshot_def empty_repo_def)
  from interpreted_query_answered [OF res this, of 63700000000000000] res show ?thesis
    by (auto simp: DAY_US_def MAX_US_def days_before_year_def)
qed

text \<open>Two misreadings.  A window is found by containment, so 21 hours are read as one; and a Korean particle
  that follows an identifier without a blank is a letter, so the identifier does not end at a word boundary.\<close>

lemma longer_window_misread: "extract_time_range ''21h'' = Some ''1h''"
  by (simp add: extract_time_range_def TIME_RANGES_def contains_any_def)

lemma particle_hides_host_id:
  "extract_host_id ''host-1'' = Some ''host-1''"
  "extract_host_id (''host-1'' @ [CHR 0xEC, CHR 0x9D, CHR 0x98]) = None"
  by code_simp+

end
