(* ===== verification/Csv.thy ===== *)
theory Csv
  imports Ratelimit
begin

text \<open>
  Tables as CSV: the export with its defence against formula injection (\<^verbatim>\<open>services/csv_export.py\<close>) and the
  import (\<^verbatim>\<open>services/csv_import.py\<close>), over the writer and the reader of Python's \<^verbatim>\<open>csv\<close> module in its default
  dialect.  The writer quotes a field that needs it; the reader is the state machine of the module, run over
  the characters of the lines with a mark at the end of each line.  An error of the import is a value that
  says which message the code gives.
\<close>

section \<open>The csv module\<close>

definition CR :: char where "CR = CHR 0x0D"
definition LF :: char where "LF = CHR 0x0A"
definition QUOTE :: char where "QUOTE = CHR 0x22"

definition needs_quotes :: "string \<Rightarrow> bool" where
  "needs_quotes s = list_ex (\<lambda>c. c = CHR '','' \<or> c = QUOTE \<or> c = CR \<or> c = LF) s"

definition quote_char :: "char \<Rightarrow> string" where
  "quote_char c = (if c = QUOTE then [QUOTE, QUOTE] else [c])"

definition quoted :: "string \<Rightarrow> string" where
  "quoted s = [QUOTE] @ concat (map quote_char s) @ [QUOTE]"

definition csv_field :: "string \<Rightarrow> string" where
  "csv_field s = (if needs_quotes s then quoted s else s)"

text \<open>A row that consists of one empty field is written as an empty quoted field.\<close>

definition csv_row :: "string list \<Rightarrow> string" where
  "csv_row fs = (if fs = [[]] then quoted [] else join '','' (map csv_field fs)) @ [CR, LF]"

definition csv_write :: "string list list \<Rightarrow> string" where
  "csv_write rows = concat (map csv_row rows)"

datatype csv_event = Ch char | EndLine

datatype reader_state = StartRecord | StartField | InField | InQuoted | QuoteInQuoted | EatNewline

record csv_reader =
  rd_state :: reader_state
  rd_field :: string
  rd_fields :: "string list"
  rd_rows :: "string list list"

definition is_newline :: "char \<Rightarrow> bool" where
  "is_newline c = (c = CR \<or> c = LF)"

definition save_field :: "reader_state \<Rightarrow> csv_reader \<Rightarrow> csv_reader" where
  "save_field q r = r\<lparr>rd_state := q, rd_field := [], rd_fields := rd_fields r @ [rd_field r]\<rparr>"

text \<open>The length of a field in characters: the bytes that do not continue a character of UTF-8.  A field that
  already has as many characters as the limit of the module takes no further one: the reader raises.\<close>

definition starts_char :: "char \<Rightarrow> bool" where
  "starts_char c = (of_char c < (128::nat) \<or> 192 \<le> (of_char c :: nat))"

definition field_chars :: "string \<Rightarrow> nat" where
  "field_chars s = length (filter starts_char s)"

definition FIELD_LIMIT :: nat where
  "FIELD_LIMIT = 131072"

definition add_char :: "reader_state \<Rightarrow> char \<Rightarrow> csv_reader \<Rightarrow> csv_reader option" where
  "add_char q c r =
     (if starts_char c \<and> FIELD_LIMIT \<le> field_chars (rd_field r) then None
      else Some (r\<lparr>rd_state := q, rd_field := rd_field r @ [c]\<rparr>))"

definition end_record :: "csv_reader \<Rightarrow> csv_reader" where
  "end_record r = r\<lparr>rd_state := StartRecord, rd_fields := [], rd_rows := rd_rows r @ [rd_fields r]\<rparr>"

definition start_field :: "char \<Rightarrow> csv_reader \<Rightarrow> csv_reader option" where
  "start_field c r =
     (if is_newline c then Some (save_field EatNewline r)
      else if c = QUOTE then Some (r\<lparr>rd_state := InQuoted\<rparr>)
      else if c = CHR '','' then Some (save_field StartField r) else add_char InField c r)"

text \<open>A new line inside an unquoted field and a field over the limit are errors, which are \<open>None\<close>.\<close>

fun csv_step :: "csv_reader \<Rightarrow> csv_event \<Rightarrow> csv_reader option" where
  "csv_step r EndLine =
     (case rd_state r of
        StartRecord \<Rightarrow> Some (end_record r)
      | StartField \<Rightarrow> Some (end_record (save_field StartRecord r))
      | InField \<Rightarrow> Some (end_record (save_field StartRecord r))
      | InQuoted \<Rightarrow> Some r
      | QuoteInQuoted \<Rightarrow> Some (end_record (save_field StartRecord r))
      | EatNewline \<Rightarrow> Some (end_record r))"
| "csv_step r (Ch c) =
     (case rd_state r of
        StartRecord \<Rightarrow> if is_newline c then Some (r\<lparr>rd_state := EatNewline\<rparr>) else start_field c r
      | StartField \<Rightarrow> start_field c r
      | InField \<Rightarrow>
          if is_newline c then Some (save_field EatNewline r)
          else if c = CHR '','' then Some (save_field StartField r) else add_char InField c r
      | InQuoted \<Rightarrow> if c = QUOTE then Some (r\<lparr>rd_state := QuoteInQuoted\<rparr>) else add_char InQuoted c r
      | QuoteInQuoted \<Rightarrow>
          if c = QUOTE then add_char InQuoted c r
          else if c = CHR '','' then Some (save_field StartField r)
          else if is_newline c then Some (save_field EatNewline r) else add_char InField c r
      | EatNewline \<Rightarrow> if is_newline c then Some r else None)"

fun csv_run :: "csv_reader \<Rightarrow> csv_event list \<Rightarrow> csv_reader option" where
  "csv_run r [] = Some r"
| "csv_run r (e # es) = (case csv_step r e of None \<Rightarrow> None | Some r' \<Rightarrow> csv_run r' es)"

definition events_of :: "char \<Rightarrow> csv_event list" where
  "events_of c = (if c = LF then [Ch c, EndLine] else [Ch c])"

definition csv_events :: "string \<Rightarrow> csv_event list" where
  "csv_events text = concat (map events_of text) @ (if text = [] \<or> last text = LF then [] else [EndLine])"

definition new_reader :: csv_reader where
  "new_reader = \<lparr>rd_state = StartRecord, rd_field = [], rd_fields = [], rd_rows = []\<rparr>"

definition csv_read :: "string \<Rightarrow> string list list option" where
  "csv_read text = map_option (\<lambda>r. rd_rows r
       @ (if rd_state r = InQuoted \<or> rd_field r \<noteq> [] then [rd_fields r @ [rd_field r]] else []))
     (csv_run new_reader (csv_events text))"

section \<open>Export\<close>

definition FORMULA_TRIGGERS :: string where
  "FORMULA_TRIGGERS = ''=+-@'' @ [CHR 0x09, CR]"

text \<open>What \<^verbatim>\<open>float(t)\<close> accepts: digits with single underscores between them, a fraction, an exponent, the
  names of the special values, and a sign.\<close>

definition digit_part :: "string \<Rightarrow> bool" where
  "digit_part s = (s \<noteq> [] \<and> list_all (\<lambda>w. w \<noteq> [] \<and> list_all is_digit w) (split_on (CHR ''_'') s))"

definition unsigned :: "string \<Rightarrow> string" where
  "unsigned s = (if s \<noteq> [] \<and> hd s \<in> set ''+-'' then tl s else s)"

definition mantissa :: "string \<Rightarrow> bool" where
  "mantissa s = (case split_on (CHR ''.'') s of
       [a] \<Rightarrow> digit_part a
     | [a, b] \<Rightarrow> (a = [] \<or> digit_part a) \<and> (b = [] \<or> digit_part b) \<and> \<not> (a = [] \<and> b = [])
     | _ \<Rightarrow> False)"

definition float_text :: "string \<Rightarrow> bool" where
  "float_text t =
     (let s = unsigned (lower (strip t))
      in s \<in> {''inf'', ''infinity'', ''nan''}
         \<or> (case split_on (CHR ''e'') s of
              [m] \<Rightarrow> mantissa m
            | [m, x] \<Rightarrow> mantissa m \<and> digit_part (unsigned x)
            | _ \<Rightarrow> False))"

definition looks_numeric :: "string \<Rightarrow> bool" where
  "looks_numeric s = (let t = filter (\<lambda>c. c \<noteq> CHR '','') (strip s) in t \<noteq> [] \<and> float_text t)"

definition defuse_text :: "string \<Rightarrow> string" where
  "defuse_text s = (if s \<noteq> [] \<and> hd s \<in> set FORMULA_TRIGGERS \<and> \<not> looks_numeric s then CHR 0x27 # s else s)"

fun defuse :: "pv \<Rightarrow> pv" where
  "defuse (PStr s) = PStr (defuse_text s)"
| "defuse v = v"

text \<open>The text of a cell: the writer prints \<^verbatim>\<open>None\<close> as nothing.\<close>

definition cell_text :: "pv \<Rightarrow> string" where
  "cell_text v = (if v = PNone then [] else pstr v)"

definition render_row :: "string dict \<Rightarrow> pdict \<Rightarrow> string list" where
  "render_row header_map row = map (\<lambda>k. cell_text (defuse (dget row k))) (keys header_map)"

definition render_csv :: "pdict list \<Rightarrow> string dict \<Rightarrow> string" where
  "render_csv rows header_map = csv_write (map snd header_map # map (render_row header_map) rows)"

definition row_limit :: "string dict \<Rightarrow> string \<Rightarrow> int" where
  "row_limit e k = (case env_int e k 100000 of None \<Rightarrow> 100000 | Some n \<Rightarrow> n)"

definition cap_rows :: "string dict \<Rightarrow> 'a list \<Rightarrow> 'a list \<times> bool" where
  "cap_rows e rows =
     (let cap = row_limit e ''MORI_MAX_EXPORT_ROWS''
      in if 0 < cap \<and> cap < int (length rows) then (take (nat cap) rows, True) else (rows, False))"

text \<open>The body of the download and whether its header says that rows are missing.\<close>

definition csv_streaming_response :: "string dict \<Rightarrow> pdict list \<Rightarrow> string dict \<Rightarrow> string \<times> bool" where
  "csv_streaming_response e rows header_map =
     (case cap_rows e rows of (capped, truncated) \<Rightarrow> (render_csv capped header_map, truncated))"

section \<open>Import\<close>

datatype import_error =
    EmptyCsv | ParseFailed | NoHeader | NoKnownColumn | RowLimit int | RequiredMissing int "string list"

definition normalize_header :: "string \<Rightarrow> string" where
  "normalize_header h = filter (\<lambda>c. c \<noteq> CHR ''_'') (filter (\<lambda>c. c \<noteq> CHR '' '') (lower (strip h)))"

fun drop_bom :: "string \<Rightarrow> string" where
  "drop_bom (a # b # c # s) =
     (if [a, b, c] = [CHR 0xEF, CHR 0xBB, CHR 0xBF] then drop_bom s else a # b # c # s)"
| "drop_bom s = s"

definition alias_table :: "string list dict \<Rightarrow> string dict" where
  "alias_table field_aliases =
     dict_of (concat (map (\<lambda>fa. (normalize_header (fst fa), fst fa)
        # map (\<lambda>a. (normalize_header a, fst fa)) (snd fa)) field_aliases))"

text \<open>The columns of a header: the field of each, if it is known.\<close>

definition columns_of :: "string list dict \<Rightarrow> string list \<Rightarrow> string option list" where
  "columns_of field_aliases header = map (\<lambda>h. map_of (alias_table field_aliases) (normalize_header h)) header"

definition import_record :: "string option list \<Rightarrow> string list \<Rightarrow> string dict" where
  "import_record cols raw =
     dict_of (map (\<lambda>cv. (the (fst cv), strip (snd cv))) (filter (\<lambda>cv. fst cv \<noteq> None) (List.zip cols raw)))"

definition missing_fields :: "string list \<Rightarrow> string dict \<Rightarrow> string list" where
  "missing_fields required rec = filter (\<lambda>k. map_of rec k = None \<or> map_of rec k = Some []) required"

fun import_rows :: "int \<Rightarrow> string list \<Rightarrow> string option list \<Rightarrow> int \<Rightarrow> string list list \<Rightarrow> string dict list
    \<Rightarrow> import_error list \<Rightarrow> string dict list \<times> import_error list" where
  "import_rows cap required cols lineno [] rows errors = (rows, errors)"
| "import_rows cap required cols lineno (raw # raws) rows errors =
     (if list_all (\<lambda>c. strip c = []) raw then import_rows cap required cols (lineno + 1) raws rows errors
      else if 0 < cap \<and> cap \<le> int (length rows) then (rows, errors @ [RowLimit cap])
      else (let rec = import_record cols raw; missing = missing_fields required rec
            in if missing \<noteq> []
               then import_rows cap required cols (lineno + 1) raws rows (errors @ [RequiredMissing lineno missing])
               else import_rows cap required cols (lineno + 1) raws (rows @ [rec]) errors))"

definition parse_csv ::
    "string dict \<Rightarrow> string \<Rightarrow> string list dict \<Rightarrow> string list \<Rightarrow> string dict list \<times> import_error list" where
  "parse_csv e text field_aliases required =
     (let text = drop_bom text
      in if strip text = [] then ([], [EmptyCsv])
         else case csv_read text of
           None \<Rightarrow> ([], [ParseFailed])
         | Some [] \<Rightarrow> ([], [NoHeader])
         | Some (header # raws) \<Rightarrow>
             (let cols = columns_of field_aliases header
              in if list_all (\<lambda>c. c = None) cols then ([], [NoKnownColumn])
                 else import_rows (row_limit e ''MORI_MAX_IMPORT_ROWS'') required cols 2 raws [] []))"

definition sample_csv :: "string list dict \<Rightarrow> pdict \<Rightarrow> string" where
  "sample_csv field_aliases example =
     csv_write (keys field_aliases
       # (if example \<noteq> [] then [map (\<lambda>k. pstr (dgetd example k (PStr []))) (keys field_aliases)] else []))"

section \<open>Reading what was written\<close>

lemma csv_run_append: "csv_run r (es @ fs) = (case csv_run r es of None \<Rightarrow> None | Some r' \<Rightarrow> csv_run r' fs)"
  by (induction es arbitrary: r) (auto split: option.split)

definition evs :: "string \<Rightarrow> csv_event list" where
  "evs s = concat (map events_of s)"

lemma evs_simps [simp]: "evs [] = []" "evs (c # s) = events_of c @ evs s" "evs (s @ t) = evs s @ evs t"
  by (simp_all add: evs_def)

lemma chars_distinct [simp]: "CR \<noteq> QUOTE" "LF \<noteq> QUOTE" "CR \<noteq> LF" "QUOTE \<noteq> CR" "QUOTE \<noteq> LF" "LF \<noteq> CR"
    "CHR '','' \<noteq> QUOTE" "CHR '','' \<noteq> CR" "CHR '','' \<noteq> LF" "QUOTE \<noteq> CHR '',''" "CR \<noteq> CHR '',''" "LF \<noteq> CHR '',''"
  by (simp_all add: CR_def LF_def QUOTE_def)

lemma reader_eta: "rd_state r = q \<Longrightarrow> rd_field r = f \<Longrightarrow> rd_fields r = fs \<Longrightarrow> rd_rows r = rows \<Longrightarrow>
    r = \<lparr>rd_state = q, rd_field = f, rd_fields = fs, rd_rows = rows\<rparr>"
  by simp

definition fits :: "string \<Rightarrow> bool" where
  "fits s = (field_chars s \<le> FIELD_LIMIT)"

lemma field_chars_simps [simp]:
  "field_chars [] = 0" "field_chars (c # s) = (if starts_char c then 1 else 0) + field_chars s"
  "field_chars (s @ t) = field_chars s + field_chars t"
  by (simp_all add: field_chars_def)

lemma add_char_fits: "fits (rd_field r @ c # s) \<Longrightarrow> add_char q c r = Some (r\<lparr>rd_state := q, rd_field := rd_field r @ [c]\<rparr>)"
  by (auto simp: add_char_def fits_def)

lemma run_plain:
  "\<not> needs_quotes s \<Longrightarrow> fits (f @ s) \<Longrightarrow> csv_run \<lparr>rd_state = InField, rd_field = f, rd_fields = fs, rd_rows = rows\<rparr> (evs s)
     = Some \<lparr>rd_state = InField, rd_field = f @ s, rd_fields = fs, rd_rows = rows\<rparr>"
  by (induction s arbitrary: f) (auto simp: needs_quotes_def events_of_def is_newline_def add_char_fits)

lemma run_quoted:
  "fits (f @ s) \<Longrightarrow> csv_run \<lparr>rd_state = InQuoted, rd_field = f, rd_fields = fs, rd_rows = rows\<rparr> (evs (concat (map quote_char s)))
     = Some \<lparr>rd_state = InQuoted, rd_field = f @ s, rd_fields = fs, rd_rows = rows\<rparr>"
  by (induction s arbitrary: f) (auto simp: quote_char_def events_of_def add_char_fits)

lemma run_quoted_field:
  assumes "q = StartRecord \<or> q = StartField" "fits s"
  shows "csv_run \<lparr>rd_state = q, rd_field = [], rd_fields = fs, rd_rows = rows\<rparr> (evs (quoted s))
     = Some \<lparr>rd_state = QuoteInQuoted, rd_field = s, rd_fields = fs, rd_rows = rows\<rparr>"
  using assms
  by (auto simp: quoted_def csv_run_append run_quoted start_field_def is_newline_def events_of_def)

lemma run_field:
  assumes "q = StartRecord \<or> q = StartField" "fits s"
  obtains q' where "csv_run \<lparr>rd_state = q, rd_field = [], rd_fields = fs, rd_rows = rows\<rparr> (evs (csv_field s))
     = Some \<lparr>rd_state = q', rd_field = s, rd_fields = fs, rd_rows = rows\<rparr>"
    "q' = InField \<or> q' = QuoteInQuoted \<or> (s = [] \<and> q' = q)"
proof (cases "needs_quotes s \<or> s = []")
  case True
  then show ?thesis using that run_quoted_field [OF assms] by (auto simp: csv_field_def needs_quotes_def)
next
  case False
  then obtain c t where s: "s = c # t" by (cases s) auto
  have "\<not> needs_quotes t" "c \<noteq> CHR '',''" "c \<noteq> QUOTE" "\<not> is_newline c" "c \<noteq> LF"
    using False by (auto simp: s needs_quotes_def is_newline_def)
  then have "csv_run \<lparr>rd_state = q, rd_field = [], rd_fields = fs, rd_rows = rows\<rparr> (evs s)
     = Some \<lparr>rd_state = InField, rd_field = s, rd_fields = fs, rd_rows = rows\<rparr>"
    using assms run_plain [of t "[c]"] add_char_fits [of "\<lparr>rd_state = q, rd_field = [], rd_fields = fs, rd_rows = rows\<rparr>" c t InField]
    by (auto simp: s events_of_def start_field_def)
  then show ?thesis using that False by (simp add: csv_field_def)
qed

lemma run_comma:
  assumes "q = InField \<or> q = QuoteInQuoted \<or> (s = [] \<and> (q = StartField \<or> q = StartRecord))"
  shows "csv_run \<lparr>rd_state = q, rd_field = s, rd_fields = fs, rd_rows = rows\<rparr> (evs '','')
    = Some \<lparr>rd_state = StartField, rd_field = [], rd_fields = fs @ [s], rd_rows = rows\<rparr>"
  using assms by (auto simp: events_of_def save_field_def start_field_def is_newline_def)

lemma run_end:
  assumes "q = InField \<or> q = QuoteInQuoted \<or> (s = [] \<and> q = StartField)"
  shows "csv_run \<lparr>rd_state = q, rd_field = s, rd_fields = fs, rd_rows = rows\<rparr> (evs [CR, LF])
    = Some \<lparr>rd_state = StartRecord, rd_field = [], rd_fields = [], rd_rows = rows @ [fs @ [s]]\<rparr>"
  using assms by (auto simp: events_of_def save_field_def start_field_def is_newline_def end_record_def)

lemma run_fields:
  "list_all fits (s # t) \<Longrightarrow> (q = StartField \<or> (q = StartRecord \<and> (t \<noteq> [] \<or> s \<noteq> []))) \<Longrightarrow>
   csv_run \<lparr>rd_state = q, rd_field = [], rd_fields = fs, rd_rows = rows\<rparr>
       (evs (join '','' (map csv_field (s # t)) @ [CR, LF]))
     = Some \<lparr>rd_state = StartRecord, rd_field = [], rd_fields = [], rd_rows = rows @ [fs @ s # t]\<rparr>"
proof (induction t arbitrary: s q fs)
  case Nil
  obtain q' where q': "csv_run \<lparr>rd_state = q, rd_field = [], rd_fields = fs, rd_rows = rows\<rparr> (evs (csv_field s))
     = Some \<lparr>rd_state = q', rd_field = s, rd_fields = fs, rd_rows = rows\<rparr>"
    "q' = InField \<or> q' = QuoteInQuoted \<or> (s = [] \<and> q' = q)"
    using run_field [of q s fs rows] Nil by auto
  then have "q' = InField \<or> q' = QuoteInQuoted \<or> (s = [] \<and> q' = StartField)" using Nil by auto
  from run_end [OF this] q'(1) show ?case by (simp add: csv_run_append del: csv_run.simps evs_simps(2))
next
  case (Cons u t)
  obtain q' where q': "csv_run \<lparr>rd_state = q, rd_field = [], rd_fields = fs, rd_rows = rows\<rparr> (evs (csv_field s))
     = Some \<lparr>rd_state = q', rd_field = s, rd_fields = fs, rd_rows = rows\<rparr>"
    "q' = InField \<or> q' = QuoteInQuoted \<or> (s = [] \<and> q' = q)"
    using run_field [of q s fs rows] Cons.prems by auto
  then have "q' = InField \<or> q' = QuoteInQuoted \<or> (s = [] \<and> (q' = StartField \<or> q' = StartRecord))"
    using Cons.prems by auto
  note comma = run_comma [OF this]
  have "evs (join '','' (map csv_field (s # u # t)) @ [CR, LF])
    = evs (csv_field s) @ evs '','' @ evs (join '','' (map csv_field (u # t)) @ [CR, LF])"
    by simp
  then show ?case
    using q'(1) comma [of fs rows] Cons.IH [of u StartField "fs @ [s]"] Cons.prems(1)
    by (simp add: csv_run_append del: csv_run.simps evs_simps(2))
qed

lemma run_row:
  assumes "fs \<noteq> []" "list_all fits fs"
  shows "csv_run \<lparr>rd_state = StartRecord, rd_field = [], rd_fields = [], rd_rows = rows\<rparr> (evs (csv_row fs))
     = Some \<lparr>rd_state = StartRecord, rd_field = [], rd_fields = [], rd_rows = rows @ [fs]\<rparr>"
proof (cases "fs = [[]]")
  case True
  have "csv_run \<lparr>rd_state = StartRecord, rd_field = [], rd_fields = [], rd_rows = rows\<rparr> (evs (quoted []) @ evs [CR, LF])
     = Some \<lparr>rd_state = StartRecord, rd_field = [], rd_fields = [], rd_rows = rows @ [[[]]]\<rparr>"
    unfolding csv_run_append run_quoted_field [OF disjI1 [OF refl], of "[]", simplified fits_def field_chars_simps, OF le0] by (simp add: run_end del: evs_simps(2))
  then show ?thesis using True by (simp add: csv_row_def)
next
  case False
  obtain s t where fs: "fs = s # t" using assms by (cases fs) auto
  then have "t \<noteq> [] \<or> s \<noteq> []" using False by auto
  then show ?thesis
    using run_fields [of s t StartRecord "[]" rows] assms(2) False unfolding fs csv_row_def by auto
qed

lemma run_rows:
  "list_all (\<lambda>fs. fs \<noteq> [] \<and> list_all fits fs) rows \<Longrightarrow>
   csv_run \<lparr>rd_state = StartRecord, rd_field = [], rd_fields = [], rd_rows = rs\<rparr> (evs (csv_write rows))
     = Some \<lparr>rd_state = StartRecord, rd_field = [], rd_fields = [], rd_rows = rs @ rows\<rparr>"
proof (induction rows arbitrary: rs)
  case (Cons fs rows)
  then show ?case using run_row [of fs rs] by (simp add: csv_write_def csv_run_append)
qed (simp add: csv_write_def)

lemma csv_write_lines: "csv_write rows = [] \<or> last (csv_write rows) = LF"
  by (induction rows) (auto simp: csv_write_def csv_row_def)

lemma csv_read_write: "list_all (\<lambda>fs. fs \<noteq> [] \<and> list_all fits fs) rows \<Longrightarrow> csv_read (csv_write rows) = Some rows"
  using run_rows [of rows "[]"] csv_write_lines [of rows]
  by (simp add: csv_read_def csv_events_def evs_def [symmetric] new_reader_def)

section \<open>Harmless cells\<close>

text \<open>What is harmless, told without the export: a cell that is empty, that begins with none of the six characters,
  or that is a number: a sign, digits with at most one point among them and an exponent, where commas, blanks around
  it and the case of letters do not matter; the words for infinity and not-a-number count as numbers too.\<close>

definition digits_only :: "string \<Rightarrow> bool" where
  "digits_only s = (s \<noteq> [] \<and> list_all (\<lambda>c. is_digit c \<or> c = CHR ''_'') s)"

definition decimal :: "string \<Rightarrow> bool" where
  "decimal s = (digits_only s \<or> (\<exists>a b. s = a @ ''.'' @ b \<and> digits_only (a @ b)))"

definition a_number :: "string \<Rightarrow> bool" where
  "a_number t = (\<exists>sign body. t = sign @ body \<and> sign \<in> {[], ''+'', ''-''}
     \<and> (body \<in> {''inf'', ''infinity'', ''nan''} \<or> decimal body
        \<or> (\<exists>m sign' x. body = m @ ''e'' @ sign' @ x \<and> decimal m \<and> sign' \<in> {[], ''+'', ''-''} \<and> digits_only x)))"

definition harmless :: "string \<Rightarrow> bool" where
  "harmless s = (case s of [] \<Rightarrow> True
     | c # _ \<Rightarrow> c \<notin> {CHR ''='', CHR ''+'', CHR ''-'', CHR ''@'', CHR 0x09, CHR 0x0D}
         \<or> a_number (lower (strip (filter (\<lambda>c. c \<noteq> CHR '','') (strip s)))))"

lemma split_on_join: "split_on c s = ws \<Longrightarrow> s = join [c] ws"
proof (induction s arbitrary: ws)
  case (Cons a s)
  obtain w ws' where w: "split_on c s = w # ws'" by (cases "split_on c s") simp_all
  with Cons show ?case by (cases ws') (auto split: if_splits)
qed simp

lemma in_split_on: "x \<in> set s \<Longrightarrow> x = c \<or> (\<exists>w \<in> set (split_on c s). x \<in> set w)"
  by (induction s) (auto split: list.splits if_splits)

lemma digit_part_digits: "digit_part s \<Longrightarrow> digits_only s"
  using in_split_on [of _ s "CHR ''_''"] by (fastforce simp: digits_only_def digit_part_def list_all_iff)

lemma mantissa_decimal: "mantissa s \<Longrightarrow> decimal s"
proof -
  assume m: "mantissa s"
  consider a where "split_on (CHR ''.'') s = [a]" "digit_part a"
    | a b where "split_on (CHR ''.'') s = [a, b]" "a = [] \<or> digit_part a" "b = [] \<or> digit_part b" "a \<noteq> [] \<or> b \<noteq> []"
    using m by (auto simp: mantissa_def split: list.splits)
  then show "decimal s"
  proof cases
    case 1
    then show ?thesis using split_on_join [OF 1(1)] digit_part_digits [of a] by (simp add: decimal_def)
  next
    case 2
    then have "digits_only (a @ b)" using digit_part_digits [of a] digit_part_digits [of b] by (auto simp: digits_only_def)
    then show ?thesis using split_on_join [OF 2(1)] by (auto simp: decimal_def)
  qed
qed

lemma unsigned_sign: "\<exists>sign. s = sign @ unsigned s \<and> sign \<in> {[], ''+'', ''-''}"
  by (cases s) (auto simp: unsigned_def)

lemma float_text_number: "float_text t \<Longrightarrow> a_number (lower (strip t))"
proof -
  assume f: "float_text t"
  let ?s = "lower (strip t)"
  obtain sign where s: "?s = sign @ unsigned ?s" "sign \<in> {[], ''+'', ''-''}" using unsigned_sign by blast
  consider "unsigned ?s \<in> {''inf'', ''infinity'', ''nan''}"
    | m where "split_on (CHR ''e'') (unsigned ?s) = [m]" "mantissa m"
    | m x where "split_on (CHR ''e'') (unsigned ?s) = [m, x]" "mantissa m" "digit_part (unsigned x)"
    using f by (auto simp: float_text_def Let_def split: list.splits)
  then show ?thesis
  proof cases
    case 1
    with s show ?thesis unfolding a_number_def by blast
  next
    case 2
    then have "decimal (unsigned ?s)" using split_on_join [OF 2(1)] mantissa_decimal by simp
    with s show ?thesis unfolding a_number_def by blast
  next
    case 3
    obtain sign' where x: "x = sign' @ unsigned x" "sign' \<in> {[], ''+'', ''-''}" using unsigned_sign by blast
    have "unsigned ?s = m @ ''e'' @ sign' @ unsigned x" using split_on_join [OF 3(1)] x(1) by simp
    with s x(2) mantissa_decimal [OF 3(2)] digit_part_digits [OF 3(3)] show ?thesis unfolding a_number_def by blast
  qed
qed

lemma looks_numeric_harmless: "looks_numeric s \<Longrightarrow> harmless s"
  using float_text_number by (auto simp: looks_numeric_def harmless_def Let_def split: list.split)

lemma split_on_none: "c \<notin> set s \<Longrightarrow> split_on c s = [s]"
  by (induction s) auto

lemma digit_chars:
  assumes "is_digit c"
  shows "c \<notin> set ''+-_.e,''" "\<not> is_space c" "lower_char c = c"
  using assms by (auto simp: is_digit_def is_space_def lower_char_def is_upper_def)

lemma digit_part_dec: "digit_part (dec n)"
proof -
  have "CHR ''_'' \<notin> set (dec n)" using dec_digits digit_chars(1) by fastforce
  then show ?thesis by (auto simp: digit_part_def split_on_none list_all_iff dec_digits)
qed

lemma float_dec:
  assumes "s = dec n \<or> s = CHR ''-'' # dec n"
  shows "looks_numeric s"
proof -
  have no: "c \<notin> set (dec n)" if "c \<in> set ''+-_.e,''" for c using that dec_digits digit_chars(1) by fastforce
  have "\<not> is_space c" "c \<noteq> CHR '',''" "lower_char c = c" if "c \<in> set s" for c
    using that assms dec_digits [of c n] digit_chars [of c] by (auto simp: is_space_def lower_char_def is_upper_def)
  then have s: "strip s = s" "filter (\<lambda>c. c \<noteq> CHR '','') s = s" "lower s = s"
    by (auto simp: lower_def filter_id_conv intro!: strip_no_space map_idI)
  have "is_digit (hd (dec n))" by (rule hd_dec_digit)
  then have "hd (dec n) \<notin> set ''+-''" by (auto simp: is_digit_def)
  then have u: "unsigned s = dec n" using assms by (auto simp: unsigned_def)
  have "mantissa (dec n)" by (simp add: mantissa_def split_on_none no digit_part_dec)
  then show ?thesis using assms s u by (auto simp: looks_numeric_def float_text_def split_on_none no
      dest: sym [of "[]"])
qed

lemma numeric_int: "looks_numeric (int_str i)"
  by (rule float_dec [of _ "nat \<bar>i\<bar>"]) (simp add: int_str_def)

lemma harmless_defused: "harmless (cell_text (defuse v))"
proof (cases v)
  case (PStr s)
  have "harmless s" if "s = [] \<or> hd s \<notin> set FORMULA_TRIGGERS"
    using that by (cases s) (auto simp: harmless_def FORMULA_TRIGGERS_def CR_def)
  then show ?thesis using PStr looks_numeric_harmless [of s]
    by (auto simp: cell_text_def defuse_text_def harmless_def)
qed (auto simp: cell_text_def pstr_def intro: looks_numeric_harmless numeric_int, auto simp: harmless_def)

text \<open>C25: An exported table of which no label and no cell is longer than the 131072 characters that the reader of
  Python takes reads back, field by field, as the header and the cells of its rows, whatever quotes, commas and line
  breaks the values contain; and no cell of a row begins with a character that makes a spreadsheet take it for a
  formula, unless the cell is a number (or a word for infinity or not-a-number).\<close>

theorem export_exact_and_harmless:
  assumes "header_map \<noteq> []" "list_all fits (map snd header_map)"
    "list_all (list_all fits) (map (render_row header_map) rows)"
  shows "csv_read (render_csv rows header_map) = Some (map snd header_map # map (render_row header_map) rows)
    \<and> list_all (list_all harmless) (map (render_row header_map) rows)"
proof -
  have "csv_read (render_csv rows header_map) = Some (map snd header_map # map (render_row header_map) rows)"
    unfolding render_csv_def by (rule csv_read_write) (use assms in \<open>auto simp: list_all_iff render_row_def\<close>)
  then show ?thesis by (simp add: render_row_def list_all_iff harmless_defused)
qed

text \<open>A field over the limit is written and cannot be read back.\<close>

lemma long_field_unreadable:
  "csv_read (csv_write [[replicate (Suc FIELD_LIMIT) (CHR ''a'')]]) = None"
proof -
  let ?r = "\<lambda>f. \<lparr>rd_state = InField, rd_field = f, rd_fields = [], rd_rows = []\<rparr>"
  let ?a = "\<lambda>n. replicate n (CHR ''a'')"
  have a: "starts_char (CHR ''a'')" by code_simp
  have n: "field_chars (?a n) = n" for n by (induction n) (simp_all add: a)
  have plain: "\<not> needs_quotes (?a n)" for n by (simp add: needs_quotes_def list_ex_iff QUOTE_def CR_def LF_def)
  have first: "csv_run new_reader (evs ''a'') = Some (?r ''a'')"
    by (simp add: new_reader_def events_of_def start_field_def add_char_def FIELD_LIMIT_def is_newline_def
        QUOTE_def CR_def LF_def)
  have "csv_run (?r ''a'') (evs (?a (FIELD_LIMIT - 1))) = Some (?r (''a'' @ ?a (FIELD_LIMIT - 1)))"
    by (intro run_plain) (simp_all add: plain n a fits_def FIELD_LIMIT_def)
  moreover have "csv_run (?r (''a'' @ ?a (FIELD_LIMIT - 1))) (evs ''a'' @ es) = None" for es
    using n [of "FIELD_LIMIT - 1"] by (simp add: events_of_def add_char_def a FIELD_LIMIT_def is_newline_def QUOTE_def CR_def LF_def)
  moreover have "csv_events (csv_write [[?a (Suc FIELD_LIMIT)]]) =
      evs ''a'' @ evs (?a (FIELD_LIMIT - 1)) @ evs ''a'' @ evs [CR, LF]"
  proof -
    have "csv_write [[?a (Suc FIELD_LIMIT)]] = ?a (Suc FIELD_LIMIT) @ [CR, LF]"
      using plain [of "Suc FIELD_LIMIT"] by (simp add: csv_write_def csv_row_def csv_field_def)
    moreover have "?a (Suc (Suc m)) = ''a'' @ ?a m @ ''a''" for m by (simp add: replicate_append_same)
    from this [of "FIELD_LIMIT - 1"] have "?a (Suc FIELD_LIMIT) = ''a'' @ ?a (FIELD_LIMIT - 1) @ ''a''"
      by (simp add: FIELD_LIMIT_def)
    moreover have "csv_events (t @ [CR, LF]) = evs t @ evs [CR, LF]" for t by (simp add: csv_events_def evs_def)
    from this [of "''a'' @ ?a (FIELD_LIMIT - 1) @ ''a''"]
    have "csv_events (''a'' @ ?a (FIELD_LIMIT - 1) @ ''a'' @ [CR, LF])
        = evs ''a'' @ evs (?a (FIELD_LIMIT - 1)) @ evs ''a'' @ evs [CR, LF]"
      by (simp only: evs_simps(3) append_assoc)
    ultimately show ?thesis by (simp only: append_assoc)
  qed
  ultimately show ?thesis by (simp add: csv_read_def csv_run_append first del: evs_simps(2))
qed

text \<open>A minus before the word for infinity is kept, since Python reads it as a number.\<close>

lemma infinity_kept: "defuse_text ''-inf'' = ''-inf''"
  by code_simp

lemma short_fits: "list_all (\<lambda>s. length s \<le> 100) ss \<Longrightarrow> list_all fits ss"
proof -
  have "fits s" if "length s \<le> 100" for s
    using that length_filter_le [of starts_char s] unfolding fits_def field_chars_def FIELD_LIMIT_def by linarith
  then show "list_all (\<lambda>s. length s \<le> 100) ss \<Longrightarrow> list_all fits ss" by (simp add: list_all_iff)
qed

definition demo_header :: "string dict" where
  "demo_header = [(''hostname'', ''hostname''), (''owner'', ''owner'')]"

definition demo_rows :: "pdict list" where
  "demo_rows = [[(''hostname'', PStr ''web,1''), (''owner'', PStr ''=1+1'')], [(''hostname'', PInt (- 5))]]"

lemma demo_fits:
  "list_all fits (map snd demo_header)" "list_all (list_all fits) (map (render_row demo_header) demo_rows)"
proof -
  show "list_all fits (map snd demo_header)" by (rule short_fits) code_simp
  have "list_all (list_all (\<lambda>s. length s \<le> 100)) (map (render_row demo_header) demo_rows)" by code_simp
  then show "list_all (list_all fits) (map (render_row demo_header) demo_rows)"
    using short_fits unfolding list_all_iff by blast
qed

lemma export_exact_and_harmless_witness:
  "csv_read (render_csv demo_rows demo_header)
     = Some [[''hostname'', ''owner''], [''web,1'', CHR 0x27 # ''=1+1''], [''-5'', []]]"
proof -
  have "demo_header \<noteq> []" by (simp add: demo_header_def)
  moreover have "map snd demo_header # map (render_row demo_header) demo_rows
      = [[''hostname'', ''owner''], [''web,1'', CHR 0x27 # ''=1+1''], [''-5'', []]]"
    by code_simp
  ultimately show ?thesis using export_exact_and_harmless [OF _ demo_fits] by simp
qed

section \<open>Importing what was exported\<close>

text \<open>A header whose labels are known names of its fields, none of them blank or with a byte order mark.\<close>

definition header_known :: "string list dict \<Rightarrow> string dict \<Rightarrow> bool" where
  "header_known field_aliases header_map = (header_map \<noteq> [] \<and> dwf header_map
     \<and> list_all (\<lambda>kl. map_of (alias_table field_aliases) (normalize_header (snd kl)) = Some (fst kl)
          \<and> strip (snd kl) \<noteq> [] \<and> hd (snd kl) \<noteq> CHR 0xEF) header_map)"

definition imported :: "string dict \<Rightarrow> pdict \<Rightarrow> string dict" where
  "imported header_map row = map (\<lambda>k. (k, strip (cell_text (defuse (dget row k))))) (keys header_map)"

definition not_blank :: "string dict \<Rightarrow> pdict \<Rightarrow> bool" where
  "not_blank header_map row = list_ex (\<lambda>kv. snd kv \<noteq> []) (imported header_map row)"

lemma import_record_row:
  assumes "dwf header_map"
  shows "import_record (map (\<lambda>kl. Some (fst kl)) header_map) (render_row header_map row) = imported header_map row"
proof -
  have "List.zip (map (\<lambda>kl. Some (fst kl)) header_map) (render_row header_map row)
      = map (\<lambda>kl. (Some (fst kl), cell_text (defuse (dget row (fst kl))))) header_map"
    by (simp add: render_row_def zip_map_map zip_same_conv_map)
  then have "import_record (map (\<lambda>kl. Some (fst kl)) header_map) (render_row header_map row) = dict_of (imported header_map row)"
    by (simp add: import_record_def imported_def filter_map comp_def)
  moreover have "dwf (imported header_map row)" using assms by (simp add: imported_def comp_def)
  ultimately show ?thesis by (simp add: dict_of_distinct)
qed

lemma import_rows_all:
  assumes "dwf header_map" "list_all (not_blank header_map) rows"
    "list_all (\<lambda>row. missing_fields required (imported header_map row) = []) rows"
  shows "cap \<le> 0 \<or> int (length done_rows + length rows) \<le> cap \<Longrightarrow>
    import_rows cap required (map (\<lambda>kl. Some (fst kl)) header_map) n (map (render_row header_map) rows) done_rows []
      = (done_rows @ map (imported header_map) rows, [])"
  using assms(2,3)
proof (induction rows arbitrary: n done_rows)
  case (Cons row rows)
  have "\<not> list_all (\<lambda>c. strip c = []) (render_row header_map row)"
    using Cons.prems(2) by (auto simp: not_blank_def imported_def render_row_def list_ex_iff list_all_iff)
  then show ?case
    using Cons by (auto simp: import_record_row [OF assms(1)] Let_def)
qed simp

lemma csv_field_start: "s \<noteq> [] \<Longrightarrow> csv_field s \<noteq> [] \<and> (hd (csv_field s) = hd s \<or> hd (csv_field s) = QUOTE)"
  by (simp add: csv_field_def quoted_def)

lemma no_bom: "s = [] \<or> hd s \<noteq> CHR 0xEF \<Longrightarrow> drop_bom s = s"
  by (cases s rule: drop_bom.cases) auto

lemma dropWhile_all: "list_all P (dropWhile P s) \<longleftrightarrow> list_all P s"
  by (induction s) auto

lemma strip_Nil_iff: "strip s = [] \<longleftrightarrow> list_all is_space s"
proof -
  have "strip s = [] \<longleftrightarrow> list_all is_space (dropWhile is_space s)"
    by (simp add: strip_def lstrip_def list_all_iff)
  then show ?thesis by (simp only: dropWhile_all)
qed

lemma set_csv_field: "set s \<subseteq> set (csv_field s)"
  by (auto simp: csv_field_def quoted_def quote_char_def)

lemma rendered_text:
  assumes "header_known field_aliases header_map"
  shows "drop_bom (render_csv rows header_map) = render_csv rows header_map" "strip (render_csv rows header_map) \<noteq> []"
proof -
  obtain k l hm where h: "header_map = (k, l) # hm" using assms by (cases header_map) (auto simp: header_known_def)
  then have l: "strip l \<noteq> []" "hd l \<noteq> CHR 0xEF" using assms by (auto simp: header_known_def)
  then have "l \<noteq> []" by (auto simp: strip_def lstrip_def)
  obtain rest where "csv_row (map snd header_map) = csv_field l @ rest"
    using \<open>l \<noteq> []\<close> by (cases hm) (auto simp: h csv_row_def)
  then obtain rest where t: "render_csv rows header_map = csv_field l @ rest"
    by (auto simp: render_csv_def csv_write_def)
  have "hd (render_csv rows header_map) \<noteq> CHR 0xEF"
    using csv_field_start [OF \<open>l \<noteq> []\<close>] l(2) by (auto simp: t QUOTE_def)
  then show "drop_bom (render_csv rows header_map) = render_csv rows header_map" by (intro no_bom disjI2)
  obtain c where "c \<in> set l" "\<not> is_space c" using l(1) by (auto simp: strip_Nil_iff list_all_iff)
  then have "c \<in> set (render_csv rows header_map)" using set_csv_field [of l] by (auto simp: t)
  then show "strip (render_csv rows header_map) \<noteq> []" using \<open>\<not> is_space c\<close> by (auto simp: strip_Nil_iff list_all_iff)
qed

text \<open>C26: What the export wrote the import reads, for any list of required fields: with labels that the import
  knows, every row that is not blank and has every required field comes back under its fields, up to surrounding
  blanks and the apostrophe that the export puts before a formula, and without an error, as long as the limit on
  rows allows it and no label and no cell is longer than the 131072 characters that the reader takes.\<close>

theorem import_of_export:
  assumes "header_known field_aliases header_map" "list_all (not_blank header_map) rows"
    and "row_limit e ''MORI_MAX_IMPORT_ROWS'' \<le> 0 \<or> int (length rows) \<le> row_limit e ''MORI_MAX_IMPORT_ROWS''"
    and "list_all (\<lambda>row. missing_fields required (imported header_map row) = []) rows"
    and "list_all fits (map snd header_map)" "list_all (list_all fits) (map (render_row header_map) rows)"
  shows "parse_csv e (render_csv rows header_map) field_aliases required = (map (imported header_map) rows, [])"
proof -
  have hm: "header_map \<noteq> []" "dwf header_map" using assms(1) by (auto simp: header_known_def)
  have "columns_of field_aliases (map snd header_map) = map (\<lambda>kl. Some (fst kl)) header_map"
    using assms(1) by (auto simp: columns_of_def header_known_def list_all_iff)
  moreover have "\<not> list_all (\<lambda>c. c = None) (map (\<lambda>kl. Some (fst kl)) header_map)"
    using hm(1) by (cases header_map) auto
  moreover have "import_rows (row_limit e ''MORI_MAX_IMPORT_ROWS'') required (map (\<lambda>kl. Some (fst kl)) header_map) 2
      (map (render_row header_map) rows) [] [] = (map (imported header_map) rows, [])"
    using import_rows_all [OF hm(2) assms(2,4), of _ "[]" 2] assms(3) by simp
  moreover have "csv_read (render_csv rows header_map) = Some (map snd header_map # map (render_row header_map) rows)"
    unfolding render_csv_def by (rule csv_read_write) (use hm(1) assms(5,6) in \<open>auto simp: list_all_iff render_row_def\<close>)
  ultimately show ?thesis
    by (simp add: parse_csv_def Let_def rendered_text [OF assms(1)])
qed

definition demo_aliases :: "string list dict" where
  "demo_aliases = [(''hostname'', [''Host Name'', ''host'']), (''owner'', [''manager''])]"

lemma import_of_export_witness:
  "parse_csv [] (render_csv demo_rows demo_header) demo_aliases [''hostname'']
     = ([[(''hostname'', ''web,1''), (''owner'', CHR 0x27 # ''=1+1'')], [(''hostname'', ''-5''), (''owner'', [])]], [])"
proof -
  have "header_known demo_aliases demo_header" "list_all (not_blank demo_header) demo_rows"
    "int (length demo_rows) \<le> row_limit [] ''MORI_MAX_IMPORT_ROWS''"
    "list_all (\<lambda>row. missing_fields [''hostname''] (imported demo_header row) = []) demo_rows"
    by code_simp+
  moreover have "map (imported demo_header) demo_rows
      = [[(''hostname'', ''web,1''), (''owner'', CHR 0x27 # ''=1+1'')], [(''hostname'', ''-5''), (''owner'', [])]]"
    by code_simp
  ultimately show ?thesis using import_of_export [OF _ _ _ _ demo_fits, of demo_aliases "[]" "[''hostname'']"] by simp
qed

end
