(* ===== verification/Provenance.thy ===== *)
theory Provenance
  imports Hashing "HOL-Library.Product_Lexorder"
begin

text \<open>
  Where a finding comes from and what a scan found (\<^verbatim>\<open>services/provenance.py\<close>): the source tags, the evidence
  object of each tag, the identity of the inputs of a scan and the hash of its findings.
\<close>

section \<open>Tags\<close>

definition PROVENANCE_TAGS :: "string list" where
  "PROVENANCE_TAGS = [''CODE'', ''API'', ''RULE'', ''AI'', ''HUMAN'', ''POLICY'']"

definition AUTOMATED_ACTORS :: "string list" where
  "AUTOMATED_ACTORS = [''code_review'', ''ai_fullscan'', ''privacy_flow'', ''system'', [], ''unknown'']"

definition SOURCE_TAGS :: "string list dict" where
  "SOURCE_TAGS = [(''code_review'', [''CODE'']), (''code_review_scan'', [''CODE'']),
     (''privacy_flow'', [''CODE'', ''RULE'']), (''pii_scan'', [''CODE'', ''RULE'']), (''ai_flow'', [''AI'']),
     (''manual'', [''HUMAN'']), (''zabbix'', [''API'']), (''fleet'', [''API'']), (''wazuh'', [''API'']),
     (''trivy'', [''API'']), (''zabbix_writeback'', [''API'', ''HUMAN''])]"

definition tool_tags :: "string \<Rightarrow> string list option" where
  "tool_tags t =
     (if contains ''claude'' t \<or> contains ''ai'' t \<or> contains (utf8 [236, 156, 160, 235, 163,
     140]) t then Some [''AI'']
      else if contains ''semgrep'' t \<or> contains (utf8 [235, 172, 180, 235, 163,
     140]) t \<or> contains ''sarif'' t then Some [''RULE'', ''CODE'']
      else None)"

definition tags_for_source :: "pv \<Rightarrow> pv \<Rightarrow> pv \<Rightarrow> string list" where
  "tags_for_source source tool created_by =
     (let src = lower (strip (pstr (por source (PStr []))));
          by_tool = (if src \<in> {''code_review'', ''code_review_scan''} \<and> truthy tool
                     then tool_tags (lower (pstr tool)) else None);
          tags = (case map_of SOURCE_TAGS src of None \<Rightarrow> [] | Some ts \<Rightarrow> ts)
      in case by_tool of
           Some ts \<Rightarrow> ts
         | None \<Rightarrow>
             if tags \<noteq> [] then tags
             else if truthy created_by \<and> lower (strip (pstr created_by)) \<notin> set AUTOMATED_ACTORS then [''HUMAN'']
             else [])"

section \<open>The evidence of a tag\<close>

text \<open>\<^verbatim>\<open>a or b or ""\<close>.\<close>

definition first_of :: "pv list \<Rightarrow> pv" where
  "first_of vs = foldr por vs (PStr [])"

definition sub_dict :: "pdict \<Rightarrow> string \<Rightarrow> pdict" where
  "sub_dict rec k = as_dict (dget rec k)"

definition build_provenance_detail :: "pdict \<Rightarrow> string list \<Rightarrow> pdict" where
  "build_provenance_detail rec tags =
     (let env = sub_dict rec ''envelope'';
          prov = sub_dict env ''_provenance'';
          human = (''HUMAN'' \<in> set tags \<or> gstr rec ''review_status'' = ''confirmed'')
      in [(''tags'', of_strs tags), (''primary'', PStr (if tags \<noteq> [] then hd tags else [])),
          (''review_status'', PStr (if human then ''reviewed'' else ''unreviewed''))]
         @ (if ''CODE'' \<in> set tags \<or> ''RULE'' \<in> set tags then
              [(''code'', PDict [(''repo'', first_of [dget prov ''repo'', dget rec ''repo'']),
                 (''commit'', first_of [dget prov ''commit'', dget rec ''commit'']),
                 (''path'', first_of [dget rec ''file'', dget rec ''path'']), (''line'', dget rec ''line''),
                 (''scanner'', first_of [dget env ''scanner'', dget rec ''scanner'']),
                 (''rule'', first_of [dget rec ''rule_id'', dget rec ''rule''])])] else [])
         @ (if ''AI'' \<in> set tags then
              [(''ai'', PDict [(''provider'', por (dget env ''provider'') (PStr ''Anthropic'')),
                 (''model'', first_of [dget env ''model'', dget rec ''model'']),
                 (''prompt_version'', first_of [dget env ''prompt_version'', dget env ''ruleset'']),
                 (''input_hash'', first_of [dget env ''input_signature'', dget rec ''input_signature''])])] else [])
         @ (if ''API'' \<in> set tags then
              [(''api'', PDict [(''integration'', first_of [dget rec ''source'']),
                 (''endpoint'', first_of [dget env ''endpoint'']),
                 (''collected_at'', first_of [dget rec ''collected_at'', dget rec ''generated_at'']),
                 (''raw_payload_hash'', first_of [dget prov ''raw_payload_hash''])])] else [])
         @ (if ''POLICY'' \<in> set tags then
              [(''policy'', PDict [(''document'', first_of [dget rec ''policy_document'']),
                 (''version'', first_of [dget rec ''policy_version'']),
                 (''section'', first_of [dget rec ''policy_section'']),
                 (''approved_at'', first_of [dget rec ''policy_approved_at''])])] else []))"

text \<open>\<^verbatim>\<open>all(t in _VALID for t in existing)\<close>: an element that cannot be hashed raises, which is \<open>None\<close>.\<close>

fun all_valid_tags :: "pv list \<Rightarrow> bool option" where
  "all_valid_tags [] = Some True"
| "all_valid_tags (PStr s # vs) = (if s \<in> set PROVENANCE_TAGS then all_valid_tags vs else Some False)"
| "all_valid_tags (PList xs # vs) = None"
| "all_valid_tags (PDict d # vs) = None"
| "all_valid_tags (v # vs) = Some False"

definition derived_tags :: "pdict \<Rightarrow> string list" where
  "derived_tags rec =
     (let env = sub_dict rec ''envelope'';
          prov = sub_dict env ''_provenance'';
          tool = (if is_dict (dget rec ''envelope'') then por (dget env ''tool'') (dget prov ''tool'') else PNone)
      in tags_for_source (dget rec ''source'') tool (dget rec ''created_by''))"

definition attach_provenance :: "pdict \<Rightarrow> pdict option" where
  "attach_provenance rec =
     (case (case dget rec ''provenance'' of
              PList vs \<Rightarrow> if vs = [] then Some False else all_valid_tags vs
            | _ \<Rightarrow> Some False) of
        None \<Rightarrow> None
      | Some True \<Rightarrow>
          Some (dset rec ''provenance_detail''
            (PDict (build_provenance_detail rec (map pstr (as_list (dget rec ''provenance''))))))
      | Some False \<Rightarrow>
          (let tags = derived_tags rec; rec = dset rec ''provenance'' (of_strs tags)
           in Some (dset rec ''provenance_detail'' (PDict (build_provenance_detail rec tags)))))"

section \<open>Inputs and results of a scan\<close>

definition scan_input_signature :: "(string \<Rightarrow> string) \<Rightarrow> pv \<Rightarrow> pv \<Rightarrow> pv \<Rightarrow> pv \<Rightarrow> pv \<Rightarrow> pv \<Rightarrow> string" where
  "scan_input_signature H1 repo commit tool scanner ruleset model =
     short_id H1 [repo, commit, tool, scanner, ruleset, model] []"

record norm_finding =
  nf_rule :: string
  nf_file :: string
  nf_line :: string
  nf_severity :: string
  nf_msg :: string

definition first_text :: "pdict \<Rightarrow> string list \<Rightarrow> string" where
  "first_text f ks = pstr (first_of (map (dget f) ks))"

definition norm_finding_of :: "pdict \<Rightarrow> norm_finding" where
  "norm_finding_of f =
     \<lparr>nf_rule = first_text f [''rule_id'', ''ruleId'', ''category''], nf_file = first_text f [''file'', ''path''],
      nf_line = (if dget f ''line'' \<noteq> PNone then pstr (dget f ''line'') else []),
      nf_severity = first_text f [''severity'', ''level''], nf_msg = first_text f [''message'', ''title'']\<rparr>"

definition finding_sort_key :: "norm_finding \<Rightarrow> string \<times> string \<times> string \<times> string" where
  "finding_sort_key d = (nf_file d, nf_line d, nf_rule d, nf_msg d)"

definition norm_findings :: "pv list \<Rightarrow> norm_finding list" where
  "norm_findings findings = map (\<lambda>f. norm_finding_of (as_dict f)) (filter is_dict findings)"

definition finding_value :: "norm_finding \<Rightarrow> pv" where
  "finding_value d = PDict [(''rule'', PStr (nf_rule d)), (''file'', PStr (nf_file d)), (''line'', PStr (nf_line d)),
     (''severity'', PStr (nf_severity d)), (''msg'', PStr (nf_msg d))]"

definition result_text :: "pv list \<Rightarrow> string" where
  "result_text findings =
     (let norm = sort_key finding_sort_key (norm_findings findings)
      in canonical_json (PDict [(''count'', PInt (int (length norm))), (''items'', PList (map finding_value norm))]) True)"

definition findings_content_hash :: "(string \<Rightarrow> string) \<Rightarrow> pv list \<Rightarrow> string" where
  "findings_content_hash H findings = ''sha256:'' @ sha256_hex H (result_text findings)"

section \<open>What the hash of the findings tells\<close>

lemma finding_value_inj: "pnorm (finding_value a) = pnorm (finding_value b) \<longleftrightarrow> a = b"
  by (cases a; cases b) (auto simp: finding_value_def)

lemma map_finding_value_inj:
  "map (\<lambda>d. pnorm (finding_value d)) xs = map (\<lambda>d. pnorm (finding_value d)) ys \<longleftrightarrow> xs = ys"
proof (induction xs arbitrary: ys)
  case (Cons x xs)
  then show ?case by (cases ys) (auto simp: finding_value_inj simp del: pnorm.simps)
qed auto

lemma result_text_eq_iff:
  "result_text fs = result_text gs \<longleftrightarrow>
     sort_key finding_sort_key (norm_findings fs) = sort_key finding_sort_key (norm_findings gs)" (is "_ \<longleftrightarrow> ?a = ?b")
proof -
  have "result_text fs = result_text gs \<longleftrightarrow> length ?a = length ?b
      \<and> map (\<lambda>d. pnorm (finding_value d)) ?a = map (\<lambda>d. pnorm (finding_value d)) ?b"
    unfolding result_text_def Let_def canonical_json_eq_iff by (simp add: comp_def del: length_sort)
  then show ?thesis by (metis map_finding_value_inj)
qed

text \<open>Findings that agree in file, line, rule and message agree in their severity too.\<close>

definition severity_determined :: "norm_finding list \<Rightarrow> bool" where
  "severity_determined ds = (\<forall>a \<in> set ds. \<forall>b \<in> set ds. finding_sort_key a = finding_sort_key b \<longrightarrow> a = b)"

lemma sorted_key_unique:
  assumes "severity_determined xs" "mset xs = mset ys"
  shows "sort_key finding_sort_key xs = sort_key finding_sort_key ys"
proof (rule properties_for_sort_key [symmetric])
  show "mset (sort_key finding_sort_key xs) = mset ys" using assms(2) by simp
  show "sorted (map finding_sort_key (sort_key finding_sort_key xs))" by simp
  fix k
  have "set ys = set xs" using assms(2) by (metis set_mset_mset)
  then have same: "a = b" if "a \<in> set xs \<union> set ys" "b \<in> set xs \<union> set ys" "finding_sort_key a = finding_sort_key b" for a b
    using that assms(1) by (auto simp: severity_determined_def)
  assume "k \<in> set (sort_key finding_sort_key xs)"
  let ?f = "filter (\<lambda>x. finding_sort_key k = finding_sort_key x)"
  have "\<forall>a \<in> set (?f (sort_key finding_sort_key xs)). a = k" "\<forall>a \<in> set (?f ys). a = k"
    using same \<open>k \<in> set (sort_key finding_sort_key xs)\<close> by auto
  moreover have "length (?f (sort_key finding_sort_key xs)) = length (?f ys)"
    using assms(2) by (metis mset_filter mset_sort size_mset)
  ultimately show "?f (sort_key finding_sort_key xs) = ?f ys"
    by (metis replicate_length_same [of _ k])
qed

text \<open>The hash of the findings identifies what a scan found: if the severity of a finding follows from
  its file, line, rule and message, then two scans have the same hash exactly when they found the same
  findings, in whatever order, unless their two texts collide under the digest.\<close>

lemma findings_hash_exact:
  assumes "severity_determined (norm_findings fs)"
    and "H (result_text fs) = H (result_text gs) \<Longrightarrow> result_text fs = result_text gs"
  shows "findings_content_hash H fs = findings_content_hash H gs \<longleftrightarrow>
    mset (norm_findings fs) = mset (norm_findings gs)"
proof
  assume "findings_content_hash H fs = findings_content_hash H gs"
  then have "result_text fs = result_text gs" using assms(2) by (simp add: findings_content_hash_def sha256_hex_def)
  then show "mset (norm_findings fs) = mset (norm_findings gs)" unfolding result_text_eq_iff by (metis mset_sort)
next
  assume "mset (norm_findings fs) = mset (norm_findings gs)"
  then have "result_text fs = result_text gs"
    unfolding result_text_eq_iff by (rule sorted_key_unique [OF assms(1)])
  then show "findings_content_hash H fs = findings_content_hash H gs" by (simp add: findings_content_hash_def)
qed

definition demo_finding :: "string \<Rightarrow> string \<Rightarrow> pv" where
  "demo_finding line sev = PDict [(''file'', PStr ''a.py''), (''line'', PStr line), (''rule_id'', PStr ''r1''),
     (''severity'', PStr sev), (''message'', PStr ''m'')]"

lemma findings_hash_exact_witness:
  "findings_content_hash id [demo_finding ''1'' ''high'', demo_finding ''2'' ''low'']
     = findings_content_hash id [demo_finding ''2'' ''low'', PNone, demo_finding ''1'' ''high'']"
proof -
  have "severity_determined (norm_findings [demo_finding ''1'' ''high'', demo_finding ''2'' ''low''])"
    by (simp add: severity_determined_def norm_findings_def demo_finding_def norm_finding_of_def finding_sort_key_def)
  moreover have "mset (norm_findings [demo_finding ''1'' ''high'', demo_finding ''2'' ''low''])
      = mset (norm_findings [demo_finding ''2'' ''low'', PNone, demo_finding ''1'' ''high''])"
    by (simp add: norm_findings_def demo_finding_def)
  ultimately show ?thesis by (subst findings_hash_exact) simp_all
qed

text \<open>Without the condition the order shows: the severity is hashed but not sorted by.\<close>

lemma order_of_severities_shows:
  "result_text [demo_finding ''1'' ''high'', demo_finding ''1'' ''low'']
     \<noteq> result_text [demo_finding ''1'' ''low'', demo_finding ''1'' ''high'']"
  unfolding result_text_eq_iff
  by (simp add: norm_findings_def demo_finding_def norm_finding_of_def finding_sort_key_def first_text_def first_of_def)

section \<open>Attaching\<close>

lemma all_valid_of_strs: "all_valid_tags (map PStr ts) = Some (list_all (\<lambda>t. t \<in> set PROVENANCE_TAGS) ts)"
  by (induction ts) auto

lemma detail_ignores:
  "k \<in> {''provenance'', ''provenance_detail''} \<Longrightarrow> build_provenance_detail (dset rec k v) tags = build_provenance_detail rec tags"
  by (elim insertE; simp add: build_provenance_detail_def sub_dict_def Let_def)

lemma tool_tags_valid: "tool_tags t = Some ts \<Longrightarrow> set ts \<subseteq> set PROVENANCE_TAGS \<and> ts \<noteq> []"
  by (auto simp: tool_tags_def PROVENANCE_TAGS_def split: if_splits)

lemma source_tags_valid: "map_of SOURCE_TAGS s = Some ts \<Longrightarrow> set ts \<subseteq> set PROVENANCE_TAGS"
proof -
  assume "map_of SOURCE_TAGS s = Some ts"
  then have "(s, ts) \<in> set SOURCE_TAGS" by (rule map_of_SomeD)
  moreover have "list_all (\<lambda>kv. list_all (\<lambda>t. t \<in> set PROVENANCE_TAGS) (snd kv)) SOURCE_TAGS"
    by (simp add: SOURCE_TAGS_def PROVENANCE_TAGS_def)
  ultimately show ?thesis by (auto simp: list_all_iff)
qed

lemma tags_valid: "set (tags_for_source s t c) \<subseteq> set PROVENANCE_TAGS"
proof -
  define src where "src = lower (strip (pstr (por s (PStr []))))"
  define tags where "tags = (case map_of SOURCE_TAGS src of None \<Rightarrow> [] | Some ts \<Rightarrow> ts)"
  define tool where "tool = (if src \<in> {''code_review'', ''code_review_scan''} \<and> truthy t then tool_tags (lower (pstr t)) else None)"
  have t: "tags_for_source s t c = (case tool of Some ts \<Rightarrow> ts | None \<Rightarrow> if tags \<noteq> [] then tags
      else if truthy c \<and> lower (strip (pstr c)) \<notin> set AUTOMATED_ACTORS then [''HUMAN''] else [])"
    unfolding tags_for_source_def Let_def src_def tags_def tool_def by (rule refl)
  have "set tags \<subseteq> set PROVENANCE_TAGS"
    using source_tags_valid [of src] by (cases "map_of SOURCE_TAGS src") (auto simp: tags_def)
  moreover have "set ts \<subseteq> set PROVENANCE_TAGS" if "tool = Some ts" for ts
    using that tool_tags_valid by (auto simp: tool_def split: if_splits)
  moreover have "''HUMAN'' \<in> set PROVENANCE_TAGS" by (simp add: PROVENANCE_TAGS_def)
  ultimately show ?thesis by (cases tool) (auto simp: t)
qed

definition kept_tags :: "pdict \<Rightarrow> bool option" where
  "kept_tags rec = (case dget rec ''provenance'' of
     PList vs \<Rightarrow> if vs = [] then Some False else all_valid_tags vs | _ \<Rightarrow> Some False)"

lemma attach_eq: "attach_provenance rec = (case kept_tags rec of
     None \<Rightarrow> None
   | Some True \<Rightarrow> Some (dset rec ''provenance_detail''
       (PDict (build_provenance_detail rec (map pstr (as_list (dget rec ''provenance''))))))
   | Some False \<Rightarrow> Some (dset (dset rec ''provenance'' (of_strs (derived_tags rec))) ''provenance_detail''
       (PDict (build_provenance_detail rec (derived_tags rec)))))"
  unfolding attach_provenance_def kept_tags_def [symmetric] Let_def
  by (cases "kept_tags rec") (auto simp: detail_ignores split: bool.split)

lemma derived_ignores:
  "k \<in> {''provenance'', ''provenance_detail''} \<Longrightarrow> derived_tags (dset rec k v) = derived_tags rec"
  by (elim insertE; simp add: derived_tags_def sub_dict_def Let_def)

lemma derived_valid: "set (derived_tags rec) \<subseteq> set PROVENANCE_TAGS"
  by (simp add: derived_tags_def Let_def tags_valid)

lemma kept_of_strs:
  "dget rec ''provenance'' = of_strs ts \<Longrightarrow> set ts \<subseteq> set PROVENANCE_TAGS \<Longrightarrow> kept_tags rec = Some (ts \<noteq> [])"
  by (auto simp: kept_tags_def of_strs_def all_valid_of_strs list_all_iff)

text \<open>Attaching the provenance again changes nothing: the tags of the first time are among the six known
  ones, so they are kept, and the evidence object does not depend on what was attached.\<close>

lemma attach_once:
  assumes "attach_provenance rec = Some rec'"
  shows "attach_provenance rec' = Some rec'"
proof (cases "kept_tags rec")
  case (Some kept)
  show ?thesis
  proof (cases kept)
    case True
    then have r: "rec' = dset rec ''provenance_detail''
        (PDict (build_provenance_detail rec (map pstr (as_list (dget rec ''provenance'')))))"
      using assms Some by (simp add: attach_eq)
    have "kept_tags rec' = Some True" using Some True by (simp add: r kept_tags_def)
    then show ?thesis by (simp add: attach_eq) (simp add: r detail_ignores)
  next
    case False
    let ?ts = "derived_tags rec"
    have r: "rec' = dset (dset rec ''provenance'' (of_strs ?ts)) ''provenance_detail''
        (PDict (build_provenance_detail rec ?ts))"
      using assms Some False by (simp add: attach_eq)
    have k: "kept_tags rec' = Some (?ts \<noteq> [])"
      by (rule kept_of_strs) (simp_all add: r derived_valid)
    have d: "derived_tags rec' = ?ts" "build_provenance_detail rec' ts = build_provenance_detail rec ts" for ts
      by (simp_all add: r derived_ignores detail_ignores)
    have same: "dset rec' ''provenance'' (of_strs ?ts) = rec'"
      "dset rec' ''provenance_detail'' (PDict (build_provenance_detail rec ?ts)) = rec'"
      by (rule dset_same, simp add: r)+
    have "map pstr (as_list (dget rec' ''provenance'')) = ?ts" by (simp add: r of_strs_def comp_def)
    then show ?thesis using k same by (cases "?ts = []") (simp_all add: attach_eq d)
  qed
qed (use assms in \<open>simp add: attach_eq\<close>)

lemma attach_once_witness:
  "\<exists>rec. attach_provenance [(''source'', PStr ''pii_scan''), (''line'', PInt 3)] = Some rec \<and> attach_provenance rec = Some rec"
proof -
  have "kept_tags [(''source'', PStr ''pii_scan''), (''line'', PInt 3)] = Some False" by (simp add: kept_tags_def)
  then obtain rec where "attach_provenance [(''source'', PStr ''pii_scan''), (''line'', PInt 3)] = Some rec"
    by (simp add: attach_eq)
  then show ?thesis using attach_once by blast
qed

text \<open>The rule for a tool looks for the letters \<^verbatim>\<open>ai\<close> anywhere in its name.\<close>

lemma container_scan_is_ai: "tags_for_source (PStr ''code_review'') (PStr ''semgrep-container'') PNone = [''AI'']"
  by code_simp

end
