(* ===== verification/Change_Report.thy ===== *)
theory Change_Report
  imports Py_Time
begin

text \<open>
  The monthly report of changes (\<^verbatim>\<open>services/change_report.py\<close>): the bounds of a month and what changed in a
  period.  Times are compared as texts, as the code does.
\<close>

section \<open>Months\<close>

definition padded :: "nat \<Rightarrow> int \<Rightarrow> string" where
  "padded w n = (let s = int_str n in replicate (w - length s) (CHR ''0'') @ s)"

definition month_start :: "int \<Rightarrow> int \<Rightarrow> string" where
  "month_start y m = padded 4 y @ ''-'' @ padded 2 m @ ''-01T00:00:00+00:00''"

text \<open>\<open>None\<close> is the \<^verbatim>\<open>ValueError\<close>.\<close>

definition month_bounds :: "string \<Rightarrow> (string \<times> string) option" where
  "month_bounds month =
     (case split_on (CHR ''-'') month of
        [y, m] \<Rightarrow>
          (case (int_of_text y, int_of_text m) of
             (Some yi, Some mi) \<Rightarrow>
               if 1 \<le> mi \<and> mi \<le> 12
               then Some (month_start yi mi, if mi = 12 then month_start (yi + 1) 1 else month_start yi (mi + 1))
               else None
           | _ \<Rightarrow> None)
      | _ \<Rightarrow> None)"

section \<open>The report\<close>

definition in_period :: "string \<Rightarrow> string \<Rightarrow> pv \<Rightarrow> bool" where
  "in_period start fin t = (let s = pstr (por t (PStr [])) in s \<noteq> [] \<and> start \<le> s \<and> s < fin)"

record change_report =
  ch_start :: string
  ch_end :: string
  ch_evidence_count :: int
  ch_evidence_by_control :: "int dict"
  ch_approvals_by_status :: "int dict"
  ch_gap_count :: int
  ch_gaps :: "pdict list"
  ch_transitions :: "int dict"
  ch_resolved :: "pdict list"
  ch_exceptions :: "pdict list"

definition new_evidence :: "string \<Rightarrow> string \<Rightarrow> pdict list \<Rightarrow> pdict list" where
  "new_evidence a b evidence = filter (\<lambda>e. in_period a b (por (dget e ''generated_at'') (dget e ''created_at''))) evidence"

definition created_in :: "string \<Rightarrow> string \<Rightarrow> pdict list \<Rightarrow> pdict list" where
  "created_in a b rs = filter (\<lambda>r. in_period a b (dget r ''created_at'')) rs"

definition status_or_unknown :: "pdict \<Rightarrow> string" where
  "status_or_unknown a = pstr (por (dget a ''status'') (PStr ''unknown''))"

text \<open>The transitions of all gaps in order, each with its gap.\<close>

definition transitions_of :: "string \<Rightarrow> string \<Rightarrow> pdict list \<Rightarrow> (pdict \<times> pdict) list" where
  "transitions_of a b gaps = concat (map (\<lambda>g.
     map (Pair g) (filter (\<lambda>h. dget h ''action'' = PStr ''transition'' \<and> in_period a b (dget h ''ts''))
       (map as_dict (as_list (dget g ''history''))))) gaps)"

definition transition_to :: "pdict \<times> pdict \<Rightarrow> string" where
  "transition_to gh = gstr (snd gh) ''to''"

definition transition_row :: "pdict \<times> pdict \<Rightarrow> pdict" where
  "transition_row gh = [(''gap_id'', dget (fst gh) ''gap_id''), (''title'', dget (fst gh) ''title''),
     (''control_id'', dget (fst gh) ''control_id''), (''ts'', dget (snd gh) ''ts'')]"

definition moved_to :: "string \<Rightarrow> (pdict \<times> pdict) list \<Rightarrow> pdict list" where
  "moved_to status ts = map transition_row (filter (\<lambda>gh. transition_to gh = status) ts)"

definition build_evidence_change_report ::
    "string \<Rightarrow> string \<Rightarrow> pdict list \<Rightarrow> pdict list \<Rightarrow> pdict list \<Rightarrow> change_report" where
  "build_evidence_change_report a b evidence approvals gaps =
     (let new_ev = new_evidence a b evidence;
          new_gaps = created_in a b gaps;
          ts = transitions_of a b gaps
      in \<lparr>ch_start = a, ch_end = b, ch_evidence_count = int (length new_ev),
          ch_evidence_by_control = count_by (\<lambda>e. gstr e ''control_id'') new_ev,
          ch_approvals_by_status = count_by status_or_unknown (created_in a b approvals),
          ch_gap_count = int (length new_gaps),
          ch_gaps = map (\<lambda>g. [(''gap_id'', dget g ''gap_id''), (''title'', dget g ''title''),
                       (''control_id'', dget g ''control_id'')]) new_gaps,
          ch_transitions = count_by transition_to ts,
          ch_resolved = moved_to ''resolved'' ts, ch_exceptions = moved_to ''accepted_exception'' ts\<rparr>)"

section \<open>Consecutive periods\<close>

definition tally :: "int dict \<Rightarrow> string \<Rightarrow> int" where
  "tally d k = (case map_of d k of None \<Rightarrow> 0 | Some n \<Rightarrow> n)"

lemma tally_count_by: "tally (count_by f xs) k = int (length (filter (\<lambda>x. f x = k) xs))"
  by (auto simp: tally_def map_of_count_by filter_empty_conv)

lemma in_period_split:
  assumes "a \<le> b" "b \<le> c"
  shows "in_period a c t \<longleftrightarrow> in_period a b t \<or> in_period b c t" "\<not> (in_period a b t \<and> in_period b c t)"
  using assms by (auto simp: in_period_def Let_def)

lemma filter_split:
  assumes "\<And>x. P x \<longleftrightarrow> Q x \<or> R x" "\<And>x. \<not> (Q x \<and> R x)"
  shows "mset (filter P xs) = mset (filter Q xs) + mset (filter R xs)"
  using assms(2) by (induction xs) (auto simp: assms(1))

lemma transitions_split:
  assumes "a \<le> b" "b \<le> c"
  shows "mset (transitions_of a c gaps) = mset (transitions_of a b gaps) + mset (transitions_of b c gaps)"
proof (induction gaps)
  case (Cons g gaps)
  let ?h = "map as_dict (as_list (dget g ''history''))"
  have "mset (filter (\<lambda>h. dget h ''action'' = PStr ''transition'' \<and> in_period a c (dget h ''ts'')) ?h)
    = mset (filter (\<lambda>h. dget h ''action'' = PStr ''transition'' \<and> in_period a b (dget h ''ts'')) ?h)
      + mset (filter (\<lambda>h. dget h ''action'' = PStr ''transition'' \<and> in_period b c (dget h ''ts'')) ?h)"
    by (rule filter_split) (use in_period_split [OF assms] in blast)+
  then show ?case
    using Cons by (simp add: transitions_of_def del: mset_filter)
qed (simp add: transitions_of_def)

lemma evidence_split: "a \<le> b \<Longrightarrow> b \<le> c \<Longrightarrow>
    mset (new_evidence a c ev) = mset (new_evidence a b ev) + mset (new_evidence b c ev)"
  unfolding new_evidence_def by (rule filter_split) (use in_period_split in blast)+

lemma created_split: "a \<le> b \<Longrightarrow> b \<le> c \<Longrightarrow>
    mset (created_in a c rs) = mset (created_in a b rs) + mset (created_in b c rs)"
  unfolding created_in_def by (rule filter_split) (use in_period_split in blast)+

lemma mset_sum_length: "mset xs = mset ys + mset zs \<Longrightarrow> int (length xs) = int (length ys) + int (length zs)"
  by (metis of_nat_add size_mset size_union)

lemma mset_sum_tally: "mset xs = mset ys + mset zs \<Longrightarrow>
    tally (count_by f xs) k = tally (count_by f ys) k + tally (count_by f zs) k"
  unfolding tally_count_by by (rule mset_sum_length) (simp add: mset_filter)

text \<open>Reports of consecutive periods add up: every piece of evidence, approval, gap and transition of the
  long period is counted in exactly one of the parts, in the totals and in each breakdown.\<close>

lemma consecutive_reports_add_up:
  assumes "a \<le> b" "b \<le> c"
  shows "let R = \<lambda>x y. build_evidence_change_report x y evidence approvals gaps in
    ch_evidence_count (R a c) = ch_evidence_count (R a b) + ch_evidence_count (R b c)
    \<and> ch_gap_count (R a c) = ch_gap_count (R a b) + ch_gap_count (R b c)
    \<and> tally (ch_evidence_by_control (R a c)) k
        = tally (ch_evidence_by_control (R a b)) k + tally (ch_evidence_by_control (R b c)) k
    \<and> tally (ch_approvals_by_status (R a c)) k
        = tally (ch_approvals_by_status (R a b)) k + tally (ch_approvals_by_status (R b c)) k
    \<and> tally (ch_transitions (R a c)) k = tally (ch_transitions (R a b)) k + tally (ch_transitions (R b c)) k
    \<and> mset (ch_resolved (R a c)) = mset (ch_resolved (R a b)) + mset (ch_resolved (R b c))"
  using mset_sum_length [OF evidence_split [OF assms]] mset_sum_length [OF created_split [OF assms]]
    mset_sum_tally [OF evidence_split [OF assms]] mset_sum_tally [OF created_split [OF assms]]
    mset_sum_tally [OF transitions_split [OF assms]] transitions_split [OF assms, of gaps]
  by (simp add: build_evidence_change_report_def Let_def moved_to_def)

lemma consecutive_reports_add_up_witness:
  "let R = \<lambda>x y. build_evidence_change_report x y [[(''created_at'', PStr ''2024-02-03T00:00:00Z'')]] [] [] in
    ch_evidence_count (R ''2024-01-01'' ''2024-03-01'')
      = ch_evidence_count (R ''2024-01-01'' ''2024-02-01'') + ch_evidence_count (R ''2024-02-01'' ''2024-03-01'')"
proof -
  have "''2024-01-01'' \<le> ''2024-02-01''" "''2024-02-01'' \<le> ''2024-03-01''" by code_simp+
  from consecutive_reports_add_up [OF this, of "[[(''created_at'', PStr ''2024-02-03T00:00:00Z'')]]" "[]" "[]"]
  show ?thesis by (simp add: Let_def)
qed

text \<open>A month ends where the next one begins.\<close>

lemma months_meet:
  "month_bounds ''2024-01'' = Some (''2024-01-01T00:00:00+00:00'', ''2024-02-01T00:00:00+00:00'')"
  "month_bounds ''2024-12'' = Some (''2024-12-01T00:00:00+00:00'', ''2025-01-01T00:00:00+00:00'')"
  by code_simp+

text \<open>The comparison of texts is not the comparison of times: an event at one in the morning of the first of
  February in Seoul is an event of January, and a plain date of the first of a month belongs to the month before.\<close>

lemma text_comparison_misplaces:
  "in_period ''2024-02-01T00:00:00+00:00'' ''2024-03-01T00:00:00+00:00'' (PStr ''2024-02-01T01:00:00+09:00'')"
  "\<not> in_period ''2024-02-01T00:00:00+00:00'' ''2024-03-01T00:00:00+00:00'' (PStr ''2024-02-01'')"
  "in_period ''2024-01-01T00:00:00+00:00'' ''2024-02-01T00:00:00+00:00'' (PStr ''2024-02-01'')"
  by code_simp+

end
