(* ===== verification/Coverage.thy ===== *)
theory Coverage
  imports Py_Time
begin

text \<open>
  Two measures of evidence: the coverage of the certification scope by monitored hosts
  (\<^verbatim>\<open>services/scope_coverage.py\<close>) and the freshness of the evidence of a control
  (\<^verbatim>\<open>services/evidence_freshness.py\<close>).
\<close>

section \<open>Scope tags\<close>

definition IN_SCOPE_TAG :: string where
  "IN_SCOPE_TAG = utf8 [236, 157, 184, 236, 166, 157, 235, 178, 148, 236, 156, 132, 32, 237, 143, 172, 237,
     149, 168]"

text \<open>\<^verbatim>\<open>s[:n]\<close> on characters: a byte from 128 to 191 continues the character before it.\<close>

definition continues :: "char \<Rightarrow> bool" where
  "continues c = (128 \<le> (of_char c :: nat) \<and> (of_char c :: nat) < 192)"

fun take_chars :: "nat \<Rightarrow> string \<Rightarrow> string" where
  "take_chars n [] = []"
| "take_chars n (c # s) =
     (if continues c then c # take_chars n s
      else case n of 0 \<Rightarrow> [] | Suc k \<Rightarrow> c # take_chars k s)"

text \<open>The middle dot is two bytes.\<close>

fun dot_to_comma :: "string \<Rightarrow> string" where
  "dot_to_comma (a # b # s) =
     (if a = CHR 0xC2 \<and> b = CHR 0xB7 then CHR '','' # dot_to_comma s else a # dot_to_comma (b # s))"
| "dot_to_comma s = s"

definition tag_parts :: "pv \<Rightarrow> string list" where
  "tag_parts raw =
     (case raw of
        PStr s \<Rightarrow> map strip (split_on (CHR '','') (dot_to_comma (replace_char (CHR 0x0A) (CHR '','') s)))
      | PList xs \<Rightarrow> map (\<lambda>x. strip (pstr x)) xs
      | _ \<Rightarrow> [])"

definition add_part :: "string list \<Rightarrow> string \<Rightarrow> string list" where
  "add_part out p = (if p \<noteq> [] \<and> p \<notin> set out then out @ [take_chars 60 p] else out)"

definition normalize_tags :: "pv \<Rightarrow> string list" where
  "normalize_tags raw = take 20 (foldl add_part [] (tag_parts raw))"

section \<open>Coverage\<close>

definition host_key :: "string \<Rightarrow> string" where
  "host_key v = lower (strip v)"

definition monitored_set :: "string list \<Rightarrow> string list" where
  "monitored_set hosts = remdups (filter (\<lambda>h. h \<noteq> []) (map host_key hosts))"

text \<open>\<^verbatim>\<open>round(a / b)\<close> of a quotient of small integers: half goes to the even neighbour.\<close>

definition round_div :: "int \<Rightarrow> int \<Rightarrow> int" where
  "round_div a b =
     (let q = a div b; r = a mod b
      in if 2 * r < b then q else if b < 2 * r then q + 1 else if even q then q else q + 1)"

record coverage =
  cg_tag :: string
  cg_assets :: int
  cg_monitored :: int
  cg_unmonitored :: int
  cg_pct :: int

definition cov :: "string list \<Rightarrow> string \<Rightarrow> string list \<Rightarrow> coverage" where
  "cov mon tag hosts =
     (let total = int (length hosts); monitored = int (length (filter (\<lambda>h. host_key h \<in> set mon) hosts))
      in \<lparr>cg_tag = tag, cg_assets = total, cg_monitored = monitored, cg_unmonitored = total - monitored,
          cg_pct = (if total \<noteq> 0 then round_div (monitored * 100) total else 0)\<rparr>)"

definition tag_assets :: "pdict list \<Rightarrow> string list dict" where
  "tag_assets owners =
     foldl (\<lambda>d th. push (fst th) (snd th) d) []
       (concat (map (\<lambda>o'. map (\<lambda>t. (t, strip (gstr o' ''hostname''))) (normalize_tags (dget o' ''scope_tags''))) owners))"

record scope_coverage =
  sc_tags :: "coverage list"
  sc_in_scope :: coverage
  sc_total :: int
  sc_monitored :: int

definition compute_scope_coverage :: "pdict list \<Rightarrow> string list \<Rightarrow> string \<Rightarrow> scope_coverage" where
  "compute_scope_coverage owners monitored_hosts in_scope_tag =
     (let mon = monitored_set monitored_hosts; ta = tag_assets owners;
          hosts_of = (\<lambda>t. case map_of ta t of None \<Rightarrow> [] | Some hs \<Rightarrow> hs)
      in \<lparr>sc_tags = map (\<lambda>t. cov mon t (hosts_of t)) (sort (keys ta)),
          sc_in_scope = cov mon in_scope_tag (hosts_of in_scope_tag),
          sc_total = int (length owners), sc_monitored = int (length mon)\<rparr>)"

lemma round_div_bounds:
  assumes "0 \<le> a" "a \<le> n * b" "0 < b"
  shows "0 \<le> round_div a b \<and> round_div a b \<le> n"
proof -
  have q: "0 \<le> a div b" using assms by (simp add: pos_imp_zdiv_nonneg_iff)
  have a: "a = b * (a div b) + a mod b" by simp
  show ?thesis
  proof (cases "2 * (a mod b) < b")
    case True
    have "a div b \<le> n" using zdiv_mono1 [OF assms(2,3)] assms(3) by simp
    then show ?thesis using q True by (simp add: round_div_def Let_def)
  next
    case False
    then have "0 < a mod b" using assms(3) by linarith
    then have "b * (a div b) < b * n" using a assms(2) by (metis less_add_same_cancel1 mult.commute order_less_le_trans)
    then have "a div b < n" using assms(3) by (simp only: mult_less_cancel_left_pos)
    then show ?thesis using q by (simp add: round_div_def Let_def)
  qed
qed

text \<open>Every line of the coverage report adds up and its percentage lies between 0 and 100: it is 100
  when every asset of the tag is monitored and 0 when none is.\<close>

lemma coverage_consistent:
  assumes "c \<in> set (sc_in_scope (compute_scope_coverage owners mon t) # sc_tags (compute_scope_coverage owners mon t))"
  shows "cg_monitored c + cg_unmonitored c = cg_assets c \<and> 0 \<le> cg_monitored c \<and> 0 \<le> cg_unmonitored c
    \<and> 0 \<le> cg_pct c \<and> cg_pct c \<le> 100
    \<and> (cg_assets c \<noteq> 0 \<and> cg_unmonitored c = 0 \<longrightarrow> cg_pct c = 100) \<and> (cg_monitored c = 0 \<longrightarrow> cg_pct c = 0)"
proof -
  obtain hs tag where c: "c = cov (monitored_set mon) tag hs"
    using assms by (auto simp: compute_scope_coverage_def Let_def)
  let ?m = "int (length (filter (\<lambda>h. host_key h \<in> set (monitored_set mon)) hs))"
  have m: "0 \<le> ?m" "?m \<le> int (length hs)" by simp_all
  have "0 \<le> round_div (?m * 100) (int (length hs)) \<and> round_div (?m * 100) (int (length hs)) \<le> 100" if "hs \<noteq> []"
    by (rule round_div_bounds) (use m that in simp_all)
  then show ?thesis using m by (auto simp: c cov_def Let_def round_div_def)
qed

definition demo_owners :: "pdict list" where
  "demo_owners = [[(''hostname'', PStr ''Web1''), (''scope_tags'', PStr ''pay, prod'')],
     [(''hostname'', PStr ''db1''), (''scope_tags'', PList [PStr ''pay''])]]"

lemma demo_coverage: "sc_in_scope (compute_scope_coverage demo_owners [''web1''] ''pay'')
    = \<lparr>cg_tag = ''pay'', cg_assets = 2, cg_monitored = 1, cg_unmonitored = 1, cg_pct = 50\<rparr>"
  by code_simp

lemma coverage_consistent_witness:
  "0 \<le> cg_pct (sc_in_scope (compute_scope_coverage demo_owners [''web1''] ''pay''))
   \<and> cg_pct (sc_in_scope (compute_scope_coverage demo_owners [''web1''] ''pay'')) = 50"
  using coverage_consistent [of _ demo_owners "[''web1'']" "''pay''", OF list.set_intros(1)] by (simp add: demo_coverage)

text \<open>With 200 assets one that is not monitored is rounded away.\<close>

lemma full_coverage_with_a_gap: "round_div (199 * 100) 200 = 100"
  by (simp add: round_div_def)

text \<open>A long tag is compared before it is cut, so it can appear twice in the tags of one asset.\<close>

lemma cut_tags_repeat: "normalize_tags (PList [PStr (replicate 60 (CHR ''a'') @ ''b''), PStr (replicate 60 (CHR ''a'') @ ''c'')])
    = [replicate 60 (CHR ''a''), replicate 60 (CHR ''a'')]"
  by code_simp

section \<open>Freshness\<close>

record freshness =
  fr_count :: int
  fr_status :: string
  fr_last_collected :: string
  fr_age_days :: "int option"
  fr_stale :: bool
  fr_applied :: int
  fr_missing :: int
  fr_sources :: "string list"
  fr_reviewed_at :: string
  fr_review_age :: "int option"

text \<open>The age in days; the outer \<open>None\<close> is the \<^verbatim>\<open>TypeError\<close> of an aware time and a naive present.\<close>

definition evidence_age_days :: "string \<Rightarrow> dtime \<Rightarrow> int option option" where
  "evidence_age_days t now =
     (case parse_iso (PStr t) False of
        None \<Rightarrow> Some None
      | Some dt \<Rightarrow>
          (let dt = (if dt_off dt = None \<and> dt_off now \<noteq> None then dt\<lparr>dt_off := dt_off now\<rparr> else dt)
           in map_option (\<lambda>us. Some (max 0 (td_days us))) (dt_sub now dt)))"

definition latest_text :: "pdict list \<Rightarrow> string \<Rightarrow> string" where
  "latest_text recs field =
     (let vals = filter (\<lambda>v. v \<noteq> []) (map (\<lambda>r. gstr r field) recs) in if vals = [] then [] else Max (set vals))"

text \<open>\<^verbatim>\<open>sum(int(r.get(a) or r.get(b) or 0) ...)\<close>; \<open>None\<close> where \<^verbatim>\<open>int\<close> raises.\<close>

fun sum_field :: "string \<Rightarrow> string \<Rightarrow> pdict list \<Rightarrow> int option" where
  "sum_field a b [] = Some 0"
| "sum_field a b (r # rs) =
     (case (py_int (por (por (dget r a) (dget r b)) (PInt 0)), sum_field a b rs) of
        (Some n, Some m) \<Rightarrow> Some (n + m) | _ \<Rightarrow> None)"

definition freshness_status :: "bool \<Rightarrow> bool \<Rightarrow> bool \<Rightarrow> bool \<Rightarrow> string" where
  "freshness_status stale review_ok approved in_review_cycle =
     (if stale then ''evidence_stale'' else if review_ok then ''human_verified''
      else if approved then ''review_required'' else if in_review_cycle then ''review_required''
      else ''evidence_available'')"

definition compute_freshness ::
    "dtime \<Rightarrow> pdict list \<Rightarrow> string \<Rightarrow> pdict option \<Rightarrow> string \<Rightarrow> int \<Rightarrow> int \<Rightarrow> freshness option" where
  "compute_freshness local_now recs now_iso approval approval_status stale_days review_stale_days =
     (let now = (case parse_iso (PStr now_iso) False of None \<Rightarrow> local_now | Some t \<Rightarrow> t)
      in if recs = [] then
           Some \<lparr>fr_count = 0, fr_status = ''no_evidence'', fr_last_collected = [], fr_age_days = None, fr_stale = False,
                 fr_applied = 0, fr_missing = 0, fr_sources = [], fr_reviewed_at = [], fr_review_age = None\<rparr>
         else
           (let last_collected = sor (latest_text recs ''generated_at'') (latest_text recs ''created_at'');
                reviewed_at = (case approval of
                   None \<Rightarrow> []
                 | Some a \<Rightarrow> pstr (por (por (dget a ''approved_at'') (dget a ''reviewed_at''))
                      (por (dget a ''created_at'') (PStr []))))
            in case (evidence_age_days last_collected now, sum_field ''applied'' ''target_count'' recs,
                     sum_field ''missing'' ''missing_count'' recs,
                     if reviewed_at = [] then Some None else evidence_age_days reviewed_at now) of
                 (Some age, Some applied, Some missing, Some review_age) \<Rightarrow>
                   (let stale = (case age of None \<Rightarrow> False | Some d \<Rightarrow> stale_days < d);
                        approved = (approval_status = ''approved'');
                        review_ok = (approved \<and> (case review_age of None \<Rightarrow> False | Some d \<Rightarrow> d \<le> review_stale_days));
                        cycle = (approval \<noteq> None \<and> approval_status \<in> {''draft'', ''reviewed'', ''superseded''})
                    in Some \<lparr>fr_count = int (length recs),
                         fr_status = freshness_status stale review_ok approved cycle,
                         fr_last_collected = last_collected, fr_age_days = age, fr_stale = stale,
                         fr_applied = applied, fr_missing = missing,
                         fr_sources = sort (remdups (map (\<lambda>r. gstr r ''source'') (filter (\<lambda>r. truthy (dget r ''source'')) recs))),
                         fr_reviewed_at = reviewed_at, fr_review_age = review_age\<rparr>)
               | _ \<Rightarrow> None))"

lemma freshness_status_iff:
  "freshness_status a b c d = ''human_verified'' \<longleftrightarrow> \<not> a \<and> b" "freshness_status a b c d = ''evidence_stale'' \<longleftrightarrow> a"
  by (simp_all add: freshness_status_def)

lemma freshness_parts:
  assumes "compute_freshness local_now recs now_iso approval st sd rd = Some f" "recs \<noteq> []"
  shows "\<exists>now i cycle. (fr_review_age f = None \<or> evidence_age_days i now = Some (fr_review_age f))
    \<and> fr_stale f = (case fr_age_days f of None \<Rightarrow> False | Some d \<Rightarrow> sd < d)
    \<and> fr_status f = freshness_status (fr_stale f)
        (st = ''approved'' \<and> (case fr_review_age f of None \<Rightarrow> False | Some d \<Rightarrow> d \<le> rd)) (st = ''approved'') cycle"
proof -
  define now where "now = (case parse_iso (PStr now_iso) False of None \<Rightarrow> local_now | Some t \<Rightarrow> t)"
  define last_c where "last_c = sor (latest_text recs ''generated_at'') (latest_text recs ''created_at'')"
  define rev_at where "rev_at = (case approval of None \<Rightarrow> []
    | Some a \<Rightarrow> pstr (por (por (dget a ''approved_at'') (dget a ''reviewed_at'')) (por (dget a ''created_at'') (PStr []))))"
  define A where "A = evidence_age_days last_c now"
  define B where "B = sum_field ''applied'' ''target_count'' recs"
  define C where "C = sum_field ''missing'' ''missing_count'' recs"
  define D where "D = (if rev_at = [] then Some None else evidence_age_days rev_at now)"
  define cycle where "cycle = (approval \<noteq> None \<and> st \<in> {''draft'', ''reviewed'', ''superseded''})"
  obtain age n m rev where parts: "A = Some age" "D = Some rev" "B = Some n" "C = Some m"
    using assms unfolding compute_freshness_def Let_def now_def [symmetric] last_c_def [symmetric] rev_at_def [symmetric]
      A_def [symmetric] B_def [symmetric] C_def [symmetric] D_def [symmetric]
    by (cases A; cases B; cases C; cases D) simp_all
  have "fr_age_days f = age \<and> fr_review_age f = rev \<and> fr_stale f = (case age of None \<Rightarrow> False | Some d \<Rightarrow> sd < d)
    \<and> fr_status f = freshness_status (case age of None \<Rightarrow> False | Some d \<Rightarrow> sd < d)
        (st = ''approved'' \<and> (case rev of None \<Rightarrow> False | Some d \<Rightarrow> d \<le> rd)) (st = ''approved'') cycle"
    using assms unfolding compute_freshness_def Let_def now_def [symmetric] last_c_def [symmetric] rev_at_def [symmetric]
      A_def [symmetric] B_def [symmetric] C_def [symmetric] D_def [symmetric] cycle_def [symmetric] parts
    by auto
  moreover have "rev = None \<or> evidence_age_days rev_at now = Some rev"
    using parts(2) by (simp add: D_def split: if_splits)
  ultimately show ?thesis by (intro exI [of _ now] exI [of _ rev_at] exI [of _ cycle]) auto
qed

text \<open>A control is shown as verified by a person only on evidence that is not stale under an approval
  whose review has a known age within the limit; and a control that has evidence is shown as stale exactly
  when the age of its latest evidence is known and beyond the limit.\<close>

lemma verified_means_fresh_and_reviewed:
  assumes "compute_freshness local_now recs now_iso approval st sd rd = Some f" "recs \<noteq> []"
  shows "(fr_status f = ''human_verified'' \<longrightarrow> st = ''approved'' \<and> \<not> fr_stale f
      \<and> (\<exists>d. fr_review_age f = Some d \<and> 0 \<le> d \<and> d \<le> rd))
    \<and> (fr_status f = ''evidence_stale'' \<longleftrightarrow> (\<exists>d. fr_age_days f = Some d \<and> sd < d))"
proof -
  obtain now i cycle where f: "fr_review_age f = None \<or> evidence_age_days i now = Some (fr_review_age f)"
    "fr_stale f = (case fr_age_days f of None \<Rightarrow> False | Some d \<Rightarrow> sd < d)"
    "fr_status f = freshness_status (fr_stale f)
        (st = ''approved'' \<and> (case fr_review_age f of None \<Rightarrow> False | Some d \<Rightarrow> d \<le> rd)) (st = ''approved'') cycle"
    using freshness_parts [OF assms] by blast
  have "0 \<le> d" if "fr_review_age f = Some d" for d
    using f(1) that by (auto simp: evidence_age_days_def Let_def split: option.splits)
  moreover have "fr_status f = ''human_verified'' \<longleftrightarrow> \<not> fr_stale f
      \<and> st = ''approved'' \<and> (case fr_review_age f of None \<Rightarrow> False | Some d \<Rightarrow> d \<le> rd)"
    "fr_status f = ''evidence_stale'' \<longleftrightarrow> fr_stale f"
    unfolding f(3) by (rule freshness_status_iff)+
  ultimately show ?thesis using f(2) by (cases "fr_age_days f"; cases "fr_review_age f") simp_all
qed

definition demo_freshness :: "freshness option" where
  "demo_freshness = compute_freshness \<lparr>dt_us = 0, dt_off = None\<rparr> [[(''generated_at'', PStr ''2024-01-01T00:00:00Z'')]]
     ''2024-01-11T00:00:00Z'' (Some [(''approved_at'', PStr ''2024-01-02T00:00:00Z'')]) ''approved'' 90 180"

lemma demo_freshness_value: "map_option (\<lambda>f. (fr_status f, fr_age_days f, fr_review_age f)) demo_freshness
    = Some (''human_verified'', Some 10, Some 9)"
  by code_simp

lemma verified_means_fresh_and_reviewed_witness:
  "\<exists>f. demo_freshness = Some f \<and> fr_status f = ''human_verified'' \<and> \<not> fr_stale f"
proof -
  obtain f where f: "demo_freshness = Some f" "fr_status f = ''human_verified''"
    using demo_freshness_value by (cases demo_freshness) auto
  have "\<not> fr_stale f"
    using verified_means_fresh_and_reviewed [OF f(1) [unfolded demo_freshness_def]] f(2) by simp
  with f show ?thesis by blast
qed

text \<open>Evidence without a readable date has no age and is never stale.\<close>

lemma undated_evidence_available:
  "map_option fr_status (compute_freshness \<lparr>dt_us = 0, dt_off = None\<rparr> [[(''generated_at'', PStr ''last year'')]]
     ''2024-01-11T00:00:00Z'' None [] 90 180) = Some ''evidence_available''"
  by code_simp

end
