(* ===== verification/Classifier.thy ===== *)
theory Classifier
  imports Prelude
begin

text \<open>
  The classification of servers by their host name (\<^verbatim>\<open>services/asset_classifier.py\<close>): the table of prefixes,
  the importance of a server and its rise for a production suffix.  The three importances are a data type
  with their order; \<open>label\<close> gives the text that the source stores.
\<close>

datatype importance = Low | Medium | High

instantiation importance :: linorder
begin

fun rank :: "importance \<Rightarrow> nat" where
  "rank Low = 0" | "rank Medium = 1" | "rank High = 2"

definition less_eq_importance :: "importance \<Rightarrow> importance \<Rightarrow> bool" where
  "less_eq_importance a b = (rank a \<le> rank b)"

definition less_importance :: "importance \<Rightarrow> importance \<Rightarrow> bool" where
  "less_importance a b = (rank a < rank b)"

instance
proof
  fix x y z :: importance
  show "(x < y) = (x \<le> y \<and> \<not> y \<le> x)" by (auto simp: less_eq_importance_def less_importance_def)
  show "x \<le> x" by (simp add: less_eq_importance_def)
  show "x \<le> y \<Longrightarrow> y \<le> z \<Longrightarrow> x \<le> z" by (simp add: less_eq_importance_def)
  show "x \<le> y \<Longrightarrow> y \<le> x \<Longrightarrow> x = y" by (cases x; cases y; simp add: less_eq_importance_def)
  show "x \<le> y \<or> y \<le> x" by (auto simp: less_eq_importance_def)
qed

end

fun label :: "importance \<Rightarrow> string" where
  "label High = utf8 [236, 131, 129]"
| "label Medium = utf8 [236, 164, 145]"
| "label Low = utf8 [237, 149, 152]"

record server_class =
  sv_category :: string
  sv_importance :: importance
  sv_isms :: string
  sv_iso :: string
  sv_category_en :: string

type_synonym class_rule = "string list \<times> string \<times> importance \<times> string \<times> string \<times> string"

definition RULES :: "class_rule list" where
  "RULES =
     [([''dc'', ''ad'', ''ldap'', ''kerberos'', ''activedir''],
        utf8 [235, 143, 132, 235, 169, 148, 236, 157, 184, 32, 236, 187, 168, 237, 138, 184, 235, 161, 164,
     235, 159, 172], High, utf8 [50, 46, 53, 32, 236, 157, 184, 236, 166, 157, 32, 235, 176, 143, 32, 236,
     160, 145, 234, 183, 188, 237, 134, 181, 236, 160, 156],
        utf8 [65, 46, 53, 46, 49, 53, 32, 236, 160, 145, 234, 183, 188, 237, 134, 181, 236, 160, 156, 32, 47,
     32, 65, 46, 56, 46, 50, 32, 237, 138, 185, 236, 136, 152, 236, 160, 145, 234, 183, 188, 234, 182, 140, 237, 149, 156], ''Domain Controller''),
      ([''db'', ''database'', ''mysql'', ''postgres'', ''oracle'', ''mssql'', ''maria'', ''mongo'', ''redis'', ''elasticsearch''],
        utf8 [235, 141, 176, 236, 157, 180, 237, 132, 176, 235, 178, 160, 236, 157, 180, 236, 138, 164, 32,
     236, 132, 156, 235, 178, 132], High, utf8 [50, 46, 57, 32, 235, 141, 176, 236, 157, 180, 237, 132, 176,
     235, 178, 160, 236, 157, 180, 236, 138, 164, 32, 235, 179, 180, 236, 149, 136],
        utf8 [65, 46, 56, 46, 49, 48, 32, 236, 160, 149, 235, 179, 180, 236, 130, 173, 236, 160, 156, 32, 47,
     32, 65, 46, 53, 46, 49, 50, 32, 236, 160, 149, 235, 179, 180, 235, 182, 132, 235, 165, 152], ''Database Server''),
      ([''fw'', ''firewall'', ''vpn'', ''gw'', ''gateway'', ''proxy'', ''utm'', ''ids'', ''ips''],
        utf8 [235, 132, 164, 237, 138, 184, 236, 155, 140, 237, 129, 172, 32, 235, 179, 180, 236, 149, 136,
     32, 236, 158, 165, 235, 185, 132], High, utf8 [50, 46, 54, 32, 235, 132, 164, 237, 138, 184, 236, 155,
     140, 237, 129, 172, 32, 235, 179, 180, 236, 149, 136],
        utf8 [65, 46, 56, 46, 50, 48, 32, 235, 132, 164, 237, 138, 184, 236, 155, 140, 237, 129, 172, 32,
     235, 179, 180, 236, 149, 136, 32, 47, 32, 65, 46, 56, 46, 50, 49, 32, 235, 132, 164, 237, 138, 184, 236, 155, 140, 237, 129, 172, 236, 132, 156, 235, 185, 132, 236, 138, 164, 235, 179, 180, 236, 149, 136], ''Network Security Appliance''),
      ([''web'', ''www'', ''nginx'', ''apache'', ''iis'', ''cdn'', ''lb'', ''loadbalancer''],
        utf8 [236, 155, 185, 32, 236, 132, 156, 235, 178, 132], High, utf8 [50, 46, 49, 48, 32, 236, 139,
     156, 236, 138, 164, 237, 133, 156, 32, 235, 176, 143, 32, 236, 132, 156, 235, 185, 132, 236, 138, 164, 32, 235, 179, 180, 236, 149, 136],
        utf8 [65, 46, 56, 46, 49, 57, 32, 236, 154, 180, 236, 152, 129, 83, 87, 236, 132, 164, 236, 185, 152,
     32, 47, 32, 65, 46, 56, 46, 50, 51, 32, 236, 155, 185, 237, 149, 132, 237, 132, 176, 235, 167, 129], ''Web Server''),
      ([''app'', ''api'', ''was'', ''tomcat'', ''jboss'', ''spring'', ''node''],
        utf8 [236, 150, 180, 237, 148, 140, 235, 166, 172, 236, 188, 128, 236, 157, 180, 236, 133, 152, 32,
     236, 132, 156, 235, 178, 132], Medium, utf8 [50, 46, 49, 48, 32, 236, 139, 156, 236, 138, 164, 237, 133,
     156, 32, 235, 176, 143, 32, 236, 132, 156, 235, 185, 132, 236, 138, 164, 32, 235, 179, 180, 236, 149, 136],
        utf8 [65, 46, 56, 46, 49, 57, 32, 236, 154, 180, 236, 152, 129, 83, 87, 236, 132, 164, 236, 185, 152,
     32, 47, 32, 65, 46, 56, 46, 50, 56, 32, 235, 179, 180, 236, 149, 136, 236, 189, 148, 235, 148, 169], ''Application Server''),
      ([''mail'', ''smtp'', ''exchange'', ''postfix'', ''dovecot''],
        utf8 [235, 169, 148, 236, 157, 188, 32, 236, 132, 156, 235, 178, 132], Medium, utf8 [50, 46, 49, 48,
     32, 236, 139, 156, 236, 138, 164, 237, 133, 156, 32, 235, 176, 143, 32, 236, 132, 156, 235, 185, 132, 236, 138, 164, 32, 235, 179, 180, 236, 149, 136],
        utf8 [65, 46, 56, 46, 50, 50, 32, 235, 132, 164, 237, 138, 184, 236, 155, 140, 237, 129, 172, 235,
     182, 132, 235, 166, 172, 32, 47, 32, 65, 46, 56, 46, 50, 51, 32, 236, 155, 185, 237, 149, 132, 237, 132, 176, 235, 167, 129], ''Mail Server''),
      ([''file'', ''nas'', ''storage'', ''nfs'', ''samba'', ''ftp'', ''sftp''],
        utf8 [237, 140, 140, 236, 157, 188, 32, 236, 132, 156, 235, 178, 132], Medium, utf8 [50, 46, 53, 32,
     236, 157, 184, 236, 166, 157, 32, 235, 176, 143, 32, 236, 160, 145, 234, 183, 188, 237, 134, 181, 236, 160, 156],
        utf8 [65, 46, 53, 46, 49, 53, 32, 236, 160, 145, 234, 183, 188, 237, 134, 181, 236, 160, 156, 32, 47,
     32, 65, 46, 56, 46, 49, 48, 32, 236, 160, 149, 235, 179, 180, 236, 130, 173, 236, 160, 156], ''File Server''),
      ([''backup'', ''bkp'', ''bak'', ''veeam'', ''bacula''],
        utf8 [235, 176, 177, 236, 151, 133, 32, 236, 132, 156, 235, 178, 132], Medium, utf8 [50, 46, 49, 50,
     32, 236, 151, 133, 235, 172, 180, 236, 151, 176, 236, 134, 141, 236, 132, 177, 32, 235, 179, 180, 236, 149, 136],
        utf8 [65, 46, 56, 46, 49, 51, 32, 236, 160, 149, 235, 179, 180, 235, 176, 177, 236, 151, 133, 32, 47,
     32, 65, 46, 53, 46, 50, 57, 32, 236, 164, 145, 235, 139, 168, 236, 139, 156, 236, 160, 149, 235, 179, 180, 235, 179, 180, 236, 149, 136], ''Backup Server''),
      ([''monitor'', ''zabbix'', ''grafana'', ''prometheus'', ''kibana'', ''splunk'', ''siem'', ''elk'', ''wazuh''],
        utf8 [235, 170, 168, 235, 139, 136, 237, 132, 176, 235, 167, 129, 32, 236, 132, 156, 235, 178, 132],
     Low, utf8 [50, 46, 49, 49, 32, 236, 157, 180, 235, 178, 164, 237, 138, 184, 32, 236, 178, 152, 235, 166,
     172],
        utf8 [65, 46, 56, 46, 49, 53, 32, 235, 161, 156, 234, 185, 133, 32, 47, 32, 65, 46, 56, 46, 49, 54,
     32, 235, 170, 168, 235, 139, 136, 237, 132, 176, 235, 167, 129, 237, 153, 156, 235, 143, 153], ''Monitoring Server''),
      ([''dev'', ''test'', ''staging'', ''qa'', ''sandbox'', ''demo'', ''lab''],
        utf8 [234, 176, 156, 235, 176, 156, 47, 237, 133, 140, 236, 138, 164, 237, 138, 184, 32, 236, 132,
     156, 235, 178, 132], Low, utf8 [50, 46, 49, 48, 32, 236, 139, 156, 236, 138, 164, 237, 133, 156, 32,
     235, 176, 143, 32, 236, 132, 156, 235, 185, 132, 236, 138, 164, 32, 235, 179, 180, 236, 149, 136],
        utf8 [65, 46, 56, 46, 51, 49, 32, 234, 176, 156, 235, 176, 156, 194, 183, 236, 154, 180, 236, 152,
     129, 237, 153, 152, 234, 178, 189, 235, 182, 132, 235, 166, 172], ''Dev/Test Server''),
      ([''auth'', ''sso'', ''idp'', ''keycloak'', ''okta'', ''radius''],
        utf8 [236, 157, 184, 236, 166, 157, 32, 236, 132, 156, 235, 178, 132], High, utf8 [50, 46, 53, 32,
     236, 157, 184, 236, 166, 157, 32, 235, 176, 143, 32, 236, 160, 145, 234, 183, 188, 237, 134, 181, 236, 160, 156],
        utf8 [65, 46, 53, 46, 49, 53, 32, 236, 160, 145, 234, 183, 188, 237, 134, 181, 236, 160, 156, 32, 47,
     32, 65, 46, 56, 46, 51, 32, 236, 160, 149, 235, 179, 180, 236, 160, 145, 234, 183, 188, 236, 160, 156, 237, 149, 156], ''Auth Server''),
      ([''dns'', ''ntp'', ''dhcp''],
        utf8 [236, 157, 184, 237, 148, 132, 235, 157, 188, 32, 236, 132, 156, 235, 178, 132], Medium,
     utf8 [50, 46, 54, 32, 235, 132, 164, 237, 138, 184, 236, 155, 140, 237, 129, 172, 32, 235, 179, 180,
     236, 149, 136],
        utf8 [65, 46, 56, 46, 50, 48, 32, 235, 132, 164, 237, 138, 184, 236, 155, 140, 237, 129, 172, 235,
     179, 180, 236, 149, 136], ''Infra Server''),
      ([''jenkins'', ''gitlab'', ''github'', ''ci'', ''build'', ''deploy'', ''nexus'', ''harbor'', ''artifactory''],
        utf8 [67, 73, 47, 67, 68, 32, 236, 132, 156, 235, 178, 132], Low, utf8 [50, 46, 49, 48, 32, 236, 139,
     156, 236, 138, 164, 237, 133, 156, 32, 235, 176, 143, 32, 236, 132, 156, 235, 185, 132, 236, 138, 164, 32, 235, 179, 180, 236, 149, 136],
        utf8 [65, 46, 56, 46, 51, 49, 32, 234, 176, 156, 235, 176, 156, 194, 183, 236, 154, 180, 236, 152,
     129, 237, 153, 152, 234, 178, 189, 235, 182, 132, 235, 166, 172, 32, 47, 32, 65, 46, 56, 46, 51, 50, 32, 235, 179, 128, 234, 178, 189, 234, 180, 128, 235, 166, 172], ''CI/CD Server'')]"

definition DEFAULT_CLASS :: server_class where
  "DEFAULT_CLASS = \<lparr>sv_category = utf8 [235, 178, 148, 236, 154, 169, 32, 236, 132, 156, 235, 178,
     132], sv_importance = Medium,
     sv_isms = utf8 [50, 46, 49, 48, 32, 236, 139, 156, 236, 138, 164, 237, 133, 156, 32, 235, 176, 143, 32,
     236, 132, 156, 235, 185, 132, 236, 138, 164, 32, 235, 179, 180, 236, 149, 136], sv_iso = utf8 [65, 46,
     56, 46, 49, 57, 32, 236, 154, 180, 236, 152, 129, 83, 87, 236, 132, 164, 236, 185, 152], sv_category_en = ''General Server''\<rparr>"

text \<open>The suffix pattern; \<^verbatim>\<open>$\<close> also matches before a line feed at the end.\<close>

definition production_suffix :: "string \<Rightarrow> bool" where
  "production_suffix low =
     (let s = (if low \<noteq> [] \<and> last low = CHR 0x0A then butlast low else low)
      in list_ex (\<lambda>w. suffix (CHR ''-'' # w) s \<or> suffix (CHR ''_'' # w) s) [''prod'', ''prd'', ''live'', ''real''])"

definition importance_boost :: "string \<Rightarrow> importance \<Rightarrow> importance" where
  "importance_boost hostname base =
     (if production_suffix (lower hostname)
      then (case base of Low \<Rightarrow> Medium | Medium \<Rightarrow> High | High \<Rightarrow> High) else base)"

definition strip_prefix :: "string \<Rightarrow> string \<Rightarrow> string" where
  "strip_prefix p s = (if prefix p s then drop (length p) s else s)"

definition matching_rule :: "string \<Rightarrow> class_rule option" where
  "matching_rule low = List.find (\<lambda>r. list_ex (\<lambda>p. prefix p low) (fst r)) RULES"

definition classify_server :: "string \<Rightarrow> server_class" where
  "classify_server hostname =
     (let low = strip_prefix ''pc-'' (strip_prefix ''server-'' (lower hostname))
      in case matching_rule low of
           Some (ps, cat, imp, isms, iso', en) \<Rightarrow>
             \<lparr>sv_category = cat, sv_importance = importance_boost hostname imp, sv_isms = isms, sv_iso = iso',
              sv_category_en = en\<rparr>
         | None \<Rightarrow> DEFAULT_CLASS\<lparr>sv_importance := importance_boost hostname (sv_importance DEFAULT_CLASS)\<rparr>)"

definition classify_server_as_dict :: "string \<Rightarrow> string dict" where
  "classify_server_as_dict hostname =
     (let c = classify_server hostname
      in [(''category'', sv_category c), (''importance'', label (sv_importance c)), (''isms_control'', sv_isms c),
          (''iso27001_control'', sv_iso c), (''category_en'', sv_category_en c)])"

lemma boost_raises: "base \<le> importance_boost h base"
  by (cases base) (auto simp: importance_boost_def less_eq_importance_def)

lemma boost_mono: "a \<le> b \<Longrightarrow> importance_boost h a \<le> importance_boost h b"
  by (cases a; cases b) (auto simp: importance_boost_def less_eq_importance_def)

lemma label_inj: "label a = label b \<longleftrightarrow> a = b"
  by (cases a; cases b) (simp_all add: utf8_def)

text \<open>A prefix needs no word boundary after it, so a switch by its maker's name is a build server.\<close>

lemma cisco_is_a_build_server: "sv_category_en (classify_server ''cisco-sw1'') = ''CI/CD Server''"
  by (simp add: classify_server_def lower_def lower_char_def is_upper_def strip_prefix_def matching_rule_def RULES_def)

end
