(* ===== verification/State_Tables.thy ===== *)
theory State_Tables
  imports Py_Time
begin

text \<open>
  The operational records that the routes keep in a dictionary and write through to a repository
  (\<^verbatim>\<open>repositories/state_base.py\<close>): the repository in memory (\<^verbatim>\<open>repositories/state_memory.py\<close>) and the tables of
  \<^verbatim>\<open>repositories/state_postgres.py\<close>.  A table is given by its columns, and a stored record is the record that
  \<^verbatim>\<open>load\<close> gives back for it.  A text column takes texts, numbers and truth values, the last two as text; the
  database refuses other values and a zero byte.  A date column takes ISO dates; the other formats that the
  database reads are taken as refused.  A \<^verbatim>\<open>jsonb\<close> value keeps the items of an inner object but not their order,
  which no code reads, so it is modelled as kept.
\<close>

section \<open>Columns\<close>

datatype column =
    Text string string
  | NullText string
  | OrEmpty string
  | Items string
  | Json string pv
  | Whole string
  | Day string
  | Stamp string
  | Born string

primrec column_name :: "column \<Rightarrow> string" where
  "column_name (Text c d) = c"
| "column_name (NullText c) = c"
| "column_name (OrEmpty c) = c"
| "column_name (Items c) = c"
| "column_name (Json c d) = c"
| "column_name (Whole c) = c"
| "column_name (Day c) = c"
| "column_name (Stamp c) = c"
| "column_name (Born c) = c"

definition clean_text :: "string \<Rightarrow> pv option" where
  "clean_text s = (if CHR 0x00 \<in> set s then None else Some (PStr s))"

fun text_column :: "pv \<Rightarrow> pv option" where
  "text_column (PStr s) = clean_text s"
| "text_column (PInt i) = Some (PStr (int_str i))"
| "text_column (PBool b) = Some (PStr (if b then ''true'' else ''false''))"
| "text_column _ = None"

text \<open>\<^verbatim>\<open>list(v)\<close>; \<open>None\<close> where it raises.\<close>

fun py_list :: "pv \<Rightarrow> pv list option" where
  "py_list (PList xs) = Some xs"
| "py_list (PStr s) = Some (map (\<lambda>c. PStr [c]) s)"
| "py_list (PDict d) = Some (map PStr (keys d))"
| "py_list _ = None"

definition is_day :: "string \<Rightarrow> bool" where
  "is_day s = (case parse_date s of Some (d, []) \<Rightarrow> True | _ \<Rightarrow> False)"

text \<open>The value of a column after \<^verbatim>\<open>save\<close> and \<^verbatim>\<open>load\<close>, given the row it replaces and the clock of the database.\<close>

primrec column_value :: "string \<Rightarrow> pdict option \<Rightarrow> pdict \<Rightarrow> column \<Rightarrow> pv option" where
  "column_value now old r (Text c d) = text_column (dgetd r c (PStr d))"
| "column_value now old r (NullText c) = (if dget r c = PNone then Some PNone else text_column (dget r c))"
| "column_value now old r (OrEmpty c) = (if truthy (dget r c) then text_column (dget r c) else Some (PStr []))"
| "column_value now old r (Items c) = map_option PList (py_list (por (dget r c) (PList [])))"
| "column_value now old r (Json c d) = Some (por (dget r c) d)"
| "column_value now old r (Whole c) = map_option PInt (py_int (por (dget r c) (PInt 0)))"
| "column_value now old r (Day c) =
     (if truthy (dget r c)
      then (case dget r c of PStr s \<Rightarrow> if is_day s then Some (PStr s) else None | _ \<Rightarrow> None) else Some (PStr []))"
| "column_value now old r (Stamp c) = Some (PStr now)"
| "column_value now old r (Born c) = Some (case old of None \<Rightarrow> PStr now | Some o' \<Rightarrow> dget o' c)"

fun those :: "'a option list \<Rightarrow> 'a list option" where
  "those [] = Some []"
| "those (x # xs) = (case x of None \<Rightarrow> None | Some y \<Rightarrow> map_option (\<lambda>ys. y # ys) (those xs))"

record table_spec =
  tb_key :: "string option"
  tb_columns :: "column list"

definition row_of :: "table_spec \<Rightarrow> string \<Rightarrow> pdict option \<Rightarrow> string \<Rightarrow> pdict \<Rightarrow> pdict option" where
  "row_of tb now old k r =
     map_option (\<lambda>vs. (case tb_key tb of None \<Rightarrow> [] | Some c \<Rightarrow> [(c, PStr k)])
         @ List.zip (map column_name (tb_columns tb)) vs)
       (those (map (column_value now old r) (tb_columns tb)))"

definition table_save :: "table_spec \<Rightarrow> string \<Rightarrow> pdict dict \<Rightarrow> string \<Rightarrow> pdict \<Rightarrow> pdict dict option" where
  "table_save tb now t k r = map_option (dset t k) (row_of tb now (map_of t k) k r)"

definition table_delete :: "pdict dict \<Rightarrow> string \<Rightarrow> pdict dict" where
  "table_delete t k = AList.delete k t"

definition memory_save :: "string \<Rightarrow> pdict dict \<Rightarrow> string \<Rightarrow> pdict \<Rightarrow> pdict dict option" where
  "memory_save now t k r = Some (dset t k r)"

section \<open>The tables\<close>

definition USER_PROFILES :: table_spec where
  "USER_PROFILES = \<lparr>tb_key = None, tb_columns =
     [Text ''display_name'' [], Text ''department'' [], Items ''assigned_servers'', NullText ''updated_at'']\<rparr>"

definition ASSET_OWNERS :: table_spec where
  "ASSET_OWNERS = \<lparr>tb_key = Some ''hostname'', tb_columns =
     [Text ''owner'' [], Text ''category'' [], Text ''importance'' [], Text ''exception_until'' [],
      Text ''exception_reason'' [], Text ''email'' [], Text ''team'' [], NullText ''updated_at'']\<rparr>"

definition VULN_ACTIONS :: table_spec where
  "VULN_ACTIONS = \<lparr>tb_key = Some ''vuln_id'', tb_columns =
     [Text ''plan_text'' [], Text ''plan_target_date'' [], Text ''plan_updated_by'' [], Text ''exception_until'' [],
      Text ''exception_reason'' [], Text ''exception_updated_by'' [], NullText ''updated_at'']\<rparr>"

definition TRIAGE :: table_spec where
  "TRIAGE = \<lparr>tb_key = None, tb_columns =
     [Text ''status'' ''pending'', Text ''analyst'' [], Text ''note'' [], Text ''changed_by'' [], NullText ''updated_at'',
      Items ''history'']\<rparr>"

definition INCIDENTS :: table_spec where
  "INCIDENTS = \<lparr>tb_key = Some ''incident_id'', tb_columns =
     [Text ''title'' [], Text ''status'' ''open'', NullText ''status_updated_at'', Text ''hostname'' [], Text ''analyst'' [],
      Text ''handler'' [], Items ''alert_ids'', Items ''notes'', Items ''history'', NullText ''created_at'',
      NullText ''updated_at'']\<rparr>"

definition RISK_REGISTER :: table_spec where
  "RISK_REGISTER = \<lparr>tb_key = Some ''vuln_id'', tb_columns =
     [Whole ''impact'', Whole ''likelihood'', Whole ''score'', Text ''level'' [], Text ''treatment'' [],
      Text ''accept_reason'' [], Text ''accept_approver'' [], Text ''residual_level'' [], Text ''review_due'' [],
      Text ''assessed_by'' [], NullText ''assessed_at'', NullText ''updated_at'']\<rparr>"

definition CONTROL_STATUS :: table_spec where
  "CONTROL_STATUS = \<lparr>tb_key = Some ''control_id'', tb_columns =
     [Text ''status'' (utf8 [235, 175, 184, 236, 160, 149]), OrEmpty ''owner'', OrEmpty ''exception_reason'',
      OrEmpty ''improvement_plan'', Day ''due_date'', Stamp ''updated_at'', OrEmpty ''updated_by'']\<rparr>"

definition ACCOUNT_APPROVALS :: table_spec where
  "ACCOUNT_APPROVALS = \<lparr>tb_key = Some ''id'', tb_columns =
     [Text ''scope'' ''global'', OrEmpty ''host_key'', Text ''username'' [], Text ''kind'' ''account'', OrEmpty ''reason'',
      OrEmpty ''approver'', Day ''expires'', Born ''created_at'', Text ''status'' ''approved'', OrEmpty ''requested_by'']\<rparr>"

definition CONTROL_EVIDENCE :: table_spec where
  "CONTROL_EVIDENCE = \<lparr>tb_key = Some ''id'', tb_columns =
     [Text ''control_id'' [], Text ''title'' [], Text ''body'' [], Text ''collected_by'' [], Text ''collected_at'' [],
      Text ''reference'' [], Born ''created_at'', OrEmpty ''created_by'', Text ''source'' ''manual'']\<rparr>"

definition CATALOG_EDITS :: table_spec where
  "CATALOG_EDITS = \<lparr>tb_key = Some ''control_id'', tb_columns =
     [Text ''op'' ''upsert'', Text ''framework'' [], Text ''version'' [], Text ''domain'' [], Text ''section'' [],
      Text ''title_ko'' [], Text ''title_en'' [], Text ''intent_ko'' [], Text ''intent_en'' [],
      Text ''evidence_hint_ko'' [], Text ''evidence_hint_en'' [], Json ''evidence_sources'' (PList []), Json ''tags'' (PList []),
      Text ''status'' ''draft'', Text ''origin'' ''manual'', Stamp ''updated_at'', OrEmpty ''updated_by'']\<rparr>"

definition EVIDENCE_EVENTS :: table_spec where
  "EVIDENCE_EVENTS = \<lparr>tb_key = Some ''id'', tb_columns =
     [Text ''host_id'' [], Text ''artifact_name'' [], Text ''delta_type'' [], Text ''cve'' [], Text ''summary'' [],
      Text ''source'' ''csop'', Json ''envelope'' (PDict []), NullText ''received_at'']\<rparr>"

text \<open>A personal data flow is one \<^verbatim>\<open>jsonb\<close> value.\<close>

definition flow_save :: "string \<Rightarrow> pdict dict \<Rightarrow> string \<Rightarrow> pdict \<Rightarrow> pdict dict option" where
  "flow_save now t k r = Some (dset t k (dsetdefault r ''id'' (PStr k)))"

section \<open>The contract of a repository\<close>

text \<open>What a route relies on, whichever repository it writes to: after a record of the right types was saved, what
  \<^verbatim>\<open>load\<close> gives back for it has the same view, and no other record has changed.\<close>

locale state_table =
  fixes save :: "string \<Rightarrow> pdict dict \<Rightarrow> string \<Rightarrow> pdict \<Rightarrow> pdict dict option"
    and typed :: "string \<Rightarrow> pdict \<Rightarrow> bool"
    and view :: "pdict \<Rightarrow> pv list"
  assumes save_view: "typed k r \<Longrightarrow> save now t k r = Some t' \<Longrightarrow>
    map_option view (map_of t' k') = (if k' = k then Some (view r) else map_option view (map_of t k'))"
begin

text \<open>The dictionary of the routes and the repository agree when they have the same views.\<close>

definition agree :: "pdict dict \<Rightarrow> pdict dict \<Rightarrow> bool" where
  "agree cache t = (\<forall>k. map_option view (map_of cache k) = map_option view (map_of t k))"

lemma agree_save: "agree cache t \<Longrightarrow> typed k r \<Longrightarrow> save now t k r = Some t' \<Longrightarrow> agree (dset cache k r) t'"
  by (simp add: agree_def save_view)

lemma agree_delete: "agree cache t \<Longrightarrow> agree (AList.delete k cache) (table_delete t k)"
  by (simp add: agree_def table_delete_def delete_conv')

text \<open>A restart gives the routes what the repository loads.\<close>

lemma agree_restart: "agree cache t \<Longrightarrow> dwf t
    \<Longrightarrow> map_option view (map_of (dict_of t) k) = map_option view (map_of cache k)"
  by (simp add: agree_def dict_of_distinct)

end

text \<open>A repository that takes every record of a kind.\<close>

locale sure_table = state_table +
  fixes sure :: "pdict \<Rightarrow> bool"
  assumes save_sure: "typed k r \<Longrightarrow> sure r \<Longrightarrow> \<exists>t'. save now t k r = Some t'"
begin

lemma saved_and_seen: "agree cache t \<Longrightarrow> typed k r \<Longrightarrow> sure r
    \<Longrightarrow> \<exists>t'. save now t k r = Some t' \<and> agree (dset cache k r) t'"
  using save_sure [of k r now t] agree_save by blast

end

section \<open>The tables keep the contract\<close>

primrec database_made :: "column \<Rightarrow> bool" where
  "database_made (Text c d) = False"
| "database_made (NullText c) = False"
| "database_made (OrEmpty c) = False"
| "database_made (Items c) = False"
| "database_made (Json c d) = False"
| "database_made (Whole c) = False"
| "database_made (Day c) = False"
| "database_made (Stamp c) = True"
| "database_made (Born c) = True"

fun is_text :: "pv \<Rightarrow> bool" where
  "is_text (PStr s) = True"
| "is_text _ = False"

fun is_plist :: "pv \<Rightarrow> bool" where
  "is_plist (PList xs) = True"
| "is_plist _ = False"

fun is_pint :: "pv \<Rightarrow> bool" where
  "is_pint (PInt i) = True"
| "is_pint _ = False"

primrec column_typed :: "pdict \<Rightarrow> column \<Rightarrow> bool" where
  "column_typed r (Text c d) = is_text (dget r c)"
| "column_typed r (NullText c) = (dget r c = PNone \<or> is_text (dget r c))"
| "column_typed r (OrEmpty c) = is_text (dget r c)"
| "column_typed r (Items c) = is_plist (dget r c)"
| "column_typed r (Json c d) = (truthy (dget r c) \<or> dget r c = d)"
| "column_typed r (Whole c) = is_pint (dget r c)"
| "column_typed r (Day c) = is_text (dget r c)"
| "column_typed r (Stamp c) = True"
| "column_typed r (Born c) = True"

text \<open>The values that the database takes.\<close>

definition no_zero :: "pv \<Rightarrow> bool" where
  "no_zero v = (case v of PStr s \<Rightarrow> CHR 0x00 \<notin> set s | _ \<Rightarrow> True)"

primrec column_sure :: "pdict \<Rightarrow> column \<Rightarrow> bool" where
  "column_sure r (Text c d) = no_zero (dget r c)"
| "column_sure r (NullText c) = no_zero (dget r c)"
| "column_sure r (OrEmpty c) = no_zero (dget r c)"
| "column_sure r (Items c) = True"
| "column_sure r (Json c d) = True"
| "column_sure r (Whole c) = True"
| "column_sure r (Day c) = (case dget r c of PStr s \<Rightarrow> s = [] \<or> is_day s | _ \<Rightarrow> False)"
| "column_sure r (Stamp c) = True"
| "column_sure r (Born c) = True"

definition kept_names :: "table_spec \<Rightarrow> string list" where
  "kept_names tb = (case tb_key tb of None \<Rightarrow> [] | Some c \<Rightarrow> [c])
     @ map column_name (filter (\<lambda>c. \<not> database_made c) (tb_columns tb))"

definition row_view :: "table_spec \<Rightarrow> pdict \<Rightarrow> pv list" where
  "row_view tb r = map (dget r) (kept_names tb)"

definition row_typed :: "table_spec \<Rightarrow> string \<Rightarrow> pdict \<Rightarrow> bool" where
  "row_typed tb k r = (list_all (column_typed r) (tb_columns tb)
     \<and> (case tb_key tb of None \<Rightarrow> True | Some c \<Rightarrow> dget r c = PStr k))"

definition row_sure :: "table_spec \<Rightarrow> pdict \<Rightarrow> bool" where
  "row_sure tb r = list_all (column_sure r) (tb_columns tb)"

definition spec_ok :: "table_spec \<Rightarrow> bool" where
  "spec_ok tb = distinct ((case tb_key tb of None \<Rightarrow> [] | Some c \<Rightarrow> [c]) @ map column_name (tb_columns tb))"

lemma is_text_iff: "is_text v \<longleftrightarrow> (\<exists>s. v = PStr s)"
  by (cases v) auto

lemma is_plist_iff: "is_plist v \<longleftrightarrow> (\<exists>xs. v = PList xs)"
  by (cases v) auto

lemma dgetd_text: "is_text (dget r k) \<Longrightarrow> dgetd r k v = dget r k"
  by (auto simp: dgetd_def dget_def is_text_iff split: option.splits)

lemma column_value_typed:
  assumes "column_typed r c" "column_value now old r c = Some v" "\<not> database_made c"
  shows "v = dget r (column_name c)"
proof (cases c)
  case (Text x d)
  then show ?thesis using assms by (auto simp: dgetd_text is_text_iff clean_text_def split: if_splits)
next
  case (OrEmpty x)
  then show ?thesis using assms by (cases "dget r x") (auto simp: clean_text_def split: if_splits)
next
  case (Items x)
  then show ?thesis using assms by (cases "dget r x") (auto simp: por_def split: if_splits)
next
  case (Whole x)
  then show ?thesis using assms by (cases "dget r x") (auto simp: por_def split: if_splits)
next
  case (Day x)
  then show ?thesis using assms by (cases "dget r x") (auto split: if_splits)
qed (use assms in \<open>auto simp: por_def is_text_iff clean_text_def split: if_splits\<close>)

lemma column_value_sure: "column_typed r c \<Longrightarrow> column_sure r c \<Longrightarrow> \<exists>v. column_value now old r c = Some v"
proof (cases c)
  case (OrEmpty x)
  then show "column_typed r c \<Longrightarrow> column_sure r c \<Longrightarrow> ?thesis"
    by (cases "dget r x") (auto simp: no_zero_def clean_text_def)
next
  case (Items x)
  then show "column_typed r c \<Longrightarrow> column_sure r c \<Longrightarrow> ?thesis"
    by (cases "dget r x") (auto simp: por_def)
next
  case (Whole x)
  then show "column_typed r c \<Longrightarrow> column_sure r c \<Longrightarrow> ?thesis"
    by (cases "dget r x") (auto simp: por_def)
qed (auto simp: dgetd_text is_text_iff no_zero_def clean_text_def)

lemma those_zip: "those (map f cs) = Some vs \<Longrightarrow> list_all2 (\<lambda>c v. f c = Some v) cs vs"
  by (induction cs arbitrary: vs) (auto split: option.splits)

lemma those_sure: "list_all (\<lambda>c. \<exists>v. f c = Some v) cs \<Longrightarrow> \<exists>vs. those (map f cs) = Some vs"
  by (induction cs) auto

lemma list_all2_zip:
  "list_all2 P cs vs \<Longrightarrow> distinct (map f cs) \<Longrightarrow> c \<in> set cs \<Longrightarrow> \<exists>v. map_of (List.zip (map f cs) vs) (f c) = Some v \<and> P c v"
  by (induction rule: list_all2_induct) (auto simp: image_iff)

text \<open>A row has the values of its columns.\<close>

lemma row_of_column:
  assumes "spec_ok tb" "row_of tb now old k r = Some row" "c \<in> set (tb_columns tb)"
  shows "column_value now old r c = Some (dget row (column_name c))"
proof -
  let ?cs = "tb_columns tb"
  obtain vs where vs: "those (map (column_value now old r) ?cs) = Some vs"
    and row: "row = (case tb_key tb of None \<Rightarrow> [] | Some c \<Rightarrow> [(c, PStr k)]) @ List.zip (map column_name ?cs) vs"
    using assms(2) by (auto simp: row_of_def)
  have d: "distinct (map column_name ?cs)" and new: "tb_key tb \<noteq> Some (column_name c)"
    using assms(1,3) by (auto simp: spec_ok_def split: option.splits)
  obtain v where "map_of (List.zip (map column_name ?cs) vs) (column_name c) = Some v" "column_value now old r c = Some v"
    using list_all2_zip [OF those_zip [OF vs] d assms(3)] by blast
  then show ?thesis using new by (auto simp: row dget_append dget_def dhas_def split: option.splits)
qed

lemma row_of_text:
  assumes "spec_ok tb" "row_of tb now old k r = Some row" "Text c d \<in> set (tb_columns tb)" "dget r c = PStr s"
  shows "dget row c = PStr s"
proof -
  have "dgetd r c (PStr d) = PStr s" using assms(4) by (auto simp: dgetd_def dget_def split: option.splits)
  then show ?thesis using row_of_column [OF assms(1-3)] by (simp add: clean_text_def split: if_splits)
qed

lemma row_of_items:
  assumes "spec_ok tb" "row_of tb now old k r = Some row" "Items c \<in> set (tb_columns tb)" "dget r c = PList xs"
  shows "dget row c = PList xs"
  using row_of_column [OF assms(1-3)] assms(4) by (cases xs) (simp_all add: por_def)

lemma row_of_key: "tb_key tb = Some c \<Longrightarrow> row_of tb now old k r = Some row \<Longrightarrow> dget row c = PStr k"
  by (auto simp: row_of_def)

lemma row_of_other:
  "row_of tb now old k r = Some row \<Longrightarrow> tb_key tb \<noteq> Some n \<Longrightarrow> n \<notin> column_name ` set (tb_columns tb) \<Longrightarrow> dget row n = PNone"
  by (auto simp: row_of_def dget_append dget_def dhas_def split: option.splits dest!: map_of_SomeD set_zip_leftD)

lemma row_of_view:
  assumes "spec_ok tb" "row_typed tb k r" "row_of tb now old k r = Some row"
  shows "row_view tb row = row_view tb r"
proof -
  have "dget row (column_name c) = dget r (column_name c)" if "c \<in> set (tb_columns tb)" "\<not> database_made c" for c
    using column_value_typed [OF _ row_of_column [OF assms(1,3) that(1)] that(2)] assms(2) that(1)
    by (simp add: row_typed_def list_all_iff)
  moreover have "dget row c = dget r c" if "tb_key tb = Some c" for c
    using row_of_key [OF that assms(3)] assms(2) that by (simp add: row_typed_def)
  ultimately show ?thesis by (auto simp: row_view_def kept_names_def split: option.splits)
qed

lemma row_of_sure: "row_typed tb k r \<Longrightarrow> row_sure tb r \<Longrightarrow> \<exists>row. row_of tb now old k r = Some row"
  using those_sure [of "column_value now old r" "tb_columns tb"] column_value_sure
  by (fastforce simp: row_of_def row_typed_def row_sure_def list_all_iff)

lemma table_keeps_contract:
  assumes "spec_ok tb"
  shows "sure_table (table_save tb) (row_typed tb) (row_view tb) (row_sure tb)"
proof
  fix k r now t t' k'
  assume "row_typed tb k r" "table_save tb now t k r = Some t'"
  then show "map_option (row_view tb) (map_of t' k') =
      (if k' = k then Some (row_view tb r) else map_option (row_view tb) (map_of t k'))"
    using row_of_view [OF assms] by (auto simp: table_save_def)
next
  fix k r now t assume "row_typed tb k r" "row_sure tb r"
  then show "\<exists>t'. table_save tb now t k r = Some t'" using row_of_sure by (fastforce simp: table_save_def)
qed

interpretation owners: sure_table "table_save ASSET_OWNERS" "row_typed ASSET_OWNERS" "row_view ASSET_OWNERS" "row_sure ASSET_OWNERS"
  by (rule table_keeps_contract) (simp add: spec_ok_def ASSET_OWNERS_def)

interpretation vuln_rows: sure_table "table_save VULN_ACTIONS" "row_typed VULN_ACTIONS" "row_view VULN_ACTIONS" "row_sure VULN_ACTIONS"
  by (rule table_keeps_contract) (simp add: spec_ok_def VULN_ACTIONS_def)

interpretation triage_rows: sure_table "table_save TRIAGE" "row_typed TRIAGE" "row_view TRIAGE" "row_sure TRIAGE"
  by (rule table_keeps_contract) (simp add: spec_ok_def TRIAGE_def)

interpretation incident_rows: sure_table "table_save INCIDENTS" "row_typed INCIDENTS" "row_view INCIDENTS" "row_sure INCIDENTS"
  by (rule table_keeps_contract) (simp add: spec_ok_def INCIDENTS_def)

interpretation risk_rows: sure_table "table_save RISK_REGISTER" "row_typed RISK_REGISTER" "row_view RISK_REGISTER" "row_sure RISK_REGISTER"
  by (rule table_keeps_contract) (simp add: spec_ok_def RISK_REGISTER_def)

interpretation approval_rows: sure_table "table_save ACCOUNT_APPROVALS" "row_typed ACCOUNT_APPROVALS" "row_view ACCOUNT_APPROVALS"
    "row_sure ACCOUNT_APPROVALS"
  by (rule table_keeps_contract) (simp add: spec_ok_def ACCOUNT_APPROVALS_def)

text \<open>The repository in memory keeps every record as it is, so any view will do.\<close>

interpretation memory_rows: sure_table memory_save "\<lambda>k r. True" "row_view tb" "\<lambda>r. True" for tb
  by unfold_locales (auto simp: memory_save_def)

section \<open>Cache and repository\<close>

text \<open>The dictionary of the routes over its table.  A call works with the repository in memory, with the
  database, whose clock is given, or with a database that does not answer.\<close>

datatype backend = InMemory | Database string | Down

fun writer :: "backend \<Rightarrow> table_spec \<Rightarrow> pdict dict \<Rightarrow> string \<Rightarrow> pdict \<Rightarrow> pdict dict option" where
  "writer InMemory tb = memory_save []"
| "writer (Database now) tb = table_save tb now"
| "writer Down tb = (\<lambda>t k r. None)"

record rec_store =
  rs_cache :: "pdict dict"
  rs_disk :: "pdict dict"

definition cached :: "string \<Rightarrow> pdict \<Rightarrow> rec_store \<Rightarrow> rec_store" where
  "cached k r s = s\<lparr>rs_cache := dset (rs_cache s) k r\<rparr>"

text \<open>\<^verbatim>\<open>_persist_...(key)\<close>; \<open>None\<close> where it raises.\<close>

definition persist :: "backend \<Rightarrow> table_spec \<Rightarrow> string \<Rightarrow> rec_store \<Rightarrow> rec_store option" where
  "persist b tb k s =
     (case map_of (rs_cache s) k of
        None \<Rightarrow> None
      | Some r \<Rightarrow> map_option (\<lambda>t. s\<lparr>rs_disk := t\<rparr>) (writer b tb (rs_disk s) k r))"

text \<open>A change of the cached record followed by \<^verbatim>\<open>_persist\<close>: whether it succeeded, and the state.\<close>

definition commit :: "backend \<Rightarrow> table_spec \<Rightarrow> string \<Rightarrow> pdict \<Rightarrow> rec_store \<Rightarrow> bool \<times> rec_store" where
  "commit b tb k r s =
     (case persist b tb k (cached k r s) of None \<Rightarrow> (False, cached k r s) | Some s' \<Rightarrow> (True, s'))"

definition uncommit :: "backend \<Rightarrow> string \<Rightarrow> rec_store \<Rightarrow> bool \<times> rec_store" where
  "uncommit b k s =
     (let s' = s\<lparr>rs_cache := AList.delete k (rs_cache s)\<rparr>
      in if b = Down then (False, s') else (True, s'\<lparr>rs_disk := table_delete (rs_disk s') k\<rparr>))"

text \<open>A restart reads the repository again.  The rows of the in-memory repository are kept, as where a test builds the
  application twice over one repository; a new process would start with an empty one.\<close>

definition reboot :: "rec_store \<Rightarrow> rec_store" where
  "reboot s = s\<lparr>rs_cache := dict_of (rs_disk s)\<rparr>"

definition empty_store :: rec_store where
  "empty_store = \<lparr>rs_cache = [], rs_disk = []\<rparr>"

lemma writer_result: "writer b tb t k r = Some t' \<Longrightarrow>
    \<exists>row. t' = dset t k row \<and> (row = r \<or> (\<exists>now. row_of tb now (map_of t k) k r = Some row))"
  by (cases b) (auto simp: memory_save_def table_save_def)

text \<open>A property of records and their keys that the table keeps holds in the cache and in the repository.\<close>

definition holds :: "(string \<Rightarrow> pdict \<Rightarrow> bool) \<Rightarrow> pdict dict \<Rightarrow> bool" where
  "holds P d = (\<forall>k r. map_of d k = Some r \<longrightarrow> P k r)"

definition store_all :: "(string \<Rightarrow> pdict \<Rightarrow> bool) \<Rightarrow> rec_store \<Rightarrow> bool" where
  "store_all P s = (dwf (rs_disk s) \<and> holds P (rs_cache s) \<and> holds P (rs_disk s))"

definition table_keeps :: "table_spec \<Rightarrow> (string \<Rightarrow> pdict \<Rightarrow> bool) \<Rightarrow> bool" where
  "table_keeps tb P = (\<forall>now old k r row. P k r \<longrightarrow> row_of tb now old k r = Some row \<longrightarrow> P k row)"

lemma holds_dset: "holds P d \<Longrightarrow> P k r \<Longrightarrow> holds P (dset d k r)"
  by (simp add: holds_def)

lemma holds_delete: "holds P d \<Longrightarrow> holds P (AList.delete k d)"
  by (simp add: holds_def delete_conv')

lemma holds_get: "holds P d \<Longrightarrow> map_of d k = Some r \<Longrightarrow> P k r"
  by (simp add: holds_def)

lemma store_all_empty [simp]: "store_all P empty_store"
  by (simp add: store_all_def empty_store_def holds_def)

lemma store_all_cached: "store_all P s \<Longrightarrow> P k r \<Longrightarrow> store_all P (cached k r s)"
  by (simp add: store_all_def cached_def holds_dset)

lemma store_all_commit: "store_all P s \<Longrightarrow> P k r \<Longrightarrow> table_keeps tb P \<Longrightarrow> store_all P (snd (commit b tb k r s))"
  by (auto simp: commit_def persist_def store_all_def cached_def table_keeps_def holds_dset split: option.splits
      dest!: writer_result)

lemma store_all_uncommit: "store_all P s \<Longrightarrow> store_all P (snd (uncommit b k s))"
  by (simp add: uncommit_def store_all_def table_delete_def holds_delete distinct_delete Let_def)

lemma store_all_reboot: "store_all P s \<Longrightarrow> store_all P (reboot s)"
  by (simp add: reboot_def store_all_def dict_of_distinct)

lemma store_all_get: "store_all P s \<Longrightarrow> map_of (rs_cache s) k = Some r \<Longrightarrow> P k r"
  by (auto simp: store_all_def dest: holds_get)

text \<open>The types of a record are kept.\<close>

lemma column_typed_cong: "dget row (column_name c) = dget r (column_name c) \<Longrightarrow> column_typed r c \<Longrightarrow> column_typed row c"
  by (cases c) simp_all

lemma row_of_kept:
  assumes "spec_ok tb" "row_typed tb k r" "row_of tb now old k r = Some row" "n \<in> set (kept_names tb)"
  shows "dget row n = dget r n"
proof -
  have "map (dget row) (kept_names tb) = map (dget r) (kept_names tb)"
    using row_of_view [OF assms(1-3)] by (simp add: row_view_def)
  then show ?thesis using assms(4) by simp
qed

lemma typed_kept: "spec_ok tb \<Longrightarrow> row_typed tb k r \<Longrightarrow> row_of tb now old k r = Some row \<Longrightarrow> row_typed tb k row"
proof -
  assume a: "spec_ok tb" "row_typed tb k r" "row_of tb now old k r = Some row"
  have "column_typed row c" if "c \<in> set (tb_columns tb)" for c
  proof (cases "database_made c")
    case True
    then show ?thesis by (cases c) simp_all
  next
    case False
    then have "column_name c \<in> set (kept_names tb)" using that by (auto simp: kept_names_def)
    then show ?thesis
      using row_of_kept [OF a] a(2) that by (intro column_typed_cong [of row c r]) (auto simp: row_typed_def list_all_iff)
  qed
  moreover have "dget row c = PStr k" if "tb_key tb = Some c" for c using row_of_key [OF that a(3)] .
  ultimately show ?thesis by (simp add: row_typed_def list_all_iff split: option.split)
qed

lemma row_typed_dset:
  assumes "row_typed tb k r" "tb_key tb \<noteq> Some n"
    and "\<And>c. c \<in> set (tb_columns tb) \<Longrightarrow> column_name c = n \<Longrightarrow> column_typed (dset r n v) c"
  shows "row_typed tb k (dset r n v)"
proof -
  have "column_typed (dset r n v) c" if "c \<in> set (tb_columns tb)" for c
    using assms(1,3) that by (cases "column_name c = n") (auto simp: row_typed_def list_all_iff intro: column_typed_cong)
  then show ?thesis using assms(1,2) by (auto simp: row_typed_def list_all_iff split: option.splits)
qed

text \<open>So a property of a record that depends on kept fields is kept with the types.\<close>

lemma table_keeps_view:
  assumes "spec_ok tb" "\<And>k r r'. P r \<Longrightarrow> \<forall>n \<in> set (kept_names tb). dget r' n = dget r n \<Longrightarrow> P r'"
  shows "table_keeps tb (\<lambda>k r. row_typed tb k r \<and> P r)"
  unfolding table_keeps_def using assms(2) typed_kept [OF assms(1)] row_of_kept [OF assms(1)] by blast

text \<open>The cache agrees with the repository as long as every write succeeds, and then a restart changes nothing
  that the table stores.\<close>

definition stored :: "table_spec \<Rightarrow> rec_store \<Rightarrow> bool" where
  "stored tb s = (dwf (rs_disk s) \<and> state_table.agree (row_view tb) (rs_cache s) (rs_disk s))"

lemma stored_empty: "stored tb empty_store"
  by (simp add: stored_def empty_store_def memory_rows.agree_def)

lemma stored_commit:
  assumes "spec_ok tb" "stored tb s" "row_typed tb k r" "fst (commit b tb k r s)"
  shows "stored tb (snd (commit b tb k r s))"
proof -
  obtain t where w: "writer b tb (rs_disk s) k r = Some t" and c: "snd (commit b tb k r s) = \<lparr>rs_cache = dset (rs_cache s) k r, rs_disk = t\<rparr>"
    using assms(4) by (auto simp: commit_def persist_def cached_def split: option.splits)
  have "state_table.agree (row_view tb) (dset (rs_cache s) k r) t"
  proof (cases b)
    case InMemory
    then show ?thesis using w assms(2) memory_rows.agree_save [where tb = tb] by (auto simp: stored_def)
  next
    case (Database now)
    have "sure_table (table_save tb) (row_typed tb) (row_view tb) (row_sure tb)" by (rule table_keeps_contract [OF assms(1)])
    then have "state_table (table_save tb) (row_typed tb) (row_view tb)" by (simp add: sure_table_def)
    from state_table.agree_save [OF this _ assms(3)] show ?thesis using Database w assms(2) by (auto simp: stored_def)
  qed (use w in simp)
  moreover have "dwf t" using w assms(2) by (auto simp: stored_def dest!: writer_result)
  ultimately show ?thesis by (simp add: stored_def c)
qed

lemma stored_uncommit: "stored tb s \<Longrightarrow> fst (uncommit b k s) \<Longrightarrow> stored tb (snd (uncommit b k s))"
  by (auto simp: stored_def uncommit_def Let_def memory_rows.agree_delete distinct_delete table_delete_def split: if_splits
      dest: memory_rows.agree_delete [where k = k])

lemma stored_reboot: "stored tb s \<Longrightarrow> stored tb (reboot s)"
  by (simp add: stored_def reboot_def memory_rows.agree_def dict_of_distinct)

lemma reboot_keeps: "stored tb s
    \<Longrightarrow> map_option (row_view tb) (map_of (rs_cache (reboot s)) k) = map_option (row_view tb) (map_of (rs_cache s) k)"
  unfolding stored_def reboot_def using memory_rows.agree_restart by simp

end
