(* ===== verification/Incidents.thy ===== *)
theory Incidents
  imports State_Tables Gov_Store Entities Csv
begin

text \<open>
  The routes that work on incidents and on the triage of alerts (\<^verbatim>\<open>api/routes/incidents.py\<close>,
  \<^verbatim>\<open>api/routes/alerts.py\<close>), the action plans and the webhooks (\<^verbatim>\<open>api/routes/plans.py\<close>,
  \<^verbatim>\<open>api/routes/webhooks.py\<close>).  A call gets its backend, its request, the identifier that \<^verbatim>\<open>uuid4\<close> draws and its
  payload.  A handler changes the cached record in place before it writes it through, so a call that fails
  half-way leaves the cache changed; the answer of the handlers keeps that state.
\<close>

text \<open>The end of a handler: write the changed record through and answer with it, or fail.\<close>

definition saved :: "backend \<Rightarrow> table_spec \<Rightarrow> string \<Rightarrow> pdict \<Rightarrow> 'a \<Rightarrow> rec_store \<Rightarrow> (herr + 'a) \<times> rec_store" where
  "saved b tb k r out s =
     (case commit b tb k r s of (False, s') \<Rightarrow> (Inl ServerError, s') | (True, s') \<Rightarrow> (Inr out, s'))"

lemma snd_saved [simp]: "snd (saved b tb k r out s) = snd (commit b tb k r s)"
  by (simp add: saved_def split: prod.split bool.split)

lemma saved_answer: "fst (saved b tb k r out s) = (if fst (commit b tb k r s) then Inr out else Inl ServerError)"
  by (simp add: saved_def split: prod.split bool.split)

text \<open>\<^verbatim>\<open>get_session_username(request) or "unknown"\<close>.\<close>

definition user_of :: "gov_request \<Rightarrow> string" where
  "user_of rq = sor (rq_user rq) ''unknown''"

section \<open>Incidents\<close>

definition INCIDENT_STATUSES :: "string list" where
  "INCIDENT_STATUSES = [''open'', ''investigating'', ''resolved'', ''closed'']"

fun hashable :: "pv \<Rightarrow> bool" where
  "hashable (PList xs) = False"
| "hashable (PDict d) = False"
| "hashable _ = True"

definition incidents_create ::
    "backend \<Rightarrow> gov_request \<Rightarrow> string \<Rightarrow> pdict \<Rightarrow> rec_store \<Rightarrow> (herr + pdict) \<times> rec_store" where
  "incidents_create b rq uuid payload s =
     (let title = pstrip payload ''title'';
          now = PStr (rq_now rq);
          analyst = sor (pstrip payload ''analyst'') ''unknown'';
          handler = pstrip payload ''handler''
      in if title = [] then (Inl BadRequest, s)
         else case py_list (por (dget payload ''alert_ids'') (PList [])) of
           None \<Rightarrow> (Inl ServerError, s)
         | Some ids \<Rightarrow>
             let incident =
               [(''incident_id'', PStr uuid), (''title'', PStr title), (''status'', PStr ''open''),
                (''status_updated_at'', now), (''hostname'', PStr (pstrip payload ''hostname'')),
                (''analyst'', PStr analyst), (''handler'', PStr (sor handler analyst)), (''alert_ids'', PList ids),
                (''notes'', PList []),
                (''history'', PList [PDict [(''event'', PStr ''created''), (''to_status'', PStr ''open''),
                   (''analyst'', PStr analyst), (''changed_at'', now)]]),
                (''created_at'', now), (''updated_at'', now)]
             in saved b INCIDENTS uuid incident incident s)"

definition incident_actor :: "gov_request \<Rightarrow> pdict \<Rightarrow> string" where
  "incident_actor rq payload = sor (pstrip payload ''actor'') (sor (rq_user rq) ''unknown'')"

definition status_entry :: "pv \<Rightarrow> pv \<Rightarrow> string \<Rightarrow> string \<Rightarrow> pv" where
  "status_entry prev new actor now =
     PDict [(''event'', PStr ''status_changed''), (''from_status'', prev), (''to_status'', new), (''analyst'', PStr actor),
            (''changed_at'', PStr now)]"

text \<open>The steps of an update; each returns the changed record, the first one also a refusal.\<close>

definition set_status :: "string \<Rightarrow> string \<Rightarrow> pdict \<Rightarrow> pdict \<Rightarrow> herr + pdict" where
  "set_status actor now payload inc =
     (if \<not> dhas payload ''status'' then Inr inc
      else let new = dget payload ''status''; prev = dgetd inc ''status'' (PStr ''open'')
        in if \<not> hashable new then Inl ServerError
           else if new \<notin> PStr ` set INCIDENT_STATUSES then Inl BadRequest
           else Inr (dset (if new \<noteq> prev
             then dset (dappend inc ''history'' (status_entry prev new actor now)) ''status_updated_at'' (PStr now)
             else inc) ''status'' new))"

definition set_person :: "string \<Rightarrow> string \<Rightarrow> string \<Rightarrow> pdict \<Rightarrow> pdict \<Rightarrow> pdict" where
  "set_person field actor now payload inc =
     (if \<not> dhas payload field then inc
      else let new = strip (pstr (dget payload field)); prev = dgetd inc field (PStr [])
        in if new \<noteq> [] \<and> PStr new \<noteq> prev
           then dset (dappend inc ''history'' (PDict [(''event'', PStr (field @ ''_changed'')), (''from_'' @ field, prev),
                  (''to_'' @ field, PStr new), (''analyst'', PStr actor), (''changed_at'', PStr now)])) field (PStr new)
           else inc)"

definition set_title :: "pdict \<Rightarrow> pdict \<Rightarrow> pdict" where
  "set_title payload inc =
     (if dhas payload ''title'' then dset inc ''title'' (PStr (strip (pstr (dget payload ''title'')))) else inc)"

definition set_alert_ids :: "pdict \<Rightarrow> pdict \<Rightarrow> pdict option" where
  "set_alert_ids payload inc =
     (if \<not> dhas payload ''alert_ids'' then Some inc
      else map_option (\<lambda>xs. dset inc ''alert_ids'' (PList xs)) (py_list (por (dget payload ''alert_ids'') (PList []))))"

definition incidents_update ::
    "backend \<Rightarrow> gov_request \<Rightarrow> string \<Rightarrow> pdict \<Rightarrow> rec_store \<Rightarrow> (herr + pdict) \<times> rec_store" where
  "incidents_update b rq i payload s =
     (case map_of (rs_cache s) i of
        None \<Rightarrow> (Inl NotFound, s)
      | Some inc \<Rightarrow>
          let actor = incident_actor rq payload; now = rq_now rq
          in case set_status actor now payload inc of
               Inl e \<Rightarrow> (Inl e, s)
             | Inr inc \<Rightarrow>
                 let inc = set_title payload
                       (set_person ''handler'' actor now payload (set_person ''analyst'' actor now payload inc))
                 in case set_alert_ids payload inc of
                      None \<Rightarrow> (Inl ServerError, cached i inc s)
                    | Some inc \<Rightarrow>
                        let inc = dset inc ''updated_at'' (PStr now)
                        in saved b INCIDENTS i inc inc s)"

definition incidents_add_note ::
    "backend \<Rightarrow> gov_request \<Rightarrow> string \<Rightarrow> string \<Rightarrow> pdict \<Rightarrow> rec_store \<Rightarrow> (herr + pdict) \<times> rec_store" where
  "incidents_add_note b rq uuid i payload s =
     (case map_of (rs_cache s) i of
        None \<Rightarrow> (Inl NotFound, s)
      | Some inc \<Rightarrow>
          if pstrip payload ''text'' = [] then (Inl BadRequest, s)
          else if \<not> dhas inc ''notes'' then (Inl ServerError, s)
          else let note = [(''note_id'', PStr uuid), (''text'', PStr (pstrip payload ''text'')),
                 (''analyst'', PStr (sor (pstrip payload ''analyst'') ''unknown'')), (''created_at'', PStr (rq_now rq))];
                   inc = dset (dappend inc ''notes'' (PDict note)) ''updated_at'' (PStr (rq_now rq))
            in saved b INCIDENTS i inc note s)"

section \<open>The list of incidents\<close>

text \<open>\<^verbatim>\<open>_isoformat\<close> of a datetime, \<open>None\<close> where it leaves the calendar.\<close>

definition isoformat_of :: "dtime \<Rightarrow> string option" where
  "isoformat_of d =
     (let us = dt_us d - (case dt_off d of None \<Rightarrow> 0 | Some x \<Rightarrow> x)
      in if 0 \<le> us \<and> us < days_before_year 10000 * DAY_US then Some (iso_text us @ ''Z'') else None)"

definition end_of_day :: "dtime \<Rightarrow> dtime" where
  "end_of_day d = d\<lparr>dt_us := dt_us d div DAY_US * DAY_US + time_us 23 59 59 + dt_us d mod US\<rparr>"

definition date_bound :: "(dtime \<Rightarrow> dtime) \<Rightarrow> string \<Rightarrow> herr + string" where
  "date_bound f text =
     (case from_iso (z_to_offset text) of
        None \<Rightarrow> Inl BadRequest
      | Some d \<Rightarrow> (case isoformat_of (f d) of None \<Rightarrow> Inl ServerError | Some t \<Rightarrow> Inr t))"

definition found_in :: "string \<Rightarrow> pdict \<Rightarrow> bool" where
  "found_in kw inc = list_ex (\<lambda>k. contains kw (lower (pstr (dgetd inc k (PStr []))))) [''title'', ''analyst'', ''status'']"

definition related_hosts :: "host list \<Rightarrow> alert list \<Rightarrow> pdict \<Rightarrow> string list" where
  "related_hosts hosts alerts inc =
     (let names = dict_of (map (\<lambda>h. (ho_id h, ho_hostname h)) hosts);
          found = dict_of (map (\<lambda>a. (al_id a, a)) alerts);
          name_of = (\<lambda>a. let hid = (case al_host_id a of None \<Rightarrow> [] | Some h \<Rightarrow> h)
                     in case map_of names hid of None \<Rightarrow> hid | Some n \<Rightarrow> n)
      in foldl (\<lambda>acc v. case map_of found (pstr v) of
             None \<Rightarrow> acc
           | Some a \<Rightarrow> let n = name_of a in if n \<noteq> [] \<and> n \<notin> set acc then acc @ [n] else acc)
           [] (filter is_text (as_list (dget inc ''alert_ids''))))"

definition owner_label :: "pdict \<Rightarrow> string" where
  "owner_label e = join '' / '' (filter (\<lambda>p. p \<noteq> []) [pstr (dgetd e ''owner'' (PStr [])), pstr (dgetd e ''team'' (PStr []))])"

definition related_owners :: "pdict dict \<Rightarrow> string list \<Rightarrow> string list" where
  "related_owners owners hosts =
     foldl (\<lambda>acc h. let l = owner_label (case map_of owners h of None \<Rightarrow> [] | Some e \<Rightarrow> e)
        in if l \<noteq> [] \<and> l \<notin> set acc then acc @ [l] else acc) [] hosts"

text \<open>The filters of the list, and the list with the hosts and owners of each incident.\<close>

definition filter_incidents :: "string \<Rightarrow> string \<Rightarrow> string \<Rightarrow> pdict list \<Rightarrow> herr + pdict list" where
  "filter_incidents date_from date_to search items =
     (case (if date_from = [] then Inr items
            else case date_bound id date_from of Inl e \<Rightarrow> Inl e
              | Inr t \<Rightarrow> Inr (filter (\<lambda>i. t \<le> pstr (dgetd i ''created_at'' (PStr []))) items)) of
        Inl e \<Rightarrow> Inl e
      | Inr items \<Rightarrow>
          (case (if date_to = [] then Inr items
                 else case date_bound end_of_day date_to of Inl e \<Rightarrow> Inl e
                   | Inr t \<Rightarrow> Inr (filter (\<lambda>i. pstr (dgetd i ''created_at'' (PStr [])) \<le> t) items)) of
             Inl e \<Rightarrow> Inl e
           | Inr items \<Rightarrow> Inr (if search = [] then items else filter (found_in (lower search)) items)))"

definition incidents_list ::
    "host list \<Rightarrow> alert list \<Rightarrow> pdict dict \<Rightarrow> string \<Rightarrow> string \<Rightarrow> string \<Rightarrow> rec_store \<Rightarrow> herr + pdict list" where
  "incidents_list hosts alerts owners date_from date_to search s =
     (case filter_incidents date_from date_to search (map snd (rs_cache s)) of
        Inl e \<Rightarrow> Inl e
      | Inr items \<Rightarrow>
          if list_ex (\<lambda>inc. list_ex (\<lambda>v. \<not> hashable v) (as_list (dget inc ''alert_ids''))) items then Inl ServerError
          else Inr (map (\<lambda>inc. let rel = related_hosts hosts alerts inc
          in dset (dset inc ''related_hosts'' (of_strs rel)) ''related_owners'' (of_strs (related_owners owners rel))) items))"

text \<open>The list as a table: the columns, in bytes of their Korean titles, and the row of an incident.\<close>

definition INCIDENT_COLUMNS :: "(string \<times> string) list" where
  "INCIDENT_COLUMNS =
     [(utf8 [236, 157, 184, 236, 139, 156, 235, 141, 152, 237, 138, 184, 73, 68], ''incident_id''),
      (utf8 [236, 160, 156, 235, 170, 169], ''title''),
      (utf8 [236, 131, 129, 237, 131, 156], ''status''),
      (utf8 [236, 131, 157, 236, 132, 177, 236, 157, 188, 236, 139, 156], ''created_at''),
      (utf8 [236, 136, 152, 236, 160, 149, 236, 157, 188, 236, 139, 156], ''updated_at''),
      (utf8 [236, 131, 129, 237, 131, 156, 235, 179, 128, 234, 178, 189, 236, 157, 188, 236, 139, 156], ''status_updated_at''),
      (utf8 [234, 178, 189, 235, 179, 180, 236, 136, 152], ''alert_ids''),
      (utf8 [235, 133, 184, 237, 138, 184, 236, 136, 152], ''notes'')]"

definition incident_cell :: "pdict \<Rightarrow> string \<Rightarrow> pv" where
  "incident_cell inc f =
     (if f \<in> {''alert_ids'', ''notes''} then PInt (int (length (as_list (dgetd inc f (PList []))))) else dgetd inc f (PStr []))"

definition incidents_csv :: "string dict \<Rightarrow> pdict list \<Rightarrow> string \<times> bool" where
  "incidents_csv e items =
     csv_streaming_response e (map (\<lambda>inc. map (\<lambda>(c, f). (c, incident_cell inc f)) INCIDENT_COLUMNS) items)
       (map (\<lambda>(c, f). (c, c)) INCIDENT_COLUMNS)"

section \<open>Triage of alerts\<close>

text \<open>What a triage sends to other systems: the comment on a Zabbix event with an explicit acknowledgement, and
  the message to the webhooks.\<close>

datatype triage_effect = ZabbixComment alert pdict string "bool option" | SlackMessage alert string string

definition TRIAGE_STATUSES :: "string list" where
  "TRIAGE_STATUSES = [''pending'', ''reviewing'', ''resolved'']"

definition triage_entry :: "gov_request \<Rightarrow> pdict \<Rightarrow> pdict \<Rightarrow> pdict" where
  "triage_entry rq payload old =
     (let prev = dgetd old ''status'' (PStr ''pending'');
          status = dgetd payload ''status'' (PStr []);
          by = PStr (incident_actor rq payload);
          e = dset old ''status'' status;
          e = dset e ''analyst'' (dgetd payload ''analyst'' (PStr []));
          e = dset e ''note'' (dgetd payload ''note'' (dgetd e ''note'' (PStr [])));
          e = dset e ''updated_at'' (PStr (rq_now rq));
          e = dset e ''changed_by'' by
      in dappend e ''history'' (PDict [(''from_status'', prev), (''to_status'', status), (''analyst'', dget e ''analyst''),
           (''note'', dget e ''note''), (''changed_by'', by), (''changed_at'', PStr (rq_now rq))]))"

definition zabbix_ack :: "pdict \<Rightarrow> bool option" where
  "zabbix_ack payload = (case dget payload ''zabbix_ack'' of PBool x \<Rightarrow> Some x | _ \<Rightarrow> None)"

definition triage_effects :: "bool \<Rightarrow> bool \<Rightarrow> alert list \<Rightarrow> string \<Rightarrow> string \<Rightarrow> pdict \<Rightarrow> pdict \<Rightarrow> triage_effect list" where
  "triage_effects writeback webhooks alerts alert_id by payload e =
     (let slack = (webhooks \<and> dget e ''status'' \<in> {PStr ''reviewing'', PStr ''resolved''})
      in case (if writeback \<or> slack then List.find (\<lambda>a. al_id a = alert_id) alerts else None) of
           None \<Rightarrow> []
         | Some a \<Rightarrow> (if writeback then [ZabbixComment a e by (zabbix_ack payload)] else [])
             @ (if slack then [SlackMessage a (pstr (dget e ''status'')) (pstr (por (dget e ''analyst'') (PStr ''unknown'')))]
                else []))"

definition alert_triage_update ::
    "backend \<Rightarrow> gov_request \<Rightarrow> bool \<Rightarrow> bool \<Rightarrow> alert list \<Rightarrow> string \<Rightarrow> pdict \<Rightarrow> rec_store
      \<Rightarrow> (herr + pdict \<times> triage_effect list) \<times> rec_store" where
  "alert_triage_update b rq writeback webhooks alerts alert_id payload s =
     (let status = dgetd payload ''status'' (PStr [])
      in if \<not> hashable status then (Inl ServerError, s)
         else if status \<notin> PStr ` set TRIAGE_STATUSES then (Inl BadRequest, s)
         else
           let e = triage_entry rq payload (case map_of (rs_cache s) alert_id of None \<Rightarrow> [] | Some e \<Rightarrow> e)
           in saved b TRIAGE alert_id e
                (e, triage_effects writeback webhooks alerts alert_id (incident_actor rq payload) payload e) s)"

text \<open>Suppression of a Zabbix event: the role gate, and the end of the suppression, which is unlimited when no
  positive number of minutes is given.  The integration is a function of the end and the reason, whose answer
  says whether it is enabled and whether it worked.\<close>

definition suppress_until :: "int \<Rightarrow> pdict \<Rightarrow> int" where
  "suppress_until now_seconds body =
     (case dget body ''minutes'' of PInt m \<Rightarrow> if 0 < m then now_seconds + m * 60 else 0 | _ \<Rightarrow> 0)"

definition finish_suppress :: "pdict \<Rightarrow> herr + pdict" where
  "finish_suppress r =
     (if \<not> truthy (dget r ''enabled'') then Inl Conflict
      else if \<not> truthy (dget r ''ok'') then Inl ServerError else Inr r)"

definition alert_zabbix_suppress ::
    "gov_env \<Rightarrow> gov_request \<Rightarrow> (alert \<Rightarrow> int \<Rightarrow> string \<Rightarrow> string \<Rightarrow> bool \<Rightarrow> pdict) option \<Rightarrow> alert list \<Rightarrow> int \<Rightarrow> bool
      \<Rightarrow> string \<Rightarrow> pdict \<Rightarrow> herr + pdict" where
  "alert_zabbix_suppress env rq zabbix alerts now_seconds undo alert_id body =
     (if \<not> allowed env rq then Inl Forbidden
      else case zabbix of
        None \<Rightarrow> Inl ServerError
      | Some send \<Rightarrow>
          (case List.find (\<lambda>a. al_id a = alert_id) alerts of
             None \<Rightarrow> Inl NotFound
           | Some a \<Rightarrow> map_sum id (\<lambda>r. dmerge [(''alert_id'', PStr alert_id)] r)
               (finish_suppress (send a (if undo then 0 else suppress_until now_seconds body)
                  (pstrip body ''reason'') (sor (rq_user rq) ''unknown'') undo))))"

section \<open>Plans and webhooks\<close>

definition plan_upsert :: "gov_request \<Rightarrow> string \<Rightarrow> pdict \<Rightarrow> pdict dict \<Rightarrow> pdict \<times> pdict dict" where
  "plan_upsert rq host_id payload plans =
     (let entry = [(''host_id'', PStr host_id), (''text'', PStr (pstrip payload ''text'')),
            (''target_date'', PStr (pstrip payload ''target_date'')),
            (''updated_by'', PStr (sor (pstrip payload ''updated_by'') ''unknown'')), (''updated_at'', PStr (rq_now rq))]
      in (entry, dset plans host_id entry))"

definition plan_get :: "string \<Rightarrow> pdict dict \<Rightarrow> pdict" where
  "plan_get host_id plans =
     (case map_of plans host_id of
        Some e \<Rightarrow> e
      | None \<Rightarrow> [(''host_id'', PStr host_id), (''text'', PStr []), (''target_date'', PStr []), (''updated_by'', PStr []),
          (''updated_at'', PNone)])"

definition webhooks_add :: "gov_request \<Rightarrow> string \<Rightarrow> pdict \<Rightarrow> pdict list \<Rightarrow> (herr + pdict) \<times> pdict list" where
  "webhooks_add rq uuid payload hooks =
     (let url = pstrip payload ''url'';
          entry = [(''id'', PStr uuid), (''name'', PStr (sor (pstrip payload ''name'') ''Slack Webhook'')),
            (''url'', PStr url), (''created_at'', PStr (rq_now rq))]
      in if \<not> prefix ''https://hooks.slack.com/'' url \<and> \<not> prefix ''http'' url then (Inl BadRequest, hooks)
         else (Inr entry, hooks @ [entry]))"

fun drop_first :: "('a \<Rightarrow> bool) \<Rightarrow> 'a list \<Rightarrow> 'a list" where
  "drop_first P [] = []"
| "drop_first P (x # xs) = (if P x then xs else x # drop_first P xs)"

definition webhooks_delete :: "string \<Rightarrow> pdict list \<Rightarrow> (herr + string) \<times> pdict list" where
  "webhooks_delete i hooks =
     (if list_ex (\<lambda>w. dget w ''id'' = PStr i) hooks
      then (Inr i, drop_first (\<lambda>w. dget w ''id'' = PStr i) hooks) else (Inl NotFound, hooks))"

section \<open>Histories\<close>

text \<open>The value of a field that a history leads to from a given value: each change of the field starts where
  the last one ended and changes it; \<open>None\<close> when one does not.\<close>

fun replay_field :: "string \<Rightarrow> string \<Rightarrow> string \<Rightarrow> pv \<Rightarrow> pv list \<Rightarrow> pv option" where
  "replay_field ev from_key to_key cur [] = Some cur"
| "replay_field ev from_key to_key cur (e # es) =
     (if dget (as_dict e) ''event'' = PStr ev
      then (if dget (as_dict e) from_key = cur \<and> dget (as_dict e) to_key \<noteq> cur
            then replay_field ev from_key to_key (dget (as_dict e) to_key) es else None)
      else replay_field ev from_key to_key cur es)"

lemma replay_field_append:
  "replay_field ev f t cur (xs @ ys) =
     (case replay_field ev f t cur xs of None \<Rightarrow> None | Some v \<Rightarrow> replay_field ev f t v ys)"
  by (induction xs arbitrary: cur) auto

abbreviation replay_status :: "pv list \<Rightarrow> pv option" where
  "replay_status es \<equiv> replay_field ''status_changed'' ''from_status'' ''to_status'' (PStr ''open'') es"

abbreviation replay_analyst :: "pv \<Rightarrow> pv list \<Rightarrow> pv option" where
  "replay_analyst a es \<equiv> replay_field ''analyst_changed'' ''from_analyst'' ''to_analyst'' a es"

text \<open>The history begins with the creation, and replays to the status and the analyst of the record.\<close>

definition incident_true :: "pdict \<Rightarrow> bool" where
  "incident_true inc =
     (case dget inc ''history'' of
        PList (e # es) \<Rightarrow> dget (as_dict e) ''event'' = PStr ''created''
          \<and> replay_status es = Some (dget inc ''status'')
          \<and> replay_analyst (dget (as_dict e) ''analyst'') es = Some (dget inc ''analyst'')
      | _ \<Rightarrow> False)"

definition incident_ok :: "string \<Rightarrow> pdict \<Rightarrow> bool" where
  "incident_ok i inc = (row_typed INCIDENTS i inc \<and> incident_true inc \<and> dget inc ''status'' \<in> PStr ` set INCIDENT_STATUSES)"

lemma incidents_spec: "spec_ok INCIDENTS"
  by (simp add: spec_ok_def INCIDENTS_def)

lemma incident_typed_iff:
  "row_typed INCIDENTS i inc \<longleftrightarrow> dget inc ''incident_id'' = PStr i
     \<and> (\<forall>k \<in> {''title'', ''status'', ''hostname'', ''analyst'', ''handler''}. is_text (dget inc k))
     \<and> (\<forall>k \<in> {''alert_ids'', ''notes'', ''history''}. is_plist (dget inc k))
     \<and> (\<forall>k \<in> {''status_updated_at'', ''created_at'', ''updated_at''}. dget inc k = PNone \<or> is_text (dget inc k))"
  by (auto simp: row_typed_def INCIDENTS_def)

text \<open>Appending one change.\<close>

lemma incident_history: "incident_ok i inc \<Longrightarrow> \<exists>e es. dget inc ''history'' = PList (e # es)"
  by (auto simp: incident_ok_def incident_true_def split: pv.splits list.splits)

lemma incident_ok_set_status:
  assumes "incident_ok i inc" "set_status actor now payload inc = Inr inc'"
  shows "incident_ok i inc'"
proof (cases "dhas payload ''status''")
  case False
  then show ?thesis using assms by (simp add: set_status_def)
next
  case True
  let ?new = "dget payload ''status''"
  obtain e es where h: "dget inc ''history'' = PList (e # es)"
    using incident_history [OF assms(1)] by blast
  have st: "dgetd inc ''status'' v = dget inc ''status''" for v
    using assms(1) by (intro dgetd_text) (simp add: incident_ok_def incident_typed_iff)
  have new: "?new \<in> PStr ` set INCIDENT_STATUSES"
    and inc': "inc' = dset (if ?new \<noteq> dget inc ''status''
      then dset (dappend inc ''history'' (status_entry (dget inc ''status'') ?new actor now)) ''status_updated_at'' (PStr now)
      else inc) ''status'' ?new"
    using assms(2) True by (auto simp: set_status_def Let_def st split: if_splits)
  show ?thesis
    using assms(1) new h
    by (auto simp: inc' incident_ok_def incident_typed_iff incident_true_def status_entry_def replay_field_append)
qed

lemma incident_ok_set_person:
  assumes "incident_ok i inc" "field \<in> {''analyst'', ''handler''}"
  shows "incident_ok i (set_person field actor now payload inc)"
proof -
  obtain e es where h: "dget inc ''history'' = PList (e # es)"
    using incident_history [OF assms(1)] by blast
  have d: "dgetd inc field v = dget inc field" for v
    using assms by (intro dgetd_text) (auto simp: incident_ok_def incident_typed_iff)
  show ?thesis
    using assms h
    by (auto simp: set_person_def Let_def d incident_ok_def incident_typed_iff incident_true_def replay_field_append)
qed

lemma incident_true_cong:
  "dget r ''history'' = dget inc ''history'' \<Longrightarrow> dget r ''status'' = dget inc ''status'' \<Longrightarrow> dget r ''analyst'' = dget inc ''analyst''
   \<Longrightarrow> incident_true r = incident_true inc"
  by (simp only: incident_true_def)

lemma incident_true_dset [simp]:
  "k \<notin> {''history'', ''status'', ''analyst''} \<Longrightarrow> incident_true (dset inc k v) = incident_true inc"
  by (rule incident_true_cong) auto

lemma incident_ok_text:
  "incident_ok i inc \<Longrightarrow> k \<in> {''title'', ''updated_at''} \<Longrightarrow> incident_ok i (dset inc k (PStr v))"
  unfolding incident_ok_def by (intro conjI row_typed_dset) (auto simp: INCIDENTS_def)

lemma incident_ok_items:
  "incident_ok i inc \<Longrightarrow> k \<in> {''alert_ids'', ''notes''} \<Longrightarrow> incident_ok i (dset inc k (PList v))"
  unfolding incident_ok_def by (intro conjI row_typed_dset) (auto simp: INCIDENTS_def)

lemma incident_ok_row: "table_keeps INCIDENTS incident_ok"
  unfolding incident_ok_def
proof (rule table_keeps_view [OF incidents_spec])
  fix r r' assume r: "incident_true r \<and> dget r ''status'' \<in> PStr ` set INCIDENT_STATUSES"
    and "\<forall>n \<in> set (kept_names INCIDENTS). dget r' n = dget r n"
  then have "dget r' ''history'' = dget r ''history''" "dget r' ''status'' = dget r ''status''" "dget r' ''analyst'' = dget r ''analyst''"
    by (simp_all add: kept_names_def INCIDENTS_def)
  then show "incident_true r' \<and> dget r' ''status'' \<in> PStr ` set INCIDENT_STATUSES"
    using r incident_true_cong [of r' r] by simp
qed

lemmas incident_commit = store_all_commit [OF _ _ incident_ok_row]

lemma incidents_create_ok: "store_all incident_ok s \<Longrightarrow> store_all incident_ok (snd (incidents_create b rq u p s))"
  by (auto simp: incidents_create_def Let_def incident_ok_def incident_typed_iff incident_true_def INCIDENT_STATUSES_def
      intro!: incident_commit split: option.split)

lemma updated_record_ok:
  assumes "incident_ok i inc" "set_status actor now p inc = Inr inc1"
  shows "incident_ok i (set_title p (set_person ''handler'' actor now p (set_person ''analyst'' actor now p inc1)))"
  using incident_ok_set_status [OF assms] by (auto simp: set_title_def intro!: incident_ok_set_person incident_ok_text)

lemma incidents_update_ok: "store_all incident_ok s \<Longrightarrow> store_all incident_ok (snd (incidents_update b rq i p s))"
proof (cases "map_of (rs_cache s) i")
  case None
  then show "store_all incident_ok s \<Longrightarrow> ?thesis" by (simp add: incidents_update_def)
next
  case (Some inc)
  assume s: "store_all incident_ok s"
  let ?actor = "incident_actor rq p" and ?now = "rq_now rq"
  have inc: "incident_ok i inc" using s Some by (rule store_all_get)
  show ?thesis
  proof (cases "set_status ?actor ?now p inc")
    case (Inl e)
    then show ?thesis using s Some by (simp add: incidents_update_def Let_def)
  next
    case (Inr inc1)
    let ?inc2 = "set_title p (set_person ''handler'' ?actor ?now p (set_person ''analyst'' ?actor ?now p inc1))"
    have ok: "incident_ok i ?inc2" by (rule updated_record_ok [OF inc Inr])
    show ?thesis
    proof (cases "set_alert_ids p ?inc2")
      case None
      then show ?thesis using s ok Some Inr by (simp add: incidents_update_def Let_def store_all_cached)
    next
      case (Some inc3)
      then have "incident_ok i inc3"
        using ok by (auto simp: set_alert_ids_def intro!: incident_ok_items split: if_splits)
      then have "incident_ok i (dset inc3 ''updated_at'' (PStr ?now))" by (intro incident_ok_text) simp_all
      then show ?thesis
        using s \<open>map_of (rs_cache s) i = Some inc\<close> Inr Some by (simp add: incidents_update_def Let_def incident_commit)
    qed
  qed
qed

lemma incidents_add_note_ok: "store_all incident_ok s \<Longrightarrow> store_all incident_ok (snd (incidents_add_note b rq u i p s))"
  by (auto simp: incidents_add_note_def Let_def dappend_def intro!: incident_commit incident_ok_text incident_ok_items
      dest: store_all_get split: option.split)

datatype incident_call =
    NewIncident backend gov_request string pdict
  | ChangeIncident backend gov_request string pdict
  | NoteIncident backend gov_request string string pdict
  | RestartIncidents

primrec incident_exec :: "incident_call \<Rightarrow> rec_store \<Rightarrow> (herr + pdict) \<times> rec_store" where
  "incident_exec (NewIncident b rq u p) s = incidents_create b rq u p s"
| "incident_exec (ChangeIncident b rq i p) s = incidents_update b rq i p s"
| "incident_exec (NoteIncident b rq u i p) s = incidents_add_note b rq u i p s"
| "incident_exec RestartIncidents s = (Inr [], reboot s)"

definition incident_run :: "incident_call list \<Rightarrow> rec_store \<Rightarrow> rec_store" where
  "incident_run calls s = foldl (\<lambda>s c. snd (incident_exec c s)) s calls"

lemma incident_exec_ok: "store_all incident_ok s \<Longrightarrow> store_all incident_ok (snd (incident_exec c s))"
  by (cases c) (simp_all add: incidents_create_ok incidents_update_ok incidents_add_note_ok store_all_reboot)

lemma incident_run_ok: "store_all incident_ok s \<Longrightarrow> store_all incident_ok (incident_run calls s)"
  unfolding incident_run_def by (induction calls arbitrary: s) (simp_all add: incident_exec_ok)

section \<open>Properties\<close>

text \<open>C29: In every history of calls and restarts, with a repository that may refuse any write and with updates
  that fail half-way, each incident in the dictionary and in the repository has a history that begins with its
  creation and replays, change by change, to its status and its analyst, and its status is one of the four.\<close>

theorem incident_histories_true: "store_all incident_ok (incident_run calls empty_store)"
  by (rule incident_run_ok) simp

fun incident_answers :: "incident_call list \<Rightarrow> rec_store \<Rightarrow> (herr + pdict) list" where
  "incident_answers [] s = []"
| "incident_answers (c # cs) s = fst (incident_exec c s) # incident_answers cs (snd (incident_exec c s))"

lemma saved_stored:
  "stored INCIDENTS s \<Longrightarrow> incident_ok i r \<Longrightarrow> fst (saved b INCIDENTS i r out s) \<noteq> Inl ServerError
   \<Longrightarrow> stored INCIDENTS (snd (commit b INCIDENTS i r s))"
  by (auto simp: saved_answer incident_ok_def intro!: stored_commit [OF incidents_spec] split: if_splits)

lemma new_incident_ok:
  "incident_ok u [(''incident_id'', PStr u), (''title'', PStr t), (''status'', PStr ''open''), (''status_updated_at'', PStr n),
     (''hostname'', PStr h), (''analyst'', PStr a), (''handler'', PStr x), (''alert_ids'', PList ids), (''notes'', PList []),
     (''history'', PList [PDict [(''event'', PStr ''created''), (''to_status'', PStr ''open''), (''analyst'', PStr a),
        (''changed_at'', PStr n)]]), (''created_at'', PStr n), (''updated_at'', PStr n)]"
  by (simp add: incident_ok_def incident_typed_iff incident_true_def INCIDENT_STATUSES_def)

lemma incident_exec_stored:
  assumes "stored INCIDENTS s" "store_all incident_ok s" "fst (incident_exec c s) \<noteq> Inl ServerError"
  shows "stored INCIDENTS (snd (incident_exec c s))"
proof (cases c)
  case (NewIncident b rq u p)
  then show ?thesis
    using assms(1,3) by (auto simp: incidents_create_def Let_def intro!: saved_stored new_incident_ok split: option.splits)
next
  case (ChangeIncident b rq i p)
  let ?actor = "incident_actor rq p" and ?now = "rq_now rq"
  show ?thesis
  proof (cases "map_of (rs_cache s) i")
    case None
    then show ?thesis using assms(1) ChangeIncident by (simp add: incidents_update_def)
  next
    case (Some inc)
    show ?thesis
    proof (cases "set_status ?actor ?now p inc")
      case (Inl e)
      then show ?thesis using assms(1) Some ChangeIncident by (simp add: incidents_update_def Let_def)
    next
      case (Inr inc1)
      let ?inc2 = "set_title p (set_person ''handler'' ?actor ?now p (set_person ''analyst'' ?actor ?now p inc1))"
      obtain inc3 where inc3: "set_alert_ids p ?inc2 = Some inc3"
        using assms(3) Some Inr ChangeIncident
        by (cases "set_alert_ids p ?inc2") (auto simp: incidents_update_def Let_def)
      have "incident_ok i ?inc2" using store_all_get [OF assms(2) Some] Inr by (rule updated_record_ok)
      then have "incident_ok i inc3"
        using inc3 by (auto simp: set_alert_ids_def intro!: incident_ok_items split: if_splits)
      then have "incident_ok i (dset inc3 ''updated_at'' (PStr ?now))" by (intro incident_ok_text) simp_all
      then show ?thesis
        using assms(1,3) Some Inr inc3 ChangeIncident
        by (simp add: incidents_update_def Let_def saved_stored)
    qed
  qed
next
  case (NoteIncident b rq u i p)
  show ?thesis
  proof (cases "map_of (rs_cache s) i")
    case None
    then show ?thesis using assms(1) NoteIncident by (simp add: incidents_add_note_def)
  next
    case (Some inc)
    then have "incident_ok i inc" using assms(2) store_all_get by blast
    then have "incident_ok i (dset (dappend inc ''notes'' n) ''updated_at'' (PStr v))" for n v
      by (simp add: dappend_def incident_ok_text incident_ok_items)
    then show ?thesis
      using assms(1,3) Some NoteIncident
      by (auto simp: incidents_add_note_def Let_def intro!: saved_stored split: if_splits)
  qed
qed (use assms in \<open>simp add: stored_reboot\<close>)

lemma incident_run_stored:
  "stored INCIDENTS s \<Longrightarrow> store_all incident_ok s \<Longrightarrow> Inl ServerError \<notin> set (incident_answers calls s)
   \<Longrightarrow> stored INCIDENTS (incident_run calls s)"
  by (induction calls arbitrary: s) (auto simp: incident_run_def incident_exec_stored incident_exec_ok)

text \<open>When no call answered with a server error, a restart gives every incident back with all twelve fields.\<close>

lemma incidents_survive_restart:
  assumes "Inl ServerError \<notin> set (incident_answers calls empty_store)"
  shows "map_option (row_view INCIDENTS) (map_of (rs_cache (reboot (incident_run calls empty_store))) i)
    = map_option (row_view INCIDENTS) (map_of (rs_cache (incident_run calls empty_store)) i)"
  by (rule reboot_keeps, rule incident_run_stored) (simp_all add: stored_empty assms)

definition incident_demo_rq :: gov_request where
  "incident_demo_rq = \<lparr>rq_role = None, rq_user = ''kim'', rq_now = ''2024-05-01T09:00:00Z''\<rparr>"

definition incident_demo_calls :: "incident_call list" where
  "incident_demo_calls =
     [NewIncident (Database ''2024-05-01'') incident_demo_rq ''i1'' [(''title'', PStr ''phishing'')],
      ChangeIncident (Database ''2024-05-01'') incident_demo_rq ''i1'' [(''status'', PStr ''closed''), (''analyst'', PStr ''lee'')]]"

lemma incident_demo_fine: "Inl ServerError \<notin> set (incident_answers incident_demo_calls empty_store)"
  "map_option (\<lambda>r. (dget r ''status'', length (as_list (dget r ''history''))))
     (map_of (rs_cache (incident_run incident_demo_calls empty_store)) ''i1'') = Some (PStr ''closed'', 3)"
  by code_simp+

lemma incidents_survive_restart_witness:
  "map_option (row_view INCIDENTS) (map_of (rs_cache (reboot (incident_run incident_demo_calls empty_store))) ''i1'')
    = map_option (row_view INCIDENTS) (map_of (rs_cache (incident_run incident_demo_calls empty_store)) ''i1'')"
  by (rule incidents_survive_restart [OF incident_demo_fine(1)])

text \<open>An update whose alert identifiers cannot be listed fails, but its other changes stay in the dictionary and
  not in the repository: the next restart takes them back.\<close>

lemma failed_update_stays:
  "fst (incident_exec (ChangeIncident (Database []) incident_demo_rq ''i1''
       [(''status'', PStr ''open''), (''alert_ids'', PInt 5)]) (incident_run incident_demo_calls empty_store)) = Inl ServerError"
  "map_option (\<lambda>r. dget r ''status'') (map_of (rs_cache (snd (incident_exec (ChangeIncident (Database []) incident_demo_rq ''i1''
       [(''status'', PStr ''open''), (''alert_ids'', PInt 5)]) (incident_run incident_demo_calls empty_store)))) ''i1'')
     = Some (PStr ''open'')"
  "map_option (\<lambda>r. dget r ''status'') (map_of (rs_disk (snd (incident_exec (ChangeIncident (Database []) incident_demo_rq ''i1''
       [(''status'', PStr ''open''), (''alert_ids'', PInt 5)]) (incident_run incident_demo_calls empty_store)))) ''i1'')
     = Some (PStr ''closed'')"
  by code_simp+

text \<open>An update takes a blank title, which the creation refuses.\<close>

lemma title_can_be_blanked:
  "map_option (\<lambda>r. dget r ''title'') (map_of (rs_cache (snd (incident_exec (ChangeIncident (Database []) incident_demo_rq ''i1''
       [(''title'', PStr '' '')]) (incident_run incident_demo_calls empty_store)))) ''i1'') = Some (PStr [])"
  by code_simp

text \<open>An incident of the first half second of a day is not in the list from that day: the text of its time sorts
  before the text of the bound.\<close>

lemma first_second_missed:
  "filter_incidents ''2024-05-01'' [] [] [[(''created_at'', PStr ''2024-05-01T00:00:00.500000Z'')]] = Inr []"
  by code_simp

section \<open>The history of a triage\<close>

fun triage_path :: "pv \<Rightarrow> pv list \<Rightarrow> pv option" where
  "triage_path cur [] = Some cur"
| "triage_path cur (e # es) =
     (if dget (as_dict e) ''from_status'' = cur then triage_path (dget (as_dict e) ''to_status'') es else None)"

lemma triage_path_append:
  "triage_path cur (xs @ ys) = (case triage_path cur xs of None \<Rightarrow> None | Some v \<Rightarrow> triage_path v ys)"
  by (induction xs arbitrary: cur) auto

definition triage_ok :: "string \<Rightarrow> pdict \<Rightarrow> bool" where
  "triage_ok i e = (is_plist (dget e ''history'') \<and> dget e ''status'' \<in> PStr ` set TRIAGE_STATUSES
     \<and> triage_path (PStr ''pending'') (as_list (dget e ''history'')) = Some (dget e ''status''))"

lemma triage_entry_fields:
  "dget (triage_entry rq p old) ''status'' = dgetd p ''status'' (PStr [])"
  "\<exists>e. dget (triage_entry rq p old) ''history'' = PList (as_list (dget old ''history'') @ [PDict e])
     \<and> dget e ''from_status'' = dgetd old ''status'' (PStr ''pending'') \<and> dget e ''to_status'' = dgetd p ''status'' (PStr [])"
  by (simp_all add: triage_entry_def Let_def)

lemma triage_entry_ok:
  assumes "dgetd p ''status'' (PStr []) \<in> PStr ` set TRIAGE_STATUSES" "old = [] \<or> triage_ok i old"
  shows "triage_ok i (triage_entry rq p old)"
proof -
  obtain e where e: "dget (triage_entry rq p old) ''history'' = PList (as_list (dget old ''history'') @ [PDict e])"
    "dget e ''from_status'' = dgetd old ''status'' (PStr ''pending'')" "dget e ''to_status'' = dgetd p ''status'' (PStr [])"
    using triage_entry_fields(2) by blast
  have "triage_path (PStr ''pending'') (as_list (dget old ''history'')) = Some (dgetd old ''status'' (PStr ''pending''))"
    using assms(2)
  proof
    assume "triage_ok i old"
    then show ?thesis by (auto simp: triage_ok_def dgetd_text)
  qed (simp add: dgetd_def)
  then show ?thesis
    using assms(1) e by (simp add: triage_ok_def triage_entry_fields(1) triage_path_append)
qed

lemma triage_ok_row: "table_keeps TRIAGE triage_ok"
proof -
  have spec: "spec_ok TRIAGE" by (simp add: spec_ok_def TRIAGE_def)
  have "triage_ok k row" if r: "triage_ok k r" "row_of TRIAGE now old k r = Some row" for k r row now old
  proof -
    obtain xs where "dget r ''history'' = PList xs" using r(1) by (auto simp: triage_ok_def is_plist_iff)
    moreover from this have "dget row ''history'' = PList xs"
      by (intro row_of_items [OF spec r(2)]) (simp_all add: TRIAGE_def)
    moreover obtain t where t: "dget r ''status'' = PStr t" using r(1) by (auto simp: triage_ok_def)
    moreover have "dget row ''status'' = PStr t"
      by (rule row_of_text [OF spec r(2) _ t, of "''pending''"]) (simp add: TRIAGE_def)
    ultimately show ?thesis using r(1) by (simp add: triage_ok_def)
  qed
  then show ?thesis by (simp add: table_keeps_def)
qed

lemma alert_triage_ok:
  "store_all triage_ok s \<Longrightarrow> store_all triage_ok (snd (alert_triage_update b rq wb hooks alerts i p s))"
  by (auto simp: alert_triage_update_def Let_def intro!: store_all_commit [OF _ _ triage_ok_row] triage_entry_ok
      dest: store_all_get split: option.split)

text \<open>A webhook may point anywhere: the check for a Slack address is implied by the check for \<^verbatim>\<open>http\<close>.\<close>

lemma webhook_goes_anywhere:
  "\<exists>e. fst (webhooks_add incident_demo_rq ''w'' [(''url'', PStr ''http://10.0.0.1/admin'')] []) = Inr e"
  by (simp add: webhooks_add_def Let_def pstrip_def ptext_def dgetd_def strip_def lstrip_def is_space_def)

end
