(* ===== verification/Assets.thy ===== *)
theory Assets
  imports Incidents Coverage Csv "HOL-Library.Product_Lexorder"
begin

text \<open>
  The owners of assets, \<^verbatim>\<open>api/routes/assets.py\<close>: the upsert of one owner with its audit log, the import of a
  CSV file, the deletion and the coverage of the certification scope, over the table and the log of
  \<^verbatim>\<open>repositories/state_postgres.py\<close>.  An upsert draws one identifier per audited field.  The log that is
  read back after a restart is ordered by time and identifier, taken by bytes.
\<close>

section \<open>State\<close>

record asset_state =
  at_owners :: rec_store
  at_log :: "pdict list"
  at_log_disk :: "pdict list"

definition ASSET_AUDIT :: table_spec where
  "ASSET_AUDIT = \<lparr>tb_key = Some ''log_id'', tb_columns =
     [Text ''hostname'' [], Text ''field'' [], Text ''old_value'' [], Text ''new_value'' [], Text ''changed_by'' [],
      NullText ''changed_at'']\<rparr>"

text \<open>\<^verbatim>\<open>append_asset_audit\<close>; \<open>None\<close> where it raises.\<close>

definition append_asset_audit :: "backend \<Rightarrow> pdict \<Rightarrow> pdict list \<Rightarrow> pdict list option" where
  "append_asset_audit b e rows =
     (case b of
        InMemory \<Rightarrow> Some (rows @ [e])
      | Database now \<Rightarrow>
          (case row_of ASSET_AUDIT now None (gstr e ''log_id'') e of
             None \<Rightarrow> None
           | Some row \<Rightarrow> Some (if \<exists>r \<in> set rows. dget r ''log_id'' = dget e ''log_id'' then rows else rows @ [row]))
      | Down \<Rightarrow> None)"

definition load_asset_audit_log :: "pdict list \<Rightarrow> pdict list" where
  "load_asset_audit_log rows = sort_key (\<lambda>r. (gstr r ''changed_at'', gstr r ''log_id'')) rows"

definition asset_restart :: "bool \<Rightarrow> asset_state \<Rightarrow> asset_state" where
  "asset_restart database s = \<lparr>at_owners = reboot (at_owners s),
     at_log = (if database then load_asset_audit_log (at_log_disk s) else at_log_disk s), at_log_disk = at_log_disk s\<rparr>"

section \<open>Upsert\<close>

definition AUDITED_FIELDS :: "string list" where
  "AUDITED_FIELDS = [''owner'', ''category'', ''importance'', ''exception_until'', ''exception_reason'']"

definition owner_field :: "pdict \<Rightarrow> pdict \<Rightarrow> string \<Rightarrow> pv" where
  "owner_field payload old f = PStr (strip (pstr (dgetd payload f (dgetd old f (PStr [])))))"

definition owner_entry :: "string \<Rightarrow> string \<Rightarrow> pdict \<Rightarrow> pdict \<Rightarrow> pdict" where
  "owner_entry now hostname payload old =
     [(''hostname'', PStr hostname)]
     @ map (\<lambda>f. (f, owner_field payload old f)) (AUDITED_FIELDS @ [''email'', ''team'']) @ [(''updated_at'', PStr now)]
     @ (if dhas payload ''scope_tags'' then [(''scope_tags'', of_strs (normalize_tags (dget payload ''scope_tags'')))]
        else if truthy (dget old ''scope_tags'') then [(''scope_tags'', of_strs (normalize_tags (dget old ''scope_tags'')))]
        else [])"

definition owner_change :: "string \<Rightarrow> string \<Rightarrow> string \<Rightarrow> string \<Rightarrow> string \<Rightarrow> pdict \<Rightarrow> pdict \<Rightarrow> pdict" where
  "owner_change uuid now changed_by hostname f old entry =
     [(''log_id'', PStr uuid), (''hostname'', PStr hostname), (''field'', PStr f), (''old_value'', dgetd old f (PStr [])),
      (''new_value'', dget entry f), (''changed_by'', PStr changed_by), (''changed_at'', PStr now)]"

text \<open>The loop over the audited fields: whether every entry was written, and the state.\<close>

fun log_changes ::
    "backend \<Rightarrow> (string \<Rightarrow> pdict) \<Rightarrow> pdict \<Rightarrow> pdict \<Rightarrow> string list \<Rightarrow> asset_state \<Rightarrow> bool \<times> asset_state" where
  "log_changes b change old entry [] s = (True, s)"
| "log_changes b change old entry (f # fs) s =
     (if dget entry f \<noteq> dgetd old f (PStr []) then
        (let s = s\<lparr>at_log := at_log s @ [change f]\<rparr>
         in case append_asset_audit b (change f) (at_log_disk s) of
              None \<Rightarrow> (False, s)
            | Some rows \<Rightarrow> log_changes b change old entry fs (s\<lparr>at_log_disk := rows\<rparr>))
      else log_changes b change old entry fs s)"

definition owner_of :: "asset_state \<Rightarrow> string \<Rightarrow> pdict" where
  "owner_of s h = (case map_of (rs_cache (at_owners s)) h of None \<Rightarrow> [] | Some e \<Rightarrow> e)"

definition upsert_owner ::
    "backend \<Rightarrow> string \<Rightarrow> (string \<Rightarrow> string) \<Rightarrow> string \<Rightarrow> pdict \<Rightarrow> asset_state \<Rightarrow> (herr + pdict) \<times> asset_state" where
  "upsert_owner b now uuids changed_by payload s =
     (let hostname = pstrip payload ''hostname'';
          old = owner_of s hostname;
          entry = owner_entry now hostname payload old
      in if hostname = [] then (Inl BadRequest, s)
         else case log_changes b (\<lambda>f. owner_change (uuids f) now changed_by hostname f old entry) old entry AUDITED_FIELDS s of
           (False, s) \<Rightarrow> (Inl ServerError, s)
         | (True, s) \<Rightarrow>
             (case saved b ASSET_OWNERS hostname entry entry (at_owners s) of (a, os) \<Rightarrow> (a, s\<lparr>at_owners := os\<rparr>)))"

definition owners_upsert ::
    "backend \<Rightarrow> gov_request \<Rightarrow> (string \<Rightarrow> string) \<Rightarrow> pdict \<Rightarrow> asset_state \<Rightarrow> (herr + pdict) \<times> asset_state" where
  "owners_upsert b rq uuids payload s = upsert_owner b (rq_now rq) uuids (user_of rq) payload s"

definition owners_delete :: "backend \<Rightarrow> string \<Rightarrow> asset_state \<Rightarrow> (herr + string) \<times> asset_state" where
  "owners_delete b hostname s =
     (if map_of (rs_cache (at_owners s)) hostname = None then (Inl NotFound, s)
      else case uncommit b hostname (at_owners s) of
        (False, os) \<Rightarrow> (Inl ServerError, s\<lparr>at_owners := os\<rparr>)
      | (True, os) \<Rightarrow> (Inr hostname, s\<lparr>at_owners := os\<rparr>))"

section \<open>Import\<close>

definition OWNER_ALIASES :: "string list dict" where
  "OWNER_ALIASES =
     [(''hostname'', [utf8 [237, 152, 184, 236, 138, 164, 237, 138, 184, 235, 170, 133], ''host'', utf8 [237,
     152, 184, 236, 138, 164, 237, 138, 184], utf8 [236, 158, 165, 235, 185, 132, 235, 170, 133], utf8 [236,
     132, 156, 235, 178, 132, 235, 170, 133]]),
      (''owner'', [utf8 [235, 139, 180, 235, 139, 185, 236, 158, 144], utf8 [235, 139, 180, 235, 139, 185],
     utf8 [234, 180, 128, 235, 166, 172, 236, 158, 144]]),
      (''team'', [utf8 [237, 140, 128], utf8 [235, 182, 128, 236, 132, 156], utf8 [236, 134, 140, 236, 134,
     141]]),
      (''email'', [utf8 [236, 157, 180, 235, 169, 148, 236, 157, 188], utf8 [235, 169, 148, 236, 157, 188]]),
      (''category'', [utf8 [234, 181, 172, 235, 182, 132], utf8 [235, 182, 132, 235, 165, 152], utf8 [236,
     185, 180, 237, 133, 140, 234, 179, 160, 235, 166, 172], utf8 [236, 154, 169, 235, 143, 132]]),
      (''importance'', [utf8 [236, 164, 145, 236, 154, 148, 235, 143, 132], utf8 [235, 147, 177, 234, 184,
     137]]),
      (''scope_tags'', [utf8 [236, 157, 184, 236, 166, 157, 235, 178, 148, 236, 156, 132], utf8 [235, 178,
     148, 236, 156, 132, 237, 131, 156, 234, 183, 184], ''scope'', utf8 [235, 178, 148, 236, 156, 132]])]"

definition template_example :: pdict where
  "template_example = [(''hostname'', PStr ''web-01''), (''owner'', PStr (utf8 [237, 153, 141, 234, 184, 184,
     235, 143, 153])), (''team'', PStr (utf8 [236, 157, 184, 237, 148, 132, 235, 157, 188, 237, 140, 128])),
     (''email'', PStr ''hong@example.com''), (''category'', PStr (utf8 [236, 155, 185, 236, 132, 156, 235,
     178, 132])), (''importance'', PStr (utf8 [236, 131, 129]))]"

definition owners_import_template :: string where
  "owners_import_template = utf8 [0xEF, 0xBB, 0xBF] @ sample_csv OWNER_ALIASES template_example"

record import_report =
  im_imported :: nat
  im_rows :: nat
  im_errors :: "import_error list"
  im_unknown :: "string list"

definition known_hosts :: "host list \<Rightarrow> string list" where
  "known_hosts hosts = map (\<lambda>h. lower (strip (ho_hostname h))) (filter (\<lambda>h. ho_hostname h \<noteq> []) hosts)"

text \<open>The loop over the rows: a row that is refused is counted as an error, any other failure ends the request.
  A row has a host name, so \<open>BadRequest\<close> does not occur.\<close>

fun import_owners ::
    "backend \<Rightarrow> gov_request \<Rightarrow> (nat \<Rightarrow> string \<Rightarrow> string) \<Rightarrow> string dict list \<Rightarrow> nat \<Rightarrow> asset_state \<Rightarrow> (herr + nat) \<times> asset_state" where
  "import_owners b rq uuids [] n s = (Inr n, s)"
| "import_owners b rq uuids (row # rows) n s =
     (case upsert_owner b (rq_now rq) (uuids (length rows)) (user_of rq) (map (map_prod id PStr) row) s of
        (Inr e, s) \<Rightarrow> import_owners b rq uuids rows (n + 1) s
      | (Inl ServerError, s) \<Rightarrow> (Inl ServerError, s)
      | (Inl e, s) \<Rightarrow> import_owners b rq uuids rows n s)"

definition owners_import ::
    "backend \<Rightarrow> gov_env \<Rightarrow> string dict \<Rightarrow> host list \<Rightarrow> gov_request \<Rightarrow> (nat \<Rightarrow> string \<Rightarrow> string) \<Rightarrow> pdict \<Rightarrow> asset_state
      \<Rightarrow> (herr + import_report) \<times> asset_state" where
  "owners_import b env os hosts rq uuids payload s =
     (if \<not> allowed env rq then (Inl Forbidden, s)
      else case parse_csv os (ptext payload ''csv'') OWNER_ALIASES [''hostname''] of (rows, errors) \<Rightarrow>
        (case import_owners b rq uuids rows 0 s of
           (Inl e, s) \<Rightarrow> (Inl e, s)
         | (Inr n, s) \<Rightarrow>
             (let known = known_hosts hosts;
                  names = map (\<lambda>row. strip (case map_of row ''hostname'' of None \<Rightarrow> [] | Some h \<Rightarrow> h)) rows
              in (Inr \<lparr>im_imported = n, im_rows = length rows, im_errors = errors,
                    im_unknown = (if known = [] then [] else filter (\<lambda>h. lower h \<notin> set known) names)\<rparr>, s))))"

section \<open>Coverage of the scope\<close>

definition scope_coverage_route :: "host list \<Rightarrow> asset_state \<Rightarrow> scope_coverage" where
  "scope_coverage_route hosts s = compute_scope_coverage (map snd (rs_cache (at_owners s)))
     (map ho_hostname (filter (\<lambda>h. ho_hostname h \<noteq> []) hosts)) IN_SCOPE_TAG"

section \<open>The audit log\<close>

text \<open>The value of a field of a host that the log leads to: each entry starts where the last one ended.\<close>

fun replay_owner :: "string \<Rightarrow> string \<Rightarrow> pv \<Rightarrow> pdict list \<Rightarrow> pv option" where
  "replay_owner h f cur [] = Some cur"
| "replay_owner h f cur (e # es) =
     (if dget e ''hostname'' = PStr h \<and> dget e ''field'' = PStr f
      then (if dget e ''old_value'' = cur \<and> dget e ''new_value'' \<noteq> cur
            then replay_owner h f (dget e ''new_value'') es else None)
      else replay_owner h f cur es)"

definition owner_value :: "asset_state \<Rightarrow> string \<Rightarrow> string \<Rightarrow> pv" where
  "owner_value s h f = (case map_of (rs_cache (at_owners s)) h of None \<Rightarrow> PStr [] | Some e \<Rightarrow> dget e f)"

definition log_true :: "asset_state \<Rightarrow> bool" where
  "log_true s = (\<forall>h. \<forall>f \<in> set AUDITED_FIELDS. replay_owner h f (PStr []) (at_log s) = Some (owner_value s h f))"

definition owners_typed :: "asset_state \<Rightarrow> bool" where
  "owners_typed s = store_all (row_typed ASSET_OWNERS) (at_owners s)"

lemma owners_spec: "spec_ok ASSET_OWNERS"
  by (simp add: spec_ok_def ASSET_OWNERS_def)

lemma owners_keep: "table_keeps ASSET_OWNERS (row_typed ASSET_OWNERS)"
  using typed_kept [OF owners_spec] by (auto simp: table_keeps_def)

lemma replay_owner_append:
  "replay_owner h f cur (xs @ ys) = (case replay_owner h f cur xs of None \<Rightarrow> None | Some v \<Rightarrow> replay_owner h f v ys)"
  by (induction xs arbitrary: cur) auto

lemma log_changes_log:
  "log_changes b change old entry fs s = (True, s') \<Longrightarrow>
     at_owners s' = at_owners s
     \<and> at_log s' = at_log s @ map change (filter (\<lambda>f. dget entry f \<noteq> dgetd old f (PStr [])) fs)"
  by (induction fs arbitrary: s) (auto simp: Let_def split: if_splits option.splits)

lemma log_changes_owners: "at_owners (snd (log_changes b change old entry fs s)) = at_owners s"
  by (induction fs arbitrary: s) (auto simp: Let_def split: option.splits)

lemma owner_change_fields:
  "dget (owner_change u n c h f old entry) ''hostname'' = PStr h" "dget (owner_change u n c h f old entry) ''field'' = PStr f"
  "dget (owner_change u n c h f old entry) ''old_value'' = dgetd old f (PStr [])"
  "dget (owner_change u n c h f old entry) ''new_value'' = dget entry f"
  by (simp_all add: owner_change_def)

lemma replay_other_host:
  "h' \<noteq> h \<Longrightarrow> replay_owner h' f cur (map (\<lambda>g. owner_change (u g) n c h g old entry) fs) = Some cur"
  by (induction fs) (simp_all add: owner_change_fields)

lemma replay_no_field:
  "f \<notin> set fs \<Longrightarrow> replay_owner h f cur (map (\<lambda>g. owner_change (u g) n c h g old entry) fs) = Some cur"
  by (induction fs) (auto simp: owner_change_fields)

lemma replay_own_field:
  "distinct fs \<Longrightarrow> f \<in> set fs \<Longrightarrow>
   replay_owner h f (dgetd old f (PStr []))
     (map (\<lambda>g. owner_change (u g) n c h g old entry) (filter (\<lambda>g. dget entry g \<noteq> dgetd old g (PStr [])) fs))
   = Some (dget entry f)"
  by (induction fs) (auto simp: owner_change_fields replay_no_field)

lemma owner_entry_fields: "f \<in> set AUDITED_FIELDS \<Longrightarrow> is_text (dget (owner_entry n h p old) f)"
  by (auto simp: owner_entry_def AUDITED_FIELDS_def owner_field_def)

lemma owner_entry_typed: "row_typed ASSET_OWNERS h (owner_entry n h p old)"
  by (simp add: row_typed_def ASSET_OWNERS_def owner_entry_def AUDITED_FIELDS_def owner_field_def)

lemma upsert_cases:
  assumes "pstrip p ''hostname'' = h" "owner_of s h = old" "owner_entry n h p old = e"
    and "log_changes b (\<lambda>f. owner_change (u f) n c h f old e) old e AUDITED_FIELDS s = (ok, s')"
  shows "upsert_owner b n u c p s =
    (if h = [] then (Inl BadRequest, s) else if \<not> ok then (Inl ServerError, s')
     else (fst (saved b ASSET_OWNERS h e e (at_owners s)),
           s'\<lparr>at_owners := snd (commit b ASSET_OWNERS h e (at_owners s))\<rparr>))"
proof -
  have "at_owners s' = at_owners s"
    using assms(4) log_changes_owners [of b "\<lambda>f. owner_change (u f) n c h f old e" old e AUDITED_FIELDS s] by simp
  moreover obtain a os where sv: "saved b ASSET_OWNERS h e e (at_owners s) = (a, os)" by fastforce
  moreover have "os = snd (commit b ASSET_OWNERS h e (at_owners s))"
    using snd_saved [of b ASSET_OWNERS h e e "at_owners s"] unfolding sv by simp
  ultimately show ?thesis
    by (cases ok) (simp_all add: upsert_owner_def Let_def assms)
qed

lemma upsert_split:
  obtains h old e ok s' where "pstrip p ''hostname'' = h" "owner_of s h = old" "owner_entry n h p old = e"
    "log_changes b (\<lambda>f. owner_change (u f) n c h f old e) old e AUDITED_FIELDS s = (ok, s')"
proof -
  obtain ok s' where "log_changes b (\<lambda>f. owner_change (u f) n c (pstrip p ''hostname'') f (owner_of s (pstrip p ''hostname''))
      (owner_entry n (pstrip p ''hostname'') p (owner_of s (pstrip p ''hostname''))))
      (owner_of s (pstrip p ''hostname'')) (owner_entry n (pstrip p ''hostname'') p (owner_of s (pstrip p ''hostname'')))
      AUDITED_FIELDS s = (ok, s')" by fastforce
  then show ?thesis using that by blast
qed

lemma upsert_typed: "owners_typed s \<Longrightarrow> owners_typed (snd (upsert_owner b n u c p s))"
proof -
  assume s: "owners_typed s"
  obtain h old e ok s' where u: "pstrip p ''hostname'' = h" "owner_of s h = old" "owner_entry n h p old = e"
    and l: "log_changes b (\<lambda>f. owner_change (u f) n c h f old e) old e AUDITED_FIELDS s = (ok, s')"
    by (rule upsert_split)
  have "row_typed ASSET_OWNERS h e" using u(3) owner_entry_typed by blast
  then have "store_all (row_typed ASSET_OWNERS) (snd (commit b ASSET_OWNERS h e (at_owners s)))"
    using s by (intro store_all_commit owners_keep) (simp_all add: owners_typed_def)
  moreover have "at_owners s' = at_owners s"
    using log_changes_owners [of b "\<lambda>f. owner_change (u f) n c h f old e" old e AUDITED_FIELDS s] unfolding l by simp
  ultimately show ?thesis using s by (simp add: upsert_cases [OF u l] owners_typed_def)
qed

lemma old_value: "owners_typed s \<Longrightarrow> f \<in> set AUDITED_FIELDS \<Longrightarrow> dgetd (owner_of s h) f (PStr []) = owner_value s h f"
proof (cases "map_of (rs_cache (at_owners s)) h")
  case (Some e)
  assume "owners_typed s" "f \<in> set AUDITED_FIELDS"
  then have "row_typed ASSET_OWNERS h e" using Some store_all_get by (auto simp: owners_typed_def)
  then have "is_text (dget e f)" using \<open>f \<in> set AUDITED_FIELDS\<close> by (auto simp: row_typed_def ASSET_OWNERS_def AUDITED_FIELDS_def)
  then show ?thesis using Some by (simp add: owner_value_def owner_of_def dgetd_text)
qed (simp add: owner_value_def owner_of_def dgetd_def)

lemma upsert_log_true:
  assumes "owners_typed s" "log_true s" "fst (upsert_owner b n u c p s) \<noteq> Inl ServerError"
  shows "log_true (snd (upsert_owner b n u c p s))"
proof -
  obtain h old e ok s' where u: "pstrip p ''hostname'' = h" "owner_of s h = old" "owner_entry n h p old = e"
    and l: "log_changes b (\<lambda>f. owner_change (u f) n c h f old e) old e AUDITED_FIELDS s = (ok, s')"
    by (rule upsert_split)
  show ?thesis
  proof (cases "h = []")
    case True
    then show ?thesis using assms(2) by (simp add: upsert_cases [OF u l])
  next
    case False
    then have ok: "ok" using assms(3) by (cases ok) (simp_all add: upsert_cases [OF u l])
    let ?s = "s'\<lparr>at_owners := snd (commit b ASSET_OWNERS h e (at_owners s))\<rparr>"
    have log: "at_log s' = at_log s @ map (\<lambda>f. owner_change (u f) n c h f old e)
        (filter (\<lambda>f. dget e f \<noteq> dgetd old f (PStr [])) AUDITED_FIELDS)"
      using log_changes_log [of b _ old e AUDITED_FIELDS s s'] l ok by simp
    have "rs_cache (snd (commit b ASSET_OWNERS h e (at_owners s))) = dset (rs_cache (at_owners s)) h e"
      by (auto simp: commit_def persist_def cached_def split: option.split)
    then have new: "owner_value ?s g f = (if g = h then dget e f else owner_value s g f)" for g f
      by (simp add: owner_value_def)
    have "replay_owner g f (PStr []) (at_log ?s) = Some (owner_value ?s g f)" if f: "f \<in> set AUDITED_FIELDS" for g f
    proof -
      have "replay_owner g f (PStr []) (at_log s) = Some (owner_value s g f)" using assms(2) f by (simp add: log_true_def)
      moreover have "distinct AUDITED_FIELDS" by (simp add: AUDITED_FIELDS_def)
      moreover have "dgetd old f (PStr []) = owner_value s h f" using old_value [OF assms(1) f] u(2) by blast
      ultimately show ?thesis
        using replay_own_field [OF _ f, of h old u n c e] replay_other_host [of g h]
        by (cases "g = h") (simp_all add: log replay_owner_append new)
    qed
    then show ?thesis using ok False by (simp add: upsert_cases [OF u l] log_true_def)
  qed
qed

lemma import_true:
  "owners_typed s \<Longrightarrow> log_true s \<Longrightarrow> fst (import_owners b rq u rows n s) \<noteq> Inl ServerError \<Longrightarrow>
     owners_typed (snd (import_owners b rq u rows n s)) \<and> log_true (snd (import_owners b rq u rows n s))"
proof (induction rows arbitrary: n s)
  case (Cons row rows)
  obtain a s' where r: "upsert_owner b (rq_now rq) (u (length rows)) (user_of rq) (map (map_prod id PStr) row) s = (a, s')"
    by fastforce
  have "a \<noteq> Inl ServerError" using Cons.prems(3) r by auto
  then have "owners_typed s'" "log_true s'"
    using upsert_typed [OF Cons.prems(1), of b "rq_now rq" "u (length rows)" "user_of rq" "map (map_prod id PStr) row"]
      upsert_log_true [OF Cons.prems(1,2), of b "rq_now rq" "u (length rows)" "user_of rq" "map (map_prod id PStr) row"]
    unfolding r by simp_all
  then show ?case using Cons.IH Cons.prems(3) r by (auto split: sum.splits herr.splits)
qed simp

lemma import_typed: "owners_typed s \<Longrightarrow> owners_typed (snd (import_owners b rq u rows n s))"
proof (induction rows arbitrary: n s)
  case (Cons row rows)
  obtain a s' where r: "upsert_owner b (rq_now rq) (u (length rows)) (user_of rq) (map (map_prod id PStr) row) s = (a, s')"
    by fastforce
  then have "owners_typed s'"
    using upsert_typed [OF Cons.prems, of b "rq_now rq" "u (length rows)" "user_of rq" "map (map_prod id PStr) row"] by simp
  then show ?case using Cons.IH r by (auto split: sum.splits herr.splits)
qed simp

datatype asset_call =
    UpsertOwner backend gov_request "string \<Rightarrow> string" pdict
  | ImportOwners backend gov_env "string dict" "host list" gov_request "nat \<Rightarrow> string \<Rightarrow> string" pdict
  | DeleteOwner backend string

text \<open>A call: whether it answered with a server error, and the state.\<close>

primrec asset_exec :: "asset_call \<Rightarrow> asset_state \<Rightarrow> bool \<times> asset_state" where
  "asset_exec (UpsertOwner b rq u p) s = (case owners_upsert b rq u p s of (a, s) \<Rightarrow> (a = Inl ServerError, s))"
| "asset_exec (ImportOwners b env os hosts rq u p) s =
     (case owners_import b env os hosts rq u p s of (a, s) \<Rightarrow> (a = Inl ServerError, s))"
| "asset_exec (DeleteOwner b h) s = (case owners_delete b h s of (a, s) \<Rightarrow> (a = Inl ServerError, s))"

fun asset_run :: "asset_call list \<Rightarrow> asset_state \<Rightarrow> bool \<times> asset_state" where
  "asset_run [] s = (False, s)"
| "asset_run (c # cs) s =
     (case asset_exec c s of (failed, s) \<Rightarrow> (case asset_run cs s of (later, s) \<Rightarrow> (failed \<or> later, s)))"

primrec deletes :: "asset_call \<Rightarrow> bool" where
  "deletes (UpsertOwner b rq u p) = False"
| "deletes (ImportOwners b env os hosts rq u p) = False"
| "deletes (DeleteOwner b h) = True"

definition no_assets :: asset_state where
  "no_assets = \<lparr>at_owners = empty_store, at_log = [], at_log_disk = []\<rparr>"

lemma import_route_state:
  "snd (owners_import b env os hosts rq u p s) =
     (if allowed env rq then snd (import_owners b rq u (fst (parse_csv os (ptext p ''csv'') OWNER_ALIASES [''hostname''])) 0 s) else s)"
  "fst (owners_import b env os hosts rq u p s) = Inl ServerError \<longleftrightarrow>
     allowed env rq \<and> fst (import_owners b rq u (fst (parse_csv os (ptext p ''csv'') OWNER_ALIASES [''hostname''])) 0 s) = Inl ServerError"
  by (auto simp: owners_import_def Let_def split: prod.split sum.split)

lemma asset_exec_true:
  assumes "owners_typed s" "log_true s" "\<not> fst (asset_exec c s)" "\<not> deletes c"
  shows "owners_typed (snd (asset_exec c s)) \<and> log_true (snd (asset_exec c s))"
proof (cases c)
  case (UpsertOwner b rq u p)
  then show ?thesis
    using assms upsert_typed upsert_log_true by (simp add: owners_upsert_def split: prod.splits) (metis fst_conv snd_conv)
next
  case (ImportOwners b env os hosts rq u p)
  then have "fst (owners_import b env os hosts rq u p s) \<noteq> Inl ServerError" using assms(3) by (simp split: prod.splits)
  then have "owners_typed (snd (owners_import b env os hosts rq u p s)) \<and> log_true (snd (owners_import b env os hosts rq u p s))"
    using assms(1,2) import_true by (simp add: import_route_state)
  then show ?thesis using ImportOwners by (cases "owners_import b env os hosts rq u p s") simp
qed (use assms in simp)

lemma no_assets_true: "owners_typed no_assets" "log_true no_assets"
  by (simp_all add: owners_typed_def log_true_def no_assets_def owner_value_def empty_store_def
      store_all_empty [unfolded empty_store_def])

lemma asset_run_true:
  "owners_typed s \<Longrightarrow> log_true s \<Longrightarrow> \<not> fst (asset_run calls s) \<Longrightarrow> list_all (\<lambda>c. \<not> deletes c) calls
   \<Longrightarrow> log_true (snd (asset_run calls s))"
proof (induction calls arbitrary: s)
  case (Cons c calls)
  obtain f s' where e: "asset_exec c s = (f, s')" by fastforce
  obtain g s'' where r: "asset_run calls s' = (g, s'')" by fastforce
  have "owners_typed s' \<and> log_true s'"
    using asset_exec_true [OF Cons.prems(1,2), of c] Cons.prems(3,4) e r by simp
  then show ?case using Cons.IH [of s'] Cons.prems(3,4) e r by simp
qed simp

definition asset_demo_rq :: "string \<Rightarrow> gov_request" where
  "asset_demo_rq now = \<lparr>rq_role = Some ''admin'', rq_user = ''kim'', rq_now = now\<rparr>"

definition asset_demo_calls :: "asset_call list" where
  "asset_demo_calls =
     [UpsertOwner (Database ''d'') (asset_demo_rq ''t1'') (\<lambda>f. ''1'' @ f)
        [(''hostname'', PStr ''web1''), (''owner'', PStr ''lee''), (''scope_tags'', of_strs [IN_SCOPE_TAG])],
      UpsertOwner (Database ''d'') (asset_demo_rq ''t2'') (\<lambda>f. ''2'' @ f) [(''hostname'', PStr ''web1''), (''owner'', PStr ''park'')]]"

lemma asset_demo_fine: "\<not> fst (asset_run asset_demo_calls no_assets)" "length (at_log (snd (asset_run asset_demo_calls no_assets))) = 2"
  by code_simp+

text \<open>A deletion writes no entry, so after it the log still tells the owner that nobody has.\<close>

lemma deletion_not_logged:
  "at_log (snd (asset_exec (DeleteOwner (Database ''d'') ''web1'') (snd (asset_run asset_demo_calls no_assets))))
     = at_log (snd (asset_run asset_demo_calls no_assets))"
  "owner_value (snd (asset_exec (DeleteOwner (Database ''d'') ''web1'') (snd (asset_run asset_demo_calls no_assets)))) ''web1'' ''owner''
     = PStr []"
  "replay_owner ''web1'' ''owner'' (PStr []) (at_log (snd (asset_run asset_demo_calls no_assets))) = Some (PStr ''park'')"
  by code_simp+

section \<open>Scope tags in the database\<close>

primrec with_database :: "asset_call \<Rightarrow> bool" where
  "with_database (UpsertOwner b rq u p) = (b \<noteq> InMemory)"
| "with_database (ImportOwners b env os hosts rq u p) = (b \<noteq> InMemory)"
| "with_database (DeleteOwner b h) = (b \<noteq> InMemory)"

definition untagged :: "rec_store \<Rightarrow> bool" where
  "untagged s = (dwf (rs_disk s) \<and> holds (\<lambda>k r. dget r ''scope_tags'' = PNone) (rs_disk s))"

lemma untagged_commit: "untagged s \<Longrightarrow> b \<noteq> InMemory \<Longrightarrow> untagged (snd (commit b ASSET_OWNERS k r s))"
proof -
  assume s: "untagged s" and b: "b \<noteq> InMemory"
  have "dget row ''scope_tags'' = PNone" if "row_of ASSET_OWNERS now old k r = Some row" for now old row
    by (rule row_of_other [OF that]) (simp_all add: ASSET_OWNERS_def)
  then show ?thesis using s b
    by (cases b) (auto simp: untagged_def commit_def persist_def cached_def table_save_def intro!: holds_dset split: option.splits)
qed

lemma untagged_upsert:
  "untagged (at_owners s) \<Longrightarrow> b \<noteq> InMemory \<Longrightarrow> untagged (at_owners (snd (upsert_owner b n u c p s)))"
proof -
  assume s: "untagged (at_owners s)" "b \<noteq> InMemory"
  obtain h old e ok s' where u: "pstrip p ''hostname'' = h" "owner_of s h = old" "owner_entry n h p old = e"
    and l: "log_changes b (\<lambda>f. owner_change (u f) n c h f old e) old e AUDITED_FIELDS s = (ok, s')"
    by (rule upsert_split)
  have "at_owners s' = at_owners s"
    using log_changes_owners [of b "\<lambda>f. owner_change (u f) n c h f old e" old e AUDITED_FIELDS s] unfolding l by simp
  then show ?thesis using s by (simp add: upsert_cases [OF u l] untagged_commit)
qed

lemma untagged_import:
  "untagged (at_owners s) \<Longrightarrow> b \<noteq> InMemory \<Longrightarrow> untagged (at_owners (snd (import_owners b rq u rows n s)))"
proof (induction rows arbitrary: n s)
  case (Cons row rows)
  obtain a s' where r: "upsert_owner b (rq_now rq) (u (length rows)) (user_of rq) (map (map_prod id PStr) row) s = (a, s')"
    by fastforce
  then have "untagged (at_owners s')"
    using untagged_upsert [OF Cons.prems, of "rq_now rq" "u (length rows)" "user_of rq" "map (map_prod id PStr) row"] by simp
  then show ?case using Cons.IH Cons.prems(2) r by (auto split: sum.splits herr.splits)
qed simp

lemma untagged_exec: "untagged (at_owners s) \<Longrightarrow> with_database c \<Longrightarrow> untagged (at_owners (snd (asset_exec c s)))"
proof (cases c)
  case (UpsertOwner b rq u p)
  then show "untagged (at_owners s) \<Longrightarrow> with_database c \<Longrightarrow> ?thesis"
    using untagged_upsert by (cases "owners_upsert b rq u p s") (fastforce simp: owners_upsert_def dest: arg_cong [where f = snd])
next
  case (ImportOwners b env os hosts rq u p)
  moreover have "untagged (at_owners s) \<Longrightarrow> b \<noteq> InMemory \<Longrightarrow> untagged (at_owners (snd (owners_import b env os hosts rq u p s)))"
    by (simp add: import_route_state untagged_import)
  ultimately show "untagged (at_owners s) \<Longrightarrow> with_database c \<Longrightarrow> ?thesis"
    by (cases "owners_import b env os hosts rq u p s") simp
next
  case (DeleteOwner b h)
  then show "untagged (at_owners s) \<Longrightarrow> with_database c \<Longrightarrow> ?thesis"
    by (auto simp: owners_delete_def uncommit_def untagged_def table_delete_def holds_delete distinct_delete Let_def split: prod.splits)
qed

lemma untagged_run: "untagged (at_owners s) \<Longrightarrow> list_all with_database calls \<Longrightarrow> untagged (at_owners (snd (asset_run calls s)))"
proof (induction calls arbitrary: s)
  case (Cons c calls)
  obtain f s' where e: "asset_exec c s = (f, s')" by fastforce
  obtain g s'' where r: "asset_run calls s' = (g, s'')" by fastforce
  have "untagged (at_owners s')" using untagged_exec [OF Cons.prems(1), of c] Cons.prems(2) e by simp
  then show ?case using Cons.IH [of s'] Cons.prems(2) e r by simp
qed simp

lemma no_tags_no_assets: "(\<And>r. r \<in> set owners \<Longrightarrow> dget r ''scope_tags'' = PNone) \<Longrightarrow> tag_assets owners = []"
proof -
  assume "\<And>r. r \<in> set owners \<Longrightarrow> dget r ''scope_tags'' = PNone"
  then have "\<forall>o'\<in>set owners. normalize_tags (dget o' ''scope_tags'') = []"
    by (simp add: normalize_tags_def tag_parts_def)
  then have none: "concat (map (\<lambda>o'. map (\<lambda>t. (t, strip (gstr o' ''hostname''))) (normalize_tags (dget o' ''scope_tags''))) owners) = []"
    by (simp add: concat_eq_Nil_conv)
  show ?thesis by (simp only: tag_assets_def none foldl.simps)
qed

text \<open>Scope tags do not survive a restart with the database, which has no column for them: whatever tags
  were set by whichever calls, after a restart the coverage report knows no tag and no asset in scope.\<close>

lemma scope_tags_lost:
  assumes "list_all with_database calls"
  shows "sc_tags (scope_coverage_route hosts (asset_restart True (snd (asset_run calls no_assets)))) = []
    \<and> cg_assets (sc_in_scope (scope_coverage_route hosts (asset_restart True (snd (asset_run calls no_assets))))) = 0"
proof -
  let ?s = "snd (asset_run calls no_assets)"
  have "untagged (at_owners ?s)"
    by (rule untagged_run [OF _ assms]) (simp add: no_assets_def untagged_def empty_store_def holds_def)
  then have d: "dwf (rs_disk (at_owners ?s))" "holds (\<lambda>k r. dget r ''scope_tags'' = PNone) (rs_disk (at_owners ?s))"
    by (simp_all add: untagged_def)
  have "tag_assets (map snd (dict_of (rs_disk (at_owners ?s)))) = []"
    by (rule no_tags_no_assets) (use d in \<open>auto simp: dict_of_distinct holds_def\<close>)
  then show ?thesis
    by (simp add: scope_coverage_route_def asset_restart_def reboot_def compute_scope_coverage_def Let_def cov_def)
qed

lemma scope_tags_lost_witness:
  "cg_assets (sc_in_scope (scope_coverage_route [] (snd (asset_run asset_demo_calls no_assets)))) = 1
   \<and> cg_assets (sc_in_scope (scope_coverage_route [] (asset_restart True (snd (asset_run asset_demo_calls no_assets))))) = 0"
proof -
  have "list_all with_database asset_demo_calls" by (simp add: asset_demo_calls_def)
  from scope_tags_lost [OF this, of "[]"]
  have "cg_assets (sc_in_scope (scope_coverage_route [] (asset_restart True (snd (asset_run asset_demo_calls no_assets))))) = 0" by simp
  moreover have "cg_assets (sc_in_scope (scope_coverage_route [] (snd (asset_run asset_demo_calls no_assets)))) = 1" by code_simp
  ultimately show ?thesis by simp
qed

end
