(* ===== verification/Settings.thy ===== *)
theory Settings
  imports Incidents Ratelimit
begin

text \<open>
  The settings of the organisation, a table of keys and texts (\<^verbatim>\<open>ui_settings\<close> of
  \<^verbatim>\<open>repositories/state_postgres.py\<close>) with its dictionary in the application, and the threshold of acceptable
  risk, \<^verbatim>\<open>api/routes/settings.py\<close>.
\<close>

record text_store =
  tx_cache :: "string dict"
  tx_disk :: "string dict"

text \<open>\<^verbatim>\<open>save_setting\<close>; \<open>None\<close> where it raises.  The database refuses a zero byte.\<close>

definition save_setting :: "backend \<Rightarrow> string \<Rightarrow> string \<Rightarrow> string \<Rightarrow> string dict \<Rightarrow> string dict option" where
  "save_setting b k v by d =
     (case b of
        InMemory \<Rightarrow> Some (dset d k v)
      | Database now \<Rightarrow> if CHR 0x00 \<in> set (k @ v @ by) then None else Some (dset d k v)
      | Down \<Rightarrow> None)"

text \<open>A change of a setting and \<^verbatim>\<open>_persist_setting\<close>: whether it succeeded, and the state.\<close>

definition set_setting :: "backend \<Rightarrow> string \<Rightarrow> string \<Rightarrow> string \<Rightarrow> text_store \<Rightarrow> bool \<times> text_store" where
  "set_setting b k v by s =
     (let s = s\<lparr>tx_cache := dset (tx_cache s) k v\<rparr>
      in case save_setting b k v by (tx_disk s) of
           None \<Rightarrow> (False, s)
         | Some d \<Rightarrow> (True, s\<lparr>tx_disk := d\<rparr>))"

definition reload_settings :: "text_store \<Rightarrow> text_store" where
  "reload_settings s = s\<lparr>tx_cache := dict_of (tx_disk s)\<rparr>"

definition no_settings :: text_store where
  "no_settings = \<lparr>tx_cache = [], tx_disk = []\<rparr>"

text \<open>\<^verbatim>\<open>require_role\<close> with a given set of roles.\<close>

definition role_in :: "gov_env \<Rightarrow> gov_request \<Rightarrow> string list \<Rightarrow> bool" where
  "role_in env rq roles = (\<not> ge_auth env \<or> rq_role rq \<in> Some ` set roles)"

lemma allowed_role_in: "allowed env rq = role_in env rq [''admin'', ''security'']"
  by (auto simp: allowed_def role_in_def)

section \<open>Acceptable risk\<close>

definition RISK_DOA_KEY :: string where "RISK_DOA_KEY = ''risk_doa''"
definition RISK_DOA_DEFAULT :: int where "RISK_DOA_DEFAULT = 4"
definition RISK_DOA_MIN :: int where "RISK_DOA_MIN = 1"
definition RISK_DOA_MAX :: int where "RISK_DOA_MAX = 9"

definition read_risk_doa :: "string dict \<Rightarrow> int" where
  "read_risk_doa settings =
     (case int_of_text (strip (env_get settings RISK_DOA_KEY [])) of
        None \<Rightarrow> RISK_DOA_DEFAULT
      | Some v \<Rightarrow> max RISK_DOA_MIN (min RISK_DOA_MAX v))"

definition put_risk_settings ::
    "gov_env \<Rightarrow> backend \<Rightarrow> gov_request \<Rightarrow> pdict \<Rightarrow> text_store \<Rightarrow> (herr + int) \<times> text_store" where
  "put_risk_settings env b rq payload s =
     (if \<not> role_in env rq [''admin''] then (Inl Forbidden, s)
      else case py_int (dget payload ''doa'') of
        None \<Rightarrow> (Inl BadRequest, s)
      | Some v \<Rightarrow>
          if RISK_DOA_MIN \<le> v \<and> v \<le> RISK_DOA_MAX
          then (case set_setting b RISK_DOA_KEY (int_str v) (rq_user rq) s of
                  (False, s) \<Rightarrow> (Inl ServerError, s) | (True, s) \<Rightarrow> (Inr v, s))
          else (Inl BadRequest, s))"

section \<open>Lemmas\<close>

text \<open>The dictionary and the table of settings agree as long as every write succeeds.\<close>

definition settings_agree :: "text_store \<Rightarrow> bool" where
  "settings_agree s = (dwf (tx_disk s) \<and> map_of (tx_cache s) = map_of (tx_disk s))"

lemma settings_agree_none [simp]: "settings_agree no_settings"
  by (simp add: settings_agree_def no_settings_def)

lemma set_setting_cache: "tx_cache (snd (set_setting b k v by s)) = dset (tx_cache s) k v"
  by (simp add: set_setting_def Let_def split: option.split)

lemma set_setting_agrees:
  "settings_agree s \<Longrightarrow> fst (set_setting b k v by s) \<Longrightarrow> settings_agree (snd (set_setting b k v by s))"
  by (cases b) (auto simp: set_setting_def save_setting_def settings_agree_def Let_def fun_eq_iff split: if_splits)

lemma reload_agrees: "settings_agree s \<Longrightarrow> map_of (tx_cache (reload_settings s)) = map_of (tx_cache s)"
  by (simp add: settings_agree_def reload_settings_def dict_of_distinct)

lemma read_risk_doa_range: "read_risk_doa d \<in> {RISK_DOA_MIN..RISK_DOA_MAX}"
  by (simp add: read_risk_doa_def RISK_DOA_DEFAULT_def RISK_DOA_MIN_def RISK_DOA_MAX_def split: option.split)

lemma doa_texts: "\<forall>v \<in> set [1, 2, 3, 4, 5, 6, 7, 8, 9::int]. int_of_text (strip (int_str v)) = Some v"
  by code_simp

text \<open>A threshold that was accepted is the one in force, and still after a restart.\<close>

lemma doa_in_force:
  assumes "put_risk_settings env b rq p s = (Inr v, s')" "settings_agree s"
  shows "read_risk_doa (tx_cache s') = v \<and> read_risk_doa (tx_cache (reload_settings s')) = v \<and> settings_agree s'"
proof -
  have v: "1 \<le> v" "v \<le> 9" and s': "(True, s') = set_setting b RISK_DOA_KEY (int_str v) (rq_user rq) s"
    using assms(1)
    by (auto simp: put_risk_settings_def RISK_DOA_MIN_def RISK_DOA_MAX_def split: if_splits option.splits prod.splits bool.splits)
  then have fine: "settings_agree s'" using set_setting_agrees [OF assms(2)] by (metis fst_conv snd_conv)
  have "map_of (tx_cache s') RISK_DOA_KEY = Some (int_str v)"
    using set_setting_cache [of b RISK_DOA_KEY "int_str v" "rq_user rq" s] s' by (metis map_of_dset snd_conv)
  moreover have "int_of_text (strip (int_str v)) = Some v"
  proof -
    have "v \<in> set [1, 2, 3, 4, 5, 6, 7, 8, 9]" using v by auto
    then show ?thesis using doa_texts by blast
  qed
  ultimately have "read_risk_doa d = v" if "map_of d = map_of (tx_cache s')" for d
    using v that by (simp add: read_risk_doa_def env_get_def RISK_DOA_MIN_def RISK_DOA_MAX_def)
  then show ?thesis using fine reload_agrees by blast
qed

end
