(* ===== verification/Vulns.thy ===== *)
theory Vulns
  imports Assets Settings Risk Classifier
begin

text \<open>
  The plan, the exception and the risk assessment of a vulnerability, \<^verbatim>\<open>api/routes/vulnerabilities.py\<close>, over
  the tables of \<open>State_Tables\<close>, the audit log that the owners of assets share (\<open>Assets\<close>), the risk matrix
  (\<open>Risk\<close>) and the classification of servers (\<open>Classifier\<close>).  A call gets the hosts and the vulnerabilities
  of the repository as they are when it is served, and the date of the day.
\<close>

section \<open>State\<close>

record vuln_state =
  va_actions :: rec_store
  va_risks :: rec_store
  va_assets :: asset_state
  va_settings :: text_store

record vuln_view =
  vv_hosts :: "host list"
  vv_vulns :: "vulnerability list"
  vv_today :: int

definition TREATMENTS :: "string list" where
  "TREATMENTS = [[], ''mitigate'', ''accept'', ''transfer'', ''avoid'']"

definition vuln_action_default :: "string \<Rightarrow> pdict" where
  "vuln_action_default i =
     [(''vuln_id'', PStr i), (''plan_text'', PStr []), (''plan_target_date'', PStr []), (''plan_updated_by'', PStr []),
      (''exception_until'', PStr []), (''exception_reason'', PStr []), (''exception_updated_by'', PStr []),
      (''updated_at'', PNone)]"

text \<open>\<^verbatim>\<open>_vuln_lookup\<close>: the vulnerability, the name of its host and the label of its CVE.\<close>

definition vuln_lookup :: "vuln_view \<Rightarrow> string \<Rightarrow> (vulnerability \<times> string \<times> string) option" where
  "vuln_lookup w i =
     (case List.find (\<lambda>v. vu_id v = i) (vv_vulns w) of
        None \<Rightarrow> None
      | Some v \<Rightarrow> Some (v,
          (case List.find (\<lambda>h. ho_id h = vu_host_id v) (vv_hosts w) of None \<Rightarrow> vu_host_id v | Some h \<Rightarrow> ho_hostname h),
          sor (text_or_empty (vu_cve v)) i))"

text \<open>\<^verbatim>\<open>_record_vuln_audit\<close>; the entries passed to it have each of the fields.\<close>

definition vuln_change :: "string \<Rightarrow> string \<Rightarrow> string \<Rightarrow> string \<Rightarrow> string \<Rightarrow> string \<Rightarrow> pdict \<Rightarrow> pdict \<Rightarrow> pdict" where
  "vuln_change uuid now changed_by hostname cve f old entry =
     [(''log_id'', PStr uuid), (''hostname'', PStr hostname), (''field'', PStr (''vuln_'' @ f @ '' ['' @ cve @ '']'')),
      (''old_value'', dgetd old f (PStr [])), (''new_value'', dget entry f), (''changed_by'', PStr changed_by),
      (''changed_at'', PStr now)]"

definition record_vuln_audit ::
    "backend \<Rightarrow> (string \<Rightarrow> string) \<Rightarrow> string \<Rightarrow> string \<Rightarrow> string \<Rightarrow> string \<Rightarrow> string list \<Rightarrow> pdict \<Rightarrow> pdict \<Rightarrow> asset_state
      \<Rightarrow> bool \<times> asset_state" where
  "record_vuln_audit b uuids now changed_by hostname cve names old entry s =
     (if hostname = [] then (True, s)
      else log_changes b (\<lambda>f. vuln_change (uuids f) now changed_by hostname cve f old entry) old entry names s)"

text \<open>The end of a handler that has written its record: the audit, then the answer.\<close>

definition audited ::
    "backend \<Rightarrow> (string \<Rightarrow> string) \<Rightarrow> string \<Rightarrow> string \<Rightarrow> string \<Rightarrow> string \<Rightarrow> string list \<Rightarrow> pdict \<Rightarrow> pdict \<Rightarrow> pdict \<Rightarrow> vuln_state
      \<Rightarrow> (herr + pdict) \<times> vuln_state" where
  "audited b uuids now changed_by hostname cve names old entry out s =
     (case record_vuln_audit b uuids now changed_by hostname cve names old entry (va_assets s) of
        (ok, a) \<Rightarrow> (if ok then Inr out else Inl ServerError, s\<lparr>va_assets := a\<rparr>))"

section \<open>Plan and exception\<close>

definition action_of :: "vuln_state \<Rightarrow> string \<Rightarrow> pdict" where
  "action_of s i = (case map_of (rs_cache (va_actions s)) i of None \<Rightarrow> vuln_action_default i | Some e \<Rightarrow> e)"

text \<open>\<^verbatim>\<open>kind\<close> is \<^verbatim>\<open>plan\<close> or \<^verbatim>\<open>exception\<close>; the two handlers differ in the names of their fields only.\<close>

definition action_entry :: "string \<Rightarrow> string list \<Rightarrow> string \<Rightarrow> string \<Rightarrow> pdict \<Rightarrow> pdict \<Rightarrow> pdict" where
  "action_entry kind names now i payload old =
     dset (dset (foldl (\<lambda>e f. dset e f (PStr (pstrip payload f))) (dset old ''vuln_id'' (PStr i)) names)
       (kind @ ''_updated_by'') (PStr (sor (pstrip payload (kind @ ''_updated_by'')) ''unknown'')))
       ''updated_at'' (PStr now)"

definition action_author :: "string \<Rightarrow> gov_request \<Rightarrow> pdict \<Rightarrow> string" where
  "action_author kind rq entry =
     (let by = pstr (dget entry (kind @ ''_updated_by'')) in if by \<noteq> ''unknown'' then by else user_of rq)"

definition vuln_action_upsert ::
    "string \<Rightarrow> string list \<Rightarrow> backend \<Rightarrow> gov_request \<Rightarrow> (string \<Rightarrow> string) \<Rightarrow> vuln_view \<Rightarrow> string \<Rightarrow> pdict \<Rightarrow> vuln_state
      \<Rightarrow> (herr + pdict) \<times> vuln_state" where
  "vuln_action_upsert kind names b rq uuids w i payload s =
     (case vuln_lookup w i of
        None \<Rightarrow> (Inl NotFound, s)
      | Some (v, hostname, cve) \<Rightarrow>
          let old = action_of s i; entry = action_entry kind names (rq_now rq) i payload old
          in case commit b VULN_ACTIONS i entry (va_actions s) of
               (False, a) \<Rightarrow> (Inl ServerError, s\<lparr>va_actions := a\<rparr>)
             | (True, a) \<Rightarrow>
                 audited b uuids (rq_now rq) (action_author kind rq entry) hostname cve names old entry entry
                   (s\<lparr>va_actions := a\<rparr>))"

definition vuln_plan_upsert ::
    "backend \<Rightarrow> gov_request \<Rightarrow> (string \<Rightarrow> string) \<Rightarrow> vuln_view \<Rightarrow> string \<Rightarrow> pdict \<Rightarrow> vuln_state \<Rightarrow> (herr + pdict) \<times> vuln_state" where
  "vuln_plan_upsert = vuln_action_upsert ''plan'' [''plan_text'', ''plan_target_date'']"

definition vuln_exception_upsert ::
    "backend \<Rightarrow> gov_request \<Rightarrow> (string \<Rightarrow> string) \<Rightarrow> vuln_view \<Rightarrow> string \<Rightarrow> pdict \<Rightarrow> vuln_state \<Rightarrow> (herr + pdict) \<times> vuln_state" where
  "vuln_exception_upsert = vuln_action_upsert ''exception'' [''exception_until'', ''exception_reason'']"

definition vuln_exception_clear ::
    "backend \<Rightarrow> gov_request \<Rightarrow> (string \<Rightarrow> string) \<Rightarrow> vuln_view \<Rightarrow> string \<Rightarrow> vuln_state \<Rightarrow> (herr + pdict) \<times> vuln_state" where
  "vuln_exception_clear b rq uuids w i s =
     (case vuln_lookup w i of
        None \<Rightarrow> (Inl NotFound, s)
      | Some (v, hostname, cve) \<Rightarrow>
          (case map_of (rs_cache (va_actions s)) i of
             None \<Rightarrow> (Inr [(''ok'', PBool True)], s)
           | Some old \<Rightarrow>
               let entry = dset (dset (dset (dset old ''exception_until'' (PStr [])) ''exception_reason'' (PStr []))
                     ''exception_updated_by'' (PStr [])) ''updated_at'' (PStr (rq_now rq))
               in case commit b VULN_ACTIONS i entry (va_actions s) of
                    (False, a) \<Rightarrow> (Inl ServerError, s\<lparr>va_actions := a\<rparr>)
                  | (True, a) \<Rightarrow>
                      audited b uuids (rq_now rq) (user_of rq) hostname cve [''exception_until'', ''exception_reason'']
                        old entry [(''ok'', PBool True), (''vuln_id'', PStr i)] (s\<lparr>va_actions := a\<rparr>)))"

definition vuln_action_get :: "vuln_view \<Rightarrow> string \<Rightarrow> vuln_state \<Rightarrow> herr + pdict" where
  "vuln_action_get w i s =
     (if list_ex (\<lambda>v. vu_id v = i) (vv_vulns w) then Inr (action_of s i) else Inl NotFound)"

section \<open>Risk\<close>

definition risk_default :: "string \<Rightarrow> pdict" where
  "risk_default i =
     [(''vuln_id'', PStr i), (''impact'', PInt 0), (''likelihood'', PInt 0), (''score'', PInt 0), (''level'', PStr []),
      (''treatment'', PStr []), (''accept_reason'', PStr []), (''accept_approver'', PStr []), (''residual_level'', PStr []),
      (''review_due'', PStr []), (''assessed_by'', PStr []), (''assessed_at'', PNone), (''updated_at'', PNone)]"

text \<open>The importance of a host and where it comes from.\<close>

definition effective_importance :: "vuln_state \<Rightarrow> string \<Rightarrow> string \<times> string" where
  "effective_importance s hostname =
     (let importance = strip (gstr (owner_of (va_assets s) hostname) ''importance'')
      in if importance \<noteq> [] then (importance, ''owner'')
         else (env_get (classify_server_as_dict hostname) ''importance'' KO_MID, ''auto''))"

definition exception_expired :: "int \<Rightarrow> vuln_state \<Rightarrow> string \<Rightarrow> bool" where
  "exception_expired today s i =
     (let raw = strip (gstr (case map_of (rs_cache (va_actions s)) i of None \<Rightarrow> [] | Some e \<Rightarrow> e) ''exception_until'')
      in case parse_date (take 10 raw) of Some (due, []) \<Rightarrow> due < today | _ \<Rightarrow> False)"

definition assessed_risk :: "vuln_state \<Rightarrow> int \<Rightarrow> string \<Rightarrow> vulnerability \<Rightarrow> risk_assessment" where
  "assessed_risk s today hostname v =
     assess_risk (Some (fst (effective_importance s hostname))) (Some (vu_severity v))
       (text_or_empty (vu_fixed_version v) \<noteq> []) (exception_expired today s (vu_id v))"

definition risk_to_dict :: "risk_assessment \<Rightarrow> pdict" where
  "risk_to_dict r =
     [(''impact'', PInt (ra_impact r)), (''likelihood'', PInt (ra_likelihood r)),
      (''likelihood_base'', PInt (ra_likelihood_base r)), (''score'', PInt (ra_score r)), (''level'', PStr (ra_level r)),
      (''level_en'', PStr (ra_level_en r)), (''impact_label'', PStr (ra_impact_label r)),
      (''likelihood_label'', PStr (ra_likelihood_label r))]"

definition suggest_risk :: "vuln_state \<Rightarrow> int \<Rightarrow> vulnerability \<Rightarrow> string \<Rightarrow> pdict" where
  "suggest_risk s today v hostname =
     (case effective_importance s hostname of (importance, source) \<Rightarrow>
        risk_to_dict (assessed_risk s today hostname v) @
        [(''inputs'', PDict [(''importance'', PStr importance), (''severity'', PStr (vu_severity v)),
            (''fixed_available'', PBool (text_or_empty (vu_fixed_version v) \<noteq> [])),
            (''exception_expired'', PBool (exception_expired today s (vu_id v)))]),
         (''provenance'', PDict [(''data_source'', PStr (vu_source v)), (''hostname'', PStr hostname),
            (''host_id'', PStr (vu_host_id v)), (''cve'', PStr (sor (text_or_empty (vu_cve v)) (vu_id v))),
            (''package_name'', PStr (text_or_empty (vu_package_name v))),
            (''installed_version'', PStr (text_or_empty (vu_installed_version v))),
            (''fixed_version'', PStr (text_or_empty (vu_fixed_version v))),
            (''detected_at'', of_ostr (isoformat_of (vu_detected_at v))), (''importance'', PStr importance),
            (''importance_source'', PStr source), (''raw_ref'', PStr (text_or_empty (vu_raw_ref v)))])])"

definition vuln_risk_get :: "vuln_view \<Rightarrow> string \<Rightarrow> vuln_state \<Rightarrow> herr + pdict" where
  "vuln_risk_get w i s =
     (case vuln_lookup w i of
        None \<Rightarrow> Inl NotFound
      | Some (v, hostname, cve) \<Rightarrow>
          let sg = suggest_risk s (vv_today w) v hostname
          in Inr (case map_of (rs_cache (va_risks s)) i of
               Some r \<Rightarrow> dmerge r [(''suggested'', PBool False), (''suggestion'', PDict sg)]
             | None \<Rightarrow> dmerge (risk_default i)
                 [(''impact'', dget sg ''impact''), (''likelihood'', dget sg ''likelihood''), (''score'', dget sg ''score''),
                  (''level'', dget sg ''level''), (''suggested'', PBool True), (''suggestion'', PDict sg)]))"

text \<open>The axes of an assessment: the two integers of the payload when both are given, otherwise the suggestion.\<close>

definition risk_axes :: "pdict \<Rightarrow> vuln_state \<Rightarrow> int \<Rightarrow> vulnerability \<Rightarrow> string \<Rightarrow> herr + risk_assessment" where
  "risk_axes payload s today v hostname =
     (if dget payload ''impact'' \<noteq> PNone \<and> dget payload ''likelihood'' \<noteq> PNone then
        (case (py_int (dget payload ''impact''), py_int (dget payload ''likelihood'')) of
           (Some i, Some l) \<Rightarrow> if 1 \<le> i \<and> i \<le> 3 \<and> 1 \<le> l \<and> l \<le> 3 then Inr (grade_from_axes i l) else Inl BadRequest
         | _ \<Rightarrow> Inl BadRequest)
      else let r = assessed_risk s today hostname v in Inr (grade_from_axes (ra_impact r) (ra_likelihood r)))"

definition risk_entry :: "string \<Rightarrow> gov_request \<Rightarrow> risk_assessment \<Rightarrow> string \<Rightarrow> pdict \<Rightarrow> pdict \<Rightarrow> pdict" where
  "risk_entry i rq r treatment payload old =
     [(''vuln_id'', PStr i), (''impact'', PInt (ra_impact r)), (''likelihood'', PInt (ra_likelihood r)),
      (''score'', PInt (ra_score r)), (''level'', PStr (ra_level r)), (''treatment'', PStr treatment),
      (''accept_reason'', PStr (pstrip payload ''accept_reason'')), (''accept_approver'', PStr (pstrip payload ''accept_approver'')),
      (''residual_level'', PStr (pstrip payload ''residual_level'')), (''review_due'', PStr (pstrip payload ''review_due'')),
      (''assessed_by'', PStr (sor (pstrip payload ''assessed_by'') (user_of rq))),
      (''assessed_at'', por (dget old ''assessed_at'') (PStr (rq_now rq))), (''updated_at'', PStr (rq_now rq))]"

definition vuln_risk_upsert ::
    "backend \<Rightarrow> gov_request \<Rightarrow> (string \<Rightarrow> string) \<Rightarrow> vuln_view \<Rightarrow> string \<Rightarrow> pdict \<Rightarrow> vuln_state \<Rightarrow> (herr + pdict) \<times> vuln_state" where
  "vuln_risk_upsert b rq uuids w i payload s =
     (case vuln_lookup w i of
        None \<Rightarrow> (Inl NotFound, s)
      | Some (v, hostname, cve) \<Rightarrow>
          (case risk_axes payload s (vv_today w) v hostname of
             Inl e \<Rightarrow> (Inl e, s)
           | Inr r \<Rightarrow>
               let treatment = pstrip payload ''treatment'';
                   old = (case map_of (rs_cache (va_risks s)) i of None \<Rightarrow> risk_default i | Some e \<Rightarrow> e);
                   entry = risk_entry i rq r treatment payload old
               in if treatment \<notin> set TREATMENTS then (Inl BadRequest, s)
                  else case commit b RISK_REGISTER i entry (va_risks s) of
                    (False, a) \<Rightarrow> (Inl ServerError, s\<lparr>va_risks := a\<rparr>)
                  | (True, a) \<Rightarrow>
                      audited b uuids (rq_now rq) (gstr entry ''assessed_by'') hostname cve [''level'', ''treatment'']
                        old entry entry (s\<lparr>va_risks := a\<rparr>)))"

section \<open>The summary\<close>

text \<open>An index into a list as Python reads it: a negative one counts from the end.\<close>

definition py_index :: "int \<Rightarrow> 'a list \<Rightarrow> nat option" where
  "py_index i xs =
     (if 0 \<le> i \<and> i < int (length xs) then Some (nat i)
      else if i < 0 \<and> - int (length xs) \<le> i then Some (nat (i + int (length xs))) else None)"

definition bump_cell :: "int \<Rightarrow> int \<Rightarrow> int list list \<Rightarrow> int list list option" where
  "bump_cell impact likelihood m =
     (case py_index (3 - impact) m of
        None \<Rightarrow> None
      | Some r \<Rightarrow>
          (case py_index (likelihood - 1) (m ! r) of
             None \<Rightarrow> None
           | Some c \<Rightarrow> Some (m[r := (m ! r)[c := m ! r ! c + 1]])))"

record risk_item =
  ri_vuln_id :: string
  ri_cve :: string
  ri_hostname :: string
  ri_source :: string
  ri_severity :: string
  ri_impact :: int
  ri_likelihood :: int
  ri_score :: int
  ri_level :: string
  ri_treatment :: string
  ri_assessed :: bool
  ri_doa_accept :: bool

definition host_name_of :: "vuln_view \<Rightarrow> vulnerability \<Rightarrow> string" where
  "host_name_of w v = env_get (dict_of (map (\<lambda>h. (ho_id h, ho_hostname h)) (vv_hosts w))) (vu_host_id v) (vu_host_id v)"

text \<open>The row of a vulnerability: the stored assessment when it has a score, otherwise the suggestion.\<close>

definition risk_item_of :: "vuln_view \<Rightarrow> vuln_state \<Rightarrow> int \<Rightarrow> vulnerability \<Rightarrow> risk_item" where
  "risk_item_of w s doa v =
     (let hostname = host_name_of w v;
          row = (\<lambda>i l score level treatment assessed.
            \<lparr>ri_vuln_id = vu_id v, ri_cve = sor (text_or_empty (vu_cve v)) (vu_id v), ri_hostname = hostname,
             ri_source = vu_source v, ri_severity = vu_severity v, ri_impact = i, ri_likelihood = l, ri_score = score,
             ri_level = level, ri_treatment = treatment, ri_assessed = assessed,
             ri_doa_accept = (score \<le> doa \<and> treatment \<noteq> ''mitigate'')\<rparr>);
          r = (case map_of (rs_cache (va_risks s)) (vu_id v) of None \<Rightarrow> [] | Some r \<Rightarrow> r);
          a = assessed_risk s (vv_today w) hostname v
      in if truthy (dget r ''score'')
         then row (int_of_pv (dget r ''impact'')) (int_of_pv (dget r ''likelihood'')) (int_of_pv (dget r ''score''))
                (pstr (dget r ''level'')) (pstr (dgetd r ''treatment'' (PStr []))) True
         else row (ra_impact a) (ra_likelihood a) (ra_score a) (ra_level a) [] False)"

record risk_summary =
  sm_matrix :: "int list list"
  sm_by_level :: "int dict"
  sm_items :: "risk_item list"
  sm_total :: int
  sm_assessed :: int
  sm_doa :: int
  sm_accepted :: int

definition add_item :: "risk_item \<Rightarrow> risk_summary \<Rightarrow> risk_summary option" where
  "add_item it m =
     map_option (\<lambda>cells. m\<lparr>sm_matrix := cells, sm_by_level := bump (ri_level it) (sm_by_level m), sm_items := sm_items m @ [it],
         sm_assessed := sm_assessed m + (if ri_assessed it then 1 else 0),
         sm_accepted := sm_accepted m + (if ri_doa_accept it then 1 else 0)\<rparr>)
       (bump_cell (ri_impact it) (ri_likelihood it) (sm_matrix m))"

fun add_items :: "risk_item list \<Rightarrow> risk_summary \<Rightarrow> risk_summary option" where
  "add_items [] m = Some m"
| "add_items (it # its) m = (case add_item it m of None \<Rightarrow> None | Some m \<Rightarrow> add_items its m)"

definition empty_summary :: "int \<Rightarrow> risk_summary" where
  "empty_summary doa =
     \<lparr>sm_matrix = [[0, 0, 0], [0, 0, 0], [0, 0, 0]], sm_by_level = map (\<lambda>l. (fst (snd l), 0)) (rev RISK_LEVELS), sm_items = [],
      sm_total = 0, sm_assessed = 0, sm_doa = doa, sm_accepted = 0\<rparr>"

text \<open>\<open>None\<close> is an index error.\<close>

definition vuln_risk_summary :: "vuln_view \<Rightarrow> string \<Rightarrow> vuln_state \<Rightarrow> risk_summary option" where
  "vuln_risk_summary w source s =
     (let src = lower (strip source);
          doa = read_risk_doa (tx_cache (va_settings s));
          vs = filter (\<lambda>v. src = [] \<or> vu_source v = src) (vv_vulns w)
      in map_option (\<lambda>m. m\<lparr>sm_items := sort_key (\<lambda>x. (- ri_score x, ri_cve x)) (sm_items m),
             sm_total := int (length (sm_items m))\<rparr>)
           (add_items (map (risk_item_of w s doa) vs) (empty_summary doa)))"

section \<open>Histories of calls\<close>

datatype vuln_call =
    PlanVuln backend gov_request "string \<Rightarrow> string" vuln_view string pdict
  | ExceptVuln backend gov_request "string \<Rightarrow> string" vuln_view string pdict
  | ClearVuln backend gov_request "string \<Rightarrow> string" vuln_view string
  | RiskVuln backend gov_request "string \<Rightarrow> string" vuln_view string pdict
  | OwnerCall asset_call
  | DoaCall gov_env backend gov_request pdict
  | RestartVulns bool

text \<open>A call: whether a call on the owners answered with a server error, and the state.\<close>

primrec vuln_exec :: "vuln_call \<Rightarrow> vuln_state \<Rightarrow> bool \<times> vuln_state" where
  "vuln_exec (PlanVuln b rq u w i p) s = (False, snd (vuln_plan_upsert b rq u w i p s))"
| "vuln_exec (ExceptVuln b rq u w i p) s = (False, snd (vuln_exception_upsert b rq u w i p s))"
| "vuln_exec (ClearVuln b rq u w i) s = (False, snd (vuln_exception_clear b rq u w i s))"
| "vuln_exec (RiskVuln b rq u w i p) s = (False, snd (vuln_risk_upsert b rq u w i p s))"
| "vuln_exec (OwnerCall c) s = (case asset_exec c (va_assets s) of (failed, a) \<Rightarrow> (failed, s\<lparr>va_assets := a\<rparr>))"
| "vuln_exec (DoaCall env b rq p) s = (False, s\<lparr>va_settings := snd (put_risk_settings env b rq p (va_settings s))\<rparr>)"
| "vuln_exec (RestartVulns database) s =
     (False, \<lparr>va_actions = reboot (va_actions s), va_risks = reboot (va_risks s),
        va_assets = asset_restart database (va_assets s), va_settings = reload_settings (va_settings s)\<rparr>)"

fun vuln_run :: "vuln_call list \<Rightarrow> vuln_state \<Rightarrow> bool \<times> vuln_state" where
  "vuln_run [] s = (False, s)"
| "vuln_run (c # cs) s =
     (case vuln_exec c s of (failed, s) \<Rightarrow> (case vuln_run cs s of (later, s) \<Rightarrow> (failed \<or> later, s)))"

definition no_vulns :: vuln_state where
  "no_vulns = \<lparr>va_actions = empty_store, va_risks = empty_store, va_assets = no_assets, va_settings = no_settings\<rparr>"

lemma run_keeps:
  assumes "P s" "\<And>c s. c \<in> set calls \<Longrightarrow> P s \<Longrightarrow> P (snd (vuln_exec c s))"
  shows "P (snd (vuln_run calls s))"
  using assms by (induction calls arbitrary: s) (auto split: prod.splits, metis snd_conv)

section \<open>The register of risks\<close>

definition graded :: "pdict \<Rightarrow> bool" where
  "graded r =
     (\<exists>i l. i \<in> {1..3} \<and> l \<in> {1..3} \<and> dget r ''impact'' = PInt i \<and> dget r ''likelihood'' = PInt l
        \<and> dget r ''score'' = PInt (i * l) \<and> dget r ''level'' = PStr (fst (level_for (i * l)))
        \<and> dget r ''treatment'' \<in> PStr ` set TREATMENTS)"

definition risk_ok :: "string \<Rightarrow> pdict \<Rightarrow> bool" where
  "risk_ok k r = (row_typed RISK_REGISTER k r \<and> graded r)"

lemma risk_spec: "spec_ok RISK_REGISTER"
  by (simp add: spec_ok_def RISK_REGISTER_def)

lemma risk_keep: "table_keeps RISK_REGISTER risk_ok"
  unfolding risk_ok_def
  by (rule table_keeps_view [OF risk_spec]) (simp add: graded_def kept_names_def RISK_REGISTER_def)

lemma pstr_por_text: "por (dget r k) (PStr t) = PNone \<or> is_text (por (dget r k) (PStr t))"
  if "dget r k = PNone \<or> is_text (dget r k)"
  using that by (auto simp: por_def)

lemma assessed_range: "ra_impact (assessed_risk s d h v) \<in> {1..3} \<and> ra_likelihood (assessed_risk s d h v) \<in> {1..3}"
  using impact_range clamp_range by (auto simp: assessed_risk_def assess_risk_def Let_def)

lemma grade_from_axes_fields:
  "i \<in> {1..3} \<Longrightarrow> l \<in> {1..3} \<Longrightarrow> ra_impact (grade_from_axes i l) = i \<and> ra_likelihood (grade_from_axes i l) = l
     \<and> ra_score (grade_from_axes i l) = i * l \<and> ra_level (grade_from_axes i l) = fst (level_for (i * l))"
  by (simp add: grade_from_axes_def clamp_def assessment_def Let_def)

lemma graded_axesI: "i \<in> {1..3} \<Longrightarrow> l \<in> {1..3} \<Longrightarrow>
    \<exists>i' \<in> {1..3}. \<exists>l' \<in> {1..3}. grade_from_axes i l = grade_from_axes i' l'"
  by blast

lemma risk_axes_graded:
  "risk_axes p s d v h = Inr r \<Longrightarrow> \<exists>i \<in> {1..3}. \<exists>l \<in> {1..3}. r = grade_from_axes i l"
  using assessed_range [of s d h v]
  by (auto simp: risk_axes_def Let_def intro!: graded_axesI split: if_splits option.splits)

lemma risk_entry_ok:
  assumes "risk_axes p s d v h = Inr r" "t \<in> set TREATMENTS" "row_typed RISK_REGISTER i old \<or> old = risk_default i"
  shows "risk_ok i (risk_entry i rq r t p old)"
proof -
  obtain a l where al: "a \<in> {1..3}" "l \<in> {1..3}" "r = grade_from_axes a l" using risk_axes_graded [OF assms(1)] by blast
  have "dget old ''assessed_at'' = PNone \<or> is_text (dget old ''assessed_at'')"
    using assms(3) by (auto simp: row_typed_def RISK_REGISTER_def risk_default_def)
  then have "por (dget old ''assessed_at'') (PStr (rq_now rq)) = PNone \<or> is_text (por (dget old ''assessed_at'') (PStr (rq_now rq)))"
    by (rule pstr_por_text)
  then have "row_typed RISK_REGISTER i (risk_entry i rq r t p old)"
    by (simp add: row_typed_def RISK_REGISTER_def risk_entry_def)
  moreover have "graded (risk_entry i rq r t p old)"
    using al assms(2) grade_from_axes_fields [OF al(1,2)] by (auto simp: graded_def risk_entry_def)
  ultimately show ?thesis by (simp add: risk_ok_def)
qed

lemma commit_case:
  "(case commit b tb k r s of (False, a) \<Rightarrow> f a | (True, a) \<Rightarrow> g a) =
     (if fst (commit b tb k r s) then g (snd (commit b tb k r s)) else f (snd (commit b tb k r s)))"
  by (simp split: prod.split bool.split)

lemma audited_state:
  "va_risks (snd (audited b u n c h v fs old e out s)) = va_risks s"
  "va_actions (snd (audited b u n c h v fs old e out s)) = va_actions s"
  "va_settings (snd (audited b u n c h v fs old e out s)) = va_settings s"
  by (simp_all add: audited_def split: prod.split)

lemma action_upsert_risks: "va_risks (snd (vuln_action_upsert k fs b rq u w i p s)) = va_risks s"
  by (auto simp: vuln_action_upsert_def Let_def audited_state split: option.split prod.split bool.split)

lemma clear_risks: "va_risks (snd (vuln_exception_clear b rq u w i s)) = va_risks s"
  by (auto simp: vuln_exception_clear_def Let_def audited_state split: option.split prod.split bool.split)

lemma risk_upsert_ok: "store_all risk_ok (va_risks s) \<Longrightarrow> store_all risk_ok (va_risks (snd (vuln_risk_upsert b rq u w i p s)))"
proof -
  assume s: "store_all risk_ok (va_risks s)"
  let ?old = "case map_of (rs_cache (va_risks s)) i of None \<Rightarrow> risk_default i | Some e \<Rightarrow> e"
  have old: "row_typed RISK_REGISTER i ?old \<or> ?old = risk_default i"
    using store_all_get [OF s] by (auto simp: risk_ok_def split: option.split)
  have "store_all risk_ok (snd (commit b RISK_REGISTER i (risk_entry i rq r t p ?old) (va_risks s)))"
    if "risk_axes p s d v h = Inr r" "t \<in> set TREATMENTS" for r t d v h
    by (rule store_all_commit [OF s risk_entry_ok [OF that old] risk_keep])
  then show ?thesis
    using s by (auto simp: vuln_risk_upsert_def Let_def audited_state commit_case split: option.split sum.split prod.split)
qed

lemma vuln_exec_risks: "store_all risk_ok (va_risks s) \<Longrightarrow> store_all risk_ok (va_risks (snd (vuln_exec c s)))"
  by (cases c) (simp_all add: vuln_plan_upsert_def vuln_exception_upsert_def action_upsert_risks clear_risks risk_upsert_ok
      store_all_reboot split: prod.split)

lemma vuln_run_risks: "store_all risk_ok (va_risks (snd (vuln_run calls no_vulns)))"
  by (rule run_keeps [of "\<lambda>s. store_all risk_ok (va_risks s)"]) (simp_all add: no_vulns_def vuln_exec_risks)

section \<open>The summary is exact\<close>

text \<open>The heat map of a count by impact and likelihood: impact 3 is the first row, likelihood 1 the first column.\<close>

definition matrix_of :: "(int \<Rightarrow> int \<Rightarrow> int) \<Rightarrow> int list list" where
  "matrix_of f = [[f 3 1, f 3 2, f 3 3], [f 2 1, f 2 2, f 2 3], [f 1 1, f 1 2, f 1 3]]"

definition count_of_items :: "(risk_item \<Rightarrow> bool) \<Rightarrow> risk_item list \<Rightarrow> int" where
  "count_of_items P its = int (length (filter P its))"

definition axes_count :: "risk_item list \<Rightarrow> int \<Rightarrow> int \<Rightarrow> int" where
  "axes_count its i l = count_of_items (\<lambda>x. ri_impact x = i \<and> ri_likelihood x = l) its"

definition on_axes :: "risk_item \<Rightarrow> bool" where
  "on_axes x = (ri_impact x \<in> {1..3} \<and> ri_likelihood x \<in> {1..3})"

lemma axes_cases: "i \<in> {1..3} \<Longrightarrow> i = 1 \<or> i = 2 \<or> i = (3::int)"
  by auto

lemma bump_cell_matrix:
  assumes "i \<in> {1..3}" "l \<in> {1..3}"
  shows "bump_cell i l (matrix_of f) = Some (matrix_of (\<lambda>a b. f a b + (if i = a \<and> l = b then 1 else 0)))"
  using axes_cases [OF assms(1)] axes_cases [OF assms(2)] by (auto simp: bump_cell_def py_index_def matrix_of_def)

lemma count_of_items_Cons: "count_of_items P (x # xs) = (if P x then 1 else 0) + count_of_items P xs"
  by (simp add: count_of_items_def)

lemma count_of_items_sort: "count_of_items P (sort_key f xs) = count_of_items P xs"
  by (simp add: count_of_items_def filter_sort)

lemma axes_count_sort: "axes_count (sort_key f xs) = axes_count xs"
  by (simp add: axes_count_def count_of_items_sort fun_eq_iff)

lemma add_items_exact:
  "list_all on_axes its \<Longrightarrow> sm_matrix m = matrix_of f \<Longrightarrow>
   \<exists>m'. add_items its m = Some m' \<and> sm_matrix m' = matrix_of (\<lambda>i l. f i l + axes_count its i l)
     \<and> sm_items m' = sm_items m @ its \<and> sm_doa m' = sm_doa m
     \<and> sm_by_level m' = foldl (\<lambda>d x. bump (ri_level x) d) (sm_by_level m) its
     \<and> sm_assessed m' = sm_assessed m + count_of_items ri_assessed its
     \<and> sm_accepted m' = sm_accepted m + count_of_items ri_doa_accept its"
proof (induction its arbitrary: m f)
  case Nil
  then show ?case by (simp add: count_of_items_def axes_count_def)
next
  case (Cons it its)
  have "on_axes it" and rest: "list_all on_axes its" using Cons.prems(1) by simp_all
  then have "ri_impact it \<in> {1..3}" "ri_likelihood it \<in> {1..3}" by (simp_all add: on_axes_def)
  note b = bump_cell_matrix [OF this, of f]
  let ?f = "\<lambda>a b. f a b + (if ri_impact it = a \<and> ri_likelihood it = b then 1 else 0)"
  let ?m = "m\<lparr>sm_matrix := matrix_of ?f, sm_by_level := bump (ri_level it) (sm_by_level m), sm_items := sm_items m @ [it],
      sm_assessed := sm_assessed m + (if ri_assessed it then 1 else 0),
      sm_accepted := sm_accepted m + (if ri_doa_accept it then 1 else 0)\<rparr>"
  have a: "add_item it m = Some ?m" using b Cons.prems(2) by (simp add: add_item_def)
  have "sm_matrix ?m = matrix_of ?f" by simp
  from Cons.IH [OF rest this] show ?case
    by (auto simp: a axes_count_def count_of_items_Cons algebra_simps)
qed

lemma sum_bump: "sum_list (map snd (bump k d)) = sum_list (map snd d) + 1"
proof -
  have "sum_list (map snd (dset d k v)) = sum_list (map snd d) - (case map_of d k of None \<Rightarrow> 0 | Some n \<Rightarrow> n) + v" for v :: int
    by (induction d) auto
  then show ?thesis by (simp add: bump_def)
qed

lemma sum_levels: "sum_list (map snd (foldl (\<lambda>d x. bump (f x) d) d xs)) = sum_list (map snd d) + int (length xs)"
  by (induction xs arbitrary: d) (simp_all add: sum_bump)

lemma sum_matrix: "list_all on_axes its \<Longrightarrow> sum_list (map sum_list (matrix_of (axes_count its))) = int (length its)"
proof (induction its)
  case (Cons x its)
  then show ?case
    using axes_cases [of "ri_impact x"] axes_cases [of "ri_likelihood x"]
    by (auto simp: matrix_of_def axes_count_def count_of_items_Cons on_axes_def)
qed (simp add: matrix_of_def axes_count_def count_of_items_def)

lemma item_on_axes: "store_all risk_ok (va_risks s) \<Longrightarrow> on_axes (risk_item_of w s doa v)"
proof (cases "map_of (rs_cache (va_risks s)) (vu_id v)")
  case None
  then show ?thesis using assessed_range [of s "vv_today w" "host_name_of w v" v]
    by (simp add: risk_item_of_def Let_def on_axes_def)
next
  case (Some r)
  assume "store_all risk_ok (va_risks s)"
  from store_all_get [OF this Some] have "graded r" by (simp add: risk_ok_def)
  then obtain i l where "i \<in> {1..3}" "l \<in> {1..3}" "dget r ''impact'' = PInt i" "dget r ''likelihood'' = PInt l"
    by (auto simp: graded_def)
  then show ?thesis using Some assessed_range [of s "vv_today w" "host_name_of w v" v]
    by (simp add: risk_item_of_def Let_def on_axes_def)
qed

lemma level_start: "lookup_or (map (\<lambda>l. (fst (snd l), 0)) (rev RISK_LEVELS)) k 0 = 0"
  by (simp add: lookup_or_def RISK_LEVELS_def)

lemma level_start_sum: "sum_list (map snd (map (\<lambda>l. (fst (snd l), 0::int)) (rev RISK_LEVELS))) = 0"
  by (simp add: RISK_LEVELS_def)

lemma lookup_foldl_bump:
  "lookup_or d k 0 = 0 \<Longrightarrow> lookup_or (foldl (\<lambda>d x. bump (ri_level x) d) d xs) k 0 = count_of_items (\<lambda>x. ri_level x = k) xs"
  by (auto simp: lookup_or_def foldl_bump count_of_items_def split: option.splits)

section \<open>Properties\<close>

text \<open>After any history of calls and restarts, with a database that may refuse any write, every stored risk
  has both axes from 1 to 3, the product as its score, the level of that score and one of the treatments.\<close>

lemma risk_register_graded: "store_all risk_ok (va_risks (snd (vuln_run calls no_vulns)))"
  by (rule vuln_run_risks)

text \<open>C28: After any history the risk summary exists and is exact: it lists every vulnerability of the source once,
  highest score first; the heat map and the counts by level count the listed items and add up to the total; and
  the accepted items are those at or below the threshold, which is from 1 to 9, that are not to be mitigated.\<close>

theorem risk_summary_exact:
  fixes calls w src
  defines "s \<equiv> snd (vuln_run calls no_vulns)"
  shows "\<exists>m. vuln_risk_summary w src s = Some m
    \<and> mset (sm_items m) = mset (map (risk_item_of w s (sm_doa m))
        (filter (\<lambda>v. lower (strip src) = [] \<or> vu_source v = lower (strip src)) (vv_vulns w)))
    \<and> sorted (map (\<lambda>x. - ri_score x) (sm_items m))
    \<and> sm_matrix m = matrix_of (axes_count (sm_items m))
    \<and> sum_list (map sum_list (sm_matrix m)) = sm_total m \<and> sm_total m = int (length (sm_items m))
    \<and> (\<forall>k. lookup_or (sm_by_level m) k 0 = count_of_items (\<lambda>x. ri_level x = k) (sm_items m))
    \<and> sum_list (map snd (sm_by_level m)) = sm_total m
    \<and> sm_assessed m = count_of_items ri_assessed (sm_items m)
    \<and> sm_accepted m = count_of_items (\<lambda>x. ri_score x \<le> sm_doa m \<and> ri_treatment x \<noteq> ''mitigate'') (sm_items m)
    \<and> sm_doa m \<in> {1..9}"
proof -
  let ?doa = "read_risk_doa (tx_cache (va_settings s))"
  let ?vs = "filter (\<lambda>v. lower (strip src) = [] \<or> vu_source v = lower (strip src)) (vv_vulns w)"
  obtain its where its: "map (risk_item_of w s ?doa) ?vs = its" by simp
  have axes: "list_all on_axes its" using item_on_axes vuln_run_risks by (auto simp: list_all_iff s_def its [symmetric])
  have start: "sm_matrix (empty_summary ?doa) = matrix_of (\<lambda>i l. 0)" by (simp add: empty_summary_def matrix_of_def)
  obtain m where m: "add_items its (empty_summary ?doa) = Some m" "sm_matrix m = matrix_of (axes_count its)"
    "sm_items m = its" "sm_doa m = ?doa" "sm_assessed m = count_of_items ri_assessed its"
    "sm_accepted m = count_of_items ri_doa_accept its"
    "sm_by_level m = foldl (\<lambda>d x. bump (ri_level x) d) (map (\<lambda>l. (fst (snd l), 0)) (rev RISK_LEVELS)) its"
    using add_items_exact [OF axes start] by (auto simp: empty_summary_def)
  let ?m = "m\<lparr>sm_items := sort_key (\<lambda>x. (- ri_score x, ri_cve x)) its, sm_total := int (length its)\<rparr>"
  have sum: "vuln_risk_summary w src s = Some ?m" by (simp add: vuln_risk_summary_def Let_def its m(1,3))
  have "sorted (map (\<lambda>x. (- ri_score x, ri_cve x)) (sm_items ?m))" by simp
  then have sorted: "sorted (map (\<lambda>x. - ri_score x) (sm_items ?m))"
    unfolding sorted_map by (rule sorted_wrt_mono_rel [rotated]) (auto simp: less_eq_prod_def)
  have "ri_doa_accept x = (ri_score x \<le> ?doa \<and> ri_treatment x \<noteq> ''mitigate'')" if "x \<in> set its" for x
    using that by (auto simp: its [symmetric] risk_item_of_def Let_def)
  then have acc: "count_of_items ri_doa_accept its = count_of_items (\<lambda>x. ri_score x \<le> ?doa \<and> ri_treatment x \<noteq> ''mitigate'') its"
    by (simp add: count_of_items_def cong: filter_cong)
  have doa: "?doa \<in> {1..9}" using read_risk_doa_range [of "tx_cache (va_settings s)"] by (simp add: RISK_DOA_MIN_def RISK_DOA_MAX_def)
  have doam: "sm_doa ?m = ?doa" by (simp add: m(4))
  have "mset (sm_items ?m) = mset (map (risk_item_of w s (sm_doa ?m)) ?vs)" unfolding doam its by simp
  then show ?thesis
    using sum sorted doa acc sum_matrix [OF axes]
    by (intro exI [of _ ?m])
      (simp add: m axes_count_sort sum_levels lookup_foldl_bump level_start level_start_sum [unfolded map_map] count_of_items_sort)
qed

section \<open>The shared audit log\<close>

lemma log_changes_appends:
  "\<exists>gs. set gs \<subseteq> set fs \<and> at_log (snd (log_changes b change old entry fs s)) = at_log s @ map change gs"
proof (induction fs arbitrary: s)
  case (Cons f fs)
  show ?case
  proof (cases "dget entry f \<noteq> dgetd old f (PStr [])")
    case True
    show ?thesis
    proof (cases "append_asset_audit b (change f) (at_log_disk s)")
      case None
      then show ?thesis using True by (intro exI [of _ "[f]"]) (simp add: Let_def)
    next
      case (Some rows)
      obtain gs where "set gs \<subseteq> set fs"
        "at_log (snd (log_changes b change old entry fs (s\<lparr>at_log := at_log s @ [change f], at_log_disk := rows\<rparr>)))
          = (at_log s @ [change f]) @ map change gs"
        using Cons.IH [of "s\<lparr>at_log := at_log s @ [change f], at_log_disk := rows\<rparr>"] by auto
      then show ?thesis using True Some by (intro exI [of _ "f # gs"]) (auto simp: Let_def)
    qed
  next
    case False
    then show ?thesis using Cons.IH [of s] by auto
  qed
qed simp

lemma replay_other_fields: "\<forall>e \<in> set es. dget e ''field'' \<noteq> PStr f \<Longrightarrow> replay_owner h f cur (xs @ es) = replay_owner h f cur xs"
proof -
  assume "\<forall>e \<in> set es. dget e ''field'' \<noteq> PStr f"
  then have "replay_owner h f v es = Some v" for v by (induction es) auto
  then show ?thesis by (simp add: replay_owner_append split: option.split)
qed

lemma vuln_field_apart: "f \<in> set AUDITED_FIELDS \<Longrightarrow> dget (vuln_change u n c h cve g old e) ''field'' \<noteq> PStr f"
  by (auto simp: vuln_change_def AUDITED_FIELDS_def)

text \<open>The changes of vulnerabilities do not disturb what the log says of the owners.\<close>

lemma audited_log_true: "log_true (va_assets s) \<Longrightarrow> log_true (va_assets (snd (audited b u n c h cve fs old e out s)))"
proof -
  assume t: "log_true (va_assets s)"
  let ?ch = "\<lambda>f. vuln_change (u f) n c h cve f old e"
  obtain gs where "at_log (snd (log_changes b ?ch old e fs (va_assets s))) = at_log (va_assets s) @ map ?ch gs"
    using log_changes_appends by blast
  moreover have "at_owners (snd (log_changes b ?ch old e fs (va_assets s))) = at_owners (va_assets s)"
    by (rule log_changes_owners)
  ultimately have "log_true (snd (log_changes b ?ch old e fs (va_assets s)))"
    using t vuln_field_apart by (auto simp: log_true_def owner_value_def intro!: replay_other_fields trans [OF replay_other_fields])
  then show ?thesis using t by (auto simp: audited_def record_vuln_audit_def split: prod.split if_split)
qed

lemma audited_owners_typed: "owners_typed (va_assets s) \<Longrightarrow> owners_typed (va_assets (snd (audited b u n c h cve fs old e out s)))"
  using log_changes_owners [of b "\<lambda>f. vuln_change (u f) n c h cve f old e" old e fs "va_assets s"]
  by (auto simp: audited_def record_vuln_audit_def owners_typed_def split: prod.split if_split)

definition assets_fine :: "vuln_state \<Rightarrow> bool" where
  "assets_fine s = (owners_typed (va_assets s) \<and> log_true (va_assets s))"

lemma assets_fine_cong: "va_assets s' = va_assets s \<Longrightarrow> assets_fine s \<Longrightarrow> assets_fine s'"
  by (simp add: assets_fine_def)

lemma audited_fine: "assets_fine s \<Longrightarrow> assets_fine (snd (audited b u n c h cve fs old e out s))"
  by (simp add: assets_fine_def audited_log_true audited_owners_typed)

lemma action_upsert_fine: "assets_fine s \<Longrightarrow> assets_fine (snd (vuln_action_upsert kind fs b rq u w i p s))"
  by (auto simp: vuln_action_upsert_def Let_def commit_case intro!: audited_fine intro: assets_fine_cong [rotated]
      split: option.split prod.split)

lemma clear_fine: "assets_fine s \<Longrightarrow> assets_fine (snd (vuln_exception_clear b rq u w i s))"
  by (auto simp: vuln_exception_clear_def Let_def commit_case intro!: audited_fine intro: assets_fine_cong [rotated]
      split: option.split prod.split)

lemma risk_upsert_fine: "assets_fine s \<Longrightarrow> assets_fine (snd (vuln_risk_upsert b rq u w i p s))"
  by (auto simp: vuln_risk_upsert_def Let_def commit_case intro!: audited_fine intro: assets_fine_cong [rotated]
      split: option.split prod.split sum.split)

primrec keeps_log :: "vuln_call \<Rightarrow> bool" where
  "keeps_log (PlanVuln b rq u w i p) = True"
| "keeps_log (ExceptVuln b rq u w i p) = True"
| "keeps_log (ClearVuln b rq u w i) = True"
| "keeps_log (RiskVuln b rq u w i p) = True"
| "keeps_log (OwnerCall c) = (\<not> deletes c)"
| "keeps_log (DoaCall env b rq p) = True"
| "keeps_log (RestartVulns database) = False"

lemma vuln_exec_fine:
  assumes "assets_fine s" "\<not> fst (vuln_exec c s)" "keeps_log c"
  shows "assets_fine (snd (vuln_exec c s))"
proof (cases c)
  case (OwnerCall a)
  then show ?thesis
    using assms asset_exec_true [of "va_assets s" a] by (cases "asset_exec a (va_assets s)") (auto simp: assets_fine_def)
next
  case (DoaCall env b rq p)
  then show ?thesis using assms by (simp add: assets_fine_def)
qed (use assms in \<open>simp_all add: vuln_plan_upsert_def vuln_exception_upsert_def action_upsert_fine clear_fine risk_upsert_fine\<close>)

lemma vuln_run_fine:
  "assets_fine s \<Longrightarrow> \<not> fst (vuln_run calls s) \<Longrightarrow> list_all keeps_log calls \<Longrightarrow> assets_fine (snd (vuln_run calls s))"
proof (induction calls arbitrary: s)
  case (Cons c calls)
  obtain f s' where e: "vuln_exec c s = (f, s')" by fastforce
  obtain g s'' where r: "vuln_run calls s' = (g, s'')" by fastforce
  have "assets_fine s'" using vuln_exec_fine [OF Cons.prems(1), of c] Cons.prems(2,3) e r by simp
  then show ?case using Cons.IH [of s'] Cons.prems(2,3) e r by simp
qed simp

text \<open>C27: In every history of upserts, imports, plans, exceptions, risk assessments and settings, without a server
  error of an upsert, a deletion of an owner or a restart, the audit log that all these calls share replays, entry
  by entry, to the five audited fields of every host.\<close>

theorem owner_log_replays:
  assumes "\<not> fst (vuln_run calls no_vulns)" "list_all keeps_log calls" "f \<in> set AUDITED_FIELDS"
  shows "replay_owner h f (PStr []) (at_log (va_assets (snd (vuln_run calls no_vulns))))
    = Some (owner_value (va_assets (snd (vuln_run calls no_vulns))) h f)"
proof -
  have "assets_fine no_vulns" using no_assets_true by (simp add: assets_fine_def no_vulns_def)
  then have "assets_fine (snd (vuln_run calls no_vulns))" using assms(1,2) by (rule vuln_run_fine)
  then show ?thesis using assms(3) by (simp add: assets_fine_def log_true_def)
qed

definition vuln_demo_view :: vuln_view where
  "vuln_demo_view =
     \<lparr>vv_hosts = [\<lparr>ho_id = ''server-1'', ho_hostname = ''web1'', ho_platform = None, ho_primary_ip = None, ho_status = ''online'',
        ho_risk_score = 0, ho_first_seen = None, ho_last_seen = None\<rparr>],
      vv_vulns = [\<lparr>vu_id = ''v1'', vu_host_id = ''server-1'', vu_detected_at = \<lparr>dt_us = 5, dt_off = Some 0\<rparr>, vu_source = ''trivy'',
        vu_cve = Some ''CVE-1'', vu_severity = ''critical'', vu_package_name = None, vu_installed_version = None,
        vu_fixed_version = None, vu_resolved_at = None, vu_raw_ref = None, vu_raw_payload = []\<rparr>],
      vv_today = 0\<rparr>"

definition vuln_demo_rq :: gov_request where
  "vuln_demo_rq = \<lparr>rq_role = Some ''user'', rq_user = ''mallory'', rq_now = ''t3''\<rparr>"

definition vuln_demo_calls :: "vuln_call list" where
  "vuln_demo_calls = map OwnerCall asset_demo_calls @
     [PlanVuln (Database ''d'') vuln_demo_rq (\<lambda>f. ''3'' @ f) vuln_demo_view ''v1''
        [(''plan_text'', PStr ''patch''), (''plan_updated_by'', PStr ''ceo'')]]"

lemma vuln_demo_fine: "\<not> fst (vuln_run vuln_demo_calls no_vulns)"
  "length (at_log (va_assets (snd (vuln_run vuln_demo_calls no_vulns)))) = 3"
  by code_simp+

lemma owner_log_replays_witness:
  "replay_owner ''web1'' ''owner'' (PStr []) (at_log (va_assets (snd (vuln_run vuln_demo_calls no_vulns))))
    = Some (owner_value (va_assets (snd (vuln_run vuln_demo_calls no_vulns))) ''web1'' ''owner'')"
  by (rule owner_log_replays [OF vuln_demo_fine(1)])
    (simp_all add: vuln_demo_calls_def asset_demo_calls_def AUDITED_FIELDS_def)

section \<open>What the routes do not check\<close>

text \<open>The author in the audit log is the name that the request states: mallory's plan is logged as the ceo's.\<close>

lemma audit_author_stated_by_request:
  "dget (last (at_log (va_assets (snd (vuln_run vuln_demo_calls no_vulns))))) ''changed_by'' = PStr ''ceo''"
  by code_simp

text \<open>Any role accepts a critical risk, without a reason, in the name of an approver of its choice.\<close>

lemma anyone_accepts_a_risk:
  "map_sum id (\<lambda>r. (dget r ''treatment'', dget r ''accept_approver'', dget r ''accept_reason''))
     (fst (vuln_risk_upsert (Database ''d'') vuln_demo_rq (\<lambda>f. f) vuln_demo_view ''v1''
        [(''impact'', PInt 3), (''likelihood'', PInt 3), (''treatment'', PStr ''accept''), (''accept_approver'', PStr ''ciso'')] no_vulns))
     = Inr (PStr ''accept'', PStr ''ciso'', PStr [])"
  by code_simp

end
