(* ===== verification/Preferences.thy ===== *)
theory Preferences
  imports Auth Gov_Store
begin

text \<open>
  What an administrator and a user set for the screens: the panels of the dashboard
  (\<^verbatim>\<open>api/routes/dashboard_prefs.py\<close> with the functions of \<^verbatim>\<open>api/payloads.py\<close> and the tables of
  \<^verbatim>\<open>api/templates/_common.py\<close>), the tabs of a role and of a user (\<^verbatim>\<open>api/routes/rbac.py\<close>, on the state of
  \<open>Auth\<close>) and the guides (\<^verbatim>\<open>api/routes/guides.py\<close>).  Labels that are not ASCII are given by their bytes.
\<close>

section \<open>Panels of the dashboard\<close>

definition USER_DASHBOARD_CARD_LABELS :: "string dict" where
  "USER_DASHBOARD_CARD_LABELS =
     [(''total_hosts'', ''Total Hosts''), (''offline_hosts'', ''Offline Hosts''), (''alerts_24h'', ''High Alerts 24h''),
      (''critical_vulns'', ''Critical Vulns''), (''sources_reporting'', ''Sources Reporting''),
      (''sources_healthy'', ''Healthy Collectors''), (''ingested_records'', ''Ingested Records'')]"

definition USER_DASHBOARD_SECTION_LABELS :: "string dict" where
  "USER_DASHBOARD_SECTION_LABELS =
     [(''security_hero'', ''Security Overview''), (''infra_status'', ''Infra Status (24h/12h)''),
      (''fleet_status'', ''PC Assets (Fleet)''),
      (''zabbix_status'', utf8 [236, 132, 156, 235, 178, 132, 32, 236, 158, 144, 236, 130, 176, 32, 237, 152,
     132, 237, 153, 169]),
      (''trivy_status'', utf8 [236, 183, 168, 236, 149, 189, 236, 160, 144, 32, 237, 152, 132, 237, 153, 169]),
      (''source_coverage'', ''Source Coverage''), (''latest_status'', ''Latest Host Status''),
      (''risk_summary'', ''Risk Summary''), (''recent_activity'', ''Recent Activity'')]"

definition USER_DASHBOARD_ASSET_COLUMN_LABELS :: "string dict" where
  "USER_DASHBOARD_ASSET_COLUMN_LABELS =
     [(''show_importance'', utf8 [236, 164, 145, 236, 154, 148, 235, 143, 132, 32, 236, 187, 172, 235, 159,
     188]),
      (''show_isms_control'', utf8 [73, 83, 77, 83, 45, 80, 32, 237, 134, 181, 236, 160, 156, 32, 236, 187,
     172, 235, 159, 188]),
      (''show_iso27001_control'', utf8 [73, 83, 79, 32, 50, 55, 48, 48, 49, 32, 237, 134, 181, 236, 160, 156,
     32, 236, 187, 172, 235, 159, 188])]"

definition USER_DASHBOARD_GUIDE_LABELS :: "string dict" where
  "USER_DASHBOARD_GUIDE_LABELS =
     [(''zabbix_setup'', utf8 [90, 97, 98, 98, 105, 120, 32, 236, 151, 144, 236, 157, 180, 236, 160, 132,
     237, 138, 184, 32, 236, 132, 164, 236, 160, 149]),
      (''fleet_install'', utf8 [70, 108, 101, 101, 116, 32, 236, 151, 144, 236, 157, 180, 236, 160, 132, 237,
     138, 184, 32, 236, 132, 164, 236, 185, 152]),
      (''isms_criteria'', utf8 [73, 83, 77, 83, 45, 80, 32, 236, 139, 172, 236, 130, 172, 32, 234, 184, 176,
     236, 164, 128]),
      (''iso27001_criteria'', utf8 [73, 83, 79, 32, 50, 55, 48, 48, 49, 32, 234, 184, 176, 236, 164, 128]),
      (''ldap_setup'', utf8 [76, 68, 65, 80, 32, 237, 134, 181, 237, 149, 169, 32, 236, 132, 164, 236, 160,
     149]),
      (''incident_response'', utf8 [236, 157, 184, 236, 139, 156, 235, 141, 152, 237, 138, 184, 32, 235, 140,
     128, 236, 157, 145, 32, 236, 160, 136, 236, 176, 168]),
      (''security_policy'', utf8 [235, 179, 180, 236, 149, 136, 32, 236, 160, 149, 236, 177, 133, 32, 234,
     176, 128, 236, 157, 180, 235, 147, 156]),
      (''risk_methodology'', utf8 [236, 156, 132, 237, 151, 152, 236, 132, 177, 32, 237, 143, 137, 234, 176,
     128, 32, 234, 184, 176, 236, 164, 128])]"

text \<open>\<^verbatim>\<open>DEFAULT_USER_DASHBOARD_PREFERENCES\<close>, by group.\<close>

definition DEFAULT_PANELS :: "(string \<times> bool dict) list" where
  "DEFAULT_PANELS =
     [(''cards'', map (\<lambda>kl. (fst kl, False)) USER_DASHBOARD_CARD_LABELS),
      (''sections'', map (\<lambda>kl. (fst kl, fst kl = ''security_hero'')) USER_DASHBOARD_SECTION_LABELS),
      (''asset_columns'', map (\<lambda>kl. (fst kl, True)) USER_DASHBOARD_ASSET_COLUMN_LABELS),
      (''guides'', map (\<lambda>kl. (fst kl, True)) USER_DASHBOARD_GUIDE_LABELS)]"

definition PANEL_LABELS :: "(string \<times> string dict) list" where
  "PANEL_LABELS =
     [(''cards'', USER_DASHBOARD_CARD_LABELS), (''sections'', USER_DASHBOARD_SECTION_LABELS),
      (''asset_columns'', USER_DASHBOARD_ASSET_COLUMN_LABELS), (''guides'', USER_DASHBOARD_GUIDE_LABELS)]"

definition default_dashboard_preferences :: "string \<Rightarrow> pdict" where
  "default_dashboard_preferences portal =
     [(''docs_url'', PStr portal),
      (''user_dashboard'', PDict (map (\<lambda>g. (fst g, PDict (map (map_prod id PBool) (snd g))))
         (filter (\<lambda>g. fst g \<noteq> ''guides'') DEFAULT_PANELS)))]"

text \<open>One group of the answer: every known key with its truth value, the default where it is not set.\<close>

definition panel_group :: "pdict \<Rightarrow> bool dict \<Rightarrow> pdict" where
  "panel_group given defaults = map (\<lambda>kd. (fst kd, PBool (truthy (dgetd given (fst kd) (PBool (snd kd)))))) defaults"

definition dashboard_groups :: "pdict \<Rightarrow> pdict" where
  "dashboard_groups preferences =
     (let ud = as_dict (dget preferences ''user_dashboard'')
      in map (\<lambda>g. (fst g, PDict (panel_group (as_dict (dget ud (fst g))) (snd g)))) DEFAULT_PANELS)"

definition docs_url_of :: "string \<Rightarrow> pdict \<Rightarrow> pv" where
  "docs_url_of portal preferences =
     (case dget preferences ''docs_url'' of PStr u \<Rightarrow> PStr u | _ \<Rightarrow> PStr portal)"

definition dashboard_preferences_response :: "string \<Rightarrow> pdict \<Rightarrow> pdict" where
  "dashboard_preferences_response portal preferences =
     [(''docs_url'', docs_url_of portal preferences), (''user_dashboard'', PDict (dashboard_groups preferences)),
      (''card_labels'', PDict (map (map_prod id PStr) USER_DASHBOARD_CARD_LABELS)),
      (''section_labels'', PDict (map (map_prod id PStr) USER_DASHBOARD_SECTION_LABELS)),
      (''asset_column_labels'', PDict (map (map_prod id PStr) USER_DASHBOARD_ASSET_COLUMN_LABELS)),
      (''guide_labels'', PDict (map (map_prod id PStr) USER_DASHBOARD_GUIDE_LABELS))]"

text \<open>The merge of a payload; \<open>None\<close> is the \<^verbatim>\<open>ValueError\<close>, which the routes answer as a bad request.\<close>

fun set_panels :: "string dict \<Rightarrow> pdict \<Rightarrow> pdict \<Rightarrow> pdict option" where
  "set_panels labels [] grp = Some grp"
| "set_panels labels ((k, v) # kvs) grp =
     (if \<not> dhas labels k then None
      else case v of PBool x \<Rightarrow> set_panels labels kvs (dset grp k (PBool x)) | _ \<Rightarrow> None)"

fun set_groups :: "(string \<times> string dict) list \<Rightarrow> pdict \<Rightarrow> pdict \<Rightarrow> pdict option" where
  "set_groups [] payload groups = Some groups"
| "set_groups ((g, labels) # gs) payload groups =
     (case dget payload g of
        PNone \<Rightarrow> set_groups gs payload groups
      | PDict kvs \<Rightarrow>
          (case set_panels labels kvs (as_dict (dget groups g)) of
             None \<Rightarrow> None
           | Some d \<Rightarrow> set_groups gs payload (dset groups g (PDict d)))
      | _ \<Rightarrow> None)"

definition merged_docs_url :: "string \<Rightarrow> pdict \<Rightarrow> pdict \<Rightarrow> pv option" where
  "merged_docs_url portal current payload =
     (if \<not> dhas payload ''docs_url'' then Some (docs_url_of portal current)
      else case dget payload ''docs_url'' of PStr u \<Rightarrow> if strip u = [] then None else Some (PStr (strip u)) | _ \<Rightarrow> None)"

definition merge_dashboard_preferences :: "string \<Rightarrow> pdict \<Rightarrow> pdict \<Rightarrow> pdict option" where
  "merge_dashboard_preferences portal current payload =
     (case merged_docs_url portal current payload of
        None \<Rightarrow> None
      | Some u \<Rightarrow>
          map_option (\<lambda>gs. [(''docs_url'', u), (''user_dashboard'', PDict gs)])
            (case dget payload ''user_dashboard'' of
               PNone \<Rightarrow> Some (dashboard_groups current)
             | PDict ud \<Rightarrow> set_groups PANEL_LABELS ud (dashboard_groups current)
             | _ \<Rightarrow> None))"

record dashboard_state =
  ds_admin :: pdict
  ds_users :: "pdict dict"

definition dashboard_preferences_get :: "string \<Rightarrow> string \<Rightarrow> dashboard_state \<Rightarrow> pdict" where
  "dashboard_preferences_get portal username s =
     dashboard_preferences_response portal
       (if username \<noteq> [] \<and> dhas (ds_users s) username then the (map_of (ds_users s) username) else ds_admin s)"

definition admin_dashboard_preferences_update ::
    "string \<Rightarrow> pdict \<Rightarrow> dashboard_state \<Rightarrow> (herr + pdict) \<times> dashboard_state" where
  "admin_dashboard_preferences_update portal payload s =
     (case merge_dashboard_preferences portal (ds_admin s) payload of
        None \<Rightarrow> (Inl BadRequest, s)
      | Some p \<Rightarrow> (Inr (dashboard_preferences_response portal p), s\<lparr>ds_admin := p\<rparr>))"

definition dashboard_preferences_update ::
    "string \<Rightarrow> string \<Rightarrow> pdict \<Rightarrow> dashboard_state \<Rightarrow> (herr + pdict) \<times> dashboard_state" where
  "dashboard_preferences_update portal username payload s =
     (if username = [] then admin_dashboard_preferences_update portal payload s
      else case merge_dashboard_preferences portal
               (case map_of (ds_users s) username of None \<Rightarrow> ds_admin s | Some p \<Rightarrow> p) payload of
        None \<Rightarrow> (Inl BadRequest, s)
      | Some p \<Rightarrow> (Inr (dashboard_preferences_response portal p), s\<lparr>ds_users := dset (ds_users s) username p\<rparr>))"

definition admin_user_prefs_list :: "string \<Rightarrow> dashboard_state \<Rightarrow> pdict" where
  "admin_user_prefs_list portal s = map (\<lambda>up. (fst up, PDict (dashboard_preferences_response portal (snd up)))) (ds_users s)"

definition admin_user_prefs_reset :: "string \<Rightarrow> dashboard_state \<Rightarrow> bool \<times> dashboard_state" where
  "admin_user_prefs_reset username s =
     (dhas (ds_users s) username, s\<lparr>ds_users := AList.delete username (ds_users s)\<rparr>)"

section \<open>Tabs of roles and users\<close>

definition VALID_TABS :: "string list" where
  "VALID_TABS = [''dashboard'', ''triage'', ''incidents'', ''assets'', ''compliance'', ''guides'']"

text \<open>The items of a list that are tabs; \<open>None\<close> where \<^verbatim>\<open>in\<close> raises on an item that cannot be hashed.\<close>

fun valid_tabs :: "pv list \<Rightarrow> string list option" where
  "valid_tabs [] = Some []"
| "valid_tabs (PStr t # ts) = map_option (\<lambda>r. if t \<in> set VALID_TABS then t # r else r) (valid_tabs ts)"
| "valid_tabs (PList xs # ts) = None"
| "valid_tabs (PDict d # ts) = None"
| "valid_tabs (_ # ts) = valid_tabs ts"

text \<open>The roles of the payload are set one after the other; a bad one ends the call, the ones before it stay set.\<close>

fun update_role_permissions_api :: "pdict \<Rightarrow> auth_state \<Rightarrow> (herr + string list dict) \<times> auth_state" where
  "update_role_permissions_api [] s = (Inr (as_role_tabs s), s)"
| "update_role_permissions_api ((role, v) # kvs) s =
     (case v of
        PList tabs \<Rightarrow>
          (case valid_tabs tabs of
             None \<Rightarrow> (Inl ServerError, s)
           | Some ts \<Rightarrow> update_role_permissions_api kvs (s\<lparr>as_role_tabs := dset (as_role_tabs s) role ts\<rparr>))
      | _ \<Rightarrow> (Inl BadRequest, s))"

definition set_user_tab_permissions_api ::
    "string \<Rightarrow> pdict \<Rightarrow> auth_state \<Rightarrow> (herr + string list) \<times> auth_state" where
  "set_user_tab_permissions_api username payload s =
     (case dget payload ''tabs'' of
        PList tabs \<Rightarrow>
          (case valid_tabs tabs of
             None \<Rightarrow> (Inl ServerError, s)
           | Some ts \<Rightarrow> (Inr ts, s\<lparr>as_tabs := dset (as_tabs s) username ts\<rparr>))
      | _ \<Rightarrow> (Inl BadRequest, s))"

definition reset_user_tab_permissions_api :: "string \<Rightarrow> auth_state \<Rightarrow> bool \<times> auth_state" where
  "reset_user_tab_permissions_api username s =
     (dhas (as_tabs s) username, s\<lparr>as_tabs := AList.delete username (as_tabs s)\<rparr>)"

text \<open>The users of the list: the local ones, then those of a session, with the role of their first appearance.\<close>

definition known_users :: "auth_state \<Rightarrow> string dict" where
  "known_users s =
     foldl (\<lambda>d sess. let u = pstr (dgetd sess ''username'' (PStr []))
              in if u \<noteq> [] \<and> \<not> dhas d u then dset d u (pstr (dgetd sess ''role'' (PStr ''user''))) else d)
       (map (\<lambda>ua. (fst ua, ac_role (snd ua))) (as_users s)) (map snd (ss_mem (as_sessions s)))"

record user_tabs_row =
  ut_username :: string
  ut_role :: string
  ut_default :: "string list"
  ut_tabs :: "string list option"

definition get_user_tab_permissions_api :: "auth_state \<Rightarrow> user_tabs_row list" where
  "get_user_tab_permissions_api s =
     map (\<lambda>ur. \<lparr>ut_username = fst ur, ut_role = snd ur, ut_default = tabs_of_role (as_role_tabs s) (snd ur),
           ut_tabs = map_of (as_tabs s) (fst ur)\<rparr>)
       (sort_key fst (known_users s))"

section \<open>Guides\<close>

definition resolve_lang :: "string \<Rightarrow> string \<Rightarrow> string" where
  "resolve_lang query cookie = (if lower (sor query (sor cookie ''ko'')) = ''en'' then ''en'' else ''ko'')"

definition localize :: "pdict \<Rightarrow> string \<Rightarrow> pdict" where
  "localize guide lang =
     (if lang \<noteq> ''en'' \<or> truthy (dget guide ''updated_at'') then guide
      else let out = (if truthy (dget guide ''title_en'') then dset guide ''title'' (dget guide ''title_en'') else guide)
        in if truthy (dget guide ''content_en'') then dset out ''content'' (dget guide ''content_en'') else out)"

definition guide_get :: "string \<Rightarrow> string \<Rightarrow> pdict dict \<Rightarrow> herr + pdict" where
  "guide_get guide_id lang guides =
     (case map_of guides guide_id of None \<Rightarrow> Inl NotFound | Some g \<Rightarrow> Inr (localize g lang))"

definition guides_list :: "string \<Rightarrow> pdict dict \<Rightarrow> pdict list" where
  "guides_list lang guides = map (\<lambda>g. localize (snd g) lang) guides"

definition guide_upsert :: "string \<Rightarrow> string \<Rightarrow> pdict \<Rightarrow> pdict dict \<Rightarrow> pdict \<times> pdict dict" where
  "guide_upsert now guide_id payload guides =
     (let existing = (case map_of guides guide_id of None \<Rightarrow> [(''id'', PStr guide_id)] | Some g \<Rightarrow> g);
          entry = dmerge existing
            [(''title'', PStr (strip (pstr (dgetd payload ''title'' (dgetd existing ''title'' (PStr guide_id)))))),
             (''content'', PStr (pstr (dgetd payload ''content'' (dgetd existing ''content'' (PStr []))))),
             (''updated_at'', PStr now)]
      in (entry, dset guides guide_id entry))"

section \<open>Lemmas\<close>

text \<open>An edited guide is what was written, in both languages.\<close>

lemma edited_guide_in_both_languages:
  assumes "now \<noteq> []" "dget payload ''title'' = PStr t" "dget payload ''content'' = PStr c"
  shows "\<exists>g. guide_get i lang (snd (guide_upsert now i payload guides)) = Inr g
    \<and> dget g ''title'' = PStr (strip t) \<and> dget g ''content'' = PStr c"
proof -
  have "dgetd payload ''title'' v = PStr t" "dgetd payload ''content'' v = PStr c" for v
    using assms(2,3) by (auto simp: dgetd_def dget_def split: option.splits)
  then show ?thesis
    using assms(1) by (simp add: guide_get_def guide_upsert_def localize_def Let_def dmerge_def)
qed

text \<open>The tabs that a user is shown are always among the valid ones.\<close>

definition tabs_valid :: "auth_state \<Rightarrow> bool" where
  "tabs_valid s = ((\<forall>r ts. map_of (as_role_tabs s) r = Some ts \<longrightarrow> set ts \<subseteq> set VALID_TABS)
     \<and> (\<forall>u ts. map_of (as_tabs s) u = Some ts \<longrightarrow> set ts \<subseteq> set VALID_TABS))"

lemma valid_tabs_subset: "valid_tabs vs = Some ts \<Longrightarrow> set ts \<subseteq> set VALID_TABS"
  by (induction vs arbitrary: ts rule: valid_tabs.induct) (auto split: if_splits)

lemma role_update_valid: "tabs_valid s \<Longrightarrow> tabs_valid (snd (update_role_permissions_api p s))"
proof (induction p s rule: update_role_permissions_api.induct)
  case (2 role v kvs s)
  show ?case
  proof (cases v)
    case (PList tabs)
    show ?thesis
    proof (cases "valid_tabs tabs")
      case (Some ts)
      then have "tabs_valid (s\<lparr>as_role_tabs := dset (as_role_tabs s) role ts\<rparr>)"
        using 2(2) valid_tabs_subset by (auto simp: tabs_valid_def)
      then show ?thesis using 2(1) PList Some by simp
    qed (use PList 2 in simp)
  qed (use 2 in simp_all)
qed simp

lemma user_update_valid: "tabs_valid s \<Longrightarrow> tabs_valid (snd (set_user_tab_permissions_api u p s))"
  using valid_tabs_subset
  by (auto simp: set_user_tab_permissions_api_def tabs_valid_def split: pv.split option.split)

lemma user_reset_valid: "tabs_valid s \<Longrightarrow> tabs_valid (snd (reset_user_tab_permissions_api u s))"
  by (auto simp: reset_user_tab_permissions_api_def tabs_valid_def delete_conv')

lemma default_tabs_valid: "set (tabs_of_role DEFAULT_ROLE_PERMISSIONS r) \<subseteq> set VALID_TABS"
  by (auto simp: tabs_of_role_def DEFAULT_ROLE_PERMISSIONS_def VALID_TABS_def split: if_splits option.splits)

text \<open>The update of the roles stops at the first value that is not a list, but keeps the roles before it.\<close>

lemma refused_update_half_done:
  "\<exists>s'. update_role_permissions_api [(''user'', PList []), (''admin'', PNone)] s = (Inl BadRequest, s')
     \<and> map_of (as_role_tabs s') ''user'' = Some []"
  by simp

text \<open>A panel that a user switches is as switched when the settings are read, and no other panel changes.\<close>

lemma panel_group_get:
  "distinct (keys defaults) \<Longrightarrow> (k, d) \<in> set defaults \<Longrightarrow> dget (panel_group given defaults) k = PBool (truthy (dgetd given k (PBool d)))"
  by (induction defaults) (auto simp: panel_group_def image_iff)

text \<open>An accepted group of panels is as given where it is given, which is only at known keys.\<close>

lemma set_panels_get:
  "set_panels labels kvs grp = Some d \<Longrightarrow> dwf kvs \<Longrightarrow> dget d k = (if dhas kvs k then dget kvs k else dget grp k)
     \<and> (dhas kvs k \<longrightarrow> dhas labels k \<and> (\<exists>x. dget kvs k = PBool x))"
proof (induction labels kvs grp rule: set_panels.induct)
  case (2 labels k' v kvs grp)
  then obtain x where v: "v = PBool x" "dhas labels k'" by (auto split: if_splits pv.splits)
  have "k' \<notin> fst ` set kvs" "dwf kvs" using 2(3) by auto
  then have "\<not> dhas kvs k'" by (force simp: dhas_def dest: map_of_SomeD)
  then show ?case using 2 v by auto
qed simp

end
