(* ===== verification/Account_Gov.thy ===== *)
theory Account_Gov
  imports Settings Accounts Auth Csv "HOL-Library.Product_Lexorder"
begin

text \<open>
  The governance of accounts, \<^verbatim>\<open>api/routes/accounts_gov.py\<close>: the inventory that hosts push, the reconciliation
  (\<open>Accounts\<close>) over it, the list of approvals with its requests, and the settings of the collection and of the
  roles that may look.  The approvals are a table of \<open>State_Tables\<close>.  The table of host accounts is given by
  whether the database takes a write; the entries of the action log are left out.
\<close>

section \<open>State and gates\<close>

record account_gov =
  gv_hosts :: "pdict list dict"
  gv_approvals :: rec_store
  gv_settings :: text_store

definition gov_allowed :: "gov_env \<Rightarrow> gov_request \<Rightarrow> account_gov \<Rightarrow> bool" where
  "gov_allowed env rq s = (\<not> ge_auth env \<or> rq_role rq \<in> Some ` set (parse_account_view_roles (tx_cache (gv_settings s))))"

definition logged_in :: "gov_env \<Rightarrow> gov_request \<Rightarrow> bool" where
  "logged_in env rq = (\<not> ge_auth env \<or> rq_user rq \<noteq> [])"

definition collection_enabled :: "account_gov \<Rightarrow> bool" where
  "collection_enabled s =
     (lower (strip (env_get (tx_cache (gv_settings s)) ''account_collect_enabled'' ''true''))
        \<notin> {''false'', ''0'', ''no'', ''off''})"

definition collection_source :: "account_gov \<Rightarrow> string" where
  "collection_source s =
     (let raw = lower (strip (env_get (tx_cache (gv_settings s)) ''account_collect_source'' ''fleet''))
      in if raw \<in> {''fleet'', ''script''} then raw else ''fleet'')"

definition dormant_days :: "account_gov \<Rightarrow> int" where
  "dormant_days s =
     (case int_of_text (strip (env_get (tx_cache (gv_settings s)) ''accounts_dormant_days'' ''90'')) of
        None \<Rightarrow> 90 | Some n \<Rightarrow> max 1 n)"

section \<open>Inventory\<close>

text \<open>The headers of a push, its query parameter and the token that the environment asks for.\<close>

record push_request =
  pu_authorization :: string
  pu_token :: string
  pu_host_header :: string
  pu_hostname :: string
  pu_user :: string

definition provided_token :: "push_request \<Rightarrow> string" where
  "provided_token pu =
     (if prefix ''bearer '' (lower (pu_authorization pu)) then strip (drop 7 (pu_authorization pu)) else strip (pu_token pu))"

definition require_ingest :: "string \<Rightarrow> push_request \<Rightarrow> account_gov \<Rightarrow> herr option" where
  "require_ingest token pu s =
     (if \<not> collection_enabled s then Some Forbidden
      else if strip token \<noteq> [] then (if provided_token pu \<noteq> strip token then Some herr.Unauthorized else None)
      else if pu_user pu = [] then Some herr.Unauthorized else None)"

definition push_host :: "push_request \<Rightarrow> pdict \<Rightarrow> string" where
  "push_host pu payload =
     sor (strip (pu_hostname pu)) (sor (strip (pu_host_header pu)) (sor (pstrip payload ''hostname'') (pstrip payload ''host_id'')))"

definition ingest_accounts ::
    "string \<Rightarrow> bool \<Rightarrow> push_request \<Rightarrow> pdict \<Rightarrow> account_gov \<Rightarrow> (herr + string \<times> int) \<times> account_gov" where
  "ingest_accounts token db_ok pu payload s =
     (let host = push_host pu payload; host_type = sor (strip (pstr (dgetd payload ''host_type'' (PStr ''server'')))) ''server''
      in case require_ingest token pu s of
           Some e \<Rightarrow> (Inl e, s)
         | None \<Rightarrow>
             if host = [] then (Inl BadRequest, s)
             else case dget payload ''accounts'' of
               PList raw \<Rightarrow>
                 if list_ex (\<lambda>a. \<not> is_dict a) raw then (Inl ServerError, s)
                 else let accounts = map (\<lambda>a. normalize_account a host_type)
                            (filter (\<lambda>a. pstrip a ''username'' \<noteq> []) (map as_dict raw));
                          s = s\<lparr>gv_hosts := dset (gv_hosts s) host accounts\<rparr>
                      in if db_ok then (Inr (host, int (length accounts)), s) else (Inl ServerError, s)
             | _ \<Rightarrow> (Inl BadRequest, s))"

section \<open>Overview\<close>

definition directory_of :: "directory_account list \<Rightarrow> pdict list" where
  "directory_of ds =
     map (\<lambda>d. [(''username'', PStr (da_username d)), (''status'', PStr (sor (da_status d) ''active'')),
       (''is_privileged'', PBool (da_is_privileged d))]) ds"

definition approved_records :: "account_gov \<Rightarrow> pdict list" where
  "approved_records s =
     filter (\<lambda>a. dgetd a ''status'' (PStr ''approved'') = PStr ''approved'') (map snd (rs_cache (gv_approvals s)))"

definition account_overview :: "directory_account list \<Rightarrow> dtime \<Rightarrow> account_gov \<Rightarrow> recon" where
  "account_overview ds now s = reconcile (gv_hosts s) (directory_of ds) (approved_records s) now (dormant_days s)"

definition ip_list :: "host list \<Rightarrow> pdict dict \<Rightarrow> pdict list" where
  "ip_list hosts owners =
     map (\<lambda>h. let o' = (case map_of owners (ho_hostname h) of None \<Rightarrow> [] | Some e \<Rightarrow> e)
       in [(''hostname'', PStr (ho_hostname h)), (''primary_ip'', PStr (case ho_primary_ip h of None \<Rightarrow> [] | Some ip \<Rightarrow> ip)),
           (''host_id'', PStr (ho_id h)), (''status'', PStr (ho_status h)), (''team'', por (dget o' ''team'') (PStr [])),
           (''category'', por (dget o' ''category'') (PStr [])), (''importance'', por (dget o' ''importance'') (PStr []))])
       (sort_key ho_hostname hosts)"

definition accounts_overview ::
    "gov_env \<Rightarrow> gov_request \<Rightarrow> directory_account list \<Rightarrow> host list \<Rightarrow> pdict dict \<Rightarrow> dtime \<Rightarrow> account_gov
      \<Rightarrow> herr + recon \<times> pdict list \<times> int" where
  "accounts_overview env rq ds hosts owners now s =
     (if gov_allowed env rq s then Inr (account_overview ds now s, ip_list hosts owners, dormant_days s) else Inl Forbidden)"

definition accounts_for_host ::
    "gov_env \<Rightarrow> gov_request \<Rightarrow> directory_account list \<Rightarrow> dtime \<Rightarrow> string \<Rightarrow> account_gov \<Rightarrow> herr + account_row list \<times> int" where
  "accounts_for_host env rq ds now host_key s =
     (if \<not> gov_allowed env rq s then Inl Forbidden
      else let rows = filter (\<lambda>r. rw_host_key r = host_key) (rc_accounts (account_overview ds now s))
        in Inr (rows, int (length (filter (\<lambda>r. rw_findings r \<noteq> []) rows))))"

text \<open>The state of the approval of an account, as the pop-up of a server shows it: the first record that fits.\<close>

definition approval_fits :: "string \<Rightarrow> string \<Rightarrow> string \<Rightarrow> pdict \<Rightarrow> bool" where
  "approval_fits username host_key kind ap =
     (dget ap ''username'' = PStr username \<and> dget ap ''kind'' \<in> {PStr kind, PStr ''account''}
      \<and> \<not> (dget ap ''scope'' = PStr ''host'' \<and> por (dget ap ''host_key'') (PStr []) \<notin> {PStr [], PStr host_key}))"

definition status_for :: "account_gov \<Rightarrow> string \<Rightarrow> string \<Rightarrow> string \<Rightarrow> pv" where
  "status_for s host_key username kind =
     (case List.find (approval_fits username host_key kind) (map snd (rs_cache (gv_approvals s))) of
        None \<Rightarrow> PStr ''none'' | Some ap \<Rightarrow> dgetd ap ''status'' (PStr ''approved''))"

record privileged_row =
  pr_username :: string
  pr_sudo :: bool
  pr_kind :: string
  pr_findings :: "string list"
  pr_status :: pv

definition host_privileged_accounts ::
    "gov_env \<Rightarrow> gov_request \<Rightarrow> directory_account list \<Rightarrow> dtime \<Rightarrow> string \<Rightarrow> account_gov \<Rightarrow> herr + privileged_row list" where
  "host_privileged_accounts env rq ds now host_key s =
     (if \<not> logged_in env rq then Inl herr.Unauthorized
      else Inr (map (\<lambda>r. let kind = (if rw_sudo r then ''sudo'' else ''account'')
             in \<lparr>pr_username = rw_username r, pr_sudo = rw_sudo r, pr_kind = kind, pr_findings = rw_findings r,
                 pr_status = status_for s host_key (rw_username r) kind\<rparr>)
           (filter (\<lambda>r. rw_host_key r = host_key \<and> rw_privileged r) (rc_accounts (account_overview ds now s)))))"

definition CSV_COLUMNS :: "string list" where
  "CSV_COLUMNS = [''host_key'', ''host_type'', ''username'', ''uid'', ''privileged'', ''sudo'', ''in_directory'', ''last_login'',
     ''login_age_days'', ''pwd_last_change'', ''findings'']"

definition account_csv_row :: "account_row \<Rightarrow> pdict" where
  "account_csv_row a =
     (let yes = (\<lambda>b. PStr (if b then ''Y'' else []))
      in [(''host_key'', PStr (rw_host_key a)), (''host_type'', rw_host_type a), (''username'', PStr (rw_username a)),
          (''uid'', por (rw_uid a) (PStr [])), (''privileged'', yes (rw_privileged a)), (''sudo'', yes (rw_sudo a)),
          (''in_directory'', yes (rw_in_directory a)), (''last_login'', por (rw_last_login a) (PStr [])),
          (''login_age_days'', (case rw_login_age a of None \<Rightarrow> PStr [] | Some n \<Rightarrow> PInt n)),
          (''pwd_last_change'', por (rw_pwd_last_change a) (PStr [])), (''findings'', PStr (join ''|'' (rw_findings a)))])"

definition accounts_csv ::
    "gov_env \<Rightarrow> gov_request \<Rightarrow> string dict \<Rightarrow> directory_account list \<Rightarrow> dtime \<Rightarrow> account_gov \<Rightarrow> herr + string \<times> bool" where
  "accounts_csv env rq e ds now s =
     (if gov_allowed env rq s
      then Inr (csv_streaming_response e (map account_csv_row (rc_accounts (account_overview ds now s))) (map (\<lambda>k. (k, k)) CSV_COLUMNS))
      else Inl Forbidden)"

section \<open>Approvals\<close>

definition list_approvals :: "gov_env \<Rightarrow> gov_request \<Rightarrow> account_gov \<Rightarrow> herr + pdict list" where
  "list_approvals env rq s =
     (if gov_allowed env rq s
      then Inr (sort_key (\<lambda>a. (pstr (dgetd a ''username'' (PStr [])), pstr (dgetd a ''kind'' (PStr [])))) (map snd (rs_cache (gv_approvals s))))
      else Inl Forbidden)"

definition keep_approval :: "backend \<Rightarrow> string \<Rightarrow> pdict \<Rightarrow> account_gov \<Rightarrow> (herr + pdict) \<times> account_gov" where
  "keep_approval b i r s = (case saved b ACCOUNT_APPROVALS i r r (gv_approvals s) of (a, t) \<Rightarrow> (a, s\<lparr>gv_approvals := t\<rparr>))"

definition drop_approval :: "backend \<Rightarrow> string \<Rightarrow> account_gov \<Rightarrow> (herr + string) \<times> account_gov" where
  "drop_approval b i s =
     (case uncommit b i (gv_approvals s) of
        (False, t) \<Rightarrow> (Inl ServerError, s\<lparr>gv_approvals := t\<rparr>) | (True, t) \<Rightarrow> (Inr i, s\<lparr>gv_approvals := t\<rparr>))"

definition approval_record ::
    "string \<Rightarrow> string \<Rightarrow> string \<Rightarrow> person \<Rightarrow> string \<Rightarrow> string \<Rightarrow> person \<Rightarrow> timestamp \<Rightarrow> timestamp \<Rightarrow> string \<Rightarrow> person \<Rightarrow> pdict" where
  "approval_record i scope host_key username kind reason approver expires now status requested_by =
     [(''id'', PStr i), (''scope'', PStr scope), (''host_key'', PStr host_key), (''username'', PStr username),
      (''kind'', PStr kind), (''reason'', PStr reason), (''approver'', PStr approver), (''expires'', PStr expires),
      (''created_at'', PStr now), (''status'', PStr status), (''requested_by'', PStr requested_by)]"

definition add_approval ::
    "gov_env \<Rightarrow> backend \<Rightarrow> gov_request \<Rightarrow> string \<Rightarrow> pdict \<Rightarrow> account_gov \<Rightarrow> (herr + pdict) \<times> account_gov" where
  "add_approval env b rq uuid payload s =
     (let username = pstrip payload ''username'';
          kind = strip (pstr (dgetd payload ''kind'' (PStr ''account'')));
          scope = sor (strip (pstr (dgetd payload ''scope'' (PStr ''global'')))) ''global''
      in if \<not> gov_allowed env rq s then (Inl Forbidden, s)
         else if username = [] then (Inl BadRequest, s)
         else if kind \<notin> {''account'', ''sudo''} then (Inl BadRequest, s)
         else keep_approval b uuid
           (approval_record uuid scope (if scope = ''host'' then pstrip payload ''host_key'' else []) username kind
              (pstrip payload ''reason'') (user_of rq) (pstrip payload ''expires'') (rq_now rq) ''approved'' []) s)"

definition delete_approval ::
    "gov_env \<Rightarrow> backend \<Rightarrow> gov_request \<Rightarrow> string \<Rightarrow> account_gov \<Rightarrow> (herr + string) \<times> account_gov" where
  "delete_approval env b rq i s =
     (if \<not> gov_allowed env rq s then (Inl Forbidden, s)
      else if map_of (rs_cache (gv_approvals s)) i = None then (Inl NotFound, s)
      else drop_approval b i s)"

definition same_request :: "string \<Rightarrow> string \<Rightarrow> string \<Rightarrow> pdict \<Rightarrow> bool" where
  "same_request username kind host_key ap =
     (dget ap ''status'' = PStr ''pending'' \<and> dget ap ''username'' = PStr username \<and> dget ap ''kind'' = PStr kind
      \<and> por (dget ap ''host_key'') (PStr []) = PStr host_key)"

definition create_approval_request ::
    "gov_env \<Rightarrow> backend \<Rightarrow> gov_request \<Rightarrow> string \<Rightarrow> pdict \<Rightarrow> account_gov \<Rightarrow> (herr + pdict) \<times> account_gov" where
  "create_approval_request env b rq uuid payload s =
     (let username = pstrip payload ''username'';
          kind = (let k = strip (pstr (dgetd payload ''kind'' (PStr ''sudo''))) in if k \<in> {''account'', ''sudo''} then k else ''sudo'');
          host_key = pstrip payload ''host_key''
      in if \<not> logged_in env rq then (Inl herr.Unauthorized, s)
         else if username = [] then (Inl BadRequest, s)
         else if list_ex (same_request username kind host_key) (map snd (rs_cache (gv_approvals s))) then (Inl Conflict, s)
         else keep_approval b uuid
           (approval_record uuid (if host_key \<noteq> [] then ''host'' else ''global'') host_key username kind
              (pstrip payload ''reason'') [] [] (rq_now rq) ''pending'' (user_of rq)) s)"

definition approve_request ::
    "gov_env \<Rightarrow> backend \<Rightarrow> gov_request \<Rightarrow> string \<Rightarrow> account_gov \<Rightarrow> (herr + pdict) \<times> account_gov" where
  "approve_request env b rq i s =
     (if \<not> gov_allowed env rq s then (Inl Forbidden, s)
      else case map_of (rs_cache (gv_approvals s)) i of
        None \<Rightarrow> (Inl NotFound, s)
      | Some r \<Rightarrow>
          if r = [] then (Inl NotFound, s)
          else keep_approval b i (dset (dset r ''status'' (PStr ''approved'')) ''approver'' (PStr (user_of rq))) s)"

definition reject_request ::
    "gov_env \<Rightarrow> backend \<Rightarrow> gov_request \<Rightarrow> string \<Rightarrow> account_gov \<Rightarrow> (herr + string) \<times> account_gov" where
  "reject_request env b rq i s =
     (if \<not> gov_allowed env rq s then (Inl Forbidden, s)
      else case map_of (rs_cache (gv_approvals s)) i of
        None \<Rightarrow> (Inl NotFound, s)
      | Some r \<Rightarrow>
          if r = [] then (Inl NotFound, s\<lparr>gv_approvals := (gv_approvals s)\<lparr>rs_cache := AList.delete i (rs_cache (gv_approvals s))\<rparr>\<rparr>)
          else drop_approval b i s)"

section \<open>Settings\<close>

definition put_setting :: "backend \<Rightarrow> string \<Rightarrow> string \<Rightarrow> gov_request \<Rightarrow> account_gov \<Rightarrow> bool \<times> account_gov" where
  "put_setting b k v rq s = (case set_setting b k v (rq_user rq) (gv_settings s) of (ok, t) \<Rightarrow> (ok, s\<lparr>gv_settings := t\<rparr>))"

definition set_collection_config ::
    "gov_env \<Rightarrow> backend \<Rightarrow> gov_request \<Rightarrow> pdict \<Rightarrow> account_gov \<Rightarrow> (herr + bool \<times> string) \<times> account_gov" where
  "set_collection_config env b rq payload s =
     (if \<not> role_in env rq [''admin''] then (Inl Forbidden, s)
      else case (if dhas payload ''enabled''
                 then put_setting b ''account_collect_enabled'' (if truthy (dget payload ''enabled'') then ''true'' else ''false'') rq s
                 else (True, s)) of
        (False, s) \<Rightarrow> (Inl ServerError, s)
      | (True, s) \<Rightarrow>
          if \<not> dhas payload ''source'' then (Inr (collection_enabled s, collection_source s), s)
          else let src = lower (pstrip payload ''source'')
            in if src \<notin> {''fleet'', ''script''} then (Inl BadRequest, s)
               else case put_setting b ''account_collect_source'' src rq s of
                 (False, s) \<Rightarrow> (Inl ServerError, s)
               | (True, s) \<Rightarrow> (Inr (collection_enabled s, collection_source s), s))"

definition get_collection_config :: "gov_env \<Rightarrow> gov_request \<Rightarrow> account_gov \<Rightarrow> herr + bool \<times> string" where
  "get_collection_config env rq s =
     (if role_in env rq [''admin''] then Inr (collection_enabled s, collection_source s) else Inl Forbidden)"

text \<open>The roles of a payload that are roles of the platform, each once, the administrator first.\<close>

definition chosen_roles :: "pv list \<Rightarrow> string list" where
  "chosen_roles raw =
     rev (remdups (rev (filter (\<lambda>r. r \<in> set ALL_ROLES) (''admin'' # map (\<lambda>x. strip (pstr x)) raw))))"

definition set_view_roles ::
    "gov_env \<Rightarrow> backend \<Rightarrow> gov_request \<Rightarrow> pdict \<Rightarrow> account_gov \<Rightarrow> (herr + string list) \<times> account_gov" where
  "set_view_roles env b rq payload s =
     (if \<not> role_in env rq [''admin''] then (Inl Forbidden, s)
      else case dget payload ''roles'' of
        PList raw \<Rightarrow>
          (let roles = chosen_roles raw
           in case put_setting b ''account_view_roles'' (join '','' roles) rq s of
                (False, s) \<Rightarrow> (Inl ServerError, s) | (True, s) \<Rightarrow> (Inr roles, s))
      | _ \<Rightarrow> (Inl BadRequest, s))"

definition get_view_roles :: "gov_env \<Rightarrow> gov_request \<Rightarrow> account_gov \<Rightarrow> herr + string list" where
  "get_view_roles env rq s =
     (if role_in env rq [''admin''] then Inr (parse_account_view_roles (tx_cache (gv_settings s))) else Inl Forbidden)"

definition gov_restart :: "account_gov \<Rightarrow> account_gov" where
  "gov_restart s = s\<lparr>gv_approvals := reboot (gv_approvals s), gv_settings := reload_settings (gv_settings s)\<rparr>"

section \<open>Histories of calls\<close>

datatype account_call =
    PushAccounts string bool push_request pdict
  | AddApproval gov_env backend gov_request string pdict
  | DeleteApproval gov_env backend gov_request string
  | RequestApproval gov_env backend gov_request string pdict
  | ApproveRequest gov_env backend gov_request string
  | RejectRequest gov_env backend gov_request string
  | SetCollection gov_env backend gov_request pdict
  | SetViewRoles gov_env backend gov_request pdict
  | RestartAccounts

primrec account_exec :: "account_call \<Rightarrow> account_gov \<Rightarrow> account_gov" where
  "account_exec (PushAccounts token ok pu p) s = snd (ingest_accounts token ok pu p s)"
| "account_exec (AddApproval env b rq u p) s = snd (add_approval env b rq u p s)"
| "account_exec (DeleteApproval env b rq i) s = snd (delete_approval env b rq i s)"
| "account_exec (RequestApproval env b rq u p) s = snd (create_approval_request env b rq u p s)"
| "account_exec (ApproveRequest env b rq i) s = snd (approve_request env b rq i s)"
| "account_exec (RejectRequest env b rq i) s = snd (reject_request env b rq i s)"
| "account_exec (SetCollection env b rq p) s = snd (set_collection_config env b rq p s)"
| "account_exec (SetViewRoles env b rq p) s = snd (set_view_roles env b rq p s)"
| "account_exec RestartAccounts s = gov_restart s"

definition account_run :: "account_call list \<Rightarrow> account_gov \<Rightarrow> account_gov" where
  "account_run calls s = foldl (\<lambda>s c. account_exec c s) s calls"

definition no_accounts :: account_gov where
  "no_accounts = \<lparr>gv_hosts = [], gv_approvals = empty_store, gv_settings = no_settings\<rparr>"

lemma account_run_keeps: "P s \<Longrightarrow> (\<And>c s. P s \<Longrightarrow> P (account_exec c s)) \<Longrightarrow> P (account_run calls s)"
  unfolding account_run_def by (induction calls arbitrary: s) auto

text \<open>What each handler does to the approvals.\<close>

lemma push_approvals: "gv_approvals (snd (ingest_accounts token ok pu p s)) = gv_approvals s"
  by (simp add: ingest_accounts_def Let_def split: option.split pv.split)

lemma put_setting_eq:
  "put_setting b k v rq s =
     (fst (set_setting b k v (rq_user rq) (gv_settings s)), s\<lparr>gv_settings := snd (set_setting b k v (rq_user rq) (gv_settings s))\<rparr>)"
  by (simp add: put_setting_def split_beta)

lemma collection_approvals: "gv_approvals (snd (set_collection_config env b rq p s)) = gv_approvals s"
  by (cases "dhas p ''enabled''"; cases "dhas p ''source''")
    (simp_all add: set_collection_config_def put_setting_eq Let_def split: bool.split)

lemma roles_approvals: "gv_approvals (snd (set_view_roles env b rq p s)) = gv_approvals s"
  by (simp add: set_view_roles_def put_setting_eq Let_def split: bool.split pv.split)

lemma keep_approval_state:
  "gv_approvals (snd (keep_approval b i r s)) = snd (commit b ACCOUNT_APPROVALS i r (gv_approvals s))"
  by (simp add: keep_approval_def split_beta)

lemma keep_approval_cache:
  "rs_cache (gv_approvals (snd (keep_approval b i r s))) = dset (rs_cache (gv_approvals s)) i r"
  by (auto simp: keep_approval_state commit_def persist_def cached_def split: option.split)

lemma drop_approval_state: "gv_approvals (snd (drop_approval b i s)) = snd (uncommit b i (gv_approvals s))"
  by (simp add: drop_approval_def split: prod.split bool.split)

lemma drop_approval_cache: "rs_cache (gv_approvals (snd (drop_approval b i s))) = AList.delete i (rs_cache (gv_approvals s))"
  by (simp add: drop_approval_state uncommit_def Let_def)

lemmas approval_states = push_approvals collection_approvals roles_approvals keep_approval_state drop_approval_state

section \<open>The approvals stay sound\<close>

definition approval_sound :: "pdict \<Rightarrow> bool" where
  "approval_sound r =
     (dget r ''kind'' \<in> {PStr ''account'', PStr ''sudo''}
      \<and> (dget r ''status'' = PStr ''approved'' \<and> dget r ''approver'' \<noteq> PStr []
         \<or> dget r ''status'' = PStr ''pending'' \<and> dget r ''approver'' = PStr [] \<and> dget r ''requested_by'' \<noteq> PStr []))"

definition approval_ok :: "string \<Rightarrow> pdict \<Rightarrow> bool" where
  "approval_ok k r = (row_typed ACCOUNT_APPROVALS k r \<and> approval_sound r)"

lemma approvals_spec: "spec_ok ACCOUNT_APPROVALS"
  by (simp add: spec_ok_def ACCOUNT_APPROVALS_def)

lemma approvals_keep: "table_keeps ACCOUNT_APPROVALS approval_ok"
  unfolding approval_ok_def
  by (rule table_keeps_view [OF approvals_spec]) (simp add: approval_sound_def kept_names_def ACCOUNT_APPROVALS_def)

lemma user_of_nonempty: "user_of rq \<noteq> []"
  by (simp add: user_of_def sor_def)

lemma approval_record_ok:
  assumes "k \<in> {''account'', ''sudo''}" "st = ''approved'' \<and> ap \<noteq> [] \<or> st = ''pending'' \<and> ap = [] \<and> by \<noteq> []"
  shows "approval_ok i (approval_record i sc h u k re ap ex n st by)"
  using assms by (auto simp: approval_ok_def approval_sound_def row_typed_def ACCOUNT_APPROVALS_def approval_record_def)

lemma approving_ok: "approval_ok i r \<Longrightarrow> a \<noteq> [] \<Longrightarrow> approval_ok i (dset (dset r ''status'' (PStr ''approved'')) ''approver'' (PStr a))"
proof -
  assume r: "approval_ok i r" and a: "a \<noteq> []"
  have "row_typed ACCOUNT_APPROVALS i (dset (dset r ''status'' (PStr ''approved'')) ''approver'' (PStr a))"
    by (intro row_typed_dset) (use r in \<open>auto simp: approval_ok_def ACCOUNT_APPROVALS_def\<close>)
  then show ?thesis using r a by (auto simp: approval_ok_def approval_sound_def)
qed

lemma keep_approval_ok:
  "store_all approval_ok (gv_approvals s) \<Longrightarrow> approval_ok i r \<Longrightarrow> store_all approval_ok (gv_approvals (snd (keep_approval b i r s)))"
  by (simp add: keep_approval_state store_all_commit approvals_keep)

lemma add_approval_ok:
  "store_all approval_ok (gv_approvals s) \<Longrightarrow> store_all approval_ok (gv_approvals (snd (add_approval env b rq u p s)))"
  using user_of_nonempty by (auto simp: add_approval_def Let_def intro!: keep_approval_ok approval_record_ok)

lemma request_ok:
  "store_all approval_ok (gv_approvals s) \<Longrightarrow> store_all approval_ok (gv_approvals (snd (create_approval_request env b rq u p s)))"
  using user_of_nonempty by (auto simp: create_approval_request_def Let_def intro!: keep_approval_ok approval_record_ok)

lemma approve_ok:
  "store_all approval_ok (gv_approvals s) \<Longrightarrow> store_all approval_ok (gv_approvals (snd (approve_request env b rq i s)))"
  using user_of_nonempty store_all_get
  by (auto simp: approve_request_def intro!: keep_approval_ok approving_ok split: option.split)

lemma store_all_uncache: "store_all P s \<Longrightarrow> store_all P (s\<lparr>rs_cache := AList.delete i (rs_cache s)\<rparr>)"
  by (simp add: store_all_def holds_delete)

lemma reject_ok:
  "store_all approval_ok (gv_approvals s) \<Longrightarrow> store_all approval_ok (gv_approvals (snd (reject_request env b rq i s)))"
  by (simp add: reject_request_def drop_approval_state store_all_uncommit store_all_uncache split: option.split)

lemma delete_ok:
  "store_all approval_ok (gv_approvals s) \<Longrightarrow> store_all approval_ok (gv_approvals (snd (delete_approval env b rq i s)))"
  by (simp add: delete_approval_def drop_approval_state store_all_uncommit)

lemma account_exec_ok:
  "store_all approval_ok (gv_approvals s) \<Longrightarrow> store_all approval_ok (gv_approvals (account_exec c s))"
  by (cases c) (simp_all add: add_approval_ok request_ok approve_ok reject_ok delete_ok approval_states gov_restart_def store_all_reboot)

section \<open>One request at a time\<close>

definition same_key :: "pdict \<Rightarrow> pdict \<Rightarrow> bool" where
  "same_key r r' = (dget r ''username'' = dget r' ''username'' \<and> dget r ''kind'' = dget r' ''kind''
     \<and> por (dget r ''host_key'') (PStr []) = por (dget r' ''host_key'') (PStr []))"

definition waits :: "pdict \<Rightarrow> bool" where
  "waits r = (dget r ''status'' = PStr ''pending'')"

definition one_pending :: "pdict dict \<Rightarrow> bool" where
  "one_pending d = (\<forall>k k' r r'. map_of d k = Some r \<longrightarrow> map_of d k' = Some r' \<longrightarrow> waits r \<longrightarrow> waits r' \<longrightarrow> same_key r r' \<longrightarrow> k = k')"

lemma one_pending_dset:
  "one_pending d \<Longrightarrow> waits r \<Longrightarrow> \<not> list_ex (\<lambda>r'. waits r' \<and> same_key r r') (map snd d) \<Longrightarrow> one_pending (dset d i r)"
  unfolding one_pending_def
  by (auto simp: list_ex_iff same_key_def dest!: map_of_SomeD split: if_splits)

lemma one_pending_done: "one_pending d \<Longrightarrow> \<not> waits r \<Longrightarrow> one_pending (dset d i r)"
  unfolding one_pending_def by (auto split: if_splits)

lemma one_pending_delete: "one_pending d \<Longrightarrow> one_pending (AList.delete i d)"
  unfolding one_pending_def by (auto simp: delete_conv' split: if_splits)

lemma request_waits: "waits (approval_record u sc h n k re [] [] now ''pending'' by)"
  by (simp add: waits_def approval_record_def)

lemma request_same:
  "same_request n k h r' = (waits r' \<and> same_key (approval_record u sc h n k re [] [] now ''pending'' by) r')"
  by (auto simp: same_request_def waits_def same_key_def approval_record_def)

primrec restarts :: "account_call \<Rightarrow> bool" where
  "restarts (PushAccounts token ok pu p) = False"
| "restarts (AddApproval env b rq u p) = False"
| "restarts (DeleteApproval env b rq i) = False"
| "restarts (RequestApproval env b rq u p) = False"
| "restarts (ApproveRequest env b rq i) = False"
| "restarts (RejectRequest env b rq i) = False"
| "restarts (SetCollection env b rq p) = False"
| "restarts (SetViewRoles env b rq p) = False"
| "restarts RestartAccounts = True"

abbreviation approval_cache :: "account_gov \<Rightarrow> pdict dict" where
  "approval_cache s \<equiv> rs_cache (gv_approvals s)"

lemma request_one_pending: "one_pending (approval_cache s) \<Longrightarrow> one_pending (approval_cache (snd (create_approval_request env b rq u p s)))"
  by (auto simp: create_approval_request_def Let_def keep_approval_cache request_same [symmetric] request_waits
      intro!: one_pending_dset split: if_splits)

lemma account_exec_one_pending:
  "one_pending (approval_cache s) \<Longrightarrow> \<not> restarts c \<Longrightarrow> one_pending (approval_cache (account_exec c s))"
proof (cases c)
  case (AddApproval env b rq u p)
  then show "one_pending (approval_cache s) \<Longrightarrow> ?thesis"
    by (auto simp: add_approval_def Let_def keep_approval_cache approval_record_def waits_def intro!: one_pending_done)
next
  case (ApproveRequest env b rq i)
  then show "one_pending (approval_cache s) \<Longrightarrow> ?thesis"
    by (auto simp: approve_request_def keep_approval_cache waits_def intro!: one_pending_done split: option.split)
next
  case (DeleteApproval env b rq i)
  then show "one_pending (approval_cache s) \<Longrightarrow> ?thesis"
    by (simp add: delete_approval_def drop_approval_cache one_pending_delete)
next
  case (RejectRequest env b rq i)
  then show "one_pending (approval_cache s) \<Longrightarrow> ?thesis"
    by (simp add: reject_request_def drop_approval_cache one_pending_delete split: option.split)
qed (simp_all add: approval_states request_one_pending)

section \<open>Who approves\<close>

primrec caller :: "account_call \<Rightarrow> (gov_env \<times> gov_request) option" where
  "caller (PushAccounts token ok pu p) = None"
| "caller (AddApproval env b rq u p) = Some (env, rq)"
| "caller (DeleteApproval env b rq i) = Some (env, rq)"
| "caller (RequestApproval env b rq u p) = Some (env, rq)"
| "caller (ApproveRequest env b rq i) = Some (env, rq)"
| "caller (RejectRequest env b rq i) = Some (env, rq)"
| "caller (SetCollection env b rq p) = Some (env, rq)"
| "caller (SetViewRoles env b rq p) = Some (env, rq)"
| "caller RestartAccounts = None"

lemma exec_new_approval:
  assumes "map_of (approval_cache (account_exec c s)) i = Some r" "map_of (approval_cache s) i \<noteq> Some r"
    and "dget r ''status'' = PStr ''approved''" "\<not> restarts c"
  shows "\<exists>env rq. caller c = Some (env, rq) \<and> gov_allowed env rq s \<and> dget r ''approver'' = PStr (user_of rq)"
proof (cases c)
  case (AddApproval env b rq u p)
  then show ?thesis
    using assms by (auto simp: add_approval_def Let_def keep_approval_cache approval_record_def split: if_splits)
next
  case (ApproveRequest env b rq j)
  then show ?thesis
    using assms by (auto simp: approve_request_def keep_approval_cache split: if_splits option.splits)
next
  case (RequestApproval env b rq u p)
  then show ?thesis
    using assms by (auto simp: create_approval_request_def Let_def keep_approval_cache approval_record_def split: if_splits)
next
  case (DeleteApproval env b rq j)
  then show ?thesis
    using assms by (auto simp: delete_approval_def drop_approval_cache delete_conv' split: if_splits)
next
  case (RejectRequest env b rq j)
  then show ?thesis
    using assms by (auto simp: reject_request_def drop_approval_cache delete_conv' split: if_splits option.splits)
qed (use assms in \<open>simp_all add: approval_states\<close>)

section \<open>Requests and findings\<close>

lemma keep_approval_rest:
  "gv_hosts (snd (keep_approval b i r s)) = gv_hosts s" "gv_settings (snd (keep_approval b i r s)) = gv_settings s"
  by (simp_all add: keep_approval_def split: prod.split)

lemma waiting_not_counted:
  assumes "map_of (approval_cache s) i = None" "dget r ''status'' = PStr ''pending''"
  shows "account_overview ds now (snd (keep_approval b i r s)) = account_overview ds now s"
proof -
  have "i \<notin> set (keys (approval_cache s))" using assms(1) by (simp add: map_of_eq_None_iff)
  moreover have "dgetd r ''status'' v = PStr ''pending''" for v
    using assms(2) by (auto simp: dgetd_def dget_def split: option.splits)
  ultimately have "approved_records (snd (keep_approval b i r s)) = approved_records s"
    by (simp add: approved_records_def keep_approval_cache dset_new)
  then show ?thesis by (simp add: account_overview_def keep_approval_rest dormant_days_def)
qed

section \<open>Roles that may look\<close>

lemma split_on_append: "c \<notin> set w \<Longrightarrow> split_on c (w @ c # s) = w # split_on c s"
  by (induction w) auto

lemma split_join: "ws \<noteq> [] \<Longrightarrow> list_all (\<lambda>w. c \<notin> set w) ws \<Longrightarrow> split_on c (join [c] ws) = ws"
proof (induction "[c]" ws rule: join.induct)
  case (3 x y xs)
  then show ?case by (simp add: split_on_append)
qed (simp_all add: split_on_none)

lemma join_chars: "set (join sep ws) \<subseteq> set sep \<union> \<Union> (set ` set ws)"
  by (induction sep ws rule: join.induct) auto

lemma replace_char_none: "a \<notin> set s \<Longrightarrow> replace_char a b s = s"
  by (induction s) (auto simp: replace_char_def)

lemma role_texts: "\<forall>r \<in> set ALL_ROLES. CHR '','' \<notin> set r \<and> CHR '';'' \<notin> set r \<and> strip r = r \<and> r \<noteq> []"
  by code_simp

lemma parse_joined_roles:
  assumes "set roles \<subseteq> set ALL_ROLES" "''admin'' \<in> set roles" "map_of d ''account_view_roles'' = Some (join '','' roles)"
  shows "parse_account_view_roles d = roles"
proof -
  have r: "CHR '','' \<notin> set r" "CHR '';'' \<notin> set r" "strip r = r" "r \<noteq> []" if "r \<in> set roles" for r
    using role_texts assms(1) that by auto
  have "CHR '';'' \<notin> set (join '','' roles)" using join_chars [of "'',''" roles] r(2) by auto
  then have "replace_char (CHR '';'') (CHR '','') (join '','' roles) = join '','' roles" by (rule replace_char_none)
  moreover have "split_on (CHR '','') (join '','' roles) = roles"
    by (rule split_join) (use assms(2) r(1) in \<open>auto simp: list_all_iff\<close>)
  moreover have "map strip roles = roles" using r(3) by (simp add: map_idI)
  moreover have "filter (\<lambda>r. r \<noteq> [] \<and> r \<in> set ALL_ROLES) roles = roles"
    using r(4) assms(1) by (auto intro: filter_True)
  moreover have "roles \<noteq> []" using assms(2) by auto
  ultimately show ?thesis using assms(2,3) by (auto simp: parse_account_view_roles_def Let_def env_get_def)
qed

section \<open>Properties\<close>

text \<open>C30: In any history of calls, with a database that may refuse any write, and restarts, every stored approval is
  for an account or for sudo and either is approved and names its approver, or waits, names who asked and has no
  approver.\<close>

theorem approvals_sound: "store_all approval_ok (gv_approvals (account_run calls no_accounts))"
  by (rule account_run_keeps) (simp_all add: account_exec_ok no_accounts_def)

text \<open>Between two restarts there is never more than one waiting request for the same account, kind and host.\<close>

lemma one_request_at_a_time:
  assumes "list_all (\<lambda>c. \<not> restarts c) calls"
  shows "one_pending (approval_cache (account_run calls no_accounts))"
proof -
  have "one_pending (approval_cache s) \<Longrightarrow> list_all (\<lambda>c. \<not> restarts c) calls \<Longrightarrow> one_pending (approval_cache (account_run calls s))" for s
    unfolding account_run_def by (induction calls arbitrary: s) (auto simp: account_exec_one_pending)
  moreover have "one_pending (approval_cache no_accounts)" by (simp add: no_accounts_def one_pending_def empty_store_def)
  ultimately show ?thesis using assms by blast
qed

text \<open>An approval appears, or changes, only by a call of someone whose role may look at the accounts, and it
  names the caller as its approver.\<close>

lemma approved_by_a_role:
  assumes "map_of (approval_cache (account_exec c s)) i = Some r" "map_of (approval_cache s) i \<noteq> Some r"
    and "dget r ''status'' = PStr ''approved''" "\<not> restarts c"
  shows "\<exists>env rq. caller c = Some (env, rq) \<and> gov_allowed env rq s \<and> dget r ''approver'' = PStr (user_of rq)"
  using assms by (rule exec_new_approval)

text \<open>A request for an approval, whatever it asks, leaves the findings of every account as they were.\<close>

lemma request_changes_no_finding:
  assumes "map_of (approval_cache s) uuid = None"
  shows "account_overview ds now (snd (create_approval_request env b rq uuid payload s)) = account_overview ds now s"
  using waiting_not_counted [OF assms]
  by (simp add: create_approval_request_def Let_def approval_record_def)

text \<open>The roles that an administrator sets are the roles that the platform reads from the stored text, now and
  after a restart, and include the administrator.\<close>

lemma view_roles_read_back:
  assumes "set_view_roles env b rq payload s = (Inr roles, s')" "settings_agree (gv_settings s)"
  shows "parse_account_view_roles (tx_cache (gv_settings s')) = roles
    \<and> parse_account_view_roles (tx_cache (gv_settings (gov_restart s'))) = roles \<and> ''admin'' \<in> set roles"
proof -
  obtain raw where roles: "roles = chosen_roles raw"
    and st: "set_setting b ''account_view_roles'' (join '','' roles) (rq_user rq) (gv_settings s) = (True, gv_settings s')"
    using assms(1) by (auto simp: set_view_roles_def put_setting_eq Let_def prod_eq_iff split: if_splits pv.splits bool.splits)
  have "''admin'' \<in> set ALL_ROLES" by (simp add: ALL_ROLES_def)
  then have r: "set roles \<subseteq> set ALL_ROLES" "''admin'' \<in> set roles" by (auto simp: roles chosen_roles_def)
  have agree: "settings_agree (gv_settings s')"
    using set_setting_agrees [OF assms(2), of b "''account_view_roles''" "join '','' roles" "rq_user rq"] st by simp
  have "map_of (tx_cache (gv_settings s')) ''account_view_roles'' = Some (join '','' roles)"
    using set_setting_cache [of b "''account_view_roles''" "join '','' roles" "rq_user rq" "gv_settings s"] st by simp
  moreover from this have "map_of (tx_cache (gv_settings (gov_restart s'))) ''account_view_roles'' = Some (join '','' roles)"
    using reload_agrees [OF agree] by (simp add: gov_restart_def)
  ultimately show ?thesis using parse_joined_roles [OF r] r(2) by blast
qed

section \<open>Examples\<close>

definition gov_demo_env :: gov_env where
  "gov_demo_env = \<lparr>ge_H = id, ge_H1 = id, ge_auth = True, ge_sod = False, ge_clock = (\<lambda>n. []), ge_fails = (\<lambda>_ _ _. False)\<rparr>"

definition gov_demo_rq :: "string \<Rightarrow> gov_request" where
  "gov_demo_rq role = \<lparr>rq_role = Some role, rq_user = ''kim'', rq_now = ''t''\<rparr>"

definition gov_demo_push :: account_call where
  "gov_demo_push = PushAccounts [] True
     \<lparr>pu_authorization = [], pu_token = [], pu_host_header = [], pu_hostname = ''h1'', pu_user = ''kim''\<rparr>
     [(''accounts'', PList [PDict [(''username'', PStr ''ops''), (''groups'', PStr ''sudo'')]])]"

definition gov_demo_ask :: account_call where
  "gov_demo_ask = RequestApproval gov_demo_env (Database ''d'') (gov_demo_rq ''user'') ''a1''
     [(''username'', PStr ''ops''), (''host_key'', PStr ''h1'')]"

definition gov_demo_calls :: "account_call list" where
  "gov_demo_calls = [gov_demo_push, gov_demo_ask, gov_demo_ask,
     ApproveRequest gov_demo_env (Database ''d'') (gov_demo_rq ''security'') ''a1'']"

definition gov_demo_findings :: "account_call list \<Rightarrow> string list list" where
  "gov_demo_findings calls = map rw_findings (rc_accounts (account_overview [] \<lparr>dt_us = 0, dt_off = Some 0\<rparr> (account_run calls no_accounts)))"

text \<open>The inventory raises both findings, the request changes nothing, the approval rules them out.\<close>

lemma gov_demo_story:
  "gov_demo_findings (take 1 gov_demo_calls) = [[''orphan_priv'', ''unapproved_sudo'']]"
  "gov_demo_findings (take 3 gov_demo_calls) = [[''orphan_priv'', ''unapproved_sudo'']]"
  "gov_demo_findings gov_demo_calls = [[]]"
  by code_simp+

lemma one_request_at_a_time_witness:
  "one_pending (approval_cache (account_run gov_demo_calls no_accounts))"
  by (rule one_request_at_a_time) (simp add: gov_demo_calls_def gov_demo_push_def gov_demo_ask_def)

lemma request_changes_no_finding_witness:
  "account_overview [] \<lparr>dt_us = 0, dt_off = Some 0\<rparr>
     (snd (create_approval_request gov_demo_env (Database ''d'') (gov_demo_rq ''user'') ''a1''
        [(''username'', PStr ''ops'')] (account_run [gov_demo_push] no_accounts)))
   = account_overview [] \<lparr>dt_us = 0, dt_off = Some 0\<rparr> (account_run [gov_demo_push] no_accounts)"
proof -
  have "map_of (approval_cache (account_run [gov_demo_push] no_accounts)) ''a1'' = None" by code_simp
  then show ?thesis by (rule request_changes_no_finding)
qed

lemma approved_by_a_role_witness:
  "dget (the (map_of (approval_cache (account_run gov_demo_calls no_accounts)) ''a1'')) ''approver'' = PStr ''kim''"
proof -
  let ?c = "ApproveRequest gov_demo_env (Database ''d'') (gov_demo_rq ''security'') ''a1''"
  let ?s = "account_run (take 3 gov_demo_calls) no_accounts"
  let ?r = "the (map_of (approval_cache (account_exec ?c ?s)) ''a1'')"
  have "map_of (approval_cache (account_exec ?c ?s)) ''a1'' = Some ?r" "map_of (approval_cache ?s) ''a1'' \<noteq> Some ?r"
    "dget ?r ''status'' = PStr ''approved''" by code_simp+
  from approved_by_a_role [OF this] have "dget ?r ''approver'' = PStr ''kim''"
    by (simp add: gov_demo_rq_def user_of_def sor_def)
  moreover have "account_exec ?c ?s = account_run gov_demo_calls no_accounts"
    by (simp add: account_run_def gov_demo_calls_def)
  ultimately show ?thesis by simp
qed

lemma view_roles_read_back_witness:
  "\<exists>s'. set_view_roles gov_demo_env (Database ''d'') (gov_demo_rq ''admin'') [(''roles'', PList [PStr '' auditor '', PStr ''x'', PStr ''admin''])]
       no_accounts = (Inr [''admin'', ''auditor''], s')
     \<and> parse_account_view_roles (tx_cache (gv_settings (gov_restart s'))) = [''admin'', ''auditor'']"
proof -
  let ?call = "set_view_roles gov_demo_env (Database ''d'') (gov_demo_rq ''admin'')
    [(''roles'', PList [PStr '' auditor '', PStr ''x'', PStr ''admin''])] no_accounts"
  have "fst ?call = Inr [''admin'', ''auditor'']" by code_simp
  then have "?call = (Inr [''admin'', ''auditor''], snd ?call)" by (metis prod.collapse)
  moreover have "settings_agree (gv_settings no_accounts)" by (simp add: no_accounts_def)
  ultimately show ?thesis using view_roles_read_back by blast
qed

section \<open>What the approvals do not do\<close>

text \<open>An approval covers its account whatever its expiry: the date is stored and never read.\<close>

lemma expiry_never_read: "covers username host_key kind (dset a ''expires'' v) = covers username host_key kind a"
  by (simp add: covers_def dgetd_def)

text \<open>An approval for a host without a host covers no host, but the pop-up of every server shows it as approved;
  so does an approval of the account where sudo is what is missing.\<close>

definition hostless :: "string \<Rightarrow> account_call" where
  "hostless kind = AddApproval gov_demo_env (Database ''d'') (gov_demo_rq ''admin'') ''a2''
     [(''username'', PStr ''ops''), (''kind'', PStr kind), (''scope'', PStr (if kind = ''sudo'' then ''host'' else ''global''))]"

lemma popup_disagrees:
  "status_for (account_run [gov_demo_push, hostless ''sudo''] no_accounts) ''h1'' ''ops'' ''sudo'' = PStr ''approved''"
  "gov_demo_findings [gov_demo_push, hostless ''sudo''] = [[''orphan_priv'', ''unapproved_sudo'']]"
  "status_for (account_run [gov_demo_push, hostless ''account''] no_accounts) ''h1'' ''ops'' ''sudo'' = PStr ''approved''"
  "gov_demo_findings [gov_demo_push, hostless ''account''] = [[''unapproved_sudo'']]"
  by code_simp+

text \<open>A rejection deletes an approval that is already in force.\<close>

lemma rejection_revokes:
  "approval_cache (account_run (gov_demo_calls @ [RejectRequest gov_demo_env (Database ''d'') (gov_demo_rq ''security'') ''a1'']) no_accounts) = []"
  by code_simp

end
