(* ===== verification/Fleet_Api.thy ===== *)
theory Fleet_Api
  imports Collecting Account_Gov
begin

text \<open>
  The collector of the Fleet API (\<^verbatim>\<open>collectors/fleet_api.py\<close>) and its poller (\<^verbatim>\<open>pollers/fleet.py\<close>): the pages
  of hosts, one request of detail for each host, the vulnerabilities of its software and its local accounts,
  which go to the inventory of \<open>Account_Gov\<close> when the administrator allows it.

  The server is a parameter \<open>api\<close>: the answer to a path with its parameters, or the text of an exception.  The
  CVSS score of a vulnerability is a JSON number and is read by a parameter \<open>score\<close>, \<open>None\<close> where there is none.
\<close>

section \<open>Configuration and state\<close>

type_synonym api = "string \<Rightarrow> (string \<times> int) list \<Rightarrow> string + pv"

record fleet_config =
  fc_host_limit :: int
  fc_page_size :: int
  fc_software :: bool
  fc_accounts :: bool

definition new_fleet_config :: "int \<Rightarrow> int \<Rightarrow> bool \<Rightarrow> bool \<Rightarrow> fleet_config" where
  "new_fleet_config host_limit page_size software accounts =
     \<lparr>fc_host_limit = max 1 host_limit, fc_page_size = max 1 (min page_size host_limit),
      fc_software = software, fc_accounts = accounts\<rparr>"

record fleet =
  fl_shared :: "string list"
  fl_accounts :: "pdict list dict"
  fl_no_cvss :: int

definition FLEET_MAX_PAGES :: int where
  "FLEET_MAX_PAGES = 200"

definition FLEET_HOST_STATUS :: "string dict" where
  "FLEET_HOST_STATUS =
     [(''online'', ''online''), (''offline'', ''offline''), (''mia'', ''offline''), (''missing'', ''offline'')]"

definition fleet_get :: "api \<Rightarrow> string \<Rightarrow> (string \<times> int) list \<Rightarrow> string + pdict" where
  "fleet_get api path params = map_sum id as_dict (api path params)"

section \<open>The pages of hosts\<close>

text \<open>The loop over the pages, which runs until a page ends it; with the hosts it returns whether it warns that
  some were left out.\<close>

partial_function (option) fetch_pages ::
    "api \<Rightarrow> fleet_config \<Rightarrow> int \<Rightarrow> pdict list \<Rightarrow> (string + pdict list \<times> bool) option" where
  "fetch_pages api c page hosts =
     (case fleet_get api ''/api/v1/fleet/hosts'' [(''page'', page), (''per_page'', fc_page_size c)] of
        Inl e \<Rightarrow> Some (Inl e)
      | Inr payload \<Rightarrow>
          (let batch = as_list (dget payload ''hosts'') in
           if batch = [] then Some (Inr (hosts, False))
           else let hosts = hosts @ json_dicts (PList batch) in
             if fc_host_limit c \<le> int (length hosts) then Some (Inr (take (nat (fc_host_limit c)) hosts, True))
             else if int (length batch) < fc_page_size c then Some (Inr (hosts, False))
             else if FLEET_MAX_PAGES \<le> page + 1 then Some (Inr (hosts, True))
             else fetch_pages api c (page + 1) hosts))"

declare fetch_pages.simps [code]

definition fetch_hosts :: "api \<Rightarrow> fleet_config \<Rightarrow> (string + pdict list \<times> bool) option" where
  "fetch_hosts api c = fetch_pages api c 0 []"

section \<open>Records\<close>

definition fleet_ip :: "pdict \<Rightarrow> string option" where
  "fleet_ip host = text_or_number (dget host ''primary_ip'')"

definition ip_texts :: "pdict \<Rightarrow> string list" where
  "ip_texts host = (case fleet_ip host of None \<Rightarrow> [] | Some ip \<Rightarrow> [ip])"

definition shared_primary_ips :: "pdict list \<Rightarrow> string list" where
  "shared_primary_ips hosts = shared_ips ip_texts hosts"

definition fleet_names :: "pdict \<Rightarrow> string option list" where
  "fleet_names host = map (\<lambda>k. text_or_number (dget host k)) [''hostname'', ''computer_name'', ''uuid'', ''hardware_serial'']"

definition fleet_aliases :: "string list \<Rightarrow> pdict \<Rightarrow> string list" where
  "fleet_aliases shared host =
     (let aliases = collect_aliases [] (fleet_names host)
      in case fleet_ip host of
           None \<Rightarrow> aliases
         | Some ip \<Rightarrow> if ip \<notin> set shared \<and> ip \<notin> set aliases then aliases @ [ip] else aliases)"

definition fleet_time :: "dtime \<Rightarrow> pv \<Rightarrow> dtime" where
  "fleet_time now v = (case Option.bind (text_or_number v) parse_stamp of None \<Rightarrow> now | Some d \<Rightarrow> d)"

definition fleet_host_record :: "dtime \<Rightarrow> fleet \<Rightarrow> pdict \<Rightarrow> collector_record" where
  "fleet_host_record now st host =
     \<lparr>cr_source = ''fleet'', cr_record_type = ''host'', cr_observed_at = fleet_time now (dget host ''seen_time''),
      cr_external_id = text_or_number (dget host ''id''), cr_host_aliases = fleet_aliases (fl_shared st) host,
      cr_payload = host\<rparr>"

text \<open>The local accounts of a host, each name once.\<close>

definition fleet_account :: "string \<Rightarrow> pdict \<Rightarrow> pdict" where
  "fleet_account username u =
     normalize_account
       [(''username'', PStr username), (''uid'', dget u ''uid''), (''gid'', dget u ''gid''),
        (''shell'', of_ostr (text_or_number (dget u ''shell''))),
        (''directory'', of_ostr (text_or_number (dget u ''directory''))),
        (''groups'', PList (case text_or_number (dget u ''groupname'') of None \<Rightarrow> [] | Some g \<Rightarrow> [PStr g])),
        (''source'', PStr ''fleet'')] ''pc''"

fun fleet_users :: "string list \<Rightarrow> pdict list \<Rightarrow> pdict list" where
  "fleet_users seen [] = []"
| "fleet_users seen (u # us) =
     (case text_or_number (dget u ''username'') of
        None \<Rightarrow> fleet_users seen us
      | Some n \<Rightarrow> if n \<in> set seen then fleet_users seen us else fleet_account n u # fleet_users (n # seen) us)"

definition capture_accounts :: "pdict \<Rightarrow> pdict \<Rightarrow> fleet \<Rightarrow> fleet" where
  "capture_accounts host detail st =
     (case or_opt (text_or_number (dget host ''hostname'')) (text_or_number (dget host ''computer_name'')) of
        None \<Rightarrow> st
      | Some host_key \<Rightarrow>
          (let accounts = fleet_users [] (json_dicts (dget detail ''users''))
           in if accounts = [] then st else st\<lparr>fl_accounts := dset (fl_accounts st) host_key accounts\<rparr>))"

definition vuln_record :: "string \<Rightarrow> string list \<Rightarrow> dtime \<Rightarrow> pdict \<Rightarrow> pdict \<Rightarrow> pdict \<Rightarrow> collector_record" where
  "vuln_record host_id aliases observed_at host item vuln =
     \<lparr>cr_source = ''fleet'', cr_record_type = ''software_vuln'', cr_observed_at = observed_at,
      cr_external_id = or_opt (text_or_number (dget vuln ''cve'')) (text_or_number (dget item ''id'')),
      cr_host_aliases = aliases,
      cr_payload = [(''host_id'', PStr host_id), (''hostname'', of_ostr (text_or_number (dget host ''hostname''))),
        (''software'', PDict item), (''vulnerability'', PDict vuln)]\<rparr>"

definition detail_records ::
    "api \<Rightarrow> fleet_config \<Rightarrow> dtime \<Rightarrow> pdict \<Rightarrow> fleet \<Rightarrow> (string + collector_record list) \<times> fleet" where
  "detail_records api c now host st =
     (case text_or_number (dget host ''id'') of
        None \<Rightarrow> (Inr [], st)
      | Some host_id \<Rightarrow>
          (case fleet_get api (''/api/v1/fleet/hosts/'' @ host_id) [] of
             Inl e \<Rightarrow> (Inl e, st)
           | Inr answer \<Rightarrow>
               (case dget answer ''host'' of
                  PDict detail \<Rightarrow>
                    (let st = (if fc_accounts c then capture_accounts host detail st else st);
                         aliases = fleet_aliases (fl_shared st) host;
                         observed_at = fleet_time now (dget detail ''software_updated_at'')
                     in if \<not> fc_software c then (Inr [], st)
                        else (Inr (concat (map (\<lambda>item. map (vuln_record host_id aliases observed_at host item)
                               (json_dicts (dget item ''vulnerabilities''))) (json_dicts (dget detail ''software'')))), st))
                | _ \<Rightarrow> (Inr [], st))))"

fun collect_hosts ::
    "api \<Rightarrow> fleet_config \<Rightarrow> dtime \<Rightarrow> pdict list \<Rightarrow> fleet \<Rightarrow> (string + collector_record list) \<times> fleet" where
  "collect_hosts api c now [] st = (Inr [], st)"
| "collect_hosts api c now (h # hs) st =
     (case (if fc_software c \<or> fc_accounts c then detail_records api c now h st else (Inr [], st)) of
        (Inl e, st) \<Rightarrow> (Inl e, st)
      | (Inr details, st') \<Rightarrow>
          (case collect_hosts api c now hs st' of
             (Inl e, st) \<Rightarrow> (Inl e, st)
           | (Inr others, st'') \<Rightarrow> (Inr (fleet_host_record now st h # details @ others), st'')))"

text \<open>\<^verbatim>\<open>collect\<close>: the records, whether it warns of vulnerabilities without a score, and the state.\<close>

definition fleet_collect ::
    "api \<Rightarrow> fleet_config \<Rightarrow> dtime \<Rightarrow> fleet \<Rightarrow> ((string + collector_record list) \<times> bool \<times> fleet) option" where
  "fleet_collect api c now st =
     (case fetch_hosts api c of
        None \<Rightarrow> None
      | Some (Inl e) \<Rightarrow> Some (Inl e, False, st)
      | Some (Inr (hosts, trimmed)) \<Rightarrow>
          if hosts = [] then Some (Inr [], False, st)
          else (case collect_hosts api c now hosts
                       (st\<lparr>fl_shared := shared_primary_ips hosts, fl_accounts := [], fl_no_cvss := 0\<rparr>) of
                  (Inl e, st) \<Rightarrow> Some (Inl e, False, st)
                | (Inr rs, st) \<Rightarrow> Some (Inr rs, fl_no_cvss st \<noteq> 0, st)))"

section \<open>Envelopes\<close>

definition fleet_severity :: "rat option \<Rightarrow> string" where
  "fleet_severity score =
     (case score of
        None \<Rightarrow> ''info''
      | Some s \<Rightarrow> if 9 \<le> s then ''critical'' else if 7 \<le> s then ''high'' else if 4 \<le> s then ''medium''
                else if 0 < s then ''low'' else ''info'')"

definition fleet_normalize_host :: "(string \<Rightarrow> string) \<Rightarrow> collector_record \<Rightarrow> envelope" where
  "fleet_normalize_host H1 r =
     (let host = cr_payload r; alias = first_alias (cr_host_aliases r);
          status = (case map_of FLEET_HOST_STATUS (lower (gstr host ''status'')) of None \<Rightarrow> ''unknown'' | Some s \<Rightarrow> s);
          txt = (\<lambda>k. text_val (text_or_number (dget host k)))
      in \<lparr>ev_entity_type = ''host_observation'', ev_entity_id = record_id H1 ''host'' ''fleet'' ''host'' True r,
          ev_observed_at = cr_observed_at r, ev_source = ''fleet'', ev_raw_ref = Some (''fleet:host:'' @ ext_text r),
          ev_normalized =
            [(''host_id'', text_val alias), (''source_aliases'', opt_texts (cr_host_aliases r)),
             (''hostname'', text_val (or_opt (text_or_number (dget host ''hostname'')) alias)), (''platform'', txt ''platform''),
             (''primary_ip'', txt ''primary_ip''), (''status'', V (PStr status)),
             (''observation_type'', V (PStr ''availability'')), (''metric_name'', V (PStr ''fleet_agent_status'')),
             (''metric_value'', V (PStr (if status = ''online'' then ''available'' else if status = ''offline'' then ''unavailable''
                else ''unknown''))),
             (''os_version'', txt ''os_version''), (''osquery_version'', txt ''osquery_version'')],
          ev_raw_payload = host\<rparr>)"

definition fleet_vuln_id :: "(string \<Rightarrow> string) \<Rightarrow> collector_record \<Rightarrow> string" where
  "fleet_vuln_id H1 r =
     (let software = as_dict (dget (cr_payload r) ''software'')
      in digest_id H1 ''vuln'' [''fleet'', ''vuln'', ext_text r, pstr (dget software ''name''), pstr (dget software ''version''),
           pstr (dget (cr_payload r) ''host_id'')])"

definition fleet_normalize_vuln :: "(string \<Rightarrow> string) \<Rightarrow> (pdict \<Rightarrow> rat option) \<Rightarrow> collector_record \<Rightarrow> envelope" where
  "fleet_normalize_vuln H1 score r =
     (let p = cr_payload r; software = as_dict (dget p ''software''); vuln = as_dict (dget p ''vulnerability'');
          alias = first_alias (cr_host_aliases r); txt = (\<lambda>d k. text_val (text_or_number (dget d k)))
      in \<lparr>ev_entity_type = ''vulnerability'', ev_entity_id = fleet_vuln_id H1 r,
          ev_observed_at = cr_observed_at r, ev_source = ''fleet'', ev_raw_ref = Some (''fleet:vuln:'' @ ext_text r),
          ev_normalized =
            [(''host_id'', text_val alias), (''source_aliases'', opt_texts (cr_host_aliases r)),
             (''hostname'', text_val (or_opt (text_or_number (dget p ''hostname'')) alias)), (''cve'', txt vuln ''cve''),
             (''severity'', V (PStr (fleet_severity (score vuln)))), (''package_name'', txt software ''name''),
             (''installed_version'', txt software ''version''), (''fixed_version'', txt vuln ''resolved_in_version'')],
          ev_raw_payload = p\<rparr>)"

definition fleet_normalize ::
    "(string \<Rightarrow> string) \<Rightarrow> (pdict \<Rightarrow> rat option) \<Rightarrow> collector_record \<Rightarrow> fleet \<Rightarrow> envelope gen \<times> fleet" where
  "fleet_normalize H1 score r st =
     (if cr_record_type r = ''host'' then (([fleet_normalize_host H1 r], None), st)
      else if cr_record_type r = ''software_vuln''
        then (([fleet_normalize_vuln H1 score r], None),
              if score (as_dict (dget (cr_payload r) ''vulnerability'')) = None then st\<lparr>fl_no_cvss := fl_no_cvss st + 1\<rparr> else st)
      else (([], Some (''ValueError: Unsupported Fleet record_type: '' @ cr_record_type r)), st))"

section \<open>The poller\<close>

text \<open>What the poller finds where the settings are: no database at all, one that fails, or the table.\<close>

datatype settings_source = NoDatabase | Unreachable | SettingsTable "string dict"

definition accounts_wanted :: "settings_source \<Rightarrow> bool" where
  "accounts_wanted src =
     (case src of
        Unreachable \<Rightarrow> False
      | _ \<Rightarrow>
          (let d = (case src of SettingsTable d \<Rightarrow> dict_of d | _ \<Rightarrow> [])
           in lower (strip (env_get d ''account_collect_enabled'' ''true'')) \<notin> {''false'', ''0'', ''no'', ''off''}
              \<and> lower (strip (env_get d ''account_collect_source'' ''fleet'')) \<noteq> ''script''))"

text \<open>\<^verbatim>\<open>save_host_accounts\<close> for each host until one fails; the table of the accounts by host.\<close>

fun save_accounts :: "(string \<Rightarrow> bool) \<Rightarrow> (string \<times> pdict list) list \<Rightarrow> pdict list dict \<Rightarrow> pdict list dict" where
  "save_accounts db_ok [] t = t"
| "save_accounts db_ok ((h, rows) # hs) t = (if db_ok h then save_accounts db_ok hs (dset t h rows) else t)"

definition fleet_post_ingest ::
    "settings_source \<Rightarrow> (string \<Rightarrow> bool) \<Rightarrow> fleet \<Rightarrow> pdict list dict \<Rightarrow> pdict list dict" where
  "fleet_post_ingest src db_ok st t =
     (if fl_accounts st = [] \<or> \<not> accounts_wanted src \<or> src = NoDatabase then t else save_accounts db_ok (fl_accounts st) t)"

section \<open>The pages end\<close>

text \<open>However the server answers, the loop ends, after at most as many pages as are left.\<close>

lemma fetch_pages_ends:
  assumes "n = nat (FLEET_MAX_PAGES - page)" "int (length hosts) < fc_host_limit c"
  shows "\<exists>r. fetch_pages api c page hosts = Some r
    \<and> (\<forall>hs cut. r = Inr (hs, cut) \<longrightarrow> int (length hs) \<le> fc_host_limit c)"
  using assms
proof (induction n arbitrary: page hosts rule: less_induct)
  case (less n)
  note unfold = fetch_pages.simps [of api c page hosts]
  show ?case
  proof (cases "fleet_get api ''/api/v1/fleet/hosts'' [(''page'', page), (''per_page'', fc_page_size c)]")
    case (Inr payload)
    define hs where "hs = hosts @ json_dicts (dget payload ''hosts'')"
    have hs_eq: "hosts @ json_dicts (PList (as_list (dget payload ''hosts''))) = hs" by (simp add: hs_def json_dicts_def)
    show ?thesis
    proof (cases "int (length hs) < fc_host_limit c \<and> page + 1 < FLEET_MAX_PAGES")
      case True
      then have "nat (FLEET_MAX_PAGES - (page + 1)) < n" using less.prems by simp
      from less.IH [OF this refl] True obtain r where "fetch_pages api c (page + 1) hs = Some r"
        "\<forall>xs cut. r = Inr (xs, cut) \<longrightarrow> int (length xs) \<le> fc_host_limit c" by blast
      with True less.prems(2) show ?thesis by (subst unfold) (simp add: Inr Let_def hs_eq)
    qed (use less.prems(2) in \<open>subst unfold, auto simp: Inr Let_def hs_eq\<close>)
  qed (simp add: unfold)
qed

lemma limit_positive: "0 < fc_host_limit (new_fleet_config l p s a)" "0 < fc_page_size (new_fleet_config l p s a)"
  by (simp_all add: new_fleet_config_def)

text \<open>The pages of a list: \<open>sz\<close> hosts from each multiple of the size.\<close>

definition page_of :: "int \<Rightarrow> 'a list \<Rightarrow> int \<Rightarrow> 'a list" where
  "page_of sz xs page = take (nat sz) (drop (nat (page * sz)) xs)"

definition serves :: "api \<Rightarrow> fleet_config \<Rightarrow> pdict list \<Rightarrow> bool" where
  "serves api c hs =
     (\<forall>page \<ge> 0. \<exists>answer. api ''/api/v1/fleet/hosts'' [(''page'', page), (''per_page'', fc_page_size c)] = Inr (PDict answer)
        \<and> dget answer ''hosts'' = PList (map PDict (page_of (fc_page_size c) hs page)))"

lemma take_next_page:
  "0 < sz \<Longrightarrow> 0 \<le> page \<Longrightarrow> take (nat (page * sz)) hs @ page_of sz hs page = take (nat ((page + 1) * sz)) hs"
  by (simp add: page_of_def take_add [symmetric] nat_add_distrib algebra_simps)

lemma fetch_pages_complete:
  assumes "serves api c hs" "int (length hs) < fc_host_limit c" "int (length hs) < FLEET_MAX_PAGES * fc_page_size c"
    and "0 < fc_page_size c" "0 \<le> page" "n = length hs - nat (page * fc_page_size c)"
    and "nat (page * fc_page_size c) \<le> length hs"
  shows "fetch_pages api c page (take (nat (page * fc_page_size c)) hs) = Some (Inr (hs, False))"
  using assms(5-)
proof (induction n arbitrary: page rule: less_induct)
  case (less n)
  let ?s = "fc_page_size c" and ?b = "page_of (fc_page_size c) hs page"
  obtain answer where "api ''/api/v1/fleet/hosts'' [(''page'', page), (''per_page'', ?s)] = Inr (PDict answer)"
    and b: "dget answer ''hosts'' = PList (map PDict ?b)"
    using assms(1) less.prems(1) unfolding serves_def by blast
  then have got: "fleet_get api ''/api/v1/fleet/hosts'' [(''page'', page), (''per_page'', ?s)] = Inr answer"
    by (simp add: fleet_get_def)
  have len: "length ?b = min (nat ?s) (length hs - nat (page * ?s))" by (simp add: page_of_def)
  have sub: "int (length (take k hs)) < fc_host_limit c" for k using assms(2) by simp
  note unfold = fetch_pages.simps [of api c page "take (nat (page * ?s)) hs"]
  show ?case
  proof (cases "length ?b < nat ?s")
    case True
    then have all: "length hs - nat (page * ?s) < nat ?s" using len by (simp add: min_def split: if_splits)
    then have "take (nat ((page + 1) * ?s)) hs = hs" using assms(4) less.prems(1)
      by (simp add: nat_add_distrib algebra_simps)
    then have eq: "take (nat (page * ?s)) hs @ ?b = hs" using assms(4) less.prems(1) by (simp add: take_next_page)
    show ?thesis
    proof (cases "?b = []")
      case True
      then show ?thesis using eq b by (subst unfold) (simp add: got)
    next
      case False
      moreover have "int (length ?b) < ?s" using True by simp
      ultimately show ?thesis using eq b assms(2) by (subst unfold) (simp add: got)
    qed
  next
    case False
    then have full: "length ?b = nat ?s" using len by (simp add: min_def split: if_splits)
    then have left: "nat ?s \<le> length hs - nat (page * ?s)" using len by (simp add: min_def split: if_splits)
    have nat_next: "nat ((page + 1) * ?s) = nat (page * ?s) + nat ?s"
      using assms(4) less.prems(1) by (simp add: nat_add_distrib algebra_simps)
    then have fits: "nat ((page + 1) * ?s) \<le> length hs" using left less.prems(3) assms(4) by linarith
    then have "(page + 1) * ?s < FLEET_MAX_PAGES * ?s" using assms(3) by linarith
    then have last: "page + 1 < FLEET_MAX_PAGES" using assms(4) by (simp add: mult_less_cancel_right)
    have "length hs - nat ((page + 1) * ?s) < n" using nat_next left assms(4) less.prems(2) by linarith
    from less.IH [OF this _ refl fits] less.prems(1)
    have "fetch_pages api c (page + 1) (take (nat ((page + 1) * ?s)) hs) = Some (Inr (hs, False))" by simp
    moreover have "?b \<noteq> []" using full assms(4) by auto
    moreover have "take (nat (page * ?s)) hs @ ?b = take (nat ((page + 1) * ?s)) hs"
      using assms(4) less.prems(1) by (rule take_next_page)
    ultimately show ?thesis using b full sub [of "nat ((page + 1) * ?s)"] last assms(4)
      by (subst unfold) (simp add: got)
  qed
qed

text \<open>C31: The collector of the Fleet API ends, whatever the server answers, also with a full page for ever, and it
  takes no more hosts than the limit.\<close>

theorem fleet_fetch_terminates:
  "\<exists>r. fetch_hosts api (new_fleet_config limit per_page software accounts) = Some r
     \<and> (case r of Inl e \<Rightarrow> True | Inr (hs, trimmed) \<Rightarrow> int (length hs) \<le> max 1 limit)
     \<and> fleet_collect api (new_fleet_config limit per_page software accounts) now st \<noteq> None"
proof -
  let ?c = "new_fleet_config limit per_page software accounts"
  obtain r where r: "fetch_hosts api ?c = Some r" "\<forall>hs trimmed. r = Inr (hs, trimmed) \<longrightarrow> int (length hs) \<le> fc_host_limit ?c"
    using fetch_pages_ends [OF refl, where hosts = "[]" and c = ?c and page = 0 and api = api] limit_positive(1) by (auto simp: fetch_hosts_def)
  then have "fleet_collect api ?c now st \<noteq> None" by (auto simp: fleet_collect_def split: sum.split prod.split)
  with r show ?thesis by (auto simp: new_fleet_config_def split: sum.split)
qed

text \<open>C32: When the server gives a list of hosts page by page, fewer than the limit and fewer than 200 pages hold,
  the collector has every host, in order, and does not warn.\<close>

theorem fleet_hosts_complete:
  assumes "c = new_fleet_config limit per_page software accounts" "serves api c hs"
    and "int (length hs) < fc_host_limit c" "int (length hs) < FLEET_MAX_PAGES * fc_page_size c"
  shows "fetch_hosts api c = Some (Inr (hs, False))"
  using fetch_pages_complete [OF assms(2-4), of 0] limit_positive(2) assms(1) by (simp add: fetch_hosts_def)

definition paged_demo :: api where
  "paged_demo path params =
     Inr (PDict [(''hosts'', PList (map PDict (page_of 2 [[(''id'', PInt 1)], [(''id'', PInt 2)], [(''id'', PInt 3)]]
       (snd (hd params)))))])"

lemma fleet_hosts_complete_witness:
  "fetch_hosts paged_demo (new_fleet_config 10 2 True True)
     = Some (Inr ([[(''id'', PInt 1)], [(''id'', PInt 2)], [(''id'', PInt 3)]], False))"
  by (rule fleet_hosts_complete [OF refl]) (simp_all add: serves_def paged_demo_def new_fleet_config_def FLEET_MAX_PAGES_def)

text \<open>A server that gives fewer hosts for a page than it was asked for ends the loop, without a warning.\<close>

lemma short_page_ends_silently:
  "fetch_hosts paged_demo (new_fleet_config 10 5 True True) = Some (Inr ([[(''id'', PInt 1)], [(''id'', PInt 2)]], False))"
  by code_simp

section \<open>Addresses that hosts share\<close>

lemma set_fleet_aliases:
  "set (fleet_aliases shared h) = {t. Some t \<in> set (fleet_names h)} \<union> {ip. fleet_ip h = Some ip \<and> ip \<notin> set shared}"
proof -
  have "set (collect_aliases [] (fleet_names h)) = {t. Some t \<in> set (fleet_names h)}"
    by (auto simp: set_collect_aliases fleet_names_def)
  then show ?thesis by (auto simp: fleet_aliases_def Let_def split: option.splits)
qed

interpretation fleet: host_batch fleet_names ip_texts fleet_aliases
  by unfold_locales (auto simp: set_fleet_aliases ip_texts_def)

text \<open>A name that two hosts of one collection have in common as an alias is the name of one of them: an address
  that hosts share makes no two of them one.\<close>

lemma shared_address_joins_no_hosts:
  assumes "i < length hosts" "j < length hosts" "i \<noteq> j"
    and "a \<in> set (fleet_aliases (shared_primary_ips hosts) (hosts ! i))"
    and "a \<in> set (fleet_aliases (shared_primary_ips hosts) (hosts ! j))"
  shows "Some a \<in> set (fleet_names (hosts ! i)) \<or> Some a \<in> set (fleet_names (hosts ! j))"
  using assms unfolding shared_primary_ips_def by (rule fleet.common_alias)

section \<open>Records for the ingestion\<close>

definition fleet_record :: "collector_record \<Rightarrow> bool" where
  "fleet_record r = (cr_record_type r \<in> {''host'', ''software_vuln''} \<and> dt_aware (cr_observed_at r))"

interpretation fleet: collecting "\<lambda>r. fst (fleet_normalize H1 score r st)" "''fleet''" fleet_record for H1 score st
  by unfold_locales
    (auto simp: fleet_record_def fleet_normalize_def envelope_fine_def MAPPED_TYPES_def fleet_normalize_host_def
      fleet_normalize_vuln_def Let_def)

lemma fleet_time_aware: "dt_aware now \<Longrightarrow> dt_aware (fleet_time now v)"
  by (auto simp: fleet_time_def bind_eq_Some_conv dest: parse_stamp_aware split: option.split)

lemma detail_fine:
  "dt_aware now \<Longrightarrow> detail_records api c now h st = (Inr rs, st') \<Longrightarrow> list_all fleet_record rs"
  by (auto simp: detail_records_def list_all_iff fleet_record_def vuln_record_def fleet_time_aware Let_def
      split: option.splits sum.splits pv.splits if_splits)

lemma collect_fine:
  "dt_aware now \<Longrightarrow> collect_hosts api c now hs st = (Inr rs, st') \<Longrightarrow> list_all fleet_record rs"
  by (induction hs arbitrary: st rs)
    (auto simp: fleet_host_record_def fleet_record_def fleet_time_aware dest: detail_fine
      split: prod.splits sum.splits if_splits)

lemma fleet_collected_fine:
  "fleet_collect api c now st = Some (Inr rs, warned, st') \<Longrightarrow> dt_aware now \<Longrightarrow> list_all fleet_record rs"
  by (auto simp: fleet_collect_def dest: collect_fine split: option.splits sum.splits prod.splits if_splits)

section \<open>Scores\<close>

lemma capture_no_cvss [simp]: "fl_no_cvss (capture_accounts h d st) = fl_no_cvss st"
  by (simp add: capture_accounts_def Let_def split: option.split)

lemma detail_no_cvss [simp]: "fl_no_cvss (snd (detail_records api c now h st)) = fl_no_cvss st"
  by (simp add: detail_records_def Let_def split: option.split sum.split pv.split)

lemma collect_no_cvss: "fl_no_cvss (snd (collect_hosts api c now hs st)) = fl_no_cvss st"
proof (induction hs arbitrary: st)
  case (Cons h hs)
  have "fl_no_cvss (snd (if fc_software c \<or> fc_accounts c then detail_records api c now h st else (Inr [], st))) = fl_no_cvss st"
    by simp
  then show ?case using Cons by (auto split: prod.split sum.split) (metis snd_conv)+
qed simp

text \<open>The warning about vulnerabilities without a score is never given: they are counted when their records are
  normalised, and the collection that looks at the counter has set it to zero.\<close>

lemma cvss_warning_never_given: "fleet_collect api c now st = Some (r, warned, st') \<Longrightarrow> \<not> warned"
proof -
  have "fl_no_cvss (snd (collect_hosts api c now hs (s\<lparr>fl_no_cvss := 0\<rparr>))) = 0" for hs s by (simp add: collect_no_cvss)
  then show "fleet_collect api c now st = Some (r, warned, st') \<Longrightarrow> \<not> warned"
    by (auto simp: fleet_collect_def split: option.splits sum.splits prod.splits if_splits) (metis snd_conv)+
qed

section \<open>Accounts\<close>

text \<open>The poller reads the switch of the administrator as the routes do, from the table.\<close>

lemma wanted_iff:
  assumes "settings_agree (gv_settings s)"
  shows "accounts_wanted (SettingsTable (tx_disk (gv_settings s))) \<longleftrightarrow> collection_enabled s \<and> collection_source s = ''fleet''"
proof -
  have "env_get (dict_of (tx_disk (gv_settings s))) k d = env_get (tx_cache (gv_settings s)) k d" for k d
    using assms by (simp add: settings_agree_def env_get_def dict_of_distinct)
  then show ?thesis by (auto simp: accounts_wanted_def collection_enabled_def collection_source_def Let_def)
qed

lemma put_setting_agrees:
  "put_setting b k v rq s = (True, s') \<Longrightarrow> settings_agree (gv_settings s) \<Longrightarrow> settings_agree (gv_settings s')"
  using set_setting_agrees [of "gv_settings s" b k v "rq_user rq"]
  by (auto simp: put_setting_def split: prod.splits)

text \<open>What the administrator is told about the collection of accounts is what the poller does: as long as the
  collection is off, or from the script, the poller of Fleet stores no account of any host.\<close>

lemma collection_switch_obeyed:
  assumes "set_collection_config env b rq payload s = (Inr (on, src), s')" "settings_agree (gv_settings s)"
    and "\<not> on \<or> src = ''script''"
  shows "fleet_post_ingest (SettingsTable (tx_disk (gv_settings s'))) db_ok st t = t"
proof -
  have "settings_agree (gv_settings s') \<and> on = collection_enabled s' \<and> src = collection_source s'"
    using assms(1,2)
    by (auto simp: set_collection_config_def Let_def dest: put_setting_agrees split: if_splits prod.splits bool.splits)
  then show ?thesis using assms(3) wanted_iff [of s'] by (auto simp: fleet_post_ingest_def)
qed

lemma collection_switch_obeyed_witness:
  "\<exists>s'. set_collection_config gov_demo_env (Database ''d'') (gov_demo_rq ''admin'') [(''enabled'', PBool False)] no_accounts
       = (Inr (False, ''fleet''), s')
     \<and> fleet_post_ingest (SettingsTable (tx_disk (gv_settings s'))) (\<lambda>h. True)
         \<lparr>fl_shared = [], fl_accounts = [(''pc1'', [[]])], fl_no_cvss = 0\<rparr> [] = []"
proof -
  obtain s' where s': "set_collection_config gov_demo_env (Database ''d'') (gov_demo_rq ''admin'') [(''enabled'', PBool False)] no_accounts
       = (Inr (False, ''fleet''), s')"
    by (simp add: set_collection_config_def put_setting_def set_setting_def save_setting_def Let_def role_in_def gov_demo_env_def
      gov_demo_rq_def no_accounts_def no_settings_def collection_enabled_def collection_source_def env_get_def strip_def lstrip_def
      is_space_def lower_def lower_char_def is_upper_def)
  with collection_switch_obeyed [OF s'] show ?thesis by (simp add: no_accounts_def)
qed

text \<open>The accounts are kept by host name: of two computers with one name only the accounts of the later remain.\<close>

lemma same_name_hides_accounts:
  "map_option (map (\<lambda>a. dget a ''username'')) (map_of (fl_accounts
     (capture_accounts [(''hostname'', PStr ''laptop'')] [(''users'', PList [PDict [(''username'', PStr ''kim'')]])]
       (capture_accounts [(''hostname'', PStr ''laptop'')] [(''users'', PList [PDict [(''username'', PStr ''root'')]])]
          \<lparr>fl_shared = [], fl_accounts = [], fl_no_cvss = 0\<rparr>))) ''laptop'') = Some [PStr ''kim'']"
  by code_simp

end
