(* ===== verification/Zabbix.thy ===== *)
theory Zabbix
  imports Collecting
begin

text \<open>
  The collector of Zabbix (\<^verbatim>\<open>collectors/zabbix_events.py\<close>): hosts and problems from the API, or problems and
  values from lines of JSON.  The server is a parameter: \<open>perform\<close> is one request, with its method, parameters,
  token and whether the token goes into the header; it answers or raises the text of a \<^verbatim>\<open>RuntimeError\<close>.
\<close>

section \<open>Requests\<close>

type_synonym zapi = "string \<Rightarrow> pdict \<Rightarrow> string option \<Rightarrow> bool \<Rightarrow> string + pv"

record zabbix_config =
  zc_username :: "string option"
  zc_password :: "string option"
  zc_token :: "string option"
  zc_host_limit :: int
  zc_problem_limit :: int

definition given :: "string option \<Rightarrow> bool" where
  "given x = (x \<noteq> None \<and> x \<noteq> Some [])"

definition api_call :: "zapi \<Rightarrow> zabbix_config \<Rightarrow> string \<Rightarrow> pdict \<Rightarrow> string option \<Rightarrow> string + pv" where
  "api_call perform c method params auth =
     (let in_header = given auth \<and> given (zc_token c)
      in case perform method params auth in_header of
           Inr v \<Rightarrow> Inr v
         | Inl e \<Rightarrow>
             if given auth \<and> \<not> in_header \<and> contains ''unexpected parameter \"auth\"'' e
             then perform method params auth True else Inl e)"

definition zabbix_login :: "zapi \<Rightarrow> zabbix_config \<Rightarrow> string + string" where
  "zabbix_login perform c =
     (if \<not> given (zc_username c) \<or> \<not> given (zc_password c) then Inl ''RuntimeError: Zabbix API credentials are missing''
      else let login = (\<lambda>k. map_sum id pstr (api_call perform c ''user.login''
             [(k, of_ostr (zc_username c)), (''password'', of_ostr (zc_password c))] None))
        in case login ''username'' of
             Inr token \<Rightarrow> Inr token
           | Inl e \<Rightarrow> if contains ''Invalid params'' e then login ''user'' else Inl e)"

text \<open>A loop \<^verbatim>\<open>for payload in rows\<close> that reads \<^verbatim>\<open>payload.get\<close>; it raises for what is no list of objects.\<close>

definition NO_GET :: string where
  "NO_GET = ''AttributeError''"

definition rows_of :: "pv \<Rightarrow> string + pdict list" where
  "rows_of v =
     (case v of
        PList xs \<Rightarrow> if list_all is_dict xs then Inr (map as_dict xs) else Inl NO_GET
      | PDict d \<Rightarrow> if d = [] then Inr [] else Inl NO_GET
      | PStr s \<Rightarrow> if s = [] then Inr [] else Inl NO_GET
      | _ \<Rightarrow> Inl ''TypeError'')"

section \<open>Names and addresses\<close>

definition HOST_KEYS :: "string list" where
  "HOST_KEYS = [''name'', ''host'', ''hostid'']"

definition texts_at :: "string list \<Rightarrow> pdict \<Rightarrow> string option list" where
  "texts_at ks d = map (\<lambda>k. text_only (dget d k)) ks"

definition interface_ips :: "pdict \<Rightarrow> string list" where
  "interface_ips p = concat (map (\<lambda>i. case text_only (dget i ''ip'') of None \<Rightarrow> [] | Some ip \<Rightarrow> [ip])
     (json_dicts (dget p ''interfaces'')))"

definition zabbix_names :: "pdict \<Rightarrow> string option list" where
  "zabbix_names p = texts_at HOST_KEYS p @ concat (map (texts_at HOST_KEYS) (json_dicts (dget p ''hosts'')))"

definition zabbix_aliases :: "string list \<Rightarrow> pdict \<Rightarrow> string list" where
  "zabbix_aliases shared p =
     collect_aliases (collect_aliases [] (zabbix_names p)) (map Some (filter (\<lambda>ip. ip \<notin> set shared) (interface_ips p)))"

definition problem_aliases :: "pdict \<Rightarrow> string list" where
  "problem_aliases p =
     collect_aliases [] (concat (map (texts_at HOST_KEYS) (json_dicts (dget p ''hosts''))) @ texts_at [''host'', ''hostid''] p)"

definition shared_interface_ips :: "pv \<Rightarrow> string list" where
  "shared_interface_ips hosts = shared_ips interface_ips (json_dicts hosts)"

text \<open>\<^verbatim>\<open>datetime.fromtimestamp(int(x), tz=timezone.utc)\<close> with the clock for a \<^verbatim>\<open>TypeError\<close>, \<^verbatim>\<open>ValueError\<close> or
  \<^verbatim>\<open>OSError\<close>; a number that does not fit into 64 bits raises an \<^verbatim>\<open>OverflowError\<close>, which nothing catches.\<close>

definition zabbix_time :: "dtime \<Rightarrow> pv \<Rightarrow> string + dtime" where
  "zabbix_time now v =
     (case py_int v of
        None \<Rightarrow> Inr now
      | Some n \<Rightarrow>
          if n < - (2 ^ 63) \<or> 2 ^ 63 \<le> n then Inl ''OverflowError: timestamp out of range for platform time_t''
          else Inr (case from_timestamp n of None \<Rightarrow> now | Some d \<Rightarrow> d))"

text \<open>A list built by a loop whose body may raise.\<close>

fun collect_each :: "('a \<Rightarrow> 'e + 'b) \<Rightarrow> 'a list \<Rightarrow> 'e + 'b list" where
  "collect_each f [] = Inr []"
| "collect_each f (x # xs) =
     (case f x of Inl e \<Rightarrow> Inl e
      | Inr y \<Rightarrow> (case collect_each f xs of Inl e \<Rightarrow> Inl e | Inr ys \<Rightarrow> Inr (y # ys)))"

section \<open>Problems and their triggers\<close>

definition trigger_of :: "pdict \<Rightarrow> pv" where
  "trigger_of p = por (dget p ''objectid'') (dget p ''triggerid'')"

definition trigger_ids :: "pdict list \<Rightarrow> string list" where
  "trigger_ids problems =
     foldl (\<lambda>ids p. if trigger_of p = PNone \<or> pstr (trigger_of p) \<in> set ids then ids else ids @ [pstr (trigger_of p)]) [] problems"

definition hosts_by_trigger :: "pdict list \<Rightarrow> pdict list dict" where
  "hosts_by_trigger triggers =
     foldl (\<lambda>d t. case dget t ''hosts'' of
         PList hs \<Rightarrow> if dget t ''triggerid'' = PNone then d else dset d (pstr (dget t ''triggerid'')) (json_dicts (PList hs))
       | _ \<Rightarrow> d) [] triggers"

definition fetch_trigger_hosts ::
    "zapi \<Rightarrow> zabbix_config \<Rightarrow> string option \<Rightarrow> pdict list \<Rightarrow> string + pdict list dict" where
  "fetch_trigger_hosts perform c auth problems =
     (let ids = trigger_ids problems
      in if ids = [] then Inr []
         else case api_call perform c ''trigger.get''
                [(''output'', of_strs [''triggerid'']), (''triggerids'', of_strs ids), (''selectHosts'', of_strs [''hostid'', ''host'', ''name''])] auth of
             Inl e \<Rightarrow> Inl e
           | Inr v \<Rightarrow> map_sum id hosts_by_trigger (rows_of v))"

definition enrich_problem :: "pdict list dict \<Rightarrow> pdict \<Rightarrow> pdict" where
  "enrich_problem trigger_hosts p =
     (if trigger_of p = PNone then p
      else let t = pstr (trigger_of p); p = dsetdefault p ''triggerid'' (PStr t)
        in case map_of trigger_hosts t of
             Some (h # hs) \<Rightarrow> dset p ''hosts'' (PList (map PDict (h # hs)))
           | _ \<Rightarrow> p)"

section \<open>Records\<close>

definition por_text :: "pv list \<Rightarrow> string \<Rightarrow> string" where
  "por_text vs d = pstr (foldr por vs (PStr d))"

definition zabbix_host_record :: "dtime \<Rightarrow> string list \<Rightarrow> pdict \<Rightarrow> collector_record" where
  "zabbix_host_record now shared p =
     \<lparr>cr_source = ''zabbix'', cr_record_type = ''host'', cr_observed_at = now,
      cr_external_id = Some (por_text [dget p ''hostid'', dget p ''host'', dget p ''name''] ''zbx-host''),
      cr_host_aliases = zabbix_aliases shared p, cr_payload = p\<rparr>"

definition problem_record :: "dtime \<Rightarrow> string \<Rightarrow> pdict \<Rightarrow> string + collector_record" where
  "problem_record now ext p =
     map_sum id (\<lambda>t. \<lparr>cr_source = ''zabbix'', cr_record_type = ''problem'', cr_observed_at = t, cr_external_id = Some ext,
        cr_host_aliases = problem_aliases p, cr_payload = p\<rparr>) (zabbix_time now (dget p ''clock''))"

definition item_record :: "dtime \<Rightarrow> string \<Rightarrow> pdict \<Rightarrow> string + collector_record" where
  "item_record now ext p =
     map_sum id (\<lambda>t. \<lparr>cr_source = ''zabbix'', cr_record_type = ''item_data'', cr_observed_at = t, cr_external_id = Some ext,
        cr_host_aliases = zabbix_aliases [] p, cr_payload = p\<rparr>) (zabbix_time now (dget p ''clock''))"

definition collect_api :: "zapi \<Rightarrow> zabbix_config \<Rightarrow> dtime \<Rightarrow> string + collector_record list" where
  "collect_api perform c now =
     (case (if given (zc_token c) then Inr (the (zc_token c)) else zabbix_login perform c) of
        Inl e \<Rightarrow> Inl e
      | Inr auth \<Rightarrow>
          (case api_call perform c ''host.get''
             [(''output'', of_strs [''hostid'', ''host'', ''name'', ''status'', ''active_available'']),
              (''selectInterfaces'', of_strs [''ip'', ''available'']), (''limit'', PInt (zc_host_limit c)),
              (''sortfield'', PStr ''host'')] (Some auth) of
             Inl e \<Rightarrow> Inl e
           | Inr hosts \<Rightarrow>
          (case api_call perform c ''problem.get''
             [(''output'', of_strs [''eventid'', ''clock'', ''name'', ''severity'', ''objectid'', ''r_eventid'', ''r_clock'']),
              (''recent'', PBool True), (''sortfield'', PStr ''eventid''), (''sortorder'', PStr ''DESC''),
              (''limit'', PInt (zc_problem_limit c))] (Some auth) of
             Inl e \<Rightarrow> Inl e
           | Inr answer \<Rightarrow>
          (case rows_of answer of
             Inl e \<Rightarrow> Inl e
           | Inr problems \<Rightarrow>
          (case fetch_trigger_hosts perform c (Some auth) problems of
             Inl e \<Rightarrow> Inl e
           | Inr triggers \<Rightarrow>
          (case rows_of hosts of
             Inl e \<Rightarrow> Inl e
           | Inr host_rows \<Rightarrow>
               map_sum id (\<lambda>rs. map (zabbix_host_record now (shared_interface_ips hosts)) host_rows @ rs)
                 (collect_each (\<lambda>p. let p = enrich_problem triggers p
                    in problem_record now (por_text [dget p ''eventid'', dget p ''objectid''] ''zbx-problem'') p) problems)))))))"

text \<open>A line of JSON: the text of the decoder's exception, or the value, which must be an object.\<close>

definition line_dict :: "string + pv \<Rightarrow> string + pdict" where
  "line_dict l = (case l of Inl e \<Rightarrow> Inl e | Inr (PDict d) \<Rightarrow> Inr d | Inr _ \<Rightarrow> Inl NO_GET)"

definition collect_problem_lines :: "dtime \<Rightarrow> (string + pv) list \<Rightarrow> string + collector_record list" where
  "collect_problem_lines now lines =
     collect_each (\<lambda>(i, l). case line_dict l of Inl e \<Rightarrow> Inl e
       | Inr p \<Rightarrow> problem_record now (por_text [dget p ''eventid''] (''zbx-event-'' @ dec i)) p) (enumerate 0 lines)"

definition collect_item_lines :: "dtime \<Rightarrow> (string + pv) list \<Rightarrow> string + collector_record list" where
  "collect_item_lines now lines =
     collect_each (\<lambda>(i, l). case line_dict l of Inl e \<Rightarrow> Inl e
       | Inr p \<Rightarrow> item_record now (por_text [dget p ''itemid''] (''zbx-item-'' @ dec i)) p) (enumerate 0 lines)"

text \<open>\<^verbatim>\<open>yield from\<close> of two lists: the records of the first are out before the second list is built.\<close>

definition yield_both :: "string + 'a list \<Rightarrow> string + 'a list \<Rightarrow> 'a gen" where
  "yield_both x y =
     (case x of Inl e \<Rightarrow> ([], Some e)
      | Inr xs \<Rightarrow> (case y of Inl e \<Rightarrow> (xs, Some e) | Inr ys \<Rightarrow> (xs @ ys, None)))"

definition zabbix_collect ::
    "zapi option \<Rightarrow> zabbix_config \<Rightarrow> (string + pv) list \<Rightarrow> (string + pv) list \<Rightarrow> dtime \<Rightarrow> collector_record gen" where
  "zabbix_collect api c problem_lines item_lines now =
     (case api of
        Some perform \<Rightarrow> yield_both (collect_api perform c now) (Inr [])
      | None \<Rightarrow> yield_both (collect_problem_lines now problem_lines) (collect_item_lines now item_lines))"

section \<open>Envelopes\<close>

text \<open>\<^verbatim>\<open>mapping.get(severity, "info")\<close>, which raises for a list or an object; \<^verbatim>\<open>True\<close> is the key 1.\<close>

definition ZABBIX_SEVERITIES :: "string list" where
  "ZABBIX_SEVERITIES = [''info'', ''info'', ''low'', ''medium'', ''high'', ''critical'']"

definition severity_at :: "string list \<Rightarrow> int \<Rightarrow> string" where
  "severity_at table n = (if 0 \<le> n \<and> n < int (length table) then table ! nat n else ''info'')"

definition table_severity :: "string list \<Rightarrow> pv \<Rightarrow> string option" where
  "table_severity table v =
     (case v of
        PInt n \<Rightarrow> Some (severity_at table n)
      | PBool b \<Rightarrow> Some (severity_at table (if b then 1 else 0))
      | PStr s \<Rightarrow> Some (if s \<in> set (map (\<lambda>n. dec n) [0..<length table]) then severity_at table (int (undec s)) else ''info'')
      | PNone \<Rightarrow> Some ''info''
      | _ \<Rightarrow> None)"

definition text_of_value :: "pv \<Rightarrow> nval" where
  "text_of_value v = V (if v = PNone then PNone else PStr (pstr v))"

definition normalize_problem :: "(string \<Rightarrow> string) \<Rightarrow> dtime \<Rightarrow> collector_record \<Rightarrow> string + envelope" where
  "normalize_problem H1 now r =
     (let p = cr_payload r; alias = text_val (first_alias (cr_host_aliases r)); raw = dget p ''severity'';
          name = or_else (text_only (dget p ''name'')) ''zabbix problem'';
          r_eventid = pstr (por (dget p ''r_eventid'') (PStr ''0''))
      in case table_severity ZABBIX_SEVERITIES raw of
           None \<Rightarrow> Inl ''TypeError: unhashable type''
         | Some severity \<Rightarrow>
             (case (if r_eventid \<in> {[], ''0''} then Inr None else map_sum id Some (zabbix_time now (dget p ''r_clock''))) of
                Inl e \<Rightarrow> Inl e
              | Inr resolved_at \<Rightarrow>
                  Inr \<lparr>ev_entity_type = ''alert'', ev_entity_id = record_id H1 ''zabbix-problem'' ''zabbix'' ''problem'' False r,
                       ev_observed_at = cr_observed_at r, ev_source = ''zabbix'', ev_raw_ref = Some (''zabbix:event:'' @ ext_text r),
                       ev_normalized =
                         [(''host_id'', alias), (''source_aliases'', opt_texts (cr_host_aliases r)), (''hostname'', alias),
                          (''source_event_id'', text_val (cr_external_id r)), (''severity'', V (PStr severity)),
                          (''original_severity'', text_of_value raw), (''rule_name'', V (PStr name)),
                          (''rule_id'', text_of_value (dget p ''triggerid'')),
                          (''resolved_at'', (case resolved_at of None \<Rightarrow> V PNone | Some t \<Rightarrow> T t)), (''message'', V (PStr name))],
                       ev_raw_payload = p\<rparr>))"

definition normalize_item :: "(string \<Rightarrow> string) \<Rightarrow> collector_record \<Rightarrow> envelope" where
  "normalize_item H1 r =
     (let p = cr_payload r; alias = text_val (first_alias (cr_host_aliases r))
      in \<lparr>ev_entity_type = ''host_observation'', ev_entity_id = record_id H1 ''zabbix-item'' ''zabbix'' ''item'' True r,
          ev_observed_at = cr_observed_at r, ev_source = ''zabbix'', ev_raw_ref = Some (''zabbix:item:'' @ ext_text r),
          ev_normalized =
            [(''host_id'', alias), (''source_aliases'', opt_texts (cr_host_aliases r)), (''hostname'', alias),
             (''observation_type'', V (PStr ''metric'')),
             (''metric_name'', V (PStr (or_else (or_opt (text_only (dget p ''item_name'')) (text_only (dget p ''key_''))) ''unknown_metric''))),
             (''metric_value'', text_of_value (dget p ''value'')),
             (''unit'', text_val (or_opt (text_only (dget p ''units'')) (text_only (dget p ''unit''))))],
          ev_raw_payload = p\<rparr>)"

definition first_ip :: "pdict \<Rightarrow> string option" where
  "first_ip p = first_alias (interface_ips p)"

definition zabbix_host_status :: "pdict \<Rightarrow> string" where
  "zabbix_host_status p =
     (if pstr (dget p ''status'') = ''1'' then ''offline''
      else case filter (\<lambda>a. a \<in> {''1'', ''2''}) (map (\<lambda>i. pstr (dget i ''available'')) (json_dicts (dget p ''interfaces''))) of
        a # as \<Rightarrow> if a = ''1'' then ''online'' else ''offline''
      | [] \<Rightarrow>
          (let active = pstr (dget p ''active_available'')
           in if active = ''1'' then ''online'' else if active = ''2'' then ''offline'' else ''unknown''))"

definition zabbix_normalize_host :: "(string \<Rightarrow> string) \<Rightarrow> collector_record \<Rightarrow> envelope" where
  "zabbix_normalize_host H1 r =
     (let p = cr_payload r; status = zabbix_host_status p
      in \<lparr>ev_entity_type = ''host_observation'', ev_entity_id = record_id H1 ''zabbix-host'' ''zabbix'' ''host'' True r,
          ev_observed_at = cr_observed_at r, ev_source = ''zabbix'', ev_raw_ref = Some (''zabbix:host:'' @ ext_text r),
          ev_normalized =
            [(''host_id'', text_val (first_alias (cr_host_aliases r))), (''source_aliases'', opt_texts (cr_host_aliases r)),
             (''hostname'', text_val (or_opt (text_only (dget p ''name'')) (or_opt (text_only (dget p ''host'')) (first_ip p)))),
             (''primary_ip'', text_val (first_ip p)), (''status'', V (PStr status)),
             (''observation_type'', V (PStr ''availability'')), (''metric_name'', V (PStr ''zabbix_agent_status'')),
             (''metric_value'', V (PStr (if status = ''online'' then ''available'' else if status = ''offline'' then ''unavailable''
                else ''unknown'')))],
          ev_raw_payload = p\<rparr>)"

definition zabbix_normalize :: "(string \<Rightarrow> string) \<Rightarrow> dtime \<Rightarrow> collector_record \<Rightarrow> envelope gen" where
  "zabbix_normalize H1 now r =
     (if cr_record_type r = ''host'' then ([zabbix_normalize_host H1 r], None)
      else if cr_record_type r = ''problem'' then
        (case normalize_problem H1 now r of Inl e \<Rightarrow> ([], Some e) | Inr e \<Rightarrow> ([e], None))
      else if cr_record_type r = ''item_data'' then ([normalize_item H1 r], None)
      else ([], Some (''ValueError: Unsupported Zabbix record_type: '' @ cr_record_type r)))"

section \<open>Aliases\<close>

interpretation zabbix: host_batch zabbix_names interface_ips zabbix_aliases
  by unfold_locales (auto simp: zabbix_aliases_def set_collect_aliases)

text \<open>An address that two hosts of one answer of the API have in common is no alias of either, unless it is the name
  of one of them.\<close>

lemma shared_interface_joins_no_hosts:
  assumes "i < length hosts" "j < length hosts" "i \<noteq> j"
    and "a \<in> set (zabbix_aliases (shared_interface_ips (PList (map PDict hosts))) (hosts ! i))"
    and "a \<in> set (zabbix_aliases (shared_interface_ips (PList (map PDict hosts))) (hosts ! j))"
  shows "Some a \<in> set (zabbix_names (hosts ! i)) \<or> Some a \<in> set (zabbix_names (hosts ! j))"
  using assms unfolding shared_interface_ips_def json_dicts_map by (rule zabbix.common_alias)

section \<open>Records for the ingestion\<close>

text \<open>A record is taken when its times fit into 64 bits and its severity is no list and no object.\<close>

definition fits_clock :: "pv \<Rightarrow> bool" where
  "fits_clock v = (case py_int v of None \<Rightarrow> True | Some n \<Rightarrow> - (2 ^ 63) \<le> n \<and> n < 2 ^ 63)"

definition zabbix_record :: "collector_record \<Rightarrow> bool" where
  "zabbix_record r \<longleftrightarrow> cr_record_type r \<in> {''host'', ''problem'', ''item_data''} \<and> dt_aware (cr_observed_at r)
     \<and> (cr_record_type r = ''problem'' \<longrightarrow>
          table_severity ZABBIX_SEVERITIES (dget (cr_payload r) ''severity'') \<noteq> None \<and> fits_clock (dget (cr_payload r) ''r_clock''))"

lemma zabbix_time_fits: "fits_clock v \<longleftrightarrow> (\<exists>t. zabbix_time now v = Inr t)"
  by (auto simp: fits_clock_def zabbix_time_def split: option.splits)

lemma zabbix_time_aware: "zabbix_time now v = Inr t \<Longrightarrow> dt_aware now \<Longrightarrow> dt_aware t"
  by (auto simp: zabbix_time_def split: option.splits if_splits dest: from_timestamp_aware)

interpretation zabbix: collecting "zabbix_normalize H1 now" "''zabbix''" zabbix_record for H1 now
proof
  fix r assume r: "zabbix_record r"
  show "snd (zabbix_normalize H1 now r) = None \<and> list_all (envelope_fine ''zabbix'') (fst (zabbix_normalize H1 now r))"
  proof (cases "cr_record_type r = ''problem''")
    case True
    then obtain t where "zabbix_time now (dget (cr_payload r) ''r_clock'') = Inr t"
      using r zabbix_time_fits by (auto simp: zabbix_record_def)
    with r True show ?thesis
      by (auto simp: zabbix_record_def zabbix_normalize_def normalize_problem_def Let_def envelope_fine_def MAPPED_TYPES_def)
  qed (use r in \<open>auto simp: zabbix_record_def zabbix_normalize_def envelope_fine_def MAPPED_TYPES_def normalize_item_def
      zabbix_normalize_host_def Let_def\<close>)
qed

lemma collect_each_all:
  assumes "collect_each f xs = Inr ys" "\<And>x y. x \<in> set xs \<Longrightarrow> f x = Inr y \<Longrightarrow> P y"
  shows "list_all P ys"
  using assms by (induction xs arbitrary: ys) (fastforce split: sum.splits)+

text \<open>Every record that is collected has a known kind and an aware time.\<close>

definition zabbix_kind :: "collector_record \<Rightarrow> bool" where
  "zabbix_kind r = (cr_record_type r \<in> {''host'', ''problem'', ''item_data''} \<and> dt_aware (cr_observed_at r))"

lemma problem_record_kind: "problem_record now ext p = Inr r \<Longrightarrow> dt_aware now \<Longrightarrow> zabbix_kind r"
  by (auto simp: problem_record_def zabbix_kind_def map_sum_Inr dest: zabbix_time_aware split: sum.splits)

lemma item_record_kind: "item_record now ext p = Inr r \<Longrightarrow> dt_aware now \<Longrightarrow> zabbix_kind r"
  by (auto simp: item_record_def zabbix_kind_def map_sum_Inr dest: zabbix_time_aware split: sum.splits)

lemma problem_lines_kind: "collect_problem_lines now lines = Inr rs \<Longrightarrow> dt_aware now \<Longrightarrow> list_all zabbix_kind rs"
  unfolding collect_problem_lines_def
  by (erule collect_each_all) (auto dest: problem_record_kind split: sum.splits prod.splits)

lemma item_lines_kind: "collect_item_lines now lines = Inr rs \<Longrightarrow> dt_aware now \<Longrightarrow> list_all zabbix_kind rs"
  unfolding collect_item_lines_def
  by (erule collect_each_all) (auto dest: item_record_kind split: sum.splits prod.splits)

lemma collect_api_kind:
  assumes "collect_api perform c now = Inr rs" "dt_aware now"
  shows "list_all zabbix_kind rs"
proof -
  have problems: "list_all zabbix_kind rs"
    if "collect_each (\<lambda>p. let p = enrich_problem triggers p in problem_record now (f p) p) ps = Inr rs" for triggers f ps rs
    using that by (rule collect_each_all) (auto simp: Let_def assms(2) dest: problem_record_kind)
  have "list_all zabbix_kind (map (zabbix_host_record now shared) ps)" for shared ps
    using assms(2) by (simp add: list_all_iff zabbix_host_record_def zabbix_kind_def)
  with problems assms(1) show ?thesis
    by (auto simp: collect_api_def map_sum_Inr split: sum.splits)
qed

lemma zabbix_collect_kind: "dt_aware now \<Longrightarrow> list_all zabbix_kind (fst (zabbix_collect api c ps items now))"
  by (auto simp: zabbix_collect_def yield_both_def split: option.split sum.split
      dest: collect_api_kind problem_lines_kind item_lines_kind)

end
