(* ===== verification/Fleet_Logs.thy ===== *)
theory Fleet_Logs
  imports Zabbix
begin

text \<open>
  The collector of the osquery logs of Fleet (\<^verbatim>\<open>collectors/fleet_logs.py\<close>): one line of JSON is a status or the
  result of a query.  Aliases are looked for in the objects inside the line, to any depth.  A floating-point
  \<^verbatim>\<open>unixTime\<close> is left out, as floats are everywhere, and \<^verbatim>\<open>strptime\<close> knows the zone names UTC and GMT.
\<close>

section \<open>Aliases\<close>

definition ALIAS_KEYS :: "string list" where
  "ALIAS_KEYS = [''hostIdentifier'', ''host_identifier'', ''host_id'', ''hostId'', ''hostname'', ''local_hostname'',
     ''computer_name'', ''uuid'', ''host_uuid'', ''hardware_uuid'', ''hardwareUuid'']"

definition NESTED_KEYS :: "string list" where
  "NESTED_KEYS = [''columns'', ''data'', ''decorations'', ''result'', ''results'', ''snapshot'']"

lemma size_dict_value: "map_of d k = Some v \<Longrightarrow> size v < size_list (size_prod (\<lambda>x. 0) size) d"
  by (induction d) (auto split: if_splits)

lemma size_list_value: "v \<in> set xs \<Longrightarrow> size v < Suc (size_list size xs)"
  using size_list_estimation' [of v xs "size v" size] by simp

function alias_candidates :: "pv \<Rightarrow> string option list" where
  "alias_candidates v =
     (case v of
        PDict d \<Rightarrow> map (\<lambda>k. text_or_number (dget d k)) ALIAS_KEYS
          @ concat (map (\<lambda>k. case map_of d k of None \<Rightarrow> [] | Some w \<Rightarrow> alias_candidates w) NESTED_KEYS)
      | PList xs \<Rightarrow> concat (map alias_candidates xs)
      | _ \<Rightarrow> [])"
  by auto
termination
  by (relation "measure size") (auto dest: size_dict_value size_list_value)

declare alias_candidates.simps [simp del]

definition log_aliases :: "pdict \<Rightarrow> string list" where
  "log_aliases p =
     collect_aliases [] (concat (map alias_candidates
       (PDict p # map (dget p) [''decorations'', ''columns'', ''data'', ''result'', ''results'', ''snapshot''])))"

section \<open>Times\<close>

definition DAY_NAMES :: "string list" where
  "DAY_NAMES = [''mon'', ''tue'', ''wed'', ''thu'', ''fri'', ''sat'', ''sun'']"

definition MONTH_NAMES :: "string list" where
  "MONTH_NAMES = [''jan'', ''feb'', ''mar'', ''apr'', ''may'', ''jun'', ''jul'', ''aug'', ''sep'', ''oct'', ''nov'', ''dec'']"

definition index_of :: "string list \<Rightarrow> string \<Rightarrow> nat option" where
  "index_of xs x = (if x \<in> set xs then Some (length (takeWhile (\<lambda>y. y \<noteq> x) xs)) else None)"

definition small_num :: "string \<Rightarrow> int option" where
  "small_num s = (if length s \<in> {1, 2} \<and> list_all is_digit s then Some (int (undec s)) else None)"

text \<open>\<^verbatim>\<open>datetime.strptime(v, "%a %b %d %H:%M:%S %Y %Z")\<close> with UTC.\<close>

definition calendar_time :: "string \<Rightarrow> dtime option" where
  "calendar_time v =
     (case filter (\<lambda>w. w \<noteq> []) (split_on (CHR '' '') (map (\<lambda>c. if is_space c then CHR '' '' else lower_char c) v)) of
        [wd, mon, day, clock, year, zone] \<Rightarrow>
          (if is_space (hd v) \<or> is_space (last v) then None
           else case (split_on (CHR '':'') clock, index_of DAY_NAMES wd, index_of MONTH_NAMES mon, small_num day, take_num 4 year) of
             ([h, mi, se], Some _, Some m, Some d, Some (y, [])) \<Rightarrow>
               (case (small_num h, small_num mi, small_num se) of
                  (Some h, Some mi, Some se) \<Rightarrow>
                    if valid_date y (int m + 1) d \<and> valid_time h mi se \<and> zone \<in> {''utc'', ''gmt''}
                    then Some \<lparr>dt_us = date_us y (int m + 1) d + time_us h mi se, dt_off = Some 0\<rparr> else None
                | _ \<Rightarrow> None)
           | _ \<Rightarrow> None)
      | _ \<Rightarrow> None)"

definition log_datetime :: "string \<Rightarrow> dtime option" where
  "log_datetime v = (case parse_stamp v of Some d \<Rightarrow> Some d | None \<Rightarrow> calendar_time v)"

definition text_time :: "pv \<Rightarrow> dtime option" where
  "text_time v = (case v of PStr s \<Rightarrow> log_datetime s | _ \<Rightarrow> None)"

fun number_of :: "pv \<Rightarrow> int option" where
  "number_of (PInt n) = Some n"
| "number_of (PBool b) = Some (if b then 1 else 0)"
| "number_of _ = None"

definition log_timestamp :: "dtime \<Rightarrow> pdict \<Rightarrow> string + dtime" where
  "log_timestamp now p =
     (case number_of (por (dget p ''unixTime'') (dget p ''unix_time'')) of
        Some n \<Rightarrow> (case from_timestamp n of None \<Rightarrow> Inl ''ValueError: year is out of range'' | Some d \<Rightarrow> Inr d)
      | None \<Rightarrow> Inr (or_else (or_opt (text_time (dget p ''timestamp'')) (text_time (dget p ''calendarTime''))) now))"

section \<open>Records\<close>

definition log_record :: "dtime \<Rightarrow> string \<Rightarrow> string \<Rightarrow> nat \<Rightarrow> pdict \<Rightarrow> string + collector_record" where
  "log_record now kind raw_ref i p =
     map_sum id (\<lambda>t. \<lparr>cr_source = ''fleet'', cr_record_type = kind, cr_observed_at = t,
        cr_external_id = Some (por_text [dget p ''name'', dget p ''hostIdentifier''] (kind @ ''-'' @ dec i)),
        cr_host_aliases = log_aliases p, cr_payload = dset p ''raw_ref'' (PStr (raw_ref @ '':'' @ dec i))\<rparr>) (log_timestamp now p)"

definition collect_log_lines ::
    "dtime \<Rightarrow> string \<Rightarrow> string \<Rightarrow> (string + pv) list \<Rightarrow> string + collector_record list" where
  "collect_log_lines now kind raw_ref lines =
     collect_each (\<lambda>(i, l). case line_dict l of Inl e \<Rightarrow> Inl e | Inr p \<Rightarrow> log_record now kind raw_ref i p) (enumerate 0 lines)"

definition fleet_log_collect :: "dtime \<Rightarrow> (string + pv) list \<Rightarrow> (string + pv) list \<Rightarrow> collector_record gen" where
  "fleet_log_collect now status_lines result_lines =
     yield_both (collect_log_lines now ''status'' ''fleet.status'' status_lines)
       (collect_log_lines now ''result'' ''fleet.results'' result_lines)"

section \<open>Envelopes\<close>

definition result_columns :: "pdict \<Rightarrow> pdict" where
  "result_columns d = (case dget d ''columns'' of PDict c \<Rightarrow> c | _ \<Rightarrow> d)"

definition result_row :: "pv \<Rightarrow> pdict option" where
  "result_row v = (case v of PDict d \<Rightarrow> Some (result_columns d) | PNone \<Rightarrow> None | _ \<Rightarrow> Some [(''value'', v)])"

definition result_container :: "pv \<Rightarrow> pdict option" where
  "result_container v =
     (case v of
        PDict d \<Rightarrow> Some (result_columns d)
      | PList xs \<Rightarrow>
          (let rows = concat (map (\<lambda>x. case result_row x of None \<Rightarrow> [] | Some d \<Rightarrow> [PDict d]) xs)
           in Some [(''rows'', PList rows), (''row_count'', PInt (int (length rows)))])
      | PNone \<Rightarrow> None
      | _ \<Rightarrow> Some [(''value'', v)])"

text \<open>The first of several optional values.\<close>

fun first_of :: "'a option list \<Rightarrow> 'a option" where
  "first_of [] = None"
| "first_of (x # xs) = or_opt x (first_of xs)"

definition extract_result :: "pdict \<Rightarrow> pdict" where
  "extract_result p =
     or_else (first_of (map (\<lambda>k. result_container (dget p k)) [''columns'', ''result'', ''results'', ''snapshot'', ''data''])) p"

definition nested_text :: "pdict \<Rightarrow> string \<Rightarrow> string \<Rightarrow> string option" where
  "nested_text p k1 k2 = text_or_number (dget (as_dict (dget p k1)) k2)"

definition first_row_value :: "pdict \<Rightarrow> string list \<Rightarrow> string option" where
  "first_row_value res ks =
     first_of (concat (map (\<lambda>row. map (\<lambda>k. text_or_number (dget row k)) ks) (json_dicts (dget res ''rows''))))"

definition log_hostname :: "pdict \<Rightarrow> pdict \<Rightarrow> string option" where
  "log_hostname p res =
     first_of [text_or_number (dget p ''hostname''), nested_text p ''decorations'' ''hostname'', nested_text p ''columns'' ''hostname'',
       nested_text p ''columns'' ''computer_name'', text_or_number (dget res ''hostname''), text_or_number (dget res ''computer_name''),
       first_row_value res [''hostname'', ''computer_name'', ''local_hostname''], text_or_number (dget p ''hostIdentifier'')]"

definition log_platform :: "pdict \<Rightarrow> pdict \<Rightarrow> string option" where
  "log_platform p res =
     first_of [text_or_number (dget p ''platform''), nested_text p ''columns'' ''platform'', text_or_number (dget res ''platform''),
       first_row_value res [''platform'']]"

definition LOG_SEVERITIES :: "string list" where
  "LOG_SEVERITIES = [''info'', ''low'', ''medium'', ''high'', ''critical'']"

definition log_raw_ref :: "pdict \<Rightarrow> string option" where
  "log_raw_ref p = text_only (dget p ''raw_ref'')"

definition normalize_status :: "(string \<Rightarrow> string) \<Rightarrow> collector_record \<Rightarrow> string + envelope" where
  "normalize_status H1 r =
     (let p = cr_payload r
      in case table_severity LOG_SEVERITIES (dget p ''severity'') of
           None \<Rightarrow> Inl ''TypeError: unhashable type''
         | Some severity \<Rightarrow>
             Inr \<lparr>ev_entity_type = ''host_observation'', ev_entity_id = record_id H1 ''fleet-status'' ''fleet'' ''status'' True r,
                  ev_observed_at = cr_observed_at r, ev_source = ''fleet'', ev_raw_ref = log_raw_ref p,
                  ev_normalized =
                    [(''source'', V (PStr ''fleet'')), (''host_id'', text_val (first_alias (cr_host_aliases r))),
                     (''source_aliases'', opt_texts (cr_host_aliases r)), (''observation_type'', V (PStr ''status'')),
                     (''metric_name'', V (PStr ''fleet_status'')),
                     (''metric_value'', V (foldr por [dget p ''message'', dget p ''status'', dget p ''state''] (PStr ''status''))),
                     (''hostname'', text_val (log_hostname p [])), (''platform'', text_val (log_platform p [])),
                     (''status'', V (PStr ''online'')), (''severity'', V (PStr severity))],
                  ev_raw_payload = p\<rparr>)"

definition normalize_result :: "(string \<Rightarrow> string) \<Rightarrow> collector_record \<Rightarrow> envelope" where
  "normalize_result H1 r =
     (let p = cr_payload r; res = extract_result p; txt = (\<lambda>k. text_or_number (dget p k))
      in \<lparr>ev_entity_type = ''query_result'', ev_entity_id = record_id H1 ''fleet-result'' ''fleet'' ''result'' False r,
          ev_observed_at = cr_observed_at r, ev_source = ''fleet'', ev_raw_ref = log_raw_ref p,
          ev_normalized =
            [(''source'', V (PStr ''fleet'')), (''host_id'', text_val (first_alias (cr_host_aliases r))),
             (''source_aliases'', opt_texts (cr_host_aliases r)), (''hostname'', text_val (log_hostname p res)),
             (''platform'', text_val (log_platform p res)),
             (''query_name'', text_val (first_of [txt ''name'', txt ''query_name'', cr_external_id r])),
             (''query_text'', text_val (first_of [txt ''query'', txt ''query_sql'', txt ''sql''])), (''result_json'', V (PDict res))],
          ev_raw_payload = p\<rparr>)"

definition fleet_log_normalize :: "(string \<Rightarrow> string) \<Rightarrow> collector_record \<Rightarrow> envelope gen" where
  "fleet_log_normalize H1 r =
     (if cr_record_type r = ''status'' then (case normalize_status H1 r of Inl e \<Rightarrow> ([], Some e) | Inr e \<Rightarrow> ([e], None))
      else if cr_record_type r = ''result'' then ([normalize_result H1 r], None)
      else ([], Some (''ValueError: Unsupported Fleet record_type: '' @ cr_record_type r)))"

section \<open>Records for the ingestion\<close>

definition log_takes :: "collector_record \<Rightarrow> bool" where
  "log_takes r \<longleftrightarrow> cr_record_type r \<in> {''status'', ''result''} \<and> dt_aware (cr_observed_at r)
     \<and> (cr_record_type r = ''status'' \<longrightarrow> table_severity LOG_SEVERITIES (dget (cr_payload r) ''severity'') \<noteq> None)"

interpretation fleet_log: collecting "fleet_log_normalize H1" "''fleet''" log_takes for H1
  by unfold_locales
    (auto simp: log_takes_def fleet_log_normalize_def normalize_status_def normalize_result_def envelope_fine_def
      MAPPED_TYPES_def Let_def)

lemma log_timestamp_aware: "log_timestamp now p = Inr t \<Longrightarrow> dt_aware now \<Longrightarrow> dt_aware t"
proof -
  have "calendar_time s = Some d \<Longrightarrow> dt_aware d" for s d
    by (auto simp: calendar_time_def dt_aware_def split: list.splits option.splits if_splits prod.splits)
  then have "log_datetime s = Some d \<Longrightarrow> dt_aware d" for s d
    by (auto simp: log_datetime_def dest: parse_stamp_aware split: option.splits)
  then have "text_time v = Some d \<Longrightarrow> dt_aware d" for v d by (auto simp: text_time_def split: pv.splits)
  then show "log_timestamp now p = Inr t \<Longrightarrow> dt_aware now \<Longrightarrow> dt_aware t"
    by (auto simp: log_timestamp_def or_else_def or_opt_def split: option.splits dest: from_timestamp_aware)
qed

lemma log_lines_aware:
  "collect_log_lines now kind ref lines = Inr rs \<Longrightarrow> dt_aware now
   \<Longrightarrow> list_all (\<lambda>r. cr_record_type r = kind \<and> dt_aware (cr_observed_at r)) rs"
  unfolding collect_log_lines_def
  by (erule collect_each_all) (auto simp: log_record_def map_sum_Inr dest: log_timestamp_aware split: sum.splits prod.splits)

section \<open>Results that overwrite each other\<close>

text \<open>The identifier of a result is made of the name of the query and the time, not of the host: the results of two
  hosts that run one query in one second have one identifier, and the second takes the place of the first.\<close>

lemma result_id_without_host:
  assumes "cr_external_id r = cr_external_id r'" "cr_observed_at r = cr_observed_at r'"
  shows "ev_entity_id (normalize_result H1 r) = ev_entity_id (normalize_result H1 r')"
  using assms by (simp add: normalize_result_def record_id_def ext_text_def Let_def)

definition two_hosts :: "(string + pv) list" where
  "two_hosts = map (\<lambda>h. Inr (PDict [(''name'', PStr ''usb_devices''), (''hostIdentifier'', PStr h), (''unixTime'', PInt 1710160500),
     (''columns'', PDict [(''serial'', PStr h)])])) [''pc-1'', ''pc-2'']"

lemma result_of_other_host_lost:
  "map (\<lambda>q. (qr_host_id q, qr_result_json q)) (map snd (re_queries (in_repo
     (ingest_collector rev repo_save
       \<lparr>co_records = (map (\<lambda>r. (r, fleet_log_normalize rev r)) (fst (fleet_log_collect \<lparr>dt_us = 0, dt_off = Some 0\<rparr> [] two_hosts)), None)\<rparr>
       (new_mapper []) empty_repo))))
     = [(''pc-2'', [(''serial'', PStr ''pc-2'')])]"
  by code_simp

end
