(* ===== verification/Scanners.thy ===== *)
theory Scanners
  imports Fleet_Logs Coverage
begin

text \<open>
  The collectors of the scanners: vulnerability reports of Trivy (\<^verbatim>\<open>collectors/trivy.py\<close>), alerts of Wazuh
  (\<^verbatim>\<open>collectors/wazuh_alerts.py\<close>) and findings of a code review (\<^verbatim>\<open>collectors/code_review.py\<close>).  Files are their
  decoded contents, or the text of the exception of \<^verbatim>\<open>open\<close> or of the decoder.
\<close>

definition SEVERITY_NAMES :: "string list" where
  "SEVERITY_NAMES = [''critical'', ''high'', ''medium'', ''low'', ''info'']"

section \<open>Trivy\<close>

record trivy =
  tv_files :: "(string \<times> (string + pv)) list"
  tv_reports :: "pv list"
  tv_aliases :: "string list"
  tv_hostname :: "string option"

definition new_trivy :: "(string \<times> (string + pv)) list \<Rightarrow> pv list \<Rightarrow> string list \<Rightarrow> string \<Rightarrow> trivy" where
  "new_trivy files reports aliases hostname =
     \<lparr>tv_files = files, tv_reports = reports, tv_aliases = filter (\<lambda>a. a \<noteq> []) aliases,
      tv_hostname = (if strip hostname = [] then None else Some (strip hostname))\<rparr>"

definition trivy_aliases :: "trivy \<Rightarrow> pdict \<Rightarrow> string list" where
  "trivy_aliases c report =
     collect_aliases [] (map Some (tv_aliases c) @ [tv_hostname c, text_or_number (dget report ''ArtifactName'')]
       @ map text_or_number (as_list (dget (as_dict (dget report ''Metadata'')) ''RepoTags'')))"

definition trivy_time :: "dtime \<Rightarrow> pdict \<Rightarrow> dtime" where
  "trivy_time now report = or_else (Option.bind (text_or_number (dget report ''CreatedAt'')) parse_stamp) now"

definition trivy_external_id :: "pdict \<Rightarrow> nat \<Rightarrow> nat \<Rightarrow> string" where
  "trivy_external_id p i j =
     join ''|'' (concat (map (\<lambda>x. case x of None \<Rightarrow> [] | Some t \<Rightarrow> if t = [] then [] else [t])
       (map (\<lambda>k. text_or_number (dget p k)) [''artifact_name'', ''target'', ''PkgName'', ''InstalledVersion'', ''VulnerabilityID'']
        @ [Some (dec i), Some (dec j)])))"

definition trivy_payload :: "trivy \<Rightarrow> string \<Rightarrow> pdict \<Rightarrow> pdict \<Rightarrow> nat \<Rightarrow> nat \<Rightarrow> pdict \<Rightarrow> pdict" where
  "trivy_payload c ref report result i j v =
     foldl (\<lambda>d kv. dset d (fst kv) (snd kv)) v
       [(''artifact_name'', of_ostr (text_or_number (dget report ''ArtifactName''))),
        (''artifact_type'', of_ostr (text_or_number (dget report ''ArtifactType''))),
        (''target'', of_ostr (text_or_number (dget result ''Target''))),
        (''target_class'', of_ostr (text_or_number (dget result ''Class''))),
        (''target_type'', of_ostr (text_or_number (dget result ''Type''))), (''hostname'', of_ostr (tv_hostname c)),
        (''raw_ref'', PStr (ref @ '':'' @ dec i @ '':'' @ dec j))]"

definition trivy_result ::
    "trivy \<Rightarrow> dtime \<Rightarrow> string \<Rightarrow> pdict \<Rightarrow> nat \<Rightarrow> pdict \<Rightarrow> collector_record list" where
  "trivy_result c now ref report i result =
     concat (map (\<lambda>(j, v). case v of
         PDict d \<Rightarrow>
           (let p = trivy_payload c ref report result i j d
            in [\<lparr>cr_source = ''trivy'', cr_record_type = ''vulnerability'', cr_observed_at = trivy_time now report,
                 cr_external_id = Some (trivy_external_id p i j), cr_host_aliases = trivy_aliases c report, cr_payload = p\<rparr>])
       | _ \<Rightarrow> []) (enumerate 0 (as_list (dget result ''Vulnerabilities''))))"

definition collect_report :: "trivy \<Rightarrow> dtime \<Rightarrow> string \<Rightarrow> pv \<Rightarrow> string + collector_record list" where
  "collect_report c now ref report =
     (case report of
        PDict r \<Rightarrow> Inr (concat (map (\<lambda>(i, x). case x of PDict result \<Rightarrow> trivy_result c now ref r i result | _ \<Rightarrow> [])
          (enumerate 0 (as_list (dget r ''Results'')))))
      | _ \<Rightarrow> Inl ''ValueError: Trivy report must be a JSON object'')"

text \<open>One report after the other, until one raises.\<close>

fun trivy_reports :: "trivy \<Rightarrow> dtime \<Rightarrow> (string \<times> (string + pv)) list \<Rightarrow> collector_record gen" where
  "trivy_reports c now [] = ([], None)"
| "trivy_reports c now ((ref, content) # rest) =
     (case (case content of Inl e \<Rightarrow> Inl e | Inr report \<Rightarrow> collect_report c now ref report) of
        Inl e \<Rightarrow> ([], Some e)
      | Inr rs \<Rightarrow> (case trivy_reports c now rest of (others, exc) \<Rightarrow> (rs @ others, exc)))"

definition trivy_collect :: "trivy \<Rightarrow> dtime \<Rightarrow> collector_record gen" where
  "trivy_collect c now =
     trivy_reports c now (map (\<lambda>(i, r). (''trivy:inline:'' @ dec i, Inr r)) (enumerate 0 (tv_reports c))
       @ map (\<lambda>(path, content). (''trivy:file:'' @ path, content)) (tv_files c))"

definition trivy_severity :: "pv \<Rightarrow> string" where
  "trivy_severity v = (case v of PStr s \<Rightarrow> (let n = lower (strip s) in if n \<in> set SEVERITY_NAMES then n else ''info'') | _ \<Rightarrow> ''info'')"

definition trivy_id :: "(string \<Rightarrow> string) \<Rightarrow> collector_record \<Rightarrow> string" where
  "trivy_id H1 r = digest_id H1 ''trivy-vuln'' [''trivy'', ext_text r, dt_isoformat (cr_observed_at r), prepr (PDict (cr_payload r))]"

definition trivy_normalize :: "(string \<Rightarrow> string) \<Rightarrow> collector_record \<Rightarrow> envelope gen" where
  "trivy_normalize H1 r =
     (if cr_record_type r \<noteq> ''vulnerability'' then ([], Some (''ValueError: Unsupported Trivy record_type: '' @ cr_record_type r))
      else let p = cr_payload r; txt = (\<lambda>k. text_or_number (dget p k));
               alias = (if cr_host_aliases r = [] then txt ''artifact_name'' else first_alias (cr_host_aliases r));
               aliases = (if cr_host_aliases r = [] then (case alias of None \<Rightarrow> [] | Some a \<Rightarrow> [a]) else cr_host_aliases r)
        in ([\<lparr>ev_entity_type = ''vulnerability'', ev_entity_id = trivy_id H1 r, ev_observed_at = cr_observed_at r,
              ev_source = ''trivy'', ev_raw_ref = txt ''raw_ref'',
              ev_normalized =
                [(''host_id'', text_val alias), (''source_aliases'', opt_texts aliases),
                 (''hostname'', text_val (or_opt (txt ''hostname'') alias)), (''cve'', text_val (txt ''VulnerabilityID'')),
                 (''severity'', V (PStr (trivy_severity (dget p ''Severity'')))), (''package_name'', text_val (txt ''PkgName'')),
                 (''installed_version'', text_val (txt ''InstalledVersion'')), (''fixed_version'', text_val (txt ''FixedVersion'')),
                 (''artifact_name'', text_val (txt ''artifact_name'')), (''artifact_type'', text_val (txt ''artifact_type'')),
                 (''target'', text_val (txt ''target''))],
              ev_raw_payload = p\<rparr>], None))"

section \<open>Wazuh\<close>

text \<open>\<^verbatim>\<open>s.replace(old, new)\<close> for a non-empty \<^verbatim>\<open>old\<close>.\<close>

function replace_text :: "string \<Rightarrow> string \<Rightarrow> string \<Rightarrow> string" where
  "replace_text old new s =
     (case s of [] \<Rightarrow> []
      | c # cs \<Rightarrow> if old \<noteq> [] \<and> prefix old s then new @ replace_text old new (drop (length old) s)
          else c # replace_text old new cs)"
  by auto
termination by (relation "measure (\<lambda>(old, new, s). length s)") auto

declare replace_text.simps [simp del]

definition scanner_stamp :: "pv \<Rightarrow> dtime option" where
  "scanner_stamp v =
     (case v of PStr s \<Rightarrow> map_option with_utc (from_iso (replace_text ''+0000'' ''+00:00'' (z_to_offset s))) | _ \<Rightarrow> None)"

definition wazuh_agent :: "pdict \<Rightarrow> pdict" where
  "wazuh_agent p = as_dict (dget p ''agent'')"

definition wazuh_aliases :: "pdict \<Rightarrow> string list" where
  "wazuh_aliases p = collect_aliases [] [text_only (dget (wazuh_agent p) ''name''), text_only (dget (wazuh_agent p) ''id'')]"

definition wazuh_record :: "dtime \<Rightarrow> nat \<Rightarrow> pdict \<Rightarrow> collector_record" where
  "wazuh_record now i p =
     \<lparr>cr_source = ''wazuh'', cr_record_type = ''alert'', cr_observed_at = or_else (scanner_stamp (dget p ''timestamp'')) now,
      cr_external_id = Some (por_text [dget p ''id''] (''wazuh-'' @ dec i)), cr_host_aliases = wazuh_aliases p, cr_payload = p\<rparr>"

definition wazuh_collect :: "dtime \<Rightarrow> (string + pv) list \<Rightarrow> collector_record gen" where
  "wazuh_collect now lines =
     yield_both (collect_each (\<lambda>(i, l). map_sum id (wazuh_record now i) (line_dict l)) (enumerate 0 lines)) (Inr [])"

definition wazuh_severity :: "pv \<Rightarrow> string" where
  "wazuh_severity level =
     (case py_int level of
        None \<Rightarrow> ''info''
      | Some n \<Rightarrow> if 13 \<le> n then ''critical'' else if 11 \<le> n then ''high'' else if 8 \<le> n then ''medium''
                else if 4 \<le> n then ''low'' else ''info'')"

definition wazuh_id :: "(string \<Rightarrow> string) \<Rightarrow> collector_record \<Rightarrow> string" where
  "wazuh_id H1 r = digest_id H1 ''wazuh-alert'' [''wazuh'', ext_text r, dt_isoformat (cr_observed_at r)]"

definition wazuh_normalize :: "(string \<Rightarrow> string) \<Rightarrow> collector_record \<Rightarrow> envelope gen" where
  "wazuh_normalize H1 r =
     (if cr_record_type r \<noteq> ''alert'' then ([], Some (''ValueError: Unsupported Wazuh record_type: '' @ cr_record_type r))
      else let p = cr_payload r; rule = as_dict (dget p ''rule''); level = dget rule ''level'';
               alias = first_alias (cr_host_aliases r); full_log = dgetd p ''full_log'' (PStr []);
               rule_desc = text_only (dget rule ''description'')
        in ([\<lparr>ev_entity_type = ''alert'', ev_entity_id = wazuh_id H1 r,
              ev_observed_at = cr_observed_at r, ev_source = ''wazuh'', ev_raw_ref = Some (''wazuh:'' @ ext_text r),
              ev_normalized =
                [(''host_id'', text_val alias), (''source_aliases'', opt_texts (cr_host_aliases r)),
                 (''hostname'', text_val (or_opt (text_only (dget (wazuh_agent p) ''name'')) alias)),
                 (''primary_ip'', text_val (text_only (dget (wazuh_agent p) ''ip''))),
                 (''source_event_id'', text_val (cr_external_id r)), (''severity'', V (PStr (wazuh_severity level))),
                 (''original_severity'', text_of_value level), (''rule_name'', text_val rule_desc),
                 (''rule_id'', V (let t = (if dget rule ''id'' = PNone then [] else pstr (dget rule ''id'')) in if t = [] then PNone else PStr t)),
                 (''message'', V (PStr (or_else rule_desc
                    (sor (if truthy full_log then take_chars 200 (pstr full_log) else []) ''wazuh alert''))))],
              ev_raw_payload = p\<rparr>], None))"

section \<open>Code review\<close>

record code_review =
  rv_findings :: "pdict list"
  rv_repo :: "string option"

definition new_code_review :: "pv list \<Rightarrow> string \<Rightarrow> code_review" where
  "new_code_review findings repo =
     \<lparr>rv_findings = map as_dict (filter is_dict findings), rv_repo = (if strip repo = [] then None else Some (strip repo))\<rparr>"

definition finding_time :: "dtime \<Rightarrow> pdict \<Rightarrow> dtime" where
  "finding_time now f =
     or_else (scanner_stamp (foldr por [dget f ''detected_at'', dget f ''timestamp''] (dget f ''created_at''))) now"

definition finding_record :: "dtime \<Rightarrow> nat \<Rightarrow> pdict \<Rightarrow> collector_record" where
  "finding_record now i f =
     \<lparr>cr_source = ''code_review'', cr_record_type = ''code_finding'', cr_observed_at = finding_time now f,
      cr_external_id = Some (por_text [dget f ''id'', dget f ''rule_id'', dget f ''category''] (''cr-'' @ dec i)),
      cr_host_aliases = [], cr_payload = f\<rparr>"

definition code_review_collect :: "code_review \<Rightarrow> dtime \<Rightarrow> collector_record gen" where
  "code_review_collect c now = (map (\<lambda>(i, f). finding_record now i f) (enumerate 0 (rv_findings c)), None)"

definition SARIF_LEVELS :: "string dict" where
  "SARIF_LEVELS = [(''error'', ''high''), (''warning'', ''medium''), (''note'', ''low''), (''none'', ''info'')]"

definition review_severity :: "pv \<Rightarrow> string" where
  "review_severity v =
     (let s = lower (strip (pstr (por v (PStr []))))
      in case map_of SARIF_LEVELS s of Some l \<Rightarrow> l | None \<Rightarrow> if s \<in> set SEVERITY_NAMES then s else ''info'')"

definition review_rule_id :: "pdict \<Rightarrow> string option" where
  "review_rule_id f =
     text_only (foldr por [dget f ''rule_id'', dget f ''ruleId'', dget f ''category'']
       (if truthy (dget f ''rule'') then PStr (pstr (dget f ''rule'')) else PNone))"

definition code_review_normalize :: "(string \<Rightarrow> string) \<Rightarrow> code_review \<Rightarrow> collector_record \<Rightarrow> envelope gen" where
  "code_review_normalize H1 c r =
     (if cr_record_type r \<noteq> ''code_finding'' then ([], Some (''ValueError: Unsupported code_review record_type: '' @ cr_record_type r))
      else let f = cr_payload r; level = por (dget f ''severity'') (dget f ''level''); txt = (\<lambda>k. text_only (dget f k));
               title = or_else (first_of [txt ''title'', txt ''description'', txt ''message'']) ''code review finding'';
               rule_id = review_rule_id f; file_path = text_only (por (dget f ''file'') (dget f ''path'')); line = dget f ''line'';
               repo = or_opt (txt ''repo'') (rv_repo c);
               loc = (case file_path of None \<Rightarrow> []
                 | Some p \<Rightarrow> if line = PNone then '' ('' @ p @ '')'' else '' ('' @ p @ '':'' @ pstr line @ '')'');
               raw_level = pstr (por level (PStr []));
               bits = filter (\<lambda>x. x \<noteq> []) [or_else repo [], or_else rule_id [], or_else file_path [],
                 if line = PNone then [] else pstr line, ext_text r]
        in ([\<lparr>ev_entity_type = ''alert'',
              ev_entity_id = digest_id H1 ''code_review'' [''code_review'', sor (join ''|'' bits) (ext_text r)],
              ev_observed_at = cr_observed_at r, ev_source = ''code_review'',
              ev_raw_ref = Some (''code_review:'' @ or_else repo [] @ '':'' @ ext_text r),
              ev_normalized =
                [(''source_event_id'', text_val (cr_external_id r)), (''severity'', V (PStr (review_severity level))),
                 (''original_severity'', V (if raw_level = [] then PNone else PStr raw_level)), (''rule_name'', V (PStr title)),
                 (''rule_id'', text_val rule_id),
                 (''message'', V (PStr (or_else (first_of [txt ''message'', txt ''description'']) title @ loc)))],
              ev_raw_payload = f\<rparr>], None))"

section \<open>Records for the ingestion\<close>

definition of_kind :: "string \<Rightarrow> collector_record \<Rightarrow> bool" where
  "of_kind k r = (cr_record_type r = k \<and> dt_aware (cr_observed_at r))"

interpretation trivy: collecting "trivy_normalize H1" "''trivy''" "of_kind ''vulnerability''" for H1
  by unfold_locales (auto simp: of_kind_def trivy_normalize_def envelope_fine_def MAPPED_TYPES_def Let_def)

interpretation wazuh: collecting "wazuh_normalize H1" "''wazuh''" "of_kind ''alert''" for H1
  by unfold_locales (auto simp: of_kind_def wazuh_normalize_def envelope_fine_def MAPPED_TYPES_def Let_def)

interpretation code_review: collecting "code_review_normalize H1 c" "''code_review''" "of_kind ''code_finding''" for H1 c
  by unfold_locales (auto simp: of_kind_def code_review_normalize_def envelope_fine_def MAPPED_TYPES_def Let_def)

lemma trivy_time_aware: "dt_aware now \<Longrightarrow> dt_aware (trivy_time now r)"
  by (auto simp: trivy_time_def or_else_def bind_eq_Some_conv dest: parse_stamp_aware split: option.split)

lemma scanner_stamp_aware: "dt_aware now \<Longrightarrow> dt_aware (or_else (scanner_stamp v) now)"
  by (auto simp: scanner_stamp_def or_else_def split: option.split pv.split)

lemma trivy_reports_kind: "dt_aware now \<Longrightarrow> list_all (of_kind ''vulnerability'') (fst (trivy_reports c now fs))"
  by (induction fs)
    (auto simp: collect_report_def trivy_result_def of_kind_def list_all_iff trivy_time_aware Let_def
      split: sum.splits prod.splits pv.splits)

lemma trivy_collect_kind: "dt_aware now \<Longrightarrow> list_all (of_kind ''vulnerability'') (fst (trivy_collect c now))"
  by (simp add: trivy_collect_def trivy_reports_kind)

lemma wazuh_collect_kind: "dt_aware now \<Longrightarrow> list_all (of_kind ''alert'') (fst (wazuh_collect now lines))"
proof -
  have "list_all (of_kind ''alert'') rs"
    if "dt_aware now" "collect_each (\<lambda>(i, l). map_sum id (wazuh_record now i) (line_dict l)) ls = Inr rs" for ls rs
    using that(2) by (rule collect_each_all)
      (auto simp: map_sum_Inr of_kind_def wazuh_record_def scanner_stamp_aware that(1))
  then show "dt_aware now \<Longrightarrow> list_all (of_kind ''alert'') (fst (wazuh_collect now lines))"
    by (auto simp: wazuh_collect_def yield_both_def split: sum.split)
qed

lemma code_review_kind: "dt_aware now \<Longrightarrow> list_all (of_kind ''code_finding'') (fst (code_review_collect c now))"
  by (auto simp: code_review_collect_def of_kind_def finding_record_def finding_time_def scanner_stamp_aware list_all_iff)

text \<open>A report without its time gets the time of the poll, which is in the identifier of each vulnerability: polled
  again, the same report gives other identifiers, and every vulnerability is there twice.\<close>

definition undated_report :: pv where
  "undated_report = PDict [(''ArtifactName'', PStr ''img''), (''Results'', PList [PDict [(''Target'', PStr ''t''),
     (''Vulnerabilities'', PList [PDict [(''VulnerabilityID'', PStr ''CVE-1''), (''Severity'', PStr ''HIGH'')]])]])]"

definition polled :: "int \<Rightarrow> repo \<Rightarrow> repo" where
  "polled t r =
     (case trivy_collect (new_trivy [] [undated_report] [] []) \<lparr>dt_us = t, dt_off = Some 0\<rparr> of (rs, exc) \<Rightarrow>
        in_repo (ingest_collector (\<lambda>s. drop 23 s) repo_save \<lparr>co_records = (map (\<lambda>r. (r, trivy_normalize (\<lambda>s. drop 23 s) r)) rs, exc)\<rparr>
          (new_mapper []) r))"

lemma undated_report_doubles:
  "map (\<lambda>v. (vu_cve v, vu_severity v)) (map snd (re_vulns (polled 86400000000 (polled 0 empty_repo))))
     = [(Some ''CVE-1'', ''high''), (Some ''CVE-1'', ''high'')]"
  by code_simp

end
