(* ===== verification/Ldap_Dir.thy ===== *)
theory Ldap_Dir
  imports Scanners
begin

unbundle bit_operations_syntax

text \<open>
  The collector of the directory (\<^verbatim>\<open>collectors/ldap_directory.py\<close>).  A search answers with entries, each its
  distinguished name and its attributes; a value is JSON here, so a time that the library has already decoded is
  taken as a text.  The instant that an AD time names is computed in floating point and is a parameter \<open>instant\<close>
  of the model, from the 100-nanosecond ticks to the text of \<^verbatim>\<open>isoformat\<close>, \<open>None\<close> where that raises.
\<close>

section \<open>Records\<close>

type_synonym ldap_entry = "string \<times> (string \<times> pv) list"

definition PRIVILEGED_GROUPS :: "string list" where
  "PRIVILEGED_GROUPS = [''domain admins'', ''enterprise admins'', ''schema admins'', ''administrators'', ''account operators'',
     ''server operators'', ''backup operators'', ''sudo'', ''wheel'', ''root'']"

definition entry_to_dict :: "(string \<times> pv) list \<Rightarrow> pdict" where
  "entry_to_dict attrs = dict_of (map (\<lambda>(k, v). (k, case v of PList [x] \<Rightarrow> x | _ \<Rightarrow> v)) attrs)"

definition account_record :: "dtime \<Rightarrow> ldap_entry \<Rightarrow> collector_record" where
  "account_record now e =
     (let p = entry_to_dict (snd e)
      in \<lparr>cr_source = ''ldap'', cr_record_type = ''directory_account'', cr_observed_at = now,
          cr_external_id = Some (por_text [dget p ''sAMAccountName'', dget p ''cn''] (fst e)), cr_host_aliases = [], cr_payload = p\<rparr>)"

definition group_record :: "dtime \<Rightarrow> ldap_entry \<Rightarrow> collector_record" where
  "group_record now e =
     (let p = entry_to_dict (snd e)
      in \<lparr>cr_source = ''ldap'', cr_record_type = ''group'', cr_observed_at = now,
          cr_external_id = Some (por_text [dget p ''cn''] (fst e)), cr_host_aliases = [], cr_payload = p\<rparr>)"

text \<open>The two searches, for users and for groups; either raises, or the connection before them.\<close>

definition ldap_collect :: "string + ldap_entry list \<Rightarrow> string + ldap_entry list \<Rightarrow> dtime \<Rightarrow> collector_record gen" where
  "ldap_collect users groups now =
     (case users of
        Inl e \<Rightarrow> ([], Some e)
      | Inr us \<Rightarrow> (case groups of Inl e \<Rightarrow> ([], Some e) | Inr gs \<Rightarrow> (map (account_record now) us @ map (group_record now) gs, None)))"

section \<open>Envelopes\<close>

definition ldap_id :: "(string \<Rightarrow> string) \<Rightarrow> string \<Rightarrow> string \<Rightarrow> string" where
  "ldap_id H1 pre key = ''ldap-'' @ pre @ ''-'' @ take 16 (H1 key)"

definition cn_from_dn :: "string \<Rightarrow> string" where
  "cn_from_dn dn =
     (case List.find (\<lambda>part. prefix ''cn='' (lower part)) (map strip (split_on (CHR '','') dn)) of
        None \<Rightarrow> dn | Some part \<Rightarrow> drop 3 part)"

definition uac_to_status :: "int option \<Rightarrow> string" where
  "uac_to_status uac =
     (case uac of
        None \<Rightarrow> ''active''
      | Some u \<Rightarrow> if u AND 2 \<noteq> 0 then ''disabled'' else if u AND 16 \<noteq> 0 then ''locked''
                else if u AND 8388608 \<noteq> 0 then ''expired'' else ''active'')"

definition ad_timestamp :: "(int \<Rightarrow> string option) \<Rightarrow> pv \<Rightarrow> string option" where
  "ad_timestamp instant v =
     (case py_int v of
        None \<Rightarrow> None
      | Some ticks \<Rightarrow> if ticks \<le> 0 \<or> 9223372036854775807 \<le> ticks then None else instant ticks)"

definition iso_timestamp :: "pv \<Rightarrow> pv" where
  "iso_timestamp v = (if truthy v then PStr (pstr v) else PNone)"

text \<open>The values of an attribute with distinguished names: \<open>None\<close> where the iteration raises.\<close>

definition dn_values :: "pv \<Rightarrow> string list option" where
  "dn_values v =
     (case por v (PList []) of
        PStr s \<Rightarrow> Some [s]
      | PList xs \<Rightarrow> Some (concat (map (\<lambda>x. case x of PStr s \<Rightarrow> [s] | _ \<Rightarrow> []) xs))
      | PDict d \<Rightarrow> Some (keys d)
      | _ \<Rightarrow> None)"

definition privileged :: "string \<Rightarrow> bool" where
  "privileged group_cn = (lower group_cn \<in> set PRIVILEGED_GROUPS)"

definition ldap_envelope :: "string \<Rightarrow> string \<Rightarrow> dtime \<Rightarrow> string \<Rightarrow> ndict \<Rightarrow> pdict \<Rightarrow> envelope" where
  "ldap_envelope kind i at_time ref n raw =
     \<lparr>ev_entity_type = kind, ev_entity_id = i, ev_observed_at = at_time, ev_source = ''ldap'', ev_raw_ref = Some ref,
      ev_normalized = n, ev_raw_payload = raw\<rparr>"

definition membership_envelope :: "(string \<Rightarrow> string) \<Rightarrow> dtime \<Rightarrow> string \<Rightarrow> string \<Rightarrow> string \<Rightarrow> envelope" where
  "membership_envelope H1 at_time username account_id g =
     (let i = ldap_id H1 ''gm'' (username @ ''|'' @ g)
      in ldap_envelope ''group_membership'' i at_time (''ldap:membership:'' @ username @ '':'' @ g)
        [(''membership_id'', V (PStr i)), (''account_id'', V (PStr account_id)), (''group_name'', V (PStr g)),
         (''source'', V (PStr ''ldap''))] [])"

definition privilege_envelope :: "(string \<Rightarrow> string) \<Rightarrow> dtime \<Rightarrow> string \<Rightarrow> string \<Rightarrow> string \<Rightarrow> envelope" where
  "privilege_envelope H1 at_time username account_id g =
     (let i = ldap_id H1 ''pb'' (username @ ''|'' @ g)
      in ldap_envelope ''privilege_binding'' i at_time (''ldap:privilege:'' @ username @ '':'' @ g)
        [(''binding_id'', V (PStr i)), (''account_id'', V (PStr account_id)), (''privilege_type'', V (PStr ''group_membership'')),
         (''target'', V (PStr g)), (''granted_by'', V (PStr ''ldap_sync''))] [])"

definition account_envelope ::
    "(string \<Rightarrow> string) \<Rightarrow> (int \<Rightarrow> string option) \<Rightarrow> dtime \<Rightarrow> string \<Rightarrow> string list \<Rightarrow> pdict \<Rightarrow> envelope" where
  "account_envelope H1 instant at_time username group_cns p =
     (let i = ldap_id H1 ''acct'' username
      in ldap_envelope ''directory_account'' i at_time (''ldap:user:'' @ username)
        [(''account_id'', V (PStr i)), (''username'', V (PStr username)),
         (''display_name'', V (por (dget p ''displayName'') (dget p ''cn''))), (''email'', V (dget p ''mail'')),
         (''department'', V (dget p ''department'')),
         (''status'', V (PStr (uac_to_status (py_int (dget p ''userAccountControl''))))),
         (''is_privileged'', V (PBool (list_ex privileged group_cns))),
         (''last_login_at'', text_val (ad_timestamp instant (dget p ''lastLogon''))),
         (''password_last_set'', text_val (ad_timestamp instant (dget p ''pwdLastSet''))),
         (''created_at'', V (iso_timestamp (dget p ''whenCreated'')))] p)"

definition ldap_account :: "(string \<Rightarrow> string) \<Rightarrow> (int \<Rightarrow> string option) \<Rightarrow> collector_record \<Rightarrow> envelope gen" where
  "ldap_account H1 instant r =
     (let p = cr_payload r; t = cr_observed_at r
      in case foldr por [dget p ''sAMAccountName'', dget p ''cn''] (PStr (sor (or_else (cr_external_id r) []) ''unknown'')) of
           PStr username \<Rightarrow>
             (case dn_values (dget p ''memberOf'') of
                None \<Rightarrow> ([], Some ''TypeError'')
              | Some dns \<Rightarrow>
                  (let group_cns = map cn_from_dn dns; i = ldap_id H1 ''acct'' username
                   in ([account_envelope H1 instant t username group_cns p]
                       @ map (membership_envelope H1 t username i) group_cns
                       @ map (privilege_envelope H1 t username i) (filter privileged group_cns), None)))
         | _ \<Rightarrow> ([], Some NO_GET))"

definition group_sync_envelope :: "(string \<Rightarrow> string) \<Rightarrow> dtime \<Rightarrow> string \<Rightarrow> string \<Rightarrow> envelope" where
  "group_sync_envelope H1 at_time group_cn member_cn =
     (let i = ldap_id H1 ''ao'' (group_cn @ ''|'' @ member_cn)
      in ldap_envelope ''account_observation'' i at_time (''ldap:group_member:'' @ group_cn @ '':'' @ member_cn)
        [(''observation_id'', V (PStr i)), (''account_id'', V (PStr (ldap_id H1 ''acct'' member_cn))),
         (''observation_type'', V (PStr ''group_sync'')), (''source'', V (PStr ''ldap'')),
         (''detail'', V (PStr (''Member of '' @ group_cn)))] [])"

definition ldap_group :: "(string \<Rightarrow> string) \<Rightarrow> collector_record \<Rightarrow> envelope gen" where
  "ldap_group H1 r =
     (let p = cr_payload r; group_cn = por_text [dget p ''cn''] (sor (or_else (cr_external_id r) []) ''unknown'')
      in case dn_values (dget p ''member'') of
           None \<Rightarrow> ([], Some ''TypeError'')
         | Some dns \<Rightarrow> (map (\<lambda>dn. group_sync_envelope H1 (cr_observed_at r) group_cn (cn_from_dn dn)) dns, None))"

definition ldap_normalize :: "(string \<Rightarrow> string) \<Rightarrow> (int \<Rightarrow> string option) \<Rightarrow> collector_record \<Rightarrow> envelope gen" where
  "ldap_normalize H1 instant r =
     (if cr_record_type r = ''directory_account'' then ldap_account H1 instant r
      else if cr_record_type r = ''group'' then ldap_group H1 r
      else ([], Some (''ValueError: Unsupported LDAP record_type: '' @ cr_record_type r)))"

section \<open>Records for the ingestion\<close>

definition ldap_takes :: "collector_record \<Rightarrow> bool" where
  "ldap_takes r \<longleftrightarrow> dt_aware (cr_observed_at r)
     \<and> (cr_record_type r = ''directory_account'' \<and> (\<exists>u. foldr por [dget (cr_payload r) ''sAMAccountName'', dget (cr_payload r) ''cn'']
            (PStr (sor (or_else (cr_external_id r) []) ''unknown'')) = PStr u) \<and> dn_values (dget (cr_payload r) ''memberOf'') \<noteq> None
        \<or> cr_record_type r = ''group'' \<and> dn_values (dget (cr_payload r) ''member'') \<noteq> None)"

lemmas ldap_envelopes =
  ldap_envelope_def membership_envelope_def privilege_envelope_def account_envelope_def group_sync_envelope_def

lemma ldap_envelope_fine: "envelope_fine ''ldap'' (ldap_envelope k i t ref n raw) \<longleftrightarrow> k \<in> set MAPPED_TYPES \<and> dt_aware t"
  by (simp add: envelope_fine_def ldap_envelope_def)

lemma ldap_kinds_fine:
  "dt_aware t \<Longrightarrow> envelope_fine ''ldap'' (account_envelope H1 instant t u gs p)"
  "dt_aware t \<Longrightarrow> envelope_fine ''ldap'' (membership_envelope H1 t u i g)"
  "dt_aware t \<Longrightarrow> envelope_fine ''ldap'' (privilege_envelope H1 t u i g)"
  "dt_aware t \<Longrightarrow> envelope_fine ''ldap'' (group_sync_envelope H1 t c m)"
  by (simp_all add: account_envelope_def membership_envelope_def privilege_envelope_def group_sync_envelope_def Let_def
    ldap_envelope_fine MAPPED_TYPES_def)

interpretation ldap: collecting "ldap_normalize H1 instant" "''ldap''" ldap_takes for H1 instant
  by unfold_locales
    (auto simp: ldap_takes_def ldap_normalize_def ldap_account_def ldap_group_def ldap_kinds_fine Let_def list_all_iff)

section \<open>Accounts and their privileges\<close>

text \<open>An account of the directory is marked as privileged exactly when its envelopes bind it to a privilege.\<close>

lemma privileged_iff_bound:
  assumes "ldap_account H1 instant r = (es, None)" "e \<in> set es" "ev_entity_type e = ''directory_account''"
  shows "nbool (ev_normalized e) ''is_privileged'' \<longleftrightarrow>
    (\<exists>b \<in> set es. ev_entity_type b = ''privilege_binding'' \<and> nget (ev_normalized b) ''account_id'' = nget (ev_normalized e) ''account_id'')"
proof -
  obtain u t dns where es: "es = [account_envelope H1 instant t u (map cn_from_dn dns) (cr_payload r)]
      @ map (membership_envelope H1 t u (ldap_id H1 ''acct'' u)) (map cn_from_dn dns)
      @ map (privilege_envelope H1 t u (ldap_id H1 ''acct'' u)) (filter privileged (map cn_from_dn dns))"
    using assms(1) by (auto simp: ldap_account_def Let_def split: pv.splits option.splits)
  have kinds: "ev_entity_type (account_envelope H1 instant t u gs p) = ''directory_account''"
    "ev_entity_type (membership_envelope H1 t u i g) = ''group_membership''"
    "ev_entity_type (privilege_envelope H1 t u i g) = ''privilege_binding''" for gs p i g
    by (simp_all add: ldap_envelopes Let_def)
  have e: "e = account_envelope H1 instant t u (map cn_from_dn dns) (cr_payload r)"
    using assms(2,3) by (auto simp: es kinds)
  have bound: "b \<in> set es \<and> ev_entity_type b = ''privilege_binding''
      \<longleftrightarrow> (\<exists>g \<in> set (map cn_from_dn dns). privileged g \<and> b = privilege_envelope H1 t u (ldap_id H1 ''acct'' u) g)" for b
    by (auto simp: es kinds)
  have "nget (ev_normalized (privilege_envelope H1 t u i g)) ''account_id'' = V (PStr i)" for i g
    by (simp add: ldap_envelopes Let_def nget_def)
  moreover have "nget (ev_normalized e) ''account_id'' = V (PStr (ldap_id H1 ''acct'' u))"
    "nbool (ev_normalized e) ''is_privileged'' = list_ex privileged (map cn_from_dn dns)"
    by (simp_all add: e ldap_envelopes Let_def nget_def nbool_def)
  ultimately show ?thesis using bound by (simp only: list_ex_iff) blast
qed

section \<open>What the identifiers miss\<close>

text \<open>A group refers to its members by their common names, an account is kept by its login: the observation of a
  member refers to an account that is not there.\<close>

definition kim :: ldap_entry where
  "kim = (''CN=Kim Minsu,DC=x'', [(''sAMAccountName'', PStr ''mkim''), (''cn'', PStr ''Kim Minsu'')])"

definition admins :: ldap_entry where
  "admins = (''CN=Domain Admins,DC=x'', [(''cn'', PStr ''Domain Admins''), (''member'', PStr ''CN=Kim Minsu,DC=x'')])"

definition synced_directory :: repo where
  "synced_directory =
     (case ldap_collect (Inr [kim]) (Inr [admins]) \<lparr>dt_us = 0, dt_off = Some 0\<rparr> of (rs, exc) \<Rightarrow>
        in_repo (ingest_collector rev repo_save \<lparr>co_records = (map (\<lambda>r. (r, ldap_normalize rev (\<lambda>t. None) r)) rs, exc)\<rparr>
          (new_mapper []) empty_repo))"

lemma member_of_no_account:
  "map (da_id \<circ> snd) (re_accounts synced_directory) = [''ldap-acct-mikm'']"
  "map (ao_account_id \<circ> snd) (re_accobs synced_directory) = [''ldap-acct-usniM miK'']"
  by code_simp+

text \<open>A comma inside a name is taken for the end of the name, so that members with one family name become one.\<close>

lemma comma_cuts_name:
  "map cn_from_dn [''CN=Kim'' @ [CHR 0x5C] @ '', Minsu,OU=a,DC=x'', ''CN=Kim'' @ [CHR 0x5C] @ '', Jiwoo,OU=a,DC=x'']
     = [''Kim'' @ [CHR 0x5C], ''Kim'' @ [CHR 0x5C]]"
  by code_simp

end
