(* ===== verification/Pipelines.thy ===== *)
theory Pipelines
  imports Fleet_Api Ldap_Dir
begin

text \<open>
  The collectors of \<open>Fleet_Api\<close> and \<open>Scanners\<close> together with the ingestion, the mapper and the repository: any
  sequence of collections of any of the sources, from any answers of the servers and any reports.
\<close>

section \<open>Runs\<close>

datatype scan =
    FleetScan api fleet_config fleet "pdict \<Rightarrow> rat option"
  | TrivyScan trivy
  | WazuhScan "(string + pv) list"
  | ReviewScan code_review

primrec scan_records :: "scan \<Rightarrow> dtime \<Rightarrow> collector_record gen" where
  "scan_records (FleetScan api c st score) now =
     (case fleet_collect api c now st of
        Some (Inr rs, warned, st') \<Rightarrow> (rs, None) | Some (Inl e, warned, st') \<Rightarrow> ([], Some e) | None \<Rightarrow> ([], None))"
| "scan_records (TrivyScan c) now = trivy_collect c now"
| "scan_records (WazuhScan lines) now = wazuh_collect now lines"
| "scan_records (ReviewScan c) now = code_review_collect c now"

primrec scan_normalize :: "(string \<Rightarrow> string) \<Rightarrow> scan \<Rightarrow> collector_record \<Rightarrow> envelope gen" where
  "scan_normalize H1 (FleetScan api c st score) = (\<lambda>r. fst (fleet_normalize H1 score r st))"
| "scan_normalize H1 (TrivyScan c) = trivy_normalize H1"
| "scan_normalize H1 (WazuhScan lines) = wazuh_normalize H1"
| "scan_normalize H1 (ReviewScan c) = code_review_normalize H1 c"

definition scan_collector :: "(string \<Rightarrow> string) \<Rightarrow> scan \<Rightarrow> dtime \<Rightarrow> collector" where
  "scan_collector H1 sc now =
     \<lparr>co_records = (map (\<lambda>r. (r, scan_normalize H1 sc r)) (fst (scan_records sc now)), snd (scan_records sc now))\<rparr>"

text \<open>The exceptions and the reports of the runs of a sequence of collections.\<close>

fun scan_runs ::
    "(string \<Rightarrow> string) \<Rightarrow> (scan \<times> dtime) list \<Rightarrow> mapper \<Rightarrow> repo \<Rightarrow> (string option \<times> int) list \<times> repo" where
  "scan_runs H1 [] m r = ([], r)"
| "scan_runs H1 ((sc, now) # scs) m r =
     (let st = ingest_collector H1 repo_save (scan_collector H1 sc now) m r;
          (others, r') = scan_runs H1 scs (in_mapper st) (in_repo st)
      in ((in_exc st, rp_records (in_report st)) # others, r'))"

section \<open>No record stops the ingestion\<close>

text \<open>The envelopes that the records of a collection, and of a sequence of collections, give.\<close>

definition scan_envelopes :: "(string \<Rightarrow> string) \<Rightarrow> scan \<Rightarrow> dtime \<Rightarrow> envelope list" where
  "scan_envelopes H1 sc now = concat (map (\<lambda>r. fst (scan_normalize H1 sc r)) (fst (scan_records sc now)))"

definition scans_envelopes :: "(string \<Rightarrow> string) \<Rightarrow> (scan \<times> dtime) list \<Rightarrow> envelope list" where
  "scans_envelopes H1 scans = concat (map (\<lambda>(sc, now). scan_envelopes H1 sc now) scans)"

primrec scan_source :: "scan \<Rightarrow> string" where
  "scan_source (FleetScan api c st score) = ''fleet''"
| "scan_source (TrivyScan c) = ''trivy''"
| "scan_source (WazuhScan lines) = ''wazuh''"
| "scan_source (ReviewScan c) = ''code_review''"

definition scan_done :: "(string \<Rightarrow> string) \<Rightarrow> scan \<Rightarrow> dtime \<Rightarrow> mapper \<Rightarrow> repo \<Rightarrow> repo ingest \<Rightarrow> bool" where
  "scan_done H1 sc now m r st \<longleftrightarrow>
     in_exc st = snd (scan_records sc now) \<and> repo_aware (in_repo st)
     \<and> list_all (envelope_fine (scan_source sc)) (scan_envelopes H1 sc now)
     \<and> in_mapper st = mapper_after H1 (scan_envelopes H1 sc now) m
     \<and> repo_saves r (entities_of (map_envelopes H1 (scan_envelopes H1 sc now) m)) = Some (in_repo st)"

lemma scan_ingested:
  assumes "repo_aware r" "dt_aware now"
  shows "scan_done H1 sc now m r (ingest_collector H1 repo_save (scan_collector H1 sc now) m r)"
proof (cases sc)
  case (FleetScan api c st score)
  have fine: "list_all fleet_record (fst (scan_records sc now))"
    using fleet_collected_fine [OF _ assms(2), of api c st] by (auto simp: FleetScan split: option.split sum.split)
  show ?thesis using fleet.collected_ingested [OF assms(1) fine refl] fleet.envelopes_fine [OF fine]
    by (simp add: scan_done_def FleetScan scan_collector_def scan_envelopes_def fleet.envelopes_of_def)
next
  case (TrivyScan c)
  note kind = trivy_collect_kind [OF assms(2)]
  show ?thesis using trivy.collected_ingested [OF assms(1) kind refl] trivy.envelopes_fine [OF kind]
    by (simp add: TrivyScan scan_done_def scan_collector_def scan_envelopes_def trivy.envelopes_of_def)
next
  case (WazuhScan lines)
  note kind = wazuh_collect_kind [OF assms(2)]
  show ?thesis using wazuh.collected_ingested [OF assms(1) kind refl] wazuh.envelopes_fine [OF kind]
    by (simp add: WazuhScan scan_done_def scan_collector_def scan_envelopes_def wazuh.envelopes_of_def)
next
  case (ReviewScan c)
  note kind = code_review_kind [OF assms(2)]
  show ?thesis using code_review.collected_ingested [OF assms(1) kind refl] code_review.envelopes_fine [OF kind]
    by (simp add: ReviewScan scan_done_def scan_collector_def scan_envelopes_def code_review.envelopes_of_def)
qed

text \<open>C33: In any sequence of collections from Fleet, Trivy, Wazuh and the code review, no record stops the ingestion: a
  run raises only what its collection raised, and at the end the repository holds exactly what it held before,
  with every entity that the mapper makes of every envelope of every collected record saved into it, in their order.
  The answers and the reports are values of the model: their numbers are whole and their texts have a UTF-8 form.\<close>

theorem scans_stored:
  assumes "repo_aware r" "list_all (\<lambda>p. dt_aware (snd p)) scans"
  shows "map fst (fst (scan_runs H1 scans m r)) = map (\<lambda>(sc, now). snd (scan_records sc now)) scans
    \<and> repo_saves r (entities_of (map_envelopes H1 (scans_envelopes H1 scans) m)) = Some (snd (scan_runs H1 scans m r))"
  using assms
proof (induction scans arbitrary: m r)
  case (Cons p scans)
  obtain sc now where p: "p = (sc, now)" by (cases p)
  have now: "dt_aware now" using Cons.prems(2) by (simp add: p)
  define st where "st = ingest_collector H1 repo_save (scan_collector H1 sc now) m r"
  have st: "scan_done H1 sc now m r st" using scan_ingested [OF Cons.prems(1) now] by (simp add: st_def)
  have runs: "scan_runs H1 (p # scans) m r = ((in_exc st, rp_records (in_report st))
      # fst (scan_runs H1 scans (in_mapper st) (in_repo st)), snd (scan_runs H1 scans (in_mapper st) (in_repo st)))"
    by (simp add: p st_def Let_def split: prod.split)
  have envs: "scans_envelopes H1 (p # scans) = scan_envelopes H1 sc now @ scans_envelopes H1 scans"
    by (simp add: scans_envelopes_def p)
  have fine: "list_all (envelope_fine (scan_source sc)) (scan_envelopes H1 sc now)" "repo_aware (in_repo st)"
    using st by (simp_all add: scan_done_def)
  show ?case
    using Cons.IH [OF fine(2), of "in_mapper st"] Cons.prems(2) st
    unfolding runs envs map_envelopes_append [OF fine(1)]
    by (simp add: p scan_done_def entities_of_def repo_saves_append)
qed (simp add: entities_of_def scans_envelopes_def)

definition scan_demo :: "(scan \<times> dtime) list" where
  "scan_demo =
     [(TrivyScan (new_trivy [(''r.json'', Inl ''JSONDecodeError'')] [undated_report] [] ''web1''), \<lparr>dt_us = 0, dt_off = Some 0\<rparr>),
      (FleetScan paged_demo (new_fleet_config 10 2 False False) \<lparr>fl_shared = [], fl_accounts = [], fl_no_cvss = 0\<rparr> (\<lambda>v. None),
        \<lparr>dt_us = 0, dt_off = Some 0\<rparr>)]"

lemma scans_stored_witness:
  "map fst (fst (scan_runs (\<lambda>s. s) scan_demo (new_mapper []) empty_repo)) = [Some ''JSONDecodeError'', None]
   \<and> repo_saves empty_repo (entities_of (map_envelopes (\<lambda>s. s) (scans_envelopes (\<lambda>s. s) scan_demo) (new_mapper [])))
     = Some (snd (scan_runs (\<lambda>s. s) scan_demo (new_mapper []) empty_repo))"
proof -
  have "repo_aware empty_repo" by (simp add: repo_aware_def empty_repo_def)
  moreover have "list_all (\<lambda>p. dt_aware (snd p)) scan_demo" by (simp add: scan_demo_def dt_aware_def)
  moreover have "map (\<lambda>(sc, now). snd (scan_records sc now)) scan_demo = [Some ''JSONDecodeError'', None]" by code_simp
  ultimately show ?thesis using scans_stored [of empty_repo scan_demo "\<lambda>s. s" "new_mapper []"] by simp
qed

end
