(* ===== verification/Oidc.thy ===== *)
theory Oidc
  imports Account_Gov
begin

text \<open>
  The check of GitHub's identity tokens (\<^verbatim>\<open>services/oidc_verify.py\<close>) and its use by the routes that take scan
  results (\<^verbatim>\<open>_verify_oidc_header\<close>, \<^verbatim>\<open>_is_replayed\<close> and \<^verbatim>\<open>_require_ingest_auth\<close> of \<^verbatim>\<open>api/routes/sources.py\<close>).
  Bytes are characters.  The decoding of base64 is that of \<^verbatim>\<open>binascii\<close>, which skips characters outside its
  alphabet; \<^verbatim>\<open>json.loads\<close>, the raw SHA-256 digest and the transport of the key set are parameters.
\<close>

section \<open>Bytes\<close>

definition b64_value :: "char \<Rightarrow> int option" where
  "b64_value c =
     (if is_upper c then Some (of_char c - 65)
      else if is_lower c then Some (of_char c - 97 + 26)
      else if is_digit c then Some (of_char c - 48 + 52)
      else if c = CHR ''-'' \<or> c = CHR ''+'' then Some 62
      else if c = CHR ''_'' \<or> c = CHR ''/'' then Some 63
      else None)"

text \<open>The decoder: the place in a group of four, the bits left over, the padding seen.\<close>

fun a2b :: "nat \<Rightarrow> int \<Rightarrow> nat \<Rightarrow> string \<Rightarrow> string option" where
  "a2b q l p [] = (if q = 0 then Some [] else None)"
| "a2b q l p (c # cs) =
     (if c = CHR ''='' then
        (if 2 \<le> q then (if 4 \<le> q + p + 1 then Some [] else a2b q l (p + 1) cs) else a2b q l p cs)
      else case b64_value c of
          None \<Rightarrow> a2b q l p cs
        | Some v \<Rightarrow>
            if q = 0 then a2b 1 v 0 cs
            else if q = 1 then map_option (Cons (char_of (4 * l + v div 16))) (a2b 2 (v mod 16) 0 cs)
            else if q = 2 then map_option (Cons (char_of (16 * l + v div 4))) (a2b 3 (v mod 4) 0 cs)
            else map_option (Cons (char_of (64 * l + v))) (a2b 0 0 0 cs))"

definition is_ascii :: "string \<Rightarrow> bool" where
  "is_ascii s = list_all (\<lambda>c. (of_char c :: int) < 128) s"

definition b64url_decode :: "string \<Rightarrow> string option" where
  "b64url_decode segment =
     (let s = segment @ replicate (nat ((- int (length segment)) mod 4)) CHR ''=''
      in if is_ascii s then a2b 0 0 0 s else None)"

definition from_bytes :: "string \<Rightarrow> int" where
  "from_bytes s = foldl (\<lambda>n c. 256 * n + of_char c) 0 s"

primrec to_bytes :: "nat \<Rightarrow> int \<Rightarrow> string" where
  "to_bytes 0 n = []"
| "to_bytes (Suc k) n = to_bytes k (n div 256) @ [char_of (n mod 256)]"

function bit_length :: "int \<Rightarrow> nat" where
  "bit_length n = (if n \<le> 0 then 0 else Suc (bit_length (n div 2)))"
  by auto
termination by (relation "measure nat") auto

declare bit_length.simps [simp del]

definition b64url_int :: "string \<Rightarrow> int option" where
  "b64url_int v = map_option from_bytes (b64url_decode v)"

section \<open>Signatures\<close>

definition SHA256_ASN1 :: string where
  "SHA256_ASN1 = map char_of ([48, 49, 48, 13, 6, 9, 96, 134, 72, 1, 101, 3, 4, 2, 1, 5, 0, 4, 32] :: int list)"

text \<open>The padded digest that the power of the signature has to be.\<close>

definition padded :: "nat \<Rightarrow> string \<Rightarrow> string" where
  "padded k t = [CHR 0x00, CHR 0x01] @ replicate (k - length t - 3) CHR 0xFF @ [CHR 0x00] @ t"

definition rs256_verify :: "(string \<Rightarrow> string) \<Rightarrow> string \<Rightarrow> string \<Rightarrow> int \<Rightarrow> int \<Rightarrow> bool" where
  "rs256_verify D signing_input signature n e =
     (let k = (bit_length n + 7) div 8; sig = from_bytes signature; t = SHA256_ASN1 @ D signing_input
      in if length signature \<noteq> k then False
         else if n \<le> sig then False
         else if int k - int (length t) - 3 < 8 then False
         else to_bytes k (sig ^ nat e mod n) = padded k t)"

section \<open>Tokens\<close>

definition GITHUB_ISSUER :: string where
  "GITHUB_ISSUER = ''https://token.actions.githubusercontent.com''"

definition GITHUB_OIDC_CONFIG :: string where
  "GITHUB_OIDC_CONFIG = GITHUB_ISSUER @ ''/.well-known/openid-configuration''"

text \<open>\<^verbatim>\<open>OidcError\<close> with its text, and any other exception.\<close>

datatype oidc_failure = OidcError string | Unexpected

text \<open>The settings of a check: the audience, the two lists of what is allowed, the tolerance of the clock.\<close>

record oidc_policy =
  op_audience :: string
  op_repos :: "string list option"
  op_owner :: "string option"
  op_leeway :: int

fun find_key :: "pv \<Rightarrow> pv list \<Rightarrow> oidc_failure + pdict option" where
  "find_key kid [] = Inr None"
| "find_key kid (k # ks) =
     (case k of
        PDict d \<Rightarrow> if dget d ''kid'' = kid \<and> dget d ''kty'' = PStr ''RSA'' then Inr (Some d) else find_key kid ks
      | _ \<Rightarrow> Inl Unexpected)"

text \<open>\<^verbatim>\<open>isinstance(v, (int, float))\<close> and the number; a truth value is a number.\<close>

fun number_of :: "pv \<Rightarrow> int option" where
  "number_of (PInt i) = Some i"
| "number_of (PBool b) = Some (if b then 1 else 0)"
| "number_of _ = None"

fun text_of :: "pv \<Rightarrow> string option" where
  "text_of (PStr s) = Some s"
| "text_of _ = None"

definition audience_ok :: "string \<Rightarrow> pv \<Rightarrow> bool" where
  "audience_ok audience aud = (aud = PStr audience \<or> PStr audience \<in> set (as_list aud))"

definition check_claims :: "oidc_policy \<Rightarrow> int \<Rightarrow> pdict \<Rightarrow> oidc_failure option" where
  "check_claims p now claims =
     (let exp = number_of (dget claims ''exp''); nbf = number_of (dget claims ''nbf''); repo = dget claims ''repository''
      in if dget claims ''iss'' \<noteq> PStr GITHUB_ISSUER then Some (OidcError (''unexpected iss: '' @ pstr (dget claims ''iss'')))
         else if \<not> audience_ok (op_audience p) (dget claims ''aud'') then Some (OidcError ''audience mismatch'')
         else if (case exp of None \<Rightarrow> True | Some x \<Rightarrow> x + op_leeway p < now) then Some (OidcError ''token expired'')
         else if (case nbf of None \<Rightarrow> False | Some x \<Rightarrow> now + op_leeway p < x) then Some (OidcError ''token not yet valid'')
         else if op_repos p \<noteq> None \<and> (case repo of PList _ \<Rightarrow> True | PDict _ \<Rightarrow> True | _ \<Rightarrow> False) then Some Unexpected
         else if (case op_repos p of None \<Rightarrow> False | Some rs \<Rightarrow> text_of repo = None \<or> the (text_of repo) \<notin> set rs)
           then Some (OidcError (''repository not allowed: '' @ pstr repo))
         else case op_owner p of
             None \<Rightarrow> None
           | Some own \<Rightarrow>
               if own \<noteq> [] \<and> dget claims ''repository_owner'' \<noteq> PStr own
               then Some (OidcError (''repository_owner not allowed: '' @ pstr (dget claims ''repository_owner''))) else None)"

definition decode_json :: "(string \<Rightarrow> string + pv) \<Rightarrow> string \<Rightarrow> string + pv" where
  "decode_json loads segment = (case b64url_decode segment of None \<Rightarrow> Inl ''Incorrect padding'' | Some b \<Rightarrow> loads b)"

text \<open>The key as the pair of its numbers; \<open>None\<close> where \<^verbatim>\<open>key["n"]\<close> or its decoding raises.\<close>

definition key_numbers :: "pdict \<Rightarrow> (int \<times> int) option" where
  "key_numbers key =
     (case (text_of (dget key ''n''), text_of (dget key ''e'')) of
        (Some n, Some e) \<Rightarrow>
          (case (b64url_int n, b64url_int e) of (Some n, Some e) \<Rightarrow> Some (n, e) | _ \<Rightarrow> None)
      | _ \<Rightarrow> None)"

definition verify_github_oidc ::
    "(string \<Rightarrow> string) \<Rightarrow> (string \<Rightarrow> string + pv) \<Rightarrow> oidc_policy \<Rightarrow> string \<Rightarrow> pdict \<Rightarrow> int \<Rightarrow> oidc_failure + pdict" where
  "verify_github_oidc D loads p token jwks now =
     (case split_on CHR ''.'' token of
        [header_b64, payload_b64, sig_b64] \<Rightarrow>
          (case (decode_json loads header_b64, decode_json loads payload_b64, b64url_decode sig_b64) of
             (Inl e, _, _) \<Rightarrow> Inl (OidcError (''JWT decode failed: '' @ e))
           | (Inr _, Inl e, _) \<Rightarrow> Inl (OidcError (''JWT decode failed: '' @ e))
           | (Inr _, Inr _, None) \<Rightarrow> Inl (OidcError ''JWT decode failed: Incorrect padding'')
           | (Inr (PDict header), Inr claims, Some signature) \<Rightarrow>
               if dget header ''alg'' \<noteq> PStr ''RS256'' then Inl (OidcError (''unsupported alg: '' @ pstr (dget header ''alg'')))
               else (case (case py_list (por (dget jwks ''keys'') (PList [])) of
                     None \<Rightarrow> Inl Unexpected | Some ks \<Rightarrow> find_key (dget header ''kid'') ks) of
                   Inl e \<Rightarrow> Inl e
                 | Inr None \<Rightarrow> Inl (OidcError (''no JWKS key for kid='' @ pstr (dget header ''kid'')))
                 | Inr (Some key) \<Rightarrow>
                     (case key_numbers key of
                        None \<Rightarrow> Inl Unexpected
                      | Some (n, e) \<Rightarrow>
                          if \<not> rs256_verify D (header_b64 @ ''.'' @ payload_b64) signature n e
                          then Inl (OidcError ''signature verification failed'')
                          else (case claims of
                              PDict c \<Rightarrow> (case check_claims p now c of None \<Rightarrow> Inr c | Some f \<Rightarrow> Inl f)
                            | _ \<Rightarrow> Inl Unexpected)))
           | _ \<Rightarrow> Inl Unexpected)
      | _ \<Rightarrow> Inl (OidcError ''malformed JWT (segments != 3)''))"

section \<open>The key set\<close>

definition fetch_github_jwks ::
    "(string \<Rightarrow> string + pv) \<Rightarrow> (string \<Rightarrow> string option) \<Rightarrow> string \<Rightarrow> oidc_failure + pv" where
  "fetch_github_jwks loads fetch config_url =
     (let get_json = (\<lambda>url. case fetch url of None \<Rightarrow> None
            | Some b \<Rightarrow> (case loads b of Inl e \<Rightarrow> None | Inr v \<Rightarrow> Some v))
      in case get_json config_url of
           Some (PDict config) \<Rightarrow>
             if \<not> truthy (dget config ''jwks_uri'') then Inl (OidcError ''no jwks_uri in OIDC config'')
             else (case text_of (dget config ''jwks_uri'') of
                 None \<Rightarrow> Inl Unexpected
               | Some uri \<Rightarrow> (case get_json uri of None \<Rightarrow> Inl Unexpected | Some v \<Rightarrow> Inr v))
         | _ \<Rightarrow> Inl Unexpected)"

text \<open>The cache is emptied before the request goes out.  An answer that is not an object is taken as refused.\<close>

definition refresh_jwks ::
    "(string \<Rightarrow> string + pv) \<Rightarrow> (string \<Rightarrow> string option) \<Rightarrow> oidc_failure option \<times> pdict" where
  "refresh_jwks loads fetch =
     (case fetch_github_jwks loads fetch GITHUB_OIDC_CONFIG of
        Inl f \<Rightarrow> (Some f, [])
      | Inr (PDict d) \<Rightarrow> (None, dmerge [] d)
      | Inr _ \<Rightarrow> (Some Unexpected, []))"

section \<open>Requests of the ingestion\<close>

text \<open>The answers of a route that takes results: refused (401), a bad body (400), no backend (503), an exception
  that nobody catches (500).\<close>

datatype push_error = Unidentified | BadBody | NoBackend | Broken

definition refusal_of :: "oidc_failure \<Rightarrow> push_error" where
  "refusal_of f = (case f of OidcError m \<Rightarrow> Unidentified | Unexpected \<Rightarrow> NoBackend)"

text \<open>The primitives that the check takes from outside: the digest, the JSON reader, the two requests for the key
  set that one call may send.\<close>

record oidc_world =
  ow_digest :: "string \<Rightarrow> string"
  ow_loads :: "string \<Rightarrow> string + pv"
  ow_fetch :: "string \<Rightarrow> string option"
  ow_refetch :: "string \<Rightarrow> string option"

definition oidc_policy_of :: "string dict \<Rightarrow> oidc_policy" where
  "oidc_policy_of env =
     (let repos = filter (\<lambda>r. r \<noteq> []) (map strip (split_on CHR '','' (strip (env_get env ''MORI_OIDC_ALLOWED_REPOS'' []))));
          own = strip (env_get env ''MORI_OIDC_ALLOWED_OWNER'' [])
      in \<lparr>op_audience = sor (strip (env_get env ''MORI_OIDC_AUDIENCE'' ''mori-ingest'')) ''mori-ingest'',
          op_repos = (if repos = [] then None else Some repos), op_owner = (if own = [] then None else Some own),
          op_leeway = 60\<rparr>)"

definition run_check :: "oidc_world \<Rightarrow> string dict \<Rightarrow> string \<Rightarrow> int \<Rightarrow> pdict \<Rightarrow> oidc_failure + pdict" where
  "run_check w env token now jwks =
     verify_github_oidc (ow_digest w) (ow_loads w) (oidc_policy_of env) token jwks now"

definition answer_check :: "oidc_failure + pdict \<Rightarrow> push_error + pdict option" where
  "answer_check r = (case r of Inl f \<Rightarrow> Inl (refusal_of f) | Inr c \<Rightarrow> Inr (Some c))"

definition verify_oidc_header ::
    "oidc_world \<Rightarrow> string dict \<Rightarrow> string \<Rightarrow> int \<Rightarrow> pdict \<Rightarrow> (push_error + pdict option) \<times> pdict" where
  "verify_oidc_header w env header now cache =
     (let token = strip header
      in if token = [] then (Inr None, cache)
         else let (failed, cache) =
                    (if truthy (dget cache ''keys'') then (None, cache) else refresh_jwks (ow_loads w) (ow_fetch w))
              in case failed of
                   Some f \<Rightarrow> (Inl (refusal_of f), cache)
                 | None \<Rightarrow>
                     (let r = run_check w env token now cache
                      in case r of
                           Inl (OidcError m) \<Rightarrow>
                             if contains ''no JWKS key'' m
                             then (case refresh_jwks (ow_loads w) (ow_refetch w) of
                                 (Some f, cache) \<Rightarrow> (Inl (refusal_of f), cache)
                               | (None, cache) \<Rightarrow> (answer_check (run_check w env token now cache), cache))
                             else (answer_check r, cache)
                         | _ \<Rightarrow> (answer_check r, cache)))"

text \<open>\<^verbatim>\<open>_require_ingest_auth\<close>: the token of the environment, or a session.\<close>

definition require_ingest_auth :: "string dict \<Rightarrow> push_request \<Rightarrow> push_error option" where
  "require_ingest_auth env pu =
     (let required = strip (env_get env ''MORI_INGEST_TOKEN'' [])
      in if required \<noteq> [] then (if provided_token pu \<noteq> required then Some Unidentified else None)
         else if pu_user pu = [] then Some Unidentified else None)"

section \<open>Replays\<close>

definition replay_window :: "string dict \<Rightarrow> int" where
  "replay_window env =
     (case env_int env ''MORI_INGEST_REPLAY_WINDOW'' 86400 of None \<Rightarrow> 86400 | Some v \<Rightarrow> max 1 v)"

definition token_id :: "pdict \<Rightarrow> string" where
  "token_id claims = strip (pstr (por (dget claims ''jti'') (PStr [])))"

text \<open>The identifiers seen, each with the time of its use in microseconds.\<close>

definition is_replayed :: "string dict \<Rightarrow> int \<Rightarrow> pdict option \<Rightarrow> int dict \<Rightarrow> bool \<times> int dict" where
  "is_replayed env now claims seen =
     (case claims of
        None \<Rightarrow> (False, seen)
      | Some c \<Rightarrow>
          if c = [] \<or> token_id c = [] then (False, seen)
          else let window = replay_window env * US;
                   seen = filter (\<lambda>kt. \<not> window < now - snd kt) seen
               in if (case map_of seen (token_id c) of None \<Rightarrow> False | Some t \<Rightarrow> now - t < window) then (True, seen)
                  else (False, dset seen (token_id c) now))"

section \<open>One signature\<close>

lemma length_to_bytes [simp]: "length (to_bytes k n) = k"
  by (induction k arbitrary: n) auto

lemma from_bytes_snoc [simp]: "from_bytes (s @ [c]) = 256 * from_bytes s + of_char c"
  by (simp add: from_bytes_def)

lemma from_bytes_Nil [simp]: "from_bytes [] = 0"
  by (simp add: from_bytes_def)

lemma byte_bounds [simp]: "0 \<le> (of_char c :: int)" "(of_char c :: int) < 256"
proof -
  have c: "(of_char c :: int) = of_char c mod 256" by simp
  show "0 \<le> (of_char c :: int)" using pos_mod_sign [of 256 "of_char c :: int"] c by linarith
  show "(of_char c :: int) < 256" using pos_mod_bound [of 256 "of_char c :: int"] c by linarith
qed

lemma from_bytes_nonneg [simp]: "0 \<le> from_bytes s"
  by (induction s rule: rev_induct) (simp_all add: add_nonneg_nonneg)

lemma from_to_bytes: "0 \<le> n \<Longrightarrow> n < 256 ^ k \<Longrightarrow> from_bytes (to_bytes k n) = n"
proof (induction k arbitrary: n)
  case (Suc k)
  have "n div 256 < 256 ^ k" using Suc.prems(2) by (simp add: div_less_iff_less_mult)
  moreover have "0 \<le> n div 256" using Suc.prems(1) by simp
  ultimately have "from_bytes (to_bytes k (n div 256)) = n div 256" by (rule Suc.IH [rotated])
  moreover have "(of_char (char_of (n mod 256) :: char) :: int) = n mod 256" by simp
  ultimately show ?case by simp
qed simp

lemma from_bytes_inj: "length s = length t \<Longrightarrow> from_bytes s = from_bytes t \<Longrightarrow> s = t"
proof (induction s arbitrary: t rule: rev_induct)
  case (snoc c s)
  obtain d u where t: "t = u @ [d]" using snoc.prems(1) by (cases t rule: rev_cases) auto
  have eq: "256 * from_bytes s + of_char c = 256 * from_bytes u + (of_char d :: int)" using snoc.prems(2) t by simp
  have "(of_char c :: int) = of_char d"
    using arg_cong [OF eq, of "\<lambda>x. x mod 256"] by (simp add: mod_pos_pos_trivial)
  moreover have "s = u" using snoc.IH [of u] snoc.prems(1) t eq \<open>of_char c = of_char d\<close> by simp
  ultimately show ?case using t by (simp add: of_char_eq_iff)
qed simp

lemma below_bit_length: "n < 2 ^ bit_length n"
proof (induction n rule: bit_length.induct)
  case (1 n)
  then show ?case by (subst bit_length.simps) auto
qed

lemma below_byte_length: "n < 256 ^ ((bit_length n + 7) div 8)"
proof -
  have "bit_length n \<le> 8 * ((bit_length n + 7) div 8)" by linarith
  then have "(2 :: int) ^ bit_length n \<le> 2 ^ (8 * ((bit_length n + 7) div 8))" by (rule power_increasing) simp
  also have "\<dots> = 256 ^ ((bit_length n + 7) div 8)" by (simp add: power_mult)
  finally show ?thesis using below_bit_length [of n] by linarith
qed

lemma rs256_power:
  assumes "rs256_verify D m s n e"
  shows "length s = (bit_length n + 7) div 8" "from_bytes s < n"
    "from_bytes s ^ nat e mod n = from_bytes (padded ((bit_length n + 7) div 8) (SHA256_ASN1 @ D m))"
proof -
  let ?k = "(bit_length n + 7) div 8"
  show l: "length s = ?k" "from_bytes s < n" using assms by (auto simp: rs256_verify_def Let_def split: if_splits)
  have "0 < n" using l(2) from_bytes_nonneg [of s] by linarith
  then have "0 \<le> from_bytes s ^ nat e mod n" "from_bytes s ^ nat e mod n < 256 ^ ?k"
    using less_trans [OF pos_mod_bound [of n "from_bytes s ^ nat e"] below_byte_length [of n]] by simp_all
  then have "from_bytes (to_bytes ?k (from_bytes s ^ nat e mod n)) = from_bytes s ^ nat e mod n" by (rule from_to_bytes)
  then show "from_bytes s ^ nat e mod n = from_bytes (padded ?k (SHA256_ASN1 @ D m))"
    using assms by (auto simp: rs256_verify_def Let_def split: if_splits)
qed

text \<open>When the public operation of a key is a permutation, as for every RSA key, a text has at most one signature
  that the check accepts: neither the padding nor the length leaves a second one to whoever does not have the key.\<close>

lemma rs256_signature_unique:
  assumes "inj_on (\<lambda>x. x ^ nat e mod n) {0..<n}"
    and "rs256_verify D m s n e" "rs256_verify D m s' n e"
  shows "s = s'"
proof (rule from_bytes_inj)
  show "length s = length s'" using rs256_power(1) assms(2,3) by metis
  have "from_bytes s ^ nat e mod n = from_bytes s' ^ nat e mod n" using rs256_power(3) assms(2,3) by metis
  then show "from_bytes s = from_bytes s'"
    by (rule inj_onD [OF assms(1)]) (use rs256_power(2) assms(2,3) in auto)
qed

section \<open>Accepted tokens\<close>

text \<open>What a token that passed has proved.\<close>

definition signed_by :: "oidc_world \<Rightarrow> pdict \<Rightarrow> string \<Rightarrow> pdict \<Rightarrow> bool" where
  "signed_by w jwks token claims =
     (case split_on CHR ''.'' token of
        [h, p, s] \<Rightarrow>
          (\<exists>key \<in> set (as_list (dget jwks ''keys'')). \<exists>n e sig.
             dget (as_dict key) ''kty'' = PStr ''RSA'' \<and> key_numbers (as_dict key) = Some (n, e)
             \<and> b64url_decode s = Some sig \<and> rs256_verify (ow_digest w) (h @ ''.'' @ p) sig n e
             \<and> decode_json (ow_loads w) p = Inr (PDict claims))
      | _ \<Rightarrow> False)"

lemma find_key_in: "find_key kid ks = Inr (Some d) \<Longrightarrow> PDict d \<in> set ks \<and> dget d ''kty'' = PStr ''RSA''"
  by (induction ks) (auto split: pv.splits if_splits)

lemma keys_in: "py_list (por v (PList [])) = Some ks \<Longrightarrow> PDict d \<in> set ks \<Longrightarrow> PDict d \<in> set (as_list v)"
  by (cases v) (auto simp: por_def split: if_splits)

lemma verified_signed:
  assumes "verify_github_oidc (ow_digest w) (ow_loads w) p token jwks now = Inr c"
  shows "signed_by w jwks token c \<and> check_claims p now c = None"
proof -
  obtain h pl s where t: "split_on CHR ''.'' token = [h, pl, s]"
    using assms by (auto simp: verify_github_oidc_def split: list.splits)
  obtain header sig where d: "decode_json (ow_loads w) h = Inr (PDict header)" "b64url_decode s = Some sig"
    and p: "\<exists>v. decode_json (ow_loads w) pl = Inr v"
    using assms unfolding verify_github_oidc_def t
    by (auto split: sum.splits option.splits pv.splits)
  show ?thesis
    using assms d p unfolding verify_github_oidc_def t signed_by_def
    by (auto split: sum.splits option.splits pv.splits if_splits dest!: find_key_in intro: keys_in
        intro!: bexI [where x = "PDict _"])
qed

text \<open>However the key set came about, a header that is taken was signed by a key of the set in the cache.\<close>

lemma header_signed:
  assumes "verify_oidc_header w env header now cache = (Inr (Some c), cache')"
  shows "strip header \<noteq> [] \<and> signed_by w cache' (strip header) c \<and> check_claims (oidc_policy_of env) now c = None"
proof -
  have run: "signed_by w jwks (strip header) c \<and> check_claims (oidc_policy_of env) now c = None"
    if "run_check w env (strip header) now jwks = Inr c" for jwks
    using that by (auto simp: run_check_def dest: verified_signed)
  have answer: "answer_check r = Inr (Some c) \<longleftrightarrow> r = Inr c" "answer_check r \<noteq> Inr None" for r
    by (auto simp: answer_check_def split: sum.splits)
  have "strip header \<noteq> [] \<and> run_check w env (strip header) now cache' = Inr c"
    using assms unfolding verify_oidc_header_def
    by (auto simp: Let_def answer split: if_splits prod.splits option.splits sum.splits oidc_failure.splits)
  then show ?thesis using run by blast
qed

text \<open>A token with a key identifier that nobody knows makes the check throw the key set away before it asks for a new
  one: when the second request fails the cache is empty, and the next good token finds no key until GitHub answers.\<close>

lemma unknown_key_empties_cache:
  assumes "run_check w env (strip header) now cache = Inl (OidcError m)" "contains ''no JWKS key'' m"
    and "strip header \<noteq> []" "truthy (dget cache ''keys'')" "ow_refetch w GITHUB_OIDC_CONFIG = None"
  shows "verify_oidc_header w env header now cache = (Inl NoBackend, [])"
  using assms
  by (simp add: verify_oidc_header_def Let_def refresh_jwks_def fetch_github_jwks_def refusal_of_def)

text \<open>Without the two lists the claims say nothing about the repository that MORI expects: a token that GitHub signed
  for any repository is as good as another.\<close>

lemma any_repository_by_default:
  assumes "map_of env ''MORI_OIDC_ALLOWED_REPOS'' = None" "map_of env ''MORI_OIDC_ALLOWED_OWNER'' = None"
  shows "check_claims (oidc_policy_of env) now (dset (dset c ''repository'' v) ''repository_owner'' u)
    = check_claims (oidc_policy_of env) now c"
  using assms by (simp add: check_claims_def oidc_policy_of_def env_get_def Let_def strip_def lstrip_def)

section \<open>One use of a token\<close>

text \<open>The requests that pass the check, with their times; the answers say which of them are processed.\<close>

fun replays :: "string dict \<Rightarrow> (int \<times> pdict) list \<Rightarrow> int dict \<Rightarrow> bool list" where
  "replays env [] seen = []"
| "replays env ((now, c) # rqs) seen =
     (let (again, seen) = is_replayed env now (Some c) seen in again # replays env rqs seen)"

lemma map_of_filter_snd:
  "dwf d \<Longrightarrow> map_of (filter (\<lambda>kt. P (snd kt)) d) k = (case map_of d k of Some t \<Rightarrow> if P t then Some t else None | None \<Rightarrow> None)"
  by (induction d) (auto split: option.splits simp: map_of_eq_None_iff)

text \<open>Whoever has used the identifier at a time not before \<open>t\<close> is refused until the window has passed since \<open>t\<close>.\<close>

definition used_since :: "string dict \<Rightarrow> int dict \<Rightarrow> string \<Rightarrow> int \<Rightarrow> int \<Rightarrow> bool" where
  "used_since env seen j t now =
     (now < t + replay_window env * US \<longrightarrow> (\<exists>u. map_of seen j = Some u \<and> t \<le> u \<and> u \<le> now))"

lemma replay_refused:
  assumes "dwf seen" "used_since env seen j t now0" "now0 \<le> now" "is_replayed env now (Some c) seen = (again, seen')"
    and "now < t + replay_window env * US"
  shows "dwf seen' \<and> used_since env seen' j t now \<and> (c \<noteq> [] \<longrightarrow> token_id c = j \<longrightarrow> j \<noteq> [] \<longrightarrow> again)"
proof -
  let ?W = "replay_window env * US"
  obtain u where u: "map_of seen j = Some u" "t \<le> u" "u \<le> now0" using assms by (auto simp: used_since_def)
  define kept where "kept = filter (\<lambda>kt. \<not> ?W < now - snd kt) seen"
  have k: "map_of kept j = Some u" "dwf kept"
    using u assms map_of_filter_snd [OF assms(1), of "\<lambda>x. \<not> ?W < now - x" j]
    by (auto simp: kept_def intro: distinct_map_filter)
  have "(again, seen') \<in> {(False, seen), (True, kept), (False, dset kept (token_id c) now)}"
    using assms(4) by (auto simp: is_replayed_def Let_def kept_def split: if_splits option.splits)
  then have "used_since env seen' j t now \<and> dwf seen'"
    using k u assms by (auto simp: used_since_def)
  moreover have "again" if "c \<noteq> []" "token_id c = j" "j \<noteq> []"
    using assms(4,5) that k u by (simp add: is_replayed_def Let_def kept_def [symmetric] split: if_splits)
  ultimately show ?thesis by blast
qed

lemma token_id_Nil: "token_id [] = []"
  by (simp add: token_id_def por_def strip_def lstrip_def)

lemma refused_later:
  assumes "dwf seen" "used_since env seen j t now0" "sorted (now0 # map fst rqs)" "k < length rqs"
    and "fst (rqs ! k) < t + replay_window env * US" "token_id (snd (rqs ! k)) = j" "j \<noteq> []"
  shows "replays env rqs seen ! k"
  using assms
proof (induction rqs arbitrary: seen now0 k)
  case (Cons p rqs)
  obtain now c where p: "p = (now, c)" by (cases p)
  obtain again seen' where r: "is_replayed env now (Some c) seen = (again, seen')" by (cases "is_replayed env now (Some c) seen")
  have "now \<le> fst ((p # rqs) ! k)" using Cons.prems(3,4) p by (cases k) auto
  then have "now < t + replay_window env * US" "now0 \<le> now" using Cons.prems(3,5) p by auto
  from replay_refused [OF Cons.prems(1,2) this(2) r this(1)]
  have s: "dwf seen'" "used_since env seen' j t now" "c \<noteq> [] \<Longrightarrow> token_id c = j \<Longrightarrow> again" using Cons.prems(7) by auto
  show ?case
  proof (cases k)
    case 0
    then have "again" using s(3) Cons.prems(6,7) p token_id_Nil by fastforce
    then show ?thesis using 0 p r by simp
  next
    case (Suc l)
    then have "replays env rqs seen' ! l" using Cons.IH [OF s(1,2), of l] Cons.prems p by simp
    then show ?thesis using Suc p r by simp
  qed
qed simp

lemma processed_is_used:
  assumes "is_replayed env now (Some c) seen = (False, seen')" "token_id c \<noteq> []" "dwf seen"
  shows "dwf seen' \<and> used_since env seen' (token_id c) now now"
  using assms token_id_Nil
  by (auto simp: is_replayed_def Let_def used_since_def distinct_map_filter split: if_splits option.splits)

lemma replay_keeps_dwf: "is_replayed env now (Some c) seen = (again, seen') \<Longrightarrow> dwf seen \<Longrightarrow> dwf seen'"
  by (auto simp: is_replayed_def Let_def distinct_map_filter split: if_splits option.splits)

lemma used_once_from:
  assumes "dwf seen" "sorted (map fst rqs)" "i < j" "j < length rqs" "token_id (snd (rqs ! i)) = token_id (snd (rqs ! j))"
    and "token_id (snd (rqs ! j)) \<noteq> []" "\<not> replays env rqs seen ! i" "\<not> replays env rqs seen ! j"
  shows "replay_window env * US \<le> fst (rqs ! j) - fst (rqs ! i)"
  using assms
proof (induction rqs arbitrary: seen i j)
  case (Cons p rqs)
  obtain now c where p: "p = (now, c)" by (cases p)
  obtain again seen' where r: "is_replayed env now (Some c) seen = (again, seen')" by (cases "is_replayed env now (Some c) seen")
  obtain l where j: "j = Suc l" using Cons.prems(3) by (cases j) auto
  show ?case
  proof (cases i)
    case 0
    have "\<not> again" using Cons.prems(7) 0 p r by simp
    then have s: "dwf seen'" "used_since env seen' (token_id c) now now"
      using processed_is_used [of env now c seen seen'] r Cons.prems(1,5,6) 0 p by auto
    have "\<not> fst (rqs ! l) < now + replay_window env * US"
      using refused_later [OF s, of rqs l] Cons.prems p r j 0 by auto
    then show ?thesis using 0 j p by simp
  next
    case (Suc i')
    then show ?thesis
      using Cons.IH [OF replay_keeps_dwf [OF r Cons.prems(1)], of i' l] Cons.prems p r j by simp
  qed
qed simp

text \<open>C34: In any sequence of requests with verified tokens, two that are both processed and carry the same
  identifier are at least the configured window apart: within the window a token is worth one scan.\<close>

theorem token_used_once:
  assumes "sorted (map fst rqs)" "i < j" "j < length rqs"
    and "token_id (snd (rqs ! i)) = token_id (snd (rqs ! j))" "token_id (snd (rqs ! j)) \<noteq> []"
    and "\<not> replays env rqs [] ! i" "\<not> replays env rqs [] ! j"
  shows "replay_window env * US \<le> fst (rqs ! j) - fst (rqs ! i)"
  by (rule used_once_from [OF _ assms]) simp

definition token_demo :: "(int \<times> pdict) list" where
  "token_demo = map (\<lambda>t. (t * US, [(''jti'', PStr ''run-7'')])) [0, 60, 86400, 90000]"

lemma token_used_once_witness:
  "replays [] token_demo [] = [False, True, False, True]
   \<and> replay_window [] * US \<le> fst (token_demo ! 2) - fst (token_demo ! 0)"
proof -
  have r: "replays [] token_demo [] = [False, True, False, True]" by code_simp
  have s: "sorted (map fst token_demo)" "token_id (snd (token_demo ! 0)) = token_id (snd (token_demo ! 2))"
    "token_id (snd (token_demo ! 2)) \<noteq> []" "length token_demo = 4"
    by code_simp+
  show ?thesis using token_used_once [OF s(1) _ _ s(2,3), of "[]"] r s(4) by simp
qed

definition sig_demo :: "string \<times> int" where
  "sig_demo = (padded 62 (SHA256_ASN1 @ replicate 32 CHR ''d''), 2 ^ 496 - 1)"

lemma bit_length_eq: "2 ^ k \<le> n \<Longrightarrow> n < 2 ^ Suc k \<Longrightarrow> bit_length n = Suc k"
proof (induction k arbitrary: n)
  case 0
  then have "n = 1" by simp
  then show ?case by (simp add: bit_length.simps)
next
  case (Suc k)
  have "0 < (2 :: int) ^ Suc k" by simp
  then have "0 < n" using Suc.prems(1) by linarith
  moreover have "2 ^ k \<le> n div 2" "n div 2 < 2 ^ Suc k" using Suc.prems by auto
  ultimately show ?case using Suc.IH by (subst bit_length.simps) simp
qed

lemma sig_demo_verified: "rs256_verify (\<lambda>t. replicate 32 CHR ''d'') m (fst sig_demo) (snd sig_demo) 1"
proof -
  have k: "bit_length (2 ^ 496 - 1) = 496" using bit_length_eq [of 495 "2 ^ 496 - 1"] by simp
  show ?thesis unfolding rs256_verify_def sig_demo_def fst_conv snd_conv k by code_simp
qed

lemma rs256_signature_unique_witness:
  "rs256_verify (\<lambda>t. replicate 32 CHR ''d'') ''h.p'' (fst sig_demo) (snd sig_demo) 1
   \<and> \<not> rs256_verify (\<lambda>t. replicate 32 CHR ''d'') ''h.p'' (CHR ''x'' # tl (fst sig_demo)) (snd sig_demo) 1"
proof
  show v: "rs256_verify (\<lambda>t. replicate 32 CHR ''d'') ''h.p'' (fst sig_demo) (snd sig_demo) 1"
    by (rule sig_demo_verified)
  have "inj_on (\<lambda>x. x ^ nat 1 mod snd sig_demo) {0..<snd sig_demo}"
    by (auto simp: inj_on_def)
  then show "\<not> rs256_verify (\<lambda>t. replicate 32 CHR ''d'') ''h.p'' (CHR ''x'' # tl (fst sig_demo)) (snd sig_demo) 1"
    using rs256_signature_unique [OF _ v, of "CHR ''x'' # tl (fst sig_demo)"]
    by (auto simp: sig_demo_def padded_def)
qed

end
