(* ===== verification/Regex.thy ===== *)
theory Regex
  imports Prelude
begin

text \<open>
  The part of Python's \<^verbatim>\<open>re\<close> that \<^verbatim>\<open>services/data_flow.py\<close> uses, as a backtracking matcher: a pattern takes a state
  (the text before it reversed, the text after it, the first group) to the list of its matches in the order in which
  the engine tries them.  Letters match regardless of case, as every pattern that needs it asks for; a byte above 127
  belongs to a letter.
\<close>

section \<open>Patterns\<close>

datatype rx =
    Eps
  | Chr "char \<Rightarrow> bool"
  | Seq rx rx
  | Alt rx rx
  | Rep bool rx
  | Boundary
  | Behind "string \<Rightarrow> bool"
  | Group rx

type_synonym rx_state = "string \<times> string \<times> string option"

definition word_char :: "char \<Rightarrow> bool" where
  "word_char c = (is_alnum c \<or> c = CHR ''_'')"

fun heads :: "(char \<Rightarrow> bool) \<Rightarrow> string \<Rightarrow> bool" where
  "heads P [] = False"
| "heads P (c # cs) = P c"

text \<open>Repetition: a pass that consumes nothing ends it.  The number bounds the passes.\<close>

fun rest_of :: "rx_state \<Rightarrow> string" where
  "rest_of (p, s, g) = s"

primrec repeated :: "bool \<Rightarrow> (rx_state \<Rightarrow> rx_state list) \<Rightarrow> nat \<Rightarrow> rx_state \<Rightarrow> rx_state list" where
  "repeated greedy f 0 st = [st]"
| "repeated greedy f (Suc n) st =
     (let again = concat (map (repeated greedy f n) (filter (\<lambda>t. length (rest_of t) < length (rest_of st)) (f st)))
      in if greedy then again @ [st] else st # again)"

primrec rx_matches :: "rx \<Rightarrow> rx_state \<Rightarrow> rx_state list" where
  "rx_matches Eps st = [st]"
| "rx_matches (Chr P) st =
     (case st of (p, [], g) \<Rightarrow> [] | (p, c # s, g) \<Rightarrow> if P c then [(c # p, s, g)] else [])"
| "rx_matches (Seq a b) st = concat (map (rx_matches b) (rx_matches a st))"
| "rx_matches (Alt a b) st = rx_matches a st @ rx_matches b st"
| "rx_matches (Rep greedy a) st = repeated greedy (rx_matches a) (length (rest_of st)) st"
| "rx_matches Boundary st = (case st of (p, s, g) \<Rightarrow> if heads word_char p \<noteq> heads word_char s then [st] else [])"
| "rx_matches (Behind P) st = (case st of (p, s, g) \<Rightarrow> if P p then [st] else [])"
| "rx_matches (Group a) st =
     (case st of (p, s, g) \<Rightarrow>
        map (\<lambda>(p', s', g'). (p', s', Some (rev (take (length p' - length p) p')))) (rx_matches a st))"

text \<open>\<^verbatim>\<open>pattern.search(text)\<close>: the whole match, the first group, and where to go on.\<close>

definition matched :: "string \<Rightarrow> rx_state \<Rightarrow> string" where
  "matched p st = rev (take (length (fst st) - length p) (fst st))"

fun rx_search_from :: "rx \<Rightarrow> string \<Rightarrow> string \<Rightarrow> (string \<times> string option \<times> string \<times> string) option" where
  "rx_search_from r p s =
     (case rx_matches r (p, s, None) of
        st # _ \<Rightarrow> Some (matched p st, snd (snd st), fst st, fst (snd st))
      | [] \<Rightarrow> (case s of [] \<Rightarrow> None | c # cs \<Rightarrow> rx_search_from r (c # p) cs))"

definition rx_search :: "rx \<Rightarrow> string \<Rightarrow> bool" where
  "rx_search r s = (rx_search_from r [] s \<noteq> None)"

definition rx_group0 :: "rx \<Rightarrow> string \<Rightarrow> string option" where
  "rx_group0 r s = map_option fst (rx_search_from r [] s)"

text \<open>\<^verbatim>\<open>m.group(1)\<close>, where the pattern has the group.\<close>

definition rx_group1 :: "rx \<Rightarrow> string \<Rightarrow> string option" where
  "rx_group1 r s = (case rx_search_from r [] s of Some (m, Some g, _) \<Rightarrow> Some g | _ \<Rightarrow> None)"

section \<open>Building patterns\<close>

definition lit :: "string \<Rightarrow> rx" where
  "lit w = foldr (\<lambda>d r. Seq (Chr (\<lambda>c. lower_char c = lower_char d)) r) w Eps"

definition one_of :: "string \<Rightarrow> rx" where
  "one_of cs = Chr (\<lambda>c. c \<in> set cs)"

fun seqs :: "rx list \<Rightarrow> rx" where
  "seqs [] = Eps"
| "seqs [r] = r"
| "seqs (r # rs) = Seq r (seqs rs)"

fun alts :: "rx list \<Rightarrow> rx" where
  "alts [] = Chr (\<lambda>c. False)"
| "alts [r] = r"
| "alts (r # rs) = Alt r (alts rs)"

definition opt :: "rx \<Rightarrow> rx" where
  "opt r = Alt r Eps"

definition many :: "rx \<Rightarrow> rx" where
  "many r = Rep True r"

definition few :: "rx \<Rightarrow> rx" where
  "few r = Rep False r"

definition some1 :: "rx \<Rightarrow> rx" where
  "some1 r = Seq r (many r)"

definition word :: "rx \<Rightarrow> rx" where
  "word r = seqs [Boundary, r, Boundary]"

definition any_lit :: "string list \<Rightarrow> rx" where
  "any_lit ws = alts (map lit ws)"

definition space_rx :: rx where
  "space_rx = Chr is_space"

definition letter_start :: "char \<Rightarrow> bool" where
  "letter_start c = (is_upper c \<or> is_lower c \<or> c = CHR ''_'')"

text \<open>\<^verbatim>\<open>[A-Za-z_]\w*\<close>\<close>

definition name_rx :: rx where
  "name_rx = Seq (Chr letter_start) (many (Chr word_char))"

section \<open>Laws\<close>

text \<open>The rest of a match is what is left of the text, and the text before it grows by what was taken.\<close>

definition extends :: "rx_state \<Rightarrow> rx_state \<Rightarrow> bool" where
  "extends st st' = (\<exists>w. rest_of st = w @ rest_of st' \<and> fst st' = rev w @ fst st)"

lemma extends_refl [simp]: "extends st st"
  by (auto simp: extends_def)

lemma extends_trans: "extends a b \<Longrightarrow> extends b c \<Longrightarrow> extends a c"
  by (auto simp: extends_def)

lemma repeated_extends:
  assumes "\<And>st st'. st' \<in> set (f st) \<Longrightarrow> extends st st'"
  shows "st' \<in> set (repeated greedy f n st) \<Longrightarrow> extends st st'"
proof (induction n arbitrary: st)
  case (Suc n)
  have "st' = st \<or> (\<exists>t. t \<in> set (f st) \<and> st' \<in> set (repeated greedy f n t))"
    using Suc.prems by (auto simp: Let_def split: if_splits)
  then show ?case using extends_trans assms Suc.IH by (metis extends_refl)
qed simp

lemma matches_extend: "st' \<in> set (rx_matches r st) \<Longrightarrow> extends st st'"
proof (induction r arbitrary: st st')
  case (Chr P)
  then show ?case by (auto simp: extends_def split: prod.splits list.splits if_splits)
next
  case (Seq a b)
  obtain t where "t \<in> set (rx_matches a st)" "st' \<in> set (rx_matches b t)" using Seq.prems by auto
  then show ?case using extends_trans Seq.IH by metis
next
  case (Rep greedy a)
  then show ?case using repeated_extends [of "rx_matches a"] by auto
next
  case (Group a)
  then show ?case by (fastforce simp: extends_def split: prod.splits)
qed (auto split: prod.splits if_splits)

text \<open>The bound on the passes is never felt: with any larger bound the matches are the same.\<close>

lemma repeated_enough:
  "length (rest_of st) \<le> n \<Longrightarrow> repeated greedy f n st = repeated greedy f (length (rest_of st)) st"
proof (induction n arbitrary: st rule: less_induct)
  case (less n)
  show ?case
  proof (cases n)
    case 0
    then show ?thesis using less.prems by simp
  next
    case (Suc m)
    show ?thesis
    proof (cases "length (rest_of st)")
      case 0
      have none: "filter (\<lambda>t. length (rest_of t) < length (rest_of st)) (f st) = []" using 0 by simp
      show ?thesis using 0 none by (simp add: Suc Let_def)
    next
      case (Suc k)
      have "repeated greedy f m t = repeated greedy f k t"
        if "t \<in> set (filter (\<lambda>t. length (rest_of t) < length (rest_of st)) (f st))" for t
        using that less.IH [of m t] less.IH [of k t] less.prems Suc \<open>n = Suc m\<close> by simp
      then have "map (repeated greedy f m) (filter (\<lambda>t. length (rest_of t) < length (rest_of st)) (f st))
          = map (repeated greedy f k) (filter (\<lambda>t. length (rest_of t) < length (rest_of st)) (f st))"
        by (rule map_cong [OF refl])
      then have "repeated greedy f (Suc m) st = repeated greedy f (Suc k) st" by (simp only: repeated.simps(2))
      then show ?thesis by (simp only: Suc \<open>n = Suc m\<close>)
    qed
  qed
qed

lemma repetition_unfolds:
  "rx_matches (Rep True a) st =
     concat (map (rx_matches (Rep True a)) (filter (\<lambda>t. length (rest_of t) < length (rest_of st)) (rx_matches a st))) @ [st]"
proof -
  have "repeated True (rx_matches a) (length (rest_of st)) st = repeated True (rx_matches a) (Suc (length (rest_of st))) st"
    by (rule repeated_enough [symmetric]) simp
  also have "\<dots> = concat (map (repeated True (rx_matches a) (length (rest_of st)))
      (filter (\<lambda>t. length (rest_of t) < length (rest_of st)) (rx_matches a st))) @ [st]" by (simp add: Let_def)
  also have "map (repeated True (rx_matches a) (length (rest_of st)))
      (filter (\<lambda>t. length (rest_of t) < length (rest_of st)) (rx_matches a st))
    = map (rx_matches (Rep True a)) (filter (\<lambda>t. length (rest_of t) < length (rest_of st)) (rx_matches a st))"
    by (rule map_cong [OF refl]) (simp add: repeated_enough [OF less_imp_le])
  finally show ?thesis by simp
qed

lemma search_from_part:
  "rx_search_from r p s = Some (m, g, p', s') \<Longrightarrow> \<exists>u. s = u @ m @ s' \<and> p' = rev (u @ m) @ p"
proof (induction s arbitrary: p)
  case Nil
  then obtain st rest where st: "rx_matches r (p, [], None) = st # rest" by (auto split: list.splits)
  then have "extends (p, [], None) st" using matches_extend [of st r "(p, [], None)"] by simp
  then show ?case using Nil st by (cases st) (auto simp: extends_def matched_def)
next
  case (Cons c s)
  show ?case
  proof (cases "rx_matches r (p, c # s, None)")
    case Nil
    then have "rx_search_from r (c # p) s = Some (m, g, p', s')" using Cons.prems by simp
    then obtain u where "s = u @ m @ s'" "p' = rev (u @ m) @ c # p" using Cons.IH by blast
    then show ?thesis by (intro exI [of _ "c # u"]) simp
  next
    case (Cons st rest)
    then have "extends (p, c # s, None) st" using matches_extend [of st r "(p, c # s, None)"] by simp
    then show ?thesis using Cons.prems Cons by (cases st) (auto simp: extends_def matched_def)
  qed
qed

declare rx_search_from.simps [simp del]

text \<open>\<^verbatim>\<open>pattern.finditer(text)\<close>: the texts of the matches; after an empty match the search goes on one character
  later.\<close>

function rx_all_from :: "rx \<Rightarrow> string \<Rightarrow> string \<Rightarrow> string list" where
  "rx_all_from r p s =
     (case rx_search_from r p s of
        None \<Rightarrow> []
      | Some (m, g, p', s') \<Rightarrow>
          m # (if length s' < length s then rx_all_from r p' s'
               else case s of [] \<Rightarrow> [] | c # cs \<Rightarrow> rx_all_from r (c # p) cs))"
  by auto
termination by (relation "measure (\<lambda>(r, p, s). length s)") auto

declare rx_all_from.simps [simp del]

definition rx_all :: "rx \<Rightarrow> string \<Rightarrow> string list" where
  "rx_all r s = rx_all_from r [] s"

end
