(* ===== verification/Flow_Rules.thy ===== *)
theory Flow_Rules
  imports Regex Py_Value
begin

text \<open>
  What a finding of a code scan says about personal data (\<^verbatim>\<open>services/data_flow.py\<close>): the dictionary of items, the
  table and the columns that its snippet names, the encryption, the stage of the processing, and the rows of the
  flow table that a scan proposes.
\<close>

section \<open>The dictionary of items\<close>

definition us :: rx where
  "us = opt (lit ''_'')"

definition joined :: "string \<Rightarrow> rx \<Rightarrow> rx" where
  "joined w r = seqs [lit w, us, r]"

definition not_after :: "string \<Rightarrow> rx" where
  "not_after w = Behind (\<lambda>p. \<not> prefix (rev w) (map lower_char p))"

definition IDENTIFYING :: string where "IDENTIFYING = utf8 [234, 179, 160, 236, 156, 160, 236, 139, 157, 235,
     179, 132, 236, 160, 149, 235, 179, 180]"
definition FINANCIAL :: string where "FINANCIAL = utf8 [234, 184, 136, 236, 156, 181, 236, 160, 149, 235,
     179, 180]"
definition SENSITIVE :: string where "SENSITIVE = utf8 [235, 175, 188, 234, 176, 144, 236, 160, 149, 235,
     179, 180]"
definition GENERAL :: string where "GENERAL = utf8 [236, 157, 188, 235, 176, 152, 234, 176, 156, 236, 157,
     184, 236, 160, 149, 235, 179, 180]"

definition PII_ITEMS :: "(rx \<times> string \<times> string) list" where
  "PII_ITEMS =
     [(alts [word (alts [joined ''resident'' (Seq (lit ''reg'') (opt (Seq us (lit ''num'')))), lit ''residentnumber'',
          lit ''rrn'', lit ''ssn'', lit ''jumin'']), lit (utf8 [236, 163, 188, 235, 175, 188, 235, 147, 177,
     235, 161, 157, 235, 178, 136, 237, 152, 184]), lit (utf8 [236, 163, 188, 235, 175, 188, 235, 178, 136,
     237, 152, 184])],
        utf8 [236, 163, 188, 235, 175, 188, 235, 147, 177, 235, 161, 157, 235, 178, 136, 237, 152, 184],
     IDENTIFYING),
      (alts [word (Seq (lit ''passport'') (opt (Seq us (any_lit [''no'', ''number''])))), lit (utf8 [236,
     151, 172, 234, 182, 140, 235, 178, 136, 237, 152, 184]), lit (utf8 [236, 151, 172, 234, 182, 140])],
        utf8 [236, 151, 172, 234, 182, 140, 235, 178, 136, 237, 152, 184], IDENTIFYING),
      (alts [word (alts [joined ''driver'' (lit ''license''), joined ''license'' (lit ''no''),
          joined ''driving'' (lit ''license'')]), Seq (lit (utf8 [236, 154, 180, 236, 160, 132, 235, 169,
     180, 237, 151, 136])) (opt (lit (utf8 [235, 178, 136, 237, 152, 184])))],
        utf8 [236, 154, 180, 236, 160, 132, 235, 169, 180, 237, 151, 136, 235, 178, 136, 237, 152, 184],
     IDENTIFYING),
      (alts [word (alts [joined ''card'' (any_lit [''number'', ''no'']), lit ''creditcard'', lit ''pan'']),
          lit (utf8 [236, 185, 180, 235, 147, 156, 235, 178, 136, 237, 152, 184]), lit (utf8 [236, 139, 160,
     236, 154, 169, 236, 185, 180, 235, 147, 156])],
        utf8 [236, 185, 180, 235, 147, 156, 235, 178, 136, 237, 152, 184], FINANCIAL),
      (alts [word (alts [joined ''account'' (any_lit [''number'', ''no'']), joined ''bank'' (lit ''account''), lit ''iban'']),
          lit (utf8 [234, 179, 132, 236, 162, 140, 235, 178, 136, 237, 152, 184])],
        utf8 [234, 179, 132, 236, 162, 140, 235, 178, 136, 237, 152, 184], FINANCIAL),
      (alts [word (any_lit [''health'', ''medical'', ''diagnosis'', ''disease'', ''prescription'']),
     lit (utf8 [234, 177, 180, 234, 176, 149, 236, 160, 149, 235, 179, 180]),
          lit (utf8 [236, 167, 136, 235, 179, 145]), lit (utf8 [236, 167, 132, 235, 163, 140]),
     lit (utf8 [236, 178, 152, 235, 176, 169])],
        utf8 [234, 177, 180, 234, 176, 149, 236, 160, 149, 235, 179, 180], SENSITIVE),
      (alts [word (any_lit [''religion'', ''political'', ''ideology'']), lit (utf8 [236, 162, 133, 234, 181,
     144]), lit (utf8 [236, 160, 149, 236, 185, 152, 236, 132, 177, 237, 150, 165]), lit (utf8 [236, 130,
     172, 236, 131, 129])],
        utf8 [236, 130, 172, 236, 131, 129, 194, 183, 236, 139, 160, 235, 133, 144], SENSITIVE),
      (alts [word (Seq (lit ''email'') (opt (Seq us (lit ''address'')))), lit (utf8 [236, 157, 180, 235, 169,
     148, 236, 157, 188]), lit (utf8 [235, 169, 148, 236, 157, 188, 236, 163, 188, 236, 134, 140])],
        utf8 [236, 157, 180, 235, 169, 148, 236, 157, 188], GENERAL),
      (alts [word (any_lit [''phone'', ''mobile'', ''tel'', ''telephone'', ''msisdn'', ''cellphone'']),
     lit (utf8 [237, 156, 180, 235, 140, 128, 237, 143, 176]),
          lit (utf8 [236, 160, 132, 237, 153, 148, 235, 178, 136, 237, 152, 184]), lit (utf8 [236, 151, 176,
     235, 157, 189, 236, 178, 152])],
        utf8 [236, 160, 132, 237, 153, 148, 235, 178, 136, 237, 152, 184], GENERAL),
      (alts [word (alts [joined ''birth'' (lit ''date''), lit ''birthday'', lit ''birthdate'', lit ''dob'']),
          lit (utf8 [236, 131, 157, 235, 133, 132, 236, 155, 148, 236, 157, 188]), lit (utf8 [236, 131, 157,
     236, 157, 188])],
        utf8 [236, 131, 157, 235, 133, 132, 236, 155, 148, 236, 157, 188], GENERAL),
      (alts [word (lit ''gender''), lit (utf8 [236, 132, 177, 235, 179, 132])], utf8 [236, 132, 177, 235,
     179, 132], GENERAL),
      (alts [seqs [not_after ''ip '', not_after ''mac '', not_after ''web '', not_after ''url '',
            word (alts (map (\<lambda>w. joined w (lit ''address'')) [''home'', ''street'', ''shipping'', ''road'', ''postal'']))],
          Seq (Behind (\<lambda>p. \<not> heads (\<lambda>c. is_lower (lower_char c)) p)) (lit (utf8 [236,
     163, 188, 236, 134, 140])), lit (utf8 [235, 176, 176, 236, 134, 161, 236, 167, 128])],
        utf8 [236, 163, 188, 236, 134, 140], GENERAL),
      (alts [word (alts (map (\<lambda>w. joined w (lit ''name'')) [''full'', ''first'', ''last''])),
     lit (utf8 [236, 132, 177, 235, 170, 133]),
          lit (utf8 [234, 179, 160, 234, 176, 157, 235, 170, 133]), lit (utf8 [236, 132, 177, 237, 149, 168])],
        utf8 [236, 157, 180, 235, 166, 132], GENERAL)]"

definition category_rank :: "string \<Rightarrow> int" where
  "category_rank c =
     (if c = IDENTIFYING then 4 else if c = FINANCIAL then 3 else if c = SENSITIVE then 2 else if c = GENERAL then 1 else 0)"

definition one_char :: "string \<Rightarrow> rx" where
  "one_char cs = opt (one_of cs)"

definition PII_SIGNAL :: rx where
  "PII_SIGNAL = alts [word (alts [lit ''pii'', seqs [lit ''personal'', one_char ''_-'', lit ''data''],
       seqs [lit ''personal'', one_char ''_-'', lit ''info''], lit ''privacy'', lit ''gdpr'']),
     lit (utf8 [234, 176, 156, 236, 157, 184, 236, 160, 149, 235, 179, 180])]"

definition SECRET_SIGNAL :: rx where
  "SECRET_SIGNAL = word (alts ([lit ''secret'', lit ''credential'']
     @ map (\<lambda>(a, b). seqs [lit a, one_char ''_-'', lit b])
         [(''api'', ''key''), (''private'', ''key''), (''access'', ''token''), (''refresh'', ''token''), (''client'', ''secret'')]
     @ [lit ''bearer'', seqs [lit ''aws'', one_char ''_-'', any_lit [''access'', ''secret'']],
        seqs [lit ''jwt'', one_char ''_-'', lit ''secret'']]))"

definition pii_hay :: "pdict \<Rightarrow> string" where
  "pii_hay finding =
     join '' '' (map (gstr finding)
       [''rule_id'', ''ruleId'', ''category'', ''rule'', ''title'', ''message'', ''description'', ''snippet''])"

definition matched_items :: "pdict \<Rightarrow> (string \<times> string) list" where
  "matched_items finding =
     map snd (filter (\<lambda>(pat, label, cat). rx_search pat (pii_hay finding)) PII_ITEMS)"

definition is_pii_finding :: "pdict \<Rightarrow> bool" where
  "is_pii_finding finding =
     (let hay = pii_hay finding
      in if matched_items finding \<noteq> [] then True else rx_search PII_SIGNAL hay \<and> \<not> rx_search SECRET_SIGNAL hay)"

definition infer_item :: "pdict \<Rightarrow> string" where
  "infer_item finding = join '', '' (map fst (take 3 (matched_items finding)))"

definition infer_category :: "pdict \<Rightarrow> string" where
  "infer_category finding =
     (case map snd (matched_items finding) of
        [] \<Rightarrow> []
      | c # cats \<Rightarrow> foldl (\<lambda>b c. if category_rank b < category_rank c then c else b) c cats)"

section \<open>Tables and columns\<close>

definition code_part :: "pv \<Rightarrow> string" where
  "code_part v =
     (case v of PList xs \<Rightarrow> join '' '' (map pstr xs)
      | PDict d \<Rightarrow> pstr (por (por (dget d ''text'') (dget d ''lines'')) (PStr []))
      | _ \<Rightarrow> if truthy v then pstr v else [])"

definition code_hay :: "pdict \<Rightarrow> string" where
  "code_hay finding =
     join '' '' (filter (\<lambda>t. t \<noteq> []) (map (\<lambda>k. code_part (dget finding k))
       [''snippet'', ''code'', ''lines'', ''context'', ''message'', ''description'', ''title'']))"

definition spaces1 :: rx where
  "spaces1 = some1 space_rx"

definition any_char :: rx where
  "any_char = Chr (\<lambda>c. True)"

definition but_char :: "char \<Rightarrow> rx" where
  "but_char d = Chr (\<lambda>c. c \<noteq> d)"

definition quote_rx :: rx where
  "quote_rx = Chr (\<lambda>c. c = CHR 0x22 \<or> c = CHR 0x27 \<or> c = CHR 0x60)"

definition entity_class :: rx where
  "entity_class = seqs [lit ''@Entity('', many (but_char CHR '')''), lit '')'', many space_rx,
     opt (Seq (lit ''export'') spaces1), opt (Seq (lit ''abstract'') spaces1), lit ''class'', spaces1]"

definition TABLE_PATTERNS :: "rx list" where
  "TABLE_PATTERNS =
     [seqs [Boundary, lit ''model'', spaces1, Group name_rx],
      seqs [lit ''create'', spaces1, lit ''table'', spaces1,
        opt (seqs [lit ''if'', spaces1, lit ''not'', spaces1, lit ''exists'', spaces1]),
        opt (Alt quote_rx (lit ''['')), Group name_rx],
      Seq entity_class (Group name_rx),
      seqs [lit ''table'', many space_rx, one_of '':='', many space_rx, quote_rx, Group name_rx],
      seqs [lit ''@Table('', many (but_char CHR '')''), lit ''name'', many space_rx, one_of '':='', many space_rx, quote_rx,
        Group name_rx]]"

definition BLOCK_PATTERNS :: "rx list" where
  "BLOCK_PATTERNS =
     [seqs [lit ''model'', spaces1, name_rx, many space_rx, lit ''{'', Group (few any_char), lit ''}''],
      seqs [lit ''create'', spaces1, lit ''table'', many (but_char CHR ''(''), lit ''('', Group (many any_char), lit '')'',
        many space_rx, opt (lit '';'')],
      seqs [entity_class, name_rx, many space_rx, lit ''{'', Group (few any_char), lit ''}'']]"

fun first_group :: "rx list \<Rightarrow> string \<Rightarrow> string" where
  "first_group [] s = []"
| "first_group (r # rs) s = (case rx_group1 r s of Some g \<Rightarrow> g | None \<Rightarrow> first_group rs s)"

definition table_block :: "string \<Rightarrow> string" where
  "table_block hay = first_group BLOCK_PATTERNS hay"

definition infer_table :: "pdict \<Rightarrow> string" where
  "infer_table finding = first_group TABLE_PATTERNS (code_hay finding)"

definition is_identifier :: "string \<Rightarrow> bool" where
  "is_identifier s =
     (case s of [] \<Rightarrow> False
      | c # cs \<Rightarrow> letter_start c \<and> list_all (\<lambda>c. letter_start c \<or> is_digit c) cs)"

definition add_column :: "string list \<Rightarrow> string \<Rightarrow> string list" where
  "add_column cols m =
     (let tok = strip m in if is_identifier tok \<and> lower tok \<notin> set (map lower cols) then cols @ [tok] else cols)"

definition infer_columns :: "pdict \<Rightarrow> string list" where
  "infer_columns finding =
     (let hay = code_hay finding
      in if hay = [] then []
         else let scope = sor (table_block hay) hay
              in take 8 (foldl add_column [] (concat (map (\<lambda>(pat, _). rx_all pat scope) PII_ITEMS))))"

definition ENC_ALGO :: rx where
  "ENC_ALGO = word (alts
     [seqs [lit ''aes'', one_char ''-_'', opt (Seq (Chr is_digit) (opt (Seq (Chr is_digit) (opt (Chr is_digit))))),
        opt (Seq (one_char ''-_'') (any_lit [''gcm'', ''cbc'', ''ctr'']))],
      lit ''rsa'', lit ''chacha20'', Seq (lit ''argon2'') (opt (lit ''id'')), lit ''bcrypt'', lit ''scrypt'', lit ''pbkdf2'',
      seqs [lit ''sha'', one_char ''-'', any_lit [''256'', ''512'']]])"

definition ENC_HINT :: rx where
  "ENC_HINT = alts [lit ''encrypt'', lit ''cipher'', lit (utf8 [236, 149, 148, 237, 152, 184, 237, 153, 148]),
     seqs [lit ''blind'', opt (Chr (\<lambda>c. is_space c \<or> c = CHR ''_'' \<or> c = CHR ''-'')), lit ''index''],
     seqs [some1 (Chr (\<lambda>c. is_lower (lower_char c))), lit ''enc'', Boundary],
     seqs [some1 (Chr (\<lambda>c. is_lower (lower_char c))), lit ''hash'', Boundary], lit ''hashed'']"

definition infer_encryption :: "pdict \<Rightarrow> string" where
  "infer_encryption finding =
     (let hay = code_hay finding
      in case rx_group0 ENC_ALGO hay of
           Some m \<Rightarrow> m
         | None \<Rightarrow> if rx_search ENC_HINT hay then utf8 [236, 160, 129, 236, 154, 169, 40, 236,
     149, 140, 234, 179, 160, 235, 166, 172, 236, 166, 152, 32, 235, 175, 184, 236, 131, 129, 41] else [])"

section \<open>Stages\<close>

definition COLLECT :: string where "COLLECT = utf8 [236, 136, 152, 236, 167, 145]"
definition STORE :: string where "STORE = utf8 [236, 160, 128, 236, 158, 165]"
definition USE :: string where "USE = utf8 [236, 157, 180, 236, 154, 169]"
definition DISPOSE :: string where "DISPOSE = utf8 [237, 140, 140, 234, 184, 176]"

definition COLLECT_HINTS :: "string list" where
  "COLLECT_HINTS = [''signup'', ''sign-up'', ''sign_up'', ''register'', ''registration'', ''join'', ''login'', ''sign-in'',
     ''signin'', ''/form'', ''checkout'', ''contact'', ''subscribe'', ''apply'', ''onboard'', ''survey'', ''profile'',
     ''mypage'', ''account'', ''input'', ''enroll'', ''order'']"

definition STORE_HINTS :: "string list" where
  "STORE_HINTS = [''seed'', ''migration'', ''migrate'', ''schema'', ''prisma'', ''/model'', ''entity'', ''repository'',
     ''dao'', ''.sql'', ''/db/'', ''database'', ''fixtures'', ''/store'', ''insert'']"

definition USE_HINTS :: "string list" where
  "USE_HINTS = [''/api/'', ''route'', ''handler'', ''service'', ''controller'', ''usecase'', ''use-case'', ''process'',
     ''send'', ''mailer'', ''sms'', ''notif'', ''export'', ''report'', ''analytic'', ''payment'', ''/lib/'']"

definition DISPOSE_HINTS :: "string list" where
  "DISPOSE_HINTS = [''erase'', ''/destroy'', ''purge'', ''withdraw'', utf8 [237, 131, 136, 237, 135, 180],
     utf8 [237, 140, 140, 234, 184, 176], ''deletion'', ''expire'']"

definition hinted :: "string list \<Rightarrow> string \<Rightarrow> bool" where
  "hinted hs p = list_ex (\<lambda>h. contains h p) hs"

definition infer_stage :: "string \<Rightarrow> string option" where
  "infer_stage file_path =
     (let p = lower file_path
      in if p = [] then None
         else if hinted DISPOSE_HINTS p then Some DISPOSE
         else if hinted STORE_HINTS p then Some STORE
         else if hinted COLLECT_HINTS p then Some COLLECT
         else if hinted USE_HINTS p then Some USE
         else None)"

section \<open>Rows\<close>

definition seed_file :: "pdict \<Rightarrow> string" where
  "seed_file f = pstr (por (por (dget f ''file'') (dget f ''path'')) (PStr []))"

definition seed_rule :: "pdict \<Rightarrow> string" where
  "seed_rule f = pstr (por (por (por (dget f ''rule_id'') (dget f ''category'')) (dget f ''rule'')) (PStr []))"

definition seed_key :: "string \<Rightarrow> pdict \<Rightarrow> string" where
  "seed_key repo f = repo @ ''|'' @ seed_file f @ ''|'' @ pstr (dget f ''line'') @ ''|'' @ infer_item f @ ''|'' @ infer_table f"

definition seed_place :: "pdict \<Rightarrow> string" where
  "seed_place f =
     (if seed_file f \<noteq> [] \<and> dget f ''line'' \<noteq> PNone then seed_file f @ '':'' @ pstr (dget f ''line'') else seed_file f)"

definition seed_stage :: "pdict \<Rightarrow> string option" where
  "seed_stage f = (if infer_table f \<noteq> [] \<or> infer_columns f \<noteq> [] then Some STORE else infer_stage (seed_file f))"

definition seed_location :: "pdict \<Rightarrow> string" where
  "seed_location f =
     (let table = infer_table f; col_str = join '', '' (infer_columns f)
      in if table \<noteq> [] \<and> col_str \<noteq> [] then table @ ''.'' @ col_str
         else if table \<noteq> [] then table @ utf8 [32, 237, 133, 140, 236, 157, 180, 235, 184, 148]
         else if seed_stage f = Some STORE then seed_place f
         else [])"

definition seed_row :: "string \<Rightarrow> pdict \<Rightarrow> pdict" where
  "seed_row repo f =
     (let loc = seed_place f; stage = seed_stage f; table = infer_table f;
          at_stage = (\<lambda>st. PStr (if stage = Some st then loc else []))
      in [(''item'', PStr (infer_item f)), (''category'', PStr (infer_category f)), (''subject'', PStr []),
          (''collection_source'', at_stage COLLECT), (''storage_location'', PStr (seed_location f)),
          (''storage_table'',
            PStr (if stage = Some STORE then (if table \<noteq> [] then table @ '' ('' @ loc @ '')'' else loc) else [])),
          (''storage_column'', PStr (join '', '' (infer_columns f))), (''encryption'', PStr (infer_encryption f)),
          (''purpose'', at_stage USE), (''retention'', PStr []), (''destruction'', at_stage DISPOSE),
          (''third_party'', PStr []), (''overseas'', PStr []),
          (''note'', PStr (strip (utf8 [91, 80, 73, 73, 32, 236, 138, 164, 236, 186, 148, 32, 236, 139, 156,
     235, 147, 156, 93, 32] @ seed_rule f @ utf8 [32, 194, 183, 32] @ loc @ utf8 [32, 194, 183, 32, 236, 182,
     148, 236, 160, 149, 235, 139, 168, 234, 179, 132, 32]
            @ (case stage of None \<Rightarrow> utf8 [235, 175, 184, 236, 131, 129, 40, 235, 139, 180, 235,
     139, 185, 236, 158, 144, 32, 237, 153, 149, 236, 160, 149, 32, 237, 149, 132, 236, 154, 148, 41] | Some st \<Rightarrow> st)))),
          (''source'', PStr ''pii_scan''), (''stage'', PStr (case stage of None \<Rightarrow> [] | Some st \<Rightarrow> st)),
          (''repo'', PStr repo), (''file'', PStr (seed_file f)), (''line'', dget f ''line''), (''rule'', PStr (seed_rule f)),
          (''table'', PStr table)])"

definition seeding :: "pdict \<Rightarrow> bool" where
  "seeding f = (is_pii_finding f \<and> infer_item f \<noteq> [])"

fun seed_rows :: "string \<Rightarrow> string list \<Rightarrow> pdict list \<Rightarrow> pdict list" where
  "seed_rows repo existing [] = []"
| "seed_rows repo existing (f # fs) =
     (if \<not> seeding f \<or> seed_key repo f \<in> set existing then seed_rows repo existing fs
      else seed_row repo f # seed_rows repo (seed_key repo f # existing) fs)"

definition seed_rows_from_findings :: "pdict list \<Rightarrow> string \<Rightarrow> pdict list" where
  "seed_rows_from_findings findings repo = seed_rows repo [] findings"

section \<open>What a scan proposes\<close>

text \<open>The text under which the routes identify a row.\<close>

definition flow_key :: "string \<Rightarrow> pdict \<Rightarrow> string" where
  "flow_key repo row =
     repo @ ''|'' @ pstr (dgetd row ''file'' (PStr [])) @ ''|'' @ pstr (dgetd row ''line'' (PStr [])) @ ''|''
     @ pstr (dgetd row ''item'' (PStr [])) @ ''|'' @ pstr (dgetd row ''table'' (PStr []))"

text \<open>A proposed row names an item, says that it comes from a scan, is not reviewed, and claims a place of storage
  only at the stage of storing.\<close>

definition row_sound :: "pdict \<Rightarrow> bool" where
  "row_sound row =
     (dget row ''item'' \<noteq> PStr [] \<and> dget row ''source'' = PStr ''pii_scan'' \<and> dget row ''review_status'' = PNone
      \<and> (dget row ''stage'' = PStr STORE
         \<or> dget row ''storage_location'' = PStr [] \<and> dget row ''storage_table'' = PStr [] \<and> dget row ''storage_column'' = PStr []))"

lemma key_of_seed_row: "flow_key repo (seed_row repo f) = seed_key repo f"
  by (simp add: flow_key_def seed_row_def seed_key_def dgetd_def Let_def pstr_PStr)

lemma store_not_Nil [simp]: "STORE \<noteq> []"
  by (simp add: STORE_def utf8_def)

lemma seed_row_sound: "seeding f \<Longrightarrow> row_sound (seed_row repo f)"
  by (auto simp: row_sound_def seed_row_def seed_location_def seed_stage_def seeding_def Let_def split: option.splits)

lemma seed_rows_keys:
  "distinct (map (flow_key repo) (seed_rows repo ks fs))
   \<and> set (map (flow_key repo) (seed_rows repo ks fs)) = seed_key repo ` {f \<in> set fs. seeding f} - set ks"
  by (induction repo ks fs rule: seed_rows.induct) (auto simp: key_of_seed_row)

text \<open>C36: From any findings of a scan the seeding proposes exactly one row for each place, item and table that a finding
  on personal data names, and none of these rows claims a storage at another stage or a review.\<close>

theorem seeded_rows_exact:
  "distinct (map (flow_key repo) (seed_rows_from_findings fs repo))
   \<and> set (map (flow_key repo) (seed_rows_from_findings fs repo)) = seed_key repo ` {f \<in> set fs. seeding f}
   \<and> list_all row_sound (seed_rows_from_findings fs repo)"
proof -
  have "list_all row_sound (seed_rows repo ks fs)" for ks
    by (induction repo ks fs rule: seed_rows.induct) (auto simp: seed_row_sound)
  then show ?thesis using seed_rows_keys [of repo "[]" fs] by (simp add: seed_rows_from_findings_def)
qed

text \<open>Without a table in the snippet the columns are looked for in all of the text, the title included: a finding on
  the mailer that says \<open>email\<close> is put down as storage, at the path of the mailer.\<close>

lemma add_column_grows: "cols \<noteq> [] \<Longrightarrow> foldl add_column cols ms \<noteq> []"
  by (induction ms arbitrary: cols) (auto simp: add_column_def Let_def)

lemma columns_found: "m \<in> set ms \<Longrightarrow> is_identifier (strip m) \<Longrightarrow> foldl add_column cols ms \<noteq> []"
proof (induction ms arbitrary: cols)
  case (Cons a ms)
  show ?case
  proof (cases "a = m")
    case True
    then have "add_column cols a \<noteq> []" using Cons.prems(2) by (cases cols) (auto simp: add_column_def Let_def)
    then show ?thesis by (simp add: add_column_grows)
  qed (use Cons in auto)
qed simp

lemma mention_becomes_storage:
  assumes "(pat, label) \<in> set PII_ITEMS" "m \<in> set (rx_all pat (code_hay f))" "is_identifier (strip m)"
    and "code_hay f \<noteq> []" "table_block (code_hay f) = []"
  shows "seed_stage f = Some STORE"
proof -
  have "m \<in> set (concat (map (\<lambda>(pat, _). rx_all pat (code_hay f)) PII_ITEMS))"
    unfolding set_concat set_map image_image by (rule UN_I [OF assms(1)]) (simp add: assms(2))
  then have "infer_columns f \<noteq> []"
    using columns_found [OF _ assms(3)] assms(4,5) by (simp add: infer_columns_def sor_def)
  then show ?thesis by (simp add: seed_stage_def)
qed

definition mailer_finding :: pdict where
  "mailer_finding = [(''title'', PStr ''email''), (''file'', PStr ''src/api/mailer.py''), (''line'', PInt 7)]"

lemma mailer_becomes_storage:
  "infer_stage (seed_file mailer_finding) = Some USE \<and> seed_stage mailer_finding = Some STORE
   \<and> seed_location mailer_finding = ''src/api/mailer.py:7''"
proof -
  have h: "code_hay mailer_finding = ''email''" "table_block ''email'' = []" "infer_table mailer_finding = []"
    "infer_stage (seed_file mailer_finding) = Some USE" "seed_place mailer_finding = ''src/api/mailer.py:7''"
    by code_simp+
  have "rx_all (fst (PII_ITEMS ! 7)) ''email'' = [''email'']" by (simp add: PII_ITEMS_def) code_simp
  moreover have "PII_ITEMS ! 7 \<in> set PII_ITEMS" by (rule nth_mem) (simp add: PII_ITEMS_def)
  moreover have "is_identifier (strip ''email'')" by code_simp
  ultimately have "seed_stage mailer_finding = Some STORE"
    using mention_becomes_storage [of "fst (PII_ITEMS ! 7)" "snd (PII_ITEMS ! 7)" "''email''" mailer_finding] h by simp
  then show ?thesis using h by (simp add: seed_location_def Let_def)
qed

end
