(* ===== verification/Flow_Views.thy ===== *)
theory Flow_Views
  imports Flow_Rules "HOL-Library.Product_Lexorder" "HOL-Library.List_Lexorder" "HOL-Library.Char_ord"
begin

text \<open>
  The views of the flow table (\<^verbatim>\<open>services/data_flow.py\<close>): the overview of files, the processing tasks, the external
  recipients, the comparison with the declared policy, the concerns, the columns of the tables and the manifest of
  the evidence package.
\<close>

section \<open>Grouping\<close>

text \<open>The loop that all views share: a dictionary of groups in the order in which their keys appear.\<close>

definition group_step :: "('r \<Rightarrow> string) \<Rightarrow> (string \<Rightarrow> 'g) \<Rightarrow> ('g \<Rightarrow> 'r \<Rightarrow> 'g) \<Rightarrow> 'g dict \<Rightarrow> 'r \<Rightarrow> 'g dict" where
  "group_step key start add d r =
     dset d (key r) (add (case map_of d (key r) of None \<Rightarrow> start (key r) | Some g \<Rightarrow> g) r)"

definition grouped :: "('r \<Rightarrow> string) \<Rightarrow> (string \<Rightarrow> 'g) \<Rightarrow> ('g \<Rightarrow> 'r \<Rightarrow> 'g) \<Rightarrow> 'r list \<Rightarrow> 'g dict" where
  "grouped key start add rows = foldl (group_step key start add) [] rows"

definition add_new :: "string list \<Rightarrow> string \<Rightarrow> string list" where
  "add_new xs v = (if v \<noteq> [] \<and> v \<notin> set xs then xs @ [v] else xs)"

definition clean :: "pdict \<Rightarrow> string \<Rightarrow> string" where
  "clean r k = strip (gstr r k)"

definition NONE_TEXTS :: "string list" where
  "NONE_TEXTS = [utf8 [236, 151, 134, 236, 157, 140], ''-'', ''n/a'', ''N/A'']"

definition real_text :: "string \<Rightarrow> bool" where
  "real_text v = (v \<noteq> [] \<and> v \<notin> set NONE_TEXTS)"

definition UNSORTED :: string where
  "UNSORTED = utf8 [40, 235, 175, 184, 235, 182, 132, 235, 165, 152, 41]"

definition listed :: "string list \<Rightarrow> pv" where
  "listed xs = PStr (join '', '' xs)"

section \<open>Files\<close>

record file_group =
  fg_required :: "string list"
  fg_optional :: "string list"
  fg_third :: "string list"
  fg_purposes :: "string list"
  fg_subjects :: string
  fg_tables :: "string list"

definition file_key :: "pdict \<Rightarrow> string" where
  "file_key r = sor (clean r ''file_name'') (sor (clean r ''business'') (sor (clean r ''table'') UNSORTED))"

definition add_file_item :: "string \<Rightarrow> bool \<Rightarrow> file_group \<Rightarrow> file_group" where
  "add_file_item item optional g =
     (if item = [] \<or> item \<in> set (fg_required g) \<or> item \<in> set (fg_optional g) then g
      else if optional then g\<lparr>fg_optional := fg_optional g @ [item]\<rparr>
      else g\<lparr>fg_required := fg_required g @ [item]\<rparr>)"

definition add_file_row :: "file_group \<Rightarrow> pdict \<Rightarrow> file_group" where
  "add_file_row g r =
     (let g = add_file_item (clean r ''item'') (clean r ''requirement'' = utf8 [236, 132, 160, 237, 131,
     157]) g; tp = clean r ''third_party'';
          sc = clean r ''subject_count''
      in g\<lparr>fg_tables := add_new (fg_tables g) (clean r ''table''),
           fg_third := (if real_text tp then add_new (fg_third g) tp else fg_third g),
           fg_purposes := add_new (fg_purposes g) (clean r ''purpose''),
           fg_subjects := (if fg_subjects g = [] then sc else fg_subjects g)\<rparr>)"

definition file_groups :: "pdict list \<Rightarrow> file_group dict" where
  "file_groups rows =
     grouped file_key
       (\<lambda>k. \<lparr>fg_required = [], fg_optional = [], fg_third = [], fg_purposes = [], fg_subjects = [], fg_tables = []\<rparr>)
       add_file_row rows"

definition file_row :: "string \<times> file_group \<Rightarrow> pdict" where
  "file_row kg =
     (case kg of (k, g) \<Rightarrow>
        [(''file_name'', PStr k), (''table'', listed (fg_tables g)), (''subject_count'', PStr (fg_subjects g)),
         (''required_items'', listed (fg_required g)), (''optional_items'', listed (fg_optional g)),
         (''third_party'', PStr (sor (join '', '' (fg_third g)) (utf8 [236, 151, 134, 236, 157, 140]))),
     (''purpose'', listed (fg_purposes g))])"

definition build_file_overview :: "pdict list \<Rightarrow> pdict list" where
  "build_file_overview rows = map file_row (file_groups rows)"

section \<open>Processing tasks\<close>

record task =
  ta_subjects :: "string list"
  ta_items :: "string list"
  ta_systems :: "string list"
  ta_collect :: "string list"
  ta_dispose :: "string list"
  ta_purposes :: "string list"
  ta_sources :: "string list"
  ta_confirmed :: bool
  ta_assignees :: "string list"

definition task_key :: "pdict \<Rightarrow> string" where
  "task_key r = sor (clean r ''business'') (sor (clean r ''table'') (sor (clean r ''storage_table'') UNSORTED))"

definition empty_task :: task where
  "empty_task = \<lparr>ta_subjects = [], ta_items = [], ta_systems = [], ta_collect = [], ta_dispose = [], ta_purposes = [],
     ta_sources = [], ta_confirmed = False, ta_assignees = []\<rparr>"

definition add_task_row :: "task \<Rightarrow> pdict \<Rightarrow> task" where
  "add_task_row g r =
     \<lparr>ta_subjects = add_new (ta_subjects g) (clean r ''subject''),
      ta_items = add_new (ta_items g) (clean r ''item''),
      ta_systems = add_new (ta_systems g) (sor (clean r ''table'') (clean r ''storage_location'')),
      ta_collect = add_new (ta_collect g) (clean r ''collection_source''),
      ta_dispose = add_new (ta_dispose g) (clean r ''destruction''),
      ta_purposes = add_new (ta_purposes g) (clean r ''purpose''),
      ta_sources = (if clean r ''source'' \<in> set (ta_sources g) then ta_sources g else ta_sources g @ [clean r ''source'']),
      ta_confirmed = (ta_confirmed g \<or> clean r ''review_status'' = ''confirmed''),
      ta_assignees = add_new (ta_assignees g) (clean r ''assignee'')\<rparr>"

definition tasks :: "pdict list \<Rightarrow> task dict" where
  "tasks rows = grouped task_key (\<lambda>k. empty_task) add_task_row rows"

definition task_controls :: "task \<Rightarrow> string list" where
  "task_controls g =
     (if ta_collect g \<noteq> [] then [''3.1.1''] else []) @ (if ta_purposes g \<noteq> [] then [''3.2.1''] else [])
     @ (if ta_dispose g \<noteq> [] then [''3.4.1''] else [])"

definition task_approved :: "task \<Rightarrow> bool" where
  "task_approved g = (ta_confirmed g \<or> ''manual'' \<in> set (ta_sources g))"

definition task_row :: "string \<times> task \<Rightarrow> pdict" where
  "task_row kg =
     (case kg of (k, g) \<Rightarrow>
        [(''task'', PStr k), (''subjects'', listed (ta_subjects g)), (''items'', listed (ta_items g)),
         (''system'', listed (ta_systems g)), (''collect_code'', listed (ta_collect g)),
         (''dispose_code'', listed (ta_dispose g)), (''purpose'', listed (ta_purposes g)),
         (''controls'', PStr (join (utf8 [32, 194, 183, 32]) (task_controls g))), (''assignee'',
     listed (ta_assignees g)),
         (''confirm_status'', PStr (if task_approved g then utf8 [235, 139, 180, 235, 139, 185, 236, 158,
     144, 32, 236, 138, 185, 236, 157, 184] else utf8 [236, 158, 144, 235, 143, 153, 32, 237, 155, 132, 235,
     179, 180, 40, 234, 178, 128, 237, 134, 160, 32, 237, 149, 132, 236, 154, 148, 41]))])"

definition build_processing_tasks :: "pdict list \<Rightarrow> pdict list" where
  "build_processing_tasks rows = map task_row (tasks rows)"

section \<open>External recipients\<close>

definition PROCESSOR_HINTS :: "string list" where
  "PROCESSOR_HINTS = [''aws'', ''amazon'', ''gcp'', ''google cloud'', ''azure'', ''cloud'', ''s3'', ''ec2'', ''rds'',
     ''twilio'', ''sendgrid'', ''mailgun'', ''mailchimp'', ''ses'', ''sns'', ''slack'', ''kakao'', ''naver cloud'',
     ''ncloud'', ''nhn'', ''toss'', ''iamport'', ''portone'', ''stripe'', ''paypal'', ''cafe24'', ''gabia'',
     utf8 [234, 176, 128, 235, 185, 132, 236, 149, 132],
     utf8 [236, 185, 180, 237, 142, 152, 50, 52], ''sms'', utf8 [236, 149, 140, 235, 166, 172, 234, 179,
     160], ''aligo'', ''solapi'', utf8 [236, 156, 132, 237, 131, 129], utf8 [236, 136, 152, 237, 131, 129],
     ''outsourc'', ''processor'', ''vendor'']"

definition OVERSEAS_HINTS :: "string list" where
  "OVERSEAS_HINTS = [''aws'', ''amazon'', ''gcp'', ''google'', ''azure'', ''stripe'', ''paypal'', ''sendgrid'', ''twilio'',
     ''mailgun'', ''mailchimp'', ''slack'', ''global'', ''overseas'', utf8 [234, 181, 173, 236, 153, 184],
     ''us-'', ''eu-'', ''ap-northeast'',
     ''ap-southeast'', ''us-east'', ''us-west'']"

record recipient =
  re_items :: "string list"
  re_purposes :: "string list"
  re_overseas :: "string list"
  re_third :: bool

definition recipient_key :: "pdict \<Rightarrow> string" where
  "recipient_key r = (if real_text (clean r ''third_party'') then clean r ''third_party'' else clean r ''overseas'')"

definition has_recipient :: "pdict \<Rightarrow> bool" where
  "has_recipient r = (real_text (clean r ''third_party'') \<or> real_text (clean r ''overseas''))"

definition add_recipient_row :: "recipient \<Rightarrow> pdict \<Rightarrow> recipient" where
  "add_recipient_row g r =
     (let ov = clean r ''overseas''
      in \<lparr>re_items = add_new (re_items g) (clean r ''item''), re_purposes = add_new (re_purposes g) (clean r ''purpose''),
          re_overseas = (if real_text ov then add_new (re_overseas g) ov else re_overseas g),
          re_third = (re_third g \<or> real_text (clean r ''third_party''))\<rparr>)"

definition recipients :: "pdict list \<Rightarrow> recipient dict" where
  "recipients rows =
     grouped recipient_key (\<lambda>k. \<lparr>re_items = [], re_purposes = [], re_overseas = [], re_third = False\<rparr>) add_recipient_row
       (filter has_recipient rows)"

definition candidate_types :: "string \<Rightarrow> recipient \<Rightarrow> string list" where
  "candidate_types name g =
     (let low = lower name;
          types = (if hinted PROCESSOR_HINTS low then [utf8 [236, 156, 132, 237, 131, 129, 32, 237, 155, 132,
     235, 179, 180]]
                   else if re_third g then [utf8 [236, 160, 156, 51, 236, 158, 144, 32, 236, 160, 156, 234,
     179, 181, 32, 237, 155, 132, 235, 179, 180]] else [])
            @ (if re_overseas g \<noteq> [] \<or> hinted OVERSEAS_HINTS low then [utf8 [234, 181, 173, 236,
     153, 184, 236, 157, 180, 236, 160, 132, 32, 237, 155, 132, 235, 179, 180]] else [])
      in if types = [] then [utf8 [234, 181, 172, 235, 182, 132, 32, 237, 149, 132, 236, 154, 148]] else types)"

definition recipient_row :: "string \<times> recipient \<Rightarrow> pdict" where
  "recipient_row kg =
     (case kg of (k, g) \<Rightarrow>
        [(''recipient'', PStr k), (''candidate_types'', PStr (join (utf8 [32, 194, 183,
     32]) (candidate_types k g))),
         (''items'', listed (re_items g)), (''purpose'', listed (re_purposes g)), (''overseas'', listed (re_overseas g)),
         (''basis'', PStr (utf8 [236, 189, 148, 235, 147, 156, 194, 183, 236, 132, 164, 236, 160, 149, 236,
     131, 129, 32, 236, 153, 184, 235, 182, 128, 32, 236, 160, 132, 236, 134, 161, 32, 237, 155, 132, 235,
     179, 180])), (''confirm'', PStr (utf8 [235, 139, 180, 235, 139, 185, 236, 158, 144, 32, 237, 153, 149,
     236, 157, 184, 32, 237, 149, 132, 236, 154, 148]))])"

definition classify_external_recipients :: "pdict list \<Rightarrow> pdict list" where
  "classify_external_recipients rows = map recipient_row (recipients rows)"

section \<open>The declared policy\<close>

definition IMMEDIATE_HINTS :: "string list" where
  "IMMEDIATE_HINTS = [utf8 [236, 166, 137, 236, 139, 156], utf8 [236, 167, 128, 236, 178, 180, 32, 236, 151,
     134, 236, 157, 180], utf8 [236, 167, 128, 236, 178, 180, 236, 151, 134, 236, 157, 180], utf8 [235, 176,
     148, 235, 161, 156], utf8 [48, 236, 157, 188], utf8 [236, 166, 137, 236, 139, 156, 32, 237, 140, 140,
     234, 184, 176], utf8 [236, 166, 137, 236, 139, 156, 237, 140, 140, 234, 184, 176]]"

definition norm_term :: "string \<Rightarrow> string" where
  "norm_term s = filter (\<lambda>c. c \<noteq> CHR '' '') (lower (strip s))"

definition name_terms :: "string list \<Rightarrow> string dict" where
  "name_terms ts = foldl (\<lambda>d t. if t = [] \<or> dhas d (norm_term t) then d else dset d (norm_term t) t) [] ts"

definition immediate :: "string \<Rightarrow> bool" where
  "immediate t = hinted IMMEDIATE_HINTS t"

text \<open>Whether a period of the code does not fit the declared one.\<close>

definition retention_differs :: "string \<Rightarrow> string \<Rightarrow> bool" where
  "retention_differs pr ret =
     (let npr = norm_term pr; nret = norm_term ret
      in if immediate pr then \<not> immediate ret
         else npr \<noteq> nret \<and> \<not> contains npr nret \<and> \<not> contains nret npr)"

definition code_retentions :: "pdict list \<Rightarrow> (string \<times> string) list" where
  "code_retentions rows = map (\<lambda>r. (clean r ''item'', clean r ''retention'')) (filter (\<lambda>r. real_text (clean r ''retention'')) rows)"

fun mismatches :: "string \<Rightarrow> (string \<times> string) list \<Rightarrow> (string \<times> string) list \<Rightarrow> (string \<times> string \<times> string) list" where
  "mismatches pr seen [] = []"
| "mismatches pr seen (k # ks) =
     (if k \<in> set seen then mismatches pr seen ks
      else (if retention_differs pr (snd k) then [(fst k, snd k, pr)] else []) @ mismatches pr (k # seen) ks)"

record policy_diff =
  pd_only_in_code :: "string list"
  pd_only_in_policy :: "string list"
  pd_retention :: "(string \<times> string \<times> string) list"

definition policy_terms :: "pv list \<Rightarrow> string list" where
  "policy_terms items = map (\<lambda>p. strip (pstr (por p (PStr [])))) items"

definition compare_policy_to_flow :: "pv list \<Rightarrow> string \<Rightarrow> pdict list \<Rightarrow> policy_diff" where
  "compare_policy_to_flow policy_items policy_retention rows =
     (let code = name_terms (map (\<lambda>r. clean r ''item'') rows); pol = name_terms (policy_terms policy_items);
          pr = strip policy_retention
      in \<lparr>pd_only_in_code = map snd (filter (\<lambda>kv. \<not> dhas pol (fst kv)) code),
          pd_only_in_policy = map snd (filter (\<lambda>kv. \<not> dhas code (fst kv)) pol),
          pd_retention = (if pr = [] then [] else mismatches pr [] (code_retentions rows))\<rparr>)"

section \<open>The evidence package\<close>

definition ISMS3X_CONTROLS :: "(string \<times> string \<times> string) list" where
  "ISMS3X_CONTROLS =
     [(''3.1.1'', utf8 [234, 176, 156, 236, 157, 184, 236, 160, 149, 235, 179, 180, 32, 236, 136, 152, 236,
     167, 145, 194, 183, 236, 157, 180, 236, 154, 169], ''collection_source''), (''3.2.1'', utf8 [234, 176,
     156, 236, 157, 184, 236, 160, 149, 235, 179, 180, 32, 236, 157, 180, 236, 154, 169, 194, 183, 236, 160, 156, 234, 179, 181], ''purpose''),
      (''3.3.1'', utf8 [234, 176, 156, 236, 157, 184, 236, 160, 149, 235, 179, 180, 32, 236, 160, 156, 51,
     236, 158, 144, 32, 236, 160, 156, 234, 179, 181], ''third_party''), (''3.3.4'', utf8 [234, 176, 156,
     236, 157, 184, 236, 160, 149, 235, 179, 180, 32, 234, 181, 173, 236, 153, 184, 236, 157, 180, 236, 160, 132], ''overseas''),
      (''3.4.1'', utf8 [234, 176, 156, 236, 157, 184, 236, 160, 149, 235, 179, 180, 32, 237, 140, 140, 234,
     184, 176], ''destruction'')]"

definition counted :: "('a \<Rightarrow> bool) \<Rightarrow> 'a list \<Rightarrow> int" where
  "counted P xs = int (length (filter P xs))"

definition control_entry :: "pdict list \<Rightarrow> string \<times> string \<times> string \<Rightarrow> pv" where
  "control_entry rows c =
     (case c of (cid, name, field) \<Rightarrow>
        let n = counted (\<lambda>r. real_text (clean r field)) rows
        in PDict [(''control_id'', PStr cid), (''name'', PStr name), (''evidence_rows'', PInt n), (''has_evidence'', PBool (0 < n))])"

definition artifact_entry :: "string \<Rightarrow> string \<Rightarrow> 'a list \<Rightarrow> pv" where
  "artifact_entry name file xs = PDict [(''name'', PStr name), (''file'', PStr file), (''rows'', PInt (int (length xs)))]"

definition build_isms3x_manifest :: "pdict list \<Rightarrow> pdict \<Rightarrow> string \<Rightarrow> pdict" where
  "build_isms3x_manifest rows policy generated_at =
     (let confirmed = counted (\<lambda>r. clean r ''review_status'' = ''confirmed'') rows; total = int (length rows);
          items = as_list (por (dget policy ''items'') (PList [])); diff = compare_policy_to_flow items (clean policy ''retention'') rows
      in [(''domain'', PStr (utf8 [51, 46, 32, 234, 176, 156, 236, 157, 184, 236, 160, 149, 235, 179, 180,
     32, 236, 178, 152, 235, 166, 172, 235, 139, 168, 234, 179, 132, 235, 179, 132, 32, 236, 154, 148, 234, 181, 172, 236, 130, 172, 237, 149, 173, 32, 40, 73, 83, 77, 83, 45, 80, 41])), (''generated_at'', PStr generated_at),
          (''controls'', PList (map (control_entry rows) ISMS3X_CONTROLS)),
          (''artifacts'', PList [artifact_entry (utf8 [234, 176, 156, 236, 157, 184, 236, 160, 149, 235, 179,
     180, 32, 236, 178, 152, 235, 166, 172, 237, 157, 144, 235, 166, 132, 237, 145, 156]) ''data-flow.csv'' rows,
             artifact_entry (utf8 [236, 178, 152, 235, 166, 172, 236, 151, 133, 235, 172, 180, 32, 234, 183,
     184, 235, 163, 185]) ''processing-tasks.csv'' (build_processing_tasks rows),
             artifact_entry (utf8 [236, 153, 184, 235, 182, 128, 32, 236, 136, 152, 236, 139, 160, 236, 158,
     144, 32, 234, 181, 172, 235, 182, 132]) ''external-recipients.csv'' (classify_external_recipients rows),
             artifact_entry (utf8 [234, 176, 156, 236, 157, 184, 236, 160, 149, 235, 179, 180, 32, 237, 140,
     140, 236, 157, 188, 32, 234, 176, 156, 236, 154, 148]) ''file-overview.csv'' (build_file_overview rows)]),
          (''review_summary'', PDict [(''total'', PInt total), (''confirmed'', PInt confirmed), (''pending'', PInt (total - confirmed))]),
          (''policy_summary'', PDict [(''declared_items'', PInt (int (length items))),
             (''only_in_code'', PInt (int (length (pd_only_in_code diff)))),
             (''only_in_policy'', PInt (int (length (pd_only_in_policy diff)))),
             (''retention_mismatch'', PInt (int (length (pd_retention diff))))]),
          (''note'', PStr (utf8 [234, 184, 176, 236, 136, 160, 32, 236, 166, 157, 236, 160, 129, 32, 237,
     155, 132, 235, 179, 180, 32, 237, 140, 168, 237, 130, 164, 236, 167, 128, 32, 226, 128, 148, 32, 235, 139, 180, 235, 139, 185, 236, 158, 144, 32, 234, 178, 128, 237, 134, 160, 194, 183, 237, 153, 149, 236, 160, 149, 236, 157, 132, 32, 234, 177, 176, 236, 179, 144, 32, 236, 160, 156, 236, 182, 156, 237, 149, 156, 235, 139, 164, 40, 235, 178, 149, 236, 160, 129, 32, 237, 153, 149, 236, 160, 149, 32, 236, 149, 132, 235, 139, 152, 41, 46]))])"

section \<open>Storage and concerns\<close>

definition storage_display :: "pdict \<Rightarrow> string" where
  "storage_display row =
     (let stored = clean row ''storage_location'';
          table = strip (pstr (por (por (dget row ''table'') (dget row ''storage_table'')) (PStr [])));
          cols = clean row ''storage_column'';
          loc = (if stored \<noteq> [] then stored
                 else if table \<noteq> [] \<and> cols \<noteq> []
                   then (if CHR ''.'' \<notin> set table then table @ ''.'' @ cols else table @ '' ('' @ cols @ '')'')
                 else sor table cols);
          enc = clean row ''encryption''
      in if loc \<noteq> [] \<and> enc \<noteq> [] \<and> \<not> contains (utf8 [236, 149, 148, 237, 152,
     184, 237, 153, 148]) loc \<and> \<not> contains (utf8 [235, 179, 180, 237, 152, 184]) loc
         then loc @ utf8 [32, 40, 236, 149, 148, 237, 152, 184, 237, 153, 148, 58, 32] @ enc @ '')'' else loc)"

definition add_concern :: "(string \<times> string) list \<Rightarrow> bool \<times> string \<times> string \<Rightarrow> (string \<times> string) list" where
  "add_concern out c =
     (case c of (applies, text, control) \<Rightarrow>
        if applies \<and> control @ ''|'' @ text \<notin> set (map (\<lambda>(t, k). k @ ''|'' @ t) out) then out @ [(text, control)] else out)"

definition row_concerns :: "pdict \<Rightarrow> (bool \<times> string \<times> string) list" where
  "row_concerns r =
     (let item = sor (clean r ''item'') (utf8 [234, 176, 156, 236, 157, 184, 236, 160, 149, 235, 179,
     180]); cat = clean r ''category''; stored = storage_display r \<noteq> [];
          tp = clean r ''third_party''; ov = clean r ''overseas''
      in [(cat \<in> {IDENTIFYING, FINANCIAL, SENSITIVE} \<and> stored \<and> clean r ''encryption'' = [],
            item @ ''('' @ cat @ utf8 [41, 32, 236, 160, 128, 236, 158, 165, 32, 236, 149, 148, 237, 152,
     184, 237, 153, 148, 32, 235, 175, 184, 237, 153, 149, 236, 157, 184, 32, 226, 128, 148, 32, 236, 160, 128, 236, 158, 165, 32, 236, 139, 156, 32, 236, 149, 148, 237, 152, 184, 237, 153, 148, 32, 236, 160, 129, 236, 154, 169, 194, 183, 237, 153, 149, 236, 157, 184, 32, 237, 149, 132, 236, 154, 148], ''2.7.1''),
          (real_text tp, item @ utf8 [32, 236, 160, 156, 51, 236, 158, 144, 32, 236, 160, 156, 234, 179, 181,
     40] @ tp @ utf8 [41, 32, 226, 128, 148, 32, 236, 160, 156, 234, 179, 181, 32, 235, 143, 153, 236, 157,
     152, 194, 183, 234, 179, 132, 236, 149, 189, 32, 234, 183, 188, 234, 177, 176, 32, 237, 153, 149, 236, 157, 184], ''3.3.1''),
          (real_text ov, item @ utf8 [32, 234, 181, 173, 236, 153, 184, 236, 157, 180, 236, 160, 132,
     40] @ ov @ utf8 [41, 32, 226, 128, 148, 32, 234, 179, 160, 236, 167, 128, 194, 183, 235, 143, 153, 236,
     157, 152, 32, 235, 176, 143, 32, 235, 179, 180, 237, 152, 184, 236, 161, 176, 236, 185, 152, 32, 237, 153, 149, 236, 157, 184], ''3.3.4''),
          (stored \<and> clean r ''destruction'' = [] \<and> clean r ''retention'' = [],
            item @ utf8 [32, 235, 179, 180, 236, 156, 160, 234, 184, 176, 234, 176, 132, 194, 183, 237, 140,
     140, 234, 184, 176, 32, 236, 160, 136, 236, 176, 168, 32, 235, 175, 184, 234, 184, 176, 236, 158, 172, 32, 226, 128, 148, 32, 237, 140, 140, 234, 184, 176, 32, 236, 160, 149, 236, 177, 133, 32, 237, 153, 149, 236, 157, 184], ''3.4.1'')])"

definition derive_concerns :: "pdict list \<Rightarrow> (string \<times> string) list" where
  "derive_concerns rows = foldl add_concern [] (concat (map row_concerns rows))"

section \<open>Columns of the tables\<close>

text \<open>\<^verbatim>\<open>s.split(c, 1)\<close>: what stands before the first \<open>c\<close>, and what after it.\<close>

definition before :: "char \<Rightarrow> string \<Rightarrow> string" where
  "before c s = takeWhile (\<lambda>d. d \<noteq> c) s"

definition after :: "char \<Rightarrow> string \<Rightarrow> string" where
  "after c s = drop 1 (dropWhile (\<lambda>d. d \<noteq> c) s)"

definition split_cols :: "string \<Rightarrow> string list" where
  "split_cols s = filter (\<lambda>c. strip c \<noteq> []) (split_on CHR '','' (map (\<lambda>c. if c = CHR ''/'' then CHR '','' else c) s))"

definition plain_name :: "string \<Rightarrow> bool" where
  "plain_name s = (CHR '' '' \<notin> set s \<and> CHR '','' \<notin> set s)"

definition line_pairs :: "string \<Rightarrow> (string \<times> string) list" where
  "line_pairs line =
     (let line = strip line
      in if line = [] \<or> prefix (utf8 [235, 179, 180, 237, 152, 184, 58]) line then []
         else if CHR ''.'' \<in> set line \<and> plain_name (before CHR ''.'' line)
           then map (Pair (before CHR ''.'' line)) (split_cols (before CHR ''('' (after CHR ''.'' line)))
         else [])"

definition column_pairs :: "pdict \<Rightarrow> (string \<times> string) list" where
  "column_pairs r =
     (let pairs = concat (map line_pairs (split_on (CHR 0x0A) (gstr r ''storage_table'')));
          tbl = clean r ''table''; loc = clean r ''storage_location''; cols = clean r ''storage_column''
      in if pairs \<noteq> [] then pairs
         else if tbl = [] \<and> CHR ''.'' \<in> set loc \<and> plain_name (before CHR ''.'' loc)
           then map (Pair (before CHR ''.'' loc)) (split_cols (sor cols (after CHR ''.'' loc)))
         else map (Pair tbl) (split_cols cols))"

definition emit_column :: "(string \<times> string \<times> string) list \<Rightarrow> string \<times> string \<times> string \<Rightarrow> (string \<times> string \<times> string) list" where
  "emit_column out c =
     (case c of (table, col, item) \<Rightarrow>
        let col = strip (before CHR ''('' (strip col)); entry = (sor (strip table) (utf8 [40, 235, 175, 184,
     236, 167, 128, 236, 160, 149, 41]), col, item)
        in if col = [] \<or> entry \<in> set out then out else out @ [entry])"

definition column_entries :: "pdict \<Rightarrow> (string \<times> string \<times> string) list" where
  "column_entries r = map (\<lambda>(t, c). (t, c, sor (clean r ''item'') ''?'')) (column_pairs r)"

definition build_column_item_map :: "pdict list \<Rightarrow> (string \<times> string \<times> string) list" where
  "build_column_item_map rows =
     sort_key (\<lambda>(t, c, i). (t, c)) (foldl emit_column [] (concat (map column_entries rows)))"

section \<open>Laws of grouping\<close>

lemma dwf_foldl_group: "dwf d \<Longrightarrow> dwf (foldl (group_step key start add) d rows)"
  by (induction rows arbitrary: d) (auto simp: group_step_def)

lemma dwf_grouped [simp]: "dwf (grouped key start add rows)"
  by (simp add: grouped_def dwf_foldl_group)

lemma map_of_foldl_group:
  "map_of (foldl (group_step key start add) d rows) k =
     (if \<exists>r \<in> set rows. key r = k
      then Some (foldl add (case map_of d k of None \<Rightarrow> start k | Some g \<Rightarrow> g) (filter (\<lambda>r. key r = k) rows)) else map_of d k)"
  by (induction rows arbitrary: d) (auto simp: group_step_def split: option.splits)

text \<open>Each group has seen exactly the rows of its key, in their order.\<close>

lemma map_of_grouped:
  "map_of (grouped key start add rows) k =
     (if k \<in> key ` set rows then Some (foldl add (start k) (filter (\<lambda>r. key r = k) rows)) else None)"
  by (auto simp: grouped_def map_of_foldl_group)

lemma keys_grouped: "set (keys (grouped key start add rows)) = key ` set rows"
proof (intro set_eqI)
  fix k
  have "k \<in> set (keys (grouped key start add rows)) \<longleftrightarrow> map_of (grouped key start add rows) k \<noteq> None"
    by (simp add: map_of_eq_None_iff)
  then show "k \<in> set (keys (grouped key start add rows)) \<longleftrightarrow> k \<in> key ` set rows" by (simp add: map_of_grouped)
qed

lemma grouped_member:
  "(k, g) \<in> set (grouped key start add rows) \<longleftrightarrow>
     k \<in> key ` set rows \<and> g = foldl add (start k) (filter (\<lambda>r. key r = k) rows)"
  using map_of_eq_Some_iff [OF dwf_grouped, of key start add rows k g]
  by (auto simp: map_of_grouped split: if_splits)

lemma set_add_new [simp]: "set (add_new xs v) = set xs \<union> ({v} - {[]})"
  by (auto simp: add_new_def)

lemma distinct_add_new [simp]: "distinct xs \<Longrightarrow> distinct (add_new xs v)"
  by (simp add: add_new_def)

section \<open>Groups list what their rows say\<close>

lemma set_foldl_new: "set (foldl (\<lambda>xs r. add_new xs (f r)) xs rows) = set xs \<union> (f ` set rows - {[]})"
  by (induction rows arbitrary: xs) auto

lemma foldl_items:
  "distinct (fg_required g @ fg_optional g) \<Longrightarrow>
   (let g' = foldl add_file_row g rows in
    distinct (fg_required g' @ fg_optional g')
    \<and> set (fg_required g' @ fg_optional g') = set (fg_required g @ fg_optional g) \<union> ((\<lambda>r. clean r ''item'') ` set rows - {[]}))"
proof (induction rows arbitrary: g)
  case (Cons r rows)
  have step: "distinct (fg_required (add_file_row g r) @ fg_optional (add_file_row g r))"
    "set (fg_required (add_file_row g r) @ fg_optional (add_file_row g r))
      = set (fg_required g @ fg_optional g) \<union> ({clean r ''item''} - {[]})"
    using Cons.prems by (auto simp: add_file_row_def add_file_item_def Let_def)
  show ?case using Cons.IH [OF step(1)] step(2) by (auto simp: Let_def)
qed simp

lemma file_items_exact:
  assumes "(k, g) \<in> set (file_groups rows)"
  shows "distinct (fg_required g @ fg_optional g)"
    "set (fg_required g @ fg_optional g) = (\<lambda>r. clean r ''item'') ` {r \<in> set rows. file_key r = k} - {[]}"
proof -
  let ?e = "\<lparr>fg_required = [], fg_optional = [], fg_third = [], fg_purposes = [], fg_subjects = [], fg_tables = []\<rparr>"
  have g: "g = foldl add_file_row ?e (filter (\<lambda>r. file_key r = k) rows)"
    using assms by (simp add: file_groups_def grouped_member)
  show "distinct (fg_required g @ fg_optional g)"
    "set (fg_required g @ fg_optional g) = (\<lambda>r. clean r ''item'') ` {r \<in> set rows. file_key r = k} - {[]}"
    using foldl_items [of ?e "filter (\<lambda>r. file_key r = k) rows"] by (simp_all add: g Let_def)
qed

text \<open>A task is approved as soon as one of its rows is: the rows beside it count as approved with it.\<close>

lemma foldl_approved:
  "task_approved (foldl add_task_row g rows) \<longleftrightarrow>
     task_approved g \<or> (\<exists>r \<in> set rows. clean r ''review_status'' = ''confirmed'' \<or> clean r ''source'' = ''manual'')"
proof (induction rows arbitrary: g)
  case (Cons r rows)
  have "task_approved (add_task_row g r) \<longleftrightarrow>
      task_approved g \<or> clean r ''review_status'' = ''confirmed'' \<or> clean r ''source'' = ''manual''"
    by (auto simp: task_approved_def add_task_row_def)
  then show ?case using Cons.IH [of "add_task_row g r"] by auto
qed simp

lemma task_approved_iff:
  assumes "(k, g) \<in> set (tasks rows)"
  shows "task_approved g \<longleftrightarrow>
    (\<exists>r \<in> set rows. task_key r = k \<and> (clean r ''review_status'' = ''confirmed'' \<or> clean r ''source'' = ''manual''))"
proof -
  have "g = foldl add_task_row empty_task (filter (\<lambda>r. task_key r = k) rows)"
    using assms by (simp add: tasks_def grouped_member)
  moreover have "\<not> task_approved empty_task" by (simp add: task_approved_def empty_task_def)
  ultimately show ?thesis by (auto simp: foldl_approved)
qed

section \<open>The comparison with the policy\<close>












text \<open>Two of the texts that mean \<open>at once\<close> stand in ordinary periods, and a number stands in a larger one: thirty days
  count as at once, and one year fits eleven.\<close>

lemma thirty_days_at_once:
  "immediate (utf8 [51, 48, 236, 157, 188])" "\<not> retention_differs (utf8 [236, 166, 137, 236, 139, 156,
     32, 237, 140, 140, 234, 184, 176]) (utf8 [57, 48, 236, 157, 188])" "\<not> retention_differs (utf8 [49,
     235, 133, 132]) (utf8 [49, 49, 235, 133, 132])"
proof -
  show "immediate (utf8 [51, 48, 236, 157,
     188])" by (simp add: immediate_def hinted_def IMMEDIATE_HINTS_def utf8_def)
  show "\<not> retention_differs (utf8 [236, 166, 137, 236, 139, 156, 32, 237, 140, 140, 234, 184,
     176]) (utf8 [57, 48, 236, 157, 188])"
    by (simp add: immediate_def hinted_def IMMEDIATE_HINTS_def retention_differs_def utf8_def Let_def)
  show "\<not> retention_differs (utf8 [49, 235, 133, 132]) (utf8 [49, 49, 235, 133, 132])"
    by (simp add: immediate_def hinted_def IMMEDIATE_HINTS_def retention_differs_def utf8_def norm_term_def Let_def
        lower_def strip_def lstrip_def is_space_def lower_char_def is_upper_def)
qed

end
