(* ===== verification/Flow_Table.thy ===== *)
theory Flow_Table
  imports Flow_Views Settings Repository Provenance
begin

text \<open>
  The table of personal data flows (\<^verbatim>\<open>api/routes/privacy.py\<close>) with everything that writes to it: the entries by
  hand, their changes and reviews, and the rows that a scan proposes (\<^verbatim>\<open>ingest_code_review\<close> of
  \<^verbatim>\<open>api/routes/sources.py\<close>).  The rows of an analysis by a model (\<^verbatim>\<open>ingest_privacy_flow\<close>) are not modelled.  The
  dictionary of the application lies over a table with one JSON value per row.  Lines of the action log are left out.
\<close>

section \<open>Storage\<close>

fun flow_writer :: "backend \<Rightarrow> pdict dict \<Rightarrow> string \<Rightarrow> pdict \<Rightarrow> pdict dict option" where
  "flow_writer InMemory = memory_save []"
| "flow_writer (Database now) = flow_save now"
| "flow_writer Down = (\<lambda>t k r. None)"

text \<open>A row is put into the dictionary and persisted: whether that succeeded, and the state.\<close>

definition put_row :: "backend \<Rightarrow> string \<Rightarrow> pdict \<Rightarrow> rec_store \<Rightarrow> bool \<times> rec_store" where
  "put_row b k r s =
     (case flow_writer b (rs_disk s) k r of
        None \<Rightarrow> (False, cached k r s)
      | Some t \<Rightarrow> (True, (cached k r s)\<lparr>rs_disk := t\<rparr>))"

text \<open>A loop that drops rows, up to the first that the repository cannot delete.\<close>

fun drop_rows :: "backend \<Rightarrow> string list \<Rightarrow> rec_store \<Rightarrow> bool \<times> rec_store" where
  "drop_rows b [] s = (True, s)"
| "drop_rows b (k # ks) s =
     (case uncommit b k s of (False, s) \<Rightarrow> (False, s) | (True, s) \<Rightarrow> drop_rows b ks s)"

section \<open>Entries by hand\<close>

definition FLOW_FIELDS :: "string list" where
  "FLOW_FIELDS = [''item'', ''category'', ''subject'', ''collection_source'', ''storage_location'', ''storage_table'',
     ''storage_column'', ''encryption'', ''purpose'', ''retention'', ''destruction'', ''third_party'', ''overseas'', ''note'']"

definition sorted_rows :: "rec_store \<Rightarrow> pdict list" where
  "sorted_rows s =
     sort_key (\<lambda>r. (pstr (por (dget r ''item'') (PStr ''~'')), gstr r ''created_at'')) (map snd (rs_cache s))"

definition saved :: "pdict \<Rightarrow> bool \<times> rec_store \<Rightarrow> (herr + pdict) \<times> rec_store" where
  "saved r p = (if fst p then (Inr r, snd p) else (Inl ServerError, snd p))"

definition manual_row :: "string \<Rightarrow> gov_request \<Rightarrow> pdict \<Rightarrow> pdict" where
  "manual_row flow_id rq payload =
     map (\<lambda>k. (k, PStr (clean payload k))) FLOW_FIELDS
     @ [(''id'', PStr flow_id), (''source'', PStr ''manual''), (''created_at'', PStr (rq_now rq)),
        (''created_by'', PStr (rq_user rq)), (''updated_at'', PStr (rq_now rq))]"

text \<open>\<open>uuid\<close> stands for \<^verbatim>\<open>uuid.uuid4().hex\<close>.\<close>

definition add_data_flow ::
    "gov_env \<Rightarrow> backend \<Rightarrow> gov_request \<Rightarrow> string \<Rightarrow> pdict \<Rightarrow> rec_store \<Rightarrow> (herr + pdict) \<times> rec_store" where
  "add_data_flow env b rq uuid payload s =
     (if \<not> allowed env rq then (Inl Forbidden, s)
      else if clean payload ''item'' = [] then (Inl BadRequest, s)
      else let flow_id = ''pdf-'' @ take 12 uuid; r = manual_row flow_id rq payload in saved r (put_row b flow_id r s))"

definition find_row :: "string \<Rightarrow> rec_store \<Rightarrow> pdict option" where
  "find_row flow_id s = (case map_of (rs_cache s) flow_id of Some r \<Rightarrow> if r = [] then None else Some r | None \<Rightarrow> None)"

definition set_fields :: "pdict \<Rightarrow> pdict \<Rightarrow> pdict" where
  "set_fields payload r = foldl (\<lambda>r k. if dhas payload k then dset r k (PStr (clean payload k)) else r) r FLOW_FIELDS"

definition update_data_flow ::
    "gov_env \<Rightarrow> backend \<Rightarrow> gov_request \<Rightarrow> string \<Rightarrow> pdict \<Rightarrow> rec_store \<Rightarrow> (herr + pdict) \<times> rec_store" where
  "update_data_flow env b rq flow_id payload s =
     (if \<not> allowed env rq then (Inl Forbidden, s)
      else case find_row flow_id s of
          None \<Rightarrow> (Inl NotFound, s)
        | Some r \<Rightarrow>
            let r = dset (set_fields payload r) ''updated_at'' (PStr (rq_now rq)) in saved r (put_row b flow_id r s))"

definition reviewed_row :: "gov_request \<Rightarrow> pdict \<Rightarrow> pdict \<Rightarrow> pdict" where
  "reviewed_row rq payload r =
     (let action = clean payload ''action'';
          r = (if dhas payload ''assignee'' then dset r ''assignee'' (PStr (take 120 (clean payload ''assignee''))) else r);
          r = (if action = ''confirm'' then dset (dset (dset r ''review_status'' (PStr ''confirmed''))
                 ''reviewed_by'' (PStr (rq_user rq))) ''reviewed_at'' (PStr (rq_now rq))
               else if action = ''reopen'' then dset (dset (dset r ''review_status'' (PStr ''pending''))
                 ''reviewed_by'' (PStr [])) ''reviewed_at'' (PStr [])
               else r)
      in dset r ''updated_at'' (PStr (rq_now rq)))"

definition review_data_flow ::
    "gov_env \<Rightarrow> backend \<Rightarrow> gov_request \<Rightarrow> string \<Rightarrow> pdict \<Rightarrow> rec_store \<Rightarrow> (herr + pdict) \<times> rec_store" where
  "review_data_flow env b rq flow_id payload s =
     (if \<not> allowed env rq then (Inl Forbidden, s)
      else case find_row flow_id s of
          None \<Rightarrow> (Inl NotFound, s)
        | Some r \<Rightarrow> let r = reviewed_row rq payload r in saved r (put_row b flow_id r s))"

definition delete_data_flow ::
    "gov_env \<Rightarrow> backend \<Rightarrow> gov_request \<Rightarrow> string \<Rightarrow> rec_store \<Rightarrow> (herr + pdict) \<times> rec_store" where
  "delete_data_flow env b rq flow_id s =
     (if \<not> allowed env rq then (Inl Forbidden, s)
      else if \<not> dhas (rs_cache s) flow_id then (Inl NotFound, s)
      else saved [(''ok'', PBool True), (''id'', PStr flow_id)] (uncommit b flow_id s))"

definition reset_data_flow :: "gov_env \<Rightarrow> backend \<Rightarrow> gov_request \<Rightarrow> rec_store \<Rightarrow> (herr + pdict) \<times> rec_store" where
  "reset_data_flow env b rq s =
     (if \<not> allowed env rq then (Inl Forbidden, s)
      else saved [(''ok'', PBool True), (''cleared'', PInt (int (length (rs_cache s))))] (drop_rows b (keys (rs_cache s)) s))"

section \<open>Rows of a scan\<close>

definition seed_id :: "(string \<Rightarrow> string) \<Rightarrow> string \<Rightarrow> pdict \<Rightarrow> string" where
  "seed_id H1 repo row = ''pdf-'' @ take 12 (H1 (flow_key repo row))"

definition stamp_row :: "string \<Rightarrow> string \<Rightarrow> string \<Rightarrow> pdict \<Rightarrow> pdict" where
  "stamp_row flow_id now by row =
     dmerge row [(''id'', PStr flow_id), (''created_at'', PStr now), (''created_by'', PStr by), (''updated_at'', PStr now)]"

text \<open>The loop of \<^verbatim>\<open>ingest_code_review\<close>, which counts the rows that are not saved and goes on.\<close>

fun seed_all ::
    "(string \<Rightarrow> string) \<Rightarrow> backend \<Rightarrow> string \<Rightarrow> string \<Rightarrow> string \<Rightarrow> pdict list \<Rightarrow> rec_store \<Rightarrow> (int \<times> int) \<times> rec_store" where
  "seed_all H1 b repo now by [] s = ((0, 0), s)"
| "seed_all H1 b repo now by (row # rows) s =
     (let flow_id = seed_id H1 repo row; (ok, s) = put_row b flow_id (stamp_row flow_id now by row) s;
          ((n, m), s) = seed_all H1 b repo now by rows s
      in (if ok then (n + 1, m) else (n, m + 1), s))"

text \<open>The loop of \<^verbatim>\<open>seed_from_scan\<close>, which ends with the first row that is not saved.\<close>

fun seed_until ::
    "(string \<Rightarrow> string) \<Rightarrow> backend \<Rightarrow> string \<Rightarrow> string \<Rightarrow> (string \<times> pdict) list \<Rightarrow> rec_store \<Rightarrow> bool \<times> rec_store" where
  "seed_until H1 b now by [] s = (True, s)"
| "seed_until H1 b now by ((repo, row) # rows) s =
     (let flow_id = seed_id H1 repo row
      in case put_row b flow_id (stamp_row flow_id now by row) s of
           (False, s) \<Rightarrow> (False, s) | (True, s) \<Rightarrow> seed_until H1 b now by rows s)"

text \<open>The findings among the alerts, with their repository; \<open>None\<close> where the provenance of a finding is neither an
  object nor empty and reading it raises.\<close>

definition alert_provenance :: "alert \<Rightarrow> pdict option" where
  "alert_provenance a =
     (case por (dget (al_raw_payload a) ''_provenance'') (PDict []) of PDict d \<Rightarrow> Some d | _ \<Rightarrow> None)"

definition review_alerts :: "repo \<Rightarrow> alert list" where
  "review_alerts r = filter (\<lambda>a. al_source a = ''code_review'') (map snd (re_alerts r))"

definition finding_repo :: "string \<Rightarrow> pdict \<Rightarrow> string" where
  "finding_repo want f = pstr (por (por (dget f ''_repo'') (PStr want)) (PStr []))"

definition scan_findings :: "string \<Rightarrow> repo \<Rightarrow> pdict list option" where
  "scan_findings want r =
     map_option (\<lambda>xs. map snd (filter (\<lambda>(r_repo, f). want = [] \<or> r_repo = want) xs))
       (those (map (\<lambda>a. map_option (\<lambda>p. (gstr p ''repo'', dsetdefault (al_raw_payload a) ''_repo'' (PStr (gstr p ''repo''))))
          (alert_provenance a)) (review_alerts r)))"

definition scan_rows :: "string \<Rightarrow> pdict list \<Rightarrow> (string \<times> pdict) list" where
  "scan_rows want findings =
     concat (map (\<lambda>(repo, fs). map (Pair repo) (seed_rows_from_findings fs repo)) (group_by (finding_repo want) findings))"

definition seed_from_scan ::
    "gov_env \<Rightarrow> backend \<Rightarrow> gov_request \<Rightarrow> string \<Rightarrow> repo \<Rightarrow> rec_store \<Rightarrow> (herr + pdict) \<times> rec_store" where
  "seed_from_scan env b rq repo ents s =
     (if \<not> allowed env rq then (Inl Forbidden, s)
      else case scan_findings (strip repo) ents of
          None \<Rightarrow> (Inl ServerError, s)
        | Some findings \<Rightarrow>
            let rows = scan_rows (strip repo) findings
            in saved [(''ok'', PBool True), (''seeded'', PInt (int (length rows))),
                (''scanned_findings'', PInt (int (length findings)))]
               (seed_until (ge_H1 env) b (rq_now rq) (rq_user rq) rows s))"

end
