(* ===== verification/Evidence_Stamp.thy ===== *)
theory Evidence_Stamp
  imports Flow_Table
begin

text \<open>
  Evidence that the application itself puts on file for a control (\<^verbatim>\<open>services/evidence.py\<close>): the stamp with the hash
  of the content, the promotion of a scan to the controls of secure development (\<^verbatim>\<open>_promote_scan_to_controls\<close> of
  \<^verbatim>\<open>api/routes/sources.py\<close>) and of the flow table to those of privacy (\<^verbatim>\<open>promote_evidence\<close> of
  \<^verbatim>\<open>api/routes/privacy.py\<close>).
\<close>

section \<open>The stamp\<close>

definition CONTENT_KEYS :: "string list" where
  "CONTENT_KEYS = [''control_id'', ''title'', ''body'', ''summary'', ''source'', ''source_event_id'', ''repo'', ''commit'',
     ''reference'', ''findings_count'', ''verified'', ''collected_at'', ''collected_by'']"

definition evidence_hash :: "(string \<Rightarrow> string) \<Rightarrow> pdict \<Rightarrow> string" where
  "evidence_hash H r = hash_content H r (Some CONTENT_KEYS) None [] False"

definition stamp_evidence :: "(string \<Rightarrow> string) \<Rightarrow> pdict \<Rightarrow> pdict option" where
  "stamp_evidence H r =
     (let h = evidence_hash H r;
          r = dsetdefault (dset r ''content_hash'' (PStr h)) ''version'' (PStr (take 12 h));
          r = dsetdefault r ''generated_at'' (por (dget r ''created_at'') (dget r ''collected_at''))
      in attach_provenance r)"

section \<open>A scan as evidence\<close>

definition CODE_REVIEW_CONTROL_IDS :: "string list" where
  "CODE_REVIEW_CONTROL_IDS = [''2.8.1'', ''2.8.5'', ''A.8.25'', ''A.8.28'']"

text \<open>What a scan says of itself.\<close>

record scan_facts =
  sf_event :: string
  sf_repo :: string
  sf_commit :: string
  sf_count :: int
  sf_verified :: bool
  sf_run_url :: string
  sf_collected_at :: string

definition verdict_label :: "scan_facts \<Rightarrow> string" where
  "verdict_label f = (if sf_verified f then utf8 [234, 178, 128, 236, 166, 157, 235, 144, 168, 40, 79, 73,
     68, 67, 41] else utf8 [235, 175, 184, 234, 178, 128, 236, 166, 157])"

definition promotion_title :: "scan_facts \<Rightarrow> string" where
  "promotion_title f =
     utf8 [236, 189, 148, 235, 147, 156, 32, 235, 179, 180, 236, 149, 136, 32, 235, 166, 172, 235, 183, 176,
     32, 236, 138, 164, 236, 186, 148, 32, 226, 128, 148,
     32] @ sor (sf_repo f) ''?'' @ ''@'' @ take 8 (sor (sf_commit f) ''HEAD'') @ utf8 [32, 194, 183, 32, 102,
     105, 110, 100, 105, 110, 103, 115, 32]
     @ int_str (sf_count f) @ utf8 [234, 177, 180, 32, 194, 183, 32] @ verdict_label f"

definition promotion_body :: "scan_facts \<Rightarrow> string" where
  "promotion_body f =
     join (utf8 [32, 194, 183, 32])
       ([utf8 [235, 160, 136, 237, 143, 172, 58, 32] @ sor (sf_repo f) ''?'', utf8 [236, 187, 164, 235, 176,
     139, 58, 32] @ sor (sf_commit f) ''HEAD'',
         utf8 [237, 131, 144, 236, 167, 128, 32, 102, 105, 110, 100, 105, 110, 103, 115, 58,
     32] @ int_str (sf_count f) @ utf8 [234, 177, 180], ''provenance: '' @ verdict_label f]
        @ (if sf_run_url f \<noteq> [] then [utf8 [236, 139, 164, 237, 150, 137, 32, 235, 161, 156, 234, 183,
     184, 58, 32] @ sf_run_url f] else []))"

definition promotion_id :: "(string \<Rightarrow> string) \<Rightarrow> string \<Rightarrow> string \<Rightarrow> string" where
  "promotion_id H1 event cid = ''cr-ev-'' @ take 16 (H1 (event @ ''|'' @ cid))"

definition promotion_record :: "(string \<Rightarrow> string) \<Rightarrow> string \<Rightarrow> scan_facts \<Rightarrow> string \<Rightarrow> pdict" where
  "promotion_record H1 now f cid =
     [(''id'', PStr (promotion_id H1 (sf_event f) cid)), (''control_id'', PStr cid), (''title'', PStr (promotion_title f)),
      (''body'', PStr (promotion_body f)), (''collected_by'', PStr (utf8 [77, 79, 82, 73, 32, 236, 189, 148,
     235, 147, 156, 32, 235, 166, 172, 235, 183, 176, 32, 237, 140, 140, 236, 157, 180, 237, 148, 132, 235, 157, 188, 236, 157, 184])),
      (''collected_at'', PStr (sf_collected_at f)), (''reference'', PStr (sf_run_url f)), (''source'', PStr ''code_review''),
      (''source_event_id'', PStr (sf_event f)), (''repo'', PStr (sf_repo f)), (''commit'', PStr (sf_commit f)),
      (''findings_count'', PInt (sf_count f)), (''verified'', PBool (sf_verified f)), (''created_at'', PStr now),
      (''created_by'', PStr ''code_review'')]"

text \<open>The stamp never fails on such a record.  A record that cannot be persisted stays in memory and is not counted.\<close>

definition promoted :: "(string \<Rightarrow> string) \<Rightarrow> (string \<Rightarrow> string) \<Rightarrow> string \<Rightarrow> scan_facts \<Rightarrow> string \<Rightarrow> pdict" where
  "promoted H H1 now f cid =
     (case stamp_evidence H (promotion_record H1 now f cid) of None \<Rightarrow> [] | Some r \<Rightarrow> r)"

definition promote_one ::
    "(string \<Rightarrow> string) \<Rightarrow> (string \<Rightarrow> string) \<Rightarrow> backend \<Rightarrow> string \<Rightarrow> scan_facts \<Rightarrow> int \<times> rec_store \<Rightarrow> string \<Rightarrow> int \<times> rec_store" where
  "promote_one H H1 b now f acc cid =
     (case commit b CONTROL_EVIDENCE (promotion_id H1 (sf_event f) cid) (promoted H H1 now f cid) (snd acc) of
        (ok, s) \<Rightarrow> (if ok then fst acc + 1 else fst acc, s))"

definition promote_scan_to_controls ::
    "(string \<Rightarrow> string) \<Rightarrow> (string \<Rightarrow> string) \<Rightarrow> backend \<Rightarrow> string \<Rightarrow> scan_facts \<Rightarrow> rec_store \<Rightarrow> int \<times> rec_store" where
  "promote_scan_to_controls H H1 b now f s = foldl (promote_one H H1 b now f) (0, s) CODE_REVIEW_CONTROL_IDS"

section \<open>The flow table as evidence\<close>

definition PRIVACY_FLOW_CONTROL_IDS :: "string list" where
  "PRIVACY_FLOW_CONTROL_IDS = [''3.1.1'', ''3.2.1'', ''3.4.1'']"

definition told :: "pdict \<Rightarrow> string \<Rightarrow> bool" where
  "told r k = (clean r k \<notin> {[], utf8 [236, 151, 134, 236, 157, 140], ''-'', ''n/a''})"

definition flow_places :: "pdict list \<Rightarrow> string list" where
  "flow_places rows =
     sorted_list_of_set (set (map (\<lambda>r. clean r ''storage_location'') (filter (\<lambda>r. truthy (dget r ''storage_location'')) rows)))"

definition flow_title :: "pdict list \<Rightarrow> string" where
  "flow_title rows =
     utf8 [234, 176, 156, 236, 157, 184, 236, 160, 149, 235, 179, 180, 32, 236, 178, 152, 235, 166, 172, 237,
     157, 144, 235, 166, 132, 237, 145, 156, 32, 226, 128, 148, 32, 237, 149, 173, 235, 170, 169,
     32] @ int_str (int (length rows)) @ utf8 [234, 177, 180, 32, 194, 183, 32, 236, 160, 128, 236, 158, 165,
     236, 156, 132, 236, 185, 152, 32]
     @ int_str (int (length (flow_places rows))) @ utf8 [234, 179, 179]"

definition flow_body :: "pdict list \<Rightarrow> string" where
  "flow_body rows =
     (let items = map (\<lambda>r. pstr (por (dget r ''item'') (PStr ''?''))) rows
      in utf8 [234, 176, 156, 236, 157, 184, 236, 160, 149, 235, 179, 180, 32, 237, 149, 173, 235, 170, 169,
     58, 32] @ join '', '' (take 12 items) @ (if 12 < length items then utf8 [32, 236, 153, 184] else [])
         @ utf8 [32, 194, 183, 32, 236, 160, 128, 236, 158, 165, 236, 156, 132, 236, 185, 152, 58,
     32] @ sor (join '', '' (take 8 (flow_places rows))) (utf8 [235, 175, 184, 234, 184, 176, 236, 158, 172])
         @ utf8 [32, 194, 183, 32, 236, 160, 156, 51, 236, 158, 144, 236, 160, 156, 234, 179, 181,
     32] @ int_str (counted (\<lambda>r. told r ''third_party'') rows)
         @ utf8 [234, 177, 180, 32, 194, 183, 32, 234, 181, 173, 236, 153, 184, 236, 157, 180, 236, 160, 132,
     32] @ int_str (counted (\<lambda>r. told r ''overseas'') rows)
         @ utf8 [234, 177, 180, 32, 194, 183, 32, 236, 136, 152, 236, 167, 145, 226, 134, 146, 236, 160, 128,
     236, 158, 165, 226, 134, 146, 236, 157, 180, 236, 154, 169, 226, 134, 146, 237, 140, 140, 234, 184, 176, 32, 237, 157, 144, 235, 166, 132, 235, 143, 132, 32, 236, 178, 168, 235, 182, 128, 40, 47, 112, 114, 105, 118, 97, 99, 121, 47, 100, 97, 116, 97, 45, 102, 108, 111, 119, 46, 115, 118, 103, 41])"

definition flow_evidence_id :: "(string \<Rightarrow> string) \<Rightarrow> string \<Rightarrow> string" where
  "flow_evidence_id H1 cid = ''pdf-ev-'' @ take 16 (H1 (''privacy-flow|'' @ cid))"

definition flow_evidence :: "gov_env \<Rightarrow> gov_request \<Rightarrow> pdict list \<Rightarrow> string \<Rightarrow> pdict" where
  "flow_evidence env rq rows cid =
     (let ev_id = flow_evidence_id (ge_H1 env) cid;
          r = [(''id'', PStr ev_id), (''control_id'', PStr cid), (''title'', PStr (flow_title rows)), (''body'', PStr (flow_body rows)),
               (''collected_by'', PStr (utf8 [77, 79, 82, 73, 32, 234, 176, 156, 236, 157, 184, 236, 160,
     149, 235, 179, 180, 32, 237, 157, 144, 235, 166, 132, 237, 145, 156])), (''collected_at'', PStr (take 10 (rq_now rq))),
               (''reference'', PStr ''/privacy/data-flow.svg''), (''source'', PStr ''privacy_flow''), (''source_event_id'', PStr ev_id),
               (''created_at'', PStr (rq_now rq)), (''created_by'', PStr (sor (rq_user rq) ''privacy_flow''))]
      in case stamp_evidence (ge_H env) r of None \<Rightarrow> [] | Some r \<Rightarrow> r)"

definition promote_flow_one ::
    "gov_env \<Rightarrow> backend \<Rightarrow> gov_request \<Rightarrow> pdict list \<Rightarrow> int \<times> rec_store \<Rightarrow> string \<Rightarrow> int \<times> rec_store" where
  "promote_flow_one env b rq rows acc cid =
     (case commit b CONTROL_EVIDENCE (flow_evidence_id (ge_H1 env) cid) (flow_evidence env rq rows cid) (snd acc) of
        (ok, s) \<Rightarrow> (if ok then fst acc + 1 else fst acc, s))"

definition promote_evidence ::
    "gov_env \<Rightarrow> backend \<Rightarrow> gov_request \<Rightarrow> rec_store \<Rightarrow> rec_store \<Rightarrow> (herr + int) \<times> rec_store" where
  "promote_evidence env b rq table evidence =
     (if \<not> allowed env rq then (Inl Forbidden, evidence)
      else if rs_cache table = [] then (Inl BadRequest, evidence)
      else case foldl (promote_flow_one env b rq (sorted_rows table)) (0, evidence) PRIVACY_FLOW_CONTROL_IDS of
          (n, s) \<Rightarrow> (Inr n, s))"

section \<open>Stamps\<close>

lemma same_content_hash:
  assumes same: "\<And>k. k \<in> set CONTENT_KEYS \<Longrightarrow> dget r k = dget r' k \<and> dhas r k = dhas r' k"
  shows "evidence_hash H r = evidence_hash H r'"
proof -
  have f: "filter (dhas r) CONTENT_KEYS = filter (dhas r') CONTENT_KEYS" using same by (intro filter_cong refl) auto
  have "map (\<lambda>k. (k, dget r k)) (filter (dhas r') CONTENT_KEYS) = map (\<lambda>k. (k, dget r' k)) (filter (dhas r') CONTENT_KEYS)"
    by (rule map_cong [OF refl]) (use same in auto)
  then have "hash_core (Some CONTENT_KEYS) None r = hash_core (Some CONTENT_KEYS) None r'"
    unfolding hash_core_def option.case f by (rule arg_cong)
  then show ?thesis by (simp only: evidence_hash_def hash_content_def)
qed

definition STAMP_KEYS :: "string list" where
  "STAMP_KEYS = [''content_hash'', ''version'', ''generated_at'', ''provenance'', ''provenance_detail'']"

lemma attach_keeps:
  "attach_provenance r = Some r' \<Longrightarrow> k \<noteq> ''provenance'' \<Longrightarrow> k \<noteq> ''provenance_detail'' \<Longrightarrow> dget r' k = dget r k \<and> dhas r' k = dhas r k"
  by (auto simp: attach_provenance_def Let_def split: option.splits bool.splits)

lemma setdefault_keeps: "k \<noteq> k' \<Longrightarrow> dget (dsetdefault r k' v) k = dget r k \<and> dhas (dsetdefault r k' v) k = dhas r k"
  by (simp add: dsetdefault_def)

text \<open>Stamping leaves the content alone, so the stamp of a stamped record is the hash of what it holds.\<close>

lemma stamp_keeps:
  assumes "stamp_evidence H r = Some r'"
  shows "k \<notin> set STAMP_KEYS \<Longrightarrow> dget r' k = dget r k \<and> dhas r' k = dhas r k"
    "dget r' ''content_hash'' = PStr (evidence_hash H r)"
proof -
  define r1 where "r1 = dset r ''content_hash'' (PStr (evidence_hash H r))"
  define r2 where "r2 = dsetdefault r1 ''version'' (PStr (take 12 (evidence_hash H r)))"
  define r3 where "r3 = dsetdefault r2 ''generated_at'' (por (dget r2 ''created_at'') (dget r2 ''collected_at''))"
  have a: "attach_provenance r3 = Some r'" using assms by (simp add: stamp_evidence_def Let_def r1_def r2_def r3_def)
  show "dget r' k = dget r k \<and> dhas r' k = dhas r k" if "k \<notin> set STAMP_KEYS"
    using attach_keeps [OF a, of k] setdefault_keeps [of k] that by (simp add: STAMP_KEYS_def r1_def r2_def r3_def)
  show "dget r' ''content_hash'' = PStr (evidence_hash H r)"
    using attach_keeps [OF a, of "''content_hash''"] setdefault_keeps [of "''content_hash''"] by (simp add: r1_def r2_def r3_def)
qed

lemma stamp_true:
  assumes "stamp_evidence H r = Some r'"
  shows "evidence_hash H r' = evidence_hash H r" "dget r' ''content_hash'' = PStr (evidence_hash H r')"
proof -
  have "k \<notin> set STAMP_KEYS" if "k \<in> set CONTENT_KEYS" for k
    using that by (auto simp: CONTENT_KEYS_def STAMP_KEYS_def)
  then show "evidence_hash H r' = evidence_hash H r"
    by (intro same_content_hash) (use stamp_keeps(1) [OF assms] in blast)
  then show "dget r' ''content_hash'' = PStr (evidence_hash H r')" using stamp_keeps(2) [OF assms] by simp
qed

section \<open>Promoting twice\<close>

lemma promoted_content: "evidence_hash H (promoted H H1 now f cid) = evidence_hash H (promoted H H1 now' f cid)"
proof -
  have hash: "evidence_hash H (promotion_record H1 now f cid) = evidence_hash H (promotion_record H1 now' f cid)"
    by (rule same_content_hash) (auto simp: CONTENT_KEYS_def promotion_record_def)
  have "stamp_evidence H (promotion_record H1 n f cid) \<noteq> None" for n
    by (simp add: stamp_evidence_def attach_provenance_def Let_def promotion_record_def dsetdefault_def split: pv.split)
  then obtain r r' where "stamp_evidence H (promotion_record H1 now f cid) = Some r"
    "stamp_evidence H (promotion_record H1 now' f cid) = Some r'" by blast
  then show ?thesis using hash stamp_true(1) by (simp add: promoted_def)
qed

lemma commit_cache: "rs_cache (snd (commit b tb k r s)) = dset (rs_cache s) k r"
  by (auto simp: commit_def persist_def cached_def split: option.split)

definition promotions :: "(string \<Rightarrow> string) \<Rightarrow> (string \<Rightarrow> string) \<Rightarrow> string \<Rightarrow> scan_facts \<Rightarrow> pdict dict" where
  "promotions H H1 now f = map (\<lambda>cid. (promotion_id H1 (sf_event f) cid, promoted H H1 now f cid)) CODE_REVIEW_CONTROL_IDS"

lemma promote_cache: "rs_cache (snd (promote_scan_to_controls H H1 b now f s)) = dmerge (rs_cache s) (promotions H H1 now f)"
proof -
  have "rs_cache (snd (foldl (promote_one H H1 b now f) acc cids)) =
      dmerge (rs_cache (snd acc)) (map (\<lambda>cid. (promotion_id H1 (sf_event f) cid, promoted H H1 now f cid)) cids)" for acc cids
  proof (induction cids arbitrary: acc)
    case (Cons cid cids)
    have "rs_cache (snd (promote_one H H1 b now f acc cid))
        = dset (rs_cache (snd acc)) (promotion_id H1 (sf_event f) cid) (promoted H H1 now f cid)"
      by (simp add: promote_one_def commit_cache [of b CONTROL_EVIDENCE, symmetric] split: prod.split)
    then show ?case using Cons.IH [of "promote_one H H1 b now f acc cid"] by (simp add: dmerge_def)
  qed (simp add: dmerge_def)
  then show ?thesis by (simp add: promote_scan_to_controls_def promotions_def)
qed

lemma keys_dset_old: "dhas d k \<Longrightarrow> keys (dset d k v) = keys d"
  by (induction d) (auto simp: dhas_def split: if_splits)

lemma keys_dmerge_old: "(\<forall>kv \<in> set kvs. dhas d (fst kv)) \<Longrightarrow> keys (dmerge d kvs) = keys d"
  by (induction kvs arbitrary: d) (auto simp: dmerge_def keys_dset_old)

lemma dhas_dmerge: "dhas (dmerge d kvs) k \<longleftrightarrow> dhas d k \<or> k \<in> set (keys kvs)"
  by (induction kvs arbitrary: d) (auto simp: dmerge_def)

lemma map_of_same_view: "(\<And>x. g (val x) = g (val' x)) \<Longrightarrow>
    map_option g (map_of (rev (map (\<lambda>x. (key x, val x)) xs)) k) = map_option g (map_of (rev (map (\<lambda>x. (key x, val' x)) xs)) k)"
  by (induction xs rule: rev_induct) auto

text \<open>Promoting the same scan again, at another time and with another state of the database, adds no evidence and
  leaves the content hash of every piece of evidence as it was: ingestion and backfill do not compete.\<close>

lemma promotion_idempotent:
  "let s1 = snd (promote_scan_to_controls H H1 b now f s); s2 = snd (promote_scan_to_controls H H1 b' now' f s1)
   in keys (rs_cache s2) = keys (rs_cache s1)
    \<and> map_option (evidence_hash H) (map_of (rs_cache s2) k) = map_option (evidence_hash H) (map_of (rs_cache s1) k)"
proof -
  have ids: "keys (promotions H H1 now' f) = keys (promotions H H1 now f)" by (simp add: promotions_def o_def)
  have same: "map_option (evidence_hash H) (map_of (rev (promotions H H1 now' f)) k)
      = map_option (evidence_hash H) (map_of (rev (promotions H H1 now f)) k)"
    unfolding promotions_def by (rule map_of_same_view) (rule promoted_content)
  have "keys (dmerge (dmerge d (promotions H H1 now f)) (promotions H H1 now' f)) = keys (dmerge d (promotions H H1 now f))" for d
    by (rule keys_dmerge_old) (auto simp: dhas_dmerge ids [symmetric])
  moreover have "map_option (evidence_hash H) (map_of (dmerge (dmerge d (promotions H H1 now f)) (promotions H H1 now' f)) k)
      = map_option (evidence_hash H) (map_of (dmerge d (promotions H H1 now f)) k)" for d
    using same unfolding dmerge_def foldl_dset_map_of by (auto split: option.splits)
  ultimately show ?thesis by (simp add: Let_def promote_cache)
qed

section \<open>What the table forgets\<close>

text \<open>The table of evidence has no column for the stamp: after a restart the content hash, the version, the provenance
  and the scan that a piece of evidence came from are gone.\<close>

lemma stamp_not_stored:
  assumes "row_of CONTROL_EVIDENCE now old k r = Some row"
  shows "dget row ''content_hash'' = PNone" "dget row ''version'' = PNone" "dget row ''source_event_id'' = PNone"
  using assms
  by (auto simp: row_of_def CONTROL_EVIDENCE_def split: option.splits)

text \<open>\<open>N/A\<close> is no recipient in the views, and one in the evidence.\<close>

lemma not_applicable_counts: "\<not> real_text ''N/A''" "told [(''third_party'', PStr ''N/A'')] ''third_party''"
  by (simp_all add: real_text_def NONE_TEXTS_def told_def clean_def gstr_def por_def pstr_def strip_def lstrip_def is_space_def utf8_def)

end
