(* ===== verification/Scan_Ingest.thy ===== *)
theory Scan_Ingest
  imports Evidence_Stamp Oidc Pipelines Scan_Diff
begin

text \<open>
  The routes that take results over HTTP and those that look after them, \<^verbatim>\<open>api/routes/sources.py\<close>: reports of Trivy,
  alerts of Wazuh, findings of a code review with their provenance, the comparison of two scans, the backfill and
  the removal of scans.  The ingestion writes to a repository of entities through \<open>sw_save\<close>, which is \<open>repo_save\<close> or
  fails like a database; the state repository is a backend, or there is none.  The clock gives one time per request.
\<close>

section \<open>Findings in a body\<close>

definition max_findings :: "string dict \<Rightarrow> int" where
  "max_findings env = (case env_int env ''MORI_MAX_FINDINGS'' 20000 of None \<Rightarrow> 20000 | Some n \<Rightarrow> n)"

definition cap_findings :: "string dict \<Rightarrow> 'a list \<Rightarrow> 'a list" where
  "cap_findings env findings =
     (let c = max_findings env in if 0 < c \<and> c < int (length findings) then take (nat c) findings else findings)"

text \<open>One result of a SARIF run; \<open>None\<close> where the location is neither an object nor empty and reading it raises.\<close>

definition dict_at :: "pdict \<Rightarrow> string \<Rightarrow> pdict" where
  "dict_at d k = as_dict (dget d k)"

definition sarif_place :: "pdict \<Rightarrow> pdict option" where
  "sarif_place r =
     (let locs = as_list (dget r ''locations'');
          phys = (case locs of PDict l # _ \<Rightarrow> dget l ''physicalLocation'' | _ \<Rightarrow> PDict [])
      in case por phys (PDict []) of PDict d \<Rightarrow> Some d | _ \<Rightarrow> None)"

definition sarif_finding :: "pdict \<Rightarrow> pdict option" where
  "sarif_finding r =
     map_option (\<lambda>phys.
       let msg = dict_at r ''message''; art = dict_at phys ''artifactLocation''; region = dict_at phys ''region'';
           snip = dict_at region ''snippet''
       in [(''id'', por (dget r ''guid'') (dget r ''correlationGuid'')), (''rule_id'', dget r ''ruleId''),
           (''severity'', dget r ''level''), (''title'', dget msg ''text''), (''message'', dget msg ''text''),
           (''file'', dget art ''uri''), (''line'', dget region ''startLine''), (''snippet'', dget snip ''text'')])
     (sarif_place r)"

definition run_findings :: "pv \<Rightarrow> pdict list option" where
  "run_findings run =
     (if is_dict run
      then Option.bind (py_list (por (dget (as_dict run) ''results'') (PList [])))
             (\<lambda>rs. those (map (\<lambda>r. sarif_finding (as_dict r)) (filter is_dict rs)))
      else Some [])"

fun is_list :: "pv \<Rightarrow> bool" where
  "is_list (PList xs) = True"
| "is_list _ = False"

definition extract_code_findings :: "string dict \<Rightarrow> pdict \<Rightarrow> pdict list option" where
  "extract_code_findings env payload =
     (if is_list (dget payload ''findings'')
        then Some (cap_findings env (map as_dict (filter is_dict (as_list (dget payload ''findings'')))))
      else if is_list (dget payload ''runs'')
        then map_option (\<lambda>xs. cap_findings env (concat xs)) (those (map run_findings (as_list (dget payload ''runs''))))
      else if list_ex (dhas payload) [''rule_id'', ''ruleId'', ''title'', ''severity'', ''level''] then Some [payload]
      else Some [])"

section \<open>State and requests\<close>

record scan_state =
  sc_jwks :: pdict
  sc_seen :: "int dict"
  sc_repo :: repo
  sc_events :: "pdict dict"
  sc_evidence :: rec_store
  sc_flow :: rec_store

record scan_world =
  sw_env :: "string dict"
  sw_oidc :: oidc_world
  sw_H :: "string \<Rightarrow> string"
  sw_H1 :: "string \<Rightarrow> string"
  sw_save :: "repo \<Rightarrow> entity \<Rightarrow> repo option"
  sw_store :: "backend option"

text \<open>A push: the headers, the parameters of the query, the body and the time.\<close>

record scan_push =
  sp_auth :: push_request
  sp_oidc :: string
  sp_query :: "string dict"
  sp_body :: pdict
  sp_now :: dtime

definition clock_us :: "dtime \<Rightarrow> int" where
  "clock_us now = dt_us now - EPOCH_US"

definition param :: "scan_push \<Rightarrow> string \<Rightarrow> string" where
  "param p k = strip (env_get (sp_query p) k [])"

text \<open>\<^verbatim>\<open>(q or "").strip() or str(body.get(a) or body.get(b) or "").strip()\<close>\<close>

definition own_word :: "scan_push \<Rightarrow> string \<Rightarrow> string list \<Rightarrow> string" where
  "own_word p k ks = sor (param p k) (strip (pstr (foldr por (map (dget (sp_body p)) ks) (PStr []))))"

section \<open>Where a scan comes from\<close>

definition driver_name :: "pv list \<Rightarrow> string" where
  "driver_name runs =
     (case runs of [] \<Rightarrow> []
      | r # _ \<Rightarrow> (case por r (PDict []) of PDict d \<Rightarrow>
          (case por (dget d ''tool'') (PDict []) of PDict t \<Rightarrow>
            (case dgetd t ''driver'' (PDict []) of PDict v \<Rightarrow> gstr v ''name'' | _ \<Rightarrow> []) | _ \<Rightarrow> []) | _ \<Rightarrow> []))"

definition tool_label :: "pdict \<Rightarrow> string" where
  "tool_label payload =
     (if is_list (dget payload ''runs'') then sor (driver_name (as_list (dget payload ''runs''))) ''Semgrep'' @ utf8 [40, 235, 172, 180, 235, 163, 140, 41]
      else if is_list (dget payload ''findings'') then utf8 [67, 108, 97, 117, 100, 101, 40, 236, 156, 160,
     235, 163, 140, 41]
      else utf8 [236, 138, 164, 236, 186, 148])"

record origin =
  or_repo :: string
  or_commit :: string
  or_pr :: string
  or_run :: string
  or_url :: string
  or_verified :: bool

text \<open>\<^verbatim>\<open>str(claims.get(k) or own or "")\<close>\<close>

definition claim_or :: "pdict \<Rightarrow> string \<Rightarrow> string \<Rightarrow> string" where
  "claim_or c k own = pstr (por (por (dget c k) (PStr own)) (PStr []))"

definition scan_origin :: "scan_push \<Rightarrow> pdict option \<Rightarrow> origin" where
  "scan_origin p claims =
     (let repo = own_word p ''repo'' [''repo'', ''repository'']; cmt = own_word p ''commit'' [''commit'', ''sha''];
          run = own_word p ''run_id'' [''run_id''];
          repo = (case claims of None \<Rightarrow> repo | Some c \<Rightarrow> claim_or c ''repository'' repo);
          cmt = (case claims of None \<Rightarrow> cmt | Some c \<Rightarrow> claim_or c ''sha'' cmt);
          run = (case claims of None \<Rightarrow> run | Some c \<Rightarrow> claim_or c ''run_id'' run)
      in \<lparr>or_repo = repo, or_commit = cmt, or_pr = own_word p ''pr'' [''pr'', ''pr_number''], or_run = run,
          or_url = sor (own_word p ''run_url'' [''run_url''])
            (if repo \<noteq> [] \<and> run \<noteq> [] then ''https://github.com/'' @ repo @ ''/actions/runs/'' @ run else []),
          or_verified = (claims \<noteq> None)\<rparr>)"

definition text_or_none :: "string \<Rightarrow> pv" where
  "text_or_none s = (if s = [] then PNone else PStr s)"

definition scan_provenance :: "scan_world \<Rightarrow> scan_push \<Rightarrow> origin \<Rightarrow> pdict list \<Rightarrow> pdict" where
  "scan_provenance w p g findings =
     (let tool = tool_label (sp_body p); scanner = own_word p ''scanner'' [''scanner'', ''scanner_version''];
          ruleset = own_word p ''ruleset'' [''ruleset'']; model = own_word p ''model'' [''model'']
      in [(''repo'', text_or_none (or_repo g)), (''commit'', text_or_none (or_commit g)), (''pr'', text_or_none (or_pr g)),
          (''run_id'', text_or_none (or_run g)), (''run_url'', text_or_none (or_url g)),
          (''scan_time'', PStr (dt_isoformat (sp_now p))), (''verified'', PBool (or_verified g)), (''tool'', PStr tool),
          (''scanner'', text_or_none scanner), (''ruleset'', text_or_none ruleset), (''model'', text_or_none model),
          (''input_signature'', PStr (scan_input_signature (sw_H1 w) (text_or_none (or_repo g)) (PStr (or_commit g)) (PStr tool)
             (PStr scanner) (PStr ruleset) (PStr model))),
          (''findings_hash'', PStr (findings_content_hash (sw_H w) (map PDict findings)))])"

section \<open>A code review\<close>

definition scan_event_id :: "scan_world \<Rightarrow> origin \<Rightarrow> string \<Rightarrow> string" where
  "scan_event_id w g now_iso =
     ''cr-scan-'' @ take 16 (sw_H1 w (sor (join ''|'' (filter (\<lambda>x. x \<noteq> []) [or_repo g, or_commit g, or_run g])) now_iso))"

definition pii_note :: "int \<Rightarrow> int \<Rightarrow> string" where
  "pii_note n failed =
     (if n \<noteq> 0 then utf8 [32, 194, 183, 32, 234, 176, 156, 236, 157, 184, 236, 160, 149, 235, 179,
     180, 32, 237, 157, 144, 235, 166, 132, 237, 145, 156, 32, 236, 139, 156, 235, 147, 156,
     32] @ int_str n @ utf8 [234, 177, 180] else utf8 [32, 194, 183, 32, 234, 176, 156, 236, 157, 184, 236,
     160, 149, 235, 179, 180, 32, 48, 234, 177, 180])
     @ (if failed \<noteq> 0 then utf8 [40, 236, 160, 128, 236, 158, 165, 236, 139, 164, 237, 140, 168,
     32] @ int_str failed @ utf8 [234, 177, 180, 41] else [])"

definition scan_event :: "string \<Rightarrow> origin \<Rightarrow> pdict \<Rightarrow> string \<Rightarrow> int \<Rightarrow> int \<times> int \<Rightarrow> pdict" where
  "scan_event ev_id g provenance now_iso n pii =
     (let r = [(''id'', PStr ev_id), (''host_id'', PStr (or_repo g)), (''artifact_name'', PStr (or_repo g)),
            (''delta_type'', PStr ''code_review_scan''), (''cve'', PStr []),
            (''summary'', PStr (utf8 [236, 189, 148, 235, 147, 156, 32, 235, 179, 180, 236, 149, 136, 32,
     235, 166, 172, 235, 183, 176, 32, 236, 138, 164, 236, 186, 148, 58, 32] @ sor (or_repo g) ''?'' @ ''@'' @ take 8 (sor (or_commit g) ''HEAD'')
               @ utf8 [32, 226, 128, 148, 32, 102, 105, 110, 100, 105, 110, 103, 115,
     32] @ int_str n @ utf8 [234, 177, 180] @ pii_note (fst pii) (snd pii))),
            (''source'', PStr ''code_review''), (''envelope'', PDict provenance), (''received_at'', PStr now_iso),
            (''findings_count'', PInt n), (''pii_seeded'', PInt (fst pii))]
      in case attach_provenance r of None \<Rightarrow> r | Some r \<Rightarrow> r)"

definition save_event :: "backend \<Rightarrow> pdict dict \<Rightarrow> string \<Rightarrow> pdict \<Rightarrow> pdict dict option" where
  "save_event b t k r = writer b EVIDENCE_EVENTS t k r"

text \<open>What is put on file when the findings are in: the rows of the flow table, the scan itself, the evidence of the
  controls.  The numbers of the answer: whether the scan is recorded, the evidence, the rows.\<close>

definition record_scan ::
    "scan_world \<Rightarrow> backend \<Rightarrow> scan_push \<Rightarrow> origin \<Rightarrow> pdict \<Rightarrow> pdict list \<Rightarrow> scan_state \<Rightarrow> (bool \<times> int \<times> int) \<times> scan_state" where
  "record_scan w b p g provenance findings s =
     (let now_iso = dt_isoformat (sp_now p); ev_id = scan_event_id w g now_iso;
          rows = seed_rows_from_findings findings (or_repo g);
          (pii, flow) = seed_all (sw_H1 w) b (pstr (text_or_none (or_repo g))) now_iso ''code_review'' rows (sc_flow s);
          s = s\<lparr>sc_flow := flow\<rparr>;
          record = scan_event ev_id g provenance now_iso (int (length findings)) pii;
          (recorded, events) = (case save_event b (sc_events s) ev_id record of None \<Rightarrow> (False, sc_events s) | Some t \<Rightarrow> (True, t));
          s = s\<lparr>sc_events := events\<rparr>;
          (n, evidence) = promote_scan_to_controls (sw_H w) (sw_H1 w) b now_iso
            \<lparr>sf_event = ev_id, sf_repo = or_repo g, sf_commit = or_commit g, sf_count = int (length findings),
             sf_verified = or_verified g, sf_run_url = or_url g, sf_collected_at = take 10 now_iso\<rparr> (sc_evidence s)
      in ((recorded, n, fst pii), s\<lparr>sc_evidence := evidence\<rparr>))"

definition http_sync :: "string \<Rightarrow> dtime \<Rightarrow> string \<Rightarrow> report \<Rightarrow> source_sync" where
  "http_sync source now message rep =
     \<lparr>sy_source = source, sy_status = ''success'', sy_last_sync_at = now, sy_last_success_at = Some now,
      sy_last_error_at = None, sy_message = Some message, sy_records_collected = rp_records rep,
      sy_envelopes_normalized = rp_envelopes rep, sy_entities_saved = rp_entities rep\<rparr>"

definition save_sync :: "scan_world \<Rightarrow> source_sync \<Rightarrow> repo \<Rightarrow> repo" where
  "save_sync w y r = (case sw_save w r (ESync y) of None \<Rightarrow> r | Some r' \<Rightarrow> r')"

definition review_answer :: "report \<Rightarrow> origin \<Rightarrow> bool \<times> int \<times> int \<Rightarrow> pdict" where
  "review_answer rep g counts =
     [(''ok'', PBool True), (''records_collected'', PInt (rp_records rep)), (''entities_saved'', PInt (rp_entities rep)),
      (''repo'', text_or_none (or_repo g)), (''commit'', text_or_none (or_commit g)), (''pr'', text_or_none (or_pr g)),
      (''run_url'', text_or_none (or_url g)), (''scan_recorded'', PBool (fst counts)), (''provenance_verified'', PBool (or_verified g)),
      (''evidence_promoted'', PInt (fst (snd counts))), (''privacy_flow_seeded'', PInt (snd (snd counts)))]"

definition replay_answer :: "origin \<Rightarrow> pdict" where
  "replay_answer g =
     [(''ok'', PBool True), (''duplicate'', PBool True), (''replayed'', PBool True), (''repo'', text_or_none (or_repo g)),
      (''commit'', text_or_none (or_commit g)), (''run_id'', text_or_none (or_run g))]"

text \<open>From the findings on: the ingestion, which answers 400 when it raises, and the records.\<close>

definition review_collector :: "scan_world \<Rightarrow> scan_push \<Rightarrow> origin \<Rightarrow> pdict list \<Rightarrow> collector" where
  "review_collector w p g findings =
     scan_collector (sw_H1 w) (ReviewScan (new_code_review (map PDict findings) (or_repo g))) (sp_now p)"

definition take_findings ::
    "scan_world \<Rightarrow> scan_push \<Rightarrow> origin \<Rightarrow> pdict list \<Rightarrow> scan_state \<Rightarrow> (push_error + pdict) \<times> scan_state" where
  "take_findings w p g fs s =
     (let provenance = scan_provenance w p g fs;
          findings = map (\<lambda>f. dsetdefault f ''_provenance'' (PDict provenance)) fs;
          st = ingest_collector (sw_H1 w) (sw_save w) (review_collector w p g findings) (new_mapper []) (sc_repo s);
          s = s\<lparr>sc_repo := in_repo st\<rparr>
      in if in_exc st \<noteq> None then (Inl BadBody, s)
         else let (counts, s) = (case sw_store w of None \<Rightarrow> ((False, 0, 0), s)
                     | Some b \<Rightarrow> record_scan w b p g provenance findings s);
                  y = http_sync ''code_review'' (sp_now p)
                        (''http ingest: '' @ int_str (rp_records (in_report st)) @ '' findings ('' @ sor (or_repo g) ''?'' @ ''@''
                          @ take 8 (sor (or_commit g) ''HEAD'') @ '')'') (in_report st)
              in (Inr (review_answer (in_report st) g counts), s\<lparr>sc_repo := save_sync w y (sc_repo s)\<rparr>))"

definition oidc_demanded :: "string dict \<Rightarrow> bool" where
  "oidc_demanded env = (lower (strip (env_get env ''MORI_INGEST_REQUIRE_OIDC'' [])) \<in> {''1'', ''true'', ''yes''})"

definition no_database :: "string dict \<Rightarrow> bool" where
  "no_database env = (strip (env_get env ''MORI_DATABASE_URL'' []) = [])"

definition ingest_code_review :: "scan_world \<Rightarrow> scan_push \<Rightarrow> scan_state \<Rightarrow> (push_error + pdict) \<times> scan_state" where
  "ingest_code_review w p s =
     (let env = sw_env w;
          (checked, jwks) = verify_oidc_header (sw_oidc w) env (sp_oidc p) (clock_us (sp_now p) div US) (sc_jwks s);
          s = s\<lparr>sc_jwks := jwks\<rparr>
      in case checked of
           Inl e \<Rightarrow> (Inl e, s)
         | Inr claims \<Rightarrow>
             (case (if claims \<noteq> None then None else if oidc_demanded env then Some Unidentified else require_ingest_auth env (sp_auth p)) of
                Some e \<Rightarrow> (Inl e, s)
              | None \<Rightarrow>
                  if no_database env then (Inl NoBackend, s)
                  else (case extract_code_findings env (sp_body p) of
                      None \<Rightarrow> (Inl Broken, s)
                    | Some fs \<Rightarrow>
                        if fs = [] \<and> \<not> is_list (dget (sp_body p) ''findings'') \<and> \<not> is_list (dget (sp_body p) ''runs'')
                        then (Inl BadBody, s)
                        else let g = scan_origin p claims; (again, seen) = is_replayed env (clock_us (sp_now p)) claims (sc_seen s);
                                 s = s\<lparr>sc_seen := seen\<rparr>
                             in if again then (Inr (replay_answer g), s) else take_findings w p g fs s)))"

end
