(* ===== verification/Scan_Routes.thy ===== *)
theory Scan_Routes
  imports Scan_Ingest Csv
begin

text \<open>
  The other routes of \<^verbatim>\<open>api/routes/sources.py\<close>: reports of Trivy, alerts of Wazuh and evidence events over HTTP, the
  list of events, the comparison of two scans, the table of findings, the backfill of evidence and the removal of a
  scan.  The events are a table of the state repository without
  a dictionary in front of it; ties in the order of its rows are kept in the order of the table.
\<close>

section \<open>Reports and alerts\<close>

definition ingest_with ::
    "scan_world \<Rightarrow> string \<Rightarrow> string \<Rightarrow> dtime \<Rightarrow> collector \<Rightarrow> (report \<Rightarrow> pdict) \<Rightarrow> scan_state \<Rightarrow> (push_error + pdict) \<times> scan_state" where
  "ingest_with w source unit now c answer s =
     (let st = ingest_collector (sw_H1 w) (sw_save w) c (new_mapper []) (sc_repo s); rep = in_report st
      in if in_exc st \<noteq> None then (Inl BadBody, s\<lparr>sc_repo := in_repo st\<rparr>)
         else (Inr (answer rep),
           s\<lparr>sc_repo := save_sync w (http_sync source now (''http ingest: '' @ int_str (rp_records rep) @ '' '' @ unit) rep) (in_repo st)\<rparr>))"

definition trivy_host :: "scan_push \<Rightarrow> string" where
  "trivy_host p =
     sor (param p ''hostname'') (sor (strip (pu_host_header (sp_auth p)))
       (strip (pstr (por (por (dget (sp_body p) ''hostname'') (dget (sp_body p) ''host_id'')) (PStr [])))))"

definition trivy_answer :: "scan_push \<Rightarrow> report \<Rightarrow> pdict" where
  "trivy_answer p rep =
     [(''ok'', PBool True), (''records_collected'', PInt (rp_records rep)), (''entities_saved'', PInt (rp_entities rep)),
      (''artifact'', dget (sp_body p) ''ArtifactName''), (''host_id'', por (PStr (trivy_host p)) (dget (sp_body p) ''ArtifactName''))]"

definition ingest_trivy :: "scan_world \<Rightarrow> scan_push \<Rightarrow> scan_state \<Rightarrow> (push_error + pdict) \<times> scan_state" where
  "ingest_trivy w p s =
     (let aliases = filter (\<lambda>a. a \<noteq> []) (map (\<lambda>a. strip (pstr a)) (as_list (dget (sp_body p) ''host_aliases'')));
          c = new_trivy [] [PDict (sp_body p)] aliases (trivy_host p)
      in case require_ingest_auth (sw_env w) (sp_auth p) of
           Some e \<Rightarrow> (Inl e, s)
         | None \<Rightarrow>
             if no_database (sw_env w) then (Inl NoBackend, s)
             else if \<not> dhas (sp_body p) ''Results'' then (Inl BadBody, s)
             else ingest_with w ''trivy'' ''records'' (sp_now p) (scan_collector (sw_H1 w) (TrivyScan c) (sp_now p)) (trivy_answer p) s)"

definition wazuh_alerts :: "pdict \<Rightarrow> pv list" where
  "wazuh_alerts body =
     filter (\<lambda>a. is_dict a \<and> truthy (dget (as_dict a) ''rule''))
       (if is_list (dget body ''alerts'') then as_list (dget body ''alerts'') else [PDict body])"

definition wazuh_answer :: "report \<Rightarrow> pdict" where
  "wazuh_answer rep =
     [(''ok'', PBool True), (''records_collected'', PInt (rp_records rep)), (''entities_saved'', PInt (rp_entities rep))]"

text \<open>The alerts are written as lines of JSON for the collector, which reads them back.\<close>

definition ingest_wazuh :: "scan_world \<Rightarrow> scan_push \<Rightarrow> scan_state \<Rightarrow> (push_error + pdict) \<times> scan_state" where
  "ingest_wazuh w p s =
     (case require_ingest_auth (sw_env w) (sp_auth p) of
        Some e \<Rightarrow> (Inl e, s)
      | None \<Rightarrow>
          if no_database (sw_env w) then (Inl NoBackend, s)
          else if wazuh_alerts (sp_body p) = [] then (Inl BadBody, s)
          else ingest_with w ''wazuh'' ''alerts'' (sp_now p)
            (scan_collector (sw_H1 w) (WazuhScan (map Inr (wazuh_alerts (sp_body p)))) (sp_now p)) wazuh_answer s)"

section \<open>Evidence events\<close>

definition load_events :: "backend \<Rightarrow> int \<Rightarrow> pdict dict \<Rightarrow> pdict list option" where
  "load_events b limit t =
     (if b = Down then None else Some (take (nat (max 0 limit)) (sort_desc (\<lambda>r. gstr r ''received_at'') (map snd t))))"

definition any_text :: "pdict \<Rightarrow> string list \<Rightarrow> pv \<Rightarrow> string" where
  "any_text d ks other = pstr (por (foldr por (map (dget d) ks) other) (PStr []))"

definition event_seed :: "pdict \<Rightarrow> string \<times> string \<times> string \<times> string \<Rightarrow> string \<Rightarrow> int \<Rightarrow> string" where
  "event_seed item cells received_at n =
     (case cells of (host, artifact, cve, delta) \<Rightarrow>
        let seed = join ''|'' [host, artifact, cve, delta, gstr item ''raw_ref'']
        in if list_all (\<lambda>c. c = CHR ''|'') seed then received_at @ ''|'' @ int_str n else seed)"

definition event_record :: "(string \<Rightarrow> string) \<Rightarrow> pdict \<Rightarrow> string \<Rightarrow> int \<Rightarrow> pdict \<Rightarrow> pdict" where
  "event_record H1 body now_iso n item =
     (let scan = dict_at item ''scan''; default_host = strip (any_text body [''hostname'', ''host_id''] PNone);
          host = strip (any_text item [''host_id'', ''hostname''] (PStr default_host));
          artifact = strip (any_text item [''artifact_name'', ''ArtifactName''] (dget scan ''target''));
          delta = strip (any_text item [''delta_type'', ''delta''] PNone);
          cve = strip (any_text item [''cve'', ''VulnerabilityID'', ''vuln_id''] PNone);
          received_at = any_text item [''received_at'', ''completed_at''] (por (dget scan ''completed_at'') (PStr now_iso));
          own_id = strip (any_text item [''id'', ''event_id''] PNone);
          ev_id = (if own_id \<noteq> [] then own_id
                   else ''evi-'' @ take 16 (H1 (event_seed item (host, artifact, cve, delta) received_at n)))
      in [(''id'', PStr ev_id), (''host_id'', PStr host), (''artifact_name'', PStr artifact), (''delta_type'', PStr delta),
          (''cve'', PStr cve), (''summary'', PStr (strip (any_text item [''summary'', ''title''] PNone))),
          (''source'', PStr (sor (strip (any_text item [''source''] (por (dget body ''source'') (PStr ''csop'')))) ''csop'')),
          (''envelope'', PDict item), (''received_at'', PStr received_at)])"

fun take_events ::
    "scan_world \<Rightarrow> backend \<Rightarrow> pdict \<Rightarrow> string \<Rightarrow> pv list \<Rightarrow> string list \<Rightarrow> pdict dict \<Rightarrow> (push_error + string list) \<times> pdict dict" where
  "take_events w b body now_iso [] ids t = (Inr ids, t)"
| "take_events w b body now_iso (v # vs) ids t =
     (case v of
        PDict item \<Rightarrow>
          (let r = event_record (sw_H1 w) body now_iso (int (length ids)) item; k = gstr r ''id''
           in case save_event b t k r of
                None \<Rightarrow> (Inl BadBody, t)
              | Some t \<Rightarrow> take_events w b body now_iso vs (ids @ [k]) t)
      | _ \<Rightarrow> take_events w b body now_iso vs ids t)"

definition ingest_evidence :: "scan_world \<Rightarrow> scan_push \<Rightarrow> scan_state \<Rightarrow> (push_error + string list) \<times> scan_state" where
  "ingest_evidence w p s =
     (case require_ingest_auth (sw_env w) (sp_auth p) of
        Some e \<Rightarrow> (Inl e, s)
      | None \<Rightarrow>
          (case sw_store w of
             None \<Rightarrow> (Inl NoBackend, s)
           | Some b \<Rightarrow>
               (let items = (if is_list (dget (sp_body p) ''events'') then as_list (dget (sp_body p) ''events'') else [PDict (sp_body p)]);
                    (r, t) = take_events w b (sp_body p) (dt_isoformat (sp_now p)) items [] (sc_events s)
                in (case r of Inr ids \<Rightarrow> if ids = [] then Inl BadBody else Inr ids | Inl e \<Rightarrow> Inl e, s\<lparr>sc_events := t\<rparr>))))"

definition evidence_list ::
    "gov_env \<Rightarrow> gov_request \<Rightarrow> backend option \<Rightarrow> int \<Rightarrow> string \<Rightarrow> string \<Rightarrow> pdict dict \<Rightarrow> herr + pdict list option" where
  "evidence_list env rq store limit host delta t =
     (if \<not> allowed env rq then Inl Forbidden
      else case store of
          None \<Rightarrow> Inr None
        | Some b \<Rightarrow>
            Inr (map_option (filter (\<lambda>e. (host = [] \<or> dget e ''host_id'' = PStr host) \<and> (delta = [] \<or> dget e ''delta_type'' = PStr delta)))
              (load_events b (max 1 (min (if limit = 0 then 200 else limit) 1000)) t)))"

section \<open>Looking back at scans\<close>

definition is_scan :: "pdict \<Rightarrow> bool" where
  "is_scan e = (dget e ''delta_type'' = PStr ''code_review_scan'')"

definition envelope_of :: "pdict \<Rightarrow> pdict" where
  "envelope_of e = as_dict (por (dget e ''envelope'') (PDict []))"

definition alerts_of_commit :: "string \<Rightarrow> string \<Rightarrow> repo \<Rightarrow> pdict list option" where
  "alerts_of_commit repo cmt r =
     map_option (\<lambda>xs. map snd (filter (\<lambda>(p, f). gstr p ''repo'' = repo \<and> gstr p ''commit'' = cmt) xs))
       (those (map (\<lambda>a. map_option (\<lambda>p. (p, al_raw_payload a)) (alert_provenance a)) (review_alerts r)))"

definition pick :: "pdict list \<Rightarrow> string \<Rightarrow> nat option" where
  "pick events cmt =
     (if cmt = [] then None
      else List.find (\<lambda>i. gstr (envelope_of (events ! i)) ''commit'' = cmt) [0..<length events])"

datatype comparison = TooFew int | Compared scan_summary int

definition findings_number :: "pdict \<Rightarrow> int" where
  "findings_number e = (case py_int (por (dget e ''findings_count'') (PInt 0)) of None \<Rightarrow> 0 | Some n \<Rightarrow> n)"

definition code_review_scan_diff ::
    "gov_env \<Rightarrow> gov_request \<Rightarrow> backend \<Rightarrow> string \<Rightarrow> string \<Rightarrow> string \<Rightarrow> scan_state \<Rightarrow> herr + comparison" where
  "code_review_scan_diff env rq b repo base head s =
     (if \<not> allowed env rq then Inl Forbidden
      else case load_events b 1000 (sc_events s) of
          None \<Rightarrow> Inl ServerError
        | Some all_events \<Rightarrow>
            (let events = sort_desc (\<lambda>e. gstr e ''received_at'')
                   (filter (\<lambda>e. is_scan e \<and> gstr (envelope_of e) ''repo'' = repo) all_events)
             in if length events < 2 then Inr (TooFew (int (length events)))
                else let cur = (case pick events head of Some i \<Rightarrow> i | None \<Rightarrow> 0);
                         prev = (case pick events base of Some i \<Rightarrow> i | None \<Rightarrow> if cur = 0 then 1 else 0);
                         env_of = (\<lambda>i. envelope_of (events ! i));
                         of_commit = (\<lambda>i. alerts_of_commit repo (gstr (env_of i) ''commit'') (sc_repo s))
                     in (case (of_commit prev, of_commit cur) of
                           (Some fs, Some gs) \<Rightarrow>
                             Inr (Compared (summarize_diff (env_of prev) (env_of cur) fs gs)
                               (findings_number (events ! cur) - findings_number (events ! prev)))
                         | _ \<Rightarrow> Inl ServerError)))"

definition SEVERITY_RANKS :: "int dict" where
  "SEVERITY_RANKS = [(''critical'', 0), (''high'', 1), (''medium'', 2), (''low'', 3), (''info'', 4)]"

definition commit_fits :: "string \<Rightarrow> string \<Rightarrow> bool" where
  "commit_fits want cmt = (want = [] \<or> cmt = want \<or> prefix want cmt \<or> prefix cmt want)"

definition finding_csv_row :: "alert \<Rightarrow> pdict \<Rightarrow> pdict" where
  "finding_csv_row a p =
     (let f = al_raw_payload a
      in [(''repo'', PStr (gstr p ''repo'')), (''commit'', PStr (take 12 (gstr p ''commit''))),
          (''file'', PStr (any_text f [''file'', ''path''] PNone)),
          (''line'', if dget f ''line'' = PNone then PStr [] else dget f ''line''), (''severity'', PStr (al_severity a)),
          (''rule'', PStr (sor (or_else (al_rule_id a) []) (any_text f [''rule_id'', ''category''] PNone))),
          (''title'', PStr (or_else (al_rule_name a) [])), (''message'', PStr (al_message a)),
          (''verified'', PStr (if truthy (dget p ''verified'') then utf8 [234, 178, 128, 236, 166, 157, 235,
     144, 168] else utf8 [235, 175, 184, 234, 178, 128, 236, 166, 157])),
          (''detected_at'', PStr (dt_isoformat (al_observed_at a)))])"

definition csv_finding_key :: "pdict \<Rightarrow> int \<times> string \<times> string" where
  "csv_finding_key r =
     (case map_of SEVERITY_RANKS (gstr r ''severity'') of None \<Rightarrow> 9 | Some n \<Rightarrow> n, pstr (dget r ''file''), pstr (dget r ''line''))"

definition code_review_findings_rows ::
    "gov_env \<Rightarrow> gov_request \<Rightarrow> string \<Rightarrow> string \<Rightarrow> scan_state \<Rightarrow> herr + pdict list" where
  "code_review_findings_rows env rq repo cmt s =
     (if \<not> allowed env rq then Inl Forbidden
      else case those (map (\<lambda>a. map_option (Pair a) (alert_provenance a)) (review_alerts (sc_repo s))) of
          None \<Rightarrow> Inl ServerError
        | Some aps \<Rightarrow>
            Inr (sort_key csv_finding_key (map (\<lambda>(a, p). finding_csv_row a p)
              (filter (\<lambda>(a, p). (strip repo = [] \<or> gstr p ''repo'' = strip repo) \<and> commit_fits (strip cmt) (gstr p ''commit'')) aps))))"

section \<open>Backfill\<close>

definition exact :: "string \<Rightarrow> rx" where
  "exact t = foldr (\<lambda>d r. Seq (Chr (\<lambda>c. c = d)) r) t Eps"

definition COUNT_RX :: rx where
  "COUNT_RX = seqs [exact ''findings'', spaces1, Group (some1 (Chr is_digit))]"

definition event_count :: "pdict \<Rightarrow> int" where
  "event_count e =
     (if dget e ''findings_count'' \<noteq> PNone then findings_number e
      else case rx_group1 COUNT_RX (gstr e ''summary'') of None \<Rightarrow> 0 | Some n \<Rightarrow> int (undec n))"

text \<open>The facts of a scan from its event.  A repository, commit or link that is no text is put down as its text.\<close>

definition facts_of_event :: "string \<Rightarrow> pdict \<Rightarrow> scan_facts" where
  "facts_of_event today e =
     (let env = envelope_of e
      in \<lparr>sf_event = gstr e ''id'', sf_repo = pstr (por (por (dget env ''repo'') (dget e ''host_id'')) (PStr [])),
          sf_commit = gstr env ''commit'', sf_count = event_count e, sf_verified = truthy (dget env ''verified''),
          sf_run_url = gstr env ''run_url'',
          sf_collected_at = sor (take 10 (gstr e ''received_at'')) (sor (take 10 (gstr env ''scan_time'')) today)\<rparr>)"

fun backfill_all ::
    "(string \<Rightarrow> string) \<Rightarrow> (string \<Rightarrow> string) \<Rightarrow> backend \<Rightarrow> string \<Rightarrow> pdict list \<Rightarrow> rec_store \<Rightarrow> int \<times> rec_store" where
  "backfill_all H H1 b now [] s = (0, s)"
| "backfill_all H H1 b now (e # es) s =
     (let (n, s) = promote_scan_to_controls H H1 b now (facts_of_event (take 10 now) e) s; (m, s) = backfill_all H H1 b now es s
      in (n + m, s))"

definition code_review_backfill_evidence ::
    "gov_env \<Rightarrow> gov_request \<Rightarrow> backend \<Rightarrow> scan_state \<Rightarrow> (herr + int \<times> int) \<times> scan_state" where
  "code_review_backfill_evidence env rq b s =
     (if \<not> allowed env rq then (Inl Forbidden, s)
      else case load_events b 1000 (sc_events s) of
          None \<Rightarrow> (Inl ServerError, s)
        | Some events \<Rightarrow>
            (let scans = filter is_scan events; (n, t) = backfill_all (ge_H env) (ge_H1 env) b (rq_now rq) scans (sc_evidence s)
             in (Inr (int (length scans), n), s\<lparr>sc_evidence := t\<rparr>)))"

definition code_review_scan_delete ::
    "gov_env \<Rightarrow> gov_request \<Rightarrow> backend \<Rightarrow> string \<Rightarrow> scan_state \<Rightarrow> (herr + string) \<times> scan_state" where
  "code_review_scan_delete env rq b event_id s =
     (if \<not> allowed env rq then (Inl Forbidden, s)
      else if b = Down then (Inl ServerError, s)
      else (Inr event_id, s\<lparr>sc_events := table_delete (sc_events s) event_id\<rparr>))"

section \<open>A verified scan is a signed one\<close>

lemma take_findings_keeps:
  "sc_seen (snd (take_findings w p g fs s)) = sc_seen s \<and> sc_jwks (snd (take_findings w p g fs s)) = sc_jwks s"
  by (simp add: take_findings_def record_scan_def Let_def split: prod.splits option.splits)

lemma take_findings_answer:
  "take_findings w p g fs s = (Inr a, s') \<Longrightarrow> dget a ''provenance_verified'' = PBool (or_verified g) \<and> dget a ''repo'' = text_or_none (or_repo g)
    \<and> dget a ''commit'' = text_or_none (or_commit g)"
  by (auto simp: take_findings_def review_answer_def Let_def split: prod.splits option.splits if_splits)

lemma claim_wins: "dget c k = PStr v \<Longrightarrow> v \<noteq> [] \<Longrightarrow> claim_or c k own = v"
  by (simp add: claim_or_def por_def pstr_def)

text \<open>C35: A scan that the answer calls verified came with an identity token that a key of the key set signed, whose
  issuer, audience and times are as they must be, and the repository and the commit are those that the token names,
  whatever the query and the body say.\<close>

theorem verified_scan_signed:
  assumes "ingest_code_review w p s = (Inr a, s')" "dget a ''provenance_verified'' = PBool True"
  shows "\<exists>c. signed_by (sw_oidc w) (sc_jwks s') (strip (sp_oidc p)) c
     \<and> check_claims (oidc_policy_of (sw_env w)) (clock_us (sp_now p) div US) c = None
     \<and> (\<forall>repo sha. dget c ''repository'' = PStr repo \<and> repo \<noteq> [] \<and> dget c ''sha'' = PStr sha \<and> sha \<noteq> []
          \<longrightarrow> dget a ''repo'' = PStr repo \<and> dget a ''commit'' = PStr sha)"
proof -
  let ?now = "clock_us (sp_now p) div US"
  obtain checked jwks where v: "verify_oidc_header (sw_oidc w) (sw_env w) (sp_oidc p) ?now (sc_jwks s) = (checked, jwks)"
    by (cases "verify_oidc_header (sw_oidc w) (sw_env w) (sp_oidc p) ?now (sc_jwks s)")
  obtain claims where c: "checked = Inr claims" using assms(1) v by (cases checked) (auto simp: ingest_code_review_def)
  obtain fs again seen where r: "is_replayed (sw_env w) (clock_us (sp_now p)) claims (sc_seen s) = (again, seen)"
    by (cases "is_replayed (sw_env w) (clock_us (sp_now p)) claims (sc_seen s)")
  define t where "t = s\<lparr>sc_jwks := jwks, sc_seen := seen\<rparr>"
  obtain fs where "(again \<and> a = replay_answer (scan_origin p claims) \<and> s' = t) \<or> take_findings w p (scan_origin p claims) fs t = (Inr a, s')"
    using assms(1) v c r by (auto simp: ingest_code_review_def Let_def t_def split: option.splits if_splits)
  moreover have "dget (replay_answer (scan_origin p claims)) ''provenance_verified'' = PNone" by (simp add: replay_answer_def)
  ultimately have f: "take_findings w p (scan_origin p claims) fs t = (Inr a, s')" using assms(2) by auto
  have "or_verified (scan_origin p claims)" using take_findings_answer [OF f] assms(2) by simp
  then obtain cl where cl: "claims = Some cl" by (auto simp: scan_origin_def Let_def)
  have "sc_jwks s' = jwks" using take_findings_keeps [of w p "scan_origin p claims" fs t] f by (simp add: t_def)
  then have signed: "signed_by (sw_oidc w) (sc_jwks s') (strip (sp_oidc p)) cl \<and> check_claims (oidc_policy_of (sw_env w)) ?now cl = None"
    using header_signed v c cl by blast
  have "dget a ''repo'' = PStr repo \<and> dget a ''commit'' = PStr sha"
    if "dget cl ''repository'' = PStr repo" "repo \<noteq> []" "dget cl ''sha'' = PStr sha" "sha \<noteq> []" for repo sha
    using take_findings_answer [OF f] claim_wins that by (simp add: scan_origin_def cl Let_def text_or_none_def)
  then show ?thesis using signed by blast
qed

definition sig_text :: string where
  "sig_text = ''AAH__________wAwMTANBglghkgBZQMEAgEFAAQgZGRkZGRkZGRkZGRkZGRkZGRkZGRkZGRkZGRkZGRkZGQ''"

definition signed_claims :: pdict where
  "signed_claims =
     [(''alg'', PStr ''RS256''), (''kid'', PStr ''k1''), (''iss'', PStr GITHUB_ISSUER), (''aud'', PStr ''mori-ingest''),
      (''exp'', PInt 100), (''repository'', PStr ''o/r''), (''sha'', PStr ''c0ffee'')]"

definition signed_keys :: pdict where
  "signed_keys = [(''keys'', PList [PDict [(''kid'', PStr ''k1''), (''kty'', PStr ''RSA''), (''e'', PStr ''AQ''),
     (''n'', PStr ''__________________________________________________________________________________8'')]])]"

definition signed_token :: string where
  "signed_token = ''AAAA'' @ ''.'' @ ''AAAA'' @ ''.'' @ sig_text"

definition signed_world :: scan_world where
  "signed_world =
     \<lparr>sw_env = [(''MORI_DATABASE_URL'', ''pg'')],
      sw_oidc = \<lparr>ow_digest = (\<lambda>t. replicate 32 CHR ''d''), ow_loads = (\<lambda>b. Inr (PDict signed_claims)), ow_fetch = (\<lambda>u. None),
        ow_refetch = (\<lambda>u. None)\<rparr>,
      sw_H = id, sw_H1 = id, sw_save = repo_save, sw_store = None\<rparr>"

definition signed_push :: scan_push where
  "signed_push =
     \<lparr>sp_auth = \<lparr>pu_authorization = [], pu_token = [], pu_host_header = [], pu_hostname = [], pu_user = []\<rparr>, sp_oidc = signed_token,
      sp_query = [(''repo'', ''someone/else'')], sp_body = [(''findings'', PList [])], sp_now = \<lparr>dt_us = EPOCH_US, dt_off = Some 0\<rparr>\<rparr>"

definition signed_state :: scan_state where
  "signed_state = \<lparr>sc_jwks = signed_keys, sc_seen = [], sc_repo = empty_repo, sc_events = [], sc_evidence = empty_store,
     sc_flow = empty_store\<rparr>"

lemma signed_parts:
  "split_on CHR ''.'' signed_token = [''AAAA'', ''AAAA'', sig_text]" "b64url_decode sig_text = Some (fst sig_demo)"
  "b64url_decode ''AAAA'' = Some (replicate 3 CHR 0x00)" "strip signed_token = signed_token" "signed_token \<noteq> []"
  by code_simp+

lemma signed_key: "key_numbers (as_dict (hd (as_list (dget signed_keys ''keys'')))) = Some (snd sig_demo, 1)"
  by code_simp

lemma signed_fine: "check_claims (oidc_policy_of (sw_env signed_world)) 0 signed_claims = None"
  by code_simp

lemma signed_checked: "run_check (sw_oidc signed_world) (sw_env signed_world) signed_token 0 signed_keys = Inr signed_claims"
proof -
  have w: "ow_digest (sw_oidc signed_world) = (\<lambda>t. replicate 32 CHR ''d'')"
    "ow_loads (sw_oidc signed_world) = (\<lambda>b. Inr (PDict signed_claims))" by (simp_all add: signed_world_def)
  have c: "dget signed_claims ''alg'' = PStr ''RS256''" "dget signed_claims ''kid'' = PStr ''k1''" by (simp_all add: signed_claims_def)
  have k: "(case py_list (por (dget signed_keys ''keys'') (PList [])) of None \<Rightarrow> Inl Unexpected | Some ks \<Rightarrow> 
      find_key (dget signed_claims ''kid'') ks) = Inr (Some (as_dict (hd (as_list (dget signed_keys ''keys'')))))"
    by (simp add: signed_keys_def por_def c)
  show ?thesis
    unfolding run_check_def verify_github_oidc_def signed_parts w
    by (simp add: signed_parts decode_json_def c(1) k signed_key signed_fine sig_demo_verified)
qed

lemma verified_scan_signed_witness:
  "\<exists>a s' c. ingest_code_review signed_world signed_push signed_state = (Inr a, s') \<and> dget a ''repo'' = PStr ''o/r''
     \<and> signed_by (sw_oidc signed_world) (sc_jwks s') signed_token c"
proof -
  have h: "verify_oidc_header (sw_oidc signed_world) (sw_env signed_world) signed_token 0 signed_keys = (Inr (Some signed_claims), signed_keys)"
    using signed_checked signed_parts(4,5) by (simp add: verify_oidc_header_def answer_check_def signed_keys_def Let_def)
  have o: "or_verified (scan_origin signed_push (Some signed_claims))" "or_repo (scan_origin signed_push (Some signed_claims)) = ''o/r''"
    by (simp_all add: scan_origin_def Let_def claim_or_def signed_claims_def por_def pstr_def)
  have sel: "sp_oidc signed_push = signed_token" "sc_jwks signed_state = signed_keys" "clock_us (sp_now signed_push) = 0"
    "signed_state\<lparr>sc_jwks := signed_keys\<rparr> = signed_state" "\<not> no_database (sw_env signed_world)"
    "is_list (dget (sp_body signed_push) ''findings'')" "extract_code_findings (sw_env signed_world) (sp_body signed_push) = Some []"
    by (simp_all add: signed_push_def signed_state_def clock_us_def signed_world_def no_database_def env_get_def strip_def
        lstrip_def is_space_def extract_code_findings_def cap_findings_def Let_def)
  have "token_id signed_claims = []" by (simp add: token_id_def signed_claims_def por_def strip_def lstrip_def)
  then have rep: "is_replayed (sw_env signed_world) 0 (Some signed_claims) seen = (False, seen)" for seen
    by (simp add: is_replayed_def)
  have run: "ingest_code_review signed_world signed_push signed_state
      = take_findings signed_world signed_push (scan_origin signed_push (Some signed_claims)) [] signed_state"
    by (simp add: ingest_code_review_def sel h rep)
  have "\<exists>a s'. take_findings signed_world signed_push (scan_origin signed_push (Some signed_claims)) [] signed_state = (Inr a, s')"
    by (simp add: take_findings_def review_collector_def scan_collector_def new_code_review_def code_review_collect_def
        ingest_collector_def signed_world_def Let_def)
  then obtain a s' where i: "ingest_code_review signed_world signed_push signed_state = (Inr a, s')"
    "take_findings signed_world signed_push (scan_origin signed_push (Some signed_claims)) [] signed_state = (Inr a, s')"
    unfolding run by blast
  have "dget a ''provenance_verified'' = PBool True" "dget a ''repo'' = PStr ''o/r''"
    using take_findings_answer [OF i(2)] o by (simp_all add: text_or_none_def)
  then show ?thesis using verified_scan_signed [OF i(1)] i(1) signed_parts(4) by (auto simp: signed_push_def)
qed

section \<open>What a scan leaves behind\<close>

text \<open>The event of a scan tells the backfill what the ingestion told the promotion.\<close>

lemma attach_scan_event:
  "k \<noteq> ''provenance'' \<Longrightarrow> k \<noteq> ''provenance_detail'' \<Longrightarrow> dget (case attach_provenance r of None \<Rightarrow> r | Some r \<Rightarrow> r) k = dget r k"
  by (cases "attach_provenance r") (auto dest: attach_keeps)

lemma scan_event_fields:
  "dget (scan_event ev_id g pr now_iso n pii) ''id'' = PStr ev_id" "dget (scan_event ev_id g pr now_iso n pii) ''host_id'' = PStr (or_repo g)"
  "dget (scan_event ev_id g pr now_iso n pii) ''envelope'' = PDict pr" "dget (scan_event ev_id g pr now_iso n pii) ''findings_count'' = PInt n"
  "dget (scan_event ev_id g pr now_iso n pii) ''received_at'' = PStr now_iso"
  by (simp_all add: scan_event_def Let_def attach_scan_event)

lemma provenance_fields:
  "dget (scan_provenance w p g fs) ''repo'' = text_or_none (or_repo g)" "dget (scan_provenance w p g fs) ''commit'' = text_or_none (or_commit g)"
  "dget (scan_provenance w p g fs) ''verified'' = PBool (or_verified g)" "dget (scan_provenance w p g fs) ''run_url'' = text_or_none (or_url g)"
  by (simp_all add: scan_provenance_def Let_def)

lemma backfill_facts:
  assumes "now_iso \<noteq> []"
  shows "facts_of_event today (scan_event ev_id g (scan_provenance w p g fs) now_iso n pii) =
    \<lparr>sf_event = ev_id, sf_repo = or_repo g, sf_commit = or_commit g, sf_count = n, sf_verified = or_verified g,
     sf_run_url = or_url g, sf_collected_at = take 10 now_iso\<rparr>"
proof -
  have e: "envelope_of (scan_event ev_id g (scan_provenance w p g fs) now_iso n pii) = scan_provenance w p g fs"
    by (cases "scan_provenance w p g fs = []") (simp_all add: envelope_of_def scan_event_fields por_def scan_provenance_def Let_def)
  have t: "gstr d k = s" if "dget d k = text_or_none s" for s d k
    using that by (simp add: text_or_none_def por_def pstr_def gstr_def)
  have r: "pstr (por (por (text_or_none (or_repo g)) (PStr (or_repo g))) (PStr [])) = or_repo g"
    by (simp add: text_or_none_def por_def pstr_def)
  have i: "gstr ev ''id'' = ev_id" "event_count ev = n" "gstr ev ''received_at'' = now_iso"
    if "ev = scan_event ev_id g (scan_provenance w p g fs) now_iso n pii" for ev
    unfolding that by (simp_all add: gstr_def por_def pstr_def scan_event_fields event_count_def findings_number_def)
  have "take 10 now_iso \<noteq> []" using assms by simp
  then show ?thesis
    unfolding facts_of_event_def e Let_def i [OF refl] provenance_fields scan_event_fields r
      t [OF provenance_fields(2) [of w p g fs]] t [OF provenance_fields(4) [of w p g fs]] truthy.simps
    by (simp add: sor_def)
qed

text \<open>With the database the number of findings is not stored, and the difference of two scans is always zero.\<close>

lemma count_not_stored: "row_of EVIDENCE_EVENTS now old k r = Some row \<Longrightarrow> findings_number row = 0"
  by (simp add: findings_number_def row_of_other EVIDENCE_EVENTS_def por_def)

text \<open>The link of a verified scan is the one that the sender gave, although the token names the run.\<close>

lemma link_of_the_sender: "param p ''run_url'' \<noteq> [] \<Longrightarrow> or_url (scan_origin p (Some c)) = param p ''run_url''"
  by (simp add: scan_origin_def Let_def own_word_def sor_def)

text \<open>A finding that brings a provenance of its own keeps it, and the table of findings calls it verified.\<close>

lemma own_provenance_kept:
  assumes "dget f ''_provenance'' = PDict p" "truthy (dget p ''verified'')" "p \<noteq> []"
  shows "dsetdefault f ''_provenance'' v = f"
    "al_raw_payload a = f \<Longrightarrow> alert_provenance a = Some p \<and> dget (finding_csv_row a p) ''verified'' = PStr (utf8 [234, 178, 128, 236, 166, 157, 235, 144, 168])"
  using assms by (auto simp: dsetdefault_def dhas_def dget_def alert_provenance_def finding_csv_row_def por_def Let_def split: option.splits)

text \<open>A provenance that is a text makes every view of the findings fail, whatever else is asked for.\<close>

lemma those_None: "those xs = None \<longleftrightarrow> None \<in> set xs"
  by (induction xs) (auto split: option.splits)

lemma those_broken: "x \<in> set xs \<Longrightarrow> f x = None \<Longrightarrow> those (map (\<lambda>a. map_option (h a) (f a)) xs) = None"
  unfolding those_None by (force simp: image_iff)

lemma text_provenance_breaks:
  assumes "a \<in> set (review_alerts (sc_repo s))" "alert_provenance a = None" "allowed env rq"
  shows "code_review_findings_rows env rq repo cmt s = Inl ServerError"
    "seed_from_scan env b rq repo (sc_repo s) t = (Inl ServerError, t)"
proof -
  show "code_review_findings_rows env rq repo cmt s = Inl ServerError"
    using assms(3) by (simp add: code_review_findings_rows_def those_broken [OF assms(1), of alert_provenance, OF assms(2)])
  show "seed_from_scan env b rq repo (sc_repo s) t = (Inl ServerError, t)"
    using assms(3) by (simp add: seed_from_scan_def scan_findings_def those_broken [OF assms(1), of alert_provenance, OF assms(2)])
qed

text \<open>A finding without a commit is in the table of every commit.\<close>

lemma no_commit_fits_all: "commit_fits want []"
  by (simp add: commit_fits_def)

text \<open>Whoever may push evidence events can push one that passes for a verified scan, under an identifier of his choice:
  it replaces the event that had it, and the backfill makes evidence of the controls from it.\<close>

lemma pushed_scan_is_verified:
  assumes "dget item ''delta_type'' = PStr ''code_review_scan''" "dget item ''verified'' = PBool True"
  shows "is_scan (event_record H1 body now_iso n item)" "sf_verified (facts_of_event today (event_record H1 body now_iso n item))"
proof -
  have "any_text item [''delta_type'', ''delta''] PNone = ''code_review_scan''" using assms(1) by (simp add: any_text_def por_def pstr_def)
  then show "is_scan (event_record H1 body now_iso n item)"
    by (simp add: is_scan_def event_record_def Let_def strip_def lstrip_def is_space_def)
  have "item \<noteq> []" using assms(2) by auto
  then have "envelope_of (event_record H1 body now_iso n item) = item"
    by (simp add: envelope_of_def event_record_def Let_def por_def)
  then show "sf_verified (facts_of_event today (event_record H1 body now_iso n item))"
    using assms(2) by (simp add: facts_of_event_def Let_def)
qed

text \<open>A push that the ingestion refuses has spent its token: sent again within the window it is taken for a replay.\<close>

lemma failed_push_spends_token:
  assumes "is_replayed env now (Some c) seen = (False, seen')" "token_id c \<noteq> []" "dwf seen"
    and "now \<le> now'" "now' < now + replay_window env * US"
  shows "fst (is_replayed env now' (Some c) (sc_seen (snd (take_findings w p g fs (s\<lparr>sc_seen := seen'\<rparr>)))))"
proof -
  have u: "dwf seen'" "used_since env seen' (token_id c) now now" using processed_is_used [OF assms(1-3)] by auto
  obtain again seen2 where r: "is_replayed env now' (Some c) seen' = (again, seen2)" by (cases "is_replayed env now' (Some c) seen'")
  have "c \<noteq> []" using assms(2) token_id_Nil by auto
  then show ?thesis using replay_refused [OF u assms(4) r assms(5)] assms(2) r by (simp add: take_findings_keeps)
qed

end
