(* ===== verification/Catalog.thy ===== *)
theory Catalog
  imports Scan_Routes "HOL-Library.Product_Lexorder" "HOL-Library.Multiset"
begin

text \<open>
  The catalog of controls (\<^verbatim>\<open>services/control_catalog.py\<close>): the edits of an administrator over the catalog of the
  package, the maturity of a control, the tree of the screen, the evidence of one control with its two CSV forms, and the
  copy of the catalog in the database.  The file of the package is the argument \<open>catalog\<close>; its controls have texts
  as identifiers and lists of texts as sources.  Percentages, which are floats, and the PDF forms are left out.
\<close>

section \<open>The catalog and its edits\<close>

record catalog =
  ca_meta :: pdict
  ca_controls :: "pdict list"
  ca_mappings :: "pdict list"
  ca_defects :: "pdict list"

definition empty_catalog :: catalog where
  "empty_catalog = \<lparr>ca_meta = [], ca_controls = [], ca_mappings = [], ca_defects = []\<rparr>"

text \<open>The file may be missing or no JSON.\<close>

definition load_catalog :: "catalog option \<Rightarrow> catalog" where
  "load_catalog file = (case file of None \<Rightarrow> empty_catalog | Some c \<Rightarrow> c)"

definition CATALOG_OVERLAY :: "string list" where
  "CATALOG_OVERLAY = [''framework'', ''version'', ''domain'', ''section'', ''title_ko'', ''title_en'', ''intent_ko'', ''intent_en'',
     ''evidence_hint_ko'', ''evidence_hint_en'', ''evidence_sources'', ''tags'', ''status'']"

definition cid_of :: "pdict \<Rightarrow> string" where
  "cid_of c = (case dget c ''id'' of PStr s \<Rightarrow> s | _ \<Rightarrow> [])"

definition by_id :: "catalog \<Rightarrow> pdict dict" where
  "by_id cat = dict_of (map (\<lambda>c. (cid_of c, c)) (ca_controls cat))"

definition overlay_field :: "pdict \<Rightarrow> pdict \<Rightarrow> string \<Rightarrow> pdict" where
  "overlay_field e m f = (if dhas e f \<and> dget e f \<noteq> PNone \<and> dget e f \<noteq> PStr [] then dset m f (dget e f) else m)"

definition merge_control :: "pdict \<Rightarrow> string \<Rightarrow> pdict \<Rightarrow> pdict" where
  "merge_control base cid e =
     (let m = foldl (overlay_field e) (dset base ''id'' (PStr cid)) CATALOG_OVERLAY;
          m = dset (dsetdefault m ''framework'' (PStr ''custom'')) ''_origin'' (dgetd e ''origin'' (PStr ''manual''))
      in dset m ''_edited'' (PBool True))"

definition is_removal :: "pdict \<Rightarrow> bool" where
  "is_removal e = (dget e ''op'' = PStr ''delete'')"

definition apply_edit :: "pdict dict \<Rightarrow> string \<times> pdict \<Rightarrow> pdict dict" where
  "apply_edit d ke =
     (if fst ke = [] \<or> is_removal (snd ke) then d
      else dset d (fst ke) (merge_control (case map_of d (fst ke) of None \<Rightarrow> [] | Some c \<Rightarrow> c) (fst ke) (snd ke)))"

definition merge_edits :: "catalog \<Rightarrow> pdict dict \<Rightarrow> catalog" where
  "merge_edits cat edits =
     (if edits = [] then cat
      else let gone = map fst (filter (\<lambda>ke. fst ke \<noteq> [] \<and> is_removal (snd ke)) edits)
           in cat\<lparr>ca_controls := map snd (filter (\<lambda>kc. fst kc \<notin> set gone) (foldl apply_edit (by_id cat) edits))\<rparr>)"

definition find_control :: "catalog \<Rightarrow> string \<Rightarrow> pdict option" where
  "find_control cat cid = List.find (\<lambda>c. dget c ''id'' = PStr cid) (ca_controls cat)"

section \<open>Maturity and coverage\<close>

definition sources_of :: "pdict \<Rightarrow> string list" where
  "sources_of c = map pstr (as_list (dget c ''evidence_sources''))"

definition LITE_SOURCES :: "string list" where "LITE_SOURCES = [''zabbix'', ''trivy'', ''mori'']"
definition FULL_SOURCES :: "string list" where
  "FULL_SOURCES = [''zabbix'', ''trivy'', ''mori'', ''wazuh'', ''fleet'', ''loki'']"

text \<open>How many controls there are, and how many have a source among the given ones.\<close>

definition coverage_of :: "pdict list \<Rightarrow> string list \<Rightarrow> int \<times> int" where
  "coverage_of controls sources =
     (int (length controls), counted (\<lambda>c. list_ex (\<lambda>s. s \<in> set sources) (sources_of c)) controls)"

definition MATURITY_ORDER :: "string list" where
  "MATURITY_ORDER = [''draft'', ''reviewed'', ''mapped'', ''auto_evidence'']"

definition mapped_control_ids :: "catalog \<Rightarrow> string list" where
  "mapped_control_ids cat =
     concat (map (\<lambda>m. (if truthy (dget m ''isms_p'') then [pstr (dget m ''isms_p'')] else [])
       @ map pstr (as_list (dget m ''iso27001''))) (ca_mappings cat))"

definition control_maturity_level :: "pdict \<Rightarrow> string list \<Rightarrow> string list \<Rightarrow> string" where
  "control_maturity_level c mapped_ids auto_ids =
     (let cid = pstr (dget c ''id'')
      in if cid \<in> set auto_ids then ''auto_evidence''
         else if pstr (dget c ''status'') \<noteq> ''reviewed'' then ''draft''
         else if cid \<in> set mapped_ids then ''mapped'' else ''reviewed'')"

text \<open>The number of controls of each level, and the level of each control.\<close>

definition maturity_summary :: "string list \<Rightarrow> catalog \<Rightarrow> (string \<times> int) list \<times> (string \<times> string) list" where
  "maturity_summary auto_ids cat =
     (let per = map (\<lambda>c. (pstr (dget c ''id''), control_maturity_level c (mapped_control_ids cat) auto_ids)) (ca_controls cat)
      in (map (\<lambda>l. (l, counted (\<lambda>p. snd p = l) per)) MATURITY_ORDER, per))"

section \<open>The tree\<close>

definition ctl_framework :: "pdict \<Rightarrow> string" where
  "ctl_framework c = pstr (dgetd c ''framework'' (PStr ''?''))"

definition ctl_domain :: "pdict \<Rightarrow> string" where
  "ctl_domain c = pstr (por (dget c ''domain'') (PStr (utf8 [40, 234, 184, 176, 237, 131, 128, 41])))"

definition ctl_section :: "pdict \<Rightarrow> string" where
  "ctl_section c = pstr (por (dget c ''section'') (PStr (ctl_domain c)))"

definition tree_entry :: "pdict \<Rightarrow> pdict" where
  "tree_entry c =
     [(''id'', dget c ''id''), (''title_ko'', dgetd c ''title_ko'' (PStr [])), (''title_en'', dgetd c ''title_en'' (PStr [])),
      (''evidence_sources'', por (dget c ''evidence_sources'') (PList [])), (''status'', dgetd c ''status'' (PStr ''draft'')),
      (''mapped'', PBool (truthy (dget c ''evidence_sources'')))]"

text \<open>The order of identifiers by their parts, numbers as numbers.  A number and a word cannot be compared in Python, and
  no sort of a list with two such identifiers avoids the comparison; it raises, which is \<open>None\<close>.\<close>

type_synonym id_part = "nat \<times> int \<times> string"

definition id_parts :: "string \<Rightarrow> id_part list" where
  "id_parts cid =
     map (\<lambda>p. if p \<noteq> [] \<and> list_all is_digit p then (0, int (undec p), []) else (1, 0, p))
       (split_on (CHR ''.'') (replace_text ''A.'' [] cid))"

fun comparable :: "id_part list \<Rightarrow> id_part list \<Rightarrow> bool" where
  "comparable (x # xs) (y # ys) = (if x = y then comparable xs ys else fst x = fst y)"
| "comparable xs ys = True"

definition entry_key :: "pdict \<Rightarrow> id_part list" where
  "entry_key c = id_parts (pstr (dget c ''id''))"

definition sort_entries :: "pdict list \<Rightarrow> pdict list option" where
  "sort_entries es =
     (if list_all (\<lambda>a. list_all (\<lambda>b. comparable (entry_key a) (entry_key b)) es) es then Some (sort_key entry_key es) else None)"

type_synonym tree_section = "string \<times> pdict list"
type_synonym tree_domain = "string \<times> tree_section list"

definition tree_sections :: "pdict list \<Rightarrow> tree_section list option" where
  "tree_sections cs =
     those (map (\<lambda>sc. map_option (Pair (fst sc)) (sort_entries (map tree_entry (snd sc)))) (group_by ctl_section cs))"

definition tree_domains :: "pdict list \<Rightarrow> tree_domain list option" where
  "tree_domains cs = those (map (\<lambda>dc. map_option (Pair (fst dc)) (tree_sections (snd dc))) (group_by ctl_domain cs))"

definition KNOWN_FRAMEWORKS :: "string list" where "KNOWN_FRAMEWORKS = [''isms-p'', ''iso27001'']"

definition ordered_frameworks :: "pdict list dict \<Rightarrow> string list" where
  "ordered_frameworks fws =
     filter (dhas fws) KNOWN_FRAMEWORKS @ sort (filter (\<lambda>f. f \<notin> set KNOWN_FRAMEWORKS) (keys fws))"

record catalog_tree =
  ct_tree :: "(string \<times> tree_domain list) list"
  ct_lite :: "int \<times> int"
  ct_full :: "int \<times> int"
  ct_reviewed :: int
  ct_total :: int

definition build_tree :: "catalog \<Rightarrow> catalog_tree option" where
  "build_tree cat =
     (let cs = ca_controls cat; fws = group_by ctl_framework cs
      in map_option (\<lambda>t. \<lparr>ct_tree = t, ct_lite = coverage_of cs LITE_SOURCES, ct_full = coverage_of cs FULL_SOURCES,
             ct_reviewed = counted (\<lambda>c. pstr (dgetd c ''status'' (PStr ''draft'')) = ''reviewed'') cs, ct_total = int (length cs)\<rparr>)
           (those (map (\<lambda>fw. map_option (Pair fw) (tree_domains (case map_of fws fw of None \<Rightarrow> [] | Some g \<Rightarrow> g)))
             (ordered_frameworks fws))))"

section \<open>The evidence of a control\<close>

definition SOURCE_META :: "(string \<times> string \<times> string \<times> string) list" where
  "SOURCE_META =
     [(''trivy'', utf8 [84, 114, 105, 118, 121, 32, 236, 183, 168, 236, 149, 189, 236, 160, 144],
     ''Trivy vulnerabilities'', ''compliance''),
      (''zabbix'', utf8 [90, 97, 98, 98, 105, 120, 32, 234, 178, 189, 235, 179, 180, 194, 183, 236, 158, 144,
     236, 130, 176], ''Zabbix alerts & assets'', ''triage''),
      (''wazuh'', utf8 [87, 97, 122, 117, 104, 32, 237, 131, 144, 236, 167, 128], ''Wazuh detections'',
     ''triage''),
      (''fleet'', utf8 [70, 108, 101, 101, 116, 32, 236, 158, 144, 236, 130, 176], ''Fleet assets'',
     ''assets''),
      (''loki'', utf8 [76, 111, 107, 105, 32, 235, 161, 156, 234, 183, 184], ''Loki logs'', ''assets''),
      (''mori'', utf8 [77, 79, 82, 73, 32, 236, 154, 180, 236, 152, 129, 32, 234, 184, 176, 235, 161, 157],
     ''MORI operational records'', ''incidents'')]"

definition live_entry :: "pdict dict \<Rightarrow> string \<Rightarrow> pdict" where
  "live_entry metrics s =
     (let (ko, en, tab) = (case map_of SOURCE_META s of None \<Rightarrow> (s, s, []) | Some m \<Rightarrow> m);
          m = (case map_of metrics s of None \<Rightarrow> [] | Some m \<Rightarrow> m)
      in [(''source'', PStr s), (''label_ko'', PStr ko), (''label_en'', PStr en), (''tab'', PStr tab),
          (''summary_ko'', dgetd m ''summary_ko'' (PStr [])), (''summary_en'', dgetd m ''summary_en'' (PStr [])),
          (''count'', dget m ''count''), (''breakdown'', por (dget m ''breakdown'') (PList [])), (''more'', dgetd m ''more'' (PInt 0))])"

definition peers_of :: "string \<Rightarrow> pdict \<Rightarrow> pv list" where
  "peers_of cid m =
     (if dget m ''isms_p'' = PStr cid then as_list (dget m ''iso27001'')
      else if PStr cid \<in> set (as_list (dget m ''iso27001'')) then [dget m ''isms_p''] else [])"

definition mapped_entry :: "pdict dict \<Rightarrow> pdict \<Rightarrow> pv \<Rightarrow> pdict" where
  "mapped_entry ids m p =
     (let peer = (case p of PStr s \<Rightarrow> (case map_of ids s of None \<Rightarrow> [] | Some c \<Rightarrow> c) | _ \<Rightarrow> [])
      in [(''id'', p), (''title_ko'', dgetd peer ''title_ko'' (PStr [])), (''title_en'', dgetd peer ''title_en'' (PStr [])),
          (''relation'', dgetd m ''relation'' (PStr ''related'')), (''note_ko'', dgetd m ''note_ko'' (PStr [])),
          (''note_en'', dgetd m ''note_en'' (PStr []))])"

definition defect_entry :: "pdict \<Rightarrow> pdict \<Rightarrow> pdict" where
  "defect_entry gaps d =
     (let sig = dgetd d ''mori_signal'' (PStr [])
      in dset d ''gap_count'' (if truthy sig then dget gaps (pstr sig) else PNone))"

text \<open>Newest first.\<close>

definition by_collection :: "pdict list \<Rightarrow> pdict list" where
  "by_collection rs = sort_desc (\<lambda>r. pstr (por (por (dget r ''collected_at'') (dget r ''created_at'')) (PStr []))) rs"

record control_detail =
  cd_control :: pdict
  cd_mapped :: "pdict list"
  cd_defects :: "pdict list"
  cd_live :: "pdict list"
  cd_records :: "pdict list"

definition build_control_detail ::
    "string \<Rightarrow> pdict \<Rightarrow> pdict dict \<Rightarrow> catalog \<Rightarrow> pdict list \<Rightarrow> control_detail option" where
  "build_control_detail cid gaps metrics cat records =
     map_option (\<lambda>c.
       \<lparr>cd_control = c,
        cd_mapped = concat (map (\<lambda>m. map (mapped_entry (by_id cat) m) (peers_of cid m)) (ca_mappings cat)),
        cd_defects = map (defect_entry gaps) (filter (\<lambda>d. PStr cid \<in> set (as_list (dget d ''controls''))) (ca_defects cat)),
        cd_live = map (live_entry metrics) (sources_of c), cd_records = by_collection records\<rparr>)
     (find_control cat cid)"

section \<open>CSV\<close>

definition write_rows :: "pv list list \<Rightarrow> string" where
  "write_rows rows = csv_write (map (map (\<lambda>v. cell_text (defuse v))) rows)"

definition control_evidence_rows :: "control_detail \<Rightarrow> pv list list" where
  "control_evidence_rows d =
     (let c = cd_control d;
          head = [dgetd c ''id'' (PStr []), dgetd c ''title_ko'' (PStr []), dgetd c ''title_en'' (PStr []), dgetd c ''framework'' (PStr [])]
      in map PStr [''control_id'', ''title_ko'', ''title_en'', ''framework'', ''kind'', ''label'', ''detail'', ''collected_by'',
           ''collected_at'', ''reference'']
         # concat (map (\<lambda>e. (head @ [PStr ''live'', por (dget e ''label_ko'') (dget e ''source''), por (dget e ''summary_ko'') (PStr []),
               PStr [], PStr [], PStr []])
             # map (\<lambda>row. head @ [PStr ''live-detail'', dgetd (as_dict row) ''label'' (PStr []), dgetd (as_dict row) ''value'' (PStr []),
                   PStr [], PStr [], PStr []]) (as_list (dget e ''breakdown''))) (cd_live d))
         @ map (\<lambda>r. head @ [PStr (if dget r ''source'' = PStr ''auto'' then ''auto'' else ''manual''), dgetd r ''title'' (PStr []),
               dgetd r ''body'' (PStr []), dgetd r ''collected_by'' (PStr []), dgetd r ''collected_at'' (PStr []),
               dgetd r ''reference'' (PStr [])]) (cd_records d)
         @ map (\<lambda>m. head @ [PStr ''mapping'', dgetd m ''id'' (PStr []), por (por (dget m ''title_ko'') (dget m ''title_en'')) (PStr []),
               PStr [], PStr [], dgetd m ''relation'' (PStr [])]) (cd_mapped d))"

definition control_evidence_csv ::
    "string \<Rightarrow> pdict \<Rightarrow> pdict dict \<Rightarrow> catalog \<Rightarrow> pdict list \<Rightarrow> string option" where
  "control_evidence_csv cid gaps metrics cat records =
     map_option (\<lambda>d. write_rows (control_evidence_rows d)) (build_control_detail cid gaps metrics cat records)"

text \<open>The document of the evidence of a control.\<close>

record evidence_doc =
  ed_control :: pdict
  ed_status :: string
  ed_generated :: string
  ed_collector :: string
  ed_inventory :: "pdict list"
  ed_live :: "pdict list"
  ed_records :: "pdict list"

definition pick_fields :: "string list \<Rightarrow> pdict \<Rightarrow> pv list" where
  "pick_fields ks d = map (\<lambda>k. dgetd d k (PStr [])) ks"

definition evidence_document_rows :: "evidence_doc \<Rightarrow> pv list list" where
  "evidence_document_rows d =
     [[PStr (utf8 [35, 32, 237, 134, 181, 236, 160, 156]), dgetd (ed_control d) ''id'' (PStr []),
     dgetd (ed_control d) ''title_ko'' (PStr [])],
      [PStr (utf8 [35, 32, 237, 148, 132, 235, 160, 136, 236, 158, 132, 236, 155, 140, 237, 129, 172]),
     dgetd (ed_control d) ''framework'' (PStr []), PStr (utf8 [236, 157, 180, 237, 150, 137, 236, 131, 129,
     237, 131, 156, 58, 32] @ ed_status d)],
      [PStr (utf8 [35, 32, 236, 131, 157, 236, 132, 177]), PStr (take 19 (ed_generated d)), PStr (utf8 [236,
     136, 152, 236, 167, 145, 236, 158, 144, 58, 32] @ ed_collector d)],
      [], [PStr (utf8 [91, 236, 158, 144, 236, 130, 176, 32, 236, 157, 184, 235, 178, 164, 237, 134, 160,
     235, 166, 172, 93])], map PStr [utf8 [237, 152, 184, 236, 138, 164, 237, 138, 184, 235, 170, 133],
     ''IP'', utf8 [236, 131, 129, 237, 131, 156], utf8 [236, 134, 140, 236, 138, 164]]]
     @ map (pick_fields [''hostname'', ''ip'', ''status'', ''source'']) (ed_inventory d)
     @ (if ed_inventory d = [] then [[PStr (utf8 [40, 236, 136, 152, 236, 167, 145, 235, 144, 156, 32, 236,
     158, 144, 236, 130, 176, 32, 236, 151, 134, 236, 157, 140, 41])]] else [])
     @ (if ed_live d = [] then []
        else [[], [PStr (utf8 [91, 234, 184, 176, 237, 131, 128, 32, 236, 139, 164, 236, 166, 157, 236, 160,
     129, 93])], map PStr [utf8 [236, 134, 140, 236, 138, 164], utf8 [236, 154, 148, 236, 149,
     189]]] @ map (pick_fields [''label'', ''summary'']) (ed_live d))
     @ [[], [PStr (utf8 [91, 235, 172, 184, 236, 132, 156, 237, 153, 148, 235, 144, 156, 32, 236, 166, 157,
     236, 160, 129, 93])], map PStr [utf8 [236, 157, 188, 236, 158, 144], utf8 [236, 156, 160, 237, 152,
     149], utf8 [236, 160, 156, 235, 170, 169], utf8 [236, 136, 152, 236, 167, 145, 236, 158, 144],
     utf8 [236, 176, 184, 236, 161, 176], utf8 [235, 130, 180, 236, 154, 169]]]
     @ map (pick_fields [''collected_at'', ''kind'', ''title'', ''collected_by'', ''reference'', ''body'']) (ed_records d)
     @ (if ed_records d = [] then [[PStr (utf8 [40, 235, 172, 184, 236, 132, 156, 237, 153, 148, 235, 144,
     156, 32, 236, 166, 157, 236, 160, 129, 32, 236, 151, 134, 236, 157, 140, 41])]] else [])"

definition evidence_document_csv :: "evidence_doc \<Rightarrow> string" where
  "evidence_document_csv d = write_rows (evidence_document_rows d)"

section \<open>The copy in the database\<close>

text \<open>Three tables with their keys; one transaction, so that a failure changes none.\<close>

record catalog_db =
  cb_controls :: "((string \<times> string) \<times> pdict) list"
  cb_mappings :: "((string \<times> string) \<times> pdict) list"
  cb_defects :: "pdict dict"

definition control_columns :: "pdict \<Rightarrow> pdict" where
  "control_columns c =
     map (\<lambda>k. (k, dgetd c k (PStr []))) [''version'', ''domain'', ''section'', ''title_ko'', ''title_en'', ''intent_ko'', ''intent_en'',
       ''evidence_hint_ko'', ''evidence_hint_en'']
     @ map (\<lambda>k. (k, por (dget c k) (PList []))) [''evidence_sources'', ''mori_intents'', ''tags'']
     @ [(''status'', dgetd c ''status'' (PStr ''draft''))]"

definition mapping_rows :: "pdict \<Rightarrow> ((string \<times> string) \<times> pdict) list" where
  "mapping_rows m =
     map (\<lambda>i. ((pstr (dgetd m ''isms_p'' (PStr [])), pstr i), [(''relation'', dgetd m ''relation'' (PStr ''related'')),
         (''note_ko'', dgetd m ''note_ko'' (PStr [])), (''note_en'', dgetd m ''note_en'' (PStr []))]))
       (as_list (dget m ''iso27001''))"

definition defect_columns :: "pdict \<Rightarrow> pdict" where
  "defect_columns d =
     (''controls'', por (dget d ''controls'') (PList []))
     # map (\<lambda>k. (k, dgetd d k (PStr []))) [''title_ko'', ''title_en'', ''symptom_ko'', ''symptom_en'', ''evidence_gap_ko'',
         ''evidence_gap_en'', ''mori_signal'', ''fix_ko'', ''fix_en'', ''severity'']"

definition upsert_all :: "('k \<times> 'v) list \<Rightarrow> ('k \<times> 'v) list \<Rightarrow> ('k \<times> 'v) list" where
  "upsert_all rows t = foldl (\<lambda>t kv. AList.update (fst kv) (snd kv) t) t rows"

definition control_rows :: "catalog \<Rightarrow> ((string \<times> string) \<times> pdict) list" where
  "control_rows cat =
     map (\<lambda>c. ((pstr (dgetd c ''framework'' (PStr [])), pstr (dgetd c ''id'' (PStr []))), control_columns c)) (ca_controls cat)"

definition sync_catalog_to_db :: "bool \<Rightarrow> catalog \<Rightarrow> catalog_db \<Rightarrow> ((int \<times> int \<times> int) \<times> catalog_db) option" where
  "sync_catalog_to_db up cat db =
     (if \<not> up then None
      else Some ((int (length (ca_controls cat)), int (length (ca_mappings cat)), int (length (ca_defects cat))),
        \<lparr>cb_controls = upsert_all (control_rows cat) (cb_controls db),
         cb_mappings = upsert_all (concat (map mapping_rows (ca_mappings cat))) (cb_mappings db),
         cb_defects = upsert_all (map (\<lambda>d. (pstr (dgetd d ''id'' (PStr [])), defect_columns d)) (ca_defects cat)) (cb_defects db)\<rparr>))"

section \<open>What the edits make of the catalog\<close>

text \<open>The catalog of the package: its controls have different identifiers, none of them blank.\<close>

definition ids_fine :: "catalog \<Rightarrow> bool" where
  "ids_fine cat = (list_all (\<lambda>c. cid_of c \<noteq> []) (ca_controls cat) \<and> distinct (map cid_of (ca_controls cat)))"

lemma cid_of_iff: "k \<noteq> [] \<Longrightarrow> cid_of c = k \<longleftrightarrow> dget c ''id'' = PStr k"
  by (auto simp: cid_of_def split: pv.splits)

lemma find_by_cid: "k \<noteq> [] \<Longrightarrow> List.find (\<lambda>c. dget c ''id'' = PStr k) cs = map_of (map (\<lambda>c. (cid_of c, c)) cs) k"
proof -
  assume "k \<noteq> []"
  then have same: "(dget c ''id'' = PStr k) = (cid_of c = k)" for c using cid_of_iff by blast
  show ?thesis unfolding same by (induction cs) auto
qed

text \<open>A dictionary of controls under their identifiers.\<close>

definition by_cid :: "pdict dict \<Rightarrow> bool" where
  "by_cid d = (dwf d \<and> list_all (\<lambda>kc. fst kc \<noteq> [] \<and> cid_of (snd kc) = fst kc) d)"

lemma by_cid_listed: "by_cid d \<Longrightarrow> map (\<lambda>c. (cid_of c, c)) (map snd d) = d"
  by (induction d) (auto simp: by_cid_def)

lemma by_cid_fine: "by_cid d \<Longrightarrow> ids_fine (cat\<lparr>ca_controls := map snd d\<rparr>)"
  by (induction d) (auto simp: by_cid_def ids_fine_def list_all_iff)

lemma find_listed: "by_cid d \<Longrightarrow> k \<noteq> [] \<Longrightarrow> find_control (cat\<lparr>ca_controls := map snd d\<rparr>) k = map_of d k"
  by (simp add: find_control_def find_by_cid by_cid_listed del: map_map)

lemma by_id_listed: "ids_fine cat \<Longrightarrow> by_id cat = map (\<lambda>c. (cid_of c, c)) (ca_controls cat)"
  by (simp add: by_id_def ids_fine_def dict_of_distinct o_def)

lemma by_id_fine: "ids_fine cat \<Longrightarrow> by_cid (by_id cat)"
  by (simp add: by_id_listed) (simp add: by_cid_def ids_fine_def list_all_iff o_def)

lemma overlay_id: "dget (foldl (overlay_field e) m fs) k = dget m k" if "k \<notin> set fs"
  using that by (induction fs arbitrary: m) (auto simp: overlay_field_def)

lemma merged_id: "k \<noteq> [] \<Longrightarrow> cid_of (merge_control base k e) = k"
proof -
  assume "k \<noteq> []"
  moreover have "''id'' \<notin> set CATALOG_OVERLAY" by (simp add: CATALOG_OVERLAY_def)
  ultimately show ?thesis by (simp add: cid_of_iff merge_control_def Let_def dsetdefault_def overlay_id)
qed

lemma list_all_dset: "list_all P d \<Longrightarrow> P (k, v) \<Longrightarrow> list_all P (dset d k v)"
  by (induction d) auto

lemma by_cid_dset: "by_cid d \<Longrightarrow> k \<noteq> [] \<Longrightarrow> cid_of c = k \<Longrightarrow> by_cid (dset d k c)"
  by (simp add: by_cid_def list_all_dset)

lemma by_cid_filter: "by_cid d \<Longrightarrow> by_cid (filter P d)"
  by (induction d) (auto simp: by_cid_def)

lemma by_cid_apply: "by_cid d \<Longrightarrow> by_cid (foldl apply_edit d edits)"
  by (induction edits arbitrary: d) (auto simp: apply_edit_def by_cid_dset merged_id)

lemma map_of_apply:
  "dwf edits \<Longrightarrow> map_of (foldl apply_edit d edits) k =
     (case map_of edits k of
        None \<Rightarrow> map_of d k
      | Some e \<Rightarrow> if k = [] \<or> is_removal e then map_of d k
          else Some (merge_control (case map_of d k of None \<Rightarrow> [] | Some c \<Rightarrow> c) k e))"
proof (induction edits arbitrary: d)
  case (Cons ke edits)
  then have "map_of edits (fst ke) = None" by (simp add: map_of_eq_None_iff)
  then show ?case using Cons by (cases "map_of edits k"; cases "k = fst ke") (simp_all add: apply_edit_def)
qed simp

lemma map_of_filter_keys: "map_of (filter (\<lambda>kv. fst kv \<notin> S) d) k = (if k \<in> S then None else map_of d k)"
  by (induction d) auto

text \<open>What the edits make of one identifier, and of the list of controls.\<close>

lemma merged_find:
  assumes "ids_fine cat" "dwf edits" "k \<noteq> []"
  shows "find_control (merge_edits cat edits) k =
      (case map_of edits k of
         None \<Rightarrow> find_control cat k
       | Some e \<Rightarrow> if is_removal e then None
           else Some (merge_control (case find_control cat k of None \<Rightarrow> [] | Some c \<Rightarrow> c) k e))
    \<and> ids_fine (merge_edits cat edits)"
proof (cases "edits = []")
  case False
  let ?gone = "map fst (filter (\<lambda>ke. fst ke \<noteq> [] \<and> is_removal (snd ke)) edits)"
  let ?d = "filter (\<lambda>kc. fst kc \<notin> set ?gone) (foldl apply_edit (by_id cat) edits)"
  have d: "by_cid ?d" by (intro by_cid_filter by_cid_apply by_id_fine assms(1))
  have m: "merge_edits cat edits = cat\<lparr>ca_controls := map snd ?d\<rparr>" using False by (simp add: merge_edits_def Let_def)
  have gone: "k \<in> set ?gone \<longleftrightarrow> (\<exists>e. map_of edits k = Some e \<and> is_removal e)"
    using assms(2,3) by (auto simp: image_iff map_of_eq_Some_iff)
  have base: "map_of (by_id cat) k = find_control cat k"
    using assms(1,3) by (simp add: by_id_listed find_control_def find_by_cid)
  have "find_control (merge_edits cat edits) k = map_of ?d k" unfolding m by (rule find_listed [OF d assms(3)])
  also have "\<dots> = (if k \<in> set ?gone then None else map_of (foldl apply_edit (by_id cat) edits) k)" by (rule map_of_filter_keys)
  also have "\<dots> = (case map_of edits k of
         None \<Rightarrow> find_control cat k
       | Some e \<Rightarrow> if is_removal e then None
           else Some (merge_control (case find_control cat k of None \<Rightarrow> [] | Some c \<Rightarrow> c) k e))"
    unfolding gone map_of_apply [OF assms(2)] base using assms(3) by (cases "map_of edits k") simp_all
  finally show ?thesis using by_cid_fine [OF d, of cat] unfolding m by (rule conjI)
qed (use assms(1) in \<open>simp add: merge_edits_def\<close>)

text \<open>C38: A control of the edited catalog is the one that the edits say: hidden where an edit removes it, the edit over
  the control of the package where one changes it, the control of the package where none names it; and no edit makes two
  controls with one identifier or one without.\<close>

theorem merged_catalog_exact:
  assumes "ids_fine cat" "dwf edits" "k \<noteq> []"
  shows "find_control (merge_edits cat edits) k =
      (case map_of edits k of
         None \<Rightarrow> find_control cat k
       | Some e \<Rightarrow> if is_removal e then None
           else Some (merge_control (case find_control cat k of None \<Rightarrow> [] | Some c \<Rightarrow> c) k e))
    \<and> ids_fine (merge_edits cat edits)"
  using merged_find [OF assms] by blast

definition demo_catalog :: catalog where
  "demo_catalog = \<lparr>ca_meta = [], ca_controls =
     [[(''id'', PStr ''2.8.1''), (''framework'', PStr ''isms-p''), (''section'', PStr ''2.8''), (''status'', PStr ''reviewed'')],
      [(''id'', PStr ''2.8.5''), (''framework'', PStr ''isms-p''), (''section'', PStr ''2.8''), (''title_ko'', PStr ''old'')]],
     ca_mappings = [], ca_defects = []\<rparr>"

definition demo_edits :: "pdict dict" where
  "demo_edits = [(''2.8.1'', [(''op'', PStr ''delete'')]), (''2.8.5'', [(''op'', PStr ''upsert''), (''title_ko'', PStr ''new'')])]"

lemma merged_catalog_exact_witness:
  "find_control (merge_edits demo_catalog demo_edits) ''2.8.1'' = None
   \<and> map_option (\<lambda>c. dget c ''title_ko'') (find_control (merge_edits demo_catalog demo_edits) ''2.8.5'') = Some (PStr ''new'')"
proof -
  have h: "ids_fine demo_catalog" "dwf demo_edits" by code_simp+
  have "(case map_of demo_edits ''2.8.1'' of None \<Rightarrow> True | Some e \<Rightarrow> \<not> is_removal e) = False"
    "map_option (\<lambda>e. (is_removal e, dget (merge_control (case find_control demo_catalog ''2.8.5'' of None \<Rightarrow> [] | Some c \<Rightarrow> c) ''2.8.5'' e) ''title_ko''))
       (map_of demo_edits ''2.8.5'') = Some (False, PStr ''new'')"
    by code_simp+
  then show ?thesis
    using merged_catalog_exact [OF h, of "''2.8.1''"] merged_catalog_exact [OF h, of "''2.8.5''"] by (auto split: option.splits)
qed

text \<open>What a field of an edited control is.\<close>

lemma overlaid: "f \<in> set fs \<Longrightarrow> dget (foldl (overlay_field e) m fs) f =
    (if dhas e f \<and> dget e f \<noteq> PNone \<and> dget e f \<noteq> PStr [] then dget e f else dget m f)"
proof (induction fs arbitrary: m)
  case (Cons g fs)
  have "dget (overlay_field e m g) f = (if f = g \<and> dhas e f \<and> dget e f \<noteq> PNone \<and> dget e f \<noteq> PStr [] then dget e f else dget m f)"
    by (auto simp: overlay_field_def)
  moreover have "dget (foldl (overlay_field e) m' fs) f = dget m' f" if "f \<notin> set fs" for m' using that by (rule overlay_id)
  ultimately show ?case using Cons by (cases "f \<in> set fs"; cases "f = g") simp_all
qed simp

section \<open>The tree shows the catalog\<close>

definition clash :: "pdict \<Rightarrow> pdict \<Rightarrow> bool" where
  "clash a b = (\<not> comparable (entry_key a) (entry_key b))"

text \<open>Two controls of one section whose identifiers cannot be compared.\<close>

definition clashing :: "pdict list \<Rightarrow> bool" where
  "clashing cs = list_ex (\<lambda>a. list_ex (\<lambda>b. ctl_framework a = ctl_framework b \<and> ctl_domain a = ctl_domain b \<and> ctl_section a = ctl_section b
     \<and> clash a b) cs) cs"

definition tree_entries :: "(string \<times> tree_domain list) list \<Rightarrow> pdict list" where
  "tree_entries t = concat (map (\<lambda>f. concat (map (\<lambda>d. concat (map snd (snd d))) (snd f))) t)"

lemma mset_push: "mset (concat (map snd (push k x d))) = add_mset x (mset (concat (map snd d)))"
  by (induction d) (auto simp: push_def)

lemma mset_group_by: "mset (concat (map snd (group_by f xs))) = mset xs"
proof -
  have "mset (concat (map snd (foldl (\<lambda>d x. push (f x) x d) d xs))) = mset (concat (map snd d)) + mset xs" for d
    by (induction xs arbitrary: d) (simp_all add: mset_push)
  from this [of "[]"] show ?thesis by (simp add: group_by_def)
qed

lemma dwf_group_by: "dwf (group_by f xs)"
proof -
  have "dwf d \<Longrightarrow> dwf (foldl (\<lambda>d x. push (f x) x d) d xs)" for d
    by (induction xs arbitrary: d) (simp_all add: push_def)
  then show ?thesis by (simp add: group_by_def)
qed

lemma some_group: "list_ex (\<lambda>kg. P (snd kg)) (group_by f xs) \<longleftrightarrow> (\<exists>x \<in> set xs. P (filter (\<lambda>y. f y = f x) xs))"
proof -
  have m: "(k, g) \<in> set (group_by f xs) \<longleftrightarrow> (\<exists>x \<in> set xs. k = f x \<and> g = filter (\<lambda>y. f y = f x) xs)" for k g
    unfolding map_of_eq_Some_iff [OF dwf_group_by, symmetric] map_of_group_by by auto
  have "list_ex (\<lambda>kg. P (snd kg)) (group_by f xs) \<longleftrightarrow> (\<exists>k g. (k, g) \<in> set (group_by f xs) \<and> P g)"
    by (simp add: list_ex_iff Bex_def split_paired_Ex)
  then show ?thesis unfolding m by blast
qed

text \<open>One level of the tree, over the level below it.\<close>

lemma tree_level:
  assumes "\<And>g. map_option (\<lambda>y. mset (leaf y)) (h g) = (if bad g then None else Some (mset (map tree_entry g)))"
  shows "map_option (\<lambda>ys. mset (concat (map (\<lambda>y. leaf (snd y)) ys))) (those (map (\<lambda>kg. map_option (Pair (fst kg)) (h (snd kg))) gs))
    = (if list_ex (\<lambda>kg. bad (snd kg)) gs then None else Some (mset (map tree_entry (concat (map snd gs)))))"
proof (induction gs)
  case (Cons kg gs)
  then show ?case
    using assms [of "snd kg"] by (cases "h (snd kg)"; cases "those (map (\<lambda>kg. map_option (Pair (fst kg)) (h (snd kg))) gs)")
      (auto split: if_splits)
qed simp

lemma entries_mset: "mset (map tree_entry (concat (map snd (group_by f g)))) = mset (map tree_entry g)"
  using mset_group_by [of f g] by (simp only: mset_map)

lemma sort_level:
  "map_option (\<lambda>y. mset y) (sort_entries (map tree_entry g)) =
    (if list_ex (\<lambda>a. list_ex (\<lambda>b. clash a b) g) g then None else Some (mset (map tree_entry g)))"
proof -
  have k: "entry_key (tree_entry c) = entry_key c" for c by (simp add: entry_key_def tree_entry_def)
  have "list_all (\<lambda>a. list_all (\<lambda>b. comparable (entry_key a) (entry_key b)) (map tree_entry g)) (map tree_entry g)
      \<longleftrightarrow> \<not> list_ex (\<lambda>a. list_ex (\<lambda>b. clash a b) g) g"
    by (simp add: list_all_iff list_ex_iff clash_def k)
  then show ?thesis by (simp add: sort_entries_def)
qed

lemma section_level:
  "map_option (\<lambda>y. mset (concat (map snd y))) (tree_sections g) =
    (if list_ex (\<lambda>a. list_ex (\<lambda>b. ctl_section a = ctl_section b \<and> clash a b) g) g then None else Some (mset (map tree_entry g)))"
proof -
  have "list_ex (\<lambda>kg. list_ex (\<lambda>a. list_ex (\<lambda>b. clash a b) (snd kg)) (snd kg)) (group_by ctl_section g)
      \<longleftrightarrow> list_ex (\<lambda>a. list_ex (\<lambda>b. ctl_section a = ctl_section b \<and> clash a b) g) g"
    unfolding some_group [of "\<lambda>h. list_ex (\<lambda>a. list_ex (\<lambda>b. clash a b) h) h"] by (simp add: list_ex_iff) metis
  then show ?thesis
    using tree_level [of "\<lambda>y. y", OF sort_level, of "group_by ctl_section g"]
    by (simp only: tree_sections_def entries_mset)
qed

lemma domain_level:
  "map_option (\<lambda>y. mset (concat (map (\<lambda>d. concat (map snd (snd d))) y))) (tree_domains g) =
    (if list_ex (\<lambda>a. list_ex (\<lambda>b. ctl_domain a = ctl_domain b \<and> ctl_section a = ctl_section b \<and> clash a b) g) g then None
     else Some (mset (map tree_entry g)))"
proof -
  have "list_ex (\<lambda>kg. list_ex (\<lambda>a. list_ex (\<lambda>b. ctl_section a = ctl_section b \<and> clash a b) (snd kg)) (snd kg)) (group_by ctl_domain g)
      \<longleftrightarrow> list_ex (\<lambda>a. list_ex (\<lambda>b. ctl_domain a = ctl_domain b \<and> ctl_section a = ctl_section b \<and> clash a b) g) g"
    unfolding some_group [of "\<lambda>h. list_ex (\<lambda>a. list_ex (\<lambda>b. ctl_section a = ctl_section b \<and> clash a b) h) h"]
    by (simp add: list_ex_iff) metis
  then show ?thesis
    using tree_level [of "\<lambda>y. concat (map snd y)", OF section_level, of "group_by ctl_domain g"]
    by (simp only: tree_domains_def entries_mset)
qed

lemma ordered_all: "dwf fws \<Longrightarrow> mset (ordered_frameworks fws) = mset (keys fws)"
proof -
  assume d: "dwf fws"
  have "distinct KNOWN_FRAMEWORKS" by (simp add: KNOWN_FRAMEWORKS_def)
  then have "distinct (ordered_frameworks fws)" using d by (auto simp: ordered_frameworks_def)
  moreover have "set (ordered_frameworks fws) = set (keys fws)"
    by (force simp: ordered_frameworks_def dhas_def map_of_eq_Some_iff [OF d])
  ultimately show ?thesis using set_eq_iff_mset_eq_distinct [OF _ d] by blast
qed

lemma concat_same: "mset xs = mset ys \<Longrightarrow> mset (concat (map h xs)) = mset (concat (map h ys))"
proof -
  assume "mset xs = mset ys"
  then have "image_mset (\<lambda>x. mset (h x)) (mset xs) = image_mset (\<lambda>x. mset (h x)) (mset ys)" by simp
  moreover have "mset (concat (map h zs)) = sum_mset (image_mset (\<lambda>x. mset (h x)) (mset zs))" for zs by (induction zs) auto
  ultimately show ?thesis by simp
qed

text \<open>The tree of the screen shows every control of the catalog exactly once, and there is no tree exactly when two
  controls of one section have identifiers that Python cannot compare.\<close>

lemma tree_complete:
  "map_option (\<lambda>t. mset (tree_entries (ct_tree t))) (build_tree cat) =
    (if clashing (ca_controls cat) then None else Some (mset (map tree_entry (ca_controls cat))))"
proof -
  let ?cs = "ca_controls cat" and ?g = "group_by ctl_framework (ca_controls cat)"
  define grp where "grp fw = (case map_of ?g fw of None \<Rightarrow> [] | Some g \<Rightarrow> g)" for fw
  define gs where "gs = map (\<lambda>fw. (fw, grp fw)) (ordered_frameworks ?g)"
  have pairs: "map (\<lambda>k. (k, grp k)) (keys ?g) = ?g"
    unfolding map_map o_def by (rule map_idI) (auto simp: grp_def map_of_is_SomeI [OF dwf_group_by])
  have "set (ordered_frameworks ?g) = set (keys ?g)" using mset_eq_setD [OF ordered_all [OF dwf_group_by]] .
  then have sets: "set gs = set ?g" using arg_cong [OF pairs, of set] unfolding gs_def set_map by simp
  have bag: "mset (concat (map snd gs)) = mset ?cs"
  proof -
    have "mset (concat (map grp (ordered_frameworks ?g))) = mset (concat (map grp (keys ?g)))"
      by (rule concat_same [OF ordered_all [OF dwf_group_by]])
    also have "map grp (keys ?g) = map snd ?g" using arg_cong [OF pairs, of "map snd"] by (simp add: o_def)
    finally show ?thesis by (simp add: gs_def o_def mset_group_by)
  qed
  have "list_ex (\<lambda>kg. list_ex (\<lambda>a. list_ex (\<lambda>b. ctl_domain a = ctl_domain b \<and> ctl_section a = ctl_section b \<and> clash a b) (snd kg)) (snd kg)) gs
      \<longleftrightarrow> list_ex (\<lambda>kg. list_ex (\<lambda>a. list_ex (\<lambda>b. ctl_domain a = ctl_domain b \<and> ctl_section a = ctl_section b \<and> clash a b) (snd kg)) (snd kg)) ?g"
    using sets by (simp add: list_ex_iff)
  also have "\<dots> \<longleftrightarrow> clashing ?cs"
    unfolding some_group [of "\<lambda>h. list_ex (\<lambda>a. list_ex (\<lambda>b. ctl_domain a = ctl_domain b \<and> ctl_section a = ctl_section b \<and> clash a b) h) h"]
      clashing_def by (simp add: list_ex_iff) metis
  finally show ?thesis
    using tree_level [of "\<lambda>y. concat (map (\<lambda>d. concat (map snd (snd d))) y)", OF domain_level, of gs] bag
    unfolding build_tree_def Let_def option.map_comp grp_def [symmetric] tree_entries_def o_def catalog_tree.simps
    by (simp only: mset_map gs_def map_map o_def fst_conv snd_conv)
qed

text \<open>One identifier that ends in a word, beside one that ends in a number, and the whole tree is gone.\<close>

lemma one_word_hides_all:
  "build_tree (merge_edits demo_catalog [(''2.8.x'', [(''op'', PStr ''upsert''), (''framework'', PStr ''isms-p''), (''section'', PStr ''2.8'')])]) = None"
  by code_simp

lemma maturity_adds_up: "sum_list (map snd (fst (maturity_summary auto_ids cat))) = int (length (ca_controls cat))"
proof -
  have "sum_list (map (\<lambda>l. counted (\<lambda>p. snd p = l) per) MATURITY_ORDER) = int (length per)"
    if "list_all (\<lambda>p. snd p \<in> set MATURITY_ORDER) per" for per :: "(string \<times> string) list"
    using that by (induction per) (auto simp: counted_def MATURITY_ORDER_def)
  moreover have "control_maturity_level c ms as \<in> set MATURITY_ORDER" for c ms as
    by (simp add: control_maturity_level_def MATURITY_ORDER_def Let_def)
  ultimately show ?thesis by (simp add: maturity_summary_def Let_def list_all_iff o_def)
qed

text \<open>A second copy of the same catalog changes nothing that a query can see.\<close>

lemma upsert_all_look: "map_of (upsert_all rows t) k = (case map_of (rev rows) k of None \<Rightarrow> map_of t k | Some v \<Rightarrow> Some v)"
  by (induction rows arbitrary: t) (auto simp: upsert_all_def update_conv' map_add_def split: option.splits)

lemma sync_again: "map_of (upsert_all rows (upsert_all rows t)) k = map_of (upsert_all rows t) k"
  by (simp add: upsert_all_look split: option.split)

text \<open>A control that the catalog no longer has stays in the database.\<close>

lemma sync_never_removes: "map_of t k = Some v \<Longrightarrow> \<exists>v'. map_of (upsert_all rows t) k = Some v'"
  by (simp add: upsert_all_look split: option.split)

end
