(* ===== verification/Live_Evidence.thy ===== *)
theory Live_Evidence
  imports Catalog Vulns Gaps
begin

text \<open>
  The evidence that the application computes from what it has collected (\<^verbatim>\<open>api/payloads.py\<close> and
  \<^verbatim>\<open>api/routes/compliance.py\<close>): the summary of the controls with everything that waits for action, the
  comparison of the sources, the counts of the gaps, the retention of access records, the metrics of the sources, the lists
  of hosts, and the documents and snapshots made from them.  Comparing a time without zone with one that has a zone
  raises, which is \<open>None\<close>.  Percentages are left out, and the summary of Loki (\<^verbatim>\<open>services/loki_client.py\<close>) is an argument.
\<close>

section \<open>What the functions read\<close>

record live_view =
  lv_repo :: repo
  lv_actions :: "pdict dict"
  lv_triage :: "pdict dict"
  lv_incidents :: "pdict dict"
  lv_risks :: "pdict dict"
  lv_audit :: int
  lv_settings :: "string dict"
  lv_now :: dtime

definition dt_lt :: "dtime \<Rightarrow> dtime \<Rightarrow> bool option" where
  "dt_lt a b = map_option (\<lambda>d. d < 0) (dt_sub a b)"

definition days_later :: "int \<Rightarrow> dtime \<Rightarrow> dtime" where
  "days_later n d = d\<lparr>dt_us := dt_us d + n * DAY_US\<rparr>"

definition record_at :: "pdict dict \<Rightarrow> string \<Rightarrow> pdict" where
  "record_at d k = (case map_of d k of None \<Rightarrow> [] | Some r \<Rightarrow> r)"

definition all_hosts :: "repo \<Rightarrow> host list" where
  "all_hosts r = map snd (re_hosts r)"

definition name_of_host :: "repo \<Rightarrow> string \<Rightarrow> string \<Rightarrow> string" where
  "name_of_host r hid other =
     (case map_of (rev (map (\<lambda>h. (ho_id h, ho_hostname h)) (all_hosts r))) hid of None \<Rightarrow> other | Some n \<Rightarrow> n)"

section \<open>The summary of the controls\<close>

definition CHECK_STATUSES :: "string list" where
  "CHECK_STATUSES = [''pass'', ''fail'', ''warning'', ''not_applicable'', ''not_checked'']"

definition status_counts :: "control_check list \<Rightarrow> int dict" where
  "status_counts checks = foldl (\<lambda>d c. bump (ck_status c) d) (map (\<lambda>s. (s, 0)) CHECK_STATUSES) checks"

definition agg_status :: "string list \<Rightarrow> string" where
  "agg_status sts =
     (case List.find (\<lambda>s. s \<in> set sts) [''fail'', ''warning'', ''pass'', ''not_applicable''] of None \<Rightarrow> ''not_checked'' | Some s \<Rightarrow> s)"

definition statuses_of :: "control_check list \<Rightarrow> string \<Rightarrow> string list" where
  "statuses_of checks cid = map ck_status (filter (\<lambda>c. ck_control_id c = cid) checks)"

text \<open>\<^verbatim>\<open>cid.rsplit(".", 1)[0] if "." in cid else cid\<close>\<close>

definition parent_id :: "string \<Rightarrow> string" where
  "parent_id cid = (if CHR ''.'' \<in> set cid then join ''.'' (butlast (split_on (CHR ''.'') cid)) else cid)"

definition category_of :: "pdict \<Rightarrow> string" where
  "category_of c = pstr (por (dget c ''section'') (por (dget c ''domain'') (PStr (parent_id (pstr (dgetd c ''id'' (PStr [])))))))"

definition category_domain :: "pdict \<Rightarrow> string" where
  "category_domain c = pstr (por (dget c ''domain'') (PStr (category_of c)))"

record category =
  cy_name :: string
  cy_framework :: string
  cy_domain :: string
  cy_counts :: "(string \<times> int) list"
  cy_total :: int

definition category_row :: "control_check list \<Rightarrow> string \<times> pdict list \<Rightarrow> category" where
  "category_row checks sc =
     (let sts = map (\<lambda>c. agg_status (statuses_of checks (pstr (dgetd c ''id'' (PStr []))))) (snd sc)
      in \<lparr>cy_name = fst sc, cy_framework = pstr (dgetd (hd (snd sc)) ''framework'' (PStr [])), cy_domain = category_domain (hd (snd sc)),
          cy_counts = map (\<lambda>s. (s, counted (\<lambda>x. x = s) sts)) CHECK_STATUSES, cy_total = int (length sts)\<rparr>)"

definition category_key :: "category \<Rightarrow> nat \<times> id_part list" where
  "category_key y =
     (if cy_framework y = ''isms-p'' then 0 else 1,
      map (\<lambda>p. if p \<noteq> [] \<and> list_all is_digit p then (0, int (undec p), []) else (1, 0, p))
        (split_on (CHR ''.'') (map (\<lambda>c. if c = CHR ''-'' then CHR ''.'' else c) (hd (split_on (CHR '' '') (cy_name y))))))"

definition categories :: "catalog \<Rightarrow> control_check list \<Rightarrow> category list" where
  "categories cat checks = sort_key category_key (map (category_row checks) (group_by category_of (ca_controls cat)))"

text \<open>What waits for action.  An item that cannot be computed makes the whole summary fail.\<close>

record pending_item =
  pi_check :: string
  pi_control :: string
  pi_entity_type :: string
  pi_entity :: string
  pi_status :: string
  pi_checked_at :: "string option"
  pi_owner :: string
  pi_note :: string
  pi_due :: "string option"
  pi_overdue :: bool
  pi_source :: string

definition opt_iso :: "dtime option \<Rightarrow> string option option" where
  "opt_iso d = (case d of None \<Rightarrow> Some None | Some d \<Rightarrow> map_option Some (isoformat_of d))"

definition before_now :: "dtime option \<Rightarrow> dtime \<Rightarrow> bool option" where
  "before_now d now = (case d of None \<Rightarrow> Some False | Some d \<Rightarrow> dt_lt d now)"

definition check_item :: "dtime \<Rightarrow> control_check \<Rightarrow> pending_item option" where
  "check_item now c =
     Option.bind (isoformat_of (ck_checked_at c)) (\<lambda>at_text.
     Option.bind (opt_iso (ck_remediation_due_at c)) (\<lambda>due.
     map_option (\<lambda>late.
       \<lparr>pi_check = ck_id c, pi_control = ck_control_id c, pi_entity_type = ck_entity_type c, pi_entity = ck_entity_id c,
        pi_status = ck_status c, pi_checked_at = Some at_text, pi_owner = or_else (ck_owner c) [], pi_note = or_else (ck_note c) [],
        pi_due = due, pi_overdue = (late \<and> ck_resolved_at c = None), pi_source = ''control_check''\<rparr>)
     (before_now (ck_remediation_due_at c) now)))"

text \<open>A date of a record: blank or not readable is \<open>None\<close>.\<close>

definition date_at :: "pdict \<Rightarrow> string \<Rightarrow> dtime option" where
  "date_at r k = (let s = strip (pstr (dgetd r k (PStr []))) in if s = [] then None else parse_stamp s)"

definition in_future :: "dtime option \<Rightarrow> dtime \<Rightarrow> bool" where
  "in_future d now = (case d of None \<Rightarrow> False | Some d \<Rightarrow> dt_lt now d = Some True)"

definition serious :: "string \<Rightarrow> bool" where
  "serious s = (s = ''critical'' \<or> s = ''high'')"

definition vuln_waits :: "live_view \<Rightarrow> vulnerability \<Rightarrow> bool" where
  "vuln_waits lv v =
     (vu_source v = ''trivy'' \<and> serious (vu_severity v) \<and> vu_resolved_at v = None
      \<and> \<not> in_future (date_at (record_at (lv_actions lv) (vu_id v)) ''exception_until'') (lv_now lv))"

definition middle_dot :: string where "middle_dot = utf8 [32, 194, 183, 32]"

definition vuln_item :: "live_view \<Rightarrow> vulnerability \<Rightarrow> pending_item option" where
  "vuln_item lv v =
     (let action = record_at (lv_actions lv) (vu_id v); due = date_at action ''plan_target_date''
      in Option.bind (isoformat_of (vu_detected_at v)) (\<lambda>at_text.
         map_option (\<lambda>due_text.
           \<lparr>pi_check = vu_id v, pi_control = ''A.8.8'', pi_entity_type = ''host'',
            pi_entity = name_of_host (lv_repo lv) (vu_host_id v) (vu_host_id v),
            pi_status = (if vu_severity v = ''critical'' then ''fail'' else ''warning''), pi_checked_at = Some at_text,
            pi_owner = gstr action ''plan_updated_by'',
            pi_note = sor (or_else (vu_cve v) []) (vu_id v) @ '' ('' @ vu_severity v @ '')''
              @ (if or_else (vu_package_name v) [] = [] then [] else middle_dot @ or_else (vu_package_name v) []),
            pi_due = due_text, pi_overdue = (case due of None \<Rightarrow> False | Some d \<Rightarrow> dt_lt d (lv_now lv) = Some True),
            pi_source = ''trivy''\<rparr>) (opt_iso due)))"

text \<open>An alert waits when it is serious, not older than a week and not triaged as resolved.\<close>

definition alert_waits :: "live_view \<Rightarrow> alert \<Rightarrow> bool option" where
  "alert_waits lv a =
     (if \<not> serious (al_severity a) then Some False
      else map_option (\<lambda>old. \<not> old \<and> strip (pstr (dgetd (record_at (lv_triage lv) (al_id a)) ''status'' (PStr []))) \<noteq> ''resolved'')
        (dt_lt (al_observed_at a) (days_later (- 7) (lv_now lv))))"

definition of_review :: "alert \<Rightarrow> bool" where
  "of_review a = (al_source a = ''code_review'')"

definition alert_item :: "live_view \<Rightarrow> alert \<Rightarrow> pending_item option" where
  "alert_item lv a =
     map_option (\<lambda>at_text.
       \<lparr>pi_check = al_id a, pi_control = (if of_review a then ''2.8.1'' else ''A.5.24''),
        pi_entity_type = (if of_review a then ''application'' else ''host''),
        pi_entity = name_of_host (lv_repo lv) (or_else (al_host_id a) []) (sor (or_else (al_host_id a) []) ''-''),
        pi_status = (if al_severity a = ''critical'' then ''fail'' else ''warning''), pi_checked_at = Some at_text,
        pi_owner = gstr (record_at (lv_triage lv) (al_id a)) ''analyst'', pi_note = ''['' @ al_source a @ ''] '' @ al_message a,
        pi_due = None, pi_overdue = False, pi_source = (if of_review a then ''code_review'' else ''alert'')\<rparr>)
     (isoformat_of (al_observed_at a))"

definition waiting_alerts :: "live_view \<Rightarrow> alert list option" where
  "waiting_alerts lv =
     map_option (\<lambda>xs. map fst (filter snd xs))
       (those (map (\<lambda>a. map_option (Pair a) (alert_waits lv a)) (map snd (re_alerts (lv_repo lv)))))"

record pdca =
  pc_total :: int
  pc_counts :: "int dict"
  pc_checked :: int
  pc_do :: int
  pc_categories :: "category list"
  pc_pending :: "pending_item list"

definition pending_key :: "pending_item \<Rightarrow> nat \<times> string" where
  "pending_key p = (if pi_overdue p then 0 else 1, case pi_due p of None \<Rightarrow> ''9999'' | Some d \<Rightarrow> sor d ''9999'')"

definition count_at_status :: "int dict \<Rightarrow> string \<Rightarrow> int" where
  "count_at_status d s = (case map_of d s of None \<Rightarrow> 0 | Some n \<Rightarrow> n)"

definition of_source :: "pdca \<Rightarrow> string \<Rightarrow> int" where
  "of_source p s = counted (\<lambda>i. pi_source i = s) (pc_pending p)"

definition build_pdca_payload :: "catalog \<Rightarrow> live_view \<Rightarrow> pdca option" where
  "build_pdca_payload cat lv =
     (let checks = map snd (re_checks (lv_repo lv)); counts = status_counts checks;
          vulns = filter (vuln_waits lv) (map snd (re_vulns (lv_repo lv)));
          n = count_at_status counts
      in Option.bind (those (map (check_item (lv_now lv)) (filter (\<lambda>c. ck_status c \<in> {''fail'', ''warning''}) checks))) (\<lambda>cs.
         Option.bind (those (map (vuln_item lv) vulns)) (\<lambda>vs.
         Option.bind (waiting_alerts lv) (\<lambda>alerts.
         map_option (\<lambda>as.
           \<lparr>pc_total = int (length checks), pc_counts = counts,
            pc_checked = int (length checks) - n ''not_checked'' - n ''not_applicable'',
            pc_do = n ''warning'' + n ''fail'' + int (length vs) + int (length as),
            pc_categories = categories cat checks, pc_pending = sort_key pending_key (cs @ vs @ as)\<rparr>)
         (those (map (alert_item lv) alerts))))))"

section \<open>Comparing the sources\<close>

text \<open>Sets of identifiers are lists without repetition.  The code sorts them by host name; hosts of one name have no
  order in Python, here they have that of the repository.\<close>

definition host_ids :: "repo \<Rightarrow> string list" where
  "host_ids r = remdups (map ho_id (all_hosts r))"

definition source_host_ids :: "repo \<Rightarrow> string \<Rightarrow> string list" where
  "source_host_ids r src =
     remdups (map ha_host_id (filter (\<lambda>a. ha_source a = src \<and> ha_host_id a \<in> set (host_ids r)) (map snd (re_aliases r))))"

definition any_source :: "repo \<Rightarrow> string list" where
  "any_source r = remdups (map ha_host_id (filter (\<lambda>a. ha_host_id a \<in> set (host_ids r)) (map snd (re_aliases r))))"

definition in_both :: "string list \<Rightarrow> string list \<Rightarrow> string list" where
  "in_both xs ys = filter (\<lambda>x. x \<in> set ys) xs"

definition only_left :: "string list \<Rightarrow> string list \<Rightarrow> string list" where
  "only_left xs ys = filter (\<lambda>x. x \<notin> set ys) xs"

text \<open>\<^verbatim>\<open>xs | ys\<close>\<close>

definition either :: "string list \<Rightarrow> string list \<Rightarrow> string list" where
  "either xs ys = remdups (xs @ ys)"

definition access_record_coverage_sets :: "string list \<Rightarrow> string list \<Rightarrow> string list \<times> string list" where
  "access_record_coverage_sets server_ids log_source_ids = (in_both server_ids log_source_ids, only_left server_ids log_source_ids)"

definition server_ids :: "repo \<Rightarrow> string list" where
  "server_ids r = either (source_host_ids r ''zabbix'') (filter (prefix ''server-'') (host_ids r))"

definition log_source_ids :: "repo \<Rightarrow> string list" where
  "log_source_ids r = either (either (source_host_ids r ''wazuh'') (source_host_ids r ''loki'')) (source_host_ids r ''host_log'')"

definition add_source :: "string list \<Rightarrow> string \<Rightarrow> string list" where
  "add_source xs v = (if v \<in> set xs then xs else xs @ [v])"

definition host_row :: "repo \<Rightarrow> string \<Rightarrow> pdict" where
  "host_row r hid =
     [(''host_id'', PStr hid), (''hostname'', PStr (name_of_host r hid hid)),
      (''sources'', PList (map PStr (foldl add_source [] (map ha_source (filter (\<lambda>a. ha_host_id a = hid) (map snd (re_aliases r)))))))]"

definition host_rows :: "nat \<Rightarrow> repo \<Rightarrow> string list \<Rightarrow> pv" where
  "host_rows n r ids = PList (map PDict (take n (sort_key (\<lambda>d. pstr (dget d ''hostname'')) (map (host_row r) ids))))"

definition num_of :: "'a list \<Rightarrow> pv" where
  "num_of xs = PInt (int (length xs))"

definition recently_seen :: "repo \<Rightarrow> dtime \<Rightarrow> string list option" where
  "recently_seen r now =
     map_option (\<lambda>xs. remdups (map fst (filter (\<lambda>x. snd x \<and> fst x \<in> set (host_ids r)) xs)))
       (those (map (\<lambda>ob. map_option (\<lambda>old. (ob_host_id ob, \<not> old)) (dt_lt (ob_observed_at ob) (days_later (- 30) now)))
         (map snd (re_obs r))))"

definition zabbix_vs_fleet :: "repo \<Rightarrow> pdict" where
  "zabbix_vs_fleet r =
     (let z = source_host_ids r ''zabbix''; f = source_host_ids r ''fleet''
      in [(''id'', PStr ''zabbix_vs_fleet''), (''title'', PStr (utf8 [90, 97, 98, 98, 105, 120, 32, 236, 158,
     144, 236, 130, 176, 32, 118, 115, 32, 70, 108, 101, 101, 116, 32, 236, 158, 144, 236, 130, 176])),
          (''description'', PStr (utf8 [90, 97, 98, 98, 105, 120, 40, 236, 132, 156, 235, 178, 132, 41, 236,
     153, 128, 32, 70, 108, 101, 101, 116, 40, 80, 67, 41, 236, 151, 144, 236, 132, 156, 32, 236, 136, 152, 236, 167, 145, 235, 144, 156, 32, 236, 158, 144, 236, 130, 176, 236, 157, 132, 32, 234, 181, 144, 236, 176, 168, 32, 235, 185, 132, 234, 181, 144, 237, 149, 169, 235, 139, 136, 235, 139, 164, 46])),
          (''zabbix_count'', num_of z), (''fleet_count'', num_of f), (''both_count'', num_of (in_both z f)),
          (''zabbix_only_count'', num_of (only_left z f)), (''fleet_only_count'', num_of (only_left f z)),
          (''zabbix_only'', host_rows 50 r (only_left z f)), (''fleet_only'', host_rows 50 r (only_left f z))])"

definition source_coverage :: "repo \<Rightarrow> pdict" where
  "source_coverage r =
     (let all = host_ids r; cov = any_source r
      in [(''id'', PStr ''source_coverage''), (''title'', PStr (utf8 [236, 134, 140, 236, 138, 164, 32, 236,
     187, 164, 235, 178, 132, 235, 166, 172, 236, 167, 128, 32, 118, 115, 32, 236, 160, 132, 236, 178, 180, 32, 236, 158, 144, 236, 130, 176])),
          (''description'', PStr (utf8 [235, 170, 168, 235, 147, 160, 32, 236, 136, 152, 236, 167, 145, 32,
     236, 134, 140, 236, 138, 164, 236, 151, 144, 236, 132, 156, 32, 237, 149, 156, 32, 235, 178, 136, 235, 143, 132, 32, 234, 180, 128, 236, 184, 161, 235, 144, 152, 236, 167, 128, 32, 236, 149, 138, 236, 157, 128, 32, 236, 158, 144, 236, 130, 176, 236, 157, 132, 32, 236, 176, 190, 236, 138, 181, 235, 139, 136, 235, 139, 164, 46])),
          (''total_hosts'', num_of all), (''covered_hosts'', num_of cov), (''uncovered_hosts'', num_of (only_left all cov)),
          (''all_hosts'', host_rows 200 r all), (''covered'', host_rows 200 r cov), (''uncovered'', host_rows 50 r (only_left all cov))])"

definition access_record_coverage :: "repo \<Rightarrow> pdict" where
  "access_record_coverage r =
     (let s = server_ids r; (cov, unc) = access_record_coverage_sets s (log_source_ids r)
      in [(''id'', PStr ''access_record_coverage''), (''title'', PStr (utf8 [236, 160, 145, 236, 134, 141,
     234, 184, 176, 235, 161, 157, 32, 236, 134, 140, 236, 138, 164, 32, 236, 187, 164, 235, 178, 132, 235, 166, 172, 236, 167, 128, 32, 40, 236, 132, 156, 235, 178, 132, 41])),
          (''description'', PStr (utf8 [105, 110, 45, 115, 99, 111, 112, 101, 32, 236, 132, 156, 235, 178,
     132, 32, 236, 164, 145, 32, 236, 160, 145, 236, 134, 141, 234, 184, 176, 235, 161, 157, 32, 235, 161, 156, 234, 183, 184, 32, 236, 134, 140, 236, 138, 164, 40, 87, 97, 122, 117, 104, 47, 76, 111, 107, 105, 47, 237, 152, 184, 236, 138, 164, 237, 138, 184, 235, 161, 156, 234, 183, 184, 41, 234, 176, 128, 32, 235, 182, 153, 236, 167, 128, 32, 236, 149, 138, 236, 157, 128, 32, 236, 132, 156, 235, 178, 132, 235, 165, 188, 32, 236, 176, 190, 236, 138, 181, 235, 139, 136, 235, 139, 164, 46, 32, 236, 149, 136, 236, 160, 132, 236, 161, 176, 236, 185, 152, 32, 236, 160, 156, 56, 236, 161, 176, 194, 183, 73, 83, 77, 83, 45, 80, 32, 50, 46, 57, 46, 52, 46])),
          (''servers_total'', num_of s), (''covered_hosts'', num_of cov), (''uncovered_hosts'', num_of unc),
          (''covered'', host_rows 200 r cov), (''uncovered'', host_rows 50 r unc)])"

definition vuln_vs_observation :: "repo \<Rightarrow> string list \<Rightarrow> pdict" where
  "vuln_vs_observation r seen =
     (let v = remdups (map vu_host_id (map snd (re_vulns r)))
      in [(''id'', PStr ''vuln_vs_observation''), (''title'', PStr (utf8 [236, 183, 168, 236, 149, 189, 236,
     160, 144, 32, 236, 158, 144, 236, 130, 176, 32, 118, 115, 32, 236, 181, 156, 234, 183, 188, 32, 234, 180, 128, 236, 184, 161, 32, 236, 158, 144, 236, 130, 176])),
          (''description'', PStr (utf8 [236, 183, 168, 236, 149, 189, 236, 160, 144, 236, 157, 180, 32, 236,
     161, 180, 236, 158, 172, 237, 149, 152, 236, 167, 128, 235, 167, 140, 32, 236, 181, 156, 234, 183, 188, 32, 51, 48, 236, 157, 188, 32, 235, 130, 180, 32, 234, 180, 128, 236, 184, 161, 40, 235, 161, 156, 234, 183, 184, 47, 235, 169, 148, 237, 138, 184, 235, 166, 173, 41, 236, 157, 180, 32, 236, 151, 134, 235, 138, 148, 32, 236, 158, 144, 236, 130, 176, 236, 157, 132, 32, 236, 176, 190, 236, 138, 181, 235, 139, 136, 235, 139, 164, 46])),
          (''vuln_hosts'', num_of v), (''recent_obs_hosts'', num_of seen), (''vuln_no_observation_count'', num_of (only_left v seen)),
          (''vuln_no_observation'', host_rows 50 r (only_left v seen))])"

definition ldap_summary :: "repo \<Rightarrow> pdict" where
  "ldap_summary r =
     [(''id'', PStr ''ldap_summary''), (''title'', PStr (utf8 [76, 68, 65, 80, 47, 65, 68, 32, 234, 179, 132,
     236, 160, 149, 32, 237, 152, 132, 237, 153, 169])),
      (''description'', PStr (utf8 [235, 148, 148, 235, 160, 137, 237, 132, 176, 235, 166, 172, 32, 234, 179,
     132, 236, 160, 149, 32, 236, 136, 152, 236, 153, 128, 32, 234, 182, 140, 237, 149, 156, 32, 235, 176, 148, 236, 157, 184, 235, 148, 169, 32, 237, 152, 132, 237, 153, 169, 236, 157, 132, 32, 236, 154, 148, 236, 149, 189, 237, 149, 169, 235, 139, 136, 235, 139, 164, 46])),
      (''total_accounts'', num_of (re_accounts r)),
      (''privileged_accounts'', PInt (counted (\<lambda>ka. da_is_privileged (snd ka)) (re_accounts r))),
      (''total_privilege_bindings'', num_of (re_privs r)), (''total_group_memberships'', num_of (re_groups r))]"

definition build_crosscheck_payload :: "repo \<Rightarrow> dtime \<Rightarrow> pdict list option" where
  "build_crosscheck_payload r now =
     map_option (\<lambda>seen. [zabbix_vs_fleet r, source_coverage r, access_record_coverage r, vuln_vs_observation r seen, ldap_summary r])
       (recently_seen r now)"

definition check_number :: "pdict list option \<Rightarrow> string \<Rightarrow> string \<Rightarrow> int" where
  "check_number checks cid k =
     (case checks of None \<Rightarrow> 0
      | Some cs \<Rightarrow> (case List.find (\<lambda>c. dget c ''id'' = PStr cid) cs of None \<Rightarrow> 0
          | Some c \<Rightarrow> (case dget c k of PInt n \<Rightarrow> n | _ \<Rightarrow> 0)))"

section \<open>Gaps of the evidence\<close>

text \<open>The exceptions that end within a week.\<close>

definition ends_soon :: "dtime \<Rightarrow> pdict \<Rightarrow> bool" where
  "ends_soon now action =
     (case date_at action ''exception_until'' of
        None \<Rightarrow> False
      | Some d \<Rightarrow> dt_lt d now = Some False \<and> dt_lt (days_later 7 now) d = Some False)"

definition gap_counts :: "live_view \<Rightarrow> pdca \<Rightarrow> pdict" where
  "gap_counts lv p =
     (let cross = build_crosscheck_payload (lv_repo lv) (lv_now lv)
      in [(''vuln_pending'', PInt (of_source p ''trivy'')),
          (''exceptions_expiring'', PInt (counted (\<lambda>ka. ends_soon (lv_now lv) (snd ka)) (lv_actions lv))),
          (''untriaged_alerts'', PInt (of_source p ''alert'')), (''code_review_pending'', PInt (of_source p ''code_review'')),
          (''overdue'', PInt (counted pi_overdue (pc_pending p))), (''control_pending'', PInt (of_source p ''control_check'')),
          (''unmapped_assets'', PInt (check_number cross ''source_coverage'' ''uncovered_hosts'')),
          (''access_uncovered'', PInt (check_number cross ''access_record_coverage'' ''uncovered_hosts''))])"

definition live_gaps :: "catalog \<Rightarrow> live_view \<Rightarrow> pdict" where
  "live_gaps cat lv = (case build_pdca_payload cat lv of None \<Rightarrow> [] | Some p \<Rightarrow> gap_counts lv p)"

definition gap_number :: "pdict \<Rightarrow> string \<Rightarrow> int" where
  "gap_number d k = (case dget d k of PInt n \<Rightarrow> n | _ \<Rightarrow> 0)"

text \<open>The queue of the dashboard: the counts and their total, or 503.\<close>

definition dashboard_evidence_gaps :: "gov_env \<Rightarrow> gov_request \<Rightarrow> catalog \<Rightarrow> live_view \<Rightarrow> herr + (pdict \<times> int) option" where
  "dashboard_evidence_gaps env rq cat lv =
     (if \<not> allowed env rq then Inl Forbidden
      else Inr (map_option (\<lambda>p. let g = gap_counts lv p
        in (g, sum_list (map (gap_number g) [''vuln_pending'', ''untriaged_alerts'', ''code_review_pending'', ''control_pending'',
              ''unmapped_assets'', ''access_uncovered'']))) (build_pdca_payload cat lv)))"

section \<open>Retention of access records\<close>

definition retention_cfg :: "string dict \<Rightarrow> int \<times> bool" where
  "retention_cfg s =
     (let t = strip (env_get s ''log_retention_target_days'' ''365'');
          target = (if t = [] then 365 else case int_of_text t of None \<Rightarrow> 365 | Some n \<Rightarrow> n);
          personal = lower (strip (env_get s ''log_retention_personal'' [])) \<in> {''1'', ''true'', ''yes'', ''on''}
      in (if personal then max target 730 else target, personal))"

record retention_row =
  rr_source :: string
  rr_count :: int
  rr_oldest :: "string option"
  rr_span :: "int option"

text \<open>What Loki says; \<open>None\<close> where it is not configured or does not answer.\<close>

record loki_summary =
  lk_count :: int
  lk_oldest :: "string option"
  lk_span :: "int option"

record retention =
  rt_target :: int
  rt_personal :: bool
  rt_span :: "int option"
  rt_rows :: "retention_row list"

definition rt_ok :: "retention \<Rightarrow> bool" where
  "rt_ok r = (case rt_span r of None \<Rightarrow> False | Some n \<Rightarrow> rt_target r \<le> n)"

definition older :: "dtime option \<Rightarrow> dtime \<Rightarrow> dtime option" where
  "older a d = (case a of None \<Rightarrow> Some d | Some x \<Rightarrow> if dt_lt d x = Some True then Some d else Some x)"

definition seen_step :: "(int \<times> dtime option) dict \<Rightarrow> alert \<Rightarrow> (int \<times> dtime option) dict" where
  "seen_step d a =
     (let src = sor (al_source a) ''(unknown)''; (n, old) = (case map_of d src of None \<Rightarrow> (0, None) | Some x \<Rightarrow> x)
      in dset d src (n + 1, older old (with_utc (al_observed_at a))))"

text \<open>A vulnerability has no attribute \<^verbatim>\<open>observed_at\<close>, so that the row of Trivy has no oldest record.\<close>

definition seen_sources :: "repo \<Rightarrow> (int \<times> dtime option) dict" where
  "seen_sources r =
     (let d = foldl seen_step [] (map snd (re_alerts r));
          n = counted (\<lambda>kv. vu_source (snd kv) = ''trivy'') (re_vulns r)
      in if n = 0 then d else dset d ''trivy'' (n, None))"

definition days_between :: "dtime \<Rightarrow> dtime \<Rightarrow> int" where
  "days_between now old = (case dt_sub now old of None \<Rightarrow> 0 | Some n \<Rightarrow> td_days n)"

definition retention_row_of :: "dtime \<Rightarrow> string \<times> int \<times> dtime option \<Rightarrow> retention_row" where
  "retention_row_of now e =
     (case e of (src, n, old) \<Rightarrow>
        \<lparr>rr_source = src, rr_count = n, rr_oldest = map_option (\<lambda>d. take 10 (iso_text (dt_us d))) old,
         rr_span = map_option (days_between now) old\<rparr>)"

definition loki_day :: "loki_summary \<Rightarrow> dtime option" where
  "loki_day lk = (case lk_oldest lk of None \<Rightarrow> None
     | Some s \<Rightarrow> (case strp_date s of Some (t, []) \<Rightarrow> Some \<lparr>dt_us = t, dt_off = Some 0\<rparr> | _ \<Rightarrow> None))"

definition log_retention_status :: "live_view \<Rightarrow> (int \<Rightarrow> loki_summary option) \<Rightarrow> retention" where
  "log_retention_status lv loki =
     (let (target, personal) = retention_cfg (lv_settings lv); now = lv_now lv; per = seen_sources (lv_repo lv);
          rows = map (retention_row_of now) per;
          oldest = foldl (\<lambda>o' e. case snd (snd e) of None \<Rightarrow> o' | Some d \<Rightarrow> older o' d) None per;
          rows = (case loki target of None \<Rightarrow> rows
            | Some lk \<Rightarrow> filter (\<lambda>r. rr_source r \<noteq> ''loki'') rows
                @ [\<lparr>rr_source = ''loki'', rr_count = lk_count lk, rr_oldest = lk_oldest lk, rr_span = lk_span lk\<rparr>]);
          oldest = (case Option.bind (loki target) loki_day of None \<Rightarrow> oldest | Some d \<Rightarrow> older oldest d)
      in \<lparr>rt_target = target, rt_personal = personal, rt_span = map_option (days_between now) oldest,
          rt_rows = sort_key (\<lambda>r. case rr_span r of None \<Rightarrow> (1::nat, 0::int) | Some n \<Rightarrow> (0, - n)) rows\<rparr>)"

section \<open>Metrics of the sources\<close>

definition host_label :: "repo \<Rightarrow> string \<Rightarrow> string" where
  "host_label r hid = sor (name_of_host r hid []) (sor hid ''(unknown)'')"

definition breakdown_row :: "string \<Rightarrow> string \<Rightarrow> pv" where
  "breakdown_row l v = PDict [(''label'', PStr l), (''value'', PStr v)]"

text \<open>The largest rows, and how many are left.\<close>

definition top_rows :: "nat \<Rightarrow> (string \<times> string \<times> int) list \<Rightarrow> pv \<times> pv" where
  "top_rows n rows =
     (PList (map (\<lambda>r. breakdown_row (fst r) (fst (snd r))) (take n (sort_desc (\<lambda>r. snd (snd r)) rows))),
      PInt (int (length rows - n)))"

definition metric :: "int \<Rightarrow> string \<Rightarrow> string \<Rightarrow> pv \<times> pv \<Rightarrow> pdict" where
  "metric n ko en bd =
     [(''count'', PInt n), (''summary_ko'', PStr ko), (''summary_en'', PStr en), (''breakdown'', fst bd), (''more'', snd bd)]"

definition trivy_metric :: "nat \<Rightarrow> repo \<Rightarrow> pdict" where
  "trivy_metric limit r =
     (let vulns = filter (\<lambda>v. vu_source v = ''trivy'' \<and> vu_resolved_at v = None) (map snd (re_vulns r));
          n = (\<lambda>vs s. counted (\<lambda>v. vu_severity v = s) vs);
          rows = map (\<lambda>(h, vs). (host_label r h, ''C'' @ int_str (n vs ''critical'') @ utf8 [194,
     183, 72] @ int_str (n vs ''high''), int (length vs)))
            (group_by vu_host_id (filter (\<lambda>v. serious (vu_severity v)) vulns));
          c = int_str (n vulns ''critical''); h = int_str (n vulns ''high''); t = int_str (int (length vulns))
      in metric (int (length vulns)) (utf8 [235, 175, 184, 236, 161, 176, 236, 185, 152, 32, 236, 183, 168,
     236, 149, 189, 236, 160, 144, 32] @ t @ utf8 [234, 177, 180, 32, 40, 67, 114, 105, 116, 105, 99, 97,
     108, 32] @ c @ utf8 [194, 183, 72, 105, 103, 104, 32] @ h @ '')'')
           (t @ '' open vulns (Critical '' @ c @ utf8 [32, 194, 183, 32, 72, 105, 103, 104,
     32] @ h @ '')'') (top_rows limit rows))"

definition week_alerts :: "string \<Rightarrow> repo \<Rightarrow> dtime \<Rightarrow> alert list option" where
  "week_alerts src r now =
     map_option (\<lambda>xs. map fst (filter (\<lambda>x. \<not> snd x) xs))
       (those (map (\<lambda>a. map_option (Pair a) (dt_lt (al_observed_at a) (days_later (- 7) now)))
         (filter (\<lambda>a. al_source a = src) (map snd (re_alerts r)))))"

definition alert_metric :: "nat \<Rightarrow> string \<Rightarrow> string \<times> string \<Rightarrow> string \<times> string \<Rightarrow> repo \<Rightarrow> dtime \<Rightarrow> pdict option" where
  "alert_metric limit src words tails r now =
     map_option (\<lambda>alerts.
       let rows = map (\<lambda>(h, as). (host_label r h, int_str (int (length as)), int (length as)))
             (group_by (\<lambda>a. or_else (al_host_id a) []) alerts);
           t = int_str (int (length alerts))
       in metric (int (length alerts)) (utf8 [236, 181, 156, 234, 183, 188, 32, 55, 236, 157, 188,
     32] @ fst words @ '' '' @ t @ utf8 [234, 177, 180] @ fst tails)
            (t @ '' '' @ snd words @ '' (7d)'' @ snd tails) (top_rows limit rows))
     (week_alerts src r now)"

definition loki_metric :: "nat \<Rightarrow> retention \<Rightarrow> pdict" where
  "loki_metric limit rt =
     (let tgt = int_str (rt_target rt)
      in case rt_span rt of
           Some dys \<Rightarrow>
             metric dys (utf8 [234, 180, 128, 236, 184, 161, 32, 234, 184, 176, 235, 161, 157, 32, 235, 178,
     148, 236, 156, 132, 32] @ int_str dys @ utf8 [236, 157, 188, 32, 47, 32, 235, 170, 169, 237, 145, 156,
     32] @ tgt @ utf8 [236, 157, 188, 32, 226, 128, 148, 32] @ (if rt_ok rt then utf8 [236, 182, 169, 236,
     161, 177] else utf8 [235, 175, 184, 235, 139, 172])
                @ utf8 [32, 40, 235, 161, 156, 234, 183, 184, 236, 139, 156, 236, 138, 164, 237, 133, 156,
     32, 114, 101, 116, 101, 110, 116, 105, 111, 110, 32, 236, 132, 164, 236, 160, 149, 32, 236, 166, 157, 235, 185, 153, 32, 235, 179, 145, 237, 150, 137, 41])
               (''observed record span '' @ int_str dys @ ''d / target '' @ tgt @ utf8 [100, 32, 226, 128,
     148, 32] @ (if rt_ok rt then ''meets'' else ''below'')
                @ '' (attach log-system retention proof)'')
               (PList (map (\<lambda>w. breakdown_row (rr_source w) (sor (or_else (rr_oldest w) []) ''-'' @ middle_dot
                  @ (case rr_span w of None \<Rightarrow> ''None'' | Some n \<Rightarrow> int_str n) @ ''d'' @ middle_dot @ int_str (rr_count w) @ utf8 [234, 177, 180]))
                  (take limit (rt_rows rt))), PInt 0)
         | None \<Rightarrow>
             metric 0 (utf8 [236, 160, 145, 236, 134, 141, 234, 184, 176, 235, 161, 157, 32, 235, 175, 184,
     234, 180, 128, 236, 184, 161, 32, 226, 128, 148, 32, 235, 170, 169, 237, 145, 156, 32, 235, 179, 180,
     236, 161, 180, 32] @ tgt @ utf8 [236, 157, 188, 46, 32, 235, 161, 156, 234, 183, 184, 32, 236, 136, 152,
     236, 167, 145, 32, 236, 151, 176, 235, 143, 153, 194, 183, 114, 101, 116, 101, 110, 116, 105, 111, 110, 32, 236, 166, 157, 235, 185, 153, 32, 237, 149, 132, 236, 154, 148])
               (utf8 [110, 111, 32, 97, 99, 99, 101, 115, 115, 32, 114, 101, 99, 111, 114, 100, 115, 32, 111,
     98, 115, 101, 114, 118, 101, 100, 32, 226, 128, 148, 32, 116, 97, 114, 103, 101, 116, 32] @ tgt @ ''d; wire log collection & attach proof'') (PList [], PInt 0))"

definition mori_metric :: "nat \<Rightarrow> live_view \<Rightarrow> pdict" where
  "mori_metric limit lv =
     (let incs = map snd (lv_incidents lv);
          newest = sort_desc (\<lambda>x. pstr (por (por (dget x ''updated_at'') (dget x ''created_at'')) (PStr []))) incs;
          n = int_str (int (length incs)); k = int_str (int (length (lv_risks lv))); e = int_str (lv_audit lv)
      in metric (int (length incs)) (utf8 [236, 157, 184, 236, 139, 156, 235, 141, 152, 237, 138, 184,
     32] @ n @ utf8 [32, 194, 183, 32, 236, 156, 132, 237, 151, 152, 237, 143, 137, 234, 176, 128,
     32] @ k @ utf8 [32, 194, 183, 32, 234, 176, 144, 236, 130, 172, 236, 157, 180, 235, 178, 164, 237, 138,
     184, 32] @ e)
           (n @ utf8 [32, 105, 110, 99, 105, 100, 101, 110, 116, 115, 32, 194, 183, 32] @ k @ utf8 [32, 114,
     105, 115, 107, 32, 97, 115, 115, 101, 115, 115, 109, 101, 110, 116, 115, 32, 194, 183, 32] @ e @ '' audit events'')
           (PList (map (\<lambda>i. PDict [(''label'', por (por (dget i ''title'') (dget i ''incident_id'')) (PStr ''-'')),
              (''value'', PStr (gstr i ''status''))]) (take limit newest)), PInt (int (length incs - limit))))"

definition source_metrics :: "nat \<Rightarrow> live_view \<Rightarrow> (int \<Rightarrow> loki_summary option) \<Rightarrow> pdict dict option" where
  "source_metrics limit lv loki =
     (let r = lv_repo lv; cross = build_crosscheck_payload r (lv_now lv);
          fleet = check_number cross ''zabbix_vs_fleet'' ''fleet_count''; zbx = check_number cross ''zabbix_vs_fleet'' ''zabbix_count''
      in Option.bind (alert_metric limit ''zabbix'' (utf8 [234, 178, 189, 235, 179, 180], ''alerts'')
             (utf8 [32, 194, 183, 32, 235, 170, 168, 235, 139, 136, 237, 132, 176, 235, 167, 129, 32, 236,
     158, 144, 236, 130, 176, 32] @ int_str zbx, middle_dot @ int_str zbx @ '' monitored hosts'') r (lv_now lv)) (\<lambda>z.
         map_option (\<lambda>w.
           [(''trivy'', trivy_metric limit r), (''zabbix'', z), (''wazuh'', w),
            (''fleet'', metric fleet (utf8 [236, 136, 152, 236, 167, 145, 32, 236, 158, 144, 236, 130, 176,
     32] @ int_str fleet) (int_str fleet @ '' collected assets'') (PList [], PInt 0)),
            (''loki'', loki_metric limit (log_retention_status lv loki)), (''mori'', mori_metric limit lv)])
         (alert_metric limit ''wazuh'' (utf8 [237, 131, 144, 236, 167, 128], ''detections'') ([],
     []) r (lv_now lv))))"

section \<open>Hosts, documents and snapshots\<close>

definition alias_ids :: "repo \<Rightarrow> string \<Rightarrow> string list" where
  "alias_ids r src = map ha_host_id (filter (\<lambda>a. ha_source a = src) (map snd (re_aliases r)))"

definition inventoried :: "host \<Rightarrow> bool" where
  "inventoried h = (or_else (ho_primary_ip h) [] \<noteq> [] \<or> ho_status h \<in> {''online'', ''offline''})"

definition inventory_row :: "host \<Rightarrow> string \<times> string \<times> string" where
  "inventory_row h = (sor (ho_hostname h) ''(unknown)'', sor (or_else (ho_primary_ip h) []) ''-'', ho_status h)"

definition hosts_of_source :: "repo \<Rightarrow> string \<Rightarrow> string \<Rightarrow> string \<Rightarrow> (string \<times> string \<times> string) list" where
  "hosts_of_source r src tag other =
     sort_key fst (map inventory_row (filter (\<lambda>h. inventoried h \<and>
       (ho_id h \<in> set (alias_ids r src) \<or> (prefix tag (ho_id h) \<and> ho_id h \<notin> set (alias_ids r other)))) (all_hosts r)))"

definition evidence_host_lists :: "repo \<Rightarrow> (string \<times> string \<times> string) list dict" where
  "evidence_host_lists r =
     [(''fleet'', hosts_of_source r ''fleet'' ''pc-'' ''zabbix''), (''zabbix'', hosts_of_source r ''zabbix'' ''server-'' ''fleet'')]"

definition host_list_at :: "(string \<times> string \<times> string) list dict \<Rightarrow> string \<Rightarrow> (string \<times> string \<times> string) list" where
  "host_list_at hl src = (case map_of hl src of None \<Rightarrow> [] | Some hs \<Rightarrow> hs)"

text \<open>The document of the evidence: the hosts of the sources with an inventory, a line for each other source, the records.\<close>

definition inventory_entry :: "string \<Rightarrow> string \<times> string \<times> string \<Rightarrow> pdict" where
  "inventory_entry src h =
     [(''hostname'', PStr (fst h)), (''ip'', PStr (fst (snd h))), (''status'', PStr (snd (snd h))), (''source'', PStr src)]"

definition document_record :: "pdict \<Rightarrow> pdict" where
  "document_record r =
     (let f = (\<lambda>k. (k, dgetd r k (PStr [])))
      in [f ''collected_at'', (''kind'', PStr (if dget r ''source'' = PStr ''auto'' then utf8 [236, 158, 144,
     235, 143, 153] else utf8 [236, 136, 152, 234, 184, 176])), f ''title'',
          f ''collected_by'', f ''reference'', f ''body''])"

definition evidence_document ::
    "string \<Rightarrow> person \<Rightarrow> string \<Rightarrow> (string \<times> string \<times> string) list dict \<Rightarrow> pdict dict \<Rightarrow> catalog \<Rightarrow> pdict list \<Rightarrow> timestamp
       \<Rightarrow> evidence_doc option" where
  "evidence_document cid user status hosts metrics cat records now_iso =
     map_option (\<lambda>c.
       let srcs = sources_of c
       in \<lparr>ed_control = [(''id'', dget c ''id''), (''title_ko'', dgetd c ''title_ko'' (PStr [])),
             (''title_en'', dgetd c ''title_en'' (PStr [])), (''framework'', dgetd c ''framework'' (PStr [])),
             (''intent_ko'', dgetd c ''intent_ko'' (PStr []))],
           ed_status = status, ed_generated = now_iso, ed_collector = user,
           ed_inventory = concat (map (\<lambda>s. if s \<in> set srcs then map (inventory_entry s) (host_list_at hosts s) else []) [''fleet'', ''zabbix'']),
           ed_live = concat (map (\<lambda>s. let t = gstr (record_at metrics s) ''summary_ko''
              in if s \<in> {''fleet'', ''zabbix''} \<or> t = [] then [] else [[(''label'', PStr s), (''summary'', PStr t)]]) srcs),
           ed_records = map document_record (by_collection records)\<rparr>)
     (find_control cat cid)"

definition framework_name :: "pdict \<Rightarrow> string" where
  "framework_name c =
     (let fw = dgetd c ''framework'' (PStr [])
      in if fw = PStr ''isms-p'' then ''ISMS-P'' else if fw = PStr ''iso27001'' then ''ISO 27001:2022'' else pstr fw)"

definition snapshot_hosts :: "(string \<times> string \<times> string) list \<Rightarrow> string list" where
  "snapshot_hosts hs =
     map (\<lambda>(n, ip, st). let m = join middle_dot (filter (\<lambda>x. x \<noteq> [] \<and> x \<noteq> ''-'') [ip, st])
       in ''    - '' @ n @ (if m = [] then [] else '' ('' @ m @ '')'')) hs"

definition snapshot_lines :: "(string \<times> string \<times> string) list dict \<Rightarrow> pdict \<Rightarrow> string list" where
  "snapshot_lines hl e =
     (let summ = pstr (por (por (dget e ''summary_ko'') (dget e ''summary_en'')) (PStr [])); hs = host_list_at hl (gstr e ''source'')
      in (if summ = [] then []
          else [''  ['' @ pstr (por (dget e ''label_ko'') (dgetd e ''source'' (PStr []))) @ ''] '' @ summ])
         @ (if hs \<noteq> [] then snapshot_hosts hs
            else map (\<lambda>row. ''    - '' @ pstr (dgetd (as_dict row) ''label'' (PStr [])) @ '': '' @ pstr (dgetd (as_dict row) ''value'' (PStr [])))
                   (as_list (dget e ''breakdown''))
              @ (if truthy (dget e ''more'') then [utf8 [32, 32, 32, 32, 226, 128, 166, 32, 236, 153, 184,
     32] @ pstr (dget e ''more'') @ utf8 [234, 177, 180]] else [])))"

definition UNDECIDED :: string where "UNDECIDED = utf8 [235, 175, 184, 236, 160, 149]"

definition compose_snapshot_body :: "control_detail \<Rightarrow> pdict \<Rightarrow> (string \<times> string \<times> string) list dict \<Rightarrow> string" where
  "compose_snapshot_body d status hl =
     (let c = cd_control d; st = pstr (por (dget status ''status'') (PStr UNDECIDED));
          told_of = (\<lambda>k l. if truthy (dget status k) then [l @ pstr (dget status k)] else []);
          shown = (\<lambda>e. pstr (por (por (dget e ''summary_ko'') (dget e ''summary_en'')) (PStr [])) \<noteq> [])
      in join [LF]
          ([utf8 [226, 150, 160, 32, 237, 134, 181, 236, 160, 156, 58, 32,
     91] @ pstr (dgetd c ''id'' (PStr [])) @ ''] '' @ pstr (por (por (dget c ''title_ko'') (dget c ''title_en'')) (PStr []))
              @ '' ('' @ framework_name c @ '')'']
           @ (if truthy (dget c ''intent_ko'') then [utf8 [194, 183, 32, 236, 183, 168, 236, 167, 128, 58,
     32] @ pstr (dget c ''intent_ko'')] else [])
           @ (if truthy (dget c ''evidence_hint_ko'') then [utf8 [194, 183, 32, 236, 166, 157, 236, 160, 129,
     32, 237, 158, 140, 237, 138, 184, 58, 32] @ pstr (dget c ''evidence_hint_ko'')] else [])
           @ [utf8 [194, 183, 32] @ join middle_dot ([utf8 [236, 157, 180, 237, 150, 137, 236, 131, 129, 237,
     131, 156, 58, 32] @ st] @ told_of ''owner'' (utf8 [235, 139, 180, 235, 139, 185, 58,
     32]) @ told_of ''due_date'' (utf8 [234, 184, 176, 237, 149, 156, 58, 32])), [],
              utf8 [226, 150, 160, 32, 236, 139, 164, 236, 166, 157, 236, 160, 129, 32, 40, 236, 136, 152,
     236, 167, 145, 32, 236, 139, 156, 236, 160, 144, 41, 58]]
           @ concat (map (snapshot_lines hl) (cd_live d))
           @ (if list_ex shown (cd_live d) then [] else [utf8 [32, 32, 40, 237, 152, 132, 236, 158, 172, 32,
     236, 136, 152, 236, 167, 145, 235, 144, 156, 32, 235, 157, 188, 236, 157, 180, 235, 184, 140, 32, 236, 166, 157, 236, 160, 129, 32, 236, 151, 134, 236, 157, 140, 41]])))"

section \<open>What waits is in the queue\<close>

lemma counted_append: "counted P (xs @ ys) = counted P xs + counted P ys"
  by (simp add: counted_def)

lemma counted_Cons: "counted P (x # xs) = (if P x then 1 else 0) + counted P xs"
  by (simp add: counted_def)

lemma counted_Nil [simp]: "counted P [] = 0"
  by (simp add: counted_def)

lemma bump_counts: "count_at_status (foldl (\<lambda>d x. bump (f x) d) d xs) s = count_at_status d s + counted (\<lambda>x. f x = s) xs"
  by (induction xs arbitrary: d) (auto simp: counted_Cons count_at_status_def bump_def split: option.splits)

lemma status_counts_exact: "count_at_status (status_counts checks) s = counted (\<lambda>c. ck_status c = s) checks"
  unfolding status_counts_def bump_counts
  by (auto simp: count_at_status_def CHECK_STATUSES_def split: option.splits dest!: map_of_SomeD)

lemma those_length: "those xs = Some ys \<Longrightarrow> length ys = length xs"
  by (induction xs arbitrary: ys) (auto split: option.splits)

lemma those_map_view:
  "those (map f xs) = Some ys \<Longrightarrow> (\<And>x y. f x = Some y \<Longrightarrow> g y = h x) \<Longrightarrow> map g ys = map h xs"
  by (induction xs arbitrary: ys) (auto split: option.splits)

definition mark :: "pending_item \<Rightarrow> string \<times> string" where
  "mark i = (pi_source i, pi_check i)"

lemma item_marks:
  "check_item now c = Some i \<Longrightarrow> mark i = (''control_check'', ck_id c)"
  "vuln_item lv v = Some i \<Longrightarrow> mark i = (''trivy'', vu_id v)"
  "alert_item lv a = Some i \<Longrightarrow> mark i = (if of_review a then ''code_review'' else ''alert'', al_id a)"
  by (auto simp: check_item_def vuln_item_def alert_item_def mark_def Let_def bind_eq_Some_conv)

text \<open>What should wait, told from the records: a check that failed or warns; an unresolved critical or high
  finding of Trivy whose exception, if it has one that can be read, has ended; a critical or high alert, not
  older than seven times 24 hours, without a triage that calls it resolved.\<close>

definition check_open :: "control_check \<Rightarrow> bool" where
  "check_open c = (ck_status c \<in> {''fail'', ''warning''})"

definition exempt_until :: "live_view \<Rightarrow> string \<Rightarrow> dtime \<Rightarrow> bool" where
  "exempt_until lv i e = (\<exists>r s. map_of (lv_actions lv) i = Some r \<and> s = strip (pstr (dgetd r ''exception_until'' (PStr [])))
     \<and> s \<noteq> [] \<and> parse_stamp s = Some e)"

definition finding_open :: "live_view \<Rightarrow> vulnerability \<Rightarrow> bool" where
  "finding_open lv v = (vu_source v = ''trivy'' \<and> vu_severity v \<in> {''critical'', ''high''} \<and> vu_resolved_at v = None
     \<and> (\<forall>e. exempt_until lv (vu_id v) e \<longrightarrow> dt_instant e \<le> dt_instant (lv_now lv)))"

definition triaged_resolved :: "live_view \<Rightarrow> string \<Rightarrow> bool" where
  "triaged_resolved lv i = (\<exists>r. map_of (lv_triage lv) i = Some r \<and> strip (pstr (dgetd r ''status'' (PStr []))) = ''resolved'')"

definition alert_open :: "live_view \<Rightarrow> alert \<Rightarrow> bool" where
  "alert_open lv a = (al_severity a \<in> {''critical'', ''high''}
     \<and> dt_instant (lv_now lv) - dt_instant (al_observed_at a) \<le> 7 * 24 * 60 * 60 * 1000000 \<and> \<not> triaged_resolved lv (al_id a))"

lemma dt_lt_instants: "dt_lt a b = (if dt_aware a = dt_aware b then Some (dt_instant a < dt_instant b) else None)"
  by (auto simp: dt_lt_def dt_sub_def dt_instant_def dt_aware_def split: option.splits)

lemma no_field: "strip (pstr (dgetd [] k (PStr []))) = []"
proof -
  have "dgetd [] k (PStr []) = dgetd [] ''k'' (PStr [])" by (simp add: dgetd_def)
  moreover have "strip (pstr (dgetd [] ''k'' (PStr []))) = []" by code_simp
  ultimately show ?thesis by simp
qed

lemma days_later_instant [simp]:
  "dt_instant (days_later n d) = dt_instant d + n * DAY_US" "dt_aware (days_later n d) = dt_aware d"
  by (simp_all add: days_later_def dt_instant_def dt_aware_def)

lemma vuln_waits_open: "dt_aware (lv_now lv) \<Longrightarrow> vuln_waits lv v = finding_open lv v"
  by (auto simp: vuln_waits_def finding_open_def serious_def in_future_def date_at_def record_at_def Let_def
      exempt_until_def dt_lt_instants not_less no_field dest: parse_stamp_aware split: option.splits if_splits)

lemma alert_waits_open: "alert_waits lv a \<noteq> None \<Longrightarrow> (alert_waits lv a = Some True) = alert_open lv a"
  by (auto simp: alert_waits_def alert_open_def serious_def record_at_def triaged_resolved_def dt_lt_instants
      DAY_US_def no_field split: option.splits if_splits)

lemma waiting_alerts_all:
  "waiting_alerts lv = Some as \<Longrightarrow> as = filter (alert_open lv) (map snd (re_alerts (lv_repo lv)))"
proof -
  have "map fst (filter snd xs) = filter (alert_open lv) ys"
    if "those (map (\<lambda>a. map_option (Pair a) (alert_waits lv a)) ys) = Some xs" for xs ys
    using that
  proof (induction ys arbitrary: xs)
    case (Cons a ys)
    then show ?case using alert_waits_open [of lv a] by (cases "alert_waits lv a") (auto split: option.splits)
  qed simp
  then show "waiting_alerts lv = Some as \<Longrightarrow> as = filter (alert_open lv) (map snd (re_alerts (lv_repo lv)))"
    by (auto simp: waiting_alerts_def)
qed

text \<open>C17: Where the summary can be built and the clock tells its offset, its queue holds, each once, the checks that
  failed or warn, the unresolved critical and high findings of Trivy without an exception that ends after now, and
  the critical and high alerts of the last seven days that are not triaged as resolved; nothing else; and the number
  that the stage of action shows is its length.\<close>

theorem queue_exact:
  assumes "build_pdca_payload cat lv = Some p" "dt_aware (lv_now lv)"
  shows "mset (map mark (pc_pending p)) =
      mset (map (\<lambda>c. (''control_check'', ck_id c)) (filter check_open (map snd (re_checks (lv_repo lv)))))
      + mset (map (\<lambda>v. (''trivy'', vu_id v)) (filter (finding_open lv) (map snd (re_vulns (lv_repo lv)))))
      + mset (map (\<lambda>a. (if of_review a then ''code_review'' else ''alert'', al_id a))
          (filter (alert_open lv) (map snd (re_alerts (lv_repo lv)))))
    \<and> pc_do p = int (length (pc_pending p))"
proof -
  let ?checks = "map snd (re_checks (lv_repo lv))" and ?vulns = "filter (finding_open lv) (map snd (re_vulns (lv_repo lv)))"
  have fail: "filter (\<lambda>c. ck_status c \<in> {''fail'', ''warning''}) ?checks = filter check_open ?checks"
    by (rule filter_cong [OF refl]) (simp add: check_open_def)
  have vulns: "filter (vuln_waits lv) (map snd (re_vulns (lv_repo lv))) = ?vulns"
    by (rule filter_cong [OF refl]) (rule vuln_waits_open [OF assms(2)])
  obtain cs vs alerts as where
    parts: "those (map (check_item (lv_now lv)) (filter check_open ?checks)) = Some cs" "those (map (vuln_item lv) ?vulns) = Some vs"
      "waiting_alerts lv = Some alerts" "those (map (alert_item lv) alerts) = Some as"
    and p: "pc_pending p = sort_key pending_key (cs @ vs @ as)"
      "pc_do p = count_at_status (status_counts ?checks) ''warning'' + count_at_status (status_counts ?checks) ''fail''
         + int (length vs) + int (length as)"
    using assms(1) unfolding build_pdca_payload_def Let_def fail vulns by (auto simp: bind_eq_Some_conv)
  have "map mark cs = map (\<lambda>c. (''control_check'', ck_id c)) (filter check_open ?checks)"
    by (rule those_map_view [OF parts(1)]) (rule item_marks(1))
  moreover have "map mark vs = map (\<lambda>v. (''trivy'', vu_id v)) ?vulns"
    by (rule those_map_view [OF parts(2)]) (rule item_marks(2))
  moreover have "map mark as = map (\<lambda>a. (if of_review a then ''code_review'' else ''alert'', al_id a))
      (filter (alert_open lv) (map snd (re_alerts (lv_repo lv))))"
    unfolding waiting_alerts_all [OF parts(3), symmetric] by (rule those_map_view [OF parts(4)]) (rule item_marks(3))
  moreover have "int (length (filter check_open xs)) = counted (\<lambda>c. ck_status c = ''warning'') xs + counted (\<lambda>c. ck_status c = ''fail'') xs"
    for xs by (induction xs) (auto simp: counted_Cons check_open_def)
  then have "int (length cs) = counted (\<lambda>c. ck_status c = ''warning'') ?checks + counted (\<lambda>c. ck_status c = ''fail'') ?checks"
    unfolding those_length [OF parts(1)] length_map by blast
  then have "pc_do p = int (length (pc_pending p))" by (simp add: p status_counts_exact)
  moreover have "mset (map mark (pc_pending p)) = mset (map mark cs) + mset (map mark vs) + mset (map mark as)" by (simp add: p(1))
  ultimately show ?thesis by (simp only: conj_absorb simp_thms)
qed

text \<open>A view with one open serious vulnerability, an alert that was resolved at its source, and a host without a source.\<close>

definition demo_time :: dtime where "demo_time = \<lparr>dt_us = date_us 2026 1 10, dt_off = Some 0\<rparr>"

definition demo_view :: live_view where
  "demo_view =
     \<lparr>lv_repo = empty_repo
        \<lparr>re_hosts := [(''server-1'', \<lparr>ho_id = ''server-1'', ho_hostname = ''web'', ho_platform = None, ho_primary_ip = None,
            ho_status = ''online'', ho_risk_score = 0, ho_first_seen = None, ho_last_seen = None\<rparr>)],
         re_vulns := [(''v1'', \<lparr>vu_id = ''v1'', vu_host_id = ''server-1'', vu_detected_at = demo_time, vu_source = ''trivy'',
            vu_cve = Some ''CVE-1'', vu_severity = ''critical'', vu_package_name = None, vu_installed_version = None,
            vu_fixed_version = None, vu_resolved_at = None, vu_raw_ref = None, vu_raw_payload = []\<rparr>)],
         re_alerts := [(''a1'', \<lparr>al_id = ''a1'', al_source = ''wazuh'', al_observed_at = demo_time, al_message = ''m'', al_host_id = None,
            al_source_event_id = None, al_severity = ''high'', al_original_severity = None, al_rule_name = None, al_rule_id = None,
            al_resolved_at = Some demo_time, al_raw_ref = None, al_raw_payload = []\<rparr>)]\<rparr>,
      lv_actions = [], lv_triage = [], lv_incidents = [], lv_risks = [], lv_audit = 0, lv_settings = [], lv_now = demo_time\<rparr>"

lemma queue_exact_witness:
  "\<exists>p. build_pdca_payload empty_catalog demo_view = Some p \<and> mset (map mark (pc_pending p)) = {#(''trivy'', ''v1''), (''alert'', ''a1'')#}
     \<and> pc_do p = 2"
proof -
  have "build_pdca_payload empty_catalog demo_view \<noteq> None" by code_simp
  then obtain p where p: "build_pdca_payload empty_catalog demo_view = Some p" by blast
  have f: "filter check_open (map snd (re_checks (lv_repo demo_view))) = []"
    "map vu_id (filter (finding_open demo_view) (map snd (re_vulns (lv_repo demo_view)))) = [''v1'']"
    "map (\<lambda>a. (of_review a, al_id a)) (filter (alert_open demo_view) (map snd (re_alerts (lv_repo demo_view))))
       = [(False, ''a1'')]"
    by (simp_all add: demo_view_def demo_time_def empty_repo_def finding_open_def exempt_until_def alert_open_def
        triaged_resolved_def of_review_def)
  have aware: "dt_aware (lv_now demo_view)" by code_simp
  have m: "map (\<lambda>v. (''trivy'', vu_id v)) vs = map (Pair ''trivy'') (map vu_id vs)"
    "map (\<lambda>a. (if of_review a then ''code_review'' else ''alert'', al_id a)) as
       = map (\<lambda>x. (if fst x then ''code_review'' else ''alert'', snd x)) (map (\<lambda>a. (of_review a, al_id a)) as)" for vs as by simp_all
  have "mset (map mark (pc_pending p)) = {#(''trivy'', ''v1''), (''alert'', ''a1'')#} \<and> pc_do p = int (length (pc_pending p))"
    using queue_exact [OF p aware] unfolding m f by simp
  moreover from this have "length (pc_pending p) = 2" by (metis size_mset size_add_mset size_empty length_map numeral_2_eq_2)
  ultimately show ?thesis using p by auto
qed

text \<open>The queue counts an alert that its source has resolved, as long as nobody has triaged it.\<close>

lemma resolved_alert_waits:
  "\<exists>a \<in> set (map snd (re_alerts (lv_repo demo_view))). al_resolved_at a \<noteq> None \<and> alert_waits demo_view a = Some True"
proof -
  have "list_ex (\<lambda>a. al_resolved_at a \<noteq> None \<and> alert_waits demo_view a = Some True) (map snd (re_alerts (lv_repo demo_view)))"
    by code_simp
  then show ?thesis unfolding list_ex_iff .
qed

section \<open>Counts that add up, and two that do not tell\<close>

lemma split_count: "length (in_both xs ys) + length (only_left xs ys) = length xs"
  unfolding in_both_def only_left_def by (rule sum_length_filter_compl)

lemma registered: "set (any_source r) \<subseteq> set (host_ids r)"
  by (auto simp: any_source_def)

text \<open>Every host is either covered or not.\<close>

lemma coverage_adds_up: "length (any_source r) + length (only_left (host_ids r) (any_source r)) = length (host_ids r)"
proof -
  have "set (any_source r) = set (in_both (host_ids r) (any_source r))" using registered by (auto simp: in_both_def)
  moreover have "distinct (any_source r)" "distinct (in_both (host_ids r) (any_source r))"
    by (simp_all add: any_source_def in_both_def host_ids_def)
  ultimately have "length (any_source r) = length (in_both (host_ids r) (any_source r))" by (metis distinct_card)
  then show ?thesis by (simp add: split_count)
qed

text \<open>Every control of the catalog is in one category, with one status.\<close>

lemma category_total: "sum_list (map snd (cy_counts (category_row checks sc))) = cy_total (category_row checks sc)"
proof -
  have "sum_list (map (\<lambda>s. counted (\<lambda>x. x = s) sts) CHECK_STATUSES) = int (length sts)"
    if "list_all (\<lambda>x. x \<in> set CHECK_STATUSES) sts" for sts
    using that by (induction sts) (auto simp: counted_Cons CHECK_STATUSES_def)
  moreover have "agg_status sts \<in> set CHECK_STATUSES" for sts by (simp add: agg_status_def CHECK_STATUSES_def)
  ultimately show ?thesis by (simp add: category_row_def Let_def list_all_iff o_def)
qed

lemma categories_total: "sum_list (map cy_total (categories cat checks)) = int (length (ca_controls cat))"
proof -
  have "sum_list (map cy_total (categories cat checks)) = sum_mset (image_mset cy_total (mset (categories cat checks)))"
    by (simp flip: sum_mset_sum_list)
  also have "\<dots> = sum_list (map (\<lambda>sc. int (length (snd sc))) (group_by category_of (ca_controls cat)))"
    by (simp add: categories_def category_row_def Let_def o_def sum_mset_sum_list [symmetric] image_mset.compositionality)
  also have "\<dots> = int (length (concat (map snd (group_by category_of (ca_controls cat)))))"
  proof -
    have "sum_list (map (\<lambda>sc. int (length (snd sc))) gs) = int (length (concat (map snd gs)))" for gs :: "pdict list dict"
      by (induction gs) simp_all
    then show ?thesis .
  qed
  finally show ?thesis by (simp add: mset_eq_length [OF mset_group_by])
qed

text \<open>The scans of Trivy have no date in the status of the retention, whatever was found and when.\<close>

lemma trivy_never_dated:
  assumes "counted (\<lambda>kv. vu_source (snd kv) = ''trivy'') (re_vulns r) \<noteq> 0"
  shows "map_of (seen_sources r) ''trivy'' = Some (counted (\<lambda>kv. vu_source (snd kv) = ''trivy'') (re_vulns r), None)"
  using assms by (simp add: seen_sources_def Let_def)

text \<open>When the comparison of the sources fails, the dashboard shows no gap instead of an unknown one.\<close>

lemma failed_check_is_zero:
  assumes "build_crosscheck_payload (lv_repo lv) (lv_now lv) = None"
  shows "gap_number (gap_counts lv p) ''unmapped_assets'' = 0" "gap_number (gap_counts lv p) ''access_uncovered'' = 0"
  using assms by (simp_all add: gap_counts_def gap_number_def check_number_def)

end
