(* ===== verification/Control_Desk.thy ===== *)
theory Control_Desk
  imports Live_Evidence Iso_Text Approvals
begin

text \<open>
  The desk of the compliance officer, the routes of \<^verbatim>\<open>api/routes/compliance.py\<close> that change something: edits
  of the catalogue, the status of a control, evidence kept by hand, snapshots of the live evidence on demand and on schedule,
  the monthly review of the access records, and the settings they use.  The state is the four dictionaries with their
  tables.  The identifiers of new records (\<^verbatim>\<open>uuid4\<close>) are an argument.
\<close>

section \<open>State\<close>

record desk =
  dk_edits :: rec_store
  dk_status :: rec_store
  dk_evidence :: rec_store
  dk_settings :: text_store

record desk_env =
  de_gov :: gov_env
  de_back :: backend
  de_base :: catalog
  de_loki :: "int \<Rightarrow> loki_summary option"
  de_uid :: "nat \<Rightarrow> string"

definition empty_desk :: desk where
  "empty_desk = \<lparr>dk_edits = empty_store, dk_status = empty_store, dk_evidence = empty_store, dk_settings = no_settings\<rparr>"

definition reopen :: "desk \<Rightarrow> desk" where
  "reopen s = \<lparr>dk_edits = reboot (dk_edits s), dk_status = reboot (dk_status s), dk_evidence = reboot (dk_evidence s),
     dk_settings = reload_settings (dk_settings s)\<rparr>"

text \<open>\<^verbatim>\<open>str(payload.get(k, d)).strip()\<close>\<close>

definition asked_text :: "pdict \<Rightarrow> string \<Rightarrow> string \<Rightarrow> string" where
  "asked_text p k d = strip (pstr (dgetd p k (PStr d)))"

definition merged_catalog :: "desk_env \<Rightarrow> desk \<Rightarrow> catalog" where
  "merged_catalog e s = merge_edits (de_base e) (rs_cache (dk_edits s))"

definition evidence_for :: "string \<Rightarrow> desk \<Rightarrow> pdict list" where
  "evidence_for cid s = filter (\<lambda>r. dget r ''control_id'' = PStr cid) (map snd (rs_cache (dk_evidence s)))"

text \<open>\<^verbatim>\<open>_require_catalog_admin\<close> and the name that it gives.\<close>

definition catalog_admin :: "desk_env \<Rightarrow> gov_request \<Rightarrow> bool" where
  "catalog_admin e rq = role_in (de_gov e) rq [''admin'']"

definition admin_name :: "gov_request \<Rightarrow> string" where
  "admin_name rq = sor (rq_user rq) ''admin''"

section \<open>Editing the catalogue\<close>

definition CATALOG_FIELDS :: "string list" where
  "CATALOG_FIELDS = [''framework'', ''version'', ''domain'', ''section'', ''title_ko'', ''title_en'',
     ''intent_ko'', ''intent_en'', ''evidence_hint_ko'', ''evidence_hint_en'']"

text \<open>A text of names with commas or semicolons, or what is iterated; \<open>None\<close> where it cannot be.\<close>

definition names_in :: "string \<Rightarrow> string list" where
  "names_in s = filter (\<lambda>x. x \<noteq> []) (map strip (split_on (CHR '','') (map (\<lambda>c. if c = CHR '';'' then CHR '','' else c) s)))"

definition names_of :: "pv \<Rightarrow> string list option" where
  "names_of v =
     (if \<not> truthy v then Some []
      else case v of PStr s \<Rightarrow> Some (names_in s) | PList xs \<Rightarrow> Some (map pstr xs) | PDict d \<Rightarrow> Some (keys d) | _ \<Rightarrow> None)"

definition put_field :: "pdict \<Rightarrow> pdict \<Rightarrow> string \<Rightarrow> pdict" where
  "put_field p r f = (if dhas p f then dset r f (PStr (clean p f)) else r)"

definition edit_record :: "pdict \<Rightarrow> string list \<Rightarrow> string list \<Rightarrow> person \<Rightarrow> string \<Rightarrow> pdict" where
  "edit_record p srcs tags actor origin =
     foldl (put_field p)
       [(''control_id'', PStr (asked_text p ''id'' [])), (''op'', PStr ''upsert''),
        (''framework'', PStr (sor (asked_text p ''framework'' ''custom'') ''custom'')),
        (''evidence_sources'', PList (map (\<lambda>x. PStr (lower (strip x))) srcs)), (''tags'', PList (map PStr tags)),
        (''status'', PStr (sor (asked_text p ''status'' ''draft'') ''draft'')), (''origin'', PStr origin), (''updated_by'', PStr actor)]
       CATALOG_FIELDS"

definition save_catalog_control :: "desk_env \<Rightarrow> pdict \<Rightarrow> person \<Rightarrow> string \<Rightarrow> desk \<Rightarrow> (herr + pdict) \<times> desk" where
  "save_catalog_control e p actor origin s =
     (let cid = asked_text p ''id'' []
      in if cid = [] \<or> sor (asked_text p ''title_ko'' []) (asked_text p ''title_en'' []) = [] then (Inl BadRequest, s)
         else case (names_of (dget p ''evidence_sources''), names_of (dget p ''tags'')) of
           (Some srcs, Some tags) \<Rightarrow>
             (let r = edit_record p srcs tags actor origin; (ok, t) = commit (de_back e) CATALOG_EDITS cid r (dk_edits s)
              in (if ok then Inr r else Inl ServerError, s\<lparr>dk_edits := t\<rparr>))
         | _ \<Rightarrow> (Inl ServerError, s))"

definition create_or_edit_control :: "desk_env \<Rightarrow> gov_request \<Rightarrow> pdict \<Rightarrow> desk \<Rightarrow> (herr + pdict) \<times> desk" where
  "create_or_edit_control e rq p s =
     (if \<not> catalog_admin e rq then (Inl Forbidden, s) else save_catalog_control e p (admin_name rq) ''manual'' s)"

definition removal_record :: "string \<Rightarrow> person \<Rightarrow> pdict" where
  "removal_record cid actor =
     [(''control_id'', PStr cid), (''op'', PStr ''delete''), (''framework'', PStr []), (''origin'', PStr ''manual''),
      (''updated_by'', PStr actor)]"

definition delete_control :: "desk_env \<Rightarrow> gov_request \<Rightarrow> string \<Rightarrow> desk \<Rightarrow> (herr + string) \<times> desk" where
  "delete_control e rq cid s =
     (if \<not> catalog_admin e rq then (Inl Forbidden, s)
      else if PStr cid \<in> set (map (\<lambda>c. dget c ''id'') (ca_controls (de_base e))) then
        (let (ok, t) = commit (de_back e) CATALOG_EDITS cid (removal_record cid (admin_name rq)) (dk_edits s)
         in (if ok then Inr ''hidden'' else Inl ServerError, s\<lparr>dk_edits := t\<rparr>))
      else if map_of (rs_cache (dk_edits s)) cid \<noteq> None then
        (let (ok, t) = uncommit (de_back e) cid (dk_edits s)
         in (if ok then Inr ''deleted'' else Inl ServerError, s\<lparr>dk_edits := t\<rparr>))
      else (Inl NotFound, s))"

section \<open>The key of the language model\<close>

definition ANTHROPIC_KEY_SETTING :: string where "ANTHROPIC_KEY_SETTING = ''anthropic_api_key''"

definition env_claude_key :: "string dict \<Rightarrow> string" where
  "env_claude_key os = strip (sor (env_get os ''MORI_ANTHROPIC_API_KEY'' []) (env_get os ''ANTHROPIC_API_KEY'' []))"

definition saved_claude_key :: "desk \<Rightarrow> string" where
  "saved_claude_key s = strip (env_get (tx_cache (dk_settings s)) ANTHROPIC_KEY_SETTING [])"

definition resolved_claude_key :: "string dict \<Rightarrow> desk \<Rightarrow> string" where
  "resolved_claude_key os s = sor (env_claude_key os) (saved_claude_key s)"

record key_view =
  kv_configured :: bool
  kv_source :: string
  kv_masked :: string
  kv_env_locked :: bool

definition get_claude_key :: "desk_env \<Rightarrow> gov_request \<Rightarrow> string dict \<Rightarrow> desk \<Rightarrow> herr + key_view" where
  "get_claude_key e rq os s =
     (if \<not> catalog_admin e rq then Inl Forbidden
      else let k = resolved_claude_key os s
        in Inr \<lparr>kv_configured = (k \<noteq> []),
             kv_source = (if env_claude_key os \<noteq> [] then ''env'' else if saved_claude_key s \<noteq> [] then ''db'' else ''none''),
             kv_masked = (if k = [] then [] else if 4 \<le> length k then utf8 [226, 128,
     166] @ drop (length k - 4) k else utf8 [194, 183, 194, 183, 194, 183, 194, 183]),
             kv_env_locked = (env_claude_key os \<noteq> [])\<rparr>)"

definition put_claude_key :: "desk_env \<Rightarrow> gov_request \<Rightarrow> pdict \<Rightarrow> desk \<Rightarrow> (herr + bool) \<times> desk" where
  "put_claude_key e rq p s =
     (if \<not> catalog_admin e rq then (Inl Forbidden, s)
      else let k = strip (gstr p ''api_key''); (ok, t) = set_setting (de_back e) ANTHROPIC_KEY_SETTING k (admin_name rq) (dk_settings s)
        in (if ok then Inr (k \<noteq> []) else Inl ServerError, s\<lparr>dk_settings := t\<rparr>))"

section \<open>The status of a control\<close>

definition CONTROL_STATUSES :: "string list" where
  "CONTROL_STATUSES = [UNDECIDED, utf8 [236, 157, 180, 237, 150, 137], utf8 [235, 182, 128, 235, 182, 132,
     236, 157, 180, 237, 150, 137], utf8 [235, 175, 184, 236, 157, 180, 237, 150, 137], utf8 [237, 149, 180,
     235, 139, 185, 236, 151, 134, 236, 157, 140]]"

text \<open>\<^verbatim>\<open>date.fromisoformat(value[:10])\<close> of the calendar format succeeds.  Since Python 3.11 the compact form and the
  forms with a week are accepted too; such a text is refused here.\<close>

definition starts_with_day :: "string \<Rightarrow> bool" where
  "starts_with_day s = is_day (take 10 s)"

definition status_record :: "gov_request \<Rightarrow> string \<Rightarrow> pdict \<Rightarrow> pdict" where
  "status_record rq cid p =
     [(''control_id'', PStr cid), (''status'', PStr (sor (asked_text p ''status'' []) UNDECIDED)),
      (''owner'', PStr (asked_text p ''owner'' [])), (''exception_reason'', PStr (asked_text p ''exception_reason'' [])),
      (''improvement_plan'', PStr (asked_text p ''improvement_plan'' [])), (''due_date'', PStr (asked_text p ''due_date'' [])),
      (''updated_at'', PStr (rq_now rq)), (''updated_by'', PStr (sor (rq_user rq) ''unknown''))]"

definition control_status_upsert :: "desk_env \<Rightarrow> gov_request \<Rightarrow> string \<Rightarrow> pdict \<Rightarrow> desk \<Rightarrow> (herr + pdict) \<times> desk" where
  "control_status_upsert e rq cid p s =
     (let ids = map (\<lambda>c. dget c ''id'') (ca_controls (merged_catalog e s)); due = asked_text p ''due_date'' []
      in if \<not> allowed (de_gov e) rq then (Inl Forbidden, s)
         else if ids \<noteq> [] \<and> PStr cid \<notin> set ids then (Inl NotFound, s)
         else if sor (asked_text p ''status'' []) UNDECIDED \<notin> set CONTROL_STATUSES \<or> (due \<noteq> [] \<and> \<not> starts_with_day due)
         then (Inl BadRequest, s)
         else let r = status_record rq cid p; (ok, t) = commit (de_back e) CONTROL_STATUS cid r (dk_status s)
           in (if ok then Inr r else Inl ServerError, s\<lparr>dk_status := t\<rparr>))"

section \<open>Evidence by hand\<close>

definition persist_evidence :: "desk_env \<Rightarrow> string \<Rightarrow> pdict \<Rightarrow> desk \<Rightarrow> (herr + pdict) \<times> desk" where
  "persist_evidence e i r s =
     (case stamp_evidence (ge_H (de_gov e)) r of
        None \<Rightarrow> (Inl ServerError, s)
      | Some r' \<Rightarrow> (let (ok, t) = commit (de_back e) CONTROL_EVIDENCE i r' (dk_evidence s)
          in (if ok then Inr r' else Inl ServerError, s\<lparr>dk_evidence := t\<rparr>)))"

definition list_evidence_records :: "desk_env \<Rightarrow> gov_request \<Rightarrow> string \<Rightarrow> desk \<Rightarrow> herr + pdict list" where
  "list_evidence_records e rq cid s =
     (if \<not> allowed (de_gov e) rq then Inl Forbidden else Inr (by_collection (evidence_for cid s)))"

definition add_evidence_record :: "desk_env \<Rightarrow> gov_request \<Rightarrow> string \<Rightarrow> pdict \<Rightarrow> desk \<Rightarrow> (herr + pdict) \<times> desk" where
  "add_evidence_record e rq cid p s =
     (let title = asked_text p ''title'' []; day = asked_text p ''collected_at'' []; i = de_uid e 0
      in if \<not> allowed (de_gov e) rq then (Inl Forbidden, s)
         else if title = [] \<or> (day \<noteq> [] \<and> \<not> starts_with_day day) then (Inl BadRequest, s)
         else persist_evidence e i
           [(''id'', PStr i), (''control_id'', PStr cid), (''title'', PStr title), (''body'', PStr (asked_text p ''body'' [])),
            (''collected_by'', PStr (sor (asked_text p ''collected_by'' []) (rq_user rq))),
            (''collected_at'', PStr (sor day (take 10 (rq_now rq)))), (''reference'', PStr (asked_text p ''reference'' [])),
            (''source'', PStr ''manual''), (''created_at'', PStr (rq_now rq)), (''created_by'', PStr (sor (rq_user rq) ''unknown''))] s)"

definition delete_evidence_record :: "desk_env \<Rightarrow> gov_request \<Rightarrow> string \<Rightarrow> string \<Rightarrow> desk \<Rightarrow> (herr + string) \<times> desk" where
  "delete_evidence_record e rq cid i s =
     (if \<not> allowed (de_gov e) rq then (Inl Forbidden, s)
      else case map_of (rs_cache (dk_evidence s)) i of
        None \<Rightarrow> (Inl NotFound, s)
      | Some r \<Rightarrow>
          if dget r ''control_id'' \<noteq> PStr cid then (Inl NotFound, s)
          else let (ok, t) = uncommit (de_back e) i (dk_evidence s)
            in (if ok then Inr i else Inl ServerError, s\<lparr>dk_evidence := t\<rparr>))"

section \<open>Snapshots\<close>

text \<open>The view of the live data that the snapshots take: the settings are those of the desk.\<close>

definition seen_by :: "desk \<Rightarrow> live_view \<Rightarrow> live_view" where
  "seen_by s lv = lv\<lparr>lv_settings := tx_cache (dk_settings s)\<rparr>"

definition snapshot_label :: "string \<Rightarrow> string" where
  "snapshot_label kind = (if kind = ''auto'' then utf8 [236, 139, 164, 236, 166, 157, 236, 160, 129, 32, 236,
     158, 144, 235, 143, 153, 32, 236, 138, 164, 235, 131, 133, 236, 131, 183] else utf8 [236, 139, 164, 236,
     166, 157, 236, 160, 129, 32, 236, 160, 149, 234, 184, 176, 32, 236, 138, 164, 235, 131, 133, 236, 131, 183])"

definition snapshot_record ::
    "string \<Rightarrow> dtime \<Rightarrow> control_detail \<Rightarrow> person \<Rightarrow> (string \<times> string \<times> string) list dict \<Rightarrow> string \<Rightarrow> string \<Rightarrow> desk \<Rightarrow> pdict" where
  "snapshot_record cid now d user hosts kind i s =
     (let day = take 10 (iso_text (dt_us now))
      in [(''id'', PStr i), (''control_id'', PStr cid), (''title'', PStr (snapshot_label kind @ '' ('' @ day @ '')'')),
          (''body'', PStr (compose_snapshot_body d (record_at (rs_cache (dk_status s)) cid) hosts)),
          (''collected_by'', PStr (sor user ''system'')), (''collected_at'', PStr day),
          (''reference'', PStr (''auto:'' @ kind @ utf8 [32, 235, 157, 188, 236, 157, 180, 235, 184, 140, 32,
     236, 166, 157, 236, 160, 129, 32, 236, 138, 164, 235, 131, 133, 236, 131, 183])), (''source'', PStr ''auto''),
          (''created_at'', PStr (dt_isoformat now)), (''created_by'', PStr (sor user ''system''))])"

definition snapshot_control ::
    "desk_env \<Rightarrow> string \<Rightarrow> dtime \<Rightarrow> control_detail \<Rightarrow> person \<Rightarrow> (string \<times> string \<times> string) list dict \<Rightarrow> string \<Rightarrow> nat \<Rightarrow> desk
       \<Rightarrow> (herr + pdict) \<times> desk" where
  "snapshot_control e cid now d user hosts kind n s =
     persist_evidence e (de_uid e n) (snapshot_record cid now d user hosts kind (de_uid e n) s) s"

definition auto_evidence_snapshot :: "desk_env \<Rightarrow> gov_request \<Rightarrow> live_view \<Rightarrow> string \<Rightarrow> desk \<Rightarrow> (herr + pdict) \<times> desk" where
  "auto_evidence_snapshot e rq lv cid s =
     (if \<not> allowed (de_gov e) rq then (Inl Forbidden, s)
      else case source_metrics 200 (seen_by s lv) (de_loki e) of
        None \<Rightarrow> (Inl ServerError, s)
      | Some metrics \<Rightarrow>
          (case build_control_detail cid (live_gaps (de_base e) (seen_by s lv)) metrics (merged_catalog e s) [] of
             None \<Rightarrow> (Inl NotFound, s)
           | Some d \<Rightarrow> snapshot_control e cid (lv_now lv) d (rq_user rq) (evidence_host_lists (lv_repo lv)) ''auto'' 0 s))"

definition SNAP_SCHEDULES :: "string list" where
  "SNAP_SCHEDULES = [''off'', ''daily'', ''weekly'', ''monthly'']"

definition snap_period_days :: "string \<Rightarrow> int" where
  "snap_period_days sched = (if sched = ''daily'' then 1 else if sched = ''weekly'' then 7 else 30)"

definition SNAP_SCHED_KEY :: string where "SNAP_SCHED_KEY = ''evidence_snapshot_schedule''"
definition SNAP_SCOPE_KEY :: string where "SNAP_SCOPE_KEY = ''evidence_snapshot_scope''"
definition SNAP_LAST_KEY :: string where "SNAP_LAST_KEY = ''evidence_snapshot_last_run''"

definition snap_cfg :: "string dict \<Rightarrow> string \<times> string \<times> string" where
  "snap_cfg st =
     (let sched = sor (strip (env_get st SNAP_SCHED_KEY ''off'')) ''off''; scope = sor (strip (env_get st SNAP_SCOPE_KEY ''mapped'')) ''mapped''
      in (if sched \<in> set SNAP_SCHEDULES then sched else ''off'', if scope \<in> {''mapped'', ''all''} then scope else ''mapped'',
          strip (env_get st SNAP_LAST_KEY [])))"

definition snap_due :: "string dict \<Rightarrow> dtime \<Rightarrow> bool" where
  "snap_due st now =
     (case snap_cfg st of (sched, _, lst) \<Rightarrow>
        if sched = ''off'' then False
        else if lst = [] then True
        else case parse_stamp lst of
          None \<Rightarrow> True
        | Some d \<Rightarrow> (case dt_sub now d of None \<Rightarrow> False | Some n \<Rightarrow> snap_period_days sched * DAY_US \<le> n))"

definition in_scope :: "string \<Rightarrow> pdict \<Rightarrow> bool" where
  "in_scope scope c = (truthy (dget c ''id'') \<and> (scope = ''mapped'' \<longrightarrow> truthy (dget c ''evidence_sources'')))"

text \<open>A run over the controls: one record each; the first that cannot be kept ends it.\<close>

fun snapshot_all ::
    "desk_env \<Rightarrow> dtime \<Rightarrow> person \<Rightarrow> string \<Rightarrow> pdict \<Rightarrow> pdict dict \<Rightarrow> catalog \<Rightarrow> (string \<times> string \<times> string) list dict
       \<Rightarrow> pdict list \<Rightarrow> nat \<Rightarrow> desk \<Rightarrow> (herr + nat) \<times> desk" where
  "snapshot_all e now user kind gaps metrics cat hosts [] n s = (Inr n, s)"
| "snapshot_all e now user kind gaps metrics cat hosts (c # cs) n s =
     (case build_control_detail (pstr (dget c ''id'')) gaps metrics cat [] of
        None \<Rightarrow> snapshot_all e now user kind gaps metrics cat hosts cs n s
      | Some d \<Rightarrow>
          (case snapshot_control e (pstr (dget c ''id'')) now d user hosts kind n s of
             (Inl x, s) \<Rightarrow> (Inl x, s)
           | (Inr _, s) \<Rightarrow> snapshot_all e now user kind gaps metrics cat hosts cs (Suc n) s))"

definition run_bulk_snapshot :: "desk_env \<Rightarrow> live_view \<Rightarrow> person \<Rightarrow> string \<Rightarrow> desk \<Rightarrow> (herr + nat) \<times> desk" where
  "run_bulk_snapshot e lv user kind s =
     (case (snap_cfg (tx_cache (dk_settings s)), source_metrics 200 (seen_by s lv) (de_loki e)) of
        (_, None) \<Rightarrow> (Inl ServerError, s)
      | ((_, scope, _), Some metrics) \<Rightarrow>
          (case snapshot_all e (lv_now lv) user kind (live_gaps (de_base e) (seen_by s lv)) metrics (merged_catalog e s)
              (evidence_host_lists (lv_repo lv)) (filter (in_scope scope) (ca_controls (merged_catalog e s))) 0 s of
             (Inl x, s) \<Rightarrow> (Inl x, s)
           | (Inr n, s) \<Rightarrow>
               (let (ok, t) = set_setting (de_back e) SNAP_LAST_KEY (dt_isoformat (lv_now lv)) (sor user ''system'') (dk_settings s)
                in (if ok then Inr n else Inl ServerError, s\<lparr>dk_settings := t\<rparr>))))"

text \<open>On every view of the catalogue: whatever fails is only logged.\<close>

definition maybe_run_scheduled_snapshot :: "desk_env \<Rightarrow> live_view \<Rightarrow> desk \<Rightarrow> desk" where
  "maybe_run_scheduled_snapshot e lv s =
     (if snap_due (tx_cache (dk_settings s)) (lv_now lv) then snd (run_bulk_snapshot e lv ''system'' ''scheduled'' s) else s)"

record snapshot_config =
  sn_schedule :: string
  sn_scope :: string
  sn_last :: string
  sn_due :: bool

definition get_snapshot_config :: "desk_env \<Rightarrow> gov_request \<Rightarrow> dtime \<Rightarrow> desk \<Rightarrow> herr + snapshot_config" where
  "get_snapshot_config e rq now s =
     (if \<not> catalog_admin e rq then Inl Forbidden
      else case snap_cfg (tx_cache (dk_settings s)) of (sched, scope, lst) \<Rightarrow>
        Inr \<lparr>sn_schedule = sched, sn_scope = scope, sn_last = lst, sn_due = snap_due (tx_cache (dk_settings s)) now\<rparr>)"

definition set_snapshot_config :: "desk_env \<Rightarrow> gov_request \<Rightarrow> pdict \<Rightarrow> desk \<Rightarrow> (herr + string \<times> string) \<times> desk" where
  "set_snapshot_config e rq p s =
     (let sched = asked_text p ''schedule'' []; scope = asked_text p ''scope'' ''mapped'';
          scope = (if scope \<in> {''mapped'', ''all''} then scope else ''mapped'')
      in if \<not> catalog_admin e rq then (Inl Forbidden, s)
         else if sched \<notin> set SNAP_SCHEDULES then (Inl BadRequest, s)
         else let b = de_back e; t = dk_settings s;
                  t = t\<lparr>tx_cache := dset (dset (tx_cache t) SNAP_SCHED_KEY sched) SNAP_SCOPE_KEY scope\<rparr>;
                  (ok, t) = set_setting b SNAP_SCHED_KEY sched (admin_name rq) t
           in if \<not> ok then (Inl ServerError, s\<lparr>dk_settings := t\<rparr>)
              else let (ok, t) = set_setting b SNAP_SCOPE_KEY scope (admin_name rq) t
                in (if ok then Inr (sched, scope) else Inl ServerError, s\<lparr>dk_settings := t\<rparr>))"

definition run_bulk_snapshot_now :: "desk_env \<Rightarrow> gov_request \<Rightarrow> live_view \<Rightarrow> desk \<Rightarrow> (herr + nat) \<times> desk" where
  "run_bulk_snapshot_now e rq lv s =
     (if \<not> catalog_admin e rq then (Inl Forbidden, s) else run_bulk_snapshot e lv (admin_name rq) ''manual'' s)"

section \<open>Review of the access records\<close>

definition LOG_REVIEW_CONTROLS :: "string list" where
  "LOG_REVIEW_CONTROLS = [''2.9.4'', ''A.8.15'']"

definition log_review_records :: "desk \<Rightarrow> pdict list" where
  "log_review_records s =
     sort_desc (\<lambda>r. pstr (por (dget r ''collected_at'') (PStr [])))
       (filter (\<lambda>r. dget r ''source'' = PStr ''log_review'') (map snd (rs_cache (dk_evidence s))))"

record log_review =
  lr_retention :: retention
  lr_month :: string
  lr_done :: bool
  lr_history :: "pdict list"

definition history_row :: "pdict \<Rightarrow> pdict" where
  "history_row r =
     [(''month'', PStr (take 7 (pstr (dgetd r ''collected_at'' (PStr []))))), (''collected_at'', dget r ''collected_at''),
      (''by'', dget r ''collected_by''), (''title'', dget r ''title''), (''control_id'', dget r ''control_id'')]"

definition get_log_review :: "desk_env \<Rightarrow> gov_request \<Rightarrow> live_view \<Rightarrow> desk \<Rightarrow> herr + log_review" where
  "get_log_review e rq lv s =
     (if \<not> allowed (de_gov e) rq then Inl Forbidden
      else let rs = log_review_records s; month = take 7 (iso_text (dt_us (lv_now lv)))
        in Inr \<lparr>lr_retention = log_retention_status (seen_by s lv) (de_loki e), lr_month = month,
             lr_done = list_ex (\<lambda>r. prefix month (pstr (dgetd r ''collected_at'' (PStr [])))) rs,
             lr_history = take 24 (map history_row rs)\<rparr>)"

definition opt_number :: "int option \<Rightarrow> string" where
  "opt_number n = (case n of None \<Rightarrow> ''None'' | Some n \<Rightarrow> int_str n)"

definition review_line :: "retention_row \<Rightarrow> string" where
  "review_line r =
     ''   - '' @ rr_source r @ utf8 [58, 32, 236, 181, 156, 229, 143, 164,
     32] @ sor (or_else (rr_oldest r) []) ''-'' @ utf8 [32, 194, 183,
     32] @ opt_number (rr_span r) @ utf8 [236, 157, 188, 32, 194, 183, 32]
       @ int_str (rr_count r) @ utf8 [234, 177, 180]"

definition review_verdict :: "retention \<Rightarrow> string" where
  "review_verdict ret = (if rt_ok ret then utf8 [236, 182, 169, 236, 161,
     177] else if rt_span ret = None then utf8 [235, 175, 184, 234, 180, 128, 236, 184, 161] else utf8 [235,
     175, 184, 235, 139, 172])"

definition review_body :: "string \<Rightarrow> retention \<Rightarrow> string" where
  "review_body month ret =
     join [LF]
       ([utf8 [226, 150, 160, 32, 236, 160, 145, 236, 134, 141, 234, 184, 176, 235, 161, 157, 32, 236, 155,
     148, 234, 176, 132, 32, 236, 160, 144, 234, 178, 128, 32, 40] @ month @ utf8 [41, 32, 226, 128, 148, 32,
     236, 149, 136, 236, 160, 132, 236, 132, 177, 32, 237, 153, 149, 235, 179, 180, 236, 161, 176, 236, 185, 152, 32, 234, 184, 176, 236, 164, 128, 32, 236, 160, 156, 56, 236, 161, 176],
         utf8 [194, 183, 32, 235, 170, 169, 237, 145, 156, 32, 235, 179, 180, 236, 161, 180, 234, 184, 176,
     234, 176, 132, 58, 32] @ int_str (rt_target ret) @ utf8 [236, 157,
     188] @ (if rt_personal ret then utf8 [32, 40, 234, 176, 156, 236, 157, 184, 236, 160, 149, 235, 179,
     180, 32, 236, 178, 152, 235, 166, 172, 58, 32, 50, 235, 133, 132, 32, 234, 184, 176, 236, 164, 128, 41] else []),
         utf8 [194, 183, 32, 234, 180, 128, 236, 184, 161, 32, 234, 184, 176, 235, 161, 157, 32, 235, 178,
     148, 236, 156, 132, 58, 32] @ (case rt_span ret of None \<Rightarrow> utf8 [235, 175, 184, 234, 180,
     128, 236, 184, 161] | Some n \<Rightarrow> int_str n) @ utf8 [236, 157, 188, 32, 226, 134, 146,
     32] @ review_verdict ret,
         utf8 [194, 183, 32, 236, 134, 140, 236, 138, 164, 235, 179, 132, 32, 237, 152, 132, 237, 153, 169, 58]]
        @ map review_line (rt_rows ret)
        @ [utf8 [194, 183, 32, 236, 157, 180, 236, 131, 129, 236, 167, 149, 237, 155, 132, 32, 234, 178, 128,
     237, 134, 160, 58, 32, 40, 236, 139, 172, 236, 149, 188, 236, 160, 145, 234, 183, 188, 194, 183, 235, 140, 128, 235, 159, 137, 236, 161, 176, 237, 154, 140, 194, 183, 235, 175, 184, 236, 138, 185, 236, 157, 184, 73, 80, 32, 235, 147, 177, 32, 234, 178, 128, 237, 134, 160, 32, 234, 178, 176, 234, 179, 188, 32, 234, 184, 176, 236, 158, 133, 41],
           utf8 [194, 183, 32, 236, 160, 144, 234, 178, 128, 32, 234, 178, 176, 235, 161, 160, 58, 32, 235,
     161, 156, 234, 183, 184, 236, 139, 156, 236, 138, 164, 237, 133, 156, 32, 114, 101, 116, 101, 110, 116, 105, 111, 110, 32, 236, 132, 164, 236, 160, 149, 32, 236, 166, 157, 235, 185, 153, 234, 179, 188, 32, 235, 140, 128, 236, 161, 176, 32, 237, 155, 132, 32, 236, 160, 129, 236, 160, 149, 236, 132, 177, 32, 237, 140, 144, 235, 139, 168]])"

definition review_record :: "desk_env \<Rightarrow> gov_request \<Rightarrow> dtime \<Rightarrow> retention \<Rightarrow> nat \<times> string \<Rightarrow> pdict" where
  "review_record e rq now ret nc =
     (let day = take 10 (iso_text (dt_us now)); month = take 7 day; user = sor (rq_user rq) ''system''
      in [(''id'', PStr (de_uid e (fst nc))), (''control_id'', PStr (snd nc)),
          (''title'', PStr (utf8 [236, 160, 145, 236, 134, 141, 234, 184, 176, 235, 161, 157, 32, 236, 155,
     148, 234, 176, 132, 32, 236, 160, 144, 234, 178, 128, 32, 40] @ month @ '')'')), (''body'', PStr (review_body month ret)),
          (''collected_by'', PStr user), (''collected_at'', PStr day), (''reference'', PStr (utf8 [108, 111,
     103, 95, 114, 101, 118, 105, 101, 119, 32, 236, 160, 156, 56, 236, 161, 176, 32, 236, 155, 148, 49, 237, 154, 140, 32, 236, 160, 144, 234, 178, 128])),
          (''source'', PStr ''log_review''), (''created_at'', PStr (dt_isoformat now)), (''created_by'', PStr user)])"

fun persist_all :: "desk_env \<Rightarrow> (nat \<Rightarrow> pdict) \<Rightarrow> nat list \<Rightarrow> desk \<Rightarrow> (herr + unit) \<times> desk" where
  "persist_all e rec [] s = (Inr (), s)"
| "persist_all e rec (n # ns) s =
     (case persist_evidence e (de_uid e n) (rec n) s of
        (Inl x, s) \<Rightarrow> (Inl x, s)
      | (Inr _, s) \<Rightarrow> persist_all e rec ns s)"

definition run_log_review :: "desk_env \<Rightarrow> gov_request \<Rightarrow> live_view \<Rightarrow> desk \<Rightarrow> (herr + nat) \<times> desk" where
  "run_log_review e rq lv s =
     (if \<not> allowed (de_gov e) rq then (Inl Forbidden, s)
      else let ret = log_retention_status (seen_by s lv) (de_loki e); ids = map (\<lambda>c. dget c ''id'') (ca_controls (merged_catalog e s));
               cids = filter (\<lambda>c. PStr c \<in> set ids) LOG_REVIEW_CONTROLS
        in case persist_all e (\<lambda>n. review_record e rq (lv_now lv) ret (n, cids ! n)) [0..<length cids] s of
             (Inl x, s) \<Rightarrow> (Inl x, s) | (Inr _, s) \<Rightarrow> (Inr (length cids), s))"

section \<open>Views\<close>

definition can_edit :: "desk_env \<Rightarrow> gov_request \<Rightarrow> bool" where
  "can_edit e rq = (\<not> ge_auth (de_gov e) \<or> rq_role rq = Some ''admin'')"

text \<open>The tree with the status of each control; looking at it may take the scheduled snapshots.\<close>

definition controls_tree ::
    "desk_env \<Rightarrow> gov_request \<Rightarrow> live_view \<Rightarrow> desk \<Rightarrow> (herr + catalog_tree \<times> pdict dict \<times> bool) \<times> desk" where
  "controls_tree e rq lv s =
     (if \<not> allowed (de_gov e) rq then (Inl Forbidden, s)
      else let s = maybe_run_scheduled_snapshot e lv s
        in (case build_tree (merged_catalog e s) of
              None \<Rightarrow> Inl ServerError
            | Some t \<Rightarrow> Inr (t, rs_cache (dk_status s), can_edit e rq), s))"

definition controls_maturity :: "desk_env \<Rightarrow> gov_request \<Rightarrow> desk \<Rightarrow> herr + (string \<times> int) list \<times> (string \<times> string) list" where
  "controls_maturity e rq s =
     (if \<not> allowed (de_gov e) rq then Inl Forbidden
      else Inr (maturity_summary (CODE_REVIEW_CONTROL_IDS @ PRIVACY_FLOW_CONTROL_IDS) (merged_catalog e s)))"

definition control_status_default :: "string \<Rightarrow> pdict" where
  "control_status_default cid =
     [(''control_id'', PStr cid), (''status'', PStr UNDECIDED), (''owner'', PStr []), (''exception_reason'', PStr []),
      (''improvement_plan'', PStr []), (''due_date'', PStr []), (''updated_at'', PNone), (''updated_by'', PStr [])]"

definition control_detail_view ::
    "desk_env \<Rightarrow> gov_request \<Rightarrow> live_view \<Rightarrow> string \<Rightarrow> desk \<Rightarrow> herr + control_detail \<times> pdict \<times> bool" where
  "control_detail_view e rq lv cid s =
     (if \<not> allowed (de_gov e) rq then Inl Forbidden
      else case source_metrics 8 (seen_by s lv) (de_loki e) of
        None \<Rightarrow> Inl ServerError
      | Some metrics \<Rightarrow>
          (case build_control_detail cid (live_gaps (de_base e) (seen_by s lv)) metrics (merged_catalog e s) (evidence_for cid s) of
             None \<Rightarrow> Inl NotFound
           | Some d \<Rightarrow>
               Inr (d, case map_of (rs_cache (dk_status s)) cid of None \<Rightarrow> control_status_default cid | Some r \<Rightarrow> r, can_edit e rq)))"

section \<open>What waits on one host\<close>

text \<open>\<^verbatim>\<open>_parse_date\<close>: the first microsecond of the day.\<close>

definition day_start :: "string \<Rightarrow> int option" where
  "day_start s = (case parse_date (take 10 s) of Some (d, []) \<Rightarrow> Some d | _ \<Rightarrow> None)"

record fix_item =
  fx_kind :: string
  fx_id :: string
  fx_label :: string
  fx_severity :: string
  fx_exception :: string
  fx_due :: string

definition exception_text :: "pdict \<Rightarrow> pdict \<Rightarrow> string" where
  "exception_text action owner =
     pstr (por (por (dget action ''exception_until'') (dget owner ''exception_until'')) (PStr []))"

text \<open>The bucket of a vulnerability; none while an exception holds.\<close>

definition fix_bucket :: "int \<Rightarrow> pdict \<Rightarrow> pdict \<Rightarrow> string option" where
  "fix_bucket today action owner =
     (case day_start (exception_text action owner) of
        Some d \<Rightarrow> if d < today then Some ''exception_expired'' else None
      | None \<Rightarrow>
          (case day_start (pstr (dgetd action ''plan_target_date'' (PStr []))) of
             Some d \<Rightarrow> if d < today then Some ''overdue'' else Some ''other''
           | None \<Rightarrow> Some ''other''))"

definition fix_vuln :: "pdict \<Rightarrow> pdict \<Rightarrow> vulnerability \<Rightarrow> fix_item" where
  "fix_vuln action owner v =
     \<lparr>fx_kind = ''vuln'', fx_id = vu_id v, fx_label = sor (or_else (vu_cve v) []) (vu_id v), fx_severity = vu_severity v,
      fx_exception = exception_text action owner, fx_due = gstr action ''plan_target_date''\<rparr>"

definition fix_alert :: "alert \<Rightarrow> fix_item" where
  "fix_alert a =
     \<lparr>fx_kind = ''alert'', fx_id = al_id a, fx_label = sor (or_else (al_rule_name a) []) (take_chars 60 (al_message a)),
      fx_severity = al_severity a, fx_exception = [], fx_due = []\<rparr>"

definition find_host :: "repo \<Rightarrow> string \<Rightarrow> host option" where
  "find_host r name =
     (case List.find (\<lambda>h. ho_hostname h = name) (all_hosts r) of
        Some h \<Rightarrow> Some h | None \<Rightarrow> List.find (\<lambda>h. ho_id h = name) (all_hosts r))"

definition host_buckets :: "live_view \<Rightarrow> pdict dict \<Rightarrow> host \<Rightarrow> (string \<times> fix_item) list" where
  "host_buckets lv owners h =
     (let owner = record_at owners (ho_hostname h); today = dt_us (lv_now lv) div DAY_US * DAY_US;
          vs = filter (\<lambda>v. vu_host_id v = ho_id h \<and> vu_resolved_at v = None \<and> serious (vu_severity v)) (map snd (re_vulns (lv_repo lv)));
          as = filter (\<lambda>a. al_host_id a = Some (ho_id h) \<and> al_resolved_at a = None \<and> serious (al_severity a)) (map snd (re_alerts (lv_repo lv)))
      in concat (map (\<lambda>v. let action = record_at (lv_actions lv) (vu_id v)
             in case fix_bucket today action owner of None \<Rightarrow> [] | Some b \<Rightarrow> [(b, fix_vuln action owner v)]) vs)
         @ map (\<lambda>a. (''other'', fix_alert a)) as)"

text \<open>For each bucket how many and the first twenty, and how many altogether.\<close>

definition host_remediation :: "live_view \<Rightarrow> pdict dict \<Rightarrow> string \<Rightarrow> herr + (string \<times> int \<times> fix_item list) list \<times> int" where
  "host_remediation lv owners name =
     (case find_host (lv_repo lv) name of
        None \<Rightarrow> Inl NotFound
      | Some h \<Rightarrow>
          (let bs = host_buckets lv owners h;
               part = (\<lambda>b. map snd (filter (\<lambda>x. fst x = b) bs))
           in Inr (map (\<lambda>b. (b, int (length (part b)), take 20 (part b))) [''exception_expired'', ''overdue'', ''other''],
                int (length bs))))"

section \<open>Calls\<close>

datatype desk_call =
    EditControl gov_request pdict
  | DeleteControl gov_request string
  | PutKey gov_request pdict
  | SetStatus gov_request string pdict
  | AddEvidence gov_request string pdict
  | DeleteEvidence gov_request string string
  | TakeSnapshot gov_request live_view string
  | SetSchedule gov_request pdict
  | RunSnapshots gov_request live_view
  | ViewTree gov_request live_view
  | ReviewLogs gov_request live_view
  | Reopen

fun desk_exec :: "desk_env \<Rightarrow> desk_call \<Rightarrow> desk \<Rightarrow> desk" where
  "desk_exec e (EditControl rq p) s = snd (create_or_edit_control e rq p s)"
| "desk_exec e (DeleteControl rq cid) s = snd (delete_control e rq cid s)"
| "desk_exec e (PutKey rq p) s = snd (put_claude_key e rq p s)"
| "desk_exec e (SetStatus rq cid p) s = snd (control_status_upsert e rq cid p s)"
| "desk_exec e (AddEvidence rq cid p) s = snd (add_evidence_record e rq cid p s)"
| "desk_exec e (DeleteEvidence rq cid i) s = snd (delete_evidence_record e rq cid i s)"
| "desk_exec e (TakeSnapshot rq lv cid) s = snd (auto_evidence_snapshot e rq lv cid s)"
| "desk_exec e (SetSchedule rq p) s = snd (set_snapshot_config e rq p s)"
| "desk_exec e (RunSnapshots rq lv) s = snd (run_bulk_snapshot_now e rq lv s)"
| "desk_exec e (ViewTree rq lv) s = snd (controls_tree e rq lv s)"
| "desk_exec e (ReviewLogs rq lv) s = snd (run_log_review e rq lv s)"
| "desk_exec e Reopen s = reopen s"

definition desk_run :: "(desk_env \<times> desk_call) list \<Rightarrow> desk \<Rightarrow> desk" where
  "desk_run calls s = foldl (\<lambda>s ec. desk_exec (fst ec) (snd ec) s) s calls"

end
