(* ===== verification/Desk_Props.thy ===== *)
theory Desk_Props
  imports Control_Desk
begin

text \<open>
  What the desk of \<open>Control_Desk\<close> guarantees: scheduled snapshots are a period apart, a run leaves evidence for every
  control in its scope, edits of the catalogue come back after a restart, and what the dictionaries hold has the right form
  whatever calls arrive.
\<close>

section \<open>What a run touches\<close>

lemma persist_evidence_frame:
  "dk_edits (snd (persist_evidence e i r s)) = dk_edits s" "dk_status (snd (persist_evidence e i r s)) = dk_status s"
  "dk_settings (snd (persist_evidence e i r s)) = dk_settings s"
  by (simp_all add: persist_evidence_def Let_def split: option.split prod.split)

lemmas evidence_frame = persist_evidence_frame snapshot_control_def

lemma snapshot_all_frame:
  "dk_edits (snd (snapshot_all e now user kind gaps metrics cat hosts cs n s)) = dk_edits s"
  "dk_status (snd (snapshot_all e now user kind gaps metrics cat hosts cs n s)) = dk_status s"
  "dk_settings (snd (snapshot_all e now user kind gaps metrics cat hosts cs n s)) = dk_settings s"
proof (induction cs arbitrary: n s)
  case (Cons c cs)
  {
    case 1 then show ?case
      using Cons(1) persist_evidence_frame(1) by (simp add: snapshot_control_def split: option.split prod.split sum.split) (metis snd_conv)
  next
    case 2 then show ?case
      using Cons(2) persist_evidence_frame(2) by (simp add: snapshot_control_def split: option.split prod.split sum.split) (metis snd_conv)
  next
    case 3 then show ?case
      using Cons(3) persist_evidence_frame(3) by (simp add: snapshot_control_def split: option.split prod.split sum.split) (metis snd_conv)
  }
qed simp_all

lemma persist_all_frame:
  "dk_edits (snd (persist_all e rec ns s)) = dk_edits s" "dk_status (snd (persist_all e rec ns s)) = dk_status s"
  "dk_settings (snd (persist_all e rec ns s)) = dk_settings s"
proof (induction ns arbitrary: s)
  case (Cons n ns)
  {
    case 1 then show ?case
      using Cons(1) persist_evidence_frame(1) by (simp split: prod.split sum.split) (metis snd_conv)
  next
    case 2 then show ?case
      using Cons(2) persist_evidence_frame(2) by (simp split: prod.split sum.split) (metis snd_conv)
  next
    case 3 then show ?case
      using Cons(3) persist_evidence_frame(3) by (simp split: prod.split sum.split) (metis snd_conv)
  }
qed simp_all

lemma pass_state: "snd (case x of (Inl a, t) \<Rightarrow> (Inl a, t) | (Inr b, t) \<Rightarrow> (Inr (f b), t)) = snd x"
  by (simp split: prod.split sum.split)

text \<open>A run that succeeds is a run over the controls in scope and the new time of the last run.\<close>

definition scope_of :: "desk \<Rightarrow> string" where
  "scope_of s = fst (snd (snap_cfg (tx_cache (dk_settings s))))"

lemma run_parts:
  assumes "fst (run_bulk_snapshot e lv user kind s) = Inr n"
  obtains metrics t where "source_metrics 200 (seen_by s lv) (de_loki e) = Some metrics"
    "snapshot_all e (lv_now lv) user kind (live_gaps (de_base e) (seen_by s lv)) metrics (merged_catalog e s)
       (evidence_host_lists (lv_repo lv)) (filter (in_scope (scope_of s)) (ca_controls (merged_catalog e s))) 0 s = (Inr n, t)"
    "dk_evidence (snd (run_bulk_snapshot e lv user kind s)) = dk_evidence t"
    "tx_cache (dk_settings (snd (run_bulk_snapshot e lv user kind s)))
       = dset (tx_cache (dk_settings s)) SNAP_LAST_KEY (dt_isoformat (lv_now lv))"
proof -
  obtain a b c where cfg: "snap_cfg (tx_cache (dk_settings s)) = (a, b, c)" by (metis prod_cases3)
  obtain metrics where m: "source_metrics 200 (seen_by s lv) (de_loki e) = Some metrics"
    using assms by (auto simp: run_bulk_snapshot_def cfg split: option.splits)
  obtain m' t where t: "snapshot_all e (lv_now lv) user kind (live_gaps (de_base e) (seen_by s lv)) metrics (merged_catalog e s)
       (evidence_host_lists (lv_repo lv)) (filter (in_scope b) (ca_controls (merged_catalog e s))) 0 s = (Inr m', t)"
    using assms by (auto simp: run_bulk_snapshot_def cfg m split: prod.splits sum.splits)
  have "dk_settings t = dk_settings s" using snapshot_all_frame(3) t by (metis snd_conv)
  then show ?thesis
    using that [OF m, of t] t assms
    by (auto simp: run_bulk_snapshot_def cfg m t scope_of_def set_setting_def Let_def split: option.splits)
qed

section \<open>Scheduled snapshots are a period apart\<close>

lemma snap_keys: "SNAP_SCHED_KEY \<noteq> SNAP_LAST_KEY" "SNAP_SCOPE_KEY \<noteq> SNAP_LAST_KEY"
  by (simp_all add: SNAP_SCHED_KEY_def SNAP_SCOPE_KEY_def SNAP_LAST_KEY_def)

lemma env_get_dset: "env_get (dset st k v) k' d = (if k' = k then v else env_get st k' d)"
  by (simp add: env_get_def)

lemma snap_cfg_last: "snap_cfg (dset st SNAP_LAST_KEY v) = (fst (snap_cfg st), fst (snd (snap_cfg st)), strip v)"
  by (simp add: snap_cfg_def env_get_dset snap_keys Let_def)

lemma due_after:
  assumes "0 \<le> since" "since < days_before_year 10000 * DAY_US" "fst (snap_cfg st) \<noteq> ''off''"
  shows "snap_due (dset st SNAP_LAST_KEY (dt_isoformat \<lparr>dt_us = since, dt_off = Some 0\<rparr>)) \<lparr>dt_us = t, dt_off = Some 0\<rparr>
    \<longleftrightarrow> snap_period_days (fst (snap_cfg st)) * DAY_US \<le> t - since"
  using assms by (simp add: snap_due_def snap_cfg_last iso_not_empty parse_stamp_back dt_sub_def)

lemma early_views:
  assumes "\<And>v. v \<in> set views \<Longrightarrow> \<not> snap_due (tx_cache (dk_settings s)) (lv_now (snd v))"
  shows "foldl (\<lambda>s v. maybe_run_scheduled_snapshot (fst v) (snd v) s) s views = s"
  using assms by (induction views) (simp_all add: maybe_run_scheduled_snapshot_def)

text \<open>C16: After the snapshots were taken, looking at the catalogue takes none until the period of the schedule has
  passed, and then the next look does: the time of the last run is written as text and read back as the same time.\<close>

theorem snapshots_spaced:
  assumes "fst (run_bulk_snapshot e lv user kind s) = Inr n"
    and "lv_now lv = \<lparr>dt_us = since, dt_off = Some 0\<rparr>" "0 \<le> since" "since < days_before_year 10000 * DAY_US"
    and "fst (snap_cfg (tx_cache (dk_settings s))) \<noteq> ''off''"
    and "\<forall>v\<in>set views. \<exists>t. lv_now (snd v) = \<lparr>dt_us = t, dt_off = Some 0\<rparr>
      \<and> t - since < snap_period_days (fst (snap_cfg (tx_cache (dk_settings s)))) * DAY_US"
    and "since + snap_period_days (fst (snap_cfg (tx_cache (dk_settings s)))) * DAY_US \<le> later"
  shows "foldl (\<lambda>s v. maybe_run_scheduled_snapshot (fst v) (snd v) s) (snd (run_bulk_snapshot e lv user kind s)) views
      = snd (run_bulk_snapshot e lv user kind s)
    \<and> snap_due (tx_cache (dk_settings (snd (run_bulk_snapshot e lv user kind s)))) \<lparr>dt_us = later, dt_off = Some 0\<rparr>"
proof -
  have st: "tx_cache (dk_settings (snd (run_bulk_snapshot e lv user kind s)))
      = dset (tx_cache (dk_settings s)) SNAP_LAST_KEY (dt_isoformat \<lparr>dt_us = since, dt_off = Some 0\<rparr>)"
    using run_parts [OF assms(1)] assms(2) by metis
  show ?thesis
    using assms(6,7) due_after [OF assms(3-5)] by (intro conjI early_views) (force simp: st)+
qed

definition desk_admin :: gov_request where
  "desk_admin = \<lparr>rq_role = Some ''admin'', rq_user = ''kim'', rq_now = ''2024-05-01T00:00:00+00:00''\<rparr>"

definition demo_desk_env :: desk_env where
  "demo_desk_env = \<lparr>de_gov = \<lparr>ge_H = (\<lambda>s. s), ge_H1 = (\<lambda>s. s), ge_auth = True, ge_sod = True,
     ge_clock = (\<lambda>n. []), ge_fails = (\<lambda>_ _ _. False)\<rparr>,
     de_back = InMemory, de_base = \<lparr>ca_meta = [], ca_controls = [[(''id'', PStr ''2.9.4''), (''evidence_sources'', PList [PStr ''fleet''])],
         [(''id'', PStr ''2.8.1'')]], ca_mappings = [], ca_defects = []\<rparr>,
     de_loki = (\<lambda>n. None), de_uid = (\<lambda>n. ''ev-'' @ replicate n (CHR ''x''))\<rparr>"

definition daily_desk :: desk where
  "daily_desk = snd (set_snapshot_config demo_desk_env desk_admin [(''schedule'', PStr ''daily'')] empty_desk)"

text \<open>In memory every record is kept, so that a run fails only where the metrics do.\<close>

lemma stamp_total: "dget r ''provenance'' = PNone \<Longrightarrow> stamp_evidence H r \<noteq> None"
  by (simp add: stamp_evidence_def attach_provenance_def Let_def dsetdefault_def split: pv.split)

lemma memory_snapshot:
  "de_back e = InMemory \<Longrightarrow> \<exists>r t. snapshot_control e cid now d user hosts kind n s = (Inr r, t)"
  using stamp_total [of "snapshot_record cid now d user hosts kind (de_uid e n) s" "ge_H (de_gov e)"]
  by (auto simp: snapshot_control_def persist_evidence_def commit_def persist_def cached_def memory_save_def Let_def
      snapshot_record_def split: option.split)

lemma memory_snapshots:
  "de_back e = InMemory \<Longrightarrow> \<exists>m t. snapshot_all e now user kind gaps metrics cat hosts cs n s = (Inr m, t)"
proof (induction cs arbitrary: n s)
  case (Cons c cs)
  show ?case
  proof (cases "build_control_detail (pstr (dget c ''id'')) gaps metrics cat []")
    case (Some d)
    obtain r t where "snapshot_control e (pstr (dget c ''id'')) now d user hosts kind n s = (Inr r, t)"
      using memory_snapshot [OF Cons(2)] by blast
    then show ?thesis using Cons Some by simp
  qed (use Cons in simp)
qed simp

lemma memory_run:
  assumes "de_back e = InMemory" "source_metrics 200 (seen_by s lv) (de_loki e) \<noteq> None"
  shows "\<exists>n. fst (run_bulk_snapshot e lv user kind s) = Inr n"
proof -
  obtain a b c metrics where p: "snap_cfg (tx_cache (dk_settings s)) = (a, b, c)" "source_metrics 200 (seen_by s lv) (de_loki e) = Some metrics"
    using assms(2) by (metis not_None_eq prod_cases3)
  obtain m t where "snapshot_all e (lv_now lv) user kind (live_gaps (de_base e) (seen_by s lv)) metrics (merged_catalog e s)
       (evidence_host_lists (lv_repo lv)) (filter (in_scope b) (ca_controls (merged_catalog e s))) 0 s = (Inr m, t)"
    using memory_snapshots [OF assms(1)] by blast
  then show ?thesis by (simp add: run_bulk_snapshot_def p set_setting_def save_setting_def assms(1) Let_def)
qed

lemma metrics_some:
  "week_alerts ''zabbix'' (lv_repo lv) (lv_now lv) \<noteq> None \<Longrightarrow> week_alerts ''wazuh'' (lv_repo lv) (lv_now lv) \<noteq> None
    \<Longrightarrow> source_metrics limit lv loki \<noteq> None"
  unfolding source_metrics_def alert_metric_def Let_def
  by (cases "week_alerts ''zabbix'' (lv_repo lv) (lv_now lv)"; cases "week_alerts ''wazuh'' (lv_repo lv) (lv_now lv)")
     (simp_all only: option.map Option.bind.simps option.distinct not_False_eq_True simp_thms)

lemma demo_run: "\<exists>n. fst (run_bulk_snapshot demo_desk_env demo_view ''kim'' ''manual'' daily_desk) = Inr n"
proof (rule memory_run)
  show "de_back demo_desk_env = InMemory" by (simp add: demo_desk_env_def)
  have "week_alerts ''zabbix'' (lv_repo demo_view) (lv_now demo_view) \<noteq> None" "week_alerts ''wazuh'' (lv_repo demo_view) (lv_now demo_view) \<noteq> None"
    by code_simp+
  then show "source_metrics 200 (seen_by daily_desk demo_view) (de_loki demo_desk_env) \<noteq> None"
    by (intro metrics_some) (simp_all add: seen_by_def)
qed

lemma daily: "fst (snap_cfg (tx_cache (dk_settings daily_desk))) = ''daily''"
  by code_simp

lemma snapshots_spaced_witness:
  "maybe_run_scheduled_snapshot demo_desk_env (demo_view\<lparr>lv_now := days_later 0 (lv_now demo_view)\<rparr>)
      (snd (run_bulk_snapshot demo_desk_env demo_view ''kim'' ''manual'' daily_desk))
    = snd (run_bulk_snapshot demo_desk_env demo_view ''kim'' ''manual'' daily_desk)
   \<and> snap_due (tx_cache (dk_settings (snd (run_bulk_snapshot demo_desk_env demo_view ''kim'' ''manual'' daily_desk))))
       (days_later 1 (lv_now demo_view))"
proof -
  have now: "lv_now demo_view = \<lparr>dt_us = dt_us (lv_now demo_view), dt_off = Some 0\<rparr>" "0 \<le> dt_us (lv_now demo_view)"
    "dt_us (lv_now demo_view) < days_before_year 10000 * DAY_US"
    by code_simp+
  have later: "days_later n (lv_now demo_view) = \<lparr>dt_us = dt_us (lv_now demo_view) + n * DAY_US, dt_off = Some 0\<rparr>" for n
    by (subst now(1)) (simp add: days_later_def)
  obtain n where run: "fst (run_bulk_snapshot demo_desk_env demo_view ''kim'' ''manual'' daily_desk) = Inr n" using demo_run by blast
  have p: "snap_period_days ''daily'' = 1" by (simp add: snap_period_days_def)
  show ?thesis
    using snapshots_spaced [OF run now, of "[(demo_desk_env, demo_view\<lparr>lv_now := days_later 0 (lv_now demo_view)\<rparr>)]"
        "dt_us (lv_now demo_view) + DAY_US"]
    by (simp add: daily p later) (simp add: DAY_US_def)
qed

section \<open>A run covers its scope\<close>

text \<open>A record of the live evidence of a control, taken on a day and stamped with the hash of what it holds.\<close>

definition snapshot_of :: "desk_env \<Rightarrow> dtime \<Rightarrow> pdict \<Rightarrow> pdict \<Rightarrow> bool" where
  "snapshot_of e now c r =
     (dget r ''control_id'' = dget c ''id'' \<and> dget r ''source'' = PStr ''auto''
      \<and> dget r ''collected_at'' = PStr (take 10 (iso_text (dt_us now)))
      \<and> dget r ''content_hash'' = PStr (evidence_hash (ge_H (de_gov e)) r))"

lemma snapshot_kept:
  assumes "snapshot_control e cid now d user hosts kind n s = (Inr r, t)"
  shows "rs_cache (dk_evidence t) = dset (rs_cache (dk_evidence s)) (de_uid e n) r
    \<and> (dget c ''id'' = PStr cid \<longrightarrow> snapshot_of e now c r)"
proof -
  let ?r = "snapshot_record cid now d user hosts kind (de_uid e n) s"
  have st: "stamp_evidence (ge_H (de_gov e)) ?r = Some r" "rs_cache (dk_evidence t) = dset (rs_cache (dk_evidence s)) (de_uid e n) r"
    using assms commit_cache [of "de_back e" CONTROL_EVIDENCE "de_uid e n" r "dk_evidence s"]
    by (auto simp: snapshot_control_def persist_evidence_def Let_def split: option.splits prod.splits if_splits)
  have "dget r k = dget ?r k" if "k \<in> {''control_id'', ''source'', ''collected_at''}" for k
    using stamp_keeps(1) [OF st(1), of k] that by (auto simp: STAMP_KEYS_def)
  then show ?thesis using st(2) stamp_true(2) [OF st(1)] by (simp add: snapshot_of_def snapshot_record_def Let_def)
qed

lemma snapshot_all_covers:
  assumes "snapshot_all e now user kind gaps metrics cat hosts cs n s = (Inr m, t)" "inj (de_uid e)"
    and "\<And>c. c \<in> set cs \<Longrightarrow> \<exists>k. dget c ''id'' = PStr k \<and> find_control cat k \<noteq> None"
  shows "m = n + length cs
    \<and> (\<forall>i < length cs. \<exists>r. map_of (rs_cache (dk_evidence t)) (de_uid e (n + i)) = Some r \<and> snapshot_of e now (cs ! i) r)
    \<and> (\<forall>k. k \<notin> de_uid e ` {n..} \<longrightarrow> map_of (rs_cache (dk_evidence t)) k = map_of (rs_cache (dk_evidence s)) k)"
  using assms(1,3)
proof (induction cs arbitrary: n s)
  case (Cons c cs)
  obtain k where k: "dget c ''id'' = PStr k" "find_control cat k \<noteq> None" using Cons(3) [of c] by auto
  then obtain d where d: "build_control_detail k gaps metrics cat [] = Some d" by (auto simp: build_control_detail_def)
  obtain r u where u: "snapshot_control e k now d user hosts kind n s = (Inr r, u)"
    and rest: "snapshot_all e now user kind gaps metrics cat hosts cs (Suc n) u = (Inr m, t)"
    using Cons(2) by (auto simp: k d split: prod.splits sum.splits)
  note kept = snapshot_kept [OF u, of c]
  have "\<exists>k. dget c' ''id'' = PStr k \<and> find_control cat k \<noteq> None" if "c' \<in> set cs" for c' using Cons(3) [of c'] that by simp
  note IH = Cons(1) [OF rest this]
  have new: "de_uid e n \<notin> de_uid e ` {Suc n..}" using assms(2) by (auto dest: injD)
  have "\<exists>r. map_of (rs_cache (dk_evidence t)) (de_uid e (n + i)) = Some r \<and> snapshot_of e now ((c # cs) ! i) r"
    if "i < length (c # cs)" for i
  proof (cases i)
    case 0
    then show ?thesis using IH kept k(1) new by simp
  next
    case (Suc j)
    then show ?thesis using IH that by simp
  qed
  moreover have "map_of (rs_cache (dk_evidence t)) k' = map_of (rs_cache (dk_evidence s)) k'" if "k' \<notin> de_uid e ` {n..}" for k'
  proof -
    have "k' \<noteq> de_uid e n" "k' \<notin> de_uid e ` {Suc n..}" using that by auto
    then show ?thesis using IH kept by simp
  qed
  ultimately show ?case using IH by simp
qed simp

lemma listed_found: "c \<in> set (ca_controls cat) \<Longrightarrow> dget c ''id'' = PStr k \<Longrightarrow> find_control cat k \<noteq> None"
  by (auto simp: find_control_def find_None_iff)

text \<open>C39: A run of snapshots that succeeds leaves for every control in its scope a record of the day, stamped with the
  hash of what it holds; it counts them; and the evidence that was there is unchanged.\<close>

theorem bulk_covers_scope:
  assumes "fst (run_bulk_snapshot e lv user kind s) = Inr n" "inj (de_uid e)"
    and "list_all (\<lambda>c. is_text (dget c ''id'')) (ca_controls (merged_catalog e s))"
    and "in_scope (scope_of s) c" "c \<in> set (ca_controls (merged_catalog e s))"
  shows "(\<exists>i r. map_of (rs_cache (dk_evidence (snd (run_bulk_snapshot e lv user kind s)))) i = Some r
        \<and> snapshot_of e (lv_now lv) c r)
    \<and> n = length (filter (in_scope (scope_of s)) (ca_controls (merged_catalog e s)))
    \<and> (k \<notin> range (de_uid e) \<longrightarrow> map_of (rs_cache (dk_evidence (snd (run_bulk_snapshot e lv user kind s)))) k
        = map_of (rs_cache (dk_evidence s)) k)"
proof -
  let ?cs = "filter (in_scope (scope_of s)) (ca_controls (merged_catalog e s))"
  obtain metrics t where t: "snapshot_all e (lv_now lv) user kind (live_gaps (de_base e) (seen_by s lv)) metrics (merged_catalog e s)
       (evidence_host_lists (lv_repo lv)) ?cs 0 s = (Inr n, t)"
    "dk_evidence (snd (run_bulk_snapshot e lv user kind s)) = dk_evidence t"
    using run_parts [OF assms(1)] by metis
  have "\<exists>k. dget x ''id'' = PStr k \<and> find_control (merged_catalog e s) k \<noteq> None" if "x \<in> set ?cs" for x
  proof -
    have x: "x \<in> set (ca_controls (merged_catalog e s))" using that by simp
    then obtain k where "dget x ''id'' = PStr k" using assms(3) by (auto simp: list_all_iff is_text_iff)
    then show ?thesis using listed_found [OF x] by blast
  qed
  note cov = snapshot_all_covers [OF t(1) assms(2) this]
  have "c \<in> set ?cs" using assms(4,5) by simp
  then obtain i where i: "i < length ?cs" "?cs ! i = c" unfolding in_set_conv_nth by blast
  have "\<exists>r. map_of (rs_cache (dk_evidence t)) (de_uid e (0 + i)) = Some r \<and> snapshot_of e (lv_now lv) c r"
    using cov i by metis
  moreover have "k \<notin> range (de_uid e) \<Longrightarrow> k \<notin> de_uid e ` {0..}" by blast
  ultimately show ?thesis using cov unfolding t(2) by simp blast
qed

lemma bulk_covers_scope_witness:
  "\<exists>i r. map_of (rs_cache (dk_evidence (snd (run_bulk_snapshot demo_desk_env demo_view ''kim'' ''manual'' daily_desk)))) i = Some r
     \<and> snapshot_of demo_desk_env (lv_now demo_view) (hd (ca_controls (de_base demo_desk_env))) r"
proof -
  have inj: "inj (de_uid demo_desk_env)" by (rule injI) (auto simp: demo_desk_env_def dest: arg_cong [where f = length])
  have m: "list_all (\<lambda>c. is_text (dget c ''id'')) (ca_controls (merged_catalog demo_desk_env daily_desk))"
    "in_scope (scope_of daily_desk) (hd (ca_controls (de_base demo_desk_env)))"
    "hd (ca_controls (de_base demo_desk_env)) \<in> set (ca_controls (merged_catalog demo_desk_env daily_desk))"
    by code_simp+
  obtain n where run: "fst (run_bulk_snapshot demo_desk_env demo_view ''kim'' ''manual'' daily_desk) = Inr n" using demo_run by blast
  show ?thesis using bulk_covers_scope [OF run inj m] by blast
qed

section \<open>Edits come back\<close>

text \<open>What an edit may hold, and what of it the catalogue sees: a blank field counts as none.\<close>

definition EDIT_TEXTS :: "string list" where
  "EDIT_TEXTS = [''version'', ''domain'', ''section'', ''title_ko'', ''title_en'', ''intent_ko'', ''intent_en'',
     ''evidence_hint_ko'', ''evidence_hint_en'']"

definition edit_typed :: "string \<Rightarrow> pdict \<Rightarrow> bool" where
  "edit_typed k r =
     (dget r ''control_id'' = PStr k \<and> dget r ''op'' \<in> {PStr ''upsert'', PStr ''delete''}
      \<and> list_all (\<lambda>f. \<not> dhas r f \<or> is_text (dget r f)) EDIT_TEXTS
      \<and> (dget r ''op'' = PStr ''upsert'' \<longrightarrow>
           list_all (\<lambda>f. is_text (dget r f)) [''framework'', ''status'', ''origin'']
           \<and> is_plist (dget r ''evidence_sources'') \<and> is_plist (dget r ''tags'')))"

definition seen_field :: "pv \<Rightarrow> pv" where
  "seen_field v = (if v = PStr [] then PNone else v)"

definition edit_view :: "pdict \<Rightarrow> pv list" where
  "edit_view r = (if is_removal r then [] else dget r ''origin'' # map (\<lambda>f. seen_field (dget r f)) CATALOG_OVERLAY)"

lemma edit_op: "edit_typed k r \<Longrightarrow> \<not> is_removal r \<Longrightarrow> dget r ''op'' = PStr ''upsert''"
  unfolding edit_typed_def is_removal_def by blast

lemma edits_spec: "spec_ok CATALOG_EDITS"
  by (simp add: spec_ok_def CATALOG_EDITS_def)

lemma text_back:
  assumes "row_of CATALOG_EDITS now old k r = Some row" "Text f d \<in> set (tb_columns CATALOG_EDITS)"
    and "is_text (dget r f) \<or> (\<not> dhas r f \<and> d = [])"
  shows "is_text (dget row f) \<and> seen_field (dget row f) = seen_field (dget r f) \<and> (is_text (dget r f) \<longrightarrow> dget row f = dget r f)"
proof -
  have v: "text_column (dgetd r f (PStr d)) = Some (dget row f)" using row_of_column [OF edits_spec assms(1,2)] by simp
  show ?thesis
  proof (cases "is_text (dget r f)")
    case True
    then obtain x where x: "dget r f = PStr x" unfolding is_text_iff by blast
    then have "dget row f = PStr x" using v by (simp add: dgetd_text clean_text_def split: if_splits)
    then show ?thesis using x by simp
  next
    case False
    then have "dgetd r f (PStr d) = PStr []" "dget r f = PNone"
      using assms(3) by (auto simp: dgetd_def dget_def dhas_def split: option.splits)
    then have "dget row f = PStr []" using v by (simp add: clean_text_def)
    then show ?thesis using False \<open>dget r f = PNone\<close> by (simp add: seen_field_def)
  qed
qed

lemma list_back:
  assumes "row_of CATALOG_EDITS now old k r = Some row" "Json f (PList []) \<in> set (tb_columns CATALOG_EDITS)" "is_plist (dget r f)"
  shows "dget row f = dget r f"
  using row_of_column [OF edits_spec assms(1,2)] assms(3) by (auto simp: por_def is_plist_iff split: if_splits)

lemma edit_row:
  assumes "edit_typed k r" "row_of CATALOG_EDITS now old k r = Some row"
  shows "edit_typed k row \<and> edit_view row = edit_view r"
proof -
  have key: "dget row ''control_id'' = PStr k"
    by (rule row_of_key [OF _ assms(2)]) (simp add: CATALOG_EDITS_def)
  have op: "dget row ''op'' = dget r ''op''"
    using text_back [OF assms(2), of "''op''" "''upsert''"] assms(1) by (auto simp: edit_typed_def CATALOG_EDITS_def)
  have texts: "is_text (dget row f) \<and> seen_field (dget row f) = seen_field (dget r f)" if "f \<in> set EDIT_TEXTS" for f
  proof -
    have "Text f [] \<in> set (tb_columns CATALOG_EDITS)" using that by (auto simp: EDIT_TEXTS_def CATALOG_EDITS_def)
    moreover have "\<not> dhas r f \<or> is_text (dget r f)" using assms(1) that by (auto simp: edit_typed_def list_all_iff)
    ultimately show ?thesis using text_back [OF assms(2)] by blast
  qed
  have up: "dget row f = dget r f"
    if "dget r ''op'' = PStr ''upsert''" "f \<in> {''framework'', ''status'', ''origin'', ''evidence_sources'', ''tags''}" for f
    using that assms(1) text_back [OF assms(2), of "''framework''" "[]"] text_back [OF assms(2), of "''status''" "''draft''"]
      text_back [OF assms(2), of "''origin''" "''manual''"] list_back [OF assms(2), of "''evidence_sources''"]
      list_back [OF assms(2), of "''tags''"]
    by (auto simp: edit_typed_def CATALOG_EDITS_def)
  have "edit_typed k row"
    using assms(1) key op texts up by (simp add: edit_typed_def list_all_iff)
  moreover have "edit_view row = edit_view r"
  proof (cases "is_removal r")
    case True
    then show ?thesis using op by (simp add: edit_view_def is_removal_def)
  next
    case False
    then have u: "dget r ''op'' = PStr ''upsert''" by (rule edit_op [OF assms(1)])
    have "seen_field (dget row f) = seen_field (dget r f)" if "f \<in> set CATALOG_OVERLAY" for f
    proof (cases "f \<in> set EDIT_TEXTS")
      case False
      then have "f \<in> {''framework'', ''status'', ''origin'', ''evidence_sources'', ''tags''}"
        using that by (auto simp: CATALOG_OVERLAY_def EDIT_TEXTS_def)
      then show ?thesis using up [OF u] by metis
    qed (use texts in blast)
    then show ?thesis using False op up [OF u, of "''origin''"] by (simp add: edit_view_def is_removal_def)
  qed
  ultimately show ?thesis ..
qed

interpretation edit_rows: state_table "table_save CATALOG_EDITS" edit_typed edit_view
  by unfold_locales (auto simp: table_save_def dest: edit_row)

interpretation edits_in_memory: state_table memory_save edit_typed edit_view
  by unfold_locales (auto simp: memory_save_def)

lemma edits_keep: "table_keeps CATALOG_EDITS edit_typed"
  unfolding table_keeps_def using edit_row by blast

definition edits_kept :: "rec_store \<Rightarrow> bool" where
  "edits_kept s = (store_all edit_typed s \<and> dwf (rs_cache s) \<and> edit_rows.agree (rs_cache s) (rs_disk s))"

lemma edits_kept_empty: "edits_kept empty_store"
  by (simp add: edits_kept_def edit_rows.agree_def empty_store_def) (simp add: store_all_def holds_def)

lemma edits_commit:
  assumes "edits_kept s" "edit_typed k r" "fst (commit b CATALOG_EDITS k r s)"
  shows "edits_kept (snd (commit b CATALOG_EDITS k r s))"
proof -
  have all: "store_all edit_typed (snd (commit b CATALOG_EDITS k r s))"
    by (rule store_all_commit) (use assms edits_keep in \<open>auto simp: edits_kept_def\<close>)
  obtain t where w: "writer b CATALOG_EDITS (rs_disk s) k r = Some t"
    and c: "snd (commit b CATALOG_EDITS k r s) = \<lparr>rs_cache = dset (rs_cache s) k r, rs_disk = t\<rparr>"
    using assms(3) by (auto simp: commit_def persist_def cached_def split: option.splits)
  have "edit_rows.agree (dset (rs_cache s) k r) t"
    using w assms(1,2) edit_rows.agree_save edits_in_memory.agree_save by (cases b) (auto simp: edits_kept_def)
  then show ?thesis using all assms(1) by (simp add: edits_kept_def c)
qed

lemma edits_uncommit: "edits_kept s \<Longrightarrow> fst (uncommit b k s) \<Longrightarrow> edits_kept (snd (uncommit b k s))"
  using store_all_uncommit [of edit_typed s b k]
  by (auto simp: edits_kept_def uncommit_def Let_def distinct_delete edit_rows.agree_delete split: if_splits)

lemma edits_reboot: "edits_kept s \<Longrightarrow> edits_kept (reboot s)"
  using store_all_reboot [of edit_typed s]
  by (simp add: edits_kept_def reboot_def edit_rows.agree_def store_all_def dict_of_distinct)

text \<open>Two edits of one view make the same of a control.\<close>

lemma merge_same:
  assumes "edit_view e = edit_view e'" "edit_typed k e" "edit_typed k e'"
  shows "is_removal e = is_removal e' \<and> (\<not> is_removal e \<longrightarrow> merge_control base c e = merge_control base c e')"
proof -
  have rem: "is_removal e = is_removal e'" using assms(1) by (auto simp: edit_view_def split: if_splits)
  have "merge_control base c e = merge_control base c e'" if "\<not> is_removal e"
  proof -
    have same: "dget e ''origin'' = dget e' ''origin''" "\<forall>f\<in>set CATALOG_OVERLAY. seen_field (dget e f) = seen_field (dget e' f)"
      using assms(1) rem that by (auto simp: edit_view_def)
    have "overlay_field e m f = overlay_field e' m f" if "f \<in> set CATALOG_OVERLAY" for m f
    proof -
      have o: "overlay_field x m f = (if seen_field (dget x f) = PNone then m else dset m f (seen_field (dget x f)))" for x
        by (auto simp: overlay_field_def seen_field_def dget_def dhas_def split: option.splits)
      show ?thesis unfolding o using same(2) that by simp
    qed
    then have f: "foldl (overlay_field e) m CATALOG_OVERLAY = foldl (overlay_field e') m CATALOG_OVERLAY" for m
      by (intro foldl_cong) auto
    have "is_text (dget e ''origin'')" "is_text (dget e' ''origin'')"
      using edit_op [OF assms(2)] edit_op [OF assms(3)] assms(2,3) that rem by (simp_all add: edit_typed_def)
    then show ?thesis by (simp add: merge_control_def f Let_def dgetd_text same(1))
  qed
  then show ?thesis using rem by blast
qed

lemma kept_merge:
  assumes "edits_kept s" "ids_fine cat" "k \<noteq> []"
  shows "find_control (merge_edits cat (rs_cache (reboot s))) k = find_control (merge_edits cat (rs_cache s)) k"
proof -
  have r: "edits_kept (reboot s)" by (rule edits_reboot [OF assms(1)])
  have view: "map_option edit_view (map_of (rs_cache (reboot s)) k) = map_option edit_view (map_of (rs_cache s) k)"
    using edit_rows.agree_restart assms(1) by (simp add: edits_kept_def store_all_def reboot_def)
  have typed: "edit_typed k e" if "map_of (rs_cache t) k = Some e" "edits_kept t" for e t
    using store_all_get [OF _ that(1)] that(2) unfolding edits_kept_def by blast
  have d: "dwf (rs_cache s)" "dwf (rs_cache (reboot s))" using assms(1) r by (simp_all add: edits_kept_def)
  show ?thesis
  proof (cases "map_of (rs_cache s) k")
    case None
    then show ?thesis using view merged_find [OF assms(2) d(1) assms(3)] merged_find [OF assms(2) d(2) assms(3)] by simp
  next
    case (Some e)
    then obtain e' where e': "map_of (rs_cache (reboot s)) k = Some e'" "edit_view e' = edit_view e" using view by auto
    show ?thesis
      using merged_find [OF assms(2) d(1) assms(3)] merged_find [OF assms(2) d(2) assms(3)]
        merge_same [OF e'(2) typed [OF e'(1) r] typed [OF Some assms(1)]]
      by (simp add: Some e'(1))
  qed
qed

section \<open>Calls and the edits\<close>

lemma put_fields:
  "dget (foldl (put_field p) r fs) k = (if k \<in> set fs \<and> dhas p k then PStr (clean p k) else dget r k)"
  "dhas (foldl (put_field p) r fs) k = ((k \<in> set fs \<and> dhas p k) \<or> dhas r k)"
  by (induction fs arbitrary: r) (auto simp: put_field_def)

lemma edit_record_typed: "edit_typed (asked_text p ''id'' []) (edit_record p srcs tags actor origin)"
proof -
  define r where "r = [(''control_id'', PStr (asked_text p ''id'' [])), (''op'', PStr ''upsert''),
        (''framework'', PStr (sor (asked_text p ''framework'' ''custom'') ''custom'')),
        (''evidence_sources'', PList (map (\<lambda>x. PStr (lower (strip x))) srcs)), (''tags'', PList (map PStr tags)),
        (''status'', PStr (sor (asked_text p ''status'' ''draft'') ''draft'')), (''origin'', PStr origin), (''updated_by'', PStr actor)]"
  define t where "t = edit_record p srcs tags actor origin"
  have t: "t = foldl (put_field p) r CATALOG_FIELDS" by (simp add: t_def edit_record_def r_def)
  have "\<not> dhas t f \<or> is_text (dget t f)" if "f \<in> set EDIT_TEXTS" for f
  proof -
    have "f \<in> set CATALOG_FIELDS" using that by (auto simp: EDIT_TEXTS_def CATALOG_FIELDS_def)
    moreover have "f \<notin> fst ` set r" using that by (auto simp: EDIT_TEXTS_def r_def)
    then have "\<not> dhas r f" by (simp add: dhas_def map_of_eq_None_iff)
    ultimately show ?thesis by (simp add: t put_fields)
  qed
  moreover have "is_text (dget t ''framework'')" by (simp add: t put_fields) (simp add: r_def)
  moreover have own: "dget t k = dget r k" if "k \<notin> set CATALOG_FIELDS" for k using that by (simp add: t put_fields)
  have "dget t ''control_id'' = PStr (asked_text p ''id'' [])" "dget t ''op'' = PStr ''upsert''" "is_text (dget t ''status'')"
    "is_text (dget t ''origin'')" "is_plist (dget t ''evidence_sources'')" "is_plist (dget t ''tags'')"
    by (subst own, simp add: CATALOG_FIELDS_def, simp add: r_def)+
  ultimately show ?thesis unfolding t_def [symmetric] edit_typed_def by (simp add: list_all_iff)
qed

lemma removal_typed: "edit_typed cid (removal_record cid actor)"
  by (simp add: edit_typed_def removal_record_def EDIT_TEXTS_def dhas_def)

text \<open>What a call does to the edits; with \<open>ok\<close>, what it wrote was kept.\<close>

definition edit_step :: "backend \<Rightarrow> bool \<Rightarrow> rec_store \<Rightarrow> rec_store \<Rightarrow> bool" where
  "edit_step b ok t t' =
     (t' = t \<or> t' = reboot t
      \<or> (\<exists>k r. edit_typed k r \<and> t' = snd (commit b CATALOG_EDITS k r t) \<and> (ok \<longrightarrow> fst (commit b CATALOG_EDITS k r t)))
      \<or> (\<exists>k. t' = snd (uncommit b k t) \<and> (ok \<longrightarrow> fst (uncommit b k t))))"

lemma edit_step_typed: "edit_step b ok t t' \<Longrightarrow> store_all edit_typed t \<Longrightarrow> store_all edit_typed t'"
  unfolding edit_step_def using store_all_commit [OF _ _ edits_keep] store_all_uncommit store_all_reboot by blast

lemma edit_step_kept: "edit_step b True t t' \<Longrightarrow> edits_kept t \<Longrightarrow> edits_kept t'"
  unfolding edit_step_def using edits_commit edits_uncommit edits_reboot by blast

text \<open>The answer of a call that edits the catalogue is not an error of the server.\<close>

fun edit_saved :: "desk_env \<Rightarrow> desk_call \<Rightarrow> desk \<Rightarrow> bool" where
  "edit_saved e (EditControl rq p) s = (fst (create_or_edit_control e rq p s) \<noteq> Inl ServerError)"
| "edit_saved e (DeleteControl rq cid) s = (fst (delete_control e rq cid s) \<noteq> Inl ServerError)"
| "edit_saved e _ s = True"

lemma saved_control_step:
  "edit_step (de_back e) (fst (save_catalog_control e p actor origin s) \<noteq> Inl ServerError) (dk_edits s)
     (dk_edits (snd (save_catalog_control e p actor origin s)))"
  using edit_record_typed [of p]
  by (auto simp: edit_step_def save_catalog_control_def Let_def split: option.split prod.split)
     (metis fst_conv snd_conv)+

lemma deleted_control_step:
  "edit_step (de_back e) (fst (delete_control e rq cid s) \<noteq> Inl ServerError) (dk_edits s) (dk_edits (snd (delete_control e rq cid s)))"
  using removal_typed [of cid "admin_name rq"]
  by (auto simp: edit_step_def delete_control_def Let_def split: prod.split) (metis fst_conv snd_conv)+

lemma bulk_frame:
  "dk_edits (snd (run_bulk_snapshot e lv user kind s)) = dk_edits s"
  "dk_status (snd (run_bulk_snapshot e lv user kind s)) = dk_status s"
  using snapshot_all_frame(1,2)
  by (auto simp: run_bulk_snapshot_def Let_def split: prod.split option.split sum.split) (metis snd_conv)+

lemma tree_frame:
  "snd (controls_tree e rq lv s) = s \<or> snd (controls_tree e rq lv s) = snd (run_bulk_snapshot e lv ''system'' ''scheduled'' s)"
  by (simp add: controls_tree_def maybe_run_scheduled_snapshot_def Let_def)

lemma other_frames:
  "dk_edits (snd (put_claude_key e rq p s)) = dk_edits s" "dk_edits (snd (control_status_upsert e rq cid p s)) = dk_edits s"
  "dk_edits (snd (add_evidence_record e rq cid p s)) = dk_edits s" "dk_edits (snd (delete_evidence_record e rq cid i s)) = dk_edits s"
  "dk_edits (snd (auto_evidence_snapshot e rq lv cid s)) = dk_edits s" "dk_edits (snd (set_snapshot_config e rq p s)) = dk_edits s"
  "dk_edits (snd (run_log_review e rq lv s)) = dk_edits s"
proof -
  show "dk_edits (snd (run_log_review e rq lv s)) = dk_edits s"
    by (simp add: run_log_review_def Let_def pass_state persist_all_frame)
qed (simp_all add: put_claude_key_def control_status_upsert_def add_evidence_record_def delete_evidence_record_def Let_def
    auto_evidence_snapshot_def set_snapshot_config_def evidence_frame split: prod.split option.split)

lemma call_edits: "edit_step (de_back e) (edit_saved e c s) (dk_edits s) (dk_edits (desk_exec e c s))"
proof (cases c)
  case (EditControl rq p)
  then show ?thesis using saved_control_step [of e p "admin_name rq" "''manual''" s]
    by (simp add: create_or_edit_control_def edit_step_def)
next
  case (DeleteControl rq cid)
  then show ?thesis using deleted_control_step by simp
next
  case (ViewTree rq lv)
  then show ?thesis using tree_frame [of e rq lv s] bulk_frame(1) by (auto simp: edit_step_def)
qed (simp_all add: edit_step_def other_frames run_bulk_snapshot_now_def bulk_frame reopen_def)

fun saved_run :: "(desk_env \<times> desk_call) list \<Rightarrow> desk \<Rightarrow> bool" where
  "saved_run [] s = True"
| "saved_run (ec # calls) s = (edit_saved (fst ec) (snd ec) s \<and> saved_run calls (desk_exec (fst ec) (snd ec) s))"

lemma run_kept: "saved_run calls s \<Longrightarrow> edits_kept (dk_edits s) \<Longrightarrow> edits_kept (dk_edits (desk_run calls s))"
proof (induction calls arbitrary: s)
  case (Cons ec calls)
  have "edit_step (de_back (fst ec)) True (dk_edits s) (dk_edits (desk_exec (fst ec) (snd ec) s))"
    using call_edits [of "fst ec" "snd ec" s] Cons(2) by simp
  then show ?case using edit_step_kept Cons by (simp add: desk_run_def)
qed (simp add: desk_run_def)

text \<open>C13: As long as no edit of the catalogue was answered with an error of the server, a restart changes no control of the
  edited catalogue: what the database gives back for an edit, with its blank columns, makes the same of each control.\<close>

theorem edits_survive:
  assumes "saved_run calls empty_desk" "ids_fine (de_base e)" "k \<noteq> []"
  shows "find_control (merged_catalog e (reopen (desk_run calls empty_desk))) k = find_control (merged_catalog e (desk_run calls empty_desk)) k"
  unfolding merged_catalog_def reopen_def desk.simps
  by (rule kept_merge [OF run_kept [OF assms(1)] assms(2,3)]) (simp add: empty_desk_def edits_kept_empty)

definition edit_call :: "backend \<Rightarrow> pdict \<Rightarrow> desk_env \<times> desk_call" where
  "edit_call b p = (demo_desk_env\<lparr>de_back := b\<rparr>, EditControl desk_admin p)"

lemma edits_survive_witness:
  "find_control (merged_catalog demo_desk_env (reopen (desk_run
     [edit_call (Database ''t1'') [(''id'', PStr ''2.8.1''), (''title_ko'', PStr ''new'')]] empty_desk))) ''2.8.1''
   = find_control (merged_catalog demo_desk_env (desk_run
     [edit_call (Database ''t1'') [(''id'', PStr ''2.8.1''), (''title_ko'', PStr ''new'')]] empty_desk)) ''2.8.1''"
proof -
  have "saved_run [edit_call (Database ''t1'') [(''id'', PStr ''2.8.1''), (''title_ko'', PStr ''new'')]] empty_desk"
    "ids_fine (de_base demo_desk_env)"
    by code_simp+
  from edits_survive [OF this, of "''2.8.1''"] show ?thesis by simp
qed

section \<open>What the dictionaries hold\<close>

definition status_ok :: "string \<Rightarrow> pdict \<Rightarrow> bool" where
  "status_ok k r = (row_typed CONTROL_STATUS k r \<and> dget r ''status'' \<in> PStr ` set CONTROL_STATUSES)"

definition EVIDENCE_SOURCES :: "string list" where
  "EVIDENCE_SOURCES = [''manual'', ''auto'', ''log_review'']"

definition evidence_ok :: "string \<Rightarrow> pdict \<Rightarrow> bool" where
  "evidence_ok k r = (row_typed CONTROL_EVIDENCE k r \<and> dget r ''source'' \<in> PStr ` set EVIDENCE_SOURCES \<and> dget r ''title'' \<noteq> PStr [])"

lemma status_keep: "table_keeps CONTROL_STATUS status_ok"
  unfolding status_ok_def
  by (rule table_keeps_view) (simp_all add: spec_ok_def CONTROL_STATUS_def kept_names_def)

lemma evidence_keep: "table_keeps CONTROL_EVIDENCE evidence_ok"
  unfolding evidence_ok_def
  by (rule table_keeps_view) (simp_all add: spec_ok_def CONTROL_EVIDENCE_def kept_names_def)

text \<open>A stamped record is as good as the record.\<close>

lemma stamped_ok: "stamp_evidence H r = Some r' \<Longrightarrow> evidence_ok k r \<Longrightarrow> evidence_ok k r'"
  using stamp_keeps(1) [of H r r']
  by (simp add: evidence_ok_def row_typed_def CONTROL_EVIDENCE_def STAMP_KEYS_def)

lemma persisted_ok:
  "store_all evidence_ok (dk_evidence s) \<Longrightarrow> evidence_ok i r \<Longrightarrow> store_all evidence_ok (dk_evidence (snd (persist_evidence e i r s)))"
  using store_all_commit [OF _ _ evidence_keep] stamped_ok
  by (auto simp: persist_evidence_def Let_def split: option.split prod.split) (metis snd_conv)

lemma snapshot_record_ok: "evidence_ok i (snapshot_record cid now d user hosts kind i s)"
  by (simp add: evidence_ok_def row_typed_def CONTROL_EVIDENCE_def snapshot_record_def Let_def EVIDENCE_SOURCES_def)

lemma snapshot_ok:
  "store_all evidence_ok (dk_evidence s) \<Longrightarrow> store_all evidence_ok (dk_evidence (snd (snapshot_control e cid now d user hosts kind n s)))"
  by (simp add: snapshot_control_def persisted_ok snapshot_record_ok)

lemma snapshots_ok:
  "store_all evidence_ok (dk_evidence s)
    \<Longrightarrow> store_all evidence_ok (dk_evidence (snd (snapshot_all e now user kind gaps metrics cat hosts cs n s)))"
proof (induction cs arbitrary: n s)
  case (Cons c cs)
  then show ?case using snapshot_ok by (simp split: option.split prod.split sum.split) (metis snd_conv)
qed simp

lemma bulk_ok: "store_all evidence_ok (dk_evidence s) \<Longrightarrow> store_all evidence_ok (dk_evidence (snd (run_bulk_snapshot e lv user kind s)))"
  using snapshots_ok by (auto simp: run_bulk_snapshot_def Let_def split: prod.split option.split sum.split) (metis snd_conv)+

lemma review_record_ok: "evidence_ok (de_uid e n) (review_record e rq now ret (n, cid))"
  by (simp add: evidence_ok_def row_typed_def CONTROL_EVIDENCE_def review_record_def Let_def EVIDENCE_SOURCES_def utf8_def)

lemma persists_ok:
  "store_all evidence_ok (dk_evidence s) \<Longrightarrow> (\<And>n. evidence_ok (de_uid e n) (rec n))
    \<Longrightarrow> store_all evidence_ok (dk_evidence (snd (persist_all e rec ns s)))"
proof (induction ns arbitrary: s)
  case (Cons n ns)
  then show ?case using persisted_ok [OF Cons(2), of "de_uid e n" "rec n" e] by (simp split: prod.split sum.split) (metis snd_conv)
qed simp

lemma manual_ok: "title \<noteq> [] \<Longrightarrow> evidence_ok i
    [(''id'', PStr i), (''control_id'', PStr cid), (''title'', PStr title), (''body'', PStr bd), (''collected_by'', PStr cb),
     (''collected_at'', PStr ca), (''reference'', PStr rf), (''source'', PStr ''manual''), (''created_at'', PStr cr), (''created_by'', PStr by')]"
  by (simp add: evidence_ok_def row_typed_def CONTROL_EVIDENCE_def EVIDENCE_SOURCES_def)

lemma added_ok: "store_all evidence_ok (dk_evidence s) \<Longrightarrow> store_all evidence_ok (dk_evidence (snd (add_evidence_record e rq cid p s)))"
  by (simp add: add_evidence_record_def Let_def persisted_ok manual_ok)

lemma status_record_ok:
  "sor (asked_text p ''status'' []) UNDECIDED \<in> set CONTROL_STATUSES \<Longrightarrow> status_ok cid (status_record rq cid p)"
  by (simp add: status_ok_def row_typed_def CONTROL_STATUS_def status_record_def)

lemma upsert_ok: "store_all status_ok (dk_status s) \<Longrightarrow> store_all status_ok (dk_status (snd (control_status_upsert e rq cid p s)))"
  using store_all_commit [OF _ status_record_ok status_keep]
  by (auto simp: control_status_upsert_def Let_def split: prod.split) (metis snd_conv)+

definition desk_ok :: "desk \<Rightarrow> bool" where
  "desk_ok s = (store_all edit_typed (dk_edits s) \<and> store_all status_ok (dk_status s) \<and> store_all evidence_ok (dk_evidence s))"

lemma status_frames:
  "dk_status (snd (create_or_edit_control e rq p s)) = dk_status s" "dk_status (snd (delete_control e rq cid s)) = dk_status s"
  "dk_status (snd (put_claude_key e rq p s)) = dk_status s" "dk_status (snd (add_evidence_record e rq cid p s)) = dk_status s"
  "dk_status (snd (delete_evidence_record e rq cid i s)) = dk_status s"
  "dk_status (snd (auto_evidence_snapshot e rq lv cid s)) = dk_status s" "dk_status (snd (set_snapshot_config e rq p s)) = dk_status s"
  "dk_status (snd (run_log_review e rq lv s)) = dk_status s"
proof -
  show "dk_status (snd (run_log_review e rq lv s)) = dk_status s"
    by (simp add: run_log_review_def Let_def pass_state persist_all_frame)
qed (simp_all add: create_or_edit_control_def save_catalog_control_def delete_control_def put_claude_key_def add_evidence_record_def
    delete_evidence_record_def auto_evidence_snapshot_def set_snapshot_config_def evidence_frame Let_def split: prod.split option.split)

lemma evidence_frames:
  "dk_evidence (snd (create_or_edit_control e rq p s)) = dk_evidence s" "dk_evidence (snd (delete_control e rq cid s)) = dk_evidence s"
  "dk_evidence (snd (put_claude_key e rq p s)) = dk_evidence s" "dk_evidence (snd (control_status_upsert e rq cid p s)) = dk_evidence s"
  "dk_evidence (snd (set_snapshot_config e rq p s)) = dk_evidence s"
  by (simp_all add: create_or_edit_control_def save_catalog_control_def delete_control_def put_claude_key_def
    control_status_upsert_def set_snapshot_config_def Let_def split: prod.split option.split)

lemma removed_ok: "store_all evidence_ok (dk_evidence s) \<Longrightarrow> store_all evidence_ok (dk_evidence (snd (delete_evidence_record e rq cid i s)))"
  using store_all_uncommit [of evidence_ok "dk_evidence s" "de_back e" i]
  by (auto simp: delete_evidence_record_def Let_def split: option.split prod.split)

lemma one_snapshot_ok:
  "store_all evidence_ok (dk_evidence s) \<Longrightarrow> store_all evidence_ok (dk_evidence (snd (auto_evidence_snapshot e rq lv cid s)))"
  by (simp add: auto_evidence_snapshot_def snapshot_ok split: option.split)

lemma logs_ok: "store_all evidence_ok (dk_evidence s) \<Longrightarrow> store_all evidence_ok (dk_evidence (snd (run_log_review e rq lv s)))"
  by (simp add: run_log_review_def Let_def pass_state persists_ok review_record_ok)

lemma call_ok: "desk_ok s \<Longrightarrow> desk_ok (desk_exec e c s)"
proof -
  assume s: "desk_ok s"
  have "store_all edit_typed (dk_edits (desk_exec e c s))"
    by (rule edit_step_typed [OF call_edits]) (use s in \<open>simp add: desk_ok_def\<close>)
  moreover have "store_all status_ok (dk_status (desk_exec e c s))"
  proof (cases c)
    case (ViewTree rq lv)
    then show ?thesis using s tree_frame [of e rq lv s] bulk_frame(2) by (auto simp: desk_ok_def)
  qed (use s in \<open>simp_all add: desk_ok_def status_frames run_bulk_snapshot_now_def bulk_frame upsert_ok reopen_def store_all_reboot\<close>)
  moreover have "store_all evidence_ok (dk_evidence (desk_exec e c s))"
  proof (cases c)
    case (ViewTree rq lv)
    then show ?thesis using s tree_frame [of e rq lv s] bulk_ok by (auto simp: desk_ok_def)
  qed (use s in \<open>simp_all add: desk_ok_def evidence_frames run_bulk_snapshot_now_def bulk_ok added_ok removed_ok one_snapshot_ok
      logs_ok reopen_def store_all_reboot\<close>)
  ultimately show ?thesis by (simp add: desk_ok_def)
qed

text \<open>C40: Whatever calls arrive, with whatever payloads and whichever of their writes fail, and across restarts: every
  status of a control is one of the five, every edit is of a form that the catalogue can be merged with, every record of
  evidence has a title, a known source and texts in its columns, and each stands under its own key, in memory and in the
  table.\<close>

theorem desk_typed: "desk_ok (desk_run calls empty_desk)"
proof -
  have "desk_ok s \<Longrightarrow> desk_ok (desk_run calls s)" for s
    by (induction calls arbitrary: s) (simp_all add: desk_run_def call_ok)
  then show ?thesis by (simp add: desk_ok_def empty_desk_def)
qed

section \<open>Behaviour to know about\<close>

text \<open>An edit that gives only a new title takes the control of the package out of its framework and removes its sources.\<close>

lemma title_edit_moves_control:
  "(let r = edit_record [(''id'', PStr ''2.8.1''), (''title_ko'', PStr ''new'')] [] [] ''kim'' ''manual'';
        c = merge_control [(''id'', PStr ''2.8.1''), (''framework'', PStr ''isms-p''), (''evidence_sources'', PList [PStr ''trivy''])] ''2.8.1'' r
    in dget c ''framework'' = PStr ''custom'' \<and> dget c ''evidence_sources'' = PList [])"
  by code_simp

text \<open>And no edit blanks a text of a control.\<close>

lemma blank_not_applied: "dget e f = PStr [] \<Longrightarrow> overlay_field e m f = m"
  by (simp add: overlay_field_def)

text \<open>Only the first ten characters of a due date are checked; the database refuses the rest when memory has it already.\<close>

definition late_payload :: pdict where
  "late_payload = [(''due_date'', PStr ''2024-05-01 or later'')]"

lemma late_date_half_kept:
  "(let x = control_status_upsert (demo_desk_env\<lparr>de_back := Database ''t''\<rparr>) desk_admin ''2.8.1'' late_payload empty_desk
    in fst x = Inl ServerError \<and> map_of (rs_cache (dk_status (snd x))) ''2.8.1'' \<noteq> None \<and> rs_disk (dk_status (snd x)) = [])"
  by code_simp

text \<open>While the database does not answer, a snapshot that could not be kept stays in memory, and since the time of the last
  run is not set the next look at the catalogue takes another.\<close>

lemma failed_snapshot_stays:
  assumes "de_back e = Down" "snapshot_control e cid now d user hosts kind n s = (a, t)"
  shows "a = Inl ServerError \<and> map_of (rs_cache (dk_evidence t)) (de_uid e n) \<noteq> None"
  using assms stamp_total [of "snapshot_record cid now d user hosts kind (de_uid e n) s" "ge_H (de_gov e)"]
  by (auto simp: snapshot_control_def persist_evidence_def commit_def persist_def cached_def snapshot_record_def Let_def
      split: option.splits)

end
