(* ===== verification/Spec2Isabelle.thy ===== *)
theory Spec2Isabelle
  imports Gov_Props Ingest Gaps Approvals Auth_Props Action_Log Bundle Accounts Scan_Diff Risk Intent Csv Provenance
    Change_Report Coverage Classifier Assets Vulns Preferences Account_Gov
    Pipelines Oidc Flow_Views Desk_Props
begin

text \<open>
  A verification development of the compliance platform MORI SOC (\<^verbatim>\<open>src/src/mori_soc\<close>).

  The program has four parts.  Collectors and pollers bring records of hosts, alerts, vulnerabilities and
  directory accounts into a repository of entities.  The governance side keeps frameworks, versions,
  controls, assurance cycles, technical gaps and evidence approvals, with ledgers that an auditor verifies.
  The services compute on both: risk scores, account reconciliation, comparison of scans, signed bundles.
  The HTTP side guards all of it: rate limiter, session middleware, role gates, login and the boot gate.

  Values.  A dictionary of the code is an association list in insertion order (\<open>'v dict\<close>), a record
  outside the dataclasses is a dictionary of dynamic values \<open>pv\<close>, a dataclass is a record, an enumeration a
  datatype, a raised HTTP error an \<open>Inl\<close>.  Texts are lists of characters; a text that is not ASCII is given by
  its UTF-8 bytes, and \<^verbatim>\<open>lower\<close>, \<^verbatim>\<open>strip\<close> and slices act on ASCII.  A text with a lone surrogate has no UTF-8 form and
  is not a value of the model; where the code goes on after the exception that such a text causes (the save of a
  governance record), a parameter of the model says when that happens.  Python's integers are \<open>int\<close>.  Times are
  microseconds since year 1 with an optional offset.  SHA-256, HMAC, UUIDs, the clock, LDAP and the
  environment are parameters; a call of the database that may fail has a flag that says so.

  Theories, by layer.
    \<^item> \<open>Prelude\<close>, \<open>Py_Value\<close>, \<open>Py_Time\<close>: texts, dictionaries, dynamic values, ISO times.
    \<^item> \<open>Hashing\<close> (\<^verbatim>\<open>services/hashing.py\<close>): canonical JSON and its injectivity, on which every integrity result
      rests.
    \<^item> \<open>Workflow\<close>: the locale of a guarded status workflow, interpreted by the framework versions (\<open>Governance\<close>)
      and the technical gaps (\<open>Gaps\<close>); its lemma says that every recorded history is a path of the guard.
    \<^item> \<open>Governance\<close>, \<open>Gov_Chain\<close>, \<open>Gov_Cycle\<close>, \<open>Gov_Migrate\<close> (\<^verbatim>\<open>services/control_governance.py\<close>): builders and
      content hashes; the event ledger; cycle controls with their as-of replay; comparison of versions and
      migration of cycles.
    \<^item> \<open>Gov_Store\<close> (\<^verbatim>\<open>repositories/state_memory.py\<close>, \<^verbatim>\<open>api/routes/control_governance.py\<close>): the store with its ledger
      and every route that changes it.  \<open>Gov_Inv\<close> shows that each route is a sequence of guarded writes;
      \<open>Gov_Props\<close> proves the invariants over these writes: the store is the replay of the ledger except where the
      recording of a save failed, the ledger verifies, one active version per framework, immutable versions, and
      the references that the routes check are kept.
    \<^item> \<open>Gaps\<close> (\<^verbatim>\<open>services/gap_workflow.py\<close>), \<open>Approvals\<close> (\<^verbatim>\<open>services/evidence_approval.py\<close>), both with their
      routes in \<^verbatim>\<open>api/routes/compliance.py\<close> and their tables in \<^verbatim>\<open>repositories/state_postgres.py\<close>; \<open>Approvals\<close>
      has an abstract step relation that the routes refine.
    \<^item> \<open>Entities\<close>, \<open>Repository\<close>, \<open>Mapper\<close>, \<open>Ingest\<close> (\<^verbatim>\<open>models/entities.py\<close>, \<^verbatim>\<open>repositories/memory.py\<close>,
      \<^verbatim>\<open>services/normalization.py\<close>, \<^verbatim>\<open>services/ingestion.py\<close>, \<^verbatim>\<open>pollers/base.py\<close>, \<^verbatim>\<open>worker.py\<close>): upserts with host
      merging, risk scores, identity and aliases of hosts, poller cycles with retries and skipped cycles, the scheduler.
    \<^item> \<open>Ratelimit\<close>, \<open>Sessions\<close>, \<open>Auth\<close>, \<open>Auth_Props\<close> (\<^verbatim>\<open>api/ratelimit.py\<close>, \<^verbatim>\<open>api/session_store.py\<close>,
      \<^verbatim>\<open>api/auth.py\<close>, \<^verbatim>\<open>api/routes/auth.py\<close>, the boot gate of \<^verbatim>\<open>api/server.py\<close>): the bound of the limiter, where
      sessions come from and when they end, the lock-out after wrong passwords.
    \<^item> \<open>Action_Log\<close> (\<^verbatim>\<open>api/server.py\<close>, \<^verbatim>\<open>api/routes/audit.py\<close>): the hash-chained log of user actions.
    \<^item> \<open>Bundle\<close>, \<open>Accounts\<close>, \<open>Scan_Diff\<close>, \<open>Risk\<close> (\<^verbatim>\<open>services/evidence_bundle.py\<close>, \<^verbatim>\<open>services/account_recon.py\<close>,
      \<^verbatim>\<open>services/scan_diff.py\<close>, \<^verbatim>\<open>services/risk_assessment.py\<close>).
    \<^item> \<open>Query\<close>, \<open>Query_Props\<close>, \<open>Intent\<close> (\<^verbatim>\<open>services/query_service.py\<close>, \<^verbatim>\<open>services/query_catalog.py\<close>,
      \<^verbatim>\<open>api/contracts.py\<close>, \<^verbatim>\<open>services/intent_parser.py\<close>): the twelve queries over the repository, when they fail, what
      their rankings contain, and the interpreter of questions, whose requests the service always answers.
    \<^item> \<open>Csv\<close> (\<^verbatim>\<open>services/csv_export.py\<close>, \<^verbatim>\<open>services/csv_import.py\<close>): the table writer and reader with its limit on
      the length of a field, and the defence against cells that a spreadsheet would run.
    \<^item> \<open>Provenance\<close>, \<open>Change_Report\<close>, \<open>Coverage\<close>, \<open>Classifier\<close> (\<^verbatim>\<open>services/provenance.py\<close>,
      \<^verbatim>\<open>services/change_report.py\<close>, \<^verbatim>\<open>services/scope_coverage.py\<close>, \<^verbatim>\<open>services/evidence_freshness.py\<close>,
      \<^verbatim>\<open>services/asset_classifier.py\<close>): origin of evidence, monthly reports, coverage of a scope, age of evidence,
      importance of a server, which is an instance of the linear orders.

    \<^item> \<open>Hash_Chain\<close>: the locale of a ledger whose entries name the hash of the one before, interpreted by the
      governance ledger and by the action log.  \<open>State_Tables\<close> (\<^verbatim>\<open>repositories/state_postgres.py\<close>,
      \<^verbatim>\<open>repositories/state_memory.py\<close>): a table with typed columns, the dictionary of the routes over it, writes that
      fail and restarts, over which the in-memory repository is kept as a test keeps it (a new process would lose it);
      the locales \<open>state_table\<close> and \<open>sure_table\<close> say what a route relies on, and each table of the
      program is an interpretation.
    \<^item> \<open>Incidents\<close>, \<open>Settings\<close>, \<open>Assets\<close>, \<open>Vulns\<close>, \<open>Preferences\<close>, \<open>Account_Gov\<close> (the routes of the same names under
      \<^verbatim>\<open>api/routes\<close>): histories of incidents and triage, settings, owners of assets with their log, actions on
      vulnerabilities and the risk register, dashboards, approvals of accounts.
    \<^item> \<open>Collecting\<close>, \<open>Fleet_Api\<close>, \<open>Fleet_Logs\<close>, \<open>Zabbix\<close>, \<open>Scanners\<close>, \<open>Ldap_Dir\<close>, \<open>Pipelines\<close> (\<^verbatim>\<open>collectors\<close>,
      \<^verbatim>\<open>pollers\<close>): what the collectors make of the answers of Fleet, Zabbix, Trivy, Wazuh and the directory, the
      paging of Fleet, and the pipelines built from them; the locales \<open>host_batch\<close> and \<open>collecting\<close> are their contracts.
      \<open>Iso_Text\<close> shows that the text of a time reads back as the time.
    \<^item> \<open>Regex\<close>, \<open>Flow_Rules\<close>, \<open>Flow_Views\<close>, \<open>Flow_Table\<close> (\<^verbatim>\<open>services/data_flow.py\<close>, \<^verbatim>\<open>api/routes/privacy.py\<close>): a matcher
      of regular expressions with backtracking, the rules that classify findings on personal data, the rows made
      from them, the flow table, its views and the comparison with the privacy policy.
    \<^item> \<open>Oidc\<close>, \<open>Scan_Ingest\<close>, \<open>Scan_Routes\<close>, \<open>Evidence_Stamp\<close> (\<^verbatim>\<open>services/oidc_verify.py\<close>, \<^verbatim>\<open>api/routes/sources.py\<close>,
      \<^verbatim>\<open>services/evidence.py\<close>): signed tokens and their replay, the push of a scan, its findings and comparison, and
      the evidence for controls that is made from it.
    \<^item> \<open>Catalog\<close> (\<^verbatim>\<open>services/control_catalog.py\<close>): the overlay of edits, the tree, maturity and detail of controls, the
      CSV forms, the sync with the database.  \<open>Live_Evidence\<close> (\<^verbatim>\<open>api/payloads.py\<close>, \<^verbatim>\<open>api/routes/compliance.py\<close>): what
      waits for action, the comparison of the sources, gaps, retention, metrics and snapshots.  \<open>Control_Desk\<close>
      (\<^verbatim>\<open>api/routes/compliance.py\<close>): the state of the compliance routes, one function for each handler that changes it,
      and the runs of all their calls.  \<open>Desk_Props\<close>: edits survive a restart, scheduled snapshots are a period apart,
      a run of snapshots covers its scope, and the dictionaries stay well formed.

  Bounds.  The loops of the code are structural over a list or shorten a text; the functions that consume a
  text are proved to terminate.  The paged fetch of Fleet is a partial function, and it is proved to end after at
  most \<^verbatim>\<open>FLEET_MAX_PAGES\<close> (200) pages.  The repetition of a regular expression is bounded by the length of the
  text, which \<open>Regex\<close> proves to be enough.  The limits of the code (2000 ledger events, 1000 gaps, 2000 entries of
  the action log, 200 findings of a kind) are definitions of the model.

  Not modelled.  Screens, translations, PDF and HTML reports and the diagram of the flows; the transport of the
  clients of external services (Fleet, Zabbix, Wazuh, Trivy, LDAP), whose answers are arguments, and the client
  of Loki, whose summary is one; the SQL statements of the entity repository, which mirror the one in memory;
  analyses by a language model, the import of a regulation text and the generated scanner rules; the statement of
  applicability, sampling and onboarding; routes that only filter and format.  Values in floating point are left out:
  percentages, CVSS scores, the sampling rate and the quorum of \<^verbatim>\<open>create_evidence_contract\<close>.  Threads are not
  modelled: each request runs to its end before the next.
\<close>

end
